(* ===== verification/Tmap_Prelude.thy ===== *)
theory Tmap_Prelude
  imports Main "HOL-Library.AList" "HOL-Library.Multiset"
begin

text \<open>
  Prelude of the development: the collections of simplification rules the component
  theories share, and the generic facts on lists, association lists and options they use.

  A Go map that the code iterates over is modelled by an association list with distinct
  keys (\<open>('k \<times> 'v) list\<close>, read with \<open>map_of\<close>, written with \<open>alist_set\<close>); the order
  of the list is one of the iteration orders Go may choose.
\<close>

named_theorems go_defs \<open>definitions of the Go runtime operations, for evaluation\<close>
named_theorems pool_simps \<open>what the pool operations do to each field of the state\<close>

section \<open>Association lists for Go maps\<close>

text \<open>\<open>m[k] = v\<close>: replaces the value of a present key in place, or appends a new pair.\<close>

fun alist_set :: "'k \<Rightarrow> 'v \<Rightarrow> ('k \<times> 'v) list \<Rightarrow> ('k \<times> 'v) list" where
  "alist_set k v [] = [(k, v)]"
| "alist_set k v (p # ps) = (if fst p = k then (k, v) # ps else p # alist_set k v ps)"

text \<open>\<open>delete(m, k)\<close>.\<close>

definition alist_del :: "'k \<Rightarrow> ('k \<times> 'v) list \<Rightarrow> ('k \<times> 'v) list" where
  "alist_del k ps = filter (\<lambda>p. fst p \<noteq> k) ps"

lemma map_of_alist_set [simp]:
  "map_of (alist_set k v ps) j = (if j = k then Some v else map_of ps j)"
  by (induction ps) auto

lemma keys_alist_set [simp]:
  "fst ` set (alist_set k v ps) = insert k (fst ` set ps)"
  by (induction ps) auto

lemma distinct_alist_set [simp]:
  "distinct (map fst ps) \<Longrightarrow> distinct (map fst (alist_set k v ps))"
proof (induction ps)
  case (Cons p ps)
  have "fst p \<notin> fst ` set (alist_set k v ps)" if "fst p \<noteq> k"
    using Cons.prems that by auto
  with Cons show ?case by auto
qed simp

lemma set_alist_setD:
  "x \<in> set (alist_set k v ps) \<Longrightarrow> x = (k, v) \<or> x \<in> set ps"
  by (induction ps) (auto split: if_splits)

lemma length_alist_set:
  "length (alist_set k v ps) = (if k \<in> fst ` set ps then length ps else Suc (length ps))"
  by (induction ps) auto

lemma alist_set_same: "map_of ps k = Some v \<Longrightarrow> alist_set k v ps = ps"
  by (induction ps) auto

lemma map_of_alist_del [simp]:
  "map_of (alist_del k ps) j = (if j = k then None else map_of ps j)"
  by (induction ps) (auto simp: alist_del_def)

lemma distinct_alist_del [simp]:
  "distinct (map fst ps) \<Longrightarrow> distinct (map fst (alist_del k ps))"
  by (simp add: alist_del_def distinct_map_filter)

lemma distinct_map_filter_fst [simp]:
  "distinct (map fst ps) \<Longrightarrow> distinct (map fst (filter P ps))"
  by (rule distinct_map_filter)

lemma keys_alist_del [simp]: "fst ` set (alist_del k ps) = fst ` set ps - {k}"
  by (auto simp: alist_del_def)

lemma set_alist_del: "set (alist_del k ps) \<subseteq> set ps"
  by (auto simp: alist_del_def)

lemma map_of_eq_Some_mem: "map_of ps k = Some v \<Longrightarrow> (k, v) \<in> set ps"
  by (rule map_of_SomeD)

lemma mem_map_of: "distinct (map fst ps) \<Longrightarrow> (k, v) \<in> set ps \<Longrightarrow> map_of ps k = Some v"
  by simp

lemma map_of_filter_distinct:
  "distinct (map fst ps) \<Longrightarrow>
   map_of (filter P ps) k = (case map_of ps k of None \<Rightarrow> None | Some v \<Rightarrow> if P (k, v) then Some v else None)"
  by (induction ps) (auto simp: map_of_eq_None_iff image_iff split: option.splits)

lemma map_of_map_value:
  "map_of (map (\<lambda>p. (fst p, f (fst p) (snd p))) ps) k = map_option (f k) (map_of ps k)"
  by (induction ps) auto

section \<open>Appending without duplicates\<close>

text \<open>The loop "return the slice unchanged if it holds the value, else append".\<close>

definition append_new :: "'a list \<Rightarrow> 'a \<Rightarrow> 'a list" where
  "append_new xs x = (if x \<in> set xs then xs else xs @ [x])"

lemma set_append_new [simp]: "set (append_new xs x) = insert x (set xs)"
  by (auto simp: append_new_def)

lemma distinct_append_new [simp]: "distinct xs \<Longrightarrow> distinct (append_new xs x)"
  by (auto simp: append_new_def)

lemma length_append_new_le: "length (append_new xs x) \<le> Suc (length xs)"
  by (simp add: append_new_def)

section \<open>Insertion sort driven by a strict comparison\<close>

text \<open>
  The code sorts with a \<open>lt\<close> function (\<open>sort.SliceStable\<close>, or its own insertion loop).
  Inserting an element from the right, before which only elements strictly greater are
  passed, is stable.
\<close>

fun insert_by :: "('a \<Rightarrow> 'a \<Rightarrow> bool) \<Rightarrow> 'a \<Rightarrow> 'a list \<Rightarrow> 'a list" where
  "insert_by lt x [] = [x]"
| "insert_by lt x (y # ys) = (if lt x y then x # y # ys else y # insert_by lt x ys)"

definition sort_by :: "('a \<Rightarrow> 'a \<Rightarrow> bool) \<Rightarrow> 'a list \<Rightarrow> 'a list" where
  "sort_by lt xs = fold (insert_by lt) xs []"

lemma mset_insert_by [simp]: "mset (insert_by lt x ys) = add_mset x (mset ys)"
  by (induction ys) auto

lemma mset_fold_insert_by: "mset (fold (insert_by lt) xs acc) = mset xs + mset acc"
  by (induction xs arbitrary: acc) auto

lemma mset_sort_by [simp]: "mset (sort_by lt xs) = mset xs"
  by (simp add: sort_by_def mset_fold_insert_by)

lemma set_sort_by [simp]: "set (sort_by lt xs) = set xs"
  by (rule mset_eq_setD) simp

lemma length_sort_by [simp]: "length (sort_by lt xs) = length xs"
  by (rule mset_eq_length) simp

lemma set_insert_by [simp]: "set (insert_by lt x ys) = insert x (set ys)"
  by (induction ys) auto

text \<open>
  The loop that swaps an element down while it is less than its left neighbour: \<open>sink_by\<close> works
  on the reversed sorted part.
\<close>

fun sink_by :: "('a \<Rightarrow> 'a \<Rightarrow> bool) \<Rightarrow> 'a \<Rightarrow> 'a list \<Rightarrow> 'a list" where
  "sink_by lt x [] = [x]"
| "sink_by lt x (y # ys) = (if lt x y then y # sink_by lt x ys else x # y # ys)"

definition insertion_sort :: "('a \<Rightarrow> 'a \<Rightarrow> bool) \<Rightarrow> 'a list \<Rightarrow> 'a list" where
  "insertion_sort lt xs = rev (fold (sink_by lt) xs [])"

lemma mset_sink_by [simp]: "mset (sink_by lt x ys) = add_mset x (mset ys)"
  by (induction ys) auto

lemma mset_insertion_sort [simp]: "mset (insertion_sort lt xs) = mset xs"
proof -
  have "mset (fold (sink_by lt) xs acc) = mset xs + mset acc" for acc
    by (induction xs arbitrary: acc) auto
  then show ?thesis by (simp add: insertion_sort_def)
qed

lemma set_insertion_sort [simp]: "set (insertion_sort lt xs) = set xs"
  by (rule mset_eq_setD) simp

lemma length_insertion_sort [simp]: "length (insertion_sort lt xs) = length xs"
  by (rule mset_eq_length) simp

lemma insert_by_snoc: "lt x y \<Longrightarrow> insert_by lt x (ys @ [y]) = insert_by lt x ys @ [y]"
  by (induction ys) auto

lemma insert_by_end: "\<forall>z \<in> set ys. \<not> lt x z \<Longrightarrow> insert_by lt x ys = ys @ [x]"
  by (induction ys) auto

text \<open>A list is determined by its elements and an order that tells them apart.\<close>

lemma sorted_wrt_unique:
  assumes "sorted_wrt R xs" "sorted_wrt R ys" "mset xs = mset ys"
    and "\<And>a b. a \<in> set xs \<Longrightarrow> b \<in> set xs \<Longrightarrow> R a b \<Longrightarrow> R b a \<Longrightarrow> a = b"
  shows "xs = ys"
  using assms
proof (induction xs arbitrary: ys)
  case (Cons x xs)
  then obtain y zs where ys: "ys = y # zs"
    by (cases ys) auto
  have sets: "set (x # xs) = set ys"
    using Cons.prems(3) by (rule mset_eq_setD)
  have "x = y"
  proof (rule ccontr)
    assume "x \<noteq> y"
    moreover from this have "x \<in> set zs" "y \<in> set xs"
      using sets ys by auto
    ultimately show False
      using Cons.prems ys sets by auto
  qed
  moreover have "xs = zs"
    by (rule Cons.IH) (use Cons.prems ys \<open>x = y\<close> in auto)
  ultimately show ?case by (simp add: ys)
qed simp

text \<open>
  The result is sorted for every strict weak order: irreflexivity is not needed, only that
  \<open>\<not> lt b a\<close> ("a may stand before b") is transitive and total.
\<close>

locale weak_order =
  fixes lt :: "'a \<Rightarrow> 'a \<Rightarrow> bool" and carrier :: "'a \<Rightarrow> bool"
  assumes asym: "carrier x \<Longrightarrow> carrier y \<Longrightarrow> lt x y \<Longrightarrow> \<not> lt y x"
    and trans_not: "carrier x \<Longrightarrow> carrier y \<Longrightarrow> carrier z \<Longrightarrow>
      \<not> lt y x \<Longrightarrow> \<not> lt z y \<Longrightarrow> \<not> lt z x"
begin

lemma sorted_insert_by:
  assumes "\<forall>z \<in> set (x # ys). carrier z" and "sorted_wrt (\<lambda>a b. \<not> lt b a) ys"
  shows "sorted_wrt (\<lambda>a b. \<not> lt b a) (insert_by lt x ys)"
  using assms
proof (induction ys)
  case (Cons y ys)
  show ?case
  proof (cases "lt x y")
    case True
    then have "\<not> lt y x" using Cons.prems asym by simp
    moreover have "\<not> lt z x" if "z \<in> set ys" for z
      using that Cons.prems trans_not [of x y z] \<open>\<not> lt y x\<close> by simp
    ultimately show ?thesis using True Cons.prems by simp
  next
    case False
    then show ?thesis using Cons by auto
  qed
qed simp

lemma sorted_fold_insert_by:
  assumes "\<forall>z \<in> set xs \<union> set acc. carrier z" and "sorted_wrt (\<lambda>a b. \<not> lt b a) acc"
  shows "sorted_wrt (\<lambda>a b. \<not> lt b a) (fold (insert_by lt) xs acc)"
  using assms by (induction xs arbitrary: acc) (simp_all add: sorted_insert_by)

lemma sorted_sort_by:
  "\<forall>z \<in> set xs. carrier z \<Longrightarrow> sorted_wrt (\<lambda>a b. \<not> lt b a) (sort_by lt xs)"
  by (simp add: sort_by_def sorted_fold_insert_by)

text \<open>On the carrier, swapping down from the right is the insertion from the left.\<close>

lemma sink_by_insert_by:
  assumes "\<forall>z \<in> set (x # ys). carrier z" and "sorted_wrt (\<lambda>a b. \<not> lt b a) ys"
  shows "sink_by lt x (rev ys) = rev (insert_by lt x ys)"
  using assms
proof (induction ys rule: rev_induct)
  case (snoc y ys)
  show ?case
  proof (cases "lt x y")
    case True
    then show ?thesis using snoc by (simp add: insert_by_snoc sorted_wrt_append)
  next
    case False
    have "\<not> lt x z" if "z \<in> set ys" for z
      using that False snoc.prems trans_not [of z y x] by (simp add: sorted_wrt_append)
    then show ?thesis using False by (simp add: insert_by_end)
  qed
qed simp

lemma insertion_sort_eq:
  assumes "\<forall>z \<in> set xs. carrier z"
  shows "insertion_sort lt xs = sort_by lt xs"
proof -
  have "fold (sink_by lt) xs (rev acc) = rev (fold (insert_by lt) xs acc)"
    if "\<forall>z \<in> set acc. carrier z" "sorted_wrt (\<lambda>a b. \<not> lt b a) acc" for acc
    using assms that
  proof (induction xs arbitrary: acc)
    case (Cons x xs)
    then show ?case
      using Cons.IH [of "insert_by lt x acc"] sorted_insert_by [of x acc]
      by (simp add: sink_by_insert_by)
  qed simp
  from this [of "[]"] show ?thesis by (simp add: insertion_sort_def sort_by_def)
qed

lemma sorted_insertion_sort:
  "\<forall>z \<in> set xs. carrier z \<Longrightarrow> sorted_wrt (\<lambda>a b. \<not> lt b a) (insertion_sort lt xs)"
  by (simp add: insertion_sort_eq sorted_sort_by)

end

end
