(* ===== verification/Go_Strings.thy ===== *)
theory Go_Strings
  imports Tmap_Prelude "HOL-Library.Char_ord" "HOL-Library.List_Lexorder"
begin

text \<open>
  The functions of Go's packages \<open>strings\<close>, \<open>strconv\<close> and \<open>sort\<close> the program calls, on
  strings as lists of bytes (\<open>char\<close> is a byte). Case conversion and white space are those of
  ASCII: on a string with bytes above 127, \<open>strings.ToLower\<close> and \<open>strings.TrimSpace\<close>
  decode UTF-8, which is not modelled.
\<close>

section \<open>Bytes\<close>

definition byte_of :: "char \<Rightarrow> nat" where
  "byte_of c = of_char c"

definition lower_char :: "char \<Rightarrow> char" where
  "lower_char c = (let n = byte_of c in if 65 \<le> n \<and> n \<le> 90 then char_of (n + 32) else c)"

definition upper_char :: "char \<Rightarrow> char" where
  "upper_char c = (let n = byte_of c in if 97 \<le> n \<and> n \<le> 122 then char_of (n - 32) else c)"

text \<open>ASCII white space: tab, line feed, vertical tab, form feed, carriage return, blank.\<close>

definition is_space :: "char \<Rightarrow> bool" where
  "is_space c = (let n = byte_of c in n = 32 \<or> (9 \<le> n \<and> n \<le> 13))"

definition is_digit :: "char \<Rightarrow> bool" where
  "is_digit c = (let n = byte_of c in 48 \<le> n \<and> n \<le> 57)"

definition digit_val :: "char \<Rightarrow> nat" where
  "digit_val c = byte_of c - 48"

section \<open>The package strings\<close>

definition to_lower :: "string \<Rightarrow> string" where
  "to_lower s = map lower_char s"

definition to_upper :: "string \<Rightarrow> string" where
  "to_upper s = map upper_char s"

fun trim_left :: "(char \<Rightarrow> bool) \<Rightarrow> string \<Rightarrow> string" where
  "trim_left P [] = []"
| "trim_left P (c # cs) = (if P c then trim_left P cs else c # cs)"

definition trim_func :: "(char \<Rightarrow> bool) \<Rightarrow> string \<Rightarrow> string" where
  "trim_func P s = rev (trim_left P (rev (trim_left P s)))"

definition trim_space :: "string \<Rightarrow> string" where
  "trim_space s = trim_func is_space s"

fun has_prefix :: "string \<Rightarrow> string \<Rightarrow> bool" where
  "has_prefix s [] = True"
| "has_prefix [] (p # ps) = False"
| "has_prefix (c # cs) (p # ps) = (c = p \<and> has_prefix cs ps)"

definition has_suffix :: "string \<Rightarrow> string \<Rightarrow> bool" where
  "has_suffix s t = has_prefix (rev s) (rev t)"

definition trim_prefix :: "string \<Rightarrow> string \<Rightarrow> string" where
  "trim_prefix s p = (if has_prefix s p then drop (length p) s else s)"

definition trim_suffix :: "string \<Rightarrow> string \<Rightarrow> string" where
  "trim_suffix s t = (if has_suffix s t then take (length s - length t) s else s)"

text \<open>\<open>strings.Index\<close>: the position of the first occurrence; \<open>None\<close> is Go's \<open>-1\<close>.\<close>

fun str_index :: "string \<Rightarrow> string \<Rightarrow> nat option" where
  "str_index [] t = (if t = [] then Some 0 else None)"
| "str_index (c # cs) t =
     (if has_prefix (c # cs) t then Some 0 else map_option Suc (str_index cs t))"

definition str_contains :: "string \<Rightarrow> string \<Rightarrow> bool" where
  "str_contains s t = (str_index s t \<noteq> None)"

fun index_byte :: "string \<Rightarrow> char \<Rightarrow> nat option" where
  "index_byte [] b = None"
| "index_byte (c # cs) b = (if c = b then Some 0 else map_option Suc (index_byte cs b))"

fun str_join :: "string list \<Rightarrow> string \<Rightarrow> string" where
  "str_join [] sep = []"
| "str_join [x] sep = x"
| "str_join (x # y # ys) sep = x @ sep @ str_join (y # ys) sep"

text \<open>\<open>strings.NewReplacer\<close> for replacements of single bytes.\<close>

definition replace_bytes :: "(char \<times> string) list \<Rightarrow> string \<Rightarrow> string" where
  "replace_bytes rs s = concat (map (\<lambda>c. case map_of rs c of None \<Rightarrow> [c] | Some r \<Rightarrow> r) s)"

text \<open>\<open>strings.Fields\<close>: the maximal runs of bytes that are not white space.\<close>

fun fields_acc :: "string \<Rightarrow> string \<Rightarrow> string list" where
  "fields_acc cur [] = (if cur = [] then [] else [rev cur])"
| "fields_acc cur (c # cs) =
     (if is_space c then (if cur = [] then fields_acc [] cs else rev cur # fields_acc [] cs)
      else fields_acc (c # cur) cs)"

definition str_fields :: "string \<Rightarrow> string list" where
  "str_fields s = fields_acc [] s"

definition equal_fold :: "string \<Rightarrow> string \<Rightarrow> bool" where
  "equal_fold s t = (to_lower s = to_lower t)"

section \<open>The package strconv\<close>

fun digits_val :: "nat \<Rightarrow> string \<Rightarrow> nat" where
  "digits_val acc [] = acc"
| "digits_val acc (c # cs) = digits_val (10 * acc + digit_val c) cs"

text \<open>
  \<open>strconv.Atoi\<close> on a 64-bit platform: an optional sign, then at least one digit and only
  digits; a value outside the 64-bit range is an error.
\<close>

definition atoi :: "string \<Rightarrow> int option" where
  "atoi s =
     (let neg = (s \<noteq> [] \<and> hd s = CHR ''-'');
          ds = (if s \<noteq> [] \<and> (hd s = CHR ''-'' \<or> hd s = CHR ''+'') then tl s else s);
          v = int (digits_val 0 ds); n = (if neg then - v else v)
      in if ds = [] \<or> \<not> list_all is_digit ds then None
         else if n < - (2 ^ 63) \<or> 2 ^ 63 \<le> n then None
         else Some n)"

definition digit_char :: "nat \<Rightarrow> char" where
  "digit_char d = char_of (48 + d)"

fun nat_digits :: "nat \<Rightarrow> string" where
  "nat_digits n = (if n < 10 then [digit_char n] else nat_digits (n div 10) @ [digit_char (n mod 10)])"

declare nat_digits.simps [simp del]

text \<open>\<open>strconv.Itoa\<close>, and \<open>%d\<close> of \<open>fmt\<close>.\<close>

definition itoa :: "int \<Rightarrow> string" where
  "itoa i = (if i < 0 then CHR ''-'' # nat_digits (nat (- i)) else nat_digits (nat i))"

text \<open>\<open>%02d\<close> and \<open>%04d\<close>: zero padded to a width.\<close>

definition pad_digits :: "nat \<Rightarrow> nat \<Rightarrow> string" where
  "pad_digits w n = replicate (w - length (nat_digits n)) CHR ''0'' @ nat_digits n"

text \<open>\<open>%q\<close> of \<open>fmt\<close> on a string of printable ASCII: quotes and backslashes are escaped.\<close>

definition quote_str :: "string \<Rightarrow> string" where
  "quote_str s = CHR 34 # replace_bytes [(CHR 34, [CHR 92, CHR 34]), (CHR 92, [CHR 92, CHR 92])] s @ [CHR 34]"

section \<open>String order\<close>

text \<open>Go's \<open><\<close> on strings compares bytes from the left; a proper prefix is smaller.\<close>

fun str_less :: "string \<Rightarrow> string \<Rightarrow> bool" where
  "str_less s [] = False"
| "str_less [] (c # t) = True"
| "str_less (a # s) (b # t) = (byte_of a < byte_of b \<or> (a = b \<and> str_less s t))"

definition sort_strings :: "string list \<Rightarrow> string list" where
  "sort_strings xs = sort_by str_less xs"

section \<open>Lemmas\<close>

lemmas [go_defs] = byte_of_def lower_char_def upper_char_def is_space_def is_digit_def
  digit_val_def to_lower_def to_upper_def trim_func_def trim_space_def has_suffix_def
  trim_prefix_def trim_suffix_def str_contains_def replace_bytes_def str_fields_def
  equal_fold_def atoi_def itoa_def pad_digits_def digit_char_def

lemma byte_of_inj [simp]: "byte_of a = byte_of b \<longleftrightarrow> a = b"
  by (simp add: byte_of_def)

lemma lower_char_idem [simp]: "lower_char (lower_char c) = lower_char c"
  by (auto simp: lower_char_def byte_of_def Let_def)

lemma to_lower_idem [simp]: "to_lower (to_lower s) = to_lower s"
  by (simp add: to_lower_def)

lemma to_lower_append [simp]: "to_lower (s @ t) = to_lower s @ to_lower t"
  by (simp add: to_lower_def)

lemma has_prefix_iff: "has_prefix s p \<longleftrightarrow> (\<exists>r. s = p @ r)"
  by (induction s p rule: has_prefix.induct) auto

lemma has_suffix_iff: "has_suffix s t \<longleftrightarrow> (\<exists>r. s = r @ t)"
proof
  assume "has_suffix s t"
  then obtain r where "rev s = rev t @ r" by (auto simp: has_suffix_def has_prefix_iff)
  then have "s = rev r @ t" by (metis rev_append rev_rev_ident)
  then show "\<exists>r. s = r @ t" ..
qed (auto simp: has_suffix_def has_prefix_iff)

lemma str_contains_iff: "str_contains s t \<longleftrightarrow> (\<exists>a b. s = a @ t @ b)"
proof (induction s)
  case Nil
  then show ?case by (auto simp: str_contains_def)
next
  case (Cons c cs)
  have "str_contains (c # cs) t \<longleftrightarrow> has_prefix (c # cs) t \<or> str_contains cs t"
    by (auto simp: str_contains_def)
  also have "\<dots> \<longleftrightarrow> (\<exists>a b. c # cs = a @ t @ b)"
    unfolding Cons has_prefix_iff by (metis append_Cons append_Nil append_eq_Cons_conv)
  finally show ?case .
qed

lemma str_contains_trans:
  "str_contains s t \<Longrightarrow> str_contains t u \<Longrightarrow> str_contains s u"
  unfolding str_contains_iff by (metis append.assoc)

lemma str_contains_app [simp]: "str_contains (a @ t @ b) t"
  unfolding str_contains_iff by blast

lemma trim_left_idem [simp]: "trim_left P (trim_left P s) = trim_left P s"
  by (induction s) auto

lemma trim_left_noop: "s = [] \<or> \<not> P (hd s) \<Longrightarrow> trim_left P s = s"
  by (cases s) auto

lemma trim_left_hd: "trim_left P s = [] \<or> \<not> P (hd (trim_left P s))"
  by (induction s) auto

lemma trim_left_suffix: "\<exists>p. s = p @ trim_left P s"
proof (induction s)
  case (Cons c cs)
  then show ?case by (metis append_Cons append_Nil trim_left.simps(2))
qed simp

lemma trim_func_idem [simp]: "trim_func P (trim_func P s) = trim_func P s"
proof -
  let ?l = "trim_left P s"
  let ?r = "trim_left P (rev ?l)"
  have "trim_left P (rev ?r) = rev ?r"
  proof (rule trim_left_noop)
    obtain p where "rev ?l = p @ ?r" using trim_left_suffix by blast
    then have l: "?l = rev ?r @ rev p" by (metis rev_append rev_rev_ident)
    show "rev ?r = [] \<or> \<not> P (hd (rev ?r))"
    proof (cases "rev ?r = []")
      case False
      then have "hd ?l = hd (rev ?r)" by (subst l) (simp add: hd_append)
      moreover have "?l \<noteq> []" using False by auto
      ultimately show ?thesis using trim_left_hd [of P s] by simp
    qed simp
  qed
  then show ?thesis by (simp add: trim_func_def)
qed

lemma trim_space_idem [simp]: "trim_space (trim_space s) = trim_space s"
  by (simp add: trim_space_def)

lemma trim_space_Nil [simp]: "trim_space [] = []"
  by (simp add: trim_space_def trim_func_def)

text \<open>Decimal digits: printing then reading is the identity.\<close>

lemma digit_char_props [simp]:
  assumes "d < 10"
  shows "is_digit (digit_char d)" and "digit_val (digit_char d) = d"
    and "byte_of (digit_char d) = 48 + d"
  using assms by (simp_all add: is_digit_def digit_val_def digit_char_def byte_of_def)

lemma digits_val_append: "digits_val a (xs @ ys) = digits_val (digits_val a xs) ys"
  by (induction xs arbitrary: a) auto

lemma nat_digits_digits: "list_all is_digit (nat_digits n)"
  by (induction n rule: nat_digits.induct) (subst nat_digits.simps, simp)

lemma nat_digits_nonempty [simp]: "nat_digits n \<noteq> []"
  by (subst nat_digits.simps) simp

lemma digits_val_nat_digits: "digits_val 0 (nat_digits n) = n"
proof (induction n rule: nat_digits.induct)
  case (1 n)
  show ?case
  proof (cases "n < 10")
    case True
    then show ?thesis by (simp add: nat_digits.simps [of n])
  next
    case False
    with 1 show ?thesis by (simp add: nat_digits.simps [of n] digits_val_append)
  qed
qed

lemma nat_digits_eval [go_defs]:
  "n < 10 \<Longrightarrow> nat_digits n = [digit_char n]"
  "\<not> n < 10 \<Longrightarrow> nat_digits n = nat_digits (n div 10) @ [digit_char (n mod 10)]"
  by (simp_all add: nat_digits.simps [of n])

lemma inj_nat_digits: "nat_digits m = nat_digits n \<Longrightarrow> m = n"
  by (metis digits_val_nat_digits)

lemma hd_nat_digits: "is_digit (hd (nat_digits n))"
  using nat_digits_digits [of n] by (cases "nat_digits n") simp_all

text \<open>The byte order on strings is a strict total order.\<close>

lemma str_less_irrefl [simp]: "\<not> str_less s s"
  by (induction s) auto

lemma str_less_trans: "str_less s t \<Longrightarrow> str_less t u \<Longrightarrow> str_less s u"
proof (induction s t arbitrary: u rule: str_less.induct)
  case (2 c t)
  then show ?case by (cases u) auto
next
  case (3 a s b t)
  then show ?case by (cases u) auto
qed auto

lemma str_less_total: "str_less s t \<or> s = t \<or> str_less t s"
proof (induction s t rule: str_less.induct)
  case (1 s)
  then show ?case by (cases s) auto
next
  case (3 a s b t)
  show ?case
  proof (cases "a = b")
    case False
    then have "byte_of a \<noteq> byte_of b" by simp
    then have "byte_of a < byte_of b \<or> byte_of b < byte_of a" by arith
    then show ?thesis by auto
  qed (use 3 in auto)
qed auto

lemma str_less_asym: "str_less s t \<Longrightarrow> \<not> str_less t s"
  using str_less_trans str_less_irrefl by blast

interpretation str_order: weak_order str_less "\<lambda>_. True"
proof
  fix x y z :: string
  show "str_less x y \<Longrightarrow> \<not> str_less y x" by (rule str_less_asym)
  show "\<not> str_less y x \<Longrightarrow> \<not> str_less z y \<Longrightarrow> \<not> str_less z x"
    using str_less_total [of x y] str_less_total [of y z] str_less_trans by blast
qed

lemma sorted_sort_strings: "sorted_wrt (\<lambda>a b. \<not> str_less b a) (sort_strings xs)"
  unfolding sort_strings_def by (rule str_order.sorted_sort_by) simp

lemma str_sorted_strict: "distinct xs \<Longrightarrow> sorted_wrt (\<lambda>a b. \<not> str_less b a) xs \<Longrightarrow> sorted_wrt str_less xs"
  using str_less_total by (induction xs) fastforce+

end
