(* ===== verification/Go_Float.thy ===== *)
theory Go_Float
  imports Complex_Main Tmap_Prelude
begin

text \<open>
  Go's \<open>float64\<close> values, as the rational numbers they denote. \<open>round64\<close> rounds an exact
  rational to the nearest binary64 value (ties to even, with gradual underflow); every
  arithmetic operation of the code is the exact operation followed by \<open>round64\<close>, and a
  decimal literal is the rounding of its exact value. Infinities, NaN and overflow beyond
  \<open>2 ^ 1024\<close> are not modelled: the code adds, multiplies and divides scores, weights and
  latencies of small magnitude. A compiler that fuses \<open>x * y + z\<close> into one rounding (Go
  allows it, and the amd64 port does not) is not modelled.
\<close>

type_synonym float64 = rat

section \<open>Rounding\<close>

text \<open>The integer nearest to a rational, ties to the even one.\<close>

definition round_even :: "rat \<Rightarrow> int" where
  "round_even r =
     (let f = \<lfloor>r\<rfloor>; d = r - of_int f
      in if d < 1 / 2 then f else if 1 / 2 < d then f + 1 else if even f then f else f + 1)"

text \<open>The position of the highest bit of a positive integer.\<close>

function nlog2 :: "int \<Rightarrow> nat" where
  "nlog2 n = (if n \<le> 1 then 0 else Suc (nlog2 (n div 2)))"
  by pat_completeness auto
termination
  by (relation "measure nat") auto

declare nlog2.simps [simp del]

text \<open>The binary exponent of a non-zero rational: \<open>2 powi e \<le> \<bar>x\<bar> < 2 powi (e + 1)\<close>.\<close>

definition expo :: "rat \<Rightarrow> int" where
  "expo x =
     (let p = fst (quotient_of \<bar>x\<bar>); q = snd (quotient_of \<bar>x\<bar>);
          e = int (nlog2 p) - int (nlog2 q)
      in if 2 powi e \<le> \<bar>x\<bar> then e else e - 1)"

text \<open>The exponent of the last bit kept: 53 significant bits, and never below \<open>2 powi (-1074)\<close>.\<close>

definition ulp_exp :: "rat \<Rightarrow> int" where
  "ulp_exp x = max (expo x - 52) (- 1074)"

definition round64 :: "rat \<Rightarrow> float64" where
  "round64 x =
     (if x = 0 then 0
      else of_int (round_even (x / 2 powi ulp_exp x)) * 2 powi ulp_exp x)"

definition fadd :: "float64 \<Rightarrow> float64 \<Rightarrow> float64" where "fadd x y = round64 (x + y)"
definition fsub :: "float64 \<Rightarrow> float64 \<Rightarrow> float64" where "fsub x y = round64 (x - y)"
definition fmul :: "float64 \<Rightarrow> float64 \<Rightarrow> float64" where "fmul x y = round64 (x * y)"
definition fdiv :: "float64 \<Rightarrow> float64 \<Rightarrow> float64" where "fdiv x y = round64 (x / y)"

text \<open>A decimal literal of the source, e.g. \<open>0.35\<close> is \<open>flit (35 / 100)\<close>.\<close>

definition flit :: "rat \<Rightarrow> float64" where "flit x = round64 x"

section \<open>Rounding to the nearest integer\<close>

lemma round_even_of_int [simp]: "round_even (of_int n) = n"
  by (simp add: round_even_def)

lemma round_even_bounds: "of_int (round_even r) - 1 / 2 \<le> r \<and> r \<le> of_int (round_even r) + 1 / 2"
proof -
  have "of_int \<lfloor>r\<rfloor> \<le> r" "r < of_int \<lfloor>r\<rfloor> + 1" by linarith+
  then show ?thesis by (simp add: round_even_def Let_def split: if_split) linarith
qed

lemma round_even_mono:
  assumes "r \<le> s" shows "round_even r \<le> round_even s"
proof (rule ccontr)
  assume "\<not> round_even r \<le> round_even s"
  then have gt: "round_even s + 1 \<le> round_even r" by simp
  then have "of_int (round_even s) + (1::rat) \<le> of_int (round_even r)"
    by (metis of_int_1 of_int_add of_int_le_iff)
  with round_even_bounds [of r] round_even_bounds [of s] assms
  have eq: "r = s" by linarith
  with gt show False by simp
qed

lemma round_even_minus: "round_even (- r) = - round_even r"
proof (cases "r = of_int \<lfloor>r\<rfloor>")
  case True
  then show ?thesis by (metis of_int_minus round_even_of_int)
next
  case False
  moreover have "of_int \<lfloor>r\<rfloor> \<le> r" by linarith
  ultimately have lt: "of_int \<lfloor>r\<rfloor> < r" "r < of_int \<lfloor>r\<rfloor> + 1" by linarith+
  have fl: "\<lfloor>- r\<rfloor> = - \<lfloor>r\<rfloor> - 1" using lt by (intro floor_unique) auto
  show ?thesis by (auto simp: round_even_def fl Let_def)
qed

section \<open>The exponent\<close>

lemma nlog2_bounds: "0 < n \<Longrightarrow> 2 ^ nlog2 n \<le> n \<and> n < 2 ^ Suc (nlog2 n)"
proof (induction n rule: nlog2.induct)
  case (1 n)
  show ?case
  proof (cases "n \<le> 1")
    case True
    with "1.prems" have "n = 1" by simp
    then show ?thesis by (simp add: nlog2.simps)
  next
    case False
    then have "2 ^ nlog2 (n div 2) \<le> n div 2 \<and> n div 2 < 2 ^ Suc (nlog2 (n div 2))"
      using 1 by simp
    then have "2 * 2 ^ nlog2 (n div 2) \<le> n \<and> n < 2 * 2 ^ Suc (nlog2 (n div 2))" by auto
    then show ?thesis using False by (simp add: nlog2.simps [of n])
  qed
qed

lemma expo_bounds:
  assumes "x \<noteq> 0"
  shows "2 powi expo x \<le> \<bar>x\<bar>" and "\<bar>x\<bar> < 2 powi (expo x + 1)"
proof -
  obtain p q where pq: "quotient_of \<bar>x\<bar> = (p, q)" by fastforce
  have q: "0 < q" and xpq: "\<bar>x\<bar> = of_int p / of_int q"
    using quotient_of_denom_pos [OF pq] quotient_of_div [OF pq] by auto
  with assms have p: "0 < p" by (metis abs_ge_zero divide_eq_0_iff of_int_0 of_int_0_less_iff
        abs_zero zero_less_abs_iff zero_less_divide_iff less_asym)
  let ?a = "nlog2 p" and ?b = "nlog2 q"
  have cast: "(2::rat) ^ m \<le> of_int i" "of_int i < (2::rat) ^ n" if "2 ^ m \<le> i" "i < 2 ^ n" for m n i
  proof -
    from that have "of_int (2 ^ m) \<le> (of_int i :: rat)" "of_int i < (of_int (2 ^ n) :: rat)"
      by (simp_all only: of_int_le_iff of_int_less_iff)
    then show "(2::rat) ^ m \<le> of_int i" "of_int i < (2::rat) ^ n" by simp_all
  qed
  have P: "(2::rat) ^ ?a \<le> of_int p" "of_int p < (2::rat) ^ Suc ?a"
    using cast [of ?a p "Suc ?a"] nlog2_bounds [OF p] by simp_all
  have Q: "(2::rat) ^ ?b \<le> of_int q" "of_int q < (2::rat) ^ Suc ?b"
    using cast [of ?b q "Suc ?b"] nlog2_bounds [OF q] by simp_all
  let ?e = "int ?a - int ?b"
  have pw: "(2::rat) powi ?e = 2 ^ ?a / 2 ^ ?b"
    by (simp add: power_int_diff)
  have q': "(0::rat) < of_int q" using q by simp
  have hi: "\<bar>x\<bar> < 2 powi (?e + 1)"
  proof -
    have "\<bar>x\<bar> < 2 ^ Suc ?a / of_int q" unfolding xpq using P(2) q' by (rule divide_strict_right_mono)
    also have "\<dots> \<le> 2 ^ Suc ?a / 2 ^ ?b" using Q(1) q' by (intro divide_left_mono) auto
    also have "\<dots> = 2 powi (?e + 1)" by (simp add: power_int_add pw)
    finally show ?thesis .
  qed
  have lo: "2 powi (?e - 1) \<le> \<bar>x\<bar>"
  proof -
    have "2 powi (?e - 1) = 2 ^ ?a / (2::rat) ^ Suc ?b" by (simp add: power_int_diff pw)
    also have "\<dots> \<le> 2 ^ ?a / of_int q"
      using Q(2) q' by (intro divide_left_mono) (auto simp: less_imp_le)
    also have "\<dots> \<le> \<bar>x\<bar>" unfolding xpq using P(1) q' by (intro divide_right_mono) auto
    finally show ?thesis .
  qed
  have ex: "expo x = (if 2 powi ?e \<le> \<bar>x\<bar> then ?e else ?e - 1)"
    by (simp add: expo_def pq Let_def)
  show "2 powi expo x \<le> \<bar>x\<bar>" using lo by (simp add: ex)
  show "\<bar>x\<bar> < 2 powi (expo x + 1)" using hi by (simp add: ex)
qed

lemma powi2_less_cancel: "(2::rat) powi a < 2 powi b \<Longrightarrow> a < b"
  by (metis linorder_not_less one_le_numeral power_int_increasing)

lemma expo_mono:
  assumes "0 < x" "x \<le> y" shows "expo x \<le> expo y"
proof -
  have "2 powi expo x \<le> x" "y < 2 powi (expo y + 1)"
    using expo_bounds [of x] expo_bounds [of y] assms by auto
  with assms have "(2::rat) powi expo x < 2 powi (expo y + 1)" by simp
  then show ?thesis by (auto dest: powi2_less_cancel)
qed

lemma expo_minus [simp]: "expo (- x) = expo x"
  by (simp add: expo_def)

lemma ulp_exp_minus [simp]: "ulp_exp (- x) = ulp_exp x"
  by (simp add: ulp_exp_def)

section \<open>Rounding is monotonic\<close>

text \<open>Rounding to the grid of step \<open>2 powi k\<close>.\<close>

definition grid :: "int \<Rightarrow> rat \<Rightarrow> rat" where
  "grid k x = of_int (round_even (x / 2 powi k)) * 2 powi k"

lemma round64_grid: "x \<noteq> 0 \<Longrightarrow> round64 x = grid (ulp_exp x) x"
  by (simp add: round64_def grid_def)

lemma grid_mono: "x \<le> y \<Longrightarrow> grid k x \<le> grid k y"
  by (simp add: grid_def round_even_mono divide_right_mono)

lemma grid_powi: "k \<le> e \<Longrightarrow> grid k (2 powi e) = 2 powi e"
proof -
  assume "k \<le> e"
  then obtain n where e: "e = k + int n" by (metis zle_iff_zadd)
  have "(2::rat) powi e / 2 powi k = of_int (2 ^ n)" by (simp add: e power_int_add)
  then show ?thesis by (simp only: grid_def round_even_of_int) (simp add: e power_int_add)
qed

lemma grid_0 [simp]: "grid k 0 = 0"
  by (metis div_0 grid_def mult_zero_left of_int_0 round_even_of_int)

lemma grid_minus: "grid k (- x) = - grid k x"
  by (simp add: grid_def round_even_minus)

lemma round64_0 [simp]: "round64 0 = 0"
  by (simp add: round64_def)

lemma round64_minus: "round64 (- x) = - round64 x"
  by (cases "x = 0") (simp_all add: round64_grid grid_minus)

lemma round64_nonneg: "0 \<le> x \<Longrightarrow> 0 \<le> round64 x"
  using grid_mono [of 0 x "ulp_exp x"] by (cases "x = 0") (simp_all add: round64_grid)

lemma round64_mono_pos:
  assumes "0 < x" "x \<le> y"
  shows "round64 x \<le> round64 y"
proof (cases "ulp_exp x = ulp_exp y")
  case True
  with assms show ?thesis by (simp add: round64_grid grid_mono)
next
  case False
  have le: "expo x \<le> expo y" using assms by (rule expo_mono)
  with False have ky: "ulp_exp y = expo y - 52" and lt: "expo x < expo y" "ulp_exp x < ulp_exp y"
    by (auto simp: ulp_exp_def max_def split: if_splits)
  have "x < 2 powi (expo x + 1)" using expo_bounds [of x] assms by simp
  also have "\<dots> \<le> 2 powi expo y" using lt by (intro power_int_increasing) auto
  finally have "x \<le> 2 powi expo y" by simp
  then have "grid (ulp_exp x) x \<le> grid (ulp_exp x) (2 powi expo y)" by (rule grid_mono)
  also have "\<dots> = 2 powi expo y" using lt ky by (intro grid_powi) simp
  also have "\<dots> = grid (ulp_exp y) (2 powi expo y)" using ky by (intro grid_powi [symmetric]) simp
  also have "\<dots> \<le> grid (ulp_exp y) y"
    using expo_bounds [of y] assms by (intro grid_mono) simp
  finally show ?thesis using assms by (simp add: round64_grid)
qed

lemma round64_mono: "x \<le> y \<Longrightarrow> round64 x \<le> round64 y"
proof -
  assume xy: "x \<le> y"
  consider "0 < x" | "x \<le> 0" "0 \<le> y" | "y < 0" by linarith
  then show ?thesis
  proof cases
    case 1
    then show ?thesis using xy by (rule round64_mono_pos)
  next
    case 2
    then have "round64 x \<le> 0" using round64_nonneg [of "- x"] by (simp add: round64_minus)
    also have "0 \<le> round64 y" using 2 by (simp add: round64_nonneg)
    finally show ?thesis .
  next
    case 3
    then have "round64 (- y) \<le> round64 (- x)" using xy by (intro round64_mono_pos) auto
    then show ?thesis by (simp add: round64_minus)
  qed
qed

lemma round64_int:
  assumes "\<bar>n\<bar> < 2 ^ 53" shows "round64 (of_int n) = of_int n"
proof (cases "n = 0")
  case False
  let ?k = "ulp_exp (of_int n)"
  have "(2::rat) powi expo (of_int n) \<le> of_int \<bar>n\<bar>" using expo_bounds [of "of_int n"] False by simp
  also have "\<dots> < of_int (2 ^ 53)" using assms by (simp only: of_int_less_iff)
  finally have "(2::rat) powi expo (of_int n) < 2 powi 53" by simp
  then have "expo (of_int n) < 53" by (rule powi2_less_cancel)
  then have "?k \<le> 0" by (simp add: ulp_exp_def)
  then obtain m where k: "?k = - int m" by (metis neg_0_le_iff_le nonneg_int_cases minus_minus)
  have "(of_int n :: rat) / 2 powi ?k = of_int (n * 2 ^ m)"
    by (simp add: k power_int_minus divide_inverse)
  then have "grid ?k (of_int n) = of_int (n * 2 ^ m) * 2 powi ?k"
    unfolding grid_def by (simp only: round_even_of_int)
  also have "\<dots> = of_int n" by (simp add: k power_int_minus)
  finally show ?thesis using False by (simp add: round64_grid)
qed simp

lemma round64_1 [simp]: "round64 1 = 1"
  using round64_int [of 1] by simp

text \<open>Consequences for the operations: the facts the clamping and capping code relies on.\<close>

lemma round64_le_1: "x \<le> 1 \<Longrightarrow> round64 x \<le> 1"
  using round64_mono [of x 1] by simp

lemma fadd_nonneg [simp]: "0 \<le> x \<Longrightarrow> 0 \<le> y \<Longrightarrow> 0 \<le> fadd x y"
  by (simp add: fadd_def round64_nonneg)

lemma fmul_nonneg [simp]: "0 \<le> x \<Longrightarrow> 0 \<le> y \<Longrightarrow> 0 \<le> fmul x y"
  by (simp add: fmul_def round64_nonneg)

lemma fdiv_nonneg [simp]: "0 \<le> x \<Longrightarrow> 0 \<le> y \<Longrightarrow> 0 \<le> fdiv x y"
  by (simp add: fdiv_def round64_nonneg)

lemma fadd_mono: "a \<le> c \<Longrightarrow> b \<le> d \<Longrightarrow> fadd a b \<le> fadd c d"
  by (simp add: fadd_def round64_mono)

lemma flit_mono: "x \<le> y \<Longrightarrow> flit x \<le> flit y"
  by (simp add: flit_def round64_mono)

lemma flit_nonneg [simp]: "0 \<le> x \<Longrightarrow> 0 \<le> flit x"
  by (simp add: flit_def round64_nonneg)

lemma flit_0 [simp]: "flit 0 = 0"
  by (simp add: flit_def)

lemma flit_1 [simp]: "flit 1 = 1"
  by (simp add: flit_def)

lemma flit_le_1: "x \<le> 1 \<Longrightarrow> flit x \<le> 1"
  by (simp add: flit_def round64_le_1)

text \<open>
  Two decimal literals that lie on different sides of a small integer fraction keep their
  strict order: comparing literals needs only a number of 53 bits between them.
\<close>

lemma round64_exact:
  assumes "\<bar>n\<bar> < 2 ^ 53" "k \<le> 1000"
  shows "round64 (of_int n / 2 ^ k) = of_int n / 2 ^ k"
proof (cases "n = 0")
  case False
  define x :: rat where "x = of_int n / 2 ^ k"
  have x0: "x \<noteq> 0" using False by (simp add: x_def)
  have "(2::rat) powi expo x \<le> of_int \<bar>n\<bar> / 2 ^ k"
    using expo_bounds [OF x0] by (simp add: abs_divide x_def)
  also have "\<dots> < of_int (2 ^ 53) / 2 ^ k"
    using assms(1) by (intro divide_strict_right_mono) (simp_all only: of_int_less_iff, simp)
  also have "\<dots> = 2 powi (53 - int k)" by (simp add: power_int_diff)
  finally have "expo x < 53 - int k" by (rule powi2_less_cancel)
  then have "ulp_exp x \<le> - int k" using assms(2) by (simp add: ulp_exp_def)
  then obtain m where u: "ulp_exp x = - int (k + m)"
    by (metis add.inverse_inverse le_minus_iff of_nat_add zle_iff_zadd)
  have w: "(2::rat) powi ulp_exp x = 1 / 2 ^ (k + m)"
    unfolding u by (simp only: power_int_minus power_int_of_nat inverse_eq_divide)
  have "x / 2 powi ulp_exp x = of_int (n * 2 ^ m)"
    unfolding w by (simp add: x_def power_add)
  then have "grid (ulp_exp x) x = of_int (n * 2 ^ m) * 2 powi ulp_exp x"
    unfolding grid_def by (simp only: round_even_of_int)
  also have "\<dots> = x"
    unfolding w by (simp add: x_def power_add)
  finally show ?thesis using x0 by (simp add: round64_grid x_def)
qed simp

lemma flit_between:
  assumes "x \<le> of_int m / 2 ^ k" "of_int n / 2 ^ k \<le> y" "m < n" "\<bar>m\<bar> < 2 ^ 53" "\<bar>n\<bar> < 2 ^ 53" "k \<le> 1000"
  shows "flit x < flit y"
proof -
  have "flit x \<le> of_int m / 2 ^ k"
    using round64_mono [OF assms(1)] assms by (simp add: flit_def round64_exact)
  also have "\<dots> < of_int n / 2 ^ k"
    using assms(3) by (intro divide_strict_right_mono) simp_all
  also have "\<dots> \<le> flit y"
    using round64_mono [OF assms(2)] assms by (simp add: flit_def round64_exact)
  finally show ?thesis .
qed

end
