(* ===== verification/Go_Time.thy ===== *)
theory Go_Time
  imports Go_Strings
begin

text \<open>
  Instants of Go's package \<open>time\<close>: a \<open>time.Time\<close> is the number of nanoseconds since
  1970-01-01T00:00:00Z, a \<open>time.Duration\<close> a number of nanoseconds. \<open>format_rfc3339\<close> is
  \<open>t.UTC().Format(time.RFC3339)\<close> for the years 0 to 9999; \<open>parse_rfc3339\<close> is
  \<open>time.Parse(time.RFC3339, s)\<close> on the strict form of the RFC (Go's parser also accepts an
  hour of one digit and a comma before the fraction). Reading the clock is an input of the
  operations.
\<close>

type_synonym gotime = int
type_synonym duration = int

definition nanosecond :: int where "nanosecond = 1"
definition millisecond :: int where "millisecond = 1000000"
definition second :: int where "second = 1000000000"
definition minute :: int where "minute = 60 * second"

text \<open>The zero \<open>time.Time\<close>: 0001-01-01T00:00:00Z.\<close>

definition zero_time :: gotime where
  "zero_time = - 62135596800 * second"

definition is_zero_time :: "gotime \<Rightarrow> bool" where
  "is_zero_time t = (t = zero_time)"

definition unix_milli :: "gotime \<Rightarrow> int" where
  "unix_milli t = t div millisecond"

section \<open>The proleptic Gregorian calendar\<close>

text \<open>Year, month and day of a day number (day 0 is 1970-01-01), by eras of 400 years.\<close>

definition civil_from_days :: "int \<Rightarrow> int \<times> int \<times> int" where
  "civil_from_days z =
     (let z' = z + 719468; era = z' div 146097; doe = z' mod 146097;
          yoe = (doe - doe div 1460 + doe div 36524 - doe div 146096) div 365;
          doy = doe - (365 * yoe + yoe div 4 - yoe div 100);
          mp = (5 * doy + 2) div 153;
          d = doy - (153 * mp + 2) div 5 + 1;
          m = (if mp < 10 then mp + 3 else mp - 9);
          y = yoe + era * 400
      in (if m \<le> 2 then y + 1 else y, m, d))"

definition days_from_civil :: "int \<Rightarrow> int \<Rightarrow> int \<Rightarrow> int" where
  "days_from_civil y m d =
     (let y' = (if m \<le> 2 then y - 1 else y); era = y' div 400; yoe = y' mod 400;
          mp = (if 2 < m then m - 3 else m + 9);
          doy = (153 * mp + 2) div 5 + d - 1;
          doe = yoe * 365 + yoe div 4 - yoe div 100 + doy
      in era * 146097 + doe - 719468)"

definition leap_year :: "int \<Rightarrow> bool" where
  "leap_year y = (y mod 4 = 0 \<and> (y mod 100 \<noteq> 0 \<or> y mod 400 = 0))"

definition days_in :: "int \<Rightarrow> int \<Rightarrow> int" where
  "days_in y m =
     (if m = 2 then (if leap_year y then 29 else 28)
      else if m = 4 \<or> m = 6 \<or> m = 9 \<or> m = 11 then 30 else 31)"

section \<open>RFC 3339\<close>

definition pad2 :: "int \<Rightarrow> string" where "pad2 n = pad_digits 2 (nat n)"
definition pad4 :: "int \<Rightarrow> string" where "pad4 n = pad_digits 4 (nat n)"

definition format_rfc3339 :: "gotime \<Rightarrow> string" where
  "format_rfc3339 t =
     (let secs = t div second; r = secs mod 86400
      in case civil_from_days (secs div 86400) of (y, m, d) \<Rightarrow>
           pad4 y @ ''-'' @ pad2 m @ ''-'' @ pad2 d @ ''T'' @
           pad2 (r div 3600) @ '':'' @ pad2 (r div 60 mod 60) @ '':'' @ pad2 (r mod 60) @ ''Z'')"

text \<open>Go's \<open>parseUint\<close>: exactly the digits of \<open>s\<close>, between two bounds.\<close>

definition parse_uint :: "string \<Rightarrow> int \<Rightarrow> int \<Rightarrow> int option" where
  "parse_uint s lo hi =
     (let v = int (digits_val 0 s)
      in if s \<noteq> [] \<and> list_all is_digit s \<and> lo \<le> v \<and> v \<le> hi then Some v else None)"

definition parse_date :: "string \<Rightarrow> int option" where
  "parse_date s =
     (case (parse_uint (take 4 s) 0 9999, parse_uint (take 2 (drop 5 s)) 1 12) of
        (Some y, Some m) \<Rightarrow>
          (case parse_uint (take 2 (drop 8 s)) 1 (days_in y m) of
             Some d \<Rightarrow>
               if s ! 4 = CHR ''-'' \<and> s ! 7 = CHR ''-'' then Some (days_from_civil y m d) else None
           | None \<Rightarrow> None)
      | _ \<Rightarrow> None)"

definition parse_clock :: "string \<Rightarrow> int option" where
  "parse_clock s =
     (case (parse_uint (take 2 s) 0 23, parse_uint (take 2 (drop 3 s)) 0 59, parse_uint (take 2 (drop 6 s)) 0 59) of
        (Some h, Some m, Some sec) \<Rightarrow>
          if s ! 2 = CHR '':'' \<and> s ! 5 = CHR '':'' then Some (h * 3600 + m * 60 + sec) else None
      | _ \<Rightarrow> None)"

text \<open>The optional fraction: its first nine digits are nanoseconds.\<close>

definition parse_fraction :: "string \<Rightarrow> int \<times> string" where
  "parse_fraction s =
     (if 2 \<le> length s \<and> hd s = CHR ''.'' \<and> is_digit (s ! 1) then
        (let ds = takeWhile is_digit (tl s)
         in (int (digits_val 0 (take 9 (ds @ replicate 9 CHR ''0''))), dropWhile is_digit (tl s)))
      else (0, s))"

definition parse_zone :: "string \<Rightarrow> int option" where
  "parse_zone s =
     (if s = ''Z'' then Some 0
      else if length s \<noteq> 6 \<or> (hd s \<noteq> CHR ''-'' \<and> hd s \<noteq> CHR ''+'') \<or> s ! 3 \<noteq> CHR '':'' then None
      else (case (parse_uint (take 2 (drop 1 s)) 0 23, parse_uint (take 2 (drop 4 s)) 0 59) of
              (Some h, Some m) \<Rightarrow>
                Some (if hd s = CHR ''-'' then - ((h * 60 + m) * 60) else (h * 60 + m) * 60)
            | _ \<Rightarrow> None))"

definition parse_rfc3339 :: "string \<Rightarrow> gotime option" where
  "parse_rfc3339 s =
     (if length s < 20 \<or> s ! 10 \<noteq> CHR ''T'' then None
      else (case (parse_date s, parse_clock (drop 11 s), parse_fraction (drop 19 s)) of
              (Some days, Some secs, (ns, rest)) \<Rightarrow>
                (case parse_zone rest of
                   Some off \<Rightarrow> Some ((days * 86400 + secs - off) * second + ns)
                 | None \<Rightarrow> None)
            | _ \<Rightarrow> None))"

lemmas [go_defs] = zero_time_def is_zero_time_def second_def millisecond_def minute_def
  civil_from_days_def days_from_civil_def leap_year_def days_in_def pad2_def pad4_def
  format_rfc3339_def parse_uint_def parse_date_def parse_clock_def parse_fraction_def
  parse_zone_def parse_rfc3339_def

lemma second_pos [simp]: "0 < second"
  by (simp add: second_def)

lemma format_rfc3339_nonempty [simp]: "format_rfc3339 t \<noteq> []"
  by (simp add: format_rfc3339_def Let_def split: prod.split)

end
