(* ===== verification/Pool_Types.thy ===== *)
theory Pool_Types
  imports Go_Strings Go_Float Go_Time
begin

text \<open>
  \<open>apps/desktop/ippool/types.go\<close>: the data of the continuous IP discovery pool (statuses,
  sources, evidence, fingerprints, pool entries, the payloads sent to the frontend) and its
  configuration with \<open>normalized\<close>. A pointer that may be nil is an \<open>option\<close>; Go's 64-bit
  \<open>int\<close> counters are \<open>int\<close> (they count probes and never reach \<open>2 ^ 63\<close>).
\<close>

section \<open>Statuses, sources, strengths\<close>

datatype DeviceStatus =
  StatusCandidate | StatusActive | StatusRecentlySeen | StatusStale | StatusUnreachable

datatype Source =
  SourceSeed | SourceGateway | SourceARP | SourceRoute | SourceDNS | SourceCandidate | SourcePassive

fun source_string :: "Source \<Rightarrow> string" where
  "source_string SourceSeed = ''seed''"
| "source_string SourceGateway = ''gateway''"
| "source_string SourceARP = ''arp''"
| "source_string SourceRoute = ''route''"
| "source_string SourceDNS = ''dns''"
| "source_string SourceCandidate = ''candidate''"
| "source_string SourcePassive = ''passive_packet''"

text \<open>
  Evidence enters through a binding of the frontend, so its strength is any string; the
  code compares it with three constants.
\<close>

type_synonym EvidenceStrength = string

definition StrengthConfirmed :: EvidenceStrength where "StrengthConfirmed = ''confirmed''"
definition StrengthInferred :: EvidenceStrength where "StrengthInferred = ''inferred''"
definition StrengthWeak :: EvidenceStrength where "StrengthWeak = ''weak''"

section \<open>Evidence and fingerprints\<close>

record EvidenceItem =
  ev_Type :: string
  ev_Source :: string
  ev_Value :: string
  ev_Timestamp :: string
  ev_ConfidenceImpact :: float64
  ev_Strength :: EvidenceStrength

definition empty_evidence :: EvidenceItem where
  "empty_evidence = \<lparr>ev_Type = [], ev_Source = [], ev_Value = [], ev_Timestamp = [],
     ev_ConfidenceImpact = 0, ev_Strength = []\<rparr>"

text \<open>The constants \<open>mobileOS*\<close> and \<open>mobileStrength*\<close> of \<open>mobile_fingerprint.go\<close>.\<close>

datatype MobileOS = OS_IOS | OS_IPadOS | OS_Android | OS_Unknown

fun os_string :: "MobileOS \<Rightarrow> string" where
  "os_string OS_IOS = ''ios''"
| "os_string OS_IPadOS = ''ipados''"
| "os_string OS_Android = ''android''"
| "os_string OS_Unknown = ''unknown''"

datatype MobileStrength = Strong | Medium | Weak

record MobileEvidenceItem =
  me_ID :: string
  me_Type :: string
  me_Value :: string
  me_OSHint :: MobileOS
  me_ConfidenceImpact :: int
  me_Strength :: MobileStrength
  me_Source :: string
  me_Timestamp :: string
  me_Explanation :: string

record MobileConflictItem =
  mc_Reason :: string
  mc_IOSEvidenceIDs :: "string list"
  mc_AndroidEvidenceIDs :: "string list"
  mc_Severity :: string
  mc_ResolutionHint :: string

text \<open>The classifications of \<open>mobile_fingerprint.go\<close>.\<close>

datatype MobileClass =
  ConfirmedIOS | ProbableIOS | PossibleIOS
  | ConfirmedIPadOS | ProbableIPadOS | PossibleIPadOS
  | ConfirmedAndroid | ProbableAndroid | PossibleAndroid
  | MobileConflict | UnknownMobile | UnknownDevice

record MobileFingerprint =
  mf_Classification :: MobileClass
  mf_IOSScore :: int
  mf_AndroidScore :: int
  mf_IPadScore :: int
  mf_Confidence :: float64
  mf_Evidence :: "MobileEvidenceItem list"
  mf_Conflicts :: "MobileConflictItem list"
  mf_Warnings :: "string list"
  mf_LastUpdatedAt :: string
  mf_WhyThisClassification :: string
  mf_WhyNotCertain :: string

section \<open>Pool entries and payloads\<close>

record DevicePoolEntry =
  pe_ID :: string
  pe_IP :: string
  pe_MAC :: string
  pe_Hostname :: string
  pe_Vendor :: string
  pe_FirstSeen :: string
  pe_LastSeen :: string
  pe_LastProbeAt :: string
  pe_Status :: DeviceStatus
  pe_ResponseCount :: int
  pe_FailureCount :: int
  pe_AvgLatencyMs :: "float64 option"
  pe_TTL :: "int option"
  pe_Source :: Source
  pe_Evidence :: "EvidenceItem list"
  pe_MobileFingerprint :: "MobileFingerprint option"
  pe_DeviceTypeHint :: string
  pe_OSHint :: string
  pe_OSConfidence :: float64
  pe_OSEvidenceSummary :: "string list"

text \<open>The composite literal \<open>&DevicePoolEntry{ID: ..., IP: ..., FirstSeen: ..., Source: ...}\<close>.\<close>

definition new_entry :: "string \<Rightarrow> string \<Rightarrow> Source \<Rightarrow> DevicePoolEntry" where
  "new_entry ip now src =
     \<lparr>pe_ID = ''ip-'' @ ip, pe_IP = ip, pe_MAC = [], pe_Hostname = [], pe_Vendor = [],
      pe_FirstSeen = now, pe_LastSeen = [], pe_LastProbeAt = [], pe_Status = StatusCandidate,
      pe_ResponseCount = 0, pe_FailureCount = 0, pe_AvgLatencyMs = None, pe_TTL = None,
      pe_Source = src, pe_Evidence = [], pe_MobileFingerprint = None, pe_DeviceTypeHint = [],
      pe_OSHint = [], pe_OSConfidence = 0, pe_OSEvidenceSummary = []\<rparr>"

record MobileFingerprintUpdatedPayload =
  mu_DeviceID :: string
  mu_IPAddresses :: "string list"
  mu_Hostname :: string
  mu_MobileFingerprint :: MobileFingerprint
  mu_UpdatedAt :: string

record ProbeResultPayload =
  pr_IP :: string
  pr_Reachable :: bool
  pr_LatencyMs :: float64
  pr_TTL :: int
  pr_Method :: string
  pr_Timestamp :: int

record StatusSnapshot =
  ss_Running :: bool
  ss_Seeds :: "string list"
  ss_ActiveCount :: int
  ss_RecentlyCount :: int
  ss_StaleCount :: int
  ss_CandidateCount :: int
  ss_CandidateQueue :: int
  ss_Subnets :: "string list"
  ss_LastProbeAt :: int
  ss_ProbesPerSec :: float64
  ss_Concurrency :: int
  ss_Warnings :: "string list"

section \<open>Configuration\<close>

record Config =
  MaxConcurrency :: int
  MaxProbesPerSec :: float64
  PingTimeout :: duration
  PingCount :: int
  ActiveInterval :: duration
  StaleInterval :: duration
  CandidateRate :: float64
  BatchInterval :: duration
  JitterFraction :: float64
  RecentlyAfter :: int
  StaleAfter :: int
  CandidateFailMax :: int
  MaxAutoPrefix :: int
  WarnPrefix :: int
  BlockPrefix :: int
  MaxPoolSize :: int
  PerformanceMode :: bool
  MobileRefreshInterval :: duration

definition DefaultConfig :: Config where
  "DefaultConfig =
     \<lparr>MaxConcurrency = 16, MaxProbesPerSec = 8, PingTimeout = second, PingCount = 1,
      ActiveInterval = 20 * second, StaleInterval = 3 * minute, CandidateRate = 4,
      BatchInterval = 750 * millisecond, JitterFraction = 1 / 4, RecentlyAfter = 1,
      StaleAfter = 3, CandidateFailMax = 2, MaxAutoPrefix = 24, WarnPrefix = 23,
      BlockPrefix = 16, MaxPoolSize = 4096, PerformanceMode = False,
      MobileRefreshInterval = minute\<rparr>"

text \<open>The assignments of \<open>normalized\<close> in order: performance mode is applied between two clamps.\<close>

definition normalized :: "Config \<Rightarrow> Config" where
  "normalized c =
     (let c = c\<lparr>MaxConcurrency := (if MaxConcurrency c \<le> 0 then 16 else MaxConcurrency c)\<rparr>;
          c = c\<lparr>MaxConcurrency := (if PerformanceMode c \<and> MaxConcurrency c > 6 then 6 else MaxConcurrency c)\<rparr>;
          c = c\<lparr>MaxProbesPerSec := (if PerformanceMode c \<and> MaxProbesPerSec c > 4 then 4 else MaxProbesPerSec c)\<rparr>;
          c = c\<lparr>MaxProbesPerSec := (if MaxProbesPerSec c \<le> 0 then 8 else MaxProbesPerSec c)\<rparr>;
          c = c\<lparr>PingTimeout := (if PingTimeout c \<le> 0 then second else PingTimeout c)\<rparr>;
          c = c\<lparr>BatchInterval := (if BatchInterval c \<le> 0 then 750 * millisecond else BatchInterval c)\<rparr>;
          c = c\<lparr>MaxPoolSize := (if MaxPoolSize c \<le> 0 then 4096 else MaxPoolSize c)\<rparr>
      in c\<lparr>MobileRefreshInterval := (if MobileRefreshInterval c \<le> 0 then minute else MobileRefreshInterval c)\<rparr>)"

text \<open>What \<open>normalized\<close> does to each field; the scope settings are not clamped.\<close>

lemma normalized_fields [pool_simps]:
  "MaxConcurrency (normalized c) =
     (let m = (if MaxConcurrency c \<le> 0 then 16 else MaxConcurrency c)
      in if PerformanceMode c \<and> m > 6 then 6 else m)"
  "MaxProbesPerSec (normalized c) =
     (let r = (if PerformanceMode c \<and> MaxProbesPerSec c > 4 then 4 else MaxProbesPerSec c)
      in if r \<le> 0 then 8 else r)"
  "PingTimeout (normalized c) = (if PingTimeout c \<le> 0 then second else PingTimeout c)"
  "PingCount (normalized c) = PingCount c"
  "ActiveInterval (normalized c) = ActiveInterval c"
  "StaleInterval (normalized c) = StaleInterval c"
  "CandidateRate (normalized c) = CandidateRate c"
  "BatchInterval (normalized c) = (if BatchInterval c \<le> 0 then 750 * millisecond else BatchInterval c)"
  "JitterFraction (normalized c) = JitterFraction c"
  "RecentlyAfter (normalized c) = RecentlyAfter c"
  "StaleAfter (normalized c) = StaleAfter c"
  "CandidateFailMax (normalized c) = CandidateFailMax c"
  "MaxAutoPrefix (normalized c) = MaxAutoPrefix c"
  "WarnPrefix (normalized c) = WarnPrefix c"
  "BlockPrefix (normalized c) = BlockPrefix c"
  "MaxPoolSize (normalized c) = (if MaxPoolSize c \<le> 0 then 4096 else MaxPoolSize c)"
  "PerformanceMode (normalized c) = PerformanceMode c"
  "MobileRefreshInterval (normalized c) =
     (if MobileRefreshInterval c \<le> 0 then minute else MobileRefreshInterval c)"
  by (simp_all add: normalized_def Let_def)

lemma normalized_positive:
  "0 < MaxConcurrency (normalized c)" "0 < MaxProbesPerSec (normalized c)"
  "0 < PingTimeout (normalized c)" "0 < BatchInterval (normalized c)"
  "0 < MaxPoolSize (normalized c)" "0 < MobileRefreshInterval (normalized c)"
  by (simp_all add: pool_simps Let_def second_def millisecond_def minute_def)

lemma normalized_idem:
  assumes "\<not> (PerformanceMode c \<and> MaxProbesPerSec c \<le> 0)"
  shows "normalized (normalized c) = normalized c"
  using assms
  by (intro Config.equality)
    (simp_all add: pool_simps Let_def second_def millisecond_def minute_def)

text \<open>
  a normalised configuration has positive limits, keeps the scope prefixes as configured,
  and normalising twice changes nothing, except in performance mode with no rate set: there
  the default of 8 probes per second is applied after the cap of 4 and survives one pass
  (\<open>New\<close> hands the once-normalised configuration to the scheduler).
\<close>

theorem normalized_safe:
  "0 < MaxConcurrency (normalized c) \<and> 0 < MaxProbesPerSec (normalized c) \<and>
   0 < PingTimeout (normalized c) \<and> 0 < BatchInterval (normalized c) \<and>
   0 < MaxPoolSize (normalized c) \<and> 0 < MobileRefreshInterval (normalized c) \<and>
   MaxAutoPrefix (normalized c) = MaxAutoPrefix c \<and>
   (normalized (normalized c) = normalized c \<longleftrightarrow> \<not> (PerformanceMode c \<and> MaxProbesPerSec c \<le> 0)) \<and>
   MaxProbesPerSec (normalized (c\<lparr>PerformanceMode := True, MaxProbesPerSec := 0\<rparr>)) = 8"
proof -
  have "normalized (normalized c) \<noteq> normalized c" if "PerformanceMode c" "MaxProbesPerSec c \<le> 0"
  proof
    assume "normalized (normalized c) = normalized c"
    then have "MaxProbesPerSec (normalized (normalized c)) = MaxProbesPerSec (normalized c)" by simp
    with that show False by (simp add: pool_simps Let_def)
  qed
  moreover have "MaxProbesPerSec (normalized (c\<lparr>PerformanceMode := True, MaxProbesPerSec := 0\<rparr>)) = 8"
    by (simp add: pool_simps)
  ultimately show ?thesis
    using normalized_positive [of c] normalized_idem [of c] by (auto simp: pool_simps(13))
qed

end
