(* ===== verification/Go_Net.thy ===== *)
theory Go_Net
  imports Go_Strings "HOL-Library.Word"
begin

text \<open>
  The parts of Go's packages \<open>net\<close>, \<open>net/netip\<close> and \<open>encoding/binary\<close> the program uses:
  parsing and printing of addresses and CIDR blocks, the address predicates, masks and the
  conversion between four bytes and a 32-bit word. A \<open>net.IP\<close> is a list of 4 or 16 bytes,
  \<open>nil\<close> is \<open>None\<close>; an IPv4 address parsed from text has the 16-byte form with the prefix
  \<open>::ffff:0:0/96\<close>, as in Go.
\<close>

unbundle bit_operations_syntax

type_synonym byte = "8 word"
type_synonym uint32 = "32 word"
type_synonym net_ip = "byte list"

definition v4_in_v6 :: "byte list" where
  "v4_in_v6 = replicate 10 0 @ [0xff, 0xff]"

section \<open>Parsing and printing addresses\<close>

text \<open>\<open>netip.parseIPv4Fields\<close>: \<open>val\<close> and \<open>dl\<close> are the value and the digits of the current field.\<close>

fun v4_loop :: "string \<Rightarrow> nat \<Rightarrow> nat \<Rightarrow> byte list \<Rightarrow> byte list option" where
  "v4_loop [] val dl fs = (if length fs < 3 then None else Some (fs @ [of_nat val]))"
| "v4_loop (c # cs) val dl fs =
     (if is_digit c then
        (if dl = 1 \<and> val = 0 then None
         else if val * 10 + digit_val c > 255 then None
         else v4_loop cs (val * 10 + digit_val c) (Suc dl) fs)
      else if c = CHR ''.'' then
        (if dl = 0 \<or> cs = [] then None
         else if length fs = 3 then None
         else v4_loop cs 0 0 (fs @ [of_nat val]))
      else None)"

definition parse_v4_fields :: "string \<Rightarrow> byte list option" where
  "parse_v4_fields s = v4_loop s 0 0 []"

definition hex_val :: "char \<Rightarrow> nat option" where
  "hex_val c =
     (let n = byte_of c
      in if 48 \<le> n \<and> n \<le> 57 then Some (n - 48)
         else if 97 \<le> n \<and> n \<le> 102 then Some (n - 87)
         else if 65 \<le> n \<and> n \<le> 70 then Some (n - 55)
         else None)"

text \<open>One group of \<open>netip.parseIPv6\<close>: the digits read, their value and what follows.\<close>

fun hex_run :: "nat \<Rightarrow> nat \<Rightarrow> string \<Rightarrow> (nat \<times> nat \<times> string) option" where
  "hex_run off acc [] = Some (off, acc, [])"
| "hex_run off acc (c # cs) =
     (case hex_val c of
        None \<Rightarrow> Some (off, acc, c # cs)
      | Some v \<Rightarrow>
          if off > 3 then None
          else if acc * 16 + v > 65535 then None
          else hex_run (Suc off) (acc * 16 + v) cs)"

text \<open>
  The loop over the groups: the first argument counts the groups that still fit (the loop
  condition \<open>i < 16\<close>), \<open>ip\<close> the bytes written, \<open>el\<close> the position of the ellipsis.
\<close>

fun v6_loop :: "nat \<Rightarrow> byte list \<Rightarrow> nat option \<Rightarrow> string \<Rightarrow> (byte list \<times> nat option \<times> string) option" where
  "v6_loop 0 ip el s = Some (ip, el, s)"
| "v6_loop (Suc n) ip el s =
     (case hex_run 0 0 s of
        None \<Rightarrow> None
      | Some (off, acc, rest) \<Rightarrow>
          if off = 0 then None
          else if rest \<noteq> [] \<and> hd rest = CHR ''.'' then
            (if el = None \<and> length ip \<noteq> 12 then None
             else if length ip + 4 > 16 then None
             else map_option (\<lambda>f. (ip @ f, el, [])) (parse_v4_fields s))
          else
            (let ip' = ip @ [of_nat (acc div 256), of_nat (acc mod 256)]
             in case rest of
                  [] \<Rightarrow> Some (ip', el, [])
                | c # cs \<Rightarrow>
                    if c \<noteq> CHR '':'' then None
                    else if cs = [] then None
                    else if hd cs = CHR '':'' then
                      (if el \<noteq> None then None
                       else if tl cs = [] then Some (ip', Some (length ip'), [])
                       else v6_loop n ip' (Some (length ip')) (tl cs))
                    else v6_loop n ip' el cs))"

definition v6_finish :: "byte list \<times> nat option \<times> string \<Rightarrow> byte list option" where
  "v6_finish r =
     (case r of (ip, el, s) \<Rightarrow>
        if s \<noteq> [] then None
        else if length ip < 16 then
          map_option (\<lambda>e. take e ip @ replicate (16 - length ip) 0 @ drop e ip) el
        else if el \<noteq> None then None
        else Some ip)"

definition parse_v6 :: "string \<Rightarrow> byte list option" where
  "parse_v6 s =
     (if has_prefix s ''::'' then
        (if length s = 2 then Some (replicate 16 0)
         else Option.bind (v6_loop 8 [] (Some 0) (drop 2 s)) v6_finish)
      else Option.bind (v6_loop 8 [] None s) v6_finish)"

text \<open>
  \<open>netip.ParseAddr\<close> looks at the first of the bytes \<open>.\<close>, \<open>:\<close> and \<open>%\<close>. The result
  tells IPv4 (4 bytes) and IPv6 (16 bytes) apart; addresses with a zone are dropped by
  every caller below, so a \<open>%\<close> gives \<open>None\<close>.
\<close>

fun first_sep :: "string \<Rightarrow> char option" where
  "first_sep [] = None"
| "first_sep (c # cs) =
     (if c = CHR ''.'' \<or> c = CHR '':'' \<or> c = CHR 37 then Some c else first_sep cs)"

definition parse_addr :: "string \<Rightarrow> byte list option" where
  "parse_addr s =
     (case first_sep s of
        None \<Rightarrow> None
      | Some c \<Rightarrow>
          if c = CHR ''.'' then parse_v4_fields s
          else if c = CHR '':'' then (if CHR 37 \<in> set s then None else parse_v6 s)
          else None)"

definition as16 :: "byte list \<Rightarrow> net_ip" where
  "as16 b = (if length b = 4 then v4_in_v6 @ b else b)"

definition parse_ip :: "string \<Rightarrow> net_ip option" where
  "parse_ip s = map_option as16 (parse_addr s)"

text \<open>\<open>(IP).To4\<close> and, for four bytes, \<open>(IP).String\<close>.\<close>

definition to4 :: "net_ip \<Rightarrow> byte list option" where
  "to4 ip =
     (if length ip = 4 then Some ip
      else if length ip = 16 \<and> take 12 ip = v4_in_v6 then Some (drop 12 ip)
      else None)"

definition v4_string :: "byte list \<Rightarrow> string" where
  "v4_string b = str_join (map (\<lambda>x. nat_digits (unat x)) b) ''.''"

section \<open>Predicates on addresses\<close>

definition is_loopback :: "net_ip \<Rightarrow> bool" where
  "is_loopback ip =
     (case to4 ip of Some b \<Rightarrow> b ! 0 = 127 | None \<Rightarrow> ip = replicate 15 0 @ [1])"

definition is_multicast :: "net_ip \<Rightarrow> bool" where
  "is_multicast ip =
     (case to4 ip of Some b \<Rightarrow> b ! 0 AND 0xf0 = 0xe0 | None \<Rightarrow> length ip = 16 \<and> ip ! 0 = 0xff)"

definition is_unspecified :: "net_ip \<Rightarrow> bool" where
  "is_unspecified ip = (to4 ip = Some [0, 0, 0, 0] \<or> ip = replicate 16 0)"

definition is_private :: "net_ip \<Rightarrow> bool" where
  "is_private ip =
     (case to4 ip of
        Some b \<Rightarrow> b ! 0 = 10 \<or> (b ! 0 = 172 \<and> b ! 1 AND 0xf0 = 16) \<or> (b ! 0 = 192 \<and> b ! 1 = 168)
      | None \<Rightarrow> length ip = 16 \<and> ip ! 0 AND 0xfe = 0xfc)"

definition is_link_local_unicast :: "net_ip \<Rightarrow> bool" where
  "is_link_local_unicast ip =
     (case to4 ip of
        Some b \<Rightarrow> b ! 0 = 169 \<and> b ! 1 = 254
      | None \<Rightarrow> length ip = 16 \<and> ip ! 0 = 0xfe \<and> ip ! 1 AND 0xc0 = 0x80)"

definition is_link_local_multicast :: "net_ip \<Rightarrow> bool" where
  "is_link_local_multicast ip =
     (case to4 ip of
        Some b \<Rightarrow> b ! 0 = 224 \<and> b ! 1 = 0 \<and> b ! 2 = 0
      | None \<Rightarrow> length ip = 16 \<and> ip ! 0 = 0xff \<and> ip ! 1 AND 0x0f = 0x02)"

section \<open>Masks and networks\<close>

text \<open>\<open>net.CIDRMask\<close> for a mask of \<open>len\<close> bytes.\<close>

fun cidr_mask :: "nat \<Rightarrow> nat \<Rightarrow> byte list" where
  "cidr_mask ones 0 = []"
| "cidr_mask ones (Suc len) =
     (if 8 \<le> ones then 0xff # cidr_mask (ones - 8) len
      else NOT (drop_bit ones 0xff) # cidr_mask 0 len)"

text \<open>A network: its address (4 or 16 bytes) and the number of leading one bits of its mask.\<close>

record IPNet =
  net_addr :: "byte list"
  net_ones :: nat

definition net_bits :: "IPNet \<Rightarrow> nat" where
  "net_bits n = 8 * length (net_addr n)"

definition mask_ip :: "byte list \<Rightarrow> nat \<Rightarrow> byte list" where
  "mask_ip b ones = map2 (AND) b (cidr_mask ones (length b))"

text \<open>\<open>net.dtoi\<close>: decimal digits up to \<open>0xFFFFFF\<close>; the whole string must be digits.\<close>

definition dtoi_all :: "string \<Rightarrow> nat option" where
  "dtoi_all s =
     (if s = [] \<or> \<not> list_all is_digit s \<or> digits_val 0 s \<ge> 0xFFFFFF then None
      else Some (digits_val 0 s))"

text \<open>\<open>net.ParseCIDR\<close>: the address written, and the masked network.\<close>

definition parse_cidr :: "string \<Rightarrow> (net_ip \<times> IPNet) option" where
  "parse_cidr s =
     (case index_byte s CHR ''/'' of
        None \<Rightarrow> None
      | Some i \<Rightarrow>
          (case (parse_addr (take i s), dtoi_all (drop (Suc i) s)) of
             (Some b, Some n) \<Rightarrow>
               if n > 8 * length b then None
               else Some (as16 b, \<lparr>net_addr = mask_ip b n, net_ones = n\<rparr>)
           | _ \<Rightarrow> None))"

definition net_string :: "IPNet \<Rightarrow> string" where
  "net_string n = v4_string (net_addr n) @ ''/'' @ nat_digits (net_ones n)"

definition net_contains :: "IPNet \<Rightarrow> net_ip \<Rightarrow> bool" where
  "net_contains n ip =
     (let x = (case to4 ip of Some b \<Rightarrow> b | None \<Rightarrow> ip)
      in length x = length (net_addr n) \<and>
         mask_ip (net_addr n) (net_ones n) = mask_ip x (net_ones n))"

section \<open>Big-endian 32-bit words\<close>

definition be_uint32 :: "byte list \<Rightarrow> uint32" where
  "be_uint32 b =
     of_nat (unat (b ! 0) * 2 ^ 24 + unat (b ! 1) * 2 ^ 16 + unat (b ! 2) * 2 ^ 8 + unat (b ! 3))"

definition put_uint32 :: "uint32 \<Rightarrow> byte list" where
  "put_uint32 v =
     (let n = unat v
      in [of_nat (n div 2 ^ 24), of_nat (n div 2 ^ 16), of_nat (n div 2 ^ 8), of_nat n])"

lemmas [go_defs] = parse_v4_fields_def hex_val_def v6_finish_def parse_v6_def parse_addr_def
  as16_def parse_ip_def to4_def v4_string_def is_loopback_def is_multicast_def
  is_unspecified_def is_private_def is_link_local_unicast_def is_link_local_multicast_def
  net_bits_def mask_ip_def dtoi_all_def parse_cidr_def net_string_def net_contains_def
  be_uint32_def put_uint32_def

lemmas v6_loop_numeral [go_defs] = v6_loop.simps(2) [of "pred_numeral k", folded numeral_eq_Suc] for k

section \<open>Facts: bytes and words\<close>

lemma length4E:
  assumes "length b = 4" obtains a1 a2 a3 a4 where "b = [a1, a2, a3, a4]"
  using assms by (auto simp: numeral_eq_Suc length_Suc_conv)

lemma length_put_uint32 [simp]: "length (put_uint32 v) = 4"
  by (simp add: put_uint32_def Let_def)

lemma unat_byte_less: "unat (b :: byte) < 256"
  using unsigned_less [of b] by simp

lemma unat_uint32_less: "unat (v :: uint32) < 4294967296"
  using unsigned_less [of v] by simp

lemma unat_of_nat_byte: "unat (of_nat n :: byte) = n mod 256"
  by (simp add: unsigned_of_nat take_bit_eq_mod)

lemma unat_of_nat_uint32: "unat (of_nat n :: uint32) = n mod 4294967296"
  by (simp add: unsigned_of_nat take_bit_eq_mod)

lemma of_nat_byte_eq: "n mod 256 = unat (b :: byte) \<Longrightarrow> (of_nat n :: byte) = b"
  by (simp add: word_unat_eq_iff unat_of_nat_byte)

lemma unat_be_uint32:
  "unat (be_uint32 [a, b, c, d]) = unat a * 16777216 + unat b * 65536 + unat c * 256 + unat d"
proof -
  have "unat a * 2 ^ 24 + unat b * 2 ^ 16 + unat c * 2 ^ 8 + unat d < 4294967296"
    using unat_byte_less [of a] unat_byte_less [of b] unat_byte_less [of c] unat_byte_less [of d]
    by simp
  then have "unat (be_uint32 [a, b, c, d]) = unat a * 2 ^ 24 + unat b * 2 ^ 16 + unat c * 2 ^ 8 + unat d"
    unfolding be_uint32_def unat_of_nat_uint32 by (simp del: One_nat_def)
  then show ?thesis by simp
qed

lemma horner256:
  assumes "(b::nat) < 256" "c < 256" "d < 256" and n: "n = a * 16777216 + b * 65536 + c * 256 + d"
  shows "n div 16777216 = a" "n div 65536 mod 256 = b" "n div 256 mod 256 = c" "n mod 256 = d"
proof -
  have n3: "n = ((a * 256 + b) * 256 + c) * 256 + d" using n by simp
  have q: "(q * 256 + r) div 256 = q" "(q * 256 + r) mod 256 = r" if "r < 256" for q r :: nat
    using that by simp_all
  have d1: "n div 256 = (a * 256 + b) * 256 + c" "n mod 256 = d"
    unfolding n3 by (rule q [OF assms(3)])+
  have d2: "n div 65536 = a * 256 + b"
    using div_mult2_eq [of n 256 256] assms(2) by (simp add: d1)
  have d3: "n div 16777216 = a"
    using div_mult2_eq [of n 65536 256] assms(1) by (simp add: d2)
  show "n div 16777216 = a" "n div 65536 mod 256 = b" "n div 256 mod 256 = c" "n mod 256 = d"
    unfolding d1 d2 d3 by (rule refl q(2) assms(1,2))+
qed

lemma split256:
  "(n::nat) = n div 16777216 * 16777216 + n div 65536 mod 256 * 65536 + n div 256 mod 256 * 256 + n mod 256"
proof -
  have "n = n div 256 * 256 + n mod 256" by simp
  moreover have "n div 256 = n div 65536 * 256 + n div 256 mod 256"
    using div_mult2_eq [of n 256 256] div_mult_mod_eq [of "n div 256" 256] by simp
  moreover have "n div 65536 = n div 16777216 * 256 + n div 65536 mod 256"
    using div_mult2_eq [of n 65536 256] div_mult_mod_eq [of "n div 65536" 256] by simp
  ultimately show ?thesis by linarith
qed

lemma put_be_uint32 [simp]:
  assumes "length b = 4" shows "put_uint32 (be_uint32 b) = b"
proof -
  from assms obtain a1 a2 a3 a4 where b: "b = [a1, a2, a3, a4]" by (rule length4E)
  let ?n = "unat (be_uint32 b)"
  have "?n = unat a1 * 16777216 + unat a2 * 65536 + unat a3 * 256 + unat a4"
    by (simp only: b unat_be_uint32)
  note h = horner256 [OF unat_byte_less unat_byte_less unat_byte_less this]
  have "?n div 2 ^ 24 mod 256 = unat a1" "?n div 2 ^ 16 mod 256 = unat a2"
    "?n div 2 ^ 8 mod 256 = unat a3" "?n mod 256 = unat a4"
    using h unat_byte_less [of a1] by simp_all
  then show ?thesis
    unfolding put_uint32_def Let_def by (simp only: of_nat_byte_eq b)
qed

lemma be_put_uint32 [simp]: "be_uint32 (put_uint32 v) = v"
proof -
  have "unat v div 16777216 mod 256 = unat v div 16777216" using unat_uint32_less [of v] by simp
  then have "unat (be_uint32 (put_uint32 v)) = unat v"
    unfolding put_uint32_def Let_def unat_be_uint32 unat_of_nat_byte
    using split256 [of "unat v"] by simp
  then show ?thesis by (simp only: word_unat_eq_iff)
qed

lemma put_uint32_inject [simp]: "put_uint32 v = put_uint32 w \<longleftrightarrow> v = w"
  by (metis be_put_uint32)

section \<open>Printing then parsing an IPv4 address\<close>

lemma v4_loop_digits:
  assumes "n < 256"
  shows "v4_loop (nat_digits n @ rest) 0 0 fs = v4_loop rest n (length (nat_digits n)) fs"
proof -
  consider "n < 10" | "10 \<le> n" "n < 100" | "100 \<le> n" by linarith
  then show ?thesis
  proof cases
    case 1
    then show ?thesis by (simp add: nat_digits.simps [of n])
  next
    case 2
    then have "n div 10 < 10" "n div 10 \<noteq> 0" by auto
    with 2 assms show ?thesis by (simp add: nat_digits.simps [of n] nat_digits.simps [of "n div 10"])
  next
    case 3
    then have d: "n div 100 < 10" "n div 100 \<noteq> 0" "n div 10 mod 10 < 10" "\<not> n div 10 < 10"
      using assms by auto
    have e: "n div 100 * 10 + n div 10 mod 10 = n div 10"
      using div_mult_mod_eq [of "n div 10" 10] by (simp add: div_mult2_eq [symmetric])
    have m: "n div 10 \<le> 25" "n mod 10 < 10" "n div 10 * 10 + n mod 10 = n" using assms by auto
    have digs: "nat_digits n = [digit_char (n div 100), digit_char (n div 10 mod 10), digit_char (n mod 10)]"
      using 3 d by (simp add: nat_digits.simps [of n] nat_digits.simps [of "n div 10"]
          nat_digits.simps [of "n div 100"] div_mult2_eq [symmetric])
    show ?thesis using d(1-3) e m assms by (auto simp: digs simp del: div_eq_0_iff)
  qed
qed

lemma length_nat_digits_pos [simp]: "0 < length (nat_digits n)"
  by simp

lemma dot_not_digit [simp]: "\<not> is_digit CHR ''.''" "\<not> is_digit CHR ''/''"
  by (simp_all add: is_digit_def byte_of_def)

lemma parse_v4_string: "length b = 4 \<Longrightarrow> parse_v4_fields (v4_string b) = Some b"
  by (auto elim!: length4E
      simp: v4_string_def parse_v4_fields_def v4_loop_digits unat_byte_less
        v4_loop_digits [where rest = "[]", simplified])

lemma first_sep_digits: "list_all is_digit ds \<Longrightarrow> first_sep (ds @ rest) = first_sep rest"
  by (induction ds) (auto simp: is_digit_def byte_of_def)

lemma parse_addr_v4_string: "length b = 4 \<Longrightarrow> parse_addr (v4_string b) = Some b"
proof -
  assume b: "length b = 4"
  then have "first_sep (v4_string b) = Some CHR ''.''"
    by (auto elim!: length4E simp: v4_string_def first_sep_digits nat_digits_digits)
  with b show ?thesis by (simp add: parse_addr_def parse_v4_string)
qed

lemma parse_ip_v4_string: "length b = 4 \<Longrightarrow> parse_ip (v4_string b) = Some (v4_in_v6 @ b)"
  by (simp add: parse_ip_def parse_addr_v4_string as16_def)

lemma length_v4_in_v6 [simp]: "length v4_in_v6 = 12"
  by (simp add: v4_in_v6_def)

lemma to4_mapped [simp]: "length b = 4 \<Longrightarrow> to4 (v4_in_v6 @ b) = Some b"
  by (simp add: to4_def)

lemma to4_length4 [simp]: "length b = 4 \<Longrightarrow> to4 b = Some b"
  by (simp add: to4_def)

lemma length_to4: "to4 ip = Some b \<Longrightarrow> length b = 4"
  by (auto simp: to4_def split: if_splits)

lemma inj_v4_string:
  "length a = 4 \<Longrightarrow> length b = 4 \<Longrightarrow> v4_string a = v4_string b \<Longrightarrow> a = b"
  by (metis parse_v4_string option.inject)

section \<open>Lengths\<close>

lemma length_cidr_mask [simp]: "length (cidr_mask ones len) = len"
  by (induction len arbitrary: ones) auto

lemma length_mask_ip [simp]: "length (mask_ip b n) = length b"
  by (simp add: mask_ip_def)

lemma v4_loop_length: "v4_loop s v d fs = Some b \<Longrightarrow> length fs \<le> 3 \<Longrightarrow> length b = 4"
  by (induction s v d fs rule: v4_loop.induct) (auto split: if_splits)

lemma parse_v4_length: "parse_v4_fields s = Some b \<Longrightarrow> length b = 4"
  by (auto simp: parse_v4_fields_def dest: v4_loop_length)

lemma v6_loop_step:
  assumes "v6_loop (Suc n) ip el s = Some (r, el', s')"
  shows "(\<exists>f. parse_v4_fields s = Some f \<and> length ip + 4 \<le> 16 \<and> r = ip @ f) \<or>
    (\<exists>x y. r = ip @ [x, y]) \<or>
    (\<exists>x y e t. v6_loop n (ip @ [x, y]) e t = Some (r, el', s'))"
proof -
  obtain off acc rest where h: "hex_run 0 0 s = Some (off, acc, rest)"
    using assms by (cases "hex_run 0 0 s") auto
  show ?thesis
  proof (cases "rest \<noteq> [] \<and> hd rest = CHR ''.''")
    case True
    with assms h show ?thesis by (auto split: if_splits)
  next
    case False
    then show ?thesis using assms h
      by (cases rest) (auto simp: Let_def split: if_splits)
  qed
qed

lemma v6_loop_length:
  "v6_loop n ip el s = Some (r, el', s') \<Longrightarrow> length ip + 2 * n = 16 \<Longrightarrow> length r \<le> 16"
proof (induction n arbitrary: ip el s)
  case (Suc n)
  from v6_loop_step [OF Suc.prems(1)] show ?case
  proof (elim disjE exE conjE)
    fix x y e t
    assume "v6_loop n (ip @ [x, y]) e t = Some (r, el', s')"
    then show ?thesis using Suc by auto
  qed (use Suc.prems in \<open>auto dest: parse_v4_length\<close>)
qed simp

lemma v6_finish_length:
  "v6_finish (ip, el, s) = Some b \<Longrightarrow> length ip \<le> 16 \<Longrightarrow> length b = 16"
  by (auto simp: v6_finish_def split: if_splits)

lemma parse_v6_length: "parse_v6 s = Some b \<Longrightarrow> length b = 16"
  using v6_loop_length [of 8 "[]"] v6_finish_length
  by (fastforce simp: parse_v6_def bind_eq_Some_conv split: if_splits)

lemma parse_addr_length: "parse_addr s = Some b \<Longrightarrow> length b = 4 \<or> length b = 16"
  by (auto simp: parse_addr_def split: option.splits if_splits
      dest: parse_v4_length parse_v6_length)

lemma parse_ip_length: "parse_ip s = Some ip \<Longrightarrow> length ip = 16"
  by (auto simp: parse_ip_def as16_def dest!: parse_addr_length)

end
