(* ===== verification/Net_Laws.thy ===== *)
theory Net_Laws
  imports Go_Net
begin

text \<open>
  Facts on addresses and networks that the scope rules of the discovery pool and of the agent
  share: tests on bytes, the private blocks by their first two bytes, masks of IPv4 networks.
\<close>

unbundle bit_operations_syntax

section \<open>Addresses\<close>

text \<open>A statement on bytes, checked for the 256 of them.\<close>

lemma byte_all:
  assumes "\<forall>n \<in> set [0..<256]. P (of_nat n :: byte)" shows "P b"
proof -
  have b: "(of_nat (unat b) :: byte) = b" by simp
  have "P (of_nat (unat b))" using assms unat_byte_less [of b] by (simp del: of_nat_unat)
  then show ?thesis by (simp only: b)
qed

lemma and_masks_table:
  "\<forall>n \<in> set [0..<256]. ((of_nat n :: byte) AND 0xf0 = 16) = (16 \<le> (of_nat n :: byte) \<and> (of_nat n :: byte) \<le> 31)"
  "\<forall>n \<in> set [0..<256]. (of_nat n :: byte) AND 0xfe = 0xfc \<longrightarrow> (of_nat n :: byte) = 0xfc \<or> (of_nat n :: byte) = 0xfd"
  by code_simp+

lemma and_f0_16: "(b :: byte) AND 0xf0 = 16 \<longleftrightarrow> 16 \<le> b \<and> b \<le> 31"
  by (rule byte_all [where P = "\<lambda>b. (b AND 0xf0 = 16) = (16 \<le> b \<and> b \<le> 31)", OF and_masks_table(1)])

lemma and_fe_fc: "(b :: byte) AND 0xfe = 0xfc \<Longrightarrow> b = 0xfc \<or> b = 0xfd"
  using byte_all [where P = "\<lambda>b. b AND 0xfe = 0xfc \<longrightarrow> b = 0xfc \<or> b = 0xfd", OF and_masks_table(2)]
  by blast

text \<open>The private IPv4 blocks, by the first two bytes.\<close>

definition private2 :: "byte \<Rightarrow> byte \<Rightarrow> bool" where
  "private2 a b = (a = 10 \<or> (a = 172 \<and> 16 \<le> b \<and> b \<le> 31) \<or> (a = 192 \<and> b = 168))"

lemma is_private_v4: "to4 ip = Some [a, b, c, d] \<Longrightarrow> is_private ip \<longleftrightarrow> private2 a b"
  by (auto simp: is_private_def private2_def and_f0_16)

lemma to4_zero: "to4 (replicate 16 0) = None"
  by code_simp

lemma private_disjoint:
  assumes "length ip = 16" "is_private ip \<or> is_link_local_unicast ip"
  shows "\<not> is_loopback ip" "\<not> is_multicast ip" "\<not> is_unspecified ip"
proof -
  have "\<not> is_loopback ip \<and> \<not> is_multicast ip \<and> \<not> is_unspecified ip"
  proof (cases "to4 ip")
    case (Some b)
    then obtain a1 a2 a3 a4 where b: "b = [a1, a2, a3, a4]"
      using length_to4 length4E by blast
    have "a1 = 10 \<or> a1 = 172 \<or> a1 = 192 \<or> a1 = 169"
      using assms(2) Some by (auto simp: b is_private_def is_link_local_unicast_def)
    moreover have "ip \<noteq> replicate 16 0"
    proof
      assume "ip = replicate 16 0"
      then show False using Some to4_zero by simp
    qed
    ultimately show ?thesis
      using Some by (auto simp: b is_loopback_def is_multicast_def is_unspecified_def)
  next
    case None
    have "ip ! 0 = 0xfc \<or> ip ! 0 = 0xfd \<or> ip ! 0 = 0xfe"
      using assms(2) None by (auto simp: is_private_def is_link_local_unicast_def dest: and_fe_fc)
    moreover have "(replicate 15 0 @ [1 :: byte]) ! 0 = 0" "replicate 16 (0 :: byte) ! 0 = 0"
      by (simp_all add: nth_append)
    ultimately show ?thesis
      using None by (auto simp: is_loopback_def is_multicast_def is_unspecified_def)
  qed
  then show "\<not> is_loopback ip" "\<not> is_multicast ip" "\<not> is_unspecified ip" by auto
qed

section \<open>Networks\<close>

lemma parse_cidr_SomeE:
  assumes "parse_cidr s = Some (ip, n)"
  obtains b where "ip = as16 b" "net_addr n = mask_ip b (net_ones n)"
    "net_ones n \<le> 8 * length b" "length b = 4 \<or> length b = 16"
  using assms parse_addr_length
  by (fastforce simp: parse_cidr_def split: option.splits if_splits)

text \<open>Masking with 16 or more ones keeps the first two bytes.\<close>

lemma byte_and_ff [simp]: "(b :: byte) AND 0xff = b" "0xff AND (b :: byte) = b"
proof -
  have "(0xff :: byte) = - 1" by simp
  then show "b AND 0xff = b" "0xff AND b = b" by (simp_all only: and.right_neutral and.left_neutral)
qed

lemmas cidr_mask_numeral = cidr_mask.simps(2) [of _ "pred_numeral k", folded numeral_eq_Suc] for k

lemma mask_ip_v4:
  "mask_ip [a, b, c, d] n =
     (case cidr_mask n 4 of [m1, m2, m3, m4] \<Rightarrow> [a AND m1, b AND m2, c AND m3, d AND m4] | _ \<Rightarrow> [])"
  by (auto simp: mask_ip_def cidr_mask_numeral split: list.split)

lemma mask_ip_first_two:
  assumes "16 \<le> n"
  shows "\<exists>c' d'. mask_ip [a, b, c, d] n = [a, b, c', d']"
proof -
  obtain k where n: "n = 16 + k" using assms le_Suc_ex by blast
  have "cidr_mask n 4 = 0xff # 0xff # cidr_mask k 2" by (simp add: cidr_mask_numeral n)
  moreover obtain x y where "cidr_mask k 2 = [x, y]"
    using length_cidr_mask [of k 2] by (auto simp: numeral_eq_Suc length_Suc_conv)
  ultimately have "cidr_mask n 4 = [0xff, 0xff, x, y]" by simp
  then show ?thesis by (simp add: mask_ip_v4)
qed

text \<open>An IPv4 address with the same masked value lies in the network.\<close>

lemma private_block:
  assumes "16 \<le> n" "mask_ip [a, b, c, d] n = [x, y, z, w]"
  shows "a = x" "b = y"
  using mask_ip_first_two [OF assms(1), of a b c d] assms(2) by auto

end
