(* ===== verification/Scope_Guard.thy ===== *)
theory Scope_Guard
  imports Pool_Types Net_Laws
begin

text \<open>
  \<open>apps/desktop/ippool/scope_guard.go\<close>: which addresses may be probed (\<open>AllowIP\<close>) and
  which subnets may be enumerated (\<open>AllowCIDR\<close>). The lemmas show that a positive answer
  means a private (or, when enabled, link-local) address, and that a subnet allowed without
  confirmation holds such addresses only.
\<close>

record ScopeGuard =
  sg_AllowLinkLocal :: bool
  sg_MaxAutoPrefix :: int
  sg_WarnPrefix :: int
  sg_BlockPrefix :: int

definition NewScopeGuard :: "Config \<Rightarrow> ScopeGuard" where
  "NewScopeGuard cfg =
     \<lparr>sg_AllowLinkLocal = False, sg_MaxAutoPrefix = MaxAutoPrefix cfg,
      sg_WarnPrefix = WarnPrefix cfg, sg_BlockPrefix = BlockPrefix cfg\<rparr>"

definition AllowIP :: "ScopeGuard \<Rightarrow> string \<Rightarrow> bool \<times> string" where
  "AllowIP g ipStr =
     (case parse_ip ipStr of
        None \<Rightarrow> (False, ''not a valid IP address'')
      | Some ip \<Rightarrow>
          if is_loopback ip then (False, ''loopback addresses are not probed'')
          else if is_multicast ip \<or> is_unspecified ip then
            (False, ''multicast/unspecified addresses are not probed'')
          else if is_private ip then (True, [])
          else if sg_AllowLinkLocal g \<and> is_link_local_unicast ip then (True, [])
          else if is_link_local_unicast ip then
            (False, ''link-local target rejected (enable only when the interface is link-local)'')
          else (False, ''public/non-private targets are never scanned by default''))"

text \<open>The boolean answer alone, \<open>ok, _ := AllowIP(ip)\<close>.\<close>

abbreviation allowed_ip :: "ScopeGuard \<Rightarrow> string \<Rightarrow> bool" where
  "allowed_ip g ip \<equiv> fst (AllowIP g ip)"

record CIDRDecision =
  cd_Allowed :: bool
  cd_Warning :: string
  cd_Reason :: string
  cd_Prefix :: int

text \<open>\<open>1 << (32 - prefix)\<close> on a 64-bit \<open>int\<close>, for the prefixes 0 to 32 of IPv4.\<close>

definition hostCount :: "nat \<Rightarrow> int" where
  "hostCount prefix = (if prefix \<ge> 31 then 2 ^ (32 - prefix) else 2 ^ (32 - prefix) - 2)"

text \<open>The UTF-8 bytes of the dash in the messages.\<close>

definition em_dash :: string where
  "em_dash = [CHR 0xE2, CHR 0x80, CHR 0x94]"

definition AllowCIDR :: "ScopeGuard \<Rightarrow> string \<Rightarrow> bool \<Rightarrow> CIDRDecision" where
  "AllowCIDR g cidr confirmed =
     (case parse_cidr cidr of
        None \<Rightarrow>
          \<lparr>cd_Allowed = False, cd_Warning = [],
           cd_Reason = ''invalid CIDR '' @ quote_str cidr @ '': invalid CIDR address: '' @ cidr,
           cd_Prefix = 0\<rparr>
      | Some (_, ipNet) \<Rightarrow>
          (let ones = net_ones ipNet;
               d = \<lparr>cd_Allowed = False, cd_Warning = [], cd_Reason = [], cd_Prefix = int ones\<rparr>
           in if net_bits ipNet \<noteq> 32 then
                d\<lparr>cd_Reason := ''automatic enumeration is limited to IPv4 subnets''\<rparr>
              else case AllowIP g (v4_string (net_addr ipNet)) of
                (False, reason) \<Rightarrow> d\<lparr>cd_Reason := reason\<rparr>
              | (True, _) \<Rightarrow>
                  if int ones \<ge> sg_MaxAutoPrefix g then d\<lparr>cd_Allowed := True\<rparr>
                  else if int ones \<le> sg_BlockPrefix g then
                    (if confirmed then
                       d\<lparr>cd_Allowed := True,
                         cd_Warning := ''scanning /'' @ itoa (int ones) @ '' is a large scope ('' @
                           itoa (hostCount ones) @ '' hosts) '' @ em_dash @
                           '' proceeding because the user confirmed''\<rparr>
                     else
                       d\<lparr>cd_Reason := ''/'' @ itoa (int ones) @ '' ('' @ itoa (hostCount ones) @
                           '' hosts) exceeds the automatic limit; explicit user confirmation required''\<rparr>)
                  else
                    d\<lparr>cd_Allowed := True,
                      cd_Warning := ''/'' @ itoa (int ones) @ '' ('' @ itoa (hostCount ones) @
                        '' hosts) is larger than the default /'' @ itoa (sg_MaxAutoPrefix g) @ '' '' @
                        em_dash @ '' scanning will be slow and rate-limited''\<rparr>))"

lemmas [go_defs] = AllowIP_def AllowCIDR_def NewScopeGuard_def

section \<open>AllowIP\<close>

text \<open>The order of the tests of \<open>AllowIP\<close> does not matter for a positive answer.\<close>

lemma allowed_ip_iff:
  "allowed_ip g s \<longleftrightarrow>
     (\<exists>ip. parse_ip s = Some ip \<and> (is_private ip \<or> (sg_AllowLinkLocal g \<and> is_link_local_unicast ip)))"
proof (cases "parse_ip s")
  case (Some ip)
  then have "length ip = 16" by (rule parse_ip_length)
  with Some private_disjoint [of ip] show ?thesis by (auto simp: AllowIP_def)
qed (simp add: AllowIP_def)

lemma AllowIP_eq: "AllowIP g s = (allowed_ip g s, snd (AllowIP g s))"
  by simp

lemma allowed_reason: "snd (AllowIP g s) = [] \<longleftrightarrow> allowed_ip g s"
  by (auto simp: AllowIP_def split: option.splits)

lemma allowed_v4_iff:
  assumes "\<not> sg_AllowLinkLocal g"
  shows "allowed_ip g (v4_string [a, b, c, d]) \<longleftrightarrow> private2 a b"
  using assms by (simp add: allowed_ip_iff parse_ip_v4_string is_private_v4)

text \<open>
  an address passes the guard exactly when it parses and is private (RFC 1918 or RFC
  4193) or, when the guard enables it, link-local; an accepted address is never loopback,
  multicast or unspecified, and only an accepted one has no rejection reason.
\<close>

theorem AllowIP_private_only:
  "(fst (AllowIP g s) \<longleftrightarrow>
     (\<exists>ip. parse_ip s = Some ip \<and> (is_private ip \<or> (sg_AllowLinkLocal g \<and> is_link_local_unicast ip)) \<and>
        \<not> is_loopback ip \<and> \<not> is_multicast ip \<and> \<not> is_unspecified ip)) \<and>
   (snd (AllowIP g s) = [] \<longleftrightarrow> fst (AllowIP g s))"
  unfolding allowed_ip_iff allowed_reason
  using private_disjoint parse_ip_length by blast

section \<open>AllowCIDR\<close>

lemma AllowCIDR_allowed_iff:
  "cd_Allowed (AllowCIDR g cidr confirmed) \<longleftrightarrow>
     (\<exists>ip n. parse_cidr cidr = Some (ip, n) \<and> length (net_addr n) = 4 \<and>
        allowed_ip g (v4_string (net_addr n)) \<and>
        (sg_MaxAutoPrefix g \<le> int (net_ones n) \<or> sg_BlockPrefix g < int (net_ones n) \<or> confirmed))"
  by (auto simp: AllowCIDR_def net_bits_def Let_def split: option.splits prod.splits bool.splits)

text \<open>
  A subnet of at most \<open>/16\<close> that the guard allows holds only addresses the guard
  allows: every IPv4 address of the block passes \<open>AllowIP\<close>. (\<open>AllowCIDR\<close> itself tests only
  the base address of the network.)
\<close>

theorem AllowCIDR_block_private:
  assumes "cd_Allowed (AllowCIDR g cidr confirmed)" and "parse_cidr cidr = Some (ip, n)"
    and "16 \<le> net_ones n" and "length h = 4" and "net_contains n h"
  shows "allowed_ip g (v4_string h)"
proof -
  from assms(1,2) have len: "length (net_addr n) = 4" and ok: "allowed_ip g (v4_string (net_addr n))"
    by (auto simp: AllowCIDR_allowed_iff)
  obtain x y z w where na: "net_addr n = [x, y, z, w]" using len by (rule length4E)
  obtain a b c d where h: "h = [a, b, c, d]" using assms(4) by (rule length4E)
  from assms(5) have m: "mask_ip [a, b, c, d] (net_ones n) = mask_ip [x, y, z, w] (net_ones n)"
    by (simp add: net_contains_def h na)
  from mask_ip_first_two [OF assms(3), of x y z w] obtain z' w'
    where "mask_ip [x, y, z, w] (net_ones n) = [x, y, z', w']" by blast
  then have ab: "a = x" "b = y"
    using private_block [OF assms(3), of a b c d x y z' w'] m by simp_all
  from ok show ?thesis
    unfolding allowed_ip_iff na h ab
    by (auto simp: parse_ip_v4_string is_private_v4 is_link_local_unicast_def)
qed

theorem AllowCIDR_block_private_witness:
  "allowed_ip (NewScopeGuard DefaultConfig) (v4_string [192, 168, 1, 77])"
proof (rule AllowCIDR_block_private)
  show "parse_cidr ''192.168.1.0/24'' =
      Some (v4_in_v6 @ [192, 168, 1, 0], \<lparr>net_addr = [192, 168, 1, 0], net_ones = 24\<rparr>)"
    by (simp add: go_defs cidr_mask_numeral)
  then show "cd_Allowed (AllowCIDR (NewScopeGuard DefaultConfig) ''192.168.1.0/24'' False)"
    unfolding AllowCIDR_allowed_iff
    by (simp add: NewScopeGuard_def DefaultConfig_def allowed_v4_iff private2_def)
  show "net_contains \<lparr>net_addr = [192, 168, 1, 0], net_ones = 24\<rparr> [192, 168, 1, 77]"
    by (simp add: go_defs cidr_mask_numeral)
qed simp_all

text \<open>
  \<open>AllowCIDR\<close> decides as documented on the size of an IPv4 subnet: at or below
  \<open>MaxAutoPrefix\<close> allowed without a warning, between the limits allowed with a warning, at
  \<open>BlockPrefix\<close> or larger only when confirmed; a refusal always gives a reason. The setting
  \<open>WarnPrefix\<close> has no influence on the decision.
\<close>

theorem AllowCIDR_decision:
  "(cd_Allowed (AllowCIDR g cidr confirmed) \<longleftrightarrow>
     (\<exists>ip n. parse_cidr cidr = Some (ip, n) \<and> length (net_addr n) = 4 \<and>
        allowed_ip g (v4_string (net_addr n)) \<and>
        (sg_MaxAutoPrefix g \<le> int (net_ones n) \<or> sg_BlockPrefix g < int (net_ones n) \<or> confirmed))) \<and>
   (cd_Allowed (AllowCIDR g cidr confirmed) \<longleftrightarrow> cd_Reason (AllowCIDR g cidr confirmed) = []) \<and>
   (cd_Warning (AllowCIDR g cidr confirmed) \<noteq> [] \<longleftrightarrow>
      cd_Allowed (AllowCIDR g cidr confirmed) \<and>
      cd_Prefix (AllowCIDR g cidr confirmed) < sg_MaxAutoPrefix g) \<and>
   AllowCIDR (g\<lparr>sg_WarnPrefix := w\<rparr>) cidr confirmed = AllowCIDR g cidr confirmed"
proof -
  have ip: "AllowIP (g\<lparr>sg_WarnPrefix := w\<rparr>) s = AllowIP g s" for s
    by (simp add: AllowIP_def split: option.split)
  have r: "cd_Allowed (AllowCIDR g cidr confirmed) \<longleftrightarrow> cd_Reason (AllowCIDR g cidr confirmed) = []"
    using allowed_reason [of g]
    by (auto simp: AllowCIDR_def Let_def split: option.splits prod.splits bool.splits)
      (metis fst_conv snd_conv)+
  have "cd_Warning (AllowCIDR g cidr confirmed) \<noteq> [] \<longleftrightarrow>
      cd_Allowed (AllowCIDR g cidr confirmed) \<and>
      cd_Prefix (AllowCIDR g cidr confirmed) < sg_MaxAutoPrefix g"
    by (auto simp: AllowCIDR_def Let_def split: option.splits prod.splits bool.splits)
  moreover have "AllowCIDR (g\<lparr>sg_WarnPrefix := w\<rparr>) cidr confirmed = AllowCIDR g cidr confirmed"
    by (simp add: AllowCIDR_def ip Let_def split: option.split prod.split bool.split)
  ultimately show ?thesis using r AllowCIDR_allowed_iff by blast
qed

text \<open>
  with confirmation the guard allows \<open>10.0.0.0/7\<close>, whose base address is private but
  which contains the public block \<open>11.0.0.0/8\<close>.
\<close>

theorem AllowCIDR_confirmed_public:
  "cd_Allowed (AllowCIDR (NewScopeGuard DefaultConfig) ''10.0.0.0/7'' True) \<and>
   (\<exists>n. map_option snd (parse_cidr ''10.0.0.0/7'') = Some n \<and> net_contains n [11, 0, 0, 1]) \<and>
   \<not> allowed_ip (NewScopeGuard DefaultConfig) (v4_string [11, 0, 0, 1])"
proof -
  have p: "parse_cidr ''10.0.0.0/7'' =
      Some (v4_in_v6 @ [10, 0, 0, 0], \<lparr>net_addr = [10, 0, 0, 0], net_ones = 7\<rparr>)"
    by (simp add: go_defs cidr_mask_numeral)
  have "net_contains \<lparr>net_addr = [10, 0, 0, 0], net_ones = 7\<rparr> [11, 0, 0, 1]"
    by (simp add: go_defs cidr_mask_numeral)
  then show ?thesis
    unfolding AllowCIDR_allowed_iff p
    by (simp add: NewScopeGuard_def DefaultConfig_def allowed_v4_iff private2_def)
qed

end
