(* ===== verification/Candidates.thy ===== *)
theory Candidates
  imports Scope_Guard
begin

text \<open>
  \<open>apps/desktop/ippool/candidate_generator.go\<close>: the prioritised host candidates of a
  subnet. \<open>GenerateFromSeed\<close> and \<open>boundedLargeSubnet\<close> call each other; the recursion is
  modelled with fuel, and running out of fuel is the value \<open>Inl Stack_Overflow\<close>. One unit is
  enough for a subnet no larger than the automatic limit, two are enough when the larger
  subnet contains the /24 of the seed and the limit is at most 24; in the other cases no fuel
  is enough (\<open>GenerateFromSeed_diverges\<close>).
\<close>

section \<open>The operations\<close>

datatype gen_error = Stack_Overflow | Index_Panic | Shift_Panic

definition uint32ToIP :: "uint32 \<Rightarrow> net_ip" where
  "uint32ToIP v = put_uint32 v"

definition ipLess :: "string \<Rightarrow> string \<Rightarrow> bool" where
  "ipLess a b =
     (case (Option.bind (parse_ip a) to4, Option.bind (parse_ip b) to4) of
        (Some ai, Some bi) \<Rightarrow> be_uint32 ai < be_uint32 bi
      | _ \<Rightarrow> str_less a b)"

definition SubnetOf :: "string \<Rightarrow> int \<Rightarrow> string" where
  "SubnetOf ip prefix =
     (case Option.bind (parse_ip ip) to4 of
        None \<Rightarrow> []
      | Some parsed \<Rightarrow>
          (let p = (if prefix \<le> 0 \<or> prefix > 32 then 24 else nat prefix)
           in net_string \<lparr>net_addr = mask_ip parsed p, net_ones = p\<rparr>))"

text \<open>The closure \<open>add\<close>: the hosts seen and the ordered list grow together.\<close>

definition add_host :: "uint32 \<Rightarrow> uint32 \<Rightarrow> uint32 \<Rightarrow> uint32 list \<times> uint32 list \<Rightarrow> uint32 list \<times> uint32 list" where
  "add_host network broadcast host st =
     (case st of (seen, ordered) \<Rightarrow>
        if host \<le> network \<or> host \<ge> broadcast \<or> host \<in> set seen then (seen, ordered)
        else (host # seen, ordered @ [host]))"

text \<open>The loop \<open>for host := lo; host < hi; host++\<close>.\<close>

definition hosts_between :: "uint32 \<Rightarrow> uint32 \<Rightarrow> uint32 list" where
  "hosts_between lo hi = map of_nat [unat lo ..< unat hi]"

text \<open>The hosts offered to \<open>add\<close>, in order: infrastructure, neighbours, DHCP range, the rest.\<close>

definition offered_hosts :: "uint32 \<Rightarrow> uint32 \<Rightarrow> uint32 \<Rightarrow> uint32 list" where
  "offered_hosts network broadcast seed =
     map (\<lambda>last. network + last) [1, 254, 253, 252, 2] @
     concat (map (\<lambda>d. [seed + d, seed - d]) [1, 2, 3, 4]) @
     [seed] @
     map (\<lambda>last. network + of_nat last) [100 ..< 201] @
     hosts_between (network + 1) broadcast"

definition ordered_hosts :: "uint32 \<Rightarrow> uint32 \<Rightarrow> uint32 \<Rightarrow> uint32 list" where
  "ordered_hosts network broadcast seed =
     snd (fold (add_host network broadcast) (offered_hosts network broadcast seed)
            ([network, broadcast], []))"

text \<open>The output loop: addresses the guard rejects are skipped, and \<open>limit\<close> stops it.\<close>

definition emit_hosts :: "ScopeGuard \<Rightarrow> int \<Rightarrow> uint32 list \<Rightarrow> string list" where
  "emit_hosts g limit ordered =
     (let out = filter (allowed_ip g) (map (\<lambda>h. v4_string (uint32ToIP h)) ordered)
      in if limit > 0 then take (nat limit) out else out)"

definition default_net :: "byte list \<Rightarrow> IPNet" where
  "default_net ip = \<lparr>net_addr = mask_ip ip 24, net_ones = 24\<rparr>"

definition seed_net :: "byte list \<Rightarrow> string \<Rightarrow> IPNet" where
  "seed_net ip cidr =
     (case (if cidr = [] then None else parse_cidr cidr) of
        Some (_, n) \<Rightarrow> n
      | None \<Rightarrow> default_net ip)"

text \<open>
  The network handed to the second call: the /24 of the seed if the larger network contains
  it, else the larger network again (the text of a 16-byte network is the text it was parsed
  from).
\<close>

definition bounded_cidr :: "byte list \<Rightarrow> IPNet \<Rightarrow> string \<Rightarrow> string" where
  "bounded_cidr ip ipNet cidr =
     (let local = default_net ip
      in if net_contains ipNet (net_addr local) then net_string local
         else if length (net_addr ipNet) = 4 then net_string ipNet
         else cidr)"

fun GenerateFromSeed :: "nat \<Rightarrow> ScopeGuard \<Rightarrow> string \<Rightarrow> string \<Rightarrow> int \<Rightarrow> gen_error + string list" where
  "GenerateFromSeed 0 g seedIP cidr limit = Inl Stack_Overflow"
| "GenerateFromSeed (Suc fuel) g seedIP cidr limit =
     (case Option.bind (parse_ip seedIP) to4 of
        None \<Rightarrow> Inr []
      | Some ip \<Rightarrow>
          (let ipNet = seed_net ip cidr; ones = net_ones ipNet
           in if int ones < sg_MaxAutoPrefix g then
                GenerateFromSeed fuel g seedIP (bounded_cidr ip ipNet cidr)
                  (if limit \<le> 0 then 64 else limit)
              else case to4 (net_addr ipNet) of
                None \<Rightarrow> Inl Index_Panic
              | Some b \<Rightarrow>
                  if ones > 32 then Inl Shift_Panic
                  else
                    (let base = be_uint32 b;
                         broadcast = base + push_bit (32 - ones) 1 - 1
                     in Inr (emit_hosts g limit (ordered_hosts base broadcast (be_uint32 ip))))))"

lemmas [go_defs] = uint32ToIP_def ipLess_def SubnetOf_def add_host_def hosts_between_def
  offered_hosts_def ordered_hosts_def emit_hosts_def default_net_def seed_net_def bounded_cidr_def

section \<open>Networks print and parse back\<close>

lemma mask_ip_idem [simp]: "mask_ip (mask_ip b n) n = mask_ip b n"
proof -
  have "map2 (AND) (map2 (AND) xs ms) ms = map2 (AND) xs ms" for xs ms :: "byte list"
    by (induction xs ms rule: list_induct2') (simp_all add: and.assoc)
  then show ?thesis by (simp add: mask_ip_def)
qed

lemma index_slash: "CHR ''/'' \<notin> set s \<Longrightarrow> index_byte (s @ CHR ''/'' # t) CHR ''/'' = Some (length s)"
  by (induction s) auto

lemma set_nat_digits: "c \<in> set (nat_digits n) \<Longrightarrow> is_digit c"
  using nat_digits_digits [of n] by (simp add: list_all_iff)

lemma slash_notin_v4: "length b = 4 \<Longrightarrow> CHR ''/'' \<notin> set (v4_string b)"
  using set_nat_digits [of "CHR ''/''"] by (auto elim!: length4E simp: v4_string_def)

lemma parse_net_string:
  assumes "length (net_addr n) = 4" "net_ones n \<le> 32" "mask_ip (net_addr n) (net_ones n) = net_addr n"
  shows "parse_cidr (net_string n) = Some (v4_in_v6 @ net_addr n, n)"
proof -
  have "dtoi_all (nat_digits (net_ones n)) = Some (net_ones n)"
    using assms(2) by (simp add: dtoi_all_def digits_val_nat_digits nat_digits_digits)
  then show ?thesis
    using assms index_slash [OF slash_notin_v4 [OF assms(1)]]
    by (simp add: parse_cidr_def net_string_def parse_addr_v4_string as16_def)
qed

lemma default_net_props [simp]:
  "net_ones (default_net ip) = 24" "net_addr (default_net ip) = mask_ip ip 24"
  by (simp_all add: default_net_def)

lemma parse_default_net:
  "length ip = 4 \<Longrightarrow> parse_cidr (net_string (default_net ip)) = Some (v4_in_v6 @ mask_ip ip 24, default_net ip)"
  using parse_net_string [of "default_net ip"] by simp

lemma net_string_nonempty [simp]: "net_string n \<noteq> []"
  by (simp add: net_string_def)

lemma SubnetOf_parse:
  assumes "Option.bind (parse_ip ip) to4 = Some b"
    and p_def: "p = (if prefix \<le> 0 \<or> prefix > 32 then 24 else nat prefix)"
  shows "parse_cidr (SubnetOf ip prefix) =
    Some (v4_in_v6 @ mask_ip b p, \<lparr>net_addr = mask_ip b p, net_ones = p\<rparr>)"
proof -
  have "length b = 4" using assms(1) by (auto simp: bind_eq_Some_conv dest: length_to4)
  moreover have "p \<le> 32" by (auto simp: p_def)
  ultimately show ?thesis
    using parse_net_string [of "\<lparr>net_addr = mask_ip b p, net_ones = p\<rparr>"] assms(1)
    by (simp add: SubnetOf_def p_def Let_def)
qed

section \<open>The ordered hosts\<close>

text \<open>
  The reference for the ordering: the offered hosts strictly inside the subnet, each at its
  first occurrence.
\<close>

definition first_occurrences :: "'a list \<Rightarrow> 'a list" where
  "first_occurrences xs = rev (remdups (rev xs))"

lemma first_occurrences_props [simp]:
  "distinct (first_occurrences xs)" "set (first_occurrences xs) = set xs"
  by (simp_all add: first_occurrences_def)

lemma first_occurrences_snoc:
  "first_occurrences (xs @ [x]) =
     (if x \<in> set xs then first_occurrences xs else first_occurrences xs @ [x])"
  by (simp add: first_occurrences_def)

text \<open>\<open>seen\<close> is always the two excluded addresses and what has been emitted.\<close>

lemma fold_add_host:
  "fold (add_host network broadcast) hs ([network, broadcast], []) =
     (let ord = first_occurrences (filter (\<lambda>h. network < h \<and> h < broadcast) hs)
      in (rev ord @ [network, broadcast], ord))"
proof (induction hs rule: rev_induct)
  case (snoc h hs)
  then show ?case
    by (auto simp: add_host_def Let_def first_occurrences_snoc not_le not_less)
qed (simp add: first_occurrences_def)

lemma ordered_hosts_eq:
  "ordered_hosts network broadcast seed =
     first_occurrences (filter (\<lambda>h. network < h \<and> h < broadcast) (offered_hosts network broadcast seed))"
  by (simp add: ordered_hosts_def fold_add_host Let_def)

lemma set_hosts_between: "set (hosts_between lo hi) = {h. lo \<le> h \<and> h < hi}"
proof -
  have "h \<in> of_nat ` {unat lo ..< unat hi} \<longleftrightarrow> lo \<le> h \<and> h < hi" for h :: uint32
  proof
    assume "lo \<le> h \<and> h < hi"
    then have "unat h \<in> {unat lo ..< unat hi}" by (simp add: word_le_nat_alt word_less_nat_alt)
    then show "h \<in> of_nat ` {unat lo ..< unat hi}"
      by (intro image_eqI [where x = "unat h"]) simp_all
  next
    assume "h \<in> of_nat ` {unat lo ..< unat hi}"
    then obtain n where n: "h = of_nat n" "unat lo \<le> n" "n < unat hi" by auto
    moreover have "n < 4294967296" using n(3) unat_uint32_less [of hi] by simp
    ultimately show "lo \<le> h \<and> h < hi"
      by (simp add: word_le_nat_alt word_less_nat_alt unat_of_nat_uint32)
  qed
  then show ?thesis by (auto simp: hosts_between_def)
qed

lemma ordered_hosts_props [simp]:
  "distinct (ordered_hosts network broadcast seed)"
  "set (ordered_hosts network broadcast seed) = {h. network < h \<and> h < broadcast}"
proof -
  have "h \<in> set (offered_hosts network broadcast seed)" if "network < h" "h < broadcast" for h
  proof -
    have "network + 1 \<le> h" using that(1) by (rule inc_le)
    then show ?thesis using that(2) by (simp add: offered_hosts_def set_hosts_between)
  qed
  then show "distinct (ordered_hosts network broadcast seed)"
    "set (ordered_hosts network broadcast seed) = {h. network < h \<and> h < broadcast}"
    by (auto simp: ordered_hosts_eq)
qed

lemma inj_host_string: "inj (\<lambda>h. v4_string (uint32ToIP h))"
proof (rule injI)
  fix x y assume "v4_string (uint32ToIP x) = v4_string (uint32ToIP y)"
  then have "put_uint32 x = put_uint32 y" unfolding uint32ToIP_def by (rule inj_v4_string [rotated 2]) simp_all
  then show "x = y" by simp
qed

section \<open>The output\<close>

lemma emit_hosts_props:
  assumes "distinct hs"
  shows "distinct (emit_hosts g limit hs)"
    and "set (emit_hosts g limit hs) \<subseteq> (\<lambda>h. v4_string (uint32ToIP h)) ` set hs \<inter> {s. allowed_ip g s}"
    and "0 < limit \<Longrightarrow> int (length (emit_hosts g limit hs)) \<le> limit"
    and "limit \<le> 0 \<Longrightarrow>
      set (emit_hosts g limit hs) = (\<lambda>h. v4_string (uint32ToIP h)) ` set hs \<inter> {s. allowed_ip g s}"
proof -
  have "distinct (map (\<lambda>h. v4_string (uint32ToIP h)) hs)"
    using assms inj_host_string by (simp add: distinct_map inj_on_def)
  then show "distinct (emit_hosts g limit hs)" by (simp add: emit_hosts_def Let_def)
qed (auto simp: emit_hosts_def Let_def dest: in_set_takeD)

section \<open>Termination\<close>

lemma bind_to4_length: "Option.bind (parse_ip s) to4 = Some ip \<Longrightarrow> length ip = 4"
  by (auto simp: bind_eq_Some_conv dest: length_to4)

text \<open>One call is enough when the network is no larger than the automatic limit.\<close>

lemma GenerateFromSeed_direct:
  assumes "Option.bind (parse_ip seedIP) to4 = Some ip" "seed_net ip cidr = n"
    "sg_MaxAutoPrefix g \<le> int (net_ones n)" "length (net_addr n) = 4" "net_ones n \<le> 32"
  shows "GenerateFromSeed (Suc fuel) g seedIP cidr limit =
    Inr (emit_hosts g limit
      (ordered_hosts (be_uint32 (net_addr n))
         (be_uint32 (net_addr n) + push_bit (32 - net_ones n) 1 - 1) (be_uint32 ip)))"
  using assms by (simp add: Let_def)

lemma seed_net_string:
  assumes "length ip = 4"
  shows "seed_net ip (net_string (default_net ip)) = default_net ip"
  using parse_default_net [OF assms] by (simp add: seed_net_def)

lemma GenerateFromSeed_local:
  assumes "Option.bind (parse_ip seedIP) to4 = Some ip" "sg_MaxAutoPrefix g \<le> 24"
    "int (net_ones (seed_net ip cidr)) < sg_MaxAutoPrefix g"
    "net_contains (seed_net ip cidr) (mask_ip ip 24)"
  shows "GenerateFromSeed (Suc (Suc fuel)) g seedIP cidr limit =
    Inr (emit_hosts g (if limit \<le> 0 then 64 else limit)
      (ordered_hosts (be_uint32 (mask_ip ip 24)) (be_uint32 (mask_ip ip 24) + push_bit 8 1 - 1) (be_uint32 ip)))"
proof -
  have len: "length ip = 4" using assms(1) by (rule bind_to4_length)
  have c: "bounded_cidr ip (seed_net ip cidr) cidr = net_string (default_net ip)"
    using assms(4) by (simp add: bounded_cidr_def)
  have "GenerateFromSeed (Suc (Suc fuel)) g seedIP cidr limit =
    GenerateFromSeed (Suc fuel) g seedIP (net_string (default_net ip)) (if limit \<le> 0 then 64 else limit)"
    using assms(1,3) c by (subst GenerateFromSeed.simps) (simp add: Let_def)
  also have "\<dots> = Inr (emit_hosts g (if limit \<le> 0 then 64 else limit)
      (ordered_hosts (be_uint32 (net_addr (default_net ip)))
         (be_uint32 (net_addr (default_net ip)) + push_bit (32 - net_ones (default_net ip)) 1 - 1) (be_uint32 ip)))"
    by (rule GenerateFromSeed_direct [OF assms(1)])
      (use assms(2) len in \<open>simp_all add: seed_net_string\<close>)
  finally show ?thesis by simp
qed

text \<open>
  The recursion of the generator ends on the calls the manager makes: for the subnet
  \<open>SubnetOf(ip, MaxAutoPrefix)\<close> with a limit of at most 32, one call of \<open>GenerateFromSeed\<close>
  returns, whatever the fuel beyond it.
\<close>

theorem GenerateFromSeed_terminates:
  assumes "sg_MaxAutoPrefix g \<le> 32"
  shows "\<exists>out. \<forall>fuel. GenerateFromSeed (Suc fuel) g ip (SubnetOf ip (sg_MaxAutoPrefix g)) limit = Inr out"
proof (cases "Option.bind (parse_ip ip) to4")
  case None
  then show ?thesis by simp
next
  case (Some b)
  define p where "p = (if sg_MaxAutoPrefix g \<le> 0 \<or> sg_MaxAutoPrefix g > 32 then 24 else nat (sg_MaxAutoPrefix g))"
  note pr = SubnetOf_parse [OF Some p_def]
  have len: "length b = 4" using Some by (rule bind_to4_length)
  have "SubnetOf ip (sg_MaxAutoPrefix g) \<noteq> []" using Some by (simp add: SubnetOf_def Let_def)
  then have n: "seed_net b (SubnetOf ip (sg_MaxAutoPrefix g)) = \<lparr>net_addr = mask_ip b p, net_ones = p\<rparr>"
    using pr by (simp add: seed_net_def)
  have "sg_MaxAutoPrefix g \<le> int p" "p \<le> 32" using assms by (auto simp: p_def)
  then show ?thesis
    using GenerateFromSeed_direct [OF Some n] len by auto
qed

theorem GenerateFromSeed_terminates_witness:
  "\<exists>out. \<forall>fuel. GenerateFromSeed (Suc fuel) (NewScopeGuard DefaultConfig) ''192.168.1.20''
     (SubnetOf ''192.168.1.20'' 24) 0 = Inr out"
  using GenerateFromSeed_terminates [of "NewScopeGuard DefaultConfig" "''192.168.1.20''" 0]
  by (simp add: NewScopeGuard_def DefaultConfig_def)

text \<open>
  C35: for a subnet larger than the automatic limit the generator does not return when the
  limit exceeds 24 (the /24 of the seed is again too large) or when the subnet is IPv4 and
  does not contain the /24 of the seed (the same subnet is passed again): no fuel is enough.
\<close>

theorem GenerateFromSeed_diverges:
  assumes "Option.bind (parse_ip seedIP) to4 = Some ip"
    and "parse_cidr cidr = Some (a, n)" "length (net_addr n) = 4" "cidr \<noteq> []"
    and "int (net_ones n) < sg_MaxAutoPrefix g"
    and "24 < sg_MaxAutoPrefix g \<or> \<not> net_contains n (mask_ip ip 24)"
  shows "GenerateFromSeed fuel g seedIP cidr limit = Inl Stack_Overflow"
proof -
  have len: "length ip = 4" using assms(1) by (rule bind_to4_length)
  obtain b where nb: "net_addr n = mask_ip b (net_ones n)" "net_ones n \<le> 8 * length b" "length b = 4 \<or> length b = 16"
    using assms(2) by (rule parse_cidr_SomeE)
  then have rt: "parse_cidr (net_string n) = Some (v4_in_v6 @ net_addr n, n)"
    using parse_net_string [of n] assms(3) by simp
  have large: "int (net_ones (seed_net ip c)) < sg_MaxAutoPrefix g"
    and next_: "bounded_cidr ip (seed_net ip c) c \<in> {net_string n, net_string (default_net ip)}"
    and stay: "bounded_cidr ip (seed_net ip c) c = net_string (default_net ip) \<Longrightarrow> 24 < sg_MaxAutoPrefix g"
    if c: "c = cidr \<or> c = net_string n \<or> (c = net_string (default_net ip) \<and> 24 < sg_MaxAutoPrefix g)" for c
  proof -
    have sn: "seed_net ip c = n \<or> (seed_net ip c = default_net ip \<and> 24 < sg_MaxAutoPrefix g)"
      using c assms(2,4) rt seed_net_string [OF len] by (auto simp: seed_net_def)
    then show "int (net_ones (seed_net ip c)) < sg_MaxAutoPrefix g" using assms(5) by auto
    show "bounded_cidr ip (seed_net ip c) c \<in> {net_string n, net_string (default_net ip)}"
      using sn assms(3) len by (auto simp: bounded_cidr_def Let_def)
    show "24 < sg_MaxAutoPrefix g" if "bounded_cidr ip (seed_net ip c) c = net_string (default_net ip)"
    proof (rule ccontr)
      assume "\<not> 24 < sg_MaxAutoPrefix g"
      then have "seed_net ip c = n" "\<not> net_contains n (mask_ip ip 24)" using sn assms(6) by auto
      with that have "net_string n = net_string (default_net ip)"
        using assms(3) by (simp add: bounded_cidr_def)
      with rt parse_default_net [OF len] have "n = default_net ip"
        by (metis option.inject prod.inject)
      with \<open>\<not> net_contains n (mask_ip ip 24)\<close> len show False by (simp add: net_contains_def)
    qed
  qed
  have "GenerateFromSeed fuel g seedIP c l = Inl Stack_Overflow"
    if "c = cidr \<or> c = net_string n \<or> (c = net_string (default_net ip) \<and> 24 < sg_MaxAutoPrefix g)" for c l
    using that
  proof (induction fuel arbitrary: c l)
    case (Suc fuel)
    let ?c = "bounded_cidr ip (seed_net ip c) c"
    have "GenerateFromSeed (Suc fuel) g seedIP c l = GenerateFromSeed fuel g seedIP ?c (if l \<le> 0 then 64 else l)"
      using assms(1) large [OF Suc.prems] by (simp add: Let_def)
    moreover have "?c = cidr \<or> ?c = net_string n \<or> (?c = net_string (default_net ip) \<and> 24 < sg_MaxAutoPrefix g)"
      using next_ [OF Suc.prems] stay [OF Suc.prems] by auto
    ultimately show ?case using Suc.IH by simp
  qed simp
  then show ?thesis by simp
qed

section \<open>What is generated\<close>

text \<open>An example run, for the witnesses: the default guard on \<open>192.168.1.0/24\<close>.\<close>

lemma example_guard [simp]:
  "sg_MaxAutoPrefix (NewScopeGuard DefaultConfig) = 24"
  "sg_AllowLinkLocal (NewScopeGuard DefaultConfig) = False"
  "sg_BlockPrefix (NewScopeGuard DefaultConfig) = 16"
  by (simp_all add: NewScopeGuard_def DefaultConfig_def)

lemma example_ip: "Option.bind (parse_ip ''192.168.1.20'') to4 = Some [192, 168, 1, 20]"
  by (simp add: go_defs)

lemma example_cidr: "parse_cidr ''192.168.1.0/24'' =
    Some (v4_in_v6 @ [192, 168, 1, 0], \<lparr>net_addr = [192, 168, 1, 0], net_ones = 24\<rparr>)"
  by (simp add: go_defs cidr_mask_numeral)

lemma example_run:
  "\<exists>out. GenerateFromSeed 1 (NewScopeGuard DefaultConfig) ''192.168.1.20'' ''192.168.1.0/24'' 0 = Inr out"
proof -
  have "seed_net [192, 168, 1, 20] ''192.168.1.0/24'' = \<lparr>net_addr = [192, 168, 1, 0], net_ones = 24\<rparr>"
    by (simp add: seed_net_def example_cidr)
  from GenerateFromSeed_direct [OF example_ip this, of "NewScopeGuard DefaultConfig" 0 0]
  show ?thesis by (simp del: GenerateFromSeed.simps)
qed

text \<open>Every result comes from one output loop over the hosts of one network.\<close>

lemma GenerateFromSeed_shape:
  assumes "GenerateFromSeed fuel g seedIP cidr limit = Inr out"
  shows "out = [] \<or> (\<exists>network broadcast seed l. out = emit_hosts g l (ordered_hosts network broadcast seed) \<and>
    (0 < limit \<longrightarrow> l = limit))"
  using assms
proof (induction fuel arbitrary: cidr limit)
  case (Suc fuel)
  show ?case
  proof (cases "Option.bind (parse_ip seedIP) to4")
    case (Some ip)
    show ?thesis
    proof (cases "int (net_ones (seed_net ip cidr)) < sg_MaxAutoPrefix g")
      case True
      then have "GenerateFromSeed fuel g seedIP (bounded_cidr ip (seed_net ip cidr) cidr)
          (if limit \<le> 0 then 64 else limit) = Inr out"
        using Suc.prems Some by (simp add: Let_def)
      from Suc.IH [OF this] show ?thesis by (auto split: if_splits)
    next
      case False
      then show ?thesis
        using Suc.prems Some by (auto simp: Let_def split: option.splits if_splits)
    qed
  qed (use Suc.prems in simp)
qed simp

lemma GenerateFromSeed_laws:
  assumes "GenerateFromSeed fuel g seedIP cidr limit = Inr out"
  shows "distinct out \<and> (\<forall>s \<in> set out. fst (AllowIP g s)) \<and> (0 < limit \<longrightarrow> int (length out) \<le> limit)"
proof -
  from GenerateFromSeed_shape [OF assms] consider "out = []"
    | n b s l where "out = emit_hosts g l (ordered_hosts n b s)" "0 < limit \<longrightarrow> l = limit"
    by blast
  then show ?thesis
  proof cases
    case 2
    then show ?thesis
      using emit_hosts_props(1-3) [where hs = "ordered_hosts n b s" and g = g and limit = l] by auto
  qed simp
qed

text \<open>
  whatever the arguments, a list of candidates that is returned has no duplicates, every
  candidate passes the guard (so nothing outside private scope leaks in), and a positive
  limit bounds its length.
\<close>

theorem GenerateFromSeed_safe:
  assumes "GenerateFromSeed fuel g seedIP cidr limit = Inr out"
  shows "distinct out \<and> (\<forall>s \<in> set out. fst (AllowIP g s)) \<and> (0 < limit \<longrightarrow> int (length out) \<le> limit)"
  using assms by (rule GenerateFromSeed_laws)

theorem GenerateFromSeed_safe_witness:
  "\<exists>out. GenerateFromSeed 1 (NewScopeGuard DefaultConfig) ''192.168.1.20'' ''192.168.1.0/24'' 0 = Inr out \<and>
     distinct out \<and> (\<forall>s \<in> set out. fst (AllowIP (NewScopeGuard DefaultConfig) s))"
proof -
  obtain out where "GenerateFromSeed 1 (NewScopeGuard DefaultConfig) ''192.168.1.20'' ''192.168.1.0/24'' 0 = Inr out"
    using example_run by blast
  with GenerateFromSeed_safe [OF this] show ?thesis by blast
qed

text \<open>
  C34: for a subnet no larger than the automatic limit and no limit on the number, the
  candidates are exactly the addresses of the subnet the guard allows, without its network
  and broadcast address, in the documented order: infrastructure hosts, neighbours of the
  seed, the DHCP range, the rest, each at its first occurrence.
\<close>

theorem GenerateFromSeed_complete:
  assumes "Option.bind (parse_ip seedIP) to4 = Some ip" and "parse_cidr cidr = Some (a, n)" "cidr \<noteq> []"
    and "length (net_addr n) = 4" "net_ones n \<le> 32" "sg_MaxAutoPrefix g \<le> int (net_ones n)" "limit \<le> 0"
  shows "\<exists>out. GenerateFromSeed 1 g seedIP cidr limit = Inr out \<and>
    (let network = be_uint32 (net_addr n); broadcast = network + push_bit (32 - net_ones n) 1 - 1
     in out = filter (\<lambda>s. fst (AllowIP g s)) (map (\<lambda>h. v4_string (uint32ToIP h))
           (first_occurrences (filter (\<lambda>h. network < h \<and> h < broadcast)
             (offered_hosts network broadcast (be_uint32 ip))))) \<and>
        set out = {s. \<exists>h. s = v4_string (uint32ToIP h) \<and> network < h \<and> h < broadcast \<and> fst (AllowIP g s)})"
proof -
  let ?n = "be_uint32 (net_addr n)" and ?b = "be_uint32 (net_addr n) + push_bit (32 - net_ones n) 1 - 1"
  have sn: "seed_net ip cidr = n" using assms(2,3) by (simp add: seed_net_def)
  have g: "GenerateFromSeed 1 g seedIP cidr limit = Inr (emit_hosts g limit (ordered_hosts ?n ?b (be_uint32 ip)))"
    using GenerateFromSeed_direct [OF assms(1) sn assms(6,4,5), of 0 limit] by simp
  have e: "emit_hosts g limit (ordered_hosts ?n ?b (be_uint32 ip)) =
      filter (\<lambda>s. fst (AllowIP g s)) (map (\<lambda>h. v4_string (uint32ToIP h)) (ordered_hosts ?n ?b (be_uint32 ip)))"
    using assms(7) by (simp add: emit_hosts_def)
  have "set (emit_hosts g limit (ordered_hosts ?n ?b (be_uint32 ip))) =
      {s. \<exists>h. s = v4_string (uint32ToIP h) \<and> ?n < h \<and> h < ?b \<and> fst (AllowIP g s)}"
    unfolding e by auto
  then show ?thesis
    unfolding g Let_def using e by (auto simp: ordered_hosts_eq)
qed

theorem GenerateFromSeed_complete_witness:
  "\<exists>out. GenerateFromSeed 1 (NewScopeGuard DefaultConfig) ''192.168.1.20'' ''192.168.1.0/24'' 0 = Inr out"
proof -
  have p: "''192.168.1.0/24'' \<noteq> ''''" "length (net_addr \<lparr>net_addr = [192, 168, 1, 0 :: byte], net_ones = 24\<rparr>) = 4"
    "net_ones \<lparr>net_addr = [192, 168, 1, 0], net_ones = 24\<rparr> \<le> 32" "(0::int) \<le> 0"
    "sg_MaxAutoPrefix (NewScopeGuard DefaultConfig) \<le> int (net_ones \<lparr>net_addr = [192, 168, 1, 0], net_ones = 24\<rparr>)"
    by simp_all
  show ?thesis
    using GenerateFromSeed_complete [OF example_ip example_cidr p(1,2,3,5,4)] by blast
qed

theorem GenerateFromSeed_diverges_witness:
  "GenerateFromSeed 5 (NewScopeGuard DefaultConfig) ''192.168.1.20'' ''10.0.0.0/16'' 0 = Inl Stack_Overflow"
proof (rule GenerateFromSeed_diverges)
  show "Option.bind (parse_ip ''192.168.1.20'') to4 = Some [192, 168, 1, 20]"
    by (simp add: go_defs)
  show "parse_cidr ''10.0.0.0/16'' =
      Some (v4_in_v6 @ [10, 0, 0, 0], \<lparr>net_addr = [10, 0, 0, 0], net_ones = 16\<rparr>)"
    by (simp add: go_defs cidr_mask_numeral)
  show "24 < sg_MaxAutoPrefix (NewScopeGuard DefaultConfig) \<or>
      \<not> net_contains \<lparr>net_addr = [10, 0, 0, 0], net_ones = 16\<rparr> (mask_ip [192, 168, 1, 20] 24)"
    by (simp add: go_defs cidr_mask_numeral)
qed (simp_all add: NewScopeGuard_def DefaultConfig_def)

section \<open>ipLess\<close>

text \<open>On addresses that have an IPv4 form, \<open>ipLess\<close> is the numeric order.\<close>

definition is_v4 :: "string \<Rightarrow> bool" where
  "is_v4 s = (Option.bind (parse_ip s) to4 \<noteq> None)"

definition v4_num :: "string \<Rightarrow> uint32" where
  "v4_num s = (case Option.bind (parse_ip s) to4 of Some b \<Rightarrow> be_uint32 b | None \<Rightarrow> 0)"

lemma ipLess_v4: "is_v4 a \<Longrightarrow> is_v4 b \<Longrightarrow> ipLess a b \<longleftrightarrow> v4_num a < v4_num b"
  by (auto simp: is_v4_def v4_num_def ipLess_def)

interpretation ip_order: weak_order ipLess is_v4
  by unfold_locales (auto simp: ipLess_v4)

text \<open>
  With other strings it is not an order: the address \<open>10.0.0.9\<close> precedes \<open>10.0.0.10\<close>
  numerically, but a hostname between them as strings closes a cycle.
\<close>

lemma ipLess_cycle:
  "ipLess ''10.0.0.9'' ''10.0.0.10''"
  "ipLess ''10.0.0.10'' ''10.0.0.5x''"
  "ipLess ''10.0.0.5x'' ''10.0.0.9''"
  by (simp_all add: go_defs)

end
