(* ===== verification/Go_MAC.thy ===== *)
theory Go_MAC
  imports Go_Net
begin

text \<open>\<open>net.ParseMAC\<close> and the printing of its bytes in hexadecimal.\<close>

text \<open>\<open>xtoi2(s, e)\<close>: two hexadecimal digits, followed by the byte \<open>e\<close> or the end.\<close>

definition xtoi2 :: "string \<Rightarrow> char \<Rightarrow> byte option" where
  "xtoi2 s e =
     (if length s > 2 \<and> s ! 2 \<noteq> e then None
      else case s of
        a # b # _ \<Rightarrow>
          (case (hex_val a, hex_val b) of
             (Some x, Some y) \<Rightarrow> Some (of_nat (16 * x + y))
           | _ \<Rightarrow> None)
      | _ \<Rightarrow> None)"

text \<open>The two loops: groups of one byte, and groups of two bytes.\<close>

fun mac_bytes :: "nat \<Rightarrow> string \<Rightarrow> char \<Rightarrow> byte list option" where
  "mac_bytes 0 s e = Some []"
| "mac_bytes (Suc n) s e =
     (case xtoi2 s e of
        None \<Rightarrow> None
      | Some b \<Rightarrow> map_option ((#) b) (mac_bytes n (drop 3 s) e))"

fun mac_words :: "nat \<Rightarrow> string \<Rightarrow> char \<Rightarrow> byte list option" where
  "mac_words 0 s e = Some []"
| "mac_words (Suc n) s e =
     (case (xtoi2 (take 2 s) (CHR 0x00), xtoi2 (drop 2 s) e) of
        (Some a, Some b) \<Rightarrow> map_option (\<lambda>r. a # b # r) (mac_words n (drop 5 s) e)
      | _ \<Rightarrow> None)"

definition parse_mac :: "string \<Rightarrow> byte list option" where
  "parse_mac s =
     (if length s < 14 then None
      else if s ! 2 = CHR '':'' \<or> s ! 2 = CHR ''-'' then
        (let n = (length s + 1) div 3
         in if (length s + 1) mod 3 \<noteq> 0 \<or> n \<notin> {6, 8, 20} then None else mac_bytes n s (s ! 2))
      else if s ! 4 = CHR ''.'' then
        (let n = 2 * (length s + 1) div 5
         in if (length s + 1) mod 5 \<noteq> 0 \<or> n \<notin> {6, 8, 20} then None else mac_words (n div 2) s (s ! 4))
      else None)"

definition hex_digit :: "nat \<Rightarrow> char" where
  "hex_digit d = (if d < 10 then char_of (48 + d) else char_of (87 + d))"

text \<open>\<open>%02x\<close>.\<close>

definition hex2 :: "byte \<Rightarrow> string" where
  "hex2 b = [hex_digit (unat b div 16), hex_digit (unat b mod 16)]"

lemmas [go_defs] = xtoi2_def parse_mac_def hex_digit_def hex2_def

lemma mac_bytes_length: "mac_bytes n s e = Some b \<Longrightarrow> length b = n"
  by (induction n s e arbitrary: b rule: mac_bytes.induct) (auto split: option.splits)

lemma mac_words_length: "mac_words n s e = Some b \<Longrightarrow> length b = 2 * n"
  by (induction n s e arbitrary: b rule: mac_words.induct) (auto split: option.splits)

lemma parse_mac_length: "parse_mac s = Some b \<Longrightarrow> length b \<in> {6, 8, 20}"
  by (auto simp: parse_mac_def Let_def split: if_splits dest: mac_bytes_length mac_words_length)

end
