(* ===== verification/Mobile_Fingerprint.thy ===== *)
theory Mobile_Fingerprint
  imports Pool_Types Go_MAC
begin

text \<open>
  \<open>apps/desktop/ippool/mobile_fingerprint.go\<close>: the scorer that turns the evidence of a pool
  entry into a mobile OS fingerprint, and the filters evidence passes on its way into the
  registry. The scorer is a record threaded through the scoring functions; the Go maps that
  are only read by key are functions. The current time is an input (\<open>sc_clock\<close> is what
  \<open>time.Now()\<close> would return).
\<close>

section \<open>String helpers\<close>

fun containsAny :: "string \<Rightarrow> string list \<Rightarrow> bool" where
  "containsAny value [] = False"
| "containsAny value (t # ts) = (str_contains value (to_lower t) \<or> containsAny value ts)"

definition isAlphaNum :: "char \<Rightarrow> bool" where
  "isAlphaNum b =
     (let n = byte_of b
      in (97 \<le> n \<and> n \<le> 122) \<or> (65 \<le> n \<and> n \<le> 90) \<or> (48 \<le> n \<and> n \<le> 57))"

text \<open>The loop of \<open>standaloneToken\<close> from an occurrence of the token at \<open>index\<close>.\<close>

function standalone_loop :: "string \<Rightarrow> string \<Rightarrow> nat \<Rightarrow> bool" where
  "standalone_loop value token index =
     (let beforeOK = (index = 0 \<or> \<not> isAlphaNum (value ! (index - 1)));
          after = index + length token;
          afterOK = (after = length value \<or> \<not> isAlphaNum (value ! after));
          next = Suc index
      in if beforeOK \<and> afterOK then True
         else if next \<ge> length value then False
         else case str_index (drop next value) token of
                None \<Rightarrow> False
              | Some j \<Rightarrow> standalone_loop value token (next + j))"
  by pat_completeness auto
termination
  by (relation "measure (\<lambda>(value, token, index). length value - index)") auto

declare standalone_loop.simps [simp del]

definition standaloneToken :: "string \<Rightarrow> string \<Rightarrow> bool" where
  "standaloneToken value token =
     (case str_index value token of
        None \<Rightarrow> False
      | Some i \<Rightarrow> standalone_loop value token i)"

fun firstNonEmpty :: "string list \<Rightarrow> string" where
  "firstNonEmpty [] = []"
| "firstNonEmpty (v # vs) = (if trim_space v \<noteq> [] then trim_space v else firstNonEmpty vs)"

definition appendUnique :: "string list \<Rightarrow> string \<Rightarrow> string list" where
  "appendUnique values v =
     (let value = trim_space v in if value = [] then values else append_new values value)"

text \<open>The loop of \<open>sortedStrings\<close> over the sorted copy.\<close>

fun uniq_nonempty :: "string list \<Rightarrow> string list \<Rightarrow> string list" where
  "uniq_nonempty uniq [] = uniq"
| "uniq_nonempty uniq (v # vs) =
     (if v = [] then uniq_nonempty uniq vs
      else if uniq = [] \<or> last uniq \<noteq> v then uniq_nonempty (uniq @ [v]) vs
      else uniq_nonempty uniq vs)"

definition sortedStrings :: "string list \<Rightarrow> string list" where
  "sortedStrings values = uniq_nonempty [] (sort_strings values)"

definition safeLiveUserAgent :: "string \<Rightarrow> string" where
  "safeLiveUserAgent v =
     (let value = trim_space v
      in if length value \<le> 160 then value else take 160 value @ ''...'')"

definition parseEvidenceTimestamp :: "gotime \<Rightarrow> string \<Rightarrow> gotime \<Rightarrow> gotime" where
  "parseEvidenceTimestamp clock value fallback =
     (case parse_rfc3339 (trim_space value) of
        Some t \<Rightarrow> t
      | None \<Rightarrow> if is_zero_time fallback then clock else fallback)"

section \<open>MAC addresses and vendors\<close>

definition liveMobileOUIPrefixes :: "(string \<times> string) list" where
  "liveMobileOUIPrefixes =
     [(''A483E7'', ''Apple''), (''E89C25'', ''Apple''), (''F4F5D8'', ''Apple''),
      (''74D4DD'', ''Apple''), (''D8BBC1'', ''Apple''), (''3C5AB4'', ''Google''),
      (''F88FCA'', ''Google''), (''001A11'', ''Google''), (''EC1F72'', ''Samsung''),
      (''70F1A1'', ''Samsung''), (''283926'', ''Samsung''), (''9852B1'', ''Samsung''),
      (''ACAFB9'', ''Samsung''), (''D88039'', ''Xiaomi''), (''64CC2E'', ''Xiaomi''),
      (''7802F8'', ''Xiaomi''), (''344DF7'', ''OnePlus''), (''94652D'', ''OnePlus''),
      (''A4C0E1'', ''OPPO''), (''487412'', ''OPPO''), (''703A0E'', ''Vivo''),
      (''9078B2'', ''Huawei''), (''009ACD'', ''Huawei''), (''38378B'', ''Honor''),
      (''4C7766'', ''Motorola''), (''582059'', ''Nothing''), (''304596'', ''Sony'')]"

definition liveMobileVendorFamily :: "string \<Rightarrow> MobileOS option" where
  "liveMobileVendorFamily vendor =
     (let lower = to_lower vendor
      in if str_contains lower ''apple'' then Some OS_IOS
         else if containsAny lower [''samsung'', ''xiaomi'', ''oppo'', ''vivo'', ''google'', ''oneplus'',
             ''huawei'', ''honor'', ''realme'', ''motorola'', ''moto'', ''nothing'', ''sony'', ''tcl'',
             ''tecno'', ''infinix'', ''lenovo''] then Some OS_Android
         else None)"

definition liveMobileOUIVendor :: "string \<Rightarrow> string" where
  "liveMobileOUIVendor mac =
     (let c0 = to_upper (replace_bytes [(CHR '':'', []), (CHR ''-'', []), (CHR ''.'', [])] (trim_space mac));
          compact =
            (if length c0 < 6 then
               (case parse_mac mac of
                  Some hw \<Rightarrow>
                    if length hw \<ge> 3 then to_upper (hex2 (hw ! 0) @ hex2 (hw ! 1) @ hex2 (hw ! 2)) else c0
                | None \<Rightarrow> c0)
             else c0)
      in if length compact < 6 then []
         else case map_of liveMobileOUIPrefixes (take 6 compact) of None \<Rightarrow> [] | Some v \<Rightarrow> v)"

definition isLocalMAC :: "string \<Rightarrow> bool" where
  "isLocalMAC mac =
     (case parse_mac mac of
        Some hw \<Rightarrow> hw \<noteq> [] \<and> hd hw AND 0x02 \<noteq> 0
      | None \<Rightarrow> False)"

definition looksLikeMAC :: "string \<Rightarrow> bool" where
  "looksLikeMAC value = (parse_mac (trim_space value) \<noteq> None)"

definition redactLiveMAC :: "string \<Rightarrow> string" where
  "redactLiveMAC mac =
     (case parse_mac mac of
        None \<Rightarrow> mac
      | Some hw \<Rightarrow>
          if length hw < 3 then mac
          else hex2 (hw ! 0) @ '':'' @ hex2 (hw ! 1) @ '':'' @ hex2 (hw ! 2) @ '':xx:xx:xx'')"

section \<open>DNS names\<close>

definition liveAppleDNSHints :: "string list" where
  "liveAppleDNSHints =
     [''apple.com'', ''icloud.com'', ''mzstatic.com'', ''itunes.apple.com'', ''push.apple.com'',
      ''aaplimg.com'', ''captive.apple.com'']"

definition liveAndroidDNSHints :: "string list" where
  "liveAndroidDNSHints =
     [''android.clients.google.com'', ''clients3.google.com'', ''gstatic.com'', ''googleapis.com'',
      ''mtalk.google.com'', ''gvt1.com'', ''play.googleapis.com'', ''connectivitycheck.gstatic.com'',
      ''android.googleapis.com'']"

definition normalizeLiveMobileDomain :: "string \<Rightarrow> string" where
  "normalizeLiveMobileDomain raw =
     (let v = to_lower (trim_space raw);
          v = trim_prefix v ''http://'';
          v = trim_prefix v ''https://'';
          v = (case index_byte v CHR ''/'' of Some i \<Rightarrow> take i v | None \<Rightarrow> v);
          v = (case index_byte v CHR '':'' of Some i \<Rightarrow> take i v | None \<Rightarrow> v)
      in trim_func (\<lambda>c. c = CHR ''.'' \<or> c = CHR '' '') v)"

fun matchedLiveMobileDomain :: "string \<Rightarrow> string list \<Rightarrow> string" where
  "matchedLiveMobileDomain domain [] = []"
| "matchedLiveMobileDomain domain (h # hs) =
     (if domain = h \<or> has_suffix domain (''.'' @ h) then h else matchedLiveMobileDomain domain hs)"

definition apple_seen :: string where "apple_seen = ''apple_service_domain_seen''"
definition android_seen :: string where "android_seen = ''android_google_service_domain_seen''"

definition privacySafeDNSCategory :: "string \<Rightarrow> string" where
  "privacySafeDNSCategory raw =
     (let l = to_lower (trim_space raw)
      in if l = apple_seen \<or> l = android_seen then l
         else
           (let domain = normalizeLiveMobileDomain raw
            in if domain = [] then []
               else if matchedLiveMobileDomain domain liveAppleDNSHints \<noteq> [] then apple_seen
               else if matchedLiveMobileDomain domain liveAndroidDNSHints \<noteq> [] then android_seen
               else []))"

definition isPassiveDNSMetadata :: "string \<Rightarrow> bool" where
  "isPassiveDNSMetadata value =
     (if str_contains value ''mdns'' \<or> str_contains value ''dns-sd'' \<or> str_contains value ''bonjour''
      then False else str_contains value ''dns'')"

text \<open>\<open>parseServiceValue\<close>: the protocol, the first field that is a port number (0 if none), the value.\<close>

fun first_port :: "string list \<Rightarrow> int" where
  "first_port [] = 0"
| "first_port (part # ps) =
     (case atoi part of
        Some port \<Rightarrow> if port > 0 \<and> port \<le> 65535 then port else first_port ps
      | None \<Rightarrow> first_port ps)"

definition parseServiceValue :: "string \<Rightarrow> string \<times> int \<times> string" where
  "parseServiceValue value =
     (let lower = to_lower (trim_space value);
          proto = (if str_contains lower ''udp'' then ''udp'' else ''tcp'');
          parts = str_fields (replace_bytes
            [(CHR ''/'', '' ''), (CHR '':'', '' ''), (CHR '','', '' ''), (CHR '';'', '' '')] lower)
      in (proto, first_port parts, value))"

section \<open>Evidence on its way into the registry\<close>

text \<open>\<open>strings.ToLower(item.Type + " " + item.Source)\<close>.\<close>

definition ev_text :: "EvidenceItem \<Rightarrow> string" where
  "ev_text item = to_lower (ev_Type item @ '' '' @ ev_Source item)"

definition isIdentityEvidence :: "EvidenceItem \<Rightarrow> bool" where
  "isIdentityEvidence item =
     (let t = ev_text item
      in str_contains t ''hostname'' \<or> str_contains t ''dhcp'' \<or> str_contains t ''netbios'' \<or>
         str_contains t ''llmnr'' \<or> str_contains t ''mac'' \<or> str_contains t ''oui'' \<or>
         str_contains t ''vendor'')"

definition sanitizeEvidenceForRegistry :: "EvidenceItem \<Rightarrow> EvidenceItem \<times> bool" where
  "sanitizeEvidenceForRegistry item0 =
     (let item = item0\<lparr>ev_Type := trim_space (ev_Type item0), ev_Source := trim_space (ev_Source item0),
                       ev_Value := trim_space (ev_Value item0)\<rparr>;
          item = item\<lparr>ev_Type := (if ev_Type item = [] then ''metadata'' else ev_Type item)\<rparr>;
          item = item\<lparr>ev_Source := (if ev_Source item = [] then ''discovery'' else ev_Source item)\<rparr>;
          item = item\<lparr>ev_Strength := (if ev_Strength item = [] then StrengthWeak else ev_Strength item)\<rparr>;
          lowerType = ev_text item
      in if isPassiveDNSMetadata lowerType then
           (let category = privacySafeDNSCategory (ev_Value item)
            in if category = [] then (empty_evidence, False)
               else
                 (let item = item\<lparr>ev_Type := ''dns_query'', ev_Value := category,
                        ev_Source := ''passive_dns_metadata'',
                        ev_ConfidenceImpact :=
                          (if ev_ConfidenceImpact item \<le> 0 then flit (15 / 100) else ev_ConfidenceImpact item)\<rparr>
                  in (item\<lparr>ev_Strength := (if ev_Strength item = [] then StrengthWeak else ev_Strength item)\<rparr>,
                      ev_Value item \<noteq> [] \<or> str_contains lowerType ''service'' \<or> str_contains lowerType ''port'')))
         else
           (item, ev_Value item \<noteq> [] \<or> str_contains lowerType ''service'' \<or> str_contains lowerType ''port''))"

definition meaningfulMobileEvidence :: "EvidenceItem \<Rightarrow> bool" where
  "meaningfulMobileEvidence item =
     (let t = ev_text item
      in list_ex (str_contains t)
           [''hostname'', ''dhcp'', ''netbios'', ''llmnr'', ''arp'', ''mac'', ''oui'', ''vendor'', ''mdns'',
            ''bonjour'', ''dns-sd'', ''dns'', ''user_agent'', ''http'', ''service'', ''port'', ''passive''])"

definition evidenceMergeKey :: "EvidenceItem \<Rightarrow> string" where
  "evidenceMergeKey item =
     to_lower (trim_space (ev_Type item) @ ''|'' @ trim_space (ev_Source item) @ ''|'' @ trim_space (ev_Value item))"

definition evidenceRank :: "EvidenceStrength \<Rightarrow> int" where
  "evidenceRank strength =
     (if strength = StrengthConfirmed then 3 else if strength = StrengthInferred then 2 else 1)"

text \<open>The loop of \<open>mergeEvidence\<close>: the first item with the same key decides.\<close>

fun mergeEvidence :: "EvidenceItem list \<Rightarrow> EvidenceItem \<Rightarrow> EvidenceItem list \<times> bool" where
  "mergeEvidence [] item = ([item], True)"
| "mergeEvidence (old # rest) item =
     (if evidenceMergeKey old \<noteq> evidenceMergeKey item then
        (case mergeEvidence rest item of (es, ch) \<Rightarrow> (old # es, ch))
      else if evidenceRank (ev_Strength item) > evidenceRank (ev_Strength old) \<or>
              (evidenceRank (ev_Strength item) = evidenceRank (ev_Strength old) \<and>
               ev_ConfidenceImpact item > ev_ConfidenceImpact old) then
        (item # rest, True)
      else (old # rest, False))"

section \<open>The scorer\<close>

record liveMobileScorer =
  sc_now :: gotime
  sc_clock :: gotime
  sc_seq :: int
  sc_iosScore :: int
  sc_ipadScore :: int
  sc_androidScore :: int
  sc_evidence :: "MobileEvidenceItem list"
  sc_conflicts :: "MobileConflictItem list"
  sc_warnings :: "string list"
  sc_idsByOS :: "MobileOS \<Rightarrow> string list"
  sc_strongByOS :: "MobileOS \<Rightarrow> int"
  sc_catsByOS :: "MobileOS \<Rightarrow> string list"
  sc_randomMAC :: bool

definition newLiveMobileScorer :: "gotime \<Rightarrow> gotime \<Rightarrow> liveMobileScorer" where
  "newLiveMobileScorer clock now =
     \<lparr>sc_now = (if is_zero_time now then clock else now), sc_clock = clock, sc_seq = 0,
      sc_iosScore = 0, sc_ipadScore = 0, sc_androidScore = 0, sc_evidence = [], sc_conflicts = [],
      sc_warnings = [], sc_idsByOS = (\<lambda>_. []), sc_strongByOS = (\<lambda>_. 0), sc_catsByOS = (\<lambda>_. []),
      sc_randomMAC = False\<rparr>"

definition sc_warn :: "string \<Rightarrow> liveMobileScorer \<Rightarrow> liveMobileScorer" where
  "sc_warn message s = s\<lparr>sc_warnings := appendUnique (sc_warnings s) message\<rparr>"

definition sc_track :: "MobileOS \<Rightarrow> string \<Rightarrow> MobileStrength \<Rightarrow> string \<Rightarrow> liveMobileScorer \<Rightarrow> liveMobileScorer" where
  "sc_track os evidenceType strength i s =
     s\<lparr>sc_catsByOS := (sc_catsByOS s)(os := append_new (sc_catsByOS s os) evidenceType),
       sc_strongByOS := (if strength = Strong then (sc_strongByOS s)(os := sc_strongByOS s os + 1)
                         else sc_strongByOS s),
       sc_idsByOS := (sc_idsByOS s)(os := appendUnique (sc_idsByOS s os) i)\<rparr>"

definition evidence_id :: "MobileOS \<Rightarrow> string \<Rightarrow> int \<Rightarrow> string" where
  "evidence_id os evidenceType seq =
     ''mobile-'' @ os_string os @ ''-'' @ replace_bytes [(CHR ''_'', ''-'')] evidenceType @ ''-'' @
     pad_digits 2 (nat seq)"

text \<open>\<open>addEvidence\<close>; the identifier it returns is \<open>evidence_id\<close> of the increased sequence number.\<close>

definition sc_addEvidence ::
  "MobileOS \<Rightarrow> string \<Rightarrow> string \<Rightarrow> int \<Rightarrow> MobileStrength \<Rightarrow> string \<Rightarrow> gotime \<Rightarrow> string \<Rightarrow>
   liveMobileScorer \<Rightarrow> liveMobileScorer" where
  "sc_addEvidence os evidenceType value impact strength source ts0 explanation s =
     (let ts = (if is_zero_time ts0 then sc_now s else ts0);
          i = evidence_id os evidenceType (sc_seq s + 1);
          item = \<lparr>me_ID = i, me_Type = evidenceType, me_Value = trim_space value, me_OSHint = os,
                  me_ConfidenceImpact = impact, me_Strength = strength,
                  me_Source = firstNonEmpty [source, ''mobile_fingerprint''],
                  me_Timestamp = format_rfc3339 ts, me_Explanation = explanation\<rparr>
      in sc_track os evidenceType strength i
           (s\<lparr>sc_seq := sc_seq s + 1, sc_evidence := sc_evidence s @ [item]\<rparr>))"

definition sc_addIOS ::
  "string \<Rightarrow> string \<Rightarrow> int \<Rightarrow> MobileStrength \<Rightarrow> string \<Rightarrow> gotime \<Rightarrow> string \<Rightarrow> liveMobileScorer \<Rightarrow> liveMobileScorer" where
  "sc_addIOS typ value impact strength source ts explanation s =
     sc_addEvidence OS_IOS typ value impact strength source ts explanation
       (s\<lparr>sc_iosScore := sc_iosScore s + impact\<rparr>)"

definition sc_addIPad ::
  "string \<Rightarrow> string \<Rightarrow> int \<Rightarrow> MobileStrength \<Rightarrow> string \<Rightarrow> gotime \<Rightarrow> string \<Rightarrow> liveMobileScorer \<Rightarrow> liveMobileScorer" where
  "sc_addIPad typ value impact strength source ts explanation s =
     sc_addEvidence OS_IPadOS typ value impact strength source ts explanation
       (s\<lparr>sc_ipadScore := sc_ipadScore s + impact\<rparr>)"

definition sc_addApple ::
  "string \<Rightarrow> string \<Rightarrow> int \<Rightarrow> MobileStrength \<Rightarrow> string \<Rightarrow> gotime \<Rightarrow> string \<Rightarrow> liveMobileScorer \<Rightarrow> liveMobileScorer" where
  "sc_addApple typ value impact strength source ts explanation s =
     (let s = s\<lparr>sc_iosScore := sc_iosScore s + impact, sc_ipadScore := sc_ipadScore s + impact\<rparr>;
          i = evidence_id OS_IOS typ (sc_seq s + 1);
          s = sc_addEvidence OS_IOS typ value impact strength source ts explanation s
      in sc_track OS_IPadOS typ strength i s)"

definition sc_addAndroid ::
  "string \<Rightarrow> string \<Rightarrow> int \<Rightarrow> MobileStrength \<Rightarrow> string \<Rightarrow> gotime \<Rightarrow> string \<Rightarrow> liveMobileScorer \<Rightarrow> liveMobileScorer" where
  "sc_addAndroid typ value impact strength source ts explanation s =
     sc_addEvidence OS_Android typ value impact strength source ts explanation
       (s\<lparr>sc_androidScore := sc_androidScore s + impact\<rparr>)"

text \<open>The timestamp of an item, with the scorer's time as the fallback.\<close>

definition sc_ts :: "liveMobileScorer \<Rightarrow> string \<Rightarrow> gotime" where
  "sc_ts s timestamp = parseEvidenceTimestamp (sc_clock s) timestamp (sc_now s)"

section \<open>Scoring one signal\<close>

definition scoreHostname :: "string \<Rightarrow> string \<Rightarrow> string \<Rightarrow> string \<Rightarrow> liveMobileScorer \<Rightarrow> liveMobileScorer" where
  "scoreHostname value evidenceType source timestamp s =
     (let raw = trim_space value; lower = to_lower raw; ts = sc_ts s timestamp
      in if raw = [] then s
         else if str_contains lower ''iphone'' then
           sc_addIOS evidenceType raw 45 Strong source ts ''Hostname explicitly contains iPhone.'' s
         else if str_contains lower ''ipad'' then
           sc_addIPad evidenceType raw 45 Strong source ts ''Hostname explicitly contains iPad.'' s
         else if standaloneToken lower ''ios'' then
           sc_addIOS evidenceType raw 30 Medium source ts ''Hostname contains an iOS token.'' s
         else if containsAny lower [''android'', ''galaxy'', ''samsung'', ''redmi'', ''xiaomi'', ''pixel'',
             ''oneplus'', ''oppo'', ''vivo'', ''realme'', ''huawei'', ''honor'', ''moto'', ''motorola'', ''nothing''] then
           sc_addAndroid evidenceType raw 45 Strong source ts
             ''Hostname contains an explicit Android or Android-vendor/model-family token.'' s
         else s)"

definition scoreMACOrVendor :: "string \<Rightarrow> string \<Rightarrow> string \<Rightarrow> string \<Rightarrow> liveMobileScorer \<Rightarrow> liveMobileScorer" where
  "scoreMACOrVendor mac vendor0 source timestamp s0 =
     (let ts = sc_ts s0 timestamp;
          local = (mac \<noteq> [] \<and> isLocalMAC mac);
          s = (if local then
                 sc_warn ''MAC randomization/private Wi-Fi addresses can reduce mobile OS accuracy.''
                   (s0\<lparr>sc_randomMAC := True\<rparr>)
               else s0);
          vendor = (if mac \<noteq> [] \<and> vendor0 = [] then liveMobileOUIVendor mac else vendor0)
      in case liveMobileVendorFamily vendor of
           None \<Rightarrow> s
         | Some family \<Rightarrow>
             (let impact = (if local then 8 else 35);
                  strength = (if local then Weak else Medium);
                  explanation =
                    (if local then
                       ''MAC is locally administered/randomized; vendor hint '' @ quote_str vendor @
                       '' is downgraded to weak support.''
                     else
                       ''MAC/OUI vendor '' @ quote_str vendor @
                       '' is a mobile vendor signal, not standalone proof.'');
                  value = (if mac \<noteq> [] then redactLiveMAC mac @ '' ('' @ vendor @ '')'' else vendor)
              in if family = OS_Android then sc_addAndroid ''mac_oui'' value impact strength source ts explanation s
                 else sc_addApple ''mac_oui'' value impact strength source ts explanation s))"

definition scoreMDNS :: "string \<Rightarrow> string \<Rightarrow> gotime \<Rightarrow> liveMobileScorer \<Rightarrow> liveMobileScorer" where
  "scoreMDNS value source ts s =
     (let raw = trim_space value; lower = to_lower raw
      in if raw = [] then s
         else if str_contains lower ''iphone'' then
           sc_addIOS ''mdns'' raw 45 Strong source ts ''mDNS metadata explicitly contains iPhone.'' s
         else if str_contains lower ''ipad'' then
           sc_addIPad ''mdns'' raw 45 Strong source ts ''mDNS metadata explicitly contains iPad.'' s
         else if containsAny lower [''_apple-mobdev2._tcp'', ''_companion-link._tcp''] then
           sc_addApple ''mdns'' raw 30 Strong source ts ''Apple-specific Bonjour service metadata was observed.'' s
         else if containsAny lower [''_airplay._tcp'', ''_raop._tcp''] then
           sc_addApple ''mdns'' raw 25 Medium source ts
             ''AirPlay/RAOP Bonjour metadata supports Apple identity but is not Apple-only by itself.'' s
         else if str_contains lower ''android'' then
           sc_addAndroid ''mdns'' raw 30 Strong source ts ''mDNS/DNS-SD metadata explicitly contains Android.'' s
         else if containsAny lower [''_googlecast._tcp'', ''chromecast''] then
           (if sc_androidScore s > 0 then
              sc_addAndroid ''mdns'' raw 15 Medium source ts
                ''Google Cast metadata is treated as Android support only because other Android evidence exists.'' s
            else s)
         else if str_contains lower ''_services._dns-sd._udp'' \<or> str_contains lower ''_mdns'' then
           sc_warn ''mDNS/DNS-SD presence alone is not used as Apple or Android proof.'' s
         else s)"

definition dns_warning :: string where
  "dns_warning = ''Passive DNS metadata is reduced to matched OS-related domain hints; raw browsing history and packet payloads are not stored.''"

definition scoreDNSCategory :: "string \<Rightarrow> string \<Rightarrow> gotime \<Rightarrow> liveMobileScorer \<Rightarrow> liveMobileScorer" where
  "scoreDNSCategory value source ts s =
     (let l = to_lower (trim_space value)
      in if l = apple_seen then
           sc_warn dns_warning
             (sc_addApple ''dns_query'' apple_seen 20 Weak source ts
               ''Only matched Apple OS-related domain hints are stored; DNS evidence alone cannot confirm iOS/iPadOS.'' s)
         else if l = android_seen then
           sc_warn dns_warning
             (sc_addAndroid ''dns_query'' android_seen 20 Weak source ts
               ''Only matched Android/Google service domain hints are stored; DNS evidence alone cannot confirm Android.'' s)
         else s)"

definition scoreUserAgent :: "string \<Rightarrow> string \<Rightarrow> gotime \<Rightarrow> liveMobileScorer \<Rightarrow> liveMobileScorer" where
  "scoreUserAgent value source ts s0 =
     (let raw = trim_space value; lower = to_lower raw
      in if raw = [] then s0
         else
           (let s =
              (if str_contains lower ''iphone'' then
                 sc_addIOS ''user_agent'' (safeLiveUserAgent raw) 45 Strong source ts
                   ''Clear local HTTP User-Agent explicitly contains iPhone.'' s0
               else if str_contains lower ''ipad'' then
                 sc_addIPad ''user_agent'' (safeLiveUserAgent raw) 45 Strong source ts
                   ''Clear local HTTP User-Agent explicitly contains iPad.'' s0
               else if str_contains lower ''android'' then
                 sc_addAndroid ''user_agent'' (safeLiveUserAgent raw) 45 Strong source ts
                   ''Clear local HTTP User-Agent explicitly contains Android.'' s0
               else s0)
            in sc_warn ''User-Agent evidence is only used when visible in clear local HTTP metadata; HTTPS is not decrypted or intercepted.'' s))"

definition common_ports_warning :: string where
  "common_ports_warning = ''TCP/UDP 80 and 443 are common on many devices and are not used as mobile OS proof.''"

text \<open>The switch of \<open>scoreService\<close> on protocol and port.\<close>

definition score_port :: "string \<Rightarrow> int \<Rightarrow> string \<Rightarrow> string \<Rightarrow> string \<Rightarrow> gotime \<Rightarrow> liveMobileScorer \<Rightarrow> liveMobileScorer" where
  "score_port proto port lowerName display source ts s =
     (if proto = ''tcp'' \<and> (port = 5223 \<or> port = 2197) then
        sc_addApple ''service_port'' display 25 Medium source ts
          ''APNS-related TCP port observed; this is supporting Apple evidence, not standalone proof.'' s
      else if proto = ''udp'' \<and> port = 5353 then
        sc_warn ''UDP 5353/mDNS alone is not used as iOS or Android proof.'' s
      else if (proto = ''tcp'' \<or> proto = ''udp'') \<and> (port = 80 \<or> port = 443) then
        sc_warn common_ports_warning s
      else if proto = ''udp'' \<and> ((port \<ge> 3478 \<and> port \<le> 3497) \<or> (port \<ge> 16384 \<and> port \<le> 16403)) then
        (if sc_iosScore s > 0 \<or> sc_ipadScore s > 0 then
           sc_addApple ''service_port'' display 10 Weak source ts
             ''FaceTime/Game Center related UDP range supports Apple only because other Apple evidence exists.'' s
         else s)
      else if proto = ''tcp'' \<and> (port = 3689 \<or> port = 5000 \<or> port = 6000 \<or> port = 7000) then
        (if containsAny lowerName [''airplay'', ''raop'', ''daap''] \<or> sc_iosScore s > 0 \<or> sc_ipadScore s > 0 then
           sc_addApple ''service_port'' display 15 Medium source ts
             ''AirPlay/DAAP service metadata supports Apple identity when paired with service naming or other Apple evidence.'' s
         else s)
      else if (port = 8008 \<or> port = 8009) \<and> containsAny lowerName [''chromecast'', ''googlecast''] then
        (if sc_androidScore s > 0 then
           sc_addAndroid ''service_port'' display 15 Medium source ts
             ''Google Cast service metadata supports Android only because other Android evidence exists.'' s
         else s)
      else s)"

definition scoreService :: "string \<Rightarrow> string \<Rightarrow> gotime \<Rightarrow> liveMobileScorer \<Rightarrow> liveMobileScorer" where
  "scoreService value source ts s0 =
     (case parseServiceValue value of (proto, port, name) \<Rightarrow>
        if port = 0 then s0
        else
          (let lowerName = to_lower name;
               display = proto @ ''/'' @ itoa port @ (if name \<noteq> [] then '' '' @ name else []);
               s = score_port proto port lowerName display source ts s0;
               s = (if containsAny lowerName [''airplay'', ''raop'', ''apple-mobdev2''] then
                      sc_addApple ''service_name'' name 15 Medium source ts
                        ''Service name/product contains Apple-specific local service metadata.'' s
                    else s)
           in if containsAny lowerName [''android'', ''googlecast''] \<and> sc_androidScore s > 0 then
                sc_addAndroid ''service_name'' name 15 Medium source ts
                  ''Service name/product contains Android/Google local service metadata and is paired with other Android evidence.'' s
              else s))"

definition scorePassive :: "string \<Rightarrow> string \<Rightarrow> gotime \<Rightarrow> liveMobileScorer \<Rightarrow> liveMobileScorer" where
  "scorePassive value source ts s =
     (let lower = to_lower value
      in if str_contains lower ''iphone'' then
           sc_addIOS ''passive_packet'' value 30 Medium source ts
             ''Passive metadata contains iPhone without storing packet payload.'' s
         else if str_contains lower ''ipad'' then
           sc_addIPad ''passive_packet'' value 30 Medium source ts
             ''Passive metadata contains iPad without storing packet payload.'' s
         else if str_contains lower ''android'' then
           sc_addAndroid ''passive_packet'' value 30 Medium source ts
             ''Passive metadata contains Android without storing packet payload.'' s
         else if str_contains lower ''5353'' then
           sc_warn ''Passive UDP 5353/mDNS packet metadata alone is not used as mobile OS proof.'' s
         else if str_contains lower ''443'' \<or> str_contains lower ''80'' then
           sc_warn common_ports_warning s
         else s)"

definition scoreEvidence :: "EvidenceItem \<Rightarrow> liveMobileScorer \<Rightarrow> liveMobileScorer" where
  "scoreEvidence item s =
     (let t = ev_text item; ts = sc_ts s (ev_Timestamp item); has = str_contains t
      in if has ''hostname'' \<or> has ''dhcp'' \<or> has ''netbios'' \<or> has ''llmnr'' then
           scoreHostname (ev_Value item) (if has ''dhcp'' then ''dhcp_hostname'' else ''hostname'')
             (ev_Source item) (ev_Timestamp item) s
         else if has ''mac'' \<or> has ''oui'' \<or> has ''vendor'' then
           (if looksLikeMAC (ev_Value item) then
              scoreMACOrVendor (ev_Value item) [] (ev_Source item) (ev_Timestamp item) s
            else scoreMACOrVendor [] (ev_Value item) (ev_Source item) (ev_Timestamp item) s)
         else if has ''mdns'' \<or> has ''bonjour'' \<or> has ''dns-sd'' then scoreMDNS (ev_Value item) (ev_Source item) ts s
         else if has ''dns'' then scoreDNSCategory (ev_Value item) (ev_Source item) ts s
         else if has ''user_agent'' \<or> has ''http'' then scoreUserAgent (ev_Value item) (ev_Source item) ts s
         else if has ''service'' \<or> has ''port'' \<or> has ''tcp'' \<or> has ''udp'' then
           scoreService (ev_Value item) (ev_Source item) ts s
         else if has ''passive'' \<or> has ''packet'' then scorePassive (ev_Value item) (ev_Source item) ts s
         else s)"

section \<open>The verdict\<close>

fun confirmedClass :: "MobileOS \<Rightarrow> MobileClass" where
  "confirmedClass OS_IPadOS = ConfirmedIPadOS"
| "confirmedClass OS_Android = ConfirmedAndroid"
| "confirmedClass _ = ConfirmedIOS"

fun probableClass :: "MobileOS \<Rightarrow> MobileClass" where
  "probableClass OS_IPadOS = ProbableIPadOS"
| "probableClass OS_Android = ProbableAndroid"
| "probableClass _ = ProbableIOS"

fun possibleClass :: "MobileOS \<Rightarrow> MobileClass" where
  "possibleClass OS_IPadOS = PossibleIPadOS"
| "possibleClass OS_Android = PossibleAndroid"
| "possibleClass _ = PossibleIOS"

fun mobileStrengthRank :: "MobileStrength \<Rightarrow> nat" where
  "mobileStrengthRank Strong = 0"
| "mobileStrengthRank Medium = 1"
| "mobileStrengthRank Weak = 2"

fun mobileOSRank :: "MobileOS \<Rightarrow> nat" where
  "mobileOSRank OS_IOS = 0"
| "mobileOSRank OS_IPadOS = 1"
| "mobileOSRank OS_Android = 2"
| "mobileOSRank OS_Unknown = 3"

definition onlyDNS :: "MobileOS \<Rightarrow> liveMobileScorer \<Rightarrow> bool" where
  "onlyDNS os s = (length (sc_catsByOS s os) = 1 \<and> ''dns_query'' \<in> set (sc_catsByOS s os))"

definition onlyMAC :: "MobileOS \<Rightarrow> liveMobileScorer \<Rightarrow> bool" where
  "onlyMAC os s = (length (sc_catsByOS s os) = 1 \<and> ''mac_oui'' \<in> set (sc_catsByOS s os))"

definition detectConflicts :: "liveMobileScorer \<Rightarrow> liveMobileScorer" where
  "detectConflicts s =
     (let appleScore = max (sc_iosScore s) (sc_ipadScore s)
      in if appleScore \<ge> 35 \<and> sc_androidScore s \<ge> 35 then
           s\<lparr>sc_conflicts := sc_conflicts s @
              [\<lparr>mc_Reason = ''Apple mobile evidence and Android evidence were both observed.'',
                mc_IOSEvidenceIDs = sortedStrings (sc_idsByOS s OS_IOS @ sc_idsByOS s OS_IPadOS),
                mc_AndroidEvidenceIDs = sortedStrings (sc_idsByOS s OS_Android),
                mc_Severity = ''warning'',
                mc_ResolutionHint = ''Treat as conflicting until a second independent source agrees.''\<rparr>]\<rparr>
         else s)"

text \<open>The order in which \<open>classification\<close> sorts the three candidates.\<close>

definition candidate_less :: "MobileOS \<times> int \<Rightarrow> MobileOS \<times> int \<Rightarrow> bool" where
  "candidate_less a b =
     (if snd a \<noteq> snd b then snd a > snd b else mobileOSRank (fst a) < mobileOSRank (fst b))"

definition best_candidate :: "liveMobileScorer \<Rightarrow> MobileOS \<times> int" where
  "best_candidate s =
     hd (sort_by candidate_less
       [(OS_IOS, sc_iosScore s), (OS_IPadOS, sc_ipadScore s), (OS_Android, sc_androidScore s)])"

definition classification :: "liveMobileScorer \<Rightarrow> MobileClass" where
  "classification s =
     (if sc_conflicts s \<noteq> [] then MobileConflict
      else
        (let best = best_candidate s; os = fst best; score = snd best
         in if score = 0 then UnknownDevice
            else if onlyDNS os s then possibleClass os
            else if sc_randomMAC s \<and> onlyMAC os s \<and> score < 20 then UnknownMobile
            else if score \<ge> 80 \<and> sc_strongByOS s os \<ge> 2 then confirmedClass os
            else if score \<ge> 60 then probableClass os
            else if score \<ge> 20 then possibleClass os
            else UnknownMobile))"

definition class_confidence :: "bool \<Rightarrow> MobileClass \<Rightarrow> float64" where
  "class_confidence randomMAC c =
     (if c \<in> {ConfirmedIOS, ConfirmedIPadOS, ConfirmedAndroid} then flit (9 / 10)
      else if c \<in> {ProbableIOS, ProbableIPadOS, ProbableAndroid} then flit (72 / 100)
      else if c \<in> {PossibleIOS, PossibleIPadOS, PossibleAndroid} then
        (if randomMAC then flit (34 / 100) else flit (42 / 100))
      else if c = MobileConflict then flit (45 / 100)
      else if c = UnknownMobile then flit (22 / 100)
      else 0)"

fun mobileDisplayClassification :: "MobileClass \<Rightarrow> string" where
  "mobileDisplayClassification ConfirmedIOS = ''Confirmed iPhone''"
| "mobileDisplayClassification ProbableIOS = ''Probable iPhone''"
| "mobileDisplayClassification PossibleIOS = ''Possible iPhone''"
| "mobileDisplayClassification ConfirmedIPadOS = ''Confirmed iPad''"
| "mobileDisplayClassification ProbableIPadOS = ''Probable iPad''"
| "mobileDisplayClassification PossibleIPadOS = ''Possible iPad''"
| "mobileDisplayClassification ConfirmedAndroid = ''Confirmed Android''"
| "mobileDisplayClassification ProbableAndroid = ''Probable Android''"
| "mobileDisplayClassification PossibleAndroid = ''Possible Android''"
| "mobileDisplayClassification MobileConflict = ''Conflicting mobile OS evidence''"
| "mobileDisplayClassification UnknownMobile = ''Unknown mobile''"
| "mobileDisplayClassification UnknownDevice = ''Unknown device''"

definition why_part :: "MobileEvidenceItem \<Rightarrow> string" where
  "why_part ev =
     (if me_Explanation ev \<noteq> [] then trim_suffix (me_Explanation ev) ''.''
      else me_Type ev @ '' '' @ me_Value ev)"

definition sc_why :: "MobileClass \<Rightarrow> liveMobileScorer \<Rightarrow> string" where
  "sc_why c s =
     (if c = UnknownDevice then []
      else if c = MobileConflict then
        ''Conflicting Apple and Android evidence was observed; the registry keeps the conflict visible instead of choosing a fake winner.''
      else if sc_evidence s = [] then mobileDisplayClassification c
      else mobileDisplayClassification c @ '' because '' @
           str_join (map why_part (take 3 (sc_evidence s))) '', '' @ ''.'')"

definition sc_whyNotCertain :: "MobileClass \<Rightarrow> string" where
  "sc_whyNotCertain c =
     (if c \<in> {ConfirmedIOS, ConfirmedIPadOS, ConfirmedAndroid, UnknownDevice} then []
      else if c = MobileConflict then
        ''The evidence points to more than one mobile OS family, so the result is not certain.''
      else
        ''This classification is evidence-based, not guaranteed. Weak or single-source signals are shown as possible/probable rather than confirmed.'')"

text \<open>The order of the evidence in the result.\<close>

definition evidence_less :: "MobileEvidenceItem \<Rightarrow> MobileEvidenceItem \<Rightarrow> bool" where
  "evidence_less a b =
     (if me_Strength a \<noteq> me_Strength b
      then mobileStrengthRank (me_Strength a) < mobileStrengthRank (me_Strength b)
      else str_less (me_ID a) (me_ID b))"

definition sc_finish :: "liveMobileScorer \<Rightarrow> MobileFingerprint" where
  "sc_finish s0 =
     (let s = detectConflicts s0; c = classification s
      in \<lparr>mf_Classification = c, mf_IOSScore = sc_iosScore s, mf_AndroidScore = sc_androidScore s,
          mf_IPadScore = sc_ipadScore s, mf_Confidence = class_confidence (sc_randomMAC s) c,
          mf_Evidence = sort_by evidence_less (sc_evidence s), mf_Conflicts = sc_conflicts s,
          mf_Warnings = sortedStrings (sc_warnings s), mf_LastUpdatedAt = format_rfc3339 (sc_now s),
          mf_WhyThisClassification = sc_why c s, mf_WhyNotCertain = sc_whyNotCertain c\<rparr>)"

definition score_all :: "EvidenceItem list \<Rightarrow> liveMobileScorer \<Rightarrow> liveMobileScorer" where
  "score_all items s =
     fold (\<lambda>item s. if isIdentityEvidence item then s else scoreEvidence item s) items s"

definition score_entry :: "DevicePoolEntry \<Rightarrow> liveMobileScorer \<Rightarrow> liveMobileScorer" where
  "score_entry entry s0 =
     (let s = (if pe_Hostname entry \<noteq> [] then
                 scoreHostname (pe_Hostname entry) ''hostname'' ''device_registry'' (pe_LastSeen entry) s0
               else s0);
          s = (if pe_MAC entry \<noteq> [] \<or> pe_Vendor entry \<noteq> [] then
                 scoreMACOrVendor (pe_MAC entry) (pe_Vendor entry) ''device_registry'' (pe_LastSeen entry) s
               else s)
      in score_all (pe_Evidence entry) s)"

definition fingerprintLiveMobileDevice :: "gotime \<Rightarrow> DevicePoolEntry \<Rightarrow> gotime \<Rightarrow> MobileFingerprint" where
  "fingerprintLiveMobileDevice clock entry now =
     sc_finish (score_entry entry (newLiveMobileScorer clock now))"

section \<open>Applying a fingerprint to an entry\<close>

definition liveMobileOSHint :: "MobileClass \<Rightarrow> MobileOS" where
  "liveMobileOSHint c =
     (if c \<in> {ConfirmedIOS, ProbableIOS, PossibleIOS} then OS_IOS
      else if c \<in> {ConfirmedIPadOS, ProbableIPadOS, PossibleIPadOS} then OS_IPadOS
      else if c \<in> {ConfirmedAndroid, ProbableAndroid, PossibleAndroid} then OS_Android
      else OS_Unknown)"

definition liveMobileDeviceTypeHint :: "MobileFingerprint \<Rightarrow> string list \<Rightarrow> string" where
  "liveMobileDeviceTypeHint fp names =
     (case liveMobileOSHint (mf_Classification fp) of
        OS_IOS \<Rightarrow> ''phone''
      | OS_IPadOS \<Rightarrow> ''tablet''
      | OS_Android \<Rightarrow>
          (if containsAny (to_lower (str_join names '' '')) [''tablet'', '' tab'', ''-tab'', ''pad'', ''lenovo tab'']
           then ''tablet'' else ''phone'')
      | OS_Unknown \<Rightarrow> ''unknown'')"

text \<open>The loop of \<open>liveMobileEvidenceSummary\<close>, which stops at three summaries.\<close>

fun summary_loop :: "string list \<Rightarrow> MobileEvidenceItem list \<Rightarrow> string list" where
  "summary_loop out [] = out"
| "summary_loop out (item # rest) =
     (let text = (if me_Explanation item = [] then trim_space (me_Type item @ '' '' @ me_Value item)
                  else me_Explanation item);
          text = trim_space text
      in if text = [] then summary_loop out rest
         else
           (let out = appendUnique out (trim_suffix text ''.'')
            in if length out = 3 then out else summary_loop out rest))"

definition liveMobileEvidenceSummary :: "MobileFingerprint \<Rightarrow> string list" where
  "liveMobileEvidenceSummary fp = summary_loop [] (mf_Evidence fp)"

definition applyLiveMobileHints :: "MobileFingerprint \<Rightarrow> DevicePoolEntry \<Rightarrow> DevicePoolEntry" where
  "applyLiveMobileHints fp e =
     e\<lparr>pe_MobileFingerprint := Some fp,
       pe_OSHint := os_string (liveMobileOSHint (mf_Classification fp)),
       pe_OSConfidence := mf_Confidence fp,
       pe_DeviceTypeHint := liveMobileDeviceTypeHint fp [pe_Hostname e],
       pe_OSEvidenceSummary := liveMobileEvidenceSummary fp\<rparr>"

definition mobileFingerprintChanged :: "MobileFingerprint option \<Rightarrow> MobileFingerprint \<Rightarrow> bool" where
  "mobileFingerprintChanged prev next =
     (case prev of
        None \<Rightarrow> mf_Classification next \<noteq> UnknownDevice \<or> mf_Evidence next \<noteq> [] \<or> mf_Warnings next \<noteq> []
      | Some p \<Rightarrow>
          mf_Classification p \<noteq> mf_Classification next \<or> mf_IOSScore p \<noteq> mf_IOSScore next \<or>
          mf_IPadScore p \<noteq> mf_IPadScore next \<or> mf_AndroidScore p \<noteq> mf_AndroidScore next \<or>
          mf_Confidence p \<noteq> mf_Confidence next \<or>
          length (mf_Evidence p) \<noteq> length (mf_Evidence next) \<or>
          length (mf_Conflicts p) \<noteq> length (mf_Conflicts next) \<or>
          length (mf_Warnings p) \<noteq> length (mf_Warnings next))"

end
