(* ===== verification/Mobile_Laws.thy ===== *)
theory Mobile_Laws
  imports Mobile_Fingerprint
begin

text \<open>
  What the scorer of \<open>mobile_fingerprint.go\<close> guarantees. Every scoring function is a sequence
  of emissions (\<open>score_step\<close>): a warning, the random-MAC mark, or one piece of evidence with a
  bounded positive impact. The invariant \<open>scorer_ok\<close> of those emissions ties the scores to
  the evidence; the laws of the verdict follow from it.
\<close>

section \<open>The emissions of the scoring functions\<close>

text \<open>What every piece of evidence satisfies: a strong one weighs at least 30, and passive DNS
  evidence is weak, weighs 20 and holds one of the two categories.\<close>

definition signal_ok :: "string \<Rightarrow> string \<Rightarrow> int \<Rightarrow> MobileStrength \<Rightarrow> bool" where
  "signal_ok typ value impact strength =
     (0 < impact \<and> impact \<le> 45 \<and> (strength = Strong \<longrightarrow> 30 \<le> impact) \<and>
      (typ = ''dns_query'' \<longrightarrow> strength = Weak \<and> (value = apple_seen \<or> value = android_seen)))"

inductive score_step :: "liveMobileScorer \<Rightarrow> liveMobileScorer \<Rightarrow> bool" where
  warning: "score_step s (sc_warn m s)"
| random_mac: "score_step s (s\<lparr>sc_randomMAC := True\<rparr>)"
| ios: "signal_ok t v i st \<Longrightarrow> score_step s (sc_addIOS t v i st src ts e s)"
| ipad: "signal_ok t v i st \<Longrightarrow> score_step s (sc_addIPad t v i st src ts e s)"
| apple: "signal_ok t v i st \<Longrightarrow> score_step s (sc_addApple t v i st src ts e s)"
| android: "signal_ok t v i st \<Longrightarrow> score_step s (sc_addAndroid t v i st src ts e s)"

definition score_steps :: "liveMobileScorer \<Rightarrow> liveMobileScorer \<Rightarrow> bool" where
  "score_steps = score_step\<^sup>*\<^sup>*"

lemma score_steps_refl [simp, intro]: "score_steps s s"
  by (simp add: score_steps_def)

lemma score_steps_trans: "score_steps a b \<Longrightarrow> score_steps b c \<Longrightarrow> score_steps a c"
  unfolding score_steps_def by (rule rtranclp_trans)

lemma score_steps_emit:
  "score_steps a s \<Longrightarrow> score_steps a (sc_warn m s)"
  "score_steps a s \<Longrightarrow> score_steps a (s\<lparr>sc_randomMAC := True\<rparr>)"
  "score_steps a s \<Longrightarrow> signal_ok t v i st \<Longrightarrow> score_steps a (sc_addIOS t v i st src ts e s)"
  "score_steps a s \<Longrightarrow> signal_ok t v i st \<Longrightarrow> score_steps a (sc_addIPad t v i st src ts e s)"
  "score_steps a s \<Longrightarrow> signal_ok t v i st \<Longrightarrow> score_steps a (sc_addApple t v i st src ts e s)"
  "score_steps a s \<Longrightarrow> signal_ok t v i st \<Longrightarrow> score_steps a (sc_addAndroid t v i st src ts e s)"
  unfolding score_steps_def by (auto intro: rtranclp.rtrancl_into_rtrancl score_step.intros)

lemma signal_ok_plain:
  "t \<noteq> ''dns_query'' \<Longrightarrow> 0 < i \<Longrightarrow> i \<le> 45 \<Longrightarrow> (st = Strong \<longrightarrow> 30 \<le> i) \<Longrightarrow> signal_ok t v i st"
  "signal_ok ''dns_query'' apple_seen 20 Weak"
  "signal_ok ''dns_query'' android_seen 20 Weak"
  by (simp_all add: signal_ok_def)

lemmas emit = score_steps_emit signal_ok_plain

lemma scoreHostname_steps:
  "score_steps a s \<Longrightarrow> t \<noteq> ''dns_query'' \<Longrightarrow> score_steps a (scoreHostname v t src ts s)"
  unfolding scoreHostname_def Let_def by (simp add: emit)

lemma scoreMACOrVendor_steps:
  "score_steps a s \<Longrightarrow> score_steps a (scoreMACOrVendor mac vendor src ts s)"
  unfolding scoreMACOrVendor_def Let_def by (simp add: emit split: option.split)

lemma scoreMDNS_steps: "score_steps a s \<Longrightarrow> score_steps a (scoreMDNS v src ts s)"
  unfolding scoreMDNS_def Let_def by (simp add: emit)

lemma scoreDNSCategory_steps: "score_steps a s \<Longrightarrow> score_steps a (scoreDNSCategory v src ts s)"
  unfolding scoreDNSCategory_def Let_def by (simp add: emit)

lemma scoreUserAgent_steps: "score_steps a s \<Longrightarrow> score_steps a (scoreUserAgent v src ts s)"
  unfolding scoreUserAgent_def Let_def by (simp add: emit)

lemma score_port_steps: "score_steps a s \<Longrightarrow> score_steps a (score_port p n l d src ts s)"
  unfolding score_port_def Let_def by (simp add: emit)

lemma scoreService_steps: "score_steps a s \<Longrightarrow> score_steps a (scoreService v src ts s)"
  unfolding scoreService_def Let_def by (simp add: emit score_port_steps split: prod.split)

lemma scorePassive_steps: "score_steps a s \<Longrightarrow> score_steps a (scorePassive v src ts s)"
  unfolding scorePassive_def Let_def by (simp add: emit)

lemma scoreEvidence_steps: "score_steps a s \<Longrightarrow> score_steps a (scoreEvidence item s)"
  unfolding scoreEvidence_def Let_def
  by (simp add: scoreHostname_steps scoreMACOrVendor_steps scoreMDNS_steps scoreDNSCategory_steps
      scoreUserAgent_steps scoreService_steps scorePassive_steps)

lemma score_all_steps: "score_steps a s \<Longrightarrow> score_steps a (score_all items s)"
  unfolding score_all_def by (induction items arbitrary: s) (simp_all add: scoreEvidence_steps)

lemma score_entry_steps: "score_steps s (score_entry entry s)"
  unfolding score_entry_def Let_def
  by (simp add: score_all_steps scoreMACOrVendor_steps scoreHostname_steps)

section \<open>The invariant of the scorer\<close>

definition hinted :: "MobileOS set \<Rightarrow> MobileEvidenceItem list \<Rightarrow> MobileEvidenceItem list" where
  "hinted oss es = filter (\<lambda>e. me_OSHint e \<in> oss) es"

definition impacts :: "MobileOS set \<Rightarrow> MobileEvidenceItem list \<Rightarrow> int" where
  "impacts oss es = sum_list (map me_ConfidenceImpact (hinted oss es))"

definition strong_count :: "MobileOS set \<Rightarrow> MobileEvidenceItem list \<Rightarrow> nat" where
  "strong_count oss es = length (filter (\<lambda>e. me_Strength e = Strong) (hinted oss es))"

text \<open>The evidence that counts for an OS: iPad scores also take the Apple-wide evidence, which
  carries the hint iOS.\<close>

fun family :: "MobileOS \<Rightarrow> MobileOS set" where
  "family OS_IPadOS = {OS_IOS, OS_IPadOS}"
| "family os = {os}"

fun score_of :: "MobileOS \<Rightarrow> liveMobileScorer \<Rightarrow> int" where
  "score_of OS_IOS s = sc_iosScore s"
| "score_of OS_IPadOS s = sc_ipadScore s"
| "score_of OS_Android s = sc_androidScore s"
| "score_of OS_Unknown s = 0"

definition item_ok :: "MobileEvidenceItem \<Rightarrow> bool" where
  "item_ok e =
     (signal_ok (me_Type e) (me_Value e) (me_ConfidenceImpact e) (me_Strength e) \<and>
      me_OSHint e \<noteq> OS_Unknown)"

definition cats_ok :: "MobileOS \<Rightarrow> liveMobileScorer \<Rightarrow> bool" where
  "cats_ok os s =
     (distinct (sc_catsByOS s os) \<and>
      set (sc_catsByOS s os) \<subseteq> me_Type ` set (hinted (family os) (sc_evidence s)) \<and>
      (0 < score_of os s \<longleftrightarrow> sc_catsByOS s os \<noteq> []) \<and> 0 \<le> score_of os s \<and>
      score_of os s \<le> impacts (family os) (sc_evidence s) \<and>
      sc_strongByOS s os \<le> int (strong_count (family os) (sc_evidence s)))"

definition scorer_ok :: "liveMobileScorer \<Rightarrow> bool" where
  "scorer_ok s =
     (sc_seq s = int (length (sc_evidence s)) \<and> list_all item_ok (sc_evidence s) \<and>
      sc_conflicts s = [] \<and>
      sc_iosScore s = impacts {OS_IOS} (sc_evidence s) \<and>
      sc_androidScore s = impacts {OS_Android} (sc_evidence s) \<and>
      impacts {OS_IPadOS} (sc_evidence s) \<le> sc_ipadScore s \<and>
      cats_ok OS_IOS s \<and> cats_ok OS_IPadOS s \<and> cats_ok OS_Android s)"

lemma hinted_append [simp]: "hinted oss (xs @ [x]) = hinted oss xs @ (if me_OSHint x \<in> oss then [x] else [])"
  by (simp add: hinted_def)

lemma hinted_Nil [simp]: "hinted oss [] = []"
  by (simp add: hinted_def)

lemma impacts_append [simp]:
  "impacts oss (xs @ [x]) = impacts oss xs + (if me_OSHint x \<in> oss then me_ConfidenceImpact x else 0)"
  by (simp add: impacts_def)

lemma strong_append [simp]:
  "strong_count oss (xs @ [x]) =
     strong_count oss xs + (if me_OSHint x \<in> oss \<and> me_Strength x = Strong then 1 else 0)"
  unfolding strong_count_def hinted_append by (cases "me_OSHint x \<in> oss"; cases "me_Strength x = Strong") simp_all

lemma append_new_not_Nil [simp]: "append_new xs x \<noteq> []"
  by (auto simp: append_new_def)

lemma trim_space_seen [simp]:
  "trim_space apple_seen = apple_seen" "trim_space android_seen = android_seen"
  by (simp_all add: apple_seen_def android_seen_def trim_space_def trim_func_def is_space_def byte_of_def)

lemma signal_ok_value [simp]: "signal_ok t v i st \<Longrightarrow> signal_ok t (trim_space v) i st"
  by (auto simp: signal_ok_def)

lemma scorer_ok_new: "scorer_ok (newLiveMobileScorer clock now)"
  by (simp add: scorer_ok_def newLiveMobileScorer_def cats_ok_def impacts_def strong_count_def)

lemmas add_defs = sc_addIOS_def sc_addIPad_def sc_addApple_def sc_addAndroid_def sc_addEvidence_def
  sc_track_def Let_def

lemma scorer_ok_step: "score_step s s' \<Longrightarrow> scorer_ok s \<Longrightarrow> scorer_ok s'"
proof (induction rule: score_step.induct)
  case (warning s m)
  then show ?case by (auto simp: scorer_ok_def cats_ok_def sc_warn_def)
next
  case (random_mac s)
  then show ?case by (auto simp: scorer_ok_def cats_ok_def)
next
  case (ios t v i st s src ts e)
  then have "0 < i" by (simp add: signal_ok_def)
  with ios show ?case
    by (auto simp: scorer_ok_def cats_ok_def add_defs item_ok_def)
next
  case (ipad t v i st s src ts e)
  then have "0 < i" by (simp add: signal_ok_def)
  with ipad show ?case
    by (auto simp: scorer_ok_def cats_ok_def add_defs item_ok_def)
next
  case (apple t v i st s src ts e)
  then have "0 < i" by (simp add: signal_ok_def)
  with apple show ?case
    by (auto simp: scorer_ok_def cats_ok_def add_defs item_ok_def)
next
  case (android t v i st s src ts e)
  then have "0 < i" by (simp add: signal_ok_def)
  with android show ?case
    by (auto simp: scorer_ok_def cats_ok_def add_defs item_ok_def)
qed

lemma scorer_ok_steps: "score_steps s s' \<Longrightarrow> scorer_ok s \<Longrightarrow> scorer_ok s'"
  unfolding score_steps_def by (induction rule: rtranclp_induct) (auto dest: scorer_ok_step)

lemma scorer_ok_entry: "scorer_ok (score_entry entry (newLiveMobileScorer clock now))"
  by (rule scorer_ok_steps [OF score_entry_steps scorer_ok_new])

section \<open>The verdict\<close>

lemma scorer_okD:
  assumes "scorer_ok s" and "os \<noteq> OS_Unknown"
  shows "cats_ok os s" "0 \<le> score_of os s"
    "score_of os s \<le> impacts (family os) (sc_evidence s)"
    "sc_strongByOS s os \<le> int (strong_count (family os) (sc_evidence s))"
  using assms by (cases os; simp add: scorer_ok_def cats_ok_def)+

interpretation candidate_order: weak_order candidate_less "\<lambda>_. True"
  by unfold_locales (auto simp: candidate_less_def split: if_splits)

text \<open>\<open>classification\<close> picks a candidate of the highest score.\<close>

lemma best_candidate_cases:
  "best_candidate s \<in> {(OS_IOS, sc_iosScore s), (OS_IPadOS, sc_ipadScore s), (OS_Android, sc_androidScore s)}"
proof -
  let ?xs = "[(OS_IOS, sc_iosScore s), (OS_IPadOS, sc_ipadScore s), (OS_Android, sc_androidScore s)]"
  have "sort_by candidate_less ?xs \<noteq> []"
    by (metis length_sort_by length_0_conv list.distinct(1))
  then have "best_candidate s \<in> set (sort_by candidate_less ?xs)"
    unfolding best_candidate_def by (rule hd_in_set)
  then show ?thesis by simp
qed

lemma best_candidate_score:
  "fst (best_candidate s) \<noteq> OS_Unknown" "snd (best_candidate s) = score_of (fst (best_candidate s)) s"
  using best_candidate_cases [of s] by auto

lemma best_candidate_max:
  "os \<noteq> OS_Unknown \<Longrightarrow> score_of os s \<le> snd (best_candidate s)"
proof -
  let ?xs = "[(OS_IOS, sc_iosScore s), (OS_IPadOS, sc_ipadScore s), (OS_Android, sc_androidScore s)]"
  assume "os \<noteq> OS_Unknown"
  then have mem: "(os, score_of os s) \<in> set (sort_by candidate_less ?xs)" by (cases os) simp_all
  have "sorted_wrt (\<lambda>a b. \<not> candidate_less b a) (sort_by candidate_less ?xs)"
    by (rule candidate_order.sorted_sort_by) simp
  then have "x = hd (sort_by candidate_less ?xs) \<or> \<not> candidate_less x (hd (sort_by candidate_less ?xs))"
    if "x \<in> set (sort_by candidate_less ?xs)" for x
    using that by (cases "sort_by candidate_less ?xs") auto
  from this [OF mem] show ?thesis
    unfolding best_candidate_def by (auto simp: candidate_less_def split: if_splits) (metis snd_conv)
qed

text \<open>What \<open>sc_finish\<close> copies from the scorer.\<close>

lemma detectConflicts_fields [simp]:
  "sc_evidence (detectConflicts s) = sc_evidence s" "sc_iosScore (detectConflicts s) = sc_iosScore s"
  "sc_ipadScore (detectConflicts s) = sc_ipadScore s"
  "sc_androidScore (detectConflicts s) = sc_androidScore s"
  "sc_warnings (detectConflicts s) = sc_warnings s" "sc_randomMAC (detectConflicts s) = sc_randomMAC s"
  "sc_catsByOS (detectConflicts s) = sc_catsByOS s" "sc_strongByOS (detectConflicts s) = sc_strongByOS s"
  "sc_now (detectConflicts s) = sc_now s" "score_of os (detectConflicts s) = score_of os s"
  "best_candidate (detectConflicts s) = best_candidate s"
  by (cases os; simp add: detectConflicts_def Let_def best_candidate_def)+

lemma detectConflicts_iff:
  "sc_conflicts s = [] \<Longrightarrow>
   sc_conflicts (detectConflicts s) \<noteq> [] \<longleftrightarrow>
     35 \<le> max (sc_iosScore s) (sc_ipadScore s) \<and> 35 \<le> sc_androidScore s"
  by (auto simp: detectConflicts_def Let_def)

lemma sc_finish_fields [simp]:
  "mf_IOSScore (sc_finish s) = sc_iosScore s" "mf_IPadScore (sc_finish s) = sc_ipadScore s"
  "mf_AndroidScore (sc_finish s) = sc_androidScore s"
  "mf_Evidence (sc_finish s) = sort_by evidence_less (sc_evidence s)"
  "mf_Conflicts (sc_finish s) = sc_conflicts (detectConflicts s)"
  "mf_Classification (sc_finish s) = classification (detectConflicts s)"
  "mf_Confidence (sc_finish s) = class_confidence (sc_randomMAC s) (classification (detectConflicts s))"
  "mf_Warnings (sc_finish s) = sortedStrings (sc_warnings s)"
  by (simp_all add: sc_finish_def Let_def)

lemma impacts_mset:
  "impacts oss xs = sum_mset (image_mset me_ConfidenceImpact (filter_mset (\<lambda>e. me_OSHint e \<in> oss) (mset xs)))"
  by (simp add: impacts_def hinted_def sum_mset_sum_list flip: mset_filter mset_map)

lemma strong_count_mset:
  "strong_count oss xs =
     size (filter_mset (\<lambda>e. me_Strength e = Strong) (filter_mset (\<lambda>e. me_OSHint e \<in> oss) (mset xs)))"
  by (simp add: strong_count_def hinted_def flip: mset_filter)

lemma finish_evidence [simp]:
  "impacts oss (sort_by evidence_less es) = impacts oss es"
  "strong_count oss (sort_by evidence_less es) = strong_count oss es"
  by (simp_all add: impacts_mset strong_count_mset)

text \<open>The branches of \<open>classification\<close> that need no conflict.\<close>

definition verdict :: "MobileOS \<Rightarrow> int \<Rightarrow> bool \<Rightarrow> bool \<Rightarrow> int \<Rightarrow> MobileClass" where
  "verdict os score only_dns random_only_mac strong =
     (if score = 0 then UnknownDevice
      else if only_dns then possibleClass os
      else if random_only_mac \<and> score < 20 then UnknownMobile
      else if score \<ge> 80 \<and> strong \<ge> 2 then confirmedClass os
      else if score \<ge> 60 then probableClass os
      else if score \<ge> 20 then possibleClass os
      else UnknownMobile)"

lemma classification_verdict:
  "classification s =
     (if sc_conflicts s \<noteq> [] then MobileConflict
      else verdict (fst (best_candidate s)) (snd (best_candidate s)) (onlyDNS (fst (best_candidate s)) s)
        (sc_randomMAC s \<and> onlyMAC (fst (best_candidate s)) s) (sc_strongByOS s (fst (best_candidate s))))"
  by (auto simp: classification_def verdict_def Let_def)

lemma class_families [simp]:
  "confirmedClass a \<noteq> probableClass b" "confirmedClass a \<noteq> possibleClass b"
  "confirmedClass a \<noteq> UnknownDevice" "confirmedClass a \<noteq> UnknownMobile" "confirmedClass a \<noteq> MobileConflict"
  "probableClass a \<noteq> possibleClass b" "probableClass a \<noteq> UnknownDevice"
  "probableClass a \<noteq> UnknownMobile" "probableClass a \<noteq> MobileConflict"
  "possibleClass a \<noteq> UnknownDevice" "possibleClass a \<noteq> UnknownMobile" "possibleClass a \<noteq> MobileConflict"
  "probableClass a \<noteq> confirmedClass b" "possibleClass a \<noteq> confirmedClass b" "possibleClass a \<noteq> probableClass b"
  by (cases a; cases b; simp)+

lemma confirmedClass_inj:
  "confirmedClass a = confirmedClass b \<Longrightarrow> a \<noteq> OS_Unknown \<Longrightarrow> b \<noteq> OS_Unknown \<Longrightarrow> a = b"
  by (cases a; cases b) simp_all

lemma verdict_cases:
  "verdict os n d r st = confirmedClass os' \<Longrightarrow> confirmedClass os = confirmedClass os' \<and> 80 \<le> n \<and> 2 \<le> st \<and> \<not> d"
  "verdict os n d r st = probableClass os' \<Longrightarrow> \<not> d"
  "verdict os n d r st = UnknownDevice \<longleftrightarrow> n = 0"
  "verdict os n d r st \<noteq> MobileConflict"
  by (auto simp: verdict_def class_families class_families [symmetric] split: if_splits)

lemma finish_class:
  assumes "scorer_ok s"
  shows "mf_Classification (sc_finish s) =
     (if 35 \<le> max (sc_iosScore s) (sc_ipadScore s) \<and> 35 \<le> sc_androidScore s then MobileConflict
      else verdict (fst (best_candidate s)) (snd (best_candidate s)) (onlyDNS (fst (best_candidate s)) s)
        (sc_randomMAC s \<and> onlyMAC (fst (best_candidate s)) s) (sc_strongByOS s (fst (best_candidate s))))"
proof -
  have "sc_conflicts s = []" using assms by (simp add: scorer_ok_def)
  then show ?thesis
    using detectConflicts_iff [of s] by (simp add: classification_verdict onlyDNS_def onlyMAC_def)
qed

lemma finish_conflict:
  "scorer_ok s \<Longrightarrow> mf_Conflicts (sc_finish s) \<noteq> [] \<longleftrightarrow> mf_Classification (sc_finish s) = MobileConflict"
  using detectConflicts_iff [of s] by (auto simp: finish_class verdict_cases scorer_ok_def simp del: sc_finish_fields(6))

lemma no_evidence_iff:
  assumes "scorer_ok s"
  shows "snd (best_candidate s) = 0 \<longleftrightarrow> sc_evidence s = []"
proof
  assume "sc_evidence s = []"
  then have "impacts oss (sc_evidence s) = 0" for oss by (simp add: impacts_def)
  then show "snd (best_candidate s) = 0"
    using scorer_okD(2,3) [OF assms best_candidate_score(1)] best_candidate_score(2) [of s]
    by (metis order_antisym)
next
  assume zero: "snd (best_candidate s) = 0"
  have le: "score_of os s \<le> 0" if "os \<noteq> OS_Unknown" for os
    using best_candidate_max [OF that, of s] zero by simp
  have part: "impacts {os} (sc_evidence s) \<le> 0" if "os \<noteq> OS_Unknown" for os
    using that assms le [of OS_IOS] le [of OS_IPadOS] le [of OS_Android]
    by (cases os) (auto simp: scorer_ok_def)
  show "sc_evidence s = []"
  proof (rule ccontr)
    assume "sc_evidence s \<noteq> []"
    then obtain e where e: "e \<in> set (sc_evidence s)" by (cases "sc_evidence s") auto
    have pos: "0 \<le> me_ConfidenceImpact x" if "x \<in> set (sc_evidence s)" for x
      using that assms by (auto simp: scorer_ok_def list_all_iff item_ok_def signal_ok_def)
    have "me_OSHint e \<noteq> OS_Unknown" "0 < me_ConfidenceImpact e"
      using e assms by (auto simp: scorer_ok_def list_all_iff item_ok_def signal_ok_def)
    moreover have "me_ConfidenceImpact e \<le> impacts {me_OSHint e} (sc_evidence s)"
      unfolding impacts_def using e pos by (intro member_le_sum_list) (auto simp: hinted_def)
    ultimately show False using part [of "me_OSHint e"] by simp
  qed
qed

lemma class_confidence_bounds:
  "0 \<le> class_confidence r c" "class_confidence r c \<le> flit (9 / 10)"
  "class_confidence r c = 0 \<longleftrightarrow> c = UnknownDevice"
proof -
  have pos: "0 < flit (9 / 10)" "0 < flit (72 / 100)" "0 < flit (34 / 100)" "0 < flit (42 / 100)"
    "0 < flit (45 / 100)" "0 < flit (22 / 100)" by code_simp+
  have le: "flit (72 / 100) \<le> flit (9 / 10)" "flit (34 / 100) \<le> flit (9 / 10)" "flit (42 / 100) \<le> flit (9 / 10)"
    "flit (45 / 100) \<le> flit (9 / 10)" "flit (22 / 100) \<le> flit (9 / 10)" by code_simp+
  show "0 \<le> class_confidence r c" "class_confidence r c \<le> flit (9 / 10)"
    using pos le by (auto simp: class_confidence_def)
  show "class_confidence r c = 0 \<longleftrightarrow> c = UnknownDevice"
    using pos by (cases c) (auto simp: class_confidence_def)
qed

abbreviation fingerprint_of :: "gotime \<Rightarrow> DevicePoolEntry \<Rightarrow> gotime \<Rightarrow> MobileFingerprint" where
  "fingerprint_of clock entry now \<equiv> fingerprintLiveMobileDevice clock entry now"

text \<open>
  The scores of a fingerprint are the impacts of its evidence (an iPad score lies between
  the iPad evidence and all Apple evidence), it is \<open>MobileConflict\<close> exactly when both the
  Apple and the Android score reach 35, \<open>UnknownDevice\<close> exactly when there is no evidence, and
  its confidence lies between 0 and 0.9 and is 0 only for an unknown device.
\<close>

theorem fingerprint_verdict:
  "mf_IOSScore (fingerprintLiveMobileDevice clock entry now) =
     impacts {OS_IOS} (mf_Evidence (fingerprintLiveMobileDevice clock entry now)) \<and>
   mf_AndroidScore (fingerprintLiveMobileDevice clock entry now) =
     impacts {OS_Android} (mf_Evidence (fingerprintLiveMobileDevice clock entry now)) \<and>
   impacts {OS_IPadOS} (mf_Evidence (fingerprintLiveMobileDevice clock entry now)) \<le>
     mf_IPadScore (fingerprintLiveMobileDevice clock entry now) \<and>
   mf_IPadScore (fingerprintLiveMobileDevice clock entry now) \<le>
     impacts {OS_IOS, OS_IPadOS} (mf_Evidence (fingerprintLiveMobileDevice clock entry now)) \<and>
   (mf_Classification (fingerprintLiveMobileDevice clock entry now) = MobileConflict \<longleftrightarrow>
     35 \<le> max (mf_IOSScore (fingerprintLiveMobileDevice clock entry now))
             (mf_IPadScore (fingerprintLiveMobileDevice clock entry now)) \<and>
     35 \<le> mf_AndroidScore (fingerprintLiveMobileDevice clock entry now)) \<and>
   (mf_Classification (fingerprintLiveMobileDevice clock entry now) = UnknownDevice \<longleftrightarrow>
     mf_Evidence (fingerprintLiveMobileDevice clock entry now) = []) \<and>
   0 \<le> mf_Confidence (fingerprintLiveMobileDevice clock entry now) \<and>
   mf_Confidence (fingerprintLiveMobileDevice clock entry now) \<le> flit (9 / 10) \<and>
   (mf_Confidence (fingerprintLiveMobileDevice clock entry now) = 0 \<longleftrightarrow>
     mf_Classification (fingerprintLiveMobileDevice clock entry now) = UnknownDevice)"
proof -
  define s where "s = score_entry entry (newLiveMobileScorer clock now)"
  have ok: "scorer_ok s" unfolding s_def by (rule scorer_ok_entry)
  have fp: "fingerprintLiveMobileDevice clock entry now = sc_finish s"
    by (simp add: fingerprintLiveMobileDevice_def s_def)
  have none: "sort_by evidence_less (sc_evidence s) = [] \<longleftrightarrow> sc_evidence s = []"
    by (metis length_sort_by length_0_conv)
  have cls: "mf_Classification (sc_finish s) = MobileConflict \<longleftrightarrow>
      35 \<le> max (sc_iosScore s) (sc_ipadScore s) \<and> 35 \<le> sc_androidScore s"
    using finish_class [OF ok] verdict_cases(4) by (auto simp del: sc_finish_fields(6))
  have zero: "sc_evidence s = []" if "mf_Classification (sc_finish s) = UnknownDevice"
    using that no_evidence_iff [OF ok] finish_class [OF ok] verdict_cases(3)
    by (auto simp del: sc_finish_fields(6) split: if_splits)
  have unknown: "mf_Classification (sc_finish s) = UnknownDevice" if "sc_evidence s = []"
  proof -
    have "sc_iosScore s = 0" "sc_androidScore s = 0" "sc_ipadScore s = 0"
      using that ok scorer_okD(2,3) [OF ok, of OS_IPadOS] by (simp_all add: scorer_ok_def impacts_def)
    with that no_evidence_iff [OF ok] finish_class [OF ok] verdict_cases(3)
    show ?thesis by (simp del: sc_finish_fields(6))
  qed
  have conf: "0 \<le> mf_Confidence (sc_finish s)" "mf_Confidence (sc_finish s) \<le> flit (9 / 10)"
    "mf_Confidence (sc_finish s) = 0 \<longleftrightarrow> mf_Classification (sc_finish s) = UnknownDevice"
    by (simp_all add: class_confidence_bounds)
  show ?thesis
    unfolding fp
    using ok cls zero unknown none conf scorer_okD(3) [OF ok, of OS_IPadOS]
    by (simp add: scorer_ok_def del: sc_finish_fields(6,7)) blast
qed

text \<open>
  C33: a fingerprint says "Confirmed" only when at least two strong pieces of evidence of that
  OS family, with impacts of at least 80 in total, were seen and no conflict was recorded; its
  confidence is then 0.9.
\<close>

theorem confirmed_needs_two_strong:
  assumes "mf_Classification (fingerprintLiveMobileDevice clock entry now) = confirmedClass os"
    and "os \<noteq> OS_Unknown"
  shows "80 \<le> impacts (family os) (mf_Evidence (fingerprintLiveMobileDevice clock entry now)) \<and>
    2 \<le> strong_count (family os) (mf_Evidence (fingerprintLiveMobileDevice clock entry now)) \<and>
    mf_Conflicts (fingerprintLiveMobileDevice clock entry now) = [] \<and>
    mf_Confidence (fingerprintLiveMobileDevice clock entry now) = flit (9 / 10)"
proof -
  define s where "s = score_entry entry (newLiveMobileScorer clock now)"
  have ok: "scorer_ok s" unfolding s_def by (rule scorer_ok_entry)
  have fp: "fingerprintLiveMobileDevice clock entry now = sc_finish s"
    by (simp add: fingerprintLiveMobileDevice_def s_def)
  let ?b = "fst (best_candidate s)"
  have cls: "mf_Classification (sc_finish s) = confirmedClass os" using assms(1) by (simp add: fp)
  have v: "confirmedClass ?b = confirmedClass os" "80 \<le> score_of ?b s" "2 \<le> sc_strongByOS s ?b"
    using cls finish_class [OF ok] verdict_cases(1) class_families(5) best_candidate_score(2) [of s]
    by (metis (no_types, lifting))+
  then have "?b = os" using confirmedClass_inj assms(2) best_candidate_score(1) by blast
  then have "80 \<le> impacts (family os) (sc_evidence s)" "2 \<le> strong_count (family os) (sc_evidence s)"
    using v scorer_okD(3,4) [OF ok assms(2)] by auto
  moreover have "mf_Conflicts (sc_finish s) = []" using finish_conflict [OF ok] cls by auto
  moreover have "mf_Confidence (sc_finish s) = flit (9 / 10)"
    using cls by (cases os) (auto simp: class_confidence_def)
  ultimately show ?thesis unfolding fp by simp
qed

text \<open>
  Passive DNS never names an OS firmly. Every DNS item of a fingerprint is weak and holds
  one of the two categories, never a domain; and when DNS is the only evidence, the verdict is
  at most "possible" (or the conflict), with a confidence of at most 0.45.
\<close>

theorem dns_only_is_weak:
  assumes "\<forall>e \<in> set (mf_Evidence (fingerprintLiveMobileDevice clock entry now)). me_Type e = ''dns_query''"
  shows "mf_Classification (fingerprintLiveMobileDevice clock entry now) \<in>
      {PossibleIOS, PossibleIPadOS, PossibleAndroid, MobileConflict, UnknownDevice} \<and>
    mf_Confidence (fingerprintLiveMobileDevice clock entry now) \<le> flit (45 / 100) \<and>
    (\<forall>e \<in> set (mf_Evidence (fingerprintLiveMobileDevice clock entry now)).
       me_Strength e = Weak \<and> me_Value e \<in> {apple_seen, android_seen})"
proof -
  define s where "s = score_entry entry (newLiveMobileScorer clock now)"
  have ok: "scorer_ok s" unfolding s_def by (rule scorer_ok_entry)
  have fp: "fingerprintLiveMobileDevice clock entry now = sc_finish s"
    by (simp add: fingerprintLiveMobileDevice_def s_def)
  have dns: "\<forall>e \<in> set (sc_evidence s). me_Type e = ''dns_query''" using assms by (simp add: fp)
  have vals: "\<forall>e \<in> set (sc_evidence s). me_Strength e = Weak \<and> me_Value e \<in> {apple_seen, android_seen}"
    using dns ok by (auto simp: scorer_ok_def list_all_iff item_ok_def signal_ok_def)
  let ?b = "fst (best_candidate s)"
  have only: "onlyDNS ?b s" if "snd (best_candidate s) \<noteq> 0"
  proof -
    have cats: "cats_ok ?b s" by (rule scorer_okD(1) [OF ok best_candidate_score(1)])
    with dns have "set (sc_catsByOS s ?b) \<subseteq> {''dns_query''}" by (auto simp: cats_ok_def hinted_def)
    moreover have "sc_catsByOS s ?b \<noteq> []" "distinct (sc_catsByOS s ?b)"
      using cats that best_candidate_score(2) [of s] by (auto simp: cats_ok_def)
    ultimately show ?thesis
      by (auto simp: onlyDNS_def distinct_card [symmetric] subset_singleton_iff)
  qed
  have cls: "mf_Classification (sc_finish s) \<in>
      {PossibleIOS, PossibleIPadOS, PossibleAndroid, MobileConflict, UnknownDevice}"
    using only by (cases ?b) (auto simp: finish_class [OF ok] verdict_def simp del: sc_finish_fields(6))
  have le: "flit (34 / 100) \<le> flit (45 / 100)" "flit (42 / 100) \<le> flit (45 / 100)" "0 \<le> flit (45 / 100)"
    by code_simp+
  have "mf_Confidence (sc_finish s) \<le> flit (45 / 100)"
    using cls le by (auto simp: class_confidence_def)
  with cls vals show ?thesis unfolding fp by simp
qed

definition confirmed_entry :: DevicePoolEntry where
  "confirmed_entry = (new_entry ''192.168.1.23'' [] SourceARP)
     \<lparr>pe_Hostname := ''ava-iphone'',
      pe_Evidence := [empty_evidence\<lparr>ev_Type := ''mdns'', ev_Value := ''iphone''\<rparr>]\<rparr>"

lemmas str_eval = str_contains_def to_lower_def lower_char_def byte_of_def trim_space_def trim_func_def
  is_space_def

lemma confirmed_entry_steps:
  "scoreHostname ''ava-iphone'' ''hostname'' src ts s =
     sc_addIOS ''hostname'' ''ava-iphone'' 45 Strong src (sc_ts s ts) ''Hostname explicitly contains iPhone.'' s"
  "scoreMDNS ''iphone'' src t s =
     sc_addIOS ''mdns'' ''iphone'' 45 Strong src t ''mDNS metadata explicitly contains iPhone.'' s"
  "scoreEvidence (empty_evidence\<lparr>ev_Type := ''mdns'', ev_Value := ''iphone''\<rparr>) s =
     scoreMDNS ''iphone'' [] (sc_ts s []) s"
  "\<not> isIdentityEvidence (empty_evidence\<lparr>ev_Type := ''mdns'', ev_Value := ''iphone''\<rparr>)"
  by (simp_all add: scoreHostname_def scoreMDNS_def scoreEvidence_def isIdentityEvidence_def ev_text_def
      empty_evidence_def Let_def str_eval)

theorem confirmed_needs_two_strong_witness:
  "2 \<le> strong_count {OS_IOS} (mf_Evidence (fingerprintLiveMobileDevice 5 confirmed_entry 5))"
proof -
  let ?s = "score_entry confirmed_entry (newLiveMobileScorer 5 5)"
  have "sc_iosScore ?s = 90" "sc_ipadScore ?s = 0" "sc_androidScore ?s = 0" "sc_strongByOS ?s OS_IOS = 2"
    "sc_catsByOS ?s OS_IOS = [''hostname'', ''mdns'']" "sc_conflicts ?s = []"
    by (simp_all add: score_entry_def score_all_def confirmed_entry_def new_entry_def
        newLiveMobileScorer_def confirmed_entry_steps add_defs append_new_def)
  then have "mf_Classification (fingerprintLiveMobileDevice 5 confirmed_entry 5) = confirmedClass OS_IOS"
    by (simp add: fingerprintLiveMobileDevice_def classification_def best_candidate_def sort_by_def
        candidate_less_def detectConflicts_def onlyDNS_def)
  from confirmed_needs_two_strong [OF this] show ?thesis by simp
qed

definition dns_entry :: DevicePoolEntry where
  "dns_entry = (new_entry ''192.168.1.24'' [] SourceARP)
     \<lparr>pe_Evidence := [empty_evidence\<lparr>ev_Type := ''dns_query'', ev_Value := apple_seen\<rparr>]\<rparr>"

lemma dns_entry_steps:
  "scoreEvidence (empty_evidence\<lparr>ev_Type := ''dns_query'', ev_Value := apple_seen\<rparr>) s =
     sc_warn dns_warning (sc_addApple ''dns_query'' apple_seen 20 Weak [] (sc_ts s [])
       ''Only matched Apple OS-related domain hints are stored; DNS evidence alone cannot confirm iOS/iPadOS.'' s)"
  "\<not> isIdentityEvidence (empty_evidence\<lparr>ev_Type := ''dns_query'', ev_Value := apple_seen\<rparr>)"
  by (simp_all add: scoreDNSCategory_def scoreEvidence_def isIdentityEvidence_def ev_text_def
      empty_evidence_def apple_seen_def Let_def str_eval)

theorem dns_only_is_weak_witness:
  "mf_Confidence (fingerprintLiveMobileDevice 5 dns_entry 5) \<le> flit (45 / 100) \<and>
   mf_Evidence (fingerprintLiveMobileDevice 5 dns_entry 5) \<noteq> []"
proof -
  let ?s = "score_entry dns_entry (newLiveMobileScorer 5 5)"
  have ev: "map me_Type (sc_evidence ?s) = [''dns_query'']"
    by (simp add: score_entry_def score_all_def dns_entry_def new_entry_def
        newLiveMobileScorer_def dns_entry_steps add_defs sc_warn_def)
  have eq: "set (mf_Evidence (fingerprintLiveMobileDevice 5 dns_entry 5)) = set (sc_evidence ?s)"
    by (simp add: fingerprintLiveMobileDevice_def)
  have "me_Type ` set (sc_evidence ?s) = {''dns_query''}" using arg_cong [OF ev, of set] by simp
  then have all: "\<forall>e \<in> set (mf_Evidence (fingerprintLiveMobileDevice 5 dns_entry 5)). me_Type e = ''dns_query''"
    unfolding eq by auto
  have "sc_evidence ?s \<noteq> []" using ev by auto
  then have "mf_Evidence (fingerprintLiveMobileDevice 5 dns_entry 5) \<noteq> []" using eq by auto
  with dns_only_is_weak [OF all] show ?thesis by (elim conjE) (intro conjI)
qed

end
