(* ===== verification/Evidence_Laws.thy ===== *)
theory Evidence_Laws
  imports Mobile_Fingerprint
begin

text \<open>
  Laws of the filters evidence passes on its way into the registry
  (\<open>apps/desktop/ippool/mobile_fingerprint.go\<close>): the privacy of \<open>sanitizeEvidenceForRegistry\<close>,
  the merge of \<open>mergeEvidence\<close> as an insertion into a keyed collection, and the word search
  of \<open>standaloneToken\<close> against its specification.
\<close>

section \<open>The privacy filter\<close>

lemma seen_categories [simp]:
  "to_lower (trim_space apple_seen) = apple_seen" "to_lower (trim_space android_seen) = android_seen"
  "trim_space apple_seen = apple_seen" "trim_space android_seen = android_seen"
  "apple_seen \<noteq> []" "android_seen \<noteq> []" "apple_seen \<noteq> android_seen"
  by (simp_all add: apple_seen_def android_seen_def trim_space_def trim_func_def is_space_def byte_of_def
      to_lower_def lower_char_def)

lemma privacySafeDNSCategory_range:
  "privacySafeDNSCategory raw \<in> {[], apple_seen, android_seen}"
  by (auto simp: privacySafeDNSCategory_def Let_def)

lemma privacySafeDNSCategory_seen [simp]:
  "privacySafeDNSCategory apple_seen = apple_seen" "privacySafeDNSCategory android_seen = android_seen"
  by (simp_all add: privacySafeDNSCategory_def Let_def del: seen_categories(3,4))

lemma passive_dns_names [simp]:
  "trim_space ''dns_query'' = ''dns_query''" "trim_space ''passive_dns_metadata'' = ''passive_dns_metadata''"
  "isPassiveDNSMetadata (to_lower (''dns_query'' @ '' '' @ ''passive_dns_metadata''))"
  by (simp_all add: isPassiveDNSMetadata_def trim_space_def trim_func_def is_space_def byte_of_def
      to_lower_def lower_char_def str_contains_def)

lemma default_names [simp]: "trim_space ''metadata'' = ''metadata''" "trim_space ''discovery'' = ''discovery''"
  by (simp_all add: trim_space_def trim_func_def is_space_def byte_of_def)

text \<open>The three defaults the filter sets before it looks at the text.\<close>

definition defaulted :: "EvidenceItem \<Rightarrow> EvidenceItem" where
  "defaulted item =
     item\<lparr>ev_Value := trim_space (ev_Value item),
          ev_Type := (if trim_space (ev_Type item) = [] then ''metadata'' else trim_space (ev_Type item)),
          ev_Source := (if trim_space (ev_Source item) = [] then ''discovery'' else trim_space (ev_Source item)),
          ev_Strength := (if ev_Strength item = [] then StrengthWeak else ev_Strength item)\<rparr>"

lemma StrengthWeak_not_Nil [simp]: "StrengthWeak \<noteq> []"
  by (simp add: StrengthWeak_def)

lemma defaulted_idem: "defaulted (defaulted item) = defaulted item"
  by (simp add: defaulted_def)

lemma defaulted_names: "ev_Type (defaulted item) \<noteq> []" "ev_Source (defaulted item) \<noteq> []"
  "ev_Strength (defaulted item) \<noteq> []"
  by (simp_all add: defaulted_def)

definition passive_item :: "string \<Rightarrow> EvidenceItem \<Rightarrow> EvidenceItem" where
  "passive_item category item =
     item\<lparr>ev_Type := ''dns_query'', ev_Value := category, ev_Source := ''passive_dns_metadata'',
          ev_ConfidenceImpact := (if ev_ConfidenceImpact item \<le> 0 then flit (15 / 100) else ev_ConfidenceImpact item)\<rparr>"

definition has_content :: "EvidenceItem \<Rightarrow> bool" where
  "has_content item =
     (ev_Value item \<noteq> [] \<or> str_contains (ev_text item) ''service'' \<or> str_contains (ev_text item) ''port'')"

lemma sanitize_eq:
  "sanitizeEvidenceForRegistry item =
     (let item = defaulted item; lowerType = ev_text item
      in if isPassiveDNSMetadata lowerType then
           (let category = privacySafeDNSCategory (ev_Value item)
            in if category = [] then (empty_evidence, False)
               else
                 (let item = passive_item category item
                  in (item\<lparr>ev_Strength := (if ev_Strength item = [] then StrengthWeak else ev_Strength item)\<rparr>,
                      ev_Value item \<noteq> [] \<or> str_contains lowerType ''service'' \<or> str_contains lowerType ''port'')))
         else (item, has_content item))"
  by (cases "trim_space (ev_Type item) = []"; cases "trim_space (ev_Source item) = []";
      cases "ev_Strength item = []")
    (simp_all add: sanitizeEvidenceForRegistry_def defaulted_def passive_item_def has_content_def Let_def)

lemma sanitize_unfold:
  "sanitizeEvidenceForRegistry item =
     (if isPassiveDNSMetadata (ev_text (defaulted item)) then
        (let category = privacySafeDNSCategory (ev_Value (defaulted item))
         in if category = [] then (empty_evidence, False)
            else (passive_item category (defaulted item), True))
      else (defaulted item, has_content (defaulted item)))"
  using defaulted_names(3) [of item] unfolding sanitize_eq Let_def by (simp add: passive_item_def)

lemma flit_15: "0 < flit (15 / 100)"
  by code_simp

lemma sanitize_passive_item:
  assumes "category \<in> {apple_seen, android_seen}" and "ev_Strength item \<noteq> []"
  shows "sanitizeEvidenceForRegistry (passive_item category item) = (passive_item category item, True)"
proof -
  have "defaulted (passive_item category item) = passive_item category item"
    using assms by (auto simp: defaulted_def passive_item_def)
  moreover have "isPassiveDNSMetadata (ev_text (passive_item category item))"
    using passive_dns_names(3) by (simp only: ev_text_def passive_item_def) simp
  moreover have "passive_item category (passive_item category item) = passive_item category item"
    using flit_15 by (auto simp: passive_item_def)
  ultimately show ?thesis
    using assms by (auto simp: sanitize_unfold) (simp_all add: passive_item_def)
qed

lemma sanitized_evidence_laws:
  assumes "sanitizeEvidenceForRegistry item = (kept, True)"
  shows "ev_Type kept \<noteq> [] \<and> ev_Source kept \<noteq> [] \<and> ev_Strength kept \<noteq> [] \<and>
    sanitizeEvidenceForRegistry kept = (kept, True) \<and>
    (isPassiveDNSMetadata (ev_text kept) \<longrightarrow>
      ev_Value kept \<in> {apple_seen, android_seen} \<and> ev_Type kept = ''dns_query'' \<and>
      ev_Source kept = ''passive_dns_metadata'' \<and> 0 < ev_ConfidenceImpact kept)"
proof (cases "isPassiveDNSMetadata (ev_text (defaulted item))")
  case True
  let ?c = "privacySafeDNSCategory (ev_Value (defaulted item))"
  have c: "?c \<in> {apple_seen, android_seen}" and kept: "kept = passive_item ?c (defaulted item)"
    using assms True privacySafeDNSCategory_range [of "ev_Value (defaulted item)"]
    by (auto simp: sanitize_unfold Let_def split: if_splits)
  show ?thesis
    using sanitize_passive_item [OF c defaulted_names(3)] c flit_15 defaulted_names(3) [of item]
    unfolding kept by (auto simp: passive_item_def)
next
  case False
  then have "kept = defaulted item" "has_content (defaulted item)"
    using assms by (auto simp: sanitize_unfold)
  then show ?thesis
    using False defaulted_names [of item] by (simp add: sanitize_unfold defaulted_idem)
qed

text \<open>What holds of evidence in the registry: the filter would keep it as it is.\<close>

definition evidence_safe :: "EvidenceItem \<Rightarrow> bool" where
  "evidence_safe e =
     (sanitizeEvidenceForRegistry e = (e, True) \<and>
      (isPassiveDNSMetadata (ev_text e) \<longrightarrow> ev_Value e \<in> {apple_seen, android_seen}))"

lemma sanitize_evidence_safe: "sanitizeEvidenceForRegistry item = (kept, True) \<Longrightarrow> evidence_safe kept"
  using sanitized_evidence_laws by (auto simp: evidence_safe_def)

text \<open>
  What the filter keeps. A kept item is named, has a strength and is left alone by a second
  pass; an item whose text speaks of DNS (but not of mDNS, DNS-SD or Bonjour) is kept only with
  one of two category words as its value, so no domain name reaches the registry.
\<close>

theorem sanitized_evidence_private:
  assumes "sanitizeEvidenceForRegistry item = (kept, True)"
  shows "ev_Type kept \<noteq> [] \<and> ev_Source kept \<noteq> [] \<and> ev_Strength kept \<noteq> [] \<and>
    sanitizeEvidenceForRegistry kept = (kept, True) \<and>
    (isPassiveDNSMetadata (ev_text kept) \<longrightarrow>
      ev_Value kept \<in> {apple_seen, android_seen} \<and> ev_Type kept = ''dns_query'' \<and>
      ev_Source kept = ''passive_dns_metadata'' \<and> 0 < ev_ConfidenceImpact kept)"
  using assms by (rule sanitized_evidence_laws)

theorem sanitized_evidence_private_witness:
  "\<exists>kept. sanitizeEvidenceForRegistry
     (empty_evidence\<lparr>ev_Type := ''dns'', ev_Value := ''www.icloud.com''\<rparr>) = (kept, True) \<and>
   ev_Value kept \<in> {apple_seen, android_seen}"
proof -
  let ?item = "empty_evidence\<lparr>ev_Type := ''dns'', ev_Value := ''www.icloud.com''\<rparr>"
  have d: "defaulted ?item = ?item\<lparr>ev_Source := ''discovery'', ev_Strength := StrengthWeak\<rparr>"
    by (simp add: defaulted_def empty_evidence_def trim_space_def trim_func_def is_space_def byte_of_def)
  have p: "isPassiveDNSMetadata (ev_text (defaulted ?item))"
    unfolding d by (simp add: ev_text_def isPassiveDNSMetadata_def empty_evidence_def to_lower_def
        lower_char_def byte_of_def str_contains_def)
  have v: "ev_Value (defaulted ?item) = ''www.icloud.com''" unfolding d by (simp add: empty_evidence_def)
  have "privacySafeDNSCategory ''www.icloud.com'' = apple_seen" by code_simp
  then have s: "sanitizeEvidenceForRegistry ?item = (passive_item apple_seen (defaulted ?item), True)"
    using p v by (simp only: sanitize_unfold Let_def if_True if_False seen_categories)
  have "isPassiveDNSMetadata (ev_text (passive_item apple_seen (defaulted ?item)))"
    using passive_dns_names(3) by (simp add: ev_text_def passive_item_def)
  then show ?thesis using s sanitized_evidence_private [OF s] by blast
qed

section \<open>Merging evidence by key\<close>

text \<open>Whether an item replaces one with its key.\<close>

definition outranks :: "EvidenceItem \<Rightarrow> EvidenceItem \<Rightarrow> bool" where
  "outranks item old =
     (evidenceRank (ev_Strength item) > evidenceRank (ev_Strength old) \<or>
      (evidenceRank (ev_Strength item) = evidenceRank (ev_Strength old) \<and>
       ev_ConfidenceImpact item > ev_ConfidenceImpact old))"

lemma outranks_irrefl [simp]: "\<not> outranks e e"
  by (simp add: outranks_def)

lemma outranks_asym: "outranks a b \<Longrightarrow> \<not> outranks b a"
  by (auto simp: outranks_def)

text \<open>
  The contract of a collection merged by key: what \<open>DevicePool\<close> needs of \<open>mergeEvidence\<close>.
  The operation returns the new collection and whether it changed.
\<close>

locale merge_store =
  fixes merge :: "'e list \<Rightarrow> 'e \<Rightarrow> 'e list \<times> bool"
    and key :: "'e \<Rightarrow> 'k" and beats :: "'e \<Rightarrow> 'e \<Rightarrow> bool"
  assumes merge_keys: "map key (fst (merge es e)) =
      (if key e \<in> key ` set es then map key es else map key es @ [key e])"
    and merge_members: "set (fst (merge es e)) \<subseteq> insert e (set es)"
    and merge_changed: "snd (merge es e) \<longleftrightarrow> fst (merge es e) \<noteq> es"
    and merge_best: "x \<in> set es \<Longrightarrow> \<exists>y \<in> set (fst (merge es e)). key y = key x \<and> (y = x \<or> beats y x)"
begin

text \<open>Merging a batch in order, keeping the disjunction of the change flags.\<close>

definition merge_batch :: "'e list \<Rightarrow> 'e list \<Rightarrow> 'e list \<times> bool" where
  "merge_batch items es = fold (\<lambda>e p. (fst (merge (fst p) e), snd p \<or> snd (merge (fst p) e))) items (es, False)"

lemma merge_distinct: "distinct (map key es) \<Longrightarrow> distinct (map key (fst (merge es e)))"
  by (auto simp: merge_keys)

lemma merge_grows: "length es \<le> length (fst (merge es e))"
  using merge_keys [of es e] by (metis length_map le_refl length_append le_add1)

lemma merge_has_key: "key e \<in> key ` set (fst (merge es e))"
proof -
  have "key e \<in> set (map key (fst (merge es e)))" by (simp add: merge_keys)
  then show ?thesis by simp
qed

lemma batch_inv:
  assumes "\<forall>e \<in> set items. P e" and "\<forall>e \<in> set es. P e" and "distinct (map key es)"
  shows "(\<forall>e \<in> set (fst (merge_batch items es)). P e) \<and> distinct (map key (fst (merge_batch items es)))"
proof -
  have "(\<forall>e \<in> set (fst (fold (\<lambda>e p. (fst (merge (fst p) e), snd p \<or> snd (merge (fst p) e))) items p)). P e) \<and>
      distinct (map key (fst (fold (\<lambda>e p. (fst (merge (fst p) e), snd p \<or> snd (merge (fst p) e))) items p)))"
    if "\<forall>e \<in> set (fst p). P e" "distinct (map key (fst p))" "\<forall>e \<in> set items. P e" for p
    using that
  proof (induction items arbitrary: p)
    case (Cons e items)
    have "\<forall>x \<in> set (fst (merge (fst p) e)). P x" using Cons.prems merge_members [of "fst p" e] by auto
    then show ?case
      using Cons.prems Cons.IH [of "(fst (merge (fst p) e), snd p \<or> snd (merge (fst p) e))"]
      by (simp add: merge_distinct)
  qed simp
  from this [of "(es, False)"] assms show ?thesis by (simp add: merge_batch_def)
qed

end

lemma mergeEvidence_outranks:
  "mergeEvidence (old # rest) item =
     (if evidenceMergeKey old \<noteq> evidenceMergeKey item
      then (old # fst (mergeEvidence rest item), snd (mergeEvidence rest item))
      else if outranks item old then (item # rest, True) else (old # rest, False))"
  by (simp add: outranks_def split: prod.split)

interpretation evidence_store: merge_store mergeEvidence evidenceMergeKey outranks
proof
  fix es e x
  show "map evidenceMergeKey (fst (mergeEvidence es e)) =
      (if evidenceMergeKey e \<in> evidenceMergeKey ` set es then map evidenceMergeKey es
       else map evidenceMergeKey es @ [evidenceMergeKey e])"
    by (induction es) (auto simp: mergeEvidence_outranks simp del: mergeEvidence.simps(2))
  show "set (fst (mergeEvidence es e)) \<subseteq> insert e (set es)"
    by (induction es) (auto simp: mergeEvidence_outranks simp del: mergeEvidence.simps(2))
  show "snd (mergeEvidence es e) \<longleftrightarrow> fst (mergeEvidence es e) \<noteq> es"
    by (induction es) (auto simp: mergeEvidence_outranks simp del: mergeEvidence.simps(2))
  show "x \<in> set es \<Longrightarrow> \<exists>y \<in> set (fst (mergeEvidence es e)).
      evidenceMergeKey y = evidenceMergeKey x \<and> (y = x \<or> outranks y x)"
    by (induction es) (auto simp: mergeEvidence_outranks simp del: mergeEvidence.simps(2))
qed

lemma mergeEvidence_again:
  "mergeEvidence (fst (mergeEvidence es item)) item = (fst (mergeEvidence es item), False)"
  by (induction es) (auto simp: mergeEvidence_outranks outranks_asym simp del: mergeEvidence.simps(2))

text \<open>
  \<open>mergeEvidence\<close> is an insertion keyed by type, source and value. The keys stay as they
  are (a new key goes to the end), an item is only ever replaced by one that outranks it, the
  flag says exactly whether the list changed, and merging the same item again changes nothing.
\<close>

theorem mergeEvidence_keyed:
  "map evidenceMergeKey (fst (mergeEvidence es item)) =
     (if evidenceMergeKey item \<in> evidenceMergeKey ` set es then map evidenceMergeKey es
      else map evidenceMergeKey es @ [evidenceMergeKey item]) \<and>
   set (fst (mergeEvidence es item)) \<subseteq> insert item (set es) \<and>
   {e \<in> set es. evidenceMergeKey e = evidenceMergeKey item \<longrightarrow> \<not> outranks item e} \<subseteq> set (fst (mergeEvidence es item)) \<and>
   (snd (mergeEvidence es item) \<longleftrightarrow> fst (mergeEvidence es item) \<noteq> es) \<and>
   mergeEvidence (fst (mergeEvidence es item)) item = (fst (mergeEvidence es item), False)"
proof -
  have "{e \<in> set es. evidenceMergeKey e = evidenceMergeKey item \<longrightarrow> \<not> outranks item e} \<subseteq> set (fst (mergeEvidence es item))"
    by (induction es) (auto simp: mergeEvidence_outranks simp del: mergeEvidence.simps(2))
  then show ?thesis
    using evidence_store.merge_keys evidence_store.merge_members evidence_store.merge_changed
      mergeEvidence_again by blast
qed

theorem mergeEvidence_keyed_witness:
  "fst (mergeEvidence [empty_evidence] (empty_evidence\<lparr>ev_Strength := StrengthConfirmed\<rparr>)) =
     [empty_evidence\<lparr>ev_Strength := StrengthConfirmed\<rparr>] \<and>
   mergeEvidence [empty_evidence\<lparr>ev_Strength := StrengthConfirmed\<rparr>] (empty_evidence\<lparr>ev_Strength := StrengthConfirmed\<rparr>) =
     ([empty_evidence\<lparr>ev_Strength := StrengthConfirmed\<rparr>], False)"
proof -
  let ?item = "empty_evidence\<lparr>ev_Strength := StrengthConfirmed\<rparr>"
  have "fst (mergeEvidence [empty_evidence] ?item) = [?item]"
    by (simp add: evidenceMergeKey_def empty_evidence_def evidenceRank_def StrengthConfirmed_def StrengthInferred_def)
  then show ?thesis using mergeEvidence_keyed [of "[empty_evidence]" ?item] by simp
qed

section \<open>Words in a host name\<close>

lemma str_index_Some:
  "str_index s t = Some i \<Longrightarrow> has_prefix (drop i s) t \<and> i \<le> length s \<and> (\<forall>j < i. \<not> has_prefix (drop j s) t)"
proof (induction s arbitrary: i)
  case (Cons c cs)
  show ?case
  proof (cases "has_prefix (c # cs) t")
    case False
    with Cons.prems obtain k where k: "str_index cs t = Some k" "i = Suc k" by auto
    have "\<not> has_prefix (drop j (c # cs)) t" if "j < i" for j
      using that k Cons.IH [OF k(1)] False by (cases j) auto
    then show ?thesis using k Cons.IH [OF k(1)] by auto
  qed (use Cons.prems in auto)
qed (auto split: if_splits)

lemma str_index_None: "str_index s t = None \<Longrightarrow> \<not> has_prefix (drop j s) t"
proof (induction s arbitrary: j)
  case Nil
  then show ?case by (cases t) (auto split: if_splits)
next
  case (Cons c cs)
  then show ?case by (cases j) (auto split: if_splits)
qed

text \<open>The token stands at an index, bounded by bytes that are not letters or digits.\<close>

definition stands_at :: "string \<Rightarrow> string \<Rightarrow> nat \<Rightarrow> bool" where
  "stands_at value token i =
     (has_prefix (drop i value) token \<and> (i = 0 \<or> \<not> isAlphaNum (value ! (i - 1))) \<and>
      (i + length token = length value \<or> \<not> isAlphaNum (value ! (i + length token))))"

lemma standalone_loop_correct:
  assumes "token \<noteq> []" and "has_prefix (drop i value) token"
  shows "standalone_loop value token i \<longleftrightarrow> (\<exists>j \<ge> i. stands_at value token j)"
  using assms
proof (induction "value" token i rule: standalone_loop.induct)
  case (1 v token index)
  have here: "stands_at v token index \<longleftrightarrow>
      (index = 0 \<or> \<not> isAlphaNum (v ! (index - 1))) \<and>
      (index + length token = length v \<or> \<not> isAlphaNum (v ! (index + length token)))"
    using "1.prems" by (simp add: stands_at_def)
  have first: "(\<exists>j \<ge> index. stands_at v token j) \<longleftrightarrow>
      stands_at v token index \<or> (\<exists>j \<ge> Suc index. stands_at v token j)"
    by (metis Suc_leD Suc_leI le_neq_implies_less le_refl)
  have nonempty: "\<not> has_prefix [] token" using "1.prems"(1) by (cases token) auto
  show ?case
  proof (cases "stands_at v token index")
    case True
    then show ?thesis using here first by (subst standalone_loop.simps) (auto simp: Let_def)
  next
    case no: False
    show ?thesis
    proof (cases "Suc index \<ge> length v")
      case True
      have "\<not> stands_at v token j" if "j \<ge> Suc index" for j
        using that True nonempty by (simp add: stands_at_def)
      then show ?thesis using no here first True by (subst standalone_loop.simps) (auto simp: Let_def)
    next
      case short: False
      show ?thesis
      proof (cases "str_index (drop (Suc index) v) token")
        case None
        have "\<not> stands_at v token j" if "j \<ge> Suc index" for j
          using that str_index_None [OF None, of "j - Suc index"] by (simp add: stands_at_def)
        then show ?thesis
          using no here first short None by (subst standalone_loop.simps) (auto simp: Let_def)
      next
        case (Some k)
        note at = str_index_Some [OF Some]
        have step: "standalone_loop v token index = standalone_loop v token (Suc index + k)"
          using no here short Some by (subst standalone_loop.simps) (auto simp: Let_def)
        have gap: "\<not> stands_at v token j" if "j \<ge> Suc index" "j < Suc index + k" for j
          using that at by (auto simp: stands_at_def dest!: spec [of _ "j - Suc index"])
        have pre: "has_prefix (drop (Suc index + k) v) token" using at by (simp add: add.commute)
        have "standalone_loop v token (Suc index + k) \<longleftrightarrow> (\<exists>j \<ge> Suc index + k. stands_at v token j)"
          by (rule "1.IH" [OF refl refl refl refl _ short Some "1.prems"(1) pre]) (use no here in blast)
        then show ?thesis using step gap first no by (metis le_add1 le_trans not_le)
      qed
    qed
  qed
qed

lemma stands_at_iff:
  assumes "token \<noteq> []"
  shows "(\<exists>i. stands_at value token i) \<longleftrightarrow>
   (\<exists>a b. value = a @ token @ b \<and> (a = [] \<or> \<not> isAlphaNum (last a)) \<and> (b = [] \<or> \<not> isAlphaNum (hd b)))"
proof
  assume "\<exists>i. stands_at value token i"
  then obtain i where i: "stands_at value token i" ..
  then obtain b where b: "drop i value = token @ b" by (auto simp: stands_at_def has_prefix_iff)
  then have "drop i value \<noteq> []" using assms by simp
  then have le: "i \<le> length value" by simp
  have v: "value = take i value @ token @ b" using b by (metis append_take_drop_id)
  have len: "length value = i + length token + length b" using arg_cong [OF v, of length] le by simp
  have "value ! (i + length token) = (take i value @ token @ b) ! (i + length token)" using v by simp
  then have "b \<noteq> [] \<Longrightarrow> hd b = value ! (i + length token)"
    using le by (simp add: nth_append hd_conv_nth)
  moreover have "take i value \<noteq> [] \<Longrightarrow> last (take i value) = value ! (i - 1)"
    using le by (auto simp: last_conv_nth)
  ultimately show "\<exists>a b. value = a @ token @ b \<and> (a = [] \<or> \<not> isAlphaNum (last a)) \<and> (b = [] \<or> \<not> isAlphaNum (hd b))"
    using v len i by (intro exI [of _ "take i value"] exI [of _ b]) (auto simp: stands_at_def)
next
  assume "\<exists>a b. value = a @ token @ b \<and> (a = [] \<or> \<not> isAlphaNum (last a)) \<and> (b = [] \<or> \<not> isAlphaNum (hd b))"
  then obtain a b where ab: "value = a @ token @ b" "a = [] \<or> \<not> isAlphaNum (last a)"
    "b = [] \<or> \<not> isAlphaNum (hd b)" by blast
  have "stands_at value token (length a)"
    using ab by (cases "a = []"; cases "b = []") (auto simp: stands_at_def has_prefix_iff nth_append last_conv_nth hd_conv_nth)
  then show "\<exists>i. stands_at value token i" ..
qed

text \<open>
  The index arithmetic of \<open>standaloneToken\<close> finds the token exactly when it occurs as a
  word, with no letter or digit of ASCII before or after it (overlapping occurrences included);
  so "ios" is found in \<open>my-ios\<close> and not in \<open>kiosk\<close>.
\<close>

theorem standaloneToken_word:
  assumes "token \<noteq> []"
  shows "standaloneToken value token \<longleftrightarrow>
    (\<exists>a b. value = a @ token @ b \<and> (a = [] \<or> \<not> isAlphaNum (last a)) \<and> (b = [] \<or> \<not> isAlphaNum (hd b)))"
proof -
  have "standaloneToken value token \<longleftrightarrow> (\<exists>i. stands_at value token i)"
  proof (cases "str_index value token")
    case None
    then show ?thesis by (auto simp: standaloneToken_def stands_at_def str_index_None)
  next
    case (Some i)
    have "j \<ge> i" if "stands_at value token j" for j
      using that str_index_Some [OF Some] by (metis not_le stands_at_def)
    then show ?thesis
      using Some standalone_loop_correct [OF assms, of i "value"] str_index_Some [OF Some]
      by (auto simp: standaloneToken_def)
  qed
  then show ?thesis using stands_at_iff [OF assms] by simp
qed

theorem standaloneToken_word_witness:
  "standaloneToken ''my-ios.lan'' ''ios'' \<and> \<not> standaloneToken ''kiosk'' ''ios''"
proof
  have "''my-ios.lan'' = ''my-'' @ ''ios'' @ ''.lan''" "\<not> isAlphaNum (last ''my-'')" "\<not> isAlphaNum (hd ''.lan'')"
    by (simp_all add: isAlphaNum_def byte_of_def)
  then show "standaloneToken ''my-ios.lan'' ''ios''"
    using standaloneToken_word [of "''ios''" "''my-ios.lan''"] by (metis list.distinct(1))
  show "\<not> standaloneToken ''kiosk'' ''ios''"
    by (simp add: standaloneToken_def standalone_loop.simps isAlphaNum_def byte_of_def)
qed

end
