(* ===== verification/Device_Pool.thy ===== *)
theory Device_Pool
  imports Candidates Mobile_Laws Evidence_Laws
begin

text \<open>
  \<open>apps/desktop/ippool/device_pool.go\<close>: the registry of tracked devices and their lifecycle
  (\<open>candidate\<close>, \<open>active\<close>, \<open>recently_seen\<close>, \<open>stale\<close>, \<open>unreachable\<close>). Every operation runs under
  the pool's mutex, so it is one function on the state; the clock is read at one instant
  \<open>now\<close> per operation. The map \<open>entries\<close> is an association list in one of the orders Go may
  iterate; an entry is updated through its pointer, which is an update at its key.
\<close>

section \<open>State and operations\<close>

record DevicePool =
  dp_entries :: "(string \<times> DevicePoolEntry) list"
  dp_consecutiveFail :: "string \<rightharpoonup> int"
  dp_cfg :: Config

definition NewDevicePool :: "Config \<Rightarrow> DevicePool" where
  "NewDevicePool cfg = \<lparr>dp_entries = [], dp_consecutiveFail = Map.empty, dp_cfg = normalized cfg\<rparr>"

definition ts :: "gotime \<Rightarrow> string" where
  "ts t = format_rfc3339 t"

abbreviation entry_at :: "DevicePool \<Rightarrow> string \<Rightarrow> DevicePoolEntry option" where
  "entry_at p ip \<equiv> map_of (dp_entries p) ip"

definition put_entry :: "string \<Rightarrow> DevicePoolEntry \<Rightarrow> DevicePool \<Rightarrow> DevicePool" where
  "put_entry ip e p = p\<lparr>dp_entries := alist_set ip e (dp_entries p)\<rparr>"

text \<open>Reading an absent counter gives 0.\<close>

definition fails_of :: "DevicePool \<Rightarrow> string \<Rightarrow> int" where
  "fails_of p ip = (case dp_consecutiveFail p ip of None \<Rightarrow> 0 | Some n \<Rightarrow> n)"

definition EnsureCandidate ::
  "gotime \<Rightarrow> string \<Rightarrow> Source \<Rightarrow> DevicePool \<Rightarrow> DevicePool \<times> DevicePoolEntry option \<times> bool" where
  "EnsureCandidate now ip source p =
     (case entry_at p ip of
        Some e \<Rightarrow> (p, Some e, False)
      | None \<Rightarrow>
          if int (length (dp_entries p)) \<ge> MaxPoolSize (dp_cfg p) then (p, None, False)
          else (let e = new_entry ip (ts now) source in (put_entry ip e p, Some e, True)))"

text \<open>The running average of \<open>RecordSuccess\<close>; \<open>n\<close> is the response count with this response.\<close>

definition next_latency :: "float64 option \<Rightarrow> int \<Rightarrow> float64 \<Rightarrow> float64" where
  "next_latency avg n latencyMs =
     (case avg of
        None \<Rightarrow> latencyMs
      | Some a \<Rightarrow> fdiv (fadd (fmul a (of_int (n - 1))) latencyMs) (of_int n))"

definition RecordSuccess ::
  "gotime \<Rightarrow> string \<Rightarrow> float64 \<Rightarrow> int \<Rightarrow> Source \<Rightarrow> DevicePool \<Rightarrow> DevicePool \<times> DevicePoolEntry \<times> bool" where
  "RecordSuccess now ip latencyMs ttl source p =
     (let e0 = (case entry_at p ip of Some e \<Rightarrow> e | None \<Rightarrow> new_entry ip (ts now) source);
          firstResponse = (pe_ResponseCount e0 = 0);
          e = e0\<lparr>pe_ResponseCount := pe_ResponseCount e0 + 1, pe_LastSeen := ts now,
                 pe_LastProbeAt := ts now, pe_Status := StatusActive\<rparr>;
          e = e\<lparr>pe_AvgLatencyMs :=
                 (if latencyMs > 0 then Some (next_latency (pe_AvgLatencyMs e) (pe_ResponseCount e) latencyMs)
                  else pe_AvgLatencyMs e)\<rparr>;
          e = e\<lparr>pe_TTL := (if ttl > 0 then Some ttl else pe_TTL e)\<rparr>;
          p = p\<lparr>dp_consecutiveFail := (dp_consecutiveFail p)(ip \<mapsto> 0)\<rparr>
      in (put_entry ip e p, e, firstResponse))"

text \<open>The switch of \<open>RecordFailure\<close> on the status, after \<open>fails\<close> failures in a row.\<close>

definition status_after_failure :: "Config \<Rightarrow> int \<Rightarrow> DeviceStatus \<Rightarrow> DeviceStatus" where
  "status_after_failure cfg fails st =
     (case st of
        StatusActive \<Rightarrow> if fails \<ge> RecentlyAfter cfg then StatusRecentlySeen else st
      | StatusRecentlySeen \<Rightarrow> if fails \<ge> StaleAfter cfg then StatusStale else st
      | StatusCandidate \<Rightarrow> if fails \<ge> CandidateFailMax cfg then StatusUnreachable else st
      | _ \<Rightarrow> st)"

definition RecordFailure :: "gotime \<Rightarrow> string \<Rightarrow> DevicePool \<Rightarrow> DevicePool \<times> DevicePoolEntry option \<times> bool" where
  "RecordFailure now ip p =
     (case entry_at p ip of
        None \<Rightarrow> (p, None, False)
      | Some e0 \<Rightarrow>
          (let fails = fails_of p ip + 1;
               st = status_after_failure (dp_cfg p) fails (pe_Status e0);
               becameStale = (pe_Status e0 = StatusRecentlySeen \<and> st = StatusStale);
               e = e0\<lparr>pe_FailureCount := pe_FailureCount e0 + 1, pe_LastProbeAt := ts now, pe_Status := st\<rparr>;
               p = p\<lparr>dp_consecutiveFail := (dp_consecutiveFail p)(ip \<mapsto> fails)\<rparr>
           in (put_entry ip e p, Some e, becameStale)))"

definition Get :: "string \<Rightarrow> DevicePool \<Rightarrow> DevicePoolEntry option" where
  "Get ip p = entry_at p ip"

definition applyEvidenceIdentity :: "EvidenceItem \<Rightarrow> DevicePoolEntry \<Rightarrow> DevicePoolEntry" where
  "applyEvidenceIdentity item e =
     (let lower = ev_text item
      in if str_contains lower ''hostname'' \<or> str_contains lower ''dhcp'' \<or> str_contains lower ''netbios'' \<or>
            str_contains lower ''llmnr'' then
           (if pe_Hostname e = [] then e\<lparr>pe_Hostname := ev_Value item\<rparr> else e)
         else if str_contains lower ''mac'' \<or> str_contains lower ''arp'' then
           (if pe_MAC e = [] \<and> looksLikeMAC (ev_Value item) then e\<lparr>pe_MAC := ev_Value item\<rparr> else e)
         else if str_contains lower ''oui'' \<or> str_contains lower ''vendor'' then
           (if pe_Vendor e = [] \<and> \<not> looksLikeMAC (ev_Value item) then e\<lparr>pe_Vendor := ev_Value item\<rparr> else e)
         else e)"

definition rescoreMobileLocked :: "gotime \<Rightarrow> DevicePoolEntry \<Rightarrow> DevicePoolEntry \<times> bool" where
  "rescoreMobileLocked now e =
     (let fp = fingerprintLiveMobileDevice now e now
      in if \<not> mobileFingerprintChanged (pe_MobileFingerprint e) fp then (e, False)
         else (applyLiveMobileHints fp e, True))"

text \<open>
  \<open>AddEvidence\<close>; the zero entry returned for an unknown IP is \<open>None\<close> (its ID is empty, which
  is how the caller recognises it).
\<close>

definition AddEvidence ::
  "gotime \<Rightarrow> string \<Rightarrow> EvidenceItem \<Rightarrow> DevicePool \<Rightarrow> DevicePool \<times> DevicePoolEntry option \<times> bool \<times> bool" where
  "AddEvidence now ip item0 p =
     (case entry_at p ip of
        None \<Rightarrow> (p, None, False, False)
      | Some e0 \<Rightarrow>
          (let item1 = (if ev_Timestamp item0 = [] then item0\<lparr>ev_Timestamp := ts now\<rparr> else item0)
           in case sanitizeEvidenceForRegistry item1 of (item, ok) \<Rightarrow>
             if \<not> ok then (p, Some e0, False, False)
             else
               (case mergeEvidence (pe_Evidence e0) item of (evs, changed) \<Rightarrow>
                 (let e1 = e0\<lparr>pe_Evidence := evs\<rparr>;
                      e2 = (if changed then applyEvidenceIdentity item e1 else e1)
                  in case (if changed \<and> meaningfulMobileEvidence item then rescoreMobileLocked now e2
                           else (e2, False)) of
                       (e3, mobileChanged) \<Rightarrow> (put_entry ip e3 p, Some e3, changed, mobileChanged)))))"

definition sortByIP :: "DevicePoolEntry list \<Rightarrow> DevicePoolEntry list" where
  "sortByIP es = insertion_sort (\<lambda>a b. ipLess (pe_IP a) (pe_IP b)) es"

definition RefreshMobileFingerprints :: "gotime \<Rightarrow> DevicePool \<Rightarrow> DevicePool \<times> DevicePoolEntry list" where
  "RefreshMobileFingerprints now p =
     (let rescored = map (\<lambda>(ip, e). (ip, rescoreMobileLocked now e)) (dp_entries p)
      in (p\<lparr>dp_entries := map (\<lambda>(ip, r). (ip, fst r)) rescored\<rparr>,
          sortByIP (map (\<lambda>(ip, r). fst r) (filter (\<lambda>(ip, r). snd r) rescored))))"

definition pool_Snapshot :: "DevicePool \<Rightarrow> DevicePoolEntry list" where
  "pool_Snapshot p = sortByIP (map snd (dp_entries p))"

definition IPsByStatus :: "DeviceStatus list \<Rightarrow> DevicePool \<Rightarrow> string list" where
  "IPsByStatus statuses p = map fst (filter (\<lambda>(ip, e). pe_Status e \<in> set statuses) (dp_entries p))"

definition count_status :: "DeviceStatus \<Rightarrow> DevicePool \<Rightarrow> int" where
  "count_status st p = int (length (filter (\<lambda>(ip, e). pe_Status e = st) (dp_entries p)))"

definition Counts :: "DevicePool \<Rightarrow> int \<times> int \<times> int \<times> int" where
  "Counts p =
     (count_status StatusActive p, count_status StatusRecentlySeen p, count_status StatusStale p,
      count_status StatusCandidate p)"

definition is_dead :: "DevicePoolEntry \<Rightarrow> bool" where
  "is_dead e = (pe_Status e = StatusStale \<or> pe_Status e = StatusUnreachable)"

definition pool_ClearStale :: "DevicePool \<Rightarrow> DevicePool \<times> int" where
  "pool_ClearStale p =
     (let dead = map fst (filter (\<lambda>(ip, e). is_dead e) (dp_entries p))
      in (p\<lparr>dp_entries := filter (\<lambda>(ip, e). \<not> is_dead e) (dp_entries p),
            dp_consecutiveFail := (\<lambda>ip. if ip \<in> set dead then None else dp_consecutiveFail p ip)\<rparr>,
          int (length dead)))"

section \<open>Sequences of operations\<close>

text \<open>The operations that change the pool, as data, so that any interleaving is a list.\<close>

datatype PoolOp =
  OpEnsure gotime string Source
  | OpSuccess gotime string float64 int Source
  | OpFailure gotime string
  | OpEvidence gotime string EvidenceItem
  | OpRefresh gotime
  | OpClear

fun apply_op :: "PoolOp \<Rightarrow> DevicePool \<Rightarrow> DevicePool" where
  "apply_op (OpEnsure now ip source) p = fst (EnsureCandidate now ip source p)"
| "apply_op (OpSuccess now ip lat ttl source) p = fst (RecordSuccess now ip lat ttl source p)"
| "apply_op (OpFailure now ip) p = fst (RecordFailure now ip p)"
| "apply_op (OpEvidence now ip item) p = fst (AddEvidence now ip item p)"
| "apply_op (OpRefresh now) p = fst (RefreshMobileFingerprints now p)"
| "apply_op OpClear p = fst (pool_ClearStale p)"

definition run_ops :: "PoolOp list \<Rightarrow> DevicePool \<Rightarrow> DevicePool" where
  "run_ops ops p = fold apply_op ops p"

lemma run_ops_simps [simp]: "run_ops [] p = p" "run_ops (op # ops) p = run_ops ops (apply_op op p)"
  "run_ops (ops @ ops') p = run_ops ops' (run_ops ops p)"
  by (simp_all add: run_ops_def)

section \<open>What each operation does to an entry\<close>

lemma put_entry_fields [simp]:
  "dp_entries (put_entry ip e p) = alist_set ip e (dp_entries p)"
  "dp_consecutiveFail (put_entry ip e p) = dp_consecutiveFail p" "dp_cfg (put_entry ip e p) = dp_cfg p"
  "fails_of (put_entry ip e p) = fails_of p"
  by (simp_all add: put_entry_def fails_of_def fun_eq_iff)

lemma fails_of_update [simp]: "fails_of (p\<lparr>dp_consecutiveFail := (dp_consecutiveFail p)(ip \<mapsto> n)\<rparr>) j =
    (if j = ip then n else fails_of p j)"
  by (simp add: fails_of_def)

lemma cfg_apply_op [simp]: "dp_cfg (apply_op op p) = dp_cfg p"
  by (cases op)
    (auto simp: EnsureCandidate_def RecordSuccess_def RecordFailure_def AddEvidence_def
      RefreshMobileFingerprints_def pool_ClearStale_def Let_def split: option.split prod.split)

lemma cfg_run_ops [simp]: "dp_cfg (run_ops ops p) = dp_cfg p"
  by (induction ops arbitrary: p) simp_all

text \<open>The fields a rescore and an evidence item leave alone.\<close>

lemma rescore_fields [simp]:
  "pe_IP (fst (rescoreMobileLocked now e)) = pe_IP e" "pe_ID (fst (rescoreMobileLocked now e)) = pe_ID e"
  "pe_Status (fst (rescoreMobileLocked now e)) = pe_Status e"
  "pe_ResponseCount (fst (rescoreMobileLocked now e)) = pe_ResponseCount e"
  "pe_FailureCount (fst (rescoreMobileLocked now e)) = pe_FailureCount e"
  "pe_Evidence (fst (rescoreMobileLocked now e)) = pe_Evidence e"
  by (simp_all add: rescoreMobileLocked_def applyLiveMobileHints_def Let_def)

lemma identity_fields [simp]:
  "pe_IP (applyEvidenceIdentity item e) = pe_IP e" "pe_ID (applyEvidenceIdentity item e) = pe_ID e"
  "pe_Status (applyEvidenceIdentity item e) = pe_Status e"
  "pe_ResponseCount (applyEvidenceIdentity item e) = pe_ResponseCount e"
  "pe_FailureCount (applyEvidenceIdentity item e) = pe_FailureCount e"
  "pe_Evidence (applyEvidenceIdentity item e) = pe_Evidence e"
  by (simp_all add: applyEvidenceIdentity_def Let_def)

lemma AddEvidence_None: "entry_at p ip = None \<Longrightarrow> AddEvidence now ip item p = (p, None, False, False)"
  by (simp add: AddEvidence_def)

lemma AddEvidence_Some:
  assumes "entry_at p ip = Some e"
  shows "\<exists>e' changed mobile. AddEvidence now ip item p = (p, Some e, False, False) \<or>
    AddEvidence now ip item p = (put_entry ip e' p, Some e', changed, mobile) \<and>
     pe_IP e' = pe_IP e \<and> pe_ID e' = pe_ID e \<and> pe_Status e' = pe_Status e \<and>
     pe_ResponseCount e' = pe_ResponseCount e \<and> pe_FailureCount e' = pe_FailureCount e \<and>
     (\<exists>kept. evidence_safe kept \<and> pe_Evidence e' = fst (mergeEvidence (pe_Evidence e) kept))"
proof -
  define item1 where "item1 = (if ev_Timestamp item = [] then item\<lparr>ev_Timestamp := ts now\<rparr> else item)"
  obtain kept ok where s: "sanitizeEvidenceForRegistry item1 = (kept, ok)" by fastforce
  obtain evs changed where m: "mergeEvidence (pe_Evidence e) kept = (evs, changed)" by fastforce
  define e2 where "e2 = (if changed then applyEvidenceIdentity kept (e\<lparr>pe_Evidence := evs\<rparr>) else e\<lparr>pe_Evidence := evs\<rparr>)"
  obtain e3 mob where r: "(if changed \<and> meaningfulMobileEvidence kept then rescoreMobileLocked now e2 else (e2, False)) = (e3, mob)"
    by fastforce
  have e3: "e3 = e2 \<or> e3 = fst (rescoreMobileLocked now e2)" using r by (auto split: if_splits simp: prod_eq_iff)
  have run: "AddEvidence now ip item p =
      (if ok then (put_entry ip e3 p, Some e3, changed, mob) else (p, Some e, False, False))"
    using assms s m r unfolding AddEvidence_def item1_def [symmetric] e2_def
    by (simp add: item1_def [symmetric] Let_def)
  show ?thesis
  proof (cases ok)
    case True
    then have "evidence_safe kept" using s sanitize_evidence_safe by simp
    moreover have "pe_Evidence e3 = fst (mergeEvidence (pe_Evidence e) kept)"
      using e3 m by (auto simp: e2_def)
    moreover have "pe_IP e3 = pe_IP e" "pe_ID e3 = pe_ID e" "pe_Status e3 = pe_Status e"
      "pe_ResponseCount e3 = pe_ResponseCount e" "pe_FailureCount e3 = pe_FailureCount e"
      using e3 by (auto simp: e2_def)
    ultimately show ?thesis using run True by auto
  qed (use run in auto)
qed

section \<open>The invariant of the registry\<close>

definition responded :: "DeviceStatus \<Rightarrow> bool" where
  "responded st = (st = StatusActive \<or> st = StatusRecentlySeen \<or> st = StatusStale)"

definition entry_ok :: "string \<Rightarrow> DevicePoolEntry \<Rightarrow> bool" where
  "entry_ok ip e =
     (pe_IP e = ip \<and> pe_ID e = ''ip-'' @ ip \<and> 0 \<le> pe_ResponseCount e \<and> 0 \<le> pe_FailureCount e \<and>
      (responded (pe_Status e) \<longleftrightarrow> 0 < pe_ResponseCount e) \<and>
      distinct (map evidenceMergeKey (pe_Evidence e)) \<and> (\<forall>x \<in> set (pe_Evidence e). evidence_safe x))"

definition pool_ok :: "DevicePool \<Rightarrow> bool" where
  "pool_ok p =
     (distinct (map fst (dp_entries p)) \<and> (\<forall>(ip, e) \<in> set (dp_entries p). entry_ok ip e) \<and>
      (\<forall>ip. entry_at p ip = None \<longrightarrow> dp_consecutiveFail p ip = None))"

lemma entry_ok_new [simp]: "entry_ok ip (new_entry ip now source)"
  by (simp add: entry_ok_def new_entry_def responded_def)

lemma pool_ok_entry: "pool_ok p \<Longrightarrow> entry_at p ip = Some e \<Longrightarrow> entry_ok ip e"
  unfolding pool_ok_def using map_of_SomeD by fastforce

lemma pool_ok_put:
  assumes "pool_ok p" and "entry_ok ip e"
  shows "pool_ok (put_entry ip e p)" "pool_ok (put_entry ip e (p\<lparr>dp_consecutiveFail := (dp_consecutiveFail p)(ip \<mapsto> n)\<rparr>))"
  using assms by (auto simp: pool_ok_def dest!: set_alist_setD)

lemma pool_ok_new: "pool_ok (NewDevicePool cfg)"
  by (simp add: pool_ok_def NewDevicePool_def)

lemma status_after_failure_responded [simp]:
  "responded (status_after_failure cfg n st) = responded st"
  by (cases st) (simp_all add: status_after_failure_def responded_def)

lemma responded_simps [simp]: "responded StatusActive" "responded StatusRecentlySeen" "responded StatusStale"
  "\<not> responded StatusCandidate" "\<not> responded StatusUnreachable"
  by (simp_all add: responded_def)

lemma merge_entry_ok:
  assumes "entry_ok ip e" and "evidence_safe kept"
    and "pe_IP e' = pe_IP e" "pe_ID e' = pe_ID e" "pe_Status e' = pe_Status e"
    "pe_ResponseCount e' = pe_ResponseCount e" "pe_FailureCount e' = pe_FailureCount e"
    and "pe_Evidence e' = fst (mergeEvidence (pe_Evidence e) kept)"
  shows "entry_ok ip e'"
proof -
  have "distinct (map evidenceMergeKey (pe_Evidence e'))"
    using assms by (simp add: entry_ok_def evidence_store.merge_distinct)
  moreover have "\<forall>x \<in> set (pe_Evidence e'). evidence_safe x"
    using assms evidence_store.merge_members [of "pe_Evidence e" kept] by (auto simp: entry_ok_def)
  ultimately show ?thesis using assms by (simp add: entry_ok_def)
qed

lemma AddEvidence_pool_ok: "pool_ok p \<Longrightarrow> pool_ok (fst (AddEvidence now ip item p))"
proof (cases "entry_at p ip")
  case (Some e)
  assume ok: "pool_ok p"
  show ?thesis
    using AddEvidence_Some [OF Some, of now item] merge_entry_ok pool_ok_put(1) [OF ok] pool_ok_entry [OF ok Some] ok
    by (metis fst_conv)
qed (simp add: AddEvidence_None)

lemma RecordSuccess_entry:
  "\<exists>e. RecordSuccess now ip lat ttl source p =
      (put_entry ip e (p\<lparr>dp_consecutiveFail := (dp_consecutiveFail p)(ip \<mapsto> 0)\<rparr>), e,
       pe_ResponseCount (case entry_at p ip of Some e \<Rightarrow> e | None \<Rightarrow> new_entry ip (ts now) source) = 0) \<and>
     (let e0 = (case entry_at p ip of Some e \<Rightarrow> e | None \<Rightarrow> new_entry ip (ts now) source)
      in pe_IP e = pe_IP e0 \<and> pe_ID e = pe_ID e0 \<and> pe_Status e = StatusActive \<and>
         pe_ResponseCount e = pe_ResponseCount e0 + 1 \<and> pe_FailureCount e = pe_FailureCount e0 \<and>
         pe_Evidence e = pe_Evidence e0)"
  unfolding RecordSuccess_def Let_def by (rule exI, rule conjI, rule refl) simp

lemma RecordSuccess_pool_ok: "pool_ok p \<Longrightarrow> pool_ok (fst (RecordSuccess now ip lat ttl source p))"
proof -
  assume ok: "pool_ok p"
  let ?e0 = "case entry_at p ip of Some e \<Rightarrow> e | None \<Rightarrow> new_entry ip (ts now) source"
  have e0: "entry_ok ip ?e0" using pool_ok_entry [OF ok] by (simp split: option.split)
  obtain e where e: "fst (RecordSuccess now ip lat ttl source p) =
        put_entry ip e (p\<lparr>dp_consecutiveFail := (dp_consecutiveFail p)(ip \<mapsto> 0)\<rparr>)"
      "pe_IP e = pe_IP ?e0" "pe_ID e = pe_ID ?e0" "pe_Status e = StatusActive"
      "pe_ResponseCount e = pe_ResponseCount ?e0 + 1" "pe_FailureCount e = pe_FailureCount ?e0"
      "pe_Evidence e = pe_Evidence ?e0"
    using RecordSuccess_entry [of now ip lat ttl source p] by (auto simp: Let_def)
  have "entry_ok ip e" using e0 unfolding entry_ok_def by (simp add: e)
  then show ?thesis unfolding e(1) by (rule pool_ok_put(2) [OF ok])
qed

lemma RecordFailure_pool_ok: "pool_ok p \<Longrightarrow> pool_ok (fst (RecordFailure now ip p))"
proof (cases "entry_at p ip")
  case (Some e)
  assume ok: "pool_ok p"
  show ?thesis
    using pool_ok_entry [OF ok Some] Some unfolding RecordFailure_def Let_def
    by (simp add: pool_ok_put(2) [OF ok] entry_ok_def)
qed (simp add: RecordFailure_def)

lemma EnsureCandidate_pool_ok: "pool_ok p \<Longrightarrow> pool_ok (fst (EnsureCandidate now ip source p))"
  by (auto simp: EnsureCandidate_def Let_def intro!: pool_ok_put(1) split: option.split)

lemma Refresh_entries:
  "dp_entries (fst (RefreshMobileFingerprints now p)) =
     map (\<lambda>q. (fst q, fst (rescoreMobileLocked now (snd q)))) (dp_entries p)"
  "dp_consecutiveFail (fst (RefreshMobileFingerprints now p)) = dp_consecutiveFail p"
  by (simp_all add: RefreshMobileFingerprints_def Let_def case_prod_unfold)

lemma Refresh_pool_ok: "pool_ok p \<Longrightarrow> pool_ok (fst (RefreshMobileFingerprints now p))"
  by (auto simp: pool_ok_def Refresh_entries map_of_map_value [where f = "\<lambda>_ e. fst (rescoreMobileLocked now e)"]
      entry_ok_def comp_def)

lemma ClearStale_entry:
  "distinct (map fst (dp_entries p)) \<Longrightarrow> entry_at (fst (pool_ClearStale p)) ip =
     (case entry_at p ip of None \<Rightarrow> None | Some e \<Rightarrow> if is_dead e then None else Some e)"
  by (simp add: pool_ClearStale_def Let_def map_of_filter_distinct split: option.split)

lemma ClearStale_fail:
  assumes "distinct (map fst (dp_entries p))"
  shows "dp_consecutiveFail (fst (pool_ClearStale p)) ip =
     (case entry_at p ip of Some e \<Rightarrow> if is_dead e then None else dp_consecutiveFail p ip
      | None \<Rightarrow> dp_consecutiveFail p ip)"
proof -
  have "ip \<in> fst ` {x \<in> set (dp_entries p). case x of (ip, e) \<Rightarrow> is_dead e} \<longleftrightarrow>
      (\<exists>e. entry_at p ip = Some e \<and> is_dead e)"
    using assms by (force simp: map_of_eq_Some_iff [OF assms] image_iff)
  then show ?thesis by (auto simp: pool_ClearStale_def Let_def split: option.split)
qed

lemma ClearStale_pool_ok: "pool_ok p \<Longrightarrow> pool_ok (fst (pool_ClearStale p))"
  unfolding pool_ok_def
  by (simp add: ClearStale_fail ClearStale_entry split: option.split)
    (auto simp: pool_ClearStale_def Let_def)

lemma apply_op_pool_ok: "pool_ok p \<Longrightarrow> pool_ok (apply_op op p)"
  by (cases op)
    (simp_all add: AddEvidence_pool_ok RecordSuccess_pool_ok RecordFailure_pool_ok EnsureCandidate_pool_ok
      Refresh_pool_ok ClearStale_pool_ok)

lemma run_ops_pool_ok: "pool_ok p \<Longrightarrow> pool_ok (run_ops ops p)"
  by (induction ops arbitrary: p) (simp_all add: apply_op_pool_ok)

section \<open>The lifecycle, operation by operation\<close>

text \<open>
  Per IP, its status and the failures since the last success. The size bound is on the number of
  tracked addresses.
\<close>

type_synonym Life = "string \<Rightarrow> (DeviceStatus \<times> int) option"

fun life_op :: "Config \<Rightarrow> PoolOp \<Rightarrow> Life \<Rightarrow> Life" where
  "life_op cfg (OpEnsure now ip source) l =
     (if l ip = None \<and> int (card (dom l)) < MaxPoolSize cfg then l(ip \<mapsto> (StatusCandidate, 0)) else l)"
| "life_op cfg (OpSuccess now ip lat ttl source) l = l(ip \<mapsto> (StatusActive, 0))"
| "life_op cfg (OpFailure now ip) l =
     (case l ip of None \<Rightarrow> l | Some (st, n) \<Rightarrow> l(ip \<mapsto> (status_after_failure cfg (n + 1) st, n + 1)))"
| "life_op cfg (OpEvidence now ip item) l = l"
| "life_op cfg (OpRefresh now) l = l"
| "life_op cfg OpClear l =
     (\<lambda>ip. case l ip of
        Some (st, n) \<Rightarrow> if st = StatusStale \<or> st = StatusUnreachable then None else Some (st, n)
      | None \<Rightarrow> None)"

definition life :: "DevicePool \<Rightarrow> Life" where
  "life p ip = map_option (\<lambda>e. (pe_Status e, fails_of p ip)) (entry_at p ip)"

lemma dom_life: "dom (life p) = fst ` set (dp_entries p)"
proof -
  have "dom (life p) = dom (map_of (dp_entries p))" by (auto simp: life_def dom_def)
  then show ?thesis by (simp add: dom_map_of_conv_image_fst)
qed

lemma card_life: "pool_ok p \<Longrightarrow> card (dom (life p)) = length (dp_entries p)"
  unfolding dom_life using distinct_card [of "map fst (dp_entries p)"] by (simp add: pool_ok_def)

lemma life_EnsureCandidate:
  "pool_ok p \<Longrightarrow> life (fst (EnsureCandidate now ip source p)) = life_op (dp_cfg p) (OpEnsure now ip source) (life p)"
  by (auto simp: EnsureCandidate_def Let_def card_life fun_eq_iff split: option.split)
    (auto simp: life_def new_entry_def fails_of_def pool_ok_def)

lemma life_RecordSuccess:
  "life (fst (RecordSuccess now ip lat ttl source p)) = (life p)(ip \<mapsto> (StatusActive, 0))"
  using RecordSuccess_entry [of now ip lat ttl source p] by (auto simp: Let_def life_def fun_eq_iff)

lemma life_RecordFailure:
  "life (fst (RecordFailure now ip p)) = life_op (dp_cfg p) (OpFailure now ip) (life p)"
  by (auto simp: RecordFailure_def Let_def life_def fun_eq_iff split: option.split)

lemma life_AddEvidence: "life (fst (AddEvidence now ip item p)) = life p"
proof (cases "entry_at p ip")
  case (Some e)
  then show ?thesis
    using AddEvidence_Some [OF Some, of now item] by (auto simp: life_def fun_eq_iff)
qed (simp add: AddEvidence_None)

lemma life_Refresh: "life (fst (RefreshMobileFingerprints now p)) = life p"
  by (rule ext) (simp add: life_def fails_of_def Refresh_entries option.map_comp comp_def
      map_of_map_value [where f = "\<lambda>_ e. fst (rescoreMobileLocked now e)"])

lemma life_ClearStale:
  "pool_ok p \<Longrightarrow> life (fst (pool_ClearStale p)) = life_op (dp_cfg p) OpClear (life p)"
  by (rule ext) (simp add: life_def fails_of_def ClearStale_entry ClearStale_fail pool_ok_def is_dead_def
      split: option.split)

lemma life_apply_op: "pool_ok p \<Longrightarrow> life (apply_op op p) = life_op (dp_cfg p) op (life p)"
  by (cases op)
    (simp_all add: life_EnsureCandidate life_RecordSuccess life_RecordFailure life_AddEvidence life_Refresh
      life_ClearStale del: life_op.simps(1,3,6))

lemma life_run_ops: "pool_ok p \<Longrightarrow> life (run_ops ops p) = fold (life_op (dp_cfg p)) ops (life p)"
  by (induction ops arbitrary: p) (simp_all add: life_apply_op apply_op_pool_ok)

lemma NewDevicePool_fields [simp]: "dp_entries (NewDevicePool cfg) = []" "dp_cfg (NewDevicePool cfg) = normalized cfg"
  by (simp_all add: NewDevicePool_def)

lemma life_from_new: "life (run_ops ops (NewDevicePool cfg)) = fold (life_op (normalized cfg)) ops Map.empty"
proof -
  have "life (NewDevicePool cfg) = Map.empty" by (simp add: life_def fun_eq_iff)
  then show ?thesis using life_run_ops [OF pool_ok_new] by simp
qed

section \<open>The lifecycle as an abstract specification\<close>

text \<open>
  What the pool promises, without its state machine: of an IP it only matters whether it answered since it
  was tracked and how many probes failed since the last answer. The status is a function of the two.
\<close>

text \<open>The status after a success and \<open>k\<close> failures in a row.\<close>

definition active_after :: "Config \<Rightarrow> int \<Rightarrow> DeviceStatus" where
  "active_after cfg k =
     (let r = max 1 (RecentlyAfter cfg)
      in if k < r then StatusActive
         else if k < max (StaleAfter cfg) (r + 1) then StatusRecentlySeen
         else StatusStale)"

lemma active_after_step:
  "0 \<le> k \<Longrightarrow> status_after_failure cfg (k + 1) (active_after cfg k) = active_after cfg (k + 1)"
  by (auto simp: active_after_def status_after_failure_def Let_def)

definition candidate_after :: "Config \<Rightarrow> int \<Rightarrow> DeviceStatus" where
  "candidate_after cfg k = (if k < max 1 (CandidateFailMax cfg) then StatusCandidate else StatusUnreachable)"

lemma candidate_after_step:
  "0 \<le> k \<Longrightarrow> status_after_failure cfg (k + 1) (candidate_after cfg k) = candidate_after cfg (k + 1)"
  by (auto simp: candidate_after_def status_after_failure_def)

record Track =
  tk_Answered :: bool
  tk_Failures :: int

definition promised_status :: "Config \<Rightarrow> Track \<Rightarrow> DeviceStatus" where
  "promised_status cfg t =
     (if tk_Answered t then active_after cfg (tk_Failures t) else candidate_after cfg (tk_Failures t))"

type_synonym Tracks = "string \<Rightarrow> Track option"

fun track_op :: "Config \<Rightarrow> PoolOp \<Rightarrow> Tracks \<Rightarrow> Tracks" where
  "track_op cfg (OpEnsure now ip source) l =
     (if l ip = None \<and> int (card (dom l)) < MaxPoolSize cfg
      then l(ip \<mapsto> \<lparr>tk_Answered = False, tk_Failures = 0\<rparr>) else l)"
| "track_op cfg (OpSuccess now ip lat ttl source) l = l(ip \<mapsto> \<lparr>tk_Answered = True, tk_Failures = 0\<rparr>)"
| "track_op cfg (OpFailure now ip) l =
     (case l ip of None \<Rightarrow> l | Some t \<Rightarrow> l(ip \<mapsto> t\<lparr>tk_Failures := tk_Failures t + 1\<rparr>))"
| "track_op cfg (OpEvidence now ip item) l = l"
| "track_op cfg (OpRefresh now) l = l"
| "track_op cfg OpClear l =
     (\<lambda>ip. case l ip of
        Some t \<Rightarrow> if promised_status cfg t \<in> {StatusStale, StatusUnreachable} then None else Some t
      | None \<Rightarrow> None)"

definition promised :: "Config \<Rightarrow> Tracks \<Rightarrow> Life" where
  "promised cfg l ip = map_option (\<lambda>t. (promised_status cfg t, tk_Failures t)) (l ip)"

definition counts_up :: "Tracks \<Rightarrow> bool" where
  "counts_up l \<longleftrightarrow> (\<forall>ip t. l ip = Some t \<longrightarrow> 0 \<le> tk_Failures t)"

lemma dom_promised [simp]: "dom (promised cfg l) = dom l"
  by (auto simp: promised_def dom_def)

lemma promised_failure:
  "0 \<le> tk_Failures t \<Longrightarrow> status_after_failure cfg (tk_Failures t + 1) (promised_status cfg t) =
     promised_status cfg (t\<lparr>tk_Failures := tk_Failures t + 1\<rparr>)"
  by (simp add: promised_status_def active_after_step candidate_after_step)

lemma promised_start: "promised_status cfg \<lparr>tk_Answered = True, tk_Failures = 0\<rparr> = StatusActive"
  "promised_status cfg \<lparr>tk_Answered = False, tk_Failures = 0\<rparr> = StatusCandidate"
  by (simp_all add: promised_status_def active_after_def candidate_after_def Let_def)

lemma track_step:
  assumes "counts_up l"
  shows "promised cfg (track_op cfg op l) = life_op cfg op (promised cfg l)" "counts_up (track_op cfg op l)"
proof -
  show "promised cfg (track_op cfg op l) = life_op cfg op (promised cfg l)"
  proof (cases op)
    case (OpFailure now ip)
    then show ?thesis
      using assms promised_failure
      by (cases "l ip") (auto simp: promised_def fun_eq_iff counts_up_def)
  next
    case (OpEnsure now ip source)
    have "promised cfg l ip = None \<longleftrightarrow> l ip = None" by (simp add: promised_def)
    then show ?thesis by (simp add: OpEnsure) (simp add: promised_def fun_eq_iff promised_start)
  qed (auto simp: promised_def fun_eq_iff promised_start split: option.split)
  show "counts_up (track_op cfg op l)"
    using assms by (cases op) (auto simp: counts_up_def split: option.split if_splits)
qed

lemma track_run:
  "counts_up l \<Longrightarrow> promised cfg (fold (track_op cfg) ops l) = fold (life_op cfg) ops (promised cfg l)"
  by (induction ops arbitrary: l) (simp_all add: track_step)

text \<open>
  C28: the registry implements the lifecycle. Under every sequence of operations from an empty pool, an IP is
  tracked exactly when the sequence says so, and its status and its count are a function of two facts of
  the sequence: whether the IP answered since it was tracked, and how many probes failed since. It is
  active below \<open>RecentlyAfter\<close> failures, then recently seen, stale from \<open>StaleAfter\<close> on; without an answer a
  candidate, unreachable from \<open>CandidateFailMax\<close> on; clearing drops the stale and the unreachable.
  Evidence and re-scoring never touch them.
\<close>

theorem pool_refines_lifecycle:
  "life (run_ops ops (NewDevicePool cfg)) =
     promised (normalized cfg) (fold (track_op (normalized cfg)) ops Map.empty)"
proof -
  have "counts_up Map.empty" by (simp add: counts_up_def)
  moreover have "promised (normalized cfg) Map.empty = Map.empty" by (simp add: promised_def fun_eq_iff)
  ultimately show ?thesis using track_run [of Map.empty "normalized cfg" ops] by (simp add: life_from_new)
qed

text \<open>
  C30: the invariant of the registry. After any sequence of operations from an empty pool, an
  IP has one entry, which carries its address and identifier; the entry was probed
  successfully exactly when its status is active, recently seen or stale (a candidate or an
  unreachable address never answered); its evidence items have distinct keys and are all safe
  for the registry, passive DNS included.
\<close>

theorem pool_invariant:
  "distinct (map fst (dp_entries (run_ops ops (NewDevicePool cfg)))) \<and>
   (\<forall>(ip, e) \<in> set (dp_entries (run_ops ops (NewDevicePool cfg))).
      pe_IP e = ip \<and> pe_ID e = ''ip-'' @ ip \<and> (responded (pe_Status e) \<longleftrightarrow> 0 < pe_ResponseCount e) \<and>
      distinct (map evidenceMergeKey (pe_Evidence e)) \<and>
      (\<forall>x \<in> set (pe_Evidence e). sanitizeEvidenceForRegistry x = (x, True) \<and>
         (isPassiveDNSMetadata (ev_text x) \<longrightarrow> ev_Value x \<in> {apple_seen, android_seen})))"
  using run_ops_pool_ok [OF pool_ok_new] unfolding pool_ok_def entry_ok_def evidence_safe_def by fastforce

definition sample_ops :: "PoolOp list" where
  "sample_ops = [OpEnsure 5 ''10.0.0.7'' SourceCandidate, OpSuccess 6 ''10.0.0.7'' 0 64 SourceCandidate]"

lemma sample_pool:
  "\<exists>e. dp_entries (run_ops sample_ops (NewDevicePool DefaultConfig)) = [(''10.0.0.7'', e)] \<and>
     pe_ResponseCount e = 1"
  by (simp add: sample_ops_def EnsureCandidate_def RecordSuccess_def NewDevicePool_def normalized_def
      DefaultConfig_def new_entry_def Let_def put_entry_def)

theorem pool_invariant_witness:
  "\<exists>e. map_of (dp_entries (run_ops sample_ops (NewDevicePool DefaultConfig))) ''10.0.0.7'' = Some e \<and>
     responded (pe_Status e) \<and> pe_ID e = ''ip-10.0.0.7''"
  using pool_invariant [of sample_ops DefaultConfig] sample_pool by auto

section \<open>Runs of failures\<close>

text \<open>The operation is a failure of that IP; the operations that do not end its run.\<close>

fun is_failure_of :: "string \<Rightarrow> PoolOp \<Rightarrow> bool" where
  "is_failure_of ip (OpFailure now j) = (j = ip)"
| "is_failure_of ip _ = False"

fun keeps_run :: "string \<Rightarrow> PoolOp \<Rightarrow> bool" where
  "keeps_run ip (OpSuccess now j lat ttl source) = (j \<noteq> ip)"
| "keeps_run ip OpClear = False"
| "keeps_run ip _ = True"

lemma life_op_run:
  "keeps_run ip op \<Longrightarrow> l ip = Some (st, n) \<Longrightarrow>
   life_op cfg op l ip = Some (if is_failure_of ip op then (status_after_failure cfg (n + 1) st, n + 1) else (st, n))"
  by (cases op) (auto split: option.split)

lemma life_run:
  "l ip = Some (active_after cfg k, k) \<Longrightarrow> 0 \<le> k \<Longrightarrow> list_all (keeps_run ip) ops \<Longrightarrow>
   fold (life_op cfg) ops l ip =
     Some (active_after cfg (k + int (length (filter (is_failure_of ip) ops))),
           k + int (length (filter (is_failure_of ip) ops)))"
proof (induction ops arbitrary: l k)
  case (Cons op ops)
  show ?case
  proof (cases "is_failure_of ip op")
    case True
    then have "life_op cfg op l ip = Some (active_after cfg (k + 1), k + 1)"
      using Cons.prems life_op_run [of ip op l] active_after_step [of k cfg] by simp
    with Cons.IH [of "life_op cfg op l" "k + 1"] show ?thesis using Cons.prems True by (simp add: algebra_simps)
  next
    case False
    then have "life_op cfg op l ip = Some (active_after cfg k, k)"
      using Cons.prems life_op_run [of ip op l] by simp
    with Cons.IH [of "life_op cfg op l" k] show ?thesis using Cons.prems False by simp
  qed
qed simp

text \<open>
  C29: the active state machine. After a success of an IP and any further operations that
  neither succeed for it nor clear the registry, the status of the IP depends only on the
  number of failures: active below \<open>RecentlyAfter\<close>, then recently seen, then stale from
  \<open>StaleAfter\<close> on (or one failure after \<open>RecentlyAfter\<close>, if that is later).
\<close>

theorem failures_age_device:
  assumes "list_all (keeps_run ip) ops"
  shows "map_option pe_Status (map_of (dp_entries
      (run_ops (before @ OpSuccess now ip lat ttl source # ops) (NewDevicePool cfg))) ip) =
    Some (active_after (normalized cfg) (int (length (filter (is_failure_of ip) ops))))"
proof -
  let ?p = "run_ops (before @ OpSuccess now ip lat ttl source # ops) (NewDevicePool cfg)"
  let ?l = "life_op (normalized cfg) (OpSuccess now ip lat ttl source) (fold (life_op (normalized cfg)) before Map.empty)"
  have start: "?l ip = Some (active_after (normalized cfg) 0, 0)"
    by (simp add: active_after_def Let_def)
  have "life ?p = fold (life_op (normalized cfg)) ops ?l"
    using life_from_new [of "before @ OpSuccess now ip lat ttl source # ops" cfg] by simp
  then have "life ?p ip = Some (active_after (normalized cfg) (int (length (filter (is_failure_of ip) ops))),
      int (length (filter (is_failure_of ip) ops)))"
    using life_run [of ?l ip "normalized cfg" 0 ops] start assms by simp
  then show ?thesis by (auto simp: life_def)
qed

theorem failures_age_device_witness:
  "map_option pe_Status (map_of (dp_entries
      (run_ops ([] @ OpSuccess 5 ''10.0.0.7'' 0 64 SourceCandidate #
         [OpFailure 6 ''10.0.0.7'', OpRefresh 7, OpFailure 8 ''10.0.0.7'', OpFailure 9 ''10.0.0.7''])
       (NewDevicePool DefaultConfig))) ''10.0.0.7'') = Some StatusStale"
  by (subst failures_age_device) (simp_all add: active_after_def normalized_fields DefaultConfig_def)

lemma map_of_key: "map_of xs k = Some v \<Longrightarrow> k \<in> fst ` set xs"
  by (metis domI dom_map_of_conv_image_fst)

text \<open>
  the size bound. \<open>EnsureCandidate\<close> never takes the registry over \<open>MaxPoolSize\<close>, and no
  other operation adds an entry, except that \<open>RecordSuccess\<close> for an IP without an entry adds
  one whatever the size.
\<close>

theorem pool_size_step:
  "length (dp_entries (apply_op op p)) \<le> length (dp_entries p) \<or>
   (int (length (dp_entries (apply_op op p))) \<le> MaxPoolSize (dp_cfg p) \<and>
    (\<exists>now ip source. op = OpEnsure now ip source \<and> map_of (dp_entries p) ip = None)) \<or>
   (length (dp_entries (apply_op op p)) = Suc (length (dp_entries p)) \<and>
    (\<exists>now ip lat ttl source. op = OpSuccess now ip lat ttl source \<and> map_of (dp_entries p) ip = None))"
proof (cases op)
  case (OpEnsure now ip source)
  then show ?thesis
    by (auto simp: EnsureCandidate_def Let_def length_alist_set map_of_eq_None_iff split: option.split)
next
  case (OpSuccess now ip lat ttl source)
  then show ?thesis
    by (cases "entry_at p ip")
      (auto simp: RecordSuccess_def Let_def length_alist_set map_of_eq_None_iff dest: map_of_SomeD)
next
  case (OpFailure now ip)
  then show ?thesis
    by (cases "entry_at p ip") (auto simp: RecordFailure_def Let_def length_alist_set dest: map_of_key)
next
  case (OpEvidence now ip item)
  show ?thesis
  proof (cases "entry_at p ip")
    case (Some e)
    have "length (dp_entries (put_entry ip e' p)) = length (dp_entries p)" for e'
      using map_of_key [OF Some] by (simp add: length_alist_set)
    then show ?thesis
      using AddEvidence_Some [OF Some, of now item] OpEvidence by (auto simp del: put_entry_fields)
  qed (simp add: OpEvidence AddEvidence_None)
next
  case (OpRefresh now)
  then show ?thesis by (simp add: Refresh_entries)
next
  case OpClear
  then show ?thesis by (simp add: pool_ClearStale_def Let_def)
qed

text \<open>
  clearing the registry removes exactly the stale and the unreachable entries, returns
  their number, leaves every other entry as it is and keeps the counts of the other statuses;
  clearing twice removes nothing more.
\<close>

theorem ClearStale_exact:
  "dp_entries (fst (pool_ClearStale p)) =
     filter (\<lambda>(ip, e). pe_Status e \<noteq> StatusStale \<and> pe_Status e \<noteq> StatusUnreachable) (dp_entries p) \<and>
   snd (pool_ClearStale p) =
     int (length (dp_entries p)) - int (length (dp_entries (fst (pool_ClearStale p)))) \<and>
   Counts (fst (pool_ClearStale p)) =
     (count_status StatusActive p, count_status StatusRecentlySeen p, 0, count_status StatusCandidate p) \<and>
   snd (pool_ClearStale (fst (pool_ClearStale p))) = 0"
proof -
  have split: "length xs = length (filter P xs) + length (filter (\<lambda>x. \<not> P x) xs)"
    for xs :: "(string \<times> DevicePoolEntry) list" and P
    by (rule sum_length_filter_compl [symmetric])
  have eq: "(\<lambda>(ip, e). \<not> is_dead e) = (\<lambda>(ip, e). pe_Status e \<noteq> StatusStale \<and> pe_Status e \<noteq> StatusUnreachable)"
    by (auto simp: is_dead_def)
  show ?thesis
    using split [of "dp_entries p" "\<lambda>(ip, e). is_dead e"]
    by (auto simp: pool_ClearStale_def Let_def Counts_def count_status_def eq [symmetric] case_prod_unfold
        filter_filter is_dead_def filter_empty_conv intro!: arg_cong [where f = length] filter_cong)
qed

section \<open>Snapshots\<close>

definition canonical_v4 :: "string \<Rightarrow> bool" where
  "canonical_v4 s = (\<exists>b. length b = 4 \<and> s = v4_string b)"

lemma canonical_v4_num:
  assumes "length b = 4"
  shows "is_v4 (v4_string b)" "v4_num (v4_string b) = be_uint32 b"
  using assms by (simp_all add: is_v4_def v4_num_def parse_ip_v4_string)

lemma canonical_is_v4: "canonical_v4 a \<Longrightarrow> is_v4 a"
  by (auto simp: canonical_v4_def canonical_v4_num)

lemma canonical_v4_inj:
  assumes "canonical_v4 a" and "canonical_v4 b" and "v4_num a = v4_num b"
  shows "a = b"
proof -
  obtain x y where xy: "length x = 4" "a = v4_string x" "length y = 4" "b = v4_string y"
    using assms by (auto simp: canonical_v4_def)
  then have "be_uint32 x = be_uint32 y" using assms(3) by (simp add: canonical_v4_num)
  then show ?thesis using xy put_be_uint32 by metis
qed

text \<open>The keys of the entries are IPv4 addresses in their canonical form.\<close>

definition v4_keys :: "DevicePool \<Rightarrow> bool" where
  "v4_keys p = (\<forall>(ip, e) \<in> set (dp_entries p). canonical_v4 ip)"

abbreviation entry_num :: "DevicePoolEntry \<Rightarrow> uint32" where
  "entry_num e \<equiv> v4_num (pe_IP e)"

interpretation entry_order: weak_order "\<lambda>a b. ipLess (pe_IP a) (pe_IP b)" "\<lambda>e. is_v4 (pe_IP e)"
  by unfold_locales (auto simp: ipLess_v4)

lemma snapshot_sorted:
  assumes "pool_ok p" and "v4_keys p"
  shows "sorted (map entry_num (pool_Snapshot p))" "distinct (map entry_num (pool_Snapshot p))"
proof -
  have keys: "pe_IP e = ip \<and> canonical_v4 ip" if "(ip, e) \<in> set (dp_entries p)" for ip e
    using that assms by (auto simp: pool_ok_def v4_keys_def entry_ok_def)
  have v4: "\<forall>e \<in> snd ` set (dp_entries p). is_v4 (pe_IP e)"
    using keys canonical_is_v4 by auto
  have "sorted_wrt (\<lambda>a b. \<not> ipLess (pe_IP b) (pe_IP a)) (sortByIP (map snd (dp_entries p)))"
    unfolding sortByIP_def using v4 by (intro entry_order.sorted_insertion_sort) simp
  then have "sorted_wrt (\<lambda>a b. entry_num a \<le> entry_num b) (pool_Snapshot p)"
    unfolding pool_Snapshot_def
    by (rule sorted_wrt_mono_rel [rotated])
      (use v4 in \<open>auto simp: sortByIP_def ipLess_v4 not_less\<close>)
  then show "sorted (map entry_num (pool_Snapshot p))" by (simp add: sorted_wrt_map)
  have "inj_on (\<lambda>q. entry_num (snd q)) (set (dp_entries p))"
  proof (rule inj_onI)
    fix x y
    assume xy: "x \<in> set (dp_entries p)" "y \<in> set (dp_entries p)" "entry_num (snd x) = entry_num (snd y)"
    then have "fst x = fst y" using keys canonical_v4_inj by (metis prod.collapse)
    moreover have "inj_on fst (set (dp_entries p))" using assms(1) by (simp add: pool_ok_def distinct_map)
    ultimately show "x = y" using xy(1,2) by (meson inj_onD)
  qed
  then have "distinct (map (\<lambda>q. entry_num (snd q)) (dp_entries p))"
    using assms(1) by (simp add: distinct_map pool_ok_def)
  moreover have "mset (map entry_num (pool_Snapshot p)) = mset (map (\<lambda>q. entry_num (snd q)) (dp_entries p))"
    by (simp add: pool_Snapshot_def sortByIP_def multiset.map_comp comp_def)
  ultimately show "distinct (map entry_num (pool_Snapshot p))" by (metis mset_eq_imp_distinct_iff)
qed

text \<open>
  a snapshot lists every entry once, in increasing numeric order of the addresses, and
  does not depend on the order in which Go iterates over the map, provided the keys are
  canonical IPv4 addresses (with other keys \<open>ipLess\<close> is not an order).
\<close>

theorem Snapshot_deterministic:
  assumes "pool_ok p" and "pool_ok q" and "v4_keys p" and "mset (dp_entries q) = mset (dp_entries p)"
  shows "pool_Snapshot q = pool_Snapshot p \<and> mset (pool_Snapshot p) = image_mset snd (mset (dp_entries p)) \<and>
    sorted_wrt (<) (map entry_num (pool_Snapshot p))"
proof -
  have "v4_keys q" using assms(3) mset_eq_setD [OF assms(4)] by (simp add: v4_keys_def)
  note sp = snapshot_sorted [OF assms(1,3)] and sq = snapshot_sorted [OF assms(2) this]
  have m: "mset (pool_Snapshot r) = image_mset snd (mset (dp_entries r))" for r
    by (simp add: pool_Snapshot_def sortByIP_def)
  then have eq: "mset (pool_Snapshot q) = mset (pool_Snapshot p)" using assms(4) by simp
  then have "mset (map entry_num (pool_Snapshot q)) = mset (map entry_num (pool_Snapshot p))" by simp
  then have "map entry_num (pool_Snapshot q) = map entry_num (pool_Snapshot p)"
    using sp sq by (metis properties_for_sort)
  moreover have "inj_on entry_num (set (pool_Snapshot q) \<union> set (pool_Snapshot p))"
    using sp(2) mset_eq_setD [OF eq] by (simp add: distinct_map)
  ultimately have "pool_Snapshot q = pool_Snapshot p" by (rule map_inj_on)
  then show ?thesis using m sp by (simp add: strict_sorted_iff)
qed

theorem Snapshot_deterministic_witness:
  "pool_Snapshot (run_ops [OpEnsure 5 ''10.0.0.9'' SourceSeed, OpEnsure 5 ''10.0.0.10'' SourceSeed] (NewDevicePool DefaultConfig)) =
   pool_Snapshot (run_ops [OpEnsure 5 ''10.0.0.10'' SourceSeed, OpEnsure 5 ''10.0.0.9'' SourceSeed] (NewDevicePool DefaultConfig))"
proof -
  let ?p = "\<lambda>a b. run_ops [OpEnsure 5 a SourceSeed, OpEnsure 5 b SourceSeed] (NewDevicePool DefaultConfig)"
  have ents: "dp_entries (?p a b) = [(a, new_entry a (ts 5) SourceSeed), (b, new_entry b (ts 5) SourceSeed)]"
    if "a \<noteq> b" for a b
    using that by (simp add: EnsureCandidate_def Let_def normalized_fields DefaultConfig_def)
  have "canonical_v4 (v4_string [10, 0, 0, 9])" "canonical_v4 (v4_string [10, 0, 0, 10])"
    unfolding canonical_v4_def by force+
  moreover have "v4_string [10, 0, 0, 9] = ''10.0.0.9''" "v4_string [10, 0, 0, 10] = ''10.0.0.10''"
    by (simp_all add: go_defs char_of_def bit_0)
  ultimately have "canonical_v4 ''10.0.0.9''" "canonical_v4 ''10.0.0.10''" by simp_all
  then show ?thesis
    using Snapshot_deterministic [OF run_ops_pool_ok [OF pool_ok_new] run_ops_pool_ok [OF pool_ok_new],
        of "[OpEnsure 5 ''10.0.0.10'' SourceSeed, OpEnsure 5 ''10.0.0.9'' SourceSeed]" DefaultConfig
        "[OpEnsure 5 ''10.0.0.9'' SourceSeed, OpEnsure 5 ''10.0.0.10'' SourceSeed]" DefaultConfig]
      ents [of "''10.0.0.9''" "''10.0.0.10''"] ents [of "''10.0.0.10''" "''10.0.0.9''"]
    by (simp add: v4_keys_def del: run_ops_simps)
qed

end
