(* ===== verification/Go_Regexp.thy ===== *)
theory Go_Regexp
  imports Go_Strings Go_Float
begin

text \<open>
  The pieces of the package \<open>regexp\<close> the code's expressions are built from, on byte strings: a
  matcher takes the text from a position on and returns its result, or \<open>None\<close> when it does not
  match there. With them the numbers the expressions pick out of a text, and \<open>fmt\<close>'s \<open>%.1f\<close>.
\<close>

section \<open>Matchers\<close>

text \<open>\<open>FindStringSubmatch\<close>: the leftmost position at which the expression matches.\<close>

fun find_re :: "(string \<Rightarrow> 'a option) \<Rightarrow> string \<Rightarrow> 'a option" where
  "find_re m [] = m []"
| "find_re m (c # cs) = (case m (c # cs) of Some x \<Rightarrow> Some x | None \<Rightarrow> find_re m cs)"

text \<open>\<open>\s\<close> of Go's regexp package; the text of the expression, and the same under \<open>(?i)\<close>.\<close>

definition re_space :: "char \<Rightarrow> bool" where
  "re_space c = (let n = byte_of c in n = 9 \<or> n = 10 \<or> n = 12 \<or> n = 13 \<or> n = 32)"

definition re_text :: "string \<Rightarrow> string \<Rightarrow> string option" where
  "re_text t s = (if has_prefix s t then Some (drop (length t) s) else None)"

definition re_text_ci :: "string \<Rightarrow> string \<Rightarrow> string option" where
  "re_text_ci t s = (if has_prefix (to_lower s) (to_lower t) then Some (drop (length t) s) else None)"

text \<open>A greedy run of a class of bytes; in these expressions what follows a run never starts
  with a byte of its class, so no shorter run can match.\<close>

definition re_star :: "(char \<Rightarrow> bool) \<Rightarrow> string \<Rightarrow> string \<times> string" where
  "re_star P s = (takeWhile P s, dropWhile P s)"

definition re_plus :: "(char \<Rightarrow> bool) \<Rightarrow> string \<Rightarrow> (string \<times> string) option" where
  "re_plus P s = (if takeWhile P s = [] then None else Some (takeWhile P s, dropWhile P s))"

text \<open>
  A word byte of \<open>\b\<close>, and the search for an expression that starts with \<open>\b\<close> and a word byte: the
  flag says that the byte before the position is a word byte.
\<close>

definition is_word :: "char \<Rightarrow> bool" where
  "is_word c =
     (let n = byte_of c in (48 \<le> n \<and> n \<le> 57) \<or> (65 \<le> n \<and> n \<le> 90) \<or> n = 95 \<or> (97 \<le> n \<and> n \<le> 122))"

definition at_word_end :: "string \<Rightarrow> bool" where
  "at_word_end s = (case s of [] \<Rightarrow> True | c # _ \<Rightarrow> \<not> is_word c)"

fun find_word :: "(string \<Rightarrow> 'a option) \<Rightarrow> bool \<Rightarrow> string \<Rightarrow> 'a option" where
  "find_word m inside [] = None"
| "find_word m inside (c # cs) =
     (case (if inside then None else m (c # cs)) of
        Some x \<Rightarrow> Some x
      | None \<Rightarrow> find_word m (is_word c) cs)"

text \<open>An alternation of plain texts followed by \<open>\b\<close>; the first that matches is returned.\<close>

fun re_words :: "string list \<Rightarrow> string \<Rightarrow> string option" where
  "re_words [] s = None"
| "re_words (t # ts) s =
     (if has_prefix s t \<and> at_word_end (drop (length t) s) then Some t else re_words ts s)"

text \<open>
  The number of bytes of the rune a text starts with; a byte that starts no valid encoding is a
  rune of its own. A class such as \<open>[^a-z0-9]\<close> consumes runes.
\<close>

definition rune_len :: "string \<Rightarrow> nat" where
  "rune_len s =
     (let b = map byte_of (take 4 s); cont = (\<lambda>n. 128 \<le> n \<and> n < 192)
      in if 2 \<le> length b \<and> 194 \<le> b ! 0 \<and> b ! 0 < 224 \<and> cont (b ! 1) then 2
         else if 3 \<le> length b \<and> 224 \<le> b ! 0 \<and> b ! 0 < 240 \<and> cont (b ! 1) \<and> cont (b ! 2) \<and>
           (b ! 0 = 224 \<longrightarrow> 160 \<le> b ! 1) \<and> (b ! 0 = 237 \<longrightarrow> b ! 1 < 160) then 3
         else if 4 \<le> length b \<and> 240 \<le> b ! 0 \<and> b ! 0 < 245 \<and> cont (b ! 1) \<and> cont (b ! 2) \<and> cont (b ! 3) \<and>
           (b ! 0 = 240 \<longrightarrow> 144 \<le> b ! 1) \<and> (b ! 0 = 244 \<longrightarrow> b ! 1 < 144) then 4
         else 1)"

text \<open>\<open>[^a-z0-9]{0,n}\<close> under \<open>(?i)\<close>, greedy.\<close>

definition is_alnum_ci :: "char \<Rightarrow> bool" where
  "is_alnum_ci c \<longleftrightarrow> is_word c \<and> c \<noteq> CHR ''_''"

fun skip_runes :: "nat \<Rightarrow> string \<Rightarrow> string" where
  "skip_runes 0 s = s"
| "skip_runes (Suc n) s =
     (case s of
        [] \<Rightarrow> []
      | c # _ \<Rightarrow> if is_alnum_ci c then s else skip_runes n (drop (rune_len s) s))"

section \<open>Numbers in a text\<close>

text \<open>\<open>-?\d+(?:\.\d+)?\<close>, greedy.\<close>

definition match_number :: "string \<Rightarrow> string option" where
  "match_number s =
     (let sign = (if s \<noteq> [] \<and> hd s = CHR ''-'' then ''-'' else []);
          s = drop (length sign) s;
          ip = takeWhile is_digit s; rest = dropWhile is_digit s;
          fp = (if rest \<noteq> [] \<and> hd rest = CHR ''.'' then takeWhile is_digit (tl rest) else [])
      in if ip = [] then None
         else Some (sign @ ip @ (if fp = [] then [] else CHR ''.'' # fp)))"

text \<open>
  \<open>strconv.ParseFloat\<close> on such a token: the exact decimal, rounded; beyond the largest float the
  range error. (A negative zero reads as 0.)
\<close>

definition token_value :: "string \<Rightarrow> rat" where
  "token_value s =
     (let neg = (s \<noteq> [] \<and> hd s = CHR ''-''); s = (if neg then tl s else s);
          ip = takeWhile is_digit s; fp = drop 1 (dropWhile is_digit s);
          v = of_nat (digits_val 0 (ip @ fp)) / 10 ^ length fp
      in if neg then - v else v)"

definition parse_float_token :: "string \<Rightarrow> float64 option" where
  "parse_float_token s =
     (let v = round64 (token_value s) in if 2 ^ 1024 \<le> \<bar>v\<bar> then None else Some v)"

text \<open>\<open>fmt.Sprintf("%.1f", v)\<close>: the exact value rounded to one decimal, half to even.\<close>

definition format_1dp :: "float64 \<Rightarrow> string" where
  "format_1dp v =
     (let t = nat (round_even (10 * \<bar>v\<bar>))
      in (if v < 0 then ''-'' else []) @ nat_digits (t div 10) @ ''.'' @ nat_digits (t mod 10))"

lemmas [go_defs] = re_space_def re_text_def re_text_ci_def re_star_def re_plus_def is_word_def
  at_word_end_def rune_len_def is_alnum_ci_def match_number_def token_value_def parse_float_token_def format_1dp_def

section \<open>Laws\<close>

text \<open>A printed integer is one number token and is read back.\<close>

lemma takeWhile_nat_digits [simp]: "takeWhile is_digit (nat_digits n) = nat_digits n"
  using nat_digits_digits [of n] by (simp add: list_all_iff takeWhile_eq_all_conv)

lemma dropWhile_nat_digits [simp]: "dropWhile is_digit (nat_digits n) = []"
  using nat_digits_digits [of n] by (simp add: list_all_iff dropWhile_eq_Nil_conv)

end
