(* ===== verification/Reachability.thy ===== *)
theory Reachability
  imports Pool_Types Go_Regexp
begin

text \<open>
  \<open>apps/desktop/ippool/reachability_probe.go\<close>: one read-only probe of an address, a run of the
  system's \<open>ping\<close> with a TCP connect as the fallback, and the parser of the output of \<open>ping\<close>.
  The \<open>ping\<close> process and the dialer are outside the repository: they are arguments
  (\<open>run_ping\<close> maps the argument list to the output and the error text, \<open>dial\<close> an address and
  a port to the latency of the connection, if one was made).
\<close>

section \<open>The regular expressions of the parser\<close>

definition digit_dot :: "char \<Rightarrow> bool" where
  "digit_dot c = (is_digit c \<or> c = CHR ''.'')"

definition reTTL :: "string \<Rightarrow> string option" where
  "reTTL s = Option.bind (re_text_ci ''ttl'' s) (\<lambda>s.
     Option.bind (re_plus (\<lambda>c. c = CHR ''='' \<or> re_space c \<or> c = CHR '':'') s) (\<lambda>(_, s).
     map_option fst (re_plus is_digit s)))"

definition reWinAvg :: "string \<Rightarrow> string option" where
  "reWinAvg s = Option.bind (re_text_ci ''average'' s) (\<lambda>s.
     Option.bind (re_text ''='' (snd (re_star re_space s))) (\<lambda>s.
     Option.bind (re_plus is_digit (snd (re_star re_space s))) (\<lambda>(ds, s).
     map_option (\<lambda>_. ds) (re_text_ci ''ms'' (snd (re_star re_space s))))))"

definition reUnixStat :: "string \<Rightarrow> string option" where
  "reUnixStat s = Option.bind (re_text ''='' s) (\<lambda>s.
     Option.bind (re_plus digit_dot (snd (re_star re_space s))) (\<lambda>(_, s).
     Option.bind (re_text ''/'' s) (\<lambda>s.
     Option.bind (re_plus digit_dot s) (\<lambda>(avg, s).
     Option.bind (re_text ''/'' s) (\<lambda>s.
     map_option (\<lambda>_. avg) (re_plus digit_dot s))))))"

definition reLossWin :: "string \<Rightarrow> string option" where
  "reLossWin s = Option.bind (re_text ''('' s) (\<lambda>s.
     Option.bind (re_plus is_digit s) (\<lambda>(ds, s).
     Option.bind (re_text ''%'' s) (\<lambda>s.
     map_option (\<lambda>_. ds) (re_text ''loss)'' (snd (re_star re_space s))))))"

definition reLossUnix :: "string \<Rightarrow> string option" where
  "reLossUnix s = Option.bind (re_plus digit_dot s) (\<lambda>(ds, s).
     Option.bind (re_text ''%'' s) (\<lambda>s.
     Option.bind (re_text ''packet'' (snd (re_star re_space s))) (\<lambda>s.
     map_option (\<lambda>_. ds) (re_text ''loss'' (snd (re_star re_space s))))))"

text \<open>\<open>v, _ = strconv.Atoi(ds)\<close> on digits: out of range, the value is the largest integer.\<close>

definition atoi_or_max :: "string \<Rightarrow> int" where
  "atoi_or_max ds = min (int (digits_val 0 ds)) (2 ^ 63 - 1)"

text \<open>\<open>v, _ = strconv.ParseFloat(s, 64)\<close> on digits and dots: a second dot is a syntax error, which
  leaves 0. (A number above the largest float is not modelled.)\<close>

definition parse_float :: "string \<Rightarrow> float64" where
  "parse_float s =
     (let ip = takeWhile is_digit s; rest = dropWhile is_digit s; fp = drop 1 rest
      in if ip @ fp = [] \<or> \<not> list_all is_digit fp then 0
         else round64 (of_nat (digits_val 0 (ip @ fp)) / 10 ^ length fp))"

section \<open>The outcome of a probe\<close>

record ProbeOutcome =
  po_IP :: string
  po_Reachable :: bool
  po_LatencyMs :: float64
  po_TTL :: int
  po_LossPct :: float64
  po_Method :: string
  po_Err :: string

definition parsePing :: "string \<Rightarrow> ProbeOutcome" where
  "parsePing output =
     (let ttl = (case find_re reTTL output of Some ds \<Rightarrow> atoi_or_max ds | None \<Rightarrow> 0);
          loss = (case find_re reLossWin output of
                    Some ds \<Rightarrow> parse_float ds
                  | None \<Rightarrow> (case find_re reLossUnix output of Some ds \<Rightarrow> parse_float ds | None \<Rightarrow> 0));
          latency = (case find_re reWinAvg output of
                       Some ds \<Rightarrow> parse_float ds
                     | None \<Rightarrow> (case find_re reUnixStat output of Some ds \<Rightarrow> parse_float ds | None \<Rightarrow> 0));
          lower = to_lower output;
          lostAll = (loss \<ge> 100 \<or> str_contains lower ''100% packet loss'' \<or> str_contains lower ''100% loss'' \<or>
                     str_contains lower ''unreachable'' \<or> str_contains lower ''request timed out'');
          gotReply = (ttl > 0 \<or> latency > 0 \<or> str_contains lower ''bytes from'' \<or> str_contains lower ''reply from'')
      in \<lparr>po_IP = [], po_Reachable = (gotReply \<and> \<not> lostAll), po_LatencyMs = latency, po_TTL = ttl,
          po_LossPct = loss, po_Method = [], po_Err = []\<rparr>)"

section \<open>The probe\<close>

text \<open>\<open>HideWindow\<close> only changes the window of the process; it is left out.\<close>

record ReachabilityProbe =
  rp_Timeout :: duration
  rp_Count :: int
  rp_TCPPorts :: "int list"

definition NewReachabilityProbe :: "Config \<Rightarrow> ReachabilityProbe" where
  "NewReachabilityProbe cfg =
     \<lparr>rp_Timeout = PingTimeout cfg, rp_Count = (if PingCount cfg \<le> 0 then 1 else PingCount cfg),
      rp_TCPPorts = [80, 443, 22, 53, 7547]\<rparr>"

text \<open>Integer division of Go truncates; the timeout is positive, where it is the floor.\<close>

definition pingArgs :: "string \<Rightarrow> string \<Rightarrow> int \<Rightarrow> duration \<Rightarrow> string list" where
  "pingArgs goos ip cnt timeout =
     (let ms = max (timeout div millisecond) 500
      in if goos = ''windows'' then [''-n'', itoa cnt, ''-w'', itoa ms, ip]
         else (let secs = max (ms div 1000) 1 in [''-c'', itoa cnt, ''-W'', itoa secs, ip]))"

type_synonym run_ping = "string list \<Rightarrow> string \<times> string option"
type_synonym dialer = "string \<Rightarrow> int \<Rightarrow> float64 option"

definition ping :: "string \<Rightarrow> run_ping \<Rightarrow> ReachabilityProbe \<Rightarrow> string \<Rightarrow> ProbeOutcome \<times> string option" where
  "ping goos run p ip =
     (case run (pingArgs goos ip (rp_Count p) (rp_Timeout p)) of
        (raw, err) \<Rightarrow> ((parsePing raw)\<lparr>po_IP := ip\<rparr>, err))"

text \<open>The loop over the fallback ports.\<close>

fun tcp_fallback :: "dialer \<Rightarrow> string \<Rightarrow> int list \<Rightarrow> ProbeOutcome \<Rightarrow> ProbeOutcome" where
  "tcp_fallback dial ip [] out = out"
| "tcp_fallback dial ip (port # ports) out =
     (case dial ip port of
        Some latency \<Rightarrow>
          out\<lparr>po_Reachable := True, po_Method := ''tcp_connect'', po_LatencyMs := latency, po_Err := []\<rparr>
      | None \<Rightarrow> tcp_fallback dial ip ports out)"

definition Probe :: "string \<Rightarrow> run_ping \<Rightarrow> dialer \<Rightarrow> ReachabilityProbe \<Rightarrow> string \<Rightarrow> ProbeOutcome" where
  "Probe goos run dial p ip =
     (let out = \<lparr>po_IP = ip, po_Reachable = False, po_LatencyMs = 0, po_TTL = 0, po_LossPct = 0,
                 po_Method = ''none'', po_Err = []\<rparr>
      in case ping goos run p ip of (res, err) \<Rightarrow>
           if po_Reachable res then res\<lparr>po_Method := ''icmp_ping''\<rparr>
           else
             (let out = (case err of Some e \<Rightarrow> out\<lparr>po_Err := e\<rparr> | None \<Rightarrow> out)
              in tcp_fallback dial ip (rp_TCPPorts p) out))"

section \<open>Laws\<close>

lemma tcp_fallback_props:
  "po_IP (tcp_fallback dial ip ports out) = po_IP out"
  "po_Reachable (tcp_fallback dial ip ports out) \<longleftrightarrow> po_Reachable out \<or> (\<exists>port \<in> set ports. dial ip port \<noteq> None)"
  "po_Method (tcp_fallback dial ip ports out) =
     (if \<exists>port \<in> set ports. dial ip port \<noteq> None then ''tcp_connect'' else po_Method out)"
  by (induction ports) (auto split: option.split)

text \<open>
  a probe always answers for the address it was given; it says reachable exactly when the
  output of \<open>ping\<close> does or one of the fallback ports accepts a connection, the method names
  which, and it is \<open>none\<close> exactly for an unreachable address.
\<close>

theorem Probe_outcome:
  "po_IP (Probe goos run dial p ip) = ip \<and>
   (po_Reachable (Probe goos run dial p ip) \<longleftrightarrow>
      po_Reachable (parsePing (fst (run (pingArgs goos ip (rp_Count p) (rp_Timeout p))))) \<or>
      (\<exists>port \<in> set (rp_TCPPorts p). dial ip port \<noteq> None)) \<and>
   (po_Method (Probe goos run dial p ip) = ''none'' \<longleftrightarrow> \<not> po_Reachable (Probe goos run dial p ip)) \<and>
   (po_Method (Probe goos run dial p ip) = ''icmp_ping'' \<longleftrightarrow>
      po_Reachable (parsePing (fst (run (pingArgs goos ip (rp_Count p) (rp_Timeout p))))))"
proof -
  obtain raw err where run: "run (pingArgs goos ip (rp_Count p) (rp_Timeout p)) = (raw, err)" by fastforce
  show ?thesis
    by (cases "po_Reachable (parsePing raw)")
      (simp_all add: Probe_def ping_def run Let_def tcp_fallback_props split: option.split)
qed

lemma probe_IP [simp]: "po_IP (Probe goos run dial p ip) = ip"
  by (auto simp: Probe_def ping_def Let_def tcp_fallback_props split: prod.split option.split)

lemma find_re_no_match:
  assumes "\<And>k. k < length p \<Longrightarrow> m (drop k p @ s) = None"
  shows "find_re m (p @ s) = find_re m s"
  using assms
proof (induction p)
  case (Cons c p)
  have "m (c # p @ s) = None" using Cons.prems [of 0] by simp
  moreover have "find_re m (p @ s) = find_re m s"
    using Cons.IH Cons.prems [of "Suc k" for k] by simp
  ultimately show ?case by simp
qed simp

text \<open>
  the verdict on a partial loss depends on the system. Output of Windows that reports one
  timed-out request is unreachable whatever replies it also contains, while the statistics of
  Linux for the same loss leave the device reachable.
\<close>

theorem parsePing_partial_loss:
  "\<not> po_Reachable (parsePing (replies @ ''Request timed out.'' @ rest)) \<and>
   po_Reachable (parsePing ''ttl=64, 50% packet loss'') \<and>
   po_TTL (parsePing ''ttl=64, 50% packet loss'') = 64"
proof -
  have "to_lower (replies @ ''Request timed out.'' @ rest) = to_lower replies @ ''request timed out'' @ (''.'' @ to_lower rest)"
    by (simp add: to_lower_def lower_char_def byte_of_def char_of_def bit_0)
  then have "str_contains (to_lower (replies @ ''Request timed out.'' @ rest)) ''request timed out''"
    using str_contains_app by metis
  then have "\<not> po_Reachable (parsePing (replies @ ''Request timed out.'' @ rest))"
    by (simp add: parsePing_def Let_def)
  moreover have "let r = parsePing ''ttl=64, 50% packet loss'' in po_Reachable r \<and> po_TTL r = 64"
    by code_simp
  ultimately show ?thesis by (simp only: Let_def) blast
qed

end
