(* ===== verification/Probe_Scheduler.thy ===== *)
theory Probe_Scheduler
  imports Reachability
begin

text \<open>
  \<open>apps/desktop/ippool/probe_scheduler.go\<close>: the bounded worker pool with a global rate limit.
  The goroutines of \<open>Run\<close> (one dispatcher, \<open>conc\<close> workers) and the channels between them are
  one state; a command is one step of one goroutine (a receive, a send, the end of a sleep or
  of a probe, an exit), so every interleaving is a list of commands. The commands
  \<open>SubmitTask\<close>, \<open>TakeResult\<close>, \<open>Cancel\<close> and \<open>CloseResults\<close> are those of the caller
  (\<open>manager.go\<close>), which owns the two channels. The unbuffered channel \<open>work\<close> is the joint
  step \<open>HandOver\<close>.
\<close>

section \<open>The configuration of a run\<close>

record Scheduler =
  sch_Concurrency :: int
  sch_RatePerSec :: float64
  sch_Jitter :: float64

definition NewScheduler :: "Config \<Rightarrow> Scheduler" where
  "NewScheduler cfg =
     \<lparr>sch_Concurrency = MaxConcurrency cfg, sch_RatePerSec = MaxProbesPerSec cfg, sch_Jitter = JitterFraction cfg\<rparr>"

text \<open>The conversion of a float to \<open>time.Duration\<close> truncates.\<close>

definition trunc_float :: "float64 \<Rightarrow> int" where
  "trunc_float x = (if 0 \<le> x then \<lfloor>x\<rfloor> else \<lceil>x\<rceil>)"

definition run_conc :: "Scheduler \<Rightarrow> int" where
  "run_conc s = (if sch_Concurrency s \<le> 0 then 8 else sch_Concurrency s)"

definition run_base :: "Scheduler \<Rightarrow> duration" where
  "run_base s =
     (let rate = (if sch_RatePerSec s \<le> 0 then 8 else sch_RatePerSec s)
      in trunc_float (fdiv (of_int second) rate))"

text \<open>\<open>sleepWithJitter\<close>: the duration of the sleep for the random number \<open>r\<close> of \<open>rng.Float64\<close>.\<close>

definition sleep_duration :: "Scheduler \<Rightarrow> float64 \<Rightarrow> duration" where
  "sleep_duration s r =
     (if sch_Jitter s > 0 then
        (let delta = fmul (fsub (fmul r 2) 1) (sch_Jitter s)
         in trunc_float (fmul (of_int (run_base s)) (fadd 1 delta)))
      else run_base s)"

section \<open>The state of a run\<close>

datatype Worker = Idle | Probing string | Sending ProbeOutcome | Exited

record SchedState =
  sd_tasks :: "string list"
  sd_tasksClosed :: bool
  sd_holding :: "(string \<times> gotime) option"
  sd_dispatching :: bool
  sd_workers :: "Worker list"
  sd_results :: "ProbeOutcome list"
  sd_resultsCap :: nat
  sd_closed :: bool
  sd_cancelled :: bool
  sd_panic :: bool
  sd_now :: gotime
  sd_starts :: "gotime list"
  sd_submitted :: "string list"
  sd_received :: "ProbeOutcome list"
  sd_dropped :: "string list"

text \<open>The last four fields only record the history: the times at which probes started, what was
  submitted and received, and what was dropped by an exit.\<close>

definition taskQueueSize :: nat where "taskQueueSize = 512"

definition init_sched :: "Scheduler \<Rightarrow> nat \<Rightarrow> gotime \<Rightarrow> SchedState" where
  "init_sched sch cap now =
     \<lparr>sd_tasks = [], sd_tasksClosed = False, sd_holding = None, sd_dispatching = True,
      sd_workers = replicate (nat (run_conc sch)) Idle, sd_results = [], sd_resultsCap = cap,
      sd_closed = False, sd_cancelled = False, sd_panic = False, sd_now = now, sd_starts = [],
      sd_submitted = [], sd_received = [], sd_dropped = []\<rparr>"

datatype SchedCmd =
  SubmitTask string | CloseTasks | TakeTask float64 | HandOver nat | FinishProbe nat ProbeOutcome
  | SendResult nat | TakeResult | Cancel | ExitDispatcher | ExitWorker nat | CloseResults | Wait nat

text \<open>The workers, changed at one index.\<close>

definition set_worker :: "nat \<Rightarrow> Worker \<Rightarrow> SchedState \<Rightarrow> SchedState" where
  "set_worker i w s = s\<lparr>sd_workers := (sd_workers s)[i := w]\<rparr>"

definition worker_at :: "SchedState \<Rightarrow> nat \<Rightarrow> Worker option" where
  "worker_at s i = (if i < length (sd_workers s) then Some (sd_workers s ! i) else None)"

text \<open>
  One step; \<open>None\<close> when the goroutine is not at that point. \<open>TakeTask r\<close>: the dispatcher
  receives a task and computes its sleep from the random number \<open>r\<close>; with nothing to wait for
  and the context cancelled it returns at once. \<open>HandOver i\<close>: the sleep is over and worker \<open>i\<close>
  receives the address. A send on the closed channel panics.
\<close>

fun sched_step :: "Scheduler \<Rightarrow> SchedCmd \<Rightarrow> SchedState \<Rightarrow> SchedState option" where
  "sched_step sch (SubmitTask ip) s =
     (if length (sd_tasks s) < taskQueueSize \<and> \<not> sd_tasksClosed s
      then Some (s\<lparr>sd_tasks := sd_tasks s @ [ip], sd_submitted := sd_submitted s @ [ip]\<rparr>) else None)"
| "sched_step sch CloseTasks s = (if sd_tasksClosed s then None else Some (s\<lparr>sd_tasksClosed := True\<rparr>))"
| "sched_step sch (TakeTask r) s =
     (case (sd_tasks s, sd_holding s) of
        (ip # rest, None) \<Rightarrow>
          if \<not> sd_dispatching s \<or> \<not> (0 \<le> r \<and> r < 1) then None
          else (let d = sleep_duration sch r
                in if d \<le> 0 \<and> sd_cancelled s
                   then Some (s\<lparr>sd_tasks := rest, sd_dispatching := False, sd_dropped := ip # sd_dropped s\<rparr>)
                   else Some (s\<lparr>sd_tasks := rest, sd_holding := Some (ip, sd_now s + max 0 d)\<rparr>))
      | _ \<Rightarrow> None)"
| "sched_step sch (HandOver i) s =
     (case (sd_holding s, worker_at s i) of
        (Some (ip, wake), Some Idle) \<Rightarrow>
          if sd_dispatching s \<and> wake \<le> sd_now s
          then Some (set_worker i (Probing ip) (s\<lparr>sd_holding := None, sd_starts := sd_now s # sd_starts s\<rparr>))
          else None
      | _ \<Rightarrow> None)"
| "sched_step sch (FinishProbe i out) s =
     (case worker_at s i of
        Some (Probing ip) \<Rightarrow> if po_IP out = ip then Some (set_worker i (Sending out) s) else None
      | _ \<Rightarrow> None)"
| "sched_step sch (SendResult i) s =
     (case worker_at s i of
        Some (Sending out) \<Rightarrow>
          if sd_closed s then Some (s\<lparr>sd_panic := True\<rparr>)
          else if length (sd_results s) < sd_resultsCap s
          then Some (set_worker i Idle (s\<lparr>sd_results := sd_results s @ [out]\<rparr>))
          else None
      | _ \<Rightarrow> None)"
| "sched_step sch TakeResult s =
     (case sd_results s of
        out # rest \<Rightarrow> Some (s\<lparr>sd_results := rest, sd_received := sd_received s @ [out]\<rparr>)
      | [] \<Rightarrow> None)"
| "sched_step sch Cancel s = Some (s\<lparr>sd_cancelled := True\<rparr>)"
| "sched_step sch ExitDispatcher s =
     (if sd_dispatching s \<and> (sd_cancelled s \<or> (sd_tasksClosed s \<and> sd_tasks s = [] \<and> sd_holding s = None))
      then Some (s\<lparr>sd_dispatching := False, sd_holding := None,
                   sd_dropped := (case sd_holding s of Some (ip, _) \<Rightarrow> [ip] | None \<Rightarrow> []) @ sd_dropped s\<rparr>)
      else None)"
| "sched_step sch (ExitWorker i) s =
     (case worker_at s i of
        Some Idle \<Rightarrow> if sd_cancelled s \<or> \<not> sd_dispatching s then Some (set_worker i Exited s) else None
      | Some (Sending out) \<Rightarrow>
          if sd_cancelled s then Some (set_worker i Exited (s\<lparr>sd_dropped := po_IP out # sd_dropped s\<rparr>)) else None
      | _ \<Rightarrow> None)"
| "sched_step sch CloseResults s =
     (if sd_cancelled s \<and> \<not> sd_closed s then Some (s\<lparr>sd_closed := True\<rparr>) else None)"
| "sched_step sch (Wait dt) s = Some (s\<lparr>sd_now := sd_now s + int dt\<rparr>)"

fun sched_run :: "Scheduler \<Rightarrow> SchedCmd list \<Rightarrow> SchedState \<Rightarrow> SchedState option" where
  "sched_run sch [] s = Some s"
| "sched_run sch (c # cs) s = Option.bind (sched_step sch c s) (sched_run sch cs)"

text \<open>The states \<open>Run\<close> can reach from the start of a run at some time.\<close>

inductive sched_reach :: "Scheduler \<Rightarrow> nat \<Rightarrow> SchedState \<Rightarrow> bool" for sch cap where
  start: "sched_reach sch cap (init_sched sch cap now)"
| step: "sched_reach sch cap s \<Longrightarrow> sched_step sch c s = Some s' \<Longrightarrow> sched_reach sch cap s'"

lemma sched_reach_run: "sched_reach sch cap s \<Longrightarrow> sched_run sch cs s = Some s' \<Longrightarrow> sched_reach sch cap s'"
  by (induction cs arbitrary: s) (auto simp: bind_eq_Some_conv intro: sched_reach.step)

text \<open>A state function that is inductive under the steps holds of every reachable state.\<close>

lemma sched_invariant:
  assumes "sched_reach sch cap s" and "\<And>now. P (init_sched sch cap now)"
    and "\<And>c s s'. P s \<Longrightarrow> sched_step sch c s = Some s' \<Longrightarrow> P s'"
  shows "P s"
  using assms(1) by induction (auto intro: assms(2,3))

lemma set_worker_fields [simp]:
  "sd_tasks (set_worker i w s) = sd_tasks s" "sd_holding (set_worker i w s) = sd_holding s"
  "sd_dispatching (set_worker i w s) = sd_dispatching s" "sd_results (set_worker i w s) = sd_results s"
  "sd_resultsCap (set_worker i w s) = sd_resultsCap s" "sd_closed (set_worker i w s) = sd_closed s"
  "sd_cancelled (set_worker i w s) = sd_cancelled s" "sd_panic (set_worker i w s) = sd_panic s"
  "sd_now (set_worker i w s) = sd_now s" "sd_starts (set_worker i w s) = sd_starts s"
  "sd_submitted (set_worker i w s) = sd_submitted s" "sd_received (set_worker i w s) = sd_received s"
  "sd_dropped (set_worker i w s) = sd_dropped s" "sd_tasksClosed (set_worker i w s) = sd_tasksClosed s"
  "sd_workers (set_worker i w s) = (sd_workers s)[i := w]"
  by (simp_all add: set_worker_def)

lemma worker_at_Some: "worker_at s i = Some w \<longleftrightarrow> i < length (sd_workers s) \<and> sd_workers s ! i = w"
  by (simp add: worker_at_def)

lemmas step_cases = list.splits option.splits Worker.splits prod.splits if_splits

section \<open>Conservation of tasks\<close>

fun worker_ips :: "Worker \<Rightarrow> string multiset" where
  "worker_ips (Probing ip) = {#ip#}"
| "worker_ips (Sending out) = {#po_IP out#}"
| "worker_ips _ = {#}"

definition workers_ips :: "Worker list \<Rightarrow> string multiset" where
  "workers_ips ws = sum_list (map worker_ips ws)"

definition holding_ips :: "(string \<times> gotime) option \<Rightarrow> string multiset" where
  "holding_ips h = (case h of Some (ip, _) \<Rightarrow> {#ip#} | None \<Rightarrow> {#})"

lemma workers_ips_update:
  "i < length ws \<Longrightarrow> workers_ips (ws[i := w]) + worker_ips (ws ! i) = workers_ips ws + worker_ips w"
proof (induction ws arbitrary: i)
  case (Cons x ws)
  show ?case
  proof (cases i)
    case (Suc j)
    then show ?thesis using Cons.IH [of j] Cons.prems by (simp add: workers_ips_def ac_simps)
  qed (simp add: workers_ips_def ac_simps)
qed simp

definition conserved :: "SchedState \<Rightarrow> bool" where
  "conserved s =
     (mset (sd_submitted s) =
        mset (sd_tasks s) + holding_ips (sd_holding s) + workers_ips (sd_workers s) +
        image_mset po_IP (mset (sd_results s)) + image_mset po_IP (mset (sd_received s)) + mset (sd_dropped s) \<and>
      (sd_dropped s \<noteq> [] \<longrightarrow> sd_cancelled s) \<and>
      (\<not> sd_cancelled s \<and> \<not> sd_dispatching s \<longrightarrow> sd_tasksClosed s \<and> sd_tasks s = []) \<and>
      (\<not> sd_dispatching s \<longrightarrow> sd_holding s = None) \<and>
      length (sd_results s) \<le> sd_resultsCap s \<and> length (sd_tasks s) \<le> taskQueueSize)"

lemma conserved_init: "conserved (init_sched sch cap now)"
proof -
  have "workers_ips (replicate n Idle) = {#}" for n by (induction n) (simp_all add: workers_ips_def)
  then show ?thesis by (simp add: conserved_def init_sched_def holding_ips_def)
qed

lemma conserved_step:
  assumes "conserved s" and "sched_step sch c s = Some s'"
  shows "conserved s'"
proof (cases c)
  case (HandOver i)
  with assms obtain ip wake where h: "sd_holding s = Some (ip, wake)" "worker_at s i = Some Idle"
    "sd_dispatching s"
    "s' = set_worker i (Probing ip) (s\<lparr>sd_holding := None, sd_starts := sd_now s # sd_starts s\<rparr>)"
    by (auto split: step_cases)
  then show ?thesis
    using assms(1) workers_ips_update [of i "sd_workers s" "Probing ip"]
    by (auto simp: conserved_def holding_ips_def worker_at_Some)
next
  case (FinishProbe i out)
  with assms have h: "worker_at s i = Some (Probing (po_IP out))" "s' = set_worker i (Sending out) s"
    by (auto split: step_cases)
  then show ?thesis
    using assms(1) workers_ips_update [of i "sd_workers s" "Sending out"]
    by (auto simp: conserved_def worker_at_Some)
next
  case (SendResult i)
  with assms obtain out where h: "worker_at s i = Some (Sending out)"
    "s' = s\<lparr>sd_panic := True\<rparr> \<or> (length (sd_results s) < sd_resultsCap s \<and>
       s' = set_worker i Idle (s\<lparr>sd_results := sd_results s @ [out]\<rparr>))"
    by (auto split: step_cases)
  then show ?thesis
    using assms(1) workers_ips_update [of i "sd_workers s" "Idle"]
    by (auto simp: conserved_def worker_at_Some)
next
  case (ExitWorker i)
  with assms obtain w where w: "worker_at s i = Some w" "w = Idle \<and> s' = set_worker i Exited s \<or>
      (\<exists>out. w = Sending out \<and> sd_cancelled s \<and> s' = set_worker i Exited (s\<lparr>sd_dropped := po_IP out # sd_dropped s\<rparr>))"
    by (auto split: step_cases)
  then show ?thesis
    using assms(1) workers_ips_update [of i "sd_workers s" "Exited"]
    by (auto simp: conserved_def worker_at_Some)
next
  case (TakeTask r)
  with assms obtain ip rest where h: "sd_tasks s = ip # rest" "sd_holding s = None" "sd_dispatching s"
    by (auto split: list.splits option.splits if_splits)
  with assms TakeTask have
    "(sd_cancelled s \<and> s' = s\<lparr>sd_tasks := rest, sd_dispatching := False, sd_dropped := ip # sd_dropped s\<rparr>) \<or>
     s' = s\<lparr>sd_tasks := rest, sd_holding := Some (ip, sd_now s + max 0 (sleep_duration sch r))\<rparr>"
    by (simp add: Let_def split: if_splits)
  then show ?thesis using assms(1) h by (auto simp: conserved_def holding_ips_def)
next
  case TakeResult
  with assms obtain out rest where h: "sd_results s = out # rest"
    "s' = s\<lparr>sd_results := rest, sd_received := sd_received s @ [out]\<rparr>"
    by (auto split: list.splits)
  then show ?thesis using assms(1) by (auto simp: conserved_def)
next
  case ExitDispatcher
  with assms have h: "sd_dispatching s" "sd_cancelled s \<or> (sd_tasksClosed s \<and> sd_tasks s = [] \<and> sd_holding s = None)"
    "s' = s\<lparr>sd_dispatching := False, sd_holding := None,
       sd_dropped := (case sd_holding s of Some (ip, _) \<Rightarrow> [ip] | None \<Rightarrow> []) @ sd_dropped s\<rparr>"
    by (simp_all split: if_splits)
  then show ?thesis using assms(1) by (cases "sd_holding s") (auto simp: conserved_def holding_ips_def)
qed (use assms in \<open>auto simp: conserved_def split: if_splits\<close>)

lemma sched_conserved: "sched_reach sch cap s \<Longrightarrow> conserved s"
  by (rule sched_invariant [where P = conserved]) (auto intro: conserved_init conserved_step)

text \<open>
  C31: no task is lost or duplicated. In every reachable state the addresses submitted are, as
  a multiset, those waiting, held by the dispatcher, being probed, in the two result buffers or
  dropped by an exit; nothing is dropped before the context is cancelled, and the buffers
  stay within their capacities.
\<close>

theorem scheduler_conserves_tasks:
  assumes "sched_reach sch cap s"
  shows "mset (sd_submitted s) =
      mset (sd_tasks s) + holding_ips (sd_holding s) + workers_ips (sd_workers s) +
      image_mset po_IP (mset (sd_results s)) + image_mset po_IP (mset (sd_received s)) + mset (sd_dropped s) \<and>
    (sd_dropped s \<noteq> [] \<longrightarrow> sd_cancelled s) \<and>
    length (sd_results s) \<le> sd_resultsCap s \<and> length (sd_tasks s) \<le> taskQueueSize"
  using sched_conserved [OF assms] by (simp add: conserved_def)

section \<open>The rate limit\<close>

text \<open>The shortest sleep, for the random number 0.\<close>

definition min_gap :: "Scheduler \<Rightarrow> duration" where
  "min_gap sch = max 0 (sleep_duration sch 0)"

lemma trunc_float_mono: "x \<le> y \<Longrightarrow> trunc_float x \<le> trunc_float y"
  by (auto simp: trunc_float_def floor_mono ceiling_mono) (meson ceiling_le floor_le_zero order_trans zero_le_floor le_cases ceiling_le_zero not_le)

lemma run_base_nonneg: "0 \<le> run_base sch"
  by (simp add: run_base_def Let_def trunc_float_def fdiv_def round64_nonneg second_def)

lemma sleep_duration_mono: "0 \<le> r \<Longrightarrow> sleep_duration sch 0 \<le> sleep_duration sch r"
proof -
  assume r: "0 \<le> r"
  have "fmul 0 2 \<le> fmul r 2" using r by (simp add: fmul_def round64_nonneg)
  then have "fsub (fmul 0 2) 1 \<le> fsub (fmul r 2) 1" by (simp add: fsub_def round64_mono)
  then have "fmul (fsub (fmul 0 2) 1) j \<le> fmul (fsub (fmul r 2) 1) j" if "0 < j" for j
    using that unfolding fmul_def by (intro round64_mono mult_right_mono) auto
  then have "fadd 1 (fmul (fsub (fmul 0 2) 1) j) \<le> fadd 1 (fmul (fsub (fmul r 2) 1) j)" if "0 < j" for j
    using that by (simp add: fadd_def round64_mono)
  then have "fmul (of_int (run_base sch)) (fadd 1 (fmul (fsub (fmul 0 2) 1) j)) \<le>
      fmul (of_int (run_base sch)) (fadd 1 (fmul (fsub (fmul r 2) 1) j))" if "0 < j" for j
    using that run_base_nonneg unfolding fmul_def [of "of_int (run_base sch)"]
    by (intro round64_mono mult_left_mono) auto
  then show ?thesis by (simp add: sleep_duration_def Let_def trunc_float_mono)
qed

fun spaced :: "duration \<Rightarrow> gotime list \<Rightarrow> bool" where
  "spaced g (t1 # t0 # rest) = (t0 + g \<le> t1 \<and> spaced g (t0 # rest))"
| "spaced g _ = True"

definition rate_ok :: "Scheduler \<Rightarrow> SchedState \<Rightarrow> bool" where
  "rate_ok sch s =
     (spaced (min_gap sch) (sd_starts s) \<and>
      (case sd_starts s of
         [] \<Rightarrow> True
       | t # _ \<Rightarrow> t \<le> sd_now s \<and> (case sd_holding s of Some (_, wake) \<Rightarrow> t + min_gap sch \<le> wake | None \<Rightarrow> True)))"

lemma rate_ok_same:
  "rate_ok sch s \<Longrightarrow> sd_starts s' = sd_starts s \<and> sd_now s' = sd_now s \<and> sd_holding s' = sd_holding s \<Longrightarrow>
   rate_ok sch s'"
  by (auto simp: rate_ok_def split: list.splits)

lemma rate_ok_init: "rate_ok sch (init_sched sch cap now)"
  by (simp add: rate_ok_def init_sched_def)

lemma rate_ok_step:
  assumes "rate_ok sch s" and "sched_step sch c s = Some s'"
  shows "rate_ok sch s'"
proof (cases c)
  case (TakeTask r)
  with assms have r: "0 \<le> r" and
    "(s' = s\<lparr>sd_tasks := tl (sd_tasks s), sd_dispatching := False, sd_dropped := hd (sd_tasks s) # sd_dropped s\<rparr>) \<or>
     s' = s\<lparr>sd_tasks := tl (sd_tasks s), sd_holding := Some (hd (sd_tasks s), sd_now s + max 0 (sleep_duration sch r))\<rparr>"
    by (auto simp: Let_def split: list.splits option.splits if_splits)
  moreover have "min_gap sch \<le> max 0 (sleep_duration sch r)"
    using sleep_duration_mono [OF r, of sch] by (simp add: min_gap_def)
  ultimately show ?thesis using assms(1) by (auto simp: rate_ok_def split: list.splits)
next
  case (HandOver i)
  with assms obtain ip wake where h: "sd_holding s = Some (ip, wake)" "wake \<le> sd_now s"
    "s' = set_worker i (Probing ip) (s\<lparr>sd_holding := None, sd_starts := sd_now s # sd_starts s\<rparr>)"
    by (auto split: step_cases)
  then show ?thesis using assms(1) by (cases "sd_starts s") (auto simp: rate_ok_def)
next
  case ExitDispatcher
  then show ?thesis using assms by (auto simp: rate_ok_def split: list.splits if_splits)
next
  case (FinishProbe i out)
  then have "s' = set_worker i (Sending out) s" using assms(2) by (auto split: step_cases)
  then show ?thesis by (intro rate_ok_same [OF assms(1)]) simp
next
  case (SendResult i)
  then have "sd_starts s' = sd_starts s \<and> sd_now s' = sd_now s \<and> sd_holding s' = sd_holding s"
    using assms(2) by (auto split: step_cases)
  then show ?thesis by (intro rate_ok_same [OF assms(1)]) simp
next
  case (ExitWorker i)
  then have "sd_starts s' = sd_starts s \<and> sd_now s' = sd_now s \<and> sd_holding s' = sd_holding s"
    using assms(2) by (auto split: step_cases)
  then show ?thesis by (intro rate_ok_same [OF assms(1)]) simp
next
  case TakeResult
  then have "sd_starts s' = sd_starts s \<and> sd_now s' = sd_now s \<and> sd_holding s' = sd_holding s"
    using assms(2) by (auto split: list.splits)
  then show ?thesis by (intro rate_ok_same [OF assms(1)]) simp
qed (use assms in \<open>auto simp: rate_ok_def split: list.splits if_splits\<close>)

lemma sched_workers_length:
  "int (length (sd_workers s)) = n \<Longrightarrow> sched_step sch c s = Some s' \<Longrightarrow> int (length (sd_workers s')) = n"
  by (cases c) (auto simp: Let_def split: step_cases)

lemma sched_rate_ok: "sched_reach sch cap s \<Longrightarrow> rate_ok sch s"
  by (rule sched_invariant [where P = "rate_ok sch"])
    (auto intro: rate_ok_step rate_ok_init)

lemma spaced_gap: "spaced g ts \<Longrightarrow> i < j \<Longrightarrow> j < length ts \<Longrightarrow> ts ! j + int (j - i) * g \<le> ts ! i"
proof (induction g ts arbitrary: i j rule: spaced.induct)
  case (1 g t1 t0 rest)
  show ?case
  proof (cases i)
    case 0
    show ?thesis
    proof (cases "j = 1")
      case False
      then have "(t0 # rest) ! (j - 1) + int (j - 1) * g \<le> t0"
        using 1(1) [of 0 "j - 1"] "1.prems" 0 by auto
      then show ?thesis
        using "1.prems" 0 by (cases j) (auto simp: algebra_simps)
    qed (use "1.prems" 0 in auto)
  next
    case (Suc k)
    then show ?thesis using 1(1) [of k "j - 1"] "1.prems" by (cases j) auto
  qed
qed auto

lemma sched_probing_bound:
  assumes "sched_reach sch cap s"
  shows "int (length (filter (\<lambda>w. \<exists>ip. w = Probing ip) (sd_workers s))) \<le> run_conc sch"
proof -
  have "int (length (sd_workers s)) = run_conc sch"
    by (rule sched_invariant [where P = "\<lambda>s. int (length (sd_workers s)) = run_conc sch", OF assms])
      (simp add: init_sched_def run_conc_def, erule sched_workers_length)
  then show ?thesis using length_filter_le [of "\<lambda>w. \<exists>ip. w = Probing ip" "sd_workers s"] by linarith
qed

text \<open>
  The limits of a run. At most \<open>conc\<close> probes are in progress, and any two probes start at
  least as many minimal sleeps apart as there are starts between them, whatever the order of
  the goroutines; the minimal sleep is the one jitter can reduce the base interval to.
\<close>

theorem scheduler_limits:
  assumes "sched_reach sch cap s" and "i < j" and "j < length (sd_starts s)"
  shows "sd_starts s ! j + int (j - i) * min_gap sch \<le> sd_starts s ! i \<and>
    int (length (filter (\<lambda>w. \<exists>ip. w = Probing ip) (sd_workers s))) \<le> run_conc sch"
proof -
  have "spaced (min_gap sch) (sd_starts s)"
    using sched_rate_ok [OF assms(1)] by (simp add: rate_ok_def)
  then show ?thesis using spaced_gap assms(2,3) sched_probing_bound [OF assms(1)] by blast
qed

definition plain_scheduler :: Scheduler where
  "plain_scheduler = \<lparr>sch_Concurrency = 2, sch_RatePerSec = 8, sch_Jitter = 0\<rparr>"

lemma plain_sleep [simp]: "sleep_duration plain_scheduler r = 125000000" "run_conc plain_scheduler = 2"
  by (simp_all add: sleep_duration_def plain_scheduler_def run_conc_def run_base_def second_def fdiv_def
      trunc_float_def Let_def round64_int [of 125000000, simplified])

definition two_probes :: "SchedCmd list" where
  "two_probes = [SubmitTask ''10.0.0.7'', SubmitTask ''10.0.0.8'', TakeTask 0, Wait 125000000, HandOver 0,
     TakeTask 0, Wait 125000000, HandOver 1]"

lemma two_probes_run:
  "\<exists>s. sched_run plain_scheduler two_probes (init_sched plain_scheduler 4 0) = Some s \<and>
     sd_starts s = [250000000, 125000000] \<and> sd_submitted s = [''10.0.0.7'', ''10.0.0.8''] \<and>
     sd_workers s = [Probing ''10.0.0.7'', Probing ''10.0.0.8'']"
  by (simp add: two_probes_def init_sched_def taskQueueSize_def worker_at_def set_worker_def numeral_2_eq_2)

theorem scheduler_conserves_tasks_witness:
  "workers_ips [Probing ''10.0.0.7'', Probing ''10.0.0.8''] \<subseteq># mset [''10.0.0.7'', ''10.0.0.8'']"
proof -
  obtain s where s: "sched_run plain_scheduler two_probes (init_sched plain_scheduler 4 0) = Some s"
    "sd_submitted s = [''10.0.0.7'', ''10.0.0.8'']" "sd_workers s = [Probing ''10.0.0.7'', Probing ''10.0.0.8'']"
    using two_probes_run by blast
  show ?thesis
    using scheduler_conserves_tasks [OF sched_reach_run [OF sched_reach.start s(1)]] s(2,3)
    by (metis mset_subset_eq_add_left mset_subset_eq_add_right subset_mset.order_trans union_assoc union_commute)
qed

theorem scheduler_limits_witness: "(125000000::int) + 1 * min_gap plain_scheduler \<le> 250000000"
proof -
  obtain s where s: "sched_run plain_scheduler two_probes (init_sched plain_scheduler 4 0) = Some s"
    "sd_starts s = [250000000, 125000000]"
    using two_probes_run by blast
  show ?thesis
    using scheduler_limits [OF sched_reach_run [OF sched_reach.start s(1)], of 0 1] s(2) by simp
qed

section \<open>Closing the results channel\<close>

text \<open>
  C32: closing \<open>results\<close> when the consumer returns is not safe. Cancellation ends the consumer
  and the workers independently, so after a submitted address is being probed, the run can
  reach a state in which a worker sends on the closed channel, which panics.
\<close>

theorem close_results_race:
  "\<exists>s. sched_reach plain_scheduler 4 s \<and> sd_panic s \<and> sd_cancelled s \<and> sd_submitted s = [''10.0.0.7'']"
proof -
  let ?out = "\<lparr>po_IP = ''10.0.0.7'', po_Reachable = True, po_LatencyMs = 1, po_TTL = 64, po_LossPct = 0,
     po_Method = ''icmp_ping'', po_Err = []\<rparr>"
  let ?cmds = "[SubmitTask ''10.0.0.7'', TakeTask 0, Wait 125000000, HandOver 0, Cancel, CloseResults,
     FinishProbe 0 ?out, SendResult 0]"
  have "\<exists>s. sched_run plain_scheduler ?cmds (init_sched plain_scheduler 4 0) = Some s \<and> sd_panic s \<and>
      sd_cancelled s \<and> sd_submitted s = [''10.0.0.7'']"
    by (simp add: init_sched_def taskQueueSize_def worker_at_def set_worker_def numeral_2_eq_2)
  then show ?thesis using sched_reach_run [OF sched_reach.start] by blast
qed

end
