(* ===== verification/Pool_Manager.thy ===== *)
theory Pool_Manager
  imports Device_Pool Probe_Scheduler
begin

text \<open>
  \<open>apps/desktop/ippool/manager.go\<close>: the manager that owns the pool, the scheduler, the backlog of
  candidates and the events sent to the frontend. A method, and one iteration of each goroutine
  (\<open>feedCandidates\<close>, \<open>retestLoop\<close>, \<open>consume\<close>, \<open>batchLoop\<close>), is one function on the state; a step
  of the system is one of them or a step of the scheduler's goroutines. The events emitted are
  appended to \<open>mg_events\<close>. A goroutine may finish the iteration it is in after \<open>Stop\<close>, so its
  step is not tied to \<open>mg_running\<close>; the goroutines of a run that was stopped are not followed
  beyond the next \<open>Start\<close>, which makes new channels. The clock is read once per step (\<open>now\<close>).
\<close>

section \<open>Events and state\<close>

record TopologyPayload =
  tp_Devices :: "DevicePoolEntry list"
  tp_Timestamp :: int

datatype Event =
  EvtStarted StatusSnapshot | EvtStopped StatusSnapshot | EvtStatus StatusSnapshot
  | EvtSeedAdded string Source | EvtCandidateAdded string | EvtWarning string
  | EvtProbeResult "ProbeResultPayload list"
  | EvtDeviceFound DevicePoolEntry | EvtDeviceStale DevicePoolEntry
  | EvtDeviceUpdated DevicePoolEntry | EvtDiscoveryDeviceUpdated DevicePoolEntry
  | EvtTopologyUpdated TopologyPayload | EvtDiscoveryTopologyUpdated TopologyPayload
  | EvtDeviceMobileFingerprintUpdated MobileFingerprintUpdatedPayload

text \<open>
  \<open>mg_open\<close>: the channels exist (they are nil before the first \<open>Start\<close>). The maps \<open>expanded\<close>
  and \<open>inflight\<close> are only read by key; \<open>subnets\<close> is iterated by \<open>Snapshot\<close>. \<open>mg_crashed\<close>: the
  candidate generator did not return (the process ends with a stack overflow).
\<close>

record Manager =
  mg_cfg :: Config
  mg_guard :: ScopeGuard
  mg_sch :: Scheduler
  mg_running :: bool
  mg_paused :: bool
  mg_seeds :: "string list"
  mg_subnets :: "string list"
  mg_expanded :: "string set"
  mg_warnings :: "string list"
  mg_pool :: DevicePool
  mg_open :: bool
  mg_sched :: SchedState
  mg_inflight :: "string set"
  mg_backlog :: "string list"
  mg_pendingProbe :: "ProbeResultPayload list"
  mg_lastProbeAt :: int
  mg_probeWindow :: int
  mg_probesPerSec :: float64
  mg_lastMobileRefresh :: gotime
  mg_events :: "Event list"
  mg_crashed :: bool

definition results_cap :: "Config \<Rightarrow> nat" where
  "results_cap cfg = nat (MaxConcurrency cfg * 2)"

definition NewManager :: "Config \<Rightarrow> Manager" where
  "NewManager cfg0 =
     (let cfg = normalized cfg0
      in \<lparr>mg_cfg = cfg, mg_guard = NewScopeGuard cfg, mg_sch = NewScheduler cfg, mg_running = False,
          mg_paused = False, mg_seeds = [], mg_subnets = [], mg_expanded = {}, mg_warnings = [],
          mg_pool = NewDevicePool cfg, mg_open = False,
          mg_sched = init_sched (NewScheduler cfg) (results_cap cfg) 0, mg_inflight = {}, mg_backlog = [],
          mg_pendingProbe = [], mg_lastProbeAt = 0, mg_probeWindow = 0, mg_probesPerSec = 0,
          mg_lastMobileRefresh = zero_time, mg_events = [], mg_crashed = False\<rparr>)"

section \<open>Emitting\<close>

definition emit :: "Event \<Rightarrow> Manager \<Rightarrow> Manager" where
  "emit e m = m\<lparr>mg_events := mg_events m @ [e]\<rparr>"

definition warn :: "string \<Rightarrow> Manager \<Rightarrow> Manager" where
  "warn msg m = emit (EvtWarning msg) (m\<lparr>mg_warnings := mg_warnings m @ [msg]\<rparr>)"

definition emitDeviceUpdated :: "DevicePoolEntry \<Rightarrow> Manager \<Rightarrow> Manager" where
  "emitDeviceUpdated entry m = emit (EvtDiscoveryDeviceUpdated entry) (emit (EvtDeviceUpdated entry) m)"

definition emitTopologyUpdated :: "TopologyPayload \<Rightarrow> Manager \<Rightarrow> Manager" where
  "emitTopologyUpdated payload m =
     emit (EvtDiscoveryTopologyUpdated payload) (emit (EvtTopologyUpdated payload) m)"

definition emitMobileFingerprintUpdated :: "gotime \<Rightarrow> DevicePoolEntry \<Rightarrow> Manager \<Rightarrow> Manager" where
  "emitMobileFingerprintUpdated now entry m =
     (case pe_MobileFingerprint entry of
        None \<Rightarrow> m
      | Some fp \<Rightarrow>
          (let updatedAt = (if mf_LastUpdatedAt fp = [] then ts now else mf_LastUpdatedAt fp)
           in emit (EvtDeviceMobileFingerprintUpdated
                \<lparr>mu_DeviceID = pe_ID entry, mu_IPAddresses = [pe_IP entry], mu_Hostname = pe_Hostname entry,
                 mu_MobileFingerprint = fp, mu_UpdatedAt = updatedAt\<rparr>) m))"

definition Snapshot :: "Manager \<Rightarrow> StatusSnapshot" where
  "Snapshot m =
     (case Counts (mg_pool m) of (active, recently, stale, candidate) \<Rightarrow>
        \<lparr>ss_Running = mg_running m, ss_Seeds = mg_seeds m, ss_ActiveCount = active,
         ss_RecentlyCount = recently, ss_StaleCount = stale, ss_CandidateCount = candidate,
         ss_CandidateQueue = int (length (mg_backlog m)), ss_Subnets = mg_subnets m,
         ss_LastProbeAt = mg_lastProbeAt m, ss_ProbesPerSec = mg_probesPerSec m,
         ss_Concurrency = MaxConcurrency (mg_cfg m), ss_Warnings = mg_warnings m\<rparr>)"

definition topologyDevices :: "Manager \<Rightarrow> DevicePoolEntry list" where
  "topologyDevices m =
     filter (\<lambda>e. pe_Status e = StatusActive \<or> pe_Status e = StatusRecentlySeen \<or> pe_Status e = StatusStale)
       (pool_Snapshot (mg_pool m))"

definition topologyNow :: "gotime \<Rightarrow> Manager \<Rightarrow> TopologyPayload" where
  "topologyNow now m = \<lparr>tp_Devices = topologyDevices m, tp_Timestamp = unix_milli now\<rparr>"

section \<open>Queueing and expanding\<close>

text \<open>A send on the nil channel, or on a full one, takes the \<open>default\<close> branch.\<close>

definition enqueue :: "string \<Rightarrow> Manager \<Rightarrow> Manager" where
  "enqueue ip m =
     (if ip \<in> mg_inflight m then m
      else case (if mg_open m then sched_step (mg_sch m) (SubmitTask ip) (mg_sched m) else None) of
             Some s \<Rightarrow> m\<lparr>mg_inflight := insert ip (mg_inflight m), mg_sched := s\<rparr>
           | None \<Rightarrow> m)"

text \<open>One call of the generator decides: it returns at the first call or never (see \<open>Candidates\<close>).\<close>

definition expandSubnet :: "string \<Rightarrow> bool \<Rightarrow> Manager \<Rightarrow> Manager" where
  "expandSubnet ip confirm m0 =
     (if mg_paused m0 then m0
      else
        (let cidr = SubnetOf ip (MaxAutoPrefix (mg_cfg m0))
         in if cidr = [] \<or> cidr \<in> mg_expanded m0 then m0
            else
              (let dec = AllowCIDR (mg_guard m0) cidr confirm;
                   m = (if cd_Warning dec \<noteq> [] then m0\<lparr>mg_warnings := mg_warnings m0 @ [cd_Warning dec]\<rparr> else m0)
               in if \<not> cd_Allowed dec then
                    emit (EvtWarning (cd_Reason dec)) (m\<lparr>mg_warnings := mg_warnings m @ [cd_Reason dec]\<rparr>)
                  else
                    (let m = m\<lparr>mg_expanded := insert cidr (mg_expanded m),
                               mg_subnets := append_new (mg_subnets m) cidr\<rparr>;
                         m = (if cd_Warning dec \<noteq> [] then emit (EvtWarning (cd_Warning dec)) m else m)
                     in case GenerateFromSeed 1 (mg_guard m) ip cidr 0 of
                          Inr candidates \<Rightarrow> m\<lparr>mg_backlog := mg_backlog m @ candidates\<rparr>
                        | Inl _ \<Rightarrow> m\<lparr>mg_crashed := True\<rparr>))))"

definition gateway_seed_evidence :: "gotime \<Rightarrow> string \<Rightarrow> Source \<Rightarrow> EvidenceItem" where
  "gateway_seed_evidence now ip source =
     \<lparr>ev_Type = ''gateway_seed'', ev_Source = source_string source, ev_Value = ip, ev_Timestamp = ts now,
      ev_ConfidenceImpact = flit (2 / 10), ev_Strength = StrengthInferred\<rparr>"

definition addSeedLocked :: "gotime \<Rightarrow> string \<Rightarrow> Source \<Rightarrow> bool \<Rightarrow> Manager \<Rightarrow> Manager" where
  "addSeedLocked now ip source confirm m =
     (case AllowIP (mg_guard m) ip of (ok, reason) \<Rightarrow>
        if \<not> ok then warn (''rejected target '' @ ip @ '': '' @ reason) m
        else
          (let m = m\<lparr>mg_seeds := append_new (mg_seeds m) ip\<rparr>;
               m = m\<lparr>mg_pool := fst (EnsureCandidate now ip source (mg_pool m))\<rparr>;
               m = m\<lparr>mg_pool := fst (AddEvidence now ip (gateway_seed_evidence now ip source) (mg_pool m))\<rparr>
           in expandSubnet ip confirm (enqueue ip (emit (EvtSeedAdded ip source) m))))"

section \<open>The methods\<close>

definition Start :: "gotime \<Rightarrow> string list \<Rightarrow> bool \<Rightarrow> Manager \<Rightarrow> Manager \<times> string option" where
  "Start now seeds confirm m0 =
     (if mg_running m0 then (m0, Some ''discovery already running'')
      else
        (let m = m0\<lparr>mg_running := True, mg_paused := False, mg_warnings := [], mg_seeds := [], mg_open := True,
                    mg_sched := init_sched (mg_sch m0) (results_cap (mg_cfg m0)) now,
                    mg_lastMobileRefresh := now\<rparr>;
             m = emit (EvtStarted (Snapshot m)) m
         in (fold (\<lambda>s. addSeedLocked now s SourceSeed confirm) seeds m, None)))"

definition Stop :: "Manager \<Rightarrow> Manager" where
  "Stop m =
     (if \<not> mg_running m then m
      else
        (let m = m\<lparr>mg_running := False, mg_sched := (mg_sched m)\<lparr>sd_cancelled := True\<rparr>\<rparr>
         in emit (EvtStopped (Snapshot m)) m))"

definition AddSeed :: "gotime \<Rightarrow> string \<Rightarrow> Manager \<Rightarrow> Manager \<times> string option" where
  "AddSeed now ip m =
     (case AllowIP (mg_guard m) ip of (ok, reason) \<Rightarrow>
        if \<not> ok then (warn (''rejected seed '' @ ip @ '': '' @ reason) m, Some reason)
        else (addSeedLocked now ip SourceSeed False m, None))"

definition SetPaused :: "bool \<Rightarrow> Manager \<Rightarrow> Manager" where
  "SetPaused p m = m\<lparr>mg_paused := p\<rparr>"

definition manager_ClearStale :: "gotime \<Rightarrow> Manager \<Rightarrow> Manager \<times> int" where
  "manager_ClearStale now m0 =
     (case pool_ClearStale (mg_pool m0) of (p, n) \<Rightarrow>
        (let m = m0\<lparr>mg_pool := p\<rparr>
         in if n > 0 then
              (let m = emitTopologyUpdated (topologyNow now m) m in (emit (EvtStatus (Snapshot m)) m, n))
            else (m, n)))"

definition AddDeviceEvidence :: "gotime \<Rightarrow> string \<Rightarrow> EvidenceItem \<Rightarrow> Manager \<Rightarrow> Manager \<times> bool" where
  "AddDeviceEvidence now ip item m0 =
     (case AddEvidence now ip item (fst (EnsureCandidate now ip SourcePassive (mg_pool m0))) of
        (p, entry, changed, mobileChanged) \<Rightarrow>
          (let m = m0\<lparr>mg_pool := p\<rparr>
           in case entry of
                Some e \<Rightarrow>
                  if \<not> changed then (m, False)
                  else
                    (let m = (if mobileChanged then emitMobileFingerprintUpdated now e m else m);
                         m = emitDeviceUpdated e m
                     in (emitTopologyUpdated (topologyNow now m) m, True))
              | None \<Rightarrow> (m, False)))"

section \<open>The goroutines\<close>

definition feed_tick :: "gotime \<Rightarrow> Manager \<Rightarrow> Manager" where
  "feed_tick now m0 =
     (if mg_paused m0 then m0
      else case mg_backlog m0 of
             [] \<Rightarrow> m0
           | ip # rest \<Rightarrow>
               (case EnsureCandidate now ip SourceCandidate (mg_pool m0) of
                  (p, _, created) \<Rightarrow>
                    (let m = m0\<lparr>mg_backlog := rest, mg_pool := p\<rparr>;
                         m = (if created then emit (EvtCandidateAdded ip) m else m)
                     in enqueue ip m)))"

definition retest_tick :: "DeviceStatus list \<Rightarrow> Manager \<Rightarrow> Manager" where
  "retest_tick statuses m = fold enqueue (IPsByStatus statuses (mg_pool m)) m"

definition ping_evidence :: "gotime \<Rightarrow> ProbeOutcome \<Rightarrow> EvidenceItem" where
  "ping_evidence now out =
     \<lparr>ev_Type = ''ping_response'', ev_Source = po_Method out, ev_Value = po_IP out, ev_Timestamp = ts now,
      ev_ConfidenceImpact = flit (4 / 10), ev_Strength = StrengthConfirmed\<rparr>"

text \<open>The metrics part of \<open>consume\<close>, and its two branches.\<close>

definition record_outcome :: "gotime \<Rightarrow> ProbeOutcome \<Rightarrow> Manager \<Rightarrow> Manager" where
  "record_outcome now out m =
     m\<lparr>mg_inflight := mg_inflight m - {po_IP out},
       mg_lastProbeAt := unix_milli now, mg_probeWindow := mg_probeWindow m + 1,
       mg_pendingProbe :=
         (if length (mg_pendingProbe m) < 200
          then mg_pendingProbe m @
            [\<lparr>pr_IP = po_IP out, pr_Reachable = po_Reachable out, pr_LatencyMs = po_LatencyMs out,
              pr_TTL = po_TTL out, pr_Method = po_Method out, pr_Timestamp = unix_milli now\<rparr>]
          else mg_pendingProbe m)\<rparr>"

definition consume_success :: "gotime \<Rightarrow> ProbeOutcome \<Rightarrow> Manager \<Rightarrow> Manager" where
  "consume_success now out m0 =
     (case RecordSuccess now (po_IP out) (po_LatencyMs out) (po_TTL out) SourceCandidate (mg_pool m0) of
        (p1, entry0, first) \<Rightarrow>
          (case AddEvidence now (po_IP out) (ping_evidence now out) p1 of
             (p2, updated, _, mobileChanged) \<Rightarrow>
               (let m = m0\<lparr>mg_pool := p2\<rparr>;
                    entry = (case updated of Some e \<Rightarrow> e | None \<Rightarrow> entry0);
                    m = (if first then expandSubnet (po_IP out) False (emit (EvtDeviceFound entry) m) else m);
                    m = (if mobileChanged then emitMobileFingerprintUpdated now entry m else m)
                in emitDeviceUpdated entry m)))"

definition consume_failure :: "gotime \<Rightarrow> ProbeOutcome \<Rightarrow> Manager \<Rightarrow> Manager" where
  "consume_failure now out m0 =
     (case RecordFailure now (po_IP out) (mg_pool m0) of
        (p, entry, becameStale) \<Rightarrow>
          (let m = m0\<lparr>mg_pool := p\<rparr>
           in case entry of
                None \<Rightarrow> m
              | Some e \<Rightarrow>
                  (let m = emitDeviceUpdated e m
                   in if becameStale then emit (EvtDeviceStale e) m else m)))"

definition consume_tick :: "gotime \<Rightarrow> Manager \<Rightarrow> Manager" where
  "consume_tick now m0 =
     (case sd_results (mg_sched m0) of
        [] \<Rightarrow> m0
      | out # rest \<Rightarrow>
          (let m = m0\<lparr>mg_sched := (mg_sched m0)\<lparr>sd_results := rest, sd_received := sd_received (mg_sched m0) @ [out]\<rparr>\<rparr>;
               m = record_outcome now out m
           in if po_Reachable out then consume_success now out m else consume_failure now out m))"

definition refreshMobileFingerprintsIfDue :: "gotime \<Rightarrow> Manager \<Rightarrow> Manager" where
  "refreshMobileFingerprintsIfDue now m0 =
     (if is_zero_time (mg_lastMobileRefresh m0) \<or>
         now - mg_lastMobileRefresh m0 \<ge> MobileRefreshInterval (mg_cfg m0)
      then
        (case RefreshMobileFingerprints now (mg_pool m0) of
           (p, changed) \<Rightarrow>
             fold (\<lambda>entry m. emitDeviceUpdated entry (emitMobileFingerprintUpdated now entry m)) changed
               (m0\<lparr>mg_lastMobileRefresh := now, mg_pool := p\<rparr>))
      else m0)"

text \<open>\<open>Duration.Seconds\<close>.\<close>

definition duration_seconds :: "duration \<Rightarrow> float64" where
  "duration_seconds d = fadd (of_int (d div second)) (fdiv (of_int (d mod second)) (of_int second))"

definition flush :: "gotime \<Rightarrow> Manager \<Rightarrow> Manager" where
  "flush now m0 =
     (let probes = mg_pendingProbe m0;
          m = m0\<lparr>mg_pendingProbe := [], mg_probeWindow := 0,
                 mg_probesPerSec := fdiv (of_int (mg_probeWindow m0)) (duration_seconds (BatchInterval (mg_cfg m0)))\<rparr>;
          m = (if probes \<noteq> [] then emit (EvtProbeResult probes) m else m);
          m = refreshMobileFingerprintsIfDue now m;
          m = emitTopologyUpdated (topologyNow now m) m
      in emit (EvtStatus (Snapshot m)) m)"

section \<open>The steps of the system\<close>

text \<open>The steps of the scheduler's own goroutines.\<close>

fun internal_cmd :: "SchedCmd \<Rightarrow> bool" where
  "internal_cmd (TakeTask r) = True"
| "internal_cmd (HandOver i) = True"
| "internal_cmd (FinishProbe i out) = True"
| "internal_cmd (SendResult i) = True"
| "internal_cmd ExitDispatcher = True"
| "internal_cmd (ExitWorker i) = True"
| "internal_cmd (Wait dt) = True"
| "internal_cmd _ = False"

datatype ManagerCmd =
  CmdStart gotime "string list" bool | CmdStop | CmdAddSeed gotime string | CmdSetPaused bool
  | CmdClearStale gotime | CmdEvidence gotime string EvidenceItem | CmdFeed gotime
  | CmdRetestActive | CmdRetestStale | CmdConsume gotime | CmdFlush gotime | CmdSched SchedCmd

fun manager_step :: "ManagerCmd \<Rightarrow> Manager \<Rightarrow> Manager" where
  "manager_step (CmdStart now seeds confirm) m = fst (Start now seeds confirm m)"
| "manager_step CmdStop m = Stop m"
| "manager_step (CmdAddSeed now ip) m = fst (AddSeed now ip m)"
| "manager_step (CmdSetPaused p) m = SetPaused p m"
| "manager_step (CmdClearStale now) m = fst (manager_ClearStale now m)"
| "manager_step (CmdEvidence now ip item) m = fst (AddDeviceEvidence now ip item m)"
| "manager_step (CmdFeed now) m = feed_tick now m"
| "manager_step CmdRetestActive m = retest_tick [StatusActive, StatusRecentlySeen] m"
| "manager_step CmdRetestStale m = retest_tick [StatusStale] m"
| "manager_step (CmdConsume now) m = consume_tick now m"
| "manager_step (CmdFlush now) m = flush now m"
| "manager_step (CmdSched c) m =
     (if internal_cmd c then
        (case sched_step (mg_sch m) c (mg_sched m) of Some s \<Rightarrow> m\<lparr>mg_sched := s\<rparr> | None \<Rightarrow> m)
      else m)"

definition manager_run :: "ManagerCmd list \<Rightarrow> Manager \<Rightarrow> Manager" where
  "manager_run cmds m = fold manager_step cmds m"

end
