(* ===== verification/Manager_Laws.thy ===== *)
theory Manager_Laws
  imports Pool_Manager
begin

text \<open>
  What the manager of \<open>manager.go\<close> guarantees under every interleaving of its methods and
  goroutines (\<open>manager_run\<close>): only addresses the scope guard allows are ever queued or probed,
  an address is in the probe pipeline at most once, the buffers stay bounded, and the frontend
  only sees devices that answered. The pool enters through the contract \<open>answering_registry\<close>.
\<close>

section \<open>The contract of a registry towards its client\<close>

text \<open>
  A registry with an invariant whose set of answering keys only grows by the keys an operation
  names: a client that only names admissible keys never sees another one answer.
\<close>

locale answering_registry =
  fixes inv :: "'p \<Rightarrow> bool" and answered :: "'p \<Rightarrow> 'k set" and step :: "'op \<Rightarrow> 'p \<Rightarrow> 'p"
    and gains :: "'op \<Rightarrow> 'k set"
  assumes inv_step: "inv p \<Longrightarrow> inv (step op p)"
    and answered_step: "inv p \<Longrightarrow> answered (step op p) \<subseteq> answered p \<union> gains op"
begin

definition admits :: "'k set \<Rightarrow> 'p \<Rightarrow> bool" where
  "admits A p = (inv p \<and> answered p \<subseteq> A)"

lemma admits_step: "admits A p \<Longrightarrow> gains op \<subseteq> A \<Longrightarrow> admits A (step op p)"
  unfolding admits_def using inv_step answered_step by blast

lemma admits_run: "admits A p \<Longrightarrow> \<forall>op \<in> set ops. gains op \<subseteq> A \<Longrightarrow> admits A (fold step ops p)"
  by (induction ops arbitrary: p) (simp_all add: admits_step)

end

definition answered_ips :: "DevicePool \<Rightarrow> string set" where
  "answered_ips p = {ip. \<exists>st n. life p ip = Some (st, n) \<and> responded st}"

fun op_gains :: "PoolOp \<Rightarrow> string set" where
  "op_gains (OpSuccess now ip lat ttl source) = {ip}"
| "op_gains _ = {}"

interpretation pool_registry: answering_registry pool_ok answered_ips apply_op op_gains
proof
  fix p op
  assume ok: "pool_ok p"
  show "pool_ok (apply_op op p)" using ok by (rule apply_op_pool_ok)
  show "answered_ips (apply_op op p) \<subseteq> answered_ips p \<union> op_gains op"
    unfolding answered_ips_def life_apply_op [OF ok]
    by (cases op) (auto split: option.splits if_splits)
qed

lemma pool_op_eqs:
  "fst (EnsureCandidate now ip source p) = apply_op (OpEnsure now ip source) p"
  "fst (RecordSuccess now ip lat ttl source p) = apply_op (OpSuccess now ip lat ttl source) p"
  "fst (RecordFailure now ip p) = apply_op (OpFailure now ip) p"
  "fst (AddEvidence now ip item p) = apply_op (OpEvidence now ip item) p"
  "fst (RefreshMobileFingerprints now p) = apply_op (OpRefresh now) p"
  "fst (pool_ClearStale p) = apply_op OpClear p"
  by simp_all

lemma answered_entry:
  "map_of (dp_entries p) ip = Some e \<Longrightarrow> responded (pe_Status e) \<Longrightarrow> ip \<in> answered_ips p"
  by (auto simp: answered_ips_def life_def)

lemma snapshot_answered:
  assumes "pool_ok p" and "e \<in> set (pool_Snapshot p)" and "responded (pe_Status e)"
  shows "pe_IP e \<in> answered_ips p"
proof -
  obtain ip where ip: "(ip, e) \<in> set (dp_entries p)" using assms(2) by (auto simp: pool_Snapshot_def sortByIP_def)
  then have "pe_IP e = ip" "map_of (dp_entries p) ip = Some e"
    using assms(1) by (auto simp: pool_ok_def entry_ok_def)
  then show ?thesis using assms(3) answered_entry by blast
qed

section \<open>The probe pipeline\<close>

text \<open>The addresses between \<open>enqueue\<close> and \<open>consume\<close>.\<close>

definition pipeline :: "SchedState \<Rightarrow> string multiset" where
  "pipeline s =
     mset (sd_tasks s) + holding_ips (sd_holding s) + workers_ips (sd_workers s) +
     image_mset po_IP (mset (sd_results s))"

lemma internal_history:
  assumes "internal_cmd c" and "sched_step sch c s = Some s'"
  shows "sd_submitted s' = sd_submitted s" "sd_received s' = sd_received s"
    "\<exists>xs. sd_dropped s' = xs @ sd_dropped s"
  using assms by (cases c; auto simp: Let_def split: step_cases)+

lemma internal_pipeline:
  assumes "sched_reach sch cap s" and "internal_cmd c" and "sched_step sch c s = Some s'"
  shows "pipeline s' \<subseteq># pipeline s"
proof -
  have "conserved s" "conserved s'"
    using sched_conserved assms(1) sched_reach.step [OF assms(1,3)] by blast+
  then have "pipeline s' + image_mset po_IP (mset (sd_received s)) + mset (sd_dropped s') =
      pipeline s + image_mset po_IP (mset (sd_received s)) + mset (sd_dropped s)"
    using internal_history [OF assms(2,3)] unfolding conserved_def pipeline_def by (metis add.assoc add.commute)
  then show ?thesis
    using internal_history(3) [OF assms(2,3)] by (auto simp: ac_simps) (metis mset_subset_eq_add_left)
qed

lemma pipeline_submit:
  "sched_step sch (SubmitTask ip) s = Some s' \<Longrightarrow> pipeline s' = add_mset ip (pipeline s)"
  by (auto simp: pipeline_def split: if_splits)

lemma pipeline_init [simp]: "pipeline (init_sched sch cap now) = {#}"
proof -
  have "workers_ips (replicate n Idle) = {#}" for n by (induction n) (simp_all add: workers_ips_def)
  then show ?thesis by (simp add: pipeline_def init_sched_def holding_ips_def)
qed

lemma pipeline_take:
  "sd_results s = out # rest \<Longrightarrow>
   pipeline s = add_mset (po_IP out) (pipeline (s\<lparr>sd_results := rest, sd_received := r\<rparr>))"
  by (simp add: pipeline_def)

lemma pipeline_cancel [simp]: "pipeline (s\<lparr>sd_cancelled := b\<rparr>) = pipeline s"
  by (simp add: pipeline_def)

lemma add_mset_count_le_1: "\<forall>x. count (add_mset a M) x \<le> 1 \<Longrightarrow> a \<notin># M"
  by (auto simp: not_in_iff dest: spec [of _ a])

section \<open>The invariant\<close>

definition scope :: "Manager \<Rightarrow> string set" where
  "scope m = {ip. fst (AllowIP (mg_guard m) ip)}"

lemma scope_fields [simp]:
  "scope (m\<lparr>mg_running := v_running\<rparr>) = scope m"
  "scope (m\<lparr>mg_paused := v_paused\<rparr>) = scope m"
  "scope (m\<lparr>mg_seeds := v_seeds\<rparr>) = scope m"
  "scope (m\<lparr>mg_subnets := v_subnets\<rparr>) = scope m"
  "scope (m\<lparr>mg_expanded := v_expanded\<rparr>) = scope m"
  "scope (m\<lparr>mg_warnings := v_warnings\<rparr>) = scope m"
  "scope (m\<lparr>mg_pool := v_pool\<rparr>) = scope m"
  "scope (m\<lparr>mg_open := v_open\<rparr>) = scope m"
  "scope (m\<lparr>mg_sched := v_sched\<rparr>) = scope m"
  "scope (m\<lparr>mg_inflight := v_inflight\<rparr>) = scope m"
  "scope (m\<lparr>mg_backlog := v_backlog\<rparr>) = scope m"
  "scope (m\<lparr>mg_pendingProbe := v_pendingProbe\<rparr>) = scope m"
  "scope (m\<lparr>mg_lastProbeAt := v_lastProbeAt\<rparr>) = scope m"
  "scope (m\<lparr>mg_probeWindow := v_probeWindow\<rparr>) = scope m"
  "scope (m\<lparr>mg_probesPerSec := v_probesPerSec\<rparr>) = scope m"
  "scope (m\<lparr>mg_lastMobileRefresh := v_lastMobileRefresh\<rparr>) = scope m"
  "scope (m\<lparr>mg_events := v_events\<rparr>) = scope m"
  "scope (m\<lparr>mg_crashed := v_crashed\<rparr>) = scope m"
  by (simp_all add: scope_def)

fun event_ok :: "string set \<Rightarrow> Event \<Rightarrow> bool" where
  "event_ok A (EvtTopologyUpdated t) = (\<forall>e \<in> set (tp_Devices t). responded (pe_Status e) \<and> pe_IP e \<in> A)"
| "event_ok A (EvtDiscoveryTopologyUpdated t) = (\<forall>e \<in> set (tp_Devices t). responded (pe_Status e) \<and> pe_IP e \<in> A)"
| "event_ok A _ = True"

definition manager_ok :: "Manager \<Rightarrow> bool" where
  "manager_ok m =
     (pool_registry.admits (scope m) (mg_pool m) \<and>
      sched_reach (mg_sch m) (results_cap (mg_cfg m)) (mg_sched m) \<and>
      set (mg_seeds m) \<subseteq> scope m \<and> set (mg_backlog m) \<subseteq> scope m \<and>
      set_mset (pipeline (mg_sched m)) \<subseteq> scope m \<and>
      set_mset (pipeline (mg_sched m)) \<subseteq> mg_inflight m \<and>
      (\<forall>ip. count (pipeline (mg_sched m)) ip \<le> 1) \<and>
      length (mg_pendingProbe m) \<le> 200 \<and> list_all (event_ok (scope m)) (mg_events m))"

text \<open>The fields a step may change without touching the invariant.\<close>

lemma manager_ok_fields:
  assumes "manager_ok m" and "mg_guard m' = mg_guard m" "mg_cfg m' = mg_cfg m" "mg_sch m' = mg_sch m"
    "mg_pool m' = mg_pool m" "mg_sched m' = mg_sched m" "set (mg_seeds m') \<subseteq> scope m"
    "set (mg_backlog m') \<subseteq> scope m" "mg_inflight m' = mg_inflight m"
    "length (mg_pendingProbe m') \<le> 200" "list_all (event_ok (scope m)) (mg_events m')"
  shows "manager_ok m'"
  using assms by (simp add: manager_ok_def scope_def)

lemma ok_emit: "manager_ok m \<Longrightarrow> event_ok (scope m) e \<Longrightarrow> manager_ok (emit e m)"
  by (rule manager_ok_fields, assumption) (simp_all add: emit_def manager_ok_def)

lemma scope_emit [simp]: "scope (emit e m) = scope m"
  by (simp add: scope_def emit_def)

lemma ok_warn: "manager_ok m \<Longrightarrow> manager_ok (warn msg m)"
  unfolding warn_def by (rule ok_emit) (auto intro: manager_ok_fields simp: manager_ok_def)

lemma ok_emitDeviceUpdated: "manager_ok m \<Longrightarrow> manager_ok (emitDeviceUpdated e m)"
  unfolding emitDeviceUpdated_def by (intro ok_emit) simp_all

lemma ok_emitMobile: "manager_ok m \<Longrightarrow> manager_ok (emitMobileFingerprintUpdated now e m)"
  unfolding emitMobileFingerprintUpdated_def Let_def by (auto intro: ok_emit split: option.split)

lemma topology_event_ok:
  "manager_ok m \<Longrightarrow> \<forall>e \<in> set (topologyDevices m). responded (pe_Status e) \<and> pe_IP e \<in> scope m"
  using snapshot_answered
  by (fastforce simp: topologyDevices_def manager_ok_def pool_registry.admits_def responded_def)

lemma ok_emitTopology: "manager_ok m \<Longrightarrow> manager_ok (emitTopologyUpdated (topologyNow now m) m)"
  unfolding emitTopologyUpdated_def topologyNow_def
  by (intro ok_emit) (simp_all add: topology_event_ok)

lemma ok_pool:
  assumes "manager_ok m" and "op_gains op \<subseteq> scope m"
  shows "manager_ok (m\<lparr>mg_pool := apply_op op (mg_pool m)\<rparr>)"
  using assms pool_registry.admits_step [of "scope m" "mg_pool m" op]
  by (simp add: manager_ok_def scope_def)

lemma ok_enqueue:
  assumes "manager_ok m" and "ip \<in> scope m"
  shows "manager_ok (enqueue ip m)"
proof (cases "ip \<in> mg_inflight m \<or> \<not> mg_open m \<or> sched_step (mg_sch m) (SubmitTask ip) (mg_sched m) = None")
  case True
  then show ?thesis using assms(1) by (auto simp: enqueue_def)
next
  case False
  then obtain s where s: "sched_step (mg_sch m) (SubmitTask ip) (mg_sched m) = Some s" by auto
  have "ip \<notin># pipeline (mg_sched m)" using False assms(1) by (auto simp: manager_ok_def)
  then have "\<forall>j. count (pipeline s) j \<le> 1"
    using assms(1) pipeline_submit [OF s] by (auto simp: manager_ok_def not_in_iff)
  moreover have "sched_reach (mg_sch m) (results_cap (mg_cfg m)) s"
    using assms(1) s sched_reach.step unfolding manager_ok_def by blast
  ultimately show ?thesis
    using False assms s pipeline_submit [OF s] by (auto simp: enqueue_def manager_ok_def scope_def)
qed

lemma enqueue_fields [simp]:
  "mg_guard (enqueue ip m) = mg_guard m" "scope (enqueue ip m) = scope m" "mg_pool (enqueue ip m) = mg_pool m"
  by (auto simp: enqueue_def scope_def split: option.split)

lemma ok_expandSubnet:
  assumes "manager_ok m"
  shows "manager_ok (expandSubnet ip confirm m)"
proof -
  define cidr where "cidr = SubnetOf ip (MaxAutoPrefix (mg_cfg m))"
  define dec where "dec = AllowCIDR (mg_guard m) cidr confirm"
  define m1 where "m1 = (if cd_Warning dec \<noteq> [] then m\<lparr>mg_warnings := mg_warnings m @ [cd_Warning dec]\<rparr> else m)"
  define m2 where "m2 = m1\<lparr>mg_expanded := insert cidr (mg_expanded m1), mg_subnets := append_new (mg_subnets m1) cidr\<rparr>"
  define m3 where "m3 = (if cd_Warning dec \<noteq> [] then emit (EvtWarning (cd_Warning dec)) m2 else m2)"
  have ok1: "manager_ok m1" and ok2: "manager_ok m2"
    using assms by (auto simp: m1_def m2_def manager_ok_def)
  then have ok3: "manager_ok m3" by (simp add: m3_def ok_emit)
  have scope3: "scope m3 = scope m" by (simp add: m3_def m2_def m1_def)
  have "manager_ok (emit (EvtWarning (cd_Reason dec)) (m1\<lparr>mg_warnings := mg_warnings m1 @ [cd_Reason dec]\<rparr>))"
    using ok1 by (intro ok_emit) (auto simp: manager_ok_def)
  moreover have "manager_ok (case GenerateFromSeed 1 (mg_guard m3) ip cidr 0 of
        Inr candidates \<Rightarrow> m3\<lparr>mg_backlog := mg_backlog m3 @ candidates\<rparr> | Inl _ \<Rightarrow> m3\<lparr>mg_crashed := True\<rparr>)"
  proof (cases "GenerateFromSeed 1 (mg_guard m3) ip cidr 0")
    case (Inr out)
    then have "set out \<subseteq> scope m3" using GenerateFromSeed_laws [OF Inr] by (auto simp: scope_def)
    then show ?thesis using ok3 Inr by (auto simp: manager_ok_def)
  qed (use ok3 in \<open>auto simp: manager_ok_def\<close>)
  ultimately show ?thesis
    using assms unfolding expandSubnet_def Let_def cidr_def [symmetric] dec_def [symmetric]
      m1_def [symmetric] m2_def [symmetric] m3_def [symmetric]
    by simp
qed

lemma ok_pool_with: "manager_ok m \<Longrightarrow> op_gains op \<subseteq> scope m \<Longrightarrow> p = apply_op op (mg_pool m) \<Longrightarrow> manager_ok (m\<lparr>mg_pool := p\<rparr>)"
  using ok_pool by simp

lemma ok_addSeedLocked: "manager_ok m \<Longrightarrow> manager_ok (addSeedLocked now ip source confirm m)"
proof -
  assume ok: "manager_ok m"
  obtain b reason where a: "AllowIP (mg_guard m) ip = (b, reason)" by fastforce
  show ?thesis
  proof (cases b)
    case True
    define m1 where "m1 = m\<lparr>mg_seeds := append_new (mg_seeds m) ip\<rparr>"
    define m2 where "m2 = m1\<lparr>mg_pool := apply_op (OpEnsure now ip source) (mg_pool m1)\<rparr>"
    define m3 where "m3 = m2\<lparr>mg_pool := apply_op (OpEvidence now ip (gateway_seed_evidence now ip source)) (mg_pool m2)\<rparr>"
    have "ip \<in> scope m" using a True by (simp add: scope_def)
    then have ok1: "manager_ok m1" using ok by (auto simp: m1_def manager_ok_def)
    have ok3: "manager_ok m3" unfolding m3_def m2_def by (intro ok_pool ok1) simp_all
    have sc: "scope m3 = scope m" by (simp add: m3_def m2_def m1_def)
    have "manager_ok (expandSubnet ip confirm (enqueue ip (emit (EvtSeedAdded ip source) m3)))"
      using ok3 \<open>ip \<in> scope m\<close> sc by (intro ok_expandSubnet ok_enqueue ok_emit) simp_all
    then show ?thesis using a True by (simp add: addSeedLocked_def Let_def m1_def m2_def m3_def)
  qed (use a ok in \<open>simp add: addSeedLocked_def ok_warn\<close>)
qed

section \<open>Every step keeps the invariant\<close>

lemma ok_new: "manager_ok (NewManager cfg)"
proof -
  have "answered_ips (NewDevicePool c) = {}" for c by (simp add: answered_ips_def life_def)
  then show ?thesis
    by (simp add: manager_ok_def NewManager_def Let_def pool_registry.admits_def pool_ok_new sched_reach.start)
qed

lemma ok_fold: "manager_ok m \<Longrightarrow> (\<And>x m. manager_ok m \<Longrightarrow> manager_ok (f x m)) \<Longrightarrow> manager_ok (fold f xs m)"
  by (induction xs arbitrary: m) auto

lemma ok_Start: "manager_ok m \<Longrightarrow> manager_ok (fst (Start now seeds confirm m))"
proof -
  assume ok: "manager_ok m"
  define m1 where "m1 = m\<lparr>mg_running := True, mg_paused := False, mg_warnings := [], mg_seeds := [], mg_open := True,
      mg_sched := init_sched (mg_sch m) (results_cap (mg_cfg m)) now, mg_lastMobileRefresh := now\<rparr>"
  have "manager_ok m1" using ok by (simp add: m1_def manager_ok_def sched_reach.start)
  then have "manager_ok (fold (\<lambda>s. addSeedLocked now s SourceSeed confirm) seeds (emit (EvtStarted (Snapshot m1)) m1))"
    by (intro ok_fold ok_emit ok_addSeedLocked) simp_all
  then show ?thesis using ok unfolding Start_def Let_def m1_def by simp
qed

lemma ok_Stop: "manager_ok m \<Longrightarrow> manager_ok (Stop m)"
proof -
  assume ok: "manager_ok m"
  have "sched_step (mg_sch m) Cancel (mg_sched m) = Some ((mg_sched m)\<lparr>sd_cancelled := True\<rparr>)" by simp
  then have "sched_reach (mg_sch m) (results_cap (mg_cfg m)) ((mg_sched m)\<lparr>sd_cancelled := True\<rparr>)"
    using ok sched_reach.step unfolding manager_ok_def by blast
  then have "manager_ok (m\<lparr>mg_running := False, mg_sched := (mg_sched m)\<lparr>sd_cancelled := True\<rparr>\<rparr>)"
    using ok by (simp add: manager_ok_def)
  then show ?thesis using ok unfolding Stop_def Let_def by (simp add: ok_emit)
qed

lemma ok_AddSeed: "manager_ok m \<Longrightarrow> manager_ok (fst (AddSeed now ip m))"
  by (simp add: AddSeed_def ok_warn ok_addSeedLocked split: prod.split)

lemma ok_manager_ClearStale: "manager_ok m \<Longrightarrow> manager_ok (fst (manager_ClearStale now m))"
proof -
  assume ok: "manager_ok m"
  obtain p n where pn: "pool_ClearStale (mg_pool m) = (p, n)" by fastforce
  then have "p = apply_op OpClear (mg_pool m)" by simp
  then have "manager_ok (m\<lparr>mg_pool := p\<rparr>)" using ok_pool [OF ok, of OpClear] by simp
  then show ?thesis
    unfolding manager_ClearStale_def pn Let_def by (simp add: ok_emit ok_emitTopology)
qed

lemma ok_AddDeviceEvidence: "manager_ok m \<Longrightarrow> manager_ok (fst (AddDeviceEvidence now ip item m))"
proof -
  assume ok: "manager_ok m"
  define p0 where "p0 = fst (EnsureCandidate now ip SourcePassive (mg_pool m))"
  obtain p e ch mob where r: "AddEvidence now ip item p0 = (p, e, ch, mob)" by (metis prod_cases4)
  have "manager_ok (m\<lparr>mg_pool := apply_op (OpEnsure now ip SourcePassive) (mg_pool m)\<rparr>)" by (rule ok_pool [OF ok]) simp
  then have "manager_ok (m\<lparr>mg_pool := p0\<rparr>)" by (simp add: p0_def)
  from ok_pool [OF this, of "OpEvidence now ip item"] have "manager_ok (m\<lparr>mg_pool := p\<rparr>)" by (simp add: r)
  then show ?thesis
    unfolding AddDeviceEvidence_def Let_def p0_def [symmetric] r
    by (auto intro!: ok_emitTopology ok_emitDeviceUpdated ok_emitMobile split: option.split)
qed

lemma ok_feed_tick: "manager_ok m \<Longrightarrow> manager_ok (feed_tick now m)"
proof (cases "mg_backlog m")
  case (Cons ip rest)
  assume ok: "manager_ok m"
  obtain p e created where r: "EnsureCandidate now ip SourceCandidate (mg_pool m) = (p, e, created)"
    by (metis prod_cases3)
  have ip: "ip \<in> scope m" using ok Cons by (simp add: manager_ok_def)
  have "manager_ok (m\<lparr>mg_backlog := rest\<rparr>)" using ok Cons by (simp add: manager_ok_def)
  from ok_pool [OF this, of "OpEnsure now ip SourceCandidate"]
  have "manager_ok (m\<lparr>mg_backlog := rest, mg_pool := p\<rparr>)" using r by simp
  then show ?thesis
    using ok ip unfolding feed_tick_def by (simp add: Cons r Let_def ok_enqueue ok_emit)
qed (simp add: feed_tick_def)

lemma ok_retest_tick:
  assumes "manager_ok m" and "set statuses \<subseteq> {st. responded st}"
  shows "manager_ok (retest_tick statuses m)"
proof -
  have ips: "ip \<in> scope m" if mem: "ip \<in> set (IPsByStatus statuses (mg_pool m))" for ip
  proof -
    obtain e where e: "(ip, e) \<in> set (dp_entries (mg_pool m))" "pe_Status e \<in> set statuses"
      using mem by (auto simp: IPsByStatus_def)
    have "distinct (map fst (dp_entries (mg_pool m)))" and sub: "answered_ips (mg_pool m) \<subseteq> scope m"
      using assms(1) by (simp_all add: manager_ok_def pool_registry.admits_def pool_ok_def)
    then have "map_of (dp_entries (mg_pool m)) ip = Some e" using e(1) by simp
    then show ?thesis using sub answered_entry e(2) assms(2) by blast
  qed
  have "manager_ok (fold enqueue xs m)" if "set xs \<subseteq> scope m" "manager_ok m" for xs m
    using that by (induction xs arbitrary: m) (simp_all add: ok_enqueue)
  then show ?thesis unfolding retest_tick_def using ips assms(1) by auto
qed

lemma ok_record_outcome:
  assumes "manager_ok m" and "po_IP out \<notin># pipeline (mg_sched m)"
  shows "manager_ok (record_outcome now out m)"
proof -
  have "scope (record_outcome now out m) = scope m" by (simp add: scope_def record_outcome_def)
  then show ?thesis using assms unfolding manager_ok_def by (auto simp: record_outcome_def)
qed

lemma ok_consume_success:
  assumes "manager_ok m" and "po_IP out \<in> scope m"
  shows "manager_ok (consume_success now out m)"
proof -
  obtain p1 e0 f where s: "RecordSuccess now (po_IP out) (po_LatencyMs out) (po_TTL out) SourceCandidate (mg_pool m) = (p1, e0, f)"
    by (metis prod_cases3)
  obtain p2 u ch mob where a: "AddEvidence now (po_IP out) (ping_evidence now out) p1 = (p2, u, ch, mob)"
    by (metis prod_cases4)
  have "manager_ok (m\<lparr>mg_pool := p1\<rparr>)"
    using ok_pool [OF assms(1), of "OpSuccess now (po_IP out) (po_LatencyMs out) (po_TTL out) SourceCandidate"] assms(2) s by simp
  from ok_pool [OF this, of "OpEvidence now (po_IP out) (ping_evidence now out)"]
  have "manager_ok (m\<lparr>mg_pool := p2\<rparr>)" using a by simp
  then show ?thesis
    unfolding consume_success_def s prod.case a Let_def
    by (auto intro!: ok_emitDeviceUpdated ok_emitMobile ok_expandSubnet ok_emit)
qed

lemma ok_consume_failure: "manager_ok m \<Longrightarrow> manager_ok (consume_failure now out m)"
proof -
  assume ok: "manager_ok m"
  obtain p e b where r: "RecordFailure now (po_IP out) (mg_pool m) = (p, e, b)" by (metis prod_cases3)
  have "manager_ok (m\<lparr>mg_pool := p\<rparr>)" using ok_pool [OF ok, of "OpFailure now (po_IP out)"] r by simp
  then show ?thesis
    unfolding consume_failure_def r Let_def by (auto intro!: ok_emit ok_emitDeviceUpdated split: option.split)
qed

lemma ok_consume_tick: "manager_ok m \<Longrightarrow> manager_ok (consume_tick now m)"
proof (cases "sd_results (mg_sched m)")
  case (Cons out rest)
  assume ok: "manager_ok m"
  let ?s = "(mg_sched m)\<lparr>sd_results := rest, sd_received := sd_received (mg_sched m) @ [out]\<rparr>"
  have step: "sched_step (mg_sch m) TakeResult (mg_sched m) = Some ?s" using Cons by simp
  have pl: "pipeline (mg_sched m) = add_mset (po_IP out) (pipeline ?s)" by (rule pipeline_take [OF Cons])
  have once: "\<forall>ip. count (pipeline (mg_sched m)) ip \<le> 1" using ok by (simp add: manager_ok_def)
  then have gone: "po_IP out \<notin># pipeline ?s" using pl by (metis add_mset_count_le_1)
  have "\<forall>ip. count (pipeline ?s) ip \<le> 1"
  proof
    fix ip
    show "count (pipeline ?s) ip \<le> 1" using once [THEN spec, of ip] unfolding pl by (simp split: if_splits)
  qed
  moreover have "sched_reach (mg_sch m) (results_cap (mg_cfg m)) ?s"
    using ok step sched_reach.step unfolding manager_ok_def by blast
  ultimately have "manager_ok (m\<lparr>mg_sched := ?s\<rparr>)"
    using ok pl unfolding manager_ok_def by auto
  then have "manager_ok (record_outcome now out (m\<lparr>mg_sched := ?s\<rparr>))"
    using gone by (intro ok_record_outcome) simp_all
  moreover have "po_IP out \<in> scope (record_outcome now out (m\<lparr>mg_sched := ?s\<rparr>))"
    using ok pl by (simp add: manager_ok_def scope_def record_outcome_def)
  ultimately show ?thesis
    unfolding consume_tick_def by (simp add: Cons Let_def ok_consume_success ok_consume_failure)
qed (simp add: consume_tick_def)

lemma ok_refresh: "manager_ok m \<Longrightarrow> manager_ok (refreshMobileFingerprintsIfDue now m)"
proof -
  assume ok: "manager_ok m"
  obtain p ch where r: "RefreshMobileFingerprints now (mg_pool m) = (p, ch)" by fastforce
  have "manager_ok (m\<lparr>mg_pool := p\<rparr>)" using ok_pool [OF ok, of "OpRefresh now"] r by simp
  then have "manager_ok (m\<lparr>mg_lastMobileRefresh := now, mg_pool := p\<rparr>)" by (simp add: manager_ok_def)
  then show ?thesis
    unfolding refreshMobileFingerprintsIfDue_def r using ok
    by (auto intro!: ok_fold ok_emitDeviceUpdated ok_emitMobile)
qed

lemma ok_flush: "manager_ok m \<Longrightarrow> manager_ok (flush now m)"
proof -
  assume ok: "manager_ok m"
  then have "manager_ok (m\<lparr>mg_pendingProbe := [], mg_probeWindow := 0,
      mg_probesPerSec := fdiv (of_int (mg_probeWindow m)) (duration_seconds (BatchInterval (mg_cfg m)))\<rparr>)"
    by (simp add: manager_ok_def)
  then show ?thesis
    unfolding flush_def Let_def by (auto intro!: ok_emit ok_emitTopology ok_refresh)
qed

lemma ok_sched:
  assumes "manager_ok m" and "internal_cmd c" and "sched_step (mg_sch m) c (mg_sched m) = Some s"
  shows "manager_ok (m\<lparr>mg_sched := s\<rparr>)"
proof -
  have reach: "sched_reach (mg_sch m) (results_cap (mg_cfg m)) (mg_sched m)" using assms(1) by (simp add: manager_ok_def)
  have sub: "pipeline s \<subseteq># pipeline (mg_sched m)" by (rule internal_pipeline [OF reach assms(2,3)])
  then have "set_mset (pipeline s) \<subseteq> set_mset (pipeline (mg_sched m))" by (rule set_mset_mono)
  moreover have "\<forall>ip. count (pipeline s) ip \<le> 1"
    using sub assms(1) by (meson manager_ok_def mset_subset_eq_count order_trans)
  ultimately show ?thesis
    using assms(1) sched_reach.step [OF reach assms(3)] by (auto simp: manager_ok_def)
qed

lemma ok_step: "manager_ok m \<Longrightarrow> manager_ok (manager_step c m)"
  by (cases c)
    (auto simp: ok_Start ok_Stop ok_AddSeed ok_manager_ClearStale ok_AddDeviceEvidence ok_feed_tick
      ok_consume_tick ok_flush ok_sched SetPaused_def manager_ok_def [of "_\<lparr>mg_paused := _\<rparr>"]
      intro!: ok_retest_tick split: option.split dest: manager_ok_def [THEN iffD1])

lemma ok_run: "manager_ok m \<Longrightarrow> manager_ok (manager_run cmds m)"
  unfolding manager_run_def by (rule ok_fold) (simp_all add: ok_step)

section \<open>What no step changes\<close>

definition same_setup :: "Manager \<Rightarrow> Manager \<Rightarrow> bool" where
  "same_setup m m' = (mg_guard m' = mg_guard m \<and> mg_cfg m' = mg_cfg m \<and> mg_sch m' = mg_sch m)"

lemma setup_refl [simp]: "same_setup m m"
  by (simp add: same_setup_def)

lemma setup_fields [simp]:
  "same_setup m (n\<lparr>mg_running := v_running\<rparr>) = same_setup m n"
  "same_setup m (n\<lparr>mg_paused := v_paused\<rparr>) = same_setup m n"
  "same_setup m (n\<lparr>mg_seeds := v_seeds\<rparr>) = same_setup m n"
  "same_setup m (n\<lparr>mg_subnets := v_subnets\<rparr>) = same_setup m n"
  "same_setup m (n\<lparr>mg_expanded := v_expanded\<rparr>) = same_setup m n"
  "same_setup m (n\<lparr>mg_warnings := v_warnings\<rparr>) = same_setup m n"
  "same_setup m (n\<lparr>mg_pool := v_pool\<rparr>) = same_setup m n"
  "same_setup m (n\<lparr>mg_open := v_open\<rparr>) = same_setup m n"
  "same_setup m (n\<lparr>mg_sched := v_sched\<rparr>) = same_setup m n"
  "same_setup m (n\<lparr>mg_inflight := v_inflight\<rparr>) = same_setup m n"
  "same_setup m (n\<lparr>mg_backlog := v_backlog\<rparr>) = same_setup m n"
  "same_setup m (n\<lparr>mg_pendingProbe := v_pendingProbe\<rparr>) = same_setup m n"
  "same_setup m (n\<lparr>mg_lastProbeAt := v_lastProbeAt\<rparr>) = same_setup m n"
  "same_setup m (n\<lparr>mg_probeWindow := v_probeWindow\<rparr>) = same_setup m n"
  "same_setup m (n\<lparr>mg_probesPerSec := v_probesPerSec\<rparr>) = same_setup m n"
  "same_setup m (n\<lparr>mg_lastMobileRefresh := v_lastMobileRefresh\<rparr>) = same_setup m n"
  "same_setup m (n\<lparr>mg_events := v_events\<rparr>) = same_setup m n"
  "same_setup m (n\<lparr>mg_crashed := v_crashed\<rparr>) = same_setup m n"
  by (simp_all add: same_setup_def)

lemma setup_trans: "same_setup m m' \<Longrightarrow> same_setup m' m'' \<Longrightarrow> same_setup m m''"
  by (simp add: same_setup_def)

lemma setup_emit [simp]:
  "same_setup m (emit e m') = same_setup m m'" "same_setup m (warn w m') = same_setup m m'"
  "same_setup m (emitDeviceUpdated en m') = same_setup m m'"
  "same_setup m (emitTopologyUpdated t m') = same_setup m m'"
  "same_setup m (emitMobileFingerprintUpdated now en m') = same_setup m m'"
  "same_setup m (enqueue ip m') = same_setup m m'"
  by (auto simp: same_setup_def emit_def warn_def emitDeviceUpdated_def emitTopologyUpdated_def
      emitMobileFingerprintUpdated_def enqueue_def Let_def split: option.split)

lemma setup_expandSubnet [simp]: "same_setup m (expandSubnet ip c m') = same_setup m m'"
  by (auto simp: expandSubnet_def Let_def split: sum.split)

lemma setup_fold: "same_setup m m' \<Longrightarrow> (\<And>x n. same_setup m n \<Longrightarrow> same_setup m (f x n)) \<Longrightarrow> same_setup m (fold f xs m')"
  by (induction xs arbitrary: m') auto

lemma setup_addSeed: "same_setup m m' \<Longrightarrow> same_setup m (addSeedLocked now ip src c m')"
  by (auto simp: addSeedLocked_def Let_def split: prod.split)

lemma setup_Start: "same_setup m (fst (Start now seeds confirm m))"
  unfolding Start_def Let_def by (auto intro!: setup_fold setup_addSeed)

lemma setup_AddDeviceEvidence: "same_setup m (fst (AddDeviceEvidence now ip item m))"
  unfolding AddDeviceEvidence_def Let_def by (auto split: prod.split option.split)

lemma setup_feed_tick: "same_setup m (feed_tick now m)"
  unfolding feed_tick_def Let_def by (auto split: prod.split list.split)

lemma setup_consume_tick: "same_setup m (consume_tick now m)"
proof -
  have 1: "same_setup m (record_outcome now out n) = same_setup m n" for n out
    by (simp add: record_outcome_def)
  have 2: "same_setup m (consume_success now out n) = same_setup m n" for n out
    unfolding consume_success_def Let_def by (auto split: prod.split)
  have 3: "same_setup m (consume_failure now out n) = same_setup m n" for n out
    unfolding consume_failure_def Let_def by (auto split: prod.split option.split)
  show ?thesis unfolding consume_tick_def Let_def by (simp add: 1 2 3 split: list.split)
qed

lemma setup_flush: "same_setup m (flush now m)"
proof -
  have "same_setup m n \<Longrightarrow> same_setup m (refreshMobileFingerprintsIfDue now n)" for n
    unfolding refreshMobileFingerprintsIfDue_def by (auto split: prod.split intro!: setup_fold)
  then show ?thesis unfolding flush_def Let_def by auto
qed

lemma setup_step: "same_setup m (manager_step c m)"
  by (cases c)
    (auto simp: setup_Start setup_AddDeviceEvidence setup_feed_tick setup_consume_tick setup_flush
      AddSeed_def Stop_def Let_def SetPaused_def manager_ClearStale_def retest_tick_def
      intro!: setup_fold setup_addSeed split: prod.split option.split)

lemma setup_run: "same_setup m (manager_run cmds m)"
  unfolding manager_run_def by (rule setup_fold) (auto intro: setup_trans setup_step)

lemma run_facts:
  "mg_guard (manager_run cmds (NewManager cfg)) = NewScopeGuard (normalized cfg)"
  "mg_cfg (manager_run cmds (NewManager cfg)) = normalized cfg"
  "mg_sch (manager_run cmds (NewManager cfg)) = NewScheduler (normalized cfg)"
  using setup_run [of "NewManager cfg" cmds] by (simp_all add: same_setup_def NewManager_def Let_def)

text \<open>
  C23: the scope of discovery. Under every sequence of calls and goroutine steps from a new
  manager, every address that is a seed, waits in the backlog, or is anywhere between the task
  queue and the results passes the scope guard of the configuration, and every device of every
  topology event answered a probe and passes it too; evidence added from outside cannot change
  that.
\<close>

theorem manager_stays_in_scope:
  "set (mg_seeds (manager_run cmds (NewManager cfg))) \<union> set (mg_backlog (manager_run cmds (NewManager cfg))) \<union>
   set_mset (pipeline (mg_sched (manager_run cmds (NewManager cfg))))
     \<subseteq> {ip. fst (AllowIP (NewScopeGuard (normalized cfg)) ip)} \<and>
   list_all (event_ok {ip. fst (AllowIP (NewScopeGuard (normalized cfg)) ip)})
     (mg_events (manager_run cmds (NewManager cfg)))"
  using ok_run [OF ok_new, of cmds cfg] by (simp add: manager_ok_def scope_def run_facts)

text \<open>
  C24: the bounds of discovery, under every sequence of calls and steps: an address is in the
  pipeline at most once and is then marked in flight, the task queue holds at most 512
  addresses, the results buffer at most twice the concurrency, at most \<open>MaxConcurrency\<close> probes
  run at once, and at most 200 results wait for the next batch.
\<close>

theorem manager_bounds:
  "(\<forall>ip. count (pipeline (mg_sched (manager_run cmds (NewManager cfg)))) ip \<le> 1) \<and>
   set_mset (pipeline (mg_sched (manager_run cmds (NewManager cfg)))) \<subseteq> mg_inflight (manager_run cmds (NewManager cfg)) \<and>
   length (sd_tasks (mg_sched (manager_run cmds (NewManager cfg)))) \<le> 512 \<and>
   int (length (filter (\<lambda>w. \<exists>ip. w = Probing ip) (sd_workers (mg_sched (manager_run cmds (NewManager cfg))))))
     \<le> MaxConcurrency (normalized cfg) \<and>
   length (mg_pendingProbe (manager_run cmds (NewManager cfg))) \<le> 200"
proof -
  let ?m = "manager_run cmds (NewManager cfg)"
  have ok: "manager_ok ?m" by (rule ok_run [OF ok_new])
  then have reach: "sched_reach (NewScheduler (normalized cfg)) (results_cap (normalized cfg)) (mg_sched ?m)"
    by (simp add: manager_ok_def run_facts)
  have conc: "run_conc (NewScheduler (normalized cfg)) = MaxConcurrency (normalized cfg)"
    using normalized_positive(1) [of cfg] by (simp add: run_conc_def NewScheduler_def)
  have "int (length (filter (\<lambda>w. \<exists>ip. w = Probing ip) (sd_workers (mg_sched ?m)))) \<le> MaxConcurrency (normalized cfg)"
    using sched_probing_bound [OF reach] conc by simp
  then show ?thesis
    using ok sched_conserved [OF reach] by (simp add: manager_ok_def conserved_def taskQueueSize_def)
qed

section \<open>Addresses stranded by a restart\<close>

definition stranded :: "string \<Rightarrow> Manager \<Rightarrow> bool" where
  "stranded ip m = (ip \<in> mg_inflight m \<and> ip \<notin># pipeline (mg_sched m))"

lemma stranded_fields:
  "mg_inflight m' = mg_inflight m \<Longrightarrow> mg_sched m' = mg_sched m \<Longrightarrow> stranded ip m' = stranded ip m"
  by (simp add: stranded_def)

lemma stranded_upd [simp]:
  "stranded ip (n\<lparr>mg_running := v_running\<rparr>) = stranded ip n"
  "stranded ip (n\<lparr>mg_paused := v_paused\<rparr>) = stranded ip n"
  "stranded ip (n\<lparr>mg_seeds := v_seeds\<rparr>) = stranded ip n"
  "stranded ip (n\<lparr>mg_subnets := v_subnets\<rparr>) = stranded ip n"
  "stranded ip (n\<lparr>mg_expanded := v_expanded\<rparr>) = stranded ip n"
  "stranded ip (n\<lparr>mg_warnings := v_warnings\<rparr>) = stranded ip n"
  "stranded ip (n\<lparr>mg_pool := v_pool\<rparr>) = stranded ip n"
  "stranded ip (n\<lparr>mg_open := v_open\<rparr>) = stranded ip n"
  "stranded ip (n\<lparr>mg_backlog := v_backlog\<rparr>) = stranded ip n"
  "stranded ip (n\<lparr>mg_pendingProbe := v_pendingProbe\<rparr>) = stranded ip n"
  "stranded ip (n\<lparr>mg_lastProbeAt := v_lastProbeAt\<rparr>) = stranded ip n"
  "stranded ip (n\<lparr>mg_probeWindow := v_probeWindow\<rparr>) = stranded ip n"
  "stranded ip (n\<lparr>mg_probesPerSec := v_probesPerSec\<rparr>) = stranded ip n"
  "stranded ip (n\<lparr>mg_lastMobileRefresh := v_lastMobileRefresh\<rparr>) = stranded ip n"
  "stranded ip (n\<lparr>mg_events := v_events\<rparr>) = stranded ip n"
  "stranded ip (n\<lparr>mg_crashed := v_crashed\<rparr>) = stranded ip n"
  by (simp_all add: stranded_def)

lemma stranded_emit [simp]:
  "stranded ip (emit e m) = stranded ip m" "stranded ip (warn w m) = stranded ip m"
  "stranded ip (emitDeviceUpdated en m) = stranded ip m"
  "stranded ip (emitTopologyUpdated t m) = stranded ip m"
  "stranded ip (emitMobileFingerprintUpdated now en m) = stranded ip m"
  by (auto simp: stranded_def emit_def warn_def emitDeviceUpdated_def emitTopologyUpdated_def
      emitMobileFingerprintUpdated_def Let_def split: option.split)

lemma stranded_expandSubnet [simp]: "stranded ip (expandSubnet j c m) = stranded ip m"
  by (auto simp: expandSubnet_def Let_def split: sum.split)

lemma stranded_enqueue: "stranded ip m \<Longrightarrow> stranded ip (enqueue j m)"
  by (auto simp: stranded_def enqueue_def pipeline_def split: option.split)

lemma stranded_fold: "stranded ip m \<Longrightarrow> (\<And>x m. stranded ip m \<Longrightarrow> stranded ip (f x m)) \<Longrightarrow> stranded ip (fold f xs m)"
  by (induction xs arbitrary: m) auto

lemma stranded_addSeed: "stranded ip m \<Longrightarrow> stranded ip (addSeedLocked now j src c m)"
  by (auto simp: addSeedLocked_def Let_def split: prod.split intro!: stranded_enqueue)

lemma stranded_Start: "ip \<in> mg_inflight m \<Longrightarrow> \<not> mg_running m \<Longrightarrow> stranded ip (fst (Start now seeds confirm m))"
  unfolding Start_def Let_def
  by (auto intro!: stranded_fold stranded_addSeed) (simp add: stranded_def)

lemma stranded_step:
  assumes "manager_ok m" and "stranded ip m"
  shows "stranded ip (manager_step c m)"
proof (cases c)
  case (CmdStart now seeds confirm)
  then show ?thesis
    using stranded_Start [of ip m now seeds confirm] assms by (cases "mg_running m") (auto simp: Start_def stranded_def)
next
  case (CmdAddSeed now ip)
  then show ?thesis using assms by (auto simp: AddSeed_def stranded_addSeed split: prod.split)
next
  case CmdStop
  then show ?thesis using assms by (auto simp: Stop_def Let_def) (auto simp: stranded_def)
next
  case (CmdSetPaused p)
  then show ?thesis using assms by (simp add: SetPaused_def stranded_def)
next
  case (CmdClearStale now)
  then show ?thesis using assms by (auto simp: manager_ClearStale_def Let_def split: prod.split)
next
  case (CmdEvidence now j item)
  then show ?thesis using assms
    by (auto simp: AddDeviceEvidence_def Let_def split: prod.split option.split)
next
  case (CmdFeed now)
  then show ?thesis using assms
    by (auto simp: feed_tick_def Let_def
        intro!: stranded_enqueue split: prod.split list.split)
next
  case (CmdConsume now)
  show ?thesis
  proof (cases "sd_results (mg_sched m)")
    case (Cons out rest)
    let ?s = "(mg_sched m)\<lparr>sd_results := rest, sd_received := sd_received (mg_sched m) @ [out]\<rparr>"
    have "stranded ip (record_outcome now out (m\<lparr>mg_sched := ?s\<rparr>))"
      using assms(2) pipeline_take [OF Cons, of "sd_received (mg_sched m) @ [out]"] by (auto simp: stranded_def record_outcome_def)
    moreover have "stranded ip (consume_success now out n) = stranded ip n" for n
      by (auto simp: consume_success_def Let_def split: prod.split)
    moreover have "stranded ip (consume_failure now out n) = stranded ip n" for n
      by (auto simp: consume_failure_def Let_def split: prod.split option.split)
    ultimately show ?thesis using CmdConsume Cons by (simp add: consume_tick_def Let_def)
  qed (use CmdConsume assms in \<open>simp add: consume_tick_def\<close>)
next
  case (CmdFlush now)
  have "stranded ip n \<Longrightarrow> stranded ip (refreshMobileFingerprintsIfDue now n)" for n
    by (auto simp: refreshMobileFingerprintsIfDue_def split: prod.split intro!: stranded_fold)
  then show ?thesis using CmdFlush assms by (auto simp: flush_def Let_def)
next
  case (CmdSched sc)
  have "stranded ip (m\<lparr>mg_sched := s\<rparr>)" if "internal_cmd sc" "sched_step (mg_sch m) sc (mg_sched m) = Some s" for s
    using internal_pipeline [OF _ that] assms by (auto simp: stranded_def manager_ok_def dest: mset_subset_eqD)
  then show ?thesis using CmdSched assms by (auto split: option.split)
qed (use assms in \<open>auto simp: retest_tick_def intro!: stranded_fold stranded_enqueue\<close>)

lemma stranded_run: "manager_ok m \<Longrightarrow> stranded ip m \<Longrightarrow> stranded ip (manager_run cmds m)"
  unfolding manager_run_def
  by (induction cmds arbitrary: m) (simp_all add: stranded_step ok_step)


lemma Stop_not_running: "\<not> mg_running (Stop m)"
  by (simp add: Stop_def Let_def emit_def)

lemma inflight_Stop [simp]: "mg_inflight (Stop m) = mg_inflight m"
  by (simp add: Stop_def Let_def emit_def)

text \<open>
  C25: a restart strands what was in flight. Every address that is queued, being probed or
  waiting in the results when discovery is stopped and started again stays marked in flight
  and never enters the pipeline again, whatever happens afterwards: the marks survive \<open>Stop\<close>
  and \<open>Start\<close>, the channels do not.
\<close>

theorem restart_strands_addresses:
  assumes "ip \<in># pipeline (mg_sched (manager_run before (NewManager cfg)))"
  shows "ip \<in> mg_inflight (manager_run (before @ CmdStop # CmdStart now seeds confirm # after) (NewManager cfg)) \<and>
    ip \<notin># pipeline (mg_sched (manager_run (before @ CmdStop # CmdStart now seeds confirm # after) (NewManager cfg)))"
proof -
  let ?m = "manager_run before (NewManager cfg)" and ?s = "manager_step (CmdStart now seeds confirm) (Stop (manager_run before (NewManager cfg)))"
  have ok: "manager_ok ?m" by (rule ok_run [OF ok_new])
  then have "ip \<in> mg_inflight (Stop ?m)" using assms by (auto simp: manager_ok_def)
  then have "stranded ip ?s" using Stop_not_running [of ?m] by (simp add: stranded_Start)
  moreover have "manager_ok ?s" by (intro ok_step ok_Stop ok)
  ultimately have "stranded ip (manager_run after ?s)" by (rule stranded_run [rotated])
  then show ?thesis by (simp add: stranded_def manager_run_def)
qed

lemma sched_expandSubnet [simp]: "mg_sched (expandSubnet ip c m) = mg_sched m"
  by (auto simp: expandSubnet_def Let_def emit_def split: sum.split)

lemma sample_allowed: "AllowIP (NewScopeGuard cfg) ''192.168.1.20'' = (True, [])"
  by (simp add: AllowIP_def go_defs NewScopeGuard_def) code_simp

lemma seed_in_pipeline:
  "''192.168.1.20'' \<in># pipeline (mg_sched (manager_run [CmdStart 5 [''192.168.1.20''] False] (NewManager DefaultConfig)))"
  by (simp add: manager_run_def Start_def NewManager_def Let_def addSeedLocked_def sample_allowed emit_def enqueue_def
      init_sched_def taskQueueSize_def pipeline_def)

theorem restart_strands_addresses_witness:
  "''192.168.1.20'' \<notin># pipeline (mg_sched (manager_run
     ([CmdStart 5 [''192.168.1.20''] False] @ CmdStop # CmdStart 9 [''192.168.1.20''] False # [CmdRetestActive])
     (NewManager DefaultConfig)))"
  using restart_strands_addresses [OF seed_in_pipeline] by blast

end
