(* ===== verification/Access_Types.thy ===== *)
theory Access_Types
  imports Go_Strings
begin

text \<open>
  \<open>agent/pkg/models/accesstype.go\<close>: the access types the detection engine scores, their
  categories, and \<open>CategoryFor\<close>.
\<close>

section \<open>Access types\<close>

definition TypeDSL :: string where "TypeDSL = ''DSL''"
definition TypeADSL :: string where "TypeADSL = ''ADSL''"
definition TypeADSL2 :: string where "TypeADSL2 = ''ADSL2+''"
definition TypeVDSL :: string where "TypeVDSL = ''VDSL''"
definition TypeVDSL2 :: string where "TypeVDSL2 = ''VDSL2''"
definition TypeGfast :: string where "TypeGfast = ''G.fast''"
definition TypeSDSL :: string where "TypeSDSL = ''SDSL''"
definition TypeSHDSL :: string where "TypeSHDSL = ''SHDSL''"
definition TypeFiber :: string where "TypeFiber = ''Fiber''"
definition TypeFTTH :: string where "TypeFTTH = ''FTTH''"
definition TypeFTTB :: string where "TypeFTTB = ''FTTB''"
definition TypeFTTC :: string where "TypeFTTC = ''FTTC''"
definition TypeFTTN :: string where "TypeFTTN = ''FTTN''"
definition TypeFTTP :: string where "TypeFTTP = ''FTTP''"
definition TypeGPON :: string where "TypeGPON = ''GPON''"
definition TypeEPON :: string where "TypeEPON = ''EPON''"
definition TypeXGPON :: string where "TypeXGPON = ''XG-PON''"
definition TypeXGSPON :: string where "TypeXGSPON = ''XGS-PON''"
definition TypeTenGEPON :: string where "TypeTenGEPON = ''10G-EPON''"
definition TypeActiveEthernet :: string where "TypeActiveEthernet = ''Active Ethernet''"
definition TypeEthernetWAN :: string where "TypeEthernetWAN = ''EthernetWAN''"
definition TypeCable :: string where "TypeCable = ''Cable''"
definition TypeDOCSIS :: string where "TypeDOCSIS = ''DOCSIS''"
definition TypeEuroDOCSIS :: string where "TypeEuroDOCSIS = ''EuroDOCSIS''"
definition TypeHFC :: string where "TypeHFC = ''HFC''"
definition TypeFixedWireless :: string where "TypeFixedWireless = ''Fixed Wireless''"
definition TypeWISP :: string where "TypeWISP = ''WISP''"
definition TypeMicrowave :: string where "TypeMicrowave = ''Microwave''"
definition TypePTPWireless :: string where "TypePTPWireless = ''Point-to-Point Wireless''"
definition TypePMPWireless :: string where "TypePMPWireless = ''Point-to-Multipoint Wireless''"
definition TypeMobile :: string where "TypeMobile = ''Mobile''"
definition TypeCellular :: string where "TypeCellular = ''Cellular''"
definition TypeFWA :: string where "TypeFWA = ''FWA''"
definition TypeFWA5G :: string where "TypeFWA5G = ''5G FWA''"
definition TypeLTE :: string where "TypeLTE = ''LTE''"
definition TypeNR5G :: string where "TypeNR5G = ''5G''"
definition TypeWWAN :: string where "TypeWWAN = ''WWAN''"
definition TypeSatellite :: string where "TypeSatellite = ''Satellite''"
definition TypeLEOSatellite :: string where "TypeLEOSatellite = ''LEO Satellite''"
definition TypeGEOSatellite :: string where "TypeGEOSatellite = ''GEO Satellite''"
definition TypeMEOSatellite :: string where "TypeMEOSatellite = ''MEO Satellite''"
definition TypeVSAT :: string where "TypeVSAT = ''VSAT''"
definition TypeEnterprise :: string where "TypeEnterprise = ''Enterprise''"
definition TypeEthernet :: string where "TypeEthernet = ''Ethernet''"
definition TypeMetroEthernet :: string where "TypeMetroEthernet = ''Metro Ethernet''"
definition TypeDIA :: string where "TypeDIA = ''DIA''"
definition TypeMPLS :: string where "TypeMPLS = ''MPLS''"
definition TypeLeasedLine :: string where "TypeLeasedLine = ''Leased Line''"
definition TypePublicWiFi :: string where "TypePublicWiFi = ''Public Wi-Fi''"
definition TypeVPNOverlay :: string where "TypeVPNOverlay = ''VPN / Overlay Network''"

section \<open>Categories\<close>

definition CatDSL :: string where "CatDSL = ''DSL''"
definition CatFiber :: string where "CatFiber = ''Fiber''"
definition CatCable :: string where "CatCable = ''Cable''"
definition CatWireless :: string where "CatWireless = ''WISP''"
definition CatMobile :: string where "CatMobile = ''Mobile/FWA''"
definition CatSatellite :: string where "CatSatellite = ''Satellite''"
definition CatEthernetWAN :: string where "CatEthernetWAN = ''LeasedLine''"
definition CatEnterprise :: string where "CatEnterprise = ''LeasedLine''"
definition CatUnknown :: string where "CatUnknown = ''Unknown''"

lemmas access_type_defs =
  TypeDSL_def TypeADSL_def TypeADSL2_def TypeVDSL_def TypeVDSL2_def TypeGfast_def TypeSDSL_def
  TypeSHDSL_def TypeFiber_def TypeFTTH_def TypeFTTB_def TypeFTTC_def TypeFTTN_def TypeFTTP_def
  TypeGPON_def TypeEPON_def TypeXGPON_def TypeXGSPON_def TypeTenGEPON_def TypeActiveEthernet_def
  TypeEthernetWAN_def TypeCable_def TypeDOCSIS_def TypeEuroDOCSIS_def TypeHFC_def
  TypeFixedWireless_def TypeWISP_def TypeMicrowave_def TypePTPWireless_def TypePMPWireless_def
  TypeMobile_def TypeCellular_def TypeFWA_def TypeFWA5G_def TypeLTE_def TypeNR5G_def TypeWWAN_def
  TypeSatellite_def TypeLEOSatellite_def TypeGEOSatellite_def TypeMEOSatellite_def TypeVSAT_def
  TypeEnterprise_def TypeEthernet_def TypeMetroEthernet_def TypeDIA_def TypeMPLS_def
  TypeLeasedLine_def TypePublicWiFi_def TypeVPNOverlay_def CatDSL_def CatFiber_def CatCable_def
  CatWireless_def CatMobile_def CatSatellite_def CatEthernetWAN_def CatEnterprise_def
  CatUnknown_def

definition categoryByType :: "(string \<times> string) list" where
  "categoryByType = [(TypeDSL, CatDSL),
     (TypeADSL, CatDSL),
     (TypeADSL2, CatDSL),
     (TypeVDSL, CatDSL),
     (TypeVDSL2, CatDSL),
     (TypeGfast, CatDSL),
     (TypeSDSL, CatDSL),
     (TypeSHDSL, CatDSL),
     (TypeFiber, CatFiber),
     (TypeFTTH, CatFiber),
     (TypeFTTB, CatFiber),
     (TypeFTTC, CatFiber),
     (TypeFTTN, CatFiber),
     (TypeFTTP, CatFiber),
     (TypeGPON, CatFiber),
     (TypeEPON, CatFiber),
     (TypeXGPON, CatFiber),
     (TypeXGSPON, CatFiber),
     (TypeTenGEPON, CatFiber),
     (TypeActiveEthernet, CatFiber),
     (TypeEthernetWAN, CatEthernetWAN),
     (TypeCable, CatCable),
     (TypeDOCSIS, CatCable),
     (TypeEuroDOCSIS, CatCable),
     (TypeHFC, CatCable),
     (TypeFixedWireless, CatWireless),
     (TypeWISP, CatWireless),
     (TypeMicrowave, CatWireless),
     (TypePTPWireless, CatWireless),
     (TypePMPWireless, CatWireless),
     (TypeMobile, CatMobile),
     (TypeCellular, CatMobile),
     (TypeLTE, CatMobile),
     (TypeNR5G, CatMobile),
     (TypeWWAN, CatMobile),
     (TypeFWA, CatMobile),
     (TypeFWA5G, CatMobile),
     (TypeSatellite, CatSatellite),
     (TypeLEOSatellite, CatSatellite),
     (TypeGEOSatellite, CatSatellite),
     (TypeMEOSatellite, CatSatellite),
     (TypeVSAT, CatSatellite),
     (TypeEnterprise, CatEnterprise),
     (TypeEthernet, CatEnterprise),
     (TypeMetroEthernet, CatEnterprise),
     (TypeDIA, CatEnterprise),
     (TypeMPLS, CatEnterprise),
     (TypeLeasedLine, CatEnterprise),
     (TypePublicWiFi, CatEnterprise),
     (TypeVPNOverlay, CatEnterprise)]"

definition CategoryFor :: "string \<Rightarrow> string" where
  "CategoryFor t = (case map_of categoryByType t of Some c \<Rightarrow> c | None \<Rightarrow> CatUnknown)"

section \<open>Laws of the table\<close>

lemmas [go_defs] = access_type_defs categoryByType_def CategoryFor_def

lemma distinct_categoryByType: "distinct (map fst categoryByType)"
  by (simp add: go_defs)

text \<open>The category a known type is sent to is never the unknown one.\<close>

lemma categoryByType_known: "map_of categoryByType t = Some c \<Longrightarrow> c \<noteq> CatUnknown"
proof -
  assume "map_of categoryByType t = Some c"
  then have "c \<in> set (map snd categoryByType)"
    by (metis map_of_SomeD snd_conv image_eqI set_map)
  then show ?thesis
    by (auto simp: categoryByType_def access_type_defs)
qed

lemma CategoryFor_unknown_iff: "CategoryFor t = CatUnknown \<longleftrightarrow> t \<notin> fst ` set categoryByType"
proof (cases "map_of categoryByType t")
  case None
  then have "t \<notin> fst ` set categoryByType"
    by (simp add: map_of_eq_None_iff)
  then show ?thesis
    using None by (simp add: CategoryFor_def)
next
  case (Some c)
  then have "t \<in> fst ` set categoryByType"
    by (metis map_of_eq_None_iff option.distinct(1))
  then show ?thesis
    using Some categoryByType_known [OF Some] by (simp add: CategoryFor_def)
qed

end
