(* ===== verification/Scan_Models.thy ===== *)
theory Scan_Models
  imports Access_Types Go_Float
begin

text \<open>
  \<open>agent/pkg/models/scan.go\<close> and \<open>lineprofile.go\<close>: the data the probes of the agent hand to the
  detection engine and the data of its verdict, with the engine-side \<open>evidenceBag\<close> and
  \<open>NormalizedEvidence\<close>. A pointer that may be nil is an \<open>option\<close>; JSON tags are left out; \<open>int\<close>
  and \<open>int64\<close> fields are \<open>int\<close>.
\<close>

section \<open>Observations on gateways\<close>

record TypeScore =
  ts_Type :: string
  ts_Score :: float64

record ProbeAttempt =
  pa_Source :: string
  pa_Target :: string
  pa_Protocol :: string
  pa_Port :: int
  pa_URL :: string
  pa_Method :: string
  pa_Error :: string
  pa_Timeout :: bool
  pa_EvidenceID :: string

record HTTPObservation =
  ho_Source :: string
  ho_URL :: string
  ho_Method :: string
  ho_StatusCode :: int
  ho_Title :: string
  ho_ServerHeader :: string
  ho_WWWAuthenticate :: string
  ho_WWWAuthRealm :: string
  ho_RedirectLocation :: string
  ho_RedirectPath :: string
  ho_FaviconHash :: string
  ho_HTMLMetaGenerator :: string
  ho_LoginLabels :: "string list"
  ho_EvidenceID :: string

record TLSObservation =
  to_Source :: string
  to_IP :: string
  to_Port :: int
  to_CN :: string
  to_SANs :: "string list"
  to_Issuer :: string
  to_ServerName :: string
  to_EvidenceID :: string

record GatewayAccessEvidence =
  ga_Source :: string
  ga_Type :: string
  ga_Value :: string
  ga_Strength :: string
  ga_Confidence :: float64
  ga_Hints :: "string list"
  ga_EvidenceID :: string

record GatewayHop =
  gh_IP :: string
  gh_Role :: string
  gh_Source :: string
  gh_Order :: int
  gh_EvidenceID :: string

record GatewayDevice =
  gd_IP :: string
  gd_Role :: string
  gd_ReachableState :: string
  gd_Reachable :: bool
  gd_OpenPorts :: "int list"
  gd_HTTPObservations :: "HTTPObservation list"
  gd_HTTPTitle :: string
  gd_ServerHeader :: string
  gd_WWWAuthenticate :: string
  gd_FaviconHash :: string
  gd_WWWAuthRealm :: string
  gd_RedirectPath :: string
  gd_RedirectLocation :: string
  gd_TLSObservations :: "TLSObservation list"
  gd_TLSCertCN :: string
  gd_TLSCertSANs :: "string list"
  gd_TLSCertIssuer :: string
  gd_TLSServerName :: string
  gd_HTMLMetaGenerator :: string
  gd_LoginLabels :: "string list"
  gd_UPnPState :: string
  gd_UPnPFound :: bool
  gd_UPnPIGDFound :: bool
  gd_WANCommonInterfaceFound :: bool
  gd_WANAccessType :: string
  gd_PhysicalLinkStatus :: string
  gd_Layer1UpstreamMaxBitRate :: int
  gd_Layer1DownstreamMaxBitRate :: int
  gd_TR064State :: string
  gd_TR064Found :: bool
  gd_TR064AuthRequired :: bool
  gd_TR064Services :: "string list"
  gd_SNMPState :: string
  gd_MACVendor :: string
  gd_CPEModelGuess :: string
  gd_Model :: string
  gd_Manufacturer :: string
  gd_FingerprintID :: string
  gd_AccessEvidence :: "GatewayAccessEvidence list"
  gd_AccessHints :: "string list"
  gd_PhysicalHints :: "string list"
  gd_Notes :: "string list"
  gd_FailedAttempts :: "ProbeAttempt list"
  gd_DeviceConfidence :: float64
  gd_AccessConfidence :: float64
  gd_Confidence :: float64
  gd_EvidenceIDs :: "string list"

record WANSignal =
  ws_Source :: string
  ws_IP :: string
  ws_Type :: string
  ws_Value :: string
  ws_Strength :: string
  ws_Detail :: string
  ws_Confidence :: float64

record AccessArchitecture =
  aa_LocalMedium :: string
  aa_WANMedium :: string
  aa_IPArchitecture :: string
  aa_NATTopology :: string
  aa_LikelyCPERole :: string

record IPv6Context =
  ip6_IPv6Available :: bool
  ip6_GlobalIPv6 :: bool
  ip6_DefaultRoute :: string
  ip6_DNS64NAT64 :: bool
  ip6_TransitionHints :: "string list"

record NATTopology =
  nt_PublicIP :: string
  nt_STUNPublicIP :: string
  nt_STUNPublicPort :: int
  nt_PublicIPMatches :: bool
  nt_CGNAT :: bool
  nt_DoubleNAT :: bool
  nt_InternalDoubleNATPossible :: bool
  nt_ExternalPublicIPConsistent :: bool
  nt_GatewayNATControlReachable :: bool
  nt_PCPReachable :: bool
  nt_NATPMPReachable :: bool
  nt_Topology :: string
  nt_Notes :: "string list"

record PerformanceProfile =
  pp_Target :: string
  pp_Method :: string
  pp_IdleLatencyMS :: float64
  pp_JitterMS :: float64
  pp_PacketLossPct :: float64
  pp_LoadedLatencyMS :: float64

section \<open>Line profiles\<close>

record DSLProfile =
  dl_Mode :: string
  dl_Standard :: string
  dl_Annex :: string
  dl_Profile :: string
  dl_ProfileBandMHz :: float64
  dl_Vectoring :: bool
  dl_SNRMarginDownDB :: float64
  dl_SNRMarginUpDB :: float64
  dl_AttenuationDownDB :: float64
  dl_AttenuationUpDB :: float64
  dl_AttainableDownKbps :: int
  dl_AttainableUpKbps :: int
  dl_SyncDownKbps :: int
  dl_SyncUpKbps :: int
  dl_Path :: string
  dl_InterleaveDepth :: string

record DOCSISProfile =
  dx_Version :: string
  dx_OFDM :: bool
  dx_OFDMA :: bool
  dx_DownstreamChannels :: int
  dx_UpstreamChannels :: int
  dx_DownstreamPowerDBmV :: float64
  dx_UpstreamPowerDBmV :: float64
  dx_SNRMERdB :: float64

record PONProfile =
  pn_Type :: string
  pn_ONTModel :: string
  pn_RxPowerDBm :: float64
  pn_TxPowerDBm :: float64

record LineProfile =
  lp_Medium :: string
  lp_Technology :: string
  lp_Subtype :: string
  lp_DSL :: "DSLProfile option"
  lp_DOCSIS :: "DOCSISProfile option"
  lp_PON :: "PONProfile option"
  lp_Source :: string
  lp_Confidence :: float64
  lp_Notes :: "string list"

section \<open>Adapters\<close>

text \<open>\<open>AdapterInfo\<close> of \<open>detection/adapters.go\<close> and \<open>Adapter\<close> of \<open>network/adapters.go\<close>.\<close>

record AdapterInfo =
  ai_Name :: string
  ai_Up :: bool
  ai_Addrs :: "string list"

record Adapter =
  ad_Name :: string
  ad_MAC :: string
  ad_Up :: bool
  ad_Addrs :: "string list"

section \<open>Loosely typed values\<close>

text \<open>
  A value of type \<open>any\<close>: the dynamic types the code asks for in its type switches, and one
  constructor for every other type. A \<open>map[string]any\<close> is an association list.
\<close>

datatype any =
  A_nil
| A_string string
| A_bool bool
| A_float64 float64
| A_float32 float64
| A_int int
| A_int64 int
| A_strings "string list"
| A_ints "int list"
| A_list "any list"
| A_map "(string \<times> any) list"
| A_stringmap "(string \<times> string) list"
| A_devices "GatewayDevice list"
| A_signals "WANSignal list"
| A_architecture AccessArchitecture
| A_ipv6 IPv6Context
| A_nat NATTopology
| A_performance PerformanceProfile
| A_adapterinfos "AdapterInfo list"
| A_adapters "Adapter list"
| A_http "HTTPObservation list"
| A_tls "TLSObservation list"
| A_access "GatewayAccessEvidence list"
| A_attempts "ProbeAttempt list"
| A_scores "(string \<times> float64) list"
| A_other nat

type_synonym evidence_map = "(string \<times> any) list"

section \<open>Probe results and the verdict\<close>

record ProbeResult =
  pr_ProbeName :: string
  pr_Status :: string
  pr_Confidence :: float64
  pr_DurationMS :: int
  pr_Evidence :: evidence_map
  pr_Hints :: "string list"
  pr_Errors :: "string list"

record GatewayChainSource =
  gs_Source :: string
  gs_Chain :: "string list"
  gs_PrivateHops :: "GatewayHop list"
  gs_InternalDoubleNATPossible :: bool
  gs_Confidence :: float64
  gs_EvidenceIDs :: "string list"

record ConflictValue =
  cv_Source :: string
  cv_Value :: any

record DataConflict =
  dc_Field :: string
  dc_Values :: "ConflictValue list"
  dc_Severity :: string
  dc_Effect :: string
  dc_Resolution :: string

record GatewayChainState =
  gc_DefaultGateway :: string
  gc_Chain :: "string list"
  gc_PrivateHops :: "GatewayHop list"
  gc_InternalDoubleNATPossible :: bool
  gc_Sources :: "GatewayChainSource list"
  gc_Conflicts :: "DataConflict list"
  gc_Confidence :: float64
  gc_EvidenceIDs :: "string list"

record ConfidenceBreakdown =
  cb_Classification :: float64
  cb_Context :: float64
  cb_Physical :: float64
  cb_Device :: float64
  cb_Network :: float64
  cb_Performance :: float64
  cb_Regional :: float64
  cb_Penalty :: float64

record EvidenceStrengthSummary =
  es_Physical :: string
  es_Device :: string
  es_Network :: string
  es_Performance :: string
  es_Regional :: string

record EvidenceItem =
  ei_Source :: string
  ei_TargetType :: string
  ei_Strength :: string
  ei_Confidence :: float64
  ei_Reason :: string
  ei_Raw :: evidence_map

record EvidenceTier =
  et_Status :: string
  et_Items :: "EvidenceItem list"
  et_Present :: bool
  et_Strength :: string
  et_Confidence :: float64

record EvidenceTiers =
  tiers_DirectPhysical :: EvidenceTier
  tiers_DeviceModel :: EvidenceTier
  tiers_Topology :: EvidenceTier
  tiers_Performance :: EvidenceTier
  tiers_Regional :: EvidenceTier

record AccessCandidate =
  ac_Category :: string
  ac_Type :: string
  ac_Technology :: string
  ac_Standard :: string
  ac_Subtype :: string
  ac_Score :: float64
  ac_Confidence :: float64
  ac_EvidenceStrength :: string
  ac_SupportingEvidence :: "EvidenceItem list"
  ac_ContradictingEvidence :: "EvidenceItem list"
  ac_MissingEvidence :: "string list"
  ac_Explanation :: string
  ac_WhyNot :: "string list"

record ScoreContribution =
  sk_Target :: string
  sk_Category :: string
  sk_Type :: string
  sk_Subtype :: string
  sk_Amount :: float64
  sk_EvidenceClass :: string
  sk_Strength :: string
  sk_ProbeName :: string
  sk_Reason :: string

record NextBestProbe =
  nb_ProbeName :: string
  nb_Reason :: string
  nb_ExpectedEvidence :: "string list"
  nb_Safety :: string

section \<open>Status values and evidence classes\<close>

definition StatusSuccess :: string where "StatusSuccess = ''success''"
definition ReachableTrue :: string where "ReachableTrue = ''true''"
definition ReachableFalse :: string where "ReachableFalse = ''false''"
definition ReachableUnknown :: string where "ReachableUnknown = ''unknown''"
definition EvidencePhysical :: string where "EvidencePhysical = ''Physical''"

lemmas [go_defs] = StatusSuccess_def ReachableTrue_def ReachableFalse_def ReachableUnknown_def
  EvidencePhysical_def

text \<open>The constants of the package \<open>detection/evidence\<close>.\<close>

definition ev_class_physical :: string where "ev_class_physical = ''physical''"
definition ev_class_device :: string where "ev_class_device = ''device''"
definition ev_class_network :: string where "ev_class_network = ''network''"
definition ev_class_performance :: string where "ev_class_performance = ''performance''"
definition ev_class_regional :: string where "ev_class_regional = ''regional''"
definition ev_strength_weak :: string where "ev_strength_weak = ''weak''"
definition ev_strength_medium :: string where "ev_strength_medium = ''medium''"
definition ev_strength_strong :: string where "ev_strength_strong = ''strong''"

lemmas [go_defs] = ev_class_physical_def ev_class_device_def ev_class_network_def
  ev_class_performance_def ev_class_regional_def ev_strength_weak_def ev_strength_medium_def
  ev_strength_strong_def

record NormalizedEvidence =
  ne_ID :: string
  ne_Class :: string
  ne_Strength :: string
  ne_SourceProbe :: string
  ne_SourceField :: string
  ne_TargetCategory :: string
  ne_TargetType :: string
  ne_TargetSubtype :: string
  ne_Confidence :: float64
  ne_RawValue :: string
  ne_Reason :: string

section \<open>The evidence bag of the engine\<close>

record evidenceBag =
  eb_RouterModel :: string
  eb_Text :: string
  eb_Interfaces :: "string list"
  eb_Hints :: "string list"
  eb_Sources :: int
  eb_PublicIP :: string
  eb_CGNAT :: bool
  eb_PTR :: string
  eb_Org :: string
  eb_AvgMS :: float64
  eb_JitterMS :: float64
  eb_HasLatency :: bool
  eb_Gateway :: string
  eb_AgentIP :: string
  eb_Active :: "string list"
  eb_UPnPFound :: bool
  eb_MainAdapter :: string
  eb_LocalAccess :: string
  eb_Hops :: "string list"
  eb_GatewayChain :: "string list"
  eb_GatewayChainState :: "GatewayChainState option"
  eb_DoubleNATPossible :: bool
  eb_GatewayDevices :: "GatewayDevice list"
  eb_LikelyModemIP :: string
  eb_GatewayDeviceText :: string
  eb_WANSignals :: "WANSignal list"
  eb_WANSignalText :: string
  eb_StrongAccessHints :: "string list"
  eb_TR064Found :: bool
  eb_CPEKV :: "(string \<times> string) list"
  eb_CPEText :: string
  eb_CPESource :: string
  eb_LineProfile :: "LineProfile option"
  eb_AccessArchitecture :: AccessArchitecture
  eb_IPv6Context :: "IPv6Context option"
  eb_NATTopology :: "NATTopology option"
  eb_PerformanceProfile :: "PerformanceProfile option"
  eb_PhysicalEvidence :: float64
  eb_DeviceEvidence :: float64
  eb_NetworkEvidence :: float64
  eb_PerformanceEvidence :: float64
  eb_NormalizedEvidence :: "NormalizedEvidence list"

end
