(* ===== verification/Evidence_Access.thy ===== *)
theory Evidence_Access
  imports Scan_Models
begin

text \<open>
  \<open>agent/internal/detection/evidence_access.go\<close>: the getters the engine reads the loosely typed
  evidence of a probe with. A value may be the native Go value or the value its JSON decodes to;
  the last section states that both forms read the same.
\<close>

section \<open>Conversions\<close>

text \<open>
  The conversions \<open>int(x)\<close> and \<open>int64(x)\<close> of a \<open>float64\<close>: the fraction is dropped; a value out of
  range gives the minimum, as on amd64.
\<close>

definition float_to_int :: "float64 \<Rightarrow> int" where
  "float_to_int x =
     (let n = (if 0 \<le> x then \<lfloor>x\<rfloor> else \<lceil>x\<rceil>)
      in if - (2 ^ 63) \<le> n \<and> n < 2 ^ 63 then n else - (2 ^ 63))"

text \<open>Indexing a \<open>map[string]any\<close>: a missing key reads as nil.\<close>

definition any_at :: "evidence_map \<Rightarrow> string \<Rightarrow> any" where
  "any_at m k = (case map_of m k of Some v \<Rightarrow> v | None \<Rightarrow> A_nil)"

section \<open>The readers of a value\<close>

fun anyString :: "any \<Rightarrow> string" where
  "anyString (A_string s) = s"
| "anyString _ = []"

fun anyBool :: "any \<Rightarrow> bool" where
  "anyBool (A_bool b) = b"
| "anyBool _ = False"

fun anyFloat :: "any \<Rightarrow> float64" where
  "anyFloat (A_float64 x) = x"
| "anyFloat (A_float32 x) = x"
| "anyFloat (A_int n) = round64 (of_int n)"
| "anyFloat (A_int64 n) = round64 (of_int n)"
| "anyFloat _ = 0"

fun anyStrings :: "any \<Rightarrow> string list" where
  "anyStrings (A_strings ss) = ss"
| "anyStrings (A_list vs) = [s. A_string s \<leftarrow> vs]"
| "anyStrings _ = []"

fun anyInts :: "any \<Rightarrow> int list" where
  "anyInts (A_ints ns) = ns"
| "anyInts (A_list vs) = filter (\<lambda>n. n \<noteq> 0) (map (\<lambda>v. float_to_int (anyFloat v)) vs)"
| "anyInts _ = []"

definition HTTPObservation_of_map :: "evidence_map \<Rightarrow> HTTPObservation" where
  "HTTPObservation_of_map m =
      \<lparr>ho_Source = anyString (any_at m ''source''),
       ho_URL = anyString (any_at m ''url''),
       ho_Method = anyString (any_at m ''method''),
       ho_StatusCode = float_to_int (anyFloat (any_at m ''status_code'')),
       ho_Title = anyString (any_at m ''title''),
       ho_ServerHeader = anyString (any_at m ''server_header''),
       ho_WWWAuthenticate = anyString (any_at m ''www_authenticate''),
       ho_WWWAuthRealm = anyString (any_at m ''www_authenticate_realm''),
       ho_RedirectLocation = anyString (any_at m ''redirect_location''),
       ho_RedirectPath = anyString (any_at m ''redirect_path''),
       ho_FaviconHash = anyString (any_at m ''favicon_hash''),
       ho_HTMLMetaGenerator = anyString (any_at m ''html_meta_generator''),
       ho_LoginLabels = anyStrings (any_at m ''login_labels''),
       ho_EvidenceID = anyString (any_at m ''evidence_id'')\<rparr>"

fun anyHTTPObservations :: "any \<Rightarrow> HTTPObservation list" where
  "anyHTTPObservations (A_http xs) = xs"
| "anyHTTPObservations (A_list vs) = [HTTPObservation_of_map m. A_map m \<leftarrow> vs]"
| "anyHTTPObservations _ = []"

definition TLSObservation_of_map :: "evidence_map \<Rightarrow> TLSObservation" where
  "TLSObservation_of_map m =
      \<lparr>to_Source = anyString (any_at m ''source''),
       to_IP = anyString (any_at m ''ip''),
       to_Port = float_to_int (anyFloat (any_at m ''port'')),
       to_CN = anyString (any_at m ''cn''),
       to_SANs = anyStrings (any_at m ''sans''),
       to_Issuer = anyString (any_at m ''issuer''),
       to_ServerName = anyString (any_at m ''server_name''),
       to_EvidenceID = anyString (any_at m ''evidence_id'')\<rparr>"

fun anyTLSObservations :: "any \<Rightarrow> TLSObservation list" where
  "anyTLSObservations (A_tls xs) = xs"
| "anyTLSObservations (A_list vs) = [TLSObservation_of_map m. A_map m \<leftarrow> vs]"
| "anyTLSObservations _ = []"

definition GatewayAccessEvidence_of_map :: "evidence_map \<Rightarrow> GatewayAccessEvidence" where
  "GatewayAccessEvidence_of_map m =
      \<lparr>ga_Source = anyString (any_at m ''source''),
       ga_Type = anyString (any_at m ''type''),
       ga_Value = anyString (any_at m ''value''),
       ga_Strength = anyString (any_at m ''strength''),
       ga_Confidence = anyFloat (any_at m ''confidence''),
       ga_Hints = anyStrings (any_at m ''hints''),
       ga_EvidenceID = anyString (any_at m ''evidence_id'')\<rparr>"

fun anyGatewayAccessEvidence :: "any \<Rightarrow> GatewayAccessEvidence list" where
  "anyGatewayAccessEvidence (A_access xs) = xs"
| "anyGatewayAccessEvidence (A_list vs) = [GatewayAccessEvidence_of_map m. A_map m \<leftarrow> vs]"
| "anyGatewayAccessEvidence _ = []"

definition ProbeAttempt_of_map :: "evidence_map \<Rightarrow> ProbeAttempt" where
  "ProbeAttempt_of_map m =
      \<lparr>pa_Source = anyString (any_at m ''source''),
       pa_Target = anyString (any_at m ''target''),
       pa_Protocol = anyString (any_at m ''protocol''),
       pa_Port = float_to_int (anyFloat (any_at m ''port'')),
       pa_URL = anyString (any_at m ''url''),
       pa_Method = anyString (any_at m ''method''),
       pa_Error = anyString (any_at m ''error''),
       pa_Timeout = anyBool (any_at m ''timeout''),
       pa_EvidenceID = anyString (any_at m ''evidence_id'')\<rparr>"

fun anyProbeAttempts :: "any \<Rightarrow> ProbeAttempt list" where
  "anyProbeAttempts (A_attempts xs) = xs"
| "anyProbeAttempts (A_list vs) = [ProbeAttempt_of_map m. A_map m \<leftarrow> vs]"
| "anyProbeAttempts _ = []"

section \<open>Records from maps\<close>

definition gatewayDeviceFromMap :: "evidence_map \<Rightarrow> GatewayDevice" where
  "gatewayDeviceFromMap m =
      \<lparr>gd_IP = anyString (any_at m ''ip''),
       gd_Role = anyString (any_at m ''role''),
       gd_ReachableState = anyString (any_at m ''reachable_state''),
       gd_Reachable = anyBool (any_at m ''reachable''),
       gd_OpenPorts = anyInts (any_at m ''open_ports''),
       gd_HTTPObservations = anyHTTPObservations (any_at m ''http_observations''),
       gd_HTTPTitle = anyString (any_at m ''http_title''),
       gd_ServerHeader = anyString (any_at m ''server_header''),
       gd_WWWAuthenticate = anyString (any_at m ''www_authenticate''),
       gd_FaviconHash = anyString (any_at m ''favicon_hash''),
       gd_WWWAuthRealm = anyString (any_at m ''www_authenticate_realm''),
       gd_RedirectPath = anyString (any_at m ''redirect_path''),
       gd_RedirectLocation = anyString (any_at m ''redirect_location''),
       gd_TLSObservations = anyTLSObservations (any_at m ''tls_observations''),
       gd_TLSCertCN = anyString (any_at m ''tls_cert_cn''),
       gd_TLSCertSANs = anyStrings (any_at m ''tls_cert_sans''),
       gd_TLSCertIssuer = anyString (any_at m ''tls_cert_issuer''),
       gd_TLSServerName = anyString (any_at m ''tls_server_name''),
       gd_HTMLMetaGenerator = anyString (any_at m ''html_meta_generator''),
       gd_LoginLabels = anyStrings (any_at m ''login_labels''),
       gd_UPnPState = anyString (any_at m ''upnp_state''),
       gd_UPnPFound = anyBool (any_at m ''upnp_found''),
       gd_UPnPIGDFound = anyBool (any_at m ''upnp_igd_found''),
       gd_WANCommonInterfaceFound = anyBool (any_at m ''wan_common_interface_found''),
       gd_WANAccessType = anyString (any_at m ''wan_access_type''),
       gd_PhysicalLinkStatus = anyString (any_at m ''physical_link_status''),
       gd_Layer1UpstreamMaxBitRate = float_to_int (anyFloat (any_at m ''layer1_upstream_max_bitrate'')),
       gd_Layer1DownstreamMaxBitRate = float_to_int (anyFloat (any_at m ''layer1_downstream_max_bitrate'')),
       gd_TR064State = anyString (any_at m ''tr064_state''),
       gd_TR064Found = anyBool (any_at m ''tr064_found''),
       gd_TR064AuthRequired = anyBool (any_at m ''tr064_auth_required''),
       gd_TR064Services = anyStrings (any_at m ''tr064_services''),
       gd_SNMPState = anyString (any_at m ''snmp_state''),
       gd_MACVendor = anyString (any_at m ''mac_vendor''),
       gd_CPEModelGuess = anyString (any_at m ''cpe_model_guess''),
       gd_Model = anyString (any_at m ''model''),
       gd_Manufacturer = anyString (any_at m ''manufacturer''),
       gd_FingerprintID = anyString (any_at m ''fingerprint_id''),
       gd_AccessEvidence = anyGatewayAccessEvidence (any_at m ''access_evidence''),
       gd_AccessHints = anyStrings (any_at m ''access_hints''),
       gd_PhysicalHints = anyStrings (any_at m ''physical_hints''),
       gd_Notes = anyStrings (any_at m ''notes''),
       gd_FailedAttempts = anyProbeAttempts (any_at m ''failed_attempts''),
       gd_DeviceConfidence = anyFloat (any_at m ''device_confidence''),
       gd_AccessConfidence = anyFloat (any_at m ''access_confidence''),
       gd_Confidence = anyFloat (any_at m ''confidence''),
       gd_EvidenceIDs = anyStrings (any_at m ''evidence_ids'')\<rparr>"

definition wanSignalFromMap :: "evidence_map \<Rightarrow> WANSignal" where
  "wanSignalFromMap m =
      \<lparr>ws_Source = anyString (any_at m ''source''),
       ws_IP = anyString (any_at m ''ip''),
       ws_Type = anyString (any_at m ''type''),
       ws_Value = anyString (any_at m ''value''),
       ws_Strength = anyString (any_at m ''strength''),
       ws_Detail = anyString (any_at m ''detail''),
       ws_Confidence = anyFloat (any_at m ''confidence'')\<rparr>"

section \<open>The getters of the evidence map\<close>

definition getString :: "evidence_map \<Rightarrow> string \<Rightarrow> string" where
  "getString ev k = (case map_of ev k of Some (A_string s) \<Rightarrow> s | _ \<Rightarrow> [])"

definition getBool :: "evidence_map \<Rightarrow> string \<Rightarrow> bool" where
  "getBool ev k = (case map_of ev k of Some (A_bool b) \<Rightarrow> b | _ \<Rightarrow> False)"

definition getFloat :: "evidence_map \<Rightarrow> string \<Rightarrow> float64" where
  "getFloat ev k =
     (case map_of ev k of
        None \<Rightarrow> 0
      | Some v \<Rightarrow>
          (case v of A_float64 x \<Rightarrow> x | A_float32 x \<Rightarrow> x
           | A_int n \<Rightarrow> round64 (of_int n) | A_int64 n \<Rightarrow> round64 (of_int n) | _ \<Rightarrow> 0))"

definition getStrings :: "evidence_map \<Rightarrow> string \<Rightarrow> string list" where
  "getStrings ev k =
     (case map_of ev k of
        None \<Rightarrow> []
      | Some v \<Rightarrow> (case v of A_strings ss \<Rightarrow> ss | A_list vs \<Rightarrow> [s. A_string s \<leftarrow> vs] | _ \<Rightarrow> []))"

definition getStringMap :: "evidence_map \<Rightarrow> string \<Rightarrow> (string \<times> string) list" where
  "getStringMap ev k =
     (case map_of ev k of
        None \<Rightarrow> []
      | Some v \<Rightarrow> (case v of A_stringmap m \<Rightarrow> m | A_map m \<Rightarrow> [(a, s). (a, A_string s) \<leftarrow> m] | _ \<Rightarrow> []))"

definition getGatewayDevices :: "evidence_map \<Rightarrow> string \<Rightarrow> GatewayDevice list" where
  "getGatewayDevices ev k =
     (case map_of ev k of
        None \<Rightarrow> []
      | Some v \<Rightarrow>
          (case v of A_devices ds \<Rightarrow> ds | A_list vs \<Rightarrow> [gatewayDeviceFromMap m. A_map m \<leftarrow> vs] | _ \<Rightarrow> []))"

definition getWANSignals :: "evidence_map \<Rightarrow> string \<Rightarrow> WANSignal list" where
  "getWANSignals ev k =
     (case map_of ev k of
        None \<Rightarrow> []
      | Some v \<Rightarrow>
          (case v of A_signals ss \<Rightarrow> ss | A_list vs \<Rightarrow> [wanSignalFromMap m. A_map m \<leftarrow> vs] | _ \<Rightarrow> []))"

definition getAccessArchitecture :: "evidence_map \<Rightarrow> string \<Rightarrow> AccessArchitecture option" where
  "getAccessArchitecture ev k =
    (case map_of ev k of
       None \<Rightarrow> None
     | Some (A_architecture x) \<Rightarrow> Some x
     | Some (A_map m) \<Rightarrow> Some
      \<lparr>aa_LocalMedium = anyString (any_at m ''local_medium''),
       aa_WANMedium = anyString (any_at m ''wan_medium''),
       aa_IPArchitecture = anyString (any_at m ''ip_architecture''),
       aa_NATTopology = anyString (any_at m ''nat_topology''),
       aa_LikelyCPERole = anyString (any_at m ''likely_cpe_role'')\<rparr>
     | Some _ \<Rightarrow> None)"

definition getIPv6Context :: "evidence_map \<Rightarrow> string \<Rightarrow> IPv6Context option" where
  "getIPv6Context ev k =
    (case map_of ev k of
       None \<Rightarrow> None
     | Some (A_ipv6 x) \<Rightarrow> Some x
     | Some (A_map m) \<Rightarrow> Some
      \<lparr>ip6_IPv6Available = anyBool (any_at m ''ipv6_available''),
       ip6_GlobalIPv6 = anyBool (any_at m ''global_ipv6''),
       ip6_DefaultRoute = anyString (any_at m ''default_route''),
       ip6_DNS64NAT64 = anyBool (any_at m ''dns64_nat64''),
       ip6_TransitionHints = anyStrings (any_at m ''transition_hints'')\<rparr>
     | Some _ \<Rightarrow> None)"

definition getNATTopology :: "evidence_map \<Rightarrow> string \<Rightarrow> NATTopology option" where
  "getNATTopology ev k =
    (case map_of ev k of
       None \<Rightarrow> None
     | Some (A_nat x) \<Rightarrow> Some x
     | Some (A_map m) \<Rightarrow> Some
      \<lparr>nt_PublicIP = anyString (any_at m ''public_ip''),
       nt_STUNPublicIP = anyString (any_at m ''stun_public_ip''),
       nt_STUNPublicPort = float_to_int (anyFloat (any_at m ''stun_public_port'')),
       nt_PublicIPMatches = anyBool (any_at m ''public_ip_matches''),
       nt_CGNAT = anyBool (any_at m ''cgnat''),
       nt_DoubleNAT = anyBool (any_at m ''double_nat''),
       nt_InternalDoubleNATPossible = anyBool (any_at m ''internal_double_nat_possible''),
       nt_ExternalPublicIPConsistent = anyBool (any_at m ''external_public_ip_consistent''),
       nt_GatewayNATControlReachable = anyBool (any_at m ''gateway_nat_control_reachable''),
       nt_PCPReachable = anyBool (any_at m ''pcp_reachable''),
       nt_NATPMPReachable = anyBool (any_at m ''nat_pmp_reachable''),
       nt_Topology = anyString (any_at m ''topology''),
       nt_Notes = anyStrings (any_at m ''notes'')\<rparr>
     | Some _ \<Rightarrow> None)"

definition getPerformanceProfile :: "evidence_map \<Rightarrow> string \<Rightarrow> PerformanceProfile option" where
  "getPerformanceProfile ev k =
    (case map_of ev k of
       None \<Rightarrow> None
     | Some (A_performance x) \<Rightarrow> Some x
     | Some (A_map m) \<Rightarrow> Some
      \<lparr>pp_Target = anyString (any_at m ''target''),
       pp_Method = anyString (any_at m ''method''),
       pp_IdleLatencyMS = anyFloat (any_at m ''idle_latency_ms''),
       pp_JitterMS = anyFloat (any_at m ''jitter_ms''),
       pp_PacketLossPct = anyFloat (any_at m ''packet_loss_pct''),
       pp_LoadedLatencyMS = anyFloat (any_at m ''loaded_latency_ms'')\<rparr>
     | Some _ \<Rightarrow> None)"

lemmas [go_defs] = float_to_int_def any_at_def getString_def getBool_def getFloat_def getStrings_def
  getStringMap_def getGatewayDevices_def getWANSignals_def getAccessArchitecture_def
  getIPv6Context_def getNATTopology_def getPerformanceProfile_def

text \<open>The getters are the readers after an index, and a key of another type reads as the zero value.\<close>

lemma getString_any: "getString ev k = anyString (any_at ev k)"
  by (auto simp: getString_def any_at_def split: option.splits any.splits)

lemma getBool_any: "getBool ev k = anyBool (any_at ev k)"
  by (auto simp: getBool_def any_at_def split: option.splits any.splits)

lemma getFloat_any: "getFloat ev k = anyFloat (any_at ev k)"
  by (auto simp: getFloat_def any_at_def split: option.splits any.splits)

lemma getStrings_any: "getStrings ev k = anyStrings (any_at ev k)"
  by (auto simp: getStrings_def any_at_def split: option.splits any.splits)

end
