(* ===== verification/Evidence_Json.thy ===== *)
theory Evidence_Json
  imports Evidence_Access
begin

text \<open>
  What JSON makes of the records of \<open>pkg/models/scan.go\<close>, from their struct tags, and the round
  trip through the readers of \<open>evidence_access.go\<close>. A report on disk is the JSON of these records; decoded again it is a \<open>map[string]any\<close> whose
  numbers are \<open>float64\<close>. \<open>json_object\<close> takes the fields with their JSON names from the struct tags;
  the second component says whether the field is written (\<open>omitempty\<close> leaves a zero value out).
  Strings are valid UTF-8, so encoding keeps them.
\<close>

definition json_fields :: "(string \<times> bool \<times> any) list \<Rightarrow> evidence_map" where
  "json_fields fs = map (\<lambda>(k, p, v). (k, v)) (filter (\<lambda>(k, p, v). p) fs)"

definition json_object :: "(string \<times> bool \<times> any) list \<Rightarrow> any" where
  "json_object fs = A_map (json_fields fs)"

definition json_int :: "int \<Rightarrow> any" where
  "json_int n = A_float64 (round64 (of_int n))"

definition json_strings :: "string list \<Rightarrow> any" where
  "json_strings ss = A_list (map A_string ss)"

definition json_ints :: "int list \<Rightarrow> any" where
  "json_ints ns = A_list (map json_int ns)"

definition json_list :: "('a \<Rightarrow> any) \<Rightarrow> 'a list \<Rightarrow> any" where
  "json_list f xs = A_list (map f xs)"

definition fields_HTTPObservation :: "HTTPObservation \<Rightarrow> (string \<times> bool \<times> any) list" where
  "fields_HTTPObservation r =
    [(''source'', ho_Source r \<noteq> [], A_string (ho_Source r)),
     (''url'', ho_URL r \<noteq> [], A_string (ho_URL r)),
     (''method'', ho_Method r \<noteq> [], A_string (ho_Method r)),
     (''status_code'', ho_StatusCode r \<noteq> 0, json_int (ho_StatusCode r)),
     (''title'', ho_Title r \<noteq> [], A_string (ho_Title r)),
     (''server_header'', ho_ServerHeader r \<noteq> [], A_string (ho_ServerHeader r)),
     (''www_authenticate'', ho_WWWAuthenticate r \<noteq> [], A_string (ho_WWWAuthenticate r)),
     (''www_authenticate_realm'', ho_WWWAuthRealm r \<noteq> [], A_string (ho_WWWAuthRealm r)),
     (''redirect_location'', ho_RedirectLocation r \<noteq> [], A_string (ho_RedirectLocation r)),
     (''redirect_path'', ho_RedirectPath r \<noteq> [], A_string (ho_RedirectPath r)),
     (''favicon_hash'', ho_FaviconHash r \<noteq> [], A_string (ho_FaviconHash r)),
     (''html_meta_generator'', ho_HTMLMetaGenerator r \<noteq> [], A_string (ho_HTMLMetaGenerator r)),
     (''login_labels'', ho_LoginLabels r \<noteq> [], json_strings (ho_LoginLabels r)),
     (''evidence_id'', ho_EvidenceID r \<noteq> [], A_string (ho_EvidenceID r))]"

definition json_HTTPObservation :: "HTTPObservation \<Rightarrow> any" where
  "json_HTTPObservation r = json_object (fields_HTTPObservation r)"

definition fields_TLSObservation :: "TLSObservation \<Rightarrow> (string \<times> bool \<times> any) list" where
  "fields_TLSObservation r =
    [(''source'', to_Source r \<noteq> [], A_string (to_Source r)),
     (''ip'', to_IP r \<noteq> [], A_string (to_IP r)),
     (''port'', to_Port r \<noteq> 0, json_int (to_Port r)),
     (''cn'', to_CN r \<noteq> [], A_string (to_CN r)),
     (''sans'', to_SANs r \<noteq> [], json_strings (to_SANs r)),
     (''issuer'', to_Issuer r \<noteq> [], A_string (to_Issuer r)),
     (''server_name'', to_ServerName r \<noteq> [], A_string (to_ServerName r)),
     (''evidence_id'', to_EvidenceID r \<noteq> [], A_string (to_EvidenceID r))]"

definition json_TLSObservation :: "TLSObservation \<Rightarrow> any" where
  "json_TLSObservation r = json_object (fields_TLSObservation r)"

definition fields_GatewayAccessEvidence :: "GatewayAccessEvidence \<Rightarrow> (string \<times> bool \<times> any) list" where
  "fields_GatewayAccessEvidence r =
    [(''source'', ga_Source r \<noteq> [], A_string (ga_Source r)),
     (''type'', ga_Type r \<noteq> [], A_string (ga_Type r)),
     (''value'', ga_Value r \<noteq> [], A_string (ga_Value r)),
     (''strength'', ga_Strength r \<noteq> [], A_string (ga_Strength r)),
     (''confidence'', ga_Confidence r \<noteq> 0, A_float64 (ga_Confidence r)),
     (''hints'', ga_Hints r \<noteq> [], json_strings (ga_Hints r)),
     (''evidence_id'', ga_EvidenceID r \<noteq> [], A_string (ga_EvidenceID r))]"

definition json_GatewayAccessEvidence :: "GatewayAccessEvidence \<Rightarrow> any" where
  "json_GatewayAccessEvidence r = json_object (fields_GatewayAccessEvidence r)"

definition fields_ProbeAttempt :: "ProbeAttempt \<Rightarrow> (string \<times> bool \<times> any) list" where
  "fields_ProbeAttempt r =
    [(''source'', pa_Source r \<noteq> [], A_string (pa_Source r)),
     (''target'', pa_Target r \<noteq> [], A_string (pa_Target r)),
     (''protocol'', pa_Protocol r \<noteq> [], A_string (pa_Protocol r)),
     (''port'', pa_Port r \<noteq> 0, json_int (pa_Port r)),
     (''url'', pa_URL r \<noteq> [], A_string (pa_URL r)),
     (''method'', pa_Method r \<noteq> [], A_string (pa_Method r)),
     (''error'', pa_Error r \<noteq> [], A_string (pa_Error r)),
     (''timeout'', pa_Timeout r, A_bool (pa_Timeout r)),
     (''evidence_id'', pa_EvidenceID r \<noteq> [], A_string (pa_EvidenceID r))]"

definition json_ProbeAttempt :: "ProbeAttempt \<Rightarrow> any" where
  "json_ProbeAttempt r = json_object (fields_ProbeAttempt r)"

definition fields_GatewayDevice :: "GatewayDevice \<Rightarrow> (string \<times> bool \<times> any) list" where
  "fields_GatewayDevice r =
    [(''ip'', True, A_string (gd_IP r)),
     (''role'', gd_Role r \<noteq> [], A_string (gd_Role r)),
     (''reachable_state'', gd_ReachableState r \<noteq> [], A_string (gd_ReachableState r)),
     (''reachable'', True, A_bool (gd_Reachable r)),
     (''open_ports'', gd_OpenPorts r \<noteq> [], json_ints (gd_OpenPorts r)),
     (''http_observations'', gd_HTTPObservations r \<noteq> [], json_list json_HTTPObservation (gd_HTTPObservations r)),
     (''http_title'', gd_HTTPTitle r \<noteq> [], A_string (gd_HTTPTitle r)),
     (''server_header'', gd_ServerHeader r \<noteq> [], A_string (gd_ServerHeader r)),
     (''www_authenticate'', gd_WWWAuthenticate r \<noteq> [], A_string (gd_WWWAuthenticate r)),
     (''favicon_hash'', gd_FaviconHash r \<noteq> [], A_string (gd_FaviconHash r)),
     (''www_authenticate_realm'', gd_WWWAuthRealm r \<noteq> [], A_string (gd_WWWAuthRealm r)),
     (''redirect_path'', gd_RedirectPath r \<noteq> [], A_string (gd_RedirectPath r)),
     (''redirect_location'', gd_RedirectLocation r \<noteq> [], A_string (gd_RedirectLocation r)),
     (''tls_observations'', gd_TLSObservations r \<noteq> [], json_list json_TLSObservation (gd_TLSObservations r)),
     (''tls_cert_cn'', gd_TLSCertCN r \<noteq> [], A_string (gd_TLSCertCN r)),
     (''tls_cert_sans'', gd_TLSCertSANs r \<noteq> [], json_strings (gd_TLSCertSANs r)),
     (''tls_cert_issuer'', gd_TLSCertIssuer r \<noteq> [], A_string (gd_TLSCertIssuer r)),
     (''tls_server_name'', gd_TLSServerName r \<noteq> [], A_string (gd_TLSServerName r)),
     (''html_meta_generator'', gd_HTMLMetaGenerator r \<noteq> [], A_string (gd_HTMLMetaGenerator r)),
     (''login_labels'', gd_LoginLabels r \<noteq> [], json_strings (gd_LoginLabels r)),
     (''upnp_state'', gd_UPnPState r \<noteq> [], A_string (gd_UPnPState r)),
     (''upnp_found'', True, A_bool (gd_UPnPFound r)),
     (''upnp_igd_found'', True, A_bool (gd_UPnPIGDFound r)),
     (''wan_common_interface_found'', True, A_bool (gd_WANCommonInterfaceFound r)),
     (''wan_access_type'', gd_WANAccessType r \<noteq> [], A_string (gd_WANAccessType r)),
     (''physical_link_status'', gd_PhysicalLinkStatus r \<noteq> [], A_string (gd_PhysicalLinkStatus r)),
     (''layer1_upstream_max_bitrate'', gd_Layer1UpstreamMaxBitRate r \<noteq> 0, json_int (gd_Layer1UpstreamMaxBitRate r)),
     (''layer1_downstream_max_bitrate'', gd_Layer1DownstreamMaxBitRate r \<noteq> 0, json_int (gd_Layer1DownstreamMaxBitRate r)),
     (''tr064_state'', gd_TR064State r \<noteq> [], A_string (gd_TR064State r)),
     (''tr064_found'', True, A_bool (gd_TR064Found r)),
     (''tr064_auth_required'', True, A_bool (gd_TR064AuthRequired r)),
     (''tr064_services'', gd_TR064Services r \<noteq> [], json_strings (gd_TR064Services r)),
     (''snmp_state'', gd_SNMPState r \<noteq> [], A_string (gd_SNMPState r)),
     (''mac_vendor'', gd_MACVendor r \<noteq> [], A_string (gd_MACVendor r)),
     (''cpe_model_guess'', gd_CPEModelGuess r \<noteq> [], A_string (gd_CPEModelGuess r)),
     (''model'', gd_Model r \<noteq> [], A_string (gd_Model r)),
     (''manufacturer'', gd_Manufacturer r \<noteq> [], A_string (gd_Manufacturer r)),
     (''fingerprint_id'', gd_FingerprintID r \<noteq> [], A_string (gd_FingerprintID r)),
     (''access_evidence'', gd_AccessEvidence r \<noteq> [], json_list json_GatewayAccessEvidence (gd_AccessEvidence r)),
     (''access_hints'', gd_AccessHints r \<noteq> [], json_strings (gd_AccessHints r)),
     (''physical_hints'', gd_PhysicalHints r \<noteq> [], json_strings (gd_PhysicalHints r)),
     (''notes'', gd_Notes r \<noteq> [], json_strings (gd_Notes r)),
     (''failed_attempts'', gd_FailedAttempts r \<noteq> [], json_list json_ProbeAttempt (gd_FailedAttempts r)),
     (''device_confidence'', True, A_float64 (gd_DeviceConfidence r)),
     (''access_confidence'', True, A_float64 (gd_AccessConfidence r)),
     (''confidence'', True, A_float64 (gd_Confidence r)),
     (''evidence_ids'', gd_EvidenceIDs r \<noteq> [], json_strings (gd_EvidenceIDs r))]"

definition json_GatewayDevice :: "GatewayDevice \<Rightarrow> any" where
  "json_GatewayDevice r = json_object (fields_GatewayDevice r)"

definition fields_WANSignal :: "WANSignal \<Rightarrow> (string \<times> bool \<times> any) list" where
  "fields_WANSignal r =
    [(''source'', True, A_string (ws_Source r)),
     (''ip'', ws_IP r \<noteq> [], A_string (ws_IP r)),
     (''type'', ws_Type r \<noteq> [], A_string (ws_Type r)),
     (''value'', ws_Value r \<noteq> [], A_string (ws_Value r)),
     (''strength'', ws_Strength r \<noteq> [], A_string (ws_Strength r)),
     (''detail'', ws_Detail r \<noteq> [], A_string (ws_Detail r)),
     (''confidence'', True, A_float64 (ws_Confidence r))]"

definition json_WANSignal :: "WANSignal \<Rightarrow> any" where
  "json_WANSignal r = json_object (fields_WANSignal r)"

definition fields_AccessArchitecture :: "AccessArchitecture \<Rightarrow> (string \<times> bool \<times> any) list" where
  "fields_AccessArchitecture r =
    [(''local_medium'', aa_LocalMedium r \<noteq> [], A_string (aa_LocalMedium r)),
     (''wan_medium'', aa_WANMedium r \<noteq> [], A_string (aa_WANMedium r)),
     (''ip_architecture'', aa_IPArchitecture r \<noteq> [], A_string (aa_IPArchitecture r)),
     (''nat_topology'', aa_NATTopology r \<noteq> [], A_string (aa_NATTopology r)),
     (''likely_cpe_role'', aa_LikelyCPERole r \<noteq> [], A_string (aa_LikelyCPERole r))]"

definition json_AccessArchitecture :: "AccessArchitecture \<Rightarrow> any" where
  "json_AccessArchitecture r = json_object (fields_AccessArchitecture r)"

definition fields_IPv6Context :: "IPv6Context \<Rightarrow> (string \<times> bool \<times> any) list" where
  "fields_IPv6Context r =
    [(''ipv6_available'', True, A_bool (ip6_IPv6Available r)),
     (''global_ipv6'', True, A_bool (ip6_GlobalIPv6 r)),
     (''default_route'', ip6_DefaultRoute r \<noteq> [], A_string (ip6_DefaultRoute r)),
     (''dns64_nat64'', True, A_bool (ip6_DNS64NAT64 r)),
     (''transition_hints'', ip6_TransitionHints r \<noteq> [], json_strings (ip6_TransitionHints r))]"

definition json_IPv6Context :: "IPv6Context \<Rightarrow> any" where
  "json_IPv6Context r = json_object (fields_IPv6Context r)"

definition fields_NATTopology :: "NATTopology \<Rightarrow> (string \<times> bool \<times> any) list" where
  "fields_NATTopology r =
    [(''public_ip'', nt_PublicIP r \<noteq> [], A_string (nt_PublicIP r)),
     (''stun_public_ip'', nt_STUNPublicIP r \<noteq> [], A_string (nt_STUNPublicIP r)),
     (''stun_public_port'', nt_STUNPublicPort r \<noteq> 0, json_int (nt_STUNPublicPort r)),
     (''public_ip_matches'', True, A_bool (nt_PublicIPMatches r)),
     (''cgnat'', True, A_bool (nt_CGNAT r)),
     (''double_nat'', True, A_bool (nt_DoubleNAT r)),
     (''internal_double_nat_possible'', True, A_bool (nt_InternalDoubleNATPossible r)),
     (''external_public_ip_consistent'', True, A_bool (nt_ExternalPublicIPConsistent r)),
     (''gateway_nat_control_reachable'', True, A_bool (nt_GatewayNATControlReachable r)),
     (''pcp_reachable'', True, A_bool (nt_PCPReachable r)),
     (''nat_pmp_reachable'', True, A_bool (nt_NATPMPReachable r)),
     (''topology'', nt_Topology r \<noteq> [], A_string (nt_Topology r)),
     (''notes'', nt_Notes r \<noteq> [], json_strings (nt_Notes r))]"

definition json_NATTopology :: "NATTopology \<Rightarrow> any" where
  "json_NATTopology r = json_object (fields_NATTopology r)"

definition fields_PerformanceProfile :: "PerformanceProfile \<Rightarrow> (string \<times> bool \<times> any) list" where
  "fields_PerformanceProfile r =
    [(''target'', pp_Target r \<noteq> [], A_string (pp_Target r)),
     (''method'', pp_Method r \<noteq> [], A_string (pp_Method r)),
     (''idle_latency_ms'', pp_IdleLatencyMS r \<noteq> 0, A_float64 (pp_IdleLatencyMS r)),
     (''jitter_ms'', pp_JitterMS r \<noteq> 0, A_float64 (pp_JitterMS r)),
     (''packet_loss_pct'', pp_PacketLossPct r \<noteq> 0, A_float64 (pp_PacketLossPct r)),
     (''loaded_latency_ms'', pp_LoadedLatencyMS r \<noteq> 0, A_float64 (pp_LoadedLatencyMS r))]"

definition json_PerformanceProfile :: "PerformanceProfile \<Rightarrow> any" where
  "json_PerformanceProfile r = json_object (fields_PerformanceProfile r)"

text \<open>The numbers JSON keeps: integers a \<open>float64\<close> holds exactly, and ports other than 0.\<close>

definition exact_int :: "int \<Rightarrow> bool" where
  "exact_int n \<longleftrightarrow> \<bar>n\<bar> < 2 ^ 53"

definition json_safe_http :: "HTTPObservation \<Rightarrow> bool" where
  "json_safe_http r \<longleftrightarrow> exact_int (ho_StatusCode r)"

definition json_safe_tls :: "TLSObservation \<Rightarrow> bool" where
  "json_safe_tls r \<longleftrightarrow> exact_int (to_Port r)"

definition json_safe_attempt :: "ProbeAttempt \<Rightarrow> bool" where
  "json_safe_attempt r \<longleftrightarrow> exact_int (pa_Port r)"

definition json_safe_device :: "GatewayDevice \<Rightarrow> bool" where
  "json_safe_device r \<longleftrightarrow>
     list_all (\<lambda>n. n \<noteq> 0 \<and> exact_int n) (gd_OpenPorts r) \<and>
     exact_int (gd_Layer1UpstreamMaxBitRate r) \<and> exact_int (gd_Layer1DownstreamMaxBitRate r) \<and>
     list_all json_safe_http (gd_HTTPObservations r) \<and> list_all json_safe_tls (gd_TLSObservations r) \<and>
     list_all json_safe_attempt (gd_FailedAttempts r)"

text \<open>An optional field is read as its value or as nil.\<close>

definition omit :: "bool \<Rightarrow> any \<Rightarrow> any" where
  "omit p v = (if p then v else A_nil)"

lemma omit_True [simp]: "omit True v = v"
  by (simp add: omit_def)

lemma any_at_json_fields:
  assumes "distinct (map fst fs)"
  shows "any_at (json_fields fs) k = (case map_of fs k of None \<Rightarrow> A_nil | Some (p, v) \<Rightarrow> omit p v)"
proof -
  have no: "any_at (json_fields fs) k = A_nil" if "k \<notin> fst ` set fs" for fs
  proof -
    have "k \<notin> fst ` set (json_fields fs)"
      using that by (force simp: json_fields_def)
    then show ?thesis
      by (simp add: any_at_def map_of_eq_None_iff split: option.split)
        (metis map_of_SomeD image_eqI fst_conv)
  qed
  show ?thesis
    using assms
  proof (induction fs)
    case Nil
    show ?case by (simp add: json_fields_def any_at_def)
  next
    case (Cons f fs)
    obtain k' p v where f: "f = (k', p, v)" by (cases f)
    show ?case
    proof (cases "k = k'")
      case True
      with Cons.prems f have "any_at (json_fields fs) k = A_nil"
        by (intro no) auto
      then show ?thesis
        using True f by (auto simp: json_fields_def any_at_def omit_def)
    next
      case False
      then show ?thesis
        using Cons f by (auto simp: json_fields_def any_at_def)
    qed
  qed
qed

lemma float_to_int_exact [simp]: "exact_int n \<Longrightarrow> float_to_int (round64 (of_int n)) = n"
proof -
  assume "exact_int n"
  then have "\<bar>n\<bar> < 2 ^ 53" by (simp add: exact_int_def)
  then show ?thesis
    by (auto simp: round64_int float_to_int_def)
qed

lemma float_to_int_0 [simp]: "float_to_int 0 = 0"
  by (simp add: float_to_int_def)

lemma read_omit [simp]:
  "anyString (omit (s \<noteq> []) (A_string s)) = s"
  "anyBool (omit b (A_bool b)) = b"
  "anyFloat (omit (x \<noteq> 0) (A_float64 x)) = x"
  "exact_int n \<Longrightarrow> float_to_int (anyFloat (omit (n \<noteq> 0) (json_int n))) = n"
  "anyStrings (omit (ss \<noteq> []) (json_strings ss)) = ss"
  by (auto simp: omit_def json_int_def json_strings_def o_def)

lemma read_ints: "list_all (\<lambda>n. n \<noteq> 0 \<and> exact_int n) ns \<Longrightarrow> anyInts (json_ints ns) = ns"
  by (induction ns) (auto simp: json_ints_def json_int_def)

lemma read_omit_ints [simp]:
  "list_all (\<lambda>n. n \<noteq> 0 \<and> exact_int n) ns \<Longrightarrow> anyInts (omit (ns \<noteq> []) (json_ints ns)) = ns"
  using read_ints by (simp add: omit_def)

text \<open>The field names of each record are distinct.\<close>

lemma distinct_fields:
  "distinct (map fst (fields_HTTPObservation r0))"
  "distinct (map fst (fields_TLSObservation r1))"
  "distinct (map fst (fields_GatewayAccessEvidence r2))"
  "distinct (map fst (fields_ProbeAttempt r3))"
  "distinct (map fst (fields_GatewayDevice r4))"
  "distinct (map fst (fields_WANSignal r5))"
  "distinct (map fst (fields_AccessArchitecture r6))"
  "distinct (map fst (fields_IPv6Context r7))"
  "distinct (map fst (fields_NATTopology r8))"
  "distinct (map fst (fields_PerformanceProfile r9))"
  by (simp_all add: fields_HTTPObservation_def
      fields_TLSObservation_def
      fields_GatewayAccessEvidence_def
      fields_ProbeAttempt_def
      fields_GatewayDevice_def
      fields_WANSignal_def
      fields_AccessArchitecture_def
      fields_IPv6Context_def
      fields_NATTopology_def
      fields_PerformanceProfile_def)

lemmas lookup_field = distinct_fields [THEN any_at_json_fields]

text \<open>A lookup in the fields of a record as nested conditionals, which the simplifier decides in turn.\<close>

lemmas map_of_HTTPObservation = fields_HTTPObservation_def [THEN arg_cong, where f = "\<lambda>fs. map_of fs k",
  simplified map_of.simps fun_upd_apply fst_conv snd_conv] for k
lemmas map_of_TLSObservation = fields_TLSObservation_def [THEN arg_cong, where f = "\<lambda>fs. map_of fs k",
  simplified map_of.simps fun_upd_apply fst_conv snd_conv] for k
lemmas map_of_GatewayAccessEvidence = fields_GatewayAccessEvidence_def [THEN arg_cong, where f = "\<lambda>fs. map_of fs k",
  simplified map_of.simps fun_upd_apply fst_conv snd_conv] for k
lemmas map_of_ProbeAttempt = fields_ProbeAttempt_def [THEN arg_cong, where f = "\<lambda>fs. map_of fs k",
  simplified map_of.simps fun_upd_apply fst_conv snd_conv] for k
lemmas map_of_GatewayDevice = fields_GatewayDevice_def [THEN arg_cong, where f = "\<lambda>fs. map_of fs k",
  simplified map_of.simps fun_upd_apply fst_conv snd_conv] for k
lemmas map_of_WANSignal = fields_WANSignal_def [THEN arg_cong, where f = "\<lambda>fs. map_of fs k",
  simplified map_of.simps fun_upd_apply fst_conv snd_conv] for k
lemmas map_of_AccessArchitecture = fields_AccessArchitecture_def [THEN arg_cong, where f = "\<lambda>fs. map_of fs k",
  simplified map_of.simps fun_upd_apply fst_conv snd_conv] for k
lemmas map_of_IPv6Context = fields_IPv6Context_def [THEN arg_cong, where f = "\<lambda>fs. map_of fs k",
  simplified map_of.simps fun_upd_apply fst_conv snd_conv] for k
lemmas map_of_NATTopology = fields_NATTopology_def [THEN arg_cong, where f = "\<lambda>fs. map_of fs k",
  simplified map_of.simps fun_upd_apply fst_conv snd_conv] for k
lemmas map_of_PerformanceProfile = fields_PerformanceProfile_def [THEN arg_cong, where f = "\<lambda>fs. map_of fs k",
  simplified map_of.simps fun_upd_apply fst_conv snd_conv] for k

text \<open>Reading back one record of each kind.\<close>

lemma read_json_http:
  "json_safe_http r \<Longrightarrow> \<exists>m. json_HTTPObservation r = A_map m \<and> HTTPObservation_of_map m = r"
  by (simp add: json_HTTPObservation_def json_object_def HTTPObservation_of_map_def lookup_field)
    (simp add: map_of_HTTPObservation json_safe_http_def)

lemma read_json_tls:
  "json_safe_tls r \<Longrightarrow> \<exists>m. json_TLSObservation r = A_map m \<and> TLSObservation_of_map m = r"
  by (simp add: json_TLSObservation_def json_object_def TLSObservation_of_map_def lookup_field)
    (simp add: map_of_TLSObservation json_safe_tls_def)

lemma read_json_access:
  "\<exists>m. json_GatewayAccessEvidence r = A_map m \<and> GatewayAccessEvidence_of_map m = r"
  by (simp add: json_GatewayAccessEvidence_def json_object_def GatewayAccessEvidence_of_map_def lookup_field)
    (simp add: map_of_GatewayAccessEvidence)

lemma read_json_attempt:
  "json_safe_attempt r \<Longrightarrow> \<exists>m. json_ProbeAttempt r = A_map m \<and> ProbeAttempt_of_map m = r"
  by (simp add: json_ProbeAttempt_def json_object_def ProbeAttempt_of_map_def lookup_field)
    (simp add: map_of_ProbeAttempt json_safe_attempt_def)

lemma read_json_list:
  assumes "\<And>r. r \<in> set rs \<Longrightarrow> \<exists>m. j r = A_map m \<and> rd m = r"
  shows "[rd m. A_map m \<leftarrow> map j rs] = rs"
  using assms
proof (induction rs)
  case (Cons r rs)
  obtain m where "j r = A_map m" "rd m = r"
    using Cons.prems [of r] by auto
  then show ?case
    using Cons.IH Cons.prems by simp
qed simp

lemma read_omit_lists [simp]:
  "list_all json_safe_http hs \<Longrightarrow>
   anyHTTPObservations (omit (hs \<noteq> []) (json_list json_HTTPObservation hs)) = hs"
  "list_all json_safe_tls ts \<Longrightarrow>
   anyTLSObservations (omit (ts \<noteq> []) (json_list json_TLSObservation ts)) = ts"
  "anyGatewayAccessEvidence (omit (as \<noteq> []) (json_list json_GatewayAccessEvidence as)) = as"
  "list_all json_safe_attempt ps \<Longrightarrow>
   anyProbeAttempts (omit (ps \<noteq> []) (json_list json_ProbeAttempt ps)) = ps"
proof -
  show "list_all json_safe_http hs \<Longrightarrow>
      anyHTTPObservations (omit (hs \<noteq> []) (json_list json_HTTPObservation hs)) = hs"
    using read_json_list [of hs json_HTTPObservation HTTPObservation_of_map] read_json_http
    by (simp add: omit_def json_list_def list_all_iff del: set_map)
  show "list_all json_safe_tls ts \<Longrightarrow>
      anyTLSObservations (omit (ts \<noteq> []) (json_list json_TLSObservation ts)) = ts"
    using read_json_list [of ts json_TLSObservation TLSObservation_of_map] read_json_tls
    by (simp add: omit_def json_list_def list_all_iff)
  show "anyGatewayAccessEvidence (omit (as \<noteq> []) (json_list json_GatewayAccessEvidence as)) = as"
    using read_json_list [of as json_GatewayAccessEvidence GatewayAccessEvidence_of_map] read_json_access
    by (simp add: omit_def json_list_def)
  show "list_all json_safe_attempt ps \<Longrightarrow>
      anyProbeAttempts (omit (ps \<noteq> []) (json_list json_ProbeAttempt ps)) = ps"
    using read_json_list [of ps json_ProbeAttempt ProbeAttempt_of_map] read_json_attempt
    by (simp add: omit_def json_list_def list_all_iff)
qed

lemma read_json_device:
  "json_safe_device r \<Longrightarrow> \<exists>m. json_GatewayDevice r = A_map m \<and> gatewayDeviceFromMap m = r"
  by (simp add: json_GatewayDevice_def json_object_def gatewayDeviceFromMap_def lookup_field)
    (simp add: map_of_GatewayDevice json_safe_device_def)

lemma read_json_signal: "\<exists>m. json_WANSignal r = A_map m \<and> wanSignalFromMap m = r"
  by (simp add: json_WANSignal_def json_object_def wanSignalFromMap_def lookup_field)
    (simp add: map_of_WANSignal)

lemma read_json_signals: "getWANSignals ((k, json_list json_WANSignal ss) # ev) k = ss"
  using read_json_list [of ss json_WANSignal wanSignalFromMap] read_json_signal
  by (simp add: getWANSignals_def json_list_def)

lemma read_json_devices:
  "list_all json_safe_device ds \<Longrightarrow>
   getGatewayDevices ((k, json_list json_GatewayDevice ds) # ev) k = ds"
  using read_json_list [of ds json_GatewayDevice gatewayDeviceFromMap] read_json_device
  by (simp add: getGatewayDevices_def json_list_def list_all_iff)

lemma read_json_architecture:
  "getAccessArchitecture ((k, json_AccessArchitecture a) # ev) k = Some a"
  by (simp add: getAccessArchitecture_def json_AccessArchitecture_def json_object_def lookup_field)
    (simp add: map_of_AccessArchitecture)

lemma read_json_ipv6: "getIPv6Context ((k, json_IPv6Context c) # ev) k = Some c"
  by (simp add: getIPv6Context_def json_IPv6Context_def json_object_def lookup_field)
    (simp add: map_of_IPv6Context)

lemma read_json_nat:
  "exact_int (nt_STUNPublicPort n) \<Longrightarrow> getNATTopology ((k, json_NATTopology n) # ev) k = Some n"
  by (simp add: getNATTopology_def json_NATTopology_def json_object_def lookup_field)
    (simp add: map_of_NATTopology)

lemma read_json_performance:
  "getPerformanceProfile ((k, json_PerformanceProfile p) # ev) k = Some p"
  by (simp add: getPerformanceProfile_def json_PerformanceProfile_def json_object_def lookup_field)
    (simp add: map_of_PerformanceProfile)

text \<open>
  C39: A report survives the disk: gateway devices, WAN signals, the access architecture, the
  IPv6 context, the NAT topology and the performance profile that were written as JSON under a key
  of the evidence are read back by the getters exactly as the native values are, when the integers
  in them fit a \<open>float64\<close> and no open port is 0 (the reader drops zeros).
\<close>

theorem json_evidence_roundtrip:
  assumes "list_all json_safe_device ds" "exact_int (nt_STUNPublicPort n)"
  shows "getGatewayDevices ((k, json_list json_GatewayDevice ds) # ev) k =
           getGatewayDevices ((k, A_devices ds) # ev) k \<and>
         getWANSignals ((k, json_list json_WANSignal ss) # ev) k =
           getWANSignals ((k, A_signals ss) # ev) k \<and>
         getAccessArchitecture ((k, json_AccessArchitecture a) # ev) k =
           getAccessArchitecture ((k, A_architecture a) # ev) k \<and>
         getIPv6Context ((k, json_IPv6Context c) # ev) k = getIPv6Context ((k, A_ipv6 c) # ev) k \<and>
         getNATTopology ((k, json_NATTopology n) # ev) k = getNATTopology ((k, A_nat n) # ev) k \<and>
         getPerformanceProfile ((k, json_PerformanceProfile p) # ev) k =
           getPerformanceProfile ((k, A_performance p) # ev) k"
  using assms
  by (simp add: read_json_devices read_json_signals read_json_architecture read_json_ipv6 read_json_nat
      read_json_performance)
    (simp add: getGatewayDevices_def getWANSignals_def getAccessArchitecture_def getIPv6Context_def
      getNATTopology_def getPerformanceProfile_def)

text \<open>A device with a bit rate and an open port, as an instance.\<close>

definition example_device :: GatewayDevice where
  "example_device = (gatewayDeviceFromMap [(''ip'', A_string ''192.168.1.1'')])
     \<lparr>gd_OpenPorts := [80, 443], gd_Layer1DownstreamMaxBitRate := 100000000\<rparr>"

theorem json_evidence_roundtrip_witness:
  "getGatewayDevices [(''gateway_devices'', json_list json_GatewayDevice [example_device])] ''gateway_devices'' =
     getGatewayDevices [(''gateway_devices'', A_devices [example_device])] ''gateway_devices''"
proof -
  have "list_all json_safe_device [example_device]"
    by (simp add: example_device_def json_safe_device_def gatewayDeviceFromMap_def any_at_def exact_int_def)
  moreover have "exact_int (nt_STUNPublicPort (the (getNATTopology [(''n'', A_map [])] ''n'')))"
    by (simp add: getNATTopology_def any_at_def exact_int_def)
  ultimately show ?thesis
    by (rule json_evidence_roundtrip [THEN conjunct1])
qed

end
