(* ===== verification/Gateway_Merge.thy ===== *)
theory Gateway_Merge
  imports Evidence_Access
begin

text \<open>
  \<open>agent/internal/detection/gateway_device_merge.go\<close>: gateway devices seen by several probes are
  merged by IP. \<open>MergeGatewayDevices\<close> is a fold over a Go map, kept as a partial function with
  the order of its first insertions beside it.
\<close>

section \<open>Appending without duplicates\<close>

text \<open>The loops compare a key of NUL-separated fields, or the value itself.\<close>

definition nul_join :: "string list \<Rightarrow> string" where
  "nul_join ss = str_join ss [CHR 0x00]"

definition append_by :: "('a \<Rightarrow> string) \<Rightarrow> 'a list \<Rightarrow> 'a list \<Rightarrow> 'a list" where
  "append_by key s values =
     fold (\<lambda>v s. if list_ex (\<lambda>e. key e = key v) s then s else s @ [v]) values s"

definition appendUniqueInts :: "int list \<Rightarrow> int list \<Rightarrow> int list" where
  "appendUniqueInts s values = fold (\<lambda>v s. if v = 0 then s else append_new s v) values s"

definition appendUniqueStrings :: "string list \<Rightarrow> string list \<Rightarrow> string list" where
  "appendUniqueStrings s values = fold (\<lambda>v s. if v = [] then s else append_new s v) values s"

definition http_key :: "HTTPObservation \<Rightarrow> string" where
  "http_key v = nul_join [ho_Source v, ho_Method v, ho_URL v, ho_EvidenceID v]"

definition appendUniqueHTTPObservations ::
  "HTTPObservation list \<Rightarrow> HTTPObservation list \<Rightarrow> HTTPObservation list" where
  "appendUniqueHTTPObservations s values = append_by http_key s values"

definition tls_key :: "TLSObservation \<Rightarrow> string" where
  "tls_key v = nul_join [to_Source v, to_IP v, itoa (to_Port v), to_CN v, to_Issuer v, to_EvidenceID v]"

definition appendUniqueTLSObservations ::
  "TLSObservation list \<Rightarrow> TLSObservation list \<Rightarrow> TLSObservation list" where
  "appendUniqueTLSObservations s values = append_by tls_key s values"

definition access_key :: "GatewayAccessEvidence \<Rightarrow> string" where
  "access_key v = nul_join [ga_Source v, ga_Type v, ga_Value v, ga_EvidenceID v]"

definition appendUniqueGatewayAccessEvidence ::
  "GatewayAccessEvidence list \<Rightarrow> GatewayAccessEvidence list \<Rightarrow> GatewayAccessEvidence list" where
  "appendUniqueGatewayAccessEvidence s values = append_by access_key s values"

definition attempt_key :: "ProbeAttempt \<Rightarrow> string" where
  "attempt_key v = nul_join [pa_Source v, pa_Target v, pa_Protocol v, itoa (pa_Port v), pa_URL v,
     pa_Method v, pa_Error v, pa_EvidenceID v]"

definition appendUniqueProbeAttempts :: "ProbeAttempt list \<Rightarrow> ProbeAttempt list \<Rightarrow> ProbeAttempt list" where
  "appendUniqueProbeAttempts s values = append_by attempt_key s values"

section \<open>Merging single values\<close>

definition firstNonEmpty :: "string \<Rightarrow> string \<Rightarrow> string" where
  "firstNonEmpty a b = (if trim_space a \<noteq> [] then a else b)"

definition maxFloat :: "float64 \<Rightarrow> float64 \<Rightarrow> float64" where
  "maxFloat a b = (if b > a then b else a)"

definition gatewayRolePriority :: "string \<Rightarrow> int" where
  "gatewayRolePriority role =
     (if role = ''possible_cpe'' \<or> role = ''possible_modem'' then 5
      else if role = ''upstream_private_gateway'' then 4
      else if role = ''default_gateway'' then 3
      else if role = ''local_router'' then 2
      else if role = ''unknown'' then 1
      else 0)"

definition boolState :: "bool \<Rightarrow> string" where
  "boolState ok = (if ok then ''found'' else ''not_found'')"

definition mergeReachableState :: "string \<Rightarrow> string \<Rightarrow> string" where
  "mergeReachableState a b =
     (if a = ReachableTrue \<or> b = ReachableTrue then ReachableTrue
      else if a = ReachableFalse \<or> b = ReachableFalse then ReachableFalse
      else ReachableUnknown)"

definition mergeState :: "string \<Rightarrow> string \<Rightarrow> bool \<Rightarrow> string" where
  "mergeState a b found =
     (if found then ''found''
      else if a = [] then b
      else if b = [] \<or> b = ''not_found'' \<or> b = ''not_probed'' then a
      else b)"

section \<open>Merging devices\<close>

definition normalizeGatewayDevice :: "GatewayDevice \<Rightarrow> GatewayDevice" where
  "normalizeGatewayDevice d =
     d\<lparr>gd_ReachableState :=
          (if gd_Reachable d then ReachableTrue
           else if gd_ReachableState d = [] then ReachableUnknown
           else gd_ReachableState d),
       gd_CPEModelGuess :=
          (if gd_CPEModelGuess d = [] then trim_space (str_join [gd_Manufacturer d, gd_Model d] '' '')
           else gd_CPEModelGuess d),
       gd_UPnPState := (if gd_UPnPState d = [] then boolState (gd_UPnPFound d) else gd_UPnPState d),
       gd_TR064State :=
          (if gd_TR064State d = [] then
             if gd_TR064AuthRequired d \<and> \<not> gd_TR064Found d then ''auth_required''
             else boolState (gd_TR064Found d)
           else gd_TR064State d),
       gd_SNMPState := (if gd_SNMPState d = [] then ''not_probed'' else gd_SNMPState d)\<rparr>"

text \<open>The updates of \<open>mergeGatewayDevice\<close>, between its two normalisations.\<close>

definition join_devices :: "GatewayDevice \<Rightarrow> GatewayDevice \<Rightarrow> GatewayDevice" where
  "join_devices a b =
     a\<lparr>gd_Role :=
           (if gatewayRolePriority (gd_Role b) > gatewayRolePriority (gd_Role a) then gd_Role b
            else gd_Role a),
        gd_Reachable := gd_Reachable a \<or> gd_Reachable b,
        gd_ReachableState := mergeReachableState (gd_ReachableState a) (gd_ReachableState b),
        gd_UPnPFound := gd_UPnPFound a \<or> gd_UPnPFound b,
        gd_UPnPIGDFound := gd_UPnPIGDFound a \<or> gd_UPnPIGDFound b,
        gd_WANCommonInterfaceFound := gd_WANCommonInterfaceFound a \<or> gd_WANCommonInterfaceFound b,
        gd_TR064Found := gd_TR064Found a \<or> gd_TR064Found b,
        gd_TR064AuthRequired := gd_TR064AuthRequired a \<or> gd_TR064AuthRequired b,
        gd_OpenPorts := appendUniqueInts (gd_OpenPorts a) (gd_OpenPorts b),
        gd_HTTPObservations := appendUniqueHTTPObservations (gd_HTTPObservations a) (gd_HTTPObservations b),
        gd_HTTPTitle := firstNonEmpty (gd_HTTPTitle a) (gd_HTTPTitle b),
        gd_ServerHeader := firstNonEmpty (gd_ServerHeader a) (gd_ServerHeader b),
        gd_WWWAuthenticate := firstNonEmpty (gd_WWWAuthenticate a) (gd_WWWAuthenticate b),
        gd_WWWAuthRealm := firstNonEmpty (gd_WWWAuthRealm a) (gd_WWWAuthRealm b),
        gd_FaviconHash := firstNonEmpty (gd_FaviconHash a) (gd_FaviconHash b),
        gd_TLSObservations := appendUniqueTLSObservations (gd_TLSObservations a) (gd_TLSObservations b),
        gd_TLSCertCN := firstNonEmpty (gd_TLSCertCN a) (gd_TLSCertCN b),
        gd_TLSCertIssuer := firstNonEmpty (gd_TLSCertIssuer a) (gd_TLSCertIssuer b),
        gd_TLSServerName := firstNonEmpty (gd_TLSServerName a) (gd_TLSServerName b),
        gd_RedirectPath := firstNonEmpty (gd_RedirectPath a) (gd_RedirectPath b),
        gd_RedirectLocation := firstNonEmpty (gd_RedirectLocation a) (gd_RedirectLocation b),
        gd_HTMLMetaGenerator := firstNonEmpty (gd_HTMLMetaGenerator a) (gd_HTMLMetaGenerator b),
        gd_UPnPState := mergeState (gd_UPnPState a) (gd_UPnPState b) (gd_UPnPFound a \<or> gd_UPnPFound b),
        gd_WANAccessType := firstNonEmpty (gd_WANAccessType a) (gd_WANAccessType b),
        gd_PhysicalLinkStatus := firstNonEmpty (gd_PhysicalLinkStatus a) (gd_PhysicalLinkStatus b),
        gd_TR064State := mergeState (gd_TR064State a) (gd_TR064State b) (gd_TR064Found a \<or> gd_TR064Found b),
        gd_SNMPState := mergeState (gd_SNMPState a) (gd_SNMPState b) False,
        gd_MACVendor := firstNonEmpty (gd_MACVendor a) (gd_MACVendor b),
        gd_CPEModelGuess := firstNonEmpty (gd_CPEModelGuess a) (gd_CPEModelGuess b),
        gd_Model := firstNonEmpty (gd_Model a) (gd_Model b),
        gd_Manufacturer := firstNonEmpty (gd_Manufacturer a) (gd_Manufacturer b),
        gd_FingerprintID := firstNonEmpty (gd_FingerprintID a) (gd_FingerprintID b),
        gd_Layer1UpstreamMaxBitRate := max (gd_Layer1UpstreamMaxBitRate a) (gd_Layer1UpstreamMaxBitRate b),
        gd_Layer1DownstreamMaxBitRate :=
          max (gd_Layer1DownstreamMaxBitRate a) (gd_Layer1DownstreamMaxBitRate b),
        gd_TLSCertSANs := appendUniqueStrings (gd_TLSCertSANs a) (gd_TLSCertSANs b),
        gd_LoginLabels := appendUniqueStrings (gd_LoginLabels a) (gd_LoginLabels b),
        gd_AccessEvidence := appendUniqueGatewayAccessEvidence (gd_AccessEvidence a) (gd_AccessEvidence b),
        gd_AccessHints := appendUniqueStrings (gd_AccessHints a) (gd_AccessHints b),
        gd_PhysicalHints := appendUniqueStrings (gd_PhysicalHints a) (gd_PhysicalHints b),
        gd_Notes := appendUniqueStrings (gd_Notes a) (gd_Notes b),
        gd_TR064Services := appendUniqueStrings (gd_TR064Services a) (gd_TR064Services b),
        gd_FailedAttempts := appendUniqueProbeAttempts (gd_FailedAttempts a) (gd_FailedAttempts b),
        gd_EvidenceIDs := appendUniqueStrings (gd_EvidenceIDs a) (gd_EvidenceIDs b),
        gd_DeviceConfidence := maxFloat (gd_DeviceConfidence a) (gd_DeviceConfidence b),
        gd_AccessConfidence := maxFloat (gd_AccessConfidence a) (gd_AccessConfidence b),
        gd_Confidence := maxFloat (gd_Confidence a) (gd_Confidence b)\<rparr>"

definition mergeGatewayDevice :: "GatewayDevice \<Rightarrow> GatewayDevice \<Rightarrow> GatewayDevice" where
  "mergeGatewayDevice a b =
     normalizeGatewayDevice (join_devices (normalizeGatewayDevice a) (normalizeGatewayDevice b))"

text \<open>The loop state of \<open>MergeGatewayDevices\<close>: the map, the order of its keys, the devices without IP.\<close>

type_synonym merge_state =
  "(string \<rightharpoonup> GatewayDevice) \<times> string list \<times> GatewayDevice list"

fun merge_device_step :: "GatewayDevice \<Rightarrow> merge_state \<Rightarrow> merge_state" where
  "merge_device_step d (byIP, order, ipless) =
     (if gd_IP d = [] then (byIP, order, ipless @ [d])
      else case byIP (gd_IP d) of
        None \<Rightarrow> (byIP(gd_IP d \<mapsto> normalizeGatewayDevice d), order @ [gd_IP d], ipless)
      | Some existing \<Rightarrow> (byIP(gd_IP d \<mapsto> mergeGatewayDevice existing d), order, ipless))"

definition MergeGatewayDevices :: "GatewayDevice list \<Rightarrow> GatewayDevice list" where
  "MergeGatewayDevices devices =
     (let (byIP, order, ipless) = fold merge_device_step devices (Map.empty, [], [])
      in map (\<lambda>ip. the (byIP ip)) order @ ipless)"

lemmas [go_defs] = nul_join_def append_by_def appendUniqueInts_def appendUniqueStrings_def
  http_key_def appendUniqueHTTPObservations_def tls_key_def appendUniqueTLSObservations_def
  access_key_def appendUniqueGatewayAccessEvidence_def attempt_key_def
  appendUniqueProbeAttempts_def firstNonEmpty_def maxFloat_def gatewayRolePriority_def boolState_def
  mergeReachableState_def mergeState_def normalizeGatewayDevice_def join_devices_def
  mergeGatewayDevice_def
  MergeGatewayDevices_def

end
