(* ===== verification/Keyed_Merge.thy ===== *)
theory Keyed_Merge
  imports Tmap_Prelude
begin

text \<open>
  Observations of the same thing are merged by a key in several places of the agent: a Go map
  from keys to merged values with a slice of the keys in the order of their first observation.
  The fold is defined here once; the locale \<open>keyed_merge\<close> states what the merge of two values
  must satisfy, and what then holds of the whole.
\<close>

type_synonym ('k, 'd) keyed = "('k \<rightharpoonup> 'd) \<times> 'k list"

fun keyed_step ::
  "('d \<Rightarrow> 'k) \<Rightarrow> ('d \<Rightarrow> 'd) \<Rightarrow> ('d \<Rightarrow> 'd \<Rightarrow> 'd) \<Rightarrow> 'd \<Rightarrow> ('k, 'd) keyed \<Rightarrow> ('k, 'd) keyed" where
  "keyed_step key norm merge d (m, order) =
     (case m (key d) of
        None \<Rightarrow> (m(key d \<mapsto> norm d), order @ [key d])
      | Some e \<Rightarrow> (m(key d \<mapsto> merge e d), order))"

definition keyed_fold ::
  "('d \<Rightarrow> 'k) \<Rightarrow> ('d \<Rightarrow> 'd) \<Rightarrow> ('d \<Rightarrow> 'd \<Rightarrow> 'd) \<Rightarrow> 'd list \<Rightarrow> ('k, 'd) keyed" where
  "keyed_fold key norm merge ds = fold (keyed_step key norm merge) ds (Map.empty, [])"

definition keyed_values :: "('k, 'd) keyed \<Rightarrow> 'd list" where
  "keyed_values s = map (\<lambda>k. the (fst s k)) (snd s)"

definition first_keys :: "'k list \<Rightarrow> 'k list" where
  "first_keys ks = fold (\<lambda>k acc. append_new acc k) ks []"

lemma set_fold_append_new: "set (fold (\<lambda>k acc. append_new acc k) ks acc) = set acc \<union> set ks"
  by (induction ks arbitrary: acc) auto

lemma distinct_fold_append_new:
  "distinct acc \<Longrightarrow> distinct (fold (\<lambda>k acc. append_new acc k) ks acc)"
  by (induction ks arbitrary: acc) auto

lemma fold_append_new_distinct:
  "distinct (acc @ ks) \<Longrightarrow> fold (\<lambda>k acc. append_new acc k) ks acc = acc @ ks"
  by (induction ks arbitrary: acc) (auto simp: append_new_def)

lemma set_first_keys [simp]: "set (first_keys ks) = set ks"
  by (simp add: first_keys_def set_fold_append_new)

lemma distinct_first_keys [simp]: "distinct (first_keys ks)"
  by (simp add: first_keys_def distinct_fold_append_new)

lemma first_keys_id [simp]: "distinct ks \<Longrightarrow> first_keys ks = ks"
  by (simp add: first_keys_def fold_append_new_distinct)

locale keyed_merge =
  fixes key :: "'d \<Rightarrow> 'k"
    and norm :: "'d \<Rightarrow> 'd"
    and merge :: "'d \<Rightarrow> 'd \<Rightarrow> 'd"
    and le :: "'d \<Rightarrow> 'd \<Rightarrow> bool"
  assumes key_norm: "key (norm d) = key d"
    and key_merge: "key (merge a b) = key a"
    and le_refl: "le a a"
    and le_trans: "le a b \<Longrightarrow> le b c \<Longrightarrow> le a c"
    and le_norm: "le d (norm d)"
    and le_merge1: "le a (merge a b)"
    and le_merge2: "le b (merge a b)"
    and norm_norm: "norm (norm d) = norm d"
    and norm_merge: "norm (merge a b) = merge a b"
begin

definition ok :: "('k, 'd) keyed \<Rightarrow> bool" where
  "ok s \<longleftrightarrow> distinct (snd s) \<and> dom (fst s) = set (snd s) \<and>
     (\<forall>k d. fst s k = Some d \<longrightarrow> key d = k \<and> norm d = d)"

lemma merged_step: "ok s \<Longrightarrow> ok (keyed_step key norm merge d s)"
  by (cases s) (auto simp: ok_def key_norm norm_norm key_merge norm_merge split: option.splits)

lemma merged_fold: "ok s \<Longrightarrow> ok (fold (keyed_step key norm merge) ds s)"
  by (induction ds arbitrary: s) (simp_all add: merged_step)

lemma ok_empty: "ok (Map.empty, [])"
  by (simp add: ok_def)

lemma ok_keyed_fold: "ok (keyed_fold key norm merge ds)"
  unfolding keyed_fold_def by (intro merged_fold ok_empty)

lemma step_keys: "ok s \<Longrightarrow> snd (keyed_step key norm merge d s) = append_new (snd s) (key d)"
  by (cases s) (auto simp: ok_def append_new_def split: option.splits)

lemma fold_keys:
  "ok s \<Longrightarrow> snd (fold (keyed_step key norm merge) ds s) =
     fold (\<lambda>k acc. append_new acc k) (map key ds) (snd s)"
  by (induction ds arbitrary: s) (simp_all add: merged_step step_keys)

lemma keys_of_fold: "snd (keyed_fold key norm merge ds) = first_keys (map key ds)"
  using fold_keys [OF ok_empty, of ds] by (simp add: keyed_fold_def first_keys_def)

lemma map_key_values: "ok s \<Longrightarrow> map key (keyed_values s) = snd s"
  by (force simp: ok_def keyed_values_def intro!: map_idI)

lemma set_keyed_values: "ok s \<Longrightarrow> set (keyed_values s) = ran (fst s)"
proof -
  assume "ok s"
  then have "set (keyed_values s) = (\<lambda>k. the (fst s k)) ` dom (fst s)"
    by (simp add: keyed_values_def ok_def)
  also have "\<dots> = ran (fst s)"
    by (force simp: ran_def dom_def image_iff)
  finally show ?thesis .
qed

text \<open>What is known of a key is never lost by a step, and the new observation is kept.\<close>

lemma step_keeps:
  "fst s k = Some e \<Longrightarrow> \<exists>e'. fst (keyed_step key norm merge d s) k = Some e' \<and> le e e'"
  by (cases s) (auto simp: le_refl le_merge1 split: option.splits)

lemma step_adds: "\<exists>e. fst (keyed_step key norm merge d s) (key d) = Some e \<and> le d e"
  by (cases s) (auto simp: le_norm le_merge2 split: option.splits)

lemma fold_keeps:
  "fst s k = Some e \<Longrightarrow> \<exists>e'. fst (fold (keyed_step key norm merge) ds s) k = Some e' \<and> le e e'"
proof (induction ds arbitrary: s e)
  case Nil
  then show ?case by (auto intro: le_refl)
next
  case (Cons d ds)
  obtain e1 where "fst (keyed_step key norm merge d s) k = Some e1" "le e e1"
    using step_keeps [OF Cons.prems] by blast
  then show ?case
    using Cons.IH [of "keyed_step key norm merge d s" e1] le_trans by auto
qed

lemma fold_adds:
  "d \<in> set ds \<Longrightarrow> \<exists>e. fst (fold (keyed_step key norm merge) ds s) (key d) = Some e \<and> le d e"
proof (induction ds arbitrary: s)
  case (Cons x ds)
  show ?case
  proof (cases "d = x")
    case True
    obtain e where e: "fst (keyed_step key norm merge d s) (key d) = Some e" "le d e"
      using step_adds by blast
    then show ?thesis
      using fold_keeps [OF e(1), of ds] True le_trans by auto
  next
    case False
    then show ?thesis using Cons by auto
  qed
qed simp

lemma values_keep:
  assumes "d \<in> set ds"
  shows "\<exists>e \<in> set (keyed_values (keyed_fold key norm merge ds)). key e = key d \<and> le d e"
proof -
  let ?s = "keyed_fold key norm merge ds"
  obtain e where e: "fst ?s (key d) = Some e" "le d e"
    using fold_adds [OF assms] unfolding keyed_fold_def by blast
  moreover have "ok ?s" by (rule ok_keyed_fold)
  ultimately show ?thesis
    by (auto simp: set_keyed_values ran_def ok_def)
qed

lemma map_key_fold: "map key (keyed_values (keyed_fold key norm merge ds)) = first_keys (map key ds)"
  by (simp add: map_key_values ok_keyed_fold keys_of_fold)

lemma norm_values: "e \<in> set (keyed_values (keyed_fold key norm merge ds)) \<Longrightarrow> norm e = e"
  using ok_keyed_fold [of ds] by (auto simp: set_keyed_values ok_def ran_def)

text \<open>A list with distinct keys is only normalised, so merging twice is merging once.\<close>

lemma fold_distinct:
  "distinct (snd s @ map key ds) \<Longrightarrow> ok s \<Longrightarrow>
   keyed_values (fold (keyed_step key norm merge) ds s) = keyed_values s @ map norm ds"
proof (induction ds arbitrary: s)
  case (Cons d ds)
  obtain m order where s: "s = (m, order)" by (cases s)
  have new: "m (key d) = None"
    using Cons.prems s by (auto simp: ok_def dom_def)
  let ?s = "keyed_step key norm merge d s"
  have "keyed_values ?s = keyed_values s @ [norm d]"
    using Cons.prems s new by (auto simp: keyed_values_def)
  moreover have "ok ?s" "distinct (snd ?s @ map key ds)"
    using Cons.prems merged_step [of s d] s new by auto
  ultimately show ?case
    using Cons.IH [of ?s] by simp
qed simp

lemma keyed_fold_distinct:
  "distinct (map key ds) \<Longrightarrow> keyed_values (keyed_fold key norm merge ds) = map norm ds"
  using fold_distinct [OF _ ok_empty, of ds] by (simp add: keyed_fold_def keyed_values_def)

lemma keyed_fold_idem:
  "keyed_values (keyed_fold key norm merge (keyed_values (keyed_fold key norm merge ds))) =
   keyed_values (keyed_fold key norm merge ds)"
proof -
  let ?vs = "keyed_values (keyed_fold key norm merge ds)"
  have "distinct (map key ?vs)" by (simp add: map_key_fold)
  then have "keyed_values (keyed_fold key norm merge ?vs) = map norm ?vs"
    by (rule keyed_fold_distinct)
  also have "\<dots> = ?vs"
    by (rule map_idI) (rule norm_values)
  finally show ?thesis .
qed

end

text \<open>
  A merge that goes with a relation between the observations of a key, in their order, and what is kept
  of them: the relation then holds of every key of the map.
\<close>

locale keyed_summary =
  fixes key :: "'d \<Rightarrow> 'k"
    and norm :: "'d \<Rightarrow> 'd"
    and merge :: "'d \<Rightarrow> 'd \<Rightarrow> 'd"
    and represents :: "'d list \<Rightarrow> 'd \<Rightarrow> bool"
  assumes represents_first: "represents [d] (norm d)"
    and represents_next: "represents ds e \<Longrightarrow> represents (ds @ [d]) (merge e d)"
begin

lemma fold_represents:
  "case fst (keyed_fold key norm merge ds) k of
     None \<Rightarrow> filter (\<lambda>d. key d = k) ds = []
   | Some e \<Rightarrow> represents (filter (\<lambda>d. key d = k) ds) e"
proof (induction ds rule: rev_induct)
  case (snoc d ds)
  obtain m order where s: "keyed_fold key norm merge ds = (m, order)" by fastforce
  then have next_fold: "keyed_fold key norm merge (ds @ [d]) = keyed_step key norm merge d (m, order)"
    by (simp add: keyed_fold_def)
  show ?case
    using snoc represents_first [of d] represents_next [of "filter (\<lambda>d. key d = k) ds"]
    unfolding next_fold by (auto simp: s split: option.splits)
qed (simp add: keyed_fold_def)

end

end
