(* ===== verification/Gateway_Merge_Laws.thy ===== *)
theory Gateway_Merge_Laws
  imports Gateway_Merge Keyed_Merge
begin

text \<open>
  What merging gateway devices keeps. \<open>evidence_kept d m\<close> says that \<open>m\<close> holds every positive
  observation of \<open>d\<close>; it is a preorder with respect to which \<open>mergeGatewayDevice\<close> is an upper
  bound of its arguments, so the locale \<open>keyed_merge\<close> applies.
\<close>

section \<open>The observations of a device\<close>

definition gd_flags :: "(GatewayDevice \<Rightarrow> bool) list" where
  "gd_flags = [gd_Reachable, gd_UPnPFound, gd_UPnPIGDFound, gd_WANCommonInterfaceFound, gd_TR064Found,
     gd_TR064AuthRequired]"

definition gd_texts :: "(GatewayDevice \<Rightarrow> string) list" where
  "gd_texts = [gd_HTTPTitle, gd_ServerHeader, gd_WWWAuthenticate, gd_FaviconHash, gd_WWWAuthRealm,
     gd_RedirectPath, gd_RedirectLocation, gd_TLSCertCN, gd_TLSCertIssuer, gd_TLSServerName,
     gd_HTMLMetaGenerator, gd_WANAccessType, gd_PhysicalLinkStatus, gd_MACVendor, gd_CPEModelGuess,
     gd_Model, gd_Manufacturer, gd_FingerprintID]"

definition gd_lists :: "(GatewayDevice \<Rightarrow> string list) list" where
  "gd_lists = [gd_TLSCertSANs, gd_LoginLabels, gd_TR064Services, gd_AccessHints, gd_PhysicalHints,
     gd_Notes, gd_EvidenceIDs]"

definition gd_numbers :: "(GatewayDevice \<Rightarrow> float64) list" where
  "gd_numbers = [gd_DeviceConfidence, gd_AccessConfidence, gd_Confidence]"

definition gd_keys :: "(GatewayDevice \<Rightarrow> string set) list" where
  "gd_keys = [\<lambda>d. http_key ` set (gd_HTTPObservations d), \<lambda>d. tls_key ` set (gd_TLSObservations d),
     \<lambda>d. access_key ` set (gd_AccessEvidence d), \<lambda>d. attempt_key ` set (gd_FailedAttempts d)]"

definition evidence_kept :: "GatewayDevice \<Rightarrow> GatewayDevice \<Rightarrow> bool" where
  "evidence_kept d m \<longleftrightarrow>
     list_all (\<lambda>f. f d \<longrightarrow> f m) gd_flags \<and>
     list_all (\<lambda>f. trim_space (f d) \<noteq> [] \<longrightarrow> trim_space (f m) \<noteq> []) gd_texts \<and>
     list_all (\<lambda>f. trim_space ` set (f d) - {[]} \<subseteq> trim_space ` set (f m)) gd_lists \<and>
     list_all (\<lambda>f. f d \<le> f m) gd_numbers \<and>
     list_all (\<lambda>f. f d \<subseteq> f m) gd_keys \<and>
     set (gd_OpenPorts d) - {0} \<subseteq> set (gd_OpenPorts m) \<and>
     gd_Layer1UpstreamMaxBitRate d \<le> gd_Layer1UpstreamMaxBitRate m \<and>
     gd_Layer1DownstreamMaxBitRate d \<le> gd_Layer1DownstreamMaxBitRate m"

lemmas gd_fields = gd_flags_def gd_texts_def gd_lists_def gd_numbers_def gd_keys_def

lemma evidence_kept_refl [simp]: "evidence_kept d d"
  by (auto simp: evidence_kept_def list_all_iff)

lemma list_all_trans:
  assumes "list_all (\<lambda>f. R f a b) fs" "list_all (\<lambda>f. R f b c) fs"
    and "\<And>f. R f a b \<Longrightarrow> R f b c \<Longrightarrow> R f a c"
  shows "list_all (\<lambda>f. R f a c) fs"
  using assms by (induction fs) simp_all

lemma evidence_kept_trans:
  assumes ab: "evidence_kept a b" and bc: "evidence_kept b c"
  shows "evidence_kept a c"
  unfolding evidence_kept_def
proof (intro conjI)
  note ab = ab [unfolded evidence_kept_def] and bc = bc [unfolded evidence_kept_def]
  show "list_all (\<lambda>f. f a \<longrightarrow> f c) gd_flags"
    by (rule list_all_trans [of "\<lambda>f a b. f a \<longrightarrow> f b" a b _ c]) (use ab bc in blast)+
  show "list_all (\<lambda>f. trim_space (f a) \<noteq> [] \<longrightarrow> trim_space (f c) \<noteq> []) gd_texts"
    by (rule list_all_trans [of "\<lambda>f a b. trim_space (f a) \<noteq> [] \<longrightarrow> trim_space (f b) \<noteq> []" a b _ c])
      (use ab bc in blast)+
  show "list_all (\<lambda>f. trim_space ` set (f a) - {[]} \<subseteq> trim_space ` set (f c)) gd_lists"
    by (rule list_all_trans [of "\<lambda>f a b. trim_space ` set (f a) - {[]} \<subseteq> trim_space ` set (f b)" a b _ c])
      (use ab bc in blast)+
  show "list_all (\<lambda>f. f a \<le> f c) gd_numbers"
    by (rule list_all_trans [of "\<lambda>f a b. f a \<le> f b" a b _ c]) (use ab bc in \<open>blast intro: order_trans\<close>)+
  show "list_all (\<lambda>f. f a \<subseteq> f c) gd_keys"
    by (rule list_all_trans [of "\<lambda>f a b. f a \<subseteq> f b" a b _ c]) (use ab bc in blast)+
  show "set (gd_OpenPorts a) - {0} \<subseteq> set (gd_OpenPorts c)"
    using ab bc by blast
  show "gd_Layer1UpstreamMaxBitRate a \<le> gd_Layer1UpstreamMaxBitRate c"
      "gd_Layer1DownstreamMaxBitRate a \<le> gd_Layer1DownstreamMaxBitRate c"
    using ab bc by linarith+
qed

section \<open>The merges of single values\<close>

lemma set_append_by: "key ` set (append_by key s vs) = key ` set s \<union> key ` set vs"
  unfolding append_by_def
proof (induction vs arbitrary: s)
  case (Cons v vs)
  show ?case
    using Cons [of s] Cons [of "s @ [v]"] by (auto simp: list_ex_iff image_iff) metis+
qed simp

lemma set_appendUniqueStrings: "set (appendUniqueStrings s vs) = set s \<union> (set vs - {[]})"
  unfolding appendUniqueStrings_def by (induction vs arbitrary: s) auto

lemma set_appendUniqueInts: "set (appendUniqueInts s vs) = set s \<union> (set vs - {0})"
  unfolding appendUniqueInts_def by (induction vs arbitrary: s) auto

lemma image_trim_appendUniqueStrings:
  "trim_space ` set (appendUniqueStrings s vs) \<supseteq> trim_space ` set s \<union> (trim_space ` set vs - {[]})"
  by (auto simp: set_appendUniqueStrings)

lemma firstNonEmpty_kept:
  "trim_space a \<noteq> [] \<Longrightarrow> trim_space (firstNonEmpty a b) \<noteq> []"
  "trim_space b \<noteq> [] \<Longrightarrow> trim_space (firstNonEmpty a b) \<noteq> []"
  by (auto simp: firstNonEmpty_def)

lemma maxFloat_eq_max: "maxFloat a b = max a b"
  by (simp add: maxFloat_def max_def)

lemmas merge_values = set_append_by image_trim_appendUniqueStrings set_appendUniqueInts
  firstNonEmpty_kept maxFloat_eq_max appendUniqueHTTPObservations_def
  appendUniqueTLSObservations_def appendUniqueGatewayAccessEvidence_def
  appendUniqueProbeAttempts_def

section \<open>Normalising and joining devices\<close>

lemma normalizeGatewayDevice_kept: "evidence_kept d (normalizeGatewayDevice d)"
  by (auto simp: evidence_kept_def gd_fields normalizeGatewayDevice_def)

lemma IP_normalizeGatewayDevice [simp]: "gd_IP (normalizeGatewayDevice d) = gd_IP d"
  by (simp add: normalizeGatewayDevice_def)

lemma IP_mergeGatewayDevice [simp]: "gd_IP (mergeGatewayDevice a b) = gd_IP a"
  by (simp add: mergeGatewayDevice_def join_devices_def)

lemma join_devices_kept: "evidence_kept a (join_devices a b)" "evidence_kept b (join_devices a b)"
proof -
  show "evidence_kept a (join_devices a b)"
    unfolding evidence_kept_def gd_fields join_devices_def
    by (simp add: merge_values) (auto simp: set_appendUniqueStrings)
  show "evidence_kept b (join_devices a b)"
    unfolding evidence_kept_def gd_fields join_devices_def
    by (simp add: merge_values) (auto simp: set_appendUniqueStrings)
qed

lemma normalizeGatewayDevice_idem [simp]:
  "normalizeGatewayDevice (normalizeGatewayDevice d) = normalizeGatewayDevice d"
  by (simp add: normalizeGatewayDevice_def ReachableTrue_def ReachableUnknown_def boolState_def)

section \<open>Merging a list of devices\<close>

definition gateway_kept :: "GatewayDevice \<Rightarrow> GatewayDevice \<Rightarrow> bool" where
  "gateway_kept d m \<longleftrightarrow>
     evidence_kept d m \<and> gatewayRolePriority (gd_Role d) \<le> gatewayRolePriority (gd_Role m)"

lemma role_normalizeGatewayDevice [simp]: "gd_Role (normalizeGatewayDevice d) = gd_Role d"
  by (simp add: normalizeGatewayDevice_def)

lemma role_mergeGatewayDevice:
  "gatewayRolePriority (gd_Role (mergeGatewayDevice a b)) =
     max (gatewayRolePriority (gd_Role a)) (gatewayRolePriority (gd_Role b))"
  by (simp add: mergeGatewayDevice_def join_devices_def)

lemma mergeGatewayDevice_kept:
  "evidence_kept a (mergeGatewayDevice a b)" "evidence_kept b (mergeGatewayDevice a b)"
  unfolding mergeGatewayDevice_def
  by (rule evidence_kept_trans [OF normalizeGatewayDevice_kept
        evidence_kept_trans [OF join_devices_kept(1) normalizeGatewayDevice_kept]],
      rule evidence_kept_trans [OF normalizeGatewayDevice_kept
        evidence_kept_trans [OF join_devices_kept(2) normalizeGatewayDevice_kept]])

interpretation gateway: keyed_merge gd_IP normalizeGatewayDevice mergeGatewayDevice gateway_kept
proof
  fix a b c :: GatewayDevice
  show "gateway_kept a b \<Longrightarrow> gateway_kept b c \<Longrightarrow> gateway_kept a c"
    by (auto simp: gateway_kept_def intro: evidence_kept_trans)
  show "gateway_kept a (mergeGatewayDevice a b)" "gateway_kept b (mergeGatewayDevice a b)"
    by (simp_all add: gateway_kept_def mergeGatewayDevice_kept role_mergeGatewayDevice)
  show "normalizeGatewayDevice (mergeGatewayDevice a b) = mergeGatewayDevice a b"
    by (simp add: mergeGatewayDevice_def)
qed (simp_all add: gateway_kept_def normalizeGatewayDevice_kept)

lemma merge_device_fold:
  "fold merge_device_step ds (m, order, ipless) =
     (let (m', order') = fold (keyed_step gd_IP normalizeGatewayDevice mergeGatewayDevice)
                           (filter (\<lambda>d. gd_IP d \<noteq> []) ds) (m, order)
      in (m', order', ipless @ filter (\<lambda>d. gd_IP d = []) ds))"
  by (induction ds arbitrary: m order ipless) (auto split: option.splits prod.splits)

lemma MergeGatewayDevices_eq:
  "MergeGatewayDevices ds =
     keyed_values (keyed_fold gd_IP normalizeGatewayDevice mergeGatewayDevice
       (filter (\<lambda>d. gd_IP d \<noteq> []) ds)) @ filter (\<lambda>d. gd_IP d = []) ds"
  by (simp add: MergeGatewayDevices_def merge_device_fold keyed_fold_def keyed_values_def split_beta)

lemma filter_split:
  assumes "\<And>e. e \<in> set vs \<Longrightarrow> f e \<noteq> z"
  shows "filter (\<lambda>d. f d \<noteq> z) (vs @ filter (\<lambda>d. f d = z) ds) = vs"
    and "filter (\<lambda>d. f d = z) (vs @ filter (\<lambda>d. f d = z) ds) = filter (\<lambda>d. f d = z) ds"
  using assms by (auto simp: filter_id_conv filter_empty_conv)

section \<open>The merged device as a function of the observations of its IP\<close>

text \<open>The texts but the guess of the model, which \<open>normalizeGatewayDevice\<close> may derive.\<close>

definition gd_plain_texts :: "(GatewayDevice \<Rightarrow> string) list" where
  "gd_plain_texts = [gd_HTTPTitle, gd_ServerHeader, gd_WWWAuthenticate, gd_FaviconHash, gd_WWWAuthRealm,
     gd_RedirectPath, gd_RedirectLocation, gd_TLSCertCN, gd_TLSCertIssuer, gd_TLSServerName,
     gd_HTMLMetaGenerator, gd_WANAccessType, gd_PhysicalLinkStatus, gd_MACVendor, gd_Model,
     gd_Manufacturer, gd_FingerprintID]"

definition model_guess :: "GatewayDevice \<Rightarrow> string" where
  "model_guess d =
     (if gd_CPEModelGuess d = [] then trim_space (str_join [gd_Manufacturer d, gd_Model d] '' '') else gd_CPEModelGuess d)"

definition first_said :: "(GatewayDevice \<Rightarrow> string) \<Rightarrow> GatewayDevice list \<Rightarrow> string option" where
  "first_said f ds = find (\<lambda>t. trim_space t \<noteq> []) (map f ds)"

lemma blank_iff: "trim_space s = [] \<longleftrightarrow> (\<forall>c \<in> set s. is_space c)"
proof -
  have left: "trim_left P s = [] \<longleftrightarrow> (\<forall>c \<in> set s. P c)" for P and s :: string
    by (induction s) auto
  have "trim_space s = [] \<longleftrightarrow> (\<forall>c \<in> set (trim_left is_space s). is_space c)"
    by (simp add: trim_space_def trim_func_def left)
  also have "\<dots> \<longleftrightarrow> trim_left is_space s = []"
    using trim_left_hd [of is_space s] by (cases "trim_left is_space s") auto
  finally show ?thesis unfolding left .
qed

lemma blank_join: "trim_space (str_join [a, b] '' '') = [] \<longleftrightarrow> trim_space a = [] \<and> trim_space b = []"
proof -
  have "is_space (CHR '' '')" by code_simp
  then show ?thesis by (auto simp: blank_iff)
qed

definition guess_odd :: "GatewayDevice \<Rightarrow> bool" where
  "guess_odd d \<longleftrightarrow> gd_CPEModelGuess d \<noteq> [] \<and> trim_space (gd_CPEModelGuess d) = []"

lemma guess_blank:
  assumes "\<not> guess_odd d" "trim_space (model_guess d) = []"
  shows "model_guess d = []" "gd_CPEModelGuess d = []" "trim_space (gd_Manufacturer d) = []" "trim_space (gd_Model d) = []"
proof -
  show g: "gd_CPEModelGuess d = []" using assms by (auto simp: guess_odd_def model_guess_def split: if_splits)
  then have "trim_space (str_join [gd_Manufacturer d, gd_Model d] '' '') = []"
    using assms(2) by (simp only: model_guess_def if_True simp_thms trim_space_idem)
  then show "model_guess d = []" "trim_space (gd_Manufacturer d) = []" "trim_space (gd_Model d) = []"
    using g blank_join by (simp_all add: model_guess_def del: str_join.simps)
qed

text \<open>The guess of the model is exact unless a device reports a guess of blanks only.\<close>

definition guess_merged :: "GatewayDevice list \<Rightarrow> string \<Rightarrow> bool" where
  "guess_merged ds s \<longleftrightarrow>
     (if list_ex guess_odd ds then True
      else case first_said model_guess ds of Some t \<Rightarrow> s = t | None \<Rightarrow> s = [])"

definition is_largest :: "(GatewayDevice \<Rightarrow> 'a :: linorder) \<Rightarrow> GatewayDevice list \<Rightarrow> GatewayDevice \<Rightarrow> bool" where
  "is_largest f ds e \<longleftrightarrow> f e \<in> f ` set ds \<and> (\<forall>d \<in> set ds. f d \<le> f e)"

text \<open>Of the observations with one key, the first.\<close>

definition firsts_of :: "('a \<Rightarrow> string) \<Rightarrow> (GatewayDevice \<Rightarrow> 'a list) \<Rightarrow> GatewayDevice list \<Rightarrow> GatewayDevice \<Rightarrow> bool" where
  "firsts_of key f ds e \<longleftrightarrow>
     set (f e) \<subseteq> set (concat (map f ds)) \<and>
     (\<forall>k. find (\<lambda>x. key x = k) (f e) = find (\<lambda>x. key x = k) (concat (map f ds)))"

text \<open>The state of a protocol as each device reports it.\<close>

definition upnp_state :: "GatewayDevice \<Rightarrow> string" where
  "upnp_state d = (if gd_UPnPState d \<noteq> [] then gd_UPnPState d else if gd_UPnPFound d then ''found'' else ''not_found'')"

definition tr064_state :: "GatewayDevice \<Rightarrow> string" where
  "tr064_state d =
     (if gd_TR064State d \<noteq> [] then gd_TR064State d
      else if gd_TR064Found d then ''found''
      else if gd_TR064AuthRequired d then ''auth_required'' else ''not_found'')"

definition snmp_state :: "GatewayDevice \<Rightarrow> string" where
  "snmp_state d = (if gd_SNMPState d \<noteq> [] then gd_SNMPState d else ''not_probed'')"

text \<open>Of several states the last that says something, or the first if none does.\<close>

definition last_telling :: "(GatewayDevice \<Rightarrow> string) \<Rightarrow> GatewayDevice list \<Rightarrow> string" where
  "last_telling st ds =
     (case find (\<lambda>s. s \<noteq> ''not_found'' \<and> s \<noteq> ''not_probed'') (rev (map st ds)) of Some s \<Rightarrow> s | None \<Rightarrow> st (hd ds))"

definition reachable_merged :: "GatewayDevice list \<Rightarrow> string \<Rightarrow> bool" where
  "reachable_merged ds s \<longleftrightarrow>
     (if list_ex (\<lambda>d. gd_Reachable d \<or> gd_ReachableState d = ReachableTrue) ds then s = ReachableTrue
      else if list_ex (\<lambda>d. gd_ReachableState d = ReachableFalse) ds then s = ReachableFalse
      else s \<noteq> [] \<and> s \<noteq> ReachableTrue \<and> s \<noteq> ReachableFalse)"

definition states_merged :: "GatewayDevice list \<Rightarrow> GatewayDevice \<Rightarrow> bool" where
  "states_merged ds e \<longleftrightarrow>
     gd_UPnPState e = (if length ds > 1 \<and> list_ex gd_UPnPFound ds then ''found'' else last_telling upnp_state ds) \<and>
     gd_TR064State e = (if length ds > 1 \<and> list_ex gd_TR064Found ds then ''found'' else last_telling tr064_state ds) \<and>
     gd_SNMPState e = last_telling snmp_state ds \<and>
     reachable_merged ds (gd_ReachableState e)"

definition merged_from :: "GatewayDevice list \<Rightarrow> GatewayDevice \<Rightarrow> bool" where
  "merged_from ds e \<longleftrightarrow> ds \<noteq> [] \<and>
     list_all (\<lambda>f. f e \<longleftrightarrow> list_ex f ds) gd_flags \<and>
     list_all (\<lambda>f. case first_said f ds of Some t \<Rightarrow> f e = t | None \<Rightarrow> trim_space (f e) = []) gd_plain_texts \<and>
     guess_merged ds (gd_CPEModelGuess e) \<and>
     list_all (\<lambda>f. set (f e) - {[]} = set (concat (map f ds)) - {[]}) gd_lists \<and>
     set (gd_OpenPorts e) - {0} = set (concat (map gd_OpenPorts ds)) - {0} \<and>
     list_all (\<lambda>f. is_largest f ds e) gd_numbers \<and>
     is_largest gd_Layer1UpstreamMaxBitRate ds e \<and> is_largest gd_Layer1DownstreamMaxBitRate ds e \<and>
     gd_Role e \<in> gd_Role ` set ds \<and> (\<forall>d \<in> set ds. gatewayRolePriority (gd_Role d) \<le> gatewayRolePriority (gd_Role e)) \<and>
     firsts_of http_key gd_HTTPObservations ds e \<and> firsts_of tls_key gd_TLSObservations ds e \<and>
     firsts_of access_key gd_AccessEvidence ds e \<and> firsts_of attempt_key gd_FailedAttempts ds e \<and>
     states_merged ds e"

lemma find_append: "find P (xs @ ys) = (case find P xs of Some x \<Rightarrow> Some x | None \<Rightarrow> find P ys)"
  by (induction xs) simp_all

lemma find_append_by: "find (\<lambda>x. key x = k) (append_by key s vs) = find (\<lambda>x. key x = k) (s @ vs)"
  unfolding append_by_def
proof (induction vs arbitrary: s)
  case (Cons v vs)
  show ?case
  proof (cases "list_ex (\<lambda>e. key e = key v) s")
    case True
    then obtain e where e: "e \<in> set s" "key e = key v" by (auto simp: list_ex_iff)
    then have "find (\<lambda>x. key x = k) s \<noteq> None" if "key v = k" using that by (auto simp: find_None_iff)
    then show ?thesis using Cons.IH [of s] True by (auto simp: find_append split: option.split)
  next
    case False
    then show ?thesis using Cons.IH [of "s @ [v]"] by simp
  qed
qed simp

lemma append_by_subset: "set (append_by key s vs) \<subseteq> set s \<union> set vs"
  unfolding append_by_def
proof (induction vs arbitrary: s)
  case (Cons v vs)
  show ?case using Cons.IH [of s] Cons.IH [of "s @ [v]"] by auto
qed simp

lemma firsts_of_next:
  assumes "firsts_of key f ds e" "f e' = append_by key (f e) (f d)"
  shows "firsts_of key f (ds @ [d]) e'"
  using assms append_by_subset [of key "f e" "f d"] unfolding firsts_of_def
  by (auto simp: find_append_by find_append)

lemma first_said_next:
  assumes "case first_said f ds of Some t \<Rightarrow> g e = t | None \<Rightarrow> trim_space (g e) = []"
    "g e' = firstNonEmpty (g e) (f d)"
  shows "case first_said f (ds @ [d]) of Some t \<Rightarrow> g e' = t | None \<Rightarrow> trim_space (g e') = []"
proof (cases "first_said f ds")
  case (Some t)
  then have "trim_space t \<noteq> []" by (auto simp: first_said_def find_Some_iff)
  then show ?thesis using assms Some by (simp add: first_said_def find_append firstNonEmpty_def)
next
  case None
  then show ?thesis using assms by (simp add: first_said_def find_append firstNonEmpty_def)
qed

lemma is_largest_next:
  "is_largest f ds e \<Longrightarrow> f e' = max (f e) (f d) \<Longrightarrow> is_largest f (ds @ [d]) e'"
  by (auto simp: is_largest_def max_def)

lemma last_telling_next:
  "ds \<noteq> [] \<Longrightarrow> last_telling st (ds @ [d]) =
     (if st d = ''not_found'' \<or> st d = ''not_probed'' then last_telling st ds else st d)"
  by (cases ds) (auto simp: last_telling_def split: option.split)

lemma last_telling_nonempty:
  assumes "ds \<noteq> []" "\<And>d. st d \<noteq> []" shows "last_telling st ds \<noteq> []"
proof (cases "find (\<lambda>s. s \<noteq> ''not_found'' \<and> s \<noteq> ''not_probed'') (rev (map st ds))")
  case (Some s)
  then have "s \<in> st ` set ds" by (auto simp: find_Some_iff) (metis in_set_conv_nth image_eqI length_rev nth_mem rev_map set_map set_rev length_map)
  then show ?thesis using Some assms(2) by (auto simp: last_telling_def)
qed (simp add: last_telling_def assms(2))

lemma model_guess_normalize: "gd_CPEModelGuess (normalizeGatewayDevice d) = model_guess d"
  by (simp add: normalizeGatewayDevice_def model_guess_def)

lemma normalize_states:
  "gd_UPnPState (normalizeGatewayDevice d) = upnp_state d"
  "gd_TR064State (normalizeGatewayDevice d) = tr064_state d"
  "gd_SNMPState (normalizeGatewayDevice d) = snmp_state d"
  by (simp_all add: normalizeGatewayDevice_def upnp_state_def tr064_state_def snmp_state_def boolState_def)

lemma states_nonempty: "upnp_state d \<noteq> []" "tr064_state d \<noteq> []" "snmp_state d \<noteq> []"
  by (simp_all add: upnp_state_def tr064_state_def snmp_state_def)

lemma reachable_values: "ReachableTrue \<noteq> ReachableFalse" "ReachableUnknown \<noteq> ReachableTrue"
  "ReachableUnknown \<noteq> ReachableFalse" "ReachableTrue \<noteq> []" "ReachableFalse \<noteq> []" "ReachableUnknown \<noteq> []"
  by (simp_all add: ReachableTrue_def ReachableFalse_def ReachableUnknown_def)

definition reachable_state :: "GatewayDevice \<Rightarrow> string" where
  "reachable_state d =
     (if gd_Reachable d then ReachableTrue
      else if gd_ReachableState d = [] then ReachableUnknown else gd_ReachableState d)"

lemma reachable_first: "reachable_merged [d] (reachable_state d)"
  using reachable_values by (simp add: reachable_merged_def reachable_state_def)

lemma reachable_next:
  assumes "reachable_merged ds s"
  shows "reachable_merged (ds @ [d]) (mergeReachableState s (reachable_state d))"
  using assms reachable_values
  by (cases "list_ex (\<lambda>d. gd_Reachable d \<or> gd_ReachableState d = ReachableTrue) ds";
      cases "list_ex (\<lambda>d. gd_ReachableState d = ReachableFalse) ds";
      cases "gd_Reachable d"; cases "gd_ReachableState d = ReachableTrue"; cases "gd_ReachableState d = ReachableFalse")
    (auto simp: reachable_merged_def reachable_state_def mergeReachableState_def)

lemma normalize_same:
  "list_all (\<lambda>f. f (normalizeGatewayDevice d) = f d) gd_flags"
  "list_all (\<lambda>f. f (normalizeGatewayDevice d) = f d) gd_plain_texts"
  "list_all (\<lambda>f. f (normalizeGatewayDevice d) = f d) gd_lists"
  "list_all (\<lambda>f. f (normalizeGatewayDevice d) = f d) gd_numbers"
  "gd_OpenPorts (normalizeGatewayDevice d) = gd_OpenPorts d"
  "gd_Layer1UpstreamMaxBitRate (normalizeGatewayDevice d) = gd_Layer1UpstreamMaxBitRate d"
  "gd_Layer1DownstreamMaxBitRate (normalizeGatewayDevice d) = gd_Layer1DownstreamMaxBitRate d"
  "gd_HTTPObservations (normalizeGatewayDevice d) = gd_HTTPObservations d"
  "gd_TLSObservations (normalizeGatewayDevice d) = gd_TLSObservations d"
  "gd_AccessEvidence (normalizeGatewayDevice d) = gd_AccessEvidence d"
  "gd_FailedAttempts (normalizeGatewayDevice d) = gd_FailedAttempts d"
  "gd_ReachableState (normalizeGatewayDevice d) = reachable_state d"
  unfolding gd_flags_def gd_plain_texts_def gd_lists_def gd_numbers_def normalizeGatewayDevice_def reachable_state_def
  by simp_all

lemma list_all_use: "list_all P fs \<Longrightarrow> (\<And>f. P f \<Longrightarrow> Q f) \<Longrightarrow> list_all Q fs"
  by (auto simp: list_all_iff)

lemma list_all_use2: "list_all P fs \<Longrightarrow> list_all P' fs \<Longrightarrow> (\<And>f. P f \<Longrightarrow> P' f \<Longrightarrow> Q f) \<Longrightarrow> list_all Q fs"
  by (auto simp: list_all_iff)

lemma merged_first: "merged_from [d] (normalizeGatewayDevice d)"
  unfolding merged_from_def
proof (intro conjI)
  show "list_all (\<lambda>f. f (normalizeGatewayDevice d) \<longleftrightarrow> list_ex f [d]) gd_flags"
    by (rule list_all_use [OF normalize_same(1) [of d]]) simp
  show "list_all (\<lambda>f. case first_said f [d] of Some t \<Rightarrow> f (normalizeGatewayDevice d) = t
      | None \<Rightarrow> trim_space (f (normalizeGatewayDevice d)) = []) gd_plain_texts"
    by (rule list_all_use [OF normalize_same(2) [of d]]) (simp add: first_said_def)
  show "guess_merged [d] (gd_CPEModelGuess (normalizeGatewayDevice d))"
    using guess_blank(1) by (simp add: guess_merged_def first_said_def model_guess_normalize)
  show "list_all (\<lambda>f. set (f (normalizeGatewayDevice d)) - {[]} = set (concat (map f [d])) - {[]}) gd_lists"
    by (rule list_all_use [OF normalize_same(3) [of d]]) simp
  show "list_all (\<lambda>f. is_largest f [d] (normalizeGatewayDevice d)) gd_numbers"
    by (rule list_all_use [OF normalize_same(4) [of d]]) (simp add: is_largest_def)
  show "states_merged [d] (normalizeGatewayDevice d)"
    by (simp add: states_merged_def last_telling_def normalize_states normalize_same reachable_first)
qed (simp_all add: normalize_same is_largest_def firsts_of_def)

text \<open>A merge is a join of normalised devices, and the second normalisation changes no state.\<close>

lemma merge_same:
  "list_all (\<lambda>f. f (mergeGatewayDevice a b) \<longleftrightarrow> f a \<or> f b) gd_flags"
  "list_all (\<lambda>f. f (mergeGatewayDevice a b) = firstNonEmpty (f a) (f b)) gd_plain_texts"
  "list_all (\<lambda>f. f (mergeGatewayDevice a b) = appendUniqueStrings (f a) (f b)) gd_lists"
  "list_all (\<lambda>f. f (mergeGatewayDevice a b) = max (f a) (f b)) gd_numbers"
  "gd_OpenPorts (mergeGatewayDevice a b) = appendUniqueInts (gd_OpenPorts a) (gd_OpenPorts b)"
  "gd_Layer1UpstreamMaxBitRate (mergeGatewayDevice a b) = max (gd_Layer1UpstreamMaxBitRate a) (gd_Layer1UpstreamMaxBitRate b)"
  "gd_Layer1DownstreamMaxBitRate (mergeGatewayDevice a b) = max (gd_Layer1DownstreamMaxBitRate a) (gd_Layer1DownstreamMaxBitRate b)"
  "gd_HTTPObservations (mergeGatewayDevice a b) = append_by http_key (gd_HTTPObservations a) (gd_HTTPObservations b)"
  "gd_TLSObservations (mergeGatewayDevice a b) = append_by tls_key (gd_TLSObservations a) (gd_TLSObservations b)"
  "gd_AccessEvidence (mergeGatewayDevice a b) = append_by access_key (gd_AccessEvidence a) (gd_AccessEvidence b)"
  "gd_FailedAttempts (mergeGatewayDevice a b) = append_by attempt_key (gd_FailedAttempts a) (gd_FailedAttempts b)"
  "gd_Role (mergeGatewayDevice a b) =
     (if gatewayRolePriority (gd_Role b) > gatewayRolePriority (gd_Role a) then gd_Role b else gd_Role a)"
proof -
  note all = mergeGatewayDevice_def join_devices_def normalizeGatewayDevice_def maxFloat_eq_max
    appendUniqueHTTPObservations_def appendUniqueTLSObservations_def appendUniqueGatewayAccessEvidence_def
    appendUniqueProbeAttempts_def
  show "list_all (\<lambda>f. f (mergeGatewayDevice a b) \<longleftrightarrow> f a \<or> f b) gd_flags"
    unfolding gd_flags_def all by simp
  show "list_all (\<lambda>f. f (mergeGatewayDevice a b) = firstNonEmpty (f a) (f b)) gd_plain_texts"
    unfolding gd_plain_texts_def all by simp
  show "list_all (\<lambda>f. f (mergeGatewayDevice a b) = appendUniqueStrings (f a) (f b)) gd_lists"
    unfolding gd_lists_def all by simp
  show "list_all (\<lambda>f. f (mergeGatewayDevice a b) = max (f a) (f b)) gd_numbers"
    unfolding gd_numbers_def all by simp
qed (simp_all add: mergeGatewayDevice_def join_devices_def normalizeGatewayDevice_def
    appendUniqueHTTPObservations_def appendUniqueTLSObservations_def appendUniqueGatewayAccessEvidence_def
    appendUniqueProbeAttempts_def)

lemma guess_next:
  assumes e: "guess_merged ds (gd_CPEModelGuess e)"
    and texts: "list_all (\<lambda>f. case first_said f ds of Some t \<Rightarrow> f e = t | None \<Rightarrow> trim_space (f e) = []) gd_plain_texts"
  shows "guess_merged (ds @ [d]) (gd_CPEModelGuess (mergeGatewayDevice e d))"
proof (cases "list_ex guess_odd (ds @ [d])")
  case False
  define g where "g = firstNonEmpty (model_guess e) (model_guess d)"
  define man where "man = firstNonEmpty (gd_Manufacturer e) (gd_Manufacturer d)"
  define model where "model = firstNonEmpty (gd_Model e) (gd_Model d)"
  have m: "gd_CPEModelGuess (mergeGatewayDevice e d) = (if g = [] then trim_space (str_join [man, model] '' '') else g)"
    by (simp add: mergeGatewayDevice_def join_devices_def normalizeGatewayDevice_def g_def model_guess_def man_def model_def
        del: str_join.simps)
  show ?thesis
  proof (cases "first_said model_guess ds")
    case (Some t)
    then have t: "trim_space t \<noteq> []" by (auto simp: first_said_def find_Some_iff)
    then have "gd_CPEModelGuess e = t" "t \<noteq> []" using e Some False by (auto simp: guess_merged_def)
    then have "g = t" using t by (simp add: g_def firstNonEmpty_def model_guess_def)
    then show ?thesis using m Some \<open>t \<noteq> []\<close> by (simp add: guess_merged_def first_said_def find_append)
  next
    case None
    have blank: "trim_space (model_guess x) = []" if "x \<in> set ds" for x
      using None that by (auto simp: first_said_def find_None_iff)
    then have "first_said gd_Manufacturer ds = None" "first_said gd_Model ds = None"
      using guess_blank False by (auto simp: first_said_def find_None_iff list_ex_iff)
    then have e0: "trim_space (gd_Manufacturer e) = []" "trim_space (gd_Model e) = []"
      using texts by (simp_all add: gd_plain_texts_def)
    have "gd_CPEModelGuess e = []" using e None False by (simp add: guess_merged_def)
    then have "model_guess e = trim_space (str_join [gd_Manufacturer e, gd_Model e] '' '')" by (simp add: model_guess_def)
    then have "model_guess e = []" using e0 blank_join by simp
    then have g: "g = model_guess d" by (simp add: g_def firstNonEmpty_def)
    show ?thesis
    proof (cases "trim_space (model_guess d) = []")
      case True
      have d: "\<not> guess_odd d" using False by simp
      have "trim_space (str_join [man, model] '' '') = []"
        using e0 guess_blank(3,4) [OF d True] unfolding blank_join man_def model_def firstNonEmpty_def by simp
      then show ?thesis using m g guess_blank(1) [OF d True] None True
        by (simp add: guess_merged_def first_said_def find_append)
    next
      case nonblank: False
      then have "model_guess d \<noteq> []" by auto
      then show ?thesis using m g None nonblank by (simp add: guess_merged_def first_said_def find_append)
    qed
  qed
qed (simp add: guess_merged_def)

lemma merge_states:
  assumes "gd_UPnPState e \<noteq> []" "gd_TR064State e \<noteq> []" "gd_SNMPState e \<noteq> []" "reachable_merged ds (gd_ReachableState e)"
    "gd_Reachable e \<longleftrightarrow> list_ex gd_Reachable ds"
  shows "gd_UPnPState (mergeGatewayDevice e d) = mergeState (gd_UPnPState e) (upnp_state d) (gd_UPnPFound e \<or> gd_UPnPFound d)"
    "gd_TR064State (mergeGatewayDevice e d) = mergeState (gd_TR064State e) (tr064_state d) (gd_TR064Found e \<or> gd_TR064Found d)"
    "gd_SNMPState (mergeGatewayDevice e d) = mergeState (gd_SNMPState e) (snmp_state d) False"
    "gd_ReachableState (mergeGatewayDevice e d) = mergeReachableState (gd_ReachableState e) (reachable_state d)"
proof -
  have own: "upnp_state e = gd_UPnPState e" "tr064_state e = gd_TR064State e" "snmp_state e = gd_SNMPState e"
    using assms(1-3) by (simp_all add: upnp_state_def tr064_state_def snmp_state_def)
  have kept: "mergeState s (st d) found \<noteq> []" if "s \<noteq> []" for s st found
    using that by (simp add: mergeState_def)
  have states: "gd_UPnPState (mergeGatewayDevice e d) = (let s = mergeState (upnp_state e) (upnp_state d) (gd_UPnPFound e \<or> gd_UPnPFound d)
        in if s = [] then boolState (gd_UPnPFound e \<or> gd_UPnPFound d) else s)"
    "gd_SNMPState (mergeGatewayDevice e d) = (let s = mergeState (snmp_state e) (snmp_state d) False
        in if s = [] then ''not_probed'' else s)"
    unfolding normalize_states [symmetric]
    by (simp_all add: mergeGatewayDevice_def join_devices_def normalizeGatewayDevice_def Let_def)
  show "gd_UPnPState (mergeGatewayDevice e d) = mergeState (gd_UPnPState e) (upnp_state d) (gd_UPnPFound e \<or> gd_UPnPFound d)"
    "gd_SNMPState (mergeGatewayDevice e d) = mergeState (gd_SNMPState e) (snmp_state d) False"
    using kept assms(1,3) unfolding states own by simp_all
  have "gd_TR064State (mergeGatewayDevice e d) = tr064_state (join_devices (normalizeGatewayDevice e) (normalizeGatewayDevice d))"
    by (simp only: mergeGatewayDevice_def normalize_states)
  moreover have "gd_TR064State (join_devices (normalizeGatewayDevice e) (normalizeGatewayDevice d)) =
      mergeState (tr064_state e) (tr064_state d) (gd_TR064Found e \<or> gd_TR064Found d)"
    unfolding normalize_states [symmetric] by (simp add: join_devices_def normalizeGatewayDevice_def)
  ultimately show "gd_TR064State (mergeGatewayDevice e d) = mergeState (gd_TR064State e) (tr064_state d) (gd_TR064Found e \<or> gd_TR064Found d)"
    using kept assms(2) unfolding own by (simp add: tr064_state_def [of "join_devices _ _"])
  have "reachable_state e = gd_ReachableState e"
    using assms(4,5) reachable_values
    by (cases "list_ex gd_Reachable ds") (auto simp: reachable_merged_def reachable_state_def list_ex_iff split: if_splits)
  moreover have "gd_ReachableState (mergeGatewayDevice e d) =
      reachable_state (join_devices (normalizeGatewayDevice e) (normalizeGatewayDevice d))"
    by (simp only: mergeGatewayDevice_def normalize_same)
  moreover have "gd_ReachableState (join_devices (normalizeGatewayDevice e) (normalizeGatewayDevice d)) =
      mergeReachableState (reachable_state e) (reachable_state d)"
    unfolding normalize_same(12) [symmetric] by (simp add: join_devices_def)
  moreover have "gd_Reachable (join_devices (normalizeGatewayDevice e) (normalizeGatewayDevice d)) \<longleftrightarrow>
      gd_Reachable e \<or> gd_Reachable d"
    by (simp add: join_devices_def normalizeGatewayDevice_def)
  ultimately show "gd_ReachableState (mergeGatewayDevice e d) = mergeReachableState (gd_ReachableState e) (reachable_state d)"
    using reachable_values
    by (simp add: reachable_state_def [of "join_devices _ _"]) (auto simp: mergeReachableState_def reachable_state_def)
qed

lemma found_next:
  assumes "s = (if length ds > 1 \<and> list_ex found ds then ''found'' else last_telling st ds)" "ds \<noteq> []"
    "found e \<longleftrightarrow> list_ex found ds" "\<And>d. st d \<noteq> []" "s' = mergeState s (st d) (found e \<or> found d)"
  shows "s' = (if length (ds @ [d]) > 1 \<and> list_ex found (ds @ [d]) then ''found'' else last_telling st (ds @ [d]))"
  using assms last_telling_nonempty [of ds st] by (auto simp: mergeState_def last_telling_next)

lemma states_next:
  assumes "states_merged ds e" "ds \<noteq> []" "list_all (\<lambda>f. f e \<longleftrightarrow> list_ex f ds) gd_flags"
  shows "states_merged (ds @ [d]) (mergeGatewayDevice e d)"
proof -
  have flags: "gd_Reachable e \<longleftrightarrow> list_ex gd_Reachable ds" "gd_UPnPFound e \<longleftrightarrow> list_ex gd_UPnPFound ds"
    "gd_TR064Found e \<longleftrightarrow> list_ex gd_TR064Found ds"
    using assms(3) by (simp_all add: gd_flags_def)
  note tell = last_telling_nonempty [OF assms(2), of upnp_state] last_telling_nonempty [OF assms(2), of tr064_state]
    last_telling_nonempty [OF assms(2), of snmp_state]
  have e: "gd_UPnPState e = (if length ds > 1 \<and> list_ex gd_UPnPFound ds then ''found'' else last_telling upnp_state ds)"
    "gd_TR064State e = (if length ds > 1 \<and> list_ex gd_TR064Found ds then ''found'' else last_telling tr064_state ds)"
    "gd_SNMPState e = last_telling snmp_state ds" "reachable_merged ds (gd_ReachableState e)"
    using assms(1) by (simp_all add: states_merged_def)
  have ne: "gd_UPnPState e \<noteq> []" "gd_TR064State e \<noteq> []" "gd_SNMPState e \<noteq> []"
    using tell states_nonempty unfolding e(1-3) by auto
  note m = merge_states [OF ne e(4) flags(1), of d]
  have "gd_SNMPState (mergeGatewayDevice e d) = last_telling snmp_state (ds @ [d])"
    using tell(3) states_nonempty(3) assms(2) by (simp add: m(3) e(3) mergeState_def last_telling_next)
  then show ?thesis
    unfolding states_merged_def
    using found_next [OF e(1) assms(2) flags(2) states_nonempty(1) m(1)]
      found_next [OF e(2) assms(2) flags(3) states_nonempty(2) m(2)] reachable_next [OF e(4)] m(4) by simp
qed

lemma merged_next:
  assumes "merged_from ds e"
  shows "merged_from (ds @ [d]) (mergeGatewayDevice e d)"
  unfolding merged_from_def
proof (intro conjI)
  note from_ds = assms [unfolded merged_from_def]
  show "list_all (\<lambda>f. f (mergeGatewayDevice e d) \<longleftrightarrow> list_ex f (ds @ [d])) gd_flags"
    by (rule list_all_use2 [OF merge_same(1) [of e d], of "\<lambda>f. f e \<longleftrightarrow> list_ex f ds"]) (use from_ds in simp_all)
  show "list_all (\<lambda>f. case first_said f (ds @ [d]) of Some t \<Rightarrow> f (mergeGatewayDevice e d) = t
      | None \<Rightarrow> trim_space (f (mergeGatewayDevice e d)) = []) gd_plain_texts"
    by (rule list_all_use2 [OF merge_same(2) [of e d],
          of "\<lambda>f. case first_said f ds of Some t \<Rightarrow> f e = t | None \<Rightarrow> trim_space (f e) = []"])
      (use from_ds in blast, rule first_said_next)
  show "guess_merged (ds @ [d]) (gd_CPEModelGuess (mergeGatewayDevice e d))"
    using guess_next from_ds by blast
  show "list_all (\<lambda>f. set (f (mergeGatewayDevice e d)) - {[]} = set (concat (map f (ds @ [d]))) - {[]}) gd_lists"
    by (rule list_all_use2 [OF merge_same(3) [of e d], of "\<lambda>f. set (f e) - {[]} = set (concat (map f ds)) - {[]}"])
      (use from_ds in blast, auto simp: set_appendUniqueStrings)
  show "set (gd_OpenPorts (mergeGatewayDevice e d)) - {0} = set (concat (map gd_OpenPorts (ds @ [d]))) - {0}"
    using from_ds by (auto simp: merge_same set_appendUniqueInts)
  show "list_all (\<lambda>f. is_largest f (ds @ [d]) (mergeGatewayDevice e d)) gd_numbers"
    by (rule list_all_use2 [OF merge_same(4) [of e d], of "\<lambda>f. is_largest f ds e"])
      (use from_ds is_largest_next in blast)+
  show "is_largest gd_Layer1UpstreamMaxBitRate (ds @ [d]) (mergeGatewayDevice e d)"
    "is_largest gd_Layer1DownstreamMaxBitRate (ds @ [d]) (mergeGatewayDevice e d)"
    using from_ds is_largest_next [where f = gd_Layer1UpstreamMaxBitRate, OF _ merge_same(6)]
      is_largest_next [where f = gd_Layer1DownstreamMaxBitRate, OF _ merge_same(7)] by simp_all
  show "gd_Role (mergeGatewayDevice e d) \<in> gd_Role ` set (ds @ [d])"
    "\<forall>x \<in> set (ds @ [d]). gatewayRolePriority (gd_Role x) \<le> gatewayRolePriority (gd_Role (mergeGatewayDevice e d))"
    using from_ds unfolding merge_same(12) by auto
  show "firsts_of http_key gd_HTTPObservations (ds @ [d]) (mergeGatewayDevice e d)"
    "firsts_of tls_key gd_TLSObservations (ds @ [d]) (mergeGatewayDevice e d)"
    "firsts_of access_key gd_AccessEvidence (ds @ [d]) (mergeGatewayDevice e d)"
    "firsts_of attempt_key gd_FailedAttempts (ds @ [d]) (mergeGatewayDevice e d)"
    using from_ds firsts_of_next [where f = gd_HTTPObservations, OF _ merge_same(8)]
      firsts_of_next [where f = gd_TLSObservations, OF _ merge_same(9)]
      firsts_of_next [where f = gd_AccessEvidence, OF _ merge_same(10)]
      firsts_of_next [where f = gd_FailedAttempts, OF _ merge_same(11)] by simp_all
  show "states_merged (ds @ [d]) (mergeGatewayDevice e d)"
    using states_next from_ds by blast
qed simp

interpretation gateway_summary: keyed_summary gd_IP normalizeGatewayDevice mergeGatewayDevice merged_from
  by unfold_locales (rule merged_first, rule merged_next)


text \<open>
  The merged list has one device per IP, in the order in which the IPs were first seen, and
  after them the devices without an IP as they came; merging the result again changes nothing.
\<close>

theorem merge_once_per_IP:
  "map gd_IP (MergeGatewayDevices ds) =
     first_keys (filter (\<lambda>ip. ip \<noteq> []) (map gd_IP ds)) @ filter (\<lambda>ip. ip = []) (map gd_IP ds) \<and>
   MergeGatewayDevices (MergeGatewayDevices ds) = MergeGatewayDevices ds"
proof
  show "map gd_IP (MergeGatewayDevices ds) =
     first_keys (filter (\<lambda>ip. ip \<noteq> []) (map gd_IP ds)) @ filter (\<lambda>ip. ip = []) (map gd_IP ds)"
    by (simp add: MergeGatewayDevices_eq gateway.map_key_fold filter_map o_def)
  let ?vs = "keyed_values (keyed_fold gd_IP normalizeGatewayDevice mergeGatewayDevice
       (filter (\<lambda>d. gd_IP d \<noteq> []) ds))"
  have eq: "set (map gd_IP ?vs) = set (map gd_IP (filter (\<lambda>d. gd_IP d \<noteq> []) ds))"
    unfolding gateway.map_key_fold by simp
  have ne: "gd_IP e \<noteq> []" if "e \<in> set ?vs" for e
  proof -
    have "gd_IP e \<in> set (map gd_IP ?vs)" using that by simp
    then show ?thesis unfolding eq by auto
  qed
  let ?rest = "filter (\<lambda>d. gd_IP d = []) ds"
  have a: "filter (\<lambda>d. gd_IP d \<noteq> []) (?vs @ ?rest) = ?vs"
    using ne by (rule filter_split)
  have b: "filter (\<lambda>d. gd_IP d = []) (?vs @ ?rest) = ?rest"
    using ne by (rule filter_split)
  show "MergeGatewayDevices (MergeGatewayDevices ds) = MergeGatewayDevices ds"
    unfolding MergeGatewayDevices_eq [of ds] MergeGatewayDevices_eq [of "?vs @ ?rest"] a b
      gateway.keyed_fold_idem ..
qed

end
