(* ===== verification/Modem_Store.thy ===== *)
theory Modem_Store
  imports Gateway_Merge_Laws Go_Net
begin

text \<open>
  \<open>agent/internal/modemcollector\<close>: the store the modem collector merges gateway devices in
  (\<open>store.go\<close>), its helpers (\<open>util.go\<close>) and the selection of candidate modems
  (\<open>candidates.go\<close>). Helpers with a namesake in the package \<open>detection\<close> have the prefix \<open>mc_\<close>.
\<close>

section \<open>Helpers\<close>

definition TriTrue :: string where "TriTrue = ''true''"
definition TriFalse :: string where "TriFalse = ''false''"
definition TriUnknown :: string where "TriUnknown = ''unknown''"

definition mc_stripCIDR :: "string \<Rightarrow> string" where
  "mc_stripCIDR s = (case index_byte s CHR ''/'' of Some i \<Rightarrow> take i s | None \<Rightarrow> s)"

definition isRFC1918 :: "string \<Rightarrow> bool" where
  "isRFC1918 ip =
     (case parse_ip (mc_stripCIDR ip) of
        None \<Rightarrow> False
      | Some parsed \<Rightarrow>
          (case to4 parsed of
             None \<Rightarrow> False
           | Some v4 \<Rightarrow>
               v4 ! 0 = 10 \<or> (v4 ! 0 = 172 \<and> 16 \<le> v4 ! 1 \<and> v4 ! 1 \<le> 31) \<or>
               (v4 ! 0 = 192 \<and> v4 ! 1 = 168)))"

definition isExcludedIP :: "string \<Rightarrow> string \<Rightarrow> bool" where
  "isExcludedIP ip agentIP =
     (case parse_ip (mc_stripCIDR ip) of
        None \<Rightarrow> True
      | Some parsed \<Rightarrow>
          (agentIP \<noteq> [] \<and> mc_stripCIDR ip = mc_stripCIDR agentIP) \<or>
          is_loopback parsed \<or> is_multicast parsed)"

definition triFromBool :: "bool \<Rightarrow> string" where
  "triFromBool ok = (if ok then TriTrue else TriUnknown)"

definition triFromString :: "string \<Rightarrow> string" where
  "triFromString s =
     (let t = to_lower (trim_space s)
      in if t = ''true'' \<or> t = ''found'' \<or> t = ''reachable'' then TriTrue
         else if t = ''false'' \<or> t = ''not_found'' \<or> t = ''absent'' then TriFalse
         else TriUnknown)"

definition mc_appendUniqueStrings :: "string list \<Rightarrow> string list \<Rightarrow> string list" where
  "mc_appendUniqueStrings s values =
     fold (\<lambda>v s. let t = trim_space v in if t = [] then s else append_new s t) values s"

definition mc_appendUniqueInts :: "int list \<Rightarrow> int list \<Rightarrow> int list" where
  "mc_appendUniqueInts s values = fold (\<lambda>v s. if v = 0 then s else append_new s v) values s"

definition appendUniqueHTTP ::
  "HTTPObservation list \<Rightarrow> HTTPObservation list \<Rightarrow> HTTPObservation list" where
  "appendUniqueHTTP s values = append_by http_key s values"

definition appendUniqueTLS :: "TLSObservation list \<Rightarrow> TLSObservation list \<Rightarrow> TLSObservation list" where
  "appendUniqueTLS s values = append_by tls_key s values"

definition appendUniqueAttempts :: "ProbeAttempt list \<Rightarrow> ProbeAttempt list \<Rightarrow> ProbeAttempt list" where
  "appendUniqueAttempts s values = append_by attempt_key s values"

definition appendUniqueAccess ::
  "GatewayAccessEvidence list \<Rightarrow> GatewayAccessEvidence list \<Rightarrow> GatewayAccessEvidence list" where
  "appendUniqueAccess s values = append_by access_key s values"

definition mc_firstNonEmpty :: "string \<Rightarrow> string \<Rightarrow> string" where
  "mc_firstNonEmpty a b = (if trim_space a \<noteq> [] then a else b)"

definition mc_max :: "float64 \<Rightarrow> float64 \<Rightarrow> float64" where
  "mc_max a b = (if b > a then b else a)"

definition rolePriority :: "string \<Rightarrow> int" where
  "rolePriority role =
     (if role = ''possible_cpe'' \<or> role = ''possible_modem'' \<or> role = ''possible_modem_or_ont'' then 5
      else if role = ''upstream_private_gateway'' then 4
      else if role = ''internet_gateway_device'' \<or> role = ''cpe_management_endpoint'' then 4
      else if role = ''default_gateway'' then 3
      else 1)"

definition sourceList :: "string list \<Rightarrow> string list" where
  "sourceList values = fold (\<lambda>v out. mc_appendUniqueStrings out [v]) values []"

section \<open>The evidence store\<close>

record Observation =
  ob_ID :: string
  ob_Source :: string
  ob_TargetIP :: string
  ob_Kind :: string
  ob_Strength :: string
  ob_Confidence :: float64
  ob_Value :: any
  ob_Timestamp :: int

record EvidenceStore =
  st_devices :: "string \<rightharpoonup> GatewayDevice"
  st_order :: "string list"
  st_observations :: "Observation list"
  st_conflicts :: "DataConflict list"

definition NewEvidenceStore :: EvidenceStore where
  "NewEvidenceStore = \<lparr>st_devices = Map.empty, st_order = [], st_observations = [], st_conflicts = []\<rparr>"

definition AddObservation :: "Observation \<Rightarrow> EvidenceStore \<Rightarrow> EvidenceStore" where
  "AddObservation obs s =
     (let obs = (if trim_space (ob_ID obs) = [] then
                   obs\<lparr>ob_ID := ob_Source obs @ '':'' @ ob_TargetIP obs @ '':'' @ ob_Kind obs\<rparr>
                 else obs)
      in s\<lparr>st_observations := st_observations s @ [obs]\<rparr>)"

definition AddConflict :: "DataConflict \<Rightarrow> EvidenceStore \<Rightarrow> EvidenceStore" where
  "AddConflict c s = s\<lparr>st_conflicts := st_conflicts s @ [c]\<rparr>"

definition featureState :: "bool \<Rightarrow> string" where
  "featureState found = (if found then TriTrue else TriUnknown)"

definition mergeTriString :: "string \<Rightarrow> string \<Rightarrow> string" where
  "mergeTriString a b =
     (if a = TriTrue \<or> b = TriTrue then TriTrue
      else if a = TriFalse \<or> b = TriFalse then TriFalse
      else TriUnknown)"

definition mergeFeatureState :: "string \<Rightarrow> string \<Rightarrow> bool \<Rightarrow> string" where
  "mergeFeatureState a b found =
     (if found \<or> a = TriTrue \<or> b = TriTrue \<or> a = ''found'' \<or> b = ''found'' then TriTrue
      else if a = TriFalse \<or> b = TriFalse then TriFalse
      else TriUnknown)"

definition normalizeDevice :: "GatewayDevice \<Rightarrow> GatewayDevice" where
  "normalizeDevice d =
     d\<lparr>gd_ReachableState :=
          (if gd_Reachable d then TriTrue
           else if gd_ReachableState d = [] then TriUnknown
           else gd_ReachableState d),
       gd_CPEModelGuess :=
          (if gd_CPEModelGuess d = [] then trim_space (str_join [gd_Manufacturer d, gd_Model d] '' '')
           else gd_CPEModelGuess d),
       gd_UPnPState := (if gd_UPnPState d = [] then featureState (gd_UPnPFound d) else gd_UPnPState d),
       gd_TR064State :=
          (if gd_TR064State d = [] then
             if gd_TR064AuthRequired d \<and> \<not> gd_TR064Found d then ''auth_required''
             else featureState (gd_TR064Found d)
           else gd_TR064State d),
       gd_SNMPState := (if gd_SNMPState d = [] then ''skipped'' else gd_SNMPState d)\<rparr>"

text \<open>The updates of \<open>mergeDevice\<close>, between its two normalisations.\<close>

definition mc_join_devices :: "GatewayDevice \<Rightarrow> GatewayDevice \<Rightarrow> GatewayDevice" where
  "mc_join_devices a b =
     a\<lparr>gd_Role :=
           (if rolePriority (gd_Role b) > rolePriority (gd_Role a) then gd_Role b
            else gd_Role a),
        gd_Reachable := gd_Reachable a \<or> gd_Reachable b,
        gd_ReachableState := mergeTriString (gd_ReachableState a) (gd_ReachableState b),
        gd_UPnPFound := gd_UPnPFound a \<or> gd_UPnPFound b,
        gd_UPnPIGDFound := gd_UPnPIGDFound a \<or> gd_UPnPIGDFound b,
        gd_WANCommonInterfaceFound := gd_WANCommonInterfaceFound a \<or> gd_WANCommonInterfaceFound b,
        gd_TR064Found := gd_TR064Found a \<or> gd_TR064Found b,
        gd_TR064AuthRequired := gd_TR064AuthRequired a \<or> gd_TR064AuthRequired b,
        gd_OpenPorts := mc_appendUniqueInts (gd_OpenPorts a) (gd_OpenPorts b),
        gd_HTTPObservations := appendUniqueHTTP (gd_HTTPObservations a) (gd_HTTPObservations b),
        gd_HTTPTitle := mc_firstNonEmpty (gd_HTTPTitle a) (gd_HTTPTitle b),
        gd_ServerHeader := mc_firstNonEmpty (gd_ServerHeader a) (gd_ServerHeader b),
        gd_WWWAuthenticate := mc_firstNonEmpty (gd_WWWAuthenticate a) (gd_WWWAuthenticate b),
        gd_WWWAuthRealm := mc_firstNonEmpty (gd_WWWAuthRealm a) (gd_WWWAuthRealm b),
        gd_FaviconHash := mc_firstNonEmpty (gd_FaviconHash a) (gd_FaviconHash b),
        gd_TLSObservations := appendUniqueTLS (gd_TLSObservations a) (gd_TLSObservations b),
        gd_TLSCertCN := mc_firstNonEmpty (gd_TLSCertCN a) (gd_TLSCertCN b),
        gd_TLSCertIssuer := mc_firstNonEmpty (gd_TLSCertIssuer a) (gd_TLSCertIssuer b),
        gd_TLSServerName := mc_firstNonEmpty (gd_TLSServerName a) (gd_TLSServerName b),
        gd_RedirectPath := mc_firstNonEmpty (gd_RedirectPath a) (gd_RedirectPath b),
        gd_RedirectLocation := mc_firstNonEmpty (gd_RedirectLocation a) (gd_RedirectLocation b),
        gd_HTMLMetaGenerator := mc_firstNonEmpty (gd_HTMLMetaGenerator a) (gd_HTMLMetaGenerator b),
        gd_UPnPState := mergeFeatureState (gd_UPnPState a) (gd_UPnPState b) (gd_UPnPFound a \<or> gd_UPnPFound b),
        gd_WANAccessType := mc_firstNonEmpty (gd_WANAccessType a) (gd_WANAccessType b),
        gd_PhysicalLinkStatus := mc_firstNonEmpty (gd_PhysicalLinkStatus a) (gd_PhysicalLinkStatus b),
        gd_TR064State := mergeFeatureState (gd_TR064State a) (gd_TR064State b) (gd_TR064Found a \<or> gd_TR064Found b),
        gd_SNMPState := mergeFeatureState (gd_SNMPState a) (gd_SNMPState b) False,
        gd_MACVendor := mc_firstNonEmpty (gd_MACVendor a) (gd_MACVendor b),
        gd_CPEModelGuess := mc_firstNonEmpty (gd_CPEModelGuess a) (gd_CPEModelGuess b),
        gd_Model := mc_firstNonEmpty (gd_Model a) (gd_Model b),
        gd_Manufacturer := mc_firstNonEmpty (gd_Manufacturer a) (gd_Manufacturer b),
        gd_FingerprintID := mc_firstNonEmpty (gd_FingerprintID a) (gd_FingerprintID b),
        gd_Layer1UpstreamMaxBitRate := max (gd_Layer1UpstreamMaxBitRate a) (gd_Layer1UpstreamMaxBitRate b),
        gd_Layer1DownstreamMaxBitRate :=
          max (gd_Layer1DownstreamMaxBitRate a) (gd_Layer1DownstreamMaxBitRate b),
        gd_TLSCertSANs := mc_appendUniqueStrings (gd_TLSCertSANs a) (gd_TLSCertSANs b),
        gd_LoginLabels := mc_appendUniqueStrings (gd_LoginLabels a) (gd_LoginLabels b),
        gd_AccessEvidence := appendUniqueAccess (gd_AccessEvidence a) (gd_AccessEvidence b),
        gd_AccessHints := mc_appendUniqueStrings (gd_AccessHints a) (gd_AccessHints b),
        gd_PhysicalHints := mc_appendUniqueStrings (gd_PhysicalHints a) (gd_PhysicalHints b),
        gd_Notes := mc_appendUniqueStrings (gd_Notes a) (gd_Notes b),
        gd_TR064Services := mc_appendUniqueStrings (gd_TR064Services a) (gd_TR064Services b),
        gd_FailedAttempts := appendUniqueAttempts (gd_FailedAttempts a) (gd_FailedAttempts b),
        gd_EvidenceIDs := mc_appendUniqueStrings (gd_EvidenceIDs a) (gd_EvidenceIDs b),
        gd_DeviceConfidence := mc_max (gd_DeviceConfidence a) (gd_DeviceConfidence b),
        gd_AccessConfidence := mc_max (gd_AccessConfidence a) (gd_AccessConfidence b),
        gd_Confidence := mc_max (gd_Confidence a) (gd_Confidence b)\<rparr>"

definition mergeDevice :: "GatewayDevice \<Rightarrow> GatewayDevice \<Rightarrow> GatewayDevice" where
  "mergeDevice a b = normalizeDevice (mc_join_devices (normalizeDevice a) (normalizeDevice b))"

definition MergeDevice :: "GatewayDevice \<Rightarrow> EvidenceStore \<Rightarrow> EvidenceStore" where
  "MergeDevice d s =
     (if gd_IP d = [] then s
      else
        let d = normalizeDevice d
        in case st_devices s (gd_IP d) of
             None \<Rightarrow> s\<lparr>st_devices := (st_devices s)(gd_IP d \<mapsto> d), st_order := st_order s @ [gd_IP d]\<rparr>
           | Some existing \<Rightarrow> s\<lparr>st_devices := (st_devices s)(gd_IP d \<mapsto> mergeDevice existing d)\<rparr>)"

definition role_before :: "GatewayDevice \<Rightarrow> GatewayDevice \<Rightarrow> bool" where
  "role_before a b \<longleftrightarrow> rolePriority (gd_Role a) > rolePriority (gd_Role b)"

definition Devices :: "EvidenceStore \<Rightarrow> GatewayDevice list" where
  "Devices s = sort_by role_before (map (\<lambda>ip. the (st_devices s ip)) (st_order s))"

section \<open>Candidate modems\<close>

definition roleFromEvidence :: "GatewayDevice \<Rightarrow> string" where
  "roleFromEvidence d =
     (if gd_TR064Found d \<or> gd_TR064AuthRequired d then ''cpe_management_endpoint''
      else if gd_UPnPIGDFound d \<or> gd_WANCommonInterfaceFound d then ''internet_gateway_device''
      else if gd_CPEModelGuess d \<noteq> [] \<or> gd_Model d \<noteq> [] \<or> gd_AccessHints d \<noteq> [] then
        ''possible_modem_or_ont''
      else ''possible_cpe'')"

definition prioritizeCandidates :: "GatewayDevice list \<Rightarrow> GatewayDevice list" where
  "prioritizeCandidates devices =
     map (\<lambda>d. if gd_Role d = ''upstream_private_gateway'' \<and> gd_Confidence d < flit 0.55
              then d\<lparr>gd_Confidence := flit 0.55\<rparr> else d) devices"

record CandidateInput =
  ci_DefaultGateway :: string
  ci_AgentIP :: string
  ci_ChainState :: "GatewayChainState option"
  ci_Devices :: "GatewayDevice list"
  ci_ManualTargets :: "string list"

text \<open>The literal \<open>models.GatewayDevice{IP: ip, Role: role, ...}\<close> of the closure \<open>add\<close>.\<close>

definition candidate_device :: "string \<Rightarrow> string \<Rightarrow> string \<Rightarrow> float64 \<Rightarrow> GatewayDevice" where
  "candidate_device ip role source confidence =
     (gatewayDeviceFromMap [])\<lparr>gd_IP := ip, gd_Role := role, gd_ReachableState := TriUnknown,
        gd_Confidence := confidence, gd_DeviceConfidence := confidence,
        gd_EvidenceIDs := sourceList [source]\<rparr>"

definition candidate_allowed :: "bool \<Rightarrow> string \<Rightarrow> string \<Rightarrow> bool" where
  "candidate_allowed publicAllowed agentIP ip \<longleftrightarrow>
     \<not> (ip = [] \<or> isExcludedIP ip agentIP) \<and> \<not> (\<not> publicAllowed \<and> \<not> isRFC1918 ip)"

definition add_candidate ::
  "bool \<Rightarrow> string \<Rightarrow> string \<times> string \<times> string \<times> float64 \<Rightarrow> EvidenceStore \<Rightarrow> EvidenceStore" where
  "add_candidate publicAllowed agentIP c s =
     (case c of (ip, role, source, confidence) \<Rightarrow>
        if candidate_allowed publicAllowed agentIP ip
        then MergeDevice (candidate_device ip role source confidence) s else s)"

definition chain_targets :: "GatewayChainState option \<Rightarrow> (string \<times> string \<times> string \<times> float64) list" where
  "chain_targets cs =
     (case cs of
        None \<Rightarrow> []
      | Some c \<Rightarrow>
          map (\<lambda>h. (gh_IP h, if gh_Role h = [] then ''upstream_private_gateway'' else gh_Role h,
                    gh_Source h, gc_Confidence c)) (gc_PrivateHops c))"

definition add_device :: "bool \<Rightarrow> string \<Rightarrow> GatewayDevice \<Rightarrow> EvidenceStore \<Rightarrow> EvidenceStore" where
  "add_device publicAllowed agentIP d s =
     (if candidate_allowed publicAllowed agentIP (gd_IP d)
      then MergeDevice (if gd_Role d = [] then d\<lparr>gd_Role := roleFromEvidence d\<rparr> else d) s else s)"

definition candidate_store :: "bool \<Rightarrow> CandidateInput \<Rightarrow> EvidenceStore" where
  "candidate_store publicAllowed inp =
     (let agent = ci_AgentIP inp; add = add_candidate publicAllowed agent;
          s = add (ci_DefaultGateway inp, ''default_gateway'', ''route_table'', flit 0.40) NewEvidenceStore;
          s = fold add (chain_targets (ci_ChainState inp)) s;
          s = fold (\<lambda>ip. add (ip, ''manual_cpe_candidate'', ''manual'', flit 0.35)) (ci_ManualTargets inp) s
      in fold (add_device publicAllowed agent) (ci_Devices inp) s)"

definition CandidateBuilder_Build :: "bool \<Rightarrow> CandidateInput \<Rightarrow> GatewayDevice list" where
  "CandidateBuilder_Build publicAllowed inp =
     prioritizeCandidates (Devices (candidate_store publicAllowed inp))"

lemmas [go_defs] = TriTrue_def TriFalse_def TriUnknown_def mc_stripCIDR_def isRFC1918_def
  isExcludedIP_def triFromBool_def triFromString_def mc_appendUniqueStrings_def mc_appendUniqueInts_def
  appendUniqueHTTP_def appendUniqueTLS_def appendUniqueAttempts_def appendUniqueAccess_def
  mc_firstNonEmpty_def mc_max_def rolePriority_def sourceList_def NewEvidenceStore_def
  AddObservation_def AddConflict_def featureState_def mergeTriString_def mergeFeatureState_def
  normalizeDevice_def mc_join_devices_def mergeDevice_def MergeDevice_def role_before_def Devices_def
  roleFromEvidence_def prioritizeCandidates_def candidate_device_def candidate_allowed_def
  add_candidate_def chain_targets_def add_device_def candidate_store_def CandidateBuilder_Build_def

end
