(* ===== verification/Modem_Laws.thy ===== *)
theory Modem_Laws
  imports Modem_Store
begin

text \<open>
  The laws of the modem collector's store: its merge is an upper bound as the one of the detection
  engine is, the store is the keyed fold of what was merged into it, and the candidates are exactly
  the allowed addresses. The merged feature states lose some values.
\<close>

section \<open>The merge is an upper bound\<close>

lemma set_mc_appendUniqueStrings:
  "set (mc_appendUniqueStrings s vs) = set s \<union> (trim_space ` set vs - {[]})"
  unfolding mc_appendUniqueStrings_def by (induction vs arbitrary: s) (auto simp: Let_def)

lemma image_mc_appendUniqueStrings:
  "trim_space ` set (mc_appendUniqueStrings s vs) = trim_space ` set s \<union> (trim_space ` set vs - {[]})"
proof -
  have "trim_space ` (trim_space ` A - {[]}) = (\<lambda>x. x) ` (trim_space ` A - {[]})" for A
    by (rule image_cong) auto
  then show ?thesis
    by (simp add: set_mc_appendUniqueStrings image_Un)
qed

lemma set_mc_appendUniqueInts: "set (mc_appendUniqueInts s vs) = set s \<union> (set vs - {0})"
  unfolding mc_appendUniqueInts_def by (induction vs arbitrary: s) auto

lemma mc_firstNonEmpty_kept:
  "trim_space a \<noteq> [] \<Longrightarrow> trim_space (mc_firstNonEmpty a b) \<noteq> []"
  "trim_space b \<noteq> [] \<Longrightarrow> trim_space (mc_firstNonEmpty a b) \<noteq> []"
  by (auto simp: mc_firstNonEmpty_def)

lemma mc_max_eq_max: "mc_max a b = max a b"
  by (simp add: mc_max_def max_def)

lemmas mc_merge_values = set_append_by image_mc_appendUniqueStrings set_mc_appendUniqueInts
  mc_firstNonEmpty_kept mc_max_eq_max appendUniqueHTTP_def appendUniqueTLS_def appendUniqueAccess_def
  appendUniqueAttempts_def

lemma normalizeDevice_kept: "evidence_kept d (normalizeDevice d)"
  by (auto simp: evidence_kept_def gd_fields normalizeDevice_def)

lemma mc_join_devices_kept:
  "evidence_kept a (mc_join_devices a b)" "evidence_kept b (mc_join_devices a b)"
proof -
  show "evidence_kept a (mc_join_devices a b)"
    unfolding evidence_kept_def gd_fields mc_join_devices_def
    by (simp add: mc_merge_values, auto?)
  show "evidence_kept b (mc_join_devices a b)"
    unfolding evidence_kept_def gd_fields mc_join_devices_def
    by (simp add: mc_merge_values, auto?)
qed

lemma mergeDevice_kept: "evidence_kept a (mergeDevice a b)" "evidence_kept b (mergeDevice a b)"
  unfolding mergeDevice_def
  by (rule evidence_kept_trans [OF normalizeDevice_kept
        evidence_kept_trans [OF mc_join_devices_kept(1) normalizeDevice_kept]],
      rule evidence_kept_trans [OF normalizeDevice_kept
        evidence_kept_trans [OF mc_join_devices_kept(2) normalizeDevice_kept]])

lemma normalizeDevice_idem [simp]: "normalizeDevice (normalizeDevice d) = normalizeDevice d"
  by (simp add: normalizeDevice_def TriTrue_def TriUnknown_def featureState_def)

lemma mergeDevice_normalize [simp]: "mergeDevice a (normalizeDevice b) = mergeDevice a b"
  by (simp add: mergeDevice_def)

lemma IP_normalizeDevice [simp]: "gd_IP (normalizeDevice d) = gd_IP d"
  by (simp add: normalizeDevice_def)

lemma role_normalizeDevice [simp]: "gd_Role (normalizeDevice d) = gd_Role d"
  by (simp add: normalizeDevice_def)

definition modem_kept :: "GatewayDevice \<Rightarrow> GatewayDevice \<Rightarrow> bool" where
  "modem_kept d m \<longleftrightarrow> evidence_kept d m \<and> rolePriority (gd_Role d) \<le> rolePriority (gd_Role m)"

interpretation modem: keyed_merge gd_IP normalizeDevice mergeDevice modem_kept
proof
  fix a b c :: GatewayDevice
  show "modem_kept a b \<Longrightarrow> modem_kept b c \<Longrightarrow> modem_kept a c"
    by (auto simp: modem_kept_def intro: evidence_kept_trans)
  have "rolePriority (gd_Role (mergeDevice a b)) = max (rolePriority (gd_Role a)) (rolePriority (gd_Role b))"
    by (simp add: mergeDevice_def mc_join_devices_def)
  then show "modem_kept a (mergeDevice a b)" "modem_kept b (mergeDevice a b)"
    by (simp_all add: modem_kept_def mergeDevice_kept)
  show "gd_IP (mergeDevice a b) = gd_IP a"
    by (simp add: mergeDevice_def mc_join_devices_def)
  show "normalizeDevice (mergeDevice a b) = mergeDevice a b"
    by (simp add: mergeDevice_def)
qed (simp_all add: modem_kept_def normalizeDevice_kept)

section \<open>The store is a keyed fold\<close>

definition store_pair :: "EvidenceStore \<Rightarrow> (string, GatewayDevice) keyed" where
  "store_pair s = (st_devices s, st_order s)"

lemma MergeDevice_pair:
  "gd_IP d \<noteq> [] \<Longrightarrow>
   store_pair (MergeDevice d s) = keyed_step gd_IP normalizeDevice mergeDevice d (store_pair s)"
  by (simp add: MergeDevice_def store_pair_def split: option.split)

lemma fold_MergeDevice_pair:
  "list_all (\<lambda>d. gd_IP d \<noteq> []) ds \<Longrightarrow>
   store_pair (fold MergeDevice ds s) =
     fold (keyed_step gd_IP normalizeDevice mergeDevice) ds (store_pair s)"
  by (induction ds arbitrary: s) (simp_all add: MergeDevice_pair)

text \<open>The devices the candidate builder offers to the store, in their order.\<close>

definition offered_candidates :: "CandidateInput \<Rightarrow> GatewayDevice list" where
  "offered_candidates inp =
     map (\<lambda>(ip, role, source, confidence). candidate_device ip role source confidence)
       ((ci_DefaultGateway inp, ''default_gateway'', ''route_table'', flit 0.40) #
        chain_targets (ci_ChainState inp) @
        map (\<lambda>ip. (ip, ''manual_cpe_candidate'', ''manual'', flit 0.35)) (ci_ManualTargets inp)) @
     map (\<lambda>d. if gd_Role d = [] then d\<lparr>gd_Role := roleFromEvidence d\<rparr> else d) (ci_Devices inp)"

definition allowed_candidates :: "bool \<Rightarrow> CandidateInput \<Rightarrow> GatewayDevice list" where
  "allowed_candidates publicAllowed inp =
     filter (\<lambda>d. candidate_allowed publicAllowed (ci_AgentIP inp) (gd_IP d)) (offered_candidates inp)"

lemma IP_candidate_device [simp]: "gd_IP (candidate_device ip role source confidence) = ip"
  by (simp add: candidate_device_def)

lemma fold_add_candidate:
  "fold (add_candidate pub agent) cs s =
     fold MergeDevice (filter (\<lambda>d. candidate_allowed pub agent (gd_IP d))
       (map (\<lambda>(ip, role, source, confidence). candidate_device ip role source confidence) cs)) s"
proof (induction cs arbitrary: s)
  case (Cons c cs)
  obtain ip role source confidence where c: "c = (ip, role, source, confidence)"
    by (cases c)
  show ?case
    by (simp add: c add_candidate_def [of _ _ "(ip, role, source, confidence)"] Cons.IH)
qed simp

lemma fold_add_device:
  "fold (add_device pub agent) ds s =
     fold MergeDevice (filter (\<lambda>d. candidate_allowed pub agent (gd_IP d))
       (map (\<lambda>d. if gd_Role d = [] then d\<lparr>gd_Role := roleFromEvidence d\<rparr> else d) ds)) s"
proof (induction ds arbitrary: s)
  case (Cons d ds)
  show ?case
    by (simp add: add_device_def [of _ _ d] Cons.IH)
qed simp

lemma fold_add_manual:
  "fold (\<lambda>ip. add_candidate pub agent (ip, c)) ips s =
   fold (add_candidate pub agent) (map (\<lambda>ip. (ip, c)) ips) s"
  by (simp add: fold_map o_def)

lemma candidate_store_eq:
  "candidate_store pub inp = fold MergeDevice (allowed_candidates pub inp) NewEvidenceStore"
  by (simp add: candidate_store_def allowed_candidates_def offered_candidates_def fold_add_manual
      fold_add_candidate fold_add_device Let_def add_candidate_def [of _ _ "(_, _)"])

interpretation role_order: weak_order role_before "\<lambda>_. True"
  by standard (auto simp: role_before_def)

lemma allowed_IP: "d \<in> set (allowed_candidates pub inp) \<Longrightarrow> gd_IP d \<noteq> []"
  by (auto simp: allowed_candidates_def candidate_allowed_def)

lemma store_pair_New: "store_pair NewEvidenceStore = (Map.empty, [])"
  by (simp add: store_pair_def NewEvidenceStore_def)

lemma Devices_candidate_store:
  "Devices (candidate_store pub inp) =
     sort_by role_before
       (keyed_values (keyed_fold gd_IP normalizeDevice mergeDevice (allowed_candidates pub inp)))"
proof -
  have "list_all (\<lambda>d. gd_IP d \<noteq> []) (allowed_candidates pub inp)"
    by (simp add: list_all_iff allowed_IP)
  then have "store_pair (candidate_store pub inp) =
      keyed_fold gd_IP normalizeDevice mergeDevice (allowed_candidates pub inp)"
    using store_pair_New by (simp add: candidate_store_eq fold_MergeDevice_pair keyed_fold_def)
  then show ?thesis
    by (metis Devices_def keyed_values_def store_pair_def fst_conv snd_conv)
qed

definition raise_upstream :: "GatewayDevice \<Rightarrow> GatewayDevice" where
  "raise_upstream d =
     (if gd_Role d = ''upstream_private_gateway'' \<and> gd_Confidence d < flit 0.55
      then d\<lparr>gd_Confidence := flit 0.55\<rparr> else d)"

lemma prioritizeCandidates_map: "prioritizeCandidates ds = map raise_upstream ds"
  by (simp add: prioritizeCandidates_def raise_upstream_def)

lemma raise_upstream_simps [simp]:
  "gd_IP (raise_upstream d) = gd_IP d" "gd_Role (raise_upstream d) = gd_Role d"
  by (simp_all add: raise_upstream_def)

lemma raise_upstream_kept: "evidence_kept d (raise_upstream d)"
  by (auto simp: raise_upstream_def evidence_kept_def gd_fields)

text \<open>
  The candidate modems are exactly the addresses of the default gateway, the private hops, the
  manual targets and the observed devices that the scope rules allow (RFC 1918 unless public targets
  are enabled, never the agent itself, a loopback or a multicast address), each once, the most
  specific roles first; and each allowed observation is represented with all of its evidence.
\<close>

theorem candidates_exact:
  "distinct (map gd_IP (CandidateBuilder_Build pub inp)) \<and>
   set (map gd_IP (CandidateBuilder_Build pub inp)) =
     set (filter (candidate_allowed pub (ci_AgentIP inp)) (map gd_IP (offered_candidates inp))) \<and>
   sorted_wrt (\<lambda>a b. rolePriority (gd_Role b) \<le> rolePriority (gd_Role a)) (CandidateBuilder_Build pub inp) \<and>
   list_all (\<lambda>d. list_ex (\<lambda>e. gd_IP e = gd_IP d \<and> modem_kept d e) (CandidateBuilder_Build pub inp))
     (allowed_candidates pub inp)"
proof -
  let ?vs = "keyed_values (keyed_fold gd_IP normalizeDevice mergeDevice (allowed_candidates pub inp))"
  have build: "CandidateBuilder_Build pub inp = map raise_upstream (sort_by role_before ?vs)"
    by (simp add: CandidateBuilder_Build_def Devices_candidate_store prioritizeCandidates_map)
  have ips: "map gd_IP (CandidateBuilder_Build pub inp) = map gd_IP (sort_by role_before ?vs)"
    by (simp add: build)
  have "mset (map gd_IP (sort_by role_before ?vs)) = mset (map gd_IP ?vs)"
    by simp
  then have "distinct (map gd_IP (sort_by role_before ?vs)) = distinct (map gd_IP ?vs)"
    by (rule mset_eq_imp_distinct_iff)
  then have dist: "distinct (map gd_IP (CandidateBuilder_Build pub inp))"
    unfolding ips by (simp add: modem.map_key_fold)
  have "set (map gd_IP (CandidateBuilder_Build pub inp)) = set (map gd_IP ?vs)"
    unfolding ips by simp
  also have "\<dots> = set (map gd_IP (allowed_candidates pub inp))"
    unfolding modem.map_key_fold by simp
  also have "\<dots> = set (filter (candidate_allowed pub (ci_AgentIP inp)) (map gd_IP (offered_candidates inp)))"
    by (auto simp: allowed_candidates_def)
  finally have ips: "set (map gd_IP (CandidateBuilder_Build pub inp)) =
      set (filter (candidate_allowed pub (ci_AgentIP inp)) (map gd_IP (offered_candidates inp)))" .
  have sorted: "sorted_wrt (\<lambda>a b. rolePriority (gd_Role b) \<le> rolePriority (gd_Role a))
      (CandidateBuilder_Build pub inp)"
    using role_order.sorted_sort_by [of ?vs]
    by (simp add: build sorted_wrt_map role_before_def not_less)
  have "\<exists>e \<in> set (CandidateBuilder_Build pub inp). gd_IP e = gd_IP d \<and> modem_kept d e"
    if "d \<in> set (allowed_candidates pub inp)" for d
  proof -
    from modem.values_keep [OF that]
    obtain e where e: "e \<in> set ?vs" "gd_IP e = gd_IP d" "modem_kept d e" by blast
    then have "modem_kept d (raise_upstream e)"
      using evidence_kept_trans [OF _ raise_upstream_kept] by (simp add: modem_kept_def)
    then show ?thesis
      using e by (auto simp: build)
  qed
  then have "list_all (\<lambda>d. list_ex (\<lambda>e. gd_IP e = gd_IP d \<and> modem_kept d e)
      (CandidateBuilder_Build pub inp)) (allowed_candidates pub inp)"
    by (simp add: list_all_iff list_ex_iff)
  then show ?thesis
    using dist ips sorted by blast
qed

text \<open>
  The collector's merge forgets feature states: a device whose TR-064 service asked for
  authentication is normalised to \<open>auth_required\<close>, but merging it with itself yields \<open>unknown\<close>,
  while the merge of the detection engine keeps \<open>auth_required\<close>.
\<close>

theorem auth_required_lost:
  assumes "gd_TR064State d = []" "gd_TR064AuthRequired d" "\<not> gd_TR064Found d"
  shows "gd_TR064State (normalizeDevice d) = ''auth_required'' \<and>
         gd_TR064State (mergeDevice d d) = TriUnknown \<and>
         gd_TR064State (mergeGatewayDevice d d) = ''auth_required''"
  using assms
  by (simp add: mergeDevice_def mc_join_devices_def normalizeDevice_def mergeFeatureState_def
      featureState_def TriTrue_def TriFalse_def TriUnknown_def mergeGatewayDevice_def join_devices_def
      normalizeGatewayDevice_def mergeState_def boolState_def)

theorem auth_required_lost_witness:
  "gd_TR064State (mergeDevice (gatewayDeviceFromMap [(''tr064_auth_required'', A_bool True)])
     (gatewayDeviceFromMap [(''tr064_auth_required'', A_bool True)])) = TriUnknown"
  by (rule auth_required_lost [THEN conjunct2, THEN conjunct1])
    (simp_all add: gatewayDeviceFromMap_def any_at_def)

end
