(* ===== verification/Agent_Safety.thy ===== *)
theory Agent_Safety
  imports Net_Laws
begin

text \<open>
  \<open>agent/internal/safety/private_ranges.go\<close> and \<open>permissions.go\<close>: which addresses and ranges the
  topology discovery may touch.
\<close>

unbundle bit_operations_syntax

definition IsPrivateIP :: "net_ip option \<Rightarrow> bool" where
  "IsPrivateIP nip =
     (case nip of
        None \<Rightarrow> False
      | Some ip \<Rightarrow>
          if is_loopback ip \<or> is_link_local_unicast ip \<or> is_link_local_multicast ip then True
          else (case to4 ip of
                  Some v4 \<Rightarrow>
                    if v4 ! 0 = 10 then True
                    else if v4 ! 0 = 172 \<and> v4 ! 1 \<ge> 16 \<and> v4 ! 1 \<le> 31 then True
                    else if v4 ! 0 = 192 \<and> v4 ! 1 = 168 then True
                    else False
                | None \<Rightarrow> length ip = 16 \<and> ip ! 0 AND 0xfe = 0xfc))"

definition IsPrivateIPString :: "string \<Rightarrow> bool" where
  "IsPrivateIPString s = IsPrivateIP (parse_ip s)"

definition IsPrivateCIDR :: "string \<Rightarrow> bool" where
  "IsPrivateCIDR cidr =
     (case parse_cidr cidr of
        None \<Rightarrow> False
      | Some (ip, network) \<Rightarrow> IsPrivateIP (Some ip) \<and> IsPrivateIP (Some (net_addr network)))"

definition FilterPrivateIPs :: "string list \<Rightarrow> string list" where
  "FilterPrivateIPs ips = filter IsPrivateIPString ips"

record ScanScope =
  sp_LocalSubnets :: "string list"
  sp_ScannedRanges :: "string list"
  sp_ExcludedRanges :: "string list"
  sp_PublicScanning :: bool

text \<open>The error returned, or \<open>None\<close> for nil: the first offending range is named.\<close>

definition ValidateScope :: "ScanScope \<Rightarrow> string option" where
  "ValidateScope scope =
     (if sp_PublicScanning scope then
        Some ''public scanning is disabled by policy for topology discovery''
      else case find (\<lambda>cidr. \<not> IsPrivateCIDR cidr) (sp_ScannedRanges scope) of
        Some cidr \<Rightarrow> Some (''refusing to scan non-private range '' @ cidr)
      | None \<Rightarrow>
          (case find (\<lambda>cidr. \<not> IsPrivateCIDR cidr) (sp_LocalSubnets scope) of
             Some cidr \<Rightarrow> Some (''local subnet '' @ cidr @ '' is not private'')
           | None \<Rightarrow> None))"

definition ValidatePrivateTargets :: "string list \<Rightarrow> string option" where
  "ValidatePrivateTargets ips =
     (case find (\<lambda>ip. \<not> IsPrivateIPString ip) ips of
        Some ip \<Rightarrow> Some (''refusing non-private target '' @ ip)
      | None \<Rightarrow> None)"

lemmas [go_defs] = IsPrivateIP_def IsPrivateIPString_def IsPrivateCIDR_def FilterPrivateIPs_def
  ValidateScope_def ValidatePrivateTargets_def

lemma find_None_list_all: "find (\<lambda>x. \<not> P x) xs = None \<longleftrightarrow> list_all P xs"
  by (induction xs) auto

lemma ValidateScope_ok:
  "ValidateScope scope = None \<longleftrightarrow>
     \<not> sp_PublicScanning scope \<and> list_all IsPrivateCIDR (sp_ScannedRanges scope) \<and>
     list_all IsPrivateCIDR (sp_LocalSubnets scope)"
  by (auto simp: ValidateScope_def find_None_list_all [symmetric] split: option.splits)

lemma ValidatePrivateTargets_ok: "ValidatePrivateTargets ips = None \<longleftrightarrow> list_all IsPrivateIPString ips"
  by (auto simp: ValidatePrivateTargets_def find_None_list_all [symmetric] split: option.splits)

text \<open>
  The gate of the topology discovery accepts a scope exactly when public scanning is off and
  the base address of every range is private; the private filter keeps exactly the targets the
  target gate accepts. A range wider than its private block passes: \<open>10.0.0.0/7\<close> is accepted
  although it contains the public address 11.0.0.1.
\<close>

theorem agent_scope_gate:
  "(ValidateScope scope = None \<longleftrightarrow>
      \<not> sp_PublicScanning scope \<and> list_all IsPrivateCIDR (sp_ScannedRanges scope) \<and>
      list_all IsPrivateCIDR (sp_LocalSubnets scope)) \<and>
   (ValidatePrivateTargets ips = None \<longleftrightarrow> FilterPrivateIPs ips = ips) \<and>
   ValidateScope \<lparr>sp_LocalSubnets = [], sp_ScannedRanges = [''10.0.0.0/7''], sp_ExcludedRanges = [],
     sp_PublicScanning = False\<rparr> = None \<and>
   map_option (\<lambda>(_, n). map_option (net_contains n) (parse_ip ''11.0.0.1'')) (parse_cidr ''10.0.0.0/7'') =
     Some (Some True) \<and>
   \<not> IsPrivateIPString ''11.0.0.1''"
proof (intro conjI)
  show "ValidateScope scope = None \<longleftrightarrow>
      \<not> sp_PublicScanning scope \<and> list_all IsPrivateCIDR (sp_ScannedRanges scope) \<and>
      list_all IsPrivateCIDR (sp_LocalSubnets scope)"
    by (rule ValidateScope_ok)
  show "ValidatePrivateTargets ips = None \<longleftrightarrow> FilterPrivateIPs ips = ips"
    by (auto simp: ValidatePrivateTargets_ok FilterPrivateIPs_def list_all_iff filter_id_conv)
  show "ValidateScope \<lparr>sp_LocalSubnets = [], sp_ScannedRanges = [''10.0.0.0/7''], sp_ExcludedRanges = [],
     sp_PublicScanning = False\<rparr> = None"
    by (simp add: go_defs cidr_mask_numeral)
  show "map_option (\<lambda>(_, n). map_option (net_contains n) (parse_ip ''11.0.0.1'')) (parse_cidr ''10.0.0.0/7'') =
     Some (Some True)"
    by (simp add: go_defs cidr_mask_numeral)
  show "\<not> IsPrivateIPString ''11.0.0.1''"
    by (simp add: go_defs cidr_mask_numeral)
qed

end
