(* ===== verification/Rate_Limiter.thy ===== *)
theory Rate_Limiter
  imports Go_Time Tmap_Prelude
begin

text \<open>
  \<open>agent/internal/safety/rate_limit.go\<close>: the token bucket of the probe runner. The buffered
  channel of tokens is a counter with a capacity; the goroutine \<open>refill\<close> and its ticker, and the
  calls of \<open>Wait\<close>, are steps. A ticker holds at most one tick that was not yet received.
\<close>

record RateLimiter =
  rl_interval :: duration
  rl_cap :: int
  rl_tokens :: int

definition NewRateLimiter :: "int \<Rightarrow> int \<Rightarrow> RateLimiter" where
  "NewRateLimiter requestsPerSecond burst =
     (let rps = (if requestsPerSecond \<le> 0 then 1 else requestsPerSecond);
          b = (if burst \<le> 0 then 1 else burst)
      in \<lparr>rl_interval = second div rps, rl_cap = b, rl_tokens = b\<rparr>)"

text \<open>
  The running limiter: the clock, when the ticker fires next, whether a tick waits in its channel,
  and how many calls of \<open>Wait\<close> were served.
\<close>

record LimiterState =
  ls_interval :: duration
  ls_cap :: int
  ls_tokens :: int
  ls_now :: gotime
  ls_next :: gotime
  ls_tick :: bool
  ls_served :: nat

text \<open>\<open>time.NewTicker\<close> panics on an interval that is not positive.\<close>

definition refill_start :: "RateLimiter \<Rightarrow> gotime \<Rightarrow> LimiterState option" where
  "refill_start rl now =
     (if rl_interval rl \<le> 0 then None
      else Some \<lparr>ls_interval = rl_interval rl, ls_cap = rl_cap rl, ls_tokens = rl_tokens rl, ls_now = now,
             ls_next = now + rl_interval rl, ls_tick = False, ls_served = 0\<rparr>)"

datatype LimiterCmd =
  Elapse duration  \<comment> \<open>time passes, not beyond the next tick\<close>
| Fire             \<comment> \<open>the ticker sends a tick, or drops it when one is waiting\<close>
| Refill           \<comment> \<open>one iteration of \<open>refill\<close>\<close>
| Take             \<comment> \<open>\<open>Wait\<close> receives a token\<close>
| Cancelled        \<comment> \<open>\<open>Wait\<close> returns because its context is done\<close>

fun limiter_step :: "LimiterCmd \<Rightarrow> LimiterState \<Rightarrow> LimiterState option" where
  "limiter_step (Elapse d) s =
     (if 0 \<le> d \<and> ls_now s + d \<le> ls_next s then Some (s\<lparr>ls_now := ls_now s + d\<rparr>) else None)"
| "limiter_step Fire s =
     (if ls_now s = ls_next s then Some (s\<lparr>ls_next := ls_next s + ls_interval s, ls_tick := True\<rparr>) else None)"
| "limiter_step Refill s =
     (if ls_tick s then
        Some (s\<lparr>ls_tick := False,
                ls_tokens := (if ls_tokens s < ls_cap s then ls_tokens s + 1 else ls_tokens s)\<rparr>)
      else None)"
| "limiter_step Take s =
     (if 0 < ls_tokens s then Some (s\<lparr>ls_tokens := ls_tokens s - 1, ls_served := Suc (ls_served s)\<rparr>) else None)"
| "limiter_step Cancelled s = Some s"

fun limiter_run :: "LimiterCmd list \<Rightarrow> LimiterState \<Rightarrow> LimiterState option" where
  "limiter_run [] s = Some s"
| "limiter_run (c # cs) s = (case limiter_step c s of None \<Rightarrow> None | Some s' \<Rightarrow> limiter_run cs s')"

lemmas [go_defs] = NewRateLimiter_def refill_start_def

section \<open>The invariant\<close>

definition limiter_ok :: "LimiterState \<Rightarrow> bool" where
  "limiter_ok s \<longleftrightarrow> 0 < ls_interval s \<and> 0 < ls_cap s \<and> 0 \<le> ls_tokens s \<and> ls_tokens s \<le> ls_cap s \<and>
     ls_now s \<le> ls_next s \<and> ls_next s \<le> ls_now s + ls_interval s"

text \<open>
  The tokens, the waiting tick and the calls served never exceed what there was and what the
  ticks since brought.
\<close>

definition budget :: "LimiterState \<Rightarrow> int" where
  "budget s = ls_tokens s + of_bool (ls_tick s) + int (ls_served s)"

lemma limiter_step_ok: "limiter_step c s = Some s' \<Longrightarrow> limiter_ok s \<Longrightarrow> limiter_ok s'"
  by (cases c) (auto simp: limiter_ok_def split: if_splits)

lemma limiter_step_const:
  "limiter_step c s = Some s' \<Longrightarrow> ls_interval s' = ls_interval s \<and> ls_cap s' = ls_cap s"
  by (cases c) (auto split: if_splits)

lemma limiter_step_budget:
  assumes "limiter_step c s = Some s'"
  shows "(budget s' - budget s) * ls_interval s \<le> ls_next s' - ls_next s \<or> \<not> limiter_ok s"
proof (cases c)
  case Fire
  then have "budget s' \<le> budget s + 1" "ls_next s' = ls_next s + ls_interval s"
    using assms by (auto simp: budget_def split: if_splits)
  then show ?thesis
    using mult_right_mono [of "budget s' - budget s" 1 "ls_interval s"] by (auto simp: limiter_ok_def)
next
  case Refill
  then have "budget s' \<le> budget s" "ls_next s' = ls_next s"
    using assms by (auto simp: budget_def split: if_splits)
  then show ?thesis
    using mult_right_mono [of "budget s' - budget s" 0 "ls_interval s"] by (auto simp: limiter_ok_def)
qed (use assms in \<open>auto simp: budget_def split: if_splits\<close>)

lemma limiter_run_ok:
  "limiter_run cs s = Some s' \<Longrightarrow> limiter_ok s \<Longrightarrow>
   limiter_ok s' \<and> ls_interval s' = ls_interval s \<and> ls_cap s' = ls_cap s \<and>
   (budget s' - budget s) * ls_interval s \<le> ls_next s' - ls_next s"
proof (induction cs arbitrary: s)
  case (Cons c cs)
  then obtain s1 where s1: "limiter_step c s = Some s1" "limiter_run cs s1 = Some s'"
    by (auto split: option.splits)
  have ok: "limiter_ok s1" and const: "ls_interval s1 = ls_interval s \<and> ls_cap s1 = ls_cap s"
    using s1(1) Cons.prems(2) limiter_step_ok limiter_step_const by blast+
  have "(budget s1 - budget s) * ls_interval s \<le> ls_next s1 - ls_next s"
    using limiter_step_budget [OF s1(1)] Cons.prems(2) by blast
  then show ?case
    using Cons.IH [OF s1(2) ok] const by (simp add: algebra_simps)
qed simp

lemma refill_start_ok:
  "refill_start (NewRateLimiter rps burst) now = Some s \<Longrightarrow>
   limiter_ok s \<and> budget s = ls_cap s \<and> ls_served s = 0 \<and> ls_now s = now \<and>
   ls_next s = now + ls_interval s"
  by (auto simp: refill_start_def limiter_ok_def budget_def NewRateLimiter_def
      Let_def split: if_splits)

section \<open>How often the limiter serves\<close>

text \<open>
  Between any two moments of a running limiter, under every interleaving of the ticker, the
  refill goroutine and the callers, the number of calls of Wait that were served is at most the
  burst plus one per tick interval elapsed and two (a tick that was waiting and one that is due).
\<close>

theorem rate_limit_window:
  assumes start: "refill_start (NewRateLimiter rps burst) now = Some s0"
    and upto: "limiter_run cs0 s0 = Some s1"
    and window: "limiter_run cs s1 = Some s2"
  shows "int (ls_served s2) - int (ls_served s1) \<le>
           max 1 burst + (ls_now s2 - ls_now s1) div ls_interval s0 + 2"
proof -
  have ok0: "limiter_ok s0" using refill_start_ok [OF start] by blast
  have ok1: "limiter_ok s1" and c1: "ls_interval s1 = ls_interval s0" "ls_cap s1 = ls_cap s0"
    using limiter_run_ok [OF upto ok0] by blast+
  have ok2: "limiter_ok s2" and b: "(budget s2 - budget s1) * ls_interval s1 \<le> ls_next s2 - ls_next s1"
    and c2: "ls_interval s2 = ls_interval s1"
    using limiter_run_ok [OF window ok1] by blast+
  let ?i = "ls_interval s0"
  have i: "0 < ?i" using ok0 by (simp add: limiter_ok_def)
  have cap: "ls_cap s0 = max 1 burst"
    using start by (auto simp: refill_start_def NewRateLimiter_def Let_def split: if_splits)
  have "ls_next s2 - ls_next s1 \<le> (ls_now s2 - ls_now s1) + ?i"
    using ok1 ok2 c1 c2 by (simp add: limiter_ok_def)
  with b c1 have "(budget s2 - budget s1) * ?i \<le> (ls_now s2 - ls_now s1) + ?i" by simp
  then have "budget s2 - budget s1 \<le> ((ls_now s2 - ls_now s1) + ?i) div ?i"
    using i zdiv_mono1 [of "(budget s2 - budget s1) * ?i" "(ls_now s2 - ls_now s1) + ?i" ?i] by simp
  moreover have "((ls_now s2 - ls_now s1) + ?i) div ?i = (ls_now s2 - ls_now s1) div ?i + 1"
    by (rule div_add_self2) (use i in simp)
  ultimately have "budget s2 - budget s1 \<le> (ls_now s2 - ls_now s1) div ?i + 1"
    by simp
  moreover have "0 \<le> ls_tokens s2" "ls_tokens s1 \<le> ls_cap s0"
    using ok1 ok2 c1 by (auto simp: limiter_ok_def)
  ultimately show ?thesis
    unfolding cap [symmetric] by (simp add: budget_def of_bool_def split: if_splits)
qed

theorem rate_limit_window_witness:
  "\<exists>s0 s2. refill_start (NewRateLimiter 10 2) 0 = Some s0 \<and>
     limiter_run [Take, Take, Elapse 100000000, Fire, Refill, Take] s0 = Some s2 \<and> ls_served s2 = 3 \<and>
     int (ls_served s2) - int (ls_served s0) \<le> max 1 2 + (ls_now s2 - ls_now s0) div ls_interval s0 + 2"
proof -
  obtain s0 where s0: "refill_start (NewRateLimiter 10 2) 0 = Some s0"
    by (simp add: go_defs)
  obtain s2 where s2: "limiter_run [Take, Take, Elapse 100000000, Fire, Refill, Take] s0 = Some s2"
      "ls_served s2 = 3"
    using s0 by (auto simp: go_defs)
  then show ?thesis
    using rate_limit_window [OF s0 _ s2(1), of "[]"] s0 by auto
qed

text \<open>
  C40: A caller of Wait never starves: from every state of a running limiter there is a schedule
  that serves one more call, and within one tick interval.
\<close>

theorem rate_limit_serves:
  assumes start: "refill_start (NewRateLimiter rps burst) now = Some s0"
    and upto: "limiter_run cs s0 = Some s1"
  shows "\<exists>cs' s2. limiter_run cs' s1 = Some s2 \<and> ls_served s2 = Suc (ls_served s1) \<and>
           ls_now s2 - ls_now s1 \<le> ls_interval s0"
proof -
  have ok0: "limiter_ok s0" using refill_start_ok [OF start] by blast
  have ok1: "limiter_ok s1" and c1: "ls_interval s1 = ls_interval s0"
    using limiter_run_ok [OF upto ok0] by blast+
  show ?thesis
  proof (cases "0 < ls_tokens s1")
    case True
    then have "limiter_run [Take] s1 = Some (s1\<lparr>ls_tokens := ls_tokens s1 - 1, ls_served := Suc (ls_served s1)\<rparr>)"
      by simp
    then show ?thesis
      using ok0 by (intro exI conjI) (assumption, auto simp: limiter_ok_def)
  next
    case False
    let ?cs = "[Elapse (ls_next s1 - ls_now s1), Fire, Refill, Take]"
    obtain s2 where s2: "limiter_run ?cs s1 = Some s2" "ls_served s2 = Suc (ls_served s1)"
        "ls_now s2 = ls_next s1"
      using ok1 False by (simp add: limiter_ok_def)
    moreover have "ls_next s1 - ls_now s1 \<le> ls_interval s0"
      using ok1 c1 by (simp add: limiter_ok_def)
    ultimately show ?thesis
      by (intro exI [of _ ?cs] exI [of _ s2]) simp
  qed
qed

theorem rate_limit_serves_witness:
  "\<exists>s0 cs' s2. refill_start (NewRateLimiter 10 1) 0 = Some s0 \<and> limiter_run cs' s0 = Some s2 \<and>
     ls_served s2 = Suc (ls_served s0) \<and> ls_now s2 - ls_now s0 \<le> ls_interval s0"
proof -
  obtain s0 where s0: "refill_start (NewRateLimiter 10 1) 0 = Some s0"
    by (simp add: go_defs)
  show ?thesis
    using rate_limit_serves [OF s0, of "[]" s0] s0 by auto
qed

text \<open>A rate above one per nanosecond has no interval: the refill goroutine panics.\<close>

lemma rate_limit_panics: "1000000000 < rps \<Longrightarrow> refill_start (NewRateLimiter rps burst) now = None"
  by (simp add: refill_start_def NewRateLimiter_def second_def Let_def div_pos_pos_trivial)

end
