(* ===== verification/Agent_Scoring.thy ===== *)
theory Agent_Scoring
  imports Scan_Models Tmap_Prelude
begin

text \<open>
  \<open>agent/internal/scoring\<close>: the score board (\<open>score.go\<close>), the rules and their matching
  (\<open>rules.go\<close>, without the loading of YAML files) and the weights (\<open>weights.go\<close>). A score map is an
  association list with distinct keys, so that iterating over it has an order to quantify over.
\<close>

type_synonym score_map = "(string \<times> float64) list"

section \<open>Weights\<close>

definition WeightFingerprintHint :: float64 where "WeightFingerprintHint = 40"
definition WeightFingerprintSupp :: float64 where "WeightFingerprintSupp = 15"
definition WeightProbeHint :: float64 where "WeightProbeHint = 25"
definition WeightStrongAccessHint :: float64 where "WeightStrongAccessHint = 45"
definition LatLowFiber :: float64 where "LatLowFiber = 4"
definition LatLowVDSL :: float64 where "LatLowVDSL = 3"
definition LatMidGeneric :: float64 where "LatMidGeneric = 2"
definition LatDSLFWA :: float64 where "LatDSLFWA = 2"
definition LatMobile :: float64 where "LatMobile = 4"
definition LatSatellite :: float64 where "LatSatellite = 15"

lemmas [go_defs] = WeightFingerprintHint_def WeightFingerprintSupp_def WeightProbeHint_def
  WeightStrongAccessHint_def LatLowFiber_def LatLowVDSL_def LatMidGeneric_def LatDSLFWA_def
  LatMobile_def LatSatellite_def

section \<open>The board\<close>

record Board =
  bd_scores :: score_map
  bd_fired :: "string list"

definition NewBoard :: Board where
  "NewBoard = \<lparr>bd_scores = [], bd_fired = []\<rparr>"

text \<open>\<open>scores[t]\<close> reads 0 for a missing key.\<close>

definition score_at :: "score_map \<Rightarrow> string \<Rightarrow> float64" where
  "score_at m t = (case map_of m t of Some v \<Rightarrow> v | None \<Rightarrow> 0)"

definition add_score :: "string \<times> float64 \<Rightarrow> score_map \<Rightarrow> score_map" where
  "add_score d m = alist_set (fst d) (fadd (score_at m (fst d)) (snd d)) m"

definition board_Add :: "score_map \<Rightarrow> Board \<Rightarrow> Board" where
  "board_Add deltas b = b\<lparr>bd_scores := fold add_score deltas (bd_scores b)\<rparr>"

definition AddHints :: "string list \<Rightarrow> float64 \<Rightarrow> Board \<Rightarrow> Board" where
  "AddHints hints weight b = b\<lparr>bd_scores := fold (\<lambda>h. add_score (h, weight)) hints (bd_scores b)\<rparr>"

definition MarkFired :: "string \<Rightarrow> Board \<Rightarrow> Board" where
  "MarkFired i b = b\<lparr>bd_fired := bd_fired b @ [i]\<rparr>"

definition Normalize :: "Board \<Rightarrow> score_map" where
  "Normalize b =
     map (\<lambda>(t, v).
       (t, let n = fdiv v 100; n = (if n > 1 then 1 else n) in if n < 0 then 0 else n)) (bd_scores b)"

section \<open>Rules\<close>

record Condition =
  cn_RouterModelContains :: "string list"
  cn_TextContains :: "string list"
  cn_InterfaceNameMatches :: "string list"
  cn_HintContains :: "string list"

record Rule =
  ru_ID :: string
  ru_If :: Condition
  ru_AddScore :: score_map

record MatchContext =
  mx_RouterModel :: string
  mx_Text :: string
  mx_Interfaces :: "string list"
  mx_Hints :: "string list"

definition anyContainsFold :: "string \<Rightarrow> string list \<Rightarrow> bool" where
  "anyContainsFold haystack needles =
     list_ex (\<lambda>n. n \<noteq> [] \<and> str_contains (to_lower haystack) (to_lower n)) needles"

definition anySliceContainsFold :: "string list \<Rightarrow> string list \<Rightarrow> bool" where
  "anySliceContainsFold values needles = list_ex (\<lambda>v. anyContainsFold v needles) values"

definition Matches :: "Rule \<Rightarrow> MatchContext \<Rightarrow> bool" where
  "Matches r ctx =
     (let c = ru_If r
      in if anyContainsFold (mx_RouterModel ctx) (cn_RouterModelContains c) then True
         else if anyContainsFold (mx_Text ctx) (cn_TextContains c) then True
         else if anySliceContainsFold (mx_Interfaces ctx) (cn_InterfaceNameMatches c) then True
         else anySliceContainsFold (mx_Hints ctx) (cn_HintContains c))"

lemmas [go_defs] = NewBoard_def score_at_def add_score_def board_Add_def AddHints_def MarkFired_def
  Normalize_def anyContainsFold_def anySliceContainsFold_def Matches_def

section \<open>Laws\<close>

lemma score_at_add_score:
  "score_at (add_score (t, v) m) u = (if t = u then fadd (score_at m t) v else score_at m u)"
  by (simp add: add_score_def score_at_def)

text \<open>Adding a map of deltas does not depend on the order the map is iterated in.\<close>

lemma score_at_fold_add:
  "distinct (map fst ds) \<Longrightarrow>
   score_at (fold add_score ds m) u =
     (case map_of ds u of None \<Rightarrow> score_at m u | Some v \<Rightarrow> fadd (score_at m u) v)"
proof (induction ds arbitrary: m)
  case (Cons d ds)
  obtain t v where d: "d = (t, v)" by (cases d)
  have "map_of ds t = None"
    using Cons.prems d by (simp add: map_of_eq_None_iff)
  then show ?case
    using Cons d by (auto simp: score_at_add_score split: option.splits)
qed simp

lemma distinct_fold_add_score:
  "distinct (map fst m) \<Longrightarrow> distinct (map fst (fold add_score ds m))"
  by (induction ds arbitrary: m) (simp_all add: add_score_def)

lemma keys_Normalize: "map fst (Normalize b) = map fst (bd_scores b)"
  by (simp add: Normalize_def o_def split_beta)

lemma Normalize_unit: "(t, v) \<in> set (Normalize b) \<Longrightarrow> 0 \<le> v \<and> v \<le> 1"
  by (auto simp: Normalize_def Let_def split: if_splits)

end
