(* ===== verification/Gateway_Chain.thy ===== *)
theory Gateway_Chain
  imports Gateway_Merge Agent_Scoring Net_Laws
begin

text \<open>
  The gateways between the host and the internet, in \<open>agent/internal/detection\<close>: the host's
  adapter (\<open>adapters.go\<close>), the private hops of a traceroute and the network context
  (\<open>context.go\<close>), the canonical gateway chain (\<open>gateway_chain_state.go\<close>) and the NAT topology
  (\<open>nat_resolver.go\<close>).
\<close>

section \<open>Adapters\<close>

record MainAdapterInfo =
  ma_Name :: string
  ma_Access :: string
  ma_IP :: string

definition virtualAdapterKeywords :: "string list" where
  "virtualAdapterKeywords =
     [''vmware'', ''virtualbox'', ''hyper-v'', ''vethernet'', ''bluetooth'', ''loopback'',
      ''docker'', ''wsl'', ''tailscale'', ''zerotier'', ''warp'', ''hamachi'', ''tap'',
      ''npcap'', ''wireguard'', ''openvpn'', ''vpn'', ''virtual'']"

definition isVirtualAdapter :: "string \<Rightarrow> bool" where
  "isVirtualAdapter name = list_ex (\<lambda>kw. str_contains (to_lower name) kw) virtualAdapterKeywords"

definition stripCIDR :: "string \<Rightarrow> string" where
  "stripCIDR s = (case index_byte s CHR ''/'' of Some i \<Rightarrow> take i s | None \<Rightarrow> s)"

definition isAPIPA :: "string \<Rightarrow> bool" where
  "isAPIPA ip =
     (case parse_ip (stripCIDR ip) of
        None \<Rightarrow> False
      | Some parsed \<Rightarrow> is_link_local_unicast parsed \<and> to4 parsed \<noteq> None)"

definition isPrivateIPv4 :: "string \<Rightarrow> bool" where
  "isPrivateIPv4 ip =
     (case parse_ip (stripCIDR ip) of
        None \<Rightarrow> False
      | Some parsed \<Rightarrow> if to4 parsed = None then False else is_private parsed)"

definition containsAny :: "string \<Rightarrow> string list \<Rightarrow> bool" where
  "containsAny s subs = list_ex (\<lambda>sub. str_contains s sub) subs"

text \<open>The UTF-8 bytes of the Turkish letter in the keyword for a local network.\<close>

definition yerel_ag :: string where
  "yerel_ag = ''yerel a'' @ [CHR 0xC4, CHR 0x9F]"

definition inferLocalAccess :: "string \<Rightarrow> string" where
  "inferLocalAccess name =
     (let n = to_lower name
      in if containsAny n [''wi-fi'', ''wifi'', ''wlan'', ''wireless'', ''kablosuz''] then ''Wi-Fi''
         else if containsAny n [''cellular'', ''wwan'', ''mobile'', ''lte'', ''5g''] then ''Cellular''
         else if containsAny n [''ethernet'', ''eth'', ''local area'', yerel_ag, ''gigabit''] then ''Ethernet''
         else ''Unknown'')"

text \<open>The first usable address, or the empty string.\<close>

fun usableIPv4 :: "string list \<Rightarrow> string" where
  "usableIPv4 [] = []"
| "usableIPv4 (ad # addrs) =
     (let ip = stripCIDR ad
      in case parse_ip ip of
           None \<Rightarrow> usableIPv4 addrs
         | Some parsed \<Rightarrow> if to4 parsed = None \<or> isAPIPA ip then usableIPv4 addrs else ip)"

fun pickMainAdapter :: "AdapterInfo list \<Rightarrow> MainAdapterInfo" where
  "pickMainAdapter [] = \<lparr>ma_Name = [], ma_Access = [], ma_IP = []\<rparr>"
| "pickMainAdapter (a # adapters) =
     (if \<not> ai_Up a \<or> isVirtualAdapter (ai_Name a) then pickMainAdapter adapters
      else let ip = usableIPv4 (ai_Addrs a)
           in if ip \<noteq> [] then \<lparr>ma_Name = ai_Name a, ma_Access = inferLocalAccess (ai_Name a), ma_IP = ip\<rparr>
              else pickMainAdapter adapters)"

definition adapter_of_map :: "evidence_map \<Rightarrow> AdapterInfo" where
  "adapter_of_map m =
     \<lparr>ai_Name = getString m ''name'', ai_Up = getBool m ''up'',
      ai_Addrs = (case map_of m ''addrs'' of Some (A_list vs) \<Rightarrow> [s. A_string s \<leftarrow> vs] | _ \<Rightarrow> [])\<rparr>"

fun toAdapterInfos :: "any \<Rightarrow> AdapterInfo list" where
  "toAdapterInfos (A_adapterinfos arr) = arr"
| "toAdapterInfos (A_adapters arr) =
     map (\<lambda>a. \<lparr>ai_Name = ad_Name a, ai_Up = ad_Up a, ai_Addrs = ad_Addrs a\<rparr>) arr"
| "toAdapterInfos (A_list arr) = [adapter_of_map m. A_map m \<leftarrow> arr]"
| "toAdapterInfos _ = []"

section \<open>The private hops of a traceroute\<close>

record GatewayChainResult =
  cr_Chain :: "string list"
  cr_DoubleNATPossible :: bool
  cr_PrivateHopCount :: nat

fun chain_loop :: "string list \<Rightarrow> string list \<Rightarrow> string list" where
  "chain_loop chain [] = chain"
| "chain_loop chain (h # hops) =
     (if h = ''*'' then chain_loop chain hops
      else if \<not> isPrivateIPv4 h then chain
      else chain_loop (append_new chain h) hops)"

definition detectGatewayChain :: "string list \<Rightarrow> GatewayChainResult" where
  "detectGatewayChain hops =
     (let chain = chain_loop [] hops
      in \<lparr>cr_Chain = chain, cr_DoubleNATPossible = 2 \<le> length chain, cr_PrivateHopCount = length chain\<rparr>)"

section \<open>The canonical gateway chain\<close>

fun private_chain_loop :: "string \<Rightarrow> string list \<Rightarrow> string list \<Rightarrow> string list" where
  "private_chain_loop agentIP out [] = out"
| "private_chain_loop agentIP out (h0 # hops) =
     (let h = trim_space h0
      in if h = [] \<or> h = ''*'' \<or> h = agentIP then private_chain_loop agentIP out hops
         else if \<not> isPrivateIPv4 h then out
         else private_chain_loop agentIP (append_new out h) hops)"

definition privateChain :: "string list \<Rightarrow> string \<Rightarrow> string list" where
  "privateChain hops agentIP = private_chain_loop agentIP [] hops"

definition gatewayHops :: "string list \<Rightarrow> string \<Rightarrow> GatewayHop list" where
  "gatewayHops chain source =
     map (\<lambda>(i, ip).
       \<lparr>gh_IP = ip, gh_Role = (if i > 0 then ''upstream_private_gateway'' else ''default_gateway''),
        gh_Source = source, gh_Order = int i + 1, gh_EvidenceID = source\<rparr>) (enumerate 0 chain)"

definition nonEmptyStrings :: "string list \<Rightarrow> string list" where
  "nonEmptyStrings values = filter (\<lambda>v. trim_space v \<noteq> []) values"

definition gatewaySourceBetter :: "GatewayChainSource \<Rightarrow> GatewayChainSource \<Rightarrow> bool" where
  "gatewaySourceBetter a b =
     (if gs_Source a = ''traceroute_probe'' \<and> length (gs_Chain a) \<ge> length (gs_Chain b) then True
      else if gs_Source b = ''traceroute_probe'' \<and> length (gs_Chain b) \<ge> length (gs_Chain a) then False
      else if length (gs_Chain a) \<noteq> length (gs_Chain b) then length (gs_Chain a) > length (gs_Chain b)
      else gs_Confidence a > gs_Confidence b)"

definition chain_conflict :: "GatewayChainSource \<Rightarrow> GatewayChainState \<Rightarrow> DataConflict" where
  "chain_conflict src state =
     \<lparr>dc_Field = ''gateway_chain_state.chain'',
      dc_Values = [\<lparr>cv_Source = gs_Source src, cv_Value = A_strings (gs_Chain src)\<rparr>,
                   \<lparr>cv_Source = ''canonical_gateway_chain_state'', cv_Value = A_strings (gc_Chain state)\<rparr>],
      dc_Severity = ''medium'', dc_Effect = ''preserve_source_conflict'',
      dc_Resolution = ''Canonical gateway chain prefers traceroute-backed or longer private-hop evidence.''\<rparr>"

definition double_nat_conflict :: "GatewayChainSource \<Rightarrow> GatewayChainState \<Rightarrow> DataConflict" where
  "double_nat_conflict src state =
     \<lparr>dc_Field = ''gateway_chain_state.internal_double_nat_possible'',
      dc_Values = [\<lparr>cv_Source = gs_Source src, cv_Value = A_bool (gs_InternalDoubleNATPossible src)\<rparr>,
                   \<lparr>cv_Source = ''canonical_gateway_chain_state'',
                    cv_Value = A_bool (gc_InternalDoubleNATPossible state)\<rparr>],
      dc_Severity = ''medium'', dc_Effect = ''preserve_source_conflict'',
      dc_Resolution = ''Positive private-hop evidence is monotonic and is not erased by weaker negative probes.''\<rparr>"

definition source_conflicts :: "GatewayChainState \<Rightarrow> GatewayChainSource \<Rightarrow> DataConflict list" where
  "source_conflicts state src =
     (if gs_Source src = ''route_table'' \<or> gs_Source src = ''gateway_probe'' then []
      else
        (if gs_Chain src \<noteq> [] \<and> str_join (gc_Chain state) '','' \<noteq> [] \<and>
            str_join (gs_Chain src) '','' \<noteq> str_join (gc_Chain state) '','' then [chain_conflict src state]
         else []) @
        (if gs_Source src = ''stun_pcp_nat_probe'' then []
         else if gs_InternalDoubleNATPossible src \<noteq> gc_InternalDoubleNATPossible state then
           [double_nat_conflict src state]
         else []))"

definition gatewayChainConflicts :: "GatewayChainState \<Rightarrow> DataConflict list" where
  "gatewayChainConflicts state = concat (map (source_conflicts state) (gc_Sources state))"

text \<open>The closure \<open>addSource\<close>.\<close>

definition add_chain_source ::
  "string \<Rightarrow> string \<Rightarrow> string list \<Rightarrow> float64 \<Rightarrow> string \<Rightarrow> GatewayChainState \<Rightarrow> GatewayChainState" where
  "add_chain_source agentIP source hops confidence evidenceID state =
     (let chain = privateChain hops agentIP
      in if chain = [] then state
         else let src = \<lparr>gs_Source = source, gs_Chain = chain, gs_PrivateHops = gatewayHops chain source,
                         gs_InternalDoubleNATPossible = 2 \<le> length chain, gs_Confidence = confidence,
                         gs_EvidenceIDs = nonEmptyStrings [evidenceID]\<rparr>
              in state\<lparr>gc_Sources := gc_Sources state @ [src],
                       gc_EvidenceIDs := appendUniqueStrings (gc_EvidenceIDs state) (gs_EvidenceIDs src)\<rparr>)"

text \<open>One iteration of the loop over the probe results.\<close>

definition add_chain_result ::
  "string \<Rightarrow> string \<Rightarrow> ProbeResult \<Rightarrow> GatewayChainState \<Rightarrow> GatewayChainState" where
  "add_chain_result defaultGateway agentIP r state =
     (let name = pr_ProbeName r; ev = pr_Evidence r
      in if pr_Status r \<noteq> StatusSuccess then state
         else if name = ''gateway_probe'' then
           add_chain_source agentIP name [firstNonEmpty (getString ev ''gateway'') defaultGateway]
             (maxFloat (pr_Confidence r) (flit 0.35)) name state
         else if name = ''traceroute_probe'' then
           add_chain_source agentIP name (privateChain (getStrings ev ''hops'') agentIP)
             (maxFloat (pr_Confidence r) (flit 0.65)) name state
         else if name = ''gateway_chain_probe'' \<or> name = ''upstream_private_cpe_probe'' then
           add_chain_source agentIP name (getStrings ev ''gateway_chain'')
             (maxFloat (pr_Confidence r) (flit 0.45)) name state
         else if name = ''stun_pcp_nat_probe'' then
           (case getNATTopology ev ''nat_topology'' of
              None \<Rightarrow> state
            | Some n \<Rightarrow>
                let src = \<lparr>gs_Source = name, gs_Chain = [], gs_PrivateHops = [],
                           gs_InternalDoubleNATPossible = nt_InternalDoubleNATPossible n \<or> nt_DoubleNAT n,
                           gs_Confidence = maxFloat (pr_Confidence r) (getFloat ev ''network_confidence''),
                           gs_EvidenceIDs = [name]\<rparr>
                in state\<lparr>gc_Sources := gc_Sources state @ [src],
                         gc_EvidenceIDs := appendUniqueStrings (gc_EvidenceIDs state) [name]\<rparr>)
         else state)"

text \<open>The loop with \<open>bestIdx\<close>: the source it points to.\<close>

definition better_source ::
  "GatewayChainSource \<Rightarrow> GatewayChainSource option \<Rightarrow> GatewayChainSource option" where
  "better_source src best =
     (if gs_Chain src = [] then best
      else case best of
        None \<Rightarrow> Some src
      | Some b \<Rightarrow> if gatewaySourceBetter src b then Some src else best)"

definition usable_gateway :: "string \<Rightarrow> string \<Rightarrow> bool" where
  "usable_gateway defaultGateway agentIP \<longleftrightarrow>
     defaultGateway \<noteq> [] \<and> isPrivateIPv4 defaultGateway \<and> defaultGateway \<noteq> agentIP"

definition chain_sources :: "ProbeResult list \<Rightarrow> string \<Rightarrow> string \<Rightarrow> GatewayChainState" where
  "chain_sources results defaultGateway agentIP =
     (let state = \<lparr>gc_DefaultGateway = defaultGateway, gc_Chain = [], gc_PrivateHops = [],
                   gc_InternalDoubleNATPossible = False, gc_Sources = [], gc_Conflicts = [],
                   gc_Confidence = 0, gc_EvidenceIDs = []\<rparr>;
          state = (if usable_gateway defaultGateway agentIP then
                     add_chain_source agentIP ''route_table'' [defaultGateway] (flit 0.40)
                       ''route_table:default_gateway'' state
                   else state)
      in fold (add_chain_result defaultGateway agentIP) results state)"

definition choose_chain :: "string \<Rightarrow> string \<Rightarrow> GatewayChainState \<Rightarrow> GatewayChainState" where
  "choose_chain defaultGateway agentIP state =
     (case fold better_source (gc_Sources state) None of
        Some best \<Rightarrow>
          state\<lparr>gc_Chain := gs_Chain best, gc_PrivateHops := gs_PrivateHops best,
                gc_Confidence := gs_Confidence best\<rparr>
      | None \<Rightarrow>
          if usable_gateway defaultGateway agentIP then
            state\<lparr>gc_Chain := [defaultGateway], gc_PrivateHops := gatewayHops [defaultGateway] ''route_table'',
                  gc_Confidence := flit 0.35\<rparr>
          else state)"

definition mark_double_nat :: "GatewayChainState \<Rightarrow> GatewayChainState" where
  "mark_double_nat state =
     (let state = fold (\<lambda>src st.
            if gs_InternalDoubleNATPossible src then
              st\<lparr>gc_InternalDoubleNATPossible := True,
                 gc_Confidence := maxFloat (gc_Confidence st) (gs_Confidence src)\<rparr>
            else st) (gc_Sources state) state
      in if 2 \<le> length (gc_Chain state) then state\<lparr>gc_InternalDoubleNATPossible := True\<rparr> else state)"

definition ResolveGatewayChainState ::
  "ProbeResult list \<Rightarrow> string \<Rightarrow> string \<Rightarrow> GatewayChainState option" where
  "ResolveGatewayChainState results defaultGateway agentIP =
     (let state = mark_double_nat (choose_chain defaultGateway agentIP
            (chain_sources results defaultGateway agentIP));
          state = state\<lparr>gc_Conflicts := gatewayChainConflicts state\<rparr>
      in if gc_Chain state = [] \<and> gc_Sources state = [] then None else Some state)"

section \<open>The NAT topology\<close>

definition hasUsefulNATContext :: "NATTopology option \<Rightarrow> bool" where
  "hasUsefulNATContext nt =
     (case nt of
        None \<Rightarrow> False
      | Some n \<Rightarrow>
          if nt_PublicIP n \<noteq> [] \<or> nt_STUNPublicIP n \<noteq> [] \<or> nt_CGNAT n \<or>
             nt_InternalDoubleNATPossible n \<or> nt_DoubleNAT n then True
          else if nt_PCPReachable n \<or> nt_NATPMPReachable n \<or> nt_GatewayNATControlReachable n then True
          else nt_Topology n \<noteq> [] \<and> nt_Topology n \<noteq> ''unknown'')"

definition zero_nat :: NATTopology where
  "zero_nat = \<lparr>nt_PublicIP = [], nt_STUNPublicIP = [], nt_STUNPublicPort = 0, nt_PublicIPMatches = False,
     nt_CGNAT = False, nt_DoubleNAT = False, nt_InternalDoubleNATPossible = False,
     nt_ExternalPublicIPConsistent = False, nt_GatewayNATControlReachable = False,
     nt_PCPReachable = False, nt_NATPMPReachable = False, nt_Topology = [], nt_Notes = []\<rparr>"

definition note_stun :: string where
  "note_stun = ''STUN public IP matches the public IP probe; this does not disprove internal double NAT.''"

definition note_control :: string where
  "note_control = ''PCP/NAT-PMP reachability is NAT-control context only; it does not prove the access type.''"

definition note_cgnat :: string where
  "note_cgnat = ''CGNAT and internal double NAT can coexist.''"

text \<open>The parts of \<open>ResolveNATTopology\<close> before its final switch, one update of the record each.\<close>

definition nat_flags :: "evidenceBag \<Rightarrow> NATTopology \<Rightarrow> NATTopology" where
  "nat_flags bag nt =
     (let double = eb_DoubleNATPossible bag \<or> nt_InternalDoubleNATPossible nt \<or> nt_DoubleNAT nt
      in nt\<lparr>nt_PublicIP := (if nt_PublicIP nt = [] then eb_PublicIP bag else nt_PublicIP nt),
            nt_CGNAT := nt_CGNAT nt \<or> eb_CGNAT bag,
            nt_InternalDoubleNATPossible := double,
            nt_DoubleNAT := double,
            nt_GatewayNATControlReachable :=
              nt_PCPReachable nt \<or> nt_NATPMPReachable nt \<or> nt_GatewayNATControlReachable nt\<rparr>)"

definition nat_public :: "NATTopology \<Rightarrow> NATTopology" where
  "nat_public nt =
     (if nt_PublicIP nt \<noteq> [] \<and> nt_STUNPublicIP nt \<noteq> [] then
        let same = (nt_PublicIP nt = nt_STUNPublicIP nt)
        in nt\<lparr>nt_PublicIPMatches := same, nt_ExternalPublicIPConsistent := same,
              nt_Notes := (if same then appendUniqueStrings (nt_Notes nt) [note_stun] else nt_Notes nt)\<rparr>
      else if nt_PublicIP nt \<noteq> [] then nt\<lparr>nt_ExternalPublicIPConsistent := True\<rparr>
      else nt)"

definition nat_control :: "NATTopology \<Rightarrow> NATTopology" where
  "nat_control nt =
     (if nt_GatewayNATControlReachable nt then
        nt\<lparr>nt_Notes := appendUniqueStrings (nt_Notes nt) [note_control]\<rparr>
      else nt)"

definition merge_nat :: "evidenceBag \<Rightarrow> NATTopology" where
  "merge_nat bag =
     nat_control (nat_public (nat_flags bag
       (case eb_NATTopology bag of Some n \<Rightarrow> n | None \<Rightarrow> zero_nat)))"

definition ResolveNATTopology :: "evidenceBag \<Rightarrow> NATTopology" where
  "ResolveNATTopology bag =
     (let nt = merge_nat bag;
          v6 = (case eb_IPv6Context bag of Some c \<Rightarrow> ip6_GlobalIPv6 c | None \<Rightarrow> False)
      in if nt_CGNAT nt \<and> nt_InternalDoubleNATPossible nt then
           nt\<lparr>nt_Topology := ''cgnat_possible'', nt_Notes := appendUniqueStrings (nt_Notes nt) [note_cgnat]\<rparr>
         else if nt_CGNAT nt then nt\<lparr>nt_Topology := ''cgnat_possible''\<rparr>
         else if v6 \<and> nt_InternalDoubleNATPossible nt then
           nt\<lparr>nt_Topology := ''dual_stack_with_internal_double_nat''\<rparr>
         else if v6 \<and> nt_PublicIP nt \<noteq> [] then nt\<lparr>nt_Topology := ''dual_stack_public_ipv4''\<rparr>
         else if v6 \<and> nt_PublicIP nt = [] then nt\<lparr>nt_Topology := ''ipv6_only_transition''\<rparr>
         else if nt_InternalDoubleNATPossible nt \<and> nt_PublicIP nt \<noteq> [] then
           nt\<lparr>nt_Topology := ''internal_double_nat_public_ipv4''\<rparr>
         else if nt_PublicIP nt \<noteq> [] then nt\<lparr>nt_Topology := ''single_private_gateway_public_ipv4''\<rparr>
         else nt\<lparr>nt_Topology := ''unknown''\<rparr>)"

section \<open>The network context\<close>

record NetworkContext =
  nc_ISP :: string
  nc_Country :: string
  nc_Region :: string
  nc_PublicIP :: string
  nc_PTR :: string
  nc_ASN :: string
  nc_BGPOrg :: string
  nc_CGNAT :: bool
  nc_Gateway :: string
  nc_GatewayChain :: "string list"
  nc_GatewayChainState :: "GatewayChainState option"
  nc_DoubleNATPossible :: bool
  nc_LocalAccess :: string
  nc_MainAdapter :: string
  nc_AdapterType :: string
  nc_LinkSpeedMbps :: int
  nc_RouterModel :: string
  nc_FingerprintMatched :: bool
  nc_UPnPFound :: bool
  nc_TR064Found :: bool
  nc_GatewayDevices :: "GatewayDevice list"
  nc_LikelyCPEIP :: string
  nc_LikelyModemIP :: string
  nc_WANSignals :: "WANSignal list"
  nc_LineProfile :: "LineProfile option"
  nc_AccessArchitecture :: AccessArchitecture
  nc_IPv6Context :: "IPv6Context option"
  nc_NATTopology :: "NATTopology option"
  nc_PerformanceProfile :: "PerformanceProfile option"
  nc_EvidenceStrength :: "EvidenceStrengthSummary option"

text \<open>Fields the literal leaves out are zero.\<close>

definition buildNetworkContext :: "evidenceBag \<Rightarrow> bool \<Rightarrow> NetworkContext" where
  "buildNetworkContext bag matched =
     \<lparr>nc_ISP = eb_Org bag, nc_Country = [], nc_Region = [], nc_PublicIP = eb_PublicIP bag,
      nc_PTR = eb_PTR bag, nc_ASN = [], nc_BGPOrg = [], nc_CGNAT = eb_CGNAT bag,
      nc_Gateway = eb_Gateway bag, nc_GatewayChain = eb_GatewayChain bag,
      nc_GatewayChainState = eb_GatewayChainState bag, nc_DoubleNATPossible = eb_DoubleNATPossible bag,
      nc_LocalAccess = eb_LocalAccess bag, nc_MainAdapter = eb_MainAdapter bag, nc_AdapterType = [],
      nc_LinkSpeedMbps = 0, nc_RouterModel = eb_RouterModel bag, nc_FingerprintMatched = matched,
      nc_UPnPFound = eb_UPnPFound bag, nc_TR064Found = eb_TR064Found bag,
      nc_GatewayDevices = eb_GatewayDevices bag, nc_LikelyCPEIP = eb_LikelyModemIP bag,
      nc_LikelyModemIP = eb_LikelyModemIP bag, nc_WANSignals = eb_WANSignals bag,
      nc_LineProfile = eb_LineProfile bag, nc_AccessArchitecture = eb_AccessArchitecture bag,
      nc_IPv6Context = eb_IPv6Context bag, nc_NATTopology = eb_NATTopology bag,
      nc_PerformanceProfile = eb_PerformanceProfile bag, nc_EvidenceStrength = None\<rparr>"

definition gatewayDeviceText :: "GatewayDevice list \<Rightarrow> string" where
  "gatewayDeviceText devices =
     str_join (concat (map (\<lambda>d.
       if gd_AccessConfidence d \<le> 0 \<and> gd_AccessHints d = [] then []
       else [gd_IP d, gd_Role d, gd_Manufacturer d, gd_Model d, gd_MACVendor d,
             str_join (gd_AccessHints d) '' '']) devices)) '' ''"

definition strong_signal :: "WANSignal \<Rightarrow> bool" where
  "strong_signal s \<longleftrightarrow> ws_Strength s = EvidencePhysical \<or> equal_fold (ws_Strength s) ''strong''"

definition wanSignalText :: "WANSignal list \<Rightarrow> string" where
  "wanSignalText signals =
     str_join (concat (map (\<lambda>s.
       if strong_signal s then [ws_Source s, ws_IP s, ws_Type s, ws_Value s, ws_Detail s] else []) signals)) '' ''"

lemmas [go_defs] = virtualAdapterKeywords_def isVirtualAdapter_def stripCIDR_def isAPIPA_def
  isPrivateIPv4_def containsAny_def yerel_ag_def inferLocalAccess_def adapter_of_map_def
  detectGatewayChain_def privateChain_def gatewayHops_def nonEmptyStrings_def gatewaySourceBetter_def
  chain_conflict_def double_nat_conflict_def source_conflicts_def gatewayChainConflicts_def
  add_chain_source_def add_chain_result_def better_source_def usable_gateway_def chain_sources_def
  choose_chain_def mark_double_nat_def ResolveGatewayChainState_def hasUsefulNATContext_def zero_nat_def
  note_stun_def note_control_def note_cgnat_def nat_flags_def nat_public_def nat_control_def
  merge_nat_def ResolveNATTopology_def
  gatewayDeviceText_def strong_signal_def wanSignalText_def

end
