(* ===== verification/Gateway_Chain_Laws.thy ===== *)
theory Gateway_Chain_Laws
  imports Gateway_Chain Gateway_Merge_Laws
begin

text \<open>
  The laws of the gateway chain: every hop is a private address other than the agent, the chain is
  the longest any source saw, evidence of a double NAT is never erased, and the NAT topology is a
  fixed point of its own resolver.
\<close>

section \<open>Private chains\<close>

definition private_hops :: "string \<Rightarrow> string list \<Rightarrow> bool" where
  "private_hops agentIP chain \<longleftrightarrow>
     distinct chain \<and> list_all (\<lambda>h. isPrivateIPv4 h \<and> h \<noteq> [] \<and> h \<noteq> agentIP \<and> trim_space h = h) chain"

lemma private_hops_Nil [simp]: "private_hops agentIP []"
  by (simp add: private_hops_def)

lemma private_chain_loop_ok:
  "private_hops agentIP out \<Longrightarrow> private_hops agentIP (private_chain_loop agentIP out hops)"
proof (induction hops arbitrary: out)
  case (Cons h hops)
  have "private_hops agentIP (append_new out (trim_space h))"
    if "trim_space h \<noteq> []" "trim_space h \<noteq> agentIP" "isPrivateIPv4 (trim_space h)"
    using Cons.prems that by (auto simp: private_hops_def append_new_def)
  then show ?case
    using Cons by (simp add: Let_def)
qed simp

lemma privateChain_ok [simp]: "private_hops agentIP (privateChain hops agentIP)"
  by (simp add: privateChain_def private_chain_loop_ok)

text \<open>Extracting the chain of a chain changes nothing.\<close>

lemma star_not_private: "\<not> isPrivateIPv4 ''*''"
  by (simp add: go_defs)

lemma private_chain_loop_id:
  "private_hops agentIP (out @ chain) \<Longrightarrow> private_chain_loop agentIP out chain = out @ chain"
proof (induction chain arbitrary: out)
  case (Cons h chain)
  have h: "isPrivateIPv4 h" "h \<noteq> []" "h \<noteq> agentIP" "trim_space h = h" "h \<notin> set out"
    using Cons.prems by (auto simp: private_hops_def)
  moreover have "h \<noteq> ''*''"
    using h(1) star_not_private by auto
  ultimately show ?case
    using Cons.prems Cons.IH [of "out @ [h]"] by (simp add: Let_def append_new_def)
qed simp

lemma privateChain_id: "private_hops agentIP chain \<Longrightarrow> privateChain chain agentIP = chain"
  using private_chain_loop_id [of agentIP "[]" chain] by (simp add: privateChain_def)

section \<open>The sources\<close>

text \<open>What every recorded source satisfies.\<close>

definition source_ok :: "string \<Rightarrow> GatewayChainSource \<Rightarrow> bool" where
  "source_ok agentIP src \<longleftrightarrow>
     private_hops agentIP (gs_Chain src) \<and>
     gs_PrivateHops src = gatewayHops (gs_Chain src) (gs_Source src) \<and>
     (2 \<le> length (gs_Chain src) \<longrightarrow> gs_InternalDoubleNATPossible src)"

lemma add_chain_source_ok:
  "list_all (source_ok agentIP) (gc_Sources st) \<Longrightarrow>
   list_all (source_ok agentIP) (gc_Sources (add_chain_source agentIP source hops c i st))"
  by (simp add: add_chain_source_def source_ok_def Let_def)

lemma add_chain_result_ok:
  "list_all (source_ok agentIP) (gc_Sources st) \<Longrightarrow>
   list_all (source_ok agentIP) (gc_Sources (add_chain_result dg agentIP r st))"
  by (simp add: add_chain_result_def add_chain_source_ok Let_def source_ok_def gatewayHops_def
      split: option.split)

lemma fold_chain_results_ok:
  "list_all (source_ok agentIP) (gc_Sources st) \<Longrightarrow>
   list_all (source_ok agentIP) (gc_Sources (fold (add_chain_result dg agentIP) rs st))"
  by (induction rs arbitrary: st) (simp_all add: add_chain_result_ok)

lemma chain_sources_ok: "list_all (source_ok agentIP) (gc_Sources (chain_sources rs dg agentIP))"
  by (simp add: chain_sources_def fold_chain_results_ok add_chain_source_ok Let_def)

text \<open>Sources are only ever added.\<close>

lemma add_chain_source_mono:
  "set (gc_Sources st) \<subseteq> set (gc_Sources (add_chain_source agentIP source hops c i st))"
  by (auto simp: add_chain_source_def Let_def)

lemma add_chain_result_mono: "set (gc_Sources st) \<subseteq> set (gc_Sources (add_chain_result dg agentIP r st))"
  using add_chain_source_mono by (auto simp: add_chain_result_def Let_def split: option.split)

lemma fold_chain_results_mono:
  "set (gc_Sources st) \<subseteq> set (gc_Sources (fold (add_chain_result dg agentIP) rs st))"
proof (induction rs arbitrary: st)
  case (Cons r rs)
  then show ?case using add_chain_result_mono [of st dg agentIP r] by fastforce
qed simp

lemma fold_chain_results_adds:
  assumes "r \<in> set rs" "\<And>st. \<exists>src \<in> set (gc_Sources (add_chain_result dg agentIP r st)). P src"
  shows "\<exists>src \<in> set (gc_Sources (fold (add_chain_result dg agentIP) rs st)). P src"
  using assms(1)
proof (induction rs arbitrary: st)
  case (Cons x rs)
  then show ?case
    using assms(2) [of st] fold_chain_results_mono [of "add_chain_result dg agentIP x st" dg agentIP rs]
    by (cases "x = r") auto
qed simp

section \<open>The chosen chain\<close>

lemma gatewaySourceBetter_length:
  "gatewaySourceBetter a b \<Longrightarrow> length (gs_Chain b) \<le> length (gs_Chain a)"
  "\<not> gatewaySourceBetter a b \<Longrightarrow> length (gs_Chain a) \<le> length (gs_Chain b)"
  by (auto simp: gatewaySourceBetter_def split: if_splits)

definition best_of :: "GatewayChainSource set \<Rightarrow> GatewayChainSource option \<Rightarrow> bool" where
  "best_of A best \<longleftrightarrow>
     (case best of
        None \<Rightarrow> (\<forall>src \<in> A. gs_Chain src = [])
      | Some b \<Rightarrow> b \<in> A \<and> gs_Chain b \<noteq> [] \<and> (\<forall>src \<in> A. length (gs_Chain src) \<le> length (gs_Chain b)))"

lemma best_of_step:
  assumes "best_of A best"
  shows "best_of (insert src A) (better_source src best)"
proof (cases best)
  case None
  with assms show ?thesis by (auto simp: best_of_def better_source_def)
next
  case (Some b)
  with assms gatewaySourceBetter_length [of src b] show ?thesis
    by (auto simp: best_of_def better_source_def intro: order_trans)
qed

lemma best_of_fold: "best_of A best \<Longrightarrow> best_of (A \<union> set srcs) (fold better_source srcs best)"
proof (induction srcs arbitrary: A best)
  case (Cons src srcs)
  show ?case
    using Cons.IH [OF best_of_step [OF Cons.prems, of src]] by simp
qed simp

lemma best_source: "best_of (set srcs) (fold better_source srcs None)"
  using best_of_fold [of "{}" None srcs] by (simp add: best_of_def)

lemma mark_fold_keeps:
  "gc_Chain (fold (\<lambda>src st. if gs_InternalDoubleNATPossible src then
      st\<lparr>gc_InternalDoubleNATPossible := True, gc_Confidence := maxFloat (gc_Confidence st) (gs_Confidence src)\<rparr>
      else st) srcs st) = gc_Chain st"
  "gc_PrivateHops (fold (\<lambda>src st. if gs_InternalDoubleNATPossible src then
      st\<lparr>gc_InternalDoubleNATPossible := True, gc_Confidence := maxFloat (gc_Confidence st) (gs_Confidence src)\<rparr>
      else st) srcs st) = gc_PrivateHops st"
  "gc_Sources (fold (\<lambda>src st. if gs_InternalDoubleNATPossible src then
      st\<lparr>gc_InternalDoubleNATPossible := True, gc_Confidence := maxFloat (gc_Confidence st) (gs_Confidence src)\<rparr>
      else st) srcs st) = gc_Sources st"
  "gc_InternalDoubleNATPossible (fold (\<lambda>src st. if gs_InternalDoubleNATPossible src then
      st\<lparr>gc_InternalDoubleNATPossible := True, gc_Confidence := maxFloat (gc_Confidence st) (gs_Confidence src)\<rparr>
      else st) srcs st) \<longleftrightarrow>
    gc_InternalDoubleNATPossible st \<or> list_ex gs_InternalDoubleNATPossible srcs"
  by (induction srcs arbitrary: st) simp_all

lemma mark_double_nat_simps [simp]:
  "gc_Chain (mark_double_nat st) = gc_Chain st"
  "gc_PrivateHops (mark_double_nat st) = gc_PrivateHops st"
  "gc_Sources (mark_double_nat st) = gc_Sources st"
  "gc_InternalDoubleNATPossible (mark_double_nat st) \<longleftrightarrow>
     gc_InternalDoubleNATPossible st \<or> list_ex gs_InternalDoubleNATPossible (gc_Sources st) \<or>
     2 \<le> length (gc_Chain st)"
  by (simp_all add: mark_double_nat_def mark_fold_keeps Let_def)

lemma gc_Sources_choose [simp]: "gc_Sources (choose_chain dg agentIP st) = gc_Sources st"
  by (simp add: choose_chain_def split: option.split)

lemma double_nat_chain_sources [simp]: "\<not> gc_InternalDoubleNATPossible (chain_sources rs dg agentIP)"
proof -
  have step: "gc_InternalDoubleNATPossible (add_chain_source a s h c i st) = gc_InternalDoubleNATPossible st"
    for a s h c i st
    by (simp add: add_chain_source_def Let_def)
  have "gc_InternalDoubleNATPossible (add_chain_result dg agentIP r st) = gc_InternalDoubleNATPossible st"
    for r st
    by (simp add: add_chain_result_def step Let_def split: option.split)
  then have "gc_InternalDoubleNATPossible (fold (add_chain_result dg agentIP) rs st) =
      gc_InternalDoubleNATPossible st" for st
    by (induction rs arbitrary: st) simp_all
  then show ?thesis
    by (simp add: chain_sources_def step Let_def)
qed

lemma double_nat_choose [simp]:
  "gc_InternalDoubleNATPossible (choose_chain dg agentIP st) = gc_InternalDoubleNATPossible st"
  by (simp add: choose_chain_def split: option.split)

section \<open>The resolved state\<close>

lemma IPs_gatewayHops: "map gh_IP (gatewayHops chain source) = chain"
  by (rule nth_equalityI) (simp_all add: gatewayHops_def nth_enumerate_eq)

lemma Resolve_SomeD:
  assumes "ResolveGatewayChainState rs dg agentIP = Some st"
  obtains base where "base = chain_sources rs dg agentIP"
    and "gc_Sources st = gc_Sources base"
    and "gc_Chain st = gc_Chain (choose_chain dg agentIP base)"
    and "gc_PrivateHops st = gc_PrivateHops (choose_chain dg agentIP base)"
    and "gc_InternalDoubleNATPossible st \<longleftrightarrow>
      list_ex gs_InternalDoubleNATPossible (gc_Sources base) \<or> 2 \<le> length (gc_Chain st)"
  using assms by (intro that [OF refl]) (auto simp: ResolveGatewayChainState_def Let_def split: if_splits)

text \<open>The chosen chain against the sources it is chosen from.\<close>

definition chain_spec :: "string \<Rightarrow> GatewayChainState \<Rightarrow> bool" where
  "chain_spec agentIP st \<longleftrightarrow>
     distinct (gc_Chain st) \<and> list_all (\<lambda>h. isPrivateIPv4 h \<and> h \<noteq> agentIP) (gc_Chain st) \<and>
     map gh_IP (gc_PrivateHops st) = gc_Chain st \<and>
     list_all (\<lambda>src. length (gs_Chain src) \<le> length (gc_Chain st)) (gc_Sources st) \<and>
     (gc_InternalDoubleNATPossible st \<longleftrightarrow> list_ex gs_InternalDoubleNATPossible (gc_Sources st))"

lemma Resolve_chain_spec:
  assumes "ResolveGatewayChainState rs dg agentIP = Some st"
  shows "chain_spec agentIP st"
proof -
  obtain base where base: "base = chain_sources rs dg agentIP"
    and src: "gc_Sources st = gc_Sources base"
    and chain: "gc_Chain st = gc_Chain (choose_chain dg agentIP base)"
    and hops: "gc_PrivateHops st = gc_PrivateHops (choose_chain dg agentIP base)"
    and double: "gc_InternalDoubleNATPossible st \<longleftrightarrow>
      list_ex gs_InternalDoubleNATPossible (gc_Sources base) \<or> 2 \<le> length (gc_Chain st)"
    using assms by (rule Resolve_SomeD)
  have ok: "list_all (source_ok agentIP) (gc_Sources base)"
    unfolding base by (rule chain_sources_ok)
  have best: "best_of (set (gc_Sources base)) (fold better_source (gc_Sources base) None)"
    by (rule best_source)
  show ?thesis
  proof (cases "fold better_source (gc_Sources base) None")
    case None
    then have "list_all (\<lambda>src. gs_Chain src = []) (gc_Sources base)"
      using best by (simp add: best_of_def list_all_iff)
    moreover have "gc_Chain base = []" "gc_PrivateHops base = []"
    proof -
      have step: "gc_Chain (add_chain_source a s h c i st) = gc_Chain st \<and>
          gc_PrivateHops (add_chain_source a s h c i st) = gc_PrivateHops st" for a s h c i st
        by (simp add: add_chain_source_def Let_def)
      have "gc_Chain (add_chain_result dg agentIP r st) = gc_Chain st \<and>
          gc_PrivateHops (add_chain_result dg agentIP r st) = gc_PrivateHops st" for r st
        by (simp add: add_chain_result_def step Let_def split: option.split)
      then have "gc_Chain (fold (add_chain_result dg agentIP) rs st) = gc_Chain st \<and>
          gc_PrivateHops (fold (add_chain_result dg agentIP) rs st) = gc_PrivateHops st" for st
        by (induction rs arbitrary: st) simp_all
      then show "gc_Chain base = []" "gc_PrivateHops base = []"
        by (simp_all add: base chain_sources_def step Let_def)
    qed
    ultimately show ?thesis
      using None double src chain hops
      by (auto simp: chain_spec_def choose_chain_def usable_gateway_def list_all_iff IPs_gatewayHops split: if_splits)
  next
    case (Some b)
    then have b: "b \<in> set (gc_Sources base)" "gs_Chain b \<noteq> []"
        "\<forall>src \<in> set (gc_Sources base). length (gs_Chain src) \<le> length (gs_Chain b)"
      using best by (simp_all add: best_of_def)
    then have "source_ok agentIP b"
      using ok by (simp add: list_all_iff)
    then show ?thesis
      using Some b double src chain hops
      by (auto simp: chain_spec_def choose_chain_def source_ok_def private_hops_def IPs_gatewayHops list_all_iff list_ex_iff)
  qed
qed

text \<open>
  C37: The canonical gateway chain consists of distinct private IPv4 addresses other than the agent,
  its hops carry them in order, no source saw a longer chain, and a double NAT is reported exactly
  when a source reported one.
\<close>

theorem gateway_chain_sound:
  assumes "ResolveGatewayChainState rs dg agentIP = Some st"
  shows "distinct (gc_Chain st) \<and> list_all (\<lambda>h. isPrivateIPv4 h \<and> h \<noteq> agentIP) (gc_Chain st) \<and>
         map gh_IP (gc_PrivateHops st) = gc_Chain st \<and>
         list_all (\<lambda>src. length (gs_Chain src) \<le> length (gc_Chain st)) (gc_Sources st) \<and>
         (gc_InternalDoubleNATPossible st \<longleftrightarrow> list_ex gs_InternalDoubleNATPossible (gc_Sources st))"
  using Resolve_chain_spec [OF assms] by (simp add: chain_spec_def)

text \<open>
  C36: Private hops of a traceroute are monotonic evidence: whatever the other probes say before or
  after it, a successful traceroute through two or more private gateways makes the canonical state
  report a possible double NAT and a chain at least as long as the traceroute's.
\<close>

theorem traceroute_not_erased:
  assumes "r \<in> set rs" "pr_Status r = StatusSuccess" "pr_ProbeName r = ''traceroute_probe''"
    and "2 \<le> length (privateChain (getStrings (pr_Evidence r) ''hops'') agentIP)"
  shows "\<exists>st. ResolveGatewayChainState rs dg agentIP = Some st \<and> gc_InternalDoubleNATPossible st \<and>
           length (privateChain (getStrings (pr_Evidence r) ''hops'') agentIP) \<le> length (gc_Chain st)"
proof -
  let ?c = "privateChain (getStrings (pr_Evidence r) ''hops'') agentIP"
  have "\<exists>src \<in> set (gc_Sources (add_chain_result dg agentIP r st)). gs_Chain src = ?c" for st
    using assms by (auto simp: add_chain_result_def add_chain_source_def privateChain_id Let_def)
  then have "\<exists>src \<in> set (gc_Sources (chain_sources rs dg agentIP)). gs_Chain src = ?c"
    unfolding chain_sources_def Let_def by (intro fold_chain_results_adds [OF assms(1)]) blast
  then obtain src where src: "src \<in> set (gc_Sources (chain_sources rs dg agentIP))" "gs_Chain src = ?c"
    by blast
  then have double: "gs_InternalDoubleNATPossible src"
    using chain_sources_ok [of agentIP rs dg] assms(4) by (auto simp: list_all_iff source_ok_def)
  from src obtain st where st: "ResolveGatewayChainState rs dg agentIP = Some st"
    by (cases "ResolveGatewayChainState rs dg agentIP")
      (auto simp: ResolveGatewayChainState_def Let_def split: if_splits)
  have "gc_Sources st = gc_Sources (chain_sources rs dg agentIP)"
    using st by (rule Resolve_SomeD) simp
  then show ?thesis
    using Resolve_chain_spec [OF st] src double st by (auto simp: chain_spec_def list_all_iff list_ex_iff)
qed

text \<open>A traceroute through a router and the modem behind it, and a gateway probe that saw only the router.\<close>

definition example_traceroute :: ProbeResult where
  "example_traceroute =
     \<lparr>pr_ProbeName = ''traceroute_probe'', pr_Status = ''success'', pr_Confidence = 1, pr_DurationMS = 0,
      pr_Evidence = [(''hops'', A_strings [''192.168.1.1'', ''*'', ''10.0.0.1'', ''1.1.1.1''])],
      pr_Hints = [], pr_Errors = []\<rparr>"

definition example_gateway :: ProbeResult where
  "example_gateway =
     \<lparr>pr_ProbeName = ''gateway_probe'', pr_Status = ''success'', pr_Confidence = 1, pr_DurationMS = 0,
      pr_Evidence = [(''gateway'', A_string ''192.168.1.1'')], pr_Hints = [], pr_Errors = []\<rparr>"

lemma example_private:
  "isPrivateIPv4 ''192.168.1.1''" "isPrivateIPv4 ''10.0.0.1''" "\<not> isPrivateIPv4 ''1.1.1.1''"
  by (simp_all add: go_defs)

lemma example_hops:
  "privateChain (getStrings (pr_Evidence example_traceroute) ''hops'') ''192.168.1.20'' =
     [''192.168.1.1'', ''10.0.0.1'']"
  by (simp add: example_traceroute_def getStrings_def privateChain_def example_private append_new_def
      trim_space_def trim_func_def is_space_def byte_of_def Let_def)

theorem traceroute_not_erased_witness:
  "\<exists>st. ResolveGatewayChainState [example_traceroute, example_gateway] ''192.168.1.1'' ''192.168.1.20'' = Some st \<and>
     gc_InternalDoubleNATPossible st \<and> 2 \<le> length (gc_Chain st)"
  using traceroute_not_erased [of example_traceroute "[example_traceroute, example_gateway]" "''192.168.1.20''"
      "''192.168.1.1''"]
  unfolding example_hops
  by (simp add: example_traceroute_def [THEN arg_cong, of pr_Status]
      example_traceroute_def [THEN arg_cong, of pr_ProbeName] StatusSuccess_def numeral_2_eq_2)

theorem gateway_chain_sound_witness:
  "\<exists>st. ResolveGatewayChainState [example_gateway] ''192.168.1.1'' ''192.168.1.20'' = Some st \<and>
     distinct (gc_Chain st) \<and> map gh_IP (gc_PrivateHops st) = gc_Chain st"
proof -
  have "trim_space ''192.168.1.1'' = ''192.168.1.1''"
    by (simp add: trim_space_def trim_func_def is_space_def byte_of_def)
  then have "privateChain [''192.168.1.1''] ''192.168.1.20'' = [''192.168.1.1'']"
    by (simp add: privateChain_def example_private append_new_def Let_def)
  then have "gc_Sources (chain_sources [example_gateway] ''192.168.1.1'' ''192.168.1.20'') \<noteq> []"
    by (simp add: chain_sources_def add_chain_result_def add_chain_source_def usable_gateway_def
        example_private example_gateway_def Let_def)
  then obtain st where
    st: "ResolveGatewayChainState [example_gateway] ''192.168.1.1'' ''192.168.1.20'' = Some st"
    by (cases "ResolveGatewayChainState [example_gateway] ''192.168.1.1'' ''192.168.1.20''")
      (auto simp: ResolveGatewayChainState_def Let_def split: if_splits)
  then show ?thesis
    using gateway_chain_sound [OF st] by blast
qed

section \<open>The NAT topology\<close>

text \<open>What a resolved topology says, field by field.\<close>

definition nat_label :: "evidenceBag \<Rightarrow> NATTopology \<Rightarrow> string" where
  "nat_label bag n =
     (let v6 = (case eb_IPv6Context bag of Some c \<Rightarrow> ip6_GlobalIPv6 c | None \<Rightarrow> False)
      in if nt_CGNAT n then ''cgnat_possible''
         else if v6 then
           (if nt_InternalDoubleNATPossible n then ''dual_stack_with_internal_double_nat''
            else if nt_PublicIP n \<noteq> [] then ''dual_stack_public_ipv4'' else ''ipv6_only_transition'')
         else if nt_PublicIP n = [] then ''unknown''
         else if nt_InternalDoubleNATPossible n then ''internal_double_nat_public_ipv4''
         else ''single_private_gateway_public_ipv4'')"

definition nat_resolved :: "evidenceBag \<Rightarrow> NATTopology \<Rightarrow> bool" where
  "nat_resolved bag n \<longleftrightarrow>
     (nt_DoubleNAT n \<longleftrightarrow> nt_InternalDoubleNATPossible n) \<and>
     (eb_DoubleNATPossible bag \<longrightarrow> nt_InternalDoubleNATPossible n) \<and>
     (eb_CGNAT bag \<longrightarrow> nt_CGNAT n) \<and>
     (nt_PCPReachable n \<or> nt_NATPMPReachable n \<longrightarrow> nt_GatewayNATControlReachable n) \<and>
     (nt_PublicIP n = [] \<longrightarrow> eb_PublicIP bag = []) \<and>
     (nt_PublicIP n \<noteq> [] \<and> nt_STUNPublicIP n \<noteq> [] \<longrightarrow>
        (nt_PublicIPMatches n \<longleftrightarrow> nt_PublicIP n = nt_STUNPublicIP n) \<and>
        (nt_ExternalPublicIPConsistent n \<longleftrightarrow> nt_PublicIPMatches n) \<and>
        (nt_PublicIPMatches n \<longrightarrow> note_stun \<in> set (nt_Notes n))) \<and>
     (nt_PublicIP n \<noteq> [] \<and> nt_STUNPublicIP n = [] \<longrightarrow> nt_ExternalPublicIPConsistent n) \<and>
     (nt_GatewayNATControlReachable n \<longrightarrow> note_control \<in> set (nt_Notes n)) \<and>
     (nt_CGNAT n \<and> nt_InternalDoubleNATPossible n \<longrightarrow> note_cgnat \<in> set (nt_Notes n)) \<and>
     nt_Topology n = nat_label bag n"

lemma appendUniqueStrings_mem [simp]: "x \<in> set s \<Longrightarrow> appendUniqueStrings s [x] = s"
  by (simp add: appendUniqueStrings_def append_new_def)

lemma notes_nonempty [simp]: "note_stun \<noteq> []" "note_control \<noteq> []" "note_cgnat \<noteq> []"
  by (simp_all add: note_stun_def note_control_def note_cgnat_def)

lemma nat_flags_fixed: "nat_resolved bag n \<Longrightarrow> nat_flags (bag\<lparr>eb_NATTopology := m\<rparr>) n = n"
  unfolding nat_resolved_def nat_flags_def Let_def
  by (elim conjE, rule NATTopology.equality) auto

lemma nat_public_fixed: "nat_resolved bag n \<Longrightarrow> nat_public n = n"
  unfolding nat_resolved_def nat_public_def Let_def
  by (elim conjE, rule NATTopology.equality) auto

lemma nat_control_fixed: "nat_resolved bag n \<Longrightarrow> nat_control n = n"
  unfolding nat_resolved_def nat_control_def by simp

lemma merge_nat_fixed: "nat_resolved bag n \<Longrightarrow> merge_nat (bag\<lparr>eb_NATTopology := Some n\<rparr>) = n"
  by (simp add: merge_nat_def nat_flags_fixed nat_public_fixed nat_control_fixed)

text \<open>The final switch sets the label and, in its first case, a note.\<close>

lemma ResolveNATTopology_eq:
  "ResolveNATTopology bag =
     (let n = merge_nat bag
      in n\<lparr>nt_Topology := nat_label bag n,
           nt_Notes := (if nt_CGNAT n \<and> nt_InternalDoubleNATPossible n
                        then appendUniqueStrings (nt_Notes n) [note_cgnat] else nt_Notes n)\<rparr>)"
  unfolding ResolveNATTopology_def Let_def nat_label_def
  by (rule NATTopology.equality) simp_all

lemma nat_label_cong:
  "nt_CGNAT n = nt_CGNAT m \<Longrightarrow> nt_InternalDoubleNATPossible n = nt_InternalDoubleNATPossible m \<Longrightarrow>
   nt_PublicIP n = nt_PublicIP m \<Longrightarrow> nat_label bag n = nat_label bag m"
  by (simp add: nat_label_def)

lemma ResolveNATTopology_fixed:
  assumes "nat_resolved bag n"
  shows "ResolveNATTopology (bag\<lparr>eb_NATTopology := Some n\<rparr>) = n"
proof -
  have "nat_label (bag\<lparr>eb_NATTopology := Some n\<rparr>) n = nat_label bag n"
    by (simp add: nat_label_def)
  then show ?thesis
    using assms unfolding ResolveNATTopology_eq merge_nat_fixed [OF assms] Let_def nat_resolved_def
    by (elim conjE, intro NATTopology.equality) auto
qed

lemma merge_nat_facts:
  "nt_DoubleNAT (merge_nat bag) \<longleftrightarrow> nt_InternalDoubleNATPossible (merge_nat bag)"
  "eb_DoubleNATPossible bag \<Longrightarrow> nt_InternalDoubleNATPossible (merge_nat bag)"
  "eb_CGNAT bag \<Longrightarrow> nt_CGNAT (merge_nat bag)"
  "nt_PCPReachable (merge_nat bag) \<or> nt_NATPMPReachable (merge_nat bag) \<Longrightarrow>
     nt_GatewayNATControlReachable (merge_nat bag)"
  "nt_PublicIP (merge_nat bag) = [] \<Longrightarrow> eb_PublicIP bag = []"
  "nt_PublicIP (merge_nat bag) \<noteq> [] \<Longrightarrow> nt_STUNPublicIP (merge_nat bag) \<noteq> [] \<Longrightarrow>
     (nt_PublicIPMatches (merge_nat bag) \<longleftrightarrow> nt_PublicIP (merge_nat bag) = nt_STUNPublicIP (merge_nat bag)) \<and>
     (nt_ExternalPublicIPConsistent (merge_nat bag) \<longleftrightarrow> nt_PublicIPMatches (merge_nat bag)) \<and>
     (nt_PublicIPMatches (merge_nat bag) \<longrightarrow> note_stun \<in> set (nt_Notes (merge_nat bag)))"
  "nt_PublicIP (merge_nat bag) \<noteq> [] \<Longrightarrow> nt_STUNPublicIP (merge_nat bag) = [] \<Longrightarrow>
     nt_ExternalPublicIPConsistent (merge_nat bag)"
  "nt_GatewayNATControlReachable (merge_nat bag) \<Longrightarrow> note_control \<in> set (nt_Notes (merge_nat bag))"
  unfolding merge_nat_def nat_control_def nat_public_def nat_flags_def Let_def
  by (auto simp: set_appendUniqueStrings split: if_splits)

lemma ResolveNATTopology_resolved: "nat_resolved bag (ResolveNATTopology bag)"
proof -
  have "nat_label bag ((merge_nat bag)\<lparr>nt_Topology := t, nt_Notes := ns\<rparr>) = nat_label bag (merge_nat bag)" for t ns
    by (simp add: nat_label_def)
  then show ?thesis
    unfolding nat_resolved_def ResolveNATTopology_eq Let_def
    using merge_nat_facts [of bag] by (auto simp: set_appendUniqueStrings)
qed

text \<open>
  The NAT resolver reconciles its signals: in its result the two double-NAT flags agree, no
  positive signal of the evidence bag is lost, the public-address verdict follows from the two addresses,
  every caveat is noted, the label is the one of the decision table \<open>nat_label\<close>; and resolving the
  result again changes nothing.
\<close>

theorem nat_resolver_consistent:
  "nat_resolved bag (ResolveNATTopology bag) \<and>
   ResolveNATTopology (bag\<lparr>eb_NATTopology := Some (ResolveNATTopology bag)\<rparr>) = ResolveNATTopology bag"
  using ResolveNATTopology_resolved ResolveNATTopology_fixed by blast

end
