(* ===== verification/Line_Stats.thy ===== *)
theory Line_Stats
  imports Evidence_Access Go_Regexp
begin

text \<open>
  \<open>agent/internal/linestats\<close>: what a modem tells about its line, parsed from key/value pairs and free
  text (\<open>linestats.go\<close>, \<open>util.go\<close>). A Go map is an association list with distinct keys; where the code
  iterates over it, the order of the list is the order Go happens to choose.
\<close>

section \<open>Key/value pairs\<close>

type_synonym kv = "(string \<times> string) list"

definition normalizeKey :: "string \<Rightarrow> string" where
  "normalizeKey k =
     filter (\<lambda>c. let n = byte_of c in (97 \<le> n \<and> n \<le> 122) \<or> (48 \<le> n \<and> n \<le> 57)) (to_lower k)"

definition normalize_pair :: "string \<times> string \<Rightarrow> kv \<Rightarrow> kv" where
  "normalize_pair p out =
     (let nk = normalizeKey (fst p)
      in if nk = [] then out
         else if map_of out nk \<noteq> None \<and> trim_space (snd p) = [] then out
         else alist_set nk (snd p) out)"

definition normalizeKV :: "kv \<Rightarrow> kv" where
  "normalizeKV ps = fold normalize_pair ps []"

definition kvText :: "kv \<Rightarrow> string" where
  "kvText ps = str_join (map (\<lambda>(k, v). k @ '' '' @ v) ps) '' ''"

definition ls_containsAny :: "string \<Rightarrow> string list \<Rightarrow> bool" where
  "ls_containsAny hay subs = list_ex (\<lambda>s. s \<noteq> [] \<and> str_contains hay s) subs"

definition hasAnyKey :: "kv \<Rightarrow> string list \<Rightarrow> bool" where
  "hasAnyKey nkv keys = list_ex (\<lambda>k. map_of nkv k \<noteq> None) keys"

fun lookupKV :: "kv \<Rightarrow> string list \<Rightarrow> string" where
  "lookupKV nkv [] = []"
| "lookupKV nkv (a # as) =
     (case map_of nkv a of
        Some v \<Rightarrow> if trim_space v \<noteq> [] then trim_space v else lookupKV nkv as
      | None \<Rightarrow> lookupKV nkv as)"

section \<open>Numbers\<close>

text \<open>The UTF-8 bytes of the Unicode minus, replaced by the ASCII one.\<close>

fun ascii_minus :: "string \<Rightarrow> string" where
  "ascii_minus (a # b # c # s) =
     (if a = CHR 0xE2 \<and> b = CHR 0x88 \<and> c = CHR 0x92 then CHR ''-'' # ascii_minus s
      else a # ascii_minus (b # c # s))"
| "ascii_minus s = s"

definition firstNumberToken :: "string \<Rightarrow> string" where
  "firstNumberToken s = (case find_re match_number s of Some t \<Rightarrow> t | None \<Rightarrow> [])"

definition isIntToken :: "string \<Rightarrow> bool" where
  "isIntToken s =
     (let ds = (if s \<noteq> [] \<and> hd s = CHR ''-'' then tl s else s) in ds \<noteq> [] \<and> list_all is_digit ds)"

definition parseFloatLoose :: "string \<Rightarrow> float64 option" where
  "parseFloatLoose s =
     (let num = firstNumberToken (ascii_minus s) in if num = [] then None else parse_float_token num)"

fun lookupNumber :: "kv \<Rightarrow> string list \<Rightarrow> float64" where
  "lookupNumber nkv [] = 0"
| "lookupNumber nkv (a # as) =
     (case Option.bind (map_of nkv a) parseFloatLoose of Some f \<Rightarrow> f | None \<Rightarrow> lookupNumber nkv as)"

text \<open>One alias of \<open>lookupTenthsDB\<close>: a bare integer counts tenths of a dB.\<close>

definition tenths_dB :: "string \<Rightarrow> float64 option" where
  "tenths_dB v0 =
     (let v = trim_space (ascii_minus v0); num = firstNumberToken v
      in if v = [] \<or> num = [] then None
         else case (if isIntToken num \<and> \<not> str_contains (to_lower v) ''.'' then atoi num else None) of
             Some n \<Rightarrow> Some (fdiv (round64 (of_int n)) 10)
           | None \<Rightarrow> parse_float_token num)"

fun lookupTenthsDB :: "kv \<Rightarrow> string list \<Rightarrow> float64" where
  "lookupTenthsDB nkv [] = 0"
| "lookupTenthsDB nkv (a # as) =
     (case Option.bind (map_of nkv a) tenths_dB of Some f \<Rightarrow> f | None \<Rightarrow> lookupTenthsDB nkv as)"

fun lookupKbps :: "kv \<Rightarrow> string list \<Rightarrow> int" where
  "lookupKbps nkv [] = 0"
| "lookupKbps nkv (a # as) =
     (case Option.bind (map_of nkv a) parseFloatLoose of
        Some f \<Rightarrow> float_to_int f
      | None \<Rightarrow> lookupKbps nkv as)"

definition mbps :: "int \<Rightarrow> string" where
  "mbps kbps = (if kbps \<le> 0 then ''?'' else format_1dp (fdiv (round64 (of_int kbps)) 1000))"

definition oneDP :: "float64 \<Rightarrow> string" where
  "oneDP v = format_1dp v"

lemmas [go_defs] = normalizeKey_def normalize_pair_def normalizeKV_def kvText_def ls_containsAny_def
  hasAnyKey_def firstNumberToken_def isIntToken_def parseFloatLoose_def tenths_dB_def mbps_def oneDP_def

section \<open>The medium\<close>

definition vdsl2Profiles :: "(string \<times> float64 \<times> bool) list" where
  "vdsl2Profiles =
     [(''8a'', flit 8.5, False), (''8b'', flit 8.5, False), (''8c'', flit 8.5, False),
      (''8d'', flit 8.5, False), (''12a'', 12, False), (''12b'', 12, False),
      (''17a'', flit 17.664, False), (''30a'', 30, False), (''35b'', flit 35.328, True)]"

definition profileOrder :: "(string \<times> int) list" where
  "profileOrder =
     [(''8a'', 1), (''8b'', 2), (''8c'', 3), (''8d'', 4), (''12a'', 5), (''12b'', 6), (''17a'', 7),
      (''30a'', 8), (''35b'', 9)]"

definition ProfileRank :: "string \<Rightarrow> int" where
  "ProfileRank profile = (case map_of profileOrder (to_lower profile) of Some n \<Rightarrow> n | None \<Rightarrow> 0)"

definition profile_tokens :: "string list" where
  "profile_tokens = [''8a'', ''8b'', ''8c'', ''8d'', ''12a'', ''12b'', ''17a'', ''30a'', ''35b'']"

text \<open>The expressions are applied to lowercase text.\<close>

definition reProfileLabeled :: "string \<Rightarrow> string option" where
  "reProfileLabeled s =
     Option.bind (re_text ''profile'' s) (\<lambda>s. re_words profile_tokens (skip_runes 6 s))"

definition reProfileBare :: "string \<Rightarrow> string option" where
  "reProfileBare s = find_word (re_words profile_tokens) False s"

definition reONT :: "string \<Rightarrow> bool" where
  "reONT s \<longleftrightarrow> find_word (re_words [''ont'', ''onu'']) False s \<noteq> None"

definition detectMedium :: "string \<Rightarrow> kv \<Rightarrow> string" where
  "detectMedium hay nkv =
     (if ls_containsAny hay [''xgs-pon'', ''xgspon'', ''xg-pon'', ''xgpon'', ''gpon'', ''epon'', ''10g-epon'',
           ''gigabit-capable passive optical''] \<or> reONT hay then ''pon''
      else if ls_containsAny hay [''docsis'', ''eurodocsis'', ''cable modem'', ''cablemodem'', ''ofdma'', ''cmts'',
           '' mer ''] then ''docsis''
      else if ls_containsAny hay [''vdsl'', ''adsl'', ''g.fast'', ''gfast'', ''g.993'', ''g993'', ''g.992'', ''g992'',
           ''g.9701'', ''g9701'', ''shdsl'', '' ptm'', '' atm'', ''noisemargin'', ''noise margin'', ''snr margin'',
           ''lineattenuation'', ''line attenuation'', ''dsl''] then ''dsl''
      else if hasAnyKey nkv [''newupstreamnoisemargin'', ''newdownstreamnoisemargin'', ''newmodulationtype'']
        then ''dsl''
      else [])"

lemmas [go_defs] = vdsl2Profiles_def profileOrder_def ProfileRank_def profile_tokens_def reProfileLabeled_def
  reProfileBare_def reONT_def detectMedium_def

section \<open>DSL\<close>

definition detectDSLStandard :: "string \<Rightarrow> string" where
  "detectDSLStandard hay =
     (if ls_containsAny hay [''g.9701'', ''g9701'', ''g.fast'', ''gfast''] then ''G.9701''
      else if ls_containsAny hay [''g.993.5'', ''g9935''] then ''G.993.5''
      else if ls_containsAny hay [''g.993.2'', ''g9932'', ''vdsl2''] then ''G.993.2''
      else if ls_containsAny hay [''g.992.5'', ''g9925'', ''adsl2+'', ''adsl2plus''] then ''G.992.5''
      else if ls_containsAny hay [''g.992.3'', ''g9923''] then ''G.992.3''
      else if ls_containsAny hay [''g.992.1'', ''g9921''] then ''G.992.1''
      else if ls_containsAny hay [''g.991.2'', ''g9912'', ''shdsl''] then ''G.991.2''
      else [])"

definition vdsl2_token :: "string \<Rightarrow> string" where
  "vdsl2_token hay =
     (case find_re reProfileLabeled hay of
        Some t \<Rightarrow> to_lower t
      | None \<Rightarrow>
          if ls_containsAny hay [''vdsl'', ''g.993'', ''g993''] then
            (case reProfileBare hay of Some t \<Rightarrow> to_lower t | None \<Rightarrow> [])
          else [])"

definition detectVDSL2Profile :: "string \<Rightarrow> string \<times> float64 \<times> bool" where
  "detectVDSL2Profile hay =
     (let profile = vdsl2_token hay
      in if profile = [] then
           ([], 0, str_contains hay ''super vectoring'' \<or> str_contains hay ''supervectoring'')
         else (profile, case map_of vdsl2Profiles profile of Some p \<Rightarrow> p | None \<Rightarrow> (0, False)))"

definition detectDSLMode :: "string \<Rightarrow> string \<Rightarrow> string \<Rightarrow> string" where
  "detectDSLMode hay std profile =
     (if std = ''G.9701'' then ''G.fast''
      else if std = ''G.993.5'' \<or> std = ''G.993.2'' then ''VDSL2''
      else if std = ''G.992.5'' then ''ADSL2+''
      else if std = ''G.992.3'' then ''ADSL2''
      else if std = ''G.992.1'' then ''ADSL''
      else if std = ''G.991.2'' then ''SHDSL''
      else if profile \<noteq> [] then ''VDSL2''
      else if ls_containsAny hay [''g.fast'', ''gfast''] then ''G.fast''
      else if ls_containsAny hay [''vdsl2''] then ''VDSL2''
      else if ls_containsAny hay [''adsl2+'', ''adsl2plus''] then ''ADSL2+''
      else if ls_containsAny hay [''adsl2''] then ''ADSL2''
      else if ls_containsAny hay [''shdsl''] then ''SHDSL''
      else if ls_containsAny hay [''sdsl''] then ''SDSL''
      else if ls_containsAny hay [''vdsl''] then ''VDSL''
      else if ls_containsAny hay [''adsl''] then ''ADSL''
      else [])"

definition detectAnnex :: "string \<Rightarrow> string" where
  "detectAnnex hay =
     (if ls_containsAny hay [''annex b'', ''annexb''] then ''Annex B''
      else if ls_containsAny hay [''annex a'', ''annexa''] then ''Annex A''
      else if ls_containsAny hay [''annex j'', ''annexj''] then ''Annex J''
      else if ls_containsAny hay [''annex m'', ''annexm''] then ''Annex M''
      else [])"

definition dslTechnology :: "DSLProfile \<Rightarrow> string" where
  "dslTechnology d =
     (if dl_Mode d = ''VDSL2'' \<and> dl_Vectoring d then ''VDSL2 (vectoring)'' else dl_Mode d)"

definition dslSubtype :: "DSLProfile \<Rightarrow> string" where
  "dslSubtype d =
     (if dl_Mode d = [] then []
      else if dl_Mode d = ''VDSL2'' \<and> dl_Profile d \<noteq> [] then
        let s = ''VDSL2 Profile '' @ dl_Profile d
        in if dl_Profile d = ''35b'' then s @ '' (Super Vectoring)''
           else if dl_Vectoring d then s @ '' (Vectoring)''
           else s
      else dl_Mode d)"

definition dslNotes :: "DSLProfile \<Rightarrow> string list" where
  "dslNotes d =
     (if dl_Profile d = ''35b'' then
        [''VDSL2 profile 35b uses ~35 MHz (Super Vectoring): highest rate potential, most sensitive to loop length/copper quality.'']
      else if dl_Profile d \<noteq> [] then
        [''VDSL2 profile '' @ dl_Profile d @ '' denotes the band plan (a working mode), not the delivered speed; real rate depends on loop length, copper quality and SNR.'']
      else []) @
     (if dl_Mode d = ''VDSL2'' \<and> dl_Vectoring d \<and> dl_Profile d \<noteq> ''35b'' then
        [''Vectoring (G.993.5) is active: crosstalk cancellation raises attainable rate.'']
      else [])"

definition hasDSLStats :: "DSLProfile \<Rightarrow> bool" where
  "hasDSLStats d \<longleftrightarrow>
     dl_SNRMarginDownDB d \<noteq> 0 \<or> dl_SNRMarginUpDB d \<noteq> 0 \<or> dl_AttenuationDownDB d \<noteq> 0 \<or>
     dl_AttenuationUpDB d \<noteq> 0 \<or> dl_SyncDownKbps d \<noteq> 0 \<or> dl_SyncUpKbps d \<noteq> 0 \<or>
     dl_AttainableDownKbps d \<noteq> 0 \<or> dl_AttainableUpKbps d \<noteq> 0"

definition dslConfidence :: "DSLProfile \<Rightarrow> float64" where
  "dslConfidence d =
     (if dl_Mode d \<noteq> [] \<and> hasDSLStats d then flit 0.92
      else if dl_Mode d \<noteq> [] \<and> dl_Profile d \<noteq> [] then flit 0.88
      else if dl_Mode d \<noteq> [] then flit 0.75
      else if hasDSLStats d then flit 0.6
      else 0)"

definition dsl_path :: "kv \<Rightarrow> string" where
  "dsl_path nkv =
     (let p = to_lower (lookupKV nkv [''newdatapath'', ''datapath'', ''path''])
      in if str_contains p ''interleav'' then ''interleaved''
         else if str_contains p ''fast'' then ''fast''
         else [])"

text \<open>The fields \<open>parseDSL\<close> sets on the profile \<open>d\<close>.\<close>

definition dsl_profile :: "kv \<Rightarrow> string \<Rightarrow> DSLProfile" where
  "dsl_profile nkv hay =
     (let std = detectDSLStandard hay; (profile, band, vectoring) = detectVDSL2Profile hay
      in \<lparr>dl_Mode = detectDSLMode hay std profile, dl_Standard = std, dl_Annex = detectAnnex hay,
          dl_Profile = profile, dl_ProfileBandMHz = band,
          dl_Vectoring = (str_contains hay ''vector'' \<or> std = ''G.993.5'' \<or> vectoring),
          dl_SNRMarginDownDB = lookupTenthsDB nkv
            [''newdownstreamnoisemargin'', ''downstreamnoisemargin'', ''downstreamsnrmargin'', ''dssnrmargin''],
          dl_SNRMarginUpDB = lookupTenthsDB nkv
            [''newupstreamnoisemargin'', ''upstreamnoisemargin'', ''upstreamsnrmargin'', ''ussnrmargin''],
          dl_AttenuationDownDB = lookupTenthsDB nkv
            [''newdownstreamattenuation'', ''downstreamattenuation'', ''dsattenuation'', ''lineattenuationdown''],
          dl_AttenuationUpDB = lookupTenthsDB nkv
            [''newupstreamattenuation'', ''upstreamattenuation'', ''usattenuation'', ''lineattenuationup''],
          dl_AttainableDownKbps = lookupKbps nkv
            [''newdownstreammaxrate'', ''downstreammaxrate'', ''attainabledownstreamrate'', ''maxdownstreamrate''],
          dl_AttainableUpKbps = lookupKbps nkv
            [''newupstreammaxrate'', ''upstreammaxrate'', ''attainableupstreamrate'', ''maxupstreamrate''],
          dl_SyncDownKbps = lookupKbps nkv
            [''newdownstreamcurrrate'', ''downstreamcurrrate'', ''currentdownstreamrate'', ''downstreamsyncrate''],
          dl_SyncUpKbps = lookupKbps nkv
            [''newupstreamcurrrate'', ''upstreamcurrrate'', ''currentupstreamrate'', ''upstreamsyncrate''],
          dl_Path = dsl_path nkv,
          dl_InterleaveDepth = lookupKV nkv [''newinterleavedepth'', ''interleavedepth'']\<rparr>)"

definition parseDSL :: "kv \<Rightarrow> string \<Rightarrow> string \<Rightarrow> LineProfile option" where
  "parseDSL nkv hay source =
     (let d = dsl_profile nkv hay
      in if dslTechnology d = [] \<and> \<not> hasDSLStats d then None
         else Some \<lparr>lp_Medium = ''dsl'', lp_Technology = dslTechnology d, lp_Subtype = dslSubtype d,
           lp_DSL = Some d, lp_DOCSIS = None, lp_PON = None, lp_Source = source,
           lp_Confidence = dslConfidence d, lp_Notes = dslNotes d\<rparr>)"

section \<open>DOCSIS\<close>

definition detectDOCSISVersion :: "string \<Rightarrow> bool \<Rightarrow> bool \<Rightarrow> string" where
  "detectDOCSISVersion hay ofdm ofdma =
     (if ls_containsAny hay [''docsis 4'', ''docsis4'', ''docsis 4.0'', ''full duplex'', ''full-duplex'', ''fdx'',
           ''extended spectrum''] then ''4.0''
      else if ls_containsAny hay [''docsis 3.1'', ''docsis3.1'', ''d3.1''] then ''3.1''
      else if ls_containsAny hay [''docsis 3.0'', ''docsis3.0'', ''d3.0''] then ''3.0''
      else if ls_containsAny hay [''docsis 2.0'', ''docsis2.0''] then ''2.0''
      else if ofdm \<or> ofdma then ''3.1''
      else [])"

definition docsisConfidence :: "DOCSISProfile \<Rightarrow> float64" where
  "docsisConfidence c =
     (if dx_Version c \<noteq> [] \<and>
         (dx_DownstreamChannels c > 0 \<or> dx_SNRMERdB c \<noteq> 0 \<or> dx_DownstreamPowerDBmV c \<noteq> 0) then flit 0.9
      else if dx_Version c \<noteq> [] then flit 0.8
      else flit 0.6)"

definition docsis_profile :: "kv \<Rightarrow> string \<Rightarrow> DOCSISProfile" where
  "docsis_profile nkv hay =
     (let ofdm = str_contains hay ''ofdm''; ofdma = str_contains hay ''ofdma''
      in \<lparr>dx_Version = detectDOCSISVersion hay ofdm ofdma, dx_OFDM = ofdm, dx_OFDMA = ofdma,
          dx_DownstreamChannels = float_to_int (lookupNumber nkv
            [''downstreamchannels'', ''numberofdownstreamchannels'', ''dschannels'', ''bondeddownstreamchannels'']),
          dx_UpstreamChannels = float_to_int (lookupNumber nkv
            [''upstreamchannels'', ''numberofupstreamchannels'', ''uschannels'', ''bondedupstreamchannels'']),
          dx_DownstreamPowerDBmV = lookupNumber nkv
            [''downstreampower'', ''dspower'', ''downstreampowerlevel'', ''rxpower''],
          dx_UpstreamPowerDBmV = lookupNumber nkv
            [''upstreampower'', ''uspower'', ''upstreampowerlevel'', ''txpower''],
          dx_SNRMERdB = lookupNumber nkv [''snr'', ''mer'', ''downstreamsnr'', ''downstreammer'', ''rxmer'']\<rparr>)"

definition parseDOCSIS :: "kv \<Rightarrow> string \<Rightarrow> string \<Rightarrow> LineProfile" where
  "parseDOCSIS nkv hay source =
     (let c = docsis_profile nkv hay;
          tech = (if dx_Version c \<noteq> [] then ''DOCSIS '' @ dx_Version c else ''DOCSIS'')
      in \<lparr>lp_Medium = ''docsis'', lp_Technology = tech,
          lp_Subtype = (if dx_OFDM c \<or> dx_OFDMA c then tech @ '' (OFDM/OFDMA)'' else tech),
          lp_DSL = None, lp_DOCSIS = Some c, lp_PON = None, lp_Source = source,
          lp_Confidence = docsisConfidence c, lp_Notes = []\<rparr>)"

section \<open>PON\<close>

definition detectPONType :: "string \<Rightarrow> string" where
  "detectPONType hay =
     (if ls_containsAny hay [''xgs-pon'', ''xgspon''] then ''XGS-PON''
      else if ls_containsAny hay [''xg-pon'', ''xgpon''] then ''XG-PON''
      else if ls_containsAny hay [''10g-epon'', ''10gepon''] then ''10G-EPON''
      else if ls_containsAny hay [''gpon''] then ''GPON''
      else if ls_containsAny hay [''epon''] then ''EPON''
      else [])"

definition ponConfidence :: "PONProfile \<Rightarrow> float64" where
  "ponConfidence p =
     (if pn_Type p \<noteq> [] \<and> (pn_RxPowerDBm p \<noteq> 0 \<or> pn_TxPowerDBm p \<noteq> 0) then flit 0.92
      else if pn_Type p \<noteq> [] then flit 0.85
      else if pn_RxPowerDBm p \<noteq> 0 \<or> pn_TxPowerDBm p \<noteq> 0 then flit 0.7
      else flit 0.5)"

definition pon_profile :: "kv \<Rightarrow> string \<Rightarrow> PONProfile" where
  "pon_profile nkv hay =
     \<lparr>pn_Type = detectPONType hay,
      pn_ONTModel = lookupKV nkv [''ontmodel'', ''onumodel'', ''opticalmodulemodel'', ''model''],
      pn_RxPowerDBm = lookupNumber nkv
        [''rxpower'', ''opticalrxpower'', ''rxopticalpower'', ''opticalsignallevel'', ''rxopticalsignal''],
      pn_TxPowerDBm = lookupNumber nkv [''txpower'', ''opticaltxpower'', ''txopticalpower'', ''txopticalsignal'']\<rparr>"

definition parsePON :: "kv \<Rightarrow> string \<Rightarrow> string \<Rightarrow> LineProfile option" where
  "parsePON nkv hay source =
     (let p = pon_profile nkv hay; tech = (if pn_Type p = [] then ''PON'' else pn_Type p)
      in if pn_Type p = [] \<and> pn_RxPowerDBm p = 0 \<and> pn_TxPowerDBm p = 0 \<and> pn_ONTModel p = [] then None
         else Some \<lparr>lp_Medium = ''pon'', lp_Technology = tech, lp_Subtype = tech, lp_DSL = None,
           lp_DOCSIS = None, lp_PON = Some p, lp_Source = source, lp_Confidence = ponConfidence p,
           lp_Notes = []\<rparr>)"

section \<open>The parser\<close>

definition line_text :: "kv \<Rightarrow> string \<Rightarrow> string" where
  "line_text ps txt = to_lower (trim_space (txt @ '' '' @ kvText ps))"

definition Parse :: "kv \<Rightarrow> string \<Rightarrow> string \<Rightarrow> LineProfile option" where
  "Parse ps txt source =
     (let nkv = normalizeKV ps; hay = line_text ps txt
      in if hay = [] \<and> nkv = [] then None
         else let medium = detectMedium hay nkv
              in if medium = ''dsl'' then parseDSL nkv hay source
                 else if medium = ''docsis'' then Some (parseDOCSIS nkv hay source)
                 else if medium = ''pon'' then parsePON nkv hay source
                 else None)"

section \<open>Access hints and summary\<close>

definition dsl_hints :: "string \<Rightarrow> string list" where
  "dsl_hints mode =
     (if mode = ''VDSL2'' then [TypeVDSL2, TypeVDSL, TypeDSL]
      else if mode = ''VDSL'' then [TypeVDSL, TypeDSL]
      else if mode = ''ADSL2+'' then [TypeADSL2, TypeADSL, TypeDSL]
      else if mode = ''ADSL2'' then [TypeADSL, TypeDSL]
      else if mode = ''ADSL'' then [TypeADSL, TypeDSL]
      else if mode = ''G.fast'' then [TypeGfast, TypeDSL]
      else if mode = ''SHDSL'' then [TypeSHDSL, TypeDSL]
      else if mode = ''SDSL'' then [TypeSDSL, TypeDSL]
      else [TypeDSL])"

definition pon_hints :: "string \<Rightarrow> string list" where
  "pon_hints t =
     (if t = ''XGS-PON'' then [TypeXGSPON, TypeFTTH, TypeFiber]
      else if t = ''XG-PON'' then [TypeXGPON, TypeFTTH, TypeFiber]
      else if t = ''EPON'' then [TypeEPON, TypeFTTH, TypeFiber]
      else if t = ''10G-EPON'' then [TypeTenGEPON, TypeFTTH, TypeFiber]
      else if t = ''GPON'' then [TypeGPON, TypeFTTH, TypeFiber]
      else [TypeFTTH, TypeFiber])"

definition AccessHints :: "LineProfile option \<Rightarrow> string list" where
  "AccessHints lp =
     (case lp of
        None \<Rightarrow> []
      | Some l \<Rightarrow>
          (case lp_DSL l of
             Some d \<Rightarrow> dsl_hints (dl_Mode d)
           | None \<Rightarrow>
               (case lp_DOCSIS l of
                  Some c \<Rightarrow> [TypeDOCSIS, TypeCable]
                | None \<Rightarrow> (case lp_PON l of Some p \<Rightarrow> pon_hints (pn_Type p) | None \<Rightarrow> []))))"

definition dsl_summary :: "LineProfile \<Rightarrow> DSLProfile \<Rightarrow> string list" where
  "dsl_summary l d =
     (let head = ''DSL line read from the modem'' @
            (if lp_Subtype l \<noteq> [] then '': '' @ lp_Subtype l
             else if lp_Technology l \<noteq> [] then '': '' @ lp_Technology l else []) @
            (if dl_Standard d \<noteq> [] then '' ['' @ dl_Standard d @ '']'' else [])
      in [head @ ''.''] @
         (if dl_SyncDownKbps d > 0 \<or> dl_SyncUpKbps d > 0 then
            [''Sync rate '' @ mbps (dl_SyncDownKbps d) @ '' / '' @ mbps (dl_SyncUpKbps d) @
             '' Mbps (attainable '' @ mbps (dl_AttainableDownKbps d) @ '' / '' @ mbps (dl_AttainableUpKbps d) @ '').'']
          else []) @
         (if dl_SNRMarginDownDB d \<noteq> 0 \<or> dl_AttenuationDownDB d \<noteq> 0 then
            [''SNR margin '' @ oneDP (dl_SNRMarginDownDB d) @ '' dB, attenuation '' @
             oneDP (dl_AttenuationDownDB d) @ '' dB (downstream).'']
          else []) @
         lp_Notes l)"

definition docsis_summary :: "LineProfile \<Rightarrow> DOCSISProfile \<Rightarrow> string list" where
  "docsis_summary l c =
     [''Cable line read from the modem: '' @ lp_Subtype l @ ''.''] @
     (if dx_DownstreamChannels c > 0 \<or> dx_UpstreamChannels c > 0 then
        [''Channels '' @ itoa (dx_DownstreamChannels c) @ '' downstream / '' @ itoa (dx_UpstreamChannels c) @
         '' upstream.'']
      else []) @
     (if dx_SNRMERdB c \<noteq> 0 \<or> dx_DownstreamPowerDBmV c \<noteq> 0 then
        [''Downstream power '' @ oneDP (dx_DownstreamPowerDBmV c) @ '' dBmV, MER/SNR '' @
         oneDP (dx_SNRMERdB c) @ '' dB.'']
      else [])"

definition pon_summary :: "LineProfile \<Rightarrow> PONProfile \<Rightarrow> string list" where
  "pon_summary l p =
     [''Optical line read from the ONT: '' @ lp_Subtype l @
        (if pn_ONTModel p \<noteq> [] then '' (ONT '' @ pn_ONTModel p @ '')'' else []) @ ''.''] @
     (if pn_RxPowerDBm p \<noteq> 0 \<or> pn_TxPowerDBm p \<noteq> 0 then
        [''Optical Rx '' @ oneDP (pn_RxPowerDBm p) @ '' dBm, Tx '' @ oneDP (pn_TxPowerDBm p) @ '' dBm.'']
      else [])"

definition Summary :: "LineProfile option \<Rightarrow> string list" where
  "Summary lp =
     (case lp of
        None \<Rightarrow> []
      | Some l \<Rightarrow>
          (case lp_DSL l of
             Some d \<Rightarrow> dsl_summary l d
           | None \<Rightarrow>
               (case lp_DOCSIS l of
                  Some c \<Rightarrow> docsis_summary l c
                | None \<Rightarrow> (case lp_PON l of Some p \<Rightarrow> pon_summary l p | None \<Rightarrow> []))))"

lemmas [go_defs] = detectDSLStandard_def vdsl2_token_def detectVDSL2Profile_def detectDSLMode_def
  detectAnnex_def dslTechnology_def dslSubtype_def dslNotes_def hasDSLStats_def dslConfidence_def
  dsl_path_def dsl_profile_def parseDSL_def detectDOCSISVersion_def docsisConfidence_def
  docsis_profile_def parseDOCSIS_def detectPONType_def ponConfidence_def pon_profile_def parsePON_def
  line_text_def Parse_def dsl_hints_def pon_hints_def AccessHints_def dsl_summary_def
  docsis_summary_def pon_summary_def Summary_def

end
