(* ===== verification/Access_Decision.thy ===== *)
theory Access_Decision
  imports Line_Stats Gateway_Chain
begin

text \<open>
  The decision layer of \<open>agent/internal/detection\<close>: access targets and conflicts (the helpers of
  \<open>contract.go\<close>), the ranking and the gates (\<open>decision.go\<close>, \<open>classifier.go\<close>), the confidence with its caps
  (\<open>confidence.go\<close>), candidates by type (\<open>candidates.go\<close>), the score audit (\<open>score_audit.go\<close>), the
  fingerprint matcher and the model normaliser (\<open>matcher.go\<close> without the YAML loader, \<open>normalizer.go\<close>).
  Scores are a \<open>score_map\<close>: iterating over it uses the order of the list.
\<close>

section \<open>Access targets\<close>

definition inferTargetType :: "string \<Rightarrow> string" where
  "inferTargetType txt =
     (let l = to_lower txt
      in if containsAny l [''xgs-pon'', ''xg-pon'', ''gpon'', ''epon'', ''ont'', ''optical''] then TypeFiber
         else if str_contains l ''vdsl'' then TypeVDSL
         else if containsAny l [''adsl'', ''iftype adsl''] then TypeADSL
         else if containsAny l [''dsl'', ''ptm'', ''atm''] then TypeDSL
         else if containsAny l [''docsis'', ''cable''] then TypeCable
         else if containsAny l [''lte'', ''nr'', ''wwan'', ''cellular'', ''5g''] then TypeFWA
         else if containsAny l [''satellite'', ''starlink'', ''vsat''] then TypeSatellite
         else if containsAny l [''wisp'', ''radio'', ''wireless cpe''] then TypeWISP
         else if str_contains l ''ethernet'' then TypeEthernetWAN
         else CatUnknown)"

definition publicTypeForTarget :: "string \<Rightarrow> string" where
  "publicTypeForTarget target =
     (let c = CategoryFor target
      in if c = CatFiber then TypeFiber
         else if c = CatDSL then
           (if target = TypeVDSL \<or> target = TypeVDSL2 then TypeVDSL
            else if target = TypeADSL \<or> target = TypeADSL2 then TypeADSL
            else TypeDSL)
         else if c = CatCable then TypeCable
         else if c = CatMobile then TypeFWA
         else if c = CatWireless then TypeWISP
         else if c = CatSatellite then TypeSatellite
         else if c = CatEthernetWAN then TypeEthernetWAN
         else if target = [] then CatUnknown
         else target)"

fun firstHintTarget :: "string list \<Rightarrow> string" where
  "firstHintTarget [] = CatUnknown"
| "firstHintTarget (h # hints) = (if h \<noteq> [] then publicTypeForTarget h else firstHintTarget hints)"

definition lineProfileTargetType :: "LineProfile option \<Rightarrow> string" where
  "lineProfileTargetType lp =
     (case lp of
        None \<Rightarrow> CatUnknown
      | Some l \<Rightarrow>
          (case AccessHints lp of
             h # _ \<Rightarrow> publicTypeForTarget h
           | [] \<Rightarrow> inferTargetType (lp_Medium l @ '' '' @ lp_Technology l @ '' '' @ lp_Subtype l)))"

definition conflictFamily :: "string \<Rightarrow> string" where
  "conflictFamily target =
     (if target \<in> {TypeVDSL, TypeADSL, TypeDSL, TypeVDSL2, TypeADSL2} then TypeDSL
      else if target \<in> {TypeFiber, TypeFTTH, TypeGPON, TypeEPON, TypeXGPON, TypeXGSPON} then TypeFiber
      else if target \<in> {TypeCable, TypeDOCSIS} then TypeCable
      else if target \<in> {TypeFWA, TypeMobile, TypeLTE, TypeNR5G} then TypeFWA
      else if target = TypeEthernetWAN then TypeEthernetWAN
      else target)"

section \<open>Conflicts\<close>

definition hasHighSeverityConflict :: "DataConflict list \<Rightarrow> bool" where
  "hasHighSeverityConflict conflicts \<longleftrightarrow> list_ex (\<lambda>c. dc_Severity c = ''high'') conflicts"

definition hasMediumSeverityConflict :: "DataConflict list \<Rightarrow> bool" where
  "hasMediumSeverityConflict conflicts \<longleftrightarrow> list_ex (\<lambda>c. dc_Severity c = ''medium'') conflicts"

definition hasWANClassificationConflict :: "DataConflict list \<Rightarrow> bool" where
  "hasWANClassificationConflict conflicts \<longleftrightarrow>
     list_ex (\<lambda>c. str_contains (dc_Field c) ''wan_access_type'' \<or> str_contains (dc_Field c) ''classification'') conflicts"

definition hasConflictField :: "DataConflict list \<Rightarrow> string \<Rightarrow> bool" where
  "hasConflictField conflicts token \<longleftrightarrow> list_ex (\<lambda>c. str_contains (dc_Field c) token) conflicts"

definition conflictPenalty :: "DataConflict list \<Rightarrow> float64" where
  "conflictPenalty conflicts =
     (if hasHighSeverityConflict conflicts then flit 0.25
      else if conflicts \<noteq> [] then flit 0.10
      else 0)"

definition signal_text :: "WANSignal \<Rightarrow> string" where
  "signal_text s = ws_Value s @ '' '' @ ws_Detail s"

definition hasEthernetWANSignal :: "evidenceBag \<Rightarrow> bool" where
  "hasEthernetWANSignal bag \<longleftrightarrow>
     list_ex (\<lambda>s. str_contains (to_lower (signal_text s)) ''ethernet'') (eb_WANSignals bag) \<or>
     str_contains (to_lower (str_join (eb_StrongAccessHints bag) '' '')) (to_lower TypeEthernetWAN)"

definition ethernetWANOnlyEvidence :: "evidenceBag \<Rightarrow> bool" where
  "ethernetWANOnlyEvidence bag \<longleftrightarrow>
     hasEthernetWANSignal bag \<and> list_all (\<lambda>h. h = TypeEthernetWAN) (eb_StrongAccessHints bag) \<and>
     list_all (\<lambda>s. let target = inferTargetType (signal_text s)
                   in target = TypeEthernetWAN \<or> target = CatUnknown) (eb_WANSignals bag)"

lemmas [go_defs] = inferTargetType_def publicTypeForTarget_def lineProfileTargetType_def conflictFamily_def
  hasHighSeverityConflict_def hasMediumSeverityConflict_def hasWANClassificationConflict_def
  hasConflictField_def conflictPenalty_def signal_text_def hasEthernetWANSignal_def
  ethernetWANOnlyEvidence_def

section \<open>Ranking\<close>

definition minConfidence :: float64 where "minConfidence = flit 0.40"
definition minTopScore :: float64 where "minTopScore = flit 0.35"
definition minCategoryGap :: float64 where "minCategoryGap = flit 0.12"
definition highConfidence :: float64 where "highConfidence = flit 0.85"
definition highTopScore :: float64 where "highTopScore = flit 0.60"
definition highCategoryGap :: float64 where "highCategoryGap = flit 0.20"

record CandidatePair =
  cp_First :: string
  cp_FirstScore :: float64
  cp_Second :: string
  cp_SecondScore :: float64
  cp_Margin :: float64

definition top_step :: "string \<times> float64 \<Rightarrow> CandidatePair \<Rightarrow> CandidatePair" where
  "top_step e p =
     (let k = fst e; v = snd e
      in if v > cp_FirstScore p then
           p\<lparr>cp_Second := cp_First p, cp_SecondScore := cp_FirstScore p, cp_First := k, cp_FirstScore := v\<rparr>
         else if v > cp_SecondScore p then p\<lparr>cp_Second := k, cp_SecondScore := v\<rparr>
         else p)"

definition topTwo :: "score_map \<Rightarrow> CandidatePair" where
  "topTwo m =
     (let p = fold top_step m
        \<lparr>cp_First = [], cp_FirstScore = 0, cp_Second = [], cp_SecondScore = 0, cp_Margin = 0\<rparr>
      in p\<lparr>cp_Margin := fsub (cp_FirstScore p) (cp_SecondScore p)\<rparr>)"

definition topTwoScores :: "score_map \<Rightarrow> CandidatePair" where
  "topTwoScores scores = topTwo scores"

definition category_key :: "string \<Rightarrow> string" where
  "category_key t = (if CategoryFor t = CatUnknown then t else CategoryFor t)"

definition category_step :: "string \<times> float64 \<Rightarrow> score_map \<Rightarrow> score_map" where
  "category_step e cat =
     (let c = category_key (fst e) in if snd e > score_at cat c then alist_set c (snd e) cat else cat)"

definition categoryScores :: "score_map \<Rightarrow> score_map" where
  "categoryScores scores = fold category_step scores []"

definition rank_before :: "TypeScore \<Rightarrow> TypeScore \<Rightarrow> bool" where
  "rank_before a b =
     (if ts_Score a \<noteq> ts_Score b then ts_Score a > ts_Score b else str_less (ts_Type a) (ts_Type b))"

definition rankAll :: "score_map \<Rightarrow> TypeScore list" where
  "rankAll scores =
     sort_by rank_before (map (\<lambda>(t, s). \<lparr>ts_Type = t, ts_Score = s\<rparr>) (filter (\<lambda>(t, s). s > 0) scores))"

definition hasSubtype :: "TypeScore list \<Rightarrow> string \<Rightarrow> bool" where
  "hasSubtype ranked cat \<longleftrightarrow>
     list_ex (\<lambda>ts. CategoryFor (ts_Type ts) = cat \<and> cat \<noteq> ts_Type ts \<and> ts_Score ts > 0) ranked"

definition collapseParentSubtypeCandidates :: "TypeScore list \<Rightarrow> TypeScore list" where
  "collapseParentSubtypeCandidates ranked =
     filter (\<lambda>ts. \<not> (ts_Type ts \<in> {TypeDSL, TypeFiber, TypeCable} \<and>
                      hasSubtype ranked (CategoryFor (ts_Type ts)))) ranked"

definition capN :: "'a list \<Rightarrow> nat \<Rightarrow> 'a list" where
  "capN ts n = take n ts"

definition classify :: "score_map \<Rightarrow> string \<times> TypeScore list" where
  "classify scores =
     (case rankAll scores of [] \<Rightarrow> ([], []) | ts # rest \<Rightarrow> (ts_Type ts, capN rest 3))"

lemmas [go_defs] = minConfidence_def minTopScore_def minCategoryGap_def highConfidence_def
  highTopScore_def highCategoryGap_def top_step_def topTwo_def topTwoScores_def category_key_def
  category_step_def categoryScores_def rank_before_def rankAll_def hasSubtype_def
  collapseParentSubtypeCandidates_def capN_def classify_def

section \<open>What counts as evidence\<close>

definition directEvidenceTokens :: "string list" where
  "directEvidenceTokens =
     [''ptm0'', ''atm0'', ''dsl0'', ''pppoe-wan'', ''eth-wan'', ''gpon'', ''epon'', ''ont'', ''docsis'',
      ''cable modem'', ''vdsl2'', ''adsl2+'', ''line rate'', ''line attenuation'', ''snr margin'', ''wwan'',
      ''lte0'', ''wan dsl'', ''wan gpon'', ''wan ethernet'', ''wandslinterfaceconfig'', ''dsl.line'',
      ''dsl.channel'', ''ptm.link'', ''atm.link'', ''optical.interface'', ''cellular.interface'',
      ''vdsl2-line'', ''adsl-line'', ''docs-if'', ''docsis mib'', ''iftype adsl'']"

definition genericServerTokens :: "string list" where
  "genericServerTokens =
     [''nginx'', ''apache'', ''lighttpd'', ''openresty'', ''caddy'', ''go'', ''microsoft-iis'']"

text \<open>The condition on a WAN signal shared by the decision and the contract.\<close>

definition direct_signal :: "WANSignal \<Rightarrow> bool" where
  "direct_signal s \<longleftrightarrow> strong_signal s \<or> ws_Confidence s \<ge> flit 0.70"

definition has_direct_token :: "string \<Rightarrow> bool" where
  "has_direct_token txt \<longleftrightarrow> list_ex (\<lambda>tok. str_contains txt tok) directEvidenceTokens"

definition hasDirectPhysicalEvidence :: "evidenceBag \<Rightarrow> bool" where
  "hasDirectPhysicalEvidence bag \<longleftrightarrow>
     (case eb_LineProfile bag of Some l \<Rightarrow> lp_Confidence l > 0 | None \<Rightarrow> False) \<or>
     eb_PhysicalEvidence bag > 0 \<or> eb_StrongAccessHints bag \<noteq> [] \<or>
     list_ex direct_signal (eb_WANSignals bag) \<or>
     has_direct_token (to_lower (trim_space (eb_WANSignalText bag @ '' '' @ eb_CPEText bag)))"

definition hasStrongPhysicalEvidence :: "evidenceBag \<Rightarrow> bool \<Rightarrow> bool" where
  "hasStrongPhysicalEvidence bag matched = hasDirectPhysicalEvidence bag"

definition hasDeviceModelEvidence :: "evidenceBag \<Rightarrow> bool \<Rightarrow> bool" where
  "hasDeviceModelEvidence bag matched \<longleftrightarrow>
     matched \<or> (trim_space (eb_RouterModel bag) \<noteq> [] \<and> eb_DeviceEvidence bag > 0) \<or>
     list_ex (\<lambda>d. (gd_Model d \<noteq> [] \<or> gd_Manufacturer d \<noteq> [] \<or> gd_FingerprintID d \<noteq> []) \<and>
                  gd_DeviceConfidence d \<ge> flit 0.40) (eb_GatewayDevices bag)"

definition shouldReturnUnknown ::
  "score_map \<Rightarrow> float64 \<Rightarrow> evidenceBag \<Rightarrow> bool \<Rightarrow> bool \<times> string list" where
  "shouldReturnUnknown scores confidence bag matched =
     (let cat = topTwo (categoryScores scores);
          direct = hasDirectPhysicalEvidence bag;
          device = hasDeviceModelEvidence bag matched;
          reasons =
            (if confidence < minConfidence then [''Classification confidence is low.''] else []) @
            (if cp_FirstScore cat < minTopScore then [''The top score is low.''] else []) @
            (if cp_Margin cat < minCategoryGap \<and> \<not> direct then
               [''The leading category scores are too close to call.''] else []) @
            (if \<not> direct then [''No strong physical-layer evidence of the access type was found.''] else []) @
            (if \<not> direct \<and> \<not> device then
               [''Only topology, performance, or operator hints were available.''] else []) @
            (if \<not> matched \<and> \<not> eb_UPnPFound bag then [''No UPnP modem model was discovered.''] else []) @
            (if eb_PTR bag \<noteq> [] \<and> \<not> direct then
               [''The PTR record is not conclusive evidence of the access type.''] else [])
      in (confidence < minConfidence \<or> cp_FirstScore cat < minTopScore \<or>
          (cp_Margin cat < minCategoryGap \<and> \<not> direct) \<or> (\<not> direct \<and> \<not> device), reasons))"

definition decisionQuality :: "float64 \<Rightarrow> float64 \<Rightarrow> float64 \<Rightarrow> bool \<Rightarrow> bool \<Rightarrow> string" where
  "decisionQuality confidence margin topScore direct device =
     (if direct \<and> confidence \<ge> highConfidence \<and> topScore \<ge> highTopScore \<and> margin \<ge> highCategoryGap
      then ''high''
      else if (direct \<or> device) \<and> confidence \<ge> minConfidence \<and> margin \<ge> minCategoryGap \<and> topScore \<ge> minTopScore
      then ''medium''
      else ''low'')"

lemmas [go_defs] = directEvidenceTokens_def genericServerTokens_def direct_signal_def has_direct_token_def
  hasDirectPhysicalEvidence_def hasStrongPhysicalEvidence_def hasDeviceModelEvidence_def
  shouldReturnUnknown_def decisionQuality_def

section \<open>Confidence\<close>

definition clamp01 :: "float64 \<Rightarrow> float64" where
  "clamp01 v = (if v < 0 then 0 else if v > 1 then 1 else v)"

definition computeConfidence :: "score_map \<Rightarrow> int \<Rightarrow> bool \<Rightarrow> float64" where
  "computeConfidence scores sources matched =
     (if scores = [] then 0
      else
        let pair = topTwo (categoryScores scores); top = cp_FirstScore pair
        in if top \<le> 0 then 0
           else
             let separation = clamp01 (fdiv (cp_Margin pair) top);
                 corroboration = clamp01 (fdiv (round64 (of_int sources)) 4);
                 conf = fadd (fadd (fmul (flit 0.6) top) (fmul (flit 0.25) separation))
                          (fmul (flit 0.15) corroboration);
                 conf = (if matched then fadd conf (flit 0.1) else conf)
             in clamp01 conf)"

definition hasTopologyEvidence :: "evidenceBag \<Rightarrow> bool" where
  "hasTopologyEvidence bag \<longleftrightarrow>
     eb_Gateway bag \<noteq> [] \<or> eb_GatewayChain bag \<noteq> [] \<or> eb_NetworkEvidence bag > 0 \<or>
     hasUsefulNATContext (eb_NATTopology bag)"

definition onlyPerformanceAndRegionalEvidence :: "evidenceBag \<Rightarrow> bool" where
  "onlyPerformanceAndRegionalEvidence bag \<longleftrightarrow>
     \<not> hasTopologyEvidence bag \<and>
     (eb_PerformanceEvidence bag > 0 \<or> eb_HasLatency bag \<or> eb_PerformanceProfile bag \<noteq> None) \<and>
     (eb_Org bag \<noteq> [] \<or> eb_PTR bag \<noteq> [])"

definition onlyTopologyEvidence :: "evidenceBag \<Rightarrow> bool" where
  "onlyTopologyEvidence bag \<longleftrightarrow>
     hasTopologyEvidence bag \<and> eb_PerformanceEvidence bag = 0 \<and> \<not> eb_HasLatency bag \<and>
     eb_PerformanceProfile bag = None \<and> eb_Org bag = [] \<and> eb_PTR bag = []"

definition strongestWANSignalConfidence :: "evidenceBag \<Rightarrow> float64" where
  "strongestWANSignalConfidence bag =
     fold (\<lambda>s best. if ws_Strength s = EvidencePhysical \<or> ws_Strength s = ''strong'' \<or> ws_Confidence s \<ge> flit 0.70
                    then maxFloat best (ws_Confidence s) else best) (eb_WANSignals bag) 0"

text \<open>The three branches of the switch on the evidence, each with its cap.\<close>

definition at_most :: "float64 \<Rightarrow> float64 \<Rightarrow> float64" where
  "at_most cap v = (if v > cap then cap else v)"

definition direct_confidence :: "evidenceBag \<Rightarrow> float64 \<Rightarrow> float64" where
  "direct_confidence bag conf =
     (let directConf = maxFloat (eb_PhysicalEvidence bag) (strongestWANSignalConfidence bag);
          directConf = (case eb_LineProfile bag of
                          Some l \<Rightarrow> maxFloat directConf (lp_Confidence l) | None \<Rightarrow> directConf);
          conf = (if directConf \<ge> flit 0.85 then maxFloat conf directConf else maxFloat conf (flit 0.80));
          conf = at_most (flit 0.98) conf
      in if ethernetWANOnlyEvidence bag then at_most (flit 0.59) conf else conf)"

definition device_confidence :: "evidenceBag \<Rightarrow> bool \<Rightarrow> float64 \<Rightarrow> float64" where
  "device_confidence bag matched conf =
     (let modelConf = eb_DeviceEvidence bag;
          modelConf = (if matched then maxFloat modelConf (flit 0.72) else modelConf)
      in at_most (flit 0.75) (maxFloat conf modelConf))"

definition context_only_confidence :: "evidenceBag \<Rightarrow> float64 \<Rightarrow> float64" where
  "context_only_confidence bag conf =
     (let conf = at_most (flit 0.40) conf;
          conf = (if onlyPerformanceAndRegionalEvidence bag then at_most (flit 0.25) conf else conf)
      in if onlyTopologyEvidence bag then at_most (flit 0.30) conf else conf)"

definition computeClassificationConfidence ::
  "score_map \<Rightarrow> evidenceBag \<Rightarrow> bool \<Rightarrow> DataConflict list \<Rightarrow> float64" where
  "computeClassificationConfidence scores bag matched conflicts =
     (let conf = computeConfidence scores (eb_Sources bag) matched;
          conf = (if hasDirectPhysicalEvidence bag then direct_confidence bag conf
                  else if hasDeviceModelEvidence bag matched then device_confidence bag matched conf
                  else context_only_confidence bag conf);
          conf = (if hasHighSeverityConflict conflicts \<and> conf > flit 0.35 then flit 0.35
                  else if hasMediumSeverityConflict conflicts then fsub conf (flit 0.10)
                  else conf)
      in clamp01 conf)"

definition computeConfidenceBreakdown :: "evidenceBag \<Rightarrow> bool \<Rightarrow> ConfidenceBreakdown" where
  "computeConfidenceBreakdown bag matched =
     (let device = (if matched then maxFloat (eb_DeviceEvidence bag) (flit 0.80) else eb_DeviceEvidence bag);
          physical = (if eb_StrongAccessHints bag \<noteq> [] then maxFloat (eb_PhysicalEvidence bag) (flit 0.80)
                      else eb_PhysicalEvidence bag)
      in \<lparr>cb_Classification = 0, cb_Context = 0, cb_Physical = clamp01 physical,
          cb_Device = clamp01 device, cb_Network = clamp01 (eb_NetworkEvidence bag),
          cb_Performance = clamp01 (eb_PerformanceEvidence bag), cb_Regional = 0,
          cb_Penalty = (if \<not> hasDirectPhysicalEvidence bag then flit 0.35 else 0)\<rparr>)"

lemmas [go_defs] = clamp01_def computeConfidence_def hasTopologyEvidence_def
  onlyPerformanceAndRegionalEvidence_def onlyTopologyEvidence_def strongestWANSignalConfidence_def
  at_most_def direct_confidence_def device_confidence_def context_only_confidence_def
  computeClassificationConfidence_def computeConfidenceBreakdown_def

section \<open>Candidates by type and the score audit\<close>

definition access_candidate :: "string \<Rightarrow> string \<Rightarrow> string \<Rightarrow> AccessCandidate" where
  "access_candidate category t sub =
     \<lparr>ac_Category = category, ac_Type = t, ac_Technology = [], ac_Standard = [], ac_Subtype = sub,
      ac_Score = 0, ac_Confidence = 0, ac_EvidenceStrength = [], ac_SupportingEvidence = [],
      ac_ContradictingEvidence = [], ac_MissingEvidence = [], ac_Explanation = [], ac_WhyNot = []\<rparr>"

definition candidateForType :: "string \<Rightarrow> AccessCandidate" where
  "candidateForType t =
     (if t = TypeVDSL2 then access_candidate CatDSL TypeVDSL TypeVDSL2
      else if t = TypeVDSL then access_candidate CatDSL TypeVDSL []
      else if t = TypeADSL2 then access_candidate CatDSL TypeADSL TypeADSL2
      else if t = TypeADSL then access_candidate CatDSL TypeADSL []
      else if t = TypeGPON then access_candidate CatFiber TypeFTTH TypeGPON
      else if t = TypeFTTH then access_candidate CatFiber TypeFTTH []
      else if t = TypeDOCSIS then access_candidate CatCable TypeCable TypeDOCSIS
      else if t = TypeFWA then access_candidate CatMobile TypeFWA []
      else if t = TypeLTE then access_candidate CatMobile TypeMobile TypeLTE
      else access_candidate (CategoryFor t) t [])"

definition candidate_before :: "AccessCandidate \<Rightarrow> AccessCandidate \<Rightarrow> bool" where
  "candidate_before a b =
     (if ac_Score a \<noteq> ac_Score b then ac_Score a > ac_Score b
      else if ac_Category a \<noteq> ac_Category b then str_less (ac_Category a) (ac_Category b)
      else if ac_Type a \<noteq> ac_Type b then str_less (ac_Type a) (ac_Type b)
      else str_less (ac_Subtype a) (ac_Subtype b))"

definition buildAccessCandidates :: "score_map \<Rightarrow> evidenceBag \<Rightarrow> bool \<Rightarrow> AccessCandidate list" where
  "buildAccessCandidates scores bag matched =
     (let strength = (if hasStrongPhysicalEvidence bag matched then ''strong''
                      else if eb_DeviceEvidence bag > 0 then ''medium'' else ''weak'')
      in sort_by candidate_before
           (map (\<lambda>ts. (candidateForType (ts_Type ts))\<lparr>ac_Score := ts_Score ts, ac_Confidence := ts_Score ts,
                        ac_EvidenceStrength := strength\<rparr>)
             (collapseParentSubtypeCandidates (rankAll scores))))"

definition scoreContribution ::
  "string \<Rightarrow> float64 \<Rightarrow> string \<Rightarrow> string \<Rightarrow> string \<Rightarrow> string \<Rightarrow> ScoreContribution" where
  "scoreContribution target amount class strength probe reason =
     (let c = candidateForType target
      in \<lparr>sk_Target = target, sk_Category = ac_Category c, sk_Type = ac_Type c, sk_Subtype = ac_Subtype c,
          sk_Amount = amount, sk_EvidenceClass = class, sk_Strength = strength, sk_ProbeName = probe,
          sk_Reason = reason\<rparr>)"

definition addHintsWithAudit ::
  "string list \<Rightarrow> float64 \<Rightarrow> string \<Rightarrow> string \<Rightarrow> string \<Rightarrow> string \<Rightarrow> Board \<times> ScoreContribution list \<Rightarrow>
   Board \<times> ScoreContribution list" where
  "addHintsWithAudit hints weight class strength probe reason s =
     (AddHints hints weight (fst s),
      snd s @ map (\<lambda>h. scoreContribution h weight class strength probe reason)
        (filter (\<lambda>h. h \<noteq> [] \<and> weight \<noteq> 0) hints))"

definition addScoresWithAudit ::
  "score_map \<Rightarrow> string \<Rightarrow> string \<Rightarrow> string \<Rightarrow> string \<Rightarrow> Board \<times> ScoreContribution list \<Rightarrow>
   Board \<times> ScoreContribution list" where
  "addScoresWithAudit scores class strength probe reason s =
     (board_Add scores (fst s),
      snd s @ map (\<lambda>(t, a). scoreContribution t a class strength probe reason)
        (filter (\<lambda>(t, a). a \<noteq> 0) scores))"

definition classifyRuleEvidence :: "string \<Rightarrow> string \<times> string" where
  "classifyRuleEvidence ruleID =
     (let i = to_lower ruleID
      in if containsAny i [''cpe_wan'', ''docsis''] then (''physical'', ''strong'')
         else if containsAny i [''model'', ''router'', ''wisp''] then (''device'', ''medium'')
         else if containsAny i [''cgnat'', ''isp'', ''ptr''] then (''regional'', ''weak'')
         else (''device'', ''medium''))"

section \<open>Fingerprints\<close>

record Fingerprint =
  fp_Vendor :: string
  fp_Model :: string
  fp_Category :: string
  fp_Supports :: "string list"
  fp_AccessHints :: "string list"
  fp_Match :: "string list"

definition fingerprint_needles :: "Fingerprint \<Rightarrow> string list" where
  "fingerprint_needles d = (if fp_Match d = [] \<and> fp_Model d \<noteq> [] then [fp_Model d] else fp_Match d)"

definition MatchFingerprint :: "Fingerprint list \<Rightarrow> string \<Rightarrow> Fingerprint option" where
  "MatchFingerprint devices txt =
     (let t = to_lower txt
      in if trim_space t = [] then None
         else find (\<lambda>d. list_ex (\<lambda>n. n \<noteq> [] \<and> str_contains t (to_lower n)) (fingerprint_needles d)) devices)"

definition NormalizeModel :: "string \<Rightarrow> string" where
  "NormalizeModel s = str_join (str_fields (replace_bytes [(CHR ''_'', '' '')] s)) '' ''"

lemmas [go_defs] = access_candidate_def candidateForType_def candidate_before_def buildAccessCandidates_def
  scoreContribution_def addHintsWithAudit_def addScoresWithAudit_def classifyRuleEvidence_def
  fingerprint_needles_def MatchFingerprint_def NormalizeModel_def

end
