(* ===== verification/Access_Contract.thy ===== *)
theory Access_Contract
  imports Access_Decision
begin

text \<open>
  The output contract of \<open>agent/internal/detection\<close>: the evidence tiers, the conflicts between probes,
  the public classification and its state, and the user-facing summary (\<open>contract.go\<close>), and the
  recommended probes (\<open>next_best.go\<close>).
\<close>

section \<open>Evidence tiers\<close>

definition strengthLabel :: "float64 \<Rightarrow> string" where
  "strengthLabel v =
     (if v \<le> 0 then ''none'' else if v < flit 0.40 then ''weak''
      else if v < flit 0.70 then ''medium'' else ''strong'')"

definition strengthRank :: "string \<Rightarrow> int" where
  "strengthRank s = (if s = ''strong'' then 3 else if s = ''medium'' then 2 else if s = ''weak'' then 1 else 0)"

definition stronger :: "string \<Rightarrow> string \<Rightarrow> bool" where
  "stronger a b \<longleftrightarrow> strengthRank a > strengthRank b"

definition tierStatus :: "string \<Rightarrow> string \<Rightarrow> bool \<Rightarrow> string" where
  "tierStatus name strength present =
     (if \<not> present then ''missing''
      else if name = ''topology'' \<and> strength = ''weak'' then ''present_but_weak''
      else strength)"

definition clean_item :: "EvidenceItem \<Rightarrow> EvidenceItem" where
  "clean_item i =
     i\<lparr>ei_Confidence := clamp01 (ei_Confidence i),
       ei_TargetType := (if ei_TargetType i = [] then CatUnknown else ei_TargetType i)\<rparr>"

definition tier :: "string \<Rightarrow> EvidenceItem list \<Rightarrow> EvidenceTier" where
  "tier name items0 =
     (let items = map clean_item items0;
          strength = fold (\<lambda>i s. if stronger (ei_Strength i) s then ei_Strength i else s) items ''none'';
          conf = fold (\<lambda>i c. maxFloat c (ei_Confidence i)) items 0;
          present = items \<noteq> []
      in \<lparr>et_Status = tierStatus name strength present, et_Items = items, et_Present = present,
          et_Strength = strength, et_Confidence = clamp01 conf\<rparr>)"

definition weak_item :: "string \<Rightarrow> float64 \<Rightarrow> string \<Rightarrow> evidence_map \<Rightarrow> EvidenceItem" where
  "weak_item source conf reason raw =
     \<lparr>ei_Source = source, ei_TargetType = CatUnknown, ei_Strength = ''weak'', ei_Confidence = conf,
      ei_Reason = reason, ei_Raw = raw\<rparr>"

definition line_item :: "LineProfile \<Rightarrow> EvidenceItem" where
  "line_item l =
     \<lparr>ei_Source = firstNonEmpty (lp_Source l) ''line_profile'', ei_TargetType = lineProfileTargetType (Some l),
      ei_Strength = ''strong'', ei_Confidence = lp_Confidence l, ei_Reason = str_join (Summary (Some l)) '' '',
      ei_Raw = [(''medium'', A_string (lp_Medium l)), (''technology'', A_string (lp_Technology l)),
                (''subtype'', A_string (lp_Subtype l))]\<rparr>"

definition signal_item :: "WANSignal \<Rightarrow> EvidenceItem" where
  "signal_item s =
     \<lparr>ei_Source = firstNonEmpty (ws_Source s) ''wan_signal'', ei_TargetType = inferTargetType (signal_text s),
      ei_Strength = ''strong'', ei_Confidence = ws_Confidence s,
      ei_Reason = trim_space (ws_Type s @ '' '' @ ws_Value s @ '' '' @ ws_Detail s),
      ei_Raw = [(''ip'', A_string (ws_IP s)), (''type'', A_string (ws_Type s)),
                (''value'', A_string (ws_Value s)), (''detail'', A_string (ws_Detail s))]\<rparr>"

definition hint_item :: "evidenceBag \<Rightarrow> string \<Rightarrow> EvidenceItem" where
  "hint_item bag h =
     \<lparr>ei_Source = ''cpe_wan'', ei_TargetType = publicTypeForTarget h, ei_Strength = ''strong'',
      ei_Confidence = maxFloat (eb_PhysicalEvidence bag) (flit 0.80),
      ei_Reason = ''CPE exposed direct physical WAN evidence for '' @ h @ ''.'',
      ei_Raw = [(''hint'', A_string h)]\<rparr>"

definition direct_items :: "evidenceBag \<Rightarrow> EvidenceItem list" where
  "direct_items bag =
     (case eb_LineProfile bag of Some l \<Rightarrow> [line_item l] | None \<Rightarrow> []) @
     map signal_item (filter direct_signal (eb_WANSignals bag)) @
     map (hint_item bag) (eb_StrongAccessHints bag)"

definition device_item :: "GatewayDevice \<Rightarrow> EvidenceItem" where
  "device_item d =
     \<lparr>ei_Source = ''gateway_device:'' @ gd_IP d, ei_TargetType = firstHintTarget (gd_AccessHints d),
      ei_Strength = strengthLabel (gd_DeviceConfidence d), ei_Confidence = gd_DeviceConfidence d,
      ei_Reason = ''Gateway device model evidence was identified.'',
      ei_Raw = [(''ip'', A_string (gd_IP d)), (''manufacturer'', A_string (gd_Manufacturer d)),
                (''model'', A_string (gd_Model d)), (''fingerprint_id'', A_string (gd_FingerprintID d)),
                (''access_hints'', A_strings (gd_AccessHints d))]\<rparr>"

definition device_items :: "evidenceBag \<Rightarrow> bool \<Rightarrow> EvidenceItem list" where
  "device_items bag matched =
     (if matched then
        [\<lparr>ei_Source = ''fingerprint'',
          ei_TargetType = inferTargetType (str_join (eb_Hints bag) '' '' @ '' '' @ eb_RouterModel bag),
          ei_Strength = ''medium'', ei_Confidence = flit 0.72,
          ei_Reason = ''Known CPE model fingerprint matched the observed gateway identity.'',
          ei_Raw = [(''router_model'', A_string (eb_RouterModel bag))]\<rparr>]
      else []) @
     (if eb_RouterModel bag \<noteq> [] then
        [\<lparr>ei_Source = ''gateway_identity'',
          ei_TargetType = inferTargetType (eb_RouterModel bag @ '' '' @ str_join (eb_Hints bag) '' ''),
          ei_Strength = strengthLabel (eb_DeviceEvidence bag), ei_Confidence = eb_DeviceEvidence bag,
          ei_Reason = ''Gateway model was identified: '' @ eb_RouterModel bag @ ''.'',
          ei_Raw = [(''router_model'', A_string (eb_RouterModel bag))]\<rparr>]
      else []) @
     map device_item
       (filter (\<lambda>d. gd_Manufacturer d \<noteq> [] \<or> gd_Model d \<noteq> [] \<or> gd_FingerprintID d \<noteq> []) (eb_GatewayDevices bag))"

definition topology_items :: "evidenceBag \<Rightarrow> EvidenceItem list" where
  "topology_items bag =
     (if eb_Gateway bag \<noteq> [] then
        [weak_item ''gateway_probe'' (flit 0.25)
           ''Default gateway was detected; this is topology context, not WAN physical proof.''
           [(''gateway'', A_string (eb_Gateway bag))]]
      else []) @
     (if eb_GatewayChain bag \<noteq> [] then
        [weak_item ''gateway_chain_probe'' (flit 0.35)
           ''Private gateway chain was detected; this can explain router/CPE placement but not access type.''
           [(''gateway_chain'', A_strings (eb_GatewayChain bag))]]
      else []) @
     (case eb_NATTopology bag of
        Some n \<Rightarrow>
          if hasUsefulNATContext (Some n) then
            [weak_item ''nat_topology'' (flit 0.35) ''NAT topology is network context only.''
               [(''topology'', A_string (nt_Topology n)), (''double_nat'', A_bool (nt_DoubleNAT n))]]
          else []
      | None \<Rightarrow> [])"

definition performance_items :: "evidenceBag \<Rightarrow> EvidenceItem list" where
  "performance_items bag =
     (case eb_PerformanceProfile bag of
        Some p \<Rightarrow>
          [weak_item ''performance_profile_probe'' (maxFloat (eb_PerformanceEvidence bag) (flit 0.25))
             (''Idle latency '' @ format_1dp (pp_IdleLatencyMS p) @ '' ms and jitter '' @
              format_1dp (pp_JitterMS p) @ '' ms are contextual only.'')
             [(''idle_latency_ms'', A_float64 (pp_IdleLatencyMS p)), (''jitter_ms'', A_float64 (pp_JitterMS p))]]
      | None \<Rightarrow>
          if eb_HasLatency bag then
            [weak_item ''latency_probe'' (flit 0.20)
               (''Latency '' @ format_1dp (eb_AvgMS bag) @
                '' ms is compatible with several access types and is not conclusive.'')
               [(''avg_ms'', A_float64 (eb_AvgMS bag)), (''jitter_ms'', A_float64 (eb_JitterMS bag))]]
          else [])"

definition regional_items :: "evidenceBag \<Rightarrow> EvidenceItem list" where
  "regional_items bag =
     (if eb_Org bag \<noteq> [] then
        [weak_item ''asn_probe'' (flit 0.25) ''Operator/ASN context does not prove the physical access type.''
           [(''org'', A_string (eb_Org bag))]]
      else []) @
     (if eb_PTR bag \<noteq> [] then
        [weak_item ''asn_probe'' (flit 0.20) ''PTR/reverse DNS is regional context only.''
           [(''ptr'', A_string (eb_PTR bag))]]
      else [])"

definition buildEvidenceTiers :: "evidenceBag \<Rightarrow> bool \<Rightarrow> EvidenceTiers" where
  "buildEvidenceTiers bag matched =
     \<lparr>tiers_DirectPhysical = tier ''direct_physical'' (direct_items bag),
      tiers_DeviceModel = tier ''device_model'' (device_items bag matched),
      tiers_Topology = tier ''topology'' (topology_items bag),
      tiers_Performance = tier ''performance'' (performance_items bag),
      tiers_Regional = tier ''regional'' (regional_items bag)\<rparr>"

definition compactStrings :: "string list \<Rightarrow> string list" where
  "compactStrings values =
     fold (\<lambda>v out. let v = trim_space v in if v \<noteq> [] then appendUniqueStrings out [v] else out) values []"

lemmas [go_defs] = strengthLabel_def strengthRank_def stronger_def tierStatus_def clean_item_def tier_def
  weak_item_def line_item_def signal_item_def hint_item_def direct_items_def device_item_def
  device_items_def topology_items_def performance_items_def regional_items_def
  buildEvidenceTiers_def compactStrings_def

section \<open>Direct evidence of a probe and of a device\<close>

definition directProbeHasPhysicalEvidence :: "ProbeResult \<Rightarrow> bool" where
  "directProbeHasPhysicalEvidence r =
     (let ev = pr_Evidence r; wan = to_lower (getString ev ''wan_access_type'')
      in getBool ev ''direct_physical_evidence'' \<or>
         (wan \<noteq> [] \<and> wan \<noteq> ''unknown'' \<and> wan \<noteq> ''other'') \<or>
         list_ex direct_signal (getWANSignals ev ''wan_signals'') \<or>
         Parse (getStringMap ev ''cpe_kv'') (getString ev ''cpe_text'') (pr_ProbeName r) \<noteq> None \<or>
         has_direct_token (to_lower (str_join (getStrings ev ''cpe_services'') '' '' @ '' '' @ getString ev ''cpe_text'')))"

definition gatewayDeviceHasDirectPhysicalEvidence :: "GatewayDevice \<Rightarrow> bool" where
  "gatewayDeviceHasDirectPhysicalEvidence d \<longleftrightarrow>
     (gd_WANCommonInterfaceFound d \<and> gd_WANAccessType d \<noteq> []) \<or> gd_PhysicalHints d \<noteq> [] \<or>
     has_direct_token (to_lower (str_join ([gd_WANAccessType d, gd_PhysicalLinkStatus d] @ gd_TR064Services d) '' ''))"

definition gatewayDevicePhysicalHints :: "GatewayDevice \<Rightarrow> string list" where
  "gatewayDevicePhysicalHints d = (if gd_PhysicalHints d \<noteq> [] then gd_PhysicalHints d else gd_AccessHints d)"

section \<open>Conflicts between probes\<close>

definition conflict_value :: "string \<Rightarrow> any \<Rightarrow> ConflictValue" where
  "conflict_value s v = \<lparr>cv_Source = s, cv_Value = v\<rparr>"

definition data_conflict :: "string \<Rightarrow> string \<Rightarrow> string \<Rightarrow> string \<Rightarrow> ConflictValue list \<Rightarrow> DataConflict" where
  "data_conflict field severity effect resolution values =
     \<lparr>dc_Field = field, dc_Values = values, dc_Severity = severity, dc_Effect = effect,
      dc_Resolution = resolution\<rparr>"

text \<open>The map from the IPs of the devices to their reachability; the last device of an IP counts.\<close>

definition device_reach :: "GatewayDevice list \<Rightarrow> string \<rightharpoonup> bool" where
  "device_reach devices =
     fold (\<lambda>d m. if gd_IP d \<noteq> [] then m(gd_IP d \<mapsto> gd_Reachable d) else m) devices Map.empty"

definition reach_conflicts :: "(string \<rightharpoonup> bool) \<Rightarrow> ProbeResult \<Rightarrow> DataConflict list" where
  "reach_conflicts deviceReach r =
     (if pr_Status r = StatusSuccess \<and>
         (pr_ProbeName r = ''gateway_reachability_diagnostics_probe'' \<or> pr_ProbeName r = ''gateway_reachability_probe'')
      then
        let ip = firstNonEmpty (getString (pr_Evidence r) ''gateway_ip'') (getString (pr_Evidence r) ''ip'');
            reachable = getBool (pr_Evidence r) ''management_reachable''
        in if ip \<noteq> [] \<and> deviceReach ip = Some (\<not> reachable) then
             [data_conflict (''gateway_devices['' @ ip @ ''].reachable'') ''high'' ''downgrade_confidence''
                ''Prefer active reachability probe over stale gateway summary field.''
                [conflict_value ''gateway_devices'' (A_bool (\<not> reachable)),
                 conflict_value (pr_ProbeName r) (A_bool reachable)]]
           else []
      else [])"

definition chain_conflicts :: "evidenceBag \<Rightarrow> ProbeResult \<Rightarrow> DataConflict list" where
  "chain_conflicts bag r =
     (if pr_Status r = StatusSuccess \<and> pr_ProbeName r = ''traceroute_probe'' then
        let chain = cr_Chain (detectGatewayChain (getStrings (pr_Evidence r) ''hops''))
        in if chain \<noteq> [] \<and> str_join chain '','' \<noteq> str_join (eb_GatewayChain bag) '','' then
             [data_conflict ''gateway_chain'' ''medium'' ''downgrade_confidence''
                ''Prefer the latest private-hop traceroute when it contains a longer supported private chain.''
                [conflict_value ''traceroute_probe'' (A_strings chain),
                 conflict_value ''gateway_chain_probe'' (A_strings (eb_GatewayChain bag))]]
           else []
      else [])"

definition doubleNATValue :: "ProbeResult \<Rightarrow> bool option" where
  "doubleNATValue r =
     (let ev = pr_Evidence r
      in if map_of ev ''double_nat_possible'' \<noteq> None then Some (getBool ev ''double_nat_possible'')
         else if map_of ev ''double_nat'' \<noteq> None then Some (getBool ev ''double_nat'')
         else map_option (\<lambda>n. nt_DoubleNAT n \<or> nt_InternalDoubleNATPossible n) (getNATTopology ev ''nat_topology''))"

definition double_nat_conflicts :: "bool \<Rightarrow> ProbeResult \<Rightarrow> DataConflict list" where
  "double_nat_conflicts finalDouble r =
     (if pr_Status r \<noteq> StatusSuccess then []
      else case doubleNATValue r of
          None \<Rightarrow> []
        | Some sourceDouble \<Rightarrow>
            if sourceDouble = finalDouble then []
            else [data_conflict ''nat_topology.double_nat''
                    (if pr_ProbeName r = ''gateway_chain_probe'' \<or> pr_ProbeName r = ''traceroute_probe''
                     then ''high'' else ''medium'')
                    ''downgrade_confidence''
                    ''Final double-NAT state must be derived from supported gateway-chain or NAT evidence.''
                    [conflict_value (pr_ProbeName r) (A_bool sourceDouble),
                     conflict_value ''final_nat_topology'' (A_bool finalDouble)]])"

definition detectDoubleNATConflicts :: "ProbeResult list \<Rightarrow> evidenceBag \<Rightarrow> DataConflict list" where
  "detectDoubleNATConflicts results bag =
     (let finalDouble = eb_DoubleNATPossible bag \<or>
            (case eb_NATTopology bag of Some n \<Rightarrow> nt_DoubleNAT n \<or> nt_InternalDoubleNATPossible n | None \<Rightarrow> False)
      in concat (map (double_nat_conflicts finalDouble) results))"

text \<open>The sources and families of the WAN types the probes report, in order.\<close>

definition wan_family :: "string \<Rightarrow> string" where
  "wan_family txt = conflictFamily (publicTypeForTarget (inferTargetType txt))"

definition wan_values :: "ProbeResult \<Rightarrow> (string \<times> string) list" where
  "wan_values r =
     (if pr_Status r \<noteq> StatusSuccess then []
      else
        let ev = pr_Evidence r; v = getString ev ''wan_access_type''
        in (if v \<noteq> [] then [(pr_ProbeName r, wan_family v)] else []) @
           map (\<lambda>s. (firstNonEmpty (ws_Source s) (pr_ProbeName r), wan_family (signal_text s)))
             (filter (\<lambda>s. ws_Value s \<noteq> []) (getWANSignals ev ''wan_signals'')) @
           (if getBool ev ''direct_physical_evidence'' then
              let target = firstHintTarget (pr_Hints r)
              in if target \<noteq> CatUnknown then [(pr_ProbeName r, conflictFamily target)] else []
            else []))"

definition detectWANTypeConflicts :: "ProbeResult list \<Rightarrow> DataConflict list" where
  "detectWANTypeConflicts results =
     (case concat (map wan_values results) of
        [] \<Rightarrow> []
      | first # rest \<Rightarrow>
          (case find (\<lambda>v. \<not> (snd v = [] \<or> snd v = CatUnknown \<or> snd v = snd first)) rest of
             None \<Rightarrow> []
           | Some v \<Rightarrow>
               [data_conflict ''wan_access_type'' ''high'' ''set_conflicting_evidence''
                  ''Prefer explicit active physical interface evidence over generic Ethernet WAN or model hints.''
                  [conflict_value (fst first) (A_string (snd first)),
                   conflict_value (fst v) (A_string (snd v))]]))"

definition ethernet_conflicts :: "evidenceBag \<Rightarrow> score_map \<Rightarrow> DataConflict list" where
  "ethernet_conflicts bag scores =
     (if hasEthernetWANSignal bag \<and>
         list_ex (\<lambda>t. score_at scores t > flit 0.35) [TypeDSL, TypeVDSL, TypeADSL, TypeFiber]
      then [data_conflict ''classification.wan_access_type'' ''high'' ''set_conflicting_evidence''
              ''Direct physical evidence wins over weaker model or score hints; Ethernet WAN is not Fiber.''
              [conflict_value ''direct_wan_evidence'' (A_string TypeEthernetWAN),
               conflict_value ''weaker_scores'' (A_scores (categoryScores scores))]]
      else [])"

definition detectConflicts :: "ProbeResult list \<Rightarrow> evidenceBag \<Rightarrow> score_map \<Rightarrow> DataConflict list" where
  "detectConflicts results bag scores =
     concat (map (reach_conflicts (device_reach (eb_GatewayDevices bag))) results) @
     (if eb_GatewayChain bag \<noteq> [] then concat (map (chain_conflicts bag) results) else []) @
     detectDoubleNATConflicts results bag @
     (case eb_GatewayChainState bag of Some st \<Rightarrow> gc_Conflicts st | None \<Rightarrow> []) @
     detectWANTypeConflicts results @
     ethernet_conflicts bag scores"

lemmas [go_defs] = directProbeHasPhysicalEvidence_def gatewayDeviceHasDirectPhysicalEvidence_def
  gatewayDevicePhysicalHints_def conflict_value_def data_conflict_def device_reach_def
  reach_conflicts_def chain_conflicts_def doubleNATValue_def double_nat_conflicts_def
  detectDoubleNATConflicts_def wan_family_def wan_values_def detectWANTypeConflicts_def
  ethernet_conflicts_def detectConflicts_def

end
