(* ===== verification/Score_Synthesis.thy ===== *)
theory Score_Synthesis
  imports Access_Contract
begin

text \<open>
  \<open>synthesis.go\<close> of \<open>agent/internal/detection\<close>: the confidence in the context, the audit of the scores, the
  candidates by category with the evidence for and against them, and the strength summary; and
  \<open>evidence_normalization.go\<close>. Grouping by category and adding the deltas of a rule iterate over Go maps:
  the order of the association list.
\<close>

section \<open>Confidence in the context\<close>

definition context_signals :: "evidenceBag \<Rightarrow> nat" where
  "context_signals bag =
     of_bool (eb_Org bag \<noteq> [] \<or> eb_PTR bag \<noteq> []) + of_bool (hasUsefulNATContext (eb_NATTopology bag)) +
     of_bool (eb_IPv6Context bag \<noteq> None) +
     of_bool (eb_HasLatency bag \<or> eb_PerformanceProfile bag \<noteq> None) + of_bool (eb_PublicIP bag \<noteq> [])"

definition contextConfidence :: "evidenceBag \<Rightarrow> float64" where
  "contextConfidence bag =
     (let c = eb_NetworkEvidence bag;
          c = maxFloat c (fmul (flit 0.85) (eb_PerformanceEvidence bag));
          c = maxFloat c (fmul (flit 0.6) (eb_DeviceEvidence bag));
          signals = context_signals bag;
          c = (if signals > 0 then
                 maxFloat c (clamp01 (fadd (flit 0.2) (fmul (flit 0.1) (of_nat signals)))) else c)
      in clamp01 c)"

section \<open>The audit of the scores\<close>

text \<open>The closure \<open>add\<close>: nothing for an amount of 0.\<close>

definition contribution ::
  "string \<Rightarrow> string \<Rightarrow> string \<Rightarrow> string \<Rightarrow> string \<times> float64 \<Rightarrow> ScoreContribution list" where
  "contribution class strength probe reason d =
     (if snd d = 0 then [] else [scoreContribution (fst d) (snd d) class strength probe reason])"

definition latency_band :: "evidenceBag \<Rightarrow> score_map" where
  "latency_band bag =
     (let ms = eb_AvgMS bag
      in if \<not> eb_HasLatency bag then []
         else if ms \<le> 8 then [(TypeFiber, LatLowFiber), (TypeVDSL, LatLowVDSL)]
         else if ms \<le> 25 then
           [(TypeDSL, LatMidGeneric), (TypeVDSL, LatMidGeneric), (TypeFiber, LatMidGeneric),
            (TypeCable, LatMidGeneric)]
         else if ms \<le> 80 then [(TypeDSL, LatDSLFWA), (TypeFWA, LatDSLFWA)]
         else if ms \<le> 200 then [(TypeMobile, LatMobile), (TypeFWA, LatMobile)]
         else if ms \<ge> 500 then [(TypeSatellite, LatSatellite)]
         else [])"

definition latencyContributions :: "evidenceBag \<Rightarrow> ScoreContribution list" where
  "latencyContributions bag =
     map (\<lambda>(t, a). scoreContribution t a ''performance'' ''weak'' ''latency_probe''
            ''Latency band is compatible with this type (not conclusive).'') (latency_band bag)"

definition ruleEvidenceClass :: "string \<Rightarrow> string \<times> string" where
  "ruleEvidenceClass i =
     (if has_prefix i ''iface_'' then (''physical'', ''strong'')
      else if has_prefix i ''ptr_'' \<or> has_prefix i ''isp_'' \<or> has_prefix i ''provider_'' then (''regional'', ''weak'')
      else (''device'', ''medium''))"

text \<open>\<open>ruleByID\<close>: the last rule of an identifier.\<close>

definition rule_by_id :: "Rule list \<Rightarrow> string \<rightharpoonup> Rule" where
  "rule_by_id rules = map_of (rev (map (\<lambda>r. (ru_ID r, r)) rules))"

definition rule_contributions :: "Rule list \<Rightarrow> string \<Rightarrow> ScoreContribution list" where
  "rule_contributions rules i =
     (case rule_by_id rules i of
        None \<Rightarrow> []
      | Some r \<Rightarrow>
          let (class, strength) = ruleEvidenceClass i
          in concat (map (contribution class strength (''rule:'' @ i) (''Matched rule '' @ i @ ''.''))
               (ru_AddScore r)))"

definition buildContributions ::
  "evidenceBag \<Rightarrow> Fingerprint option \<Rightarrow> Rule list \<Rightarrow> string list \<Rightarrow> ScoreContribution list" where
  "buildContributions bag fp rules fired =
     (case fp of
        None \<Rightarrow> []
      | Some f \<Rightarrow>
          concat (map (\<lambda>h. contribution ''device'' ''strong'' ''fingerprint''
            ''Known CPE model maps to this access family.'' (h, WeightFingerprintHint)) (fp_AccessHints f)) @
          concat (map (\<lambda>s. contribution ''device'' ''medium'' ''fingerprint''
            ''CPE model advertises support for this technology.'' (s, WeightFingerprintSupp)) (fp_Supports f))) @
     concat (map (\<lambda>h. contribution ''network'' ''weak'' ''probe_hints''
       ''Probe hint (contextual, not physical-layer proof).'' (h, WeightProbeHint)) (eb_Hints bag)) @
     concat (map (\<lambda>h. contribution ''physical'' ''strong'' ''cpe_wan''
       ''CPE exposed physical WAN access evidence.'' (h, WeightStrongAccessHint)) (eb_StrongAccessHints bag)) @
     latencyContributions bag @
     concat (map (rule_contributions rules) fired)"

section \<open>Evidence for and against a candidate\<close>

definition candidateEvidenceMatches :: "AccessCandidate \<Rightarrow> EvidenceItem \<Rightarrow> bool" where
  "candidateEvidenceMatches cand item =
     (let target = publicTypeForTarget (ei_TargetType item); targetCategory = category_key target;
          cat = ac_Category cand
      in if target = CatUnknown \<or> target = [] then False
         else if targetCategory \<noteq> cat then False
         else if target = ac_Type cand \<or> target = ac_Subtype cand \<or> target = ac_Technology cand \<or>
           target = ac_Standard cand then True
         else if cat = CatCable then target \<in> {TypeCable, TypeDOCSIS}
         else if cat = CatDSL then target \<in> {TypeDSL, TypeVDSL, TypeADSL, TypeVDSL2, TypeADSL2}
         else if cat = CatFiber then target \<in> {TypeFiber, TypeFTTH, TypeGPON, TypeXGSPON}
         else if cat = CatMobile then target \<in> {TypeFWA, TypeMobile, TypeLTE, TypeNR5G}
         else targetCategory = cat)"

definition appendMatchingEvidence ::
  "EvidenceItem list \<Rightarrow> AccessCandidate \<Rightarrow> EvidenceItem list \<Rightarrow> EvidenceItem list" where
  "appendMatchingEvidence out cand items = out @ filter (candidateEvidenceMatches cand) items"

definition candidateSupportingEvidence :: "AccessCandidate \<Rightarrow> EvidenceTiers \<Rightarrow> EvidenceItem list" where
  "candidateSupportingEvidence cand tiers =
     (let direct = tiers_DirectPhysical tiers; device = tiers_DeviceModel tiers;
          out = (if et_Present direct then appendMatchingEvidence [] cand (et_Items direct) else [])
      in if et_Present device then appendMatchingEvidence out cand (et_Items device) else out)"

definition candidateContradictingEvidence :: "AccessCandidate \<Rightarrow> EvidenceTiers \<Rightarrow> EvidenceItem list" where
  "candidateContradictingEvidence cand tiers =
     filter (\<lambda>i. ei_TargetType i \<noteq> [] \<and> ei_TargetType i \<noteq> CatUnknown \<and> \<not> candidateEvidenceMatches cand i)
       (et_Items (tiers_DirectPhysical tiers) @ et_Items (tiers_DeviceModel tiers))"

definition candidateTechnology :: "AccessCandidate \<Rightarrow> string" where
  "candidateTechnology cand =
     (let t = ac_Type cand
      in if ac_Subtype cand \<noteq> [] then ac_Subtype cand
         else if t = TypeCable then TypeDOCSIS
         else if t = TypeVDSL \<or> t = TypeVDSL2 then TypeVDSL2
         else if t = TypeADSL \<or> t = TypeADSL2 then TypeADSL
         else if t = TypeFTTH \<or> t = TypeFiber then TypeGPON
         else if t = TypeFWA \<or> t = TypeMobile then ''LTE/5G NR''
         else if t = TypeWISP then TypeFixedWireless
         else t)"

definition candidateStandard :: "AccessCandidate \<Rightarrow> string" where
  "candidateStandard cand =
     (let t = ac_Technology cand
      in if t = TypeDOCSIS then ''DOCSIS''
         else if t = TypeVDSL2 then ''ITU-T G.993.2''
         else if t = TypeADSL then ''ITU-T G.992.x''
         else if t = TypeGPON then ''ITU-T G.984''
         else if t = TypeXGSPON then ''ITU-T G.9807.1''
         else [])"

definition candidateMissingEvidence :: "AccessCandidate \<Rightarrow> EvidenceTiers \<Rightarrow> string list" where
  "candidateMissingEvidence cand tiers =
     (let t = ac_Type cand
      in if et_Present (tiers_DirectPhysical tiers) then []
         else if t = TypeFiber \<or> t = TypeFTTH then
           [''No optical interface evidence.'', ''No ONT/GPON/EPON/XGS-PON model with active optical WAN.'',
            ''No UPnP WANAccessType proving optical access.'', ''No TR-064 WAN optical data.'',
            ''No SNMP optical interface evidence.'']
         else if t = TypeVDSL then
           [''No DSL.Line evidence.'', ''No PTM/ATM evidence.'', ''No VDSL2-LINE-MIB evidence.'',
            ''No TR-064 DSL service data.'', ''No active DSL CPE interface detected.'']
         else if t = TypeADSL then
           [''No ADSL-LINE-MIB evidence.'', ''No ifType adsl(94) evidence.'',
            ''No TR-181 ADSL/ADSL2/ADSL2+ mode evidence.'', ''No TR-064 DSL service data.'']
         else if t = TypeCable then
           [''No DOCSIS MIB evidence.'', ''No docsCable interface evidence.'',
            ''No active cable WAN interface evidence.'']
         else if t = TypeFWA \<or> t = TypeMobile then
           [''No LTE/NR/WWAN CPE interface evidence.'', ''No active cellular WAN metadata.'']
         else if t = TypeEthernetWAN then
           [''No explicit WANAccessType Ethernet evidence.'', ''No TR-181 Ethernet physical WAN stack evidence.'']
         else
           [''No direct physical WAN evidence.'', ''No mapped CPE model evidence.'',
            ''No TR-181/TR-064/SNMP/UPnP WAN physical-layer evidence.''])"

definition candidateWhyNot :: "AccessCandidate \<Rightarrow> string list" where
  "candidateWhyNot cand =
     (if ac_SupportingEvidence cand = [] then
        [''No candidate-specific direct physical or model evidence was collected.''] else []) @
     (if ac_ContradictingEvidence cand \<noteq> [] then
        [''Direct or model evidence points at a different access category.''] else []) @
     ac_MissingEvidence cand"

definition candidateExplanation :: "AccessCandidate \<Rightarrow> string" where
  "candidateExplanation cand =
     (if ac_SupportingEvidence cand \<noteq> [] \<and> ac_ContradictingEvidence cand = [] then
        ''Candidate-specific evidence supports this access category.''
      else if ac_ContradictingEvidence cand \<noteq> [] then
        ''This candidate is weaker because some direct/model evidence supports another access category.''
      else ''This candidate is scoreable but lacks candidate-specific physical evidence.'')"

lemmas [go_defs] = context_signals_def contextConfidence_def contribution_def latency_band_def
  latencyContributions_def ruleEvidenceClass_def rule_by_id_def rule_contributions_def
  buildContributions_def candidateEvidenceMatches_def appendMatchingEvidence_def
  candidateSupportingEvidence_def candidateContradictingEvidence_def candidateTechnology_def
  candidateStandard_def candidateMissingEvidence_def candidateWhyNot_def candidateExplanation_def

section \<open>Candidates by category\<close>

definition subtypeParent :: "(string \<times> string) list" where
  "subtypeParent =
     [(TypeGPON, TypeFTTH), (''EPON'', TypeFTTH), (''XG-PON'', TypeFTTH), (''XGS-PON'', TypeFTTH),
      (''10G-EPON'', TypeFTTH), (TypeVDSL2, TypeVDSL), (TypeADSL2, TypeADSL), (''ADSL2'', TypeADSL),
      (TypeDOCSIS, TypeCable)]"

definition group_step ::
  "string \<times> float64 \<Rightarrow> (string \<times> TypeScore list) list \<Rightarrow> (string \<times> TypeScore list) list" where
  "group_step e byCat =
     (if snd e \<le> 0 then byCat
      else let c = category_key (fst e);
               old = (case map_of byCat c of Some l \<Rightarrow> l | None \<Rightarrow> [])
           in alist_set c (old @ [\<lparr>ts_Type = fst e, ts_Score = snd e\<rparr>]) byCat)"

text \<open>The type and the subtype of a category from its sorted scores.\<close>

definition category_type :: "string \<Rightarrow> TypeScore list \<Rightarrow> string \<times> string" where
  "category_type cat list =
     (case find (\<lambda>ts. map_of subtypeParent (ts_Type ts) \<noteq> None) list of
        Some ts \<Rightarrow> (the (map_of subtypeParent (ts_Type ts)), ts_Type ts)
      | None \<Rightarrow>
          (case list of
             [] \<Rightarrow> ([], [])
           | [ts] \<Rightarrow> (ts_Type ts, [])
           | ts # ts' # _ \<Rightarrow> (if ts_Type ts = cat then ts_Type ts' else ts_Type ts, [])))"

definition category_candidate ::
  "EvidenceTiers \<Rightarrow> string \<Rightarrow> string \<times> TypeScore list \<Rightarrow> AccessCandidate" where
  "category_candidate tiers strength g =
     (let list = sort_by rank_before (snd g); top = ts_Score (hd list);
          (t, sub) = category_type (fst g) list;
          c = (access_candidate (fst g) t sub)\<lparr>ac_Score := top, ac_Confidence := top,
                 ac_EvidenceStrength := strength\<rparr>;
          c = c\<lparr>ac_Technology := candidateTechnology c\<rparr>;
          c = c\<lparr>ac_Standard := candidateStandard c\<rparr>;
          c = c\<lparr>ac_SupportingEvidence := candidateSupportingEvidence c tiers\<rparr>;
          c = c\<lparr>ac_ContradictingEvidence := candidateContradictingEvidence c tiers\<rparr>;
          c = c\<lparr>ac_MissingEvidence := candidateMissingEvidence c tiers\<rparr>;
          c = c\<lparr>ac_WhyNot := candidateWhyNot c\<rparr>
      in c\<lparr>ac_Explanation := candidateExplanation c\<rparr>)"

definition category_before :: "AccessCandidate \<Rightarrow> AccessCandidate \<Rightarrow> bool" where
  "category_before a b =
     (if ac_Score a \<noteq> ac_Score b then ac_Score a > ac_Score b
      else str_less (ac_Category a) (ac_Category b))"

definition tiers_strength :: "EvidenceTiers \<Rightarrow> string" where
  "tiers_strength tiers =
     (let s = et_Strength (tiers_DirectPhysical tiers);
          s = (if s = ''none'' then et_Strength (tiers_DeviceModel tiers) else s)
      in if s = ''none'' then ''weak'' else s)"

definition buildCandidates :: "score_map \<Rightarrow> evidenceBag \<Rightarrow> bool \<Rightarrow> AccessCandidate list" where
  "buildCandidates scores bag matched =
     (let tiers = buildEvidenceTiers bag matched
      in sort_by category_before
           (map (category_candidate tiers (tiers_strength tiers)) (fold group_step scores [])))"

definition buildEvidenceStrengthSummary :: "evidenceBag \<Rightarrow> bool \<Rightarrow> EvidenceStrengthSummary" where
  "buildEvidenceStrengthSummary bag matched =
     (let physical = (if eb_StrongAccessHints bag \<noteq> [] then maxFloat (eb_PhysicalEvidence bag) (flit 0.80)
                      else eb_PhysicalEvidence bag);
          device = (if matched then maxFloat (eb_DeviceEvidence bag) (flit 0.80) else eb_DeviceEvidence bag);
          regional = (if eb_Org bag \<noteq> [] \<or> eb_PTR bag \<noteq> [] then flit 0.30 else 0)
      in \<lparr>es_Physical = strengthLabel physical, es_Device = strengthLabel device,
          es_Network = strengthLabel (eb_NetworkEvidence bag),
          es_Performance = strengthLabel (eb_PerformanceEvidence bag), es_Regional = strengthLabel regional\<rparr>)"

lemmas [go_defs] = subtypeParent_def group_step_def category_type_def category_candidate_def
  category_before_def tiers_strength_def buildCandidates_def buildEvidenceStrengthSummary_def

section \<open>Normalised evidence\<close>

text \<open>The closure \<open>add\<close>: the identifier counts the items so far.\<close>

definition add_normalized ::
  "ProbeResult \<Rightarrow> string \<Rightarrow> string \<Rightarrow> string \<Rightarrow> string \<Rightarrow> string \<Rightarrow> string \<Rightarrow> float64 \<Rightarrow>
   NormalizedEvidence list \<Rightarrow> NormalizedEvidence list" where
  "add_normalized r class strength field target raw reason conf out =
     out @ [\<lparr>ne_ID = pr_ProbeName r @ '':'' @ field @ '':'' @ itoa (int (length out) + 1), ne_Class = class,
             ne_Strength = strength, ne_SourceProbe = pr_ProbeName r, ne_SourceField = field,
             ne_TargetCategory = (if target \<noteq> [] then CategoryFor target else []), ne_TargetType = target,
             ne_TargetSubtype = [], ne_Confidence = conf, ne_RawValue = raw, ne_Reason = reason\<rparr>]"

definition normalizeProbeResult :: "ProbeResult \<Rightarrow> NormalizedEvidence list" where
  "normalizeProbeResult r =
     (let ev = pr_Evidence r; name = pr_ProbeName r; out = [];
          out = (if getBool ev ''strong_access_evidence'' \<or> getFloat ev ''access_confidence'' > 0 then
                   fold (\<lambda>h. add_normalized r ev_class_physical ev_strength_strong ''access_confidence'' h
                          (str_join (pr_Hints r) '','') ''CPE/WAN evidence indicates a physical access family.''
                          (getFloat ev ''access_confidence'')) (pr_Hints r) out
                 else out);
          out = (if getFloat ev ''device_confidence'' > 0 then
                   add_normalized r ev_class_device ev_strength_medium ''device_confidence'' [] []
                     ''Device identity or reachability evidence was observed.''
                     (getFloat ev ''device_confidence'') out
                 else out);
          out = (if getFloat ev ''network_confidence'' > 0 \<or> name = ''asn_probe'' \<or> has_prefix name ''stun_'' \<or>
                   has_prefix name ''ipv6_transition_probe'' \<or> has_prefix name ''gateway_reachability_diagnostics''
                 then
                   add_normalized r ev_class_network ev_strength_medium ''network_context'' [] []
                     ''Network context was observed; it is not physical access proof.''
                     (getFloat ev ''network_confidence'') out
                 else out);
          out = (if getFloat ev ''performance_confidence'' > 0 \<or> name = ''latency_probe'' \<or>
                   has_prefix name ''performance_profile_probe''
                 then
                   add_normalized r ev_class_performance ev_strength_weak ''performance_profile'' [] []
                     ''Performance evidence is contextual and not conclusive by itself.''
                     (getFloat ev ''performance_confidence'') out
                 else out)
      in if name = ''asn_probe'' \<and> (getString ev ''ptr'' \<noteq> [] \<or> getString ev ''org'' \<noteq> []) then
           add_normalized r ev_class_regional ev_strength_weak ''provider_context'' []
             (getString ev ''ptr'' @ '' '' @ getString ev ''org'')
             ''Provider/PTR evidence is regional context only.'' (flit 0.30) out
         else out)"

lemmas [go_defs] = add_normalized_def normalizeProbeResult_def

end
