(* ===== verification/Scan_Verdict.thy ===== *)
theory Scan_Verdict
  imports Score_Synthesis Go_Time
begin

text \<open>
  What a scan reports: the result record of \<open>pkg/models/scan.go\<close>, the recommended probes
  (\<open>next_best.go\<close>), the explanations (\<open>explanation.go\<close>) and the public classification with its state and
  the summary for the user (the second half of \<open>contract.go\<close>).
\<close>

section \<open>Recommended probes\<close>

definition next_probe :: "string \<Rightarrow> string \<Rightarrow> string list \<Rightarrow> string \<Rightarrow> NextBestProbe" where
  "next_probe name reason expected safety =
     \<lparr>nb_ProbeName = name, nb_Reason = reason, nb_ExpectedEvidence = expected, nb_Safety = safety\<rparr>"

definition isFiberVDSLTie :: "score_map \<Rightarrow> bool" where
  "isFiberVDSLTie scores =
     (let fiber = maxFloat (score_at scores TypeFiber)
                    (maxFloat (score_at scores TypeFTTH) (score_at scores TypeGPON));
          vdsl = maxFloat (score_at scores TypeVDSL) (score_at scores TypeVDSL2);
          diff = fsub fiber vdsl
      in if fiber \<le> 0 \<or> vdsl \<le> 0 then False
         else (if diff < 0 then - diff else diff) < minCategoryGap)"

definition dedupeNextBest :: "NextBestProbe list \<Rightarrow> NextBestProbe list" where
  "dedupeNextBest ps =
     fold (\<lambda>p out. if nb_ProbeName p = [] \<or> list_ex (\<lambda>q. nb_ProbeName q = nb_ProbeName p) out then out
                   else out @ [p]) ps []"

definition direct_probes :: "NextBestProbe list" where
  "direct_probes =
     [next_probe ''upnp_wan_common_interface_probe''
        ''WANCommonInterfaceConfig may expose WANAccessType and link properties.''
        [''WANAccessType'', ''Layer1UpstreamMaxBitRate'', ''Layer1DownstreamMaxBitRate'', ''PhysicalLinkStatus'']
        ''Local private gateway only. Read-only. No authentication bypass.'',
      next_probe ''tr064_probe'' ''TR-064 WAN/DSL descriptors can expose DSL/PTM/ATM and link status.''
        [''WANDSLInterfaceConfig'', ''WANCommonInterfaceConfig'', ''PTM/ATM link'', ''VDSL2/ADSL modulation'']
        ''Private gateway only. Authenticated calls require user-provided credentials.'',
      next_probe ''http_fingerprint_probe'' ''A local gateway fingerprint may identify the CPE model.''
        [''HTTP title'', ''Server header'', ''WWW-Authenticate realm'', ''favicon hash'', ''TLS CN/SAN'']
        ''Private gateway HTTP/HTTPS only. No login attempts.'',
      next_probe ''snmp_opt_in_probe''
        ''SNMP can expose ifType/ifDescr and DSL/DOCSIS/optical MIB objects when explicitly enabled.''
        [''IF-MIB ifType'', ''ifDescr/ifName'', ''ADSL-LINE-MIB'', ''VDSL2-LINE-MIB'', ''DOCSIS MIB'',
         ''optical/cellular interfaces'']
        ''Disabled by default; requires user-provided read-only credentials. No community guessing.'',
      next_probe ''tr181_interface_stack_probe''
        ''TR-181 InterfaceStack can reveal the physical layer below the IP interface.''
        [''Device.DSL.Line'', ''Device.PTM.Link'', ''Device.ATM.Link'', ''Device.Optical.Interface'',
         ''Device.Cellular.Interface'', ''Device.Ethernet.Link'']
        ''Requires supported local management API or user-provided CPE access. Read-only.'']"

definition gateway_conflict_probes :: "NextBestProbe list" where
  "gateway_conflict_probes =
     [next_probe ''gateway_reachability_probe''
        ''Gateway reachability facts disagree and should be rechecked directly.''
        [''management_reachable'', ''reachable_protocols'', ''tcp_ports_reachable'']
        ''Private gateway candidates only. No public scanning or credential attempts.'',
      next_probe ''route_table_probe''
        ''The route table can identify the current default gateway and active interface.''
        [''default_gateway'', ''active_interface'', ''route_metric''] ''Reads local OS route state only.'',
      next_probe ''traceroute_private_hop_probe''
        ''Private traceroute hops can resolve gateway-chain ambiguity.''
        [''private_hops'', ''gateway_chain'', ''double_nat_possible'']
        ''Bounded traceroute; local private-hop interpretation only.'']"

definition model_probes :: "NextBestProbe list" where
  "model_probes =
     [next_probe ''upnp_device_description_probe'' ''UPnP device descriptions may expose manufacturer and model.''
        [''manufacturer'', ''modelName'', ''modelNumber'', ''friendlyName'', ''serviceList'']
        ''SSDP M-SEARCH on local network only. Read-only.'',
      next_probe ''favicon_hash_probe'' ''Favicon hash can help identify CPE web UI model family.''
        [''favicon_hash''] ''Private gateway HTTP/HTTPS only. No login attempts.'']"

definition tie_probes :: "NextBestProbe list" where
  "tie_probes =
     [next_probe ''tr064_dsl_probe''
        ''A Fiber/VDSL tie needs explicit DSL/PTM/ATM or optical WAN evidence.''
        [''WANDSLInterfaceConfig'', ''PTM/ATM link'', ''VDSL2/ADSL modulation'']
        ''Read-only private CPE probe; authenticated calls require user-provided credentials.'',
      next_probe ''upnp_wan_common_interface_probe'' ''WANAccessType may resolve DSL vs Ethernet WAN.''
        [''WANAccessType'', ''PhysicalLinkStatus'']
        ''Local private gateway only. Read-only. No authentication bypass.'']"

definition nextBestProbes ::
  "evidenceBag \<Rightarrow> bool \<Rightarrow> DataConflict list \<Rightarrow> score_map \<Rightarrow> NextBestProbe list" where
  "nextBestProbes bag matched conflicts scores =
     (if hasStrongPhysicalEvidence bag matched \<and> conflicts = [] then []
      else dedupeNextBest
        ((if \<not> hasDirectPhysicalEvidence bag then direct_probes else []) @
         (if hasConflictField conflicts ''gateway_devices'' \<or> hasConflictField conflicts ''gateway_chain''
          then gateway_conflict_probes else []) @
         (if eb_RouterModel bag = [] \<and> eb_GatewayDevices bag = [] then model_probes else []) @
         (if isFiberVDSLTie scores then tie_probes else [])))"

definition conflictReasons :: "score_map \<Rightarrow> evidenceBag \<Rightarrow> string list" where
  "conflictReasons scores bag =
     (let txt = to_lower (eb_WANSignalText bag); high = (\<lambda>t. score_at scores t > flit 0.35)
      in if str_contains txt ''ethernet'' then
           (if list_ex high [TypeDSL, TypeVDSL, TypeADSL] then
              [''The CPE model suggests DSL/VDSL while the reported WANAccessType is Ethernet.''] else []) @
           (if list_ex high [TypeFiber, TypeFTTH, TypeGPON] then
              [''The Fiber/FTTH score is high while WANAccessType reports Ethernet; Ethernet WAN is not automatically Fiber.'']
            else [])
         else [])"

lemmas [go_defs] = next_probe_def isFiberVDSLTie_def dedupeNextBest_def direct_probes_def
  gateway_conflict_probes_def model_probes_def tie_probes_def nextBestProbes_def conflictReasons_def

section \<open>Explanations\<close>

definition tiedLeadingCandidates :: "score_map \<Rightarrow> string list" where
  "tiedLeadingCandidates scores =
     (case collapseParentSubtypeCandidates (rankAll scores) of
        [] \<Rightarrow> []
      | ts # rest \<Rightarrow> map ts_Type (takeWhile (\<lambda>u. ts_Score u = ts_Score ts) (ts # rest)))"

definition likelyCandidateNames :: "score_map \<Rightarrow> nat \<Rightarrow> string list" where
  "likelyCandidateNames scores n = map ts_Type (take n (collapseParentSubtypeCandidates (rankAll scores)))"

definition genericGatewayServerName :: "GatewayDevice \<Rightarrow> string" where
  "genericGatewayServerName d =
     (case find (str_contains (to_lower (trim_space (gd_ServerHeader d)))) genericServerTokens of
        Some token \<Rightarrow> token | None \<Rightarrow> ''generic'')"

definition isGenericGatewayWebUI :: "GatewayDevice \<Rightarrow> bool" where
  "isGenericGatewayWebUI d =
     (if gd_AccessConfidence d > 0 \<or> gd_AccessHints d \<noteq> [] then False
      else genericGatewayServerName d \<noteq> [] \<or> str_contains (to_lower (gd_HTTPTitle d)) ''login'')"

definition latencyExplain :: "float64 \<Rightarrow> string" where
  "latencyExplain ms =
     (let m = format_1dp ms
      in if ms \<le> 8 then ''Latency is very low ('' @ m @ '' ms); this is compatible with Fiber or VDSL, but it is not conclusive by itself.''
         else if ms \<le> 25 then ''Latency is low ('' @ m @ '' ms); this is compatible with fixed broadband but does not identify the type by itself.''
         else if ms \<le> 80 then ''Latency is moderate ('' @ m @ '' ms); DSL or FWA is possible but not conclusive.''
         else if ms \<le> 200 then ''Latency is high ('' @ m @ '' ms); mobile/FWA becomes more likely.''
         else if ms \<ge> 500 then ''Latency is very high ('' @ m @ '' ms); satellite becomes plausible.''
         else ''Latency is '' @ m @ '' ms (the 200-500 ms range is ambiguous).'')"

definition doubleNATLine :: string where
  "doubleNATLine = ''Multiple private gateways were seen on the local network; the device may be attached to an intermediate router rather than the actual modem.''"

definition doubleNATLines :: "evidenceBag \<Rightarrow> string list" where
  "doubleNATLines bag =
     (case eb_GatewayChain bag of
        g0 # g1 # _ \<Rightarrow>
          [''Two private gateways were observed on the local network.'',
           ''The gateway chain indicates a possible upstream CPE: default gateway '' @ g0 @
             '', upstream gateway '' @ g1 @ ''.'',
           ''The actual modem is likely at '' @
             (if eb_LikelyModemIP bag \<noteq> [] then eb_LikelyModemIP bag else g1) @ '', but it could not be verified.'']
      | _ \<Rightarrow> [doubleNATLine])"

definition default_gateway_lines :: "GatewayDevice \<Rightarrow> string list" where
  "default_gateway_lines d =
     (if gd_Role d = ''default_gateway'' \<and> gd_Reachable d then
        [''The default gateway '' @ gd_IP d @ '' is reachable.''] @
        (if isGenericGatewayWebUI d then
           [''A generic '' @ genericGatewayServerName d @ '' web interface was seen on '' @ gd_IP d @
            ''; this is not evidence of the physical access type.'']
         else [])
      else [])"

definition modem_interface_name :: "GatewayDevice \<Rightarrow> string" where
  "modem_interface_name d =
     (let name = trim_space (str_join [gd_Manufacturer d, gd_Model d] '' '')
      in if name = [] then gd_HTTPTitle d else name)"

definition gatewayDeviceExplanation :: "evidenceBag \<Rightarrow> string list" where
  "gatewayDeviceExplanation bag =
     (let devices = eb_GatewayDevices bag; lines = concat (map default_gateway_lines devices)
      in if devices = [] then []
         else case find (\<lambda>d. gd_Role d = ''upstream_private_gateway'' \<and> \<not> gd_Reachable d) devices of
             Some d \<Rightarrow>
               lines @ [''An upstream gateway '' @ gd_IP d @
                 '' was detected but could not be reached, so the modem model could not be verified.'']
           | None \<Rightarrow>
               (case find (\<lambda>d. gd_IP d = eb_LikelyModemIP bag \<and>
                       (gd_Manufacturer d \<noteq> [] \<or> gd_Model d \<noteq> [] \<or> gd_HTTPTitle d \<noteq> [])) devices of
                  Some d \<Rightarrow>
                    lines @ [''A '' @ modem_interface_name d @ '' modem interface was detected on '' @ gd_IP d @ ''.'']
                | None \<Rightarrow>
                    lines @ (if eb_DoubleNATPossible bag then
                      [''The upstream gateway may be reachable, but the modem model could not be verified.''] else [])))"

definition wanSignalExplanation :: "evidenceBag \<Rightarrow> string list" where
  "wanSignalExplanation bag =
     map (\<lambda>s. ''A WAN signal was received from '' @ (if ws_IP s = [] then ''the CPE'' else ws_IP s) @ '' via '' @
            ws_Source s @ '': '' @ trim_space (ws_Value s) @ ''.'')
       (filter strong_signal (eb_WANSignals bag))"

definition buildExplanation ::
  "string \<Rightarrow> evidenceBag \<Rightarrow> Fingerprint option \<Rightarrow> string list \<Rightarrow> string list" where
  "buildExplanation primary bag fp fired =
     (let lines =
        (case fp of
           Some f \<Rightarrow>
             [''A modem model was identified: '' @ trim_space (fp_Vendor f @ '' '' @ fp_Model f) @ '' ('' @
              fp_Category f @ '') - supported technologies: '' @ str_join (fp_Supports f) '', '' @ ''.'']
         | None \<Rightarrow>
             if eb_RouterModel bag \<noteq> [] then [''Gateway device model: '' @ eb_RouterModel bag @ ''.''] else []) @
        Summary (eb_LineProfile bag) @ wanSignalExplanation bag @
        (if eb_CGNAT bag then
           [''The public IP is in the CGNAT range ('' @ eb_PublicIP bag @
            '') - carrier-grade NAT increases the likelihood of mobile/FWA/satellite.''] else []) @
        (if eb_PTR bag \<noteq> [] then [''Reverse DNS (PTR) record: '' @ eb_PTR bag] else []) @
        (if eb_Org bag \<noteq> [] then [''Operator/ASN information: '' @ eb_Org bag] else []) @
        (if eb_DoubleNATPossible bag then doubleNATLines bag @ gatewayDeviceExplanation bag else []) @
        (if eb_HasLatency bag then [latencyExplain (eb_AvgMS bag)] else []);
        lines = (if lines = [] then
          [''No strong evidence was found; the estimate was made with low confidence.''] else lines)
      in lines @
         [''Result: the most likely access type is '' @ primary @ '' (category: '' @ CategoryFor primary @ ''); '' @
          itoa (int (length fired)) @ '' rule(s) matched.''])"

definition buildUncertainExplanation ::
  "string \<Rightarrow> score_map \<Rightarrow> evidenceBag \<Rightarrow> bool \<Rightarrow> string list" where
  "buildUncertainExplanation primary scores bag matched =
     (let v6 = (case eb_IPv6Context bag of Some c \<Rightarrow> ip6_GlobalIPv6 c | None \<Rightarrow> False);
        candidates = likelyCandidateNames scores 2;
        lines =
        Summary (eb_LineProfile bag) @
        (if eb_Org bag \<noteq> [] then
           [''The ISP address pool was identified ('' @ eb_Org bag @
            ''), but this does not prove the physical access type.''] else []) @
        (if eb_PTR bag \<noteq> [] then
           [''The PTR record identifies an operator address pool, but it is not conclusive evidence of the physical access type.'']
         else []) @
        (if v6 \<and> eb_PublicIP bag \<noteq> [] then
           [''The connection has global IPv6 and a public IPv4 address, which improves network context but does not identify the access medium.'']
         else []) @
        (if \<not> eb_UPnPFound bag \<and> \<not> matched then
           [''No UPnP modem model was discovered.'', ''No TR-064 CPE data was available.'',
            ''Without a modem model or WAN physical-layer interface data, DSL/VDSL/Fiber cannot be distinguished conclusively.'']
         else []) @
        (if eb_DoubleNATPossible bag then doubleNATLines bag @ gatewayDeviceExplanation bag else []) @
        (if eb_HasLatency bag then [latencyExplain (eb_AvgMS bag)] else []) @
        (if cp_Margin (topTwo (categoryScores scores)) < minCategoryGap then
           [''The DSL, VDSL and Fiber scores are too close to each other to classify confidently.''] else []) @
        (if \<not> hasStrongPhysicalEvidence bag matched then
           (if 2 \<le> length candidates then
              [str_join candidates '' and '' @
               '' are among the candidates, but no strong physical-layer evidence was found, so no confident classification was made.'']
            else [''No strong physical-layer evidence was found, so the access type remains Unknown.''])
         else []);
        lines = (if lines = [] then [''The evidence is too weak to classify the access type.''] else lines);
        tied = tiedLeadingCandidates scores
      in lines @
         (if 1 < length tied then [''Leading candidates: '' @ str_join tied '', '' @ '' (not conclusive).'']
          else if primary \<noteq> [] \<and> hasStrongPhysicalEvidence bag matched then
            [''Leading candidate: '' @ primary @ '' (not conclusive).'']
          else []))"

lemmas [go_defs] = tiedLeadingCandidates_def likelyCandidateNames_def genericGatewayServerName_def
  isGenericGatewayWebUI_def latencyExplain_def doubleNATLine_def doubleNATLines_def
  default_gateway_lines_def modem_interface_name_def gatewayDeviceExplanation_def
  wanSignalExplanation_def buildExplanation_def buildUncertainExplanation_def

section \<open>The scan result\<close>

record ScanInput =
  si_Mode :: string
  si_Online :: bool
  si_RulesDir :: string

record Classification =
  cl_PrimaryType :: string
  cl_Category :: string
  cl_Technology :: string
  cl_Standard :: "string option"
  cl_Subtype :: "string option"
  cl_Confidence :: float64
  cl_DecisionQuality :: string
  cl_State :: string
  cl_SafeToDisplayAsFinal :: bool

record DataQuality =
  dq_HasConflicts :: bool
  dq_Conflicts :: "DataConflict list"

record UIOutput =
  ui_Headline :: string
  ui_Summary :: string
  ui_Badges :: "string list"
  ui_Warnings :: "string list"

record ScanResult =
  sr_ScanID :: string
  sr_CreatedAt :: gotime
  sr_Status :: string
  sr_Mode :: string
  sr_Classification :: Classification
  sr_PrimaryType :: string
  sr_Category :: string
  sr_Confidence :: float64
  sr_ClassificationConfidence :: float64
  sr_ContextConfidence :: float64
  sr_DecisionQuality :: string
  sr_UncertaintyReasons :: "string list"
  sr_DetectedNetworkContext :: NetworkContext
  sr_Scores :: score_map
  sr_Candidates :: "AccessCandidate list"
  sr_Alternatives :: "TypeScore list"
  sr_Explanation :: "string list"
  sr_ConfidenceBreakdown :: ConfidenceBreakdown
  sr_ScoreContributions :: "ScoreContribution list"
  sr_NextBestProbes :: "NextBestProbe list"
  sr_EvidenceTiers :: EvidenceTiers
  sr_DataQuality :: DataQuality
  sr_Conflicts :: "DataConflict list"
  sr_UI :: UIOutput
  sr_Evidence :: "ProbeResult list"

section \<open>The public classification\<close>

definition optionalSubtype :: "string \<Rightarrow> string option" where
  "optionalSubtype s = (if trim_space s = [] then None else Some s)"

definition with_default :: "string \<Rightarrow> string \<Rightarrow> string" where
  "with_default s d = (if s = [] then d else s)"

definition publicClassification :: "string \<Rightarrow> evidenceBag \<Rightarrow> string \<times> string option" where
  "publicClassification primary bag =
     (let sub = (case eb_LineProfile bag of Some l \<Rightarrow> lp_Subtype l | None \<Rightarrow> [])
      in if primary = [] \<or> primary = ''Unknown'' then (''Unknown'', None)
         else if primary = TypeVDSL2 then (TypeVDSL, Some (with_default sub TypeVDSL2))
         else if primary = TypeVDSL then (TypeVDSL, optionalSubtype sub)
         else if primary = TypeADSL2 then (TypeADSL, Some (with_default sub TypeADSL2))
         else if primary = TypeADSL then (TypeADSL, optionalSubtype sub)
         else if primary = TypeDSL then (TypeDSL, optionalSubtype sub)
         else if primary \<in> {TypeGPON, TypeEPON, TypeXGPON, TypeXGSPON, TypeTenGEPON} then
           (TypeFiber, Some (with_default sub primary))
         else if primary \<in> {TypeFTTH, TypeFiber} then (TypeFiber, optionalSubtype sub)
         else if primary = TypeDOCSIS then (TypeCable, Some (with_default sub TypeDOCSIS))
         else if primary = TypeCable then (TypeCable, optionalSubtype sub)
         else if primary \<in> {TypeLTE, TypeNR5G, TypeFWA, TypeFWA5G, TypeMobile, TypeCellular} then
           (TypeFWA, optionalSubtype (if primary \<noteq> TypeFWA then with_default sub primary else sub))
         else if primary \<in> {TypeWISP, TypeFixedWireless} then (TypeWISP, optionalSubtype sub)
         else if primary \<in> {TypeSatellite, TypeLEOSatellite, TypeGEOSatellite, TypeMEOSatellite, TypeVSAT} then
           (TypeSatellite, optionalSubtype (if primary \<noteq> TypeSatellite then with_default sub primary else sub))
         else if primary = TypeEthernetWAN then (TypeEthernetWAN, None)
         else (primary, optionalSubtype sub))"

definition classification_technology :: "string \<Rightarrow> string" where
  "classification_technology primary =
     (if primary = TypeCable then TypeDOCSIS
      else if primary = TypeVDSL then TypeVDSL2
      else if primary = TypeADSL then TypeADSL
      else if primary = TypeFiber then TypeGPON
      else if primary = TypeFWA then ''LTE/5G NR''
      else if primary = TypeWISP then TypeFixedWireless
      else if primary = TypeEthernetWAN then TypeEthernet
      else primary)"

definition technology_standard :: "string \<Rightarrow> string" where
  "technology_standard technology =
     (if technology = TypeDOCSIS then ''DOCSIS''
      else if technology = TypeVDSL2 then ''ITU-T G.993.2''
      else if technology = TypeADSL \<or> technology = TypeADSL2 then ''ITU-T G.992.x''
      else if technology = TypeGPON then ''ITU-T G.984''
      else if technology = TypeXGSPON then ''ITU-T G.9807.1''
      else [])"

definition classificationDetails :: "string \<Rightarrow> string option \<Rightarrow> string \<times> string \<times> string" where
  "classificationDetails primary subtype =
     (if primary = [] \<or> primary = ''Unknown'' then (CatUnknown, [], [])
      else
        let technology = (case subtype of
              Some s \<Rightarrow> if s \<noteq> [] then s else classification_technology primary
            | None \<Rightarrow> classification_technology primary)
        in (category_key primary, technology, technology_standard technology))"

definition classificationState :: "string \<Rightarrow> float64 \<Rightarrow> bool \<Rightarrow> DataConflict list \<Rightarrow> string" where
  "classificationState primary confidence direct conflicts =
     (if primary = ''Unknown'' then
        if conflicts \<noteq> [] then ''conflicting_evidence'' else ''insufficient_evidence''
      else if hasWANClassificationConflict conflicts then ''conflicting_evidence''
      else if direct \<and> confidence \<ge> flit 0.85 then ''confirmed''
      else if confidence \<ge> flit 0.60 then ''probable''
      else if confidence \<ge> flit 0.40 then ''possible''
      else ''insufficient_evidence'')"

definition evidenceBadges :: "EvidenceTiers \<Rightarrow> string list" where
  "evidenceBadges t =
     (if et_Present (tiers_DirectPhysical t) then [''Direct WAN evidence''] else []) @
     (if et_Present (tiers_DeviceModel t) then [''CPE model found''] else []) @
     (if et_Present (tiers_Topology t) then [''Topology context''] else []) @
     (if et_Present (tiers_Performance t) then [''Performance only''] else []) @
     (if et_Present (tiers_Regional t) then [''Operator hint only''] else []) @
     (if \<not> et_Present (tiers_DeviceModel t) then [''No CPE model''] else []) @
     (if \<not> et_Present (tiers_DirectPhysical t) then [''No direct WAN evidence''] else [])"

definition displayLabel :: "string \<Rightarrow> string option \<Rightarrow> string" where
  "displayLabel primary subtype =
     (let sub = (case subtype of Some s \<Rightarrow> s | None \<Rightarrow> [])
      in if primary = ''Unknown'' then primary
         else if sub = [] then (if primary = TypeEthernetWAN then ''Ethernet WAN'' else primary)
         else if primary = TypeFiber then ''Fiber/'' @ sub
         else if primary = TypeCable then ''Cable/'' @ sub
         else sub)"

definition ui_headline :: "string \<Rightarrow> string \<Rightarrow> string" where
  "ui_headline state label =
     (if state = ''confirmed'' then ''Detected: '' @ label
      else if state = ''probable'' then ''Probable: '' @ label
      else if state = ''possible'' then ''Possible: '' @ label
      else ''Access type unknown'')"

definition buildUIOutput :: "ScanResult \<Rightarrow> string \<Rightarrow> string option \<Rightarrow> string \<Rightarrow> UIOutput" where
  "buildUIOutput result primary subtype state =
     (let candidates = likelyCandidateNames (sr_Scores result) 3
      in \<lparr>ui_Headline = ui_headline state (displayLabel primary subtype),
          ui_Summary =
            (if primary = ''Unknown'' then
               if isFiberVDSLTie (sr_Scores result) then
                 ''Fiber and VDSL are both possible, but no physical WAN evidence was found.''
               else if candidates \<noteq> [] then
                 ''The strongest candidates are '' @ str_join candidates '', '' @
                 '', but the evidence is not strong enough to classify.''
               else ''No direct WAN physical evidence was collected.''
             else if cl_SafeToDisplayAsFinal (sr_Classification result) then
               ''Direct WAN physical evidence supports this access type.''
             else ''This is not final; stronger WAN physical evidence would improve certainty.''),
          ui_Badges = evidenceBadges (sr_EvidenceTiers result),
          ui_Warnings = sr_UncertaintyReasons result @
            (if primary = ''Unknown'' then
               [''Do not treat latency, PTR, ASN, IPv6, public IP, CGNAT, or Ethernet adapter as proof of access type.'']
             else []) @
            map (\<lambda>c. ''Conflict: '' @ dc_Field c @ '' ('' @ dc_Effect c @ '')'') (sr_Conflicts result)\<rparr>)"

definition classification_of :: "ScanResult \<Rightarrow> evidenceBag \<Rightarrow> Classification" where
  "classification_of result bag =
     (let (primary, subtype) = publicClassification (sr_PrimaryType result) bag;
          (category, technology, std) = classificationDetails primary subtype;
          direct = hasDirectPhysicalEvidence bag;
          state = classificationState primary (sr_Confidence result) direct (sr_Conflicts result)
      in \<lparr>cl_PrimaryType = primary, cl_Category = category, cl_Technology = technology,
          cl_Standard = optionalSubtype std, cl_Subtype = subtype, cl_Confidence = sr_Confidence result,
          cl_DecisionQuality = sr_DecisionQuality result, cl_State = state,
          cl_SafeToDisplayAsFinal =
            (primary \<noteq> ''Unknown'' \<and> state = ''confirmed'' \<and> direct \<and> sr_Conflicts result = [])\<rparr>)"

definition populateOutputContract :: "evidenceBag \<Rightarrow> ScanResult \<Rightarrow> ScanResult" where
  "populateOutputContract bag result =
     (let c = classification_of result bag; result = result\<lparr>sr_Classification := c\<rparr>
      in result\<lparr>sr_UI := buildUIOutput result (cl_PrimaryType c) (cl_Subtype c) (cl_State c)\<rparr>)"

lemmas [go_defs] = optionalSubtype_def with_default_def publicClassification_def
  classification_technology_def technology_standard_def classificationDetails_def
  classificationState_def evidenceBadges_def displayLabel_def ui_headline_def buildUIOutput_def
  classification_of_def populateOutputContract_def

end
