(* ===== verification/Detection_Engine.thy ===== *)
theory Detection_Engine
  imports Scan_Verdict
begin

text \<open>
  The detection engine, \<open>agent/internal/detection/engine.go\<close>: \<open>aggregate\<close> folds the probe results into the
  evidence bag, one function per kind of probe, and \<open>Analyze\<close> turns the bag into the verdict. The rules
  and the fingerprints, loaded from YAML files, are fields of the engine; the clock is an argument.
  \<open>attachModemCollection\<close>, which only adds a view of the finished result, is left out.
\<close>

section \<open>The empty bag\<close>

definition empty_architecture :: AccessArchitecture where
  "empty_architecture =
     \<lparr>aa_LocalMedium = [], aa_WANMedium = [], aa_IPArchitecture = [], aa_NATTopology = [],
      aa_LikelyCPERole = []\<rparr>"

definition empty_bag :: evidenceBag where
  "empty_bag =
     \<lparr>eb_RouterModel = [], eb_Text = [], eb_Interfaces = [], eb_Hints = [], eb_Sources = 0,
      eb_PublicIP = [], eb_CGNAT = False, eb_PTR = [], eb_Org = [], eb_AvgMS = 0, eb_JitterMS = 0,
      eb_HasLatency = False, eb_Gateway = [], eb_AgentIP = [], eb_Active = [], eb_UPnPFound = False,
      eb_MainAdapter = [], eb_LocalAccess = [], eb_Hops = [], eb_GatewayChain = [],
      eb_GatewayChainState = None, eb_DoubleNATPossible = False, eb_GatewayDevices = [],
      eb_LikelyModemIP = [], eb_GatewayDeviceText = [], eb_WANSignals = [], eb_WANSignalText = [],
      eb_StrongAccessHints = [], eb_TR064Found = False, eb_CPEKV = [], eb_CPEText = [],
      eb_CPESource = [], eb_LineProfile = None, eb_AccessArchitecture = empty_architecture,
      eb_IPv6Context = None, eb_NATTopology = None, eb_PerformanceProfile = None,
      eb_PhysicalEvidence = 0, eb_DeviceEvidence = 0, eb_NetworkEvidence = 0,
      eb_PerformanceEvidence = 0, eb_NormalizedEvidence = []\<rparr>"

section \<open>Aggregation\<close>

text \<open>\<open>appendUnique\<close>, and its use in a loop over hints.\<close>

definition appendUnique :: "string list \<Rightarrow> string \<Rightarrow> string list" where
  "appendUnique s v = (if v = [] then s else append_new s v)"

definition add_strong_hints :: "string list \<Rightarrow> evidenceBag \<Rightarrow> evidenceBag" where
  "add_strong_hints hints bag =
     bag\<lparr>eb_StrongAccessHints := fold (\<lambda>h s. appendUnique s h) hints (eb_StrongAccessHints bag)\<rparr>"

definition raise_physical :: "float64 \<Rightarrow> evidenceBag \<Rightarrow> evidenceBag" where
  "raise_physical v bag = bag\<lparr>eb_PhysicalEvidence := maxFloat (eb_PhysicalEvidence bag) v\<rparr>"

definition raise_device :: "float64 \<Rightarrow> evidenceBag \<Rightarrow> evidenceBag" where
  "raise_device v bag = bag\<lparr>eb_DeviceEvidence := maxFloat (eb_DeviceEvidence bag) v\<rparr>"

definition raise_network :: "float64 \<Rightarrow> evidenceBag \<Rightarrow> evidenceBag" where
  "raise_network v bag = bag\<lparr>eb_NetworkEvidence := maxFloat (eb_NetworkEvidence bag) v\<rparr>"

text \<open>
  The state of the loop: the bag, the parts of the text, and whether the current probe contributed.
  Each case of the switch is a function of the result and this state.
\<close>

type_synonym agg = "evidenceBag \<times> string list \<times> bool"

definition agg_upnp :: "ProbeResult \<Rightarrow> agg \<Rightarrow> agg" where
  "agg_upnp r s =
     (case s of (bag, parts, c) \<Rightarrow>
        let ev = pr_Evidence r; model = getString ev ''router_model''; t = getString ev ''router_text'';
            bag = bag\<lparr>eb_UPnPFound := getBool ev ''found''\<rparr>
        in (if model \<noteq> [] then bag\<lparr>eb_RouterModel := NormalizeModel model\<rparr> else bag,
            if t \<noteq> [] then parts @ [t] else parts, c \<or> model \<noteq> []))"

definition agg_adapter :: "ProbeResult \<Rightarrow> agg \<Rightarrow> agg" where
  "agg_adapter r s =
     (case s of (bag, parts, c) \<Rightarrow>
        let ev = pr_Evidence r; adapters = toAdapterInfos (any_at ev ''adapters'');
            main = pickMainAdapter adapters
        in (bag\<lparr>eb_Active := getStrings ev ''active'', eb_MainAdapter := ma_Name main,
                eb_LocalAccess := ma_Access main, eb_AgentIP := ma_IP main,
                eb_Interfaces := fold (\<lambda>a s. appendUnique s (ai_Name a)) adapters (eb_Interfaces bag)\<rparr>,
            parts, c))"

definition agg_public_ip :: "ProbeResult \<Rightarrow> agg \<Rightarrow> agg" where
  "agg_public_ip r s =
     (case s of (bag, parts, c) \<Rightarrow>
        (bag\<lparr>eb_PublicIP := getString (pr_Evidence r) ''public_ip'',
             eb_CGNAT := getBool (pr_Evidence r) ''cgnat''\<rparr>, parts, c))"

definition agg_asn :: "ProbeResult \<Rightarrow> agg \<Rightarrow> agg" where
  "agg_asn r s =
     (case s of (bag, parts, c) \<Rightarrow>
        let ptr = getString (pr_Evidence r) ''ptr''; org = getString (pr_Evidence r) ''org'';
            seen = (ptr \<noteq> [] \<or> org \<noteq> [])
        in (bag\<lparr>eb_PTR := ptr, eb_Org := org\<rparr>, if seen then parts @ [ptr, org] else parts, c \<or> seen))"

definition agg_latency :: "ProbeResult \<Rightarrow> agg \<Rightarrow> agg" where
  "agg_latency r s =
     (case s of (bag, parts, c) \<Rightarrow>
        let avg = getFloat (pr_Evidence r) ''avg_ms''
        in (bag\<lparr>eb_AvgMS := avg, eb_JitterMS := getFloat (pr_Evidence r) ''jitter_ms'',
                eb_HasLatency := (avg > 0)\<rparr>, parts, c))"

definition agg_gateway :: "ProbeResult \<Rightarrow> agg \<Rightarrow> agg" where
  "agg_gateway r s =
     (case s of (bag, parts, c) \<Rightarrow> (bag\<lparr>eb_Gateway := getString (pr_Evidence r) ''gateway''\<rparr>, parts, c))"

definition agg_traceroute :: "ProbeResult \<Rightarrow> agg \<Rightarrow> agg" where
  "agg_traceroute r s =
     (case s of (bag, parts, c) \<Rightarrow>
        let hops = getStrings (pr_Evidence r) ''hops''; chain = detectGatewayChain hops
        in (bag\<lparr>eb_Hops := hops, eb_GatewayChain := cr_Chain chain,
                eb_DoubleNATPossible := cr_DoubleNATPossible chain\<rparr>, parts, c \<or> cr_DoubleNATPossible chain))"

text \<open>The loop over gateway devices of two cases of the switch.\<close>

definition agg_device :: "GatewayDevice \<Rightarrow> evidenceBag \<Rightarrow> evidenceBag" where
  "agg_device d bag =
     (let bag = raise_device (gd_DeviceConfidence d) bag
      in if gatewayDeviceHasDirectPhysicalEvidence d \<and> gd_AccessConfidence d > 0 then
           add_strong_hints (gatewayDevicePhysicalHints d) (raise_physical (gd_AccessConfidence d) bag)
         else if gd_AccessConfidence d > 0 then raise_device (gd_AccessConfidence d) bag
         else bag)"

definition agg_gateway_chain :: "ProbeResult \<Rightarrow> agg \<Rightarrow> agg" where
  "agg_gateway_chain r s =
     (case s of (bag, parts, c) \<Rightarrow>
        let ev = pr_Evidence r; chain = getStrings ev ''gateway_chain'';
            devices = getGatewayDevices ev ''gateway_devices'';
            bag = (if chain \<noteq> [] then
                     bag\<lparr>eb_GatewayChain := chain, eb_DoubleNATPossible := getBool ev ''double_nat_possible''\<rparr>
                   else bag);
            bag = bag\<lparr>eb_LikelyModemIP := getString ev ''likely_modem_ip'', eb_GatewayDevices := devices\<rparr>;
            bag = (if devices \<noteq> [] then
                     fold agg_device devices (bag\<lparr>eb_GatewayDeviceText := gatewayDeviceText devices\<rparr>)
                   else bag)
        in (bag, parts, c \<or> chain \<noteq> [] \<or> devices \<noteq> []))"

definition merge_cpe_kv :: "(string \<times> string) list \<Rightarrow> (string \<times> string) list \<Rightarrow> (string \<times> string) list" where
  "merge_cpe_kv ps m =
     fold (\<lambda>(k, v) m. if map_of m k = None \<or> trim_space v \<noteq> [] then alist_set k v m else m) ps m"

text \<open>The case of the CPE probes (UPnP IGD, TR-064, SNMP, TR-181), in four parts.\<close>

definition cpe_identity :: "ProbeResult \<Rightarrow> agg \<Rightarrow> agg" where
  "cpe_identity r s =
     (case s of (bag, parts, c) \<Rightarrow>
        let ev = pr_Evidence r;
            model = trim_space (getString ev ''manufacturer'' @ '' '' @ getString ev ''model'');
            bag = (if getBool ev ''tr064_found'' then bag\<lparr>eb_TR064Found := True\<rparr> else bag);
            bag = (if getBool ev ''igd_wan_common_found'' then bag\<lparr>eb_UPnPFound := True\<rparr> else bag)
        in (if model \<noteq> [] then bag\<lparr>eb_RouterModel := NormalizeModel model\<rparr> else bag,
            if model \<noteq> [] then parts @ [model] else parts, c \<or> model \<noteq> []))"

definition cpe_confidence :: "ProbeResult \<Rightarrow> agg \<Rightarrow> agg" where
  "cpe_confidence r s =
     (case s of (bag, parts, c) \<Rightarrow>
        let ev = pr_Evidence r; access = getFloat ev ''access_confidence'';
            bag = raise_device (getFloat ev ''device_confidence'') bag
        in (if directProbeHasPhysicalEvidence r then raise_physical access bag
            else if access > 0 then raise_device access bag else bag, parts, c))"

definition cpe_telemetry :: "ProbeResult \<Rightarrow> agg \<Rightarrow> agg" where
  "cpe_telemetry r s =
     (case s of (bag, parts, c) \<Rightarrow>
        let ev = pr_Evidence r; signals = getWANSignals ev ''wan_signals''; kv = getStringMap ev ''cpe_kv'';
            t = getString ev ''cpe_text'';
            bag = (if signals \<noteq> [] then
                     bag\<lparr>eb_WANSignals := eb_WANSignals bag @ signals,
                         eb_WANSignalText := trim_space (eb_WANSignalText bag @ '' '' @ wanSignalText signals)\<rparr>
                   else bag);
            bag = (if kv \<noteq> [] then
                     bag\<lparr>eb_CPEKV := merge_cpe_kv kv (eb_CPEKV bag), eb_CPESource := pr_ProbeName r\<rparr>
                   else bag);
            bag = (if t \<noteq> [] then bag\<lparr>eb_CPEText := trim_space (eb_CPEText bag @ '' '' @ t)\<rparr> else bag)
        in (bag, parts, c \<or> signals \<noteq> [] \<or> kv \<noteq> []))"

definition cpe_hints :: "ProbeResult \<Rightarrow> agg \<Rightarrow> agg" where
  "cpe_hints r s =
     (case s of (bag, parts, c) \<Rightarrow>
        let ev = pr_Evidence r
        in if directProbeHasPhysicalEvidence r \<and>
              (getBool ev ''strong_access_evidence'' \<or> getFloat ev ''access_confidence'' > 0)
           then (add_strong_hints (pr_Hints r) bag, parts, True)
           else (bag, parts, c))"

definition agg_cpe :: "ProbeResult \<Rightarrow> agg \<Rightarrow> agg" where
  "agg_cpe r s = cpe_hints r (cpe_telemetry r (cpe_confidence r (cpe_identity r s)))"

definition agg_http :: "ProbeResult \<Rightarrow> agg \<Rightarrow> agg" where
  "agg_http r s =
     (case s of (bag, parts, c) \<Rightarrow>
        let devices = getGatewayDevices (pr_Evidence r) ''gateway_devices''
        in if devices \<noteq> [] then
             (fold agg_device devices
                (bag\<lparr>eb_GatewayDevices := eb_GatewayDevices bag @ devices,
                     eb_GatewayDeviceText :=
                       trim_space (eb_GatewayDeviceText bag @ '' '' @ gatewayDeviceText devices)\<rparr>), parts, True)
           else (bag, parts, c))"

definition agg_ipv6 :: "ProbeResult \<Rightarrow> agg \<Rightarrow> agg" where
  "agg_ipv6 r s =
     (case s of (bag, parts, c) \<Rightarrow>
        let ev = pr_Evidence r
        in case getIPv6Context ev ''ipv6_context'' of
             None \<Rightarrow> (bag, parts, c)
           | Some ctx \<Rightarrow>
               (raise_network (getFloat ev ''network_confidence'')
                  (bag\<lparr>eb_IPv6Context := Some ctx,
                       eb_AccessArchitecture :=
                         (eb_AccessArchitecture bag)\<lparr>aa_IPArchitecture := getString ev ''ip_architecture''\<rparr>\<rparr>),
                parts, True))"

definition agg_nat :: "ProbeResult \<Rightarrow> agg \<Rightarrow> agg" where
  "agg_nat r s =
     (case s of (bag, parts, c) \<Rightarrow>
        let ev = pr_Evidence r
        in case getNATTopology ev ''nat_topology'' of
             None \<Rightarrow> (bag, parts, c)
           | Some n \<Rightarrow>
               (raise_network (getFloat ev ''network_confidence'')
                  (bag\<lparr>eb_NATTopology := Some n,
                       eb_AccessArchitecture := (eb_AccessArchitecture bag)\<lparr>aa_NATTopology := nt_Topology n\<rparr>\<rparr>),
                parts, True))"

definition agg_os :: "ProbeResult \<Rightarrow> agg \<Rightarrow> agg" where
  "agg_os r s =
     (case s of (bag, parts, c) \<Rightarrow>
        let ev = pr_Evidence r
        in case getAccessArchitecture ev ''access_architecture'' of
             None \<Rightarrow> (bag, parts, c)
           | Some arch \<Rightarrow>
               let bag = (if aa_LocalMedium arch \<noteq> [] then
                            bag\<lparr>eb_AccessArchitecture :=
                                  (eb_AccessArchitecture bag)\<lparr>aa_LocalMedium := aa_LocalMedium arch\<rparr>,
                                eb_LocalAccess := aa_LocalMedium arch\<rparr>
                          else bag);
                   bag = raise_device (getFloat ev ''device_confidence'') bag
               in (if getBool ev ''local_cellular_evidence'' then
                     raise_physical (getFloat ev ''access_confidence'') bag else bag, parts, True))"

definition agg_lldp :: "ProbeResult \<Rightarrow> agg \<Rightarrow> agg" where
  "agg_lldp r s =
     (case s of (bag, parts, c) \<Rightarrow>
        let ev = pr_Evidence r; access = getFloat ev ''access_confidence'';
            network = getFloat ev ''network_confidence''; bag = raise_network network bag
        in (if getBool ev ''strong_access_evidence'' \<or> access > 0 then
              add_strong_hints (pr_Hints r) (raise_physical access bag) else bag,
            parts, c \<or> pr_Hints r \<noteq> [] \<or> network > 0))"

definition agg_performance :: "ProbeResult \<Rightarrow> agg \<Rightarrow> agg" where
  "agg_performance r s =
     (case s of (bag, parts, c) \<Rightarrow>
        let ev = pr_Evidence r
        in case getPerformanceProfile ev ''performance_profile'' of
             None \<Rightarrow> (bag, parts, c)
           | Some pp \<Rightarrow>
               (bag\<lparr>eb_PerformanceProfile := Some pp,
                    eb_PerformanceEvidence :=
                      maxFloat (eb_PerformanceEvidence bag) (getFloat ev ''performance_confidence'')\<rparr>,
                parts, True))"

definition agg_reachability :: "ProbeResult \<Rightarrow> agg \<Rightarrow> agg" where
  "agg_reachability r s =
     (case s of (bag, parts, c) \<Rightarrow>
        (raise_network (getFloat (pr_Evidence r) ''network_confidence'') bag, parts,
         c \<or> getBool (pr_Evidence r) ''route_present''))"

definition cpe_probe_names :: "string list" where
  "cpe_probe_names =
     [''upnp_igd_probe'', ''upnp_igd_deep_probe'', ''upnp_igd_deep_probe_v2'', ''tr064_probe'', ''tr064_probe_v2'',
      ''snmp_probe_opt_in'', ''tr181_interface_stack_probe'']"

definition agg_switch :: "ProbeResult \<Rightarrow> agg \<Rightarrow> agg" where
  "agg_switch r s =
     (let name = pr_ProbeName r
      in if name = ''upnp_probe'' then agg_upnp r s
         else if name = ''adapter_probe'' then agg_adapter r s
         else if name = ''public_ip_probe'' then agg_public_ip r s
         else if name = ''asn_probe'' then agg_asn r s
         else if name = ''latency_probe'' then agg_latency r s
         else if name = ''gateway_probe'' then agg_gateway r s
         else if name = ''traceroute_probe'' then agg_traceroute r s
         else if name = ''gateway_chain_probe'' then agg_gateway_chain r s
         else if name \<in> set cpe_probe_names then agg_cpe r s
         else if name \<in> set [''http_fingerprint_v2'', ''http_fingerprint_v3'', ''upstream_private_cpe_probe'']
           then agg_http r s
         else if name \<in> set [''ipv6_transition_probe'', ''ipv6_transition_probe_v2''] then agg_ipv6 r s
         else if name = ''stun_pcp_nat_probe'' then agg_nat r s
         else if name \<in> set [''os_interface_probe_v2'', ''os_interface_probe_v3''] then agg_os r s
         else if name \<in> set [''lldp_cdp_passive_probe'', ''lldp_cdp_passive_probe_v2''] then agg_lldp r s
         else if name \<in> set [''performance_profile_probe'', ''performance_profile_probe_v2'']
           then agg_performance r s
         else if name = ''gateway_reachability_diagnostics_probe'' then agg_reachability r s
         else s)"

definition agg_result :: "ProbeResult \<Rightarrow> evidenceBag \<times> string list \<Rightarrow> evidenceBag \<times> string list" where
  "agg_result r s =
     (case s of (bag, parts) \<Rightarrow>
        if pr_Status r \<noteq> StatusSuccess then (bag, parts)
        else
          let bag = bag\<lparr>eb_Hints := fold (\<lambda>h s. appendUnique s h) (pr_Hints r) (eb_Hints bag),
                        eb_NormalizedEvidence := eb_NormalizedEvidence bag @ normalizeProbeResult r\<rparr>;
              (bag, parts, contributed) = agg_switch r (bag, parts, pr_Hints r \<noteq> [])
          in (if contributed then bag\<lparr>eb_Sources := eb_Sources bag + 1\<rparr> else bag, parts))"

definition firstWANMedium :: "WANSignal list \<Rightarrow> string list \<Rightarrow> string" where
  "firstWANMedium signals hints =
     (case find (\<lambda>s. strong_signal s \<and> ws_Value s \<noteq> []) signals of
        Some s \<Rightarrow> ws_Value s
      | None \<Rightarrow> str_join hints '','')"

text \<open>The steps of \<open>aggregate\<close> after the loop.\<close>

definition agg_chain_state :: "ProbeResult list \<Rightarrow> evidenceBag \<Rightarrow> evidenceBag" where
  "agg_chain_state results bag =
     (case ResolveGatewayChainState results (eb_Gateway bag) (eb_AgentIP bag) of
        None \<Rightarrow> bag
      | Some cs \<Rightarrow>
          bag\<lparr>eb_GatewayChainState := Some cs,
              eb_GatewayChain := (if gc_Chain cs \<noteq> [] then gc_Chain cs else eb_GatewayChain bag),
              eb_DoubleNATPossible := gc_InternalDoubleNATPossible cs \<or> eb_DoubleNATPossible bag\<rparr>)"

definition agg_architecture :: "evidenceBag \<Rightarrow> evidenceBag" where
  "agg_architecture bag =
     (let a = eb_AccessArchitecture bag;
          a = (if aa_WANMedium a = [] then
                 a\<lparr>aa_WANMedium := firstWANMedium (eb_WANSignals bag) (eb_StrongAccessHints bag)\<rparr> else a);
          a = (if eb_LikelyModemIP bag \<noteq> [] then a\<lparr>aa_LikelyCPERole := ''possible_modem''\<rparr> else a)
      in bag\<lparr>eb_AccessArchitecture := a\<rparr>)"

definition agg_double_nat :: "evidenceBag \<Rightarrow> evidenceBag" where
  "agg_double_nat bag =
     (case eb_NATTopology bag of
        Some n \<Rightarrow>
          let double = nt_InternalDoubleNATPossible n \<or> nt_DoubleNAT n \<or> eb_DoubleNATPossible bag
          in bag\<lparr>eb_NATTopology := Some (n\<lparr>nt_InternalDoubleNATPossible := double, nt_DoubleNAT := double\<rparr>)\<rparr>
      | None \<Rightarrow>
          if eb_DoubleNATPossible bag then
            bag\<lparr>eb_NATTopology := Some (zero_nat\<lparr>nt_DoubleNAT := True, nt_InternalDoubleNATPossible := True,
                  nt_Topology := ''double_nat_possible''\<rparr>),
                eb_AccessArchitecture := (eb_AccessArchitecture bag)\<lparr>aa_NATTopology := ''double_nat_possible''\<rparr>\<rparr>
          else bag)"

definition agg_line_profile :: "evidenceBag \<Rightarrow> evidenceBag" where
  "agg_line_profile bag =
     (let lineText = trim_space (str_join [eb_WANSignalText bag, eb_CPEText bag, eb_RouterModel bag] '' '')
      in case Parse (eb_CPEKV bag) lineText (eb_CPESource bag) of
           None \<Rightarrow> bag
         | Some lp \<Rightarrow>
             raise_physical (lp_Confidence lp)
               (add_strong_hints (AccessHints (Some lp)) (bag\<lparr>eb_LineProfile := Some lp\<rparr>)))"

definition agg_finish :: "ProbeResult list \<Rightarrow> evidenceBag \<times> string list \<Rightarrow> evidenceBag" where
  "agg_finish results s =
     (let bag = fst s; a = eb_AccessArchitecture bag;
          bag = (if aa_LocalMedium a = [] then
                   bag\<lparr>eb_AccessArchitecture := a\<lparr>aa_LocalMedium := eb_LocalAccess bag\<rparr>\<rparr> else bag);
          bag = agg_double_nat (agg_architecture (agg_chain_state results bag));
          bag = bag\<lparr>eb_Text := trim_space (str_join (eb_RouterModel bag # snd s) '' '')\<rparr>
      in agg_line_profile bag)"

definition aggregate :: "ProbeResult list \<Rightarrow> evidenceBag" where
  "aggregate results = agg_finish results (fold agg_result results (empty_bag, []))"

definition mergeProbeResults :: "ProbeResult list \<Rightarrow> evidenceBag" where
  "mergeProbeResults results = aggregate results"

lemmas [go_defs] = empty_architecture_def empty_bag_def appendUnique_def add_strong_hints_def
  raise_physical_def raise_device_def raise_network_def agg_upnp_def agg_adapter_def
  agg_public_ip_def agg_asn_def agg_latency_def agg_gateway_def agg_traceroute_def agg_device_def
  agg_gateway_chain_def merge_cpe_kv_def cpe_identity_def cpe_confidence_def cpe_telemetry_def
  cpe_hints_def agg_cpe_def agg_http_def agg_ipv6_def agg_nat_def agg_os_def agg_lldp_def
  agg_performance_def agg_reachability_def cpe_probe_names_def agg_switch_def agg_result_def
  firstWANMedium_def agg_chain_state_def agg_architecture_def agg_double_nat_def
  agg_line_profile_def agg_finish_def aggregate_def mergeProbeResults_def

section \<open>Scoring\<close>

record Engine =
  en_Rules :: "Rule list"
  en_Fingerprints :: "Fingerprint list"

definition applyLatencySignal :: "evidenceBag \<Rightarrow> Board \<Rightarrow> Board" where
  "applyLatencySignal bag board = board_Add (latency_band bag) board"

text \<open>The bag \<open>Analyze\<close> reasons over: devices merged, NAT signals reconciled.\<close>

definition analysis_bag :: "ProbeResult list \<Rightarrow> evidenceBag" where
  "analysis_bag results =
     (let bag = mergeProbeResults results;
          bag = (if eb_GatewayChain bag = [] \<and> eb_Gateway bag \<noteq> [] then
                   bag\<lparr>eb_GatewayChain := [eb_Gateway bag]\<rparr> else bag);
          bag = bag\<lparr>eb_GatewayDevices := MergeGatewayDevices (eb_GatewayDevices bag)\<rparr>;
          n = ResolveNATTopology bag
      in if hasUsefulNATContext (Some n) then
           bag\<lparr>eb_NATTopology := Some n, eb_DoubleNATPossible := nt_InternalDoubleNATPossible n,
               eb_AccessArchitecture := (eb_AccessArchitecture bag)\<lparr>aa_NATTopology := nt_Topology n\<rparr>\<rparr>
         else
           bag\<lparr>eb_NATTopology := None,
               eb_AccessArchitecture := (eb_AccessArchitecture bag)\<lparr>aa_NATTopology := []\<rparr>\<rparr>)"

definition analysis_fingerprint :: "Engine \<Rightarrow> evidenceBag \<Rightarrow> Fingerprint option" where
  "analysis_fingerprint e bag =
     MatchFingerprint (en_Fingerprints e)
       (eb_RouterModel bag @ '' '' @ eb_Text bag @ '' '' @ eb_GatewayDeviceText bag @ '' '' @ eb_WANSignalText bag)"

definition hint_board :: "evidenceBag \<Rightarrow> Fingerprint option \<Rightarrow> Board" where
  "hint_board bag fp =
     (let board = (case fp of
            None \<Rightarrow> NewBoard
          | Some f \<Rightarrow> AddHints (fp_Supports f) WeightFingerprintSupp
                       (AddHints (fp_AccessHints f) WeightFingerprintHint NewBoard));
          board = AddHints (eb_Hints bag) WeightProbeHint board;
          board = AddHints (eb_StrongAccessHints bag) WeightStrongAccessHint board
      in applyLatencySignal bag board)"

definition rule_context :: "evidenceBag \<Rightarrow> Fingerprint option \<Rightarrow> MatchContext" where
  "rule_context bag fp =
     \<lparr>mx_RouterModel = eb_RouterModel bag,
      mx_Text = trim_space (eb_Text bag @ '' '' @ eb_GatewayDeviceText bag @ '' '' @ eb_WANSignalText bag),
      mx_Interfaces = eb_Interfaces bag,
      mx_Hints = eb_Hints bag @ (case fp of Some f \<Rightarrow> fp_AccessHints f | None \<Rightarrow> []) @
        eb_StrongAccessHints bag\<rparr>"

definition fire_rule :: "MatchContext \<Rightarrow> Rule \<Rightarrow> Board \<Rightarrow> Board" where
  "fire_rule ctx r board =
     (if Matches r ctx then MarkFired (ru_ID r) (board_Add (ru_AddScore r) board) else board)"

definition score_board :: "Engine \<Rightarrow> evidenceBag \<Rightarrow> Fingerprint option \<Rightarrow> Board" where
  "score_board e bag fp = fold (fire_rule (rule_context bag fp)) (en_Rules e) (hint_board bag fp)"

section \<open>The verdict\<close>

text \<open>The part of the result that does not depend on the verdict.\<close>

definition base_result ::
  "Engine \<Rightarrow> string \<Rightarrow> gotime \<Rightarrow> ScanInput \<Rightarrow> ProbeResult list \<Rightarrow> evidenceBag \<Rightarrow> Fingerprint option \<Rightarrow> Board \<Rightarrow>
   ScanResult" where
  "base_result e stamp now inp results bag fp board =
     (let matched = (fp \<noteq> None); scores = Normalize board; conflicts = detectConflicts results bag scores;
          cb = computeConfidenceBreakdown bag matched; ctxConf = contextConfidence bag
      in \<lparr>sr_ScanID = ''scan_'' @ stamp, sr_CreatedAt = now, sr_Status = ''completed'', sr_Mode = si_Mode inp,
          sr_Classification = \<lparr>cl_PrimaryType = [], cl_Category = [], cl_Technology = [], cl_Standard = None,
            cl_Subtype = None, cl_Confidence = 0, cl_DecisionQuality = [], cl_State = [],
            cl_SafeToDisplayAsFinal = False\<rparr>,
          sr_PrimaryType = [], sr_Category = [], sr_Confidence = 0, sr_ClassificationConfidence = 0,
          sr_ContextConfidence = ctxConf, sr_DecisionQuality = [], sr_UncertaintyReasons = [],
          sr_DetectedNetworkContext = (buildNetworkContext bag matched)
            \<lparr>nc_EvidenceStrength := Some (buildEvidenceStrengthSummary bag matched)\<rparr>,
          sr_Scores = scores, sr_Candidates = buildCandidates scores bag matched, sr_Alternatives = [],
          sr_Explanation = [],
          sr_ConfidenceBreakdown = cb\<lparr>cb_Context := ctxConf,
            cb_Penalty := (if conflicts \<noteq> [] then maxFloat (cb_Penalty cb) (conflictPenalty conflicts)
                           else cb_Penalty cb)\<rparr>,
          sr_ScoreContributions = buildContributions bag fp (en_Rules e) (bd_fired board),
          sr_NextBestProbes = [], sr_EvidenceTiers = buildEvidenceTiers bag matched,
          sr_DataQuality = \<lparr>dq_HasConflicts = (conflicts \<noteq> []), dq_Conflicts = conflicts\<rparr>,
          sr_Conflicts = conflicts,
          sr_UI = \<lparr>ui_Headline = [], ui_Summary = [], ui_Badges = [], ui_Warnings = []\<rparr>,
          sr_Evidence = results\<rparr>)"

text \<open>The verdict without a score.\<close>

definition no_score_result :: "evidenceBag \<Rightarrow> bool \<Rightarrow> ScanResult \<Rightarrow> ScanResult" where
  "no_score_result bag matched res =
     (let scores = sr_Scores res
      in populateOutputContract bag
           (res\<lparr>sr_PrimaryType := ''Unknown'', sr_Category := CatUnknown, sr_Confidence := 0,
                sr_ClassificationConfidence := 0,
                sr_ConfidenceBreakdown := (sr_ConfidenceBreakdown res)\<lparr>cb_Classification := 0\<rparr>,
                sr_DecisionQuality := ''low'',
                sr_UncertaintyReasons := [''No scoreable physical access evidence was collected.''],
                sr_Explanation := buildUncertainExplanation [] scores bag matched,
                sr_NextBestProbes := nextBestProbes bag matched (sr_Conflicts res) scores\<rparr>))"

text \<open>Whether the verdict is withheld, and the reasons given.\<close>

definition withhold :: "score_map \<Rightarrow> float64 \<Rightarrow> evidenceBag \<Rightarrow> bool \<Rightarrow> DataConflict list \<Rightarrow> bool \<times> string list" where
  "withhold scores confidence bag matched conflicts =
     (let (unknown, reasons) = shouldReturnUnknown scores confidence bag matched;
          reasons = reasons @ conflictReasons scores bag
      in if hasHighSeverityConflict conflicts then
           (unknown \<or> \<not> hasDirectPhysicalEvidence bag \<or> hasWANClassificationConflict conflicts,
            reasons @ [''Conflicting probe results reduced classification confidence.''])
         else (unknown, reasons))"

definition graded_result :: "evidenceBag \<Rightarrow> bool \<Rightarrow> float64 \<Rightarrow> ScanResult \<Rightarrow> ScanResult" where
  "graded_result bag matched confidence res =
     (let pair = topTwo (categoryScores (sr_Scores res))
      in res\<lparr>sr_Confidence := confidence, sr_ClassificationConfidence := confidence,
             sr_ConfidenceBreakdown := (sr_ConfidenceBreakdown res)\<lparr>cb_Classification := confidence\<rparr>,
             sr_DecisionQuality := decisionQuality confidence (cp_Margin pair) (cp_FirstScore pair)
               (hasDirectPhysicalEvidence bag) (hasDeviceModelEvidence bag matched)\<rparr>)"

definition withheld_result :: "evidenceBag \<Rightarrow> bool \<Rightarrow> TypeScore list \<Rightarrow> string list \<Rightarrow> ScanResult \<Rightarrow> ScanResult" where
  "withheld_result bag matched ranked reasons res =
     populateOutputContract bag
       (res\<lparr>sr_PrimaryType := ''Unknown'', sr_Category := CatUnknown, sr_Alternatives := capN ranked 4,
            sr_UncertaintyReasons := reasons,
            sr_NextBestProbes := nextBestProbes bag matched (sr_Conflicts res) (sr_Scores res),
            sr_Explanation := buildUncertainExplanation (ts_Type (hd ranked)) (sr_Scores res) bag matched\<rparr>)"

definition committed_result ::
  "evidenceBag \<Rightarrow> Fingerprint option \<Rightarrow> string list \<Rightarrow> TypeScore list \<Rightarrow> ScanResult \<Rightarrow> ScanResult" where
  "committed_result bag fp fired ranked res =
     (let leading = ts_Type (hd ranked); matched = (fp \<noteq> None)
      in populateOutputContract bag
           (res\<lparr>sr_PrimaryType := leading, sr_Category := CategoryFor leading,
                sr_Alternatives := capN (tl ranked) 3,
                sr_Explanation := buildExplanation leading bag fp fired,
                sr_NextBestProbes :=
                  (if \<not> hasDirectPhysicalEvidence bag \<or> sr_Confidence res < highConfidence
                   then nextBestProbes bag matched (sr_Conflicts res) (sr_Scores res) else [])\<rparr>))"

definition verdict :: "evidenceBag \<Rightarrow> Fingerprint option \<Rightarrow> string list \<Rightarrow> ScanResult \<Rightarrow> ScanResult" where
  "verdict bag fp fired res =
     (let matched = (fp \<noteq> None); scores = sr_Scores res;
          ranked = collapseParentSubtypeCandidates (rankAll scores)
      in if ranked = [] then no_score_result bag matched res
         else
           let confidence = computeClassificationConfidence scores bag matched (sr_Conflicts res);
               res = graded_result bag matched confidence res;
               (unknown, reasons) = withhold scores confidence bag matched (sr_Conflicts res)
           in if unknown then withheld_result bag matched ranked reasons res
              else committed_result bag fp fired ranked res)"

definition Analyze ::
  "Engine \<Rightarrow> string \<Rightarrow> gotime \<Rightarrow> ScanInput \<Rightarrow> ProbeResult list \<Rightarrow> ScanResult" where
  "Analyze e stamp now inp results =
     (let bag = analysis_bag results; fp = analysis_fingerprint e bag; board = score_board e bag fp
      in verdict bag fp (bd_fired board) (base_result e stamp now inp results bag fp board))"

lemmas [go_defs] = applyLatencySignal_def analysis_bag_def analysis_fingerprint_def hint_board_def
  rule_context_def fire_rule_def score_board_def base_result_def no_score_result_def withhold_def
  graded_result_def withheld_result_def committed_result_def verdict_def Analyze_def

end
