(* ===== verification/Ranking_Laws.thy ===== *)
theory Ranking_Laws
  imports Score_Synthesis
begin

text \<open>
  Laws of the ranking of the detection engine. The code ranks with one pass over a Go map
  (\<open>topTwo\<close>, \<open>categoryScores\<close>) or by sorting what an iteration over a map yields (\<open>rankAll\<close>,
  \<open>buildCandidates\<close>); both are shown equal to a description that does not mention an order.
\<close>

section \<open>Sorting what a map yields\<close>

lemma sort_mset_cong: "mset xs = mset ys \<Longrightarrow> sort xs = sort (ys :: 'a :: linorder list)"
  by (simp add: properties_for_sort)

interpretation rank_order: weak_order rank_before "\<lambda>_. True"
proof
  show "\<not> rank_before y x" if "rank_before x y" for x y
    using that str_less_asym by (auto simp: rank_before_def split: if_splits)
  show "\<not> rank_before z x" if "\<not> rank_before y x" "\<not> rank_before z y" for x y z
    using that str_order.trans_not [OF TrueI TrueI TrueI, of "ts_Type y" "ts_Type x" "ts_Type z"]
    by (auto simp: rank_before_def split: if_splits)
qed

lemma rank_before_total: "\<not> rank_before a b \<Longrightarrow> \<not> rank_before b a \<Longrightarrow> a = b"
  using str_less_total [of "ts_Type a" "ts_Type b"]
  by (auto simp: rank_before_def intro: TypeScore.equality split: if_splits)

lemma sort_rank_mset: "mset xs = mset ys \<Longrightarrow> sort_by rank_before xs = sort_by rank_before ys"
  by (rule sorted_wrt_unique [OF rank_order.sorted_sort_by rank_order.sorted_sort_by])
    (auto intro: rank_before_total)

lemma rankAll_mset: "mset scores = mset scores' \<Longrightarrow> rankAll scores = rankAll scores'"
  unfolding rankAll_def by (rule sort_rank_mset) simp

section \<open>The two leading scores\<close>

lemma insort_split:
  "insort s zs = takeWhile (\<lambda>x. x < s) zs @ s # dropWhile (\<lambda>x. x < s) (zs :: 'a :: linorder list)"
  by (induction zs) auto

lemma dropWhile_sorted: "sorted zs \<Longrightarrow> dropWhile (\<lambda>x. x < s) zs = filter (\<lambda>x. s \<le> x) zs"
proof (induction zs)
  case (Cons z zs)
  show ?case
  proof (cases "z < s")
    case False
    then have "filter (\<lambda>x. s \<le> x) zs = zs"
      using Cons.prems by (auto simp: filter_id_conv)
    then show ?thesis using False by simp
  qed (use Cons in auto)
qed simp

text \<open>The smallest of three elements does not matter for the top two.\<close>

lemma take_2_insort:
  fixes zs :: "'a :: linorder list"
  assumes "sorted zs" "2 \<le> length (filter (\<lambda>x. s \<le> x) zs)"
  shows "take 2 (rev (insort s zs)) = take 2 (rev zs)"
proof -
  have zs: "zs = takeWhile (\<lambda>x. x < s) zs @ filter (\<lambda>x. s \<le> x) zs"
    using dropWhile_sorted [OF assms(1), of s] takeWhile_dropWhile_id [of "\<lambda>x. x < s" zs] by simp
  have "take 2 (rev (insort s zs)) = take 2 (rev (filter (\<lambda>x. s \<le> x) zs))"
    using assms(2) by (simp add: insort_split dropWhile_sorted [OF assms(1)])
  also have "\<dots> = take 2 (rev zs)"
    using assms(2) by (subst (2) zs) simp
  finally show ?thesis .
qed

lemma take_2_drop_min:
  fixes xs :: "'a :: linorder list"
  assumes "s \<le> a" "s \<le> b"
  shows "take 2 (rev (sort (s # a # b # xs))) = take 2 (rev (sort (a # b # xs)))"
proof -
  have "sort (s # a # b # xs) = insort s (sort (a # b # xs))"
    by simp
  moreover have "2 \<le> length (filter (\<lambda>x. s \<le> x) (sort (a # b # xs)))"
    unfolding filter_sort length_sort using assms by simp
  ultimately show ?thesis
    by (metis sorted_sort take_2_insort)
qed

lemma top_step_scores:
  "cp_FirstScore (top_step e p) = max (snd e) (cp_FirstScore p)"
  "cp_SecondScore (top_step e p) =
     (if snd e > cp_FirstScore p then cp_FirstScore p else max (snd e) (cp_SecondScore p))"
  by (simp_all add: top_step_def Let_def max_def)

lemma top_fold:
  assumes "cp_SecondScore p \<le> cp_FirstScore p"
  shows "[cp_FirstScore (fold top_step m p), cp_SecondScore (fold top_step m p)] =
     take 2 (rev (sort (cp_FirstScore p # cp_SecondScore p # map snd m)))"
  using assms
proof (induction m arbitrary: p)
  case (Cons e m)
  let ?F = "cp_FirstScore p" and ?S = "cp_SecondScore p" and ?v = "snd e" and ?q = "top_step e p"
  have "cp_SecondScore ?q \<le> cp_FirstScore ?q"
    using Cons.prems by (auto simp: top_step_scores max_def)
  then have "[cp_FirstScore (fold top_step m ?q), cp_SecondScore (fold top_step m ?q)] =
      take 2 (rev (sort (cp_FirstScore ?q # cp_SecondScore ?q # map snd m)))"
    by (rule Cons.IH)
  also have "\<dots> = take 2 (rev (sort (?F # ?S # ?v # map snd m)))"
  proof -
    let ?c = "cp_FirstScore ?q # cp_SecondScore ?q # map snd m"
    consider "?v > ?F" | "?v \<le> ?F" "?v > ?S" | "?v \<le> ?S" by linarith
    then show ?thesis
    proof cases
      case 1
      have "take 2 (rev (sort (?F # ?S # ?v # map snd m))) = take 2 (rev (sort (?S # ?F # ?v # map snd m)))"
        by (rule arg_cong [OF sort_mset_cong]) simp
      also have "\<dots> = take 2 (rev (sort (?F # ?v # map snd m)))"
        by (rule take_2_drop_min) (use 1 Cons.prems in simp_all)
      also have "sort (?F # ?v # map snd m) = sort ?c"
        by (rule sort_mset_cong) (use 1 in \<open>simp add: top_step_scores\<close>)
      finally show ?thesis ..
    next
      case 2
      have "take 2 (rev (sort (?F # ?S # ?v # map snd m))) = take 2 (rev (sort (?S # ?F # ?v # map snd m)))"
        by (rule arg_cong [OF sort_mset_cong]) simp
      also have "\<dots> = take 2 (rev (sort (?F # ?v # map snd m)))"
        by (rule take_2_drop_min) (use 2 Cons.prems in simp_all)
      also have "?F # ?v # map snd m = ?c"
        using 2 by (simp add: top_step_scores max_def)
      finally show ?thesis ..
    next
      case 3
      have "take 2 (rev (sort (?F # ?S # ?v # map snd m))) = take 2 (rev (sort (?v # ?F # ?S # map snd m)))"
        by (rule arg_cong [OF sort_mset_cong]) simp
      also have "\<dots> = take 2 (rev (sort (?F # ?S # map snd m)))"
        by (rule take_2_drop_min) (use 3 Cons.prems in simp_all)
      also have "?F # ?S # map snd m = ?c"
        using 3 Cons.prems by (simp add: top_step_scores max_def)
      finally show ?thesis ..
    qed
  qed
  finally show ?case by simp
qed simp

lemma topTwo_fields:
  "[cp_FirstScore (topTwo m), cp_SecondScore (topTwo m)] = take 2 (rev (sort (0 # 0 # map snd m)))"
  "cp_Margin (topTwo m) = fsub (cp_FirstScore (topTwo m)) (cp_SecondScore (topTwo m))"
  using top_fold [of "\<lparr>cp_First = [], cp_FirstScore = 0, cp_Second = [], cp_SecondScore = 0, cp_Margin = 0\<rparr>" m]
  by (simp_all add: topTwo_def Let_def)

section \<open>Scores by category\<close>

definition category_best :: "score_map \<Rightarrow> string \<Rightarrow> float64" where
  "category_best m c = Max (insert 0 (snd ` {e \<in> set m. category_key (fst e) = c}))"

lemma score_at_category_step:
  "score_at (category_step e cat) c =
     (if category_key (fst e) = c then max (snd e) (score_at cat c) else score_at cat c)"
  by (simp add: category_step_def score_at_def max_def Let_def)

lemma score_at_category_fold:
  "score_at (fold category_step m cat) c =
     Max (insert (score_at cat c) (snd ` {e \<in> set m. category_key (fst e) = c}))"
proof (induction m arbitrary: cat)
  case (Cons e m)
  let ?S = "snd ` {e \<in> set m. category_key (fst e) = c}"
  have "{d \<in> set (e # m). category_key (fst d) = c} =
      (if category_key (fst e) = c then insert e {d \<in> set m. category_key (fst d) = c}
       else {d \<in> set m. category_key (fst d) = c})"
    by auto
  moreover have "Max (insert a (insert b S)) = Max (insert (max b a) S)" if "finite S" for a b :: rat and S
    using that by (cases "S = {}") (simp_all add: max.assoc max.left_commute max.commute)
  then have "Max (insert a (insert b ?S)) = Max (insert (max b a) ?S)" for a b :: rat
    by simp
  ultimately show ?case
    using Cons.IH [of "category_step e cat"] by (simp add: score_at_category_step)
qed simp

lemma category_step_pos:
  "list_all (\<lambda>p. 0 < snd p) cat \<Longrightarrow> list_all (\<lambda>p. 0 < snd p) (category_step e cat)"
proof -
  assume pos: "list_all (\<lambda>p. 0 < snd p) cat"
  have "0 \<le> score_at cat c" for c
    using pos by (auto simp: score_at_def list_all_iff dest!: map_of_SomeD split: option.split)
  then have "score_at cat (category_key (fst e)) < snd e \<Longrightarrow> 0 < snd e"
    by (meson order.strict_trans1)
  then show ?thesis
    using pos by (auto simp: category_step_def Let_def list_all_iff dest!: set_alist_setD)
qed

lemma categoryScores_ok:
  "distinct (map fst (categoryScores m)) \<and> list_all (\<lambda>p. 0 < snd p) (categoryScores m)"
proof -
  have "distinct (map fst (fold category_step m cat)) \<and> list_all (\<lambda>p. 0 < snd p) (fold category_step m cat)"
    if "distinct (map fst cat)" "list_all (\<lambda>p. 0 < snd p) cat" for cat
    using that
  proof (induction m arbitrary: cat)
    case (Cons e m)
    moreover have "distinct (map fst (category_step e cat))"
      using Cons.prems by (simp add: category_step_def Let_def)
    ultimately show ?case
      by (simp add: category_step_pos)
  qed simp
  then show ?thesis by (simp add: categoryScores_def)
qed

lemma map_of_categoryScores:
  "map_of (categoryScores m) c = (if 0 < category_best m c then Some (category_best m c) else None)"
proof -
  have best: "score_at (categoryScores m) c = category_best m c"
    by (simp add: categoryScores_def score_at_category_fold category_best_def) (simp add: score_at_def)
  show ?thesis
  proof (cases "map_of (categoryScores m) c")
    case None
    then show ?thesis using best by (simp add: score_at_def)
  next
    case (Some v)
    then have "0 < v"
      using categoryScores_ok [of m] by (auto simp: list_all_iff dest: map_of_SomeD)
    then show ?thesis using best Some by (simp add: score_at_def)
  qed
qed

lemma categoryScores_mset:
  assumes "mset m = mset m'"
  shows "mset (categoryScores m) = mset (categoryScores m')"
proof -
  have "set m = set m'" using assms by (rule mset_eq_setD)
  then have "category_best m = category_best m'"
    by (simp add: category_best_def fun_eq_iff)
  then have "map_of (categoryScores m) = map_of (categoryScores m')"
    by (simp add: map_of_categoryScores fun_eq_iff)
  then have "set (categoryScores m) = set (categoryScores m')"
    using categoryScores_ok map_of_inject_set by blast
  then show ?thesis
    using categoryScores_ok set_eq_iff_mset_eq_distinct by (metis distinct_map)
qed

lemma topTwo_mset:
  assumes "mset m = mset m'"
  shows "cp_FirstScore (topTwo m) = cp_FirstScore (topTwo m')"
    and "cp_SecondScore (topTwo m) = cp_SecondScore (topTwo m')"
    and "cp_Margin (topTwo m) = cp_Margin (topTwo m')"
proof -
  have "mset (0 # 0 # map snd m) = mset (0 # 0 # map snd m')"
    using assms by simp
  then have "sort (0 # 0 # map snd m) = sort (0 # 0 # map snd m')"
    by (rule sort_mset_cong)
  then have "[cp_FirstScore (topTwo m), cp_SecondScore (topTwo m)] =
      [cp_FirstScore (topTwo m'), cp_SecondScore (topTwo m')]"
    by (simp only: topTwo_fields)
  then show "cp_FirstScore (topTwo m) = cp_FirstScore (topTwo m')"
      "cp_SecondScore (topTwo m) = cp_SecondScore (topTwo m')"
    by simp_all
  then show "cp_Margin (topTwo m) = cp_Margin (topTwo m')"
    by (simp add: topTwo_fields)
qed

lemmas topTwo_category_mset = topTwo_mset [OF categoryScores_mset]

section \<open>Candidates by category\<close>

text \<open>The group of a category: the positive scores of its types, in the order of the map.\<close>

definition category_group :: "score_map \<Rightarrow> string \<Rightarrow> TypeScore list" where
  "category_group m c =
     map (\<lambda>e. \<lparr>ts_Type = fst e, ts_Score = snd e\<rparr>) (filter (\<lambda>e. 0 < snd e \<and> category_key (fst e) = c) m)"

definition the_group :: "(string \<times> TypeScore list) list \<Rightarrow> string \<Rightarrow> TypeScore list" where
  "the_group g c = (case map_of g c of Some l \<Rightarrow> l | None \<Rightarrow> [])"

lemma the_group_step:
  "the_group (group_step e g) c =
     (if 0 < snd e \<and> category_key (fst e) = c then the_group g c @ [\<lparr>ts_Type = fst e, ts_Score = snd e\<rparr>]
      else the_group g c)"
  by (auto simp: group_step_def the_group_def Let_def)

lemma the_group_fold: "the_group (fold group_step m g) c = the_group g c @ category_group m c"
  by (induction m arbitrary: g) (auto simp: the_group_step category_group_def)

lemma groups_ok:
  "distinct (map fst (fold group_step m [])) \<and> list_all (\<lambda>p. snd p \<noteq> []) (fold group_step m [])"
proof -
  have step: "distinct (map fst (group_step e g)) \<and> list_all (\<lambda>p. snd p \<noteq> []) (group_step e g)"
    if "distinct (map fst g) \<and> list_all (\<lambda>p. snd p \<noteq> []) g" for e g
    using that by (auto simp: group_step_def Let_def list_all_iff dest!: set_alist_setD)
  have "distinct (map fst (fold group_step m g)) \<and> list_all (\<lambda>p. snd p \<noteq> []) (fold group_step m g)"
    if "distinct (map fst g) \<and> list_all (\<lambda>p. snd p \<noteq> []) g" for g
    using that by (induction m arbitrary: g) (simp_all add: step)
  then show ?thesis by simp
qed

lemma map_of_groups:
  "map_of (fold group_step m []) c = (if category_group m c = [] then None else Some (category_group m c))"
proof -
  have g: "the_group (fold group_step m []) c = category_group m c"
    by (simp add: the_group_fold) (simp add: the_group_def)
  have "snd p \<noteq> []" if "p \<in> set (fold group_step m [])" for p
    using groups_ok [of m] that by (simp add: list_all_iff)
  then show ?thesis
    using g by (fastforce simp: the_group_def dest: map_of_SomeD split: option.splits)
qed

text \<open>The candidate of a category.\<close>

definition candidate_of :: "EvidenceTiers \<Rightarrow> string \<Rightarrow> score_map \<Rightarrow> string \<Rightarrow> AccessCandidate" where
  "candidate_of tiers strength m c = category_candidate tiers strength (c, category_group m c)"

definition scored_categories :: "score_map \<Rightarrow> string list" where
  "scored_categories m = map fst (fold group_step m [])"

lemma scored_categories_set: "set (scored_categories m) = {c. category_group m c \<noteq> []}"
proof -
  have "set (scored_categories m) = dom (map_of (fold group_step m []))"
    by (simp add: scored_categories_def dom_map_of_conv_image_fst)
  then show ?thesis by (auto simp: dom_def map_of_groups split: if_splits)
qed

lemma buildCandidates_eq:
  "buildCandidates m bag matched =
     sort_by category_before
       (map (candidate_of (buildEvidenceTiers bag matched) (tiers_strength (buildEvidenceTiers bag matched)) m)
         (scored_categories m))"
proof -
  have "g = (fst g, category_group m (fst g))" if "g \<in> set (fold group_step m [])" for g
  proof -
    have "map_of (fold group_step m []) (fst g) = Some (snd g)"
      using that groups_ok [of m] by (metis map_of_eq_Some_iff prod.collapse)
    then show ?thesis by (cases g) (auto simp: map_of_groups split: if_splits)
  qed
  then show ?thesis
    by (simp add: buildCandidates_def scored_categories_def Let_def candidate_of_def cong: map_cong)
qed

lemma category_candidate_fields:
  "ac_Category (category_candidate tiers strength g) = fst g"
  "ac_Score (category_candidate tiers strength g) = ts_Score (hd (sort_by rank_before (snd g)))"
  by (simp_all add: category_candidate_def access_candidate_def Let_def split: prod.split)

lemma category_group_mset: "mset m = mset m' \<Longrightarrow> mset (category_group m c) = mset (category_group m' c)"
  by (simp add: category_group_def)

lemma category_candidate_mset:
  "mset l = mset l' \<Longrightarrow> category_candidate tiers strength (c, l) = category_candidate tiers strength (c, l')"
  unfolding category_candidate_def snd_conv by (simp add: sort_rank_mset [of l l'])

interpretation category_order: weak_order category_before "\<lambda>_. True"
proof
  show "\<not> category_before y x" if "category_before x y" for x y
    using that str_less_asym by (auto simp: category_before_def split: if_splits)
  show "\<not> category_before z x" if "\<not> category_before y x" "\<not> category_before z y" for x y z
    using that str_order.trans_not [OF TrueI TrueI TrueI, of "ac_Category y" "ac_Category x" "ac_Category z"]
    by (auto simp: category_before_def split: if_splits)
qed

lemma category_before_total:
  "\<not> category_before a b \<Longrightarrow> \<not> category_before b a \<Longrightarrow> ac_Category a = ac_Category b"
  using str_less_total [of "ac_Category a" "ac_Category b"]
  by (auto simp: category_before_def split: if_splits)

lemma buildCandidates_mset:
  assumes "mset m = mset m'"
  shows "buildCandidates m bag matched = buildCandidates m' bag matched"
proof -
  let ?c = "\<lambda>m. candidate_of (buildEvidenceTiers bag matched)
     (tiers_strength (buildEvidenceTiers bag matched)) m"
  have c: "?c m = ?c m'"
    using category_candidate_mset [OF category_group_mset [OF assms]] by (simp add: candidate_of_def fun_eq_iff)
  have "category_group m c = [] \<longleftrightarrow> category_group m' c = []" for c
    using category_group_mset [OF assms, of c] by (metis mset_zero_iff)
  then have "set (scored_categories m) = set (scored_categories m')"
    by (simp add: scored_categories_set)
  then have "mset (scored_categories m) = mset (scored_categories m')"
    using groups_ok [of m] groups_ok [of m'] set_eq_iff_mset_eq_distinct
    unfolding scored_categories_def by blast
  then have ms: "mset (map (?c m) (scored_categories m)) = mset (map (?c m') (scored_categories m'))"
    using c by simp
  show ?thesis
    unfolding buildCandidates_eq
  proof (rule sorted_wrt_unique [OF category_order.sorted_sort_by category_order.sorted_sort_by])
    show "mset (sort_by category_before (map (?c m) (scored_categories m))) =
        mset (sort_by category_before (map (?c m') (scored_categories m')))"
      using ms by simp
    fix a b
    assume ab: "a \<in> set (sort_by category_before (map (?c m) (scored_categories m)))"
      "b \<in> set (sort_by category_before (map (?c m) (scored_categories m)))"
      "\<not> category_before b a" "\<not> category_before a b"
    then show "a = b"
      using category_before_total [of a b]
      by (auto simp: candidate_of_def category_candidate_fields)
  qed simp_all
qed

end
