(* ===== verification/Float_Laws.thy ===== *)
theory Float_Laws
  imports Go_Float
begin

text \<open>
  Rounding is idempotent: the result of a float operation is a float. With it, adding 0 and
  capping at a literal behave as on real numbers.
\<close>

lemma round64_scaled:
  assumes n: "\<bar>n\<bar> < 2 ^ 53" and k: "- 1074 \<le> k"
  shows "round64 (of_int n * 2 powi k) = of_int n * 2 powi k"
proof (cases "n = 0")
  case False
  define y :: rat where "y = of_int n * 2 powi k"
  have y0: "y \<noteq> 0" using False by (simp add: y_def)
  have "(2::rat) powi expo y \<le> of_int \<bar>n\<bar> * 2 powi k"
    using expo_bounds [OF y0] by (simp add: y_def abs_mult)
  also have "\<dots> < of_int (2 ^ 53) * 2 powi k"
    using n by (intro mult_strict_right_mono) (simp_all only: of_int_less_iff, simp)
  also have "\<dots> = 2 powi (53 + k)" by (simp add: power_int_add)
  finally have "expo y < 53 + k" by (rule powi2_less_cancel)
  then have "ulp_exp y \<le> k" using k by (simp add: ulp_exp_def)
  then obtain m e where u: "k = e + int m" and e: "ulp_exp y = e"
    by (metis zle_iff_zadd)
  have y: "y = of_int (n * 2 ^ m) * 2 powi ulp_exp y"
    unfolding e by (simp add: y_def u power_int_add)
  have "y / 2 powi ulp_exp y = of_int (n * 2 ^ m)"
    by (subst y) simp
  then have "grid (ulp_exp y) y = of_int (n * 2 ^ m) * 2 powi ulp_exp y"
    unfolding grid_def by (simp only: round_even_of_int)
  also have "\<dots> = y" by (rule y [symmetric])
  finally show ?thesis using y0 by (simp add: round64_grid y_def)
qed simp

lemma round64_idem [simp]: "round64 (round64 x) = round64 x"
proof (cases "x = 0")
  case False
  let ?k = "ulp_exp x"
  define n where "n = round_even (x / 2 powi ?k)"
  have k: "- 1074 \<le> ?k" by (simp add: ulp_exp_def)
  have "\<bar>x\<bar> < 2 powi (expo x + 1)" using expo_bounds [OF False] by simp
  also have "\<dots> \<le> 2 powi (?k + 53)" by (intro power_int_increasing) (simp_all add: ulp_exp_def)
  finally have "\<bar>x / 2 powi ?k\<bar> \<le> of_int (2 ^ 53)"
    by (simp add: abs_divide power_int_add field_simps)
  then have "x / 2 powi ?k \<le> of_int (2 ^ 53)" "of_int (- (2 ^ 53)) \<le> x / 2 powi ?k"
    by (simp_all only: abs_le_iff of_int_minus) linarith
  then have "round_even (x / 2 powi ?k) \<le> 2 ^ 53" "- (2 ^ 53) \<le> round_even (x / 2 powi ?k)"
    using round_even_mono round_even_of_int by metis+
  then have n: "\<bar>n\<bar> \<le> 2 ^ 53" by (simp add: n_def)
  have rx: "round64 x = of_int n * 2 powi ?k"
    using False by (simp add: round64_def n_def)
  show ?thesis
  proof (cases "\<bar>n\<bar> < 2 ^ 53")
    case True
    then show ?thesis unfolding rx by (rule round64_scaled [OF _ k])
  next
    case half: False
    then have "\<bar>n\<bar> = 2 ^ 53" using n by simp
    then have "n = 2 ^ 53 \<or> n = - (2 ^ 53)" by arith
    then have "n = 2 * (n div 2)" "\<bar>n div 2\<bar> < 2 ^ 53" by auto
    moreover from this have "of_int n * 2 powi ?k = (of_int (n div 2) * 2 powi (?k + 1) :: rat)"
      by (simp add: power_int_add)
    ultimately show ?thesis
      unfolding rx using round64_scaled [of "n div 2" "?k + 1"] k by simp
  qed
qed simp

lemma flit_float [simp]: "round64 (flit x) = flit x"
  by (simp add: flit_def)

lemma op_float [simp]:
  "round64 (fadd x y) = fadd x y" "round64 (fsub x y) = fsub x y"
  "round64 (fmul x y) = fmul x y" "round64 (fdiv x y) = fdiv x y"
  by (simp_all add: fadd_def fsub_def fmul_def fdiv_def)

lemma fadd_0 [simp]: "fadd x 0 = round64 x" "fadd 0 x = round64 x"
  by (simp_all add: fadd_def)

text \<open>Subtracting keeps a bound that is a float.\<close>

lemma fsub_le: "x \<le> y \<Longrightarrow> 0 \<le> z \<Longrightarrow> round64 y = y \<Longrightarrow> fsub x z \<le> y"
  using round64_mono [of "x - z" y] by (simp add: fsub_def)

end
