(* ===== verification/Decision_Laws.thy ===== *)
theory Decision_Laws
  imports Detection_Engine Ranking_Laws Float_Laws
begin

text \<open>
  What the verdict of the detection engine guarantees: the caps on its confidence, when it commits
  to an access type, what the words "confirmed" and "high" of the output mean, that neither the
  iteration order of a map nor a failed probe influences it; and where it does not do what its
  comments say.
\<close>

section \<open>Caps on the confidence\<close>

lemma clamp01_unit [simp]: "0 \<le> clamp01 v" "clamp01 v \<le> 1"
  by (simp_all add: clamp01_def)

lemma clamp01_le: "v \<le> c \<Longrightarrow> 0 \<le> c \<Longrightarrow> clamp01 v \<le> c"
  by (simp add: clamp01_def)

lemma clamp01_ge: "c \<le> v \<Longrightarrow> c \<le> 1 \<Longrightarrow> c \<le> clamp01 v"
  by (simp add: clamp01_def)

lemma at_most_le [simp]: "at_most c v \<le> c" "at_most c v \<le> v"
  by (simp_all add: at_most_def)

lemma at_most_mono: "v \<le> w \<Longrightarrow> at_most c v \<le> w"
  by (simp add: at_most_def)

text \<open>The cap the kind of evidence allows, and the one a conflict of high severity imposes.\<close>

definition evidence_cap :: "evidenceBag \<Rightarrow> bool \<Rightarrow> float64" where
  "evidence_cap bag matched =
     (if hasDirectPhysicalEvidence bag then if ethernetWANOnlyEvidence bag then flit 0.59 else flit 0.98
      else if hasDeviceModelEvidence bag matched then flit 0.75
      else if onlyPerformanceAndRegionalEvidence bag then flit 0.25
      else if onlyTopologyEvidence bag then flit 0.30
      else flit 0.40)"

definition conflict_cap :: "DataConflict list \<Rightarrow> float64" where
  "conflict_cap conflicts = (if hasHighSeverityConflict conflicts then flit 0.35 else 1)"

lemma caps_float:
  "round64 (evidence_cap bag matched) = evidence_cap bag matched" "0 \<le> evidence_cap bag matched"
  "round64 (conflict_cap cs) = conflict_cap cs" "0 \<le> conflict_cap cs"
  by (simp_all add: evidence_cap_def conflict_cap_def)

lemma direct_confidence_cap:
  "direct_confidence bag conf \<le> (if ethernetWANOnlyEvidence bag then flit 0.59 else flit 0.98)"
  by (simp add: direct_confidence_def Let_def)

lemma context_only_cap:
  "context_only_confidence bag conf \<le>
     (if onlyPerformanceAndRegionalEvidence bag then flit 0.25
      else if onlyTopologyEvidence bag then flit 0.30 else flit 0.40)"
  by (auto simp: context_only_confidence_def Let_def onlyPerformanceAndRegionalEvidence_def
      onlyTopologyEvidence_def)

definition evidence_confidence :: "score_map \<Rightarrow> evidenceBag \<Rightarrow> bool \<Rightarrow> float64" where
  "evidence_confidence scores bag matched =
     (let conf = computeConfidence scores (eb_Sources bag) matched
      in if hasDirectPhysicalEvidence bag then direct_confidence bag conf
         else if hasDeviceModelEvidence bag matched then device_confidence bag matched conf
         else context_only_confidence bag conf)"

lemma evidence_confidence_cap: "evidence_confidence scores bag matched \<le> evidence_cap bag matched"
  using direct_confidence_cap context_only_cap
  by (simp add: evidence_confidence_def evidence_cap_def device_confidence_def Let_def)

lemma classification_confidence_eq:
  "computeClassificationConfidence scores bag matched conflicts =
     clamp01 (let conf = evidence_confidence scores bag matched
              in if hasHighSeverityConflict conflicts \<and> conf > flit 0.35 then flit 0.35
                 else if hasMediumSeverityConflict conflicts then fsub conf (flit 0.10) else conf)"
  by (simp add: computeClassificationConfidence_def evidence_confidence_def Let_def)

lemma confidence_le_cap:
  "computeClassificationConfidence scores bag matched conflicts \<le>
     min (evidence_cap bag matched) (conflict_cap conflicts)"
proof -
  let ?conf = "evidence_confidence scores bag matched"
  have cap: "?conf \<le> evidence_cap bag matched" by (rule evidence_confidence_cap)
  have one: "evidence_cap bag matched \<le> 1"
    by (simp add: evidence_cap_def flit_le_1)
  show ?thesis
  proof (cases "hasHighSeverityConflict conflicts \<and> ?conf > flit 0.35")
    case True
    then show ?thesis
      using cap by (auto simp: classification_confidence_eq conflict_cap_def flit_le_1 intro!: clamp01_le)
  next
    case False
    then have le: "?conf \<le> min (evidence_cap bag matched) (conflict_cap conflicts)"
      using cap one by (auto simp: conflict_cap_def)
    then have "fsub ?conf (flit 0.10) \<le> min (evidence_cap bag matched) (conflict_cap conflicts)"
      by (auto intro!: fsub_le simp: caps_float)
    then show ?thesis
      using False le caps_float
      by (auto simp: classification_confidence_eq Let_def intro!: clamp01_le)
  qed
qed

text \<open>What direct evidence guarantees, by the worst conflict: no cap but that of a severe conflict falls below it.\<close>

definition direct_guarantee :: "DataConflict list \<Rightarrow> float64 \<Rightarrow> bool" where
  "direct_guarantee conflicts conf \<longleftrightarrow>
     (if hasHighSeverityConflict conflicts then conf = flit 0.35
      else if hasMediumSeverityConflict conflicts then fsub (flit 0.80) (flit 0.10) \<le> conf
      else flit 0.80 \<le> conf)"

lemma direct_floor:
  assumes "hasDirectPhysicalEvidence bag" "\<not> ethernetWANOnlyEvidence bag"
  shows "direct_guarantee conflicts (computeClassificationConfidence scores bag matched conflicts)"
proof -
  have c: "flit 0.80 \<le> flit 0.85" "flit 0.80 \<le> flit 0.98" "flit 0.80 \<le> 1" "0 \<le> flit 0.35" "flit 0.35 \<le> 1"
    by (rule flit_mono flit_le_1 flit_nonneg, simp)+
  then have "flit 0.80 \<le> direct_confidence bag conf" for conf
    using assms by (auto simp: direct_confidence_def at_most_def maxFloat_def Let_def)
  then have floor: "flit 0.80 \<le> evidence_confidence scores bag matched"
    using assms by (simp add: evidence_confidence_def Let_def)
  have "flit 0.35 < flit 0.80" by code_simp
  then have "flit 0.35 < evidence_confidence scores bag matched" using floor by linarith
  moreover have "fsub (flit 0.80) (flit 0.10) \<le> fsub (evidence_confidence scores bag matched) (flit 0.10)"
    unfolding fsub_def using floor by (intro round64_mono) simp
  moreover have "fsub (flit 0.80) (flit 0.10) \<le> 1" by code_simp
  ultimately show ?thesis
    using c floor leD [OF c(4)]
    by (simp add: direct_guarantee_def classification_confidence_eq Let_def clamp01_ge clamp01_def)
qed

text \<open>
  C5: The classification confidence lies between 0 and 1 and never exceeds what the evidence
  allows: 0.98 with direct physical evidence (0.59 when it is Ethernet only), 0.75 with a known device
  model, 0.40 with context only (0.30 for topology, 0.25 for performance and region), and 0.35
  when a conflict is severe. Direct evidence that is not Ethernet only guarantees 0.80 without
  conflicts and 0.80 - 0.10 when a conflict is of medium severity; with a severe conflict the
  confidence is then exactly 0.35.
\<close>

theorem confidence_caps:
  "0 \<le> computeClassificationConfidence scores bag matched conflicts \<and>
   computeClassificationConfidence scores bag matched conflicts \<le>
     min (evidence_cap bag matched) (conflict_cap conflicts) \<and>
   (if hasDirectPhysicalEvidence bag \<and> \<not> ethernetWANOnlyEvidence bag
    then direct_guarantee conflicts (computeClassificationConfidence scores bag matched conflicts) else True)"
  using confidence_le_cap direct_floor by (simp add: classification_confidence_eq)

section \<open>When the engine commits\<close>

lemma severe_below_minimum: "flit 0.35 < minConfidence"
  unfolding minConfidence_def by code_simp

lemma Unknown_gate:
  "fst (shouldReturnUnknown scores confidence bag matched) \<longleftrightarrow>
     confidence < minConfidence \<or> cp_FirstScore (topTwo (categoryScores scores)) < minTopScore \<or>
     (cp_Margin (topTwo (categoryScores scores)) < minCategoryGap \<and> \<not> hasDirectPhysicalEvidence bag) \<or>
     (\<not> hasDirectPhysicalEvidence bag \<and> \<not> hasDeviceModelEvidence bag matched)"
  by (simp add: shouldReturnUnknown_def Let_def)

lemma fst_withhold:
  "fst (withhold scores confidence bag matched conflicts) \<longleftrightarrow>
     fst (shouldReturnUnknown scores confidence bag matched) \<or>
     (hasHighSeverityConflict conflicts \<and>
      (\<not> hasDirectPhysicalEvidence bag \<or> hasWANClassificationConflict conflicts))"
  by (auto simp: withhold_def Let_def split: prod.split)

text \<open>The branch on severe conflicts adds nothing: the cap already withholds the verdict.\<close>

lemma severe_conflict_withheld:
  assumes "hasHighSeverityConflict conflicts"
  shows "fst (withhold scores (computeClassificationConfidence scores bag matched conflicts) bag matched conflicts)"
proof -
  have "computeClassificationConfidence scores bag matched conflicts \<le> flit 0.35"
    using confidence_le_cap [of scores bag matched conflicts] assms by (simp add: conflict_cap_def)
  then show ?thesis
    using severe_below_minimum by (simp add: fst_withhold Unknown_gate)
qed

lemma populate_fields [simp]:
  "sr_PrimaryType (populateOutputContract bag r) = sr_PrimaryType r"
  "sr_Category (populateOutputContract bag r) = sr_Category r"
  "sr_Confidence (populateOutputContract bag r) = sr_Confidence r"
  "sr_DecisionQuality (populateOutputContract bag r) = sr_DecisionQuality r"
  "sr_Conflicts (populateOutputContract bag r) = sr_Conflicts r"
  "sr_Scores (populateOutputContract bag r) = sr_Scores r"
  "sr_Evidence (populateOutputContract bag r) = sr_Evidence r"
  "sr_Alternatives (populateOutputContract bag r) = sr_Alternatives r"
  "sr_Classification (populateOutputContract bag r) = classification_of r bag"
  by (simp_all add: populateOutputContract_def Let_def)

text \<open>What an engine that commits to a type has established.\<close>

definition commitment_ok :: "evidenceBag \<Rightarrow> bool \<Rightarrow> ScanResult \<Rightarrow> bool" where
  "commitment_ok bag matched r \<longleftrightarrow>
     (let pair = topTwo (categoryScores (sr_Scores r));
          ranked = collapseParentSubtypeCandidates (rankAll (sr_Scores r))
      in (hasDirectPhysicalEvidence bag \<or> hasDeviceModelEvidence bag matched) \<and>
         \<not> hasHighSeverityConflict (sr_Conflicts r) \<and> minConfidence \<le> sr_Confidence r \<and>
         minTopScore \<le> cp_FirstScore pair \<and>
         (hasDirectPhysicalEvidence bag \<or> minCategoryGap \<le> cp_Margin pair) \<and>
         ranked \<noteq> [] \<and> sr_PrimaryType r = ts_Type (hd ranked) \<and>
         sr_Category r = CategoryFor (sr_PrimaryType r) \<and> sr_Alternatives r = take 3 (tl ranked))"

lemma graded_fields [simp]:
  "sr_Scores (graded_result bag matched conf r) = sr_Scores r"
  "sr_Conflicts (graded_result bag matched conf r) = sr_Conflicts r"
  "sr_Confidence (graded_result bag matched conf r) = conf"
  by (simp_all add: graded_result_def Let_def)

text \<open>The stages of \<open>verdict\<close>: the ranking, the confidence and the gate.\<close>

definition verdict_ranked :: "ScanResult \<Rightarrow> TypeScore list" where
  "verdict_ranked r = collapseParentSubtypeCandidates (rankAll (sr_Scores r))"

definition verdict_confidence :: "evidenceBag \<Rightarrow> bool \<Rightarrow> ScanResult \<Rightarrow> float64" where
  "verdict_confidence bag matched r =
     computeClassificationConfidence (sr_Scores r) bag matched (sr_Conflicts r)"

definition verdict_gate :: "evidenceBag \<Rightarrow> bool \<Rightarrow> ScanResult \<Rightarrow> bool \<times> string list" where
  "verdict_gate bag matched r =
     withhold (sr_Scores r) (verdict_confidence bag matched r) bag matched (sr_Conflicts r)"

definition verdict_graded :: "evidenceBag \<Rightarrow> bool \<Rightarrow> ScanResult \<Rightarrow> ScanResult" where
  "verdict_graded bag matched r = graded_result bag matched (verdict_confidence bag matched r) r"

lemma verdict_eq:
  "verdict bag fp fired r =
     (if verdict_ranked r = [] then no_score_result bag (fp \<noteq> None) r
      else if fst (verdict_gate bag (fp \<noteq> None) r) then
        withheld_result bag (fp \<noteq> None) (verdict_ranked r) (snd (verdict_gate bag (fp \<noteq> None) r))
          (verdict_graded bag (fp \<noteq> None) r)
      else committed_result bag fp fired (verdict_ranked r) (verdict_graded bag (fp \<noteq> None) r))"
  by (simp add: verdict_def verdict_ranked_def verdict_confidence_def verdict_gate_def verdict_graded_def
      Let_def split: prod.split)

lemma verdict_commits:
  "sr_PrimaryType (verdict bag fp fired r) = ''Unknown'' \<or>
   commitment_ok bag (fp \<noteq> None) (verdict bag fp fired r)"
proof (cases "verdict_ranked r = [] \<or> fst (verdict_gate bag (fp \<noteq> None) r)")
  case True
  then show ?thesis
    by (auto simp: verdict_eq no_score_result_def withheld_result_def Let_def)
next
  case False
  then have "\<not> hasHighSeverityConflict (sr_Conflicts r)"
    using severe_conflict_withheld by (auto simp: verdict_gate_def verdict_confidence_def)
  then show ?thesis
    using False
    by (auto simp: verdict_eq commitment_ok_def committed_result_def verdict_gate_def verdict_ranked_def
        verdict_graded_def fst_withhold Unknown_gate Let_def capN_def)
qed

text \<open>
  C1: The engine answers Unknown unless it has direct or device evidence, no severe conflict, a
  confidence of at least 0.40, a leading score of at least 0.35 and, without direct evidence, a lead of 0.12
  over the next category; then it commits to the best ranked type. In particular a
  severe conflict always gives Unknown, also when the physical evidence is direct and the conflict
  is not about the WAN type, although the code has a branch for that case.
\<close>

theorem commits_only_when_justified:
  "sr_PrimaryType (Analyze e stamp now inp results) = ''Unknown'' \<or>
   commitment_ok (analysis_bag results)
     (analysis_fingerprint e (analysis_bag results) \<noteq> None) (Analyze e stamp now inp results)"
  unfolding Analyze_def Let_def by (rule verdict_commits)

section \<open>The words of the output\<close>

lemma classification_of_populate [simp]:
  "classification_of (populateOutputContract bag r) bag' = classification_of r bag'"
  by (simp add: classification_of_def)

lemma verdict_classification:
  "sr_Classification (verdict bag fp fired r) = classification_of (verdict bag fp fired r) bag"
  by (simp add: verdict_eq no_score_result_def withheld_result_def committed_result_def Let_def)

lemma public_unknown:
  "fst (publicClassification p bag) = ''Unknown'' \<longleftrightarrow> p \<in> {[], ''Unknown''}"
  by (auto simp: publicClassification_def Let_def access_type_defs)

lemma state_confirmed:
  "classificationState p conf direct cs = ''confirmed'' \<longleftrightarrow>
     p \<noteq> ''Unknown'' \<and> direct \<and> flit 0.85 \<le> conf \<and> \<not> hasWANClassificationConflict cs"
  by (auto simp: classificationState_def)

lemma classification_state:
  "cl_State (classification_of r bag) = ''confirmed'' \<longleftrightarrow>
     sr_PrimaryType r \<notin> {[], ''Unknown''} \<and> hasDirectPhysicalEvidence bag \<and> flit 0.85 \<le> sr_Confidence r \<and>
     \<not> hasWANClassificationConflict (sr_Conflicts r)"
  "cl_SafeToDisplayAsFinal (classification_of r bag) \<longleftrightarrow>
     cl_State (classification_of r bag) = ''confirmed'' \<and> sr_Conflicts r = []"
  using public_unknown [of "sr_PrimaryType r" bag]
  by (auto simp: classification_of_def Let_def state_confirmed split: prod.split)

lemma quality_high:
  "decisionQuality conf margin tops direct device = ''high'' \<longleftrightarrow>
     direct \<and> highConfidence \<le> conf \<and> highTopScore \<le> tops \<and> highCategoryGap \<le> margin"
  by (auto simp: decisionQuality_def)

lemma high_above_minimum: "minConfidence < highConfidence" "minTopScore < highTopScore" "0 < highConfidence"
  unfolding minConfidence_def highConfidence_def minTopScore_def highTopScore_def by code_simp+

lemma verdict_quality:
  "sr_DecisionQuality (verdict bag fp fired r) = ''high'' \<longleftrightarrow>
     verdict_ranked r \<noteq> [] \<and> hasDirectPhysicalEvidence bag \<and>
     highConfidence \<le> verdict_confidence bag (fp \<noteq> None) r \<and>
     highTopScore \<le> cp_FirstScore (topTwo (categoryScores (sr_Scores r))) \<and>
     highCategoryGap \<le> cp_Margin (topTwo (categoryScores (sr_Scores r)))"
  by (simp add: verdict_eq no_score_result_def withheld_result_def committed_result_def Let_def
      verdict_graded_def graded_result_def quality_high)

lemma high_quality_commits:
  assumes "sr_DecisionQuality (verdict bag fp fired r) = ''high''"
  shows "verdict bag fp fired r = committed_result bag fp fired (verdict_ranked r) (verdict_graded bag (fp \<noteq> None) r)"
proof -
  let ?c = "verdict_confidence bag (fp \<noteq> None) r"
  have high: "verdict_ranked r \<noteq> []" "hasDirectPhysicalEvidence bag" "highConfidence \<le> ?c"
    "highTopScore \<le> cp_FirstScore (topTwo (categoryScores (sr_Scores r)))"
    using assms by (auto simp: verdict_quality)
  have "\<not> hasHighSeverityConflict (sr_Conflicts r)"
  proof
    assume "hasHighSeverityConflict (sr_Conflicts r)"
    then have "?c \<le> flit 0.35"
      using confidence_le_cap [of "sr_Scores r" bag "fp \<noteq> None" "sr_Conflicts r"]
      by (simp add: verdict_confidence_def conflict_cap_def)
    then show False
      using high(3) severe_below_minimum high_above_minimum(1) by simp
  qed
  then have "\<not> fst (verdict_gate bag (fp \<noteq> None) r)"
    using high high_above_minimum by (simp add: verdict_gate_def fst_withhold Unknown_gate)
  then show ?thesis
    using high(1) by (simp add: verdict_eq)
qed

text \<open>
  What the words of the report mean. A type is "confirmed" exactly when the engine committed to
  one, on direct physical evidence, with a confidence of at least 0.85 and no conflict about the WAN type; it may be
  displayed as final exactly when it is confirmed and there is no conflict at all; and a verdict of high quality is
  always a committed one.
\<close>

theorem confirmed_meaning:
  "let r = Analyze e stamp now inp results; bag = analysis_bag results; c = sr_Classification r
   in (cl_State c = ''confirmed'' \<longleftrightarrow>
         sr_PrimaryType r \<notin> {[], ''Unknown''} \<and> hasDirectPhysicalEvidence bag \<and>
         flit 0.85 \<le> sr_Confidence r \<and> \<not> hasWANClassificationConflict (sr_Conflicts r)) \<and>
      (cl_SafeToDisplayAsFinal c \<longleftrightarrow> cl_State c = ''confirmed'' \<and> sr_Conflicts r = []) \<and>
      (if sr_DecisionQuality r = ''high''
       then hasDirectPhysicalEvidence bag \<and>
         sr_PrimaryType r = ts_Type (hd (collapseParentSubtypeCandidates (rankAll (sr_Scores r))))
       else True)"
proof -
  have "sr_PrimaryType (verdict bag fp fired r) =
      ts_Type (hd (collapseParentSubtypeCandidates (rankAll (sr_Scores (verdict bag fp fired r)))))"
    if "sr_DecisionQuality (verdict bag fp fired r) = ''high''" for bag fp fired r
    using high_quality_commits [OF that]
    by (simp add: committed_result_def verdict_graded_def verdict_ranked_def Let_def)
  then show ?thesis
    unfolding Let_def Analyze_def verdict_classification classification_state
    by (auto simp: verdict_quality)
qed

section \<open>Where evidence is misread\<close>

lemma verdict_conflicts [simp]: "sr_Conflicts (verdict bag fp fired r) = sr_Conflicts r"
  by (simp add: verdict_eq no_score_result_def withheld_result_def committed_result_def verdict_graded_def Let_def)

lemma wan_conflict_unknown:
  assumes "detectWANTypeConflicts results \<noteq> []"
  shows "sr_PrimaryType (Analyze e stamp now inp results) = ''Unknown''"
proof -
  have "hasHighSeverityConflict (detectWANTypeConflicts results)"
    using assms unfolding detectWANTypeConflicts_def hasHighSeverityConflict_def data_conflict_def
    by (cases "concat (map wan_values results)") (simp_all only: list.case list.simps split: option.splits, simp_all)
  then have "hasHighSeverityConflict (detectConflicts results bag m)" for bag m
    by (auto simp: detectConflicts_def hasHighSeverityConflict_def)
  then have "\<not> commitment_ok bag b (Analyze e stamp now inp results)" for bag b
    by (simp add: commitment_ok_def Analyze_def base_result_def Let_def)
  then show ?thesis
    unfolding Analyze_def Let_def using verdict_commits by blast
qed

definition cpe_report :: "string \<Rightarrow> string \<Rightarrow> ProbeResult" where
  "cpe_report name wan =
     \<lparr>pr_ProbeName = name, pr_Status = StatusSuccess, pr_Confidence = 0, pr_DurationMS = 0,
      pr_Evidence = [(''wan_access_type'', A_string wan)], pr_Hints = [], pr_Errors = []\<rparr>"

text \<open>
  A probe that reports "Other", which names no access type, conflicts with a later probe that reports
  DSL, but not with an earlier one: the value of the first probe is compared although it is Unknown. In the first
  order the conflict is severe, so the engine answers Unknown whatever its rules are.
\<close>

theorem unknown_wan_type_conflicts:
  "detectWANTypeConflicts [cpe_report ''upnp_igd_probe'' ''DSL'', cpe_report ''snmp_probe_opt_in'' ''Other''] = [] \<and>
   sr_PrimaryType (Analyze e stamp now inp
     [cpe_report ''snmp_probe_opt_in'' ''Other'', cpe_report ''upnp_igd_probe'' ''DSL'']) = ''Unknown''"
proof -
  have "detectWANTypeConflicts [cpe_report ''upnp_igd_probe'' ''DSL'', cpe_report ''snmp_probe_opt_in'' ''Other''] = []"
    by code_simp
  moreover have "wan_values (cpe_report ''snmp_probe_opt_in'' ''Other'') = [(''snmp_probe_opt_in'', CatUnknown)]"
    "wan_values (cpe_report ''upnp_igd_probe'' ''DSL'') = [(''upnp_igd_probe'', ''DSL'')]"
    by code_simp+
  then have "detectWANTypeConflicts
      [cpe_report ''snmp_probe_opt_in'' ''Other'', cpe_report ''upnp_igd_probe'' ''DSL''] \<noteq> []"
    by (simp add: detectWANTypeConflicts_def CatUnknown_def)
  ultimately show ?thesis
    using wan_conflict_unknown by simp
qed

lemma control_page:
  "hasDirectPhysicalEvidence (empty_bag\<lparr>eb_CPEText := ''Parental control''\<rparr>)"
  "\<not> ethernetWANOnlyEvidence (empty_bag\<lparr>eb_CPEText := ''Parental control''\<rparr>)"
  "Parse [] ''Parental control'' src = None"
proof -
  show "hasDirectPhysicalEvidence (empty_bag\<lparr>eb_CPEText := ''Parental control''\<rparr>)"
    by code_simp
  show "\<not> ethernetWANOnlyEvidence (empty_bag\<lparr>eb_CPEText := ''Parental control''\<rparr>)"
    by code_simp
  have "detectMedium (line_text [] ''Parental control'') (normalizeKV []) = []"
    by code_simp
  then show "Parse [] ''Parental control'' src = None"
    by (simp add: Parse_def Let_def)
qed

text \<open>
  The word "control" in the text of a CPE contains "ont", which counts as direct physical
  evidence: without any other evidence the confidence is at least 0.80, although the parser of line statistics,
  which matches whole words, finds no optical line in the same text.
\<close>

theorem control_counts_as_fibre:
  "flit 0.80 \<le> computeClassificationConfidence scores (empty_bag\<lparr>eb_CPEText := ''Parental control''\<rparr>) matched [] \<and>
   Parse [] ''Parental control'' src = None"
  using direct_floor [OF control_page(1,2), of "[]"] control_page(3)
  by (simp add: direct_guarantee_def hasHighSeverityConflict_def hasMediumSeverityConflict_def)

end
