(* ===== verification/Verdict_Order.thy ===== *)
theory Verdict_Order
  imports Detection_Engine Ranking_Laws
begin

text \<open>
  What the detection engine computes from its score map, a Go map that is iterated over in an
  unspecified order: the leading scores, the candidates by category, and every part of the verdict
  that depends on the scores, each shown independent of that order.
\<close>

section \<open>Leading scores\<close>

text \<open>
  The single pass over the map that finds the two leading scores returns the two largest
  values (zero for a missing one), and the score of a category is the largest score of its
  types, recorded only when positive.
\<close>

theorem leading_scores:
  "[cp_FirstScore (topTwo m), cp_SecondScore (topTwo m)] = take 2 (rev (sort (0 # 0 # map snd m))) \<and>
   cp_Margin (topTwo m) = fsub (cp_FirstScore (topTwo m)) (cp_SecondScore (topTwo m)) \<and>
   map_of (categoryScores m) c = (if 0 < category_best m c then Some (category_best m c) else None)"
  by (simp add: topTwo_fields map_of_categoryScores)

section \<open>One candidate per category\<close>

lemma best_of_group:
  assumes "category_group m c \<noteq> []"
  shows "ts_Score (hd (sort_by rank_before (category_group m c))) = category_best m c"
    and "0 < category_best m c"
proof -
  let ?l = "sort_by rank_before (category_group m c)"
  have ne: "?l \<noteq> []"
    using assms by (metis length_0_conv length_sort_by)
  have top: "ts_Score x \<le> ts_Score (hd ?l)" if "x \<in> set ?l" for x
  proof -
    have "\<not> rank_before x (hd ?l) \<or> x = hd ?l"
      using rank_order.sorted_sort_by [of "category_group m c"] ne that by (cases ?l) auto
    then show ?thesis by (auto simp: rank_before_def split: if_splits)
  qed
  have scores: "ts_Score ` set ?l = snd ` {e \<in> set m. 0 < snd e \<and> category_key (fst e) = c}"
    by (force simp: category_group_def)
  have hd: "ts_Score (hd ?l) \<in> snd ` {e \<in> set m. 0 < snd e \<and> category_key (fst e) = c}"
    using hd_in_set [OF ne] scores by (metis imageI)
  then have pos: "0 < ts_Score (hd ?l)" by auto
  have "category_best m c = ts_Score (hd ?l)"
    unfolding category_best_def
  proof (rule Max_eqI)
    show "ts_Score (hd ?l) \<in> insert 0 (snd ` {e \<in> set m. category_key (fst e) = c})"
      using hd by auto
    fix y assume y: "y \<in> insert 0 (snd ` {e \<in> set m. category_key (fst e) = c})"
    show "y \<le> ts_Score (hd ?l)"
    proof (cases "0 < y")
      case True
      then have "y \<in> ts_Score ` set ?l" using y scores by auto
      then show ?thesis using top by auto
    qed (use pos in simp)
  qed simp
  then show "ts_Score (hd ?l) = category_best m c" "0 < category_best m c"
    using pos by simp_all
qed

lemma no_group: "category_group m c = [] \<longleftrightarrow> \<not> 0 < category_best m c"
proof
  assume "category_group m c = []"
  then have "\<forall>e \<in> set m. category_key (fst e) = c \<longrightarrow> snd e \<le> 0"
    by (force simp: category_group_def filter_empty_conv)
  then have "category_best m c = 0"
    unfolding category_best_def by (intro Max_eqI) auto
  then show "\<not> 0 < category_best m c" by simp
qed (use best_of_group in blast)

lemma candidate_of_fields:
  "ac_Category (candidate_of tiers strength m c) = c"
  "category_group m c \<noteq> [] \<Longrightarrow> ac_Score (candidate_of tiers strength m c) = category_best m c"
  by (simp_all add: candidate_of_def category_candidate_fields best_of_group)

lemma candidate_category_score:
  assumes "a \<in> set (buildCandidates m bag matched)"
  shows "ac_Score a = category_best m (ac_Category a)"
  using assms by (auto simp: buildCandidates_eq candidate_of_fields scored_categories_set)

lemma candidate_categories_mset:
  "mset (map ac_Category (buildCandidates m bag matched)) = mset (scored_categories m)"
  by (simp add: buildCandidates_eq candidate_of_fields image_mset.compositionality o_def)

lemma candidate_categories:
  "distinct (map ac_Category (buildCandidates m bag matched))"
  "ac_Category ` set (buildCandidates m bag matched) = {c. 0 < category_best m c}"
  using groups_ok [of m] mset_eq_imp_distinct_iff [OF candidate_categories_mset [of m bag matched]]
    mset_eq_setD [OF candidate_categories_mset [of m bag matched]]
  by (auto simp: scored_categories_def [symmetric] scored_categories_set no_group)

lemma candidate_score_lookup:
  "map_of (map (\<lambda>a. (ac_Category a, ac_Score a)) (buildCandidates m bag matched)) c =
     (if 0 < category_best m c then Some (category_best m c) else None)"
proof (cases "0 < category_best m c")
  case True
  then obtain a where a: "a \<in> set (buildCandidates m bag matched)" "ac_Category a = c"
    using candidate_categories(2) by force
  then have "(c, category_best m c) \<in> set (map (\<lambda>a. (ac_Category a, ac_Score a)) (buildCandidates m bag matched))"
    using candidate_category_score by force
  then show ?thesis
    using True candidate_categories(1) [of m bag matched] by (simp add: o_def)
next
  case False
  then have "c \<notin> ac_Category ` set (buildCandidates m bag matched)"
    by (simp add: candidate_categories)
  then show ?thesis
    using False by (auto simp: map_of_eq_None_iff image_image)
qed

text \<open>
  The candidates of the report are one per category with a positive score, in descending
  order of the score, and each carries exactly the score the decision computes for its category.
\<close>

theorem candidates_by_category:
  "map_of (map (\<lambda>a. (ac_Category a, ac_Score a)) (buildCandidates m bag matched)) c =
     map_of (categoryScores m) c \<and>
   distinct (map ac_Category (buildCandidates m bag matched)) \<and>
   sorted_wrt (\<lambda>a b. ac_Score b \<le> ac_Score a) (buildCandidates m bag matched)"
proof -
  have "sorted_wrt (\<lambda>a b. \<not> category_before b a) (buildCandidates m bag matched)"
    by (simp add: buildCandidates_eq category_order.sorted_sort_by)
  then have "sorted_wrt (\<lambda>a b. ac_Score b \<le> ac_Score a) (buildCandidates m bag matched)"
    by (rule sorted_wrt_mono_rel [rotated]) (auto simp: category_before_def split: if_splits)
  then show ?thesis
    using candidate_categories(1) by (simp add: candidate_score_lookup map_of_categoryScores)
qed

section \<open>The verdict\<close>

text \<open>Two iteration orders of the same map.\<close>

definition same_map :: "score_map \<Rightarrow> score_map \<Rightarrow> bool" where
  "same_map m m' \<longleftrightarrow> distinct (map fst m) \<and> mset m = mset m'"

lemma same_map_mset: "same_map m m' \<Longrightarrow> mset m' = mset m"
  by (simp add: same_map_def)

lemma same_map_lookup:
  assumes "same_map m m'"
  shows "score_at m' = score_at m"
proof -
  have "mset (map fst m) = mset (map fst m')"
    using assms by (simp add: same_map_def)
  then have "distinct (map fst m')"
    using assms mset_eq_imp_distinct_iff unfolding same_map_def by blast
  then have "map_of m' = map_of m"
    using assms map_of_inject_set [of m' m] mset_eq_setD [of m' m] by (simp add: same_map_def)
  then show ?thesis by (simp add: score_at_def fun_eq_iff)
qed

lemma same_map_functions:
  assumes "same_map m m'"
  shows "rankAll m' = rankAll m"
    and "cp_FirstScore (topTwo (categoryScores m')) = cp_FirstScore (topTwo (categoryScores m))"
    and "cp_Margin (topTwo (categoryScores m')) = cp_Margin (topTwo (categoryScores m))"
    and "isFiberVDSLTie m' = isFiberVDSLTie m"
    and "conflictReasons m' bag = conflictReasons m bag"
    and "buildCandidates m' bag matched = buildCandidates m bag matched"
    and "m' = [] \<longleftrightarrow> m = []"
proof -
  note ms = same_map_mset [OF assms]
  show "rankAll m' = rankAll m" by (rule rankAll_mset [OF ms])
  show "cp_FirstScore (topTwo (categoryScores m')) = cp_FirstScore (topTwo (categoryScores m))"
    "cp_Margin (topTwo (categoryScores m')) = cp_Margin (topTwo (categoryScores m))"
    by (rule topTwo_category_mset [OF ms])+
  show "isFiberVDSLTie m' = isFiberVDSLTie m" "conflictReasons m' bag = conflictReasons m bag"
    by (simp_all only: isFiberVDSLTie_def conflictReasons_def same_map_lookup [OF assms])
  show "buildCandidates m' bag matched = buildCandidates m bag matched"
    by (rule buildCandidates_mset [OF ms])
  show "m' = [] \<longleftrightarrow> m = []"
    using ms by (metis mset_zero_iff)
qed

lemma same_map_verdict_parts:
  assumes "same_map m m'"
  shows "computeClassificationConfidence m' bag matched cs = computeClassificationConfidence m bag matched cs"
    and "withhold m' conf bag matched cs = withhold m conf bag matched cs"
    and "nextBestProbes bag matched cs m' = nextBestProbes bag matched cs m"
    and "buildUncertainExplanation p m' bag matched = buildUncertainExplanation p m bag matched"
    and "likelyCandidateNames m' n = likelyCandidateNames m n"
proof -
  note same = same_map_functions [OF assms]
  have "computeConfidence m' k matched = computeConfidence m k matched" for k
    by (simp add: computeConfidence_def Let_def same)
  then show "computeClassificationConfidence m' bag matched cs = computeClassificationConfidence m bag matched cs"
    by (simp add: computeClassificationConfidence_def)
  have "shouldReturnUnknown m' conf bag matched = shouldReturnUnknown m conf bag matched"
    unfolding shouldReturnUnknown_def Let_def same by (rule refl)
  then show "withhold m' conf bag matched cs = withhold m conf bag matched cs"
    by (simp add: withhold_def same)
  show "nextBestProbes bag matched cs m' = nextBestProbes bag matched cs m"
    by (simp add: nextBestProbes_def same)
  show names: "likelyCandidateNames m' n = likelyCandidateNames m n" for n
    by (simp add: likelyCandidateNames_def same)
  show "buildUncertainExplanation p m' bag matched = buildUncertainExplanation p m bag matched"
    unfolding buildUncertainExplanation_def tiedLeadingCandidates_def names same by (rule refl)
qed

lemma same_map_populate:
  assumes "same_map m m'" "sr_Scores r = m" "r' = r\<lparr>sr_Scores := m'\<rparr>"
  shows "populateOutputContract bag r' = (populateOutputContract bag r)\<lparr>sr_Scores := m'\<rparr>"
  using assms(2)
  by (simp add: assms(3) populateOutputContract_def classification_of_def buildUIOutput_def Let_def
      same_map_functions [OF assms(1)] same_map_verdict_parts [OF assms(1)])

lemma same_map_stages:
  assumes "same_map m m'" "sr_Scores r = m"
  shows "no_score_result bag matched (r\<lparr>sr_Scores := m'\<rparr>) =
      (no_score_result bag matched r)\<lparr>sr_Scores := m'\<rparr>"
    and "graded_result bag matched conf (r\<lparr>sr_Scores := m'\<rparr>) =
      (graded_result bag matched conf r)\<lparr>sr_Scores := m'\<rparr>"
    and "withheld_result bag matched ranked reasons (r\<lparr>sr_Scores := m'\<rparr>) =
      (withheld_result bag matched ranked reasons r)\<lparr>sr_Scores := m'\<rparr>"
    and "committed_result bag fp fired ranked (r\<lparr>sr_Scores := m'\<rparr>) =
      (committed_result bag fp fired ranked r)\<lparr>sr_Scores := m'\<rparr>"
proof -
  note same = same_map_functions [OF assms(1)] same_map_verdict_parts [OF assms(1)]
  show "no_score_result bag matched (r\<lparr>sr_Scores := m'\<rparr>) =
      (no_score_result bag matched r)\<lparr>sr_Scores := m'\<rparr>"
    unfolding no_score_result_def Let_def
    by (rule same_map_populate [OF assms(1)]) (simp_all add: assms(2) same)
  show "graded_result bag matched conf (r\<lparr>sr_Scores := m'\<rparr>) =
      (graded_result bag matched conf r)\<lparr>sr_Scores := m'\<rparr>"
    using assms(2) by (simp add: graded_result_def Let_def same)
  show "withheld_result bag matched ranked reasons (r\<lparr>sr_Scores := m'\<rparr>) =
      (withheld_result bag matched ranked reasons r)\<lparr>sr_Scores := m'\<rparr>"
    unfolding withheld_result_def
    by (rule same_map_populate [OF assms(1)]) (simp_all add: assms(2) same)
  show "committed_result bag fp fired ranked (r\<lparr>sr_Scores := m'\<rparr>) =
      (committed_result bag fp fired ranked r)\<lparr>sr_Scores := m'\<rparr>"
    unfolding committed_result_def Let_def
    by (rule same_map_populate [OF assms(1)]) (simp_all add: assms(2) same)
qed

text \<open>
  C6: The verdict does not depend on the order in which Go iterates over the score map: for two orders of
  the same map every field of the result is the same, from the candidates and the confidence to
  the explanation and the text for the user.
\<close>

theorem verdict_order_free:
  assumes "distinct (map fst (sr_Scores r))" "mset (sr_Scores r) = mset m'"
  shows "verdict bag fp fired (r\<lparr>sr_Scores := m'\<rparr>) = (verdict bag fp fired r)\<lparr>sr_Scores := m'\<rparr> \<and>
    buildCandidates m' bag matched = buildCandidates (sr_Scores r) bag matched"
proof -
  have same: "same_map (sr_Scores r) m'"
    using assms by (simp add: same_map_def)
  have g: "sr_Scores (graded_result bag k c r) = sr_Scores r" for k c
    by (simp add: graded_result_def Let_def)
  show ?thesis
    by (simp add: verdict_def Let_def split_beta same_map_functions [OF same] same_map_verdict_parts [OF same]
        same_map_stages [OF same refl] same_map_stages [OF same g] graded_result_def [of _ _ _ "r\<lparr>sr_Scores := m'\<rparr>"])
qed

definition sample_result :: "score_map \<Rightarrow> ScanResult" where
  "sample_result m =
     (base_result \<lparr>en_Rules = [], en_Fingerprints = []\<rparr> ''20250101_000000'' 0 \<lparr>si_Mode = ''deep'', si_Online = True, si_RulesDir = []\<rparr> [] empty_bag
       None NewBoard)\<lparr>sr_Scores := m\<rparr>"

lemma verdict_order_free_witness:
  "verdict empty_bag None [] (sample_result [(''VDSL'', 1 / 4), (''FTTH'', 1 / 2)]) =
     (verdict empty_bag None [] (sample_result [(''FTTH'', 1 / 2), (''VDSL'', 1 / 4)]))
       \<lparr>sr_Scores := [(''VDSL'', 1 / 4), (''FTTH'', 1 / 2)]\<rparr>"
  using verdict_order_free [of "sample_result [(''FTTH'', 1 / 2), (''VDSL'', 1 / 4)]"
      "[(''VDSL'', 1 / 4), (''FTTH'', 1 / 2)]" empty_bag None "[]"]
  by (simp add: sample_result_def)

end
