(* ===== verification/Audit_Laws.thy ===== *)
theory Audit_Laws
  imports Detection_Engine Float_Laws
begin

text \<open>
  The audit of the scores (\<open>buildContributions\<close>) is rebuilt from the inputs of the score board and not
  recorded while scoring. It is shown to account for every point of the board.
\<close>

section \<open>Adding up\<close>

text \<open>The points a list of deltas adds for a type, in the order of the list.\<close>

definition points :: "string \<Rightarrow> score_map \<Rightarrow> float64 \<Rightarrow> float64" where
  "points t ds x = fold (\<lambda>d x. if fst d = t then fadd x (snd d) else x) ds x"

text \<open>The points the audit accounts for.\<close>

definition audited :: "string \<Rightarrow> ScoreContribution list \<Rightarrow> float64 \<Rightarrow> float64" where
  "audited t cs = points t (map (\<lambda>c. (sk_Target c, sk_Amount c)) cs)"

lemma points_simps [simp]:
  "points t [] x = x"
  "points t (d # ds) x = points t ds (if fst d = t then fadd x (snd d) else x)"
  "points t (ds @ es) x = points t es (points t ds x)"
  by (simp_all add: points_def)

lemma audited_simps [simp]:
  "audited t [] x = x" "audited t (cs @ es) x = audited t es (audited t cs x)"
  by (simp_all add: audited_def)

lemma points_float [simp]: "round64 x = x \<Longrightarrow> round64 (points t ds x) = points t ds x"
  by (induction ds arbitrary: x) simp_all

lemma score_at_points: "score_at (fold add_score ds m) t = points t ds (score_at m t)"
  by (induction ds arbitrary: m) (auto simp: score_at_add_score [of "fst d" "snd d" for d, simplified])

lemma audited_contribution:
  "round64 x = x \<Longrightarrow> audited t (contribution c s p r d) x = points t [d] x"
  by (simp add: contribution_def audited_def scoreContribution_def Let_def)

lemma audited_contributions:
  "round64 x = x \<Longrightarrow> audited t (concat (map (\<lambda>h. contribution c s p r (f h)) hs)) x = points t (map f hs) x"
  by (induction hs arbitrary: x) (simp_all add: audited_contribution)

lemma audited_latency: "audited t (latencyContributions bag) x = points t (latency_band bag) x"
  by (simp add: audited_def latencyContributions_def scoreContribution_def Let_def o_def split_beta)

section \<open>The board\<close>

text \<open>All deltas the board receives, in order.\<close>

definition fired_rules :: "Engine \<Rightarrow> evidenceBag \<Rightarrow> Fingerprint option \<Rightarrow> Rule list" where
  "fired_rules e bag fp = filter (\<lambda>r. Matches r (rule_context bag fp)) (en_Rules e)"

definition hint_deltas :: "evidenceBag \<Rightarrow> Fingerprint option \<Rightarrow> score_map" where
  "hint_deltas bag fp =
     (case fp of None \<Rightarrow> []
      | Some f \<Rightarrow> map (\<lambda>h. (h, WeightFingerprintHint)) (fp_AccessHints f) @
                 map (\<lambda>h. (h, WeightFingerprintSupp)) (fp_Supports f)) @
     map (\<lambda>h. (h, WeightProbeHint)) (eb_Hints bag) @
     map (\<lambda>h. (h, WeightStrongAccessHint)) (eb_StrongAccessHints bag) @ latency_band bag"

lemma hint_board_eq: "hint_board bag fp = \<lparr>bd_scores = fold add_score (hint_deltas bag fp) [], bd_fired = []\<rparr>"
  by (simp add: hint_board_def hint_deltas_def NewBoard_def AddHints_def applyLatencySignal_def board_Add_def
      Let_def fold_map o_def split: option.split)

lemma fold_fire_rule:
  "fold (fire_rule ctx) rs b =
     \<lparr>bd_scores = fold add_score (concat (map ru_AddScore (filter (\<lambda>r. Matches r ctx) rs))) (bd_scores b),
      bd_fired = bd_fired b @ map ru_ID (filter (\<lambda>r. Matches r ctx) rs)\<rparr>"
  by (induction rs arbitrary: b) (simp_all add: fire_rule_def board_Add_def MarkFired_def)

lemma score_board_eq:
  "score_board e bag fp =
     \<lparr>bd_scores = fold add_score (hint_deltas bag fp @ concat (map ru_AddScore (fired_rules e bag fp))) [],
      bd_fired = map ru_ID (fired_rules e bag fp)\<rparr>"
  by (simp add: score_board_def fold_fire_rule hint_board_eq fired_rules_def)

lemma rule_by_id_distinct:
  "distinct (map ru_ID rules) \<Longrightarrow> r \<in> set rules \<Longrightarrow> rule_by_id rules (ru_ID r) = Some r"
  unfolding rule_by_id_def
  by (rule map_of_is_SomeI) (auto simp: rev_map [symmetric] o_def)

lemma audited_rules:
  assumes "distinct (map ru_ID rules)"
  shows "set rs \<subseteq> set rules \<Longrightarrow> round64 x = x \<Longrightarrow>
    audited t (concat (map (rule_contributions rules) (map ru_ID rs))) x =
      points t (concat (map ru_AddScore rs)) x"
proof (induction rs arbitrary: x)
  case (Cons r rs)
  have "rule_contributions rules (ru_ID r) =
      concat (map (\<lambda>d. contribution (fst (ruleEvidenceClass (ru_ID r))) (snd (ruleEvidenceClass (ru_ID r)))
        (''rule:'' @ ru_ID r) (''Matched rule '' @ ru_ID r @ ''.'') d) (ru_AddScore r))"
    using Cons.prems rule_by_id_distinct [OF assms, of r]
    by (simp add: rule_contributions_def Let_def split_beta)
  then show ?case
    using Cons.IH Cons.prems by (simp add: audited_contributions [where f = "\<lambda>d. d", simplified])
qed simp

text \<open>
  C26: The audit accounts for every point: when the rules have distinct identifiers, adding up the amounts
  the audit lists for a type, in the rounding arithmetic of the board, gives exactly the raw score
  of that type on the board the verdict was computed from.
\<close>

theorem audit_adds_up:
  assumes "distinct (map ru_ID (en_Rules e))"
  shows "audited t (buildContributions bag fp (en_Rules e) (bd_fired (score_board e bag fp))) 0 =
    score_at (bd_scores (score_board e bag fp)) t"
proof -
  have "audited t (buildContributions bag fp (en_Rules e) fired) 0 =
      audited t (concat (map (rule_contributions (en_Rules e)) fired)) (points t (hint_deltas bag fp) 0)" for fired
    by (simp add: buildContributions_def hint_deltas_def audited_contributions audited_latency split: option.split)
  moreover have "set (fired_rules e bag fp) \<subseteq> set (en_Rules e)"
    by (simp add: fired_rules_def)
  moreover have "score_at [] t = 0" by (simp add: score_at_def)
  ultimately show ?thesis
    using audited_rules [OF assms, of "fired_rules e bag fp" "points t (hint_deltas bag fp) 0" t]
    by (simp add: score_board_eq score_at_points)
qed

definition sample_engine :: Engine where
  "sample_engine =
     (let c = \<lparr>cn_RouterModelContains = [], cn_TextContains = [], cn_InterfaceNameMatches = [],
               cn_HintContains = [''dsl'']\<rparr>
      in \<lparr>en_Rules = [\<lparr>ru_ID = ''isp_dsl'', ru_If = c, ru_AddScore = [(''DSL'', 10), (''Fiber'', - 5)]\<rparr>,
                     \<lparr>ru_ID = ''ptr_dsl'', ru_If = c, ru_AddScore = [(''DSL'', 4)]\<rparr>], en_Fingerprints = []\<rparr>)"

lemma audit_adds_up_witness:
  "audited ''DSL'' (buildContributions (empty_bag\<lparr>eb_Hints := [''DSL'']\<rparr>) None (en_Rules sample_engine)
       (bd_fired (score_board sample_engine (empty_bag\<lparr>eb_Hints := [''DSL'']\<rparr>) None))) 0 = 39 \<and>
   score_at (bd_scores (score_board sample_engine (empty_bag\<lparr>eb_Hints := [''DSL'']\<rparr>) None)) ''DSL'' = 39"
proof -
  have "score_at (bd_scores (score_board sample_engine (empty_bag\<lparr>eb_Hints := [''DSL'']\<rparr>) None)) ''DSL'' = 39"
    by code_simp
  then show ?thesis
    using audit_adds_up [of sample_engine "''DSL''" "empty_bag\<lparr>eb_Hints := [''DSL'']\<rparr>" None]
    by (simp add: sample_engine_def Let_def)
qed

end
