(* ===== verification/Engine_Laws.thy ===== *)
theory Engine_Laws
  imports Detection_Engine
begin

text \<open>
  Laws of the aggregation of probe results into the evidence bag: its invariant, the irrelevance of probes that did
  not succeed, and inputs on which evidence is misread.
\<close>

section \<open>Well-formed bags\<close>

text \<open>A list of names kept by \<open>appendUnique\<close>.\<close>

definition name_list :: "string list \<Rightarrow> bool" where
  "name_list xs \<longleftrightarrow> distinct xs \<and> [] \<notin> set xs"

lemma name_list_Nil [simp]: "name_list []"
  by (simp add: name_list_def)

lemma name_list_fold [simp]: "name_list s \<Longrightarrow> name_list (fold (\<lambda>a s. appendUnique s (f a)) hs s)"
proof (induction hs arbitrary: s)
  case (Cons h hs)
  then have "name_list (appendUnique s (f h))"
    by (auto simp: name_list_def appendUnique_def)
  then show ?case by (simp add: Cons.IH)
qed simp

lemmas name_list_hints [simp] = name_list_fold [of _ "\<lambda>h. h"]

lemma set_fold_appendUnique: "set (fold (\<lambda>h s. appendUnique s h) hs s) = set s \<union> (set hs - {[]})"
  by (induction hs arbitrary: s) (auto simp: appendUnique_def)

definition bag_ok :: "evidenceBag \<Rightarrow> bool" where
  "bag_ok bag \<longleftrightarrow>
     name_list (eb_Hints bag) \<and> name_list (eb_StrongAccessHints bag) \<and> name_list (eb_Interfaces bag) \<and>
     0 \<le> eb_PhysicalEvidence bag \<and> 0 \<le> eb_DeviceEvidence bag \<and>
     0 \<le> eb_NetworkEvidence bag \<and> 0 \<le> eb_PerformanceEvidence bag"

text \<open>The invariant of the loop, with the number of sources counted so far.\<close>

definition bag_inv :: "int \<Rightarrow> evidenceBag \<Rightarrow> bool" where
  "bag_inv k bag \<longleftrightarrow> bag_ok bag \<and> eb_Sources bag = k \<and> eb_LineProfile bag = None"

lemmas bag_defs = bag_inv_def bag_ok_def

abbreviation agg_inv :: "int \<Rightarrow> agg \<Rightarrow> bool" where
  "agg_inv k s \<equiv> bag_inv k (fst s)"

lemma maxFloat_ge [simp]: "0 \<le> a \<Longrightarrow> 0 \<le> maxFloat a b"
  by (simp add: maxFloat_def)

lemma bag_inv_raise [simp]:
  "bag_inv k bag \<Longrightarrow> bag_inv k (raise_physical v bag)"
  "bag_inv k bag \<Longrightarrow> bag_inv k (raise_device v bag)"
  "bag_inv k bag \<Longrightarrow> bag_inv k (raise_network v bag)"
  "bag_inv k bag \<Longrightarrow> bag_inv k (add_strong_hints hs bag)"
  by (simp_all add: bag_defs raise_physical_def raise_device_def raise_network_def add_strong_hints_def)

lemma bag_inv_device [simp]: "bag_inv k bag \<Longrightarrow> bag_inv k (agg_device d bag)"
  by (simp add: agg_device_def Let_def)

lemma bag_inv_devices [simp]: "bag_inv k bag \<Longrightarrow> bag_inv k (fold agg_device ds bag)"
  by (induction ds arbitrary: bag) simp_all

lemma bag_inv_update [simp]:
  "bag_inv k (bag\<lparr>eb_RouterModel := x0\<rparr>) = bag_inv k bag"
  "bag_inv k (bag\<lparr>eb_UPnPFound := x1\<rparr>) = bag_inv k bag"
  "bag_inv k (bag\<lparr>eb_TR064Found := x2\<rparr>) = bag_inv k bag"
  "bag_inv k (bag\<lparr>eb_WANSignals := x3\<rparr>) = bag_inv k bag"
  "bag_inv k (bag\<lparr>eb_WANSignalText := x4\<rparr>) = bag_inv k bag"
  "bag_inv k (bag\<lparr>eb_CPEKV := x5\<rparr>) = bag_inv k bag"
  "bag_inv k (bag\<lparr>eb_CPESource := x6\<rparr>) = bag_inv k bag"
  "bag_inv k (bag\<lparr>eb_CPEText := x7\<rparr>) = bag_inv k bag"
  "bag_inv k (bag\<lparr>eb_GatewayDevices := x8\<rparr>) = bag_inv k bag"
  "bag_inv k (bag\<lparr>eb_GatewayDeviceText := x9\<rparr>) = bag_inv k bag"
  "bag_inv k (bag\<lparr>eb_GatewayChain := x10\<rparr>) = bag_inv k bag"
  "bag_inv k (bag\<lparr>eb_GatewayChainState := x11\<rparr>) = bag_inv k bag"
  "bag_inv k (bag\<lparr>eb_DoubleNATPossible := x12\<rparr>) = bag_inv k bag"
  "bag_inv k (bag\<lparr>eb_LikelyModemIP := x13\<rparr>) = bag_inv k bag"
  "bag_inv k (bag\<lparr>eb_AccessArchitecture := x14\<rparr>) = bag_inv k bag"
  "bag_inv k (bag\<lparr>eb_LocalAccess := x15\<rparr>) = bag_inv k bag"
  "bag_inv k (bag\<lparr>eb_IPv6Context := x16\<rparr>) = bag_inv k bag"
  "bag_inv k (bag\<lparr>eb_NATTopology := x17\<rparr>) = bag_inv k bag"
  "bag_inv k (bag\<lparr>eb_Text := x18\<rparr>) = bag_inv k bag"
  by (simp_all add: bag_defs)

lemma agg_inv_probes:
  assumes "agg_inv k s"
  shows "agg_inv k (agg_upnp r s)" "agg_inv k (agg_adapter r s)" "agg_inv k (agg_public_ip r s)"
    "agg_inv k (agg_asn r s)" "agg_inv k (agg_latency r s)" "agg_inv k (agg_gateway r s)"
    "agg_inv k (agg_traceroute r s)" "agg_inv k (agg_performance r s)"
  using assms
  by (simp_all add: agg_upnp_def agg_adapter_def agg_public_ip_def agg_asn_def agg_latency_def agg_gateway_def
      agg_traceroute_def agg_performance_def bag_defs Let_def case_prod_beta split: option.split)

lemma agg_inv_devices:
  assumes "agg_inv k s"
  shows "agg_inv k (agg_gateway_chain r s)" "agg_inv k (agg_http r s)" "agg_inv k (agg_ipv6 r s)"
    "agg_inv k (agg_nat r s)" "agg_inv k (agg_os r s)" "agg_inv k (agg_lldp r s)"
    "agg_inv k (agg_reachability r s)"
  using assms
  by (simp_all add: agg_gateway_chain_def agg_http_def agg_ipv6_def agg_nat_def agg_os_def agg_lldp_def
      agg_reachability_def Let_def case_prod_beta split: option.split)

lemma agg_inv_cpe:
  assumes "agg_inv k s"
  shows "agg_inv k (agg_cpe r s)"
proof -
  have "agg_inv k (cpe_identity r s)"
    using assms by (simp add: cpe_identity_def Let_def case_prod_beta)
  then have "agg_inv k (cpe_confidence r (cpe_identity r s))"
    by (simp add: cpe_confidence_def Let_def case_prod_beta)
  then have "agg_inv k (cpe_telemetry r (cpe_confidence r (cpe_identity r s)))"
    by (simp add: cpe_telemetry_def Let_def case_prod_beta)
  then show ?thesis
    by (simp add: agg_cpe_def cpe_hints_def Let_def case_prod_beta)
qed

lemma agg_inv_switch: "agg_inv k s \<Longrightarrow> agg_inv k (agg_switch r s)"
  by (simp add: agg_switch_def Let_def agg_inv_probes agg_inv_devices agg_inv_cpe)

lemma agg_result_success:
  assumes "pr_Status r = StatusSuccess"
    and "agg_switch r ((fst s)\<lparr>eb_Hints := fold (\<lambda>h s. appendUnique s h) (pr_Hints r) (eb_Hints (fst s)),
        eb_NormalizedEvidence := eb_NormalizedEvidence (fst s) @ normalizeProbeResult r\<rparr>, snd s, pr_Hints r \<noteq> []) =
      (bag, parts, c)"
  shows "agg_result r s = (if c then bag\<lparr>eb_Sources := eb_Sources bag + 1\<rparr> else bag, parts)"
  using assms by (cases s) (simp only: agg_result_def Let_def split_conv fst_conv snd_conv simp_thms if_False)

lemma bag_inv_result:
  assumes "bag_inv k (fst s)"
  shows "bag_inv k (fst (agg_result r s)) \<or>
    (bag_inv (k + 1) (fst (agg_result r s)) \<and> pr_Status r = StatusSuccess)"
proof (cases "pr_Status r = StatusSuccess")
  case True
  define start where "start = (fst s)\<lparr>eb_Hints := fold (\<lambda>h s. appendUnique s h) (pr_Hints r) (eb_Hints (fst s)),
     eb_NormalizedEvidence := eb_NormalizedEvidence (fst s) @ normalizeProbeResult r\<rparr>"
  obtain bag parts c where t: "agg_switch r (start, snd s, pr_Hints r \<noteq> []) = (bag, parts, c)"
    by (metis prod_cases3)
  have "bag_inv k start"
    using assms by (simp add: bag_defs start_def)
  then have inv: "bag_inv k bag"
    using agg_inv_switch [of k "(start, snd s, pr_Hints r \<noteq> [])" r] t by simp
  then have "bag_inv (k + 1) (bag\<lparr>eb_Sources := eb_Sources bag + 1\<rparr>)"
    by (simp add: bag_defs)
  then show ?thesis
    using inv True agg_result_success [OF True, of s, folded start_def, OF t] by simp
next
  case False
  then show ?thesis
    using assms by (cases s) (simp add: agg_result_def)
qed

abbreviation succeeded :: "ProbeResult list \<Rightarrow> ProbeResult list" where
  "succeeded results \<equiv> filter (\<lambda>r. pr_Status r = StatusSuccess) results"

lemma bag_inv_fold:
  "bag_inv k (fst s) \<Longrightarrow>
   \<exists>m. bag_inv m (fst (fold agg_result rs s)) \<and> k \<le> m \<and> m \<le> k + int (length (succeeded rs))"
proof (induction rs arbitrary: s k)
  case (Cons r rs)
  consider "bag_inv k (fst (agg_result r s))"
    | "bag_inv (k + 1) (fst (agg_result r s))" "pr_Status r = StatusSuccess"
    using bag_inv_result [OF Cons.prems] by blast
  then show ?case
  proof cases
    case 1
    then obtain m where "bag_inv m (fst (fold agg_result rs (agg_result r s)))" "k \<le> m"
        "m \<le> k + int (length (succeeded rs))"
      using Cons.IH by blast
    then show ?thesis by (intro exI [of _ m]) simp
  next
    case 2
    then obtain m where "bag_inv m (fst (fold agg_result rs (agg_result r s)))" "k + 1 \<le> m"
        "m \<le> k + 1 + int (length (succeeded rs))"
      using Cons.IH by blast
    then show ?thesis using 2(2) by (intro exI [of _ m]) simp
  qed
next
  case Nil
  then show ?case by (intro exI [of _ k]) simp
qed

lemma bag_inv_empty: "bag_inv 0 empty_bag"
  by (simp add: bag_defs empty_bag_def)

lemma bag_inv_steps:
  assumes "bag_inv k bag"
  shows "bag_inv k (agg_chain_state rs bag)" "bag_inv k (agg_architecture bag)"
    "bag_inv k (agg_double_nat bag)"
  using assms
  by (simp_all add: agg_chain_state_def agg_architecture_def agg_double_nat_def Let_def split: option.split)

text \<open>What the aggregation guarantees beyond the invariant of the loop.\<close>

definition nat_flags_agree :: "evidenceBag \<Rightarrow> bool" where
  "nat_flags_agree bag \<longleftrightarrow>
     (case eb_NATTopology bag of
        None \<Rightarrow> \<not> eb_DoubleNATPossible bag
      | Some n \<Rightarrow> nt_DoubleNAT n = nt_InternalDoubleNATPossible n \<and>
                 (eb_DoubleNATPossible bag \<or> nt_DoubleNAT n) = nt_DoubleNAT n)"

definition line_profile_counted :: "evidenceBag \<Rightarrow> bool" where
  "line_profile_counted bag \<longleftrightarrow>
     (case eb_LineProfile bag of
        None \<Rightarrow> True
      | Some lp \<Rightarrow> lp_Confidence lp \<le> eb_PhysicalEvidence bag \<and>
                  set (AccessHints (Some lp)) - {[]} \<subseteq> set (eb_StrongAccessHints bag))"

lemma agg_line_profile_laws:
  assumes "bag_inv k bag"
  shows "bag_ok (agg_line_profile bag)" "eb_Sources (agg_line_profile bag) = k"
    "nat_flags_agree (agg_line_profile bag) = nat_flags_agree bag"
    "line_profile_counted (agg_line_profile bag)"
proof -
  show "bag_ok (agg_line_profile bag)" "eb_Sources (agg_line_profile bag) = k"
    using assms
    by (simp_all add: bag_defs agg_line_profile_def raise_physical_def add_strong_hints_def Let_def
        split: option.split)
  show "nat_flags_agree (agg_line_profile bag) = nat_flags_agree bag"
    by (simp add: nat_flags_agree_def agg_line_profile_def raise_physical_def add_strong_hints_def
        Let_def split: option.split)
  show "line_profile_counted (agg_line_profile bag)"
    using assms
    by (simp add: bag_defs line_profile_counted_def agg_line_profile_def raise_physical_def add_strong_hints_def
        maxFloat_def set_fold_appendUnique Let_def split: option.split)
qed

lemma agg_double_nat_agree: "nat_flags_agree (agg_double_nat bag)"
  by (auto simp: nat_flags_agree_def agg_double_nat_def Let_def split: option.split)

lemma nat_flags_agree_text [simp]: "nat_flags_agree (bag\<lparr>eb_Text := t\<rparr>) = nat_flags_agree bag"
  by (simp add: nat_flags_agree_def split: option.split)

text \<open>
  C27: From whatever probe results it is given, the aggregation builds a well-formed bag: the hints and interfaces
  are without duplicates and empty names, no evidence level is negative, at most every successful probe counts as
  a source, the flags of the NAT topology agree with each other and with the double NAT flag, and a line profile read
  from the modem is counted as physical evidence with all its access types.
\<close>

theorem aggregate_wellformed:
  "bag_ok (mergeProbeResults results) \<and>
   0 \<le> eb_Sources (mergeProbeResults results) \<and>
   eb_Sources (mergeProbeResults results) \<le> int (length (succeeded results)) \<and>
   nat_flags_agree (mergeProbeResults results) \<and> line_profile_counted (mergeProbeResults results)"
proof -
  let ?s = "fold agg_result results (empty_bag, [])"
  obtain k where k: "bag_inv k (fst ?s)" "0 \<le> k" "k \<le> int (length (succeeded results))"
    using bag_inv_fold [of 0 "(empty_bag, [])" results] bag_inv_empty by auto
  let ?local = "if aa_LocalMedium (eb_AccessArchitecture (fst ?s)) = []
     then (fst ?s)\<lparr>eb_AccessArchitecture := (eb_AccessArchitecture (fst ?s))\<lparr>aa_LocalMedium := eb_LocalAccess (fst ?s)\<rparr>\<rparr>
     else fst ?s"
  define bag where "bag = agg_double_nat (agg_architecture (agg_chain_state results ?local))"
  have inv: "bag_inv k bag"
    unfolding bag_def by (intro bag_inv_steps) (simp add: k(1))
  have "mergeProbeResults results =
      agg_line_profile (bag\<lparr>eb_Text := trim_space (str_join (eb_RouterModel bag # snd ?s) '' '')\<rparr>)"
    by (simp add: mergeProbeResults_def aggregate_def agg_finish_def Let_def bag_def)
  moreover have "nat_flags_agree bag" by (simp add: bag_def agg_double_nat_agree)
  ultimately show ?thesis
    using agg_line_profile_laws [of k "bag\<lparr>eb_Text := trim_space (str_join (eb_RouterModel bag # snd ?s) '' '')\<rparr>"]
      inv k by simp
qed

section \<open>Probes that did not succeed\<close>

lemma fold_skip: "(\<And>x s. \<not> P x \<Longrightarrow> f x s = s) \<Longrightarrow> fold f (filter P xs) s = fold f xs s"
  by (induction xs arbitrary: s) simp_all

lemma concat_skip: "(\<And>x. \<not> P x \<Longrightarrow> f x = []) \<Longrightarrow> concat (map f (filter P xs)) = concat (map f xs)"
  by (induction xs) simp_all

lemma chain_state_succeeded:
  "ResolveGatewayChainState (succeeded results) g a = ResolveGatewayChainState results g a"
proof -
  have "fold (add_chain_result g a) (succeeded results) s = fold (add_chain_result g a) results s" for s
    by (rule fold_skip) (simp add: add_chain_result_def Let_def)
  then show ?thesis
    by (simp add: ResolveGatewayChainState_def chain_sources_def)
qed

lemma aggregate_succeeded: "mergeProbeResults (succeeded results) = mergeProbeResults results"
proof -
  have "fold agg_result (succeeded results) s = fold agg_result results s" for s
    by (rule fold_skip) (simp add: agg_result_def split: prod.split)
  moreover have "agg_finish (succeeded results) s = agg_finish results s" for s
    unfolding agg_finish_def agg_chain_state_def chain_state_succeeded by (rule refl)
  ultimately show ?thesis
    by (simp add: mergeProbeResults_def aggregate_def)
qed

lemma conflicts_succeeded: "detectConflicts (succeeded results) bag m = detectConflicts results bag m"
proof -
  have "concat (map (reach_conflicts d) (succeeded results)) = concat (map (reach_conflicts d) results)" for d
    by (rule concat_skip) (simp add: reach_conflicts_def)
  moreover have "concat (map (chain_conflicts bag) (succeeded results)) = concat (map (chain_conflicts bag) results)"
    by (rule concat_skip) (simp add: chain_conflicts_def)
  moreover have "concat (map (double_nat_conflicts b) (succeeded results)) =
      concat (map (double_nat_conflicts b) results)" for b
    by (rule concat_skip) (simp add: double_nat_conflicts_def)
  moreover have "concat (map wan_values (succeeded results)) = concat (map wan_values results)"
    by (rule concat_skip) (simp add: wan_values_def)
  ultimately show ?thesis
    by (simp only: detectConflicts_def detectDoubleNATConflicts_def detectWANTypeConflicts_def Let_def)
qed

lemma populate_evidence:
  "r' = r\<lparr>sr_Evidence := x\<rparr> \<Longrightarrow>
   populateOutputContract bag r' = (populateOutputContract bag r)\<lparr>sr_Evidence := x\<rparr>"
  by (simp add: populateOutputContract_def classification_of_def buildUIOutput_def Let_def)

lemma verdict_evidence:
  "verdict bag fp fired (r\<lparr>sr_Evidence := x\<rparr>) = (verdict bag fp fired r)\<lparr>sr_Evidence := x\<rparr>"
proof -
  have no: "no_score_result bag m (r\<lparr>sr_Evidence := x\<rparr>) = (no_score_result bag m r)\<lparr>sr_Evidence := x\<rparr>" for m r
    unfolding no_score_result_def Let_def by (rule populate_evidence) simp
  have gr: "graded_result bag m c (r\<lparr>sr_Evidence := x\<rparr>) = (graded_result bag m c r)\<lparr>sr_Evidence := x\<rparr>" for m c
    by (simp add: graded_result_def Let_def)
  have wh: "withheld_result bag m ra re (r\<lparr>sr_Evidence := x\<rparr>) = (withheld_result bag m ra re r)\<lparr>sr_Evidence := x\<rparr>"
    for m ra re r
    unfolding withheld_result_def by (rule populate_evidence) simp
  have co: "committed_result bag fp fired ra (r\<lparr>sr_Evidence := x\<rparr>) =
      (committed_result bag fp fired ra r)\<lparr>sr_Evidence := x\<rparr>" for ra r
    unfolding committed_result_def Let_def by (rule populate_evidence) simp
  show ?thesis
    by (simp add: verdict_def Let_def no gr wh co case_prod_beta)
qed

text \<open>
  C2: Only successful probes matter: dropping every result that failed, timed out or was skipped from the input
  changes nothing in the analysis but the copy of the results the report carries.
\<close>

theorem failed_probes_ignored:
  "Analyze e stamp now inp results = (Analyze e stamp now inp (succeeded results))\<lparr>sr_Evidence := results\<rparr>"
proof -
  have "analysis_bag (succeeded results) = analysis_bag results"
    by (simp add: analysis_bag_def aggregate_succeeded)
  moreover have "base_result e stamp now inp results bag fp board =
      (base_result e stamp now inp (succeeded results) bag fp board)\<lparr>sr_Evidence := results\<rparr>" for bag fp board
    by (simp add: base_result_def Let_def conflicts_succeeded)
  ultimately show ?thesis
    by (simp add: Analyze_def Let_def verdict_evidence)
qed

end
