(* ===== verification/Line_Laws.thy ===== *)
theory Line_Laws
  imports Line_Stats
begin

text \<open>
  Laws of the parser of line statistics: what a parsed profile looks like, and that the numbers modems
  print are read back.
\<close>

section \<open>The profile\<close>

text \<open>The category of a medium.\<close>

definition medium_category :: "string \<Rightarrow> string" where
  "medium_category medium =
     (if medium = ''dsl'' then CatDSL else if medium = ''docsis'' then CatCable else CatFiber)"

definition line_profile_ok :: "LineProfile \<Rightarrow> bool" where
  "line_profile_ok l \<longleftrightarrow>
     (lp_DSL l \<noteq> None) = (lp_Medium l = ''dsl'') \<and> (lp_DOCSIS l \<noteq> None) = (lp_Medium l = ''docsis'') \<and>
     (lp_PON l \<noteq> None) = (lp_Medium l = ''pon'') \<and> lp_Medium l \<in> {''dsl'', ''docsis'', ''pon''} \<and>
     flit 0.5 \<le> lp_Confidence l \<and> lp_Confidence l \<le> flit 0.92 \<and>
     AccessHints (Some l) \<noteq> [] \<and>
     list_all (\<lambda>h. CategoryFor h = medium_category (lp_Medium l)) (AccessHints (Some l))"

lemma dsl_hints_category: "dsl_hints mode \<noteq> [] \<and> list_all (\<lambda>h. CategoryFor h = CatDSL) (dsl_hints mode)"
proof -
  have "list_all (\<lambda>h. CategoryFor h = CatDSL)
      [TypeVDSL2, TypeVDSL, TypeADSL2, TypeADSL, TypeGfast, TypeSHDSL, TypeSDSL, TypeDSL]"
    by code_simp
  then show ?thesis by (simp add: dsl_hints_def)
qed

lemma pon_hints_category: "pon_hints t \<noteq> [] \<and> list_all (\<lambda>h. CategoryFor h = CatFiber) (pon_hints t)"
proof -
  have "list_all (\<lambda>h. CategoryFor h = CatFiber)
      [TypeXGSPON, TypeXGPON, TypeEPON, TypeTenGEPON, TypeGPON, TypeFTTH, TypeFiber]"
    by code_simp
  then show ?thesis by (simp add: pon_hints_def)
qed

lemma docsis_hints_category: "list_all (\<lambda>h. CategoryFor h = CatCable) [TypeDOCSIS, TypeCable]"
  by code_simp

lemma confidence_ranges:
  "dslTechnology d \<noteq> [] \<or> hasDSLStats d \<Longrightarrow> flit 0.5 \<le> dslConfidence d"
  "dslConfidence d \<le> flit 0.92"
  "flit 0.5 \<le> docsisConfidence c" "docsisConfidence c \<le> flit 0.92"
  "flit 0.5 \<le> ponConfidence p" "ponConfidence p \<le> flit 0.92"
  by (auto simp: dslConfidence_def dslTechnology_def docsisConfidence_def ponConfidence_def intro!: flit_mono
      split: if_splits)

text \<open>
  Whatever text and key/value pairs a modem delivers, a profile the parser returns holds exactly the
  record of its medium, its confidence lies between 0.5 and 0.92, and it implies at least one access type, all
  of them of the category of the medium.
\<close>

theorem line_profile_wellformed:
  "case Parse ps txt source of None \<Rightarrow> True | Some l \<Rightarrow> line_profile_ok l \<and> lp_Source l = source"
proof -
  have "line_profile_ok l \<and> lp_Source l = source" if "parseDSL nkv hay source = Some l" for nkv hay l
    using that dsl_hints_category confidence_ranges(1,2)
    by (auto simp: parseDSL_def Let_def line_profile_ok_def AccessHints_def medium_category_def split: if_splits)
  moreover have "line_profile_ok (parseDOCSIS nkv hay source) \<and> lp_Source (parseDOCSIS nkv hay source) = source" for nkv hay
    using docsis_hints_category confidence_ranges(3,4)
    by (simp add: parseDOCSIS_def Let_def line_profile_ok_def AccessHints_def medium_category_def)
  moreover have "line_profile_ok l \<and> lp_Source l = source" if "parsePON nkv hay source = Some l" for nkv hay l
    using that pon_hints_category confidence_ranges(5,6)
    by (auto simp: parsePON_def Let_def line_profile_ok_def AccessHints_def medium_category_def split: if_splits)
  ultimately show ?thesis
    by (simp add: Parse_def Let_def split: option.split)
qed

section \<open>Numbers\<close>

text \<open>The characters of a printed integer pass through the cleaning of a value unchanged.\<close>

definition num_char :: "char \<Rightarrow> bool" where
  "num_char c \<longleftrightarrow> is_digit c \<or> c = CHR ''-''"

lemma num_char_plain:
  "num_char c \<Longrightarrow> c \<noteq> CHR 0xE2 \<and> \<not> is_space c \<and> lower_char c \<noteq> CHR ''.''"
  by (auto simp: num_char_def is_digit_def is_space_def lower_char_def byte_of_def Let_def)

lemma num_char_itoa: "list_all num_char (itoa n)"
  using nat_digits_digits [of "nat n"] nat_digits_digits [of "nat (- n)"]
  by (auto simp: itoa_def num_char_def list_all_iff)

lemma ascii_minus_plain: "list_all num_char s \<Longrightarrow> ascii_minus s = s"
  using num_char_plain by (induction s rule: ascii_minus.induct) auto

lemma trim_left_plain: "list_all (\<lambda>c. \<not> P c) s \<Longrightarrow> trim_left P s = s"
  by (cases s) simp_all

lemma trim_space_plain: "list_all num_char s \<Longrightarrow> trim_space s = s"
  using num_char_plain trim_left_plain [of is_space]
  by (simp add: trim_space_def trim_func_def list_all_iff)

lemma no_point: "list_all num_char s \<Longrightarrow> \<not> str_contains (to_lower s) ''.''"
  using num_char_plain
  by (force simp: str_contains_iff to_lower_def list_all_iff map_eq_append_conv)

lemma itoa_nonempty [simp]: "itoa n \<noteq> []"
  by (simp add: itoa_def)

lemma digit_not_minus: "is_digit c \<Longrightarrow> c \<noteq> CHR ''-'' \<and> c \<noteq> CHR ''+''"
  by (auto simp: is_digit_def byte_of_def)

lemma match_number_itoa: "match_number (itoa n) = Some (itoa n)"
  using digit_not_minus [OF hd_nat_digits, of "nat n"]
  by (simp add: match_number_def itoa_def Let_def)

lemma firstNumberToken_itoa: "firstNumberToken (itoa n) = itoa n"
proof -
  have "find_re match_number (itoa n) = Some (itoa n)"
    using match_number_itoa [of n] by (cases "itoa n") simp_all
  then show ?thesis by (simp add: firstNumberToken_def)
qed

lemma isIntToken_itoa: "isIntToken (itoa n)"
  using digit_not_minus [OF hd_nat_digits, of "nat n"] nat_digits_digits
  by (simp add: isIntToken_def itoa_def Let_def)

lemma atoi_itoa: "- (2 ^ 63) \<le> n \<Longrightarrow> n < 2 ^ 63 \<Longrightarrow> atoi (itoa n) = Some n"
  using digit_not_minus [OF hd_nat_digits, of "nat n"] nat_digits_digits
  by (simp add: atoi_def itoa_def Let_def digits_val_nat_digits) linarith

lemma token_value_itoa: "token_value (itoa n) = of_int n"
  using digit_not_minus [OF hd_nat_digits, of "nat n"]
  by (simp add: token_value_def itoa_def Let_def digits_val_nat_digits)

lemma parse_itoa:
  assumes "\<bar>n\<bar> < 2 ^ 53"
  shows "parse_float_token (itoa n) = Some (of_int n)"
proof -
  have "\<bar>of_int n :: rat\<bar> < of_int (2 ^ 53)"
    using assms by (simp only: of_int_abs [symmetric] of_int_less_iff)
  also have "\<dots> \<le> (2::rat) ^ 1024"
    unfolding of_int_power of_int_numeral by (rule power_increasing) simp_all
  finally show ?thesis
    using assms by (simp add: parse_float_token_def token_value_itoa round64_int Let_def)
qed

text \<open>
  What a modem prints as an integer is read back: a margin or an attenuation as tenths of a dB, a rate as
  the same integer, and any other number as the same value, under the first alias of the field that is present.
\<close>

theorem modem_numbers_roundtrip:
  assumes "\<bar>n\<bar> < 2 ^ 53"
  shows "lookupTenthsDB ((a, itoa n) # nkv) (a # as) = fdiv (of_int n) 10 \<and>
    lookupKbps ((a, itoa n) # nkv) (a # as) = n \<and> lookupNumber ((a, itoa n) # nkv) (a # as) = of_int n"
proof -
  have plain: "list_all num_char (itoa n)" by (rule num_char_itoa)
  have "parseFloatLoose (itoa n) = Some (of_int n)"
    using assms by (simp add: parseFloatLoose_def ascii_minus_plain [OF plain] firstNumberToken_itoa parse_itoa Let_def)
  moreover have "float_to_int (of_int n) = n"
    using assms by (simp add: float_to_int_def Let_def) linarith
  moreover have "tenths_dB (itoa n) = Some (fdiv (of_int n) 10)"
    using assms no_point [OF plain]
    by (simp add: tenths_dB_def ascii_minus_plain [OF plain] trim_space_plain [OF plain] firstNumberToken_itoa
        isIntToken_itoa atoi_itoa round64_int Let_def)
  ultimately show ?thesis by simp
qed

lemma modem_numbers_roundtrip_witness:
  "lookupTenthsDB [(''snr'', ''61'')] [''snr''] = fdiv 61 10 \<and>
   lookupKbps [(''snr'', ''61'')] [''snr''] = 61 \<and> lookupNumber [(''snr'', ''61'')] [''snr''] = 61"
proof -
  have "itoa 61 = ''61''" by code_simp
  then show ?thesis
    using modem_numbers_roundtrip [of 61 "''snr''" "[]" "[]"] by simp
qed

end
