(* ===== verification/Topo_Types.thy ===== *)
theory Topo_Types
  imports Pool_Types
begin

text \<open>
  \<open>agent/pkg/models/topology.go\<close>: the report of the topology scan, who is on the network and how
  the devices connect, every fact with the identifiers of its evidence. The fields other packages
  add to the report afterwards (probe inventory, capabilities, user interface, the reports of the
  other scanners) are left out. The mobile fingerprint a device carries
  (\<open>pkg/models/mobile_fingerprint.go\<close>) has the fields of the pool's, and its constants.
\<close>

definition TopologyReportSchema :: string where "TopologyReportSchema = ''iad.topology/v2''"

section \<open>Constants\<close>

definition EdgeDirectLLDP :: string where "EdgeDirectLLDP = ''direct_lldp''"
definition EdgeDirectCDP :: string where "EdgeDirectCDP = ''direct_cdp''"
definition EdgeSNMPBridge :: string where "EdgeSNMPBridge = ''snmp_bridge''"
definition EdgeRouteHop :: string where "EdgeRouteHop = ''route_hop''"
definition EdgeInferredL2 :: string where "EdgeInferredL2 = ''inferred_l2''"
definition EdgeGatewayDefault :: string where "EdgeGatewayDefault = ''gateway_default''"

lemmas edge_types = EdgeDirectLLDP_def EdgeDirectCDP_def EdgeSNMPBridge_def EdgeRouteHop_def
  EdgeInferredL2_def EdgeGatewayDefault_def

definition ConfVeryHigh :: string where "ConfVeryHigh = ''very_high''"
definition ConfHigh :: string where "ConfHigh = ''high''"
definition ConfMedium :: string where "ConfMedium = ''medium''"
definition ConfLow :: string where "ConfLow = ''low''"
definition ConfVeryLow :: string where "ConfVeryLow = ''very_low''"

definition SeverityInfo :: string where "SeverityInfo = ''info''"
definition SeverityWarning :: string where "SeverityWarning = ''warning''"
definition SeverityDanger :: string where "SeverityDanger = ''danger''"

definition RoleAgent :: string where "RoleAgent = ''agent''"
definition RoleGateway :: string where "RoleGateway = ''gateway''"
definition RoleRouter :: string where "RoleRouter = ''router''"
definition RoleHost :: string where "RoleHost = ''host''"

section \<open>Devices\<close>

record IPAddress =
  ipa_IP :: string
  ipa_Version :: int
  ipa_CIDR :: string

record DeviceInterface =
  dif_MAC :: string
  dif_Vendor :: string
  dif_IPs :: "string list"

record Service =
  svc_Port :: int
  svc_Protocol :: string
  svc_State :: string
  svc_Name :: string
  svc_Product :: string
  svc_EvidenceIDs :: "string list"

record Device =
  dev_ID :: string
  dev_Hostname :: string
  dev_Hostnames :: "string list"
  dev_Vendor :: string
  dev_MAC :: string
  dev_OUIVendor :: string
  dev_MobileFingerprint :: "MobileFingerprint option"
  dev_DeviceTypeHint :: string
  dev_OSHint :: string
  dev_OSConfidence :: float64
  dev_Roles :: "string list"
  dev_IsAgent :: bool
  dev_IsGateway :: bool
  dev_Addresses :: "IPAddress list"
  dev_Interfaces :: "DeviceInterface list"
  dev_Services :: "Service list"
  dev_Reachability :: string
  dev_DiscoverySources :: "string list"
  dev_FirstSeen :: gotime
  dev_LastSeen :: gotime
  dev_Confidence :: float64
  dev_EvidenceIDs :: "string list"

text \<open>The zero value of the struct.\<close>

definition empty_device :: Device where
  "empty_device =
     \<lparr>dev_ID = [], dev_Hostname = [], dev_Hostnames = [], dev_Vendor = [], dev_MAC = [], dev_OUIVendor = [],
      dev_MobileFingerprint = None, dev_DeviceTypeHint = [], dev_OSHint = [], dev_OSConfidence = 0,
      dev_Roles = [], dev_IsAgent = False, dev_IsGateway = False, dev_Addresses = [], dev_Interfaces = [],
      dev_Services = [], dev_Reachability = [], dev_DiscoverySources = [], dev_FirstSeen = zero_time,
      dev_LastSeen = zero_time, dev_Confidence = 0, dev_EvidenceIDs = []\<rparr>"

section \<open>Edges and evidence\<close>

record TopologyEdge =
  edge_ID :: string
  edge_Source :: string
  edge_Target :: string
  edge_Type :: string
  edge_Layer :: string
  edge_Relationship :: string
  edge_Physical :: bool
  edge_Inferred :: bool
  edge_Confidence :: float64
  edge_ConfidenceLabel :: string
  edge_ProofSource :: string
  edge_UILineStyle :: string
  edge_EvidenceIDs :: "string list"
  edge_Reason :: string

text \<open>The data of an evidence record is a Go map that is only read by key.\<close>

record Evidence =
  tev_ID :: string
  tev_Kind :: string
  tev_Source :: string
  tev_Summary :: string
  tev_Data :: "(string \<times> string) list"
  tev_Timestamp :: gotime

definition data_get :: "(string \<times> string) list \<Rightarrow> string \<Rightarrow> string" where
  "data_get data key = (case map_of data key of Some v \<Rightarrow> v | None \<Rightarrow> [])"

record EvidenceRegistryItem =
  reg_ID :: string
  reg_Kind :: string
  reg_Source :: string

record Warning =
  wrn_Code :: string
  wrn_Severity :: string
  wrn_Message :: string

section \<open>The agent, the scope and the report\<close>

record InterfaceInfo =
  ifc_Name :: string
  ifc_MAC :: string
  ifc_Up :: bool
  ifc_Loopback :: bool
  ifc_Virtual :: bool
  ifc_Selected :: bool
  ifc_CIDR :: string
  ifc_Addresses :: "IPAddress list"

record AgentInfo =
  agi_Version :: string
  agi_Hostname :: string
  agi_OS :: string
  agi_Gateway :: string
  agi_DNSServers :: "string list"
  agi_Interfaces :: "InterfaceInfo list"

record LanScope =
  scp_Requested :: string
  scp_CIDR :: string
  scp_Interface :: string
  scp_HostCount :: int
  scp_Private :: bool
  scp_PublicAllowed :: bool
  scp_Profile :: string

record ScanSummary =
  sum_DeviceCount :: int
  sum_EdgeCount :: int
  sum_EvidenceCount :: int
  sum_HighConfidenceEdges :: int
  sum_InferredOnly :: bool
  sum_Profile :: string
  sum_DurationMS :: int

record DiscoverySummary =
  dsum_CIDR :: string
  dsum_AddressesScanned :: int
  dsum_DevicesFound :: int
  dsum_ARPFound :: int
  dsum_TCPFound :: int
  dsum_NmapFound :: int
  dsum_ScanDurationMS :: int

text \<open>The frontend graph \<open>TopologyV2Model\<close>, as far as the validation reads it.\<close>

record TopologyV2Node =
  tvn_ID :: string
  tvn_Confidence :: float64

record TopologyV2Edge =
  tve_ID :: string
  tve_Source :: string
  tve_Target :: string
  tve_Type :: string
  tve_Relation :: string
  tve_Medium :: string
  tve_Confidence :: float64
  tve_Explanation :: string

record TopologyV2Model =
  tv_SchemaVersion :: string
  tv_Nodes :: "TopologyV2Node list"
  tv_Edges :: "TopologyV2Edge list"

record ScanReport =
  rep_SchemaVersion :: string
  rep_ScanID :: string
  rep_CreatedAt :: gotime
  rep_Agent :: AgentInfo
  rep_Scope :: LanScope
  rep_Devices :: "Device list"
  rep_Edges :: "TopologyEdge list"
  rep_Evidence :: "Evidence list"
  rep_EvidenceRegistry :: "EvidenceRegistryItem list"
  rep_Warnings :: "Warning list"
  rep_Summary :: ScanSummary
  rep_DiscoverySummary :: "DiscoverySummary option"
  rep_Topology :: "TopologyV2Model option"

end
