(* ===== verification/Scan_Scope.thy ===== *)
theory Scan_Scope
  imports Net_Laws Topo_Types Go_MAC
begin

text \<open>
  \<open>agent/internal/discovery/scope.go\<close> and \<open>interfaces.go\<close>: the network the topology scan may touch. A
  scope is a CIDR the user asked for, or the network of the selected interface; the hosts to sweep
  are enumerated from it, and everything found is tested against it. What the operating system
  tells about its interfaces is an argument.
\<close>

unbundle bit_operations_syntax

section \<open>Printing addresses\<close>

text \<open>\<open>(IP).String\<close>: the compressed form of an IPv6 address replaces the first longest run of at
  least two zero groups.\<close>

fun nat_hex :: "nat \<Rightarrow> string" where
  "nat_hex n = (if n < 16 then [hex_digit n] else nat_hex (n div 16) @ [hex_digit (n mod 16)])"

declare nat_hex.simps [simp del]

fun ip_groups :: "byte list \<Rightarrow> nat list" where
  "ip_groups (a # b # bs) = (256 * unat a + unat b) # ip_groups bs"
| "ip_groups _ = []"

fun zero_scan :: "nat \<Rightarrow> nat list \<Rightarrow> nat \<times> nat \<Rightarrow> nat \<times> nat" where
  "zero_scan i [] best = best"
| "zero_scan i (g # gs) best =
     (let l = length (takeWhile (\<lambda>x. x = 0) (g # gs))
      in zero_scan (Suc i) gs (if l \<ge> 2 \<and> l > snd best then (i, l) else best))"

definition v6_string :: "byte list \<Rightarrow> string" where
  "v6_string b =
     (let gs = ip_groups b; hex = (\<lambda>xs. str_join (map nat_hex xs) '':'')
      in case zero_scan 0 gs (0, 0) of (start, len) \<Rightarrow>
        if len = 0 then hex gs else hex (take start gs) @ ''::'' @ hex (drop (start + len) gs))"

definition ip_string :: "net_ip \<Rightarrow> string" where
  "ip_string ip = (case to4 ip of Some b \<Rightarrow> v4_string b | None \<Rightarrow> v6_string ip)"

text \<open>\<open>(*IPNet).String\<close>: an IPv4 address in 16 bytes is printed with the last 32 bits of its mask.\<close>

definition ipnet_string :: "IPNet \<Rightarrow> string" where
  "ipnet_string n =
     (case to4 (net_addr n) of
        Some b \<Rightarrow> v4_string b @ ''/'' @
          nat_digits (if length (net_addr n) = 16 then net_ones n - 96 else net_ones n)
      | None \<Rightarrow> v6_string (net_addr n) @ ''/'' @ nat_digits (net_ones n))"

section \<open>The scope\<close>

definition maxScanHosts :: int where "maxScanHosts = 65536"
definition softWarnHosts :: int where "softWarnHosts = 1024"

definition warnPublicScope :: string where "warnPublicScope = ''public_scope_enabled''"
definition warnLargeScope :: string where "warnLargeScope = ''large_scope''"
definition warnIPv6Scope :: string where "warnIPv6Scope = ''ipv6_scope_unsupported''"
definition warnInferredOnly :: string where "warnInferredOnly = ''inferred_topology_only''"
definition warnNoGateway :: string where "warnNoGateway = ''no_default_gateway''"

text \<open>The errors of a scan, each a reason the code prints.\<close>

datatype ScopeError =
  No_Local_Network | Invalid_CIDR string | Public_IPv6_Scope | Public_Scope string
  | Scope_Too_Large string int | Interface_Not_Found string | No_Suitable_Interface

definition isPrivateIP :: "net_ip \<Rightarrow> bool" where
  "isPrivateIP ip =
     (if is_loopback ip \<or> is_link_local_unicast ip \<or> is_link_local_multicast ip then True
      else case to4 ip of
        Some v4 \<Rightarrow>
          (if v4 ! 0 = 10 then True
           else if v4 ! 0 = 172 \<and> v4 ! 1 \<ge> 16 \<and> v4 ! 1 \<le> 31 then True
           else if v4 ! 0 = 192 \<and> v4 ! 1 = 168 then True
           else False)
      | None \<Rightarrow> length ip = 16 \<and> ip ! 0 AND 0xfe = 0xfc)"

definition isPrivateNetwork :: "IPNet \<Rightarrow> bool" where
  "isPrivateNetwork n = isPrivateIP (net_addr n)"

definition hostCount :: "nat \<Rightarrow> nat \<Rightarrow> int" where
  "hostCount ones nbits =
     (let hostBits = nbits - ones
      in if hostBits \<le> 1 then 2 ^ hostBits
         else if hostBits \<ge> 31 then maxScanHosts + 1
         else 2 ^ hostBits - 2)"

definition dangerPublicWarning :: Warning where
  "dangerPublicWarning =
     \<lparr>wrn_Code = warnPublicScope, wrn_Severity = SeverityDanger,
      wrn_Message = ''Public/non-private scope scanning is ENABLED. Only do this on networks you own or are explicitly authorized to scan. This is your responsibility.''\<rparr>"

definition ipv6_warning :: Warning where
  "ipv6_warning =
     \<lparr>wrn_Code = warnIPv6Scope, wrn_Severity = SeverityWarning,
      wrn_Message = ''IPv6 scopes are too large to sweep; only interface/gateway facts are reported for IPv6.''\<rparr>"

definition large_warning :: "string \<Rightarrow> int \<Rightarrow> Warning" where
  "large_warning cidr n =
     \<lparr>wrn_Code = warnLargeScope, wrn_Severity = SeverityWarning,
      wrn_Message = ''scope '' @ cidr @ '' has '' @ itoa n @ '' addresses; the scan may take a while.''\<rparr>"

text \<open>The part of \<open>ParseScope\<close> after the CIDR is known.\<close>

definition check_scope :: "LanScope \<Rightarrow> string \<Rightarrow> LanScope \<times> Warning list \<times> ScopeError option" where
  "check_scope scope0 cidr =
     (case parse_cidr cidr of
        None \<Rightarrow> (scope0, [], Some (Invalid_CIDR cidr))
      | Some (ip, ipnet) \<Rightarrow>
          (let allowPublic = scp_PublicAllowed scope0;
               scope = scope0\<lparr>scp_CIDR := ipnet_string ipnet\<rparr>
           in if to4 ip = None then
                (let scope = scope\<lparr>scp_HostCount := 0, scp_Private := isPrivateIP ip\<rparr>
                 in if \<not> scp_Private scope \<and> \<not> allowPublic then (scope, [ipv6_warning], Some Public_IPv6_Scope)
                    else (scope, ipv6_warning # (if allowPublic then [dangerPublicWarning] else []), None))
              else
                (let scope = scope\<lparr>scp_HostCount := hostCount (net_ones ipnet) (net_bits ipnet),
                       scp_Private := isPrivateNetwork ipnet\<rparr>
                 in if \<not> scp_Private scope \<and> \<not> allowPublic then (scope, [], Some (Public_Scope (scp_CIDR scope)))
                    else if scp_HostCount scope > maxScanHosts then
                      (scope, [], Some (Scope_Too_Large (scp_CIDR scope) (scp_HostCount scope)))
                    else
                      (scope, (if allowPublic \<and> \<not> scp_Private scope then [dangerPublicWarning] else []) @
                         (if scp_HostCount scope > softWarnHosts then [large_warning (scp_CIDR scope) (scp_HostCount scope)]
                          else []), None))))"

definition ParseScope ::
  "string \<Rightarrow> string \<Rightarrow> bool \<Rightarrow> InterfaceInfo \<Rightarrow> LanScope \<times> Warning list \<times> ScopeError option" where
  "ParseScope requested profile allowPublic primary =
     (let scope = \<lparr>scp_Requested = trim_space requested, scp_CIDR = [], scp_Interface = ifc_Name primary,
            scp_HostCount = 0, scp_Private = False, scp_PublicAllowed = allowPublic, scp_Profile = profile\<rparr>;
          cidr = scp_Requested scope
      in if cidr = [] \<or> equal_fold cidr ''auto'' then
           (if ifc_CIDR primary = [] then (scope, [], Some No_Local_Network)
            else check_scope (scope\<lparr>scp_Requested := ''auto''\<rparr>) (ifc_CIDR primary))
         else check_scope scope cidr)"

definition HostsInScope :: "LanScope \<Rightarrow> string list" where
  "HostsInScope scope =
     (if scp_CIDR scope = [] then []
      else case parse_cidr (scp_CIDR scope) of
        None \<Rightarrow> []
      | Some (_, ipnet) \<Rightarrow>
          (case to4 (mask_ip (net_addr ipnet) (net_ones ipnet)) of
             None \<Rightarrow> []
           | Some base \<Rightarrow>
               (let hostBits = net_bits ipnet - net_ones ipnet; total = 2 ^ hostBits
                in if int total > maxScanHosts then []
                   else
                     (let start = (if hostBits \<ge> 2 then 1 else 0);
                          stop = (if hostBits \<ge> 2 then total - 1 else total)
                      in map (\<lambda>i. v4_string (put_uint32 (be_uint32 base + of_nat i))) [start..<stop]))))"

definition InScope :: "LanScope \<Rightarrow> string \<Rightarrow> bool" where
  "InScope scope ipStr =
     (if scp_CIDR scope = [] then False
      else case (parse_cidr (scp_CIDR scope), parse_ip ipStr) of
        (Some (_, ipnet), Some ip) \<Rightarrow> net_contains ipnet ip
      | _ \<Rightarrow> False)"

section \<open>Interfaces\<close>

text \<open>
  What the system reports of one interface: its name, hardware address, flags, and its addresses with
  the number of one bits of their masks (4 or 16 bytes; other kinds of addresses are skipped by the
  code and absent here).
\<close>

record OSInterface =
  osi_Name :: string
  osi_HardwareAddr :: "byte list"
  osi_Up :: bool
  osi_Loopback :: bool
  osi_Addrs :: "IPNet list"

definition virtualIfaceTokens :: "string list" where
  "virtualIfaceTokens =
     [''veth'', ''docker'', ''br-'', ''virbr'', ''vmnet'', ''vmware'', ''vbox'', ''virtualbox'',
      ''vethernet'', ''hyper-v'', ''tap'', ''tun'', ''tailscale'', ''zerotier'', ''wg'', ''utun'',
      ''awdl'', ''llw'', ''ppp'', ''isatap'', ''teredo'', ''bluetooth'', ''loopback'', ''pseudo'']"

definition isVirtualName :: "string \<Rightarrow> bool" where
  "isVirtualName name = list_ex (str_contains (to_lower name)) virtualIfaceTokens"

definition ipVersion :: "net_ip \<Rightarrow> int" where
  "ipVersion ip = (if to4 ip \<noteq> None then 4 else 6)"

definition mac_string :: "byte list \<Rightarrow> string" where
  "mac_string hw = str_join (map hex2 hw) '':''"

definition add_address :: "IPNet \<Rightarrow> InterfaceInfo \<Rightarrow> InterfaceInfo" where
  "add_address a info =
     (let ip = net_addr a;
          addr = \<lparr>ipa_IP = ip_string ip, ipa_Version = ipVersion ip, ipa_CIDR = []\<rparr>
      in if ifc_CIDR info = [] \<and> to4 ip \<noteq> None \<and> \<not> is_loopback ip then
           (let network = ipnet_string (a\<lparr>net_addr := mask_ip ip (net_ones a)\<rparr>)
            in info\<lparr>ifc_CIDR := network, ifc_Addresses := ifc_Addresses info @ [addr\<lparr>ipa_CIDR := network\<rparr>]\<rparr>)
         else info\<lparr>ifc_Addresses := ifc_Addresses info @ [addr]\<rparr>)"

definition interface_info :: "OSInterface \<Rightarrow> InterfaceInfo" where
  "interface_info i =
     fold add_address (osi_Addrs i)
       \<lparr>ifc_Name = osi_Name i, ifc_MAC = mac_string (osi_HardwareAddr i), ifc_Up = osi_Up i,
        ifc_Loopback = osi_Loopback i, ifc_Virtual = isVirtualName (osi_Name i), ifc_Selected = False,
        ifc_CIDR = [], ifc_Addresses = []\<rparr>"

definition Interfaces :: "OSInterface list \<Rightarrow> InterfaceInfo list" where
  "Interfaces ifaces = map interface_info ifaces"

definition hasRoutablePrivateIPv4 :: "InterfaceInfo \<Rightarrow> bool" where
  "hasRoutablePrivateIPv4 ifc =
     list_ex (\<lambda>a. case parse_ip (ipa_IP a) of
         None \<Rightarrow> False
       | Some ip \<Rightarrow> to4 ip \<noteq> None \<and> isPrivateIP ip \<and> \<not> is_link_local_unicast ip) (ifc_Addresses ifc)"

definition hasLinkLocalIPv4 :: "InterfaceInfo \<Rightarrow> bool" where
  "hasLinkLocalIPv4 ifc =
     list_ex (\<lambda>a. case parse_ip (ipa_IP a) of
         None \<Rightarrow> False
       | Some ip \<Rightarrow> to4 ip \<noteq> None \<and> is_link_local_unicast ip) (ifc_Addresses ifc)"

definition cidrContains :: "string \<Rightarrow> string \<Rightarrow> bool" where
  "cidrContains cidr ipStr =
     (case (parse_cidr cidr, parse_ip ipStr) of
        (Some (_, ipnet), Some ip) \<Rightarrow> net_contains ipnet ip
      | _ \<Rightarrow> False)"

definition usable_interface :: "bool \<Rightarrow> InterfaceInfo \<Rightarrow> bool" where
  "usable_interface includeVirtual ifc =
     (ifc_Up ifc \<and> \<not> ifc_Loopback ifc \<and> (ifc_Virtual ifc \<longrightarrow> includeVirtual) \<and> ifc_CIDR ifc \<noteq> [])"

definition interface_score :: "string \<Rightarrow> InterfaceInfo \<Rightarrow> int" where
  "interface_score gatewayIP ifc =
     (if hasRoutablePrivateIPv4 ifc then 4 else if hasLinkLocalIPv4 ifc then 1 else 0) +
     (if gatewayIP \<noteq> [] \<and> cidrContains (ifc_CIDR ifc) gatewayIP then 10 else 0)"

text \<open>The loop of \<open>SelectPrimary\<close>: the best index so far with its score, \<open>None\<close> for \<open>-1\<close>.\<close>

fun select_loop ::
  "string \<Rightarrow> bool \<Rightarrow> nat \<Rightarrow> (nat \<times> int) option \<Rightarrow> InterfaceInfo list \<Rightarrow> (nat \<times> int) option" where
  "select_loop gatewayIP includeVirtual i best [] = best"
| "select_loop gatewayIP includeVirtual i best (ifc # rest) =
     (let score = interface_score gatewayIP ifc
      in select_loop gatewayIP includeVirtual (Suc i)
           (if \<not> usable_interface includeVirtual ifc then best
            else case best of
              None \<Rightarrow> if score > - 1 then Some (i, score) else None
            | Some (j, bestScore) \<Rightarrow> if score > bestScore then Some (i, score) else best)
           rest)"

definition select_at :: "nat \<Rightarrow> InterfaceInfo list \<Rightarrow> InterfaceInfo \<times> InterfaceInfo list" where
  "select_at i ifaces = (let ifc = (ifaces ! i)\<lparr>ifc_Selected := True\<rparr> in (ifc, ifaces[i := ifc]))"

definition SelectPrimary ::
  "InterfaceInfo list \<Rightarrow> string \<Rightarrow> bool \<Rightarrow> (InterfaceInfo \<times> InterfaceInfo list) option" where
  "SelectPrimary ifaces gatewayIP includeVirtual =
     map_option (\<lambda>(i, _). select_at i ifaces) (select_loop gatewayIP includeVirtual 0 None ifaces)"

fun find_index :: "('a \<Rightarrow> bool) \<Rightarrow> 'a list \<Rightarrow> nat option" where
  "find_index P [] = None"
| "find_index P (x # xs) = (if P x then Some 0 else map_option Suc (find_index P xs))"

definition FindByName :: "InterfaceInfo list \<Rightarrow> string \<Rightarrow> (InterfaceInfo \<times> InterfaceInfo list) option" where
  "FindByName ifaces name = map_option (\<lambda>i. select_at i ifaces) (find_index (\<lambda>ifc. ifc_Name ifc = name) ifaces)"

definition primaryIPv4 :: "InterfaceInfo \<Rightarrow> string" where
  "primaryIPv4 ifc =
     (case sort_strings (map ipa_IP (filter (\<lambda>a. case parse_ip (ipa_IP a) of
             None \<Rightarrow> False
           | Some ip \<Rightarrow> to4 ip \<noteq> None \<and> isPrivateIP ip) (ifc_Addresses ifc))) of
        [] \<Rightarrow> []
      | ip # _ \<Rightarrow> ip)"

lemmas [go_defs] = ip_string_def ipnet_string_def v6_string_def isPrivateIP_def isPrivateNetwork_def
  hostCount_def check_scope_def ParseScope_def HostsInScope_def InScope_def maxScanHosts_def
  softWarnHosts_def cidrContains_def

end
