(* ===== verification/Topo_Graph.thy ===== *)
theory Topo_Graph
  imports Topo_Types
begin

text \<open>
  \<open>agent/internal/topology\<close>: the store that numbers evidence (\<open>evidence.go\<close>), the roles of a device
  (\<open>classifier.go\<close>), the confidence of an edge by its type (\<open>confidence.go\<close>), the edges
  (\<open>edge.go\<close>), the graph that keeps one edge per identifier (\<open>graph.go\<close>), and \<open>Build\<close>
  (\<open>builder.go\<close>). The Go map of edges is iterated over once, to be sorted: it is an association
  list in an iteration order.
\<close>

section \<open>Evidence\<close>

definition EvidenceInterface :: string where "EvidenceInterface = ''interface''"
definition EvidenceGatewayRoute :: string where "EvidenceGatewayRoute = ''gateway_route''"
definition EvidenceARPTable :: string where "EvidenceARPTable = ''arp_table''"
definition EvidenceReverseDNS :: string where "EvidenceReverseDNS = ''reverse_dns''"
definition EvidenceTCPConnect :: string where "EvidenceTCPConnect = ''tcp_connect''"
definition EvidenceNmap :: string where "EvidenceNmap = ''nmap''"

text \<open>
  The clock is the sequence of values its calls return, with the number of calls so far; the
  callers that share it count in the same store.
\<close>

record EvidenceStore =
  evs_now :: "nat \<Rightarrow> gotime"
  evs_calls :: nat
  evs_records :: "Evidence list"
  evs_seq :: nat

definition NewEvidenceStore :: "(nat \<Rightarrow> gotime) \<Rightarrow> EvidenceStore" where
  "NewEvidenceStore now = \<lparr>evs_now = now, evs_calls = 0, evs_records = [], evs_seq = 0\<rparr>"

definition read_clock :: "EvidenceStore \<Rightarrow> gotime \<times> EvidenceStore" where
  "read_clock s = (evs_now s (evs_calls s), s\<lparr>evs_calls := Suc (evs_calls s)\<rparr>)"

definition ev_name :: "nat \<Rightarrow> string" where
  "ev_name n = ''ev-'' @ nat_digits n"

definition store_Add ::
  "string \<Rightarrow> string \<Rightarrow> string \<Rightarrow> (string \<times> string) list \<Rightarrow> EvidenceStore \<Rightarrow> string \<times> EvidenceStore" where
  "store_Add kind source summary data s0 =
     (let s = s0\<lparr>evs_seq := Suc (evs_seq s0)\<rparr>; i = ev_name (evs_seq s)
      in case read_clock s of (t, s) \<Rightarrow>
        (i, s\<lparr>evs_records := evs_records s @
              [\<lparr>tev_ID = i, tev_Kind = kind, tev_Source = source, tev_Summary = summary, tev_Data = data,
                tev_Timestamp = t\<rparr>]\<rparr>))"

definition Records :: "EvidenceStore \<Rightarrow> Evidence list" where
  "Records s = evs_records s"

text \<open>The loop of \<open>dedupSorted\<close>: non-empty strings in the order of their first occurrence.\<close>

fun uniq_loop :: "string list \<Rightarrow> string list \<Rightarrow> string list" where
  "uniq_loop out [] = out"
| "uniq_loop out (x # xs) = (if x = [] \<or> x \<in> set out then uniq_loop out xs else uniq_loop (out @ [x]) xs)"

definition dedupSorted :: "string list \<Rightarrow> string list" where
  "dedupSorted ids = (if ids = [] then [] else sort_strings (uniq_loop [] ids))"

section \<open>Roles\<close>

record RoleInput =
  ri_IsAgent :: bool
  ri_IsDefaultGW :: bool
  ri_ForwardsTraffic :: bool

definition ClassifyRoles :: "RoleInput \<Rightarrow> string list" where
  "ClassifyRoles r =
     (let roles = [];
          roles = (if ri_IsDefaultGW r then append_new roles RoleGateway else roles);
          roles = (if ri_ForwardsTraffic r then append_new roles RoleRouter else roles);
          roles = (if ri_IsAgent r then append_new roles RoleAgent else roles)
      in append_new roles RoleHost)"

section \<open>Confidence\<close>

definition confDirectLLDP :: float64 where "confDirectLLDP = flit (95 / 100)"
definition confDirectCDP :: float64 where "confDirectCDP = flit (95 / 100)"
definition confSNMPBridgeHigh :: float64 where "confSNMPBridgeHigh = flit (80 / 100)"
definition confRouteHop :: float64 where "confRouteHop = flit (60 / 100)"
definition confInferredL2High :: float64 where "confInferredL2High = flit (50 / 100)"
definition confInferredL2Low :: float64 where "confInferredL2Low = flit (40 / 100)"
definition confGatewayDefault :: float64 where "confGatewayDefault = flit (30 / 100)"

definition BaseConfidence :: "string \<Rightarrow> float64" where
  "BaseConfidence t =
     (if t = EdgeDirectLLDP then confDirectLLDP
      else if t = EdgeDirectCDP then confDirectCDP
      else if t = EdgeSNMPBridge then confSNMPBridgeHigh
      else if t = EdgeRouteHop then confRouteHop
      else if t = EdgeInferredL2 then confInferredL2Low
      else if t = EdgeGatewayDefault then confGatewayDefault
      else 0)"

definition MaxConfidence :: "string \<Rightarrow> float64" where
  "MaxConfidence t =
     (if t = EdgeDirectLLDP \<or> t = EdgeDirectCDP then flit (98 / 100)
      else if t = EdgeSNMPBridge then confSNMPBridgeHigh
      else if t = EdgeRouteHop then confRouteHop
      else if t = EdgeInferredL2 then confInferredL2High
      else if t = EdgeGatewayDefault then confGatewayDefault
      else 0)"

definition clampConfidence :: "string \<Rightarrow> float64 \<Rightarrow> float64" where
  "clampConfidence t c =
     (let m = MaxConfidence t in if c < 0 then 0 else if c > m then m else c)"

definition ConfidenceLabel :: "float64 \<Rightarrow> string" where
  "ConfidenceLabel c =
     (if c \<ge> flit (90 / 100) then ConfVeryHigh
      else if c \<ge> flit (70 / 100) then ConfHigh
      else if c \<ge> flit (45 / 100) then ConfMedium
      else if c \<ge> flit (25 / 100) then ConfLow
      else ConfVeryLow)"

definition IsPhysicalEvidenceEdge :: "string \<Rightarrow> bool" where
  "IsPhysicalEvidenceEdge t = (t = EdgeDirectLLDP \<or> t = EdgeDirectCDP \<or> t = EdgeSNMPBridge)"

section \<open>Edges\<close>

definition shortEdgeType :: "string \<Rightarrow> string" where
  "shortEdgeType t =
     (if t = EdgeDirectLLDP then ''lldp''
      else if t = EdgeDirectCDP then ''cdp''
      else if t = EdgeSNMPBridge then ''snmp''
      else if t = EdgeRouteHop then ''route''
      else if t = EdgeInferredL2 then ''l2''
      else if t = EdgeGatewayDefault then ''gw''
      else ''x'')"

definition edgeID :: "string \<Rightarrow> string \<Rightarrow> string \<Rightarrow> string" where
  "edgeID source target t = ''edge-'' @ source @ ''--'' @ target @ ''--'' @ shortEdgeType t"

definition edgeLayer :: "string \<Rightarrow> string" where
  "edgeLayer t =
     (if t = EdgeDirectLLDP \<or> t = EdgeDirectCDP \<or> t = EdgeSNMPBridge \<or> t = EdgeInferredL2 then ''L2''
      else if t = EdgeRouteHop \<or> t = EdgeGatewayDefault then ''L3''
      else ''unknown'')"

definition edgeRelationship :: "string \<Rightarrow> string" where
  "edgeRelationship t =
     (if t = EdgeDirectLLDP then ''lldp_neighbor''
      else if t = EdgeDirectCDP then ''cdp_neighbor''
      else if t = EdgeSNMPBridge then ''snmp_bridge_fdb''
      else if t = EdgeRouteHop then ''traceroute_hop''
      else if t = EdgeGatewayDefault then ''default_gateway''
      else if t = EdgeInferredL2 then ''same_subnet''
      else ''unknown'')"

definition edgeInferred :: "string \<Rightarrow> bool" where
  "edgeInferred t = (\<not> (t = EdgeDirectLLDP \<or> t = EdgeDirectCDP \<or> t = EdgeSNMPBridge \<or> t = EdgeRouteHop))"

definition edgeProofSource :: "string \<Rightarrow> string" where
  "edgeProofSource t =
     (if t = EdgeDirectLLDP then ''lldp''
      else if t = EdgeDirectCDP then ''cdp''
      else if t = EdgeSNMPBridge then ''snmp_bridge_fdb''
      else if t = EdgeRouteHop then ''traceroute''
      else if t = EdgeGatewayDefault then ''route_table''
      else if t = EdgeInferredL2 then ''same_subnet_arp_ping''
      else ''unknown'')"

definition edgeLineStyle :: "string \<Rightarrow> float64 \<Rightarrow> string" where
  "edgeLineStyle t confidence =
     (if IsPhysicalEvidenceEdge t then ''solid''
      else if t = EdgeInferredL2 \<or> confidence < flit (50 / 100) then ''dotted''
      else ''dashed'')"

definition newEdge :: "string \<Rightarrow> string \<Rightarrow> string \<Rightarrow> string \<Rightarrow> float64 \<Rightarrow> string list \<Rightarrow> TopologyEdge" where
  "newEdge source target t reason confidenceOverride evidenceIDs =
     (let conf = BaseConfidence t;
          conf = (if confidenceOverride > 0 then confidenceOverride else conf);
          conf = clampConfidence t conf
      in \<lparr>edge_ID = edgeID source target t, edge_Source = source, edge_Target = target, edge_Type = t,
          edge_Layer = edgeLayer t, edge_Relationship = edgeRelationship t,
          edge_Physical = IsPhysicalEvidenceEdge t, edge_Inferred = edgeInferred t,
          edge_Confidence = conf, edge_ConfidenceLabel = ConfidenceLabel conf,
          edge_ProofSource = edgeProofSource t, edge_UILineStyle = edgeLineStyle t conf,
          edge_EvidenceIDs = dedupSorted evidenceIDs, edge_Reason = reason\<rparr>)"

section \<open>The graph\<close>

record Graph =
  gr_deviceIDs :: "string set"
  gr_edges :: "(string \<times> TopologyEdge) list"

definition NewGraph :: "string list \<Rightarrow> Graph" where
  "NewGraph deviceIDs = \<lparr>gr_deviceIDs = set deviceIDs, gr_edges = []\<rparr>"

text \<open>The result of \<open>AddEdge\<close>, whether the edge was stored, is used by no caller.\<close>

definition AddEdge :: "TopologyEdge \<Rightarrow> Graph \<Rightarrow> Graph" where
  "AddEdge e g =
     (if edge_Source e = edge_Target e then g
      else if edge_Source e \<notin> gr_deviceIDs g \<or> edge_Target e \<notin> gr_deviceIDs g then g
      else case map_of (gr_edges g) (edge_ID e) of
        Some old \<Rightarrow>
          if edge_Confidence e \<le> edge_Confidence old then g
          else g\<lparr>gr_edges := alist_set (edge_ID e) e (gr_edges g)\<rparr>
      | None \<Rightarrow> g\<lparr>gr_edges := alist_set (edge_ID e) e (gr_edges g)\<rparr>)"

definition edge_before :: "TopologyEdge \<Rightarrow> TopologyEdge \<Rightarrow> bool" where
  "edge_before a b =
     (if edge_Confidence a \<noteq> edge_Confidence b then edge_Confidence a > edge_Confidence b
      else if edge_Type a \<noteq> edge_Type b then str_less (edge_Type a) (edge_Type b)
      else if edge_Source a \<noteq> edge_Source b then str_less (edge_Source a) (edge_Source b)
      else str_less (edge_Target a) (edge_Target b))"

definition Edges :: "Graph \<Rightarrow> TopologyEdge list" where
  "Edges g = sort_by edge_before (map snd (gr_edges g))"

section \<open>Build\<close>

record RouteHop =
  hop_FromID :: string
  hop_ToID :: string
  hop_EvidenceIDs :: "string list"

record Neighbor =
  nbr_FromID :: string
  nbr_ToID :: string
  nbr_Kind :: string
  nbr_Confidence :: float64
  nbr_Reason :: string
  nbr_EvidenceIDs :: "string list"

record BuildInput =
  bi_AgentID :: string
  bi_GatewayID :: string
  bi_Devices :: "Device list"
  bi_GatewayRouteEvidenceIDs :: "string list"
  bi_RouteHops :: "RouteHop list"
  bi_L2Peers :: "string list"
  bi_Neighbors :: "Neighbor list"

record BuildResult =
  br_Devices :: "Device list"
  br_Edges :: "TopologyEdge list"
  br_InferredOnly :: bool
  br_HighConfidenceEdges :: nat

definition neighborReason :: "string \<Rightarrow> string" where
  "neighborReason kind =
     (if kind = EdgeDirectLLDP then
        ''Neighbour reported via LLDP; this is a directly attached link-layer neighbour.''
      else if kind = EdgeDirectCDP then
        ''Neighbour reported via CDP; this is a directly attached link-layer neighbour.''
      else if kind = EdgeSNMPBridge then
        ''Forwarding/bridge (FDB) table entry read via SNMP indicates a link-layer association.''
      else ''Link-layer neighbour.'')"

definition add_neighbor :: "Neighbor \<Rightarrow> Graph \<Rightarrow> Graph" where
  "add_neighbor n g =
     (if \<not> IsPhysicalEvidenceEdge (nbr_Kind n) then g
      else if nbr_EvidenceIDs n = [] then g
      else
        (let reason = (if nbr_Reason n = [] then neighborReason (nbr_Kind n) else nbr_Reason n)
         in AddEdge (newEdge (nbr_FromID n) (nbr_ToID n) (nbr_Kind n) reason (nbr_Confidence n)
              (nbr_EvidenceIDs n)) g))"

definition add_hop :: "RouteHop \<Rightarrow> Graph \<Rightarrow> Graph" where
  "add_hop h g =
     AddEdge (newEdge (hop_FromID h) (hop_ToID h) EdgeRouteHop
       ''Adjacent hops observed in a traceroute; routed (L3) adjacency, not necessarily a direct physical link.''
       0 (hop_EvidenceIDs h)) g"

definition add_gateway :: "BuildInput \<Rightarrow> Graph \<Rightarrow> Graph" where
  "add_gateway b g =
     (if bi_AgentID b \<noteq> [] \<and> bi_GatewayID b \<noteq> [] then
        AddEdge (newEdge (bi_AgentID b) (bi_GatewayID b) EdgeGatewayDefault
          ''The agent's default route points at this gateway; this is the route to the rest of the network, not proof of a direct cable.''
          0 (bi_GatewayRouteEvidenceIDs b)) g
      else g)"

definition add_peer :: "BuildInput \<Rightarrow> string \<Rightarrow> Graph \<Rightarrow> Graph" where
  "add_peer b peer g =
     (let hub = (if bi_GatewayID b = [] then bi_AgentID b else bi_GatewayID b)
      in if peer = bi_AgentID b \<or> peer = bi_GatewayID b then g
         else AddEdge (newEdge hub peer EdgeInferredL2
           ''On the same subnet (observed via ARP/ping); L2 adjacency is inferred from the shared broadcast domain and anchored at the gateway, not proven.''
           0 []) g)"

definition build_graph :: "BuildInput \<Rightarrow> Graph" where
  "build_graph b =
     (let g = NewGraph (map dev_ID (bi_Devices b));
          g = fold add_neighbor (bi_Neighbors b) g;
          g = fold add_hop (bi_RouteHops b) g;
          g = add_gateway b g
      in fold (add_peer b) (bi_L2Peers b) g)"

text \<open>The ids of the devices that forward traffic.\<close>

definition forwards :: "BuildInput \<Rightarrow> string set" where
  "forwards b =
     set (map hop_FromID (bi_RouteHops b)) \<union>
     (if bi_GatewayID b \<noteq> [] \<and> bi_RouteHops b \<noteq> [] then {bi_GatewayID b} else {})"

definition apply_roles :: "BuildInput \<Rightarrow> Device \<Rightarrow> Device" where
  "apply_roles b d =
     (let isGW = (dev_ID d = bi_GatewayID b);
          d = d\<lparr>dev_IsGateway := isGW, dev_IsAgent := (dev_ID d = bi_AgentID b)\<rparr>
      in d\<lparr>dev_Roles := ClassifyRoles \<lparr>ri_IsAgent = dev_IsAgent d, ri_IsDefaultGW = isGW,
            ri_ForwardsTraffic = (dev_ID d \<in> forwards b)\<rparr>\<rparr>)"

definition Build :: "BuildInput \<Rightarrow> BuildResult" where
  "Build b =
     (let edges = Edges (build_graph b)
      in \<lparr>br_Devices = map (apply_roles b) (bi_Devices b), br_Edges = edges,
          br_InferredOnly = (\<not> list_ex (\<lambda>e. IsPhysicalEvidenceEdge (edge_Type e)) edges),
          br_HighConfidenceEdges = length (filter (\<lambda>e. edge_Confidence e \<ge> flit (70 / 100)) edges)\<rparr>)"

end
