(* ===== verification/Agent_Mobile.thy ===== *)
theory Agent_Mobile
  imports Mobile_Fingerprint Topo_Graph
begin

text \<open>
  \<open>agent/internal/discovery/mobile_fingerprint.go\<close> and \<open>mobile_fingerprint_types.go\<close>: the mobile
  operating system of a device of the topology scan, scored from its names, hardware addresses,
  services and the evidence that mentions it. It is a sibling of the scorer of the desktop pool
  (\<open>Mobile_Fingerprint\<close>) with other weights, categories and thresholds; helpers with the same body
  are defined through the pool's. Go maps that are only read by key are functions or sets;
  \<open>vendorByMAC\<close>, which is iterated over, is an association list in an iteration order. The
  timestamp is an input.
\<close>

section \<open>Inputs\<close>

record MobileObservedValue =
  mov_Value :: string
  mov_Source :: string
  mov_Timestamp :: gotime

record MobileMDNSRecord =
  mmr_Name :: string
  mmr_Service :: string
  mmr_Target :: string
  mmr_Text :: "string list"
  mmr_Source :: string
  mmr_Timestamp :: gotime

record MobileServiceObservation =
  mso_Port :: int
  mso_Protocol :: string
  mso_Name :: string
  mso_Product :: string
  mso_Source :: string
  mso_Timestamp :: gotime

record MobilePassivePacket =
  mpp_Protocol :: string
  mpp_SourcePort :: int
  mpp_DestinationPort :: int
  mpp_Value :: string
  mpp_Source :: string
  mpp_Timestamp :: gotime

record MobileFingerprintInput =
  mi_DeviceID :: string
  mi_MACAddresses :: "string list"
  mi_OUIVendors :: "string list"
  mi_VendorHints :: "MobileObservedValue list"
  mi_Hostnames :: "MobileObservedValue list"
  mi_DHCPHostnames :: "MobileObservedValue list"
  mi_MDNSRecords :: "MobileMDNSRecord list"
  mi_DNSQueries :: "MobileObservedValue list"
  mi_Services :: "MobileServiceObservation list"
  mi_UserAgents :: "MobileObservedValue list"
  mi_PassivePackets :: "MobilePassivePacket list"
  mi_Timestamp :: gotime

definition mobile_input :: "string \<Rightarrow> gotime \<Rightarrow> MobileFingerprintInput" where
  "mobile_input device now =
     \<lparr>mi_DeviceID = device, mi_MACAddresses = [], mi_OUIVendors = [], mi_VendorHints = [],
      mi_Hostnames = [], mi_DHCPHostnames = [], mi_MDNSRecords = [], mi_DNSQueries = [],
      mi_Services = [], mi_UserAgents = [], mi_PassivePackets = [], mi_Timestamp = now\<rparr>"

section \<open>Helpers\<close>

definition containsAnyMobile :: "string \<Rightarrow> string list \<Rightarrow> bool" where
  "containsAnyMobile value tokens = containsAny value tokens"

definition mobileContainsStandalone :: "string \<Rightarrow> string \<Rightarrow> bool" where
  "mobileContainsStandalone value token = standaloneToken (to_lower value) (to_lower token)"

definition mobileNameContains :: "string list \<Rightarrow> string list \<Rightarrow> bool" where
  "mobileNameContains values tokens = containsAny (to_lower (str_join values '' '')) tokens"

definition firstMobileSource :: "string list \<Rightarrow> string" where
  "firstMobileSource values = firstNonEmpty values"

definition appendUniqueString :: "string list \<Rightarrow> string \<Rightarrow> string list" where
  "appendUniqueString values value = appendUnique values value"

definition sortedUnique :: "string list \<Rightarrow> string list" where
  "sortedUnique xs = (if xs = [] then [] else sort_strings (uniq_loop [] xs))"

definition appendObserved ::
  "MobileObservedValue list \<Rightarrow> string \<Rightarrow> string \<Rightarrow> gotime \<Rightarrow> MobileObservedValue list" where
  "appendObserved values v source ts =
     (let value = trim_space v
      in if value = [] then values
         else if \<exists>old \<in> set values. mov_Value old = value \<and> mov_Source old = source then values
         else values @ [\<lparr>mov_Value = value, mov_Source = source, mov_Timestamp = ts\<rparr>])"

text \<open>\<open>stringSet\<close>.\<close>

definition stringSet :: "string list \<Rightarrow> string set" where
  "stringSet values = set (filter (\<lambda>v. v \<noteq> []) values)"

fun firstMapValue :: "(string \<times> string) list \<Rightarrow> string list \<Rightarrow> string" where
  "firstMapValue values [] = []"
| "firstMapValue values (key # keys) =
     (let value = trim_space (data_get values key)
      in if value \<noteq> [] then value else firstMapValue values keys)"

text \<open>\<open>strings.Split\<close> at one byte.\<close>

fun str_split :: "char \<Rightarrow> string \<Rightarrow> string list" where
  "str_split sep [] = [[]]"
| "str_split sep (c # cs) =
     (if c = sep then [] # str_split sep cs
      else case str_split sep cs of [] \<Rightarrow> [[c]] | w # ws \<Rightarrow> (c # w) # ws)"

definition splitMobileList :: "string \<Rightarrow> string list" where
  "splitMobileList raw =
     (let r = trim_space raw
      in if r = [] then []
         else foldl appendUniqueString []
                (str_split CHR '','' (replace_bytes [(CHR '';'', '',''), (CHR ''|'', '','')] r)))"

text \<open>\<open>strconv.Atoi\<close> with the error ignored: 0 on a syntax error, the nearest bound out of range.\<close>

definition atoi_value :: "string \<Rightarrow> int" where
  "atoi_value s =
     (let neg = (s \<noteq> [] \<and> hd s = CHR ''-'');
          ds = (if s \<noteq> [] \<and> (hd s = CHR ''-'' \<or> hd s = CHR ''+'') then tl s else s);
          v = int (digits_val 0 ds); n = (if neg then - v else v)
      in if ds = [] \<or> \<not> list_all is_digit ds then 0 else max (- (2 ^ 63)) (min (2 ^ 63 - 1) n))"

definition parseMobilePort :: "string \<Rightarrow> int" where
  "parseMobilePort s = (let raw = trim_space s in if raw = [] then 0 else atoi_value raw)"

definition parseMobilePorts :: "string \<Rightarrow> int list" where
  "parseMobilePorts raw =
     (if trim_space raw = [] then []
      else sort (filter (\<lambda>port. port > 0) (map parseMobilePort
             (str_split CHR '','' (replace_bytes [(CHR '';'', '',''), (CHR '' '', '',''), (CHR ''/'', '','')] raw)))))"

definition safeUserAgentValue :: "string \<Rightarrow> string" where
  "safeUserAgentValue v =
     (let value = trim_space v
      in if length value \<le> 160 then value else take 160 value @ ''...'')"

definition appleDomainHints :: "string list" where
  "appleDomainHints =
     [''apple.com'', ''icloud.com'', ''mzstatic.com'', ''itunes.apple.com'', ''push.apple.com'',
      ''aaplimg.com'', ''captive.apple.com'']"

definition androidDomainHints :: "string list" where
  "androidDomainHints =
     [''android.clients.google.com'', ''clients3.google.com'', ''gstatic.com'', ''googleapis.com'',
      ''mtalk.google.com'', ''gvt1.com'', ''play.googleapis.com'', ''connectivitycheck.gstatic.com'',
      ''android.googleapis.com'']"

definition mobileOUIPrefixes :: "(string \<times> string) list" where
  "mobileOUIPrefixes =
     [(''A483E7'', ''Apple''), (''E89C25'', ''Apple''), (''F4F5D8'', ''Apple''),
      (''74D4DD'', ''Apple''), (''D8BBC1'', ''Apple''), (''3C5AB4'', ''Google''),
      (''F88FCA'', ''Google''), (''001A11'', ''Google''), (''EC1F72'', ''Samsung''),
      (''70F1A1'', ''Samsung''), (''283926'', ''Samsung''), (''9852B1'', ''Samsung''),
      (''ACAFB9'', ''Samsung''), (''D88039'', ''Xiaomi''), (''64CC2E'', ''Xiaomi''),
      (''7802F8'', ''Xiaomi''), (''344DF7'', ''OnePlus''), (''94652D'', ''OnePlus''),
      (''A4C0E1'', ''OPPO''), (''487412'', ''OPPO''), (''703A0E'', ''Vivo''),
      (''9078B2'', ''Huawei''), (''009ACD'', ''Huawei''), (''38378B'', ''Honor''),
      (''4C7766'', ''Motorola''), (''582059'', ''Nothing''), (''304596'', ''Sony'')]"

definition mobileVendorFamily :: "string \<Rightarrow> MobileOS option" where
  "mobileVendorFamily vendor =
     (let lower = to_lower vendor
      in if str_contains lower ''apple'' then Some OS_IOS
         else if containsAnyMobile lower [''samsung'', ''xiaomi'', ''oppo'', ''vivo'', ''google'', ''oneplus'',
             ''huawei'', ''honor'', ''realme'', ''motorola'', ''moto'', ''nothing'', ''sony'', ''tcl'',
             ''tecno'', ''infinix'', ''lenovo''] then Some OS_Android
         else None)"

definition mobileOUIVendor :: "string \<Rightarrow> string" where
  "mobileOUIVendor mac =
     (let c0 = to_upper (replace_bytes [(CHR '':'', []), (CHR ''-'', []), (CHR ''.'', [])] (trim_space mac));
          compact =
            (if length c0 < 6 then
               (case parse_mac mac of
                  Some hw \<Rightarrow>
                    if length hw \<ge> 3 then to_upper (hex2 (hw ! 0) @ hex2 (hw ! 1) @ hex2 (hw ! 2)) else c0
                | None \<Rightarrow> c0)
             else c0)
      in if length compact < 6 then []
         else case map_of mobileOUIPrefixes (take 6 compact) of None \<Rightarrow> [] | Some v \<Rightarrow> v)"

definition isLocallyAdministeredMAC :: "string \<Rightarrow> bool" where
  "isLocallyAdministeredMAC mac =
     (case parse_mac mac of
        Some hw \<Rightarrow> hw \<noteq> [] \<and> hd hw AND 0x02 \<noteq> 0
      | None \<Rightarrow> False)"

definition redactMACForEvidence :: "string \<Rightarrow> string" where
  "redactMACForEvidence mac =
     (case parse_mac mac of
        None \<Rightarrow> mac
      | Some hw \<Rightarrow>
          if length hw < 3 then mac
          else hex2 (hw ! 0) @ '':'' @ hex2 (hw ! 1) @ '':'' @ hex2 (hw ! 2) @ '':xx:xx:xx'')"

definition normalizeMobileDomain :: "string \<Rightarrow> string" where
  "normalizeMobileDomain raw =
     (let v = to_lower (trim_space raw);
          v = trim_prefix v ''http://'';
          v = trim_prefix v ''https://'';
          v = (case index_byte v CHR ''/'' of Some i \<Rightarrow> take i v | None \<Rightarrow> v);
          v = (case index_byte v CHR '':'' of Some i \<Rightarrow> take i v | None \<Rightarrow> v)
      in trim_func (\<lambda>c. c = CHR ''.'' \<or> c = CHR '' '') v)"

fun matchedMobileDomain :: "string \<Rightarrow> string list \<Rightarrow> string" where
  "matchedMobileDomain domain [] = []"
| "matchedMobileDomain domain (hint # hints) =
     (if domain = hint \<or> has_suffix domain (''.'' @ hint) then hint else matchedMobileDomain domain hints)"

definition dnsImpact :: "string list \<Rightarrow> bool \<Rightarrow> int \<times> MobileStrength" where
  "dnsImpact domains apple =
     (if length domains \<ge> 2 then (45, Medium)
      else if \<not> apple \<and> length domains = 1 \<and>
          (domains ! 0 = ''mtalk.google.com'' \<or> domains ! 0 = ''android.clients.google.com'') then (45, Medium)
      else (20, Weak))"

section \<open>The scorer\<close>

record mobileScorer =
  ms_now :: gotime
  ms_seq :: int
  ms_iosScore :: int
  ms_ipadScore :: int
  ms_androidScore :: int
  ms_evidence :: "MobileEvidenceItem list"
  ms_conflicts :: "MobileConflictItem list"
  ms_warnings :: "string list"
  ms_categories :: "MobileOS \<Rightarrow> string list"
  ms_strongCounts :: "MobileOS \<Rightarrow> int"
  ms_idsByOS :: "MobileOS \<Rightarrow> string list"
  ms_vendorIDsByOS :: "MobileOS \<Rightarrow> string list"
  ms_identityIDsByOS :: "MobileOS \<Rightarrow> string list"
  ms_randomizedMAC :: bool
  ms_onlyWeakRandomMAC :: bool
  ms_sawWeakWebOnly :: bool
  ms_sawDNS :: bool

text \<open>The zero time is replaced by the clock, which \<open>Fingerprint\<close> has read before.\<close>

definition newMobileScorer :: "gotime \<Rightarrow> mobileScorer" where
  "newMobileScorer now =
     \<lparr>ms_now = now, ms_seq = 0, ms_iosScore = 0, ms_ipadScore = 0, ms_androidScore = 0, ms_evidence = [],
      ms_conflicts = [], ms_warnings = [], ms_categories = (\<lambda>_. []), ms_strongCounts = (\<lambda>_. 0),
      ms_idsByOS = (\<lambda>_. []), ms_vendorIDsByOS = (\<lambda>_. []), ms_identityIDsByOS = (\<lambda>_. []),
      ms_randomizedMAC = False, ms_onlyWeakRandomMAC = False, ms_sawWeakWebOnly = False, ms_sawDNS = False\<rparr>"

definition ms_warn :: "string \<Rightarrow> mobileScorer \<Rightarrow> mobileScorer" where
  "ms_warn message s = s\<lparr>ms_warnings := appendUniqueString (ms_warnings s) message\<rparr>"

definition add_id :: "MobileOS \<Rightarrow> string \<Rightarrow> (MobileOS \<Rightarrow> string list) \<Rightarrow> MobileOS \<Rightarrow> string list" where
  "add_id os i ids = ids(os := appendUniqueString (ids os) i)"

definition trackCategory :: "MobileOS \<Rightarrow> string \<Rightarrow> MobileStrength \<Rightarrow> string \<Rightarrow> mobileScorer \<Rightarrow> mobileScorer" where
  "trackCategory os evidenceType strength i s =
     (if os = OS_Unknown then s
      else s\<lparr>ms_categories := (ms_categories s)(os := append_new (ms_categories s os) evidenceType),
             ms_strongCounts := (if strength = Strong then (ms_strongCounts s)(os := ms_strongCounts s os + 1)
                                 else ms_strongCounts s),
             ms_idsByOS := add_id os i (ms_idsByOS s),
             ms_vendorIDsByOS :=
               (if evidenceType \<in> {''mac_oui'', ''vendor_hint''} then add_id os i (ms_vendorIDsByOS s)
                else ms_vendorIDsByOS s),
             ms_identityIDsByOS :=
               (if evidenceType \<in> {''hostname'', ''dhcp_hostname'', ''user_agent''}
                then add_id os i (ms_identityIDsByOS s) else ms_identityIDsByOS s)\<rparr>)"

definition mobile_id :: "MobileOS \<Rightarrow> string \<Rightarrow> int \<Rightarrow> string" where
  "mobile_id os evidenceType seq =
     ''mobile-'' @ os_string os @ ''-'' @ replace_bytes [(CHR ''_'', ''-'')] evidenceType @ ''-'' @
     pad_digits 2 (nat seq)"

text \<open>\<open>addEvidence\<close>; the identifier it returns is \<open>mobile_id\<close> of the increased sequence number.\<close>

definition ms_addEvidence ::
  "MobileOS \<Rightarrow> string \<Rightarrow> string \<Rightarrow> int \<Rightarrow> MobileStrength \<Rightarrow> string \<Rightarrow> gotime \<Rightarrow> string \<Rightarrow>
   mobileScorer \<Rightarrow> mobileScorer" where
  "ms_addEvidence os evidenceType value impact strength source ts0 explanation s =
     (let ts = (if is_zero_time ts0 then ms_now s else ts0);
          i = mobile_id os evidenceType (ms_seq s + 1);
          item = \<lparr>me_ID = i, me_Type = evidenceType, me_Value = value, me_OSHint = os,
                  me_ConfidenceImpact = impact, me_Strength = strength,
                  me_Source = firstMobileSource [source, ''mobile_fingerprint''],
                  me_Timestamp = format_rfc3339 ts, me_Explanation = explanation\<rparr>
      in trackCategory os evidenceType strength i
           (s\<lparr>ms_seq := ms_seq s + 1, ms_evidence := ms_evidence s @ [item]\<rparr>))"

definition addIOS ::
  "string \<Rightarrow> string \<Rightarrow> int \<Rightarrow> MobileStrength \<Rightarrow> string \<Rightarrow> gotime \<Rightarrow> string \<Rightarrow> mobileScorer \<Rightarrow> mobileScorer" where
  "addIOS typ value impact strength source ts explanation s =
     ms_addEvidence OS_IOS typ value impact strength source ts explanation
       (s\<lparr>ms_iosScore := ms_iosScore s + impact\<rparr>)"

definition addIPad ::
  "string \<Rightarrow> string \<Rightarrow> int \<Rightarrow> MobileStrength \<Rightarrow> string \<Rightarrow> gotime \<Rightarrow> string \<Rightarrow> mobileScorer \<Rightarrow> mobileScorer" where
  "addIPad typ value impact strength source ts explanation s =
     ms_addEvidence OS_IPadOS typ value impact strength source ts explanation
       (s\<lparr>ms_ipadScore := ms_ipadScore s + impact\<rparr>)"

definition addApple ::
  "string \<Rightarrow> string \<Rightarrow> int \<Rightarrow> MobileStrength \<Rightarrow> string \<Rightarrow> gotime \<Rightarrow> string \<Rightarrow> mobileScorer \<Rightarrow> mobileScorer" where
  "addApple typ value impact strength source ts explanation s =
     (let s = s\<lparr>ms_iosScore := ms_iosScore s + impact, ms_ipadScore := ms_ipadScore s + impact\<rparr>;
          i = mobile_id OS_IOS typ (ms_seq s + 1);
          s = ms_addEvidence OS_IOS typ value impact strength source ts explanation s
      in trackCategory OS_IPadOS typ strength i s)"

definition addAndroid ::
  "string \<Rightarrow> string \<Rightarrow> int \<Rightarrow> MobileStrength \<Rightarrow> string \<Rightarrow> gotime \<Rightarrow> string \<Rightarrow> mobileScorer \<Rightarrow> mobileScorer" where
  "addAndroid typ value impact strength source ts explanation s =
     ms_addEvidence OS_Android typ value impact strength source ts explanation
       (s\<lparr>ms_androidScore := ms_androidScore s + impact\<rparr>)"

end
