(* ===== verification/Mobile_Scoring.thy ===== *)
theory Mobile_Scoring
  imports Agent_Mobile
begin

text \<open>
  \<open>agent/internal/discovery/mobile_fingerprint.go\<close>, continued: the scoring of every kind of input,
  the conflicts, the classification and its confidence, what a device and its evidence contribute,
  and \<open>ApplyMobileFingerprints\<close>.
\<close>

section \<open>Scoring one kind of input\<close>

text \<open>A case of a \<open>switch\<close> that adds one piece of evidence.\<close>

definition hostname_tokens :: "string list" where
  "hostname_tokens =
     [''android'', ''galaxy'', ''samsung'', ''redmi'', ''xiaomi'', ''pixel'', ''oneplus'', ''oppo'', ''vivo'',
      ''realme'', ''huawei'', ''honor'', ''moto'', ''motorola'', ''nothing'']"

definition evaluate_hostname :: "string \<Rightarrow> MobileObservedValue \<Rightarrow> mobileScorer \<Rightarrow> mobileScorer" where
  "evaluate_hostname evidenceType value s =
     (let raw = trim_space (mov_Value value); lower = to_lower raw;
          source = firstMobileSource [mov_Source value, evidenceType]; ts = mov_Timestamp value
      in if raw = [] then s
         else if str_contains lower ''iphone'' then
           addIOS evidenceType raw 45 Strong source ts ''Hostname explicitly contains iPhone.'' s
         else if str_contains lower ''ipad'' then
           addIPad evidenceType raw 45 Strong source ts ''Hostname explicitly contains iPad.'' s
         else if mobileContainsStandalone lower ''ios'' then
           addIOS evidenceType raw 30 Medium source ts ''Hostname contains an iOS token.'' s
         else if containsAnyMobile lower hostname_tokens then
           addAndroid evidenceType raw 45 Strong source ts
             ''Hostname contains an explicit Android or Android-vendor/model-family token.'' s
         else s)"

definition evaluateHostnames :: "MobileObservedValue list \<Rightarrow> string \<Rightarrow> mobileScorer \<Rightarrow> mobileScorer" where
  "evaluateHostnames values evidenceType s = fold (evaluate_hostname evidenceType) values s"

definition evaluate_vendor :: "string \<Rightarrow> mobileScorer \<times> (string \<times> string) list \<Rightarrow>
    mobileScorer \<times> (string \<times> string) list" where
  "evaluate_vendor vendor0 acc =
     (let vendor = trim_space vendor0; s = fst acc
      in if vendor = [] then acc
         else
           (case mobileVendorFamily vendor of
              Some OS_IOS \<Rightarrow> addApple ''vendor_hint'' vendor 20 Medium ''vendor_hint'' (ms_now s)
                ''Vendor string is Apple; this supports iOS/iPadOS only with other evidence.'' s
            | Some OS_Android \<Rightarrow> addAndroid ''vendor_hint'' vendor 20 Medium ''vendor_hint'' (ms_now s)
                ''Vendor string matches a common Android device manufacturer.'' s
            | _ \<Rightarrow> s,
            alist_set (to_lower vendor) vendor (snd acc)))"

text \<open>The vendor of an address: by its prefix, or else the first vendor whose name it contains.\<close>

definition vendor_of_mac :: "(string \<times> string) list \<Rightarrow> string \<Rightarrow> string" where
  "vendor_of_mac vendorByMAC mac =
     (let vendor = mobileOUIVendor mac
      in if vendor \<noteq> [] then vendor
         else case find (\<lambda>p. fst p \<noteq> [] \<and> str_contains (to_lower mac) (fst p)) vendorByMAC of
                Some p \<Rightarrow> snd p
              | None \<Rightarrow> [])"

definition add_family ::
  "MobileOS option \<Rightarrow> string \<Rightarrow> int \<Rightarrow> MobileStrength \<Rightarrow> string \<Rightarrow> mobileScorer \<Rightarrow> mobileScorer" where
  "add_family family value impact strength explanation s =
     (case family of
        Some OS_IOS \<Rightarrow> addApple ''mac_oui'' value impact strength ''mac_oui'' (ms_now s) explanation s
      | Some OS_Android \<Rightarrow> addAndroid ''mac_oui'' value impact strength ''mac_oui'' (ms_now s) explanation s
      | _ \<Rightarrow> s)"

definition evaluate_mac :: "(string \<times> string) list \<Rightarrow> string \<Rightarrow> mobileScorer \<Rightarrow> mobileScorer" where
  "evaluate_mac vendorByMAC rawMAC s0 =
     (let mac = trim_space rawMAC; isLocal = isLocallyAdministeredMAC mac
      in if mac = [] then s0
         else
           (let s = (if isLocal then
                       ms_warn ''MAC randomization/private Wi-Fi addresses can reduce mobile OS accuracy.''
                         (s0\<lparr>ms_randomizedMAC := True\<rparr>)
                     else s0);
                vendor = vendor_of_mac vendorByMAC mac; family = mobileVendorFamily vendor;
                value = redactMACForEvidence mac @ '' ('' @ vendor @ '')''
            in if family = None then (if isLocal then s\<lparr>ms_onlyWeakRandomMAC := True\<rparr> else s)
               else if isLocal then
                 add_family family value 8 Weak
                   (''MAC is locally administered/randomized; vendor hint '' @ quote_str vendor @
                    '' is downgraded to weak support.'')
                   (s\<lparr>ms_onlyWeakRandomMAC := True\<rparr>)
               else
                 add_family family value 35 Medium
                   (''Global MAC/OUI vendor '' @ quote_str vendor @
                    '' is a mobile vendor signal, not standalone proof.'') s))"

definition evaluateMACs :: "string list \<Rightarrow> string list \<Rightarrow> mobileScorer \<Rightarrow> mobileScorer" where
  "evaluateMACs macs vendors s0 =
     (case fold evaluate_vendor vendors (s0, []) of
        (s, vendorByMAC) \<Rightarrow> fold (evaluate_mac vendorByMAC) macs s)"

definition evaluate_vendor_hint :: "MobileObservedValue \<Rightarrow> mobileScorer \<Rightarrow> mobileScorer" where
  "evaluate_vendor_hint value s =
     (let vendor = trim_space (mov_Value value);
          source = firstMobileSource [mov_Source value, ''vendor_hint'']; ts = mov_Timestamp value
      in if vendor = [] then s
         else case mobileVendorFamily vendor of
           Some OS_IOS \<Rightarrow> addApple ''vendor_hint'' vendor 20 Medium source ts
             ''Vendor hint is Apple; it supports iOS/iPadOS only with other evidence.'' s
         | Some OS_Android \<Rightarrow> addAndroid ''vendor_hint'' vendor 20 Medium source ts
             ''Vendor hint matches a common Android device manufacturer.'' s
         | _ \<Rightarrow> s)"

definition evaluateVendorHints :: "MobileObservedValue list \<Rightarrow> mobileScorer \<Rightarrow> mobileScorer" where
  "evaluateVendorHints values s = fold evaluate_vendor_hint values s"

definition evaluate_mdns :: "MobileMDNSRecord \<Rightarrow> mobileScorer \<Rightarrow> mobileScorer" where
  "evaluate_mdns r s =
     (let combined = trim_space (str_join [mmr_Name r, mmr_Service r, mmr_Target r, str_join (mmr_Text r) '' ''] '' '');
          lower = to_lower combined; source = firstMobileSource [mmr_Source r, ''mdns'']; ts = mmr_Timestamp r
      in if combined = [] then s
         else if str_contains lower ''iphone'' then
           addIOS ''mdns'' combined 45 Strong source ts ''mDNS metadata explicitly contains iPhone.'' s
         else if str_contains lower ''ipad'' then
           addIPad ''mdns'' combined 45 Strong source ts ''mDNS metadata explicitly contains iPad.'' s
         else if containsAnyMobile lower [''_apple-mobdev2._tcp'', ''_companion-link._tcp''] then
           addApple ''mdns'' combined 30 Strong source ts ''Apple-specific Bonjour service metadata was observed.'' s
         else if containsAnyMobile lower [''_airplay._tcp'', ''_raop._tcp''] then
           addApple ''mdns'' combined 30 Medium source ts
             ''AirPlay/RAOP Bonjour service metadata supports Apple identity but is not Apple-only by itself.'' s
         else if str_contains lower ''android'' then
           addAndroid ''mdns'' combined 30 Strong source ts ''mDNS/DNS-SD metadata explicitly contains Android.'' s
         else if containsAnyMobile lower [''_googlecast._tcp'', ''chromecast''] then
           (if ms_androidScore s > 0 then
              addAndroid ''mdns'' combined 15 Medium source ts
                ''Google Cast metadata is treated as Android support only because other Android evidence exists.'' s
            else s)
         else if str_contains lower ''_services._dns-sd._udp'' \<or> str_contains lower ''_mdns'' then
           ms_warn ''mDNS/DNS-SD presence alone is not used as Apple or Android proof.'' s
         else s)"

definition evaluateMDNS :: "MobileMDNSRecord list \<Rightarrow> mobileScorer \<Rightarrow> mobileScorer" where
  "evaluateMDNS records s = fold evaluate_mdns records s"

text \<open>The hints the queried domains match, without duplicates.\<close>

definition matched_domains :: "string list \<Rightarrow> MobileObservedValue list \<Rightarrow> string list" where
  "matched_domains hints values =
     fold (\<lambda>v acc.
         let domain = normalizeMobileDomain (mov_Value v); m = matchedMobileDomain domain hints
         in if domain = [] \<or> m = [] then acc else append_new acc m) values []"

definition add_dns ::
  "(string \<Rightarrow> string \<Rightarrow> int \<Rightarrow> MobileStrength \<Rightarrow> string \<Rightarrow> gotime \<Rightarrow> string \<Rightarrow> mobileScorer \<Rightarrow> mobileScorer) \<Rightarrow>
   bool \<Rightarrow> string \<Rightarrow> string list \<Rightarrow> mobileScorer \<Rightarrow> mobileScorer" where
  "add_dns add apple explanation domains0 s0 =
     (if domains0 = [] then s0
      else
        (let s = s0\<lparr>ms_sawDNS := True\<rparr>; domains = sort_strings domains0
         in case dnsImpact domains apple of (impact, strength) \<Rightarrow>
              add ''dns_query'' (str_join domains '', '') impact strength ''passive_dns_metadata'' (ms_now s)
                explanation s))"

definition evaluateDNS :: "MobileObservedValue list \<Rightarrow> mobileScorer \<Rightarrow> mobileScorer" where
  "evaluateDNS values s0 =
     (let s = add_dns addApple True
            ''Only matched Apple OS-related domain hints are stored; DNS evidence alone cannot confirm iOS/iPadOS.''
            (matched_domains appleDomainHints values) s0;
          s = add_dns addAndroid False
            ''Only matched Android/Google service domain hints are stored; DNS evidence alone cannot confirm Android.''
            (matched_domains androidDomainHints values) s
      in if ms_sawDNS s then
           ms_warn ''Passive DNS metadata is reduced to matched OS-related domain hints; raw browsing history and packet payloads are not stored.'' s
         else s)"

text \<open>The \<open>switch\<close> of \<open>evaluateServices\<close> over the port.\<close>

definition service_port ::
  "MobileServiceObservation \<Rightarrow> string \<Rightarrow> string \<Rightarrow> string \<Rightarrow> mobileScorer \<Rightarrow> mobileScorer" where
  "service_port svc protocol nameProduct value s =
     (let port = mso_Port svc; source = firstMobileSource [mso_Source svc, ''service_port'']; ts = mso_Timestamp svc
      in if protocol = ''tcp'' \<and> (port = 5223 \<or> port = 2197) then
           addApple ''service_port'' value 25 Medium source ts
             ''APNS-related TCP port observed; this is supporting Apple evidence, not standalone proof.'' s
         else if protocol = ''udp'' \<and> port = 5353 then
           ms_warn ''UDP 5353/mDNS alone is not used as iOS or Android proof.'' s
         else if (port = 80 \<or> port = 443) \<and> (protocol = ''tcp'' \<or> protocol = ''udp'') then
           s\<lparr>ms_sawWeakWebOnly := True\<rparr>
         else if protocol = ''udp'' \<and> ((port \<ge> 3478 \<and> port \<le> 3497) \<or> (port \<ge> 16384 \<and> port \<le> 16403)) then
           (if ms_iosScore s > 0 \<or> ms_ipadScore s > 0 then
              addApple ''service_port'' value 10 Weak source ts
                ''FaceTime/Game Center related UDP range supports Apple only because other Apple evidence exists.'' s
            else s)
         else if protocol = ''tcp'' \<and> (port = 3689 \<or> port = 5000 \<or> port = 6000 \<or> port = 7000) then
           (if containsAnyMobile nameProduct [''airplay'', ''raop'', ''daap''] \<or> ms_iosScore s > 0 \<or>
               ms_ipadScore s > 0 then
              addApple ''service_port'' value 15 Medium source ts
                ''AirPlay/DAAP service metadata supports Apple identity when paired with service naming or other Apple evidence.'' s
            else s)
         else if (port = 8008 \<or> port = 8009) \<and> containsAnyMobile nameProduct [''chromecast'', ''googlecast''] then
           (if ms_androidScore s > 0 then
              addAndroid ''service_port'' value 15 Medium source ts
                ''Google Cast service metadata supports Android only because other Android evidence exists.'' s
            else s)
         else s)"

definition evaluate_service :: "MobileServiceObservation \<Rightarrow> mobileScorer \<Rightarrow> mobileScorer" where
  "evaluate_service svc s0 =
     (let protocol = to_lower (firstMobileSource [mso_Protocol svc, ''tcp'']);
          nameProduct = to_lower (trim_space (mso_Name svc @ '' '' @ mso_Product svc));
          value = protocol @ ''/'' @ itoa (mso_Port svc) @ (if mso_Name svc \<noteq> [] then '' '' @ mso_Name svc else []);
          name = trim_space (mso_Name svc @ '' '' @ mso_Product svc);
          source = firstMobileSource [mso_Source svc, ''service_name'']; ts = mso_Timestamp svc;
          s = service_port svc protocol nameProduct value s0;
          s = (if containsAnyMobile nameProduct [''airplay'', ''raop'', ''apple-mobdev2''] then
                 addApple ''service_name'' name 15 Medium source ts
                   ''Service name/product contains Apple-specific local service metadata.'' s
               else s)
      in if containsAnyMobile nameProduct [''android'', ''googlecast''] \<and> ms_androidScore s > 0 then
           addAndroid ''service_name'' name 15 Medium source ts
             ''Service name/product contains Android/Google local service metadata and is paired with other Android evidence.'' s
         else s)"

definition evaluateServices :: "MobileServiceObservation list \<Rightarrow> mobileScorer \<Rightarrow> mobileScorer" where
  "evaluateServices services s0 =
     (let s = fold evaluate_service services s0
      in if ms_sawWeakWebOnly s then
           ms_warn ''TCP/UDP 80 and 443 are common on many devices and are not used as mobile OS proof.'' s
         else s)"

definition evaluate_user_agent :: "MobileObservedValue \<Rightarrow> mobileScorer \<Rightarrow> mobileScorer" where
  "evaluate_user_agent value s =
     (let ua = trim_space (mov_Value value); lower = to_lower ua; safe = safeUserAgentValue ua;
          source = firstMobileSource [mov_Source value, ''clear_local_http_user_agent'']; ts = mov_Timestamp value
      in if ua = [] then s
         else if str_contains lower ''iphone'' then
           addIOS ''user_agent'' safe 45 Strong source ts
             ''Clear local HTTP User-Agent explicitly contains iPhone.'' s
         else if str_contains lower ''ipad'' then
           addIPad ''user_agent'' safe 45 Strong source ts
             ''Clear local HTTP User-Agent explicitly contains iPad.'' s
         else if str_contains lower ''android'' then
           addAndroid ''user_agent'' safe 45 Strong source ts
             ''Clear local HTTP User-Agent explicitly contains Android.'' s
         else s)"

definition evaluateUserAgents :: "MobileObservedValue list \<Rightarrow> mobileScorer \<Rightarrow> mobileScorer" where
  "evaluateUserAgents values s0 =
     (let s = fold evaluate_user_agent values s0
      in if values \<noteq> [] then
           ms_warn ''User-Agent evidence is only used when visible in clear local HTTP metadata; HTTPS is not decrypted or intercepted.'' s
         else s)"

definition evaluate_packet :: "MobilePassivePacket \<Rightarrow> mobileScorer \<Rightarrow> mobileScorer" where
  "evaluate_packet p s =
     (let protocol = to_lower (mpp_Protocol p); value = to_lower (mpp_Value p);
          source = firstMobileSource [mpp_Source p, ''passive_packet_metadata'']; ts = mpp_Timestamp p;
          sport = mpp_SourcePort p; dport = mpp_DestinationPort p
      in if str_contains value ''iphone'' then
           addIOS ''passive_packet'' (mpp_Value p) 30 Medium source ts
             ''Passive metadata contains iPhone without storing packet payload.'' s
         else if str_contains value ''ipad'' then
           addIPad ''passive_packet'' (mpp_Value p) 30 Medium source ts
             ''Passive metadata contains iPad without storing packet payload.'' s
         else if str_contains value ''android'' then
           addAndroid ''passive_packet'' (mpp_Value p) 30 Medium source ts
             ''Passive metadata contains Android without storing packet payload.'' s
         else if protocol = ''udp'' \<and> (sport = 5353 \<or> dport = 5353) then
           ms_warn ''Passive UDP 5353/mDNS packet metadata alone is not used as mobile OS proof.'' s
         else if sport = 443 \<or> dport = 443 \<or> sport = 80 \<or> dport = 80 then s\<lparr>ms_sawWeakWebOnly := True\<rparr>
         else s)"

definition evaluatePassivePackets :: "MobilePassivePacket list \<Rightarrow> mobileScorer \<Rightarrow> mobileScorer" where
  "evaluatePassivePackets packets s = fold evaluate_packet packets s"

section \<open>The verdict\<close>

definition hasWarningMobileConflict :: "MobileConflictItem list \<Rightarrow> bool" where
  "hasWarningMobileConflict conflicts = list_ex (\<lambda>c. mc_Severity c = ''warning'') conflicts"

definition conflict_key :: "MobileConflictItem \<Rightarrow> string" where
  "conflict_key c =
     mc_Reason c @ ''|'' @ str_join (mc_IOSEvidenceIDs c) '','' @ ''|'' @ str_join (mc_AndroidEvidenceIDs c) '',''"

definition addConflict ::
  "string \<Rightarrow> string list \<Rightarrow> string list \<Rightarrow> string \<Rightarrow> string \<Rightarrow> mobileScorer \<Rightarrow> mobileScorer" where
  "addConflict reason iosIDs androidIDs severity hint s =
     (if iosIDs = [] \<and> androidIDs = [] then s
      else if list_ex (\<lambda>c. conflict_key c =
          reason @ ''|'' @ str_join iosIDs '','' @ ''|'' @ str_join androidIDs '','') (ms_conflicts s) then s
      else s\<lparr>ms_conflicts := ms_conflicts s @
             [\<lparr>mc_Reason = reason, mc_IOSEvidenceIDs = sortedUnique iosIDs,
               mc_AndroidEvidenceIDs = sortedUnique androidIDs, mc_Severity = severity,
               mc_ResolutionHint = hint\<rparr>]\<rparr>)"

definition detectConflicts :: "mobileScorer \<Rightarrow> mobileScorer" where
  "detectConflicts s0 =
     (let appleIDs = sortedUnique (ms_idsByOS s0 OS_IOS @ ms_idsByOS s0 OS_IPadOS);
          androidIDs = sortedUnique (ms_idsByOS s0 OS_Android);
          s = (if max (ms_iosScore s0) (ms_ipadScore s0) \<ge> 60 \<and> ms_androidScore s0 \<ge> 60 then
                 addConflict ''iOS/iPadOS and Android scores are both high.'' appleIDs androidIDs ''warning''
                   ''Review hostname, vendor/OUI, mDNS, DNS, and user-agent evidence before assigning a mobile OS.'' s0
               else s0);
          appleIdentity = sortedUnique (ms_identityIDsByOS s OS_IOS @ ms_identityIDsByOS s OS_IPadOS);
          androidIdentity = sortedUnique (ms_identityIDsByOS s OS_Android);
          appleVendor = sortedUnique (ms_vendorIDsByOS s OS_IOS @ ms_vendorIDsByOS s OS_IPadOS);
          androidVendor = sortedUnique (ms_vendorIDsByOS s OS_Android);
          s = (if appleIdentity \<noteq> [] \<and> androidVendor \<noteq> [] then
                 addConflict ''Hostname/User-Agent says Apple mobile, but vendor/OUI suggests Android.''
                   appleIdentity androidVendor ''warning''
                   ''Treat as conflicting until a second independent source agrees.'' s
               else s)
      in if androidIdentity \<noteq> [] \<and> appleVendor \<noteq> [] then
           addConflict ''Hostname/User-Agent says Android, but vendor/OUI suggests Apple.''
             appleVendor androidIdentity ''warning''
             ''Treat as conflicting until a second independent source agrees.'' s
         else s)"

definition dnsOnly :: "MobileOS \<Rightarrow> mobileScorer \<Rightarrow> bool" where
  "dnsOnly os s = (length (ms_categories s os) = 1 \<and> ''dns_query'' \<in> set (ms_categories s os))"

definition macOnlyRandomized :: "MobileOS \<Rightarrow> mobileScorer \<Rightarrow> bool" where
  "macOnlyRandomized os s =
     (ms_randomizedMAC s \<and> length (ms_categories s os) = 1 \<and> ''mac_oui'' \<in> set (ms_categories s os))"

definition scoreForOS :: "MobileOS \<Rightarrow> mobileScorer \<Rightarrow> int" where
  "scoreForOS os s =
     (if os = OS_IPadOS then ms_ipadScore s else if os = OS_Android then ms_androidScore s else ms_iosScore s)"

definition osRank :: "MobileOS \<Rightarrow> nat" where
  "osRank os = (case os of OS_IOS \<Rightarrow> 0 | OS_IPadOS \<Rightarrow> 1 | OS_Android \<Rightarrow> 2 | OS_Unknown \<Rightarrow> 3)"

definition os_before :: "MobileOS \<times> int \<Rightarrow> MobileOS \<times> int \<Rightarrow> bool" where
  "os_before a b = (if snd a \<noteq> snd b then snd a > snd b else osRank (fst a) < osRank (fst b))"

definition top_candidate :: "mobileScorer \<Rightarrow> MobileOS \<times> int" where
  "top_candidate s =
     hd (sort_by os_before
       [(OS_IOS, ms_iosScore s), (OS_IPadOS, ms_ipadScore s), (OS_Android, ms_androidScore s)])"

definition classificationForOS :: "MobileOS \<Rightarrow> int \<Rightarrow> mobileScorer \<Rightarrow> MobileClass" where
  "classificationForOS os score s =
     (let firm = (length (ms_categories s os) \<ge> 2 \<and> \<not> dnsOnly os s \<and> \<not> macOnlyRandomized os s)
      in if score \<ge> 85 \<and> ms_strongCounts s os \<ge> 2 \<and> firm then confirmedClass os
         else if score \<ge> 70 \<and> firm then probableClass os
         else if score \<ge> 45 \<or> dnsOnly os s then possibleClass os
         else UnknownMobile)"

definition chooseClassification :: "mobileScorer \<Rightarrow> MobileClass" where
  "chooseClassification s =
     (if ms_conflicts s \<noteq> [] \<and> hasWarningMobileConflict (ms_conflicts s) then MobileConflict
      else if max (ms_iosScore s) (ms_ipadScore s) \<ge> 60 \<and> ms_androidScore s \<ge> 60 then MobileConflict
      else
        (let top = top_candidate s
         in if snd top = 0 then UnknownDevice
            else if snd top < 45 \<and> \<not> dnsOnly (fst top) s then UnknownMobile
            else classificationForOS (fst top) (snd top) s))"

definition clampMobile :: "float64 \<Rightarrow> float64 \<Rightarrow> float64 \<Rightarrow> float64" where
  "clampMobile value low high = (if value < low then low else if value > high then high else value)"

definition confidenceFor :: "MobileClass \<Rightarrow> mobileScorer \<Rightarrow> float64" where
  "confidenceFor c s =
     (let top = max (ms_androidScore s) (max (ms_iosScore s) (ms_ipadScore s));
          ratio = fdiv (of_int top) 100
      in if c = MobileConflict then flit (50 / 100)
         else if c \<in> {ConfirmedIOS, ConfirmedIPadOS, ConfirmedAndroid} then
           clampMobile ratio (flit (85 / 100)) (flit (98 / 100))
         else if c \<in> {ProbableIOS, ProbableIPadOS, ProbableAndroid} then
           clampMobile ratio (flit (70 / 100)) (flit (84 / 100))
         else if c \<in> {PossibleIOS, PossibleIPadOS, PossibleAndroid} then
           clampMobile ratio (flit (45 / 100)) (flit (69 / 100))
         else if c = UnknownMobile then flit (25 / 100)
         else 0)"

definition displayMobileOS :: "MobileOS \<Rightarrow> string" where
  "displayMobileOS os =
     (case os of OS_Android \<Rightarrow> ''Android'' | OS_IPadOS \<Rightarrow> ''iPadOS'' | OS_IOS \<Rightarrow> ''iOS'' | OS_Unknown \<Rightarrow> ''Mobile OS'')"

definition pluralY :: "nat \<Rightarrow> string" where
  "pluralY n = (if n = 1 then ''y'' else ''ies'')"

definition MobileOSHint :: "MobileClass \<Rightarrow> MobileOS" where
  "MobileOSHint c =
     (if c \<in> {ConfirmedIOS, ProbableIOS, PossibleIOS} then OS_IOS
      else if c \<in> {ConfirmedIPadOS, ProbableIPadOS, PossibleIPadOS} then OS_IPadOS
      else if c \<in> {ConfirmedAndroid, ProbableAndroid, PossibleAndroid} then OS_Android
      else OS_Unknown)"

definition MobileDeviceTypeHint :: "MobileFingerprint \<Rightarrow> string list \<Rightarrow> string" where
  "MobileDeviceTypeHint fp names =
     (case MobileOSHint (mf_Classification fp) of
        OS_IOS \<Rightarrow> ''phone''
      | OS_IPadOS \<Rightarrow> ''tablet''
      | OS_Android \<Rightarrow>
          (if mobileNameContains names [''tablet'', '' tab'', ''-tab'', ''pad'', ''lenovo tab''] then ''tablet''
           else if mf_Classification fp = PossibleAndroid then ''unknown''
           else ''phone'')
      | OS_Unknown \<Rightarrow> ''unknown'')"

definition whyThisClassification :: "MobileClass \<Rightarrow> mobileScorer \<Rightarrow> string" where
  "whyThisClassification c s =
     (if c = MobileConflict then
        ''Apple/iOS and Android evidence both exist, so the classifier surfaces the conflict instead of forcing one OS.''
      else if c = UnknownDevice then
        ''No explicit mobile OS evidence was observed from hostname, vendor/OUI, service metadata, DNS hints, or clear local HTTP metadata.''
      else if c = UnknownMobile then
        ''Some weak mobile-related metadata was observed, but it is below the threshold for a possible OS classification.''
      else
        (let os = MobileOSHint c; n = length (ms_categories s os)
         in displayMobileOS os @ '' evidence reached score '' @ itoa (scoreForOS os s) @ '' using '' @
            nat_digits n @ '' evidence categor'' @ pluralY n @ ''.''))"

definition whyNotCertain :: "MobileClass \<Rightarrow> string" where
  "whyNotCertain c =
     (if c \<in> {ConfirmedIOS, ConfirmedIPadOS, ConfirmedAndroid} then
        ''Confirmed means strong local metadata agrees; it is still not a hardware attestation and can be affected by private MAC addresses or shared services.''
      else if c \<in> {ProbableIOS, ProbableIPadOS, ProbableAndroid} then
        ''The evidence spans multiple categories, but it lacks enough strong independent direct evidence for a confirmed result.''
      else if c \<in> {PossibleIOS, PossibleIPadOS, PossibleAndroid} then
        ''The evidence points toward this OS, but it is weak, single-category, DNS-only, or otherwise insufficient for probable classification.''
      else if c = MobileConflict then
        ''Conflicting hostname, vendor, DNS, or service evidence needs user review or additional passive observations.''
      else
        ''Open web ports, mDNS presence, random high ports, latency, TTL, PTR, public IP, ASN, and generic traffic metadata are not enough to identify a mobile OS.'')"

definition mobile_evidence_before :: "MobileEvidenceItem \<Rightarrow> MobileEvidenceItem \<Rightarrow> bool" where
  "mobile_evidence_before a b =
     (if me_Strength a \<noteq> me_Strength b
      then mobileStrengthRank (me_Strength a) < mobileStrengthRank (me_Strength b)
      else str_less (me_ID a) (me_ID b))"

definition sortedMobileEvidence :: "MobileEvidenceItem list \<Rightarrow> MobileEvidenceItem list" where
  "sortedMobileEvidence values = sort_by mobile_evidence_before values"

definition finish :: "mobileScorer \<Rightarrow> MobileFingerprint" where
  "finish s0 =
     (let s = detectConflicts s0; c = chooseClassification s
      in \<lparr>mf_Classification = c, mf_IOSScore = ms_iosScore s, mf_AndroidScore = ms_androidScore s,
          mf_IPadScore = ms_ipadScore s, mf_Confidence = confidenceFor c s,
          mf_Evidence = sortedMobileEvidence (ms_evidence s), mf_Conflicts = ms_conflicts s,
          mf_Warnings = sortedUnique (ms_warnings s), mf_LastUpdatedAt = format_rfc3339 (ms_now s),
          mf_WhyThisClassification = whyThisClassification c s, mf_WhyNotCertain = whyNotCertain c\<rparr>)"

text \<open>\<open>Fingerprint\<close>: a zero timestamp of the input is replaced by the engine's clock.\<close>

definition score_input :: "MobileFingerprintInput \<Rightarrow> mobileScorer \<Rightarrow> mobileScorer" where
  "score_input i s =
     evaluatePassivePackets (mi_PassivePackets i) (evaluateUserAgents (mi_UserAgents i)
       (evaluateServices (mi_Services i) (evaluateDNS (mi_DNSQueries i) (evaluateMDNS (mi_MDNSRecords i)
         (evaluateVendorHints (mi_VendorHints i) (evaluateMACs (mi_MACAddresses i) (mi_OUIVendors i)
           (evaluateHostnames (mi_DHCPHostnames i) ''dhcp_hostname''
             (evaluateHostnames (mi_Hostnames i) ''hostname'' s))))))))"

definition Fingerprint :: "gotime \<Rightarrow> MobileFingerprintInput \<Rightarrow> MobileFingerprint" where
  "Fingerprint clock i =
     (let ts = (if is_zero_time (mi_Timestamp i) then clock else mi_Timestamp i)
      in finish (score_input i (newMobileScorer ts)))"

section \<open>What a device contributes\<close>

definition deviceIPStrings :: "Device \<Rightarrow> string set" where
  "deviceIPStrings device =
     set (filter (\<lambda>ip. ip \<noteq> []) (map ipa_IP (dev_Addresses device) @ concat (map dif_IPs (dev_Interfaces device))))"

definition evidenceMatchesDevice :: "Evidence \<Rightarrow> string \<Rightarrow> string set \<Rightarrow> string set \<Rightarrow> bool" where
  "evidenceMatchesDevice ev deviceID ips evidenceIDs =
     ((tev_ID ev \<noteq> [] \<and> tev_ID ev \<in> evidenceIDs) \<or>
      list_ex (\<lambda>key. data_get (tev_Data ev) key \<in> ips)
        [''ip'', ''target'', ''host'', ''gateway'', ''source_ip'', ''destination_ip''] \<or>
      (deviceID \<noteq> [] \<and>
       (data_get (tev_Data ev) ''device_id'' = deviceID \<or> data_get (tev_Data ev) ''target_id'' = deviceID)))"

text \<open>The steps of \<open>applyEvidenceToMobileInput\<close>, one per kind of evidence.\<close>

definition evidence_service :: "Evidence \<Rightarrow> string \<Rightarrow> gotime \<Rightarrow> int \<Rightarrow> MobileServiceObservation" where
  "evidence_service ev source ts port =
     \<lparr>mso_Port = port, mso_Protocol = firstMobileSource [data_get (tev_Data ev) ''protocol'', ''tcp''],
      mso_Name = data_get (tev_Data ev) ''service'', mso_Product = data_get (tev_Data ev) ''product'',
      mso_Source = source, mso_Timestamp = ts\<rparr>"

definition evidence_mdns :: "Evidence \<Rightarrow> string \<Rightarrow> gotime \<Rightarrow> MobileMDNSRecord" where
  "evidence_mdns ev source ts =
     (let get = firstMapValue (tev_Data ev)
      in \<lparr>mmr_Name = get [''name'', ''instance'', ''hostname''],
          mmr_Service = get [''service'', ''service_type'', ''type''], mmr_Target = get [''target'', ''host''],
          mmr_Text = splitMobileList (get [''txt'', ''text'']), mmr_Source = source, mmr_Timestamp = ts\<rparr>)"

definition evidence_packet :: "Evidence \<Rightarrow> string \<Rightarrow> gotime \<Rightarrow> MobilePassivePacket" where
  "evidence_packet ev source ts =
     (let get = firstMapValue (tev_Data ev)
      in \<lparr>mpp_Protocol = to_lower (data_get (tev_Data ev) ''protocol''),
          mpp_SourcePort = parseMobilePort (data_get (tev_Data ev) ''source_port''),
          mpp_DestinationPort = parseMobilePort (get [''destination_port'', ''dest_port'', ''port'']),
          mpp_Value = get [''service'', ''summary'', ''metadata''], mpp_Source = source, mpp_Timestamp = ts\<rparr>)"

definition applyEvidenceToMobileInput :: "Evidence \<Rightarrow> MobileFingerprintInput \<Rightarrow> MobileFingerprintInput" where
  "applyEvidenceToMobileInput ev i0 =
     (let kind = to_lower (tev_Kind ev @ '' '' @ tev_Source ev); has = str_contains kind;
          ts = (if is_zero_time (tev_Timestamp ev) then mi_Timestamp i0 else tev_Timestamp ev);
          source = firstMobileSource [tev_Source ev, tev_Kind ev]; get = firstMapValue (tev_Data ev);
          i = (if has ''dhcp'' then
                 i0\<lparr>mi_DHCPHostnames := appendObserved (mi_DHCPHostnames i0)
                      (get [''hostname'', ''host_name'', ''name'']) source ts\<rparr>
               else i0);
          i = (if has ''reverse_dns'' \<or> has ''llmnr'' \<or> has ''nbns'' \<or> has ''netbios'' then
                 i\<lparr>mi_Hostnames := appendObserved (mi_Hostnames i) (get [''hostname'', ''name'', ''host'']) source ts\<rparr>
               else i);
          i = (if has ''mdns'' then i\<lparr>mi_MDNSRecords := mi_MDNSRecords i @ [evidence_mdns ev source ts]\<rparr> else i);
          i = (if has ''dns'' then
                 i\<lparr>mi_DNSQueries := fold (\<lambda>key qs. appendObserved qs (data_get (tev_Data ev) key) source ts)
                     [''domain'', ''query'', ''qname'', ''hostname'', ''name''] (mi_DNSQueries i)\<rparr>
               else i);
          i = (if has ''http'' \<or> has ''user_agent'' then
                 i\<lparr>mi_UserAgents := appendObserved (mi_UserAgents i) (get [''user_agent'', ''ua'']) source ts\<rparr>
               else i);
          i = (if has ''tcp'' \<or> has ''udp'' \<or> has ''nmap'' then
                 i\<lparr>mi_Services := mi_Services i @ map (evidence_service ev source ts)
                     (parseMobilePorts (get [''ports'', ''open_ports'', ''port'']))\<rparr>
               else i)
      in if has ''passive'' \<or> has ''packet'' then
           i\<lparr>mi_PassivePackets := mi_PassivePackets i @ [evidence_packet ev source ts]\<rparr>
         else i)"

definition device_service :: "gotime \<Rightarrow> Service \<Rightarrow> MobileServiceObservation" where
  "device_service now svc =
     \<lparr>mso_Port = svc_Port svc, mso_Protocol = svc_Protocol svc, mso_Name = svc_Name svc,
      mso_Product = svc_Product svc, mso_Source = ''device_service'', mso_Timestamp = now\<rparr>"

definition mobileInputFromDevice :: "Device \<Rightarrow> Evidence list \<Rightarrow> gotime \<Rightarrow> MobileFingerprintInput" where
  "mobileInputFromDevice device evidence now =
     (let i = mobile_input (dev_ID device) now;
          i = i\<lparr>mi_Hostnames := fold (\<lambda>h hs. appendObserved hs h ''device_hostname'' now)
                 (dev_Hostname device # dev_Hostnames device) [],
                mi_MACAddresses := foldl appendUniqueString []
                  (dev_MAC device # map dif_MAC (dev_Interfaces device)),
                mi_OUIVendors := foldl appendUniqueString []
                  (dev_OUIVendor device # map dif_Vendor (dev_Interfaces device)),
                mi_VendorHints := appendObserved [] (dev_Vendor device) ''device_vendor'' now,
                mi_Services := map (device_service now) (dev_Services device)\<rparr>
      in fold applyEvidenceToMobileInput
           (filter (\<lambda>ev. evidenceMatchesDevice ev (dev_ID device) (deviceIPStrings device)
              (stringSet (dev_EvidenceIDs device))) evidence) i)"

text \<open>\<open>clock\<close> is the engine's clock, which \<open>ApplyMobileFingerprints\<close> sets to its \<open>now\<close> unless that is zero.\<close>

definition FingerprintDevice :: "gotime \<Rightarrow> Device \<Rightarrow> Evidence list \<Rightarrow> MobileFingerprint" where
  "FingerprintDevice clock device evidence = Fingerprint clock (mobileInputFromDevice device evidence clock)"

definition apply_fingerprint :: "gotime \<Rightarrow> Evidence list \<Rightarrow> Device \<Rightarrow> Device" where
  "apply_fingerprint clock evidence d =
     (let fp = FingerprintDevice clock d evidence
      in d\<lparr>dev_MobileFingerprint := Some fp, dev_OSHint := os_string (MobileOSHint (mf_Classification fp)),
           dev_OSConfidence := mf_Confidence fp,
           dev_DeviceTypeHint := MobileDeviceTypeHint fp (dev_Hostname d # dev_Hostnames d)\<rparr>)"

definition ApplyMobileFingerprints :: "gotime \<Rightarrow> Device list \<Rightarrow> Evidence list \<Rightarrow> gotime \<Rightarrow> Device list" where
  "ApplyMobileFingerprints time_now devices evidence now =
     map (apply_fingerprint (if is_zero_time now then time_now else now) evidence) devices"

end
