(* ===== verification/Host_Discovery.thy ===== *)
theory Host_Discovery
  imports Scan_Scope Go_Regexp Mobile_Scoring
begin

text \<open>
  \<open>agent/internal/discovery/hosts.go\<close>, \<open>arp.go\<close> and \<open>normalize.go\<close>: which hosts of a scope answer,
  the table of known neighbours, and the device made of what was observed of one address. Dialing,
  the output of \<open>arp\<close> and \<open>ip neigh\<close>, and reverse DNS are arguments.
\<close>

section \<open>The sweep\<close>

record HostHit =
  hh_IP :: string
  hh_Alive :: bool
  hh_OpenPorts :: "int list"

definition profilePorts :: "string \<Rightarrow> int list" where
  "profilePorts profile =
     (if profile = ''deep'' \<or> profile = ''full'' then
        [21, 22, 23, 25, 53, 80, 81, 88, 110, 111, 135, 139, 143, 443, 445,
         515, 554, 587, 631, 993, 995, 1883, 1900, 2869, 3389, 5000, 5060,
         5357, 5900, 7547, 8000, 8080, 8081, 8123, 8200, 8443, 8843, 9000,
         9100, 32400, 49152, 62078]
      else if profile = ''normal'' \<or> profile = ''standard'' then
        [22, 23, 53, 80, 135, 139, 443, 445, 3389, 5357, 7547, 8080, 8443]
      else [22, 53, 80, 135, 443, 445, 3389])"

text \<open>
  \<open>dial ip port\<close> is whether a connection to the port succeeds; after a cancellation every dial fails.
\<close>

definition probeHost :: "(string \<Rightarrow> int \<Rightarrow> bool) \<Rightarrow> string \<Rightarrow> int list \<Rightarrow> HostHit" where
  "probeHost dial ip ports =
     (let openPorts = filter (dial ip) ports
      in \<lparr>hh_IP = ip, hh_Alive = (openPorts \<noteq> []), hh_OpenPorts = openPorts\<rparr>)"

definition collectAlive :: "HostHit list \<Rightarrow> HostHit list" where
  "collectAlive hits = map (\<lambda>h. h\<lparr>hh_OpenPorts := sort (hh_OpenPorts h)\<rparr>) (filter hh_Alive hits)"

text \<open>
  The goroutines write to slots of their own and the sweep waits for all of them, so their order does
  not matter. \<open>started\<close> is the number of hosts whose probe was started before a cancellation.
\<close>

record TCPSweeper =
  tsw_Profile :: string
  tsw_Concurrency :: int

definition Sweep :: "TCPSweeper \<Rightarrow> (string \<Rightarrow> int \<Rightarrow> bool) \<Rightarrow> nat option \<Rightarrow> LanScope \<Rightarrow> HostHit list" where
  "Sweep s dial started scope =
     (let hosts = HostsInScope scope;
          ports = (if scp_Profile scope = [] then profilePorts (tsw_Profile s) else profilePorts (scp_Profile scope));
          probed = (case started of None \<Rightarrow> hosts | Some n \<Rightarrow> take n hosts)
      in if hosts = [] then [] else collectAlive (map (\<lambda>ip. probeHost dial ip ports) probed))"

text \<open>
  \<open>itoa\<close> of \<open>hosts.go\<close>: the decimal digits, written from the back into a buffer of six bytes. A seventh digit
  is an index out of range, and a negative number has no digits at all. \<open>None\<close> is a panic.
\<close>

fun itoa_loop :: "nat \<Rightarrow> int \<Rightarrow> string \<Rightarrow> string option" where
  "itoa_loop i n b =
     (if n \<le> 0 then Some b
      else case i of 0 \<Rightarrow> None | Suc i \<Rightarrow> itoa_loop i (n div 10) (digit_char (nat (n mod 10)) # b))"

declare itoa_loop.simps [simp del]

lemma itoa_loop_0: "n \<le> 0 \<Longrightarrow> itoa_loop i n b = Some b"
  by (simp add: itoa_loop.simps)

lemma itoa_loop_None: "itoa_loop i n b = None \<longleftrightarrow> 10 ^ i \<le> n"
proof (induction i arbitrary: n b)
  case (Suc i)
  have "(10 ^ i \<le> n div 10) = (10 ^ Suc i \<le> n)"
    by (simp, linarith)
  moreover have "\<not> 10 ^ Suc i \<le> n" if "n \<le> 0" using that by (smt (verit) zero_less_power)
  ultimately show ?case using Suc.IH by (subst itoa_loop.simps) auto
qed (subst itoa_loop.simps, auto)

definition port_itoa :: "int \<Rightarrow> string option" where
  "port_itoa n = (if n = 0 then Some ''0'' else itoa_loop 6 n [])"

section \<open>The neighbour table\<close>

record ARPEntry =
  arp_IP :: string
  arp_MAC :: string

text \<open>\<open>\d{1,3}\<close>: a run of one to three digits that is not continued (a dot or a boundary follows).\<close>

definition run_upto :: "nat \<Rightarrow> (char \<Rightarrow> bool) \<Rightarrow> string \<Rightarrow> (string \<times> string) option" where
  "run_upto n P s =
     (let w = takeWhile P s in if w = [] \<or> length w > n then None else Some (w, drop (length w) s))"

fun match_ipv4 :: "nat \<Rightarrow> string \<Rightarrow> string option" where
  "match_ipv4 0 s = None"
| "match_ipv4 (Suc n) s =
     (case run_upto 3 is_digit s of
        None \<Rightarrow> None
      | Some (w, rest) \<Rightarrow>
          if n = 0 then (if at_word_end rest then Some w else None)
          else case rest of
            c # cs \<Rightarrow> if c = CHR ''.'' then map_option (\<lambda>t. w @ ''.'' @ t) (match_ipv4 n cs) else None
          | [] \<Rightarrow> None)"

definition is_hex :: "char \<Rightarrow> bool" where
  "is_hex c = (hex_val c \<noteq> None)"

fun match_mac :: "nat \<Rightarrow> string \<Rightarrow> string option" where
  "match_mac 0 s = None"
| "match_mac (Suc n) s =
     (if n = 0 then
        (let w = take 2 (takeWhile is_hex s)
         in if w \<noteq> [] \<and> at_word_end (drop (length w) s) then Some w else None)
      else
        case run_upto 2 is_hex s of
          None \<Rightarrow> None
        | Some (w, rest) \<Rightarrow>
            (case rest of
               c # cs \<Rightarrow> if c = CHR '':'' \<or> c = CHR ''-'' then map_option (\<lambda>t. w @ c # t) (match_mac n cs) else None
             | [] \<Rightarrow> None))"

text \<open>\<open>fmt.Sscanf(p, "%x", &v)\<close> on the octets of a match: hexadecimal digits only.\<close>

definition scan_hex :: "string \<Rightarrow> nat option" where
  "scan_hex p =
     (if p = [] \<or> \<not> list_all is_hex p then None
      else Some (foldl (\<lambda>v c. 16 * v + (case hex_val c of Some d \<Rightarrow> d | None \<Rightarrow> 0)) 0 p))"

definition normalizeMAC :: "string \<Rightarrow> string option" where
  "normalizeMAC raw =
     (let sep = (if CHR ''-'' \<in> set raw then CHR ''-'' else CHR '':''); parts = str_split sep raw
      in if length parts \<noteq> 6 then None
         else if list_ex (\<lambda>p. length p = 0 \<or> length p > 2 \<or> scan_hex (to_lower p) = None) parts then None
         else
           (let vs = map (\<lambda>p. case scan_hex (to_lower p) of Some v \<Rightarrow> v | None \<Rightarrow> 0) parts
            in if list_all (\<lambda>v. v = 255) vs \<or> list_all (\<lambda>v. v = 0) vs then None
               else Some (str_join (map (\<lambda>v. hex2 (of_nat v)) vs) '':'')))"

definition parse_arp_line :: "string \<Rightarrow> ARPEntry option" where
  "parse_arp_line line =
     (case find_word (match_ipv4 4) False line of
        None \<Rightarrow> None
      | Some ip \<Rightarrow>
          (case find_word (match_mac 6) False line of
             None \<Rightarrow> None
           | Some m \<Rightarrow> map_option (\<lambda>mac. \<lparr>arp_IP = ip, arp_MAC = mac\<rparr>) (normalizeMAC m)))"

fun add_arp_line :: "ARPEntry list \<Rightarrow> string list \<Rightarrow> ARPEntry list" where
  "add_arp_line out [] = out"
| "add_arp_line out (line # rest) =
     (case parse_arp_line line of
        None \<Rightarrow> add_arp_line out rest
      | Some e \<Rightarrow>
          add_arp_line (if arp_IP e \<in> arp_IP ` set out then out else out @ [e]) rest)"

definition ParseARPTable :: "string \<Rightarrow> ARPEntry list" where
  "ParseARPTable output = add_arp_line [] (str_split (CHR 10) output)"

text \<open>\<open>OSARPReader.Read\<close>: the outputs of \<open>arp -a\<close> and \<open>ip neigh\<close>, \<open>None\<close> for a command that failed.\<close>

fun OSARPReader_Read :: "string option list \<Rightarrow> ARPEntry list" where
  "OSARPReader_Read [] = []"
| "OSARPReader_Read (out # rest) =
     (case out of
        None \<Rightarrow> OSARPReader_Read rest
      | Some text \<Rightarrow> if ParseARPTable text \<noteq> [] then ParseARPTable text else OSARPReader_Read rest)"

definition trimDot :: "string \<Rightarrow> string" where
  "trimDot s = (if s \<noteq> [] \<and> last s = CHR ''.'' then butlast s else s)"

text \<open>\<open>NetResolver.LookupAddr\<close> on the names the system's resolver returns, \<open>None\<close> for an error.\<close>

definition NetResolver_LookupAddr :: "(string \<Rightarrow> string list option) \<Rightarrow> string \<Rightarrow> string" where
  "NetResolver_LookupAddr names ip =
     (case names ip of Some (n # _) \<Rightarrow> trimDot n | _ \<Rightarrow> [])"

section \<open>Devices\<close>

definition devID :: "string \<Rightarrow> string" where
  "devID ip = ''dev-'' @ ip"

definition commonServiceName :: "int \<Rightarrow> string" where
  "commonServiceName p =
     (case map_of
        [(22, ''ssh''), (23, ''telnet''), (25, ''smtp''), (53, ''domain''), (80, ''http''), (110, ''pop3''),
         (135, ''msrpc''), (139, ''netbios-ssn''), (143, ''imap''), (443, ''https''), (445, ''microsoft-ds''),
         (587, ''submission''), (993, ''imaps''), (995, ''pop3s''), (1883, ''mqtt''), (3389, ''ms-wbt-server''),
         (5000, ''upnp''), (5060, ''sip''), (5357, ''wsdapi''), (7547, ''cwmp''), (8080, ''http-proxy''),
         (8443, ''https-alt''), (8843, ''https-alt''), (9000, ''http-alt''), (49152, ''upnp'')] p of
        Some name \<Rightarrow> name
      | None \<Rightarrow> [])"

definition isIPv6 :: "string \<Rightarrow> bool" where
  "isIPv6 ip = (CHR '':'' \<in> set ip)"

definition ipAddress :: "string \<Rightarrow> IPAddress" where
  "ipAddress ip = \<lparr>ipa_IP = ip, ipa_Version = (if isIPv6 ip then 6 else 4), ipa_CIDR = []\<rparr>"

definition joinStrings :: "string list \<Rightarrow> string \<Rightarrow> string" where
  "joinStrings parts sep = str_join parts sep"

definition deviceConfidence :: "Device \<Rightarrow> bool \<Rightarrow> float64" where
  "deviceConfidence d alive =
     (let c = (if dev_IsAgent d then flit (95 / 100)
               else if dev_IsGateway d then flit (90 / 100)
               else if alive then flit (70 / 100)
               else flit (50 / 100));
          c = (if dev_Interfaces d \<noteq> [] then fadd c (flit (5 / 100)) else c);
          c = (if dev_Hostname d \<noteq> [] then fadd c (flit (5 / 100)) else c)
      in if c > 1 then 1 else c)"

text \<open>
  The parts of \<open>Normalizer.Device\<close>: each adds a record to the store and its identifier to the device. \<open>None\<close> is
  the panic of \<open>itoa\<close> on an open port.
\<close>

type_synonym device_state = "Device \<times> string list \<times> EvidenceStore"

definition sweep_part :: "string \<Rightarrow> bool \<Rightarrow> int list \<Rightarrow> device_state \<Rightarrow> device_state option" where
  "sweep_part ip alive openPorts st =
     (case st of (d, ids, s) \<Rightarrow>
        if alive \<and> openPorts \<noteq> [] then
          map_option (\<lambda>ports.
            (case store_Add EvidenceTCPConnect ''tcp_sweep''
                (ip @ '' accepted TCP connections on '' @ nat_digits (length openPorts) @ '' port(s).'')
                [(''ip'', ip), (''ports'', joinStrings ports '','')] s of
              (i, s) \<Rightarrow>
                (d\<lparr>dev_Services := dev_Services d @ map (\<lambda>p.
                     \<lparr>svc_Port = p, svc_Protocol = ''tcp'', svc_State = ''open'', svc_Name = commonServiceName p,
                      svc_Product = [], svc_EvidenceIDs = [i]\<rparr>) openPorts\<rparr>, ids @ [i], s)))
            (those (map port_itoa openPorts))
        else Some (d, ids, s))"

definition mac_part :: "string \<Rightarrow> string \<Rightarrow> device_state \<Rightarrow> device_state" where
  "mac_part ip mac st =
     (case st of (d, ids, s) \<Rightarrow>
        if mac \<noteq> [] then
          (case store_Add EvidenceARPTable ''arp_table''
              (ip @ '' resolved to MAC '' @ mac @ '' in the neighbour table.'') [(''ip'', ip), (''mac'', mac)] s of
            (i, s) \<Rightarrow>
              (d\<lparr>dev_Interfaces := dev_Interfaces d @ [\<lparr>dif_MAC = mac, dif_Vendor = [], dif_IPs = [ip]\<rparr>]\<rparr>,
               ids @ [i], s))
        else (d, ids, s))"

definition dns_part :: "(string \<Rightarrow> string) option \<Rightarrow> string \<Rightarrow> device_state \<Rightarrow> device_state" where
  "dns_part resolver ip st =
     (case (resolver, st) of
        (None, _) \<Rightarrow> st
      | (Some lookup, (d, ids, s)) \<Rightarrow>
          if lookup ip \<noteq> [] then
            (case store_Add EvidenceReverseDNS ''reverse_dns''
                (ip @ '' reverse-resolves to '' @ lookup ip @ ''.'') [(''ip'', ip), (''hostname'', lookup ip)] s of
              (i, s) \<Rightarrow> (d\<lparr>dev_Hostname := lookup ip\<rparr>, ids @ [i], s))
          else st)"

definition Normalizer_Device ::
  "(string \<Rightarrow> string) option \<Rightarrow> string \<Rightarrow> bool \<Rightarrow> int list \<Rightarrow> string \<Rightarrow> bool \<Rightarrow> bool \<Rightarrow> string list \<Rightarrow>
   EvidenceStore \<Rightarrow> (Device \<times> EvidenceStore) option" where
  "Normalizer_Device resolver ip alive openPorts mac isAgent isGateway extraEvidence s0 =
     (let d0 = empty_device\<lparr>dev_ID := devID ip, dev_IsAgent := isAgent, dev_IsGateway := isGateway,
            dev_Addresses := [ipAddress ip]\<rparr>
      in map_option (\<lambda>st.
           (case dns_part resolver ip (mac_part ip mac st) of
             (d, ids, s) \<Rightarrow>
               (let d = d\<lparr>dev_EvidenceIDs := sortedUnique ids\<rparr>
                in (d\<lparr>dev_Confidence := deviceConfidence d alive\<rparr>, s))))
           (sweep_part ip alive openPorts (d0, extraEvidence, s0)))"

record ScannedHost =
  sh_IP :: string
  sh_MAC :: string
  sh_Hostname :: string
  sh_Services :: "Service list"

definition service_key :: "Service \<Rightarrow> string option" where
  "service_key sv = map_option (\<lambda>p. svc_Protocol sv @ '':'' @ p) (port_itoa (svc_Port sv))"

definition service_before :: "Service \<Rightarrow> Service \<Rightarrow> bool" where
  "service_before a b =
     (if svc_Port a \<noteq> svc_Port b then svc_Port a < svc_Port b else str_less (svc_Protocol a) (svc_Protocol b))"

text \<open>
  The loop of \<open>attachNmap\<close> over the services of the scan; the map of keys holds exactly the services kept.
  \<open>None\<close> is the panic of \<open>itoa\<close>.
\<close>

definition add_service :: "string \<Rightarrow> Service \<Rightarrow> Service list \<Rightarrow> Service list option" where
  "add_service i sv services =
     map_option (\<lambda>k.
       if Some k \<in> service_key ` set services then services
       else services @ [sv\<lparr>svc_EvidenceIDs := svc_EvidenceIDs sv @ [i]\<rparr>]) (service_key sv)"

fun add_services :: "string \<Rightarrow> Service list \<Rightarrow> Service list \<Rightarrow> Service list option" where
  "add_services i [] services = Some services"
| "add_services i (sv # svs) services = Option.bind (add_service i sv services) (add_services i svs)"

definition attachNmap :: "ScannedHost \<Rightarrow> Device \<times> EvidenceStore \<Rightarrow> (Device \<times> EvidenceStore) option" where
  "attachNmap h ds =
     (case ds of (d, s0) \<Rightarrow>
       Option.bind (port_itoa (int (length (sh_Services h)))) (\<lambda>n.
         case store_Add EvidenceNmap ''nmap''
           (''Nmap reported '' @ nat_digits (length (sh_Services h)) @ '' open service(s) on '' @ sh_IP h @ ''.'')
           [(''ip'', sh_IP h), (''services'', n)] s0 of
         (i, s) \<Rightarrow>
           if list_ex (\<lambda>sv. service_key sv = None) (dev_Services d) then None
           else map_option (\<lambda>services.
             (d\<lparr>dev_Services := sort_by service_before services,
                dev_Hostname := (if dev_Hostname d = [] \<and> sh_Hostname h \<noteq> [] then sh_Hostname h else dev_Hostname d),
                dev_EvidenceIDs := sortedUnique (dev_EvidenceIDs d @ [i])\<rparr>, s))
             (add_services i (sh_Services h) (dev_Services d))))"

end
