(* ===== verification/Discovery_Run.thy ===== *)
theory Discovery_Run
  imports Host_Discovery
begin

text \<open>
  \<open>agent/internal/discovery/discovery.go\<close>: the pipeline of the topology scan. \<open>discover\<close> asks every source
  for the hosts of the scope, \<open>buildDevices\<close> makes a device of each, \<open>buildRouteHops\<close> and
  \<open>sameSubnetPeers\<close> say how they connect, and \<open>Run\<close> puts the report together. The collaborators a
  caller may inject are fields of \<open>Options\<close>; what the defaults of the collaborators read from the
  system is in \<open>Environment\<close>. Go maps that are iterated over are association lists.
\<close>

section \<open>Options\<close>

text \<open>
  \<open>None\<close> is a nil collaborator. A reader of the neighbour table gives \<open>None\<close> on an error; a service
  scanner says whether it is available and gives \<open>None\<close> on an error; a gateway function gives \<open>None\<close> on
  an error or a nil address.
\<close>

record Options =
  opt_RequestedCIDR :: string
  opt_Profile :: string
  opt_AllowPublic :: bool
  opt_InterfaceName :: string
  opt_IncludeVirtual :: bool
  opt_Version :: string
  opt_Hostname :: string
  opt_OS :: string
  opt_Sweeper :: "(LanScope \<Rightarrow> HostHit list) option"
  opt_ARPReader :: "ARPEntry list option option"
  opt_ARPSweeper :: "(LanScope \<Rightarrow> ARPEntry list) option"
  opt_Resolver :: "(string \<Rightarrow> string) option"
  opt_Service :: "(bool \<times> (LanScope \<Rightarrow> ScannedHost list option)) option"
  opt_GatewayFn :: "net_ip option option"
  opt_DNSFn :: "string list option"
  opt_GatewayChain :: "string list"

text \<open>
  The system: its interfaces (\<open>None\<close> when listing them fails), which dials succeed and how many hosts
  were started before a cancellation, the ARP sweep of the platform, the outputs of the neighbour
  commands, the names of an address, the local time printed in a scan id, and the clock.
\<close>

record Environment =
  env_Interfaces :: "OSInterface list option"
  env_Dial :: "string \<Rightarrow> int \<Rightarrow> bool"
  env_Started :: "nat option"
  env_ARPSweep :: "LanScope \<Rightarrow> ARPEntry list"
  env_ARPOutputs :: "string option list"
  env_Names :: "string \<Rightarrow> string list option"
  env_Stamp :: "gotime \<Rightarrow> string"
  env_Clock :: "nat \<Rightarrow> gotime"
  env_TimeNow :: gotime

definition sweeper :: "Environment \<Rightarrow> Options \<Rightarrow> LanScope \<Rightarrow> HostHit list" where
  "sweeper env opts =
     (case opt_Sweeper opts of
        Some f \<Rightarrow> f
      | None \<Rightarrow>
          (let conc = (if opt_Profile opts \<in> {''deep'', ''full''} then 256
                       else if opt_Profile opts \<in> {''normal'', ''standard''} then 128
                       else 64)
           in Sweep \<lparr>tsw_Profile = opt_Profile opts, tsw_Concurrency = conc\<rparr> (env_Dial env) (env_Started env)))"

definition arpReader :: "Environment \<Rightarrow> Options \<Rightarrow> ARPEntry list option" where
  "arpReader env opts =
     (case opt_ARPReader opts of Some r \<Rightarrow> r | None \<Rightarrow> Some (OSARPReader_Read (env_ARPOutputs env)))"

definition arpSweeper :: "Environment \<Rightarrow> Options \<Rightarrow> LanScope \<Rightarrow> ARPEntry list" where
  "arpSweeper env opts = (case opt_ARPSweeper opts of Some f \<Rightarrow> f | None \<Rightarrow> env_ARPSweep env)"

definition resolver :: "Environment \<Rightarrow> Options \<Rightarrow> string \<Rightarrow> string" where
  "resolver env opts = (case opt_Resolver opts of Some f \<Rightarrow> f | None \<Rightarrow> NetResolver_LookupAddr (env_Names env))"

definition gateway :: "Options \<Rightarrow> net_ip option" where
  "gateway opts = (case opt_GatewayFn opts of None \<Rightarrow> None | Some r \<Rightarrow> r)"

definition nonEmpty :: "string \<Rightarrow> string list" where
  "nonEmpty s = (if s = [] then [] else [s])"

definition ipv4ToUint :: "string \<Rightarrow> uint32 option" where
  "ipv4ToUint s = (case Option.bind (parse_ip s) to4 of Some b \<Rightarrow> Some (be_uint32 b) | None \<Rightarrow> None)"

definition ip_before :: "string \<Rightarrow> string \<Rightarrow> bool" where
  "ip_before a b =
     (case (ipv4ToUint a, ipv4ToUint b) of
        (Some x, Some y) \<Rightarrow> x < y
      | _ \<Rightarrow> str_less a b)"

section \<open>Host discovery\<close>

definition srcTCP :: string where "srcTCP = ''tcp''"
definition srcARPSweep :: string where "srcARPSweep = ''arp_sweep''"
definition srcARPTable :: string where "srcARPTable = ''arp_table''"
definition srcNmap :: string where "srcNmap = ''nmap''"
definition srcSelf :: string where "srcSelf = ''self''"
definition srcGateway :: string where "srcGateway = ''gateway''"

record sweepResult =
  swr_hits :: "HostHit list"
  swr_arp :: "ARPEntry list"
  swr_scanned :: "ScannedHost list"
  swr_sources :: "(string \<times> string list) list"

definition sources_of :: "(string \<times> string list) list \<Rightarrow> string \<Rightarrow> string list" where
  "sources_of sources ip = (case map_of sources ip of Some ss \<Rightarrow> ss | None \<Rightarrow> [])"

definition addSource :: "string \<Rightarrow> string \<Rightarrow> sweepResult \<Rightarrow> sweepResult" where
  "addSource ip src r =
     (if ip = [] then r
      else if src \<in> set (sources_of (swr_sources r) ip) then r
      else r\<lparr>swr_sources := alist_set ip (sources_of (swr_sources r) ip @ [src]) (swr_sources r)\<rparr>)"

text \<open>The two loops that fill \<open>arpByIP\<close>; the sources are recorded along the way.\<close>

definition add_swept :: "LanScope \<Rightarrow> ARPEntry \<Rightarrow> (string \<times> string) list \<times> sweepResult \<Rightarrow>
    (string \<times> string) list \<times> sweepResult" where
  "add_swept scope e acc =
     (if \<not> InScope scope (arp_IP e) then acc
      else (alist_set (arp_IP e) (arp_MAC e) (fst acc), addSource (arp_IP e) srcARPSweep (snd acc)))"

definition add_table :: "LanScope \<Rightarrow> ARPEntry \<Rightarrow> (string \<times> string) list \<times> sweepResult \<Rightarrow>
    (string \<times> string) list \<times> sweepResult" where
  "add_table scope e acc =
     (if \<not> InScope scope (arp_IP e) then acc
      else (if data_get (fst acc) (arp_IP e) = [] then alist_set (arp_IP e) (arp_MAC e) (fst acc) else fst acc,
            addSource (arp_IP e) srcARPTable (snd acc)))"

definition add_scanned :: "LanScope \<Rightarrow> ScannedHost \<Rightarrow> sweepResult \<Rightarrow> sweepResult" where
  "add_scanned scope h r =
     (if InScope scope (sh_IP h)
      then addSource (sh_IP h) srcNmap (r\<lparr>swr_scanned := swr_scanned r @ [h]\<rparr>) else r)"

definition discover :: "Environment \<Rightarrow> Options \<Rightarrow> LanScope \<Rightarrow> sweepResult" where
  "discover env opts scope =
     (let res = \<lparr>swr_hits = [], swr_arp = [], swr_scanned = [], swr_sources = []\<rparr>;
          hits = (if scp_HostCount scope > 0 then sweeper env opts scope else []);
          res = fold (\<lambda>h. addSource (hh_IP h) srcTCP) hits (res\<lparr>swr_hits := hits\<rparr>);
          swept = (if scp_HostCount scope > 0 then arpSweeper env opts scope else []);
          acc = fold (add_swept scope) swept ([], res);
          acc = (case arpReader env opts of None \<Rightarrow> acc | Some table \<Rightarrow> fold (add_table scope) table acc);
          arp = sort_by (\<lambda>a b. ip_before (arp_IP a) (arp_IP b))
                  (map (\<lambda>p. \<lparr>arp_IP = fst p, arp_MAC = snd p\<rparr>) (fst acc));
          res = (snd acc)\<lparr>swr_arp := arp\<rparr>
      in case opt_Service opts of
           Some (True, scan) \<Rightarrow>
             (case scan scope of Some hosts \<Rightarrow> fold (add_scanned scope) hosts res | None \<Rightarrow> res)
         | _ \<Rightarrow> res)"

section \<open>Devices\<close>

definition reachabilityState :: "bool \<Rightarrow> bool \<Rightarrow> bool \<Rightarrow> bool \<Rightarrow> bool \<Rightarrow> string" where
  "reachabilityState isAgent isGateway tcpOpen hasNmap hasMAC =
     (if isAgent then ''self''
      else if isGateway \<or> tcpOpen \<or> hasNmap then ''reachable''
      else if hasMAC then ''arp_only''
      else ''unknown'')"

text \<open>A map built in a loop keeps the last value of a key.\<close>

definition last_with :: "('a \<Rightarrow> string) \<Rightarrow> 'a list \<Rightarrow> string \<Rightarrow> 'a option" where
  "last_with key xs ip = find (\<lambda>x. key x = ip) (rev xs)"

record BuildContext =
  bc_Resolver :: "(string \<Rightarrow> string) option"
  bc_PrimaryMAC :: string
  bc_AgentIP :: string
  bc_GatewayIP :: string
  bc_GatewayEvID :: string
  bc_Result :: sweepResult
  bc_Now :: gotime

text \<open>\<open>None\<close> is a panic, here and below.\<close>

definition build_device :: "BuildContext \<Rightarrow> string \<Rightarrow> EvidenceStore \<Rightarrow> (Device \<times> EvidenceStore) option" where
  "build_device c ip s0 =
     (let res = bc_Result c;
          hit = last_with hh_IP (swr_hits res) ip;
          alive0 = (case hit of Some h \<Rightarrow> hh_Alive h | None \<Rightarrow> False);
          openPorts = (case hit of Some h \<Rightarrow> hh_OpenPorts h | None \<Rightarrow> []);
          isAgent = (ip = bc_AgentIP c); isGateway = (ip = bc_GatewayIP c);
          extra = (if isGateway \<and> bc_GatewayEvID c \<noteq> [] then [bc_GatewayEvID c] else []);
          mac = (case last_with arp_IP (swr_arp res) ip of Some e \<Rightarrow> arp_MAC e | None \<Rightarrow> []);
          mac = (if isAgent \<and> mac = [] then bc_PrimaryMAC c else mac);
          scan = last_with sh_IP (swr_scanned res) ip; hasScan = (scan \<noteq> None);
          mac = (case scan of Some h \<Rightarrow> (if mac = [] then sh_MAC h else mac) | None \<Rightarrow> mac);
          alive = (alive0 \<or> isAgent \<or> isGateway \<or> hasScan);
          ds = Normalizer_Device (bc_Resolver c) ip alive openPorts mac isAgent isGateway extra s0
      in map_option (\<lambda>(d, s).
             (d\<lparr>dev_DiscoverySources := sources_of (swr_sources res) ip, dev_MAC := mac,
                dev_Reachability := reachabilityState isAgent isGateway (alive \<and> openPorts \<noteq> []) hasScan (mac \<noteq> []),
                dev_Hostnames := (if dev_Hostname d \<noteq> [] then [dev_Hostname d] else dev_Hostnames d),
                dev_FirstSeen := bc_Now c, dev_LastSeen := bc_Now c\<rparr>, s))
           (Option.bind ds (\<lambda>ds. case scan of Some h \<Rightarrow> attachNmap h ds | None \<Rightarrow> Some ds)))"

fun build_each :: "BuildContext \<Rightarrow> string list \<Rightarrow> EvidenceStore \<Rightarrow> (Device list \<times> EvidenceStore) option" where
  "build_each c [] s = Some ([], s)"
| "build_each c (ip # ips) s =
     Option.bind (build_device c ip s) (\<lambda>(d, s). map_option (\<lambda>(ds, s). (d # ds, s)) (build_each c ips s))"

text \<open>
  \<open>buildDevices\<close>: the result record it takes shares its map of sources with the caller's, which
  sees the sources added here, so it is returned.
\<close>

definition buildDevices ::
  "(string \<Rightarrow> string) option \<Rightarrow> InterfaceInfo \<Rightarrow> string \<Rightarrow> string \<Rightarrow> string \<Rightarrow> sweepResult \<Rightarrow> gotime \<Rightarrow>
   EvidenceStore \<Rightarrow> (Device list \<times> string \<times> string \<times> sweepResult \<times> EvidenceStore) option" where
  "buildDevices lookup primary agentIP gatewayIP gatewayEvID res0 now s0 =
     (let res = addSource gatewayIP srcGateway (addSource agentIP srcSelf res0);
          ordered = sort_by ip_before (filter (\<lambda>ip. ip \<noteq> []) (map fst (swr_sources res)));
          c = \<lparr>bc_Resolver = lookup, bc_PrimaryMAC = ifc_MAC primary, bc_AgentIP = agentIP,
               bc_GatewayIP = gatewayIP, bc_GatewayEvID = gatewayEvID, bc_Result = res, bc_Now = now\<rparr>
      in map_option (\<lambda>(devices, s).
           (devices, (if agentIP \<noteq> [] then devID agentIP else []),
            (if gatewayIP \<noteq> [] then devID gatewayIP else []), res, s)) (build_each c ordered s0))"

definition countSrc :: "sweepResult \<Rightarrow> string set \<Rightarrow> nat" where
  "countSrc res want = length (filter (\<lambda>p. \<exists>s \<in> set (snd p). s \<in> want) (swr_sources res))"

definition buildDiscoverySummary :: "LanScope \<Rightarrow> sweepResult \<Rightarrow> nat \<Rightarrow> int \<Rightarrow> DiscoverySummary" where
  "buildDiscoverySummary scope res deviceCount durMS =
     \<lparr>dsum_CIDR = scp_CIDR scope, dsum_AddressesScanned = scp_HostCount scope,
      dsum_DevicesFound = int deviceCount, dsum_ARPFound = int (countSrc res {srcARPSweep, srcARPTable}),
      dsum_TCPFound = int (countSrc res {srcTCP}), dsum_NmapFound = int (countSrc res {srcNmap}),
      dsum_ScanDurationMS = durMS\<rparr>"

definition sameSubnetPeers :: "Device list \<Rightarrow> string \<Rightarrow> string \<Rightarrow> string \<Rightarrow> string list" where
  "sameSubnetPeers devices cidr agentID gatewayID =
     (if cidr = [] then []
      else case parse_cidr cidr of
        None \<Rightarrow> []
      | Some (_, ipnet) \<Rightarrow>
          map dev_ID (filter (\<lambda>d. dev_ID d \<noteq> agentID \<and> dev_ID d \<noteq> gatewayID \<and>
            list_ex (\<lambda>a. case parse_ip (ipa_IP a) of Some ip \<Rightarrow> net_contains ipnet ip | None \<Rightarrow> False)
              (dev_Addresses d)) devices))"

text \<open>The loop of \<open>buildRouteHops\<close> over consecutive hops.\<close>

fun route_hops :: "string set \<Rightarrow> string \<Rightarrow> string list \<Rightarrow> RouteHop list" where
  "route_hops known i (a # b # rest) =
     (if devID a \<notin> known \<or> devID b \<notin> known then route_hops known i (b # rest)
      else \<lparr>hop_FromID = devID a, hop_ToID = devID b, hop_EvidenceIDs = [i]\<rparr> # route_hops known i (b # rest))"
| "route_hops known i _ = []"

definition buildRouteHops :: "string list \<Rightarrow> Device list \<Rightarrow> EvidenceStore \<Rightarrow> RouteHop list \<times> EvidenceStore" where
  "buildRouteHops chain devices s0 =
     (if length chain < 2 then ([], s0)
      else case store_Add EvidenceGatewayRoute ''gateway_chain''
          ''A multi-hop private gateway chain was observed (possible router-behind-router).''
          [(''chain'', joinStrings chain '' -> '')] s0 of
        (i, s) \<Rightarrow> (route_hops (set (map dev_ID devices)) i chain, s))"

section \<open>Run\<close>

datatype RunError = Listing_Interfaces | Refused ScopeError | Run_Panicked

text \<open>\<open>Duration.Milliseconds\<close>: truncated towards zero.\<close>

definition milliseconds :: "duration \<Rightarrow> int" where
  "milliseconds d = (if d < 0 then - ((- d) div millisecond) else d div millisecond)"

definition no_gateway_warning :: Warning where
  "no_gateway_warning =
     \<lparr>wrn_Code = warnNoGateway, wrn_Severity = SeverityInfo,
      wrn_Message = ''No default gateway was detected; gateway/default edges will be absent.''\<rparr>"

definition inferred_warning :: Warning where
  "inferred_warning =
     \<lparr>wrn_Code = warnInferredOnly, wrn_Severity = SeverityInfo,
      wrn_Message = ''Topology is inferred from routing and subnet membership only. No LLDP/CDP/SNMP evidence was available, so physical links are not proven.''\<rparr>"

definition gateway_ip :: "Options \<Rightarrow> string" where
  "gateway_ip opts = (case gateway opts of Some gw \<Rightarrow> ip_string gw | None \<Rightarrow> [])"

text \<open>The choice of the interface.\<close>

definition choose_interface ::
  "Options \<Rightarrow> InterfaceInfo list \<Rightarrow> ScopeError + (InterfaceInfo \<times> InterfaceInfo list)" where
  "choose_interface opts ifaces =
     (if opt_InterfaceName opts \<noteq> [] then
        (case FindByName ifaces (opt_InterfaceName opts) of
           None \<Rightarrow> Inl (Interface_Not_Found (opt_InterfaceName opts))
         | Some r \<Rightarrow> Inr r)
      else
        (case SelectPrimary ifaces (gateway_ip opts) (opt_IncludeVirtual opts) of
           None \<Rightarrow> Inl No_Suitable_Interface
         | Some r \<Rightarrow> Inr r))"

text \<open>The evidence of the interface and of the gateway; the second identifier is empty without one.\<close>

definition context_evidence :: "InterfaceInfo \<Rightarrow> string \<Rightarrow> EvidenceStore \<Rightarrow> string \<times> EvidenceStore" where
  "context_evidence primary gatewayIP s0 =
     (let agentIP = primaryIPv4 primary;
          s = snd (store_Add EvidenceInterface ''interface_probe''
            (''Selected interface '' @ ifc_Name primary @ '' ('' @ agentIP @ '') on '' @ ifc_CIDR primary @ ''.'')
            [(''interface'', ifc_Name primary), (''cidr'', ifc_CIDR primary), (''ip'', agentIP)] s0)
      in if gatewayIP \<noteq> [] then
           store_Add EvidenceGatewayRoute ''gateway_probe''
             (''Default route points to gateway '' @ gatewayIP @ ''.'') [(''gateway'', gatewayIP)] s
         else ([], s))"

text \<open>
  The part of \<open>Run\<close> from host discovery on, for an accepted scope: the devices, the build result, the
  summary of the discovery and the store.
\<close>

definition run_pipeline ::
  "Environment \<Rightarrow> Options \<Rightarrow> InterfaceInfo \<Rightarrow> LanScope \<Rightarrow> EvidenceStore \<Rightarrow>
   (BuildResult \<times> DiscoverySummary \<times> EvidenceStore) option" where
  "run_pipeline env opts primary scope s0 =
     (let gatewayIP = gateway_ip opts
      in case context_evidence primary gatewayIP s0 of (gatewayEvID, s) \<Rightarrow>
        case read_clock s of (discStart, s) \<Rightarrow>
        (let res = discover env opts scope
         in case read_clock s of (now, s) \<Rightarrow>
            map_option (\<lambda>(devices, agentDevID, gatewayDevID, res, s).
            case read_clock s of (discEnd, s) \<Rightarrow>
            (let summary = buildDiscoverySummary scope res (length devices) (milliseconds (discEnd - discStart));
                 l2peers = sameSubnetPeers devices (ifc_CIDR primary) agentDevID gatewayDevID
             in case buildRouteHops (opt_GatewayChain opts) devices s of (routeHops, s) \<Rightarrow>
                 (Build \<lparr>bi_AgentID = agentDevID, bi_GatewayID = gatewayDevID, bi_Devices = devices,
                    bi_GatewayRouteEvidenceIDs = nonEmpty gatewayEvID, bi_RouteHops = routeHops,
                    bi_L2Peers = l2peers, bi_Neighbors = []\<rparr>, summary, s)))
              (buildDevices (Some (resolver env opts)) primary (primaryIPv4 primary) gatewayIP gatewayEvID res now s)))"

definition Run :: "Environment \<Rightarrow> Options \<Rightarrow> RunError + ScanReport" where
  "Run env opts =
     (case read_clock (NewEvidenceStore (env_Clock env)) of (start, s) \<Rightarrow>
      case env_Interfaces env of
        None \<Rightarrow> Inl Listing_Interfaces
      | Some os \<Rightarrow>
        case choose_interface opts (Interfaces os) of
          Inl e \<Rightarrow> Inl (Refused e)
        | Inr (primary, ifaces) \<Rightarrow>
          case ParseScope (opt_RequestedCIDR opts) (opt_Profile opts) (opt_AllowPublic opts) primary of
            (scope, warnings, Some e) \<Rightarrow> Inl (Refused e)
          | (scope, warnings, None) \<Rightarrow>
            case run_pipeline env opts primary scope s of
              None \<Rightarrow> Inl Run_Panicked
            | Some (build, summary, s) \<Rightarrow>
            (let warnings = warnings @ (if gateway_ip opts = [] then [no_gateway_warning] else []) @
                   (if br_InferredOnly build \<and> br_Edges build \<noteq> [] then [inferred_warning] else []);
                 evidence = Records s
             in case read_clock s of (now, s) \<Rightarrow>
                case read_clock s of (finished, s) \<Rightarrow>
                (let devices = ApplyMobileFingerprints (env_TimeNow env) (br_Devices build) evidence now
                 in Inr \<lparr>rep_SchemaVersion = TopologyReportSchema, rep_ScanID = ''topo_'' @ env_Stamp env start,
                      rep_CreatedAt = start,
                      rep_Agent = \<lparr>agi_Version = opt_Version opts, agi_Hostname = opt_Hostname opts,
                        agi_OS = opt_OS opts, agi_Gateway = gateway_ip opts,
                        agi_DNSServers = (case opt_DNSFn opts of Some dns \<Rightarrow> dns | None \<Rightarrow> []),
                        agi_Interfaces = ifaces\<rparr>,
                      rep_Scope = scope, rep_Devices = devices, rep_Edges = br_Edges build,
                      rep_Evidence = evidence, rep_EvidenceRegistry = [], rep_Warnings = warnings,
                      rep_Summary = \<lparr>sum_DeviceCount = int (length devices),
                        sum_EdgeCount = int (length (br_Edges build)),
                        sum_EvidenceCount = int (length evidence),
                        sum_HighConfidenceEdges = int (br_HighConfidenceEdges build),
                        sum_InferredOnly = br_InferredOnly build, sum_Profile = scp_Profile scope,
                        sum_DurationMS = milliseconds (finished - start)\<rparr>,
                      rep_DiscoverySummary = Some summary, rep_Topology = None\<rparr>)))"

end
