(* ===== verification/Scope_Laws.thy ===== *)
theory Scope_Laws
  imports Scan_Scope Candidates
begin

text \<open>
  Laws of the scan scope: masking as arithmetic on the value of an address, the hosts of an accepted
  scope, and the contract of what sweeps a scope.
\<close>

unbundle bit_operations_syntax

section \<open>Masking\<close>

text \<open>The value of a big-endian byte string.\<close>

fun val :: "byte list \<Rightarrow> nat" where
  "val [] = 0"
| "val (b # bs) = unat b * 256 ^ length bs + val bs"

lemma val_less: "val bs < 256 ^ length bs"
proof (induction bs)
  case (Cons b bs)
  have "unat b * 256 ^ length bs + 256 ^ length bs \<le> 256 * 256 ^ length bs"
    using unat_byte_less [of b] mult_le_mono1 [of "unat b + 1" 256 "256 ^ length bs"]
    by (simp add: add_mult_distrib)
  with Cons show ?case unfolding val.simps length_Cons power_Suc by linarith
qed simp

lemma val_inj: "length xs = length ys \<Longrightarrow> val xs = val ys \<Longrightarrow> xs = ys"
proof (induction xs ys rule: list_induct2)
  case (Cons x xs y ys)
  have len: "256 ^ length xs = (256 :: nat) ^ length ys" using Cons by simp
  have "unat x = val (x # xs) div 256 ^ length xs" "unat y = val (y # ys) div 256 ^ length ys"
    "val xs = val (x # xs) mod 256 ^ length xs" "val ys = val (y # ys) mod 256 ^ length ys"
    using val_less [of xs] val_less [of ys] by simp_all
  then have "unat x = unat y" "val xs = val ys" using Cons.prems len by metis+
  with Cons.IH show ?case by (simp add: word_unat_eq_iff)
qed simp

lemma and_not_mask: "(b :: byte) AND NOT (mask k) = push_bit k (drop_bit k b)"
  by (rule bit_eqI) (auto simp: bit_simps)

lemma mask_byte:
  assumes "k < 8"
  shows "unat (b AND NOT (drop_bit k (0xff :: byte))) = unat b div 2 ^ (8 - k) * 2 ^ (8 - k)"
proof -
  have "k \<in> {0, 1, 2, 3, 4, 5, 6, 7}" using assms by auto
  then have m: "drop_bit k (0xff :: byte) = mask (8 - k)"
    by (auto simp: mask_eq_exp_minus_1)
  have "unat b div 2 ^ (8 - k) * 2 ^ (8 - k) \<le> unat b" by simp
  then have less: "unat b div 2 ^ (8 - k) * 2 ^ (8 - k) < 256" using unat_byte_less [of b] by linarith
  have "take_bit 8 (unat b) = unat b" using unat_byte_less [of b] by (simp add: take_bit_nat_eq_self_iff)
  then have "unat (push_bit j (drop_bit j b)) = take_bit 8 (push_bit j (drop_bit j (unat b)))" for j
    by (simp only: unsigned_push_bit_eq unsigned_drop_bit_eq) simp
  with less show ?thesis
    unfolding m and_not_mask by (simp add: push_bit_eq_mult drop_bit_eq_div take_bit_eq_mod)
qed

lemma byte_zero_mask [simp]: "(b :: byte) AND - 256 = 0"
proof -
  have "(- 256 :: byte) = 0" by code_simp
  then show ?thesis by (simp only: and_zero_eq)
qed

lemma val_zero_mask: "val (map2 (AND) bs (cidr_mask 0 (length bs))) = 0"
proof -
  have "NOT (drop_bit 0 0xff) = (0 :: byte)" by simp
  then show ?thesis by (induction bs) simp_all
qed

lemma add_multiple_div: "(0 :: nat) < m \<Longrightarrow> (k * m + v) div m * m = k * m + v div m * m"
  by (simp add: div_mult_self3 add_mult_distrib)

lemma val_mask:
  "n \<le> 8 * length bs \<Longrightarrow>
   val (mask_ip bs n) = val bs div 2 ^ (8 * length bs - n) * 2 ^ (8 * length bs - n)"
proof (induction bs arbitrary: n)
  case (Cons b bs)
  let ?l = "length bs"
  show ?case
  proof (cases "8 \<le> n")
    case True
    let ?h = "8 * ?l - (n - 8)"
    have h: "8 * length (b # bs) - n = ?h" using True by simp
    have "?h \<le> 8 * ?l" by simp
    then have "256 ^ ?l = 2 ^ (8 * ?l - ?h) * (2 :: nat) ^ ?h"
      using power_mult [of "2 :: nat" 8 ?l] by (simp add: power_add [symmetric])
    then have m: "unat b * 256 ^ ?l = (unat b * 2 ^ (8 * ?l - ?h)) * 2 ^ ?h" by simp
    have "val (mask_ip (b # bs) n) = unat b * 256 ^ ?l + val (mask_ip bs (n - 8))"
      using True by (simp add: mask_ip_def)
    also have "\<dots> = unat b * 256 ^ ?l + val bs div 2 ^ ?h * 2 ^ ?h"
      using Cons.IH [of "n - 8"] Cons.prems True by simp
    also have "\<dots> = val (b # bs) div 2 ^ ?h * 2 ^ ?h"
      unfolding val.simps m by (rule add_multiple_div [symmetric]) simp
    finally show ?thesis unfolding h .
  next
    case False
    have h: "8 * length (b # bs) - n = 8 * ?l + (8 - n)" using False by simp
    have p: "(2 :: nat) ^ (8 * ?l + (8 - n)) = 256 ^ ?l * 2 ^ (8 - n)" by (simp add: power_add power_mult)
    have "val (mask_ip (b # bs) n) = unat b div 2 ^ (8 - n) * 2 ^ (8 - n) * 256 ^ ?l"
      using False by (simp add: mask_ip_def mask_byte val_zero_mask)
    also have "\<dots> = val (b # bs) div (256 ^ ?l * 2 ^ (8 - n)) * (256 ^ ?l * 2 ^ (8 - n))"
      using val_less [of bs] by (simp add: div_mult2_eq)
    finally show ?thesis unfolding h p .
  qed
qed (simp add: mask_ip_def)

lemma val_v4: "length b = 4 \<Longrightarrow> unat (be_uint32 b) = val b"
  by (auto elim!: length4E simp: unat_be_uint32)

lemma val_put_uint32: "val (put_uint32 v) = unat v"
  by (metis be_put_uint32 length_put_uint32 val_v4)

text \<open>A host of a masked network is masked back to it.\<close>

lemma mask_host:
  assumes "length b = 4" "n \<le> 32" "i < 2 ^ (32 - n)"
  shows "mask_ip (put_uint32 (be_uint32 (mask_ip b n) + of_nat i)) n = mask_ip b n"
    "unat (be_uint32 (mask_ip b n) + of_nat i) = val (mask_ip b n) + i"
proof -
  let ?h = "32 - n" and ?B = "val (mask_ip b n)"
  have B: "?B = val b div 2 ^ ?h * 2 ^ ?h" using val_mask [of n b] assms(1,2) by simp
  have "?B + i < 2 ^ 32"
  proof -
    have "val b < 2 ^ n * 2 ^ ?h"
      using val_less [of b] assms(1,2) by (simp add: power_add [symmetric])
    then have "val b div 2 ^ ?h < 2 ^ n" by (simp add: less_mult_imp_div_less)
    then have "(val b div 2 ^ ?h + 1) * 2 ^ ?h \<le> 2 ^ n * 2 ^ ?h" by (intro mult_le_mono1) simp
    also have "\<dots> = (2 :: nat) ^ 32" using assms(2) by (simp add: power_add [symmetric])
    finally show ?thesis using assms(3) B by simp
  qed
  then have "(?B + i) mod 4294967296 = ?B + i" "i mod 4294967296 = i" by simp_all
  then show u: "unat (be_uint32 (mask_ip b n) + of_nat i) = ?B + i"
    using assms(1) by (simp add: unat_word_ariths unat_of_nat_uint32 val_v4)
  have "val (mask_ip (put_uint32 (be_uint32 (mask_ip b n) + of_nat i)) n) = (?B + i) div 2 ^ ?h * 2 ^ ?h"
    using val_mask [of n "put_uint32 (be_uint32 (mask_ip b n) + of_nat i)"] assms(2)
    by (simp add: val_put_uint32 u)
  also have "\<dots> = ?B" unfolding B using assms(3) by (simp add: add_multiple_div)
  finally show "mask_ip (put_uint32 (be_uint32 (mask_ip b n) + of_nat i)) n = mask_ip b n"
    using assms(1) by (intro val_inj) simp_all
qed

section \<open>The network of an accepted scope\<close>

lemma cidr_mask_prefix: "8 * k \<le> n \<Longrightarrow> cidr_mask n (k + m) = replicate k 0xff @ cidr_mask (n - 8 * k) m"
proof (induction k arbitrary: n)
  case (Suc k)
  then show ?case using Suc.IH [of "n - 8"] by (simp add: algebra_simps)
qed simp

lemma map2_and_ff [simp]: "map2 (AND) (xs :: byte list) (replicate (length xs) 0xff) = xs"
  by (induction xs) simp_all

lemma mask_ip_prefix:
  assumes "8 * length xs \<le> n"
  shows "mask_ip (xs @ ys) n = xs @ mask_ip ys (n - 8 * length xs)"
  using assms by (simp add: mask_ip_def cidr_mask_prefix)

text \<open>The IPv4 network in a scope.\<close>

definition scope_net :: "LanScope \<Rightarrow> IPNet \<Rightarrow> bool" where
  "scope_net scope n =
     (length (net_addr n) = 4 \<and> net_ones n \<le> 32 \<and> mask_ip (net_addr n) (net_ones n) = net_addr n \<and>
      scp_CIDR scope = net_string n \<and> scp_HostCount scope = Scan_Scope.hostCount (net_ones n) 32 \<and>
      scp_HostCount scope \<le> maxScanHosts \<and> scp_Private scope = isPrivateIP (net_addr n))"

lemma isPrivateIP_mapped: "length b = 4 \<Longrightarrow> isPrivateIP (v4_in_v6 @ b) = isPrivateIP b"
  by (auto simp: isPrivateIP_def is_loopback_def is_link_local_unicast_def is_link_local_multicast_def)

lemma check_scope_net:
  assumes "check_scope scope0 cidr = (scope, ws, None)"
  shows "scp_HostCount scope = 0 \<or> (\<exists>n. scope_net scope n)"
    "scp_Private scope \<or> scp_PublicAllowed scope"
    "scp_PublicAllowed scope = scp_PublicAllowed scope0" "scp_Profile scope = scp_Profile scope0"
proof -
  obtain ip m where p: "parse_cidr cidr = Some (ip, m)"
    using assms by (auto simp: check_scope_def split: option.splits)
  from parse_cidr_SomeE [OF p] obtain b where b: "ip = as16 b" "net_addr m = mask_ip b (net_ones m)"
    "net_ones m \<le> 8 * length b" "length b = 4 \<or> length b = 16" .
  show "scp_Private scope \<or> scp_PublicAllowed scope"
    "scp_PublicAllowed scope = scp_PublicAllowed scope0" "scp_Profile scope = scp_Profile scope0"
    using assms p by (auto simp: check_scope_def Let_def split: if_splits)
  show "scp_HostCount scope = 0 \<or> (\<exists>n. scope_net scope n)"
  proof (cases "to4 ip")
    case None
    then show ?thesis using assms p by (auto simp: check_scope_def Let_def split: if_splits)
  next
    case (Some a)
    have s: "scp_CIDR scope = ipnet_string m" "scp_HostCount scope = Scan_Scope.hostCount (net_ones m) (net_bits m)"
      "scp_Private scope = isPrivateNetwork m" "Scan_Scope.hostCount (net_ones m) (net_bits m) \<le> maxScanHosts"
      using assms p Some by (auto simp: check_scope_def Let_def split: if_splits)
    show ?thesis
    proof (cases "length b = 4")
      case True
      then have "scope_net scope m"
        using s b by (simp add: scope_net_def ipnet_string_def net_string_def net_bits_def isPrivateNetwork_def)
      then show ?thesis by blast
    next
      case False
      then have len: "length b = 16" using b(4) by simp
      then have ip: "ip = b" using b(1) by (simp add: as16_def)
      obtain c where c: "b = v4_in_v6 @ c" "length c = 4"
        using Some len unfolding ip by (auto simp: to4_def intro!: that [of "drop 12 b"] split: if_splits)
          (metis append_take_drop_id)
      have ones: "96 < net_ones m"
      proof (rule ccontr)
        assume "\<not> 96 < net_ones m"
        then have "31 \<le> net_bits m - net_ones m" using b(2) len by (simp add: net_bits_def)
        then show False using s(4) by (simp add: Scan_Scope.hostCount_def Let_def)
      qed
      define n where "n = \<lparr>net_addr = mask_ip c (net_ones m - 96), net_ones = net_ones m - 96\<rparr>"
      have "length v4_in_v6 = 12" by (simp add: v4_in_v6_def)
      then have addr: "net_addr m = v4_in_v6 @ net_addr n"
        using ones unfolding b(2) c(1) by (simp add: n_def mask_ip_prefix)
      have "128 - net_ones m = 32 - net_ones n" using ones by (simp add: n_def)
      then have "Scan_Scope.hostCount (net_ones m) (net_bits m) = Scan_Scope.hostCount (net_ones n) 32"
        using b(2) len by (simp add: Scan_Scope.hostCount_def net_bits_def)
      moreover have "ipnet_string m = net_string n"
        using c(2) \<open>length v4_in_v6 = 12\<close> by (simp add: ipnet_string_def net_string_def addr) (simp add: n_def)
      moreover have "isPrivateNetwork m = isPrivateIP (net_addr n)"
        using c(2) by (simp add: isPrivateNetwork_def addr isPrivateIP_mapped n_def)
      ultimately have "scope_net scope n"
        using s b(3) len c(2) by (simp add: scope_net_def) (simp add: n_def)
      then show ?thesis by blast
    qed
  qed
qed

lemma ParseScope_check:
  assumes "ParseScope requested profile allowPublic primary = (scope, ws, None)"
  obtains scope0 cidr where "check_scope scope0 cidr = (scope, ws, None)"
    "scp_PublicAllowed scope0 = allowPublic" "scp_Profile scope0 = profile"
  using assms by (auto simp: ParseScope_def Let_def split: if_splits)

section \<open>Its hosts\<close>

definition scope_hosts :: "IPNet \<Rightarrow> nat set" where
  "scope_hosts n =
     (if 32 - net_ones n \<ge> 2 then {1 ..< 2 ^ (32 - net_ones n) - 1} else {0 ..< 2 ^ (32 - net_ones n)})"

definition nth_host :: "IPNet \<Rightarrow> nat \<Rightarrow> byte list" where
  "nth_host n i = put_uint32 (be_uint32 (net_addr n) + of_nat i)"

lemma length_nth_host [simp]: "length (nth_host n i) = 4"
  by (simp add: nth_host_def)

lemma hostCount_exact:
  assumes "Scan_Scope.hostCount ones 32 \<le> maxScanHosts" "ones \<le> 32"
  shows "32 - ones \<le> 16" "Scan_Scope.hostCount ones 32 = (if 32 - ones \<ge> 2 then 2 ^ (32 - ones) - 2 else 2 ^ (32 - ones))"
proof -
  have lt: "32 - ones < 31"
  proof (rule ccontr)
    assume "\<not> 32 - ones < 31"
    then have "\<not> 32 - ones \<le> 1" "32 - ones \<ge> 31" by linarith+
    then show False using assms(1) unfolding Scan_Scope.hostCount_def Let_def by simp
  qed
  then show eq: "Scan_Scope.hostCount ones 32 = (if 32 - ones \<ge> 2 then 2 ^ (32 - ones) - 2 else 2 ^ (32 - ones))"
    by (auto simp: Scan_Scope.hostCount_def Let_def)
  show "32 - ones \<le> 16"
  proof (rule ccontr)
    assume "\<not> 32 - ones \<le> 16"
    then have "(2 :: int) ^ 17 \<le> 2 ^ (32 - ones)" by (intro power_increasing) simp_all
    then show False using assms(1) unfolding eq maxScanHosts_def by (simp split: if_splits)
  qed
qed

lemma HostsInScope_net:
  assumes "scope_net scope n"
  shows "\<exists>ks. HostsInScope scope = map (\<lambda>i. v4_string (nth_host n i)) ks \<and> set ks = scope_hosts n \<and> distinct ks \<and>
    int (length ks) = scp_HostCount scope"
proof -
  have n: "length (net_addr n) = 4" "net_ones n \<le> 32" "mask_ip (net_addr n) (net_ones n) = net_addr n"
    "scp_CIDR scope = net_string n" "Scan_Scope.hostCount (net_ones n) 32 \<le> maxScanHosts"
    "scp_HostCount scope = Scan_Scope.hostCount (net_ones n) 32"
    using assms by (simp_all add: scope_net_def)
  note hc = hostCount_exact [OF n(5,2)]
  let ?h = "32 - net_ones n"
  have "(2 :: int) ^ ?h \<le> 2 ^ 16" using hc(1) by (intro power_increasing) simp_all
  then have total: "\<not> int (2 ^ ?h) > maxScanHosts" by (simp add: maxScanHosts_def)
  have four: "(4 :: nat) \<le> 2 ^ ?h" if "2 \<le> ?h" using power_increasing [OF that, of "2 :: nat"] by simp
  define ks where "ks = [(if 2 \<le> ?h then 1 else 0) ..< (if 2 \<le> ?h then 2 ^ ?h - 1 else 2 ^ ?h)]"
  have "HostsInScope scope = map (\<lambda>i. v4_string (nth_host n i)) ks"
    using n(1,3,4) total parse_net_string [OF n(1,2,3)]
    by (simp add: HostsInScope_def net_bits_def Let_def ks_def nth_host_def)
  moreover have "set ks = scope_hosts n" "distinct ks" by (auto simp: ks_def scope_hosts_def)
  moreover have "int (length ks) = scp_HostCount scope"
    using hc(2) n(6) four by (auto simp: ks_def of_nat_diff)
  ultimately show ?thesis by blast
qed

lemma scope_hosts_less: "i \<in> scope_hosts n \<Longrightarrow> i < 2 ^ (32 - net_ones n)"
  by (auto simp: scope_hosts_def split: if_splits)

lemma nth_host_mask:
  assumes "scope_net scope n" "i \<in> scope_hosts n"
  shows "mask_ip (nth_host n i) (net_ones n) = net_addr n" "unat (be_uint32 (nth_host n i)) = val (net_addr n) + i"
  using assms(1) mask_host [of "net_addr n" "net_ones n" i] scope_hosts_less [OF assms(2)]
  by (simp_all add: scope_net_def nth_host_def)

lemma InScope_net:
  assumes "scope_net scope n"
  shows "InScope scope s \<longleftrightarrow> (\<exists>ip. parse_ip s = Some ip \<and> net_contains n ip)"
  using assms parse_net_string [of n] by (auto simp: scope_net_def InScope_def split: option.splits)

lemma host_parses: "parse_ip (v4_string (nth_host n i)) = Some (v4_in_v6 @ nth_host n i)"
  by (simp add: parse_ip_def parse_addr_v4_string as16_def)

lemma hosts_in_scope:
  assumes n: "scope_net scope n" and h: "h \<in> set (HostsInScope scope)"
  shows "InScope scope h"
proof -
  from h HostsInScope_net [OF n] obtain i where i: "h = v4_string (nth_host n i)" "i \<in> scope_hosts n" by auto
  have "net_contains n (v4_in_v6 @ nth_host n i)"
    using n nth_host_mask(1) [OF n i(2)] by (simp add: net_contains_def scope_net_def)
  then show ?thesis unfolding InScope_net [OF n] i(1) using host_parses by blast
qed

lemma distinct_hosts: "scope_net scope n \<Longrightarrow> distinct (HostsInScope scope)"
proof -
  assume n: "scope_net scope n"
  then obtain ks where ks: "HostsInScope scope = map (\<lambda>i. v4_string (nth_host n i)) ks"
    "set ks = scope_hosts n" "distinct ks" using HostsInScope_net by blast
  have "inj_on (\<lambda>i. v4_string (nth_host n i)) (scope_hosts n)"
  proof (rule inj_onI)
    fix i j assume ij: "i \<in> scope_hosts n" "j \<in> scope_hosts n" "v4_string (nth_host n i) = v4_string (nth_host n j)"
    then have "nth_host n i = nth_host n j" by (intro inj_v4_string) simp_all
    then show "i = j" using nth_host_mask(2) [OF n ij(1)] nth_host_mask(2) [OF n ij(2)] by (metis add_left_cancel)
  qed
  then show ?thesis using ks by (simp add: distinct_map)
qed

section \<open>Accepted scopes are private\<close>

lemma isPrivateIP_bytes:
  "isPrivateIP [a, b, c, d] \<longleftrightarrow>
     a = 127 \<or> a = 169 \<and> b = 254 \<or> a = 224 \<and> b = 0 \<and> c = 0 \<or> a = 10 \<or>
     a = 172 \<and> 16 \<le> b \<and> b \<le> 31 \<or> a = 192 \<and> b = 168"
  by (auto simp: isPrivateIP_def is_loopback_def is_link_local_unicast_def is_link_local_multicast_def to4_def)

lemma host_private:
  assumes "scope_net scope n" "isPrivateIP (net_addr n)" "i \<in> scope_hosts n"
  shows "isPrivateIP (nth_host n i) \<or> is_multicast (nth_host n i)"
proof -
  have n: "length (net_addr n) = 4" "net_ones n \<le> 32" "Scan_Scope.hostCount (net_ones n) 32 \<le> maxScanHosts"
    using assms(1) by (simp_all add: scope_net_def)
  have ones: "16 \<le> net_ones n" using hostCount_exact(1) [OF n(3,2)] n(2) by linarith
  obtain x y z w where a: "net_addr n = [x, y, z, w]" using n(1) by (rule length4E)
  obtain a b c d where h: "nth_host n i = [a, b, c, d]" using length_nth_host by (rule length4E)
  have "mask_ip [a, b, c, d] (net_ones n) = [x, y, z, w]"
    using nth_host_mask(1) [OF assms(1,3)] by (simp add: a h)
  from private_block [OF ones this] have "a = x" "b = y" .
  moreover have "(224 :: byte) AND 0xf0 = 0xe0" by simp
  ultimately show ?thesis
    using assms(2) unfolding a h isPrivateIP_bytes by (auto simp: is_multicast_def to4_def)
qed

text \<open>
  C21: The hosts of an accepted IPv4 scope are as many as the scope counts, at most 65536, distinct and
  in the scope; without the public flag each is private, loopback, link-local or multicast.
\<close>

theorem accepted_scope_hosts:
  assumes "ParseScope requested profile allowPublic primary = (scope, ws, None)" "scp_HostCount scope > 0"
  shows "int (length (HostsInScope scope)) = scp_HostCount scope \<and> scp_HostCount scope \<le> 65536 \<and>
    distinct (HostsInScope scope) \<and>
    (\<forall>h \<in> set (HostsInScope scope). InScope scope h \<and>
       (allowPublic \<or> (\<exists>ip. parse_ip h = Some ip \<and> (isPrivateIP ip \<or> is_multicast ip))))"
proof -
  from ParseScope_check [OF assms(1)] obtain scope0 cidr
    where c: "check_scope scope0 cidr = (scope, ws, None)" "scp_PublicAllowed scope0 = allowPublic" .
  from check_scope_net [OF c(1)] assms(2) obtain n where n: "scope_net scope n" by auto
  have priv: "isPrivateIP (net_addr n)" if "\<not> allowPublic"
    using check_scope_net(2,3) [OF c(1)] c(2) n that by (simp add: scope_net_def)
  have "\<exists>ip. parse_ip h = Some ip \<and> (isPrivateIP ip \<or> is_multicast ip)"
    if pub: "\<not> allowPublic" and h: "h \<in> set (HostsInScope scope)" for h
  proof -
    from h HostsInScope_net [OF n] obtain i where i: "h = v4_string (nth_host n i)" "i \<in> scope_hosts n" by auto
    have "is_multicast (v4_in_v6 @ nth_host n i) = is_multicast (nth_host n i)" by (simp add: is_multicast_def)
    then show ?thesis
      using host_private [OF n priv [OF pub] i(2)] by (simp add: i(1) host_parses isPrivateIP_mapped)
  qed
  moreover have "scp_HostCount scope \<le> 65536" using n by (simp add: scope_net_def maxScanHosts_def)
  ultimately show ?thesis
    using HostsInScope_net [OF n] distinct_hosts [OF n] hosts_in_scope [OF n] by force
qed

text \<open>A home network.\<close>

definition example_interface :: InterfaceInfo where
  "example_interface =
     \<lparr>ifc_Name = ''eth0'', ifc_MAC = [], ifc_Up = True, ifc_Loopback = False, ifc_Virtual = False,
      ifc_Selected = True, ifc_CIDR = ''192.168.1.0/30'',
      ifc_Addresses = [\<lparr>ipa_IP = ''192.168.1.2'', ipa_Version = 4, ipa_CIDR = ''192.168.1.0/30''\<rparr>]\<rparr>"

definition example_scope :: LanScope where
  "example_scope =
     \<lparr>scp_Requested = ''auto'', scp_CIDR = ''192.168.1.0/30'', scp_Interface = ''eth0'', scp_HostCount = 2,
      scp_Private = True, scp_PublicAllowed = False, scp_Profile = ''quick''\<rparr>"

lemma scope_cidr:
  assumes "n = \<lparr>net_addr = a, net_ones = k\<rparr>" "length a = 4" "k \<le> 32" "mask_ip a k = a" "net_string n = s"
  shows "parse_cidr s = Some (v4_in_v6 @ a, n)"
  using parse_net_string [of n] assms by simp

lemma example_network:
  "parse_cidr ''192.168.1.0/30'' = Some (v4_in_v6 @ [192, 168, 1, 0], \<lparr>net_addr = [192, 168, 1, 0], net_ones = 30\<rparr>)"
  "ipnet_string \<lparr>net_addr = [192, 168, 1, 0], net_ones = 30\<rparr> = ''192.168.1.0/30''"
  "isPrivateNetwork \<lparr>net_addr = [192, 168, 1, 0], net_ones = 30\<rparr>"
  "trim_space '' AUTO '' = ''AUTO''" "equal_fold ''AUTO'' ''auto''"
  by (rule scope_cidr [OF refl]; code_simp) code_simp+

lemma example_scope_parse: "ParseScope '' AUTO '' ''quick'' False example_interface = (example_scope, [], None)"
  by (simp add: ParseScope_def check_scope_def example_network example_interface_def example_scope_def
      Scan_Scope.hostCount_def net_bits_def maxScanHosts_def softWarnHosts_def)

theorem accepted_scope_hosts_witness: "int (length (HostsInScope example_scope)) = 2"
  using accepted_scope_hosts [OF example_scope_parse] by (simp add: example_scope_def)

text \<open>
  Only the base address is tested: a multicast block of up to 65536 addresses that starts with
  224.0.0 passes as a private network.
\<close>

lemma multicast_scope_accepted:
  "\<exists>scope. ParseScope ''224.0.0.0/16'' ''quick'' False example_interface =
      (scope, [large_warning ''224.0.0.0/16'' 65534], None) \<and>
    InScope scope ''224.0.1.1'' \<and> \<not> isPrivateIP (v4_in_v6 @ [224, 0, 1, 1])"
proof -
  have p: "parse_cidr ''224.0.0.0/16'' = Some (v4_in_v6 @ [224, 0, 0, 0], \<lparr>net_addr = [224, 0, 0, 0], net_ones = 16\<rparr>)"
    "ipnet_string \<lparr>net_addr = [224, 0, 0, 0], net_ones = 16\<rparr> = ''224.0.0.0/16''"
    "isPrivateNetwork \<lparr>net_addr = [224, 0, 0, 0], net_ones = 16\<rparr>"
    "trim_space ''224.0.0.0/16'' = ''224.0.0.0/16''" "\<not> equal_fold ''224.0.0.0/16'' ''auto''"
    "parse_ip ''224.0.1.1'' = Some (v4_in_v6 @ [224, 0, 1, 1])" "\<not> isPrivateIP (v4_in_v6 @ [224, 0, 1, 1])"
    "net_contains \<lparr>net_addr = [224, 0, 0, 0], net_ones = 16\<rparr> (v4_in_v6 @ [224, 0, 1, 1])"
    by (rule scope_cidr [OF refl]; code_simp) code_simp+
  show ?thesis
    by (rule exI [of _ "\<lparr>scp_Requested = ''224.0.0.0/16'', scp_CIDR = ''224.0.0.0/16'', scp_Interface = ''eth0'',
          scp_HostCount = 65534, scp_Private = True, scp_PublicAllowed = False, scp_Profile = ''quick''\<rparr>"])
      (simp add: ParseScope_def check_scope_def p Let_def example_interface_def Scan_Scope.hostCount_def net_bits_def maxScanHosts_def
        softWarnHosts_def InScope_def)
qed

section \<open>What sweeps a scope\<close>

text \<open>A sweeper reports hosts of the scope only.\<close>

locale scope_sweeper =
  fixes sweep :: "LanScope \<Rightarrow> 'h list" and host :: "'h \<Rightarrow> string"
  assumes sweeps_hosts: "h \<in> set (sweep scope) \<Longrightarrow> host h \<in> set (HostsInScope scope)"
begin

lemma sweeps_scope:
  assumes "ParseScope requested profile allowPublic primary = (scope, ws, None)" "scp_HostCount scope > 0"
    "h \<in> set (sweep scope)"
  shows "InScope scope (host h)"
proof -
  from ParseScope_check [OF assms(1)] obtain scope0 cidr where c: "check_scope scope0 cidr = (scope, ws, None)" .
  from check_scope_net(1) [OF c] assms(2) obtain n where "scope_net scope n" by auto
  then show ?thesis using hosts_in_scope sweeps_hosts [OF assms(3)] by blast
qed

end

end
