(* ===== verification/Topo_Validate.thy ===== *)
theory Topo_Validate
  imports Topo_Graph
begin

text \<open>
  \<open>agent/internal/topology/validate.go\<close>: \<open>ValidateReport\<close> lists the inconsistencies of a report. A
  problem is a constructor with the values the code prints; the numbers are positions. The Go maps
  of known identifiers are sets.
\<close>

datatype problem =
  Bad_Schema string
  | Device_Empty_ID nat | Device_Duplicate string | Device_No_Addresses string
  | Device_Confidence string float64
  | Evidence_Empty_ID nat | Evidence_Duplicate string
  | Registry_Empty_ID nat | Registry_Duplicate string | Registry_No_Source string | Registry_No_Kind string
  | Unknown_Evidence string string
  | Edge_Empty_ID nat | Edge_Duplicate string | Edge_Unknown_Type string string | Edge_No_Layer string
  | Edge_No_Relationship string | Edge_No_Line_Style string | Edge_Confidence string float64
  | Edge_No_Reason string | Edge_Unknown_Source string string | Edge_Unknown_Target string string
  | Edge_No_Proof string string | Edge_Fake_Physical string string
  | V2_Bad_Schema string | V2_Node_Empty_ID nat | V2_Node_Duplicate string
  | V2_Node_Confidence string float64
  | V2_Edge_Empty_ID nat | V2_Edge_Empty_Endpoint string | V2_Edge_Unknown_Source string string
  | V2_Edge_Unknown_Target string string | V2_Edge_Incomplete string | V2_Edge_No_Explanation string
  | V2_Edge_Confidence string float64
  | Wrong_Device_Count int nat | Wrong_Edge_Count int nat | Wrong_Evidence_Count int nat

definition validEdgeTypes :: "string set" where
  "validEdgeTypes =
     {EdgeDirectLLDP, EdgeDirectCDP, EdgeSNMPBridge, EdgeRouteHop, EdgeInferredL2, EdgeGatewayDefault}"

definition report_if :: "bool \<Rightarrow> problem \<Rightarrow> problem list" where
  "report_if b p = (if b then [p] else [])"

definition out_of_range :: "float64 \<Rightarrow> bool" where
  "out_of_range c = (c < 0 \<or> c > 1)"

definition checkEvidence :: "string \<Rightarrow> string list \<Rightarrow> string set \<Rightarrow> problem list" where
  "checkEvidence owner ids known = map (Unknown_Evidence owner) (filter (\<lambda>i. i \<notin> known) ids)"

text \<open>The loops over the parts of a report, with the position and the identifiers seen.\<close>

fun check_devices :: "nat \<Rightarrow> string set \<Rightarrow> Device list \<Rightarrow> problem list \<times> string set" where
  "check_devices i seen [] = ([], seen)"
| "check_devices i seen (d # ds) =
     (if dev_ID d = [] then
        (case check_devices (Suc i) seen ds of (ps, known) \<Rightarrow> (Device_Empty_ID i # ps, known))
      else
        (case check_devices (Suc i) (insert (dev_ID d) seen) ds of (ps, known) \<Rightarrow>
          (report_if (dev_ID d \<in> seen) (Device_Duplicate (dev_ID d)) @
           report_if (dev_Addresses d = []) (Device_No_Addresses (dev_ID d)) @
           report_if (out_of_range (dev_Confidence d)) (Device_Confidence (dev_ID d) (dev_Confidence d)) @ ps, known)))"

fun check_records :: "nat \<Rightarrow> string set \<Rightarrow> Evidence list \<Rightarrow> problem list \<times> string set" where
  "check_records i seen [] = ([], seen)"
| "check_records i seen (e # es) =
     (if tev_ID e = [] then
        (case check_records (Suc i) seen es of (ps, known) \<Rightarrow> (Evidence_Empty_ID i # ps, known))
      else
        (case check_records (Suc i) (insert (tev_ID e) seen) es of (ps, known) \<Rightarrow>
          (report_if (tev_ID e \<in> seen) (Evidence_Duplicate (tev_ID e)) @ ps, known)))"

fun check_registry :: "nat \<Rightarrow> string set \<Rightarrow> EvidenceRegistryItem list \<Rightarrow> problem list \<times> string set" where
  "check_registry i seen [] = ([], seen)"
| "check_registry i seen (e # es) =
     (if reg_ID e = [] then
        (case check_registry (Suc i) seen es of (ps, known) \<Rightarrow> (Registry_Empty_ID i # ps, known))
      else
        (case check_registry (Suc i) (insert (reg_ID e) seen) es of (ps, known) \<Rightarrow>
          (report_if (reg_ID e \<in> seen) (Registry_Duplicate (reg_ID e)) @
           report_if (reg_Source e = []) (Registry_No_Source (reg_ID e)) @
           report_if (reg_Kind e = []) (Registry_No_Kind (reg_ID e)) @ ps, known)))"

definition check_references :: "string set \<Rightarrow> Device \<Rightarrow> problem list" where
  "check_references known d =
     checkEvidence (''device '' @ dev_ID d) (dev_EvidenceIDs d) known @
     concat (map (\<lambda>s. checkEvidence
         (''device '' @ dev_ID d @ '' service '' @ itoa (svc_Port s) @ ''/'' @ svc_Protocol s)
         (svc_EvidenceIDs s) known) (dev_Services d))"

definition check_edge :: "string set \<Rightarrow> string set \<Rightarrow> TopologyEdge \<Rightarrow> problem list" where
  "check_edge devices known e =
     (let i = edge_ID e; t = edge_Type e
      in report_if (t \<notin> validEdgeTypes) (Edge_Unknown_Type i t) @
         report_if (edge_Layer e = []) (Edge_No_Layer i) @
         report_if (edge_Relationship e = []) (Edge_No_Relationship i) @
         report_if (edge_UILineStyle e = []) (Edge_No_Line_Style i) @
         report_if (out_of_range (edge_Confidence e)) (Edge_Confidence i (edge_Confidence e)) @
         report_if (edge_Reason e = []) (Edge_No_Reason i) @
         report_if (edge_Source e \<notin> devices) (Edge_Unknown_Source i (edge_Source e)) @
         report_if (edge_Target e \<notin> devices) (Edge_Unknown_Target i (edge_Target e)) @
         report_if (IsPhysicalEvidenceEdge t \<and> edge_EvidenceIDs e = []) (Edge_No_Proof i t) @
         report_if (\<not> IsPhysicalEvidenceEdge t \<and> edge_Physical e) (Edge_Fake_Physical i t) @
         checkEvidence (''edge '' @ i) (edge_EvidenceIDs e) known)"

fun check_edges ::
  "nat \<Rightarrow> string set \<Rightarrow> string set \<Rightarrow> string set \<Rightarrow> TopologyEdge list \<Rightarrow> problem list" where
  "check_edges i seen devices known [] = []"
| "check_edges i seen devices known (e # es) =
     (if edge_ID e = [] then [Edge_Empty_ID i] else report_if (edge_ID e \<in> seen) (Edge_Duplicate (edge_ID e))) @
     check_edge devices known e @ check_edges (Suc i) (insert (edge_ID e) seen) devices known es"

fun check_v2_nodes :: "nat \<Rightarrow> string set \<Rightarrow> TopologyV2Node list \<Rightarrow> problem list \<times> string set" where
  "check_v2_nodes i seen [] = ([], seen)"
| "check_v2_nodes i seen (n # ns) =
     (if tvn_ID n = [] then
        (case check_v2_nodes (Suc i) seen ns of (ps, known) \<Rightarrow> (V2_Node_Empty_ID i # ps, known))
      else
        (case check_v2_nodes (Suc i) (insert (tvn_ID n) seen) ns of (ps, known) \<Rightarrow>
          (report_if (tvn_ID n \<in> seen) (V2_Node_Duplicate (tvn_ID n)) @
           report_if (out_of_range (tvn_Confidence n)) (V2_Node_Confidence (tvn_ID n) (tvn_Confidence n)) @ ps, known)))"

fun check_v2_edges :: "nat \<Rightarrow> string set \<Rightarrow> TopologyV2Edge list \<Rightarrow> problem list" where
  "check_v2_edges i nodes [] = []"
| "check_v2_edges i nodes (e # es) =
     report_if (tve_ID e = []) (V2_Edge_Empty_ID i) @
     report_if (tve_Source e = [] \<or> tve_Target e = []) (V2_Edge_Empty_Endpoint (tve_ID e)) @
     report_if (tve_Source e \<notin> nodes) (V2_Edge_Unknown_Source (tve_ID e) (tve_Source e)) @
     report_if (tve_Target e \<notin> nodes) (V2_Edge_Unknown_Target (tve_ID e) (tve_Target e)) @
     report_if (tve_Type e = [] \<or> tve_Relation e = [] \<or> tve_Medium e = []) (V2_Edge_Incomplete (tve_ID e)) @
     report_if (tve_Explanation e = []) (V2_Edge_No_Explanation (tve_ID e)) @
     report_if (out_of_range (tve_Confidence e)) (V2_Edge_Confidence (tve_ID e) (tve_Confidence e)) @
     check_v2_edges (Suc i) nodes es"

definition check_v2 :: "TopologyV2Model \<Rightarrow> problem list" where
  "check_v2 t =
     report_if (tv_SchemaVersion t \<noteq> TopologyReportSchema) (V2_Bad_Schema (tv_SchemaVersion t)) @
     (case check_v2_nodes 0 {} (tv_Nodes t) of (ps, nodes) \<Rightarrow> ps @ check_v2_edges 0 nodes (tv_Edges t))"

definition ValidateReport :: "ScanReport \<Rightarrow> problem list" where
  "ValidateReport r =
     (case (check_devices 0 {} (rep_Devices r), check_records 0 {} (rep_Evidence r),
            check_registry 0 {} (rep_EvidenceRegistry r)) of
        ((dps, devices), (eps, records), (rps, registry)) \<Rightarrow>
          (let known = records \<union> registry
           in report_if (rep_SchemaVersion r \<noteq> TopologyReportSchema) (Bad_Schema (rep_SchemaVersion r)) @
              dps @ eps @ rps @
              concat (map (check_references known) (rep_Devices r)) @
              check_edges 0 {} devices known (rep_Edges r) @
              (case rep_Topology r of None \<Rightarrow> [] | Some t \<Rightarrow> check_v2 t) @
              report_if (sum_DeviceCount (rep_Summary r) \<noteq> int (length (rep_Devices r)))
                (Wrong_Device_Count (sum_DeviceCount (rep_Summary r)) (length (rep_Devices r))) @
              report_if (sum_EdgeCount (rep_Summary r) \<noteq> int (length (rep_Edges r)))
                (Wrong_Edge_Count (sum_EdgeCount (rep_Summary r)) (length (rep_Edges r))) @
              report_if (sum_EvidenceCount (rep_Summary r) \<noteq> int (length (rep_Evidence r)))
                (Wrong_Evidence_Count (sum_EvidenceCount (rep_Summary r)) (length (rep_Evidence r)))))"

end
