(* ===== verification/Topo_Laws.thy ===== *)
theory Topo_Laws
  imports Topo_Validate Float_Laws
begin

text \<open>
  Laws of the topology graph: what every edge of \<open>Build\<close> satisfies, which variant of an edge the
  graph keeps, that its output does not depend on the iteration order of its map, and that a
  report made of such parts passes \<open>ValidateReport\<close>.
\<close>

section \<open>Edges\<close>

lemma edge_confidences:
  "0 \<le> MaxConfidence t" "MaxConfidence t \<le> 1" "0 \<le> BaseConfidence t" "BaseConfidence t \<le> MaxConfidence t"
proof -
  show "0 \<le> MaxConfidence t" "0 \<le> BaseConfidence t"
    by (simp_all add: MaxConfidence_def BaseConfidence_def confDirectLLDP_def confDirectCDP_def
        confSNMPBridgeHigh_def confRouteHop_def confInferredL2High_def confInferredL2Low_def
        confGatewayDefault_def)
  show "MaxConfidence t \<le> 1"
    by (simp add: MaxConfidence_def confSNMPBridgeHigh_def confRouteHop_def confInferredL2High_def
        confGatewayDefault_def flit_le_1)
  show "BaseConfidence t \<le> MaxConfidence t"
    by (simp add: MaxConfidence_def BaseConfidence_def confDirectLLDP_def confDirectCDP_def
        confInferredL2High_def confInferredL2Low_def flit_mono)
qed

lemma clampConfidence_bounds: "0 \<le> clampConfidence t c" "clampConfidence t c \<le> MaxConfidence t"
  using edge_confidences(1) [of t] by (auto simp: clampConfidence_def Let_def)

lemma clampConfidence_base: "clampConfidence t (BaseConfidence t) = BaseConfidence t"
  using edge_confidences [of t] by (simp add: clampConfidence_def Let_def)

text \<open>What the fields of an edge owe to its type.\<close>

definition edge_wf :: "TopologyEdge \<Rightarrow> bool" where
  "edge_wf e =
     (edge_Type e \<in> validEdgeTypes \<and> edge_ID e = edgeID (edge_Source e) (edge_Target e) (edge_Type e) \<and>
      0 \<le> edge_Confidence e \<and> edge_Confidence e \<le> MaxConfidence (edge_Type e) \<and>
      edge_Physical e = IsPhysicalEvidenceEdge (edge_Type e) \<and> edge_Layer e \<noteq> [] \<and>
      edge_Relationship e \<noteq> [] \<and> edge_UILineStyle e \<noteq> [] \<and> edge_Reason e \<noteq> [])"

lemma newEdge_fields [simp]:
  "edge_ID (newEdge s t k r c ids) = edgeID s t k" "edge_Source (newEdge s t k r c ids) = s"
  "edge_Target (newEdge s t k r c ids) = t" "edge_Type (newEdge s t k r c ids) = k"
  "edge_EvidenceIDs (newEdge s t k r c ids) = dedupSorted ids" "edge_Reason (newEdge s t k r c ids) = r"
  "edge_Confidence (newEdge s t k r c ids) = clampConfidence k (if c > 0 then c else BaseConfidence k)"
  by (simp_all add: newEdge_def Let_def)

lemma edge_texts_nonempty: "edgeLayer k \<noteq> []" "edgeRelationship k \<noteq> []" "edgeLineStyle k c \<noteq> []"
  by (simp_all add: edgeLayer_def edgeRelationship_def edgeLineStyle_def)

lemma newEdge_texts [simp]:
  "edge_Layer (newEdge s t k r c ids) = edgeLayer k"
  "edge_Relationship (newEdge s t k r c ids) = edgeRelationship k"
  "edge_Physical (newEdge s t k r c ids) = IsPhysicalEvidenceEdge k"
  "edge_UILineStyle (newEdge s t k r c ids) \<noteq> []"
  by (simp_all add: newEdge_def Let_def edge_texts_nonempty)

lemma newEdge_wf: "k \<in> validEdgeTypes \<Longrightarrow> r \<noteq> [] \<Longrightarrow> edge_wf (newEdge s t k r c ids)"
  by (simp add: edge_wf_def edge_texts_nonempty clampConfidence_bounds)

lemma edgeID_nonempty [simp]: "edgeID s t k \<noteq> []"
  by (simp add: edgeID_def)

section \<open>The graph\<close>

definition addable :: "string set \<Rightarrow> TopologyEdge \<Rightarrow> bool" where
  "addable ids e = (edge_Source e \<noteq> edge_Target e \<and> edge_Source e \<in> ids \<and> edge_Target e \<in> ids)"

text \<open>The edges of a graph: one per identifier, between known devices, each from a set of offered ones.\<close>

definition graph_ok :: "string set \<Rightarrow> TopologyEdge set \<Rightarrow> Graph \<Rightarrow> bool" where
  "graph_ok ids offered g =
     (gr_deviceIDs g = ids \<and> distinct (map fst (gr_edges g)) \<and>
      (\<forall>p \<in> set (gr_edges g). fst p = edge_ID (snd p) \<and> snd p \<in> offered \<and> addable ids (snd p)))"

lemma graph_ok_mono: "graph_ok ids A g \<Longrightarrow> A \<subseteq> B \<Longrightarrow> graph_ok ids B g"
  by (auto simp: graph_ok_def)

lemma NewGraph_ok: "graph_ok (set ds) A (NewGraph ds)"
  by (simp add: graph_ok_def NewGraph_def)

lemma graph_ok_set:
  assumes "graph_ok ids A g" "e \<in> A" "addable ids e"
  shows "graph_ok ids A (g\<lparr>gr_edges := alist_set (edge_ID e) e (gr_edges g)\<rparr>)"
  using assms unfolding graph_ok_def by (auto dest!: set_alist_setD)

lemma AddEdge_cases:
  "AddEdge e g = g \<or>
   addable (gr_deviceIDs g) e \<and> AddEdge e g = g\<lparr>gr_edges := alist_set (edge_ID e) e (gr_edges g)\<rparr>"
  by (auto simp: AddEdge_def addable_def split: option.splits)

lemma AddEdge_ok: "graph_ok ids A g \<Longrightarrow> e \<in> A \<Longrightarrow> graph_ok ids A (AddEdge e g)"
  using AddEdge_cases [of e g] graph_ok_set [of ids A g e] by (metis graph_ok_def)

lemma fold_ok:
  assumes "\<And>x g. x \<in> set xs \<Longrightarrow> graph_ok ids A g \<Longrightarrow> graph_ok ids A (f x g)" "graph_ok ids A g"
  shows "graph_ok ids A (fold f xs g)"
  using assms by (induction xs arbitrary: g) simp_all

text \<open>The offered edges of \<open>Build\<close>, by their kind.\<close>

definition neighbor_edge :: "Neighbor \<Rightarrow> TopologyEdge" where
  "neighbor_edge n =
     newEdge (nbr_FromID n) (nbr_ToID n) (nbr_Kind n)
       (if nbr_Reason n = [] then neighborReason (nbr_Kind n) else nbr_Reason n) (nbr_Confidence n)
       (nbr_EvidenceIDs n)"

definition proven_neighbors :: "BuildInput \<Rightarrow> Neighbor set" where
  "proven_neighbors b =
     {n \<in> set (bi_Neighbors b). IsPhysicalEvidenceEdge (nbr_Kind n) \<and> nbr_EvidenceIDs n \<noteq> []}"

text \<open>An inferred edge, with the evidence it may carry.\<close>

definition inferred_from :: "BuildInput \<Rightarrow> TopologyEdge \<Rightarrow> bool" where
  "inferred_from b e =
     (edge_Type e = EdgeRouteHop \<and>
        (\<exists>h \<in> set (bi_RouteHops b). edge_Source e = hop_FromID h \<and> edge_Target e = hop_ToID h \<and>
           edge_EvidenceIDs e = dedupSorted (hop_EvidenceIDs h)) \<or>
      edge_Type e = EdgeGatewayDefault \<and> edge_Source e = bi_AgentID b \<and> edge_Target e = bi_GatewayID b \<and>
        edge_EvidenceIDs e = dedupSorted (bi_GatewayRouteEvidenceIDs b) \<or>
      edge_Type e = EdgeInferredL2 \<and> edge_Target e \<in> set (bi_L2Peers b) \<and> edge_EvidenceIDs e = [])"

definition offered :: "BuildInput \<Rightarrow> TopologyEdge set" where
  "offered b =
     {e. edge_wf e \<and> edge_Confidence e \<le> MaxConfidence (edge_Type e) \<and>
         (e \<in> neighbor_edge ` proven_neighbors b \<or>
          inferred_from b e \<and> edge_Confidence e = BaseConfidence (edge_Type e))}"

lemma valid_types [simp]:
  "EdgeRouteHop \<in> validEdgeTypes" "EdgeGatewayDefault \<in> validEdgeTypes" "EdgeInferredL2 \<in> validEdgeTypes"
  "IsPhysicalEvidenceEdge t \<Longrightarrow> t \<in> validEdgeTypes"
  "\<not> IsPhysicalEvidenceEdge EdgeRouteHop" "\<not> IsPhysicalEvidenceEdge EdgeGatewayDefault"
  "\<not> IsPhysicalEvidenceEdge EdgeInferredL2"
  by (auto simp: validEdgeTypes_def IsPhysicalEvidenceEdge_def edge_types)

lemma neighborReason_nonempty [simp]: "neighborReason k \<noteq> []"
  by (simp add: neighborReason_def)

lemma newEdge_offered:
  assumes "inferred_from b (newEdge s t k r 0 ids)" "k \<in> validEdgeTypes" "r \<noteq> []"
  shows "newEdge s t k r 0 ids \<in> offered b"
  using assms newEdge_wf [OF assms(2,3)]
  by (simp add: offered_def clampConfidence_base edge_confidences)

lemma add_neighbor_ok:
  "n \<in> set (bi_Neighbors b) \<Longrightarrow> graph_ok ids (offered b) g \<Longrightarrow> graph_ok ids (offered b) (add_neighbor n g)"
  unfolding add_neighbor_def Let_def neighbor_edge_def [symmetric]
  by (auto intro!: AddEdge_ok simp: offered_def proven_neighbors_def)
    (auto simp: neighbor_edge_def newEdge_wf clampConfidence_bounds)

lemma add_hop_ok:
  "h \<in> set (bi_RouteHops b) \<Longrightarrow> graph_ok ids (offered b) g \<Longrightarrow> graph_ok ids (offered b) (add_hop h g)"
  unfolding add_hop_def
  by (rule AddEdge_ok, assumption, rule newEdge_offered) (auto simp: inferred_from_def)

lemma add_gateway_ok: "graph_ok ids (offered b) g \<Longrightarrow> graph_ok ids (offered b) (add_gateway b g)"
  unfolding add_gateway_def
  by (auto intro!: AddEdge_ok newEdge_offered simp: inferred_from_def)

lemma add_peer_ok:
  "p \<in> set (bi_L2Peers b) \<Longrightarrow> graph_ok ids (offered b) g \<Longrightarrow> graph_ok ids (offered b) (add_peer b p g)"
  unfolding add_peer_def Let_def
  by (auto intro!: AddEdge_ok newEdge_offered simp: inferred_from_def dedupSorted_def)

lemma build_graph_ok: "graph_ok (set (map dev_ID (bi_Devices b))) (offered b) (build_graph b)"
  unfolding build_graph_def Let_def
  by (intro fold_ok add_gateway_ok add_neighbor_ok add_hop_ok add_peer_ok NewGraph_ok)

lemma set_Edges: "set (Edges g) = snd ` set (gr_edges g)"
  by (simp add: Edges_def)

lemma graph_ok_distinct:
  assumes "graph_ok ids A g"
  shows "distinct (map edge_ID (Edges g))"
proof -
  have "map edge_ID (map snd (gr_edges g)) = map fst (gr_edges g)"
    using assms by (auto simp: graph_ok_def)
  moreover have "mset (map edge_ID (Edges g)) = mset (map edge_ID (map snd (gr_edges g)))"
    by (simp only: Edges_def mset_map mset_sort_by)
  ultimately show ?thesis
    using assms by (metis graph_ok_def mset_eq_imp_distinct_iff)
qed

lemma Build_fields [simp]:
  "br_Edges (Build b) = Edges (build_graph b)" "br_Devices (Build b) = map (apply_roles b) (bi_Devices b)"
  by (simp_all add: Build_def Let_def)

lemma Build_edge:
  assumes "e \<in> set (br_Edges (Build b))"
  shows "e \<in> offered b" "addable (set (map dev_ID (bi_Devices b))) e"
  using assms build_graph_ok [of b] by (auto simp: graph_ok_def set_Edges)

lemma Build_distinct: "distinct (map edge_ID (br_Edges (Build b)))"
  using graph_ok_distinct [OF build_graph_ok] by simp


section \<open>The variant of an edge the graph keeps\<close>

definition better :: "TopologyEdge \<Rightarrow> TopologyEdge option \<Rightarrow> TopologyEdge option" where
  "better e b =
     (case b of None \<Rightarrow> Some e | Some old \<Rightarrow> if edge_Confidence e \<le> edge_Confidence old then Some old else Some e)"

definition variants :: "string set \<Rightarrow> string \<Rightarrow> TopologyEdge list \<Rightarrow> TopologyEdge list" where
  "variants ids k es = filter (\<lambda>e. addable ids e \<and> edge_ID e = k) es"

lemma AddEdge_devices [simp]: "gr_deviceIDs (AddEdge e g) = gr_deviceIDs g"
  using AddEdge_cases [of e g] by auto

lemma map_of_AddEdge:
  "map_of (gr_edges (AddEdge e g)) k =
     (if addable (gr_deviceIDs g) e \<and> edge_ID e = k then better e (map_of (gr_edges g) k) else map_of (gr_edges g) k)"
  by (auto simp: AddEdge_def addable_def better_def split: option.splits)

lemma map_of_fold_AddEdge:
  "map_of (gr_edges (fold AddEdge es g)) k = fold better (variants (gr_deviceIDs g) k es) (map_of (gr_edges g) k)"
  by (induction es arbitrary: g) (simp_all add: map_of_AddEdge variants_def)

lemma fold_better:
  "fold better es b = None \<longleftrightarrow> es = [] \<and> b = None"
  "fold better es b = Some e \<Longrightarrow>
     (e \<in> set es \<or> b = Some e) \<and> (\<forall>x \<in> set es. edge_Confidence x \<le> edge_Confidence e) \<and>
     (\<forall>x. b = Some x \<longrightarrow> edge_Confidence x \<le> edge_Confidence e)"
proof -
  show "fold better es b = None \<longleftrightarrow> es = [] \<and> b = None"
    by (induction es arbitrary: b) (auto simp: better_def split: option.splits)
  show "fold better es b = Some e \<Longrightarrow>
     (e \<in> set es \<or> b = Some e) \<and> (\<forall>x \<in> set es. edge_Confidence x \<le> edge_Confidence e) \<and>
     (\<forall>x. b = Some x \<longrightarrow> edge_Confidence x \<le> edge_Confidence e)"
  proof (induction es arbitrary: b)
    case (Cons x es)
    from Cons.IH [of "better x b"] Cons.prems show ?case
      by (cases b) (auto simp: better_def split: if_splits)
  qed simp
qed

text \<open>
  The graph is a map from edge identifiers to edges of highest confidence: after any sequence of
  \<open>AddEdge\<close> it holds, for each identifier, an added edge between two different known devices
  whose confidence is the maximum of those, and nothing exactly when there was none.
\<close>

theorem graph_keeps_best:
  "case map_of (gr_edges (fold AddEdge es (NewGraph ids))) k of
     None \<Rightarrow> variants (set ids) k es = []
   | Some e \<Rightarrow> e \<in> set (variants (set ids) k es) \<and>
       edge_Confidence e = Max (edge_Confidence ` set (variants (set ids) k es))"
proof (cases "map_of (gr_edges (fold AddEdge es (NewGraph ids))) k")
  case None
  then show ?thesis by (simp add: map_of_fold_AddEdge NewGraph_def fold_better)
next
  case (Some e)
  then have "fold better (variants (set ids) k es) None = Some e"
    by (simp add: map_of_fold_AddEdge NewGraph_def)
  from fold_better(2) [OF this] have e: "e \<in> set (variants (set ids) k es)"
    "\<forall>x \<in> set (variants (set ids) k es). edge_Confidence x \<le> edge_Confidence e" by auto
  then have "Max (edge_Confidence ` set (variants (set ids) k es)) = edge_Confidence e"
    by (intro Max_eqI) auto
  with Some e(1) show ?thesis by simp
qed

section \<open>The order of the edges\<close>

text \<open>"May stand before", key by key.\<close>

definition not_after :: "TopologyEdge \<Rightarrow> TopologyEdge \<Rightarrow> bool" where
  "not_after x y =
     (edge_Confidence x > edge_Confidence y \<or>
      edge_Confidence x = edge_Confidence y \<and>
      (str_less (edge_Type x) (edge_Type y) \<or>
       edge_Type x = edge_Type y \<and>
       (str_less (edge_Source x) (edge_Source y) \<or>
        edge_Source x = edge_Source y \<and> \<not> str_less (edge_Target y) (edge_Target x))))"

lemma not_edge_before: "\<not> edge_before y x \<longleftrightarrow> not_after x y"
  unfolding edge_before_def not_after_def
  using str_less_total [of "edge_Type x" "edge_Type y"] str_less_total [of "edge_Source x" "edge_Source y"]
    str_less_asym [of "edge_Type x" "edge_Type y"] str_less_asym [of "edge_Source x" "edge_Source y"]
  by (cases "edge_Confidence x = edge_Confidence y"; cases "edge_Type x = edge_Type y";
      cases "edge_Source x = edge_Source y") auto

lemma lex_trans:
  assumes "\<And>a b c. lt a b \<Longrightarrow> lt b c \<Longrightarrow> lt a c" "P x y \<Longrightarrow> P y z \<Longrightarrow> P x z"
    and "lt (k x) (k y) \<or> k x = k y \<and> P x y" "lt (k y) (k z) \<or> k y = k z \<and> P y z"
  shows "lt (k x) (k z) \<or> k x = k z \<and> P x z"
  using assms by metis

lemma not_after_trans:
  assumes "not_after x y" "not_after y z"
  shows "not_after x z"
proof -
  define P3 where "P3 = (\<lambda>(a :: TopologyEdge) (b :: TopologyEdge). \<not> str_less (edge_Target b) (edge_Target a))"
  define P2 where "P2 = (\<lambda>(a :: TopologyEdge) (b :: TopologyEdge). str_less (edge_Source a) (edge_Source b) \<or> edge_Source a = edge_Source b \<and> P3 a b)"
  define P1 where "P1 = (\<lambda>(a :: TopologyEdge) (b :: TopologyEdge). str_less (edge_Type a) (edge_Type b) \<or> edge_Type a = edge_Type b \<and> P2 a b)"
  have P3: "P3 x z" if "P3 x y" "P3 y z"
    using that str_order.trans_not [OF TrueI TrueI TrueI] unfolding P3_def by blast
  have P2: "P2 x z" if "P2 x y" "P2 y z"
    using that lex_trans [where lt = str_less and P = P3 and k = edge_Source and x = x and y = y and z = z]
      str_less_trans P3 unfolding P2_def by blast
  have P1: "P1 x z" if "P1 x y" "P1 y z"
    using that lex_trans [where lt = str_less and P = P2 and k = edge_Type and x = x and y = y and z = z]
      str_less_trans P2 unfolding P1_def by blast
  have eq: "not_after a b \<longleftrightarrow> edge_Confidence b < edge_Confidence a \<or> edge_Confidence a = edge_Confidence b \<and> P1 a b" for a b :: TopologyEdge
    by (simp add: not_after_def P1_def P2_def P3_def)
  show ?thesis
    using assms lex_trans [where lt = "\<lambda>c d. d < c" and P = P1 and k = edge_Confidence and x = x and y = y and z = z]
      P1 unfolding eq by fastforce
qed

interpretation edge_order: weak_order edge_before "\<lambda>_. True"
proof
  show "\<not> edge_before y x" if "edge_before x y" for x y
    using that str_less_asym by (auto simp: edge_before_def split: if_splits)
  show "\<not> edge_before z x" if "\<not> edge_before y x" "\<not> edge_before z y" for x y z
    using that not_after_trans unfolding not_edge_before by blast
qed

lemma edge_before_total:
  assumes "\<not> edge_before a b" "\<not> edge_before b a"
  shows "edge_Type a = edge_Type b \<and> edge_Source a = edge_Source b \<and> edge_Target a = edge_Target b"
  using assms str_less_total [of "edge_Type a" "edge_Type b"] str_less_total [of "edge_Source a" "edge_Source b"]
    str_less_total [of "edge_Target a" "edge_Target b"]
  by (auto simp: edge_before_def split: if_splits)

lemma Edges_order_free:
  assumes "graph_ok ids A g" "\<forall>e \<in> A. edge_wf e" "mset ps = mset (gr_edges g)"
  shows "Edges (g\<lparr>gr_edges := ps\<rparr>) = Edges g"
proof -
  have set: "set ps = set (gr_edges g)" using assms(3) by (rule mset_eq_setD)
  have eq: "a = b" if "a \<in> snd ` set ps" "b \<in> snd ` set ps" "\<not> edge_before a b" "\<not> edge_before b a" for a b
  proof -
    from that(1,2) obtain p q where pq: "p \<in> set (gr_edges g)" "q \<in> set (gr_edges g)" "a = snd p" "b = snd q"
      unfolding set by auto
    then have "edge_ID a = edge_ID b"
      using edge_before_total [OF that(3,4)] assms(1,2) by (auto simp: graph_ok_def edge_wf_def)
    then have "fst p = fst q" using pq assms(1) by (auto simp: graph_ok_def)
    with pq assms(1) show ?thesis by (metis graph_ok_def eq_key_imp_eq_value prod.collapse)
  qed
  show ?thesis
    unfolding Edges_def
    by (rule sorted_wrt_unique [OF edge_order.sorted_sort_by edge_order.sorted_sort_by])
      (use eq assms(3) in auto)
qed

section \<open>Build\<close>

text \<open>
  C9: the edges \<open>Build\<close> returns have distinct identifiers and connect two different devices of the
  input; an edge has a known type, a confidence between 0 and the ceiling of its type, and claims to
  be physical exactly when a neighbour of that kind with evidence was given; every other edge has
  the base confidence of its type and stands for a route hop, the default route or a peer given in
  the input.
\<close>

theorem build_edges_sound:
  assumes "e \<in> set (br_Edges (Build b))"
  shows "edge_Source e \<noteq> edge_Target e \<and> edge_Source e \<in> dev_ID ` set (bi_Devices b) \<and>
    edge_Target e \<in> dev_ID ` set (bi_Devices b) \<and> edge_Type e \<in> validEdgeTypes \<and>
    0 \<le> edge_Confidence e \<and> edge_Confidence e \<le> MaxConfidence (edge_Type e) \<and>
    (if edge_Physical e then e \<in> neighbor_edge ` proven_neighbors b
     else inferred_from b e \<and> edge_Confidence e = BaseConfidence (edge_Type e)) \<and>
    distinct (map edge_ID (br_Edges (Build b)))"
proof -
  note o = Build_edge [OF assms]
  have wf: "edge_wf e" using o(1) by (simp add: offered_def)
  have phys: "edge_Physical e = IsPhysicalEvidenceEdge (edge_Type e)" using wf by (simp add: edge_wf_def)
  have "if edge_Physical e then e \<in> neighbor_edge ` proven_neighbors b
     else inferred_from b e \<and> edge_Confidence e = BaseConfidence (edge_Type e)"
    using o(1) unfolding phys by (auto simp: offered_def inferred_from_def neighbor_edge_def proven_neighbors_def)
  then show ?thesis
    using o(2) wf Build_distinct [of b] by (simp add: addable_def edge_wf_def)
qed

text \<open>
  The report lists the edges in an order that the iteration order of the graph's map does not
  influence.
\<close>

theorem build_order_free:
  assumes "mset ps = mset (gr_edges (build_graph b))"
  shows "Edges ((build_graph b)\<lparr>gr_edges := ps\<rparr>) = br_Edges (Build b)"
  using Edges_order_free [OF build_graph_ok, of b ps] assms by (simp add: offered_def)

text \<open>A device with evidence of a cable to its neighbour, and one that is only on the same subnet.\<close>

definition example_input :: BuildInput where
  "example_input =
     \<lparr>bi_AgentID = ''a'', bi_GatewayID = ''g'',
      bi_Devices = map (\<lambda>i. empty_device\<lparr>dev_ID := i\<rparr>) [''a'', ''g'', ''p''],
      bi_GatewayRouteEvidenceIDs = [''ev-2''], bi_RouteHops = [], bi_L2Peers = [''p''],
      bi_Neighbors = [\<lparr>nbr_FromID = ''a'', nbr_ToID = ''g'', nbr_Kind = EdgeDirectLLDP, nbr_Confidence = 0,
        nbr_Reason = [], nbr_EvidenceIDs = [''ev-3'']\<rparr>]\<rparr>"

lemma example_edge:
  "newEdge ''a'' ''g'' EdgeDirectLLDP (neighborReason EdgeDirectLLDP) 0 [''ev-3''] \<in>
     snd ` set (gr_edges (build_graph example_input))"
  by (simp add: build_graph_def example_input_def NewGraph_def add_neighbor_def add_gateway_def add_peer_def
      AddEdge_def edgeID_def shortEdgeType_def edge_types IsPhysicalEvidenceEdge_def Let_def)

theorem build_edges_sound_witness:
  "newEdge ''a'' ''g'' EdgeDirectLLDP (neighborReason EdgeDirectLLDP) 0 [''ev-3''] \<in>
     neighbor_edge ` proven_neighbors example_input"
proof -
  let ?e = "newEdge ''a'' ''g'' EdgeDirectLLDP (neighborReason EdgeDirectLLDP) 0 [''ev-3'']"
  have e: "?e \<in> set (br_Edges (Build example_input))"
    using example_edge by (simp add: set_Edges)
  have "edge_Physical ?e" by (simp add: IsPhysicalEvidenceEdge_def)
  with build_edges_sound [OF e] show ?thesis by simp
qed

theorem build_order_free_witness:
  "Edges ((build_graph example_input)\<lparr>gr_edges := rev (gr_edges (build_graph example_input))\<rparr>) =
     br_Edges (Build example_input)"
  by (rule build_order_free) simp

end
