(* ===== verification/Validate_Laws.thy ===== *)
theory Validate_Laws
  imports Topo_Laws
begin

text \<open>
  \<open>ValidateReport\<close> against a declarative notion of a consistent report: it reports nothing exactly when
  the identifiers of devices, evidence and edges are present and unique, every reference resolves, and
  every edge is backed by what its type claims.
\<close>

definition in_unit :: "float64 \<Rightarrow> bool" where
  "in_unit c = (0 \<le> c \<and> c \<le> 1)"

definition device_consistent :: "string set \<Rightarrow> Device \<Rightarrow> bool" where
  "device_consistent known d =
     (dev_ID d \<noteq> [] \<and> dev_Addresses d \<noteq> [] \<and> in_unit (dev_Confidence d) \<and>
      set (dev_EvidenceIDs d) \<subseteq> known \<and> (\<forall>s \<in> set (dev_Services d). set (svc_EvidenceIDs s) \<subseteq> known))"

definition edge_consistent :: "string set \<Rightarrow> string set \<Rightarrow> TopologyEdge \<Rightarrow> bool" where
  "edge_consistent devices known e =
     (edge_ID e \<noteq> [] \<and> edge_Type e \<in> validEdgeTypes \<and> edge_Layer e \<noteq> [] \<and> edge_Relationship e \<noteq> [] \<and>
      edge_UILineStyle e \<noteq> [] \<and> in_unit (edge_Confidence e) \<and> edge_Reason e \<noteq> [] \<and>
      edge_Source e \<in> devices \<and> edge_Target e \<in> devices \<and>
      (IsPhysicalEvidenceEdge (edge_Type e) \<longrightarrow> edge_EvidenceIDs e \<noteq> []) \<and>
      (edge_Physical e \<longrightarrow> IsPhysicalEvidenceEdge (edge_Type e)) \<and> set (edge_EvidenceIDs e) \<subseteq> known)"

definition v2_edge_consistent :: "string set \<Rightarrow> TopologyV2Edge \<Rightarrow> bool" where
  "v2_edge_consistent nodes e =
     (tve_ID e \<noteq> [] \<and> tve_Source e \<noteq> [] \<and> tve_Target e \<noteq> [] \<and> tve_Source e \<in> nodes \<and>
      tve_Target e \<in> nodes \<and> tve_Type e \<noteq> [] \<and> tve_Relation e \<noteq> [] \<and> tve_Medium e \<noteq> [] \<and>
      tve_Explanation e \<noteq> [] \<and> in_unit (tve_Confidence e))"

definition v2_consistent :: "TopologyV2Model \<Rightarrow> bool" where
  "v2_consistent t =
     (tv_SchemaVersion t = TopologyReportSchema \<and> distinct (map tvn_ID (tv_Nodes t)) \<and>
      (\<forall>n \<in> set (tv_Nodes t). tvn_ID n \<noteq> [] \<and> in_unit (tvn_Confidence n)) \<and>
      (\<forall>e \<in> set (tv_Edges t). v2_edge_consistent (tvn_ID ` set (tv_Nodes t)) e))"

definition known_evidence :: "ScanReport \<Rightarrow> string set" where
  "known_evidence r = tev_ID ` set (rep_Evidence r) \<union> reg_ID ` set (rep_EvidenceRegistry r)"

definition report_consistent :: "ScanReport \<Rightarrow> bool" where
  "report_consistent r =
     (rep_SchemaVersion r = TopologyReportSchema \<and>
      distinct (map dev_ID (rep_Devices r)) \<and>
      (\<forall>d \<in> set (rep_Devices r). device_consistent (known_evidence r) d) \<and>
      distinct (map tev_ID (rep_Evidence r)) \<and> (\<forall>e \<in> set (rep_Evidence r). tev_ID e \<noteq> []) \<and>
      distinct (map reg_ID (rep_EvidenceRegistry r)) \<and>
      (\<forall>e \<in> set (rep_EvidenceRegistry r). reg_ID e \<noteq> [] \<and> reg_Source e \<noteq> [] \<and> reg_Kind e \<noteq> []) \<and>
      distinct (map edge_ID (rep_Edges r)) \<and>
      (\<forall>e \<in> set (rep_Edges r). edge_consistent (dev_ID ` set (rep_Devices r)) (known_evidence r) e) \<and>
      (case rep_Topology r of None \<Rightarrow> True | Some t \<Rightarrow> v2_consistent t) \<and>
      sum_DeviceCount (rep_Summary r) = int (length (rep_Devices r)) \<and>
      sum_EdgeCount (rep_Summary r) = int (length (rep_Edges r)) \<and>
      sum_EvidenceCount (rep_Summary r) = int (length (rep_Evidence r)))"

section \<open>The loops\<close>

lemma report_if_Nil [simp]: "report_if b p = [] \<longleftrightarrow> \<not> b"
  by (simp add: report_if_def)

lemma not_out_of_range [simp]: "\<not> out_of_range c \<longleftrightarrow> in_unit c"
  by (auto simp: out_of_range_def in_unit_def)

lemma checkEvidence_Nil [simp]: "checkEvidence owner ids known = [] \<longleftrightarrow> set ids \<subseteq> known"
  by (auto simp: checkEvidence_def filter_empty_conv)

lemma check_devices_snd: "snd (check_devices i seen ds) = seen \<union> (dev_ID ` set ds - {[]})"
  by (induction i seen ds rule: check_devices.induct) (auto simp: case_prod_beta)

lemma check_devices_fst:
  "fst (check_devices i seen ds) = [] \<longleftrightarrow>
     distinct (map dev_ID ds) \<and>
     (\<forall>d \<in> set ds. dev_ID d \<noteq> [] \<and> dev_ID d \<notin> seen \<and> dev_Addresses d \<noteq> [] \<and> in_unit (dev_Confidence d))"
  by (induction i seen ds rule: check_devices.induct) (auto simp: case_prod_beta image_iff)

lemma check_records_snd: "snd (check_records i seen es) = seen \<union> (tev_ID ` set es - {[]})"
  by (induction i seen es rule: check_records.induct) (auto simp: case_prod_beta)

lemma check_records_fst:
  "fst (check_records i seen es) = [] \<longleftrightarrow>
     distinct (map tev_ID es) \<and> (\<forall>e \<in> set es. tev_ID e \<noteq> [] \<and> tev_ID e \<notin> seen)"
  by (induction i seen es rule: check_records.induct) (auto simp: case_prod_beta image_iff)

lemma check_registry_snd: "snd (check_registry i seen es) = seen \<union> (reg_ID ` set es - {[]})"
  by (induction i seen es rule: check_registry.induct) (auto simp: case_prod_beta)

lemma check_registry_fst:
  "fst (check_registry i seen es) = [] \<longleftrightarrow>
     distinct (map reg_ID es) \<and>
     (\<forall>e \<in> set es. reg_ID e \<noteq> [] \<and> reg_ID e \<notin> seen \<and> reg_Source e \<noteq> [] \<and> reg_Kind e \<noteq> [])"
  by (induction i seen es rule: check_registry.induct) (auto simp: case_prod_beta image_iff)

lemma check_references_Nil:
  "check_references known d = [] \<longleftrightarrow>
     set (dev_EvidenceIDs d) \<subseteq> known \<and> (\<forall>s \<in> set (dev_Services d). set (svc_EvidenceIDs s) \<subseteq> known)"
  by (simp add: check_references_def)

lemma check_edge_Nil:
  "edge_ID e \<noteq> [] \<and> check_edge devices known e = [] \<longleftrightarrow> edge_consistent devices known e"
  unfolding check_edge_def edge_consistent_def Let_def by simp blast

lemma check_edges_Nil:
  "check_edges i seen devices known es = [] \<longleftrightarrow>
     distinct (map edge_ID es) \<and>
     (\<forall>e \<in> set es. edge_ID e \<notin> seen \<and> edge_consistent devices known e)"
proof (induction i seen devices known es rule: check_edges.induct)
  case (2 i seen devices known e es)
  then show ?case
    unfolding check_edges.simps check_edge_Nil [symmetric] by (auto simp: image_iff)
qed simp

lemma check_v2_nodes_snd: "snd (check_v2_nodes i seen ns) = seen \<union> (tvn_ID ` set ns - {[]})"
  by (induction i seen ns rule: check_v2_nodes.induct) (auto simp: case_prod_beta)

lemma check_v2_nodes_fst:
  "fst (check_v2_nodes i seen ns) = [] \<longleftrightarrow>
     distinct (map tvn_ID ns) \<and> (\<forall>n \<in> set ns. tvn_ID n \<noteq> [] \<and> tvn_ID n \<notin> seen \<and> in_unit (tvn_Confidence n))"
  by (induction i seen ns rule: check_v2_nodes.induct) (auto simp: case_prod_beta image_iff)

lemma check_v2_edges_Nil:
  "check_v2_edges i nodes es = [] \<longleftrightarrow> (\<forall>e \<in> set es. v2_edge_consistent nodes e)"
  by (induction i nodes es rule: check_v2_edges.induct) (auto simp: v2_edge_consistent_def)

lemma minus_Nil: "\<forall>x \<in> set xs. f x \<noteq> [] \<Longrightarrow> f ` set xs - {[]} = f ` set xs"
  by auto

lemma check_v2_Nil: "check_v2 t = [] \<longleftrightarrow> v2_consistent t"
proof (cases "\<forall>n \<in> set (tv_Nodes t). tvn_ID n \<noteq> []")
  case True
  then show ?thesis
    by (auto simp: check_v2_def case_prod_beta check_v2_nodes_fst check_v2_nodes_snd check_v2_edges_Nil
        v2_consistent_def minus_Nil)
next
  case False
  then show ?thesis
    by (auto simp: check_v2_def case_prod_beta check_v2_nodes_fst v2_consistent_def)
qed

section \<open>The report\<close>

lemma ValidateReport_parts:
  "ValidateReport r = [] \<longleftrightarrow>
     (let known = snd (check_records 0 {} (rep_Evidence r)) \<union> snd (check_registry 0 {} (rep_EvidenceRegistry r));
          devices = snd (check_devices 0 {} (rep_Devices r))
      in rep_SchemaVersion r = TopologyReportSchema \<and> fst (check_devices 0 {} (rep_Devices r)) = [] \<and>
         fst (check_records 0 {} (rep_Evidence r)) = [] \<and> fst (check_registry 0 {} (rep_EvidenceRegistry r)) = [] \<and>
         (\<forall>d \<in> set (rep_Devices r). check_references known d = []) \<and>
         check_edges 0 {} devices known (rep_Edges r) = [] \<and>
         (case rep_Topology r of None \<Rightarrow> True | Some t \<Rightarrow> check_v2 t = []) \<and>
         sum_DeviceCount (rep_Summary r) = int (length (rep_Devices r)) \<and>
         sum_EdgeCount (rep_Summary r) = int (length (rep_Edges r)) \<and>
         sum_EvidenceCount (rep_Summary r) = int (length (rep_Evidence r)))"
  unfolding ValidateReport_def Let_def case_prod_beta prod.sel
  by (simp split: option.split)

lemma validate_iff: "ValidateReport r = [] \<longleftrightarrow> report_consistent r"
proof (cases "(\<forall>d \<in> set (rep_Devices r). dev_ID d \<noteq> []) \<and> (\<forall>e \<in> set (rep_Evidence r). tev_ID e \<noteq> []) \<and>
    (\<forall>e \<in> set (rep_EvidenceRegistry r). reg_ID e \<noteq> [])")
  case True
  then have known: "snd (check_records 0 {} (rep_Evidence r)) \<union> snd (check_registry 0 {} (rep_EvidenceRegistry r)) =
      known_evidence r"
    by (simp add: check_records_snd check_registry_snd minus_Nil known_evidence_def)
  have devices: "snd (check_devices 0 {} (rep_Devices r)) = dev_ID ` set (rep_Devices r)"
    using True by (simp add: check_devices_snd minus_Nil)
  show ?thesis
    unfolding ValidateReport_parts known devices Let_def report_consistent_def device_consistent_def
      check_devices_fst check_records_fst check_registry_fst check_references_Nil check_edges_Nil check_v2_Nil
    by (cases "rep_Topology r") (simp_all, blast+)
next
  case False
  then show ?thesis
    unfolding ValidateReport_parts report_consistent_def device_consistent_def Let_def
      check_devices_fst check_records_fst check_registry_fst by blast
qed

text \<open>
  C10: \<open>ValidateReport\<close> finds no problem exactly in the reports that are consistent in the declarative
  sense: identifiers present and unique, references to devices and evidence resolved, confidences
  between 0 and 1, every edge explained and physical only with evidence, and the counts of the summary
  right.
\<close>

theorem validate_exact: "ValidateReport r = [] \<longleftrightarrow> report_consistent r"
  by (rule validate_iff)

end
