(* ===== verification/Discovery_Laws.thy ===== *)
theory Discovery_Laws
  imports Discovery_Run Scope_Laws Validate_Laws
begin

text \<open>
  Laws of the topology scan: every identifier a device or an edge carries is one of the store, so that
  the report of \<open>Run\<close> passes \<open>ValidateReport\<close>, and every device is the agent, the gateway or an address
  of the accepted scope.
\<close>

section \<open>The evidence store\<close>

definition store_ids :: "EvidenceStore \<Rightarrow> string set" where
  "store_ids s = tev_ID ` set (evs_records s)"

text \<open>The records are numbered from 1.\<close>

definition store_ok :: "EvidenceStore \<Rightarrow> bool" where
  "store_ok s = (map tev_ID (evs_records s) = map ev_name [1..<Suc (evs_seq s)])"

text \<open>What every operation on a store does: it keeps the numbering, and every record.\<close>

definition grows :: "EvidenceStore \<Rightarrow> EvidenceStore \<Rightarrow> bool" where
  "grows s t = ((store_ok s \<longrightarrow> store_ok t) \<and> store_ids s \<subseteq> store_ids t)"

lemma grows_refl [simp]: "grows s s"
  by (simp add: grows_def)

lemma grows_trans: "grows s t \<Longrightarrow> grows t u \<Longrightarrow> grows s u"
  by (auto simp: grows_def)

lemma grows_ids: "grows s t \<Longrightarrow> set ids \<subseteq> store_ids s \<Longrightarrow> set ids \<subseteq> store_ids t"
  by (auto simp: grows_def)

lemma read_clock_grows [simp]: "read_clock s = (t, s') \<Longrightarrow> grows s s'"
  by (auto simp: read_clock_def grows_def store_ok_def store_ids_def)

lemma store_Add_grows:
  assumes "store_Add kind source summary data s = (i, s')"
  shows "grows s s'" "i \<in> store_ids s'" "i \<noteq> []"
  using assms
  by (auto simp: store_Add_def read_clock_def Let_def grows_def store_ok_def store_ids_def ev_name_def)

lemma inj_ev_name: "inj ev_name"
  by (auto simp: inj_on_def ev_name_def dest: inj_nat_digits)

lemma store_ok_records:
  assumes "store_ok s"
  shows "distinct (map tev_ID (Records s))" "\<forall>e \<in> set (Records s). tev_ID e \<noteq> []"
proof -
  have "distinct (map ev_name [1..<Suc (evs_seq s)])"
    using inj_ev_name by (simp add: distinct_map inj_on_def inj_def del: upt_Suc)
  then show "distinct (map tev_ID (Records s))" using assms by (simp only: Records_def store_ok_def)
  have "set (map tev_ID (Records s)) \<subseteq> range ev_name"
    using assms unfolding Records_def store_ok_def by auto
  then show "\<forall>e \<in> set (Records s). tev_ID e \<noteq> []" by (auto simp: ev_name_def)
qed

lemma NewEvidenceStore_ok [simp]: "store_ok (NewEvidenceStore c)"
  by (simp add: NewEvidenceStore_def store_ok_def)

section \<open>Devices\<close>

text \<open>What \<open>ValidateReport\<close> asks of a device, and the address it stands for.\<close>

definition services_known :: "Device \<Rightarrow> EvidenceStore \<Rightarrow> bool" where
  "services_known d s = (\<forall>sv \<in> set (dev_Services d). set (svc_EvidenceIDs sv) \<subseteq> store_ids s)"

definition device_ok :: "string \<Rightarrow> Device \<Rightarrow> EvidenceStore \<Rightarrow> bool" where
  "device_ok ip d s =
     (dev_ID d = devID ip \<and> dev_Addresses d = [ipAddress ip] \<and> in_unit (dev_Confidence d) \<and>
      set (dev_EvidenceIDs d) \<subseteq> store_ids s \<and> services_known d s)"

lemma device_ok_mono: "grows s t \<Longrightarrow> device_ok ip d s \<Longrightarrow> device_ok ip d t"
  unfolding device_ok_def services_known_def grows_def by blast

definition part_ok :: "string \<Rightarrow> device_state \<Rightarrow> bool" where
  "part_ok ip st =
     (case st of (d, ids, s) \<Rightarrow>
        dev_ID d = devID ip \<and> dev_Addresses d = [ipAddress ip] \<and> set ids \<subseteq> store_ids s \<and> services_known d s)"

text \<open>A part of the normalizer keeps the device well-formed and lets the store grow.\<close>

definition part_step :: "string \<Rightarrow> device_state \<Rightarrow> device_state \<Rightarrow> bool" where
  "part_step ip st st' = ((part_ok ip st \<longrightarrow> part_ok ip st') \<and> grows (snd (snd st)) (snd (snd st')))"

lemma part_step_trans: "part_step ip a b \<Longrightarrow> part_step ip b c \<Longrightarrow> part_step ip a c"
  unfolding part_step_def using grows_trans by blast

lemma part_step_refl [simp]: "part_step ip a a"
  by (simp add: part_step_def)

lemma part_stepI:
  assumes "store_Add kind source summary data s = (i, s')"
    "dev_ID d' = dev_ID d" "dev_Addresses d' = dev_Addresses d"
    "\<forall>sv \<in> set (dev_Services d'). sv \<in> set (dev_Services d) \<or> svc_EvidenceIDs sv = [i]"
  shows "part_step ip (d, ids, s) (d', ids @ [i], s')"
  using store_Add_grows [OF assms(1)] assms(2-4)
  unfolding part_step_def part_ok_def services_known_def grows_def by fastforce

lemma sweep_part_cases:
  assumes "sweep_part ip alive ports (d, ids, s) = Some st"
  shows "st = (d, ids, s) \<or> (\<exists>summary data i s'. store_Add EvidenceTCPConnect ''tcp_sweep'' summary data s = (i, s') \<and>
    st = (d\<lparr>dev_Services := dev_Services d @ map (\<lambda>p.
             \<lparr>svc_Port = p, svc_Protocol = ''tcp'', svc_State = ''open'', svc_Name = commonServiceName p,
              svc_Product = [], svc_EvidenceIDs = [i]\<rparr>) ports\<rparr>, ids @ [i], s'))"
proof (cases "alive \<and> ports \<noteq> []")
  case True
  define summary where "summary = ip @ '' accepted TCP connections on '' @ nat_digits (length ports) @ '' port(s).''"
  from True assms obtain ps where st: "st = (case store_Add EvidenceTCPConnect ''tcp_sweep'' summary
        [(''ip'', ip), (''ports'', joinStrings ps '','')] s of (i, s) \<Rightarrow>
        (d\<lparr>dev_Services := dev_Services d @ map (\<lambda>p.
             \<lparr>svc_Port = p, svc_Protocol = ''tcp'', svc_State = ''open'', svc_Name = commonServiceName p,
              svc_Product = [], svc_EvidenceIDs = [i]\<rparr>) ports\<rparr>, ids @ [i], s))"
    unfolding sweep_part_def prod.case summary_def [symmetric] by auto
  obtain i s' where "store_Add EvidenceTCPConnect ''tcp_sweep'' summary [(''ip'', ip), (''ports'', joinStrings ps '','')] s = (i, s')"
    by (meson surj_pair)
  then show ?thesis using st by auto
next
  case False
  with assms show ?thesis by (auto simp: sweep_part_def split: if_splits)
qed

lemma sweep_part_step: "sweep_part ip alive ports st = Some st' \<Longrightarrow> part_step ip st st'"
  by (cases st) (auto dest!: sweep_part_cases intro!: part_stepI)

lemma mac_part_step: "part_step ip st (mac_part ip mac st)"
  by (cases st) (auto simp: mac_part_def split: prod.split intro!: part_stepI)

lemma dns_part_step: "part_step ip st (dns_part lookup ip st)"
  by (cases st) (auto simp: dns_part_def split: prod.split option.split intro!: part_stepI)

lemma set_uniq_loop: "set (uniq_loop out xs) \<subseteq> set out \<union> set xs"
  by (induction out xs rule: uniq_loop.induct) auto

lemma set_sort_strings [simp]: "set (sort_strings xs) = set xs"
  by (simp add: sort_strings_def)

lemma set_sortedUnique: "set (sortedUnique xs) \<subseteq> set xs"
  using set_uniq_loop [of "[]" xs] by (simp add: sortedUnique_def)

lemma set_dedupSorted: "set (dedupSorted xs) \<subseteq> set xs"
  using set_uniq_loop [of "[]" xs] by (simp add: dedupSorted_def)

lemma deviceConfidence_unit: "in_unit (deviceConfidence d alive)"
proof -
  have f: "0 \<le> flit (95 / 100)" "0 \<le> flit (90 / 100)" "0 \<le> flit (70 / 100)" "0 \<le> flit (50 / 100)" "0 \<le> flit (5 / 100)"
    by simp_all
  show ?thesis using f unfolding deviceConfidence_def in_unit_def Let_def by auto
qed

lemma Normalizer_Device_ok:
  assumes "Normalizer_Device lookup ip alive ports mac isAgent isGateway extra s = Some (d, s')"
    "set extra \<subseteq> store_ids s"
  shows "device_ok ip d s'" "grows s s'"
proof -
  define d0 where "d0 = empty_device\<lparr>dev_ID := devID ip, dev_IsAgent := isAgent, dev_IsGateway := isGateway,
      dev_Addresses := [ipAddress ip]\<rparr>"
  obtain st0 where st0: "sweep_part ip alive ports (d0, extra, s) = Some st0"
    using assms(1) unfolding Normalizer_Device_def d0_def Let_def by (auto simp only: map_option_eq_Some)
  let ?st = "dns_part lookup ip (mac_part ip mac st0)"
  have step: "part_step ip (d0, extra, s) ?st"
    using part_step_trans sweep_part_step [OF st0] mac_part_step dns_part_step by metis
  have "part_ok ip (d0, extra, s)"
    using assms(2) by (simp add: part_ok_def d0_def services_known_def empty_device_def)
  then have ok: "part_ok ip ?st" using step by (simp add: part_step_def)
  obtain d1 ids s1 where st: "?st = (d1, ids, s1)" by (cases ?st)
  have s': "s' = s1" "d = (let d = d1\<lparr>dev_EvidenceIDs := sortedUnique ids\<rparr> in d\<lparr>dev_Confidence := deviceConfidence d alive\<rparr>)"
    using assms(1) st st0 by (simp_all add: Normalizer_Device_def d0_def [symmetric] Let_def)
  show "grows s s'" using step by (simp add: part_step_def st s')
  have "set (sortedUnique ids) \<subseteq> store_ids s1"
    using ok set_sortedUnique [of ids] by (auto simp: st part_ok_def)
  then show "device_ok ip d s'"
    using ok unfolding st s' by (simp add: part_ok_def device_ok_def deviceConfidence_unit services_known_def Let_def)
qed

text \<open>The scan of services reports services without evidence of their own.\<close>

lemma set_add_services:
  "add_services i hs services = Some out \<Longrightarrow> sv \<in> set out \<Longrightarrow>
     sv \<in> set services \<or> (\<exists>h \<in> set hs. svc_EvidenceIDs sv = svc_EvidenceIDs h @ [i])"
proof (induction hs arbitrary: services)
  case (Cons h hs)
  from Cons.prems obtain mid where "add_service i h services = Some mid" "add_services i hs mid = Some out"
    by (auto simp: bind_eq_Some_conv)
  then show ?case using Cons.IH [of mid] Cons.prems(2)
    by (auto simp: add_service_def split: if_splits)
qed simp

lemma attachNmap_ok:
  assumes "attachNmap h (d, s) = Some (d', s')" "\<forall>sv \<in> set (sh_Services h). svc_EvidenceIDs sv = []" "device_ok ip d s"
  shows "device_ok ip d' s'" "grows s s'"
proof -
  obtain n where n: "port_itoa (int (length (sh_Services h))) = Some n"
    using assms(1) by (auto simp: attachNmap_def bind_eq_Some_conv)
  obtain i t where a: "store_Add EvidenceNmap ''nmap''
      (''Nmap reported '' @ nat_digits (length (sh_Services h)) @ '' open service(s) on '' @ sh_IP h @ ''.'')
      [(''ip'', sh_IP h), (''services'', n)] s = (i, t)"
    by (meson surj_pair)
  note g = store_Add_grows [OF a]
  obtain out where out: "add_services i (sh_Services h) (dev_Services d) = Some out"
    and s': "s' = t" and d': "dev_Services d' = sort_by service_before out"
    "dev_EvidenceIDs d' = sortedUnique (dev_EvidenceIDs d @ [i])" "dev_ID d' = dev_ID d"
    "dev_Addresses d' = dev_Addresses d" "dev_Confidence d' = dev_Confidence d"
    using assms(1) a n by (auto simp: attachNmap_def split: if_splits)
  show "grows s s'" using g(1) s' by simp
  have ok: "device_ok ip d t" using assms(3) g(1) device_ok_mono by blast
  have "set (svc_EvidenceIDs sv) \<subseteq> store_ids t" if "sv \<in> set (dev_Services d')" for sv
    using set_add_services [OF out, of sv] that assms(2) ok g(2) unfolding d' set_sort_by device_ok_def services_known_def
    by fastforce
  moreover have "set (dev_EvidenceIDs d') \<subseteq> store_ids t"
    using set_sortedUnique [of "dev_EvidenceIDs d @ [i]"] ok g(2) unfolding d' device_ok_def by auto
  ultimately show "device_ok ip d' s'"
    using ok unfolding s' device_ok_def services_known_def d'(3-5) by blast
qed

section \<open>Every device of the scan\<close>

definition services_bare :: "sweepResult \<Rightarrow> bool" where
  "services_bare res = (\<forall>h \<in> set (swr_scanned res). \<forall>sv \<in> set (sh_Services h). svc_EvidenceIDs sv = [])"

lemma last_with_set: "last_with key xs ip = Some x \<Longrightarrow> x \<in> set xs \<and> key x = ip"
  by (auto simp: last_with_def find_Some_iff in_set_conv_nth) (metis length_rev nth_mem set_rev in_set_conv_nth)

lemma device_ok_fields:
  assumes "device_ok ip d s" "dev_ID d' = dev_ID d" "dev_Addresses d' = dev_Addresses d"
    "dev_Confidence d' = dev_Confidence d" "dev_EvidenceIDs d' = dev_EvidenceIDs d" "dev_Services d' = dev_Services d"
  shows "device_ok ip d' s"
  using assms by (simp add: device_ok_def services_known_def)

text \<open>The shape of \<open>build_device\<close>: the normalizer, the service scan, and fields that do not matter here.\<close>

definition keeps_fields :: "(Device \<Rightarrow> Device) \<Rightarrow> bool" where
  "keeps_fields f = (\<forall>d. dev_ID (f d) = dev_ID d \<and> dev_Addresses (f d) = dev_Addresses d \<and>
     dev_Confidence (f d) = dev_Confidence d \<and> dev_EvidenceIDs (f d) = dev_EvidenceIDs d \<and>
     dev_Services (f d) = dev_Services d)"

definition attach_scan :: "ScannedHost option \<Rightarrow> Device \<times> EvidenceStore \<Rightarrow> (Device \<times> EvidenceStore) option" where
  "attach_scan scan ds = (case scan of Some h \<Rightarrow> attachNmap h ds | None \<Rightarrow> Some ds)"

definition hit_ports :: "sweepResult \<Rightarrow> string \<Rightarrow> int list" where
  "hit_ports res ip = (case last_with hh_IP (swr_hits res) ip of Some h \<Rightarrow> hh_OpenPorts h | None \<Rightarrow> [])"

lemma build_device_shape:
  "\<exists>alive mac isAgent isGateway f.
     build_device c ip s =
       map_option (\<lambda>(d, s). (f d, s))
         (Option.bind (Normalizer_Device (bc_Resolver c) ip alive (hit_ports (bc_Result c) ip) mac isAgent isGateway
             (if ip = bc_GatewayIP c \<and> bc_GatewayEvID c \<noteq> [] then [bc_GatewayEvID c] else []) s)
           (attach_scan (last_with sh_IP (swr_scanned (bc_Result c)) ip))) \<and> keeps_fields f"
  unfolding build_device_def Let_def attach_scan_def [symmetric] hit_ports_def [symmetric]
  by (intro exI conjI, rule refl) (simp add: keeps_fields_def)

lemma build_device_ok:
  assumes "build_device c ip s = Some (d, s')" "services_bare (bc_Result c)"
    "bc_GatewayEvID c \<noteq> [] \<longrightarrow> bc_GatewayEvID c \<in> store_ids s"
  shows "device_ok ip d s'" "grows s s'"
proof -
  define extra where "extra = (if ip = bc_GatewayIP c \<and> bc_GatewayEvID c \<noteq> [] then [bc_GatewayEvID c] else [])"
  have extra: "set extra \<subseteq> store_ids s" using assms(3) by (auto simp: extra_def)
  define ports where "ports = hit_ports (bc_Result c) ip"
  obtain alive mac isAgent isGateway f where b:
    "build_device c ip s = map_option (\<lambda>(d, s). (f d, s))
        (Option.bind (Normalizer_Device (bc_Resolver c) ip alive ports mac isAgent isGateway extra s)
          (attach_scan (last_with sh_IP (swr_scanned (bc_Result c)) ip)))"
    and f: "keeps_fields f"
    using build_device_shape [of c ip s] unfolding extra_def ports_def by blast
  obtain d1 s1 d2 s2 where n: "Normalizer_Device (bc_Resolver c) ip alive ports mac isAgent isGateway extra s = Some (d1, s1)"
    and d2: "attach_scan (last_with sh_IP (swr_scanned (bc_Result c)) ip) (d1, s1) = Some (d2, s2)"
    and d: "d = f d2" "s' = s2"
    using assms(1) unfolding b by (auto simp: bind_eq_Some_conv)
  note ok = Normalizer_Device_ok [OF n extra]
  have "device_ok ip d2 s2 \<and> grows s s2"
  proof (cases "last_with sh_IP (swr_scanned (bc_Result c)) ip")
    case None
    then show ?thesis using d2 ok by (simp add: attach_scan_def)
  next
    case (Some h)
    then have "\<forall>sv \<in> set (sh_Services h). svc_EvidenceIDs sv = []"
      using assms(2) last_with_set [OF Some] unfolding services_bare_def by blast
    with attachNmap_ok [of h d1 s1 d2 s2, OF _ this ok(1)] Some d2 ok(2) show ?thesis
      using grows_trans by (auto simp: attach_scan_def)
  qed
  then show "device_ok ip d s'" "grows s s'"
    using device_ok_fields [of ip d2 s2 d] f unfolding d keeps_fields_def by simp_all
qed

lemma build_each_ok:
  assumes "build_each c ips s = Some (ds, s')" "services_bare (bc_Result c)"
    "bc_GatewayEvID c \<noteq> [] \<longrightarrow> bc_GatewayEvID c \<in> store_ids s"
  shows "list_all2 (\<lambda>ip d. device_ok ip d s') ips ds \<and> grows s s'"
  using assms
proof (induction ips arbitrary: s ds s')
  case (Cons ip ips)
  from Cons.prems(1) obtain d s1 es s2 where d: "build_device c ip s = Some (d, s1)"
    and es: "build_each c ips s1 = Some (es, s2)" and ds: "ds = d # es" "s' = s2"
    by (auto simp: bind_eq_Some_conv)
  note ok = build_device_ok [OF d Cons.prems(2,3)]
  have "bc_GatewayEvID c \<noteq> [] \<longrightarrow> bc_GatewayEvID c \<in> store_ids s1"
    using Cons.prems(3) ok(2) by (auto simp: grows_def)
  from Cons.IH [OF es Cons.prems(2) this] have IH: "list_all2 (\<lambda>ip d. device_ok ip d s2) ips es" "grows s1 s2"
    by simp_all
  show ?case unfolding ds using IH ok device_ok_mono [OF IH(2) ok(1)] grows_trans by simp
qed simp

section \<open>The sources of addresses\<close>

definition found :: "sweepResult \<Rightarrow> string set" where
  "found r = fst ` set (swr_sources r)"

definition sources_distinct :: "sweepResult \<Rightarrow> bool" where
  "sources_distinct r = distinct (map fst (swr_sources r))"

lemma found_addSource: "found (addSource ip src r) = (if ip = [] then {} else {ip}) \<union> found r"
proof (cases "src \<in> set (sources_of (swr_sources r) ip)")
  case True
  then obtain ss where "map_of (swr_sources r) ip = Some ss"
    by (cases "map_of (swr_sources r) ip") (simp_all add: sources_of_def)
  then have "ip \<in> found r" unfolding found_def by (metis map_of_SomeD fst_conv image_eqI)
  with True show ?thesis by (auto simp: addSource_def found_def)
qed (auto simp: addSource_def found_def)

lemma addSource_keeps [simp]:
  "sources_distinct r \<Longrightarrow> sources_distinct (addSource ip src r)" "swr_scanned (addSource ip src r) = swr_scanned r"
  by (simp_all add: addSource_def sources_distinct_def)

lemma InScope_nonempty: "InScope scope ip \<Longrightarrow> ip \<noteq> []"
  by (auto simp: InScope_def parse_ip_def parse_addr_def split: if_splits option.splits)

text \<open>What the loops of \<open>discover\<close> do to the sources: they add the addresses of a list that pass a test.\<close>

definition adds :: "string set \<Rightarrow> sweepResult \<Rightarrow> sweepResult \<Rightarrow> bool" where
  "adds ips r r' = (found r' = found r \<union> ips \<and> (sources_distinct r \<longrightarrow> sources_distinct r'))"

lemma adds_refl [simp]: "adds {} r r"
  by (simp add: adds_def)

lemma adds_trans: "adds A r s \<Longrightarrow> adds B s t \<Longrightarrow> adds (A \<union> B) r t"
  by (auto simp: adds_def)

lemma fold_adds_sources:
  assumes "\<And>x acc. adds (A x) (k acc) (k (f x acc))"
  shows "adds (\<Union>x \<in> set xs. A x) (k acc) (k (fold f xs acc))"
proof (induction xs arbitrary: acc)
  case (Cons x xs)
  show ?case using adds_trans [OF assms Cons.IH] by simp
qed simp

lemma fold_keeps_field: "(\<And>x acc. k (f x acc) = k acc) \<Longrightarrow> k (fold f xs acc) = k acc"
  by (induction xs arbitrary: acc) simp_all

lemma steps_add:
  "adds ({ip} - {[]}) r (addSource ip src r)"
  "adds (if InScope scope (arp_IP e) then {arp_IP e} else {}) (snd acc) (snd (add_swept scope e acc))"
  "adds (if InScope scope (arp_IP e) then {arp_IP e} else {}) (snd acc) (snd (add_table scope e acc))"
  "adds (if InScope scope (sh_IP h) then {sh_IP h} else {}) r (add_scanned scope h r)"
proof -
  have scanned: "found (r\<lparr>swr_scanned := xs\<rparr>) = found r" "sources_distinct (r\<lparr>swr_scanned := xs\<rparr>) = sources_distinct r" for r xs
    by (simp_all add: found_def sources_distinct_def)
  show "adds ({ip} - {[]}) r (addSource ip src r)" by (auto simp: adds_def found_addSource)
  show "adds (if InScope scope (arp_IP e) then {arp_IP e} else {}) (snd acc) (snd (add_swept scope e acc))"
    "adds (if InScope scope (arp_IP e) then {arp_IP e} else {}) (snd acc) (snd (add_table scope e acc))"
    by (simp_all add: adds_def add_swept_def add_table_def found_addSource InScope_nonempty)
  show "adds (if InScope scope (sh_IP h) then {sh_IP h} else {}) r (add_scanned scope h r)"
    by (simp add: adds_def add_scanned_def found_addSource InScope_nonempty scanned)
qed

lemma steps_keep_scanned [simp]:
  "swr_scanned (snd (add_swept scope e acc)) = swr_scanned (snd acc)"
  "swr_scanned (snd (add_table scope e acc)) = swr_scanned (snd acc)"
  by (simp_all add: add_swept_def add_table_def)

definition bare_scanner :: "Options \<Rightarrow> bool" where
  "bare_scanner opts =
     (case opt_Service opts of
        None \<Rightarrow> True
      | Some (_, scan) \<Rightarrow>
          (\<forall>scope. case scan scope of
             None \<Rightarrow> True
           | Some hosts \<Rightarrow> \<forall>h \<in> set hosts. \<forall>sv \<in> set (sh_Services h). svc_EvidenceIDs sv = []))"

lemma add_scanned_bare:
  "services_bare r \<Longrightarrow> \<forall>sv \<in> set (sh_Services h). svc_EvidenceIDs sv = [] \<Longrightarrow> services_bare (add_scanned scope h r)"
  by (auto simp: add_scanned_def services_bare_def)

text \<open>The addresses the sources of a scan report, in the scope where the code asks for it.\<close>

definition swept_addresses :: "Environment \<Rightarrow> Options \<Rightarrow> LanScope \<Rightarrow> string set" where
  "swept_addresses env opts scope =
     (if scp_HostCount scope > 0 then hh_IP ` set (sweeper env opts scope) - {[]} else {})"

definition neighbour_addresses :: "Environment \<Rightarrow> Options \<Rightarrow> LanScope \<Rightarrow> string set" where
  "neighbour_addresses env opts scope =
     (if scp_HostCount scope > 0 then arp_IP ` set (arpSweeper env opts scope) else {}) \<union>
     (case arpReader env opts of None \<Rightarrow> {} | Some table \<Rightarrow> arp_IP ` set table)"

definition scanned_addresses :: "Options \<Rightarrow> LanScope \<Rightarrow> string set" where
  "scanned_addresses opts scope =
     (case opt_Service opts of
        Some (True, scan) \<Rightarrow> (case scan scope of Some hosts \<Rightarrow> sh_IP ` set hosts | None \<Rightarrow> {})
      | _ \<Rightarrow> {})"

lemma discover_sources:
  shows "found (discover env opts scope) = swept_addresses env opts scope \<union>
      {ip \<in> neighbour_addresses env opts scope \<union> scanned_addresses opts scope. InScope scope ip}"
    "sources_distinct (discover env opts scope)"
    "bare_scanner opts \<Longrightarrow> services_bare (discover env opts scope)"
proof -
  define hs where "hs = (if scp_HostCount scope > 0 then sweeper env opts scope else [])"
  define r0 :: sweepResult where "r0 = \<lparr>swr_hits = [], swr_arp = [], swr_scanned = [], swr_sources = []\<rparr>"
  define r1 where "r1 = fold (\<lambda>h. addSource (hh_IP h) srcTCP) hs (r0\<lparr>swr_hits := hs\<rparr>)"
  define sw where "sw = (if scp_HostCount scope > 0 then arpSweeper env opts scope else [])"
  define a1 where "a1 = fold (add_swept scope) sw ([], r1)"
  define a2 where "a2 = (case arpReader env opts of None \<Rightarrow> a1 | Some table \<Rightarrow> fold (add_table scope) table a1)"
  define r2 where "r2 = (snd a2)\<lparr>swr_arp := sort_by (\<lambda>a b. ip_before (arp_IP a) (arp_IP b))
                  (map (\<lambda>p. \<lparr>arp_IP = fst p, arp_MAC = snd p\<rparr>) (fst a2))\<rparr>"
  have d: "discover env opts scope =
      (case opt_Service opts of
           Some (True, scan) \<Rightarrow>
             (case scan scope of Some hosts \<Rightarrow> fold (add_scanned scope) hosts r2 | None \<Rightarrow> r2)
         | _ \<Rightarrow> r2)"
    unfolding discover_def Let_def hs_def r0_def r1_def sw_def a1_def a2_def r2_def by (rule refl)
  have r1: "adds (swept_addresses env opts scope) (r0\<lparr>swr_hits := hs\<rparr>) r1"
    using fold_adds_sources [where k = "\<lambda>r. r" and A = "\<lambda>h. {hh_IP h} - {[]}", OF steps_add(1), where xs = hs]
    unfolding r1_def swept_addresses_def hs_def by (auto simp: adds_def)
  have a1: "adds {ip \<in> arp_IP ` set sw. InScope scope ip} r1 (snd a1)"
    using fold_adds_sources [where k = snd, OF steps_add(2), where xs = sw and acc = "([], r1)"]
    unfolding a1_def adds_def by auto
  have a2: "adds {ip. \<exists>table. arpReader env opts = Some table \<and> ip \<in> arp_IP ` set table \<and> InScope scope ip} (snd a1) (snd a2)"
  proof -
    have "adds {ip \<in> arp_IP ` set table. InScope scope ip} (snd a1) (snd (fold (add_table scope) table a1))" for table
      using fold_adds_sources [where k = snd and f = "add_table scope" and xs = table and acc = a1, OF steps_add(3)]
      unfolding adds_def by auto
    then show ?thesis unfolding a2_def by (cases "arpReader env opts") (auto simp: adds_def)
  qed
  have r2_same: "found r2 = found (snd a2)" "sources_distinct r2 = sources_distinct (snd a2)"
    by (simp_all add: r2_def found_def sources_distinct_def)
  have disc: "adds {ip \<in> scanned_addresses opts scope. InScope scope ip} r2 (discover env opts scope)"
  proof -
    have "adds {ip \<in> sh_IP ` set hosts. InScope scope ip} r2 (fold (add_scanned scope) hosts r2)" for hosts
      using fold_adds_sources [where k = "\<lambda>r. r", OF steps_add(4), where xs = hosts and acc = r2]
      unfolding adds_def by auto
    then show ?thesis unfolding d scanned_addresses_def by (simp split: option.split prod.split bool.split)
  qed
  have start: "found (r0\<lparr>swr_hits := hs\<rparr>) = {}" "sources_distinct (r0\<lparr>swr_hits := hs\<rparr>)"
    by (simp_all add: r0_def found_def sources_distinct_def)
  show "sources_distinct (discover env opts scope)"
    using r1 a1 a2 disc start unfolding adds_def r2_same by blast
  have "neighbour_addresses env opts scope =
      arp_IP ` set sw \<union> {ip. \<exists>table. arpReader env opts = Some table \<and> ip \<in> arp_IP ` set table}"
    unfolding neighbour_addresses_def sw_def by (cases "arpReader env opts") auto
  then show "found (discover env opts scope) = swept_addresses env opts scope \<union>
      {ip \<in> neighbour_addresses env opts scope \<union> scanned_addresses opts scope. InScope scope ip}"
    using r1 a1 a2 disc start unfolding adds_def r2_same by auto
  show "services_bare (discover env opts scope)" if bare: "bare_scanner opts"
  proof -
    have "swr_scanned (snd a2) = []"
      unfolding a2_def a1_def r1_def
      by (simp add: fold_keeps_field [where k = "\<lambda>acc. swr_scanned (snd acc)"] fold_keeps_field [where k = swr_scanned] r0_def
          split: option.split)
    then have b2: "services_bare r2" by (simp add: services_bare_def r2_def)
    have "services_bare (fold (add_scanned scope) hosts r2)"
      if "\<forall>h \<in> set hosts. \<forall>sv \<in> set (sh_Services h). svc_EvidenceIDs sv = []" for hosts
      using that b2 by (induction hosts arbitrary: r2 rule: rev_induct) (simp_all add: add_scanned_bare)
    moreover have "\<forall>h \<in> set hosts. \<forall>sv \<in> set (sh_Services h). svc_EvidenceIDs sv = []"
      if "opt_Service opts = Some (ok, scan)" "scan scope = Some hosts" for ok scan hosts
      using bare that unfolding bare_scanner_def by (simp split: option.splits)
    ultimately show ?thesis using b2 unfolding d by (simp split: option.split prod.split bool.split)
  qed
qed

section \<open>The devices of the scan\<close>

lemma inj_devID: "devID a = devID b \<longleftrightarrow> a = b"
  by (simp add: devID_def)

text \<open>The addresses of a list of devices.\<close>

definition addresses :: "Device list \<Rightarrow> string set" where
  "addresses ds = (\<lambda>d. ipa_IP (hd (dev_Addresses d))) ` set ds"

lemma buildDevices_ok:
  assumes "buildDevices lookup primary agentIP gatewayIP gatewayEvID res now s = Some (ds, agentID, gatewayID, res', s')"
    "sources_distinct res" "services_bare res" "gatewayEvID \<noteq> [] \<longrightarrow> gatewayEvID \<in> store_ids s"
  shows "grows s s'" "distinct (map dev_ID ds)" "\<forall>d \<in> set ds. \<exists>ip. device_ok ip d s'"
    "addresses ds = {agentIP, gatewayIP} \<union> found res - {[]}"
proof -
  let ?res = "addSource gatewayIP srcGateway (addSource agentIP srcSelf res)"
  let ?ips = "sort_by ip_before (filter (\<lambda>ip. ip \<noteq> []) (map fst (swr_sources ?res)))"
  let ?c = "\<lparr>bc_Resolver = lookup, bc_PrimaryMAC = ifc_MAC primary, bc_AgentIP = agentIP,
               bc_GatewayIP = gatewayIP, bc_GatewayEvID = gatewayEvID, bc_Result = ?res, bc_Now = now\<rparr>"
  obtain es s1 where e: "build_each ?c ?ips s = Some (es, s1)" and d: "ds = es" "s' = s1"
    using assms(1) by (auto simp: buildDevices_def Let_def)
  have "services_bare ?res" using assms(3) by (simp add: services_bare_def)
  then have each: "list_all2 (\<lambda>ip d. device_ok ip d s1) ?ips es" and g: "grows s s1"
    using build_each_ok [OF e] assms(4) by simp_all
  show "grows s s'" using g d by simp
  have ids: "map dev_ID es = map devID ?ips" and ips: "map (\<lambda>d. ipa_IP (hd (dev_Addresses d))) es = ?ips"
    using each by (induction rule: list_all2_induct) (simp_all add: device_ok_def ipAddress_def)
  have "mset ?ips = mset (filter (\<lambda>ip. ip \<noteq> []) (map fst (swr_sources ?res)))" by simp
  then have "distinct ?ips"
    using assms(2) by (metis distinct_filter mset_eq_imp_distinct_iff sources_distinct_def addSource_keeps(1))
  then show "distinct (map dev_ID ds)" unfolding d ids by (simp add: distinct_map inj_on_def inj_devID)
  have "addresses es = set ?ips" by (metis addresses_def ips list.set_map)
  also have "\<dots> = found ?res - {[]}" by (auto simp: found_def)
  finally show "addresses ds = {agentIP, gatewayIP} \<union> found res - {[]}"
    unfolding d found_addSource by auto
  show "\<forall>d \<in> set ds. \<exists>ip. device_ok ip d s'"
    using each unfolding d by (metis in_set_conv_nth list_all2_conv_all_nth)
qed

lemma route_hops_evidence: "h \<in> set (route_hops known i chain) \<Longrightarrow> hop_EvidenceIDs h = [i]"
  by (induction known i chain rule: route_hops.induct) (auto split: if_splits)

lemma buildRouteHops_ok:
  assumes "buildRouteHops chain ds s = (hops, s')"
  shows "grows s s'" "\<forall>h \<in> set hops. set (hop_EvidenceIDs h) \<subseteq> store_ids s'"
proof -
  have "grows s s' \<and> (\<forall>h \<in> set hops. set (hop_EvidenceIDs h) \<subseteq> store_ids s')"
  proof (cases "length chain < 2")
    case True
    then show ?thesis using assms by (simp add: buildRouteHops_def)
  next
    case False
    then obtain i where "store_Add EvidenceGatewayRoute ''gateway_chain''
          ''A multi-hop private gateway chain was observed (possible router-behind-router).''
          [(''chain'', joinStrings chain '' -> '')] s = (i, s')" "hops = route_hops (set (map dev_ID ds)) i chain"
      using assms by (auto simp: buildRouteHops_def split: prod.splits)
    then show ?thesis using store_Add_grows route_hops_evidence by fastforce
  qed
  then show "grows s s'" "\<forall>h \<in> set hops. set (hop_EvidenceIDs h) \<subseteq> store_ids s'" by blast+
qed

lemma context_evidence_ok:
  assumes "context_evidence primary gatewayIP s = (i, s')"
  shows "grows s s'" "i \<noteq> [] \<longrightarrow> i \<in> store_ids s'"
proof -
  have "\<exists>k so su da. context_evidence primary gatewayIP s =
      (if gatewayIP \<noteq> [] then
         store_Add EvidenceGatewayRoute ''gateway_probe''
             (''Default route points to gateway '' @ gatewayIP @ ''.'') [(''gateway'', gatewayIP)]
           (snd (store_Add k so su da s))
       else ([], snd (store_Add k so su da s)))"
    unfolding context_evidence_def Let_def by (intro exI) (rule refl)
  then obtain k so su da where t: "context_evidence primary gatewayIP s =
      (if gatewayIP \<noteq> [] then
         store_Add EvidenceGatewayRoute ''gateway_probe''
             (''Default route points to gateway '' @ gatewayIP @ ''.'') [(''gateway'', gatewayIP)]
           (snd (store_Add k so su da s))
       else ([], snd (store_Add k so su da s)))" by blast
  have g: "grows s (snd (store_Add k so su da s))" by (rule store_Add_grows(1) [OF prod.collapse [symmetric]])
  have "grows s s' \<and> (i \<noteq> [] \<longrightarrow> i \<in> store_ids s')"
  proof (cases "gatewayIP = []")
    case True
    then show ?thesis using assms g unfolding t by simp
  next
    case False
    then have "store_Add EvidenceGatewayRoute ''gateway_probe''
        (''Default route points to gateway '' @ gatewayIP @ ''.'') [(''gateway'', gatewayIP)]
        (snd (store_Add k so su da s)) = (i, s')"
      using assms unfolding t by simp
    from store_Add_grows [OF this] show ?thesis using g grows_trans by blast
  qed
  then show "grows s s'" "i \<noteq> [] \<longrightarrow> i \<in> store_ids s'" by blast+
qed

lemma Build_no_neighbors:
  assumes "bi_Neighbors b = []" "e \<in> set (br_Edges (Build b))"
    "\<forall>h \<in> set (bi_RouteHops b). set (hop_EvidenceIDs h) \<subseteq> known" "set (bi_GatewayRouteEvidenceIDs b) \<subseteq> known"
  shows "edge_consistent (dev_ID ` set (bi_Devices b)) known e \<and> \<not> edge_Physical e"
proof -
  note o = Build_edge [OF assms(2)]
  have inf: "inferred_from b e" "edge_wf e" "\<not> IsPhysicalEvidenceEdge (edge_Type e)"
    using o(1) assms(1) by (auto simp: offered_def proven_neighbors_def inferred_from_def)
  have "set (edge_EvidenceIDs e) \<subseteq> known"
    using inf(1) assms(3,4) set_dedupSorted unfolding inferred_from_def by (metis empty_set empty_subsetI subset_trans)
  moreover have "edge_Confidence e \<le> 1"
    using inf(2) edge_confidences(2) [of "edge_Type e"] unfolding edge_wf_def by linarith
  ultimately show ?thesis
    using inf o(2) by (simp add: edge_consistent_def edge_wf_def addable_def in_unit_def)
qed

section \<open>The selected interface\<close>

lemma select_loop_bound:
  "select_loop gw v i best ifaces = Some (j, score) \<Longrightarrow> (\<forall>j score. best = Some (j, score) \<longrightarrow> j < i) \<Longrightarrow>
     j < i + length ifaces"
proof (induction gw v i best ifaces rule: select_loop.induct)
  case (2 gw v i best ifc rest)
  have "(if \<not> usable_interface v ifc then best
         else case best of
           None \<Rightarrow> if interface_score gw ifc > - 1 then Some (i, interface_score gw ifc) else None
         | Some (j, bestScore) \<Rightarrow> if interface_score gw ifc > bestScore then Some (i, interface_score gw ifc) else best) =
         Some (j, sc) \<Longrightarrow> j < Suc i" for j sc
    using "2.prems"(2) by (auto split: if_splits option.splits prod.splits intro: less_SucI)
  then show ?case using "2.IH" "2.prems"(1) by (simp add: Let_def) blast
qed simp

lemma find_index_bound: "find_index P xs = Some i \<Longrightarrow> i < length xs"
  by (induction xs arbitrary: i) (auto split: if_splits)

lemma select_at_member: "i < length ifaces \<Longrightarrow> select_at i ifaces = (ifc, xs) \<Longrightarrow> ifc \<in> set xs \<and> ifc_Selected ifc"
  by (auto simp: select_at_def Let_def set_update_memI)

lemma choose_interface_member:
  "choose_interface opts ifaces = Inr (primary, xs) \<Longrightarrow> primary \<in> set xs \<and> ifc_Selected primary"
  using select_loop_bound [of "gateway_ip opts" "opt_IncludeVirtual opts" 0 None ifaces]
  by (auto simp: choose_interface_def FindByName_def SelectPrimary_def
      split: if_splits option.splits dest!: find_index_bound select_at_member)

section \<open>The report\<close>

text \<open>The default sweeper keeps the contract of a sweeper.\<close>

interpretation tcp: scope_sweeper "Sweep s dial started" hh_IP for s dial started
proof
  show "hh_IP h \<in> set (HostsInScope scope)" if "h \<in> set (Sweep s dial started scope)" for h scope
    using that by (auto simp: Sweep_def collectAlive_def probeHost_def Let_def split: if_splits option.splits
        dest: in_set_takeD)
qed

text \<open>The addresses a scan reports.\<close>

definition scan_addresses :: "Environment \<Rightarrow> Options \<Rightarrow> InterfaceInfo \<Rightarrow> LanScope \<Rightarrow> string set" where
  "scan_addresses env opts primary scope =
     {primaryIPv4 primary, gateway_ip opts} \<union> swept_addresses env opts scope \<union>
     {ip \<in> neighbour_addresses env opts scope \<union> scanned_addresses opts scope. InScope scope ip} - {[]}"

lemma run_pipeline_ok:
  assumes run: "run_pipeline env opts primary scope s = Some (build, summary, s')"
    and bare: "bare_scanner opts"
  shows "grows s s'" "distinct (map dev_ID (br_Devices build))"
    "\<forall>d \<in> set (br_Devices build). \<exists>ip. device_ok ip d s'"
    "addresses (br_Devices build) = scan_addresses env opts primary scope"
    "\<forall>e \<in> set (br_Edges build). edge_consistent (dev_ID ` set (br_Devices build)) (store_ids s') e \<and> \<not> edge_Physical e"
    "distinct (map edge_ID (br_Edges build))"
proof -
  obtain i s1 where c: "context_evidence primary (gateway_ip opts) s = (i, s1)" by (meson surj_pair)
  obtain t1 s2 where s2: "read_clock s1 = (t1, s2)" by (meson surj_pair)
  obtain t2 s3 where s3: "read_clock s2 = (t2, s3)" by (meson surj_pair)
  obtain ds agentID gatewayID res s4 where b: "buildDevices (Some (resolver env opts)) primary (primaryIPv4 primary)
      (gateway_ip opts) i (discover env opts scope) t2 s3 = Some (ds, agentID, gatewayID, res, s4)"
    using run by (auto simp: run_pipeline_def c s2 s3 Let_def)
  obtain t3 s5 where s5: "read_clock s4 = (t3, s5)" by (meson surj_pair)
  obtain hops s6 where h: "buildRouteHops (opt_GatewayChain opts) ds s5 = (hops, s6)" by (meson surj_pair)
  define inp where "inp = \<lparr>bi_AgentID = agentID, bi_GatewayID = gatewayID, bi_Devices = ds,
      bi_GatewayRouteEvidenceIDs = nonEmpty i, bi_RouteHops = hops,
      bi_L2Peers = sameSubnetPeers ds (ifc_CIDR primary) agentID gatewayID, bi_Neighbors = []\<rparr>"
  have r: "build = Build inp" "s' = s6"
    using run by (simp_all add: run_pipeline_def c s2 s3 b s5 h Let_def inp_def)
  have g13: "grows s1 s3" using read_clock_grows [OF s2] read_clock_grows [OF s3] grows_trans by blast
  then have i: "i \<noteq> [] \<longrightarrow> i \<in> store_ids s3"
    using context_evidence_ok(2) [OF c] by (auto simp: grows_def)
  note disc = discover_sources [where env = env and opts = opts and scope = scope]
  note bd = buildDevices_ok [OF b disc(2) disc(3) [OF bare] i]
  note hp = buildRouteHops_ok [OF h]
  have g36: "grows s3 s6" "grows s4 s6"
    using bd(1) read_clock_grows [OF s5] hp(1) grows_trans by blast+
  show "grows s s'" unfolding r using context_evidence_ok(1) [OF c] g13 g36(1) grows_trans by blast
  have ids: "map dev_ID (br_Devices build) = map dev_ID ds"
    by (simp add: r inp_def apply_roles_def Let_def comp_def)
  show "distinct (map dev_ID (br_Devices build))" using bd(2) ids by simp
  show "\<forall>d \<in> set (br_Devices build). \<exists>ip. device_ok ip d s'"
  proof
    fix d assume "d \<in> set (br_Devices build)"
    then obtain x where x: "x \<in> set ds" "d = apply_roles inp x" by (auto simp: r inp_def)
    then obtain ip where ip: "device_ok ip x s4" using bd(3) by blast
    have "device_ok ip d s6"
      by (rule device_ok_fields [OF device_ok_mono [OF g36(2) ip]]) (simp_all add: x(2) apply_roles_def Let_def)
    then show "\<exists>ip. device_ok ip d s'" unfolding r by blast
  qed
  have "addresses (br_Devices build) = addresses ds"
    by (simp add: r inp_def addresses_def apply_roles_def Let_def image_image)
  then show "addresses (br_Devices build) = scan_addresses env opts primary scope"
    unfolding bd(4) disc(1) scan_addresses_def by auto
  have "dev_ID ` set (bi_Devices inp) = dev_ID ` set (br_Devices build)"
    using ids by (metis (no_types) inp_def list.set_map BuildInput.select_convs(3))
  moreover have "set (nonEmpty i) \<subseteq> store_ids s6" using i g36 by (auto simp: nonEmpty_def grows_def)
  ultimately show "\<forall>e \<in> set (br_Edges build). edge_consistent (dev_ID ` set (br_Devices build)) (store_ids s') e \<and> \<not> edge_Physical e"
    using Build_no_neighbors [of inp _ "store_ids s6"] hp(2) unfolding r by (simp add: inp_def)
  show "distinct (map edge_ID (br_Edges build))" unfolding r by (rule Build_distinct)
qed

lemma RunE:
  assumes "Run env opts = Inr r"
  obtains primary ifaces ifaces' scope ws build summary s s' t now where
    "choose_interface opts ifaces = Inr (primary, ifaces')" "agi_Interfaces (rep_Agent r) = ifaces'"
    "ParseScope (opt_RequestedCIDR opts) (opt_Profile opts) (opt_AllowPublic opts) primary = (scope, ws, None)"
    "run_pipeline env opts primary scope s = Some (build, summary, s')" "store_ok s"
    "rep_Devices r = ApplyMobileFingerprints t (br_Devices build) (Records s') now"
    "rep_Edges r = br_Edges build" "rep_Evidence r = Records s'" "rep_EvidenceRegistry r = []"
    "rep_SchemaVersion r = TopologyReportSchema" "rep_Topology r = None" "rep_Scope r = scope"
    "sum_DeviceCount (rep_Summary r) = int (length (rep_Devices r))"
    "sum_EdgeCount (rep_Summary r) = int (length (rep_Edges r))"
    "sum_EvidenceCount (rep_Summary r) = int (length (rep_Evidence r))"
    "agi_Gateway (rep_Agent r) = gateway_ip opts"
proof -
  obtain start s where s: "read_clock (NewEvidenceStore (env_Clock env)) = (start, s)" by (meson surj_pair)
  have ok: "store_ok s" using read_clock_grows [OF s] by (simp add: grows_def)
  obtain os primary ifaces' where i: "env_Interfaces env = Some os"
    "choose_interface opts (Interfaces os) = Inr (primary, ifaces')"
    using assms by (auto simp: Run_def s split: option.splits sum.splits)
  obtain scope ws where p: "ParseScope (opt_RequestedCIDR opts) (opt_Profile opts) (opt_AllowPublic opts) primary =
      (scope, ws, None)"
    using assms by (auto simp: Run_def s i split: prod.splits option.splits)
  obtain build summary s' where b: "run_pipeline env opts primary scope s = Some (build, summary, s')"
    using assms by (auto simp: Run_def s i p split: option.splits)
  obtain now s1 where s1: "read_clock s' = (now, s1)" by (meson surj_pair)
  obtain fin s2 where s2: "read_clock s1 = (fin, s2)" by (meson surj_pair)
  show ?thesis
    by (rule that [OF i(2) _ p b ok]) (use assms in \<open>auto simp: Run_def s i p b s1 s2 Let_def\<close>)
qed

text \<open>The devices of the report are the built ones with a mobile verdict.\<close>

lemma apply_fingerprint_fields [simp]:
  "dev_ID (apply_fingerprint t evidence d) = dev_ID d" "dev_Addresses (apply_fingerprint t evidence d) = dev_Addresses d"
  "dev_Confidence (apply_fingerprint t evidence d) = dev_Confidence d"
  "dev_EvidenceIDs (apply_fingerprint t evidence d) = dev_EvidenceIDs d"
  "dev_Services (apply_fingerprint t evidence d) = dev_Services d"
  by (simp_all add: apply_fingerprint_def Let_def)

lemma fingerprints_ids: "map dev_ID (ApplyMobileFingerprints t ds evidence now) = map dev_ID ds"
  by (simp add: ApplyMobileFingerprints_def comp_def)

lemma fingerprints_devices:
  assumes "\<forall>d \<in> set ds. \<exists>ip. device_ok ip d s" "d \<in> set (ApplyMobileFingerprints t ds evidence now)"
  shows "\<exists>ip. device_ok ip d s"
proof -
  from assms(2) obtain t' x where x: "x \<in> set ds" "d = apply_fingerprint t' evidence x"
    unfolding ApplyMobileFingerprints_def by (metis imageE list.set_map)
  then obtain ip where "device_ok ip x s" using assms(1) by blast
  then show ?thesis using device_ok_fields [of ip x s d] x(2) by auto
qed

lemma fingerprints_addresses [simp]: "addresses (ApplyMobileFingerprints t ds evidence now) = addresses ds"
  by (simp add: addresses_def ApplyMobileFingerprints_def image_image)

lemma run_valid:
  assumes "Run env opts = Inr r" "bare_scanner opts"
  shows "ValidateReport r = [] \<and> (\<forall>e \<in> set (rep_Edges r). \<not> edge_Physical e) \<and>
    distinct (map dev_Addresses (rep_Devices r))"
  using assms(1)
proof (cases rule: RunE)
  case (1 primary ifaces ifaces' scope ws build summary s s' t now)
  note ok = run_pipeline_ok [OF 1(4) assms(2)]
  have dev: "\<forall>d \<in> set (rep_Devices r). \<exists>ip. device_ok ip d s'"
    using fingerprints_devices [OF ok(3)] unfolding 1(6) by blast
  have ids: "map dev_ID (rep_Devices r) = map dev_ID (br_Devices build)" unfolding 1(6) by (rule fingerprints_ids)
  then have idset: "dev_ID ` set (rep_Devices r) = dev_ID ` set (br_Devices build)" by (metis list.set_map)
  have "store_ok s'" using ok(1) 1(5) by (simp add: grows_def)
  note rec = store_ok_records [OF this]
  have known: "known_evidence r = store_ids s'"
    by (simp add: known_evidence_def 1(8,9) Records_def store_ids_def)
  have "device_consistent (store_ids s') d" if "d \<in> set (rep_Devices r)" for d
    using dev that unfolding device_consistent_def device_ok_def services_known_def by (force simp: devID_def)
  then have "report_consistent r"
    using rec ok(2,5,6) ids idset 1
    by (simp add: report_consistent_def known)
  moreover have "\<not> edge_Physical e" if "e \<in> set (rep_Edges r)" for e
    using that ok(5) 1(7) by simp
  moreover have "distinct (map dev_Addresses (rep_Devices r))"
  proof -
    have "dev_ID d = devID (ipa_IP (hd (dev_Addresses d)))" if "d \<in> set (rep_Devices r)" for d
      using dev that by (auto simp: device_ok_def ipAddress_def)
    then have "map dev_ID (rep_Devices r) = map (\<lambda>a. devID (ipa_IP (hd a))) (map dev_Addresses (rep_Devices r))"
      by simp
    then show ?thesis using ok(2) ids by (metis distinct_map)
  qed
  ultimately show ?thesis using validate_iff by blast
qed


text \<open>
  C8: the devices of the report are exactly the agent, the gateway, what the sweep found, and the
  neighbours and scanned hosts inside the accepted scope; with the built-in sweeper, every device
  other than the agent and the gateway lies in the scope.
\<close>

theorem run_devices_exact:
  assumes "Run env opts = Inr r" "bare_scanner opts"
  shows "\<exists>primary \<in> set (agi_Interfaces (rep_Agent r)). ifc_Selected primary \<and>
    addresses (rep_Devices r) = scan_addresses env opts primary (rep_Scope r) \<and>
    (opt_Sweeper opts \<noteq> None \<or>
     (\<forall>ip \<in> addresses (rep_Devices r). ip = primaryIPv4 primary \<or> ip = gateway_ip opts \<or> InScope (rep_Scope r) ip))"
  using assms(1)
proof (cases rule: RunE)
  case (1 primary ifaces ifaces' scope ws build summary s s' t now)
  have addr: "addresses (rep_Devices r) = scan_addresses env opts primary scope"
    using run_pipeline_ok(4) [OF 1(4) assms(2)] by (simp add: 1(6))
  have "InScope scope ip" if "opt_Sweeper opts = None" "ip \<in> swept_addresses env opts scope" for ip
    using that tcp.sweeps_scope [OF 1(3)] by (auto simp: swept_addresses_def sweeper_def Let_def split: if_splits)
  then have inn: "opt_Sweeper opts \<noteq> None \<or> (\<forall>ip \<in> scan_addresses env opts primary scope.
      ip = primaryIPv4 primary \<or> ip = gateway_ip opts \<or> InScope scope ip)"
    unfolding scan_addresses_def by blast
  have "primary \<in> set (agi_Interfaces (rep_Agent r))" "ifc_Selected primary"
    using choose_interface_member [OF 1(1)] 1(2) by simp_all
  with inn show ?thesis unfolding addr 1(12) by blast
qed

section \<open>Panics\<close>

lemma port_itoa_None: "port_itoa n = None \<longleftrightarrow> 10 ^ 6 \<le> n"
  by (simp add: port_itoa_def itoa_loop_None)

lemma those_None: "those xs = None \<longleftrightarrow> None \<in> set xs"
  by (induction xs) (auto split: option.split)

lemma sweep_part_None: "sweep_part ip alive ports st = None \<longleftrightarrow> alive \<and> (\<exists>p \<in> set ports. 10 ^ 6 \<le> p)"
proof -
  have "None \<in> set (map port_itoa ports) \<longleftrightarrow> (\<exists>p \<in> set ports. 10 ^ 6 \<le> p)"
    unfolding set_map image_iff using port_itoa_None by metis
  then show ?thesis by (cases st) (auto simp: sweep_part_def those_None)
qed

lemma later_parts_services [simp]:
  "dev_Services (fst (mac_part ip mac st)) = dev_Services (fst st)"
  "dev_Services (fst (dns_part lookup ip st)) = dev_Services (fst st)"
  by (cases st; auto simp: mac_part_def dns_part_def split: prod.split option.split)+

lemma sweep_part_ports:
  "sweep_part ip alive ports (d, ids, s) = Some st \<Longrightarrow> dev_Services d = [] \<Longrightarrow>
   svc_Port ` set (dev_Services (fst st)) \<subseteq> set ports"
  by (auto dest!: sweep_part_cases)

lemma Normalizer_Device_None:
  "Normalizer_Device lookup ip alive ports mac isAgent isGateway extra s = None \<longleftrightarrow>
   alive \<and> (\<exists>p \<in> set ports. 10 ^ 6 \<le> p)"
  by (simp add: Normalizer_Device_def Let_def sweep_part_None)

lemma Normalizer_Device_ports:
  assumes "Normalizer_Device lookup ip alive ports mac isAgent isGateway extra s = Some (d, s')"
  shows "svc_Port ` set (dev_Services d) \<subseteq> set ports"
proof -
  define d0 where "d0 = empty_device\<lparr>dev_ID := devID ip, dev_IsAgent := isAgent, dev_IsGateway := isGateway,
      dev_Addresses := [ipAddress ip]\<rparr>"
  from assms obtain st where st: "sweep_part ip alive ports (d0, extra, s) = Some st"
    and d: "(case dns_part lookup ip (mac_part ip mac st) of (d, ids, s) \<Rightarrow>
      (let d = d\<lparr>dev_EvidenceIDs := sortedUnique ids\<rparr> in (d\<lparr>dev_Confidence := deviceConfidence d alive\<rparr>, s))) = (d, s')"
    unfolding Normalizer_Device_def Let_def d0_def [symmetric] by (auto simp only: map_option_eq_Some)
  have "dev_Services d0 = []" by (simp add: d0_def empty_device_def)
  note ports = sweep_part_ports [OF st this]
  obtain d1 ids s1 where r: "dns_part lookup ip (mac_part ip mac st) = (d1, ids, s1)"
    by (cases "dns_part lookup ip (mac_part ip mac st)")
  have "dev_Services d = dev_Services d1" using d by (auto simp: r Let_def)
  also have "dev_Services d1 = dev_Services (fst st)"
    using later_parts_services(2) [of lookup ip "mac_part ip mac st"] by (simp add: r)
  finally show ?thesis using ports by simp
qed

text \<open>What \<open>itoa\<close> cannot print of a scanned host.\<close>

definition oversized :: "ScannedHost \<Rightarrow> bool" where
  "oversized h \<longleftrightarrow> 10 ^ 6 \<le> length (sh_Services h) \<or> list_ex (\<lambda>sv. 10 ^ 6 \<le> svc_Port sv) (sh_Services h)"

lemma service_key_None: "service_key sv = None \<longleftrightarrow> 10 ^ 6 \<le> svc_Port sv"
  by (simp add: service_key_def port_itoa_None)

lemma add_services_None: "add_services i svs services = None \<longleftrightarrow> list_ex (\<lambda>sv. 10 ^ 6 \<le> svc_Port sv) svs"
proof (induction svs arbitrary: services)
  case (Cons sv svs)
  show ?case
    using service_key_None [of sv]
    by (cases "service_key sv") (simp_all add: add_service_def Cons.IH)
qed simp

lemma attachNmap_None:
  assumes "\<forall>sv \<in> set (dev_Services d). svc_Port sv < 10 ^ 6"
  shows "attachNmap h (d, s) = None \<longleftrightarrow> oversized h"
proof (cases "port_itoa (int (length (sh_Services h)))")
  case None
  then have "10 ^ 6 \<le> int (length (sh_Services h))" unfolding port_itoa_None .
  then have "10 ^ 6 \<le> length (sh_Services h)" by simp
  then show ?thesis by (simp add: attachNmap_def None oversized_def)
next
  case (Some n)
  then have "\<not> 10 ^ 6 \<le> int (length (sh_Services h))" using port_itoa_None by (metis option.distinct(1))
  then have small: "\<not> 10 ^ 6 \<le> length (sh_Services h)" by simp
  have "\<not> list_ex (\<lambda>sv. service_key sv = None) (dev_Services d)"
    using assms unfolding service_key_None list_ex_iff by fastforce
  then show ?thesis
    using small by (simp add: attachNmap_def Some oversized_def add_services_None split: prod.split)
qed

definition small_hits :: "sweepResult \<Rightarrow> bool" where
  "small_hits res \<longleftrightarrow> (\<forall>h \<in> set (swr_hits res). \<forall>p \<in> set (hh_OpenPorts h). p < 10 ^ 6)"

lemma build_device_None:
  assumes "small_hits (bc_Result c)"
  shows "build_device c ip s = None \<longleftrightarrow>
    (\<exists>h. last_with sh_IP (swr_scanned (bc_Result c)) ip = Some h \<and> oversized h)"
proof -
  have ports: "\<forall>p \<in> set (hit_ports (bc_Result c) ip). p < 10 ^ 6"
  proof (cases "last_with hh_IP (swr_hits (bc_Result c)) ip")
    case None
    then show ?thesis by (simp add: hit_ports_def)
  next
    case (Some h)
    then show ?thesis using assms last_with_set [OF Some] by (auto simp: hit_ports_def small_hits_def)
  qed
  define extra where "extra = (if ip = bc_GatewayIP c \<and> bc_GatewayEvID c \<noteq> [] then [bc_GatewayEvID c] else [])"
  obtain alive mac isAgent isGateway f where b:
    "build_device c ip s = map_option (\<lambda>(d, s). (f d, s))
        (Option.bind (Normalizer_Device (bc_Resolver c) ip alive (hit_ports (bc_Result c) ip) mac isAgent isGateway extra s)
          (attach_scan (last_with sh_IP (swr_scanned (bc_Result c)) ip)))"
    using build_device_shape [of c ip s] unfolding extra_def by blast
  obtain d s' where n: "Normalizer_Device (bc_Resolver c) ip alive (hit_ports (bc_Result c) ip) mac isAgent isGateway extra s = Some (d, s')"
    using Normalizer_Device_None [of "bc_Resolver c" ip alive "hit_ports (bc_Result c) ip" mac isAgent isGateway extra s]
      ports by fastforce
  have "\<forall>sv \<in> set (dev_Services d). svc_Port sv < 10 ^ 6" using Normalizer_Device_ports [OF n] ports by blast
  from attachNmap_None [OF this] show ?thesis
    by (simp add: b n attach_scan_def split: option.split)
qed

lemma build_each_None:
  assumes "small_hits (bc_Result c)"
  shows "build_each c ips s = None \<longleftrightarrow>
    (\<exists>ip \<in> set ips. \<exists>h. last_with sh_IP (swr_scanned (bc_Result c)) ip = Some h \<and> oversized h)"
proof (induction ips arbitrary: s)
  case (Cons ip ips)
  show ?case
    using build_device_None [OF assms, of ip s] Cons.IH by (cases "build_device c ip s") auto
qed simp

text \<open>The hosts of the service scan in the scope; of several with one address the last counts.\<close>

definition scanned_hosts :: "Options \<Rightarrow> LanScope \<Rightarrow> ScannedHost list" where
  "scanned_hosts opts scope =
     (case opt_Service opts of
        Some (True, scan) \<Rightarrow> (case scan scope of Some hosts \<Rightarrow> filter (\<lambda>h. InScope scope (sh_IP h)) hosts | None \<Rightarrow> [])
      | _ \<Rightarrow> [])"

definition unprintable_host :: "Options \<Rightarrow> LanScope \<Rightarrow> bool" where
  "unprintable_host opts scope \<longleftrightarrow>
     list_ex (\<lambda>h. last_with sh_IP (scanned_hosts opts scope) (sh_IP h) = Some h \<and> oversized h) (scanned_hosts opts scope)"

lemma hits_kept [simp]:
  "swr_hits (addSource ip src r) = swr_hits r" "swr_hits (snd (add_swept scope e acc)) = swr_hits (snd acc)"
  "swr_hits (snd (add_table scope e acc)) = swr_hits (snd acc)" "swr_hits (add_scanned scope h r) = swr_hits r"
  by (simp_all add: addSource_def add_swept_def add_table_def add_scanned_def)

lemma add_scanned_list: "swr_scanned (add_scanned scope h r) = swr_scanned r @ (if InScope scope (sh_IP h) then [h] else [])"
  by (simp add: add_scanned_def)

lemma fold_add_scanned:
  "swr_scanned (fold (add_scanned scope) hosts r) = swr_scanned r @ filter (\<lambda>h. InScope scope (sh_IP h)) hosts"
  "swr_hits (fold (add_scanned scope) hosts r) = swr_hits r"
  by (induction hosts arbitrary: r) (simp_all add: add_scanned_list)

lemma discover_lists:
  "swr_hits (discover env opts scope) = (if scp_HostCount scope > 0 then sweeper env opts scope else [])"
  "swr_scanned (discover env opts scope) = scanned_hosts opts scope"
proof -
  define hs where "hs = (if scp_HostCount scope > 0 then sweeper env opts scope else [])"
  define r0 :: sweepResult where "r0 = \<lparr>swr_hits = [], swr_arp = [], swr_scanned = [], swr_sources = []\<rparr>"
  define r1 where "r1 = fold (\<lambda>h. addSource (hh_IP h) srcTCP) hs (r0\<lparr>swr_hits := hs\<rparr>)"
  define sw where "sw = (if scp_HostCount scope > 0 then arpSweeper env opts scope else [])"
  define a1 where "a1 = fold (add_swept scope) sw ([], r1)"
  define a2 where "a2 = (case arpReader env opts of None \<Rightarrow> a1 | Some table \<Rightarrow> fold (add_table scope) table a1)"
  define r2 where "r2 = (snd a2)\<lparr>swr_arp := sort_by (\<lambda>a b. ip_before (arp_IP a) (arp_IP b))
                  (map (\<lambda>p. \<lparr>arp_IP = fst p, arp_MAC = snd p\<rparr>) (fst a2))\<rparr>"
  have d: "discover env opts scope =
      (case opt_Service opts of
           Some (True, scan) \<Rightarrow>
             (case scan scope of Some hosts \<Rightarrow> fold (add_scanned scope) hosts r2 | None \<Rightarrow> r2)
         | _ \<Rightarrow> r2)"
    unfolding discover_def Let_def hs_def r0_def r1_def sw_def a1_def a2_def r2_def by (rule refl)
  have "swr_hits (snd a2) = hs" "swr_scanned (snd a2) = []"
    unfolding a2_def a1_def r1_def
    by (simp_all add: fold_keeps_field [where k = "\<lambda>acc. swr_scanned (snd acc)"] fold_keeps_field [where k = swr_scanned]
        fold_keeps_field [where k = "\<lambda>acc. swr_hits (snd acc)"] fold_keeps_field [where k = swr_hits] r0_def
        split: option.split)
  then have r2: "swr_hits r2 = hs" "swr_scanned r2 = []" by (simp_all add: r2_def)
  show "swr_hits (discover env opts scope) = (if scp_HostCount scope > 0 then sweeper env opts scope else [])"
    unfolding hs_def [symmetric] d by (simp add: r2 fold_add_scanned split: option.split prod.split bool.split)
  show "swr_scanned (discover env opts scope) = scanned_hosts opts scope"
    unfolding d scanned_hosts_def by (simp add: r2 fold_add_scanned split: option.split prod.split bool.split)
qed

lemma default_hits_small:
  assumes "opt_Sweeper opts = None"
  shows "small_hits (discover env opts scope)"
proof -
  have "\<forall>p \<in> set (profilePorts profile). p < 10 ^ 6" for profile by (simp add: profilePorts_def)
  then have "p < 10 ^ 6" if "h \<in> set (Sweep s dial started scope)" "p \<in> set (hh_OpenPorts h)" for h p s dial started
    using that by (auto simp: Sweep_def collectAlive_def probeHost_def Let_def split: if_splits option.splits
        dest!: in_set_takeD)
  moreover have "\<exists>s. sweeper env opts scope = Sweep s (env_Dial env) (env_Started env) scope"
    unfolding sweeper_def assms option.case Let_def by blast
  ultimately show ?thesis by (auto simp: small_hits_def discover_lists)
qed

lemma run_pipeline_None:
  assumes "opt_Sweeper opts = None"
  shows "run_pipeline env opts primary scope s = None \<longleftrightarrow> unprintable_host opts scope"
proof -
  obtain i s1 where c: "context_evidence primary (gateway_ip opts) s = (i, s1)" by (meson surj_pair)
  obtain t1 s2 where s2: "read_clock s1 = (t1, s2)" by (meson surj_pair)
  obtain t2 s3 where s3: "read_clock s2 = (t2, s3)" by (meson surj_pair)
  define res where "res = addSource (gateway_ip opts) srcGateway (addSource (primaryIPv4 primary) srcSelf (discover env opts scope))"
  define c where "c = \<lparr>bc_Resolver = Some (resolver env opts), bc_PrimaryMAC = ifc_MAC primary, bc_AgentIP = primaryIPv4 primary,
               bc_GatewayIP = gateway_ip opts, bc_GatewayEvID = i, bc_Result = res, bc_Now = t2\<rparr>"
  define ips where "ips = sort_by ip_before (filter (\<lambda>ip. ip \<noteq> []) (map fst (swr_sources res)))"
  have small: "small_hits (bc_Result c)"
    using default_hits_small [OF assms, of env scope] by (simp add: c_def res_def small_hits_def)
  have scanned: "swr_scanned (bc_Result c) = scanned_hosts opts scope" by (simp add: c_def res_def discover_lists)
  have "run_pipeline env opts primary scope s = None \<longleftrightarrow> build_each c ips s3 = None"
    by (simp add: run_pipeline_def \<open>context_evidence primary (gateway_ip opts) s = (i, s1)\<close> s2 s3 Let_def
        buildDevices_def res_def [symmetric] c_def [symmetric] ips_def [symmetric])
  also have "\<dots> \<longleftrightarrow> (\<exists>ip \<in> set ips. \<exists>h. last_with sh_IP (scanned_hosts opts scope) ip = Some h \<and> oversized h)"
    unfolding build_each_None [OF small] scanned ..
  also have "\<dots> \<longleftrightarrow> unprintable_host opts scope"
  proof
    assume "\<exists>ip \<in> set ips. \<exists>h. last_with sh_IP (scanned_hosts opts scope) ip = Some h \<and> oversized h"
    then show "unprintable_host opts scope"
      using last_with_set unfolding unprintable_host_def list_ex_iff by metis
  next
    assume "unprintable_host opts scope"
    then obtain h where h: "h \<in> set (scanned_hosts opts scope)" "oversized h"
      "last_with sh_IP (scanned_hosts opts scope) (sh_IP h) = Some h"
      by (auto simp: unprintable_host_def list_ex_iff)
    obtain scan hosts where "opt_Service opts = Some (True, scan)" "scan scope = Some hosts"
      "h \<in> set hosts" "InScope scope (sh_IP h)"
    proof -
      obtain b scan where s: "opt_Service opts = Some (b, scan)"
        using h(1) by (cases "opt_Service opts") (auto simp: scanned_hosts_def)
      obtain hosts where "scan scope = Some hosts"
        using h(1) s by (cases b; cases "scan scope") (simp_all add: scanned_hosts_def)
      then show ?thesis using that [of scan hosts] h(1) s by (cases b) (simp_all add: scanned_hosts_def)
    qed
    then have "sh_IP h \<in> scanned_addresses opts scope" "InScope scope (sh_IP h)"
      by (auto simp: scanned_addresses_def)
    then have "sh_IP h \<in> found res" "sh_IP h \<noteq> []"
      using InScope_nonempty by (auto simp: res_def found_addSource discover_sources(1))
    then have "sh_IP h \<in> set ips" by (auto simp: ips_def found_def)
    then show "\<exists>ip \<in> set ips. \<exists>h. last_with sh_IP (scanned_hosts opts scope) ip = Some h \<and> oversized h"
      using h by blast
  qed
  finally show ?thesis .
qed

text \<open>A run that gets to the scope panics exactly when a host of the service scan cannot be printed.\<close>

lemma Run_reaches:
  assumes "env_Interfaces env = Some ifaces" "choose_interface opts (Interfaces ifaces) = Inr (primary, ifaces')"
    "ParseScope (opt_RequestedCIDR opts) (opt_Profile opts) (opt_AllowPublic opts) primary = (scope, ws, None)"
    "opt_Sweeper opts = None"
  shows "Run env opts = Inl Run_Panicked \<longleftrightarrow> unprintable_host opts scope"
    and "\<not> unprintable_host opts scope \<Longrightarrow> \<exists>r. Run env opts = Inr r"
proof -
  obtain start s where s: "read_clock (NewEvidenceStore (env_Clock env)) = (start, s)" by (meson surj_pair)
  note none = run_pipeline_None [OF assms(4), of env primary scope s]
  have "if unprintable_host opts scope then Run env opts = Inl Run_Panicked else \<exists>r. Run env opts = Inr r"
  proof (cases "run_pipeline env opts primary scope s")
    case None
    then show ?thesis using none by (simp add: Run_def s assms(1-3))
  next
    case (Some r)
    obtain build summary s' where r: "r = (build, summary, s')" by (cases r)
    have "\<exists>r. Run env opts = Inr r" by (simp add: Run_def s assms(1-3) Some r case_prod_beta Let_def)
    then show ?thesis using none Some by simp
  qed
  then show "Run env opts = Inl Run_Panicked \<longleftrightarrow> unprintable_host opts scope"
    "\<not> unprintable_host opts scope \<Longrightarrow> \<exists>r. Run env opts = Inr r"
    by (auto split: if_splits)
qed

text \<open>The scope that a run accepts, if it gets so far.\<close>

definition accepted_scope :: "Environment \<Rightarrow> Options \<Rightarrow> LanScope option" where
  "accepted_scope env opts =
     (case env_Interfaces env of
        None \<Rightarrow> None
      | Some ifaces \<Rightarrow>
          (case choose_interface opts (Interfaces ifaces) of
             Inl e \<Rightarrow> None
           | Inr (primary, ifaces') \<Rightarrow>
               (case ParseScope (opt_RequestedCIDR opts) (opt_Profile opts) (opt_AllowPublic opts) primary of
                  (scope, ws, None) \<Rightarrow> Some scope
                | _ \<Rightarrow> None)))"

lemma Run_panics:
  assumes "opt_Sweeper opts = None"
  shows "Run env opts = Inl Run_Panicked \<longleftrightarrow>
    (case accepted_scope env opts of None \<Rightarrow> False | Some scope \<Rightarrow> unprintable_host opts scope)"
proof (cases "accepted_scope env opts")
  case None
  then have "Run env opts \<noteq> Inl Run_Panicked"
    unfolding accepted_scope_def Run_def
    by (auto split: option.splits sum.splits prod.splits)
  then show ?thesis using None by simp
next
  case (Some scope)
  then obtain ifaces primary ifaces' ws where "env_Interfaces env = Some ifaces"
    "choose_interface opts (Interfaces ifaces) = Inr (primary, ifaces')"
    "ParseScope (opt_RequestedCIDR opts) (opt_Profile opts) (opt_AllowPublic opts) primary = (scope, ws, None)"
    unfolding accepted_scope_def by (auto split: option.splits sum.splits prod.splits)
  from Run_reaches(1) [OF this assms] Some show ?thesis by simp
qed

section \<open>A scan\<close>

text \<open>Without a scan of services, an accepted interface and scope are all a scan needs.\<close>

lemma Run_succeeds:
  assumes "env_Interfaces env = Some ifaces" "choose_interface opts (Interfaces ifaces) = Inr (primary, ifaces')"
    "ParseScope (opt_RequestedCIDR opts) (opt_Profile opts) (opt_AllowPublic opts) primary = (scope, ws, None)"
    "opt_Sweeper opts = None" "opt_Service opts = None"
  shows "\<exists>r. Run env opts = Inr r"
  using Run_reaches(2) [OF assms(1-4)] assms(5) by (simp add: unprintable_host_def scanned_hosts_def)

definition example_env :: Environment where
  "example_env =
     \<lparr>env_Interfaces = Some [\<lparr>osi_Name = ''eth0'', osi_HardwareAddr = [], osi_Up = True, osi_Loopback = False,
        osi_Addrs = [\<lparr>net_addr = [192, 168, 1, 2], net_ones = 30\<rparr>]\<rparr>],
      env_Dial = (\<lambda>_ _. True), env_Started = None, env_ARPSweep = (\<lambda>_. []), env_ARPOutputs = [],
      env_Names = (\<lambda>_. None), env_Stamp = (\<lambda>_. []), env_Clock = int, env_TimeNow = 0\<rparr>"

definition example_opts :: Options where
  "example_opts =
     \<lparr>opt_RequestedCIDR = '' AUTO '', opt_Profile = ''quick'', opt_AllowPublic = False,
      opt_InterfaceName = ''eth0'', opt_IncludeVirtual = False, opt_Version = [], opt_Hostname = [], opt_OS = [],
      opt_Sweeper = None, opt_ARPReader = None, opt_ARPSweeper = None, opt_Resolver = None, opt_Service = None,
      opt_GatewayFn = None, opt_DNSFn = None, opt_GatewayChain = [''192.168.1.1'', ''10.0.0.1'']\<rparr>"

lemma example_choice:
  obtains ifaces' where "choose_interface example_opts (Interfaces (the (env_Interfaces example_env))) =
      Inr (example_interface, ifaces')"
proof -
  have i: "interface_info \<lparr>osi_Name = ''eth0'', osi_HardwareAddr = [], osi_Up = True, osi_Loopback = False,
        osi_Addrs = [\<lparr>net_addr = [192, 168, 1, 2], net_ones = 30\<rparr>]\<rparr> = example_interface\<lparr>ifc_Selected := False\<rparr>"
    by code_simp
  have "\<exists>ifaces'. choose_interface example_opts (Interfaces (the (env_Interfaces example_env))) =
      Inr (example_interface, ifaces')"
    by (simp add: choose_interface_def example_opts_def example_env_def Interfaces_def FindByName_def i
        select_at_def Let_def example_interface_def)
  with that show ?thesis by blast
qed

lemma example_interfaces: "env_Interfaces example_env = Some (the (env_Interfaces example_env))"
  by (simp add: example_env_def)

lemma example_accepted: "accepted_scope example_env example_opts = Some example_scope"
proof -
  obtain ifaces' where c: "choose_interface example_opts (Interfaces (the (env_Interfaces example_env))) =
      Inr (example_interface, ifaces')" by (rule example_choice)
  have "ParseScope (opt_RequestedCIDR example_opts) (opt_Profile example_opts) (opt_AllowPublic example_opts)
      example_interface = (example_scope, [], None)"
    using example_scope_parse by (simp add: example_opts_def)
  then show ?thesis unfolding accepted_scope_def by (subst example_interfaces) (simp add: c)
qed

text \<open>Every set of options with the same interface and scope runs.\<close>

lemma example_runs:
  assumes "choose_interface opts = choose_interface example_opts" "opt_RequestedCIDR opts = opt_RequestedCIDR example_opts"
    "opt_Profile opts = opt_Profile example_opts" "opt_AllowPublic opts = opt_AllowPublic example_opts"
  shows "accepted_scope example_env opts = Some example_scope"
    and "opt_Sweeper opts = None \<Longrightarrow> opt_Service opts = None \<Longrightarrow> \<exists>r. Run example_env opts = Inr r"
proof -
  show a: "accepted_scope example_env opts = Some example_scope"
    using example_accepted unfolding accepted_scope_def assms .
  obtain ifaces' where c: "choose_interface example_opts (Interfaces (the (env_Interfaces example_env))) =
      Inr (example_interface, ifaces')" by (rule example_choice)
  have p: "ParseScope (opt_RequestedCIDR example_opts) (opt_Profile example_opts) (opt_AllowPublic example_opts)
      example_interface = (example_scope, [], None)"
    using example_scope_parse by (simp add: example_opts_def)
  show "\<exists>r. Run example_env opts = Inr r" if "opt_Sweeper opts = None" "opt_Service opts = None"
    using Run_succeeds [OF example_interfaces, of opts example_interface ifaces' example_scope "[]"] c p that
    unfolding assms by blast
qed

lemma example_Run: "Run example_env example_opts = Inr (projr (Run example_env example_opts))"
proof -
  have "\<exists>r. Run example_env example_opts = Inr r"
    by (rule example_runs(2)) (simp_all add: example_opts_def)
  then show ?thesis by auto
qed

lemma example_bare: "bare_scanner example_opts"
  by (simp add: bare_scanner_def example_opts_def)


theorem run_devices_exact_witness:
  "\<exists>primary. addresses (rep_Devices (projr (Run example_env example_opts))) =
     scan_addresses example_env example_opts primary (rep_Scope (projr (Run example_env example_opts)))"
  using run_devices_exact [OF example_Run example_bare] by blast

end
