(* ===== verification/Agent_Mobile_Laws.thy ===== *)
theory Agent_Mobile_Laws
  imports Mobile_Scoring Mobile_Laws
begin

text \<open>
  Laws of the mobile fingerprint of the topology scan: an invariant of its scorer, kept by the scoring
  of every kind of input, and what the verdict is worth. The counts over the evidence
  (\<open>impacts\<close>, \<open>strong_count\<close>, \<open>family\<close>) are those of the pool's scorer.
\<close>

section \<open>The invariant of the scorer\<close>

fun os_score :: "MobileOS \<Rightarrow> mobileScorer \<Rightarrow> int" where
  "os_score OS_IOS s = ms_iosScore s"
| "os_score OS_IPadOS s = ms_ipadScore s"
| "os_score OS_Android s = ms_androidScore s"
| "os_score OS_Unknown s = 0"

definition os_ok :: "MobileOS \<Rightarrow> mobileScorer \<Rightarrow> bool" where
  "os_ok os s =
     (distinct (ms_categories s os) \<and>
      set (ms_categories s os) \<subseteq> me_Type ` set (hinted (family os) (ms_evidence s)) \<and>
      (0 < os_score os s \<longleftrightarrow> ms_categories s os \<noteq> []) \<and> 0 \<le> os_score os s \<and>
      os_score os s \<le> impacts (family os) (ms_evidence s) \<and>
      ms_strongCounts s os \<le> int (strong_count (family os) (ms_evidence s)))"

definition agent_ok :: "mobileScorer \<Rightarrow> bool" where
  "agent_ok s =
     (ms_seq s = int (length (ms_evidence s)) \<and> list_all (\<lambda>e. 0 < me_ConfidenceImpact e) (ms_evidence s) \<and>
      ms_conflicts s = [] \<and> os_ok OS_IOS s \<and> os_ok OS_IPadOS s \<and> os_ok OS_Android s)"

lemma agent_ok_new: "agent_ok (newMobileScorer now)"
  by (simp add: agent_ok_def newMobileScorer_def os_ok_def impacts_def strong_count_def)

lemmas ms_add_defs = addIOS_def addIPad_def addApple_def addAndroid_def ms_addEvidence_def trackCategory_def Let_def

lemma agent_ok_adds:
  assumes "agent_ok s" "0 < i"
  shows "agent_ok (addIOS t v i st src ts e s)" "agent_ok (addIPad t v i st src ts e s)"
    "agent_ok (addApple t v i st src ts e s)" "agent_ok (addAndroid t v i st src ts e s)"
  using assms by (auto simp: agent_ok_def os_ok_def ms_add_defs)

lemma agent_ok_flags [simp]:
  "agent_ok (ms_warn m s) = agent_ok s" "agent_ok (s\<lparr>ms_randomizedMAC := b\<rparr>) = agent_ok s"
  "agent_ok (s\<lparr>ms_onlyWeakRandomMAC := b\<rparr>) = agent_ok s" "agent_ok (s\<lparr>ms_sawWeakWebOnly := b\<rparr>) = agent_ok s"
  "agent_ok (s\<lparr>ms_sawDNS := b\<rparr>) = agent_ok s"
  unfolding agent_ok_def os_ok_def ms_warn_def by simp_all

section \<open>Every input keeps it\<close>

lemma fold_ok_state: "(\<And>x s. P s \<Longrightarrow> P (f x s)) \<Longrightarrow> P s \<Longrightarrow> P (fold f xs s)"
  by (induction xs arbitrary: s) simp_all

lemma evaluate_hostname_ok: "agent_ok s \<Longrightarrow> agent_ok (evaluate_hostname t v s)"
  by (simp add: evaluate_hostname_def Let_def agent_ok_adds)

lemma evaluate_vendor_ok: "agent_ok (fst acc) \<Longrightarrow> agent_ok (fst (evaluate_vendor v acc))"
  by (simp add: evaluate_vendor_def Let_def agent_ok_adds split: option.split MobileOS.split)

lemma add_family_ok: "agent_ok s \<Longrightarrow> 0 < i \<Longrightarrow> agent_ok (add_family fam v i st e s)"
  by (simp add: add_family_def agent_ok_adds split: option.split MobileOS.split)

lemma evaluate_mac_ok: "agent_ok s \<Longrightarrow> agent_ok (evaluate_mac vs mac s)"
  by (simp add: evaluate_mac_def Let_def add_family_ok)

lemma evaluateMACs_ok:
  assumes "agent_ok s" shows "agent_ok (evaluateMACs macs vendors s)"
proof -
  have "agent_ok (fst (fold evaluate_vendor vendors (s, [])))"
    by (rule fold_ok_state [where P = "\<lambda>acc. agent_ok (fst acc)"]) (simp_all add: evaluate_vendor_ok assms)
  then show ?thesis
    unfolding evaluateMACs_def case_prod_beta by (rule fold_ok_state [rotated]) (rule evaluate_mac_ok)
qed

lemma evaluate_vendor_hint_ok: "agent_ok s \<Longrightarrow> agent_ok (evaluate_vendor_hint v s)"
  by (simp add: evaluate_vendor_hint_def Let_def agent_ok_adds split: option.split MobileOS.split)

lemma evaluate_mdns_ok: "agent_ok s \<Longrightarrow> agent_ok (evaluate_mdns r s)"
  by (simp add: evaluate_mdns_def Let_def agent_ok_adds)

lemma dnsImpact_pos: "dnsImpact ds apple = (i, st) \<Longrightarrow> 0 < i"
  by (auto simp: dnsImpact_def split: if_splits)

lemma evaluateDNS_ok: "agent_ok s \<Longrightarrow> agent_ok (evaluateDNS vs s)"
proof -
  assume ok: "agent_ok s"
  have "agent_ok (add_dns addApple b e ds s)" "agent_ok (add_dns addAndroid b e ds s)" if "agent_ok s" for b e ds s
    using that dnsImpact_pos by (auto simp: add_dns_def Let_def split: prod.split intro!: agent_ok_adds)
  then show ?thesis using ok by (simp add: evaluateDNS_def Let_def)
qed

lemma service_port_ok: "agent_ok s \<Longrightarrow> agent_ok (service_port svc p n v s)"
  by (simp add: service_port_def Let_def agent_ok_adds)

lemma evaluate_service_ok: "agent_ok s \<Longrightarrow> agent_ok (evaluate_service svc s)"
  by (simp add: evaluate_service_def Let_def agent_ok_adds service_port_ok)

lemma evaluate_user_agent_ok: "agent_ok s \<Longrightarrow> agent_ok (evaluate_user_agent v s)"
  by (simp add: evaluate_user_agent_def Let_def agent_ok_adds)

lemma evaluate_packet_ok: "agent_ok s \<Longrightarrow> agent_ok (evaluate_packet p s)"
  by (simp add: evaluate_packet_def Let_def agent_ok_adds)

lemma score_input_ok: "agent_ok s \<Longrightarrow> agent_ok (score_input i s)"
  unfolding score_input_def evaluatePassivePackets_def evaluateUserAgents_def evaluateServices_def evaluateMDNS_def
    evaluateVendorHints_def evaluateHostnames_def Let_def
  by (simp add: fold_ok_state [where P = agent_ok] evaluate_hostname_ok evaluateMACs_ok evaluate_vendor_hint_ok
      evaluate_mdns_ok evaluateDNS_ok evaluate_service_ok evaluate_user_agent_ok evaluate_packet_ok)

section \<open>The verdict\<close>

text \<open>Only the conflicts change.\<close>

definition same_but_conflicts :: "mobileScorer \<Rightarrow> mobileScorer \<Rightarrow> bool" where
  "same_but_conflicts s t = (t = s\<lparr>ms_conflicts := ms_conflicts t\<rparr>)"

lemma same_but_conflicts_steps:
  "same_but_conflicts s s" "same_but_conflicts s t \<Longrightarrow> same_but_conflicts s (addConflict r xs ys sev h t)"
proof -
  show "same_but_conflicts s s" by (simp add: same_but_conflicts_def)
  assume "same_but_conflicts s t"
  then have t: "t = s\<lparr>ms_conflicts := ms_conflicts t\<rparr>" by (simp add: same_but_conflicts_def)
  show "same_but_conflicts s (addConflict r xs ys sev h t)"
    unfolding addConflict_def same_but_conflicts_def by (subst (1 3 5) t) simp
qed

lemma same_but_conflicts_Let:
  "same_but_conflicts s a \<Longrightarrow> (\<And>x. same_but_conflicts s x \<Longrightarrow> same_but_conflicts s (f x)) \<Longrightarrow> same_but_conflicts s (Let a f)"
  "(\<And>xs :: string list. same_but_conflicts s (g xs)) \<Longrightarrow> same_but_conflicts s (Let ys g)"
  by (simp_all add: Let_def)

lemma same_but_conflicts_detect: "same_but_conflicts s (Mobile_Scoring.detectConflicts s)"
  unfolding Mobile_Scoring.detectConflicts_def
  by (intro same_but_conflicts_Let) (simp_all add: same_but_conflicts_steps)

lemma same_but_conflicts_fields:
  assumes "same_but_conflicts s t"
  shows "ms_iosScore t = ms_iosScore s" "ms_ipadScore t = ms_ipadScore s" "ms_androidScore t = ms_androidScore s"
    "ms_categories t = ms_categories s" "ms_strongCounts t = ms_strongCounts s" "ms_evidence t = ms_evidence s"
  by (subst assms [unfolded same_but_conflicts_def], simp)+

lemmas detect_fields [simp] = same_but_conflicts_fields [OF same_but_conflicts_detect]

lemma finish_fields:
  "mf_Classification (finish s) = chooseClassification (Mobile_Scoring.detectConflicts s)"
  "mf_Confidence (finish s) = confidenceFor (chooseClassification (Mobile_Scoring.detectConflicts s)) (Mobile_Scoring.detectConflicts s)"
  "mf_Conflicts (finish s) = ms_conflicts (Mobile_Scoring.detectConflicts s)"
  "mf_Evidence (finish s) = sortedMobileEvidence (ms_evidence s)"
  "mf_IOSScore (finish s) = ms_iosScore s" "mf_IPadScore (finish s) = ms_ipadScore s"
  "mf_AndroidScore (finish s) = ms_androidScore s"
  by (simp_all add: finish_def Let_def)

lemma evidence_mset:
  "impacts oss (sortedMobileEvidence es) = impacts oss es"
  "strong_count oss (sortedMobileEvidence es) = strong_count oss es"
  "set (hinted oss (sortedMobileEvidence es)) = set (hinted oss es)"
proof -
  have m: "mset (sortedMobileEvidence es) = mset es" by (simp add: sortedMobileEvidence_def)
  then show "impacts oss (sortedMobileEvidence es) = impacts oss es"
    "strong_count oss (sortedMobileEvidence es) = strong_count oss es"
    by (simp_all only: impacts_mset strong_count_mset)
  show "set (hinted oss (sortedMobileEvidence es)) = set (hinted oss es)"
    by (simp add: hinted_def sortedMobileEvidence_def)
qed

lemma agent_okD:
  assumes "agent_ok s" "os \<noteq> OS_Unknown"
  shows "os_ok os s"
  using assms by (cases os) (simp_all add: agent_ok_def)

lemma os_score_detect [simp]: "os_score os (Mobile_Scoring.detectConflicts s) = os_score os s"
  by (cases os) simp_all

lemma top_candidate_cases:
  "top_candidate s \<in> {(OS_IOS, ms_iosScore s), (OS_IPadOS, ms_ipadScore s), (OS_Android, ms_androidScore s)}"
proof -
  let ?xs = "[(OS_IOS, ms_iosScore s), (OS_IPadOS, ms_ipadScore s), (OS_Android, ms_androidScore s)]"
  have "sort_by os_before ?xs \<noteq> []" by (metis length_sort_by length_0_conv list.distinct(1))
  then have "top_candidate s \<in> set (sort_by os_before ?xs)" unfolding top_candidate_def by (rule hd_in_set)
  then show ?thesis by simp
qed

lemma top_candidate_score:
  "fst (top_candidate s) \<noteq> OS_Unknown" "snd (top_candidate s) = os_score (fst (top_candidate s)) s"
  using top_candidate_cases [of s] by auto

lemma classificationForOS_firm:
  "classificationForOS os n s \<in> {confirmedClass o', probableClass o'} \<Longrightarrow>
     70 \<le> n \<and> 2 \<le> length (ms_categories s os) \<and> (classificationForOS os n s = confirmedClass o' \<longrightarrow>
       confirmedClass os = confirmedClass o' \<and> 85 \<le> n \<and> 2 \<le> ms_strongCounts s os) \<and>
     (classificationForOS os n s = probableClass o' \<longrightarrow> probableClass os = probableClass o')"
  by (auto simp: classificationForOS_def Let_def class_families class_families [symmetric] split: if_splits)

text \<open>A firm verdict: where it comes from.\<close>

lemma choose_firm:
  assumes "chooseClassification s \<in> {confirmedClass os, probableClass os}"
  shows "chooseClassification s = classificationForOS (fst (top_candidate s)) (snd (top_candidate s)) s \<and>
    \<not> hasWarningMobileConflict (ms_conflicts s)"
  using assms unfolding chooseClassification_def Let_def
  by (auto simp: class_families class_families [symmetric] hasWarningMobileConflict_def split: if_splits)

lemma probableClass_inj: "probableClass a = probableClass b \<Longrightarrow> a \<noteq> OS_Unknown \<Longrightarrow> b \<noteq> OS_Unknown \<Longrightarrow> a = b"
  by (cases a; cases b) simp_all

lemma two_types:
  assumes "distinct cs" "2 \<le> length cs" "set cs \<subseteq> me_Type ` A"
  shows "\<exists>x \<in> A. \<exists>y \<in> A. me_Type x \<noteq> me_Type y"
proof -
  obtain a b rest where cs: "cs = a # b # rest" using assms(2) by (cases cs; cases "tl cs") auto
  then show ?thesis using assms(1,3) by auto
qed

lemma clampMobile_bounds: "l \<le> h \<Longrightarrow> l \<le> clampMobile v l h \<and> clampMobile v l h \<le> h"
  by (simp add: clampMobile_def)

lemma confidence_clamps:
  "0 \<le> clampMobile v (flit (85 / 100)) (flit (98 / 100))" "clampMobile v (flit (85 / 100)) (flit (98 / 100)) \<le> flit (98 / 100)"
  "0 \<le> clampMobile v (flit (70 / 100)) (flit (84 / 100))" "clampMobile v (flit (70 / 100)) (flit (84 / 100)) \<le> flit (98 / 100)"
  "0 \<le> clampMobile v (flit (45 / 100)) (flit (69 / 100))" "clampMobile v (flit (45 / 100)) (flit (69 / 100)) \<le> flit (69 / 100)"
proof -
  have m: "flit (85 / 100) \<le> flit (98 / 100)" "flit (70 / 100) \<le> flit (84 / 100)" "flit (45 / 100) \<le> flit (69 / 100)"
    "flit (84 / 100) \<le> flit (98 / 100)"
    by (simp_all add: flit_mono)
  have p: "0 \<le> flit (85 / 100)" "0 \<le> flit (70 / 100)" "0 \<le> flit (45 / 100)" by simp_all
  note b = clampMobile_bounds [OF m(1), of v] clampMobile_bounds [OF m(2), of v] clampMobile_bounds [OF m(3), of v]
  show "0 \<le> clampMobile v (flit (85 / 100)) (flit (98 / 100))" "clampMobile v (flit (85 / 100)) (flit (98 / 100)) \<le> flit (98 / 100)"
    "0 \<le> clampMobile v (flit (70 / 100)) (flit (84 / 100))" "clampMobile v (flit (70 / 100)) (flit (84 / 100)) \<le> flit (98 / 100)"
    "0 \<le> clampMobile v (flit (45 / 100)) (flit (69 / 100))" "clampMobile v (flit (45 / 100)) (flit (69 / 100)) \<le> flit (69 / 100)"
    using b m(4) p by (meson order_trans)+
qed

lemma confidenceFor_range: "0 \<le> confidenceFor c s" "confidenceFor c s \<le> flit (98 / 100)"
proof -
  have m: "flit (69 / 100) \<le> flit (98 / 100)" "flit (50 / 100) \<le> flit (98 / 100)" "flit (25 / 100) \<le> flit (98 / 100)"
    "0 \<le> flit (98 / 100)"
    by (simp_all add: flit_mono)
  show "0 \<le> confidenceFor c s" unfolding confidenceFor_def Let_def using confidence_clamps(1,3,5) by simp
  show "confidenceFor c s \<le> flit (98 / 100)"
    unfolding confidenceFor_def Let_def
    using confidence_clamps(2,4) order_trans [OF confidence_clamps(6) m(1)] m(2-4) by simp
qed

text \<open>
  C16: a mobile verdict of the topology scan is at least probable only with evidence of two kinds for
  that operating system worth 70 points or more and no severe conflict, and confirmed only with two
  strong pieces of evidence worth 85 points; the confidence never exceeds 0.98.
\<close>

theorem agent_verdict_needs:
  assumes "fp = Fingerprint clock i" "mf_Classification fp \<in> {confirmedClass os, probableClass os}" "os \<noteq> OS_Unknown"
  shows "(\<exists>x \<in> set (hinted (family os) (mf_Evidence fp)). \<exists>y \<in> set (hinted (family os) (mf_Evidence fp)).
      me_Type x \<noteq> me_Type y) \<and>
    70 \<le> impacts (family os) (mf_Evidence fp) \<and> \<not> hasWarningMobileConflict (mf_Conflicts fp) \<and>
    (if mf_Classification fp = confirmedClass os
     then 2 \<le> strong_count (family os) (mf_Evidence fp) \<and> 85 \<le> impacts (family os) (mf_Evidence fp) else True) \<and>
    0 \<le> mf_Confidence fp \<and> mf_Confidence fp \<le> flit (98 / 100)"
proof -
  define s where "s = score_input i (newMobileScorer (if is_zero_time (mi_Timestamp i) then clock else mi_Timestamp i))"
  let ?t = "Mobile_Scoring.detectConflicts s"
  have fp: "fp = finish s" using assms(1) by (simp add: Fingerprint_def s_def Let_def)
  have ok: "agent_ok s" unfolding s_def by (intro score_input_ok agent_ok_new)
  have c: "chooseClassification ?t \<in> {confirmedClass os, probableClass os}"
    using assms(2) by (simp add: fp finish_fields)
  note firm = choose_firm [OF c]
  let ?o = "fst (top_candidate ?t)" and ?n = "snd (top_candidate ?t)"
  have "classificationForOS ?o ?n ?t \<in> {confirmedClass os, probableClass os}" using c firm by simp
  note need = classificationForOS_firm [OF this]
  have "confirmedClass ?o = confirmedClass os \<or> probableClass ?o = probableClass os" using need c firm by auto
  then have o: "?o = os" using confirmedClass_inj probableClass_inj top_candidate_score(1) assms(3) by blast
  have n: "?n = os_score os s" using top_candidate_score(2) [of ?t] o by simp
  have os: "os_ok os s" using ok assms(3) by (rule agent_okD)
  then have impacts: "?n \<le> impacts (family os) (ms_evidence s)" unfolding n by (simp add: os_ok_def)
  have types: "\<exists>x \<in> set (hinted (family os) (ms_evidence s)). \<exists>y \<in> set (hinted (family os) (ms_evidence s)). me_Type x \<noteq> me_Type y"
    using two_types [of "ms_categories s os" "set (hinted (family os) (ms_evidence s))"] need os
    unfolding o os_ok_def by simp
  have "2 \<le> strong_count (family os) (ms_evidence s) \<and> 85 \<le> impacts (family os) (ms_evidence s)"
    if "mf_Classification fp = confirmedClass os"
  proof -
    have "85 \<le> ?n \<and> 2 \<le> ms_strongCounts s os" using need firm that by (simp add: fp finish_fields o)
    then show ?thesis using impacts os by (simp add: os_ok_def)
  qed
  then show ?thesis
    using types impacts need firm confidenceFor_range [of "chooseClassification ?t" ?t]
    by (simp add: fp finish_fields evidence_mset)
qed

section \<open>One reverse-DNS record\<close>

definition ptr_name :: string where "ptr_name = ''iphone.push.apple.com''"
definition ptr_record :: Evidence where
  "ptr_record = \<lparr>tev_ID = ''ev-3'', tev_Kind = EvidenceReverseDNS, tev_Source = ''reverse_dns'', tev_Summary = [],
     tev_Data = [(''ip'', ''10.0.0.7''), (''hostname'', ptr_name)], tev_Timestamp = 1\<rparr>"
definition ptr_device :: Device where
  "ptr_device = empty_device\<lparr>dev_ID := ''dev-10.0.0.7'', dev_Hostname := ptr_name, dev_Hostnames := [ptr_name],
     dev_Addresses := [\<lparr>ipa_IP = ''10.0.0.7'', ipa_Version = 4, ipa_CIDR = []\<rparr>], dev_EvidenceIDs := [''ev-3'']\<rparr>"

lemma ptr_input: "mobileInputFromDevice ptr_device [ptr_record] 1 =
  (mobile_input ''dev-10.0.0.7'' 1)\<lparr>
    mi_Hostnames := [\<lparr>mov_Value = ptr_name, mov_Source = ''device_hostname'', mov_Timestamp = 1\<rparr>,
       \<lparr>mov_Value = ptr_name, mov_Source = ''reverse_dns'', mov_Timestamp = 1\<rparr>],
    mi_DNSQueries := [\<lparr>mov_Value = ptr_name, mov_Source = ''reverse_dns'', mov_Timestamp = 1\<rparr>]\<rparr>"
  by code_simp

lemma ptr_strings: "trim_space ptr_name = ptr_name" "ptr_name \<noteq> []" "str_contains (to_lower ptr_name) ''iphone''"
  "matched_domains appleDomainHints [\<lparr>mov_Value = ptr_name, mov_Source = ''reverse_dns'', mov_Timestamp = 1\<rparr>] = [''apple.com'']"
  "matched_domains androidDomainHints [\<lparr>mov_Value = ptr_name, mov_Source = ''reverse_dns'', mov_Timestamp = 1\<rparr>] = []"
  "sort_strings [''apple.com''] = [''apple.com'']" "dnsImpact [''apple.com''] True = (20, Weak)" 
  by code_simp+

definition ptr_scored :: mobileScorer where
  "ptr_scored = score_input (mobileInputFromDevice ptr_device [ptr_record] 1) (newMobileScorer 1)"

lemma ptr_scored:
  "ms_iosScore ptr_scored = 110" "ms_ipadScore ptr_scored = 20" "ms_androidScore ptr_scored = 0"
  "ms_categories ptr_scored OS_IOS = [''hostname'', ''dns_query'']" "ms_strongCounts ptr_scored OS_IOS = 2"
  "ms_vendorIDsByOS ptr_scored OS_Android = []" "ms_identityIDsByOS ptr_scored OS_Android = []" "ms_conflicts ptr_scored = []"
  "ms_randomizedMAC ptr_scored = False"
  by (simp_all add: ptr_scored_def ptr_input score_input_def mobile_input_def evaluateHostnames_def evaluate_hostname_def
      ptr_strings evaluateMACs_def evaluateVendorHints_def evaluateMDNS_def evaluateDNS_def add_dns_def
      evaluateServices_def evaluateUserAgents_def evaluatePassivePackets_def ms_add_defs newMobileScorer_def
      ms_warn_def add_id_def append_new_def)

lemma detect_scored: "Mobile_Scoring.detectConflicts ptr_scored = ptr_scored"
  by (simp add: Mobile_Scoring.detectConflicts_def ptr_scored sortedUnique_def)

lemma top_scored: "top_candidate ptr_scored = (OS_IOS, 110)"
  unfolding top_candidate_def ptr_scored by code_simp

text \<open>
  One reverse-DNS name counts twice as a host name, once with each source, and once as a domain that
  was queried, because the kind \<open>reverse_dns\<close> contains \<open>dns\<close>: it confirms an iPhone alone.
\<close>

lemma ptr_confirmed: "mf_Classification (FingerprintDevice 1 ptr_device [ptr_record]) = ConfirmedIOS"
proof -
  have "FingerprintDevice 1 ptr_device [ptr_record] = finish ptr_scored"
    by (simp add: FingerprintDevice_def Fingerprint_def Let_def ptr_scored_def ptr_input mobile_input_def
        is_zero_time_def zero_time_def)
  then show ?thesis
    by (simp add: finish_fields detect_scored chooseClassification_def ptr_scored top_scored classificationForOS_def
        dnsOnly_def macOnlyRandomized_def)
qed
theorem agent_verdict_needs_witness:
  "70 \<le> impacts (family OS_IOS) (mf_Evidence (FingerprintDevice 1 ptr_device [ptr_record]))"
  using agent_verdict_needs [OF FingerprintDevice_def, of 1 ptr_device "[ptr_record]" OS_IOS] ptr_confirmed by simp

end
