(* ===== verification/Intel_Types.thy ===== *)
theory Intel_Types
  imports Topo_Types Scan_Models
begin

text \<open>
  \<open>agent/pkg/models/device_intel.go\<close>: what the device intelligence knows of every device of a local
  network, each fact with its evidence. The fields that the upstream enrichment and the SNMP bridge
  fill in afterwards (reachability, routing evidence, tags, weighted items, LLDP) are left out.
  A pointer that may be nil is an \<open>option\<close>; a map of raw values is an association list.
\<close>

section \<open>Constants\<close>

definition DeviceIntelSchema :: string where "DeviceIntelSchema = ''iad.device_intel/v1''"

definition DeviceEdgeDefaultGatewayRoute :: string where "DeviceEdgeDefaultGatewayRoute = ''default_gateway_route''"
definition DeviceEdgeSameSubnetInferred :: string where "DeviceEdgeSameSubnetInferred = ''same_subnet_inferred''"
definition DeviceEdgeTracerouteHop :: string where "DeviceEdgeTracerouteHop = ''traceroute_hop''"
definition DeviceEdgeLLDPPhysicalNeighbor :: string where "DeviceEdgeLLDPPhysicalNeighbor = ''lldp_physical_neighbor''"
definition DeviceEdgeCDPPhysicalNeighbor :: string where "DeviceEdgeCDPPhysicalNeighbor = ''cdp_physical_neighbor''"
definition DeviceEdgeSNMPBridgeFDB :: string where "DeviceEdgeSNMPBridgeFDB = ''snmp_bridge_fdb''"
definition DeviceEdgeUpstreamPrivate :: string where "DeviceEdgeUpstreamPrivate = ''upstream_private_gateway''"
definition DeviceTypeUnknown :: string where "DeviceTypeUnknown = ''unknown''"
definition DeviceTypeGatewayRouter :: string where "DeviceTypeGatewayRouter = ''gateway_router''"
definition DeviceTypeUpstreamCPE :: string where "DeviceTypeUpstreamCPE = ''upstream_gateway_cpe_candidate''"
definition DeviceTypeWindowsHost :: string where "DeviceTypeWindowsHost = ''windows_pc_or_server''"
definition DeviceTypeAppleDevice :: string where "DeviceTypeAppleDevice = ''macos_ios_device''"
definition DeviceTypeAndroidDevice :: string where "DeviceTypeAndroidDevice = ''android_device''"
definition DeviceTypePrinter :: string where "DeviceTypePrinter = ''printer''"
definition DeviceTypeIPCamera :: string where "DeviceTypeIPCamera = ''ip_camera''"
definition DeviceTypeMediaDevice :: string where "DeviceTypeMediaDevice = ''smart_tv_or_media_device''"
definition DeviceTypeNAS :: string where "DeviceTypeNAS = ''nas''"
definition DeviceTypeIoT :: string where "DeviceTypeIoT = ''iot_device''"
definition DeviceTypeServer :: string where "DeviceTypeServer = ''server''"
definition DeviceTypeVirtualMachine :: string where "DeviceTypeVirtualMachine = ''virtual_machine''"
definition DeviceRoleUpstreamGateway :: string where "DeviceRoleUpstreamGateway = ''upstream_private_gateway''"
definition DeviceRolePossibleCPE :: string where "DeviceRolePossibleCPE = ''possible_cpe''"
definition DeviceRolePrinter :: string where "DeviceRolePrinter = ''printer''"
definition DeviceRoleMedia :: string where "DeviceRoleMedia = ''media''"
definition DeviceRoleStorage :: string where "DeviceRoleStorage = ''storage''"
definition DeviceRoleVirtual :: string where "DeviceRoleVirtual = ''virtual''"
definition DeviceRoleUnknownHost :: string where "DeviceRoleUnknownHost = ''unknown_host''"
definition DeviceRoleManagement :: string where "DeviceRoleManagement = ''management_interface''"
definition DeviceRoleNameResolution :: string where "DeviceRoleNameResolution = ''name_resolution''"

section \<open>Facts about a device\<close>

record DeviceVendor =
  dv_OUIVendor :: "string option"
  dv_FingerprintVendor :: "string option"
  dv_Confidence :: float64

record DeviceTypeCandidate =
  dtc_Type :: string
  dtc_Confidence :: float64
  dtc_SupportingFacts :: "string list"
  dtc_MissingEvidence :: "string list"
  dtc_EvidenceIDs :: "string list"

record DeviceTypeGuess =
  dtg_Primary :: string
  dtg_Candidates :: "DeviceTypeCandidate list"
  dtg_Alternatives :: "DeviceTypeCandidate list"
  dtg_MissingEvidence :: "string list"
  dtg_Confidence :: float64
  dtg_EvidenceIDs :: "string list"

record OSGuess =
  osg_Family :: string
  osg_Name :: "string option"
  osg_Version :: "string option"
  osg_Confidence :: float64
  osg_Evidence :: "string list"
  osg_EvidenceIDs :: "string list"

record DeviceIntelService =
  dis_Port :: int
  dis_Protocol :: string
  dis_State :: string
  dis_Name :: string
  dis_Product :: string
  dis_Version :: string
  dis_Banner :: string
  dis_Confidence :: float64
  dis_EvidenceIDs :: "string list"

record SMBInfo =
  smb_NetBIOSName :: string
  smb_Workgroup :: string
  smb_OSFamily :: string
  smb_SigningRequired :: "bool option"
  smb_EvidenceIDs :: "string list"

record MDNSRecord =
  mdr_Name :: string
  mdr_Service :: string
  mdr_Target :: string
  mdr_Text :: "string list"
  mdr_EvidenceIDs :: "string list"

record SSDPRecord =
  ssr_USN :: string
  ssr_ST :: string
  ssr_Server :: string
  ssr_Location :: string
  ssr_EvidenceIDs :: "string list"

record NBNSRecord =
  nbn_Name :: string
  nbn_Workgroup :: string
  nbn_EvidenceIDs :: "string list"

record LLMNRRecord =
  llr_Name :: string
  llr_EvidenceIDs :: "string list"

record PrinterInfo =
  pri_Detected :: bool
  pri_Protocols :: "string list"
  pri_Manufacturer :: string
  pri_Model :: string
  pri_EvidenceIDs :: "string list"

record UPnPInfo =
  upi_Detected :: bool
  upi_DeviceType :: string
  upi_FriendlyName :: string
  upi_IGD :: bool
  upi_EvidenceIDs :: "string list"

record SNMPInfo =
  sni_Enabled :: bool
  sni_Status :: string
  sni_Reason :: string
  sni_EvidenceIDs :: "string list"

record SecurityFinding =
  sf_ID :: string
  sf_Severity :: string
  sf_Title :: string
  sf_Description :: string
  sf_EvidenceIDs :: "string list"
  sf_SafeRecommendation :: string

record SecurityPosture =
  spo_RiskLevel :: string
  spo_Findings :: "SecurityFinding list"
  spo_Notes :: "string list"

record DeviceEdgeHint =
  deh_EdgeID :: string
  deh_Type :: string
  deh_Peer :: string
  deh_Confidence :: float64
  deh_ConfidenceLabel :: string
  deh_EvidenceIDs :: "string list"

record DeviceTopologyFacts =
  dtf_EdgeHints :: "DeviceEdgeHint list"
  dtf_IsGateway :: bool
  dtf_IsAgent :: bool
  dtf_IsUpstreamGatewayCandidate :: bool
  dtf_PhysicalAdjacencyProven :: bool
  dtf_InferredOnly :: bool

record DeviceIntelDevice =
  did_ID :: string
  did_IPAddresses :: "string list"
  did_MACAddresses :: "string list"
  did_Hostnames :: "string list"
  did_Vendor :: DeviceVendor
  did_MobileFingerprint :: "MobileFingerprint option"
  did_DeviceTypeHint :: string
  did_OSHint :: string
  did_OSConfidence :: float64
  did_Roles :: "string list"
  did_DeviceType :: DeviceTypeGuess
  did_OSGuess :: OSGuess
  did_Services :: "DeviceIntelService list"
  did_HTTPFingerprints :: "HTTPObservation list"
  did_TLSFingerprints :: "TLSObservation list"
  did_SMBInfo :: "SMBInfo option"
  did_MDNSRecords :: "MDNSRecord list"
  did_SSDPRecords :: "SSDPRecord list"
  did_NBNSRecords :: "NBNSRecord list"
  did_LLMNRRecords :: "LLMNRRecord list"
  did_PrinterInfo :: "PrinterInfo option"
  did_UPnPInfo :: "UPnPInfo option"
  did_SNMPInfo :: "SNMPInfo option"
  did_SecurityPosture :: SecurityPosture
  did_Topology :: DeviceTopologyFacts
  did_Confidence :: float64
  did_EvidenceIDs :: "string list"
  did_Conflicts :: "DataConflict list"
  did_FailedAttempts :: "ProbeAttempt list"
  did_LastSeen :: string
  did_ClassificationExplanation :: "string list"
  did_UndeterminedWithoutOptIn :: "string list"

record DeviceIntelEdge =
  die_ID :: string
  die_Source :: string
  die_Target :: string
  die_Type :: string
  die_Confidence :: float64
  die_ConfidenceLabel :: string
  die_EvidenceIDs :: "string list"
  die_Reason :: string
  die_Inferred :: bool
  die_Physical :: bool

record DeviceIntelEvidence =
  dio_ID :: string
  dio_DeviceID :: string
  dio_SourceProbe :: string
  dio_Kind :: string
  dio_Raw :: "(string \<times> any) list"
  dio_Normalized :: "(string \<times> any) list"
  dio_Confidence :: float64
  dio_Timestamp :: gotime
  dio_TTLSeconds :: int
  dio_Error :: string
  dio_SafeToDisplay :: bool

section \<open>The report\<close>

record DeviceIntelScope =
  dsc_CIDR :: string
  dsc_Interface :: string
  dsc_AgentIP :: string
  dsc_DefaultGateway :: string
  dsc_PrivateOnly :: bool
  dsc_PublicAllowed :: bool
  dsc_Profile :: string
  dsc_Targets :: "string list"
  dsc_OptInProbes :: "string list"

record DeviceIntelSummary =
  dism_DeviceCount :: int
  dism_GatewayCount :: int
  dism_UnknownDeviceCount :: int
  dism_ServiceCount :: int
  dism_HighConfidenceDevices :: int
  dism_InferredEdges :: int
  dism_PhysicalEdges :: int
  dism_SecurityFindingCount :: int

record DeviceCard =
  dcd_DeviceID :: string
  dcd_Title :: string
  dcd_Role :: string
  dcd_Confidence :: float64
  dcd_MACVendor :: string
  dcd_Hostnames :: "string list"
  dcd_MobileLabel :: string
  dcd_MobileOSHint :: string
  dcd_MobileConfidence :: float64
  dcd_OpenServices :: "string list"
  dcd_DeviceType :: string
  dcd_OSGuess :: string
  dcd_LastSeen :: string
  dcd_EvidenceSources :: "string list"
  dcd_RiskNotes :: "string list"
  dcd_Explanation :: "string list"

record DeviceIntelUI =
  dui_Headline :: string
  dui_Badges :: "string list"
  dui_DeviceCards :: "DeviceCard list"
  dui_TopologyNotes :: "string list"

record DeviceIntelReport =
  dir_SchemaVersion :: string
  dir_ScanID :: string
  dir_CreatedAt :: gotime
  dir_Scope :: DeviceIntelScope
  dir_Summary :: DeviceIntelSummary
  dir_Devices :: "DeviceIntelDevice list"
  dir_Edges :: "DeviceIntelEdge list"
  dir_Evidence :: "DeviceIntelEvidence list"
  dir_Conflicts :: "DataConflict list"
  dir_Warnings :: "Warning list"
  dir_UI :: DeviceIntelUI
  dir_SecurityNotes :: "string list"
  dir_Undetermined :: "string list"

text \<open>The zero values the code starts from.\<close>

definition empty_vendor :: DeviceVendor where
  "empty_vendor = \<lparr>dv_OUIVendor = None, dv_FingerprintVendor = None, dv_Confidence = 0\<rparr>"

definition empty_os_guess :: OSGuess where
  "empty_os_guess =
     \<lparr>osg_Family = ''unknown'', osg_Name = None, osg_Version = None, osg_Confidence = 0, osg_Evidence = [],
      osg_EvidenceIDs = []\<rparr>"

definition empty_facts :: DeviceTopologyFacts where
  "empty_facts =
     \<lparr>dtf_EdgeHints = [], dtf_IsGateway = False, dtf_IsAgent = False, dtf_IsUpstreamGatewayCandidate = False,
      dtf_PhysicalAdjacencyProven = False, dtf_InferredOnly = False\<rparr>"

end
