(* ===== verification/Intel_Store.thy ===== *)
theory Intel_Store
  imports Intel_Types Agent_Safety
begin

text \<open>
  \<open>agent/internal/deviceintel/store.go\<close>, \<open>util.go\<close> and \<open>types.go\<close>: the store that collects the facts
  about the devices of a network. A Go device pointer is the key of the device in the store, so every
  operation on a device is an update of its entry; the map of devices is an association list in an
  iteration order. The clock is the sequence of values its calls return. Helpers with a namesake
  elsewhere have the prefix \<open>intel_\<close>.
\<close>

section \<open>Helpers\<close>

definition safeTCPPorts :: "int list" where
  "safeTCPPorts =
     [22, 23, 53, 80, 139, 443, 445, 515, 631, 1900, 1883, 5000, 5001,
      5353, 5357, 7547, 8008, 8009, 8080, 8123, 8443, 9100, 32400, 554]"

definition serviceNames :: "(int \<times> string) list" where
  "serviceNames =
     [(22, ''ssh''), (23, ''telnet''), (53, ''domain''), (80, ''http''), (139, ''netbios-ssn''), (443, ''https''),
      (445, ''microsoft-ds''), (515, ''printer-lpd''), (631, ''ipp''), (554, ''rtsp''), (1883, ''mqtt''),
      (1900, ''ssdp''), (5000, ''nas-or-upnp''), (5001, ''nas-https''), (5353, ''mdns''), (5357, ''wsdapi''),
      (7547, ''cwmp''), (8008, ''chromecast''), (8009, ''chromecast''), (8080, ''http-alt''),
      (8123, ''home-assistant''), (8443, ''https-alt''), (9100, ''jetdirect''), (32400, ''plex'')]"

definition SafeTCPPorts :: "int list" where
  "SafeTCPPorts = sort safeTCPPorts"

text \<open>The limits of a scan of the device intelligence.\<close>

record IntelScope =
  isc_CIDR :: string
  isc_Interface :: string
  isc_AgentIP :: string
  isc_DefaultGateway :: string
  isc_PrivateOnly :: bool
  isc_PublicAllowed :: bool
  isc_Profile :: string
  isc_Targets :: "string list"
  isc_OptInProbes :: "string list"
  isc_SNMPCredentials :: bool
  isc_SSHCredentials :: bool
  isc_RouterAPICredentials :: bool
  isc_TR064Credentials :: bool
  isc_TR181Credentials :: bool

definition ShouldProbeTarget :: "IntelScope \<Rightarrow> string \<Rightarrow> bool" where
  "ShouldProbeTarget scope ip =
     (if trim_space ip = [] then False
      else if IsPrivateIPString ip then True
      else isc_PublicAllowed scope \<and> \<not> isc_PrivateOnly scope)"

definition intel_containsString :: "string list \<Rightarrow> string \<Rightarrow> bool" where
  "intel_containsString values needle =
     list_ex (\<lambda>v. to_lower (trim_space v) = to_lower (trim_space needle)) values"

definition SNMPAllowed :: "IntelScope \<Rightarrow> bool" where
  "SNMPAllowed scope = (isc_SNMPCredentials scope \<and> intel_containsString (isc_OptInProbes scope) ''snmp'')"

definition SSHAllowed :: "IntelScope \<Rightarrow> bool" where
  "SSHAllowed scope = (isc_SSHCredentials scope \<and> intel_containsString (isc_OptInProbes scope) ''ssh'')"

definition RouterAPIAllowed :: "IntelScope \<Rightarrow> bool" where
  "RouterAPIAllowed scope =
     (isc_RouterAPICredentials scope \<and> intel_containsString (isc_OptInProbes scope) ''router_api'')"

definition TR064Allowed :: "IntelScope \<Rightarrow> bool" where
  "TR064Allowed scope = (isc_TR064Credentials scope \<and> intel_containsString (isc_OptInProbes scope) ''tr064'')"

definition TR181Allowed :: "IntelScope \<Rightarrow> bool" where
  "TR181Allowed scope = (isc_TR181Credentials scope \<and> intel_containsString (isc_OptInProbes scope) ''tr181'')"

definition deviceID :: "string \<Rightarrow> string" where
  "deviceID ip = ''dev-'' @ ip"

definition firstIP :: "DeviceIntelDevice \<Rightarrow> string" where
  "firstIP d = (case did_IPAddresses d of [] \<Rightarrow> [] | ip # _ \<Rightarrow> ip)"

definition intel_serviceName :: "int \<Rightarrow> string" where
  "intel_serviceName port = (case map_of serviceNames port of Some name \<Rightarrow> name | None \<Rightarrow> [])"

definition serviceLabel :: "DeviceIntelService \<Rightarrow> string" where
  "serviceLabel s =
     (let name = dis_Name s;
          name = (if name = [] then intel_serviceName (dis_Port s) else name);
          name = (if name = [] then dis_Protocol s else name)
      in name @ ''/'' @ itoa (dis_Port s))"

definition intel_serviceKey :: "string \<Rightarrow> int \<Rightarrow> string" where
  "intel_serviceKey protocol port =
     to_lower (if protocol = [] then ''tcp'' else protocol) @ '':'' @ itoa port"

definition hasOpenPort :: "DeviceIntelDevice \<Rightarrow> int \<Rightarrow> bool" where
  "hasOpenPort d port = list_ex (\<lambda>s. dis_Port s = port \<and> equal_fold (dis_State s) ''open'') (did_Services d)"

definition hasAnyPort :: "DeviceIntelDevice \<Rightarrow> int list \<Rightarrow> bool" where
  "hasAnyPort d ports = list_ex (hasOpenPort d) ports"

definition intel_appendUnique :: "string list \<Rightarrow> string list \<Rightarrow> string list" where
  "intel_appendUnique values extra =
     fold (\<lambda>v out. let t = trim_space v in if t = [] then out else append_new out t) (values @ extra) []"

definition intel_sortedUnique :: "string list \<Rightarrow> string list" where
  "intel_sortedUnique values = sort_strings (intel_appendUnique [] values)"

definition evidenceIDsForPorts :: "DeviceIntelDevice \<Rightarrow> int list \<Rightarrow> string list" where
  "evidenceIDsForPorts d ports =
     intel_sortedUnique (concat (map dis_EvidenceIDs (filter (\<lambda>s. dis_Port s \<in> set ports) (did_Services d))))"

definition sortedUniqueInts :: "int list \<Rightarrow> int list" where
  "sortedUniqueInts values = sort (fold (\<lambda>v out. append_new out v) values [])"

definition intel_ptrString :: "string \<Rightarrow> string option" where
  "intel_ptrString s = (if s = [] then None else Some s)"

definition intel_clamp01 :: "float64 \<Rightarrow> float64" where
  "intel_clamp01 v = (if v < 0 then 0 else if v > 1 then 1 else v)"

definition intel_confidenceLabel :: "float64 \<Rightarrow> string" where
  "intel_confidenceLabel v =
     (if v \<ge> flit (90 / 100) then ConfVeryHigh
      else if v \<ge> flit (75 / 100) then ConfHigh
      else if v \<ge> flit (50 / 100) then ConfMedium
      else if v \<ge> flit (25 / 100) then ConfLow
      else ConfVeryLow)"

definition intel_ipv4ToUint :: "string \<Rightarrow> uint32 option" where
  "intel_ipv4ToUint s = map_option be_uint32 (Option.bind (parse_ip s) to4)"

definition intel_ipLess :: "string \<Rightarrow> string \<Rightarrow> bool" where
  "intel_ipLess a b =
     (case (intel_ipv4ToUint a, intel_ipv4ToUint b) of
        (Some x, Some y) \<Rightarrow> x < y
      | _ \<Rightarrow> str_less a b)"

fun intel_firstNonEmpty :: "string list \<Rightarrow> string" where
  "intel_firstNonEmpty [] = []"
| "intel_firstNonEmpty (v # vs) = (if trim_space v \<noteq> [] then v else intel_firstNonEmpty vs)"

definition intel_nonEmpty :: "string list \<Rightarrow> string list" where
  "intel_nonEmpty values = filter (\<lambda>v. trim_space v \<noteq> []) values"

definition intel_maxFloat :: "float64 \<Rightarrow> float64 \<Rightarrow> float64" where
  "intel_maxFloat a b = (if a > b then a else b)"

definition intel_minFloat :: "float64 \<Rightarrow> float64 \<Rightarrow> float64" where
  "intel_minFloat a b = (if a < b then a else b)"

definition virtualTypeFromMAC :: "string \<Rightarrow> string \<Rightarrow> string option" where
  "virtualTypeFromMAC mac vendor =
     (let key = to_upper (replace_bytes [(CHR ''.'', [])] (replace_bytes [(CHR ''-'', '':'')] mac));
          compact = replace_bytes [(CHR '':'', [])] key; vendorLower = to_lower vendor;
          starts = (\<lambda>p. has_prefix compact p)
      in if starts ''000569'' \<or> starts ''000C29'' \<or> starts ''001C14'' \<or> starts ''005056'' \<or>
           str_contains vendorLower ''vmware'' then Some ''VMware''
         else if starts ''080027'' \<or> str_contains vendorLower ''virtualbox'' then Some ''VirtualBox''
         else if starts ''00155D'' \<or> str_contains vendorLower ''hyper-v'' \<or> str_contains vendorLower ''microsoft''
           then Some ''Hyper-V''
         else None)"

definition strongerState :: "string \<Rightarrow> string \<Rightarrow> string" where
  "strongerState existing extra =
     (if equal_fold existing ''open'' \<or> existing = [] then intel_firstNonEmpty [existing, extra]
      else if equal_fold extra ''open'' then extra
      else existing)"

fun mergeCandidate :: "DeviceTypeCandidate list \<Rightarrow> DeviceTypeCandidate \<Rightarrow> DeviceTypeCandidate list" where
  "mergeCandidate [] new = [new\<lparr>dtc_EvidenceIDs := intel_sortedUnique (dtc_EvidenceIDs new)\<rparr>]"
| "mergeCandidate (c # cs) new =
     (if dtc_Type c = dtc_Type new then
        c\<lparr>dtc_Confidence := intel_maxFloat (dtc_Confidence c) (dtc_Confidence new),
          dtc_SupportingFacts := intel_appendUnique (dtc_SupportingFacts c) (dtc_SupportingFacts new),
          dtc_MissingEvidence := intel_appendUnique (dtc_MissingEvidence c) (dtc_MissingEvidence new),
          dtc_EvidenceIDs := intel_sortedUnique (dtc_EvidenceIDs c @ dtc_EvidenceIDs new)\<rparr> # cs
      else c # mergeCandidate cs new)"

section \<open>The store\<close>

record IntelStore =
  ins_Devices :: "(string \<times> DeviceIntelDevice) list"
  ins_Observations :: "DeviceIntelEvidence list"
  ins_Conflicts :: "DataConflict list"
  ins_now :: "nat \<Rightarrow> gotime"
  ins_calls :: nat
  ins_seq :: nat
  ins_evidenceSeen :: "string set"

definition intel_NewEvidenceStore :: "(nat \<Rightarrow> gotime) \<Rightarrow> IntelStore" where
  "intel_NewEvidenceStore now =
     \<lparr>ins_Devices = [], ins_Observations = [], ins_Conflicts = [], ins_now = now, ins_calls = 0, ins_seq = 0,
      ins_evidenceSeen = {}\<rparr>"

definition intel_clock :: "IntelStore \<Rightarrow> gotime \<times> IntelStore" where
  "intel_clock s = (ins_now s (ins_calls s), s\<lparr>ins_calls := Suc (ins_calls s)\<rparr>)"

definition new_device :: "string \<Rightarrow> gotime \<Rightarrow> DeviceIntelDevice" where
  "new_device ip now =
     \<lparr>did_ID = deviceID ip, did_IPAddresses = intel_appendUnique [] [ip], did_MACAddresses = [], did_Hostnames = [],
      did_Vendor = empty_vendor, did_MobileFingerprint = None, did_DeviceTypeHint = [], did_OSHint = [],
      did_OSConfidence = 0, did_Roles = [],
      did_DeviceType =
        \<lparr>dtg_Primary = DeviceTypeUnknown, dtg_Candidates = [], dtg_Alternatives = [],
         dtg_MissingEvidence = [''No device-specific protocol, model, OS, or role evidence has been observed yet.''],
         dtg_Confidence = 0, dtg_EvidenceIDs = []\<rparr>,
      did_OSGuess = empty_os_guess, did_Services = [], did_HTTPFingerprints = [], did_TLSFingerprints = [],
      did_SMBInfo = None, did_MDNSRecords = [], did_SSDPRecords = [], did_NBNSRecords = [], did_LLMNRRecords = [],
      did_PrinterInfo = None, did_UPnPInfo = None,
      did_SNMPInfo = Some \<lparr>sni_Enabled = False, sni_Status = ''skipped'',
        sni_Reason = ''SNMP requires explicit opt-in credentials.'', sni_EvidenceIDs = []\<rparr>,
      did_SecurityPosture = \<lparr>spo_RiskLevel = ''unknown'', spo_Findings = [], spo_Notes = []\<rparr>,
      did_Topology = empty_facts, did_Confidence = 0, did_EvidenceIDs = [], did_Conflicts = [],
      did_FailedAttempts = [], did_LastSeen = format_rfc3339 now, did_ClassificationExplanation = [],
      did_UndeterminedWithoutOptIn = []\<rparr>"

definition UpsertDevice :: "string \<Rightarrow> IntelStore \<Rightarrow> IntelStore" where
  "UpsertDevice ip s =
     (case map_of (ins_Devices s) (deviceID ip) of
        Some d \<Rightarrow>
          if ip \<noteq> [] then
            s\<lparr>ins_Devices := alist_set (deviceID ip)
                (d\<lparr>did_IPAddresses := intel_appendUnique (did_IPAddresses d) [ip]\<rparr>) (ins_Devices s)\<rparr>
          else s
      | None \<Rightarrow>
          (case intel_clock s of (now, s) \<Rightarrow>
            s\<lparr>ins_Devices := alist_set (deviceID ip) (new_device ip now) (ins_Devices s)\<rparr>))"

text \<open>A change of the device behind a pointer.\<close>

definition modify_device :: "string \<Rightarrow> (DeviceIntelDevice \<Rightarrow> DeviceIntelDevice) \<Rightarrow> IntelStore \<Rightarrow> IntelStore" where
  "modify_device key f s =
     (case map_of (ins_Devices s) key of
        Some d \<Rightarrow> s\<lparr>ins_Devices := alist_set key (f d) (ins_Devices s)\<rparr>
      | None \<Rightarrow> s)"

text \<open>\<open>UpsertDevice\<close> followed by a change of the device it returns.\<close>

definition upsert_with :: "string \<Rightarrow> (DeviceIntelDevice \<Rightarrow> DeviceIntelDevice) \<Rightarrow> IntelStore \<Rightarrow> IntelStore" where
  "upsert_with ip f s = modify_device (deviceID ip) f (UpsertDevice ip s)"

definition add_evidence_ids :: "string list \<Rightarrow> DeviceIntelDevice \<Rightarrow> DeviceIntelDevice" where
  "add_evidence_ids ids d = d\<lparr>did_EvidenceIDs := intel_sortedUnique (did_EvidenceIDs d @ ids)\<rparr>"

definition raise_confidence :: "float64 \<Rightarrow> DeviceIntelDevice \<Rightarrow> DeviceIntelDevice" where
  "raise_confidence c d = d\<lparr>did_Confidence := intel_maxFloat (did_Confidence d) c\<rparr>"

definition RegisterEvidence :: "Evidence \<Rightarrow> string \<Rightarrow> float64 \<Rightarrow> IntelStore \<Rightarrow> IntelStore" where
  "RegisterEvidence ev device confidence s =
     (if tev_ID ev = [] then s
      else if tev_ID ev \<in> ins_evidenceSeen s then s
      else s\<lparr>ins_Observations := ins_Observations s @
               [\<lparr>dio_ID = tev_ID ev, dio_DeviceID = device, dio_SourceProbe = tev_Source ev, dio_Kind = tev_Kind ev,
                 dio_Raw = map (\<lambda>(k, v). (k, A_string v)) (tev_Data ev), dio_Normalized = [],
                 dio_Confidence = intel_clamp01 confidence, dio_Timestamp = tev_Timestamp ev, dio_TTLSeconds = 0,
                 dio_Error = [], dio_SafeToDisplay = True\<rparr>],
             ins_evidenceSeen := insert (tev_ID ev) (ins_evidenceSeen s)\<rparr>)"

definition intel_AddObservation ::
  "string \<Rightarrow> string \<Rightarrow> string \<Rightarrow> (string \<times> any) list \<Rightarrow> (string \<times> any) list \<Rightarrow> float64 \<Rightarrow> string \<Rightarrow>
   IntelStore \<Rightarrow> string \<times> IntelStore" where
  "intel_AddObservation ip source kind raw nrm confidence errText s0 =
     (let s = s0\<lparr>ins_seq := Suc (ins_seq s0)\<rparr>; i = ''di-ev-'' @ nat_digits (ins_seq s)
      in case intel_clock s of (now, s) \<Rightarrow>
        (let s = s\<lparr>ins_Observations := ins_Observations s @
                 [\<lparr>dio_ID = i, dio_DeviceID = (if ip \<noteq> [] then deviceID ip else []), dio_SourceProbe = source,
                   dio_Kind = kind, dio_Raw = raw, dio_Normalized = nrm,
                   dio_Confidence = intel_clamp01 confidence, dio_Timestamp = now, dio_TTLSeconds = 0,
                   dio_Error = errText, dio_SafeToDisplay = True\<rparr>],
               ins_evidenceSeen := insert i (ins_evidenceSeen s)\<rparr>
         in (i, if ip \<noteq> [] then
                  upsert_with ip (\<lambda>d. (add_evidence_ids [i] d)\<lparr>did_LastSeen := format_rfc3339 now\<rparr>) s
                else s)))"

section \<open>Adding facts\<close>

definition same_attempt :: "ProbeAttempt \<Rightarrow> ProbeAttempt \<Rightarrow> bool" where
  "same_attempt a b =
     (pa_Source a = pa_Source b \<and> pa_Target a = pa_Target b \<and> pa_Port a = pa_Port b \<and> pa_URL a = pa_URL b \<and>
      pa_Error a = pa_Error b)"

definition add_attempt :: "ProbeAttempt \<Rightarrow> DeviceIntelDevice \<Rightarrow> DeviceIntelDevice" where
  "add_attempt a d =
     (if list_ex (\<lambda>x. same_attempt x a) (did_FailedAttempts d) then d
      else add_evidence_ids [pa_EvidenceID a] (d\<lparr>did_FailedAttempts := did_FailedAttempts d @ [a]\<rparr>))"

definition AddFailedAttempt :: "string \<Rightarrow> ProbeAttempt \<Rightarrow> IntelStore \<Rightarrow> IntelStore" where
  "AddFailedAttempt ip attempt s0 =
     (let s = UpsertDevice ip s0;
          a = (if pa_Target attempt = [] then attempt\<lparr>pa_Target := ip\<rparr> else attempt)
      in case (if pa_EvidenceID a = [] then
                 (case intel_AddObservation ip (pa_Source a) ''probe_failure''
                     [(''target'', A_string (pa_Target a)), (''port'', A_int (pa_Port a)),
                      (''url'', A_string (pa_URL a)), (''method'', A_string (pa_Method a))]
                     [] (flit (5 / 100)) (pa_Error a) s of
                    (i, s) \<Rightarrow> (a\<lparr>pa_EvidenceID := i\<rparr>, s))
               else (a, s)) of
           (a, s) \<Rightarrow> modify_device (deviceID ip) (add_attempt a) s)"

definition opt_evidence :: "string \<Rightarrow> DeviceIntelDevice \<Rightarrow> DeviceIntelDevice" where
  "opt_evidence i d = (if i \<noteq> [] then add_evidence_ids [i] d else d)"

definition AddIP :: "string \<Rightarrow> string \<Rightarrow> float64 \<Rightarrow> IntelStore \<Rightarrow> IntelStore" where
  "AddIP ip i confidence s = upsert_with ip (\<lambda>d. raise_confidence (intel_clamp01 confidence) (opt_evidence i d)) s"

definition add_candidate :: "DeviceTypeCandidate \<Rightarrow> DeviceIntelDevice \<Rightarrow> DeviceIntelDevice" where
  "add_candidate c d =
     d\<lparr>did_DeviceType := (did_DeviceType d)\<lparr>dtg_Candidates := mergeCandidate (dtg_Candidates (did_DeviceType d)) c\<rparr>\<rparr>"

definition add_roles :: "string list \<Rightarrow> DeviceIntelDevice \<Rightarrow> DeviceIntelDevice" where
  "add_roles roles d = d\<lparr>did_Roles := intel_appendUnique (did_Roles d) roles\<rparr>"

definition explain :: "string list \<Rightarrow> DeviceIntelDevice \<Rightarrow> DeviceIntelDevice" where
  "explain texts d = d\<lparr>did_ClassificationExplanation := intel_appendUnique (did_ClassificationExplanation d) texts\<rparr>"

definition set_oui_vendor :: "string \<Rightarrow> float64 \<Rightarrow> DeviceIntelDevice \<Rightarrow> DeviceIntelDevice" where
  "set_oui_vendor vendor confidence d =
     d\<lparr>did_Vendor := (did_Vendor d)\<lparr>dv_OUIVendor := intel_ptrString vendor,
          dv_Confidence := intel_maxFloat (dv_Confidence (did_Vendor d)) confidence\<rparr>\<rparr>"

definition mark_virtual_mac :: "string \<Rightarrow> string \<Rightarrow> string \<Rightarrow> DeviceIntelDevice \<Rightarrow> DeviceIntelDevice" where
  "mark_virtual_mac mac vendor i d =
     (case virtualTypeFromMAC mac vendor of
        None \<Rightarrow> d
      | Some typ \<Rightarrow>
          explain [typ @ '' MAC/OUI suggests a virtual adapter.'']
            (add_candidate
               \<lparr>dtc_Type = DeviceTypeVirtualMachine, dtc_Confidence = flit (70 / 100),
                dtc_SupportingFacts = [''Virtualization OUI observed in MAC address.''], dtc_MissingEvidence = [],
                dtc_EvidenceIDs = intel_nonEmpty [i]\<rparr>
               (add_roles [DeviceRoleVirtual] d)))"

definition AddMAC :: "string \<Rightarrow> string \<Rightarrow> string \<Rightarrow> string \<Rightarrow> float64 \<Rightarrow> IntelStore \<Rightarrow> IntelStore" where
  "AddMAC ip mac vendor i confidence s =
     upsert_with ip (\<lambda>d.
       (let d = d\<lparr>did_MACAddresses := intel_appendUnique (did_MACAddresses d) [mac]\<rparr>;
            d = (if vendor \<noteq> [] then set_oui_vendor vendor (intel_clamp01 confidence) d else d);
            d = mark_virtual_mac mac vendor i (opt_evidence i d)
        in raise_confidence (intel_clamp01 confidence) d)) s"

definition docker_note :: string where
  "docker_note =
     ''host.docker.internal is treated as low-confidence virtual/container context, not a physical device identity.''"

definition add_note :: "string \<Rightarrow> DeviceIntelDevice \<Rightarrow> DeviceIntelDevice" where
  "add_note note d =
     d\<lparr>did_SecurityPosture := (did_SecurityPosture d)\<lparr>spo_Notes := intel_appendUnique (spo_Notes (did_SecurityPosture d)) [note]\<rparr>\<rparr>"

definition AddHostname :: "string \<Rightarrow> string \<Rightarrow> string \<Rightarrow> float64 \<Rightarrow> IntelStore \<Rightarrow> IntelStore" where
  "AddHostname ip hostname i confidence s =
     (if hostname = [] then s
      else upsert_with ip (\<lambda>d.
        (let lower = to_lower hostname;
             virtual = (str_contains lower ''host.docker.internal'' \<or> str_contains lower ''docker'' \<or>
               str_contains lower ''wsl'');
             d = d\<lparr>did_Hostnames := intel_appendUnique (did_Hostnames d) [trim_suffix hostname ''.'']\<rparr>;
             d = opt_evidence i d;
             d = (if virtual then
                    add_note docker_note
                      (add_candidate
                         \<lparr>dtc_Type = DeviceTypeVirtualMachine, dtc_Confidence = flit (45 / 100),
                          dtc_SupportingFacts =
                            [''Reverse DNS name is commonly generated by Docker/WSL virtualization.''],
                          dtc_MissingEvidence = [], dtc_EvidenceIDs = intel_nonEmpty [i]\<rparr>
                         (add_roles [DeviceRoleVirtual] d))
                  else d);
             c = (if virtual then intel_minFloat confidence (flit (35 / 100)) else confidence)
         in raise_confidence (intel_clamp01 c) d)) s)"

definition service_defaults :: "DeviceIntelService \<Rightarrow> DeviceIntelService" where
  "service_defaults svc =
     svc\<lparr>dis_Protocol := (if dis_Protocol svc = [] then ''tcp'' else dis_Protocol svc),
         dis_State := (if dis_State svc = [] then ''open'' else dis_State svc),
         dis_Name := (if dis_Name svc = [] then intel_serviceName (dis_Port svc) else dis_Name svc),
         dis_Confidence := (if dis_Confidence svc = 0 then flit (75 / 100) else dis_Confidence svc)\<rparr>"

definition merge_service :: "DeviceIntelService \<Rightarrow> DeviceIntelService \<Rightarrow> DeviceIntelService" where
  "merge_service old svc =
     old\<lparr>dis_State := strongerState (dis_State old) (dis_State svc),
         dis_Name := intel_firstNonEmpty [dis_Name old, dis_Name svc],
         dis_Product := intel_firstNonEmpty [dis_Product old, dis_Product svc],
         dis_Version := intel_firstNonEmpty [dis_Version old, dis_Version svc],
         dis_Banner := intel_firstNonEmpty [dis_Banner old, dis_Banner svc],
         dis_Confidence := intel_maxFloat (dis_Confidence old) (dis_Confidence svc),
         dis_EvidenceIDs := intel_sortedUnique (dis_EvidenceIDs old @ dis_EvidenceIDs svc)\<rparr>"

definition svc_key :: "DeviceIntelService \<Rightarrow> string" where
  "svc_key svc = intel_serviceKey (dis_Protocol svc) (dis_Port svc)"

text \<open>The loop over the services: the first one with the key is merged; \<open>None\<close> when there is none.\<close>

fun merge_services :: "DeviceIntelService \<Rightarrow> DeviceIntelService list \<Rightarrow> DeviceIntelService list option" where
  "merge_services svc [] = None"
| "merge_services svc (old # rest) =
     (if svc_key old = svc_key svc then Some (merge_service old svc # rest)
      else map_option ((#) old) (merge_services svc rest))"

definition intel_service_before :: "DeviceIntelService \<Rightarrow> DeviceIntelService \<Rightarrow> bool" where
  "intel_service_before a b =
     (if dis_Port a \<noteq> dis_Port b then dis_Port a < dis_Port b else str_less (dis_Protocol a) (dis_Protocol b))"

definition add_service_to :: "DeviceIntelService \<Rightarrow> DeviceIntelDevice \<Rightarrow> DeviceIntelDevice" where
  "add_service_to svc d =
     (case merge_services svc (did_Services d) of
        Some services \<Rightarrow> add_evidence_ids (dis_EvidenceIDs svc) (d\<lparr>did_Services := services\<rparr>)
      | None \<Rightarrow>
          (let svc = svc\<lparr>dis_EvidenceIDs := intel_sortedUnique (dis_EvidenceIDs svc)\<rparr>
           in raise_confidence (flit (70 / 100))
                (add_evidence_ids (dis_EvidenceIDs svc)
                   (d\<lparr>did_Services := sort_by intel_service_before (did_Services d @ [svc])\<rparr>))))"

definition AddService :: "string \<Rightarrow> DeviceIntelService \<Rightarrow> IntelStore \<Rightarrow> IntelStore" where
  "AddService ip svc s = upsert_with ip (add_service_to (service_defaults svc)) s"

definition same_http :: "HTTPObservation \<Rightarrow> HTTPObservation \<Rightarrow> bool" where
  "same_http a b =
     (ho_URL a = ho_URL b \<and> ho_Method a = ho_Method b \<and> ho_StatusCode a = ho_StatusCode b \<and>
      ho_ServerHeader a = ho_ServerHeader b \<and> ho_Title a = ho_Title b)"

definition add_http :: "HTTPObservation \<Rightarrow> DeviceIntelDevice \<Rightarrow> DeviceIntelDevice" where
  "add_http obs d =
     (if list_ex (\<lambda>x. same_http x obs) (did_HTTPFingerprints d) then d
      else raise_confidence (flit (75 / 100))
             (add_evidence_ids [ho_EvidenceID obs] (d\<lparr>did_HTTPFingerprints := did_HTTPFingerprints d @ [obs]\<rparr>)))"

definition AddHTTPObservation ::
  "string \<Rightarrow> HTTPObservation \<Rightarrow> bool \<Rightarrow> ProbeAttempt \<Rightarrow> IntelStore \<Rightarrow> IntelStore" where
  "AddHTTPObservation ip obs success attempt s =
     (if \<not> success then AddFailedAttempt ip attempt (UpsertDevice ip s) else upsert_with ip (add_http obs) s)"

definition add_tls :: "TLSObservation \<Rightarrow> DeviceIntelDevice \<Rightarrow> DeviceIntelDevice" where
  "add_tls obs d =
     (if list_ex (\<lambda>x. to_Port x = to_Port obs \<and> to_CN x = to_CN obs \<and> to_Issuer x = to_Issuer obs)
           (did_TLSFingerprints d) then d
      else raise_confidence (flit (75 / 100))
             (add_evidence_ids [to_EvidenceID obs] (d\<lparr>did_TLSFingerprints := did_TLSFingerprints d @ [obs]\<rparr>)))"

definition AddTLSObservation :: "string \<Rightarrow> TLSObservation \<Rightarrow> IntelStore \<Rightarrow> IntelStore" where
  "AddTLSObservation ip obs s = upsert_with ip (add_tls obs) s"

definition AddMDNS :: "string \<Rightarrow> MDNSRecord \<Rightarrow> IntelStore \<Rightarrow> IntelStore" where
  "AddMDNS ip rec s =
     upsert_with ip (\<lambda>d. add_evidence_ids (mdr_EvidenceIDs rec) (d\<lparr>did_MDNSRecords := did_MDNSRecords d @ [rec]\<rparr>)) s"

definition AddSSDP :: "string \<Rightarrow> SSDPRecord \<Rightarrow> IntelStore \<Rightarrow> IntelStore" where
  "AddSSDP ip rec s =
     upsert_with ip (\<lambda>d. add_evidence_ids (ssr_EvidenceIDs rec) (d\<lparr>did_SSDPRecords := did_SSDPRecords d @ [rec]\<rparr>)) s"

definition add_name :: "string \<Rightarrow> DeviceIntelDevice \<Rightarrow> DeviceIntelDevice" where
  "add_name name d =
     (if name \<noteq> [] then d\<lparr>did_Hostnames := intel_appendUnique (did_Hostnames d) [name]\<rparr> else d)"

definition AddNBNS :: "string \<Rightarrow> NBNSRecord \<Rightarrow> IntelStore \<Rightarrow> IntelStore" where
  "AddNBNS ip rec s =
     upsert_with ip (\<lambda>d. add_name (nbn_Name rec)
       (add_evidence_ids (nbn_EvidenceIDs rec) (d\<lparr>did_NBNSRecords := did_NBNSRecords d @ [rec]\<rparr>))) s"

definition AddLLMNR :: "string \<Rightarrow> LLMNRRecord \<Rightarrow> IntelStore \<Rightarrow> IntelStore" where
  "AddLLMNR ip rec s =
     upsert_with ip (\<lambda>d. add_name (llr_Name rec)
       (add_evidence_ids (llr_EvidenceIDs rec) (d\<lparr>did_LLMNRRecords := did_LLMNRRecords d @ [rec]\<rparr>))) s"

definition intel_AddConflict :: "DataConflict \<Rightarrow> IntelStore \<Rightarrow> IntelStore" where
  "intel_AddConflict c s = s\<lparr>ins_Conflicts := ins_Conflicts s @ [c]\<rparr>"

text \<open>\<open>DeviceList\<close> also leaves the sorted lists in the store; no caller looks at it again.\<close>

definition DeviceList :: "IntelStore \<Rightarrow> DeviceIntelDevice list" where
  "DeviceList s =
     sort_by (\<lambda>a b. intel_ipLess (firstIP a) (firstIP b))
       (map (\<lambda>p. (snd p)\<lparr>did_EvidenceIDs := intel_sortedUnique (did_EvidenceIDs (snd p)),
                          did_Roles := intel_sortedUnique (did_Roles (snd p))\<rparr>) (ins_Devices s))"

end
