(* ===== verification/Rich_Topology.thy ===== *)
theory Rich_Topology
  imports Intel_Types Topo_Graph Intel_Store
begin

text \<open>
  \<open>agent/internal/topology/rich.go\<close>: the graph for the user interface, made of the devices and edges of
  the topology scan and of the device intelligence. A Go map of nodes or edges is an association list
  in the order of insertion; its iteration order matters only where the final sort leaves two nodes
  in either order. Of the device intelligence the devices and the edges are read; \<open>LLDPCDPInfo\<close>, which
  no code sets, is absent. The current time, used when the report has none, is a parameter.
  The first section holds the records and constants of \<open>agent/pkg/models/rich_topology.go\<close> and the
  \<open>topology/v2\<close> records of \<open>topology.go\<close>.
\<close>

section \<open>Names\<close>

definition RichTopologySchema :: string where "RichTopologySchema = ''iad.rich_topology/v1''"

definition EvidenceSourceARP :: string where "EvidenceSourceARP = ''arp''"
definition EvidenceSourceNeighborTable :: string where "EvidenceSourceNeighborTable = ''neighbor_table''"
definition EvidenceSourceICMP :: string where "EvidenceSourceICMP = ''icmp''"
definition EvidenceSourceTCPProbe :: string where "EvidenceSourceTCPProbe = ''tcp_probe''"
definition EvidenceSourceUDPProbe :: string where "EvidenceSourceUDPProbe = ''udp_probe''"
definition EvidenceSourceMDNS :: string where "EvidenceSourceMDNS = ''mdns''"
definition EvidenceSourceSSDP :: string where "EvidenceSourceSSDP = ''ssdp''"
definition EvidenceSourceLLMNR :: string where "EvidenceSourceLLMNR = ''llmnr''"
definition EvidenceSourceNBNS :: string where "EvidenceSourceNBNS = ''nbns''"
definition EvidenceSourceDHCP :: string where "EvidenceSourceDHCP = ''dhcp''"
definition EvidenceSourceDNS :: string where "EvidenceSourceDNS = ''dns''"
definition EvidenceSourceTLS :: string where "EvidenceSourceTLS = ''tls''"
definition EvidenceSourceHTTP :: string where "EvidenceSourceHTTP = ''http''"
definition EvidenceSourceSNMP :: string where "EvidenceSourceSNMP = ''snmp''"
definition EvidenceSourceRouterAPI :: string where "EvidenceSourceRouterAPI = ''router_api''"
definition EvidenceSourceAPAPI :: string where "EvidenceSourceAPAPI = ''ap_api''"
definition EvidenceSourcePassiveWiFi :: string where "EvidenceSourcePassiveWiFi = ''passive_wifi''"
definition EvidenceSourceManual :: string where "EvidenceSourceManual = ''manual''"

lemmas evidence_sources = EvidenceSourceARP_def EvidenceSourceNeighborTable_def EvidenceSourceICMP_def
  EvidenceSourceTCPProbe_def EvidenceSourceUDPProbe_def EvidenceSourceMDNS_def EvidenceSourceSSDP_def
  EvidenceSourceLLMNR_def EvidenceSourceNBNS_def EvidenceSourceDHCP_def EvidenceSourceDNS_def EvidenceSourceTLS_def
  EvidenceSourceHTTP_def EvidenceSourceSNMP_def EvidenceSourceRouterAPI_def EvidenceSourceAPAPI_def
  EvidenceSourcePassiveWiFi_def EvidenceSourceManual_def

definition NodeCategoryNetwork :: string where "NodeCategoryNetwork = ''network''"
definition NodeCategoryDevice :: string where "NodeCategoryDevice = ''device''"
definition NodeCategoryUnknown :: string where "NodeCategoryUnknown = ''unknown''"

definition NodeRoleGateway :: string where "NodeRoleGateway = ''gateway''"
definition NodeRoleRouter :: string where "NodeRoleRouter = ''router''"
definition NodeRoleAccessPoint :: string where "NodeRoleAccessPoint = ''access_point''"
definition NodeRoleMeshNode :: string where "NodeRoleMeshNode = ''mesh_node''"
definition NodeRoleRepeater :: string where "NodeRoleRepeater = ''repeater''"
definition NodeRoleSwitch :: string where "NodeRoleSwitch = ''switch''"
definition NodeRoleWiredClient :: string where "NodeRoleWiredClient = ''wired_client''"
definition NodeRoleLocalAgent :: string where "NodeRoleLocalAgent = ''local_agent''"
definition NodeRoleUnknown :: string where "NodeRoleUnknown = ''unknown''"

lemmas node_roles = NodeRoleGateway_def NodeRoleRouter_def NodeRoleAccessPoint_def NodeRoleMeshNode_def
  NodeRoleRepeater_def NodeRoleSwitch_def NodeRoleWiredClient_def NodeRoleLocalAgent_def NodeRoleUnknown_def

definition RichEdgeGatewayLink :: string where "RichEdgeGatewayLink = ''gateway-link''"
definition RichEdgeSubnetInferred :: string where "RichEdgeSubnetInferred = ''subnet-inferred''"
definition RichEdgeARPNeighbor :: string where "RichEdgeARPNeighbor = ''arp-neighbor''"
definition RichEdgeWirelessAssociated :: string where "RichEdgeWirelessAssociated = ''wireless-associated''"
definition RichEdgeWirelessObserved :: string where "RichEdgeWirelessObserved = ''wireless-observed''"
definition RichEdgeMeshBackhaul :: string where "RichEdgeMeshBackhaul = ''mesh-backhaul''"
definition RichEdgeRepeaterUplink :: string where "RichEdgeRepeaterUplink = ''repeater-uplink''"
definition RichEdgeSwitchUplink :: string where "RichEdgeSwitchUplink = ''switch-uplink''"
definition RichEdgeReportedByRouter :: string where "RichEdgeReportedByRouter = ''reported-by-router''"
definition RichEdgeReportedByAP :: string where "RichEdgeReportedByAP = ''reported-by-ap''"
definition RichEdgeWeakInferred :: string where "RichEdgeWeakInferred = ''weak-inferred''"
definition RichEdgeUnknown :: string where "RichEdgeUnknown = ''unknown''"

lemmas rich_edge_types = RichEdgeGatewayLink_def RichEdgeSubnetInferred_def RichEdgeARPNeighbor_def
  RichEdgeWirelessAssociated_def RichEdgeWirelessObserved_def RichEdgeMeshBackhaul_def RichEdgeRepeaterUplink_def
  RichEdgeSwitchUplink_def RichEdgeReportedByRouter_def RichEdgeReportedByAP_def RichEdgeWeakInferred_def
  RichEdgeUnknown_def

definition DeviceEdgeARPNeighbor :: string where "DeviceEdgeARPNeighbor = ''arp_neighbor''"
definition DeviceEdgeWiFiAssociation :: string where "DeviceEdgeWiFiAssociation = ''wifi_association_unknown''"
definition DeviceEdgePossibleCPEPath :: string where "DeviceEdgePossibleCPEPath = ''possible_cpe_path''"

section \<open>Records\<close>

datatype ui_value =
  UV_string string
| UV_bool bool
| UV_int int
| UV_float float64
| UV_strings "string list"
| UV_addresses "IPAddress list"
| UV_services "Service list"
| UV_fingerprint "MobileFingerprint option"

type_synonym ui_map = "(string \<times> ui_value) list"

record RichEvidence =
  rie_Source :: string
  rie_Value :: string
  rie_Confidence :: float64
  rie_Timestamp :: gotime
  rie_Interface :: string
  rie_Notes :: string

record RichService =
  rsv_Port :: int
  rsv_Protocol :: string
  rsv_State :: string
  rsv_Name :: string
  rsv_Product :: string
  rsv_EvidenceIDs :: "string list"

record RichInterface =
  rif_Name :: string
  rif_MAC :: string
  rif_Vendor :: string
  rif_IPs :: "string list"

record RichWireless =
  rw_SSID :: string
  rw_BSSID :: string
  rw_AssociatedBSSID :: string
  rw_Channel :: int
  rw_Frequency :: int
  rw_Band :: string
  rw_RSSI :: int
  rw_Noise :: int
  rw_Security :: string
  rw_PHY :: string
  rw_Capabilities :: "string list"
  rw_IsAP :: bool
  rw_IsStation :: bool
  rw_IsMesh :: bool
  rw_IsRepeaterHint :: bool
  rw_ObservationCount :: int
  rw_Confidence :: float64

record RichTopologyNode =
  rn_ID :: string
  rn_Label :: string
  rn_Type :: string
  rn_Category :: string
  rn_DeviceRole :: string
  rn_IPAddresses :: "string list"
  rn_MACAddresses :: "string list"
  rn_Vendor :: string
  rn_Hostname :: string
  rn_OSHint :: string
  rn_MobileFingerprint :: "MobileFingerprint option"
  rn_DeviceTypeHint :: string
  rn_MobileOSHint :: string
  rn_OSConfidence :: float64
  rn_Services :: "RichService list"
  rn_Interfaces :: "RichInterface list"
  rn_Wireless :: "RichWireless option"
  rn_FirstSeen :: gotime
  rn_LastSeen :: gotime
  rn_Confidence :: float64
  rn_RiskFlags :: "string list"
  rn_Evidence :: "RichEvidence list"
  rn_RawSources :: "string list"
  rn_UI :: ui_map

record RichTopologyEdge =
  rx_ID :: string
  rx_Source :: string
  rx_Target :: string
  rx_Type :: string
  rx_Relation :: string
  rx_Medium :: string
  rx_Confidence :: float64
  rx_Evidence :: "RichEvidence list"
  rx_FirstSeen :: gotime
  rx_LastSeen :: gotime
  rx_UI :: ui_map

record RichTopologyUI =
  rtu_RootNodeID :: string
  rtu_InferredOnly :: bool
  rtu_PhysicalEdgeCount :: int
  rtu_Warnings :: "string list"

record ReportCapability =
  cap_Name :: string
  cap_Category :: string
  cap_Status :: string
  cap_OutputPath :: string
  cap_Description :: string
  cap_Reason :: string

record RichTopologyModel =
  rt_SchemaVersion :: string
  rt_GeneratedAt :: gotime
  rt_Nodes :: "RichTopologyNode list"
  rt_Edges :: "RichTopologyEdge list"
  rt_Warnings :: "Warning list"
  rt_Capabilities :: "ReportCapability list"
  rt_UI :: RichTopologyUI

text \<open>
  The graph of the report. An edge has the fields the validator reads, which are the record
  \<open>TopologyV2Edge\<close>, and those for the user interface.
\<close>

record V2Edge = TopologyV2Edge +
  tve_Evidence :: "RichEvidence list"
  tve_Warnings :: "string list"
  tve_FirstSeen :: gotime
  tve_LastSeen :: gotime
  tve_UI :: ui_map

record V2Model =
  v2_SchemaVersion :: string
  v2_GeneratedAt :: gotime
  v2_RootID :: string
  v2_Nodes :: "RichTopologyNode list"
  v2_Edges :: "V2Edge list"
  v2_Warnings :: "Warning list"
  v2_Capabilities :: "ReportCapability list"
  v2_UI :: RichTopologyUI

record WirelessMetadata =
  wm_SSID :: string
  wm_BSSID :: string
  wm_Channel :: int
  wm_Frequency :: int
  wm_Band :: string
  wm_RSSI :: int
  wm_Security :: string
  wm_APMAC :: string
  wm_StationMAC :: string
  wm_FirstSeen :: gotime
  wm_LastSeen :: gotime
  wm_ObservationCount :: int
  wm_Confidence :: float64
  wm_Source :: string

record RawObservation =
  ro_Source :: string
  ro_Kind :: string
  ro_Interface :: string
  ro_SourceMAC :: string
  ro_DestinationMAC :: string
  ro_SourceIP :: string
  ro_DestinationIP :: string
  ro_Protocol :: string
  ro_EtherType :: string
  ro_FirstSeen :: gotime
  ro_LastSeen :: gotime
  ro_Count :: int
  ro_Metadata :: "(string \<times> string) list"

section \<open>Helpers\<close>

fun rich_firstNonEmpty :: "string list \<Rightarrow> string" where
  "rich_firstNonEmpty [] = []"
| "rich_firstNonEmpty (v # vs) = (if trim_space v \<noteq> [] then v else rich_firstNonEmpty vs)"

definition rich_firstString :: "string list \<Rightarrow> string" where
  "rich_firstString values = rich_firstNonEmpty values"

fun rich_firstNonZero :: "int list \<Rightarrow> int" where
  "rich_firstNonZero [] = 0"
| "rich_firstNonZero (v # vs) = (if v \<noteq> 0 then v else rich_firstNonZero vs)"

fun rich_firstIP :: "IPAddress list \<Rightarrow> string" where
  "rich_firstIP [] = []"
| "rich_firstIP (a # rest) = (if ipa_IP a \<noteq> [] then ipa_IP a else rich_firstIP rest)"

definition ptrValue :: "string option \<Rightarrow> string" where
  "ptrValue v = (case v of Some s \<Rightarrow> s | None \<Rightarrow> [])"

fun rich_appendUniqueStrings :: "string list \<Rightarrow> string list \<Rightarrow> string list" where
  "rich_appendUniqueStrings values [] = values"
| "rich_appendUniqueStrings values (v # vs) =
     (let t = trim_space v
      in rich_appendUniqueStrings (if t = [] \<or> t \<in> set values then values else values @ [t]) vs)"

definition rich_hasAnyRole :: "string list \<Rightarrow> string list \<Rightarrow> bool" where
  "rich_hasAnyRole roles wants = list_ex (\<lambda>role. list_ex (equal_fold role) wants) roles"

definition rich_maxFloat :: "float64 \<Rightarrow> float64 \<Rightarrow> float64" where
  "rich_maxFloat a b = (if b > a then b else a)"

definition rich_earliest :: "gotime \<Rightarrow> gotime \<Rightarrow> gotime" where
  "rich_earliest a b = (if is_zero_time b then a else if is_zero_time a \<or> b < a then b else a)"

definition rich_latest :: "gotime \<Rightarrow> gotime \<Rightarrow> gotime" where
  "rich_latest a b = (if b > a then b else a)"

definition rich_parseTime :: "string \<Rightarrow> gotime" where
  "rich_parseTime raw =
     (if raw = [] then zero_time else case parse_rfc3339 raw of Some ts \<Rightarrow> ts | None \<Rightarrow> zero_time)"

definition mergeUI :: "ui_map \<Rightarrow> ui_map \<Rightarrow> ui_map" where
  "mergeUI existing extra = fold (\<lambda>(k, v) m. alist_set k v m) extra existing"

fun dedupe_warnings_acc :: "string set \<Rightarrow> Warning list \<Rightarrow> Warning list" where
  "dedupe_warnings_acc seen [] = []"
| "dedupe_warnings_acc seen (w # ws) =
     (let key = wrn_Code w @ ''|'' @ wrn_Message w
      in if key \<in> seen then dedupe_warnings_acc seen ws
         else w # dedupe_warnings_acc (insert key seen) ws)"

definition dedupeWarnings :: "Warning list \<Rightarrow> Warning list" where
  "dedupeWarnings ws = dedupe_warnings_acc {} ws"

definition rich_warningMessages :: "Warning list \<Rightarrow> string list" where
  "rich_warningMessages ws = map wrn_Message ws"

section \<open>Evidence\<close>

definition indexEvidence :: "Evidence list \<Rightarrow> string \<Rightarrow> Evidence option" where
  "indexEvidence evidence = map_of (rev (map (\<lambda>ev. (tev_ID ev, ev)) evidence))"

definition richEvidenceSource :: "Evidence \<Rightarrow> string" where
  "richEvidenceSource ev =
     (let kind = to_lower (tev_Kind ev @ '' '' @ tev_Source ev); holds = str_contains kind
      in if holds ''arp'' then EvidenceSourceARP
         else if holds ''neighbor'' then EvidenceSourceNeighborTable
         else if holds ''icmp'' then EvidenceSourceICMP
         else if holds ''tcp'' \<or> holds ''nmap'' then EvidenceSourceTCPProbe
         else if holds ''udp'' then EvidenceSourceUDPProbe
         else if holds ''mdns'' then EvidenceSourceMDNS
         else if holds ''ssdp'' \<or> holds ''upnp'' then EvidenceSourceSSDP
         else if holds ''llmnr'' then EvidenceSourceLLMNR
         else if holds ''nbns'' \<or> holds ''netbios'' then EvidenceSourceNBNS
         else if holds ''dhcp'' then EvidenceSourceDHCP
         else if holds ''dns'' then EvidenceSourceDNS
         else if holds ''tls'' then EvidenceSourceTLS
         else if holds ''http'' then EvidenceSourceHTTP
         else if holds ''snmp'' then EvidenceSourceSNMP
         else if holds ''router_api'' then EvidenceSourceRouterAPI
         else if holds ''ap_api'' then EvidenceSourceAPAPI
         else if holds ''wifi'' \<or> holds ''wireless'' then EvidenceSourcePassiveWiFi
         else EvidenceSourceManual)"

definition rich_evidenceConfidence :: "string \<Rightarrow> float64" where
  "rich_evidenceConfidence kind =
     (let k = to_lower kind
      in if k \<in> {''gateway_route'', ''interface''} then flit (80 / 100)
         else if k \<in> {''arp_table'', ''tcp_connect'', ''nmap''} then flit (70 / 100)
         else if k \<in> {''lldp'', ''cdp''} then flit (95 / 100)
         else if k = ''snmp_bridge'' then flit (85 / 100)
         else flit (50 / 100))"

definition richEvidenceForIDs :: "string list \<Rightarrow> (string \<Rightarrow> Evidence option) \<Rightarrow> RichEvidence list" where
  "richEvidenceForIDs ids evidenceByID =
     map (\<lambda>i. case evidenceByID i of
            None \<Rightarrow> \<lparr>rie_Source = ''manual'', rie_Value = i, rie_Confidence = flit (2 / 10), rie_Timestamp = zero_time,
                rie_Interface = [], rie_Notes = ''referenced evidence id was not present in root evidence''\<rparr>
          | Some ev \<Rightarrow> \<lparr>rie_Source = richEvidenceSource ev, rie_Value = rich_firstNonEmpty [tev_Summary ev, tev_ID ev],
                rie_Confidence = rich_evidenceConfidence (tev_Kind ev), rie_Timestamp = tev_Timestamp ev,
                rie_Interface = data_get (tev_Data ev) ''interface'', rie_Notes = data_get (tev_Data ev) ''note''\<rparr>) ids"

text \<open>The key ends with the text of the instant, which holds no bar.\<close>

fun merge_evidence_acc :: "(string \<times> gotime) set \<Rightarrow> RichEvidence list \<Rightarrow> RichEvidence list" where
  "merge_evidence_acc seen [] = []"
| "merge_evidence_acc seen (ev # evs) =
     (let key = (rie_Source ev @ ''|'' @ rie_Value ev, rie_Timestamp ev)
      in if key \<in> seen then merge_evidence_acc seen evs
         else ev # merge_evidence_acc (insert key seen) evs)"

definition mergeRichEvidence :: "RichEvidence list \<Rightarrow> RichEvidence list \<Rightarrow> RichEvidence list" where
  "mergeRichEvidence existing extra = merge_evidence_acc {} (existing @ extra)"

section \<open>Nodes\<close>

definition ensureNode :: "string \<Rightarrow> (string \<times> RichTopologyNode) list \<Rightarrow> string \<times> RichTopologyNode" where
  "ensureNode i0 nodes =
     (let i = (if i0 = [] then ''unknown'' else i0)
      in (i, case map_of nodes i of
               Some n \<Rightarrow> n
             | None \<Rightarrow> \<lparr>rn_ID = i, rn_Label = i, rn_Type = DeviceTypeUnknown, rn_Category = NodeCategoryUnknown,
                 rn_DeviceRole = NodeRoleUnknown, rn_IPAddresses = [], rn_MACAddresses = [], rn_Vendor = [],
                 rn_Hostname = [], rn_OSHint = [], rn_MobileFingerprint = None, rn_DeviceTypeHint = [],
                 rn_MobileOSHint = [], rn_OSConfidence = 0, rn_Services = [], rn_Interfaces = [], rn_Wireless = None,
                 rn_FirstSeen = zero_time, rn_LastSeen = zero_time, rn_Confidence = 0, rn_RiskFlags = [],
                 rn_Evidence = [], rn_RawSources = [], rn_UI = []\<rparr>))"

definition mobileNodeLabel :: "MobileFingerprint option \<Rightarrow> string" where
  "mobileNodeLabel fp =
     (case fp of None \<Rightarrow> []
      | Some fp \<Rightarrow>
         (case mf_Classification fp of
            ConfirmedIOS \<Rightarrow> ''Confirmed iPhone'' | ProbableIOS \<Rightarrow> ''Probable iPhone'' | PossibleIOS \<Rightarrow> ''Possible iPhone''
          | ConfirmedIPadOS \<Rightarrow> ''Confirmed iPad'' | ProbableIPadOS \<Rightarrow> ''Probable iPad''
          | PossibleIPadOS \<Rightarrow> ''Possible iPad'' | ConfirmedAndroid \<Rightarrow> ''Confirmed Android''
          | ProbableAndroid \<Rightarrow> ''Probable Android'' | PossibleAndroid \<Rightarrow> ''Possible Android''
          | MobileConflict \<Rightarrow> ''Conflicting OS evidence'' | UnknownMobile \<Rightarrow> ''Unknown mobile'' | UnknownDevice \<Rightarrow> []))"

definition roleFromRoot :: "Device \<Rightarrow> string" where
  "roleFromRoot d =
     (if dev_IsAgent d then NodeRoleLocalAgent
      else if dev_IsGateway d then NodeRoleGateway
      else if rich_hasAnyRole (dev_Roles d) [RoleRouter] then NodeRoleRouter
      else if rich_hasAnyRole (dev_Roles d) [''access_point'', ''wifi_ap''] then NodeRoleAccessPoint
      else if rich_hasAnyRole (dev_Roles d) [''switch'', ''switching_device''] then NodeRoleSwitch
      else NodeRoleWiredClient)"

definition roleFromIntel :: "'a DeviceIntelDevice_scheme \<Rightarrow> string" where
  "roleFromIntel d =
     (let primary = dtg_Primary (did_DeviceType d)
      in if dtf_IsAgent (did_Topology d) then NodeRoleLocalAgent
         else if dtf_IsGateway (did_Topology d) then NodeRoleGateway
         else if rich_hasAnyRole (did_Roles d) [DeviceRoleUpstreamGateway, DeviceRolePossibleCPE] then NodeRoleRouter
         else if str_contains primary ''access_point'' then NodeRoleAccessPoint
         else if str_contains primary ''mesh'' then NodeRoleMeshNode
         else if str_contains primary ''repeater'' then NodeRoleRepeater
         else if str_contains primary ''switch'' then NodeRoleSwitch
         else NodeRoleWiredClient)"

definition nodeTypeFromRoot :: "Device \<Rightarrow> string" where
  "nodeTypeFromRoot d =
     (if dev_IsAgent d then ''local_host'' else if dev_IsGateway d then DeviceTypeGatewayRouter else ''host'')"

definition categoryForIntel :: "'a DeviceIntelDevice_scheme \<Rightarrow> string" where
  "categoryForIntel d =
     (if dtf_IsGateway (did_Topology d) \<or> dtf_IsUpstreamGatewayCandidate (did_Topology d) then NodeCategoryNetwork
      else NodeCategoryDevice)"

definition deviceIPs :: "Device \<Rightarrow> string list" where
  "deviceIPs d =
     fold (\<lambda>iface out. rich_appendUniqueStrings out (dif_IPs iface)) (dev_Interfaces d)
       (fold (\<lambda>a out. rich_appendUniqueStrings out [ipa_IP a]) (dev_Addresses d) [])"

definition rootServices :: "Service list \<Rightarrow> RichService list" where
  "rootServices svcs =
     map (\<lambda>s. \<lparr>rsv_Port = svc_Port s, rsv_Protocol = svc_Protocol s, rsv_State = svc_State s, rsv_Name = svc_Name s,
               rsv_Product = svc_Product s, rsv_EvidenceIDs = svc_EvidenceIDs s\<rparr>) svcs"

definition intelServices :: "DeviceIntelService list \<Rightarrow> RichService list" where
  "intelServices svcs =
     map (\<lambda>s. \<lparr>rsv_Port = dis_Port s, rsv_Protocol = dis_Protocol s, rsv_State = dis_State s, rsv_Name = dis_Name s,
               rsv_Product = rich_firstNonEmpty [dis_Product s, dis_Version s],
               rsv_EvidenceIDs = dis_EvidenceIDs s\<rparr>) svcs"

definition evidenceSourcesFromIntel :: "'a DeviceIntelDevice_scheme \<Rightarrow> string list" where
  "evidenceSourcesFromIntel d =
     (let out = fold (\<lambda>s out. rich_appendUniqueStrings out [dis_Name s]) (did_Services d) []
      in rich_appendUniqueStrings out
           ((case did_UPnPInfo d of Some u \<Rightarrow> if upi_Detected u then [''upnp''] else [] | None \<Rightarrow> []) @
            (case did_SNMPInfo d of Some s \<Rightarrow> if sni_Status s \<noteq> [] then [''snmp''] else [] | None \<Rightarrow> []) @
            (if did_MDNSRecords d \<noteq> [] then [''mdns''] else []) @ (if did_SSDPRecords d \<noteq> [] then [''ssdp''] else [])))"

definition riskFlags :: "SecurityFinding list \<Rightarrow> string list" where
  "riskFlags findings = fold (\<lambda>f out. rich_appendUniqueStrings out [sf_ID f, sf_Severity f]) findings []"

definition wirelessFromIntel :: "'a DeviceIntelDevice_scheme \<Rightarrow> RichWireless option" where
  "wirelessFromIntel d =
     (let primary = dtg_Primary (did_DeviceType d); ap = str_contains primary ''access_point''
      in if \<not> ap \<and> \<not> str_contains (str_join (did_Roles d) '' '') ''wifi'' then None
         else Some \<lparr>rw_SSID = [], rw_BSSID = [], rw_AssociatedBSSID = [], rw_Channel = 0, rw_Frequency = 0, rw_Band = [],
             rw_RSSI = 0, rw_Noise = 0, rw_Security = [], rw_PHY = [], rw_Capabilities = [], rw_IsAP = ap,
             rw_IsStation = \<not> ap, rw_IsMesh = str_contains primary ''mesh'',
             rw_IsRepeaterHint = str_contains primary ''repeater'',
             rw_ObservationCount = int (length (did_EvidenceIDs d)), rw_Confidence = did_Confidence d\<rparr>)"

definition mergeWireless :: "RichWireless \<Rightarrow> RichWireless \<Rightarrow> RichWireless" where
  "mergeWireless dst src =
     \<lparr>rw_SSID = rich_firstNonEmpty [rw_SSID dst, rw_SSID src],
      rw_BSSID = rich_firstNonEmpty [rw_BSSID dst, rw_BSSID src],
      rw_AssociatedBSSID = rich_firstNonEmpty [rw_AssociatedBSSID dst, rw_AssociatedBSSID src],
      rw_Channel = rich_firstNonZero [rw_Channel dst, rw_Channel src],
      rw_Frequency = rich_firstNonZero [rw_Frequency dst, rw_Frequency src],
      rw_Band = rich_firstNonEmpty [rw_Band dst, rw_Band src],
      rw_RSSI = rich_firstNonZero [rw_RSSI dst, rw_RSSI src],
      rw_Noise = rich_firstNonZero [rw_Noise dst, rw_Noise src],
      rw_Security = rich_firstNonEmpty [rw_Security dst, rw_Security src],
      rw_PHY = rich_firstNonEmpty [rw_PHY dst, rw_PHY src],
      rw_Capabilities = rich_appendUniqueStrings (rw_Capabilities dst) (rw_Capabilities src),
      rw_IsAP = rw_IsAP dst \<or> rw_IsAP src, rw_IsStation = rw_IsStation dst \<or> rw_IsStation src,
      rw_IsMesh = rw_IsMesh dst \<or> rw_IsMesh src, rw_IsRepeaterHint = rw_IsRepeaterHint dst \<or> rw_IsRepeaterHint src,
      rw_ObservationCount = rw_ObservationCount dst + rw_ObservationCount src,
      rw_Confidence = rich_maxFloat (rw_Confidence dst) (rw_Confidence src)\<rparr>"

definition join_wireless :: "RichWireless option \<Rightarrow> RichWireless option \<Rightarrow> RichWireless option" where
  "join_wireless dst src =
     (case (dst, src) of
        (None, _) \<Rightarrow> src
      | (Some d, None) \<Rightarrow> Some d
      | (Some d, Some s) \<Rightarrow> Some (mergeWireless d s))"

definition root_node :: "(string \<Rightarrow> Evidence option) \<Rightarrow> Device \<Rightarrow> RichTopologyNode \<Rightarrow> RichTopologyNode" where
  "root_node evidenceByID d n =
     n\<lparr>rn_Label := rich_firstNonEmpty [dev_Hostname d, rich_firstIP (dev_Addresses d), dev_ID d],
       rn_Type := nodeTypeFromRoot d, rn_Category := NodeCategoryDevice, rn_DeviceRole := roleFromRoot d,
       rn_IPAddresses := rich_appendUniqueStrings (rn_IPAddresses n) (deviceIPs d),
       rn_MACAddresses := rich_appendUniqueStrings (rn_MACAddresses n) (dev_MAC d # map dif_MAC (dev_Interfaces d)),
       rn_Interfaces := rn_Interfaces n @
         map (\<lambda>i. \<lparr>rif_Name = [], rif_MAC = dif_MAC i, rif_Vendor = dif_Vendor i, rif_IPs = dif_IPs i\<rparr>) (dev_Interfaces d),
       rn_Vendor := rich_firstNonEmpty [rn_Vendor n, dev_Vendor d, dev_OUIVendor d],
       rn_Hostname := rich_firstNonEmpty [rn_Hostname n, dev_Hostname d],
       rn_MobileFingerprint := (case dev_MobileFingerprint d of Some fp \<Rightarrow> Some fp | None \<Rightarrow> rn_MobileFingerprint n),
       rn_DeviceTypeHint := rich_firstNonEmpty [rn_DeviceTypeHint n, dev_DeviceTypeHint d],
       rn_MobileOSHint := rich_firstNonEmpty [rn_MobileOSHint n, dev_OSHint d],
       rn_OSConfidence := rich_maxFloat (rn_OSConfidence n) (dev_OSConfidence d),
       rn_Services := rn_Services n @ rootServices (dev_Services d),
       rn_FirstSeen := rich_earliest (rn_FirstSeen n) (dev_FirstSeen d),
       rn_LastSeen := rich_latest (rn_LastSeen n) (dev_LastSeen d),
       rn_Confidence := rich_maxFloat (rn_Confidence n) (dev_Confidence d),
       rn_RawSources := rich_appendUniqueStrings (rn_RawSources n) (dev_DiscoverySources d),
       rn_Evidence := mergeRichEvidence (rn_Evidence n) (richEvidenceForIDs (dev_EvidenceIDs d) evidenceByID),
       rn_UI := mergeUI (rn_UI n) [(''is_gateway'', UV_bool (dev_IsGateway d)), (''is_agent'', UV_bool (dev_IsAgent d)),
         (''mobile_label'', UV_string (mobileNodeLabel (dev_MobileFingerprint d)))]\<rparr>"

definition upsertRootDevice ::
  "(string \<Rightarrow> Evidence option) \<Rightarrow> Device \<Rightarrow> (string \<times> RichTopologyNode) list \<Rightarrow> (string \<times> RichTopologyNode) list" where
  "upsertRootDevice evidenceByID d nodes =
     (case ensureNode (dev_ID d) nodes of (i, n) \<Rightarrow> alist_set i (root_node evidenceByID d n) nodes)"

definition intel_node ::
  "(string \<Rightarrow> Evidence option) \<Rightarrow> 'a DeviceIntelDevice_scheme \<Rightarrow> RichTopologyNode \<Rightarrow> RichTopologyNode" where
  "intel_node evidenceByID d n =
     n\<lparr>rn_Label := rich_firstNonEmpty [rich_firstString (did_Hostnames d), rich_firstString (did_IPAddresses d), did_ID d],
       rn_Type := rich_firstNonEmpty [dtg_Primary (did_DeviceType d), rn_Type n, DeviceTypeUnknown],
       rn_Category := categoryForIntel d, rn_DeviceRole := roleFromIntel d,
       rn_IPAddresses := rich_appendUniqueStrings (rn_IPAddresses n) (did_IPAddresses d),
       rn_MACAddresses := rich_appendUniqueStrings (rn_MACAddresses n) (did_MACAddresses d),
       rn_Hostname := rich_firstNonEmpty [rn_Hostname n, rich_firstString (did_Hostnames d)],
       rn_Vendor := rich_firstNonEmpty [rn_Vendor n, ptrValue (dv_FingerprintVendor (did_Vendor d)),
         ptrValue (dv_OUIVendor (did_Vendor d))],
       rn_OSHint := rich_firstNonEmpty [rn_OSHint n, osg_Family (did_OSGuess d)],
       rn_MobileFingerprint := (case did_MobileFingerprint d of Some fp \<Rightarrow> Some fp | None \<Rightarrow> rn_MobileFingerprint n),
       rn_DeviceTypeHint := rich_firstNonEmpty [rn_DeviceTypeHint n, did_DeviceTypeHint d],
       rn_MobileOSHint := rich_firstNonEmpty [rn_MobileOSHint n, did_OSHint d],
       rn_OSConfidence := rich_maxFloat (rn_OSConfidence n) (did_OSConfidence d),
       rn_Services := rn_Services n @ intelServices (did_Services d),
       rn_Confidence := rich_maxFloat (rn_Confidence n) (did_Confidence d),
       rn_LastSeen := rich_latest (rn_LastSeen n) (rich_parseTime (did_LastSeen d)),
       rn_Evidence := mergeRichEvidence (rn_Evidence n) (richEvidenceForIDs (did_EvidenceIDs d) evidenceByID),
       rn_RawSources := rich_appendUniqueStrings (rn_RawSources n) (evidenceSourcesFromIntel d),
       rn_RiskFlags := rich_appendUniqueStrings (rn_RiskFlags n) (riskFlags (spo_Findings (did_SecurityPosture d))),
       rn_Wireless := join_wireless (rn_Wireless n) (wirelessFromIntel d),
       rn_UI := mergeUI (rn_UI n) [(''is_gateway'', UV_bool (dtf_IsGateway (did_Topology d))),
         (''is_agent'', UV_bool (dtf_IsAgent (did_Topology d))),
         (''is_upstream_cpe'', UV_bool (dtf_IsUpstreamGatewayCandidate (did_Topology d))),
         (''classification'', UV_strings (did_ClassificationExplanation d)),
         (''mobile_label'', UV_string (mobileNodeLabel (did_MobileFingerprint d)))]\<rparr>"

definition upsertIntelDevice ::
  "(string \<Rightarrow> Evidence option) \<Rightarrow> 'a DeviceIntelDevice_scheme \<Rightarrow> (string \<times> RichTopologyNode) list \<Rightarrow>
   (string \<times> RichTopologyNode) list" where
  "upsertIntelDevice evidenceByID d nodes =
     (case ensureNode (did_ID d) nodes of (i, n) \<Rightarrow> alist_set i (intel_node evidenceByID d n) nodes)"

definition sortNode :: "RichTopologyNode \<Rightarrow> RichTopologyNode" where
  "sortNode n =
     n\<lparr>rn_IPAddresses := sort_strings (rn_IPAddresses n), rn_MACAddresses := sort_strings (rn_MACAddresses n),
       rn_RawSources := sort_strings (rn_RawSources n), rn_RiskFlags := sort_strings (rn_RiskFlags n),
       rn_Evidence := sort_by (\<lambda>a b. str_less (rie_Value a) (rie_Value b)) (rn_Evidence n)\<rparr>"

definition roleRank :: "string \<Rightarrow> int" where
  "roleRank role =
     (if role = NodeRoleGateway then 0 else if role = NodeRoleRouter then 1 else if role = NodeRoleSwitch then 2
      else if role \<in> {NodeRoleAccessPoint, NodeRoleMeshNode, NodeRoleRepeater} then 3
      else if role = NodeRoleLocalAgent then 4 else 5)"

definition node_before :: "RichTopologyNode \<Rightarrow> RichTopologyNode \<Rightarrow> bool" where
  "node_before a b =
     (if rn_DeviceRole a \<noteq> rn_DeviceRole b then roleRank (rn_DeviceRole a) < roleRank (rn_DeviceRole b)
      else str_less (rn_ID a) (rn_ID b))"

definition rootNodeID :: "RichTopologyNode list \<Rightarrow> string" where
  "rootNodeID nodes =
     (case find (\<lambda>n. rn_DeviceRole n = NodeRoleGateway) nodes of
        Some n \<Rightarrow> rn_ID n
      | None \<Rightarrow>
         (case find (\<lambda>n. rn_DeviceRole n = NodeRoleLocalAgent) nodes of
            Some n \<Rightarrow> rn_ID n
          | None \<Rightarrow> (case nodes of n # _ \<Rightarrow> rn_ID n | [] \<Rightarrow> [])))"

section \<open>Edges\<close>

definition richEdgeTypeFromRoot :: "TopologyEdge \<Rightarrow> string \<times> string" where
  "richEdgeTypeFromRoot e =
     (let t = edge_Type e
      in if t = EdgeGatewayDefault then (RichEdgeGatewayLink, ''l3'')
         else if t = EdgeInferredL2 then (RichEdgeSubnetInferred, ''l2'')
         else if t = EdgeRouteHop then (RichEdgeWeakInferred, ''l3'')
         else if t \<in> {EdgeDirectLLDP, EdgeDirectCDP, EdgeSNMPBridge} then (RichEdgeSwitchUplink, ''l2'')
         else (RichEdgeUnknown, to_lower (edge_Layer e)))"

definition richEdgeTypeFromIntel :: "DeviceIntelEdge \<Rightarrow> string \<times> string" where
  "richEdgeTypeFromIntel e =
     (let t = die_Type e
      in if t = DeviceEdgeDefaultGatewayRoute then (RichEdgeGatewayLink, ''l3'')
         else if t = DeviceEdgeSameSubnetInferred then (RichEdgeSubnetInferred, ''l2'')
         else if t = DeviceEdgeARPNeighbor then (RichEdgeARPNeighbor, ''l2'')
         else if t = DeviceEdgeWiFiAssociation then
           (if die_Confidence e \<ge> flit (80 / 100) \<and> \<not> die_Inferred e then RichEdgeWirelessAssociated
            else RichEdgeWirelessObserved, ''wireless'')
         else if t \<in> {DeviceEdgeLLDPPhysicalNeighbor, DeviceEdgeCDPPhysicalNeighbor, DeviceEdgeSNMPBridgeFDB} then
           (RichEdgeSwitchUplink, ''l2'')
         else if t \<in> {DeviceEdgeUpstreamPrivate, DeviceEdgePossibleCPEPath, DeviceEdgeTracerouteHop} then
           (RichEdgeWeakInferred, ''l3'')
         else (RichEdgeUnknown, ''unknown''))"

text \<open>An identifier without a record reads the zero record, whose source is manual.\<close>

fun reportedEdgeType :: "string list \<Rightarrow> (string \<Rightarrow> Evidence option) \<Rightarrow> string \<times> string" where
  "reportedEdgeType [] evidenceByID = ([], [])"
| "reportedEdgeType (i # ids) evidenceByID =
     (let source = (case evidenceByID i of Some ev \<Rightarrow> richEvidenceSource ev | None \<Rightarrow> EvidenceSourceManual)
      in if source = EvidenceSourceAPAPI then (RichEdgeReportedByAP, ''wireless'')
         else if source = EvidenceSourceRouterAPI then (RichEdgeReportedByRouter, ''l3'')
         else reportedEdgeType ids evidenceByID)"

definition reported_or :: "string list \<Rightarrow> (string \<Rightarrow> Evidence option) \<Rightarrow> string \<times> string \<Rightarrow> string \<times> string" where
  "reported_or ids evidenceByID own =
     (let reported = reportedEdgeType ids evidenceByID in if fst reported \<noteq> [] then reported else own)"

definition edgeFromRoot :: "(string \<Rightarrow> Evidence option) \<Rightarrow> TopologyEdge \<Rightarrow> RichTopologyEdge" where
  "edgeFromRoot evidenceByID e =
     (case reported_or (edge_EvidenceIDs e) evidenceByID (richEdgeTypeFromRoot e) of (typ, medium) \<Rightarrow>
        \<lparr>rx_ID = rich_firstNonEmpty [edge_ID e, ''edge-'' @ edge_Source e @ ''-'' @ edge_Target e @ ''-'' @ typ],
         rx_Source = edge_Source e, rx_Target = edge_Target e, rx_Type = typ,
         rx_Relation = rich_firstNonEmpty [edge_Relationship e, edge_Type e], rx_Medium = medium,
         rx_Confidence = edge_Confidence e, rx_Evidence = richEvidenceForIDs (edge_EvidenceIDs e) evidenceByID,
         rx_FirstSeen = zero_time, rx_LastSeen = zero_time,
         rx_UI = [(''line_style'', UV_string (edge_UILineStyle e)), (''physical'', UV_bool (edge_Physical e)),
           (''inferred'', UV_bool (edge_Inferred e)), (''reason'', UV_string (edge_Reason e))]\<rparr>)"

definition edgeFromIntel :: "(string \<Rightarrow> Evidence option) \<Rightarrow> DeviceIntelEdge \<Rightarrow> RichTopologyEdge" where
  "edgeFromIntel evidenceByID e =
     (case reported_or (die_EvidenceIDs e) evidenceByID (richEdgeTypeFromIntel e) of (typ, medium) \<Rightarrow>
        \<lparr>rx_ID = rich_firstNonEmpty [die_ID e, ''di-edge-'' @ die_Source e @ ''-'' @ die_Target e @ ''-'' @ typ],
         rx_Source = die_Source e, rx_Target = die_Target e, rx_Type = typ,
         rx_Relation = rich_firstNonEmpty [die_Type e, typ], rx_Medium = medium,
         rx_Confidence = die_Confidence e, rx_Evidence = richEvidenceForIDs (die_EvidenceIDs e) evidenceByID,
         rx_FirstSeen = zero_time, rx_LastSeen = zero_time,
         rx_UI = [(''physical'', UV_bool (die_Physical e)), (''inferred'', UV_bool (die_Inferred e)),
           (''reason'', UV_string (die_Reason e)), (''confidence_label'', UV_string (die_ConfidenceLabel e))]\<rparr>)"

definition upsertRichEdge :: "RichTopologyEdge \<Rightarrow> (string \<times> RichTopologyEdge) list \<Rightarrow> (string \<times> RichTopologyEdge) list" where
  "upsertRichEdge e edges =
     (if rx_Source e = [] \<or> rx_Target e = [] \<or> rx_Source e = rx_Target e then edges
      else
        (let e = (if rx_ID e = []
                  then e\<lparr>rx_ID := ''edge-'' @ rx_Source e @ ''-'' @ rx_Target e @ ''-'' @ rx_Type e\<rparr> else e)
         in case map_of edges (rx_ID e) of
              None \<Rightarrow> alist_set (rx_ID e) e edges
            | Some existing \<Rightarrow>
                if rx_Confidence e > rx_Confidence existing then alist_set (rx_ID e) e edges
                else alist_set (rx_ID e)
                  (existing\<lparr>rx_Evidence := mergeRichEvidence (rx_Evidence existing) (rx_Evidence e)\<rparr>) edges))"

definition sortEdge :: "RichTopologyEdge \<Rightarrow> RichTopologyEdge" where
  "sortEdge e =
     (let evs = sort_by (\<lambda>a b. str_less (rie_Value a) (rie_Value b)) (rx_Evidence e); e = e\<lparr>rx_Evidence := evs\<rparr>
      in if is_zero_time (rx_FirstSeen e) \<or> is_zero_time (rx_LastSeen e)
         then fold (\<lambda>ev e. e\<lparr>rx_FirstSeen := rich_earliest (rx_FirstSeen e) (rie_Timestamp ev),
                            rx_LastSeen := rich_latest (rx_LastSeen e) (rie_Timestamp ev)\<rparr>) evs e
         else e)"

definition rich_edge_before :: "RichTopologyEdge \<Rightarrow> RichTopologyEdge \<Rightarrow> bool" where
  "rich_edge_before a b =
     (if rx_Confidence a \<noteq> rx_Confidence b then rx_Confidence a > rx_Confidence b else str_less (rx_ID a) (rx_ID b))"

text \<open>What the graph says of itself: whether all is inferred, and how many edges count as physical.\<close>

definition proves_adjacency :: "RichTopologyEdge \<Rightarrow> bool" where
  "proves_adjacency e = (rx_Type e \<in> {RichEdgeReportedByRouter, RichEdgeReportedByAP, RichEdgeWirelessAssociated})"

definition counts_physical :: "RichTopologyEdge \<Rightarrow> bool" where
  "counts_physical e =
     (to_lower (rx_Medium e) \<in> {''l2'', ''wireless''} \<and> rx_Confidence e \<ge> flit (80 / 100) \<and>
      rx_Type e \<in> {RichEdgeReportedByAP, RichEdgeReportedByRouter})"

definition inferred_edges_warning :: Warning where
  "inferred_edges_warning =
     \<lparr>wrn_Code = ''rich_topology_inferred_edges'', wrn_Severity = SeverityInfo, wrn_Message =
       ''Some topology relationships are inferred from subnet, route, timing, or path evidence and are not proven physical links.''\<rparr>"

definition richWarnings :: "Warning list \<Rightarrow> RichTopologyEdge list \<Rightarrow> Warning list" where
  "richWarnings warnings edges =
     dedupeWarnings (warnings @
       (if list_ex (\<lambda>e. rx_Type e \<in> {RichEdgeWeakInferred, RichEdgeSubnetInferred}) edges
        then [inferred_edges_warning] else []))"

definition richCapabilities :: "ReportCapability list \<Rightarrow> ReportCapability list" where
  "richCapabilities caps = caps @
     [\<lparr>cap_Name = ''rich_topology_graph'', cap_Category = ''topology'', cap_Status = ''completed'',
       cap_OutputPath = ''/rich_topology'', cap_Description =
         ''Frontend-ready graph combining LAN discovery, device intelligence, and evidence-backed topology inference.'',
       cap_Reason = []\<rparr>,
      \<lparr>cap_Name = ''passive_lan_observer'', cap_Category = ''passive_observation'', cap_Status = ''available'',
       cap_OutputPath = ''/rich_topology'', cap_Description =
         ''Metadata-only passive LAN observation abstraction is available; capture backend must be explicitly configured.'',
       cap_Reason = []\<rparr>,
      \<lparr>cap_Name = ''passive_wifi_observer'', cap_Category = ''wireless'', cap_Status = ''unsupported'',
       cap_OutputPath = ''/rich_topology/capabilities'', cap_Description = [], cap_Reason =
         ''No monitor/radiotap backend is configured by default; unsupported is expected on many Windows adapters.''\<rparr>]"

section \<open>The graph\<close>

definition rich_nodes ::
  "(string \<Rightarrow> Evidence option) \<Rightarrow> Device list \<Rightarrow> 'a DeviceIntelDevice_scheme list \<Rightarrow> (string \<times> RichTopologyNode) list" where
  "rich_nodes evidenceByID devices intel =
     fold (upsertIntelDevice evidenceByID) intel (fold (upsertRootDevice evidenceByID) devices [])"

definition rich_edges ::
  "(string \<Rightarrow> Evidence option) \<Rightarrow> TopologyEdge list \<Rightarrow> DeviceIntelEdge list \<Rightarrow> (string \<times> RichTopologyEdge) list" where
  "rich_edges evidenceByID edges intel =
     fold (\<lambda>e. upsertRichEdge (edgeFromIntel evidenceByID e)) intel
       (fold (\<lambda>e. upsertRichEdge (edgeFromRoot evidenceByID e)) edges [])"

definition generatedAt :: "gotime \<Rightarrow> ScanReport \<Rightarrow> gotime" where
  "generatedAt now report = (if \<not> is_zero_time (rep_CreatedAt report) then rep_CreatedAt report else now)"

text \<open>Without a device intelligence section both of its lists are empty.\<close>

definition BuildRichTopology ::
  "gotime \<Rightarrow> ScanReport \<Rightarrow> 'a DeviceIntelDevice_scheme list \<Rightarrow> DeviceIntelEdge list \<Rightarrow> ReportCapability list \<Rightarrow>
   RichTopologyModel" where
  "BuildRichTopology now report intelDevices intelEdges caps =
     (let evidenceByID = indexEvidence (rep_Evidence report);
          nodes = sort_by node_before
            (map (\<lambda>p. sortNode (snd p)) (rich_nodes evidenceByID (rep_Devices report) intelDevices));
          edges = sort_by rich_edge_before
            (map (\<lambda>p. sortEdge (snd p)) (rich_edges evidenceByID (rep_Edges report) intelEdges));
          warnings = richWarnings (rep_Warnings report) edges
      in \<lparr>rt_SchemaVersion = RichTopologySchema, rt_GeneratedAt = generatedAt now report, rt_Nodes = nodes,
          rt_Edges = edges, rt_Warnings = warnings, rt_Capabilities = richCapabilities caps,
          rt_UI = \<lparr>rtu_RootNodeID = rootNodeID nodes, rtu_InferredOnly = \<not> list_ex proves_adjacency edges,
            rtu_PhysicalEdgeCount = int (length (filter counts_physical edges)),
            rtu_Warnings = rich_warningMessages warnings\<rparr>\<rparr>)"

section \<open>The graph of the report\<close>

definition ui_string :: "ui_map \<Rightarrow> string \<Rightarrow> string" where
  "ui_string m k = (case map_of m k of Some (UV_string s) \<Rightarrow> s | _ \<Rightarrow> [])"

definition ui_bool :: "ui_map \<Rightarrow> string \<Rightarrow> bool" where
  "ui_bool m k = (case map_of m k of Some (UV_bool b) \<Rightarrow> b | _ \<Rightarrow> False)"

definition edgeExplanation :: "RichTopologyEdge \<Rightarrow> string" where
  "edgeExplanation e =
     (let t = rx_Type e
      in if trim_space (ui_string (rx_UI e) ''reason'') \<noteq> [] then ui_string (rx_UI e) ''reason''
         else if t = RichEdgeGatewayLink then ''Default route evidence links the local agent to the known gateway.''
         else if t = RichEdgeReportedByRouter then
           ''A router-reported client or route table supplied this relationship.''
         else if t = RichEdgeReportedByAP then ''An authorized AP client table supplied this relationship.''
         else if t = RichEdgeSwitchUplink then
           ''Switch/router evidence such as LLDP, CDP, SNMP, or bridge data supports this uplink.''
         else if t = RichEdgeWirelessAssociated then
           ''Wireless association evidence links the station to the BSSID/AP.''
         else if t = RichEdgeWirelessObserved then
           ''Wireless metadata was observed, but the AP/station relationship is not fully proven.''
         else if t = RichEdgeMeshBackhaul then ''Mesh/backhaul metadata suggests a mesh relationship.''
         else if t = RichEdgeRepeaterUplink then ''Repeater/extender metadata suggests an uplink relationship.''
         else if t = RichEdgeSubnetInferred then
           ''Both devices are known in the same local subnet, so the relationship is inferred through the LAN.''
         else if t = RichEdgeARPNeighbor then
           ''ARP/neighbor evidence shows both endpoints on the local broadcast domain.''
         else if t = RichEdgeWeakInferred then
           ''Only weak route, timing, or correlation evidence is available; this is not a proven physical link.''
         else ''The relationship is present in the source topology, but evidence is insufficient to classify it strongly.'')"

definition edgeWarnings :: "RichTopologyEdge \<Rightarrow> string list" where
  "edgeWarnings e =
     (let t = rx_Type e
      in if t = RichEdgeSubnetInferred then
           [''Inferred from subnet membership; not a proven physical connection.'']
         else if t = RichEdgeWeakInferred then
           [''Weak inferred relationship; do not treat as a proven AP, switch, or cable link.'']
         else if t = RichEdgeWirelessObserved then
           [''Wireless metadata observed without association/client-table proof.'']
         else if t = RichEdgeARPNeighbor then
           [''ARP proves local neighbor visibility, not physical switch-port adjacency.'']
         else if \<not> ui_bool (rx_UI e) ''physical'' \<and> rx_Medium e \<noteq> [] then
           [''Physical path is not proven by this evidence.'']
         else [])"

definition topologyV2Edge :: "RichTopologyEdge \<Rightarrow> V2Edge" where
  "topologyV2Edge e =
     \<lparr>tve_ID = rx_ID e, tve_Source = rx_Source e, tve_Target = rx_Target e, tve_Type = rx_Type e,
      tve_Relation = rx_Relation e, tve_Medium = rx_Medium e, tve_Confidence = rx_Confidence e,
      tve_Explanation = edgeExplanation e, tve_Evidence = rx_Evidence e, tve_Warnings = edgeWarnings e,
      tve_FirstSeen = rx_FirstSeen e, tve_LastSeen = rx_LastSeen e,
      tve_UI = mergeUI (rx_UI e) [(''warnings'', UV_strings (edgeWarnings e)),
        (''explanation'', UV_string (edgeExplanation e))]\<rparr>"

text \<open>The message is Turkish; its letters outside ASCII are two bytes each.\<close>

definition not_assumed_message :: string where
  "not_assumed_message =
     ''Topology inferred olabilir, fiziksel linkler her zaman kan'' @ [CHR 0xC4, CHR 0xB1] @ ''tl'' @
     [CHR 0xC4, CHR 0xB1] @ '' de'' @ [CHR 0xC4, CHR 0x9F] @ ''ildir.''"

definition topologyV2Warnings :: "Warning list \<Rightarrow> Warning list" where
  "topologyV2Warnings existing =
     dedupeWarnings (existing @
       [\<lparr>wrn_Code = ''topology_physical_links_not_assumed'', wrn_Severity = SeverityInfo,
         wrn_Message = not_assumed_message\<rparr>,
        \<lparr>wrn_Code = ''passive_wifi_unsupported_by_default'', wrn_Severity = SeverityInfo, wrn_Message =
          ''Passive Wi-Fi metadata collection is optional and remains disabled/unsupported unless the OS, adapter, driver, and permissions support monitor metadata.''\<rparr>])"

definition BuildTopologyV2 :: "RichTopologyModel \<Rightarrow> V2Model" where
  "BuildTopologyV2 rich =
     \<lparr>v2_SchemaVersion = TopologyReportSchema, v2_GeneratedAt = rt_GeneratedAt rich,
      v2_RootID = rtu_RootNodeID (rt_UI rich), v2_Nodes = rt_Nodes rich, v2_Edges = map topologyV2Edge (rt_Edges rich),
      v2_Warnings = topologyV2Warnings (rt_Warnings rich), v2_Capabilities = rt_Capabilities rich, v2_UI = rt_UI rich\<rparr>"

text \<open>What the validator reads of the graph.\<close>

definition v2_view :: "V2Model \<Rightarrow> TopologyV2Model" where
  "v2_view m =
     \<lparr>tv_SchemaVersion = v2_SchemaVersion m,
      tv_Nodes = map (\<lambda>n. \<lparr>tvn_ID = rn_ID n, tvn_Confidence = rn_Confidence n\<rparr>) (v2_Nodes m),
      tv_Edges = map TopologyV2Edge.truncate (v2_Edges m)\<rparr>"

section \<open>Observations\<close>

definition BuildWirelessMetadata :: "RichTopologyModel \<Rightarrow> WirelessMetadata list" where
  "BuildWirelessMetadata rich =
     concat (map (\<lambda>n. case rn_Wireless n of
         None \<Rightarrow> []
       | Some w \<Rightarrow>
          [\<lparr>wm_SSID = rw_SSID w, wm_BSSID = rw_BSSID w, wm_Channel = rw_Channel w, wm_Frequency = rw_Frequency w,
            wm_Band = rw_Band w, wm_RSSI = rw_RSSI w, wm_Security = rw_Security w, wm_APMAC = rw_BSSID w,
            wm_StationMAC = rich_firstString (rn_MACAddresses n), wm_FirstSeen = rn_FirstSeen n,
            wm_LastSeen = rn_LastSeen n, wm_ObservationCount = rw_ObservationCount w, wm_Confidence = rw_Confidence w,
            wm_Source = ''topology_inference''\<rparr>]) (rt_Nodes rich))"

definition sanitizedObservationMetadata :: "(string \<times> string) list \<Rightarrow> (string \<times> string) list" where
  "sanitizedObservationMetadata data =
     filter (\<lambda>(k, v). to_lower k \<notin> {''payload'', ''body'', ''cookie'', ''cookies'', ''token'', ''password'', ''secret'',
         ''credential''}) data"

definition BuildRawObservations :: "ScanReport \<Rightarrow> RawObservation list" where
  "BuildRawObservations report =
     map (\<lambda>ev. let get = data_get (tev_Data ev)
               in \<lparr>ro_Source = richEvidenceSource ev, ro_Kind = tev_Kind ev, ro_Interface = get ''interface'',
                   ro_SourceMAC = (if get ''source_mac'' = [] then get ''mac'' else get ''source_mac''),
                   ro_DestinationMAC = get ''destination_mac'',
                   ro_SourceIP = (if get ''source_ip'' = [] then get ''ip'' else get ''source_ip''),
                   ro_DestinationIP = get ''destination_ip'', ro_Protocol = get ''protocol'',
                   ro_EtherType = get ''ether_type'', ro_FirstSeen = tev_Timestamp ev, ro_LastSeen = tev_Timestamp ev,
                   ro_Count = 1, ro_Metadata = sanitizedObservationMetadata (tev_Data ev)\<rparr>) (rep_Evidence report)"

end
