(* ===== verification/Upstream_Path.thy ===== *)
theory Upstream_Path
  imports Reachability Scope_Guard Intel_Types
begin

text \<open>
  \<open>agent/internal/upstream/classify.go\<close>, \<open>vendor.go\<close>, \<open>routing.go\<close> and \<open>ping.go\<close>: what an upstream
  gateway is taken for, from facts that were gathered about it. The current time, which stands in
  for a zero \<open>Now\<close> of the facts, is a parameter of \<open>Classify\<close>. The \<open>ping\<close> process is a parameter, as in
  \<open>Reachability\<close>.
\<close>

section \<open>Facts\<close>

definition TagRouter :: string where "TagRouter = ''ROUTER''"
definition TagGateway :: string where "TagGateway = ''GATEWAY''"
definition TagUpstreamGateway :: string where "TagUpstreamGateway = ''UPSTREAM_GATEWAY''"
definition TagPossibleCPE :: string where "TagPossibleCPE = ''POSSIBLE_CPE''"
definition TagISPCPE :: string where "TagISPCPE = ''ISP_CPE''"
definition TagDoubleNATUpstream :: string where "TagDoubleNATUpstream = ''DOUBLE_NAT_UPSTREAM''"
definition TagModem :: string where "TagModem = ''MODEM''"
definition TagONT :: string where "TagONT = ''ONT''"
definition TagUnknownInfra :: string where "TagUnknownInfra = ''UNKNOWN_INFRASTRUCTURE''"
definition TagVirtualOrDocker :: string where "TagVirtualOrDocker = ''VIRTUAL_OR_DOCKER_ARTIFACT''"

lemmas tag_names = TagRouter_def TagGateway_def TagUpstreamGateway_def TagPossibleCPE_def TagISPCPE_def
  TagDoubleNATUpstream_def TagModem_def TagONT_def TagUnknownInfra_def TagVirtualOrDocker_def

record Facts =
  fa_IP :: string
  fa_IsPrivate :: bool
  fa_SameSubnetAsAgent :: bool
  fa_IsDefaultGateway :: bool
  fa_InGatewayChain :: bool
  fa_HopIndex :: int
  fa_HopDistance :: int
  fa_DoubleNATHint :: bool
  fa_ReachableICMP :: bool
  fa_ReachableTCP :: bool
  fa_OpenPorts :: "int list"
  fa_HTTPVendor :: string
  fa_HTTPAdminPanel :: bool
  fa_RouterLikeHTTP :: bool
  fa_HasUPnPRoot :: bool
  fa_HasDNSService :: bool
  fa_HasCWMP :: bool
  fa_MACVendor :: string
  fa_VirtualHint :: bool
  fa_ONTHint :: bool
  fa_ModemHint :: bool
  fa_Now :: gotime

record IntelEvidenceItem =
  iei_Type :: string
  iei_Value :: string
  iei_Source :: string
  iei_ConfidenceImpact :: float64
  iei_Timestamp :: string

record UpstreamClassification =
  uc_Role :: string
  uc_Confidence :: float64
  uc_Tags :: "string list"
  uc_Evidence :: "IntelEvidenceItem list"
  uc_Warnings :: "string list"

record DeviceReachability =
  dr_ICMP :: bool
  dr_TCPReachable :: bool
  dr_AvgLatencyMs :: "float64 option"
  dr_MinLatencyMs :: "float64 option"
  dr_MaxLatencyMs :: "float64 option"
  dr_PacketLoss :: "float64 option"
  dr_TTL :: "int option"
  dr_HopDistance :: "int option"
  dr_DirectlyReachable :: bool
  dr_Method :: string
  dr_Note :: string

record RoutingEvidence =
  re_Kind :: string
  re_DoubleNAT :: bool
  re_PrivateUpstream :: bool
  re_SameSubnetAsAgent :: bool
  re_HopDistance :: "int option"
  re_Notes :: "string list"

section \<open>Classification\<close>

definition wReachICMP :: float64 where "wReachICMP = flit (18 / 100)"
definition wReachTCP :: float64 where "wReachTCP = flit (12 / 100)"
definition wInTraceroute :: float64 where "wInTraceroute = flit (15 / 100)"
definition wPrivateHop :: float64 where "wPrivateHop = flit (15 / 100)"
definition wHTTPAdmin :: float64 where "wHTTPAdmin = flit (12 / 100)"
definition wRouterHTTP :: float64 where "wRouterHTTP = flit (18 / 100)"
definition wUPnPRoot :: float64 where "wUPnPRoot = flit (15 / 100)"
definition wGatewayOUI :: float64 where "wGatewayOUI = flit (12 / 100)"
definition wDNSService :: float64 where "wDNSService = flit (10 / 100)"
definition wCWMP :: float64 where "wCWMP = flit (12 / 100)"
definition wOpenServices :: float64 where "wOpenServices = flit (6 / 100)"

lemmas weights = wReachICMP_def wReachTCP_def wInTraceroute_def wPrivateHop_def wHTTPAdmin_def wRouterHTTP_def
  wUPnPRoot_def wGatewayOUI_def wDNSService_def wCWMP_def wOpenServices_def

definition networkVendors :: "string list" where
  "networkVendors =
     [''tp-link'', ''tplink'', ''keenetic'', ''xiaomi'', ''huawei'', ''zte'', ''zyxel'', ''asus'',
      ''asustek'', ''mikrotik'', ''tenda'', ''netis'', ''fiberhome'', ''nokia'', ''alcatel'',
      ''technicolor'', ''arris'', ''ubee'', ''sagemcom'', ''ubiquiti'', ''netgear'',
      ''d-link'', ''dlink'', ''cisco'', ''juniper'', ''mercusys'', ''totolink'', ''draytek'']"

definition isNetworkVendor :: "string \<Rightarrow> bool" where
  "isNetworkVendor vendor = list_ex (str_contains (to_lower vendor)) networkVendors"

definition ispVendors :: "string list" where
  "ispVendors =
     [''huawei'', ''zte'', ''fiberhome'', ''nokia'', ''alcatel'', ''technicolor'', ''arris'', ''ubee'', ''sagemcom'',
      ''zyxel'']"

definition isISPVendor :: "string \<Rightarrow> bool" where
  "isISPVendor vendor = list_ex (str_contains (to_lower vendor)) ispVendors"

definition joinInts :: "int list \<Rightarrow> string" where
  "joinInts values = str_join (map itoa values) '',''"

fun up_appendUnique :: "string list \<Rightarrow> string list \<Rightarrow> string list" where
  "up_appendUnique values [] = values"
| "up_appendUnique values (v # vs) =
     up_appendUnique (if v = [] \<or> v \<in> set values then values else values @ [v]) vs"

definition up_clamp01 :: "float64 \<Rightarrow> float64" where
  "up_clamp01 v = (if v < 0 then 0 else if v > 1 then 1 else v)"

text \<open>The signals in the order \<open>Classify\<close> adds them: whether each is present, its name, value, source and weight.\<close>

definition signals :: "Facts \<Rightarrow> (bool \<times> string \<times> string \<times> string \<times> float64) list" where
  "signals f =
     [(fa_ReachableICMP f, ''reachable_by_icmp'', ''true'', ''ping'', wReachICMP),
      (fa_ReachableTCP f, ''reachable_by_tcp'', ''true'', ''tcp_connect'', wReachTCP),
      (fa_InGatewayChain f, ''visible_in_traceroute'', ''true'', ''gateway_chain'', wInTraceroute),
      (fa_IsPrivate f \<and> fa_InGatewayChain f \<and> \<not> fa_IsDefaultGateway f,
         ''private_upstream_hop'', ''true'', ''gateway_chain'', wPrivateHop),
      (fa_HTTPAdminPanel f, ''has_http_admin_page'', ''true'', ''http_fingerprint'', wHTTPAdmin),
      (fa_RouterLikeHTTP f, ''router_like_http'',
         (if fa_HTTPVendor f \<noteq> [] then fa_HTTPVendor f else ''router-like HTTP title/header''),
         ''http_fingerprint'', wRouterHTTP),
      (fa_HasUPnPRoot f, ''upnp_root_device'', ''true'', ''ssdp'', wUPnPRoot),
      (fa_MACVendor f \<noteq> [] \<and> isNetworkVendor (fa_MACVendor f),
         ''gateway_router_mac_oui'', fa_MACVendor f, ''arp_oui'', wGatewayOUI),
      (fa_HasDNSService f, ''dns_service'', ''53/tcp'', ''tcp_connect'', wDNSService),
      (fa_HasCWMP f, ''tr069_cwmp_port'', ''7547'', ''tcp_connect'', wCWMP),
      (fa_OpenPorts f \<noteq> [], ''open_services'', joinInts (fa_OpenPorts f), ''tcp_connect'', wOpenServices)]"

definition add_signal ::
  "string \<Rightarrow> bool \<times> string \<times> string \<times> string \<times> float64 \<Rightarrow> IntelEvidenceItem list \<times> float64 \<Rightarrow>
   IntelEvidenceItem list \<times> float64" where
  "add_signal ts sig acc =
     (case sig of (present, typ, val, src, impact) \<Rightarrow>
        if present
        then (fst acc @ [\<lparr>iei_Type = typ, iei_Value = val, iei_Source = src, iei_ConfidenceImpact = impact,
                iei_Timestamp = ts\<rparr>], fadd (snd acc) impact)
        else acc)"

definition add_tag_if :: "bool \<Rightarrow> string \<Rightarrow> string list \<Rightarrow> string list" where
  "add_tag_if b t tags = (if b then up_appendUnique tags [t] else tags)"

definition position_tags :: "Facts \<Rightarrow> string list \<times> string" where
  "position_tags f =
     (if fa_VirtualHint f then ([TagVirtualOrDocker], ''virtual_or_docker_artifact'')
      else if fa_IsDefaultGateway f \<and> fa_SameSubnetAsAgent f then ([TagGateway, TagRouter], ''gateway_router'')
      else if fa_IsPrivate f \<and> fa_InGatewayChain f \<and> \<not> fa_IsDefaultGateway f
      then ([TagUpstreamGateway, TagPossibleCPE], ''upstream_private_gateway'')
      else if fa_IsPrivate f then ([TagUnknownInfra], ''unknown_infrastructure'')
      else ([], []))"

definition not_reachable_warning :: string where
  "not_reachable_warning =
     ''Not directly reachable '' @ em_dash @ '' classification is inferred from routing evidence only.''"

definition low_evidence_warning :: string where
  "low_evidence_warning = ''Low evidence '' @ em_dash @ '' treat this as inferred, not confirmed.''"

definition deriveTags :: "Facts \<Rightarrow> float64 \<Rightarrow> string list \<times> string \<times> string list" where
  "deriveTags f confidence =
     (case position_tags f of
        (tags, role) \<Rightarrow>
          (let tags = add_tag_if (fa_DoubleNATHint f \<and> \<not> fa_IsDefaultGateway f \<and> fa_IsPrivate f)
                 TagDoubleNATUpstream tags;
               tags = add_tag_if (fa_HasCWMP f \<or> (fa_RouterLikeHTTP f \<and> isISPVendor (fa_HTTPVendor f))) TagISPCPE tags;
               tags = add_tag_if (fa_ONTHint f) TagONT tags;
               tags = add_tag_if (fa_ModemHint f) TagModem tags;
               unreached = (\<not> fa_ReachableICMP f \<and> \<not> fa_ReachableTCP f);
               warnings = (if unreached then [not_reachable_warning] else []);
               inferred = (unreached \<and> fa_IsPrivate f \<and> fa_InGatewayChain f);
               tags = add_tag_if inferred TagPossibleCPE (add_tag_if inferred TagUpstreamGateway tags);
               low = (confidence < flit (30 / 100));
               warnings = warnings @ (if low then [low_evidence_warning] else []);
               tags = add_tag_if (low \<and> tags = []) TagUnknownInfra tags;
               tags = add_tag_if (tags = []) TagUnknownInfra tags;
               role = (if role = [] then ''unknown_infrastructure'' else role)
           in (sort_strings tags, role, warnings)))"

definition Classify :: "gotime \<Rightarrow> Facts \<Rightarrow> UpstreamClassification" where
  "Classify time_now f =
     (let now = (if is_zero_time (fa_Now f) then time_now else fa_Now f)
      in case fold (add_signal (format_rfc3339 now)) (signals f) ([], 0) of
           (evidence, score) \<Rightarrow>
             (let confidence = up_clamp01 score
              in case deriveTags f confidence of
                   (tags, role, warnings) \<Rightarrow>
                     \<lparr>uc_Role = role, uc_Confidence = confidence, uc_Tags = tags, uc_Evidence = evidence,
                      uc_Warnings = warnings\<rparr>))"

section \<open>Routing\<close>

definition AnalyzeRouting :: "Facts \<Rightarrow> RoutingEvidence" where
  "AnalyzeRouting f =
     (let r = \<lparr>re_Kind = [], re_DoubleNAT = False, re_PrivateUpstream = fa_IsPrivate f \<and> \<not> fa_IsDefaultGateway f,
               re_SameSubnetAsAgent = fa_SameSubnetAsAgent f,
               re_HopDistance = (if fa_HopDistance f > 0 then Some (fa_HopDistance f) else None), re_Notes = []\<rparr>
      in if fa_VirtualHint f then
           r\<lparr>re_Kind := ''virtual_or_docker'', re_Notes :=
             [''Address/vendor looks like a virtual or container network artifact, not a physical gateway.'']\<rparr>
         else if fa_IsDefaultGateway f then r\<lparr>re_Kind := ''default_gateway''\<rparr>
         else if \<not> fa_ReachableICMP f \<and> \<not> fa_ReachableTCP f then
           r\<lparr>re_Kind := ''unreachable_inferred'', re_Notes :=
             [''Not directly reachable; existence is inferred from route-table / traceroute evidence only.'']\<rparr>
         else if fa_DoubleNATHint f \<and> fa_IsPrivate f \<and> \<not> fa_IsDefaultGateway f then
           r\<lparr>re_Kind := ''double_nat_upstream'', re_DoubleNAT := True, re_Notes :=
             [''A second private gateway appears upstream of the default gateway '' @ em_dash @ '' possible double NAT.'']\<rparr>
         else if fa_HasCWMP f \<or> fa_ONTHint f \<or> fa_ModemHint f then
           r\<lparr>re_Kind := ''isp_cpe'', re_Notes :=
             [''Management/CWMP or ONT/modem fingerprint suggests ISP-provided CPE.'']\<rparr>
         else if fa_IsPrivate f \<and> fa_InGatewayChain f \<and> \<not> fa_IsDefaultGateway f then
           r\<lparr>re_Kind := ''upstream_private_gateway''\<rparr>
         else r\<lparr>re_Kind := ''unknown''\<rparr>)"

section \<open>Vendors\<close>

record VendorResult =
  vr_Vendor :: string
  vr_RouterLike :: bool
  vr_AdminPanel :: bool
  vr_ONT :: bool
  vr_Modem :: bool
  vr_Hints :: "string list"

definition vendorKeywords :: "(string \<times> string list) list" where
  "vendorKeywords =
     [(''TP-Link'', [''tp-link'', ''tplink'', ''archer'', ''tl-wr'', ''tl-wdr'']),
      (''Keenetic'', [''keenetic'', ''ndms'']),
      (''Xiaomi'', [''xiaomi'', ''miwifi'', ''mi router'', ''mi wifi'']),
      (''Huawei'', [''huawei'', ''echolife'', ''hg8'', ''ws5'', ''hilink'']),
      (''ZTE'', [''zte'', ''zxhn'', ''f660'', ''f670'']),
      (''Zyxel'', [''zyxel'']),
      (''ASUS'', [''asus'', ''asuswrt'', ''rt-ac'', ''rt-ax'']),
      (''MikroTik'', [''mikrotik'', ''routeros'', ''webfig'']),
      (''Tenda'', [''tenda'']),
      (''Netis'', [''netis'']),
      (''FiberHome'', [''fiberhome'', ''an5506'']),
      (''Nokia/Alcatel'', [''nokia'', ''alcatel'', ''isam'', ''beacon'', ''g-240'', ''g-010'']),
      (''Technicolor'', [''technicolor'', ''thomson'']),
      (''Arris'', [''arris'', ''touchstone'']),
      (''Ubee'', [''ubee'']),
      (''Sagemcom'', [''sagemcom'', ''fast 5'', ''fast 3'']),
      (''Netgear'', [''netgear'', ''nighthawk'', ''orbi'']),
      (''D-Link'', [''d-link'', ''dlink'', ''dir-'']),
      (''Ubiquiti'', [''ubiquiti'', ''unifi'', ''edgeos'', ''edgerouter'']),
      (''DrayTek'', [''draytek'', ''vigor''])]"

definition adminKeywords :: "string list" where
  "adminKeywords =
     [''login'', ''log in'', ''router'', ''admin'', ''gateway'', ''web management'',
      ''management console'', ''authentication required'', ''setup wizard'',
      ''router settings'', ''broadband'', ''control panel'', ''web ui'', ''webui'']"

definition ontKeywords :: "string list" where
  "ontKeywords = [''ont'', ''gpon'', ''epon'', ''xpon'', ''optical network'', ''olt'']"

definition modemKeywords :: "string list" where
  "modemKeywords = [''modem'', ''docsis'', ''cable modem'', ''voice modem'', ''dsl modem'']"

text \<open>The loops that stop at the first keyword the text holds.\<close>

definition first_keyword :: "string \<Rightarrow> string list \<Rightarrow> string option" where
  "first_keyword hay ks = find (str_contains hay) ks"

fun first_vendor :: "string \<Rightarrow> (string \<times> string list) list \<Rightarrow> (string \<times> string) option" where
  "first_vendor hay [] = None"
| "first_vendor hay ((name, keys) # vs) =
     (case first_keyword hay keys of Some k \<Rightarrow> Some (name, k) | None \<Rightarrow> first_vendor hay vs)"

definition keyword_hint :: "string \<Rightarrow> string option \<Rightarrow> string list \<Rightarrow> string list" where
  "keyword_hint label k hints = (case k of Some k \<Rightarrow> up_appendUnique hints [label @ k] | None \<Rightarrow> hints)"

definition AnalyzeHTTP :: "string \<Rightarrow> string \<Rightarrow> string \<Rightarrow> string \<Rightarrow> VendorResult" where
  "AnalyzeHTTP server title realm body =
     (let hay = to_lower (str_join [server, title, realm, body] ('' '' @ [CHR 0x0A] @ '' ''));
          vendor = first_vendor hay vendorKeywords;
          admin = first_keyword hay adminKeywords;
          ont = first_keyword hay ontKeywords;
          modem = first_keyword hay modemKeywords;
          name = (case vendor of Some (n, _) \<Rightarrow> n | None \<Rightarrow> []);
          panel = (admin \<noteq> None \<or> trim_space realm \<noteq> [])
      in \<lparr>vr_Vendor = name, vr_RouterLike = (name \<noteq> [] \<or> panel \<or> ont \<noteq> None \<or> modem \<noteq> None),
          vr_AdminPanel = panel, vr_ONT = (ont \<noteq> None), vr_Modem = (modem \<noteq> None),
          vr_Hints = keyword_hint ''modem:'' modem (keyword_hint ''ont:'' ont (keyword_hint ''admin:'' admin
            (keyword_hint ''vendor:'' (map_option snd vendor) [])))\<rparr>)"

section \<open>Ping\<close>

record PingResult =
  pg_Reachable :: bool
  pg_AvgMs :: "float64 option"
  pg_MinMs :: "float64 option"
  pg_MaxMs :: "float64 option"
  pg_TTL :: "int option"
  pg_LossPct :: "float64 option"

definition up_pingArgs :: "string \<Rightarrow> string \<Rightarrow> string list" where
  "up_pingArgs goos ip =
     (if goos = ''windows'' then [''-n'', ''2'', ''-w'', ''1000'', ip] else [''-c'', ''2'', ''-W'', ''1'', ip])"

text \<open>The expressions for the TTL and the loss are those of \<open>Reachability\<close>.\<close>

definition win_stat :: "string \<Rightarrow> string \<Rightarrow> string option" where
  "win_stat label s = Option.bind (re_text_ci label s) (\<lambda>s.
     Option.bind (re_text ''='' (snd (re_star re_space s))) (\<lambda>s.
     Option.bind (re_plus is_digit (snd (re_star re_space s))) (\<lambda>(ds, s).
     map_option (\<lambda>_. ds) (re_text_ci ''ms'' (snd (re_star re_space s))))))"

definition unix_stat :: "string \<Rightarrow> (string \<times> string \<times> string) option" where
  "unix_stat s = Option.bind (re_text ''='' s) (\<lambda>s.
     Option.bind (re_plus digit_dot (snd (re_star re_space s))) (\<lambda>(mn, s).
     Option.bind (re_text ''/'' s) (\<lambda>s.
     Option.bind (re_plus digit_dot s) (\<lambda>(avg, s).
     Option.bind (re_text ''/'' s) (\<lambda>s.
     Option.bind (re_plus digit_dot s) (\<lambda>(mx, s).
       (let rest = (case Option.bind (re_text ''/'' s) (re_plus digit_dot) of Some (_, s) \<Rightarrow> s | None \<Rightarrow> s)
        in map_option (\<lambda>_. (mn, avg, mx)) (re_text ''ms'' (snd (re_star re_space rest))))))))))"

text \<open>\<open>strconv.ParseFloat\<close> on digits and dots.\<close>

definition parseFloatPtr :: "string \<Rightarrow> float64 option" where
  "parseFloatPtr s =
     (let ip = takeWhile is_digit s; fp = drop 1 (dropWhile is_digit s)
      in if ip @ fp = [] \<or> \<not> list_all is_digit fp then None
         else (let v = round64 (of_nat (digits_val 0 (ip @ fp)) / 10 ^ length fp)
               in if 2 ^ 1024 \<le> v then None else Some v))"

definition found_float :: "string option \<Rightarrow> float64 option" where
  "found_float m = Option.bind m parseFloatPtr"

definition ParsePing :: "string \<Rightarrow> PingResult" where
  "ParsePing output =
     (let ttl = Option.bind (find_re reTTL output) atoi;
          loss = (case find_re reLossWin output of
                    Some ds \<Rightarrow> parseFloatPtr ds
                  | None \<Rightarrow> found_float (find_re reLossUnix output));
          (mn, avg, mx) =
            (case find_re (win_stat ''average'') output of
               Some ds \<Rightarrow> (found_float (find_re (win_stat ''minimum'') output), parseFloatPtr ds,
                           found_float (find_re (win_stat ''maximum'') output))
             | None \<Rightarrow> (case find_re unix_stat output of
                         Some (mn, avg, mx) \<Rightarrow> (parseFloatPtr mn, parseFloatPtr avg, parseFloatPtr mx)
                       | None \<Rightarrow> (None, None, None)));
          gotReply = (avg \<noteq> None \<or> ttl \<noteq> None);
          lower = to_lower output;
          lostAll = ((case loss of Some l \<Rightarrow> l \<ge> 100 | None \<Rightarrow> False) \<or> str_contains lower ''unreachable'' \<or>
                     str_contains lower ''100% packet loss'' \<or> str_contains lower ''100% loss'')
      in \<lparr>pg_Reachable = (gotReply \<and> \<not> lostAll), pg_AvgMs = avg, pg_MinMs = mn, pg_MaxMs = mx, pg_TTL = ttl,
          pg_LossPct = loss\<rparr>)"

definition Ping :: "string \<Rightarrow> run_ping \<Rightarrow> string \<Rightarrow> PingResult \<times> string option" where
  "Ping goos run ip = (case run (up_pingArgs goos ip) of (out, err) \<Rightarrow> (ParsePing out, err))"

lemmas [go_defs] = win_stat_def unix_stat_def parseFloatPtr_def found_float_def

end
