(* ===== verification/Intel_Classify.thy ===== *)
theory Intel_Classify
  imports Intel_Store Mobile_Scoring
begin

text \<open>
  \<open>agent/internal/deviceintel/classify.go\<close>: what a device is, from the facts the store has about it:
  its roles, its most likely type and operating system, the security findings and the confidence.
  The clock of the mobile fingerprint engine is an argument.
\<close>

section \<open>Records of the local name services\<close>

definition mdns_matches :: "string \<Rightarrow> MDNSRecord \<Rightarrow> bool" where
  "mdns_matches needle r =
     (str_contains (to_lower (mdr_Service r)) needle \<or> str_contains (to_lower (mdr_Name r)) needle)"

definition mdnsHas :: "DeviceIntelDevice \<Rightarrow> string \<Rightarrow> bool" where
  "mdnsHas d needle = list_ex (mdns_matches (to_lower needle)) (did_MDNSRecords d)"

definition ssdpHas :: "DeviceIntelDevice \<Rightarrow> string \<Rightarrow> bool" where
  "ssdpHas d needle =
     list_ex (\<lambda>r. str_contains (to_lower (ssr_ST r)) (to_lower needle) \<or>
                str_contains (to_lower (ssr_USN r)) (to_lower needle) \<or>
                str_contains (to_lower (ssr_Server r)) (to_lower needle)) (did_SSDPRecords d)"

definition ssdpEvidence :: "DeviceIntelDevice \<Rightarrow> string list" where
  "ssdpEvidence d =
     intel_sortedUnique (concat (map ssr_EvidenceIDs (did_SSDPRecords d)) @
       (if hasOpenPort d 1900 then evidenceIDsForPorts d [1900] else []))"

definition printerProtocols :: "DeviceIntelDevice \<Rightarrow> string list" where
  "printerProtocols d =
     intel_sortedUnique
       ((if hasOpenPort d 631 then [''ipp''] else []) @ (if hasOpenPort d 9100 then [''jetdirect''] else []) @
        (if hasOpenPort d 515 then [''lpd''] else []) @ (if mdnsHas d ''_ipp._tcp'' then [''mdns_ipp''] else []))"

definition printerEvidence :: "DeviceIntelDevice \<Rightarrow> string list" where
  "printerEvidence d =
     intel_sortedUnique (evidenceIDsForPorts d [631, 9100, 515] @
       concat (map mdr_EvidenceIDs
         (filter (\<lambda>r. str_contains (to_lower (mdr_Service r)) ''ipp'' \<or> str_contains (to_lower (mdr_Name r)) ''printer'')
            (did_MDNSRecords d))))"

section \<open>Roles and protocols\<close>

definition is_gw :: "DeviceIntelDevice \<Rightarrow> bool" where
  "is_gw d = dtf_IsGateway (did_Topology d)"

definition is_upstream :: "DeviceIntelDevice \<Rightarrow> bool" where
  "is_upstream d = dtf_IsUpstreamGatewayCandidate (did_Topology d)"

definition addServiceRoles :: "DeviceIntelDevice \<Rightarrow> DeviceIntelDevice" where
  "addServiceRoles d0 =
     (let w = (\<lambda>c roles d. if c then add_roles roles d else d);
          d = w (is_gw d0) [RoleGateway, RoleRouter] d0;
          d = w (dtf_IsAgent (did_Topology d0)) [RoleAgent] d;
          d = w (is_upstream d0) [DeviceRoleUpstreamGateway, DeviceRolePossibleCPE] d;
          d = w (hasOpenPort d0 53) [DeviceRoleNameResolution] d;
          d = w (hasAnyPort d0 [80, 443, 8080, 8443, 7547] \<and> (is_gw d0 \<or> is_upstream d0)) [DeviceRoleManagement] d;
          d = w (hasAnyPort d0 [515, 631, 9100]) [DeviceRolePrinter] d;
          d = w (hasAnyPort d0 [5000, 5001]) [DeviceRoleStorage] d;
          d = w (hasAnyPort d0 [32400, 8008, 8009, 554]) [DeviceRoleMedia] d
      in w (did_Roles d = []) [RoleHost] d)"

definition smb_info :: "DeviceIntelDevice \<Rightarrow> SMBInfo" where
  "smb_info d =
     (let ids = evidenceIDsForPorts d [445, 139]
      in case did_NBNSRecords d of
           [] \<Rightarrow> \<lparr>smb_NetBIOSName = [], smb_Workgroup = [], smb_OSFamily = ''unknown'', smb_SigningRequired = None,
                 smb_EvidenceIDs = ids\<rparr>
         | r # _ \<Rightarrow> \<lparr>smb_NetBIOSName = nbn_Name r, smb_Workgroup = nbn_Workgroup r, smb_OSFamily = ''unknown'',
                 smb_SigningRequired = None, smb_EvidenceIDs = intel_sortedUnique (ids @ nbn_EvidenceIDs r)\<rparr>)"

definition upnp_info :: "DeviceIntelDevice \<Rightarrow> UPnPInfo" where
  "upnp_info d =
     \<lparr>upi_Detected = True,
      upi_DeviceType = (case find (\<lambda>r. ssr_ST r \<noteq> []) (did_SSDPRecords d) of Some r \<Rightarrow> ssr_ST r | None \<Rightarrow> []),
      upi_FriendlyName = [], upi_IGD = ssdpHas d ''InternetGatewayDevice'', upi_EvidenceIDs = ssdpEvidence d\<rparr>"

definition addProtocolInfo :: "DeviceIntelDevice \<Rightarrow> DeviceIntelDevice" where
  "addProtocolInfo d0 =
     (let d = (if hasAnyPort d0 [445, 139] \<or> did_NBNSRecords d0 \<noteq> [] then d0\<lparr>did_SMBInfo := Some (smb_info d0)\<rparr> else d0);
          protocols = printerProtocols d;
          d = (if protocols \<noteq> [] then
                 d\<lparr>did_PrinterInfo := Some \<lparr>pri_Detected = True, pri_Protocols = protocols, pri_Manufacturer = [],
                     pri_Model = [], pri_EvidenceIDs = printerEvidence d\<rparr>\<rparr>
               else d)
      in if hasOpenPort d 1900 \<or> ssdpHas d ''InternetGatewayDevice'' \<or> ssdpHas d ''MediaRenderer''
         then d\<lparr>did_UPnPInfo := Some (upnp_info d)\<rparr> else d)"

section \<open>The mobile fingerprint\<close>

text \<open>\<open>mobileInputFromIntelDevice\<close> and \<open>FingerprintDeviceIntel\<close> of \<open>mobile_fingerprint.go\<close>.\<close>

definition intel_mobile_service :: "gotime \<Rightarrow> DeviceIntelService \<Rightarrow> MobileServiceObservation" where
  "intel_mobile_service now svc =
     \<lparr>mso_Port = dis_Port svc, mso_Protocol = dis_Protocol svc, mso_Name = dis_Name svc,
      mso_Product = firstMobileSource [dis_Product svc, dis_Version svc], mso_Source = ''device_intel_service'',
      mso_Timestamp = now\<rparr>"

definition intel_mobile_mdns :: "gotime \<Rightarrow> MDNSRecord \<Rightarrow> MobileMDNSRecord" where
  "intel_mobile_mdns now r =
     \<lparr>mmr_Name = mdr_Name r, mmr_Service = mdr_Service r, mmr_Target = mdr_Target r, mmr_Text = mdr_Text r,
      mmr_Source = ''device_intel_mdns'', mmr_Timestamp = now\<rparr>"

definition mobileInputFromIntelDevice ::
  "DeviceIntelDevice \<Rightarrow> Evidence list \<Rightarrow> gotime \<Rightarrow> MobileFingerprintInput" where
  "mobileInputFromIntelDevice device evidence now =
     (let observe = (\<lambda>source values acc. fold (\<lambda>v hs. appendObserved hs v source now) values acc);
          oui = (case dv_OUIVendor (did_Vendor device) of Some v \<Rightarrow> [v] | None \<Rightarrow> []);
          fpv = (case dv_FingerprintVendor (did_Vendor device) of Some v \<Rightarrow> [v] | None \<Rightarrow> []);
          i = (mobile_input (did_ID device) now)
                \<lparr>mi_Hostnames :=
                   observe ''llmnr'' (map llr_Name (did_LLMNRRecords device))
                     (observe ''netbios'' (map nbn_Name (did_NBNSRecords device))
                       (observe ''device_intel_hostname'' (did_Hostnames device) [])),
                 mi_MACAddresses := did_MACAddresses device,
                 mi_OUIVendors := foldl appendUniqueString [] oui,
                 mi_VendorHints :=
                   observe ''device_intel_fingerprint_vendor'' fpv (observe ''device_intel_oui_vendor'' oui []),
                 mi_Services := map (intel_mobile_service now) (did_Services device),
                 mi_MDNSRecords := map (intel_mobile_mdns now) (did_MDNSRecords device)\<rparr>
      in fold applyEvidenceToMobileInput
           (filter (\<lambda>ev. evidenceMatchesDevice ev (did_ID device) (stringSet (did_IPAddresses device))
              (stringSet (did_EvidenceIDs device))) evidence) i)"

definition FingerprintDeviceIntel :: "gotime \<Rightarrow> DeviceIntelDevice \<Rightarrow> Evidence list \<Rightarrow> MobileFingerprint" where
  "FingerprintDeviceIntel clock device evidence =
     Fingerprint clock (mobileInputFromIntelDevice device evidence clock)"

definition os_known :: "DeviceIntelDevice \<Rightarrow> bool" where
  "os_known d = (did_OSHint d \<noteq> os_string OS_Unknown)"

definition applyMobileFingerprint :: "gotime \<Rightarrow> Evidence list \<Rightarrow> DeviceIntelDevice \<Rightarrow> DeviceIntelDevice" where
  "applyMobileFingerprint clock evidence d0 =
     (let fp = FingerprintDeviceIntel clock d0 evidence;
          d = d0\<lparr>did_MobileFingerprint := Some fp, did_OSHint := os_string (MobileOSHint (mf_Classification fp)),
                 did_OSConfidence := mf_Confidence fp,
                 did_DeviceTypeHint := MobileDeviceTypeHint fp (did_Hostnames d0)\<rparr>
      in if os_known d then
           (explain [mf_WhyThisClassification fp] d)
             \<lparr>did_UndeterminedWithoutOptIn :=
                intel_appendUnique (did_UndeterminedWithoutOptIn d) [mf_WhyNotCertain fp]\<rparr>
         else d)"

section \<open>Candidates for the type\<close>

definition type_candidate :: "string \<Rightarrow> float64 \<Rightarrow> string \<Rightarrow> string \<Rightarrow> string list \<Rightarrow> DeviceTypeCandidate" where
  "type_candidate t c supporting missing ids =
     \<lparr>dtc_Type = t, dtc_Confidence = c, dtc_SupportingFacts = [supporting], dtc_MissingEvidence = [missing],
      dtc_EvidenceIDs = ids\<rparr>"

definition gateway_candidates :: "DeviceIntelDevice \<Rightarrow> DeviceTypeCandidate list" where
  "gateway_candidates d =
     (if is_gw d \<and> (hasOpenPort d 53 \<or> hasAnyPort d [80, 443, 8080, 8443]) then
        [type_candidate DeviceTypeGatewayRouter (flit (82 / 100))
           ''Default route points to this device and router-like services are open.''
           ''No authenticated router telemetry or physical WAN interface evidence was collected.'' (did_EvidenceIDs d)]
      else if is_gw d then
        [type_candidate DeviceTypeGatewayRouter (flit (70 / 100)) ''Default route points to this device.''
           ''Router services, UPnP IGD, LLDP/CDP, or SNMP bridge data were not observed.'' (did_EvidenceIDs d)]
      else []) @
     (if is_upstream d then
        [type_candidate DeviceTypeUpstreamCPE (flit (60 / 100))
           ''A later RFC1918 hop was observed after the default gateway.''
           ''No direct CPE login, SNMP, TR-064/TR-181, UPnP WAN, DSL, DOCSIS, or optical evidence was collected.''
           (did_EvidenceIDs d)]
      else [])"

definition printer_candidates :: "DeviceIntelDevice \<Rightarrow> DeviceTypeCandidate list" where
  "printer_candidates d =
     (let advertised = (mdnsHas d ''_ipp._tcp'' \<or> mdnsHas d ''_printer'')
      in if hasAnyPort d [631, 9100, 515] \<or> advertised then
           [type_candidate DeviceTypePrinter (if advertised then flit (78 / 100) else flit (65 / 100))
              (if advertised then ''mDNS advertised a printer or IPP service.'' else ''Printer-related TCP port is open.'')
              ''Printer model/manufacturer were not read unless the device exposed them unauthenticated.''
              (printerEvidence d)]
         else [])"

definition windows_candidates :: "DeviceIntelDevice \<Rightarrow> DeviceTypeCandidate list" where
  "windows_candidates d =
     (let more_signs = (hasAnyPort d [135, 139, 5357] \<or> did_NBNSRecords d \<noteq> [])
      in if hasOpenPort d 445 then
           [type_candidate DeviceTypeWindowsHost (if more_signs then flit (74 / 100) else flit (60 / 100))
              (if more_signs then ''SMB/NetBIOS/WSD Windows-style services are open.'' else ''SMB TCP/445 is open.'')
              ''Authenticated SMB details and shares were not enumerated.''
              (evidenceIDsForPorts d [135, 139, 445, 5357])]
         else [])"

definition port_candidates :: "DeviceIntelDevice \<Rightarrow> DeviceTypeCandidate list" where
  "port_candidates d =
     (if hasAnyPort d [5000, 5001] then
        [type_candidate DeviceTypeNAS (flit (62 / 100)) ''NAS/media-management ports 5000/5001 are open.''
           ''Vendor-specific web UI or mDNS/SSDP storage identity was not proven.''
           (evidenceIDsForPorts d [5000, 5001])] else []) @
     (if hasOpenPort d 32400 \<or> hasAnyPort d [8008, 8009] \<or> ssdpHas d ''MediaRenderer'' then
        [type_candidate DeviceTypeMediaDevice (flit (68 / 100)) ''Media service or media renderer signal was observed.''
           ''Device brand/model was not proven by a specific mDNS/SSDP/HTTP fingerprint.''
           (intel_sortedUnique (evidenceIDsForPorts d [32400, 8008, 8009] @ ssdpEvidence d))] else []) @
     (if hasOpenPort d 554 then
        [type_candidate DeviceTypeIPCamera (flit (55 / 100)) ''RTSP TCP/554 is open.''
           ''Camera brand, ONVIF, or video metadata was not queried.'' (evidenceIDsForPorts d [554])] else []) @
     (if hasOpenPort d 1883 then
        [type_candidate DeviceTypeIoT (flit (58 / 100)) ''MQTT TCP/1883 is open.''
           ''MQTT authentication, topics, and payloads were not accessed.'' (evidenceIDsForPorts d [1883])] else []) @
     (if hasOpenPort d 8123 then
        [type_candidate ''home_automation_server'' (flit (72 / 100)) ''Home Assistant default TCP/8123 is open.''
           ''No login or API call was attempted.'' (evidenceIDsForPorts d [8123])] else [])"

definition mobile_candidates :: "DeviceIntelDevice \<Rightarrow> DeviceTypeCandidate list" where
  "mobile_candidates d =
     (case did_MobileFingerprint d of
        Some fp \<Rightarrow>
          if os_known d then
            [type_candidate
               (if did_OSHint d = os_string OS_IOS \<or> did_OSHint d = os_string OS_IPadOS
                then DeviceTypeAppleDevice else DeviceTypeAndroidDevice)
               (if mf_Confidence fp < flit (45 / 100) then flit (45 / 100) else mf_Confidence fp)
               (mf_WhyThisClassification fp) (mf_WhyNotCertain fp) (did_EvidenceIDs d)]
          else []
      | None \<Rightarrow> [])"

definition server_candidates :: "DeviceIntelDevice \<Rightarrow> DeviceTypeCandidate list" where
  "server_candidates d =
     (if hasOpenPort d 22 \<and> hasAnyPort d [80, 443, 8080, 8443] \<and> \<not> is_gw d then
        [type_candidate DeviceTypeServer (flit (52 / 100)) ''SSH and web services are open.''
           ''No authenticated service banner, package, or OS data was collected.''
           (evidenceIDsForPorts d [22, 80, 443, 8080, 8443])] else [])"

definition nginx_note :: "HTTPObservation \<Rightarrow> DeviceIntelDevice \<Rightarrow> DeviceIntelDevice" where
  "nginx_note obs d =
     (if equal_fold (ho_ServerHeader obs) ''nginx'' \<or> has_prefix (to_lower (ho_ServerHeader obs)) ''nginx'' then
        add_note ''Generic nginx does not prove device model.''
          (explain [''Generic nginx Server header is web-server evidence only; it does not identify router model, WAN type, or physical access.''] d)
      else d)"

text \<open>No candidate changes what the conditions of the later ones read.\<close>

definition addDeviceTypeCandidates :: "DeviceIntelDevice \<Rightarrow> DeviceIntelDevice" where
  "addDeviceTypeCandidates d =
     fold nginx_note (did_HTTPFingerprints d)
       (fold add_candidate
          (gateway_candidates d @ printer_candidates d @ windows_candidates d @ port_candidates d @
           mobile_candidates d @ server_candidates d) d)"

section \<open>Choosing the type and the operating system\<close>

definition candidate_before :: "DeviceTypeCandidate \<Rightarrow> DeviceTypeCandidate \<Rightarrow> bool" where
  "candidate_before a b =
     (if dtc_Confidence a \<noteq> dtc_Confidence b then dtc_Confidence a > dtc_Confidence b
      else str_less (dtc_Type a) (dtc_Type b))"

definition no_type :: "DeviceTypeGuess \<Rightarrow> DeviceTypeGuess" where
  "no_type g =
     g\<lparr>dtg_Primary := DeviceTypeUnknown, dtg_Confidence := 0,
       dtg_MissingEvidence :=
         [''Only IP/MAC or generic reachability was observed; no service, OS, model, or protocol identity evidence was conclusive.''],
       dtg_Alternatives := []\<rparr>"

definition weak_type :: "DeviceTypeCandidate \<Rightarrow> DeviceTypeGuess \<Rightarrow> DeviceTypeGuess" where
  "weak_type best g =
     g\<lparr>dtg_Primary := DeviceTypeUnknown, dtg_Confidence := dtc_Confidence best,
       dtg_MissingEvidence :=
         intel_appendUnique (dtc_MissingEvidence best) [''The strongest candidate is below the display threshold.''],
       dtg_Alternatives := dtg_Candidates g\<rparr>"

definition best_type :: "DeviceTypeCandidate \<Rightarrow> DeviceTypeCandidate list \<Rightarrow> DeviceTypeGuess \<Rightarrow> DeviceTypeGuess" where
  "best_type best others g =
     g\<lparr>dtg_Primary := dtc_Type best, dtg_Confidence := dtc_Confidence best,
       dtg_EvidenceIDs := intel_sortedUnique (dtc_EvidenceIDs best),
       dtg_MissingEvidence := intel_sortedUnique (dtc_MissingEvidence best),
       dtg_Alternatives := (if others \<noteq> [] then others else dtg_Alternatives g)\<rparr>"

definition pickPrimaryType :: "DeviceIntelDevice \<Rightarrow> DeviceIntelDevice" where
  "pickPrimaryType d =
     (let g = did_DeviceType d; sorted_cs = sort_by candidate_before (dtg_Candidates g);
          g = g\<lparr>dtg_Candidates := sorted_cs\<rparr>
      in case sorted_cs of
           [] \<Rightarrow> add_roles [DeviceRoleUnknownHost] (d\<lparr>did_DeviceType := no_type g\<rparr>)
         | best # others \<Rightarrow>
             if dtc_Confidence best < flit (50 / 100) then d\<lparr>did_DeviceType := weak_type best g\<rparr>
             else explain (dtc_SupportingFacts best) (d\<lparr>did_DeviceType := best_type best others g\<rparr>))"

definition displayMobileOSName :: "string \<Rightarrow> string" where
  "displayMobileOSName osHint =
     (if osHint = os_string OS_IOS then ''iOS candidate''
      else if osHint = os_string OS_IPadOS then ''iPadOS candidate''
      else if osHint = os_string OS_Android then ''Android candidate''
      else ''Mobile OS candidate'')"

definition mobileEvidenceExplanations :: "MobileEvidenceItem list \<Rightarrow> string list" where
  "mobileEvidenceExplanations items = fold (\<lambda>x out. intel_appendUnique out [me_Explanation x]) items []"

definition default_os_guess :: "DeviceIntelDevice \<Rightarrow> OSGuess" where
  "default_os_guess d =
     (if hasOpenPort d 445 \<and> (hasAnyPort d [135, 139, 5357] \<or> did_NBNSRecords d \<noteq> []) then
        \<lparr>osg_Family = ''windows'', osg_Name = intel_ptrString ''Windows candidate'', osg_Version = None,
         osg_Confidence = flit (72 / 100),
         osg_Evidence = [''SMB/NetBIOS/WSD Windows-style services were observed.''],
         osg_EvidenceIDs = evidenceIDsForPorts d [135, 139, 445, 5357]\<rparr>
      else
        \<lparr>osg_Family = ''unknown'', osg_Name = None, osg_Version = None, osg_Confidence = 0,
         osg_Evidence = [''No safe OS-specific protocol evidence was conclusive.''], osg_EvidenceIDs = []\<rparr>)"

definition guessOS :: "DeviceIntelDevice \<Rightarrow> DeviceIntelDevice" where
  "guessOS d =
     d\<lparr>did_OSGuess :=
         (case did_MobileFingerprint d of
            Some fp \<Rightarrow>
              if os_known d then
                \<lparr>osg_Family = did_OSHint d, osg_Name = intel_ptrString (displayMobileOSName (did_OSHint d)),
                 osg_Version = None, osg_Confidence = mf_Confidence fp,
                 osg_Evidence = mobileEvidenceExplanations (mf_Evidence fp), osg_EvidenceIDs = did_EvidenceIDs d\<rparr>
              else default_os_guess d
          | None \<Rightarrow> default_os_guess d)\<rparr>"

section \<open>Security findings\<close>

definition finding ::
  "string \<Rightarrow> string \<Rightarrow> string \<Rightarrow> string \<Rightarrow> string \<Rightarrow> string list \<Rightarrow> SecurityFinding" where
  "finding i severity title desc advice ids =
     \<lparr>sf_ID = i, sf_Severity = severity, sf_Title = title, sf_Description = desc,
      sf_EvidenceIDs = intel_sortedUnique ids, sf_SafeRecommendation = advice\<rparr>"

definition service_findings :: "DeviceIntelDevice \<Rightarrow> SecurityFinding list" where
  "service_findings d =
     (if hasOpenPort d 23 then
        [finding ''open_telnet'' ''high'' ''Telnet port open''
           ''TCP/23 is open on this LAN host. The collector only detected the port and did not attempt login.''
           ''Disable Telnet if it is not required; prefer SSH with explicit authorization.''
           (evidenceIDsForPorts d [23])] else []) @
     (if hasOpenPort d 445 then
        [finding ''open_smb'' ''medium'' ''SMB port open'' ''TCP/445 is open on this LAN host.''
           ''Keep file sharing disabled if not needed and restrict it to trusted LAN profiles.''
           (evidenceIDsForPorts d [445])] else []) @
     (if hasAnyPort d [80, 8080] \<and> (is_gw d \<or> is_upstream d) then
        [finding ''open_http_management'' ''medium'' ''HTTP management interface possible''
           ''A router/CPE candidate exposes an unencrypted HTTP service.''
           ''Use HTTPS for management where possible and keep router firmware current.''
           (evidenceIDsForPorts d [80, 8080])] else []) @
     (if hasOpenPort d 9100 then
        [finding ''printer_raw_9100'' ''medium'' ''Raw printer port open''
           ''TCP/9100 is open. The collector did not send print jobs.''
           ''Disable raw printing if it is not needed or restrict it to trusted hosts.''
           (evidenceIDsForPorts d [9100])] else [])"

definition state_findings :: "DeviceIntelDevice \<Rightarrow> SecurityFinding list" where
  "state_findings d =
     (case did_UPnPInfo d of
        Some u \<Rightarrow>
          if upi_Detected u then
            [finding ''upnp_exposed_lan'' ''low'' ''UPnP visible on LAN''
               ''UPnP/SSDP information is exposed to local devices.''
               ''Disable UPnP if you do not need automatic port mapping.'' (upi_EvidenceIDs u)]
          else []
      | None \<Rightarrow> []) @
     (if dtg_Primary (did_DeviceType d) = DeviceTypeUnknown then
        [finding ''unknown_device'' ''low'' ''Unknown device on LAN''
           ''The device was observed but did not expose enough safe identity evidence for classification.''
           ''Confirm the device belongs on this network.'' (did_EvidenceIDs d)] else []) @
     (if dtf_IsAgent (did_Topology d) \<and> length (did_Services d) \<ge> 5 then
        [finding ''many_services_on_agent'' ''info'' ''Many services open on agent host''
           (nat_digits (length (did_Services d)) @ '' open services were observed on the scanning host.'')
           ''Review local services and disable unused listeners.'' (did_EvidenceIDs d)] else [])"

text \<open>
  The map of \<open>mergeFindings\<close> has the last index of every identifier, which in the reversed list is the
  first one.
\<close>

fun merge_finding :: "SecurityFinding \<Rightarrow> SecurityFinding list \<Rightarrow> SecurityFinding list option" where
  "merge_finding f [] = None"
| "merge_finding f (x # xs) =
     (if sf_ID x = sf_ID f then
        Some (x\<lparr>sf_EvidenceIDs := intel_sortedUnique (sf_EvidenceIDs x @ sf_EvidenceIDs f)\<rparr> # xs)
      else map_option ((#) x) (merge_finding f xs))"

definition mergeFindings :: "SecurityFinding list \<Rightarrow> SecurityFinding list \<Rightarrow> SecurityFinding list" where
  "mergeFindings existing nxt =
     rev (fold (\<lambda>f out. case merge_finding f out of Some out' \<Rightarrow> out' | None \<Rightarrow> f # out) nxt (rev existing))"

text \<open>The \<open>return\<close> inside the loop makes the first high finding decide.\<close>

fun risk_loop :: "string \<Rightarrow> SecurityFinding list \<Rightarrow> string" where
  "risk_loop level [] = level"
| "risk_loop level (f # fs) =
     (if sf_Severity f = ''high'' then ''high''
      else risk_loop (if sf_Severity f = ''medium'' then ''medium'' else level) fs)"

definition riskLevel :: "SecurityFinding list \<Rightarrow> string" where
  "riskLevel findings = (if findings = [] then ''unknown'' else risk_loop ''low'' findings)"

definition addSecurityFindings :: "DeviceIntelDevice \<Rightarrow> DeviceIntelDevice" where
  "addSecurityFindings d =
     (let findings = mergeFindings (spo_Findings (did_SecurityPosture d)) (service_findings d @ state_findings d)
      in d\<lparr>did_SecurityPosture := (did_SecurityPosture d)\<lparr>spo_Findings := findings, spo_RiskLevel := riskLevel findings\<rparr>\<rparr>)"

section \<open>Confidence\<close>

definition final_confidence :: "DeviceIntelDevice \<Rightarrow> float64" where
  "final_confidence d =
     (let m = (\<lambda>c v x. if c then intel_maxFloat x v else x);
          conf = m (dtf_IsAgent (did_Topology d)) (flit (95 / 100)) (did_Confidence d);
          conf = m (is_gw d) (flit (90 / 100)) conf;
          conf = m (is_upstream d) (flit (60 / 100)) conf;
          conf = m (did_MACAddresses d \<noteq> []) (flit (55 / 100)) conf;
          conf = m (did_Services d \<noteq> [] \<or> did_HTTPFingerprints d \<noteq> [] \<or> did_TLSFingerprints d \<noteq> [])
                   (flit (75 / 100)) conf;
          conf = (if dtg_Primary (did_DeviceType d) = DeviceTypeUnknown \<and> did_Services d = [] \<and> \<not> is_gw d \<and>
                     \<not> is_upstream d
                  then intel_minFloat (intel_maxFloat conf (flit (45 / 100))) (flit (60 / 100)) else conf)
      in intel_clamp01 conf)"

definition finalizeConfidence :: "DeviceIntelDevice \<Rightarrow> DeviceIntelDevice" where
  "finalizeConfidence d0 =
     (let d = d0\<lparr>did_Confidence := final_confidence d0\<rparr>;
          d = (if did_ClassificationExplanation d = [] then
                 d\<lparr>did_ClassificationExplanation :=
                     [''Insufficient strong device-specific evidence; classification remains conservative.'']\<rparr>
               else d)
      in if did_UndeterminedWithoutOptIn d = [] \<and> (is_gw d \<or> is_upstream d) then
           d\<lparr>did_UndeterminedWithoutOptIn :=
               [''WAN access type cannot be known without direct physical-layer evidence or opt-in CPE telemetry.'',
                ''Router model cannot be trusted from generic HTTP server headers alone.'']\<rparr>
         else d)"

definition classifyDevice :: "gotime \<Rightarrow> Evidence list \<Rightarrow> DeviceIntelDevice \<Rightarrow> DeviceIntelDevice" where
  "classifyDevice clock evidence d =
     finalizeConfidence (addSecurityFindings (guessOS (pickPrimaryType (addDeviceTypeCandidates
       (applyMobileFingerprint clock evidence (addProtocolInfo (addServiceRoles d)))))))"

text \<open>\<open>clock\<close> is what the system clock returns while the device of a key is classified.\<close>

definition classifyAllWithEvidence :: "(string \<Rightarrow> gotime) \<Rightarrow> Evidence list \<Rightarrow> IntelStore \<Rightarrow> IntelStore" where
  "classifyAllWithEvidence clock evidence s =
     s\<lparr>ins_Devices := map (\<lambda>(k, d). (k, classifyDevice (clock k) evidence d)) (ins_Devices s)\<rparr>"

definition classifyAll :: "(string \<Rightarrow> gotime) \<Rightarrow> IntelStore \<Rightarrow> IntelStore" where
  "classifyAll clock s = classifyAllWithEvidence clock [] s"

end
