(* ===== verification/Modem_Report.thy ===== *)
theory Modem_Report
  imports Modem_Store Scan_Verdict
begin

text \<open>
  \<open>agent/pkg/models/modem_collection.go\<close> and \<open>agent/internal/modemcollector/output.go\<close>: the report on
  the modems and gateways of a site that is made of the result of the detection engine. Its network
  context, a pointer that is nil when the engine has not run, is an argument.
\<close>

section \<open>The report\<close>

record ModemNATState =
  mns_CGNAT :: string
  mns_DoubleNAT :: string
  mns_InternalDoubleNATPossible :: string
  mns_PublicIPMatches :: string
  mns_ExternalPublicIPConsistent :: string
  mns_PCPReachable :: string
  mns_NATPMPReachable :: string

record ModemCollectionScope =
  mcs_PrivateOnly :: bool
  mcs_Targets :: "string list"

record CPEHTTPState =
  chs_Reachable :: string
  chs_Observations :: "HTTPObservation list"

record CPETLSState =
  cts_Reachable :: string
  cts_Certificates :: "TLSObservation list"

record CPEUPnPState =
  cus_Found :: string
  cus_IGDFound :: string
  cus_WANCommonInterfaceFound :: string
  cus_WANAccessType :: "string option"
  cus_Layer1UpstreamMaxBitRate :: "int option"
  cus_Layer1DownstreamMaxBitRate :: "int option"
  cus_PhysicalLinkStatus :: "string option"

record CPETR064State =
  c64_Found :: string
  c64_AuthRequired :: string
  c64_DataAccessible :: string
  c64_Services :: "string list"

record CPETR181State =
  c81_Available :: string
  c81_InterfaceStack :: "string list"
  c81_PhysicalLayers :: "string list"

record CPESNMPState =
  csn_Enabled :: bool
  csn_Status :: string
  csn_Reason :: string

record CPEModelFingerprint =
  cmf_Vendor :: "string option"
  cmf_Model :: "string option"
  cmf_Confidence :: float64
  cmf_Evidence :: "Scan_Models.EvidenceItem list"

record CPEWANPhysicalEvidence =
  cwp_Status :: string
  cwp_Type :: "string option"
  cwp_Subtype :: "string option"
  cwp_Confidence :: float64
  cwp_Source :: "string option"
  cwp_Evidence :: "string list"

record CPECandidate =
  cpe_IP :: string
  cpe_Role :: string
  cpe_Source :: "string list"
  cpe_Priority :: string
  cpe_Private :: bool
  cpe_ReachableState :: string
  cpe_OpenPorts :: "int list"
  cpe_HTTP :: CPEHTTPState
  cpe_TLS :: CPETLSState
  cpe_UPnP :: CPEUPnPState
  cpe_TR064 :: CPETR064State
  cpe_TR181 :: CPETR181State
  cpe_SNMP :: CPESNMPState
  cpe_ModelFingerprint :: CPEModelFingerprint
  cpe_WANPhysicalEvidence :: CPEWANPhysicalEvidence
  cpe_FailedAttempts :: "ProbeAttempt list"
  cpe_Conflicts :: "DataConflict list"
  cpe_Confidence :: float64
  cpe_EvidenceIDs :: "string list"
  cpe_HTTPObservations :: "HTTPObservation list"
  cpe_TLSObservations :: "TLSObservation list"
  cpe_AccessEvidence :: "GatewayAccessEvidence list"

record NormalizedGatewayChain =
  ngc_Hops :: "GatewayHop list"
  ngc_InternalDoubleNATPossible :: string
  ngc_EvidenceSources :: "string list"

record ModemAccessClassification =
  mac_PrimaryType :: string
  mac_Subtype :: "string option"
  mac_Confidence :: float64
  mac_DecisionQuality :: string
  mac_SafeToDisplayAsFinal :: bool
  mac_Candidates :: "AccessCandidate list"
  mac_MissingRequiredEvidence :: "string list"
  mac_Reason :: "string list"

record ModemCollection =
  mco_Status :: string
  mco_SafeMode :: bool
  mco_Scope :: ModemCollectionScope
  mco_CPECandidates :: "CPECandidate list"
  mco_NormalizedGatewayChain :: NormalizedGatewayChain
  mco_NAT :: ModemNATState
  mco_AccessClassification :: ModemAccessClassification
  mco_DataQuality :: DataQuality
  mco_UI :: UIOutput
  mco_SecurityNotes :: "string list"
  mco_Undetermined :: "string list"

section \<open>Helpers\<close>

definition mc_ptrString :: "string \<Rightarrow> string option" where
  "mc_ptrString s = (if trim_space s = [] then None else Some s)"

definition ptrInt64 :: "int \<Rightarrow> int option" where
  "ptrInt64 v = (if v = 0 then None else Some v)"

fun firstHint :: "string list \<Rightarrow> string" where
  "firstHint [] = []"
| "firstHint (h # hs) = (if h \<noteq> [] then h else firstHint hs)"

definition chainSources :: "GatewayChainState \<Rightarrow> string list" where
  "chainSources chain = fold (\<lambda>src out. mc_appendUniqueStrings out [gs_Source src]) (gc_Sources chain) []"

definition priorityForDevice :: "GatewayDevice \<Rightarrow> string" where
  "priorityForDevice d =
     (if gd_Role d \<in> {''upstream_private_gateway'', ''possible_cpe'', ''possible_modem'', ''possible_modem_or_ont'',
         ''cpe_management_endpoint''} then ''high''
      else if gd_Role d = ''default_gateway'' then ''medium''
      else ''low'')"

definition priorityRank :: "string \<Rightarrow> int" where
  "priorityRank p = (if p = ''high'' then 3 else if p = ''medium'' then 2 else 1)"

section \<open>The state of the address translation\<close>

definition unknown_nat :: ModemNATState where
  "unknown_nat =
     \<lparr>mns_CGNAT = TriUnknown, mns_DoubleNAT = TriUnknown, mns_InternalDoubleNATPossible = TriUnknown,
      mns_PublicIPMatches = TriUnknown, mns_ExternalPublicIPConsistent = TriUnknown,
      mns_PCPReachable = TriUnknown, mns_NATPMPReachable = TriUnknown\<rparr>"

definition nat_from_topology :: "NATTopology \<Rightarrow> ModemNATState \<Rightarrow> ModemNATState" where
  "nat_from_topology t s =
     (let both = (nt_PublicIP t \<noteq> [] \<and> nt_STUNPublicIP t \<noteq> [])
      in s\<lparr>mns_CGNAT := (if nt_CGNAT t then TriTrue else mns_CGNAT s),
           mns_DoubleNAT := (if nt_DoubleNAT t then TriTrue else mns_DoubleNAT s),
           mns_InternalDoubleNATPossible :=
             (if nt_InternalDoubleNATPossible t then TriTrue else mns_InternalDoubleNATPossible s),
           mns_PublicIPMatches := (if both then triFromBool (nt_PublicIPMatches t) else mns_PublicIPMatches s),
           mns_ExternalPublicIPConsistent :=
             (if both then triFromBool (nt_ExternalPublicIPConsistent t) else mns_ExternalPublicIPConsistent s),
           mns_PCPReachable := (if nt_PCPReachable t then TriTrue else mns_PCPReachable s),
           mns_NATPMPReachable := (if nt_NATPMPReachable t then TriTrue else mns_NATPMPReachable s)\<rparr>)"

definition natState :: "NetworkContext option \<Rightarrow> ModemNATState" where
  "natState nc =
     (case nc of
        None \<Rightarrow> unknown_nat
      | Some c \<Rightarrow>
          (let s = (if nc_CGNAT c then unknown_nat\<lparr>mns_CGNAT := TriTrue\<rparr> else unknown_nat);
               s = (if nc_DoubleNATPossible c
                    then s\<lparr>mns_DoubleNAT := TriTrue, mns_InternalDoubleNATPossible := TriTrue\<rparr> else s)
           in case nc_NATTopology c of None \<Rightarrow> s | Some t \<Rightarrow> nat_from_topology t s))"

section \<open>Candidates\<close>

definition tr064DataAccessible :: "GatewayDevice \<Rightarrow> string" where
  "tr064DataAccessible d =
     (if gd_TR064Services d \<noteq> [] \<and> \<not> gd_TR064AuthRequired d then TriTrue
      else if gd_TR064AuthRequired d then TriFalse
      else TriUnknown)"

text \<open>The three sources of physical evidence, in the order of the code.\<close>

definition upnp_evidence :: "GatewayDevice \<Rightarrow> CPEWANPhysicalEvidence \<Rightarrow> CPEWANPhysicalEvidence" where
  "upnp_evidence d out =
     (if gd_WANCommonInterfaceFound d \<and> gd_WANAccessType d \<noteq> [] then
        (let conf = mc_max (cwp_Confidence out) (gd_AccessConfidence d)
         in out\<lparr>cwp_Status := ''present'', cwp_Type := mc_ptrString (gd_WANAccessType d),
              cwp_Confidence := (if conf = 0 then gd_Confidence d else conf),
              cwp_Source := mc_ptrString ''upnp_wan_common_interface'',
              cwp_Evidence := mc_appendUniqueStrings (mc_appendUniqueStrings (cwp_Evidence out) (gd_EvidenceIDs d))
                [gd_WANAccessType d, gd_PhysicalLinkStatus d]\<rparr>)
      else out)"

definition access_evidence :: "GatewayAccessEvidence \<Rightarrow> CPEWANPhysicalEvidence \<Rightarrow> CPEWANPhysicalEvidence" where
  "access_evidence ev out =
     (if ga_Strength ev = EvidencePhysical \<or> ga_Strength ev = ''strong'' then
        out\<lparr>cwp_Status := ''present'', cwp_Type := mc_ptrString (mc_firstNonEmpty (ga_Type ev) (firstHint (ga_Hints ev))),
          cwp_Confidence := ga_Confidence ev, cwp_Source := mc_ptrString (ga_Source ev),
          cwp_Evidence := mc_appendUniqueStrings (cwp_Evidence out) [ga_EvidenceID ev, ga_Value ev]\<rparr>
      else out)"

definition hint_evidence :: "GatewayDevice \<Rightarrow> CPEWANPhysicalEvidence \<Rightarrow> CPEWANPhysicalEvidence" where
  "hint_evidence d out =
     (if gd_PhysicalHints d \<noteq> [] then
        out\<lparr>cwp_Status := ''present'', cwp_Type := mc_ptrString (firstHint (gd_PhysicalHints d)),
          cwp_Confidence := mc_max (cwp_Confidence out) (gd_AccessConfidence d),
          cwp_Source := mc_ptrString ''gateway_device'',
          cwp_Evidence := mc_appendUniqueStrings (cwp_Evidence out) (gd_PhysicalHints d)\<rparr>
      else out)"

definition physicalEvidence :: "GatewayDevice \<Rightarrow> CPEWANPhysicalEvidence" where
  "physicalEvidence d =
     (let out = \<lparr>cwp_Status = ''missing'', cwp_Type = None, cwp_Subtype = None, cwp_Confidence = 0,
            cwp_Source = None, cwp_Evidence = []\<rparr>;
          out = upnp_evidence d out;
          out = fold access_evidence (gd_AccessEvidence d) out;
          out = hint_evidence d out
      in if cwp_Status out = ''missing'' then out\<lparr>cwp_Type := None, cwp_Subtype := None, cwp_Source := None\<rparr>
         else out)"

definition candidateFromDevice :: "GatewayDevice \<Rightarrow> CPECandidate" where
  "candidateFromDevice d =
     (let http = (if gd_HTTPObservations d \<noteq> [] \<or> gd_HTTPTitle d \<noteq> [] \<or> gd_ServerHeader d \<noteq> [] \<or>
            gd_FaviconHash d \<noteq> [] \<or> gd_WWWAuthenticate d \<noteq> [] then TriTrue else TriUnknown);
          tls = (if gd_TLSObservations d \<noteq> [] \<or> gd_TLSCertCN d \<noteq> [] \<or> gd_TLSCertSANs d \<noteq> [] \<or>
            gd_TLSCertIssuer d \<noteq> [] then TriTrue else TriUnknown);
          modelConf = (if gd_Manufacturer d \<noteq> [] \<or> gd_Model d \<noteq> [] \<or> gd_CPEModelGuess d \<noteq> [] \<or>
            gd_FingerprintID d \<noteq> [] then gd_DeviceConfidence d else 0);
          reach = triFromString (gd_ReachableState d)
      in \<lparr>cpe_IP = gd_IP d, cpe_Role = gd_Role d, cpe_Source = gd_EvidenceIDs d,
          cpe_Priority = priorityForDevice d, cpe_Private = isRFC1918 (gd_IP d),
          cpe_ReachableState =
            (if reach = TriUnknown \<and> (http = TriTrue \<or> tls = TriTrue \<or> gd_OpenPorts d \<noteq> [] \<or> gd_Reachable d)
             then TriTrue else reach),
          cpe_OpenPorts = gd_OpenPorts d,
          cpe_HTTP = \<lparr>chs_Reachable = http, chs_Observations = gd_HTTPObservations d\<rparr>,
          cpe_TLS = \<lparr>cts_Reachable = tls, cts_Certificates = gd_TLSObservations d\<rparr>,
          cpe_UPnP = \<lparr>cus_Found = triFromBool (gd_UPnPFound d), cus_IGDFound = triFromBool (gd_UPnPIGDFound d),
            cus_WANCommonInterfaceFound = triFromBool (gd_WANCommonInterfaceFound d),
            cus_WANAccessType = mc_ptrString (gd_WANAccessType d),
            cus_Layer1UpstreamMaxBitRate = ptrInt64 (gd_Layer1UpstreamMaxBitRate d),
            cus_Layer1DownstreamMaxBitRate = ptrInt64 (gd_Layer1DownstreamMaxBitRate d),
            cus_PhysicalLinkStatus = mc_ptrString (gd_PhysicalLinkStatus d)\<rparr>,
          cpe_TR064 = \<lparr>c64_Found = triFromBool (gd_TR064Found d \<or> gd_TR064AuthRequired d),
            c64_AuthRequired = triFromBool (gd_TR064AuthRequired d),
            c64_DataAccessible = tr064DataAccessible d, c64_Services = gd_TR064Services d\<rparr>,
          cpe_TR181 = \<lparr>c81_Available = TriUnknown, c81_InterfaceStack = [], c81_PhysicalLayers = []\<rparr>,
          cpe_SNMP = \<lparr>csn_Enabled = False, csn_Status = ''skipped'',
            csn_Reason = ''requires explicit user credentials''\<rparr>,
          cpe_ModelFingerprint = \<lparr>cmf_Vendor = mc_ptrString (gd_Manufacturer d),
            cmf_Model = mc_ptrString (mc_firstNonEmpty (gd_Model d) (gd_CPEModelGuess d)),
            cmf_Confidence = modelConf, cmf_Evidence = []\<rparr>,
          cpe_WANPhysicalEvidence = physicalEvidence d, cpe_FailedAttempts = gd_FailedAttempts d,
          cpe_Conflicts = [], cpe_Confidence = gd_Confidence d, cpe_EvidenceIDs = gd_EvidenceIDs d,
          cpe_HTTPObservations = [], cpe_TLSObservations = [], cpe_AccessEvidence = []\<rparr>)"

definition cpe_before :: "CPECandidate \<Rightarrow> CPECandidate \<Rightarrow> bool" where
  "cpe_before a b =
     (if priorityRank (cpe_Priority a) \<noteq> priorityRank (cpe_Priority b)
      then priorityRank (cpe_Priority a) > priorityRank (cpe_Priority b)
      else rolePriority (cpe_Role a) > rolePriority (cpe_Role b))"

section \<open>The verdict and its presentation\<close>

definition missingRequiredEvidence :: "ScanResult \<Rightarrow> string list" where
  "missingRequiredEvidence r =
     (let out = mc_appendUniqueStrings [] (sr_UncertaintyReasons r)
      in if cl_PrimaryType (sr_Classification r) = ''Unknown'' then
           mc_appendUniqueStrings out
             [''No direct WAN physical-layer evidence.'',
              ''No TR-064/TR-181/SNMP/UPnP WAN physical-layer proof.'',
              ''Fiber and VDSL can be shown as candidates only when supported by weak scores.'']
         else out)"

definition modemUI :: "NetworkContext option \<Rightarrow> ScanResult \<Rightarrow> UIOutput" where
  "modemUI nc r =
     (let unknown = (cl_PrimaryType (sr_Classification r) = ''Unknown''); ui = sr_UI r;
          ui = (if ui_Headline ui = [] then ui\<lparr>ui_Headline := ''Access type unknown''\<rparr> else ui);
          ui = (if ui_Summary ui = [] \<and> unknown then ui\<lparr>ui_Summary :=
                  ''Erisim turu kesin belirlenemedi. Ozel gateway zinciri ve CPE adaylari bulundu, ancak DSL, VDSL veya Fiber oldugunu kanitlayan dogrudan WAN fiziksel katman verisi yok.''\<rparr>
                else ui);
          ui = ui\<lparr>ui_Badges := mc_appendUniqueStrings (ui_Badges ui)
                 [''Default gateway found'', ''SNMP skipped by default'', ''Classification not final'']\<rparr>;
          ui = (if (case nc of None \<Rightarrow> False | Some c \<Rightarrow> nc_DoubleNATPossible c) then
                  ui\<lparr>ui_Badges := mc_appendUniqueStrings (ui_Badges ui)
                      [''Upstream private gateway detected'', ''Possible double NAT'']\<rparr>
                else ui)
      in if unknown then
           ui\<lparr>ui_Badges := mc_appendUniqueStrings (ui_Badges ui) [''No direct WAN evidence''],
              ui_Warnings := mc_appendUniqueStrings (ui_Warnings ui)
                [''Do not treat Ethernet LAN as Fiber.'', ''Do not treat latency as Fiber.'',
                 ''Do not treat PTR/ASN as access type proof.'', ''Physical WAN evidence is required.'']\<rparr>
         else ui)"

definition modem_security_notes :: "string list" where
  "modem_security_notes =
     [''Private/local targets only by default.'',
      ''Read-only probes only; no form submission, login attempt, credential guessing, exploitation, or public range scanning.'',
      ''SNMP and authenticated TR-064/TR-181 collection require explicit user-provided read-only credentials.'']"

definition modem_undetermined :: "string list" where
  "modem_undetermined =
     [''Physical WAN layer cannot be proven without direct CPE telemetry such as TR-064/TR-181/UPnP WANAccessType/SNMP interface data or a strong model fingerprint.'',
      ''Ethernet LAN, low latency, public IP, no CGNAT, PTR, ASN, and traceroute context do not prove DSL/VDSL/Fiber/GPON/LTE/WISP.'',
      ''Authenticated CPE details such as line stats, optical levels, full TR-181 InterfaceStack, and some model fields remain unavailable without user credentials.'']"

definition modem_classification :: "ScanResult \<Rightarrow> ModemAccessClassification" where
  "modem_classification r =
     (let c = sr_Classification r
      in \<lparr>mac_PrimaryType = cl_PrimaryType c, mac_Subtype = cl_Subtype c, mac_Confidence = cl_Confidence c,
          mac_DecisionQuality = cl_DecisionQuality c, mac_SafeToDisplayAsFinal = cl_SafeToDisplayAsFinal c,
          mac_Candidates = sr_Candidates r, mac_MissingRequiredEvidence = missingRequiredEvidence r,
          mac_Reason = sr_Explanation r\<rparr>)"

section \<open>Build\<close>

text \<open>The loop over the candidate devices: the candidates and the targets of the scope.\<close>

definition collect_candidate ::
  "GatewayDevice \<Rightarrow> CPECandidate list \<times> string list \<Rightarrow> CPECandidate list \<times> string list" where
  "collect_candidate d acc =
     (let c = candidateFromDevice d in (fst acc @ [c], mc_appendUniqueStrings (snd acc) [cpe_IP c]))"

definition candidate_input :: "NetworkContext \<Rightarrow> CandidateInput" where
  "candidate_input nc =
     \<lparr>ci_DefaultGateway = nc_Gateway nc, ci_AgentIP = [], ci_ChainState = nc_GatewayChainState nc,
      ci_Devices = nc_GatewayDevices nc, ci_ManualTargets = []\<rparr>"

definition modem_Build :: "NetworkContext option \<Rightarrow> ScanResult \<Rightarrow> ModemCollection" where
  "modem_Build nc r =
     (let collection =
            \<lparr>mco_Status = ''completed'', mco_SafeMode = True,
             mco_Scope = \<lparr>mcs_PrivateOnly = True, mcs_Targets = []\<rparr>, mco_CPECandidates = [],
             mco_NormalizedGatewayChain =
               \<lparr>ngc_Hops = [], ngc_InternalDoubleNATPossible = [], ngc_EvidenceSources = []\<rparr>,
             mco_NAT =
               \<lparr>mns_CGNAT = [], mns_DoubleNAT = [], mns_InternalDoubleNATPossible = [], mns_PublicIPMatches = [],
                mns_ExternalPublicIPConsistent = [], mns_PCPReachable = [], mns_NATPMPReachable = []\<rparr>,
             mco_AccessClassification = modem_classification r, mco_DataQuality = sr_DataQuality r,
             mco_UI = modemUI nc r, mco_SecurityNotes = modem_security_notes,
             mco_Undetermined = modem_undetermined\<rparr>
      in case nc of
           None \<Rightarrow> collection\<lparr>mco_Status := ''partial''\<rparr>
         | Some c \<Rightarrow>
             (let chain =
                    (case nc_GatewayChainState c of
                       Some s \<Rightarrow>
                         \<lparr>ngc_Hops = gc_PrivateHops s,
                          ngc_InternalDoubleNATPossible = triFromBool (gc_InternalDoubleNATPossible s),
                          ngc_EvidenceSources = chainSources s\<rparr>
                     | None \<Rightarrow>
                         \<lparr>ngc_Hops = [], ngc_InternalDoubleNATPossible = TriUnknown, ngc_EvidenceSources = []\<rparr>);
                  found = fold collect_candidate (CandidateBuilder_Build False (candidate_input c)) ([], [])
              in collection\<lparr>mco_NormalizedGatewayChain := chain, mco_NAT := natState nc,
                   mco_CPECandidates := sort_by cpe_before (fst found),
                   mco_Scope := \<lparr>mcs_PrivateOnly = True, mcs_Targets = snd found\<rparr>\<rparr>))"

end
