(* ===== verification/Intel_Build.thy ===== *)
theory Intel_Build
  imports Intel_Classify Modem_Report
begin

text \<open>
  \<open>agent/internal/deviceintel/output.go\<close> and \<open>topology.go\<close>: the device intelligence report made of the
  topology report and of the result of the access scan. Of that result, which is absent when the
  access scan has not run, only the parts named by \<open>AccessView\<close> are read.
\<close>

record AccessView =
  av_DetectedNetworkContext :: "NetworkContext option"
  av_ModemCollection :: "ModemCollection option"
  av_Conflicts :: "DataConflict list"
  av_DataQuality :: DataQuality

section \<open>Helpers\<close>

definition evidenceIndex :: "Evidence list \<Rightarrow> string \<Rightarrow> Evidence option" where
  "evidenceIndex evidence = map_of (rev (map (\<lambda>ev. (tev_ID ev, ev)) evidence))"

definition registerEvidenceIDs ::
  "(string \<Rightarrow> Evidence option) \<Rightarrow> string \<Rightarrow> string list \<Rightarrow> float64 \<Rightarrow> IntelStore \<Rightarrow> IntelStore" where
  "registerEvidenceIDs evidenceByID device ids confidence s =
     fold (\<lambda>i s. case evidenceByID i of Some ev \<Rightarrow> RegisterEvidence ev device confidence s | None \<Rightarrow> s) ids s"

definition evidenceIP :: "Evidence \<Rightarrow> string" where
  "evidenceIP ev = firstMapValue (tev_Data ev) [''ip'', ''target'', ''gateway'', ''host'']"

definition evidenceConfidence :: "Evidence \<Rightarrow> float64" where
  "evidenceConfidence ev =
     (let k = tev_Kind ev
      in if k = ''gateway_route'' then flit (85 / 100)
         else if k = ''arp_table'' then flit (65 / 100)
         else if k = ''tcp_connect'' \<or> k = ''nmap'' then flit (75 / 100)
         else if k = ''reverse_dns'' then flit (45 / 100)
         else if k = ''lldp'' \<or> k = ''cdp'' then flit (95 / 100)
         else if k = ''snmp_bridge'' then flit (80 / 100)
         else flit (50 / 100))"

definition targetAllowed :: "DeviceIntelScope \<Rightarrow> string \<Rightarrow> bool" where
  "targetAllowed scope ip = (IsPrivateIPString ip \<or> (dsc_PublicAllowed scope \<and> \<not> dsc_PrivateOnly scope))"

definition deviceIPs :: "Device \<Rightarrow> string list" where
  "deviceIPs d =
     intel_sortedUnique (filter (\<lambda>ip. ip \<noteq> []) (map ipa_IP (dev_Addresses d)) @ concat (map dif_IPs (dev_Interfaces d)))"

text \<open>\<open>sort.Slice\<close>, which is an insertion sort on short lists.\<close>

definition devicePrimaryIP :: "Device \<Rightarrow> string" where
  "devicePrimaryIP d = (case insertion_sort intel_ipLess (deviceIPs d) of [] \<Rightarrow> [] | ip # _ \<Rightarrow> ip)"

fun selectedAgentIP :: "InterfaceInfo list \<Rightarrow> string" where
  "selectedAgentIP [] = []"
| "selectedAgentIP (iface # rest) =
     (case (if ifc_Selected iface
            then find (\<lambda>a. ipa_Version a = 4 \<and> ipa_IP a \<noteq> []) (ifc_Addresses iface) else None) of
        Some a \<Rightarrow> ipa_IP a
      | None \<Rightarrow> selectedAgentIP rest)"

definition firstEvidence :: "string list \<Rightarrow> string" where
  "firstEvidence ids = (case ids of [] \<Rightarrow> [] | i # _ \<Rightarrow> i)"

definition parseInt :: "string \<Rightarrow> int" where
  "parseInt s = (let raw = trim_space s in if raw = [] then 0 else atoi_value raw)"

definition parsePorts :: "string \<Rightarrow> int list" where
  "parsePorts raw =
     sortedUniqueInts (filter (\<lambda>p. p > 0) (map parseInt
       (str_split CHR '','' (replace_bytes [(CHR '';'', '',''), (CHR '' '', '','')] raw))))"

definition splitList :: "string \<Rightarrow> string list" where
  "splitList s =
     (let raw = trim_space s
      in if raw = [] then [] else intel_sortedUnique (str_split CHR '','' (replace_bytes [(CHR '';'', '','')] raw)))"

definition set_fp_vendor :: "string option \<Rightarrow> float64 \<Rightarrow> DeviceIntelDevice \<Rightarrow> DeviceIntelDevice" where
  "set_fp_vendor vendor confidence d =
     d\<lparr>did_Vendor := (did_Vendor d)\<lparr>dv_FingerprintVendor := vendor,
          dv_Confidence := intel_maxFloat (dv_Confidence (did_Vendor d)) confidence\<rparr>\<rparr>"

definition mark_gateway :: "DeviceIntelDevice \<Rightarrow> DeviceIntelDevice" where
  "mark_gateway d =
     add_roles [RoleGateway, RoleRouter] (d\<lparr>did_Topology := (did_Topology d)\<lparr>dtf_IsGateway := True\<rparr>\<rparr>)"

definition mark_upstream :: "DeviceIntelDevice \<Rightarrow> DeviceIntelDevice" where
  "mark_upstream d =
     add_roles [DeviceRoleUpstreamGateway, DeviceRolePossibleCPE]
       (d\<lparr>did_Topology := (did_Topology d)\<lparr>dtf_IsUpstreamGatewayCandidate := True\<rparr>\<rparr>)"

definition open_service :: "int \<Rightarrow> float64 \<Rightarrow> string list \<Rightarrow> DeviceIntelService" where
  "open_service port confidence ids =
     \<lparr>dis_Port = port, dis_Protocol = ''tcp'', dis_State = ''open'', dis_Name = intel_serviceName port,
      dis_Product = [], dis_Version = [], dis_Banner = [], dis_Confidence = confidence, dis_EvidenceIDs = ids\<rparr>"

definition no_attempt :: ProbeAttempt where
  "no_attempt =
     \<lparr>pa_Source = [], pa_Target = [], pa_Protocol = [], pa_Port = 0, pa_URL = [], pa_Method = [], pa_Error = [],
      pa_Timeout = False, pa_EvidenceID = []\<rparr>"

section \<open>The scope\<close>

definition intel_buildScope :: "ScanReport \<Rightarrow> AccessView option \<Rightarrow> DeviceIntelScope" where
  "intel_buildScope report ac =
     (let gw = agi_Gateway (rep_Agent report);
          gw = (case Option.bind ac av_DetectedNetworkContext of
                  Some ctx \<Rightarrow> if gw = [] then nc_Gateway ctx else gw
                | None \<Rightarrow> gw);
          profile = scp_Profile (rep_Scope report)
      in \<lparr>dsc_CIDR = scp_CIDR (rep_Scope report), dsc_Interface = scp_Interface (rep_Scope report),
          dsc_AgentIP = selectedAgentIP (agi_Interfaces (rep_Agent report)), dsc_DefaultGateway = gw,
          dsc_PrivateOnly = (\<not> scp_PublicAllowed (rep_Scope report)),
          dsc_PublicAllowed = scp_PublicAllowed (rep_Scope report),
          dsc_Profile = (if profile = [] then ''device_intel'' else profile @ ''_device_intel''),
          dsc_Targets = [], dsc_OptInProbes = []\<rparr>)"

section \<open>Devices of the topology report\<close>

definition copy_identity :: "Device \<Rightarrow> DeviceIntelDevice \<Rightarrow> DeviceIntelDevice" where
  "copy_identity src d =
     d\<lparr>did_ID := dev_ID src, did_IPAddresses := intel_appendUnique (did_IPAddresses d) (deviceIPs src)\<rparr>"

definition copy_facts :: "Device \<Rightarrow> DeviceIntelDevice \<Rightarrow> DeviceIntelDevice" where
  "copy_facts src d0 =
     (let d = add_roles (dev_Roles src) d0;
          d = (case dev_MobileFingerprint src of
                 Some fp \<Rightarrow> d\<lparr>did_MobileFingerprint := Some fp, did_DeviceTypeHint := dev_DeviceTypeHint src,
                              did_OSHint := dev_OSHint src, did_OSConfidence := dev_OSConfidence src\<rparr>
               | None \<Rightarrow> d);
          d = d\<lparr>did_Topology := (did_Topology d)\<lparr>dtf_IsAgent := dev_IsAgent src, dtf_IsGateway := dev_IsGateway src\<rparr>\<rparr>
      in add_evidence_ids (dev_EvidenceIDs src) (raise_confidence (dev_Confidence src) d))"

definition ingest_interface :: "string \<Rightarrow> Device \<Rightarrow> DeviceInterface \<Rightarrow> IntelStore \<Rightarrow> IntelStore" where
  "ingest_interface ip src iface s0 =
     (let s = AddMAC ip (dif_MAC iface) (intel_firstNonEmpty [dif_Vendor iface, dev_Vendor src])
                (firstEvidence (dev_EvidenceIDs src)) (flit (60 / 100)) s0
      in if dif_Vendor iface \<noteq> []
         then modify_device (deviceID ip) (set_oui_vendor (dif_Vendor iface) (flit (55 / 100))) s else s)"

definition ingest_service ::
  "(string \<Rightarrow> Evidence option) \<Rightarrow> string \<Rightarrow> string \<Rightarrow> Service \<Rightarrow> IntelStore \<Rightarrow> IntelStore" where
  "ingest_service evidenceByID ip i svc s =
     registerEvidenceIDs evidenceByID i (svc_EvidenceIDs svc) (flit (75 / 100))
       (AddService ip
          \<lparr>dis_Port = svc_Port svc, dis_Protocol = intel_firstNonEmpty [svc_Protocol svc, ''tcp''],
           dis_State = intel_firstNonEmpty [svc_State svc, ''open''],
           dis_Name = intel_firstNonEmpty [svc_Name svc, intel_serviceName (svc_Port svc)],
           dis_Product = svc_Product svc, dis_Version = [], dis_Banner = [], dis_Confidence = flit (75 / 100),
           dis_EvidenceIDs = intel_sortedUnique (svc_EvidenceIDs svc)\<rparr> s)"

definition ingest_device ::
  "(string \<Rightarrow> Evidence option) \<Rightarrow> DeviceIntelScope \<Rightarrow> Device \<Rightarrow> IntelStore \<Rightarrow> IntelStore" where
  "ingest_device evidenceByID scope src s0 =
     (let ip = devicePrimaryIP src; key = deviceID ip
      in if ip = [] \<or> \<not> targetAllowed scope ip then s0
         else
           (let s = modify_device key (copy_identity src) (UpsertDevice ip s0);
                s = (if dev_Hostname src \<noteq> []
                     then AddHostname ip (dev_Hostname src) (firstEvidence (dev_EvidenceIDs src)) (flit (55 / 100)) s
                     else s);
                s = modify_device key (copy_facts src) s;
                s = registerEvidenceIDs evidenceByID (dev_ID src) (dev_EvidenceIDs src) (dev_Confidence src) s;
                s = fold (ingest_interface ip src) (dev_Interfaces src) s;
                s = (if dev_Vendor src \<noteq> []
                     then modify_device key (set_oui_vendor (dev_Vendor src) (flit (55 / 100))) s else s)
            in fold (ingest_service evidenceByID ip (dev_ID src)) (dev_Services src) s))"

definition ingestTopologyDevices ::
  "ScanReport \<Rightarrow> (string \<Rightarrow> Evidence option) \<Rightarrow> DeviceIntelScope \<Rightarrow> IntelStore \<Rightarrow> IntelStore" where
  "ingestTopologyDevices report evidenceByID scope s = fold (ingest_device evidenceByID scope) (rep_Devices report) s"

section \<open>Evidence records\<close>

definition http_failed :: "Evidence \<Rightarrow> bool" where
  "http_failed ev =
     (let get = data_get (tev_Data ev)
      in equal_fold (get ''status'') ''timeout'' \<or> equal_fold (get ''success'') ''false'' \<or> get ''error'' \<noteq> [])"

definition ingestHTTPEvidence :: "string \<Rightarrow> Evidence \<Rightarrow> IntelStore \<Rightarrow> IntelStore" where
  "ingestHTTPEvidence ip ev s =
     (let get = data_get (tev_Data ev)
      in if http_failed ev then
           AddFailedAttempt ip
             \<lparr>pa_Source = tev_Source ev, pa_Target = ip, pa_Protocol = ''tcp'', pa_Port = parseInt (get ''port''),
              pa_URL = get ''url'', pa_Method = get ''method'',
              pa_Error = intel_firstNonEmpty [get ''error'', ''http probe failed''],
              pa_Timeout = (str_contains (to_lower (get ''error'')) ''timeout'' \<or> equal_fold (get ''status'') ''timeout''),
              pa_EvidenceID = tev_ID ev\<rparr> s
         else
           AddHTTPObservation ip
             \<lparr>ho_Source = tev_Source ev, ho_URL = get ''url'', ho_Method = intel_firstNonEmpty [get ''method'', ''HEAD''],
              ho_StatusCode = atoi_value (get ''status_code''), ho_Title = get ''title'', ho_ServerHeader = get ''server'',
              ho_WWWAuthenticate = get ''www_authenticate'', ho_WWWAuthRealm = get ''realm'',
              ho_RedirectLocation = get ''location'', ho_RedirectPath = [], ho_FaviconHash = get ''favicon_hash'',
              ho_HTMLMetaGenerator = [], ho_LoginLabels = [], ho_EvidenceID = tev_ID ev\<rparr> True no_attempt s)"

definition ingestTLSEvidence :: "string \<Rightarrow> Evidence \<Rightarrow> IntelStore \<Rightarrow> IntelStore" where
  "ingestTLSEvidence ip ev s =
     (let get = data_get (tev_Data ev)
      in AddTLSObservation ip
           \<lparr>to_Source = tev_Source ev, to_IP = ip, to_Port = parseInt (get ''port''), to_CN = get ''cn'',
            to_SANs = splitList (get ''sans''), to_Issuer = get ''issuer'', to_ServerName = get ''server_name'',
            to_EvidenceID = tev_ID ev\<rparr> s)"

definition note_printer :: "Evidence \<Rightarrow> DeviceIntelDevice \<Rightarrow> DeviceIntelDevice" where
  "note_printer ev d =
     (let get = data_get (tev_Data ev);
          p = (case did_PrinterInfo d of
                 Some p \<Rightarrow> p
               | None \<Rightarrow> \<lparr>pri_Detected = True, pri_Protocols = [], pri_Manufacturer = [], pri_Model = [], pri_EvidenceIDs = []\<rparr>)
      in d\<lparr>did_PrinterInfo := Some (p\<lparr>pri_Protocols := intel_appendUnique (pri_Protocols p) [get ''protocol''],
             pri_Manufacturer := get ''manufacturer'', pri_Model := get ''model'',
             pri_EvidenceIDs := intel_sortedUnique (pri_EvidenceIDs p @ [tev_ID ev])\<rparr>)\<rparr>)"

definition addPrinterEvidence :: "string \<Rightarrow> Evidence \<Rightarrow> IntelStore \<Rightarrow> IntelStore" where
  "addPrinterEvidence ip ev s =
     (let port = parseInt (data_get (tev_Data ev) ''port'')
      in upsert_with ip (note_printer ev)
           (if port > 0 then AddService ip (open_service port (flit (75 / 100)) [tev_ID ev]) s else s))"

definition ingest_kind :: "string \<Rightarrow> Evidence \<Rightarrow> IntelStore \<Rightarrow> IntelStore" where
  "ingest_kind ip ev s =
     (let k = to_lower (tev_Kind ev); get = data_get (tev_Data ev); i = tev_ID ev
      in if k = ''arp_table'' then AddMAC ip (get ''mac'') (get ''vendor'') i (flit (65 / 100)) s
         else if k = ''reverse_dns'' then AddHostname ip (get ''hostname'') i (flit (45 / 100)) s
         else if k = ''tcp_connect'' \<or> k = ''nmap'' then
           fold (\<lambda>port s. AddService ip (open_service port (flit (75 / 100)) [i]) s) (parsePorts (get ''ports'')) s
         else if k = ''icmp_echo'' then
           (if equal_fold (get ''status'') ''timeout'' then
              AddFailedAttempt ip
                (no_attempt\<lparr>pa_Source := tev_Source ev, pa_Target := ip, pa_Protocol := ''icmp'',
                   pa_Error := ''timeout'', pa_Timeout := True, pa_EvidenceID := i\<rparr>) s
            else s)
         else if k = ''http_fingerprint'' \<or> k = ''http'' \<or> k = ''http_fingerprint_v2'' \<or> k = ''http_fingerprint_v3''
           then ingestHTTPEvidence ip ev s
         else if k = ''tls_fingerprint'' \<or> k = ''tls'' then ingestTLSEvidence ip ev s
         else if k = ''mdns'' then
           AddMDNS ip \<lparr>mdr_Name = get ''name'', mdr_Service = get ''service'', mdr_Target = get ''target'',
             mdr_Text = splitList (get ''txt''), mdr_EvidenceIDs = [i]\<rparr> s
         else if k = ''ssdp'' then
           AddSSDP ip \<lparr>ssr_USN = get ''usn'', ssr_ST = get ''st'', ssr_Server = get ''server'',
             ssr_Location = get ''location'', ssr_EvidenceIDs = [i]\<rparr> s
         else if k = ''nbns'' \<or> k = ''netbios'' then
           AddNBNS ip \<lparr>nbn_Name = get ''name'', nbn_Workgroup = get ''workgroup'', nbn_EvidenceIDs = [i]\<rparr> s
         else if k = ''llmnr'' then AddLLMNR ip \<lparr>llr_Name = get ''name'', llr_EvidenceIDs = [i]\<rparr> s
         else if k = ''printer'' \<or> k = ''ipp'' \<or> k = ''wsd'' then addPrinterEvidence ip ev s
         else s)"

text \<open>\<open>d.ID\<close> is what the device has at that moment.\<close>

definition stored_id :: "string \<Rightarrow> IntelStore \<Rightarrow> string" where
  "stored_id key s = (case map_of (ins_Devices s) key of Some d \<Rightarrow> did_ID d | None \<Rightarrow> [])"

definition ingest_evidence :: "DeviceIntelScope \<Rightarrow> Evidence \<Rightarrow> IntelStore \<Rightarrow> IntelStore" where
  "ingest_evidence scope ev s0 =
     (let ip = evidenceIP ev; key = deviceID ip
      in if ip = [] \<or> \<not> targetAllowed scope ip then s0
         else
           (let s = UpsertDevice ip s0;
                s = RegisterEvidence ev (stored_id key s) (evidenceConfidence ev) s;
                s = modify_device key (add_evidence_ids [tev_ID ev]) s
            in ingest_kind ip ev s))"

definition ingestEvidenceRecords :: "ScanReport \<Rightarrow> DeviceIntelScope \<Rightarrow> IntelStore \<Rightarrow> IntelStore" where
  "ingestEvidenceRecords report scope s = fold (ingest_evidence scope) (rep_Evidence report) s"

section \<open>The access scan\<close>

definition ingest_hop :: "DeviceIntelScope \<Rightarrow> GatewayChainState \<Rightarrow> GatewayHop \<Rightarrow> IntelStore \<Rightarrow> IntelStore" where
  "ingest_hop scope chain hop s =
     (if \<not> targetAllowed scope (gh_IP hop) then s
      else upsert_with (gh_IP hop)
        (\<lambda>d. let d = raise_confidence (gc_Confidence chain) (add_evidence_ids [gh_EvidenceID hop] d);
                d = (if gh_Role hop = ''default_gateway'' then mark_gateway d else d)
            in if gh_Role hop = ''upstream_private_gateway'' then mark_upstream d else d) s)"

definition gateway_details :: "GatewayDevice \<Rightarrow> DeviceIntelDevice \<Rightarrow> DeviceIntelDevice" where
  "gateway_details gd d0 =
     (let d = (if gd_MACVendor gd \<noteq> [] then set_oui_vendor (gd_MACVendor gd) (flit (55 / 100)) d0 else d0);
          d = (if gd_Manufacturer gd \<noteq> []
               then set_fp_vendor (intel_ptrString (gd_Manufacturer gd)) (flit (70 / 100)) d else d);
          d = (if gd_UPnPFound gd \<or> gd_UPnPIGDFound gd
               then d\<lparr>did_UPnPInfo := Some \<lparr>upi_Detected = True, upi_DeviceType = [], upi_FriendlyName = [],
                      upi_IGD = gd_UPnPIGDFound gd, upi_EvidenceIDs = gd_EvidenceIDs gd\<rparr>\<rparr> else d);
          d = (if gd_SNMPState gd \<noteq> []
               then d\<lparr>did_SNMPInfo := Some \<lparr>sni_Enabled = (gd_SNMPState gd = ''enabled''), sni_Status = gd_SNMPState gd,
                      sni_Reason = [], sni_EvidenceIDs = gd_EvidenceIDs gd\<rparr>\<rparr> else d)
      in raise_confidence (gd_Confidence gd) d)"

definition add_ports :: "string \<Rightarrow> int list \<Rightarrow> float64 \<Rightarrow> string list \<Rightarrow> IntelStore \<Rightarrow> IntelStore" where
  "add_ports ip ports confidence ids s = fold (\<lambda>port s. AddService ip (open_service port confidence ids) s) ports s"

definition add_observations ::
  "string \<Rightarrow> HTTPObservation list \<Rightarrow> TLSObservation list \<Rightarrow> ProbeAttempt list \<Rightarrow> IntelStore \<Rightarrow> IntelStore" where
  "add_observations ip https tlss attempts s =
     fold (AddFailedAttempt ip) attempts
       (fold (AddTLSObservation ip) tlss
         (fold (\<lambda>obs s. AddHTTPObservation ip obs True no_attempt s) https s))"

definition ingestGatewayDevice ::
  "(string \<Rightarrow> Evidence option) \<Rightarrow> DeviceIntelScope \<Rightarrow> GatewayDevice \<Rightarrow> IntelStore \<Rightarrow> IntelStore" where
  "ingestGatewayDevice evidenceByID scope gd s0 =
     (let ip = gd_IP gd; key = deviceID ip
      in if ip = [] \<or> \<not> targetAllowed scope ip then s0
         else
           (let s = upsert_with ip
                      (\<lambda>d. if gd_Role gd = ''default_gateway'' then mark_gateway d
                           else if gd_Role gd = ''upstream_private_gateway'' \<or> gd_Role gd = ''possible_cpe''
                             then mark_upstream d
                           else d) s0;
                s = modify_device key (add_evidence_ids (gd_EvidenceIDs gd)) s;
                s = registerEvidenceIDs evidenceByID (stored_id key s) (gd_EvidenceIDs gd) (gd_Confidence gd) s;
                s = add_ports ip (gd_OpenPorts gd) (flit (80 / 100)) (gd_EvidenceIDs gd) s;
                s = add_observations ip (gd_HTTPObservations gd) (gd_TLSObservations gd) (gd_FailedAttempts gd) s
            in modify_device key (gateway_details gd) s))"

definition cpe_details :: "CPECandidate \<Rightarrow> DeviceIntelDevice \<Rightarrow> DeviceIntelDevice" where
  "cpe_details cpe d0 =
     (let m = cpe_ModelFingerprint cpe; u = cpe_UPnP cpe; n = cpe_SNMP cpe;
          d = (if cmf_Vendor m \<noteq> None then set_fp_vendor (cmf_Vendor m) (cmf_Confidence m) d0 else d0);
          d = (if cus_Found u = TriTrue \<or> cus_IGDFound u = TriTrue
               then d\<lparr>did_UPnPInfo := Some \<lparr>upi_Detected = True, upi_DeviceType = [], upi_FriendlyName = [],
                      upi_IGD = (cus_IGDFound u = TriTrue), upi_EvidenceIDs = cpe_EvidenceIDs cpe\<rparr>\<rparr> else d);
          d = (if csn_Status n \<noteq> []
               then d\<lparr>did_SNMPInfo := Some \<lparr>sni_Enabled = csn_Enabled n, sni_Status = csn_Status n,
                      sni_Reason = csn_Reason n, sni_EvidenceIDs = cpe_EvidenceIDs cpe\<rparr>\<rparr> else d)
      in raise_confidence (cpe_Confidence cpe) d)"

definition ingestCPECandidate ::
  "(string \<Rightarrow> Evidence option) \<Rightarrow> DeviceIntelScope \<Rightarrow> CPECandidate \<Rightarrow> IntelStore \<Rightarrow> IntelStore" where
  "ingestCPECandidate evidenceByID scope cpe s0 =
     (let ip = cpe_IP cpe; key = deviceID ip
      in if ip = [] \<or> \<not> targetAllowed scope ip then s0
         else
           (let s = upsert_with ip
                      (\<lambda>d. if cpe_Role cpe = ''default_gateway'' then mark_gateway d else mark_upstream d) s0;
                s = modify_device key (add_evidence_ids (cpe_EvidenceIDs cpe)) s;
                s = registerEvidenceIDs evidenceByID (stored_id key s) (cpe_EvidenceIDs cpe) (cpe_Confidence cpe) s;
                s = add_ports ip (cpe_OpenPorts cpe) (flit (75 / 100)) (cpe_EvidenceIDs cpe) s;
                s = add_observations ip (chs_Observations (cpe_HTTP cpe)) (cts_Certificates (cpe_TLS cpe))
                      (cpe_FailedAttempts cpe) s
            in modify_device key (cpe_details cpe) s))"

definition ingest_context ::
  "(string \<Rightarrow> Evidence option) \<Rightarrow> DeviceIntelScope \<Rightarrow> NetworkContext \<Rightarrow> IntelStore \<Rightarrow> IntelStore" where
  "ingest_context evidenceByID scope ctx s =
     fold (ingestGatewayDevice evidenceByID scope) (nc_GatewayDevices ctx)
       (case nc_GatewayChainState ctx of
          Some chain \<Rightarrow> fold (ingest_hop scope chain) (gc_PrivateHops chain) s
        | None \<Rightarrow> s)"

definition ingestAccessContext ::
  "AccessView option \<Rightarrow> (string \<Rightarrow> Evidence option) \<Rightarrow> DeviceIntelScope \<Rightarrow> IntelStore \<Rightarrow> IntelStore" where
  "ingestAccessContext ac evidenceByID scope s0 =
     (case ac of
        None \<Rightarrow> s0
      | Some v \<Rightarrow>
          (let s = (case av_DetectedNetworkContext v of
                      Some ctx \<Rightarrow> ingest_context evidenceByID scope ctx s0 | None \<Rightarrow> s0)
           in case av_ModemCollection v of
                Some mc \<Rightarrow> fold (ingestCPECandidate evidenceByID scope) (mco_CPECandidates mc) s
              | None \<Rightarrow> s))"

section \<open>Edges\<close>

definition mapEdgeType :: "string \<Rightarrow> string" where
  "mapEdgeType t =
     (if t = EdgeGatewayDefault then DeviceEdgeDefaultGatewayRoute
      else if t = EdgeInferredL2 then DeviceEdgeSameSubnetInferred
      else if t = EdgeRouteHop then DeviceEdgeTracerouteHop
      else if t = EdgeDirectLLDP then DeviceEdgeLLDPPhysicalNeighbor
      else if t = EdgeDirectCDP then DeviceEdgeCDPPhysicalNeighbor
      else if t = EdgeSNMPBridge then DeviceEdgeSNMPBridgeFDB
      else t)"

definition edgeConfidence :: "TopologyEdge \<Rightarrow> float64" where
  "edgeConfidence e =
     (let t = edge_Type e; c = edge_Confidence e
      in if t = EdgeInferredL2 then intel_minFloat c (flit (35 / 100))
         else if t = EdgeGatewayDefault then intel_minFloat (intel_maxFloat c (flit (45 / 100))) (flit (60 / 100))
         else if t = EdgeRouteHop then intel_minFloat (intel_maxFloat c (flit (55 / 100))) (flit (70 / 100))
         else c)"

definition isInferredEdge :: "string \<Rightarrow> bool" where
  "isInferredEdge t = (t \<in> {EdgeGatewayDefault, EdgeInferredL2, EdgeRouteHop})"

definition isPhysicalEdge :: "string \<Rightarrow> bool" where
  "isPhysicalEdge t = (t \<in> {EdgeDirectLLDP, EdgeDirectCDP, EdgeSNMPBridge})"

definition hint_device :: "DeviceIntelEdge \<Rightarrow> string \<Rightarrow> DeviceIntelDevice \<Rightarrow> DeviceIntelDevice" where
  "hint_device e i d =
     (let peer = (if i = die_Target e then die_Source e else die_Target e);
          t = did_Topology d;
          t = t\<lparr>dtf_EdgeHints := dtf_EdgeHints t @
                 [\<lparr>deh_EdgeID = die_ID e, deh_Type = die_Type e, deh_Peer = peer, deh_Confidence = die_Confidence e,
                   deh_ConfidenceLabel = die_ConfidenceLabel e, deh_EvidenceIDs = die_EvidenceIDs e\<rparr>]\<rparr>
      in d\<lparr>did_Topology :=
             (if die_Physical e then t\<lparr>dtf_PhysicalAdjacencyProven := True, dtf_InferredOnly := False\<rparr>
              else if dtf_EdgeHints t \<noteq> [] \<and> \<not> dtf_PhysicalAdjacencyProven t then t\<lparr>dtf_InferredOnly := True\<rparr>
              else t)\<rparr>)"

definition addEdgeHint :: "DeviceIntelEdge \<Rightarrow> IntelStore \<Rightarrow> IntelStore" where
  "addEdgeHint e s =
     fold (\<lambda>i s. modify_device i (hint_device e i) s) [die_Source e, die_Target e] s"

definition convert_edge :: "TopologyEdge \<Rightarrow> DeviceIntelEdge" where
  "convert_edge e =
     \<lparr>die_ID = edge_ID e, die_Source = edge_Source e, die_Target = edge_Target e, die_Type = mapEdgeType (edge_Type e),
      die_Confidence = edgeConfidence e, die_ConfidenceLabel = intel_confidenceLabel (edgeConfidence e),
      die_EvidenceIDs = intel_sortedUnique (edge_EvidenceIDs e), die_Reason = edge_Reason e,
      die_Inferred = isInferredEdge (edge_Type e), die_Physical = isPhysicalEdge (edge_Type e)\<rparr>"

definition edgeKey :: "string \<Rightarrow> string \<Rightarrow> string \<Rightarrow> string" where
  "edgeKey source target typ = source @ ''|'' @ target @ ''|'' @ typ"

definition existingEdgeKeys :: "DeviceIntelEdge list \<Rightarrow> string set" where
  "existingEdgeKeys es = set (map (\<lambda>e. edgeKey (die_Source e) (die_Target e) (die_Type e)) es)"

definition gatewayChainState :: "AccessView option \<Rightarrow> GatewayChainState option" where
  "gatewayChainState ac = Option.bind (Option.bind ac av_DetectedNetworkContext) nc_GatewayChainState"

definition upstream_edge :: "GatewayChainState \<Rightarrow> nat \<Rightarrow> GatewayHop \<Rightarrow> GatewayHop \<Rightarrow> DeviceIntelEdge" where
  "upstream_edge state i a b =
     \<lparr>die_ID = ''di-edge-upstream-'' @ nat_digits (i + 1), die_Source = deviceID (gh_IP a),
      die_Target = deviceID (gh_IP b), die_Type = DeviceEdgeUpstreamPrivate,
      die_Confidence = intel_maxFloat (gc_Confidence state) (flit (60 / 100)),
      die_ConfidenceLabel = intel_confidenceLabel (intel_maxFloat (gc_Confidence state) (flit (60 / 100))),
      die_EvidenceIDs = intel_sortedUnique [gh_EvidenceID a, gh_EvidenceID b],
      die_Reason =
        ''Traceroute observed a later private gateway after the default gateway; this is a path hint, not physical cabling proof.'',
      die_Inferred = True, die_Physical = False\<rparr>"

fun chain_edges ::
  "GatewayChainState \<Rightarrow> nat \<Rightarrow> GatewayHop list \<Rightarrow> string set \<Rightarrow> IntelStore \<Rightarrow> DeviceIntelEdge list \<times> IntelStore" where
  "chain_edges state i (a # b # hops) existing s =
     (let key = edgeKey (deviceID (gh_IP a)) (deviceID (gh_IP b)) DeviceEdgeUpstreamPrivate; e = upstream_edge state i a b
      in if key \<in> existing then chain_edges state (Suc i) (b # hops) existing s
         else case chain_edges state (Suc i) (b # hops) (insert key existing) (addEdgeHint e s) of
                (es, s) \<Rightarrow> (e # es, s))"
| "chain_edges state i hops existing s = ([], s)"

definition gatewayChainEdges ::
  "AccessView option \<Rightarrow> IntelStore \<Rightarrow> string set \<Rightarrow> DeviceIntelEdge list \<times> IntelStore" where
  "gatewayChainEdges ac s existing =
     (case gatewayChainState ac of
        None \<Rightarrow> ([], s)
      | Some state \<Rightarrow> chain_edges state 0 (gc_PrivateHops state) existing s)"

definition intel_edge_before :: "DeviceIntelEdge \<Rightarrow> DeviceIntelEdge \<Rightarrow> bool" where
  "intel_edge_before a b =
     (if die_Source a \<noteq> die_Source b then str_less (die_Source a) (die_Source b)
      else if die_Target a \<noteq> die_Target b then str_less (die_Target a) (die_Target b)
      else str_less (die_Type a) (die_Type b))"

definition convertEdges ::
  "ScanReport \<Rightarrow> AccessView option \<Rightarrow> IntelStore \<Rightarrow> DeviceIntelEdge list \<times> IntelStore" where
  "convertEdges report ac s0 =
     (let out = map convert_edge (rep_Edges report); s = fold addEdgeHint out s0
      in case gatewayChainEdges ac s (existingEdgeKeys out) of
           (chain, s) \<Rightarrow> (sort_by intel_edge_before (out @ chain), s))"

section \<open>Summary and user interface\<close>

definition collectConflicts :: "AccessView option \<Rightarrow> IntelStore \<Rightarrow> DataConflict list" where
  "collectConflicts ac s =
     ins_Conflicts s @
     (case ac of
        None \<Rightarrow> []
      | Some v \<Rightarrow>
          av_Conflicts v @ dq_Conflicts (av_DataQuality v) @
          (case gatewayChainState ac of Some state \<Rightarrow> gc_Conflicts state | None \<Rightarrow> []))"

definition count_if :: "('a \<Rightarrow> bool) \<Rightarrow> 'a list \<Rightarrow> int" where
  "count_if P xs = int (length (filter P xs))"

definition summarize :: "DeviceIntelDevice list \<Rightarrow> DeviceIntelEdge list \<Rightarrow> DeviceIntelSummary" where
  "summarize devices edges =
     \<lparr>dism_DeviceCount = int (length devices),
      dism_GatewayCount = count_if (\<lambda>d. is_gw d \<or> intel_containsString (did_Roles d) RoleGateway \<or>
        intel_containsString (did_Roles d) DeviceRoleUpstreamGateway) devices,
      dism_UnknownDeviceCount = count_if (\<lambda>d. dtg_Primary (did_DeviceType d) = DeviceTypeUnknown) devices,
      dism_ServiceCount = int (sum_list (map (\<lambda>d. length (did_Services d)) devices)),
      dism_HighConfidenceDevices = count_if (\<lambda>d. did_Confidence d \<ge> flit (75 / 100)) devices,
      dism_InferredEdges = count_if die_Inferred edges,
      dism_PhysicalEdges = count_if die_Physical edges,
      dism_SecurityFindingCount = int (sum_list (map (\<lambda>d. length (spo_Findings (did_SecurityPosture d))) devices))\<rparr>"

definition mobileCardLabel :: "MobileClass \<Rightarrow> string" where
  "mobileCardLabel c =
     (case c of
        ConfirmedIOS \<Rightarrow> ''Confirmed iPhone'' | ProbableIOS \<Rightarrow> ''Probable iPhone'' | PossibleIOS \<Rightarrow> ''Possible iPhone''
      | ConfirmedIPadOS \<Rightarrow> ''Confirmed iPad'' | ProbableIPadOS \<Rightarrow> ''Probable iPad'' | PossibleIPadOS \<Rightarrow> ''Possible iPad''
      | ConfirmedAndroid \<Rightarrow> ''Confirmed Android'' | ProbableAndroid \<Rightarrow> ''Probable Android''
      | PossibleAndroid \<Rightarrow> ''Possible Android'' | MobileConflict \<Rightarrow> ''Conflicting mobile OS evidence''
      | UnknownMobile \<Rightarrow> ''Unknown mobile'' | UnknownDevice \<Rightarrow> [])"

definition deviceTitle :: "DeviceIntelDevice \<Rightarrow> string" where
  "deviceTitle d =
     (case did_Hostnames d of
        h # _ \<Rightarrow> h
      | [] \<Rightarrow> (case did_IPAddresses d of ip # _ \<Rightarrow> ip | [] \<Rightarrow> did_ID d))"

definition serviceLabels :: "DeviceIntelService list \<Rightarrow> string list" where
  "serviceLabels services = sort_strings (map serviceLabel services)"

definition evidenceSources :: "DeviceIntelEvidence list \<Rightarrow> string list \<Rightarrow> string list" where
  "evidenceSources evidence ids =
     intel_sortedUnique
       (fold (\<lambda>ev out. intel_appendUnique out [dio_SourceProbe ev]) (filter (\<lambda>ev. dio_ID ev \<in> set ids) evidence) [])"

definition riskNotes :: "SecurityFinding list \<Rightarrow> string list" where
  "riskNotes findings = sort_strings (map sf_Title findings)"

definition device_card :: "DeviceIntelEvidence list \<Rightarrow> DeviceIntelDevice \<Rightarrow> DeviceCard" where
  "device_card evidence d =
     \<lparr>dcd_DeviceID = did_ID d, dcd_Title = deviceTitle d, dcd_Role = str_join (did_Roles d) '' / '',
      dcd_Confidence = did_Confidence d,
      dcd_MACVendor = (case dv_OUIVendor (did_Vendor d) of Some v \<Rightarrow> v | None \<Rightarrow> []),
      dcd_Hostnames = did_Hostnames d,
      dcd_MobileLabel =
        (case did_MobileFingerprint d of Some fp \<Rightarrow> mobileCardLabel (mf_Classification fp) | None \<Rightarrow> []),
      dcd_MobileOSHint = did_OSHint d, dcd_MobileConfidence = did_OSConfidence d,
      dcd_OpenServices = serviceLabels (did_Services d), dcd_DeviceType = dtg_Primary (did_DeviceType d),
      dcd_OSGuess = osg_Family (did_OSGuess d), dcd_LastSeen = did_LastSeen d,
      dcd_EvidenceSources = evidenceSources evidence (did_EvidenceIDs d),
      dcd_RiskNotes = riskNotes (spo_Findings (did_SecurityPosture d)),
      dcd_Explanation = did_ClassificationExplanation d\<rparr>"

definition intel_buildUI ::
  "DeviceIntelSummary \<Rightarrow> DeviceIntelDevice list \<Rightarrow> DeviceIntelEvidence list \<Rightarrow> DeviceIntelUI" where
  "intel_buildUI summary devices evidence =
     \<lparr>dui_Headline = itoa (dism_DeviceCount summary) @ '' private/local devices observed'',
      dui_Badges = [''read-only'', ''private-scope'', ''no-login'', ''no-bruteforce''],
      dui_DeviceCards = map (device_card evidence) devices,
      dui_TopologyNotes =
        [''Same-subnet and default-route links are inferred unless LLDP/CDP/SNMP bridge evidence is present.'',
         ''Upstream private gateways are path candidates from traceroute/private-hop evidence, not physical WAN proof.'']\<rparr>"

section \<open>The report\<close>

definition intel_notes :: "string list" where
  "intel_notes =
     [''Default device intelligence probes are read-only and limited to private/local targets.'',
      ''SNMP, SSH, router APIs, TR-064, TR-181, and authenticated APIs require explicit user opt-in credentials.'',
      ''No login forms, credential guessing, exploit checks, configuration changes, or print jobs are attempted.'']"

definition intel_undetermined :: "string list" where
  "intel_undetermined =
     [''Exact WAN access type requires direct physical-layer CPE evidence or opt-in router/modem telemetry.'',
      ''Physical cable or Wi-Fi association topology requires LLDP/CDP/SNMP bridge/FDB or controller data.'',
      ''Device model and OS remain Unknown when only generic banners, MAC OUI, latency, PTR, or open ports are observed.'']"

text \<open>The store before the classification, with the edges.\<close>

definition intel_ingest ::
  "(nat \<Rightarrow> gotime) \<Rightarrow> ScanReport \<Rightarrow> AccessView option \<Rightarrow> DeviceIntelEdge list \<times> IntelStore" where
  "intel_ingest now report ac =
     (let created = rep_CreatedAt report;
          s = intel_NewEvidenceStore (\<lambda>n. if \<not> is_zero_time created then created else now n);
          evidenceByID = evidenceIndex (rep_Evidence report); scope = intel_buildScope report ac;
          s = ingestTopologyDevices report evidenceByID scope s;
          s = ingestEvidenceRecords report scope s;
          s = ingestAccessContext ac evidenceByID scope s
      in convertEdges report ac s)"

text \<open>\<open>now\<close> and \<open>clock\<close> are the system clock of the store and of the mobile fingerprint engine.\<close>

definition intel_Build ::
  "(nat \<Rightarrow> gotime) \<Rightarrow> (string \<Rightarrow> gotime) \<Rightarrow> ScanReport \<Rightarrow> AccessView option \<Rightarrow> DeviceIntelReport" where
  "intel_Build now clock report ac =
     (case intel_ingest now report ac of
        (edges, s0) \<Rightarrow>
          (let s = classifyAllWithEvidence clock (rep_Evidence report) s0; devices = DeviceList s;
               summary = summarize devices edges
           in \<lparr>dir_SchemaVersion = DeviceIntelSchema, dir_ScanID = rep_ScanID report,
               dir_CreatedAt = rep_CreatedAt report, dir_Scope = intel_buildScope report ac, dir_Summary = summary,
               dir_Devices = devices, dir_Edges = edges, dir_Evidence = ins_Observations s,
               dir_Conflicts = collectConflicts ac s, dir_Warnings = rep_Warnings report,
               dir_UI = intel_buildUI summary devices (ins_Observations s), dir_SecurityNotes = intel_notes,
               dir_Undetermined = intel_undetermined\<rparr>))"

end
