(* ===== verification/Intel_Probes.thy ===== *)
theory Intel_Probes
  imports Intel_Classify
begin

text \<open>
  \<open>agent/internal/deviceintel/probes.go\<close>, \<open>pipeline.go\<close> and the results of \<open>types.go\<close>: the probes of the
  device intelligence and the pipeline that runs them. The network is a parameter: what a connection,
  a request or a handshake returns is a function of its address. \<open>strings.ToLower\<close> is a parameter of
  the two functions that use a position in the lowered text as a position in the text itself, since
  lowering may change the length of a text that is not ASCII; \<open>None\<close> is the panic of a slice that is
  out of range.
\<close>

section \<open>Results\<close>

record IntelObservation =
  iob_ID :: string
  iob_DeviceID :: string
  iob_IP :: string
  iob_SourceProbe :: string
  iob_Kind :: string
  iob_Confidence :: float64
  iob_Timestamp :: gotime
  iob_SafeToDisplay :: bool

record IntelProbeResult =
  ipr_ProbeName :: string
  ipr_Status :: string
  ipr_Observations :: "IntelObservation list"
  ipr_SkippedTargets :: "string list"
  ipr_Errors :: "string list"
  ipr_StartedAt :: gotime
  ipr_FinishedAt :: gotime

definition StatusSuccess :: string where "StatusSuccess = ''success''"
definition StatusSkipped :: string where "StatusSkipped = ''skipped''"

definition probe_observation :: "string \<Rightarrow> string \<Rightarrow> string \<Rightarrow> string \<Rightarrow> float64 \<Rightarrow> gotime \<Rightarrow> IntelObservation" where
  "probe_observation i ip source kind confidence start =
     \<lparr>iob_ID = i, iob_DeviceID = deviceID ip, iob_IP = ip, iob_SourceProbe = source, iob_Kind = kind,
      iob_Confidence = confidence, iob_Timestamp = start, iob_SafeToDisplay = True\<rparr>"

definition failed_attempt :: "string \<Rightarrow> string \<Rightarrow> int \<Rightarrow> string \<Rightarrow> string \<Rightarrow> string \<Rightarrow> bool \<Rightarrow> ProbeAttempt" where
  "failed_attempt source ip port url method err timeout =
     \<lparr>pa_Source = source, pa_Target = ip, pa_Protocol = ''tcp'', pa_Port = port, pa_URL = url, pa_Method = method,
      pa_Error = err, pa_Timeout = timeout, pa_EvidenceID = []\<rparr>"

definition says_timeout :: "string \<Rightarrow> bool" where
  "says_timeout err = str_contains (to_lower err) ''timeout''"

text \<open>The state of a probe that runs: the store, its observations and the targets it skipped.\<close>

type_synonym probe_state = "IntelStore \<times> IntelObservation list \<times> string list"

text \<open>The loop over the targets that all three probes have.\<close>

definition probe_targets ::
  "IntelScope \<Rightarrow> (string \<Rightarrow> probe_state \<Rightarrow> probe_state option) \<Rightarrow> IntelStore \<Rightarrow> probe_state option" where
  "probe_targets scope probe s =
     fold (\<lambda>ip acc. Option.bind acc (\<lambda>(s, obs, skipped).
             if \<not> ShouldProbeTarget scope ip then Some (s, obs, skipped @ [ip]) else probe ip (s, obs, skipped)))
       (isc_Targets scope) (Some (s, [], []))"

definition probe_result ::
  "string \<Rightarrow> gotime \<Rightarrow> gotime \<Rightarrow> probe_state \<Rightarrow> IntelProbeResult \<times> IntelStore" where
  "probe_result name start done_at st =
     (case st of (s, obs, skipped) \<Rightarrow>
        (\<lparr>ipr_ProbeName = name, ipr_Status = (if obs = [] \<and> skipped \<noteq> [] then StatusSkipped else StatusSuccess),
          ipr_Observations = obs, ipr_SkippedTargets = skipped, ipr_Errors = [], ipr_StartedAt = start,
          ipr_FinishedAt = done_at\<rparr>, s))"

section \<open>Connections\<close>

text \<open>A dialler returns \<open>None\<close>, or the text of the error and whether the time of the attempt is over.\<close>

definition tcp_name :: string where "tcp_name = ''device_intel_tcp_sweep''"

definition tcp_port ::
  "(string \<Rightarrow> int \<Rightarrow> (string \<times> bool) option) \<Rightarrow> gotime \<Rightarrow> string \<Rightarrow> int \<Rightarrow> probe_state \<Rightarrow> probe_state" where
  "tcp_port dial start ip port st =
     (case st of (s, obs, skipped) \<Rightarrow>
        (case dial ip port of
           Some (err, deadline) \<Rightarrow>
             (AddFailedAttempt ip (failed_attempt tcp_name ip port [] [] err (says_timeout err \<or> deadline)) s, obs, skipped)
         | None \<Rightarrow>
             (case intel_AddObservation ip tcp_name ''tcp_connect''
                 [(''ip'', A_string ip), (''port'', A_int port), (''protocol'', A_string ''tcp'')]
                 [(''state'', A_string ''open''), (''service'', A_string (intel_serviceName port))] (flit (75 / 100)) [] s of
                (i, s) \<Rightarrow>
                  (AddService ip
                     \<lparr>dis_Port = port, dis_Protocol = ''tcp'', dis_State = ''open'', dis_Name = intel_serviceName port,
                      dis_Product = [], dis_Version = [], dis_Banner = [], dis_Confidence = flit (75 / 100),
                      dis_EvidenceIDs = [i]\<rparr> s,
                   obs @ [probe_observation i ip tcp_name ''tcp_connect'' (flit (75 / 100)) start], skipped))))"

definition SafeTCPProbe_Run ::
  "(string \<Rightarrow> int \<Rightarrow> (string \<times> bool) option) \<Rightarrow> int list \<Rightarrow> gotime \<Rightarrow> gotime \<Rightarrow> IntelScope \<Rightarrow> IntelStore \<Rightarrow>
   (IntelProbeResult \<times> IntelStore) option" where
  "SafeTCPProbe_Run dial ports0 start done_at scope s =
     (let ports = (if ports0 = [] then SafeTCPPorts else ports0)
      in map_option (probe_result tcp_name start done_at)
           (probe_targets scope (\<lambda>ip st. Some (fold (tcp_port dial start ip) ports st)) s))"

section \<open>Requests\<close>

definition slice :: "nat \<Rightarrow> nat \<Rightarrow> string \<Rightarrow> string option" where
  "slice a b s = (if a \<le> b \<and> b \<le> length s then Some (drop a (take b s)) else None)"

definition htmlTitle :: "(string \<Rightarrow> string) \<Rightarrow> string \<Rightarrow> string option" where
  "htmlTitle lower_text body =
     (let lower = lower_text body
      in case str_index lower ''<title'' of
           None \<Rightarrow> Some []
         | Some p \<Rightarrow>
             (case str_index (drop p lower) ''>'' of
                None \<Rightarrow> Some []
              | Some n \<Rightarrow>
                  (case str_index (drop (p + n + 1) lower) ''</title>'' of
                     None \<Rightarrow> Some []
                   | Some m \<Rightarrow> map_option trim_space (slice (p + n + 1) (p + n + 1 + m) body))))"

definition trim_quotes :: "string \<Rightarrow> string" where
  "trim_quotes s = rev (dropWhile ((=) CHR 0x22) (rev (dropWhile ((=) CHR 0x22) s)))"

definition authRealm :: "(string \<Rightarrow> string) \<Rightarrow> string \<Rightarrow> string option" where
  "authRealm lower_text header =
     (case str_index (lower_text header) ''realm='' of
        None \<Rightarrow> Some []
      | Some p \<Rightarrow>
          map_option (\<lambda>rest.
              let value = trim_quotes (trim_space rest)
              in trim_quotes (case str_index value '','' of Some comma \<Rightarrow> take comma value | None \<Rightarrow> value))
            (slice (p + 6) (length header) header))"

record HTTPResponse =
  hr_Method :: string
  hr_StatusCode :: int
  hr_Server :: string
  hr_WWWAuthenticate :: string
  hr_Location :: string
  hr_Body :: string

text \<open>A request that cannot be built fails with the same error for both methods.\<close>

definition httpProbeOnce ::
  "(string \<Rightarrow> string) \<Rightarrow> (string \<Rightarrow> string \<Rightarrow> string + HTTPResponse) \<Rightarrow> string \<Rightarrow> (string + HTTPObservation) option" where
  "httpProbeOnce lower_text send url =
     (let resp = (case send ''HEAD'' url of
                    Inl err \<Rightarrow> send ''GET'' url
                  | Inr r \<Rightarrow> if hr_StatusCode r = 405 then send ''GET'' url else Inr r)
      in case resp of
           Inl err \<Rightarrow> Some (Inl err)
         | Inr r \<Rightarrow>
             Option.bind (authRealm lower_text (hr_WWWAuthenticate r)) (\<lambda>realm.
             map_option (\<lambda>title. Inr
                 \<lparr>ho_Source = [], ho_URL = [], ho_Method = hr_Method r, ho_StatusCode = hr_StatusCode r, ho_Title = title,
                  ho_ServerHeader = hr_Server r, ho_WWWAuthenticate = hr_WWWAuthenticate r, ho_WWWAuthRealm = realm,
                  ho_RedirectLocation = hr_Location r, ho_RedirectPath = [], ho_FaviconHash = [],
                  ho_HTMLMetaGenerator = [], ho_LoginLabels = [], ho_EvidenceID = []\<rparr>)
               (htmlTitle lower_text (take (64 * 1024) (hr_Body r)))))"

definition http_name :: string where "http_name = ''device_intel_http_fingerprint''"

definition join_host_port :: "string \<Rightarrow> int \<Rightarrow> string" where
  "join_host_port host port =
     (if CHR '':'' \<in> set host then ''['' @ host @ '']:'' @ itoa port else host @ '':'' @ itoa port)"

definition http_url :: "string \<Rightarrow> int \<Rightarrow> string" where
  "http_url ip port = (if port = 443 \<or> port = 8443 then ''https'' else ''http'') @ ''://'' @ join_host_port ip port"

definition http_port ::
  "(string \<Rightarrow> string) \<Rightarrow> (string \<Rightarrow> string \<Rightarrow> string + HTTPResponse) \<Rightarrow> gotime \<Rightarrow> string \<Rightarrow> int \<Rightarrow> probe_state \<Rightarrow>
   probe_state option" where
  "http_port lower_text send start ip port st =
     (case st of (s, obs, skipped) \<Rightarrow>
        map_option (\<lambda>res. case res of
            Inl err \<Rightarrow>
              (AddFailedAttempt ip
                 (failed_attempt http_name ip port (http_url ip port) ''HEAD'' err (says_timeout err)) s, obs, skipped)
          | Inr o0 \<Rightarrow>
              (case intel_AddObservation ip http_name ''http_fingerprint''
                  [(''url'', A_string (http_url ip port)), (''status_code'', A_int (ho_StatusCode o0)),
                   (''server'', A_string (ho_ServerHeader o0))]
                  [(''title'', A_string (ho_Title o0)), (''server'', A_string (ho_ServerHeader o0)),
                   (''realm'', A_string (ho_WWWAuthRealm o0))] (flit (80 / 100)) [] s of
                 (i, s) \<Rightarrow>
                   (AddHTTPObservation ip
                      (o0\<lparr>ho_Source := http_name, ho_URL := http_url ip port, ho_EvidenceID := i\<rparr>) True
                      (failed_attempt [] [] 0 [] [] [] False) s,
                    obs @ [probe_observation i ip http_name ''http_fingerprint'' (flit (80 / 100)) start], skipped)))
          (httpProbeOnce lower_text send (http_url ip port)))"

definition HTTPFingerprintProbe_Run ::
  "(string \<Rightarrow> string) \<Rightarrow> (string \<Rightarrow> string \<Rightarrow> string + HTTPResponse) \<Rightarrow> gotime \<Rightarrow> gotime \<Rightarrow> IntelScope \<Rightarrow> IntelStore \<Rightarrow>
   (IntelProbeResult \<times> IntelStore) option" where
  "HTTPFingerprintProbe_Run lower_text send start done_at scope s =
     map_option (probe_result http_name start done_at)
       (probe_targets scope
          (\<lambda>ip st. fold (\<lambda>port acc. Option.bind acc (http_port lower_text send start ip port))
                     [80, 443, 8080, 8443] (Some st)) s)"

section \<open>Certificates\<close>

record TLSCertificate =
  crt_CN :: string
  crt_DNSNames :: "string list"
  crt_Issuer :: string

definition tls_name :: string where "tls_name = ''device_intel_tls_fingerprint''"

definition tls_port ::
  "(string \<Rightarrow> int \<Rightarrow> string + TLSCertificate list) \<Rightarrow> gotime \<Rightarrow> string \<Rightarrow> int \<Rightarrow> probe_state \<Rightarrow> probe_state" where
  "tls_port dialTLS start ip port st =
     (case st of (s, obs, skipped) \<Rightarrow>
        (case dialTLS ip port of
           Inl err \<Rightarrow>
             (AddFailedAttempt ip (failed_attempt tls_name ip port [] [] err (says_timeout err)) s, obs, skipped)
         | Inr [] \<Rightarrow> st
         | Inr (cert # _) \<Rightarrow>
             (case intel_AddObservation ip tls_name ''tls_fingerprint''
                 [(''ip'', A_string ip), (''port'', A_int port), (''cn'', A_string (crt_CN cert)),
                  (''issuer'', A_string (crt_Issuer cert))]
                 [(''sans'', A_string (str_join (crt_DNSNames cert) '',''))] (flit (80 / 100)) [] s of
                (i, s) \<Rightarrow>
                  (AddTLSObservation ip
                     \<lparr>to_Source = tls_name, to_IP = ip, to_Port = port, to_CN = crt_CN cert, to_SANs = crt_DNSNames cert,
                      to_Issuer = crt_Issuer cert, to_ServerName = [], to_EvidenceID = i\<rparr> s,
                   obs @ [probe_observation i ip tls_name ''tls_fingerprint'' (flit (80 / 100)) start], skipped))))"

definition TLSFingerprintProbe_Run ::
  "(string \<Rightarrow> int \<Rightarrow> string + TLSCertificate list) \<Rightarrow> gotime \<Rightarrow> gotime \<Rightarrow> IntelScope \<Rightarrow> IntelStore \<Rightarrow>
   (IntelProbeResult \<times> IntelStore) option" where
  "TLSFingerprintProbe_Run dialTLS start done_at scope s =
     map_option (probe_result tls_name start done_at)
       (probe_targets scope (\<lambda>ip st. Some (fold (tls_port dialTLS start ip) [443, 8443] st)) s)"

section \<open>Opt-in probes and the pipeline\<close>

record OptInProbe =
  oip_ProbeName :: string
  oip_Kind :: string
  oip_Allowed :: "(IntelScope \<Rightarrow> bool) option"

definition OptInProbe_Run ::
  "OptInProbe \<Rightarrow> gotime \<Rightarrow> gotime \<Rightarrow> IntelScope \<Rightarrow> IntelStore \<Rightarrow> (IntelProbeResult \<times> IntelStore) option" where
  "OptInProbe_Run p start done_at scope s =
     (let allowed = (case oip_Allowed p of Some f \<Rightarrow> f scope | None \<Rightarrow> False)
      in Some
           (\<lparr>ipr_ProbeName = oip_ProbeName p, ipr_Status = StatusSkipped, ipr_Observations = [],
             ipr_SkippedTargets = (if allowed then [] else isc_Targets scope),
             ipr_Errors = [oip_Kind p @ (if allowed then '' opt-in transport is not wired in this build.''
                                         else '' requires explicit opt-in credentials.'')],
             ipr_StartedAt = start, ipr_FinishedAt = done_at\<rparr>, s))"

definition SNMPOptInProbe :: OptInProbe where
  "SNMPOptInProbe = \<lparr>oip_ProbeName = ''device_intel_snmp_optin'', oip_Kind = ''SNMP'', oip_Allowed = Some SNMPAllowed\<rparr>"

definition SSHBannerOptInProbe :: OptInProbe where
  "SSHBannerOptInProbe =
     \<lparr>oip_ProbeName = ''device_intel_ssh_optin'', oip_Kind = ''SSH banner/authenticated SSH'', oip_Allowed = Some SSHAllowed\<rparr>"

definition TR064OptInProbe :: OptInProbe where
  "TR064OptInProbe = \<lparr>oip_ProbeName = ''device_intel_tr064_optin'', oip_Kind = ''TR-064'', oip_Allowed = Some TR064Allowed\<rparr>"

definition TR181OptInProbe :: OptInProbe where
  "TR181OptInProbe = \<lparr>oip_ProbeName = ''device_intel_tr181_optin'', oip_Kind = ''TR-181'', oip_Allowed = Some TR181Allowed\<rparr>"

definition RouterAPIOptInProbe :: OptInProbe where
  "RouterAPIOptInProbe =
     \<lparr>oip_ProbeName = ''device_intel_router_api_optin'', oip_Kind = ''router API'', oip_Allowed = Some RouterAPIAllowed\<rparr>"

text \<open>A probe is what its \<open>Run\<close> does; a nil interface is \<open>None\<close>.\<close>

type_synonym probe_run = "IntelScope \<Rightarrow> IntelStore \<Rightarrow> (IntelProbeResult \<times> IntelStore) option"

definition CredentialedOptInProbes :: "gotime \<Rightarrow> gotime \<Rightarrow> probe_run option list" where
  "CredentialedOptInProbes start done_at =
     map (\<lambda>p. Some (OptInProbe_Run p start done_at))
       [SNMPOptInProbe, SSHBannerOptInProbe, RouterAPIOptInProbe, TR064OptInProbe, TR181OptInProbe]"

definition DefaultReadOnlyProbes ::
  "(string \<Rightarrow> int \<Rightarrow> (string \<times> bool) option) \<Rightarrow> (string \<Rightarrow> string) \<Rightarrow> (string \<Rightarrow> string \<Rightarrow> string + HTTPResponse) \<Rightarrow>
   (string \<Rightarrow> int \<Rightarrow> string + TLSCertificate list) \<Rightarrow> gotime \<Rightarrow> gotime \<Rightarrow> probe_run option list" where
  "DefaultReadOnlyProbes dial lower_text send dialTLS start done_at =
     [Some (SafeTCPProbe_Run dial [] start done_at), Some (HTTPFingerprintProbe_Run lower_text send start done_at),
      Some (TLSFingerprintProbe_Run dialTLS start done_at)]"

definition NewPipeline :: "probe_run option list \<Rightarrow> probe_run option list \<Rightarrow> probe_run option list" where
  "NewPipeline defaults probes = (if probes = [] then defaults else probes)"

fun run_probes ::
  "probe_run option list \<Rightarrow> IntelScope \<Rightarrow> IntelStore \<Rightarrow> (IntelStore \<times> IntelProbeResult list) option" where
  "run_probes [] scope s = Some (s, [])"
| "run_probes (None # ps) scope s = run_probes ps scope s"
| "run_probes (Some p # ps) scope s =
     (case p scope s of
        None \<Rightarrow> None
      | Some (r, s) \<Rightarrow> map_option (\<lambda>(s, rs). (s, r # rs)) (run_probes ps scope s))"

definition Pipeline_Run ::
  "probe_run option list \<Rightarrow> (nat \<Rightarrow> gotime) \<Rightarrow> (string \<Rightarrow> gotime) \<Rightarrow> IntelScope \<Rightarrow>
   (IntelStore \<times> IntelProbeResult list) option" where
  "Pipeline_Run probes now clock scope =
     map_option (\<lambda>(s, results). (classifyAll clock s, results))
       (run_probes probes scope (intel_NewEvidenceStore now))"

end
