(* ===== verification/Upstream_Enrich.thy ===== *)
theory Upstream_Enrich
  imports Upstream_Path Intel_Build Intel_Probes
begin

text \<open>
  \<open>agent/internal/upstream/enrich.go\<close>: the phase that probes the private gateways and upstream devices
  of a scan, and \<open>attachUpstreamIntel\<close> of \<open>cmd/iad-agent/commands.go\<close>, which puts the results on the
  devices. The network is the record \<open>UpNet\<close> of what the system, the dialer, the HTTP client and the
  TLS client answer for an address. The targets are probed concurrently, each result goes to its own
  key of a map: the model probes them in the order of the sorted list. \<open>None\<close> is a panic.
\<close>

section \<open>Targets\<close>

definition safeUpstreamPorts :: "int list" where
  "safeUpstreamPorts = [80, 443, 8080, 8443, 7547, 53, 22, 23]"

record up_target =
  ut_ip :: string
  ut_isDefaultGateway :: bool
  ut_inGatewayChain :: bool
  ut_hopIndex :: int
  ut_hopDistance :: int
  ut_doubleNATHint :: bool
  ut_macVendor :: string
  ut_hasUPnPRoot :: bool

definition new_target :: "string \<Rightarrow> up_target" where
  "new_target ip =
     \<lparr>ut_ip = ip, ut_isDefaultGateway = False, ut_inGatewayChain = False, ut_hopIndex = 0, ut_hopDistance = 0,
      ut_doubleNATHint = False, ut_macVendor = [], ut_hasUPnPRoot = False\<rparr>"

definition add_target :: "string \<Rightarrow> (up_target \<Rightarrow> up_target) \<Rightarrow> (string \<times> up_target) list \<Rightarrow> (string \<times> up_target) list" where
  "add_target ip0 mutate seen =
     (let ip = trim_space ip0
      in if ip = [] \<or> \<not> IsPrivateIPString ip then seen
         else alist_set ip (mutate (case map_of seen ip of Some t \<Rightarrow> t | None \<Rightarrow> new_target ip)) seen)"

definition ssdpTargets :: "ScanReport \<Rightarrow> string list" where
  "ssdpTargets report =
     remdups (filter (\<lambda>ip. ip \<noteq> [])
       (map (\<lambda>ev. trim_space (data_get (tev_Data ev) ''ip''))
         (filter (\<lambda>ev. equal_fold (tev_Kind ev) ''ssdp'') (rep_Evidence report))))"

definition add_hop :: "string \<Rightarrow> GatewayChainState \<Rightarrow> GatewayHop \<Rightarrow> (string \<times> up_target) list \<Rightarrow> (string \<times> up_target) list" where
  "add_hop defaultGW st h =
     add_target (gh_IP h) (\<lambda>t. t\<lparr>ut_inGatewayChain := True, ut_hopIndex := gh_Order h, ut_hopDistance := gh_Order h,
         ut_doubleNATHint := gc_InternalDoubleNATPossible st,
         ut_isDefaultGateway := gh_Role h = ''default_gateway'' \<or> gh_IP h = defaultGW \<or> ut_isDefaultGateway t\<rparr>)"

definition add_gateway_device :: "string \<Rightarrow> GatewayDevice \<Rightarrow> (string \<times> up_target) list \<Rightarrow> (string \<times> up_target) list" where
  "add_gateway_device defaultGW g =
     add_target (gd_IP g) (\<lambda>t. t\<lparr>ut_macVendor := (if gd_MACVendor g \<noteq> [] then gd_MACVendor g else ut_macVendor t),
         ut_hasUPnPRoot := gd_UPnPFound g \<or> gd_UPnPIGDFound g \<or> ut_hasUPnPRoot t,
         ut_isDefaultGateway := gd_Role g = ''default_gateway'' \<or> gd_IP g = defaultGW \<or> ut_isDefaultGateway t\<rparr>)"

text \<open>The part that needs the result of the access scan: the default gateway known so far, and the targets.\<close>

definition context_targets :: "NetworkContext \<Rightarrow> string \<Rightarrow> string \<times> (string \<times> up_target) list" where
  "context_targets ctx gw0 =
     (let gw = (if gw0 = [] then nc_Gateway ctx else gw0);
          (gw, seen) =
            (case nc_GatewayChainState ctx of
               None \<Rightarrow> (gw, [])
             | Some st \<Rightarrow>
                 (let gw = (if gw = [] then gc_DefaultGateway st else gw)
                  in (gw, fold (add_hop gw st) (gc_PrivateHops st) [])))
      in (gw, fold (add_gateway_device gw) (nc_GatewayDevices ctx) seen))"

definition collectTargets :: "ScanReport \<Rightarrow> AccessView option \<Rightarrow> up_target list" where
  "collectTargets report ac =
     (let (gw, seen) =
            (case Option.bind ac av_DetectedNetworkContext of
               None \<Rightarrow> (agi_Gateway (rep_Agent report), [])
             | Some ctx \<Rightarrow> context_targets ctx (agi_Gateway (rep_Agent report)));
          seen = (if gw \<noteq> [] then add_target gw (\<lambda>t. t\<lparr>ut_isDefaultGateway := True\<rparr>) seen else seen);
          seen = fold (\<lambda>ip. add_target ip (\<lambda>t. t\<lparr>ut_hasUPnPRoot := True\<rparr>)) (ssdpTargets report) seen
      in sort_by (\<lambda>a b. str_less (ut_ip a) (ut_ip b)) (map snd seen))"

definition agentSubnet :: "ScanReport \<Rightarrow> IPNet option" where
  "agentSubnet report =
     (let cidr = trim_space (scp_CIDR (rep_Scope report))
      in if cidr = [] then None else map_option snd (parse_cidr cidr))"

section \<open>The network\<close>

record UpNet =
  un_goos :: string
  un_ping :: run_ping
  un_connect :: "string \<Rightarrow> int \<Rightarrow> float64 option"
  un_send :: "string \<Rightarrow> string \<Rightarrow> int \<Rightarrow> string + HTTPResponse"
  un_tls :: "string \<Rightarrow> int \<Rightarrow> TLSCertificate list option"

text \<open>\<open>tcpConnect\<close>: whether the port is open, and the latency in milliseconds.\<close>

definition tcpConnect :: "UpNet \<Rightarrow> string \<Rightarrow> int \<Rightarrow> float64 option" where
  "tcpConnect net ip port = un_connect net ip port"

record httpObs =
  hob_URL :: string
  hob_Method :: string
  hob_ServerHeader :: string
  hob_WWWAuthenticate :: string
  hob_WWWAuthRealm :: string
  hob_RedirectLocation :: string
  hob_Title :: string
  hob_Body :: string
  hob_StatusCode :: int

text \<open>
  \<open>un_send method ip port\<close> is the answer to a request for the root of the web server there.
  \<open>htmlTitle\<close> and \<open>authRealm\<close> are the functions of \<open>deviceintel/probes.go\<close>, word for word.
\<close>

definition up_htmlTitle :: "(string \<Rightarrow> string) \<Rightarrow> string \<Rightarrow> string option" where
  "up_htmlTitle = Intel_Probes.htmlTitle"

definition up_authRealm :: "(string \<Rightarrow> string) \<Rightarrow> string \<Rightarrow> string option" where
  "up_authRealm = Intel_Probes.authRealm"

definition httpFingerprint ::
  "(string \<Rightarrow> string) \<Rightarrow> UpNet \<Rightarrow> string \<Rightarrow> int \<Rightarrow> string \<Rightarrow> (string + httpObs) option" where
  "httpFingerprint lower_text net ip port scheme =
     (let url = scheme @ ''://'' @ join_host_port ip port;
          resp = (case un_send net ''HEAD'' ip port of
                    Inl err \<Rightarrow> un_send net ''GET'' ip port
                  | Inr r \<Rightarrow> if hr_StatusCode r = 405 then un_send net ''GET'' ip port else Inr r)
      in case resp of
           Inl err \<Rightarrow> Some (Inl err)
         | Inr r \<Rightarrow>
             (let body = take (64 * 1024) (hr_Body r)
              in Option.bind (up_authRealm lower_text (hr_WWWAuthenticate r)) (\<lambda>realm.
                 map_option (\<lambda>title. Inr
                     \<lparr>hob_URL = url, hob_Method = hr_Method r, hob_ServerHeader = hr_Server r,
                      hob_WWWAuthenticate = hr_WWWAuthenticate r, hob_WWWAuthRealm = realm,
                      hob_RedirectLocation = hr_Location r, hob_Title = title, hob_Body = body,
                      hob_StatusCode = hr_StatusCode r\<rparr>)
                   (up_htmlTitle lower_text body))))"

text \<open>A handshake that fails and one without a certificate are errors.\<close>

definition tlsFingerprint :: "UpNet \<Rightarrow> string \<Rightarrow> int \<Rightarrow> TLSCertificate option" where
  "tlsFingerprint net ip port = (case un_tls net ip port of Some (cert # _) \<Rightarrow> Some cert | _ \<Rightarrow> None)"

definition mergeVendor :: "VendorResult \<Rightarrow> VendorResult \<Rightarrow> VendorResult" where
  "mergeVendor a b =
     a\<lparr>vr_Vendor := (if vr_Vendor a = [] then vr_Vendor b else vr_Vendor a),
       vr_RouterLike := vr_RouterLike a \<or> vr_RouterLike b, vr_AdminPanel := vr_AdminPanel a \<or> vr_AdminPanel b,
       vr_ONT := vr_ONT a \<or> vr_ONT b, vr_Modem := vr_Modem a \<or> vr_Modem b,
       vr_Hints := up_appendUnique (vr_Hints a) (vr_Hints b)\<rparr>"

definition pruneEmpty :: "(string \<times> string) list \<Rightarrow> (string \<times> string) list" where
  "pruneEmpty m = filter (\<lambda>(k, v). trim_space v \<noteq> []) m"

definition itoaPtr :: "int option \<Rightarrow> string" where
  "itoaPtr v = (case v of Some n \<Rightarrow> itoa n | None \<Rightarrow> [])"

definition ftoaPtr :: "float64 option \<Rightarrow> string" where
  "ftoaPtr v = (case v of Some x \<Rightarrow> format_1dp x | None \<Rightarrow> [])"

section \<open>One target\<close>

record IntelResult =
  ir_IP :: string
  ir_Reachability :: DeviceReachability
  ir_Classification :: UpstreamClassification
  ir_Routing :: RoutingEvidence
  ir_Warnings :: "string list"
  ir_Evidence :: "Evidence list"

definition ev_ip :: "string \<Rightarrow> string" where
  "ev_ip ip = map (\<lambda>c. if c = CHR ''.'' \<or> c = CHR '':'' then CHR ''-'' else c) ip"

definition up_evidence_id :: "string \<Rightarrow> string \<Rightarrow> nat \<Rightarrow> string" where
  "up_evidence_id ip kind idx = ''up-ev-'' @ kind @ ''-'' @ ev_ip ip @ ''-'' @ nat_digits idx"

text \<open>\<open>addEv\<close>: the index of an evidence record is its position, from one on.\<close>

definition add_ev ::
  "gotime \<Rightarrow> string \<Rightarrow> string \<Rightarrow> (string \<times> string) list \<Rightarrow> Evidence list \<Rightarrow> Evidence list" where
  "add_ev now ip kind data evs =
     evs @ [\<lparr>tev_ID = up_evidence_id ip kind (Suc (length evs)), tev_Kind = kind, tev_Source = ''upstream_enrichment'',
             tev_Summary = [], tev_Data = data, tev_Timestamp = now\<rparr>]"

definition ping_step ::
  "UpNet \<Rightarrow> bool \<Rightarrow> gotime \<Rightarrow> string \<Rightarrow> DeviceReachability \<Rightarrow> DeviceReachability \<times> string list \<times> Evidence list" where
  "ping_step net enabled now ip reach =
     (if \<not> enabled then (reach, [], [])
      else case Ping (un_goos net) (un_ping net) ip of (pr, err) \<Rightarrow>
        (let warnings =
               (case err of
                  Some e \<Rightarrow> if pg_Reachable pr then []
                    else [''ICMP ping to '' @ ip @ '' failed or was blocked: '' @ e @ '' '' @ em_dash @
                          '' falling back to TCP reachability.'']
                | None \<Rightarrow> [])
         in if pg_Reachable pr
            then (reach\<lparr>dr_ICMP := True, dr_Method := ''icmp_ping'', dr_AvgLatencyMs := pg_AvgMs pr,
                    dr_MinLatencyMs := pg_MinMs pr, dr_MaxLatencyMs := pg_MaxMs pr, dr_TTL := pg_TTL pr,
                    dr_PacketLoss := pg_LossPct pr\<rparr>, warnings,
                  add_ev now ip ''icmp_echo'' (pruneEmpty [(''ip'', ip), (''status'', ''reply''),
                    (''ttl'', itoaPtr (pg_TTL pr)), (''latency_ms'', ftoaPtr (pg_AvgMs pr)),
                    (''packet_loss'', ftoaPtr (pg_LossPct pr))]) [])
            else (reach, warnings, add_ev now ip ''icmp_echo'' [(''ip'', ip), (''status'', ''timeout'')] [])))"

definition best_latency :: "float64 option \<Rightarrow> float64 \<Rightarrow> float64 option" where
  "best_latency best latency =
     (case best of None \<Rightarrow> Some latency | Some b \<Rightarrow> if latency < b then Some latency else best)"

fun sweep_ports :: "UpNet \<Rightarrow> string \<Rightarrow> int list \<Rightarrow> int list \<times> float64 option \<Rightarrow> int list \<times> float64 option" where
  "sweep_ports net ip [] acc = acc"
| "sweep_ports net ip (port # ports) (opened, best) =
     sweep_ports net ip ports
       (case tcpConnect net ip port of
          None \<Rightarrow> (opened, best)
        | Some latency \<Rightarrow> (opened @ [port], best_latency best latency))"

definition tcp_step ::
  "gotime \<Rightarrow> string \<Rightarrow> int list \<Rightarrow> float64 option \<Rightarrow> DeviceReachability \<Rightarrow> Evidence list \<Rightarrow>
   DeviceReachability \<times> Evidence list" where
  "tcp_step now ip ports best reach evs =
     (if ports = [] then (reach, evs)
      else (let reach = reach\<lparr>dr_TCPReachable := True\<rparr>
            in (if \<not> dr_ICMP reach then reach\<lparr>dr_Method := ''tcp_connect'', dr_AvgLatencyMs := best\<rparr> else reach,
                add_ev now ip ''tcp_connect'' [(''ip'', ip), (''ports'', joinInts ports)] evs)))"

definition http_step ::
  "(string \<Rightarrow> string) \<Rightarrow> UpNet \<Rightarrow> gotime \<Rightarrow> string \<Rightarrow> int \<Rightarrow> VendorResult \<times> Evidence list \<Rightarrow>
   (VendorResult \<times> Evidence list) option" where
  "http_step lower_text net now ip port acc =
     (let scheme = (if port = 443 \<or> port = 8443 then ''https'' else ''http'')
      in map_option (\<lambda>res. case res of
             Inl err \<Rightarrow> acc
           | Inr obs \<Rightarrow>
               (let v = AnalyzeHTTP (hob_ServerHeader obs) (hob_Title obs) (hob_WWWAuthRealm obs) (hob_Body obs);
                    v = (if hob_StatusCode obs = 401 \<or> hob_WWWAuthenticate obs \<noteq> [] then v\<lparr>vr_AdminPanel := True\<rparr> else v)
                in (mergeVendor (fst acc) v,
                    add_ev now ip ''http_fingerprint'' (pruneEmpty [(''ip'', ip), (''url'', hob_URL obs),
                      (''status_code'', itoa (hob_StatusCode obs)), (''server'', hob_ServerHeader obs),
                      (''title'', hob_Title obs), (''www_authenticate'', hob_WWWAuthenticate obs),
                      (''realm'', hob_WWWAuthRealm obs), (''location'', hob_RedirectLocation obs)]) (snd acc))))
           (httpFingerprint lower_text net ip port scheme))"

definition tls_step :: "UpNet \<Rightarrow> gotime \<Rightarrow> string \<Rightarrow> int \<Rightarrow> VendorResult \<times> Evidence list \<Rightarrow> VendorResult \<times> Evidence list" where
  "tls_step net now ip port acc =
     (case tlsFingerprint net ip port of
        None \<Rightarrow> acc
      | Some cert \<Rightarrow>
          (let v = AnalyzeHTTP [] (crt_CN cert @ '' '' @ str_join (crt_DNSNames cert) '' '') [] []
           in (if vr_Vendor v \<noteq> [] then mergeVendor (fst acc) v else fst acc,
               add_ev now ip ''tls_fingerprint'' (pruneEmpty [(''ip'', ip), (''port'', itoa port), (''cn'', crt_CN cert),
                 (''issuer'', crt_Issuer cert), (''sans'', str_join (crt_DNSNames cert) '','')]) (snd acc))))"

definition no_vendor :: VendorResult where
  "no_vendor = \<lparr>vr_Vendor = [], vr_RouterLike = False, vr_AdminPanel = False, vr_ONT = False, vr_Modem = False,
     vr_Hints = []\<rparr>"

definition target_facts :: "up_target \<Rightarrow> bool \<Rightarrow> DeviceReachability \<Rightarrow> int list \<Rightarrow> VendorResult \<Rightarrow> gotime \<Rightarrow> Facts" where
  "target_facts t sameSubnet reach ports vendor now =
     \<lparr>fa_IP = ut_ip t, fa_IsPrivate = IsPrivateIPString (ut_ip t), fa_SameSubnetAsAgent = sameSubnet,
      fa_IsDefaultGateway = ut_isDefaultGateway t, fa_InGatewayChain = ut_inGatewayChain t,
      fa_HopIndex = ut_hopIndex t, fa_HopDistance = ut_hopDistance t, fa_DoubleNATHint = ut_doubleNATHint t,
      fa_ReachableICMP = dr_ICMP reach, fa_ReachableTCP = dr_TCPReachable reach, fa_OpenPorts = ports,
      fa_HTTPVendor = vr_Vendor vendor, fa_HTTPAdminPanel = vr_AdminPanel vendor,
      fa_RouterLikeHTTP = vr_RouterLike vendor, fa_HasUPnPRoot = ut_hasUPnPRoot t,
      fa_HasDNSService = (53 \<in> set ports), fa_HasCWMP = (7547 \<in> set ports), fa_MACVendor = ut_macVendor t,
      fa_VirtualHint = False, fa_ONTHint = vr_ONT vendor, fa_ModemHint = vr_Modem vendor, fa_Now = now\<rparr>"

text \<open>What was gathered about a target: reachability, warnings, evidence, open ports and vendor.\<close>

definition probe_target ::
  "(string \<Rightarrow> string) \<Rightarrow> UpNet \<Rightarrow> bool \<Rightarrow> gotime \<Rightarrow> bool \<Rightarrow> string \<Rightarrow>
   (DeviceReachability \<times> string list \<times> int list \<times> VendorResult \<times> Evidence list) option" where
  "probe_target lower_text net enablePing now sameSubnet ip =
     (let reach = \<lparr>dr_ICMP = False, dr_TCPReachable = False, dr_AvgLatencyMs = None, dr_MinLatencyMs = None,
                   dr_MaxLatencyMs = None, dr_PacketLoss = None, dr_TTL = None, dr_HopDistance = None,
                   dr_DirectlyReachable = sameSubnet, dr_Method = ''none'', dr_Note = []\<rparr>;
          (reach, warnings, evs) = ping_step net enablePing now ip reach;
          (opened, best) = sweep_ports net ip safeUpstreamPorts ([], None);
          ports = sort_by (<) opened;
          (reach, evs) = tcp_step now ip ports best reach evs
      in map_option (\<lambda>(vendor, evs).
             case fold (tls_step net now ip) (filter (\<lambda>port. port \<in> set ports) [443, 8443]) (vendor, evs) of
               (vendor, evs) \<Rightarrow> (reach, warnings, ports, vendor, evs))
           (fold (\<lambda>port acc. Option.bind acc (http_step lower_text net now ip port))
              (filter (\<lambda>port. port \<in> set ports) [80, 8080, 443, 8443]) (Some (no_vendor, evs))))"

definition enrichOne ::
  "(string \<Rightarrow> string) \<Rightarrow> UpNet \<Rightarrow> bool \<Rightarrow> gotime \<Rightarrow> IPNet option \<Rightarrow> up_target \<Rightarrow> IntelResult option" where
  "enrichOne lower_text net enablePing now subnet t =
     (let sameSubnet = (case (subnet, parse_ip (ut_ip t)) of (Some n, Some ip) \<Rightarrow> net_contains n ip | _ \<Rightarrow> False)
      in map_option (\<lambda>(reach, warnings, ports, vendor, evs).
             (let f = target_facts t sameSubnet reach ports vendor now;
                  reach = (if dr_HopDistance reach = None \<and> ut_hopDistance t > 0
                           then reach\<lparr>dr_HopDistance := Some (ut_hopDistance t)\<rparr> else reach);
                  c = Classify now f
              in \<lparr>ir_IP = ut_ip t, ir_Reachability = reach, ir_Classification = c, ir_Routing = AnalyzeRouting f,
                  ir_Warnings = warnings @ uc_Warnings c, ir_Evidence = evs\<rparr>))
           (probe_target lower_text net enablePing now sameSubnet (ut_ip t)))"

section \<open>The phase\<close>

fun enrich_all :: "(up_target \<Rightarrow> IntelResult option) \<Rightarrow> up_target list \<Rightarrow> (string \<times> IntelResult) list option" where
  "enrich_all one [] = Some []"
| "enrich_all one (t # ts) =
     Option.bind (one t) (\<lambda>r. map_option ((#) (ut_ip t, r)) (enrich_all one ts))"

definition EnrichReport ::
  "(string \<Rightarrow> string) \<Rightarrow> UpNet \<Rightarrow> bool \<Rightarrow> (string \<Rightarrow> gotime) \<Rightarrow> ScanReport \<Rightarrow> AccessView option \<Rightarrow>
   (string \<times> IntelResult) list option" where
  "EnrichReport lower_text net enablePing clock report ac =
     enrich_all (\<lambda>t. enrichOne lower_text net enablePing (clock (ut_ip t)) (agentSubnet report) t)
       (collectTargets report ac)"

section \<open>Attaching the results\<close>

text \<open>The fields of a device of the device intelligence report that the phase fills in.\<close>

record EnrichedDevice = DeviceIntelDevice +
  did_Reachability :: "DeviceReachability option"
  did_RoutingEvidence :: "RoutingEvidence option"
  did_ClassificationTags :: "string list"
  did_IntelEvidence :: "IntelEvidenceItem list"
  did_EnrichmentWarnings :: "string list"

definition enriched :: "DeviceIntelDevice \<Rightarrow> EnrichedDevice" where
  "enriched d = DeviceIntelDevice.extend d
     (EnrichedDevice.fields None None [] [] [])"

fun appendUniqueStrings :: "string list \<Rightarrow> string list \<Rightarrow> string list" where
  "appendUniqueStrings values [] = values"
| "appendUniqueStrings values (v # vs) =
     appendUniqueStrings (if v = [] \<or> v \<in> set values then values else values @ [v]) vs"

definition attach_result :: "IntelResult \<Rightarrow> EnrichedDevice \<Rightarrow> EnrichedDevice" where
  "attach_result r d =
     d\<lparr>did_Reachability := Some (ir_Reachability r), did_RoutingEvidence := Some (ir_Routing r),
       did_ClassificationTags := uc_Tags (ir_Classification r),
       did_IntelEvidence := uc_Evidence (ir_Classification r),
       did_EnrichmentWarnings := appendUniqueStrings (did_EnrichmentWarnings d) (ir_Warnings r),
       did_Confidence := (if uc_Confidence (ir_Classification r) > did_Confidence d
                          then uc_Confidence (ir_Classification r) else did_Confidence d)\<rparr>"

text \<open>The loop over the addresses of a device stops at the first that has a result.\<close>

fun attach_first :: "(string \<times> IntelResult) list \<Rightarrow> string list \<Rightarrow> EnrichedDevice \<Rightarrow> EnrichedDevice" where
  "attach_first results [] d = d"
| "attach_first results (ip # ips) d =
     (case map_of results ip of Some r \<Rightarrow> attach_result r d | None \<Rightarrow> attach_first results ips d)"

definition attachUpstreamIntel :: "DeviceIntelReport \<Rightarrow> (string \<times> IntelResult) list \<Rightarrow> EnrichedDevice list" where
  "attachUpstreamIntel intel results =
     map (\<lambda>d. attach_first results (did_IPAddresses d) (enriched d)) (dir_Devices intel)"

end
