(* ===== verification/Intel_Laws.thy ===== *)
theory Intel_Laws
  imports Intel_Build Intel_Probes
begin

text \<open>
  Facts about the device intelligence: what every operation of its store keeps (an interface with
  two instances, the devices and the evidence), that a report only has devices the scope allows,
  that their services are keyed and ordered, that the type chosen is the best candidate, that edges
  do not claim more than was seen, and that the probes stay within their targets.
\<close>

section \<open>Names and addresses\<close>

lemma set_intel_appendUnique:
  "set (intel_appendUnique xs ys) = {t. t \<noteq> [] \<and> (\<exists>v \<in> set xs \<union> set ys. t = trim_space v)}"
proof -
  have "set (fold (\<lambda>v out. let t = trim_space v in if t = [] then out else append_new out t) zs out) =
      set out \<union> {t. t \<noteq> [] \<and> (\<exists>v \<in> set zs. t = trim_space v)}" for zs out
    by (induction zs arbitrary: out) (auto simp: Let_def)
  from this [of "xs @ ys" "[]"] show ?thesis by (simp add: intel_appendUnique_def)
qed

lemma distinct_intel_appendUnique [simp]: "distinct (intel_appendUnique xs ys)"
proof -
  have "distinct out \<Longrightarrow>
      distinct (fold (\<lambda>v out. let t = trim_space v in if t = [] then out else append_new out t) zs out)" for zs out
    by (induction zs arbitrary: out) (simp_all add: Let_def)
  from this [of "[]" "xs @ ys"] show ?thesis by (simp add: intel_appendUnique_def)
qed

lemma appendUnique_keeps: "t = trim_space v \<Longrightarrow> t \<noteq> [] \<Longrightarrow> t \<in> set xs \<Longrightarrow> t \<in> set (intel_appendUnique xs ys)"
  by (auto simp: set_intel_appendUnique intro!: bexI [of _ t])

lemma appendUnique_adds: "trim_space v \<noteq> [] \<Longrightarrow> v \<in> set ys \<Longrightarrow> trim_space v \<in> set (intel_appendUnique xs ys)"
  by (auto simp: set_intel_appendUnique)

section \<open>Changes of a device\<close>

text \<open>The fields a change of a device keeps, unless it is the change of its services.\<close>

named_theorems keeps \<open>what a change of a device leaves alone\<close>

definition harmless :: "(DeviceIntelDevice \<Rightarrow> DeviceIntelDevice) \<Rightarrow> bool" where
  "harmless f \<longleftrightarrow>
     (\<forall>d. did_Services (f d) = did_Services d \<and>
          (\<forall>v. trim_space v \<noteq> [] \<and> trim_space v \<in> set (did_IPAddresses d) \<longrightarrow>
               trim_space v \<in> set (did_IPAddresses (f d))))"

lemma harmlessI:
  "(\<And>d. did_Services (f d) = did_Services d) \<Longrightarrow> (\<And>d. did_IPAddresses (f d) = did_IPAddresses d) \<Longrightarrow> harmless f"
  by (simp add: harmless_def)

lemma services_kept [keeps]:
  "did_Services (add_evidence_ids ids d) = did_Services d" "did_Services (raise_confidence c d) = did_Services d"
  "did_Services (Intel_Store.add_candidate dc d) = did_Services d" "did_Services (add_roles rs d) = did_Services d"
  "did_Services (explain ts d) = did_Services d" "did_Services (add_note n d) = did_Services d"
  "did_Services (set_oui_vendor v c d) = did_Services d" "did_Services (set_fp_vendor vo c d) = did_Services d"
  by (simp_all add: add_evidence_ids_def raise_confidence_def Intel_Store.add_candidate_def add_roles_def explain_def
      add_note_def set_oui_vendor_def set_fp_vendor_def)

lemma addresses_kept [keeps]:
  "did_IPAddresses (add_evidence_ids ids d) = did_IPAddresses d"
  "did_IPAddresses (raise_confidence c d) = did_IPAddresses d"
  "did_IPAddresses (Intel_Store.add_candidate dc d) = did_IPAddresses d" "did_IPAddresses (add_roles rs d) = did_IPAddresses d"
  "did_IPAddresses (explain ts d) = did_IPAddresses d" "did_IPAddresses (add_note n d) = did_IPAddresses d"
  "did_IPAddresses (set_oui_vendor v c d) = did_IPAddresses d"
  "did_IPAddresses (set_fp_vendor vo c d) = did_IPAddresses d"
  by (simp_all add: add_evidence_ids_def raise_confidence_def Intel_Store.add_candidate_def add_roles_def explain_def
      add_note_def set_oui_vendor_def set_fp_vendor_def)

lemma more_services_kept [keeps]:
  "did_Services (opt_evidence i d) = did_Services d" "did_Services (add_attempt a d) = did_Services d"
  "did_Services (mark_virtual_mac m v i d) = did_Services d" "did_Services (add_http hob d) = did_Services d"
  "did_Services (add_tls tob d) = did_Services d" "did_Services (add_name n d) = did_Services d"
  "did_Services (mark_gateway d) = did_Services d" "did_Services (mark_upstream d) = did_Services d"
  by (simp_all add: opt_evidence_def add_attempt_def mark_virtual_mac_def add_http_def add_tls_def add_name_def
      mark_gateway_def mark_upstream_def keeps split: option.split)

lemma more_addresses_kept [keeps]:
  "did_IPAddresses (opt_evidence i d) = did_IPAddresses d" "did_IPAddresses (add_attempt a d) = did_IPAddresses d"
  "did_IPAddresses (mark_virtual_mac m v i d) = did_IPAddresses d"
  "did_IPAddresses (add_http hob d) = did_IPAddresses d" "did_IPAddresses (add_tls tob d) = did_IPAddresses d"
  "did_IPAddresses (add_name n d) = did_IPAddresses d" "did_IPAddresses (mark_gateway d) = did_IPAddresses d"
  "did_IPAddresses (mark_upstream d) = did_IPAddresses d"
  by (simp_all add: opt_evidence_def add_attempt_def mark_virtual_mac_def add_http_def add_tls_def add_name_def
      mark_gateway_def mark_upstream_def keeps split: option.split)

lemma report_services_kept [keeps]:
  "did_Services (copy_identity src d) = did_Services d" "did_Services (copy_facts src d) = did_Services d"
  "did_Services (note_printer ev d) = did_Services d" "did_Services (gateway_details gd d) = did_Services d"
  "did_Services (cpe_details cpe d) = did_Services d" "did_Services (hint_device e i d) = did_Services d"
  by (simp_all add: copy_identity_def copy_facts_def note_printer_def gateway_details_def cpe_details_def
      hint_device_def keeps Let_def split: option.split)

lemma report_addresses_kept [keeps]:
  "did_IPAddresses (copy_facts src d) = did_IPAddresses d"
  "did_IPAddresses (note_printer ev d) = did_IPAddresses d"
  "did_IPAddresses (gateway_details gd d) = did_IPAddresses d"
  "did_IPAddresses (cpe_details cpe d) = did_IPAddresses d"
  "did_IPAddresses (hint_device e i d) = did_IPAddresses d"
  by (simp_all add: copy_facts_def note_printer_def gateway_details_def cpe_details_def
      hint_device_def keeps Let_def split: option.split)

lemma harmless_copy_identity: "harmless (copy_identity src)"
  by (auto simp: harmless_def keeps copy_identity_def intro: appendUnique_keeps)


section \<open>The interface of the store\<close>

text \<open>
  What a property of the store has to be kept by, so that every operation keeps it: \<open>UpsertDevice\<close>, a
  change of a device that is harmless, the change of its services, and the two ways to record evidence.
  None of them records an observation with normalized data; only the probes do.
\<close>

locale device_store =
  fixes allowed :: "string \<Rightarrow> bool" and evidence_ok :: "Evidence \<Rightarrow> bool" and inv :: "IntelStore \<Rightarrow> bool"
  assumes upsert: "allowed ip \<Longrightarrow> inv s \<Longrightarrow> inv (UpsertDevice ip s)"
    and modify: "harmless f \<Longrightarrow> inv s \<Longrightarrow> inv (modify_device k f s)"
    and service: "inv s \<Longrightarrow> inv (modify_device k (add_service_to svc) s)"
    and observe: "allowed ip \<Longrightarrow> inv s \<Longrightarrow> inv (snd (intel_AddObservation ip source kind raw [] c err s))"
    and register: "evidence_ok ev \<Longrightarrow> inv s \<Longrightarrow> inv (RegisterEvidence ev i c s)"
begin

lemma fold_inv: "(\<And>x s. x \<in> set xs \<Longrightarrow> inv s \<Longrightarrow> inv (f x s)) \<Longrightarrow> inv s \<Longrightarrow> inv (fold f xs s)"
  by (induction xs arbitrary: s) simp_all

lemma upsert_with: "allowed ip \<Longrightarrow> harmless f \<Longrightarrow> inv s \<Longrightarrow> inv (upsert_with ip f s)"
  by (simp add: upsert_with_def modify upsert)

lemma AddIP: "allowed ip \<Longrightarrow> inv s \<Longrightarrow> inv (AddIP ip i c s)"
  by (simp add: AddIP_def upsert_with harmlessI keeps)

lemma AddMAC: "allowed ip \<Longrightarrow> inv s \<Longrightarrow> inv (AddMAC ip mac vendor i c s)"
  by (simp add: AddMAC_def upsert_with harmlessI keeps Let_def)

lemma AddHostname: "allowed ip \<Longrightarrow> inv s \<Longrightarrow> inv (AddHostname ip h i c s)"
  by (simp add: AddHostname_def upsert_with harmlessI keeps Let_def)

lemma AddService: "allowed ip \<Longrightarrow> inv s \<Longrightarrow> inv (AddService ip svc s)"
  by (simp add: AddService_def upsert_with_def service upsert)

lemma AddFailedAttempt: "allowed ip \<Longrightarrow> inv s \<Longrightarrow> inv (AddFailedAttempt ip a s)"
  using observe [of ip "UpsertDevice ip s"]
  by (auto simp: AddFailedAttempt_def Let_def upsert intro!: modify harmlessI simp: keeps split: prod.split)
    (metis snd_conv upsert)+

lemma AddHTTPObservation: "allowed ip \<Longrightarrow> inv s \<Longrightarrow> inv (AddHTTPObservation ip obs success a s)"
  by (simp add: AddHTTPObservation_def AddFailedAttempt upsert upsert_with harmlessI keeps)

lemma AddTLSObservation: "allowed ip \<Longrightarrow> inv s \<Longrightarrow> inv (AddTLSObservation ip obs s)"
  by (simp add: AddTLSObservation_def upsert_with harmlessI keeps)

lemma AddMDNS: "allowed ip \<Longrightarrow> inv s \<Longrightarrow> inv (AddMDNS ip r s)"
  by (simp add: AddMDNS_def upsert_with harmlessI keeps)

lemma AddSSDP: "allowed ip \<Longrightarrow> inv s \<Longrightarrow> inv (AddSSDP ip r s)"
  by (simp add: AddSSDP_def upsert_with harmlessI keeps)

lemma AddNBNS: "allowed ip \<Longrightarrow> inv s \<Longrightarrow> inv (AddNBNS ip r s)"
  by (simp add: AddNBNS_def upsert_with harmlessI keeps)

lemma AddLLMNR: "allowed ip \<Longrightarrow> inv s \<Longrightarrow> inv (AddLLMNR ip r s)"
  by (simp add: AddLLMNR_def upsert_with harmlessI keeps)

lemmas operations = AddIP AddMAC AddHostname AddService AddFailedAttempt AddHTTPObservation AddTLSObservation
  AddMDNS AddSSDP AddNBNS AddLLMNR upsert_with upsert modify register

lemma registerEvidenceIDs:
  assumes known: "\<And>i ev. evidenceByID i = Some ev \<Longrightarrow> evidence_ok ev" and s: "inv s"
  shows "inv (registerEvidenceIDs evidenceByID device ids c s)"
  unfolding registerEvidenceIDs_def using s
  by (rule fold_inv [rotated]) (simp add: known register split: option.split)

lemma ingest_kind: "allowed ip \<Longrightarrow> inv s \<Longrightarrow> inv (ingest_kind ip ev s)"
  by (simp add: ingest_kind_def Let_def operations ingestHTTPEvidence_def ingestTLSEvidence_def
      addPrinterEvidence_def harmlessI keeps fold_inv)

lemma add_ports: "allowed ip \<Longrightarrow> inv s \<Longrightarrow> inv (add_ports ip ports c ids s)"
  by (simp add: add_ports_def operations fold_inv)

lemma add_observations: "allowed ip \<Longrightarrow> inv s \<Longrightarrow> inv (add_observations ip https tlss attempts s)"
  by (simp add: add_observations_def operations fold_inv)

lemma addEdgeHint: "inv s \<Longrightarrow> inv (addEdgeHint e s)"
  by (simp add: addEdgeHint_def modify harmlessI keeps)

lemma chain_edges: "inv s \<Longrightarrow> inv (snd (chain_edges state i hops existing s))"
  by (induction state i hops existing s rule: chain_edges.induct)
    (simp_all add: Let_def addEdgeHint case_prod_beta)

lemma convertEdges: "inv s \<Longrightarrow> inv (snd (convertEdges report ac s))"
  using chain_edges by (simp add: convertEdges_def gatewayChainEdges_def Let_def addEdgeHint fold_inv
      case_prod_beta split: option.split)

end

text \<open>The ingestion of a report whose scope only lets allowed addresses through.\<close>

locale device_ingest = device_store +
  fixes scope :: DeviceIntelScope and evidenceByID :: "string \<Rightarrow> Evidence option"
  assumes targets: "targetAllowed scope ip \<Longrightarrow> allowed ip"
    and known: "evidenceByID i = Some ev \<Longrightarrow> evidence_ok ev"
begin

lemmas register_ids = registerEvidenceIDs [OF known]

lemma ingest_device: "inv s \<Longrightarrow> inv (ingest_device evidenceByID scope src s)"
  by (simp add: ingest_device_def ingest_interface_def ingest_service_def Let_def targets operations
      register_ids fold_inv harmlessI keeps harmless_copy_identity)

lemma ingest_evidence: "evidence_ok ev \<Longrightarrow> inv s \<Longrightarrow> inv (ingest_evidence scope ev s)"
  by (simp add: ingest_evidence_def Let_def targets operations ingest_kind harmlessI keeps)

lemma ingest_hop: "inv s \<Longrightarrow> inv (ingest_hop scope chain hop s)"
  by (simp add: ingest_hop_def targets upsert_with harmlessI keeps Let_def)

lemma ingestGatewayDevice: "inv s \<Longrightarrow> inv (ingestGatewayDevice evidenceByID scope gd s)"
  by (simp add: ingestGatewayDevice_def Let_def targets operations register_ids add_ports add_observations
      harmlessI keeps)

lemma ingestCPECandidate: "inv s \<Longrightarrow> inv (ingestCPECandidate evidenceByID scope cpe s)"
  by (simp add: ingestCPECandidate_def Let_def targets operations register_ids add_ports add_observations
      harmlessI keeps)

lemma ingestAccessContext: "inv s \<Longrightarrow> inv (ingestAccessContext ac evidenceByID scope s)"
  by (simp add: ingestAccessContext_def ingest_context_def Let_def fold_inv ingestCPECandidate
      ingestGatewayDevice ingest_hop split: option.split)

end

text \<open>The steps of the report before the classification.\<close>

lemma intel_ingest_inv:
  assumes "device_ingest allowed evidence_ok good (intel_buildScope report ac) (evidenceIndex (rep_Evidence report))"
    and "\<And>now. good (intel_NewEvidenceStore now)" and "list_all evidence_ok (rep_Evidence report)"
  shows "good (snd (intel_ingest now report ac))"
proof -
  from assms(1) have store: "device_store allowed evidence_ok good" by (simp add: device_ingest_def)
  note parts = device_ingest.ingest_device [OF assms(1)] device_ingest.ingest_evidence [OF assms(1)]
    device_ingest.ingestAccessContext [OF assms(1)]
  show ?thesis
    using assms(2,3)
    by (simp add: intel_ingest_def Let_def device_store.convertEdges [OF store] parts
        ingestTopologyDevices_def ingestEvidenceRecords_def device_store.fold_inv [OF store] list_all_iff)
qed

section \<open>The devices\<close>

definition services_ok :: "DeviceIntelService list \<Rightarrow> bool" where
  "services_ok ss \<longleftrightarrow> distinct (map svc_key ss) \<and> sorted_wrt (\<lambda>a b. \<not> intel_service_before b a) ss"

lemma service_before_trans:
  assumes "\<not> intel_service_before b a" and "\<not> intel_service_before c b"
  shows "\<not> intel_service_before c a"
proof -
  from assms have "dis_Port a \<le> dis_Port b" "dis_Port b \<le> dis_Port c"
    unfolding intel_service_before_def by (simp_all split: if_splits)
  moreover from assms have "\<not> str_less (dis_Protocol c) (dis_Protocol a)"
    if "dis_Port a = dis_Port b" "dis_Port b = dis_Port c"
    using that str_less_total [of "dis_Protocol a" "dis_Protocol b"] str_less_trans [of "dis_Protocol c" "dis_Protocol a" "dis_Protocol b"]
    unfolding intel_service_before_def by auto
  ultimately show ?thesis unfolding intel_service_before_def by auto
qed

lemma service_before_asym: "intel_service_before a b \<Longrightarrow> \<not> intel_service_before b a"
  using str_less_asym by (simp add: intel_service_before_def split: if_splits)

interpretation svc_order: weak_order intel_service_before "\<lambda>_. True"
proof
  fix x y z :: DeviceIntelService
  show "intel_service_before x y \<Longrightarrow> \<not> intel_service_before y x" by (rule service_before_asym)
  show "\<not> intel_service_before y x \<Longrightarrow> \<not> intel_service_before z y \<Longrightarrow> \<not> intel_service_before z x"
    by (rule service_before_trans)
qed

lemma merge_services_Some:
  "merge_services svc ss = Some ss' \<Longrightarrow>
   map (\<lambda>x. (dis_Port x, dis_Protocol x)) ss' = map (\<lambda>x. (dis_Port x, dis_Protocol x)) ss"
  by (induction ss arbitrary: ss') (auto simp: merge_service_def split: if_splits)

lemma merge_services_None: "merge_services svc ss = None \<Longrightarrow> svc_key svc \<notin> svc_key ` set ss"
  by (induction ss) (auto split: if_splits)

lemma services_ok_fields:
  "services_ok ss \<longleftrightarrow>
   distinct (map (\<lambda>(port, protocol). intel_serviceKey protocol port) (map (\<lambda>x. (dis_Port x, dis_Protocol x)) ss)) \<and>
   sorted_wrt (\<lambda>(p, q) (p', q'). \<not> (if p' \<noteq> p then p' < p else str_less q' q))
     (map (\<lambda>x. (dis_Port x, dis_Protocol x)) ss)"
  by (simp add: services_ok_def svc_key_def [abs_def] intel_service_before_def [abs_def] sorted_wrt_map comp_def)

lemma services_ok_add:
  assumes "services_ok (did_Services d)"
  shows "services_ok (did_Services (add_service_to svc d))"
proof (cases "merge_services svc (did_Services d)")
  case None
  define svc' where "svc' = svc\<lparr>dis_EvidenceIDs := intel_sortedUnique (dis_EvidenceIDs svc)\<rparr>"
  have "svc_key svc' = svc_key svc" by (simp add: svc'_def svc_key_def)
  then have "distinct (map svc_key (did_Services d @ [svc']))"
    using assms merge_services_None [OF None] by (simp add: services_ok_def)
  then have "distinct (map svc_key (sort_by intel_service_before (did_Services d @ [svc'])))"
    by (metis mset_map mset_sort_by mset_eq_imp_distinct_iff)
  then show ?thesis
    using None svc_order.sorted_sort_by by (simp add: add_service_to_def keeps services_ok_def svc'_def)
next
  case (Some ss)
  then show ?thesis
    using assms merge_services_Some [OF Some] by (simp add: add_service_to_def keeps services_ok_fields)
qed

lemma addresses_add_service: "did_IPAddresses (add_service_to svc d) = did_IPAddresses d"
  by (simp add: add_service_to_def keeps Let_def split: option.split)

definition device_allowed :: "(string \<Rightarrow> bool) \<Rightarrow> string \<Rightarrow> DeviceIntelDevice \<Rightarrow> bool" where
  "device_allowed allowed k d \<longleftrightarrow>
     (\<exists>ip. k = deviceID ip \<and> allowed ip \<and> (trim_space ip = [] \<or> trim_space ip \<in> set (did_IPAddresses d)))"

definition devices_ok :: "(string \<Rightarrow> bool) \<Rightarrow> IntelStore \<Rightarrow> bool" where
  "devices_ok allowed s \<longleftrightarrow>
     distinct (map fst (ins_Devices s)) \<and>
     (\<forall>p \<in> set (ins_Devices s). device_allowed allowed (fst p) (snd p) \<and> services_ok (did_Services (snd p)))"

lemma devices_ok_New: "devices_ok allowed (intel_NewEvidenceStore now)"
  by (simp add: devices_ok_def intel_NewEvidenceStore_def)

lemma devices_ok_set:
  assumes "devices_ok allowed s" and "device_allowed allowed k d" and "services_ok (did_Services d)"
    and "ins_Devices s' = alist_set k d (ins_Devices s)"
  shows "devices_ok allowed s'"
  using assms by (auto simp: devices_ok_def dest!: set_alist_setD)

lemma devices_ok_same: "devices_ok allowed s \<Longrightarrow> ins_Devices s' = ins_Devices s \<Longrightarrow> devices_ok allowed s'"
  by (simp add: devices_ok_def)

lemma devices_ok_get:
  assumes "devices_ok allowed s" and "map_of (ins_Devices s) k = Some d"
  shows "device_allowed allowed k d" and "services_ok (did_Services d)"
proof -
  have "(k, d) \<in> set (ins_Devices s)" using assms(2) by (rule map_of_SomeD)
  then have "device_allowed allowed (fst (k, d)) (snd (k, d)) \<and> services_ok (did_Services (snd (k, d)))"
    using assms(1) unfolding devices_ok_def by blast
  then show "device_allowed allowed k d" and "services_ok (did_Services d)" by simp_all
qed

lemma device_allowed_harmless: "harmless f \<Longrightarrow> device_allowed allowed k d \<Longrightarrow> device_allowed allowed k (f d)"
  by (auto simp: device_allowed_def harmless_def)

lemma devices_ok_modify: "harmless f \<Longrightarrow> devices_ok allowed s \<Longrightarrow> devices_ok allowed (modify_device k f s)"
proof (cases "map_of (ins_Devices s) k")
  case (Some d)
  assume f: "harmless f" and ok: "devices_ok allowed s"
  have "services_ok (did_Services (f d))" using devices_ok_get [OF ok Some] f by (simp add: harmless_def)
  then show ?thesis
    using Some devices_ok_set [OF ok device_allowed_harmless [OF f devices_ok_get(1) [OF ok Some]]]
    by (simp add: modify_device_def)
qed (simp add: modify_device_def)

lemma devices_ok_service: "devices_ok allowed s \<Longrightarrow> devices_ok allowed (modify_device k (add_service_to svc) s)"
proof (cases "map_of (ins_Devices s) k")
  case (Some d)
  assume ok: "devices_ok allowed s"
  note old = devices_ok_get [OF ok Some]
  have "device_allowed allowed k (add_service_to svc d)"
    using old(1) by (simp add: device_allowed_def addresses_add_service)
  then show ?thesis
    using Some devices_ok_set [OF ok _ services_ok_add [OF old(2)]] by (simp add: modify_device_def)
qed (simp add: modify_device_def)

lemma devices_ok_upsert: "allowed ip \<Longrightarrow> devices_ok allowed s \<Longrightarrow> devices_ok allowed (UpsertDevice ip s)"
proof (cases "map_of (ins_Devices s) (deviceID ip)")
  case None
  assume "allowed ip" and ok: "devices_ok allowed s"
  then have "device_allowed allowed (deviceID ip) (new_device ip now)" for now
    unfolding device_allowed_def new_device_def
    by (intro exI [of _ ip]) (simp add: set_intel_appendUnique)
  moreover have "services_ok (did_Services (new_device ip now))" for now
    by (simp add: new_device_def services_ok_def)
  ultimately have "devices_ok allowed s'"
    if "ins_Devices s' = alist_set (deviceID ip) (new_device ip t) (ins_Devices s)" for s' t
    using that by (rule devices_ok_set [OF ok])
  then show ?thesis using None by (simp add: UpsertDevice_def intel_clock_def)
next
  case (Some d)
  assume ok: "devices_ok allowed s"
  have "harmless (\<lambda>d. d\<lparr>did_IPAddresses := intel_appendUnique (did_IPAddresses d) [ip]\<rparr>)"
    by (auto simp: harmless_def intro: appendUnique_keeps)
  from devices_ok_modify [OF this ok, of "deviceID ip"] show ?thesis
    using Some ok by (simp add: UpsertDevice_def modify_device_def)
qed

lemma devices_ok_observe:
  assumes "allowed ip" and "devices_ok allowed s"
  shows "devices_ok allowed (snd (intel_AddObservation ip source kind raw nrm c err s))"
proof -
  have "devices_ok allowed s'" if "ins_Devices s' = ins_Devices s" for s'
    using devices_ok_same [OF assms(2) that] .
  moreover have "harmless (\<lambda>d. (add_evidence_ids ids d)\<lparr>did_LastSeen := t\<rparr>)" for ids t
    by (simp add: harmless_def keeps)
  ultimately show ?thesis
    using assms(1)
    by (simp add: intel_AddObservation_def intel_clock_def Let_def upsert_with_def devices_ok_modify
        devices_ok_upsert)
qed

interpretation intel_devices: device_store allowed "\<lambda>_. True" "devices_ok allowed" for allowed
  by unfold_locales (simp_all add: devices_ok_upsert devices_ok_modify devices_ok_service devices_ok_observe
      devices_ok_same [of allowed] RegisterEvidence_def)

section \<open>The evidence\<close>

text \<open>The identifiers the store gives to its own observations.\<close>

definition own_id :: "nat \<Rightarrow> string" where
  "own_id n = ''di-ev-'' @ nat_digits n"

lemma own_id_inj [simp]: "own_id m = own_id n \<longleftrightarrow> m = n"
  using inj_nat_digits by (auto simp: own_id_def)

definition named_outside :: "Evidence \<Rightarrow> bool" where
  "named_outside ev \<longleftrightarrow> \<not> has_prefix (tev_ID ev) ''di-ev-''"

definition evidence_ids_ok :: "IntelStore \<Rightarrow> bool" where
  "evidence_ids_ok s \<longleftrightarrow>
     distinct (map dio_ID (ins_Observations s)) \<and> dio_ID ` set (ins_Observations s) \<subseteq> ins_evidenceSeen s \<and>
     (\<forall>n > ins_seq s. own_id n \<notin> ins_evidenceSeen s)"

lemma evidence_ids_same:
  "evidence_ids_ok s \<Longrightarrow> ins_Observations s' = ins_Observations s \<Longrightarrow> ins_seq s' = ins_seq s \<Longrightarrow>
   ins_evidenceSeen s' = ins_evidenceSeen s \<Longrightarrow> evidence_ids_ok s'"
  by (simp add: evidence_ids_ok_def)

lemma same_evidence_modify [simp]:
  "ins_Observations (modify_device k f s) = ins_Observations s" "ins_seq (modify_device k f s) = ins_seq s"
  "ins_evidenceSeen (modify_device k f s) = ins_evidenceSeen s"
  by (simp_all add: modify_device_def split: option.split)

lemma same_evidence_upsert [simp]:
  "ins_Observations (UpsertDevice ip s) = ins_Observations s" "ins_seq (UpsertDevice ip s) = ins_seq s"
  "ins_evidenceSeen (UpsertDevice ip s) = ins_evidenceSeen s"
  by (simp_all add: UpsertDevice_def intel_clock_def split: option.split)

lemma evidence_ids_observe:
  assumes "evidence_ids_ok s"
  shows "evidence_ids_ok (snd (intel_AddObservation ip source kind raw nrm c err s))"
proof -
  define e where "e = own_id (Suc (ins_seq s))"
  define r where "r = snd (intel_AddObservation ip source kind raw nrm c err s)"
  have "\<exists>x. dio_ID x = e \<and> ins_Observations r = ins_Observations s @ [x]"
    unfolding r_def
    by (cases "ip = []") (simp_all add: intel_AddObservation_def intel_clock_def Let_def upsert_with_def e_def own_id_def)
  then obtain x where x: "dio_ID x = e" "ins_Observations r = ins_Observations s @ [x]" by blast
  have "ins_seq r = Suc (ins_seq s)" "ins_evidenceSeen r = insert e (ins_evidenceSeen s)"
    unfolding r_def
    by (cases "ip = []"; simp add: intel_AddObservation_def intel_clock_def Let_def upsert_with_def e_def own_id_def)+
  moreover have "e \<notin> ins_evidenceSeen s" using assms by (simp add: evidence_ids_ok_def e_def)
  ultimately show ?thesis
    using assms x unfolding r_def [symmetric] by (auto simp: evidence_ids_ok_def e_def)
qed

lemma evidence_ids_register:
  assumes "named_outside ev" and "evidence_ids_ok s"
  shows "evidence_ids_ok (RegisterEvidence ev i c s)"
proof -
  have "own_id n \<noteq> tev_ID ev" for n
    using assms(1) unfolding named_outside_def has_prefix_iff own_id_def by metis
  then show ?thesis using assms(2) by (auto simp: evidence_ids_ok_def RegisterEvidence_def)
qed

interpretation intel_evidence: device_store "\<lambda>_. True" named_outside evidence_ids_ok
proof
  fix s ip f k svc source kind raw c err ev i
  assume s: "evidence_ids_ok s"
  from s show "evidence_ids_ok (UpsertDevice ip s)" by (rule evidence_ids_same) simp_all
  from s show "evidence_ids_ok (modify_device k f s)" by (rule evidence_ids_same) simp_all
  from s show "evidence_ids_ok (modify_device k (add_service_to svc) s)" by (rule evidence_ids_same) simp_all
  from s show "evidence_ids_ok (snd (intel_AddObservation ip source kind raw [] c err s))"
    by (rule evidence_ids_observe)
  assume "named_outside ev"
  then show "evidence_ids_ok (RegisterEvidence ev i c s)" using s by (rule evidence_ids_register)
qed

section \<open>The classification keeps what was observed\<close>

lemma w_roles [keeps]:
  "did_Services (if b then add_roles r d else d) = did_Services d"
  "did_IPAddresses (if b then add_roles r d else d) = did_IPAddresses d"
  by (simp_all add: keeps)

lemma addServiceRoles_keeps [keeps]:
  "did_Services (addServiceRoles d) = did_Services d" "did_IPAddresses (addServiceRoles d) = did_IPAddresses d"
  by (simp_all add: addServiceRoles_def Let_def keeps)

lemma addProtocolInfo_keeps [keeps]:
  "did_Services (addProtocolInfo d) = did_Services d" "did_IPAddresses (addProtocolInfo d) = did_IPAddresses d"
  by (simp_all add: addProtocolInfo_def Let_def)

lemma applyMobileFingerprint_keeps [keeps]:
  "did_Services (applyMobileFingerprint t ev d) = did_Services d"
  "did_IPAddresses (applyMobileFingerprint t ev d) = did_IPAddresses d"
  by (simp_all add: applyMobileFingerprint_def Let_def keeps)

lemma fold_keeps_fields:
  "(\<And>x d. did_Services (f x d) = did_Services d) \<Longrightarrow> did_Services (fold f xs d) = did_Services d"
  "(\<And>x d. did_IPAddresses (f x d) = did_IPAddresses d) \<Longrightarrow> did_IPAddresses (fold f xs d) = did_IPAddresses d"
  by (induction xs arbitrary: d) simp_all

lemma nginx_note_keeps [keeps]:
  "did_Services (nginx_note ob d) = did_Services d" "did_IPAddresses (nginx_note ob d) = did_IPAddresses d"
  by (simp_all add: nginx_note_def keeps)

lemma addDeviceTypeCandidates_keeps [keeps]:
  "did_Services (addDeviceTypeCandidates d) = did_Services d"
  "did_IPAddresses (addDeviceTypeCandidates d) = did_IPAddresses d"
  by (simp_all add: addDeviceTypeCandidates_def fold_keeps_fields keeps)

lemma pickPrimaryType_keeps [keeps]:
  "did_Services (pickPrimaryType d) = did_Services d" "did_IPAddresses (pickPrimaryType d) = did_IPAddresses d"
  by (simp_all add: pickPrimaryType_def Let_def keeps split: list.split)

lemma guessOS_keeps [keeps]:
  "did_Services (guessOS d) = did_Services d" "did_IPAddresses (guessOS d) = did_IPAddresses d"
  by (simp_all add: guessOS_def)

lemma addSecurityFindings_keeps [keeps]:
  "did_Services (addSecurityFindings d) = did_Services d"
  "did_IPAddresses (addSecurityFindings d) = did_IPAddresses d"
  by (simp_all add: addSecurityFindings_def Let_def)

lemma finalizeConfidence_keeps [keeps]:
  "did_Services (finalizeConfidence d) = did_Services d"
  "did_IPAddresses (finalizeConfidence d) = did_IPAddresses d"
  by (simp_all add: finalizeConfidence_def Let_def)

lemma classifyDevice_keeps [keeps]:
  "did_Services (classifyDevice t ev d) = did_Services d"
  "did_IPAddresses (classifyDevice t ev d) = did_IPAddresses d"
  by (simp_all add: classifyDevice_def keeps)

lemma devices_ok_classify: "devices_ok allowed s \<Longrightarrow> devices_ok allowed (classifyAllWithEvidence clock ev s)"
  by (auto simp: devices_ok_def classifyAllWithEvidence_def device_allowed_def keeps comp_def case_prod_beta)

section \<open>The devices of the report\<close>

lemma no_sep_spaces: "trim_left is_space s = [] \<Longrightarrow> first_sep s = None"
  by (induction s) (auto simp: is_space_def Let_def byte_of_def split: if_splits)

lemma trim_left_Nil: "trim_left P xs = [] \<Longrightarrow> x \<in> set xs \<Longrightarrow> P x"
  by (induction xs) (auto split: if_splits)

lemma private_not_blank:
  assumes "IsPrivateIPString ip"
  shows "trim_space ip \<noteq> []"
proof
  assume "trim_space ip = []"
  then have blank: "trim_left is_space (rev (trim_left is_space ip)) = []"
    by (simp add: trim_space_def trim_func_def)
  have "trim_left is_space ip = []"
  proof (rule ccontr)
    assume ne: "trim_left is_space ip \<noteq> []"
    then have "hd (trim_left is_space ip) \<in> set (rev (trim_left is_space ip))" by simp
    then show False using trim_left_Nil [OF blank] trim_left_hd [of is_space ip] ne by blast
  qed
  then have "parse_ip ip = None" by (simp add: no_sep_spaces parse_ip_def parse_addr_def)
  then show False using assms by (simp add: IsPrivateIPString_def IsPrivateIP_def)
qed

interpretation intel_report: device_ingest "targetAllowed scope" "\<lambda>_. True" "devices_ok (targetAllowed scope)"
    scope evidenceByID for scope evidenceByID
  by unfold_locales simp_all

lemma devices_ok_ingest: "devices_ok (targetAllowed (intel_buildScope report ac)) (snd (intel_ingest now report ac))"
  by (rule intel_ingest_inv [OF intel_report.device_ingest_axioms]) (simp_all add: devices_ok_New list_all_iff)

lemma dir_Devices_Build:
  "dir_Devices (intel_Build now clock report ac) =
   DeviceList (classifyAllWithEvidence clock (rep_Evidence report) (snd (intel_ingest now report ac)))"
  by (simp add: intel_Build_def case_prod_beta Let_def)

lemma in_DeviceList:
  assumes "d \<in> set (DeviceList s)"
  obtains k d0 where "(k, d0) \<in> set (ins_Devices s)"
    and "d = d0\<lparr>did_EvidenceIDs := intel_sortedUnique (did_EvidenceIDs d0), did_Roles := intel_sortedUnique (did_Roles d0)\<rparr>"
  using assms by (auto simp: DeviceList_def)

lemma in_report:
  assumes "d \<in> set (dir_Devices (intel_Build now clock report ac))"
  obtains k d0 where
    "device_allowed (targetAllowed (intel_buildScope report ac)) k d" and "services_ok (did_Services d)"
    and "d = (classifyDevice (clock k) (rep_Evidence report) d0)
      \<lparr>did_EvidenceIDs := intel_sortedUnique (did_EvidenceIDs (classifyDevice (clock k) (rep_Evidence report) d0)),
       did_Roles := intel_sortedUnique (did_Roles (classifyDevice (clock k) (rep_Evidence report) d0))\<rparr>"
proof -
  define s where "s = snd (intel_ingest now report ac)"
  obtain k d1 where d1: "(k, d1) \<in> set (ins_Devices (classifyAllWithEvidence clock (rep_Evidence report) s))"
    and d: "d = d1\<lparr>did_EvidenceIDs := intel_sortedUnique (did_EvidenceIDs d1), did_Roles := intel_sortedUnique (did_Roles d1)\<rparr>"
    using assms unfolding dir_Devices_Build s_def [symmetric] by (rule in_DeviceList)
  from d1 obtain d0 where d0: "(k, d0) \<in> set (ins_Devices s)"
    and d1': "d1 = classifyDevice (clock k) (rep_Evidence report) d0"
    by (auto simp: classifyAllWithEvidence_def)
  have "devices_ok (targetAllowed (intel_buildScope report ac)) s" unfolding s_def by (rule devices_ok_ingest)
  then have "device_allowed (targetAllowed (intel_buildScope report ac)) (fst (k, d0)) (snd (k, d0)) \<and>
      services_ok (did_Services (snd (k, d0)))"
    using d0 unfolding devices_ok_def by blast
  then have ok: "device_allowed (targetAllowed (intel_buildScope report ac)) k d0" "services_ok (did_Services d0)"
    by simp_all
  have "did_Services d = did_Services d0" "did_IPAddresses d = did_IPAddresses d0"
    unfolding d d1' by (simp_all add: keeps)
  then have "device_allowed (targetAllowed (intel_buildScope report ac)) k d" "services_ok (did_Services d)"
    using ok by (simp_all add: device_allowed_def)
  then show thesis using d unfolding d1' by (rule that)
qed

text \<open>
  C11: Unless the user allowed public targets, every device of the device intelligence report has a
  private, loopback or link-local address: neither the topology report, nor an evidence record, nor
  the hops, gateways and modem candidates of the access scan can put a public host into it.
\<close>

theorem intel_devices_private:
  "if scp_PublicAllowed (rep_Scope report) then True
   else list_all (\<lambda>d. \<exists>ip. IsPrivateIPString ip \<and> trim_space ip \<in> set (did_IPAddresses d))
          (dir_Devices (intel_Build now clock report ac))"
proof -
  have "\<exists>ip. IsPrivateIPString ip \<and> trim_space ip \<in> set (did_IPAddresses d)"
    if "\<not> scp_PublicAllowed (rep_Scope report)" "d \<in> set (dir_Devices (intel_Build now clock report ac))" for d
  proof -
    from that(2) obtain k where "device_allowed (targetAllowed (intel_buildScope report ac)) k d" by (rule in_report)
    then obtain ip where ip: "targetAllowed (intel_buildScope report ac) ip"
      "trim_space ip = [] \<or> trim_space ip \<in> set (did_IPAddresses d)"
      unfolding device_allowed_def by blast
    then have "IsPrivateIPString ip" using that(1) by (simp add: targetAllowed_def intel_buildScope_def Let_def)
    then show ?thesis using ip(2) private_not_blank by blast
  qed
  then show ?thesis by (simp add: list_all_iff)
qed

section \<open>Sorted facts\<close>

lemma sorted_sortedUnique: "sorted_wrt str_less (intel_sortedUnique xs)"
proof -
  have "distinct (intel_sortedUnique xs)"
    unfolding intel_sortedUnique_def sort_strings_def
    by (metis distinct_intel_appendUnique mset_eq_imp_distinct_iff mset_sort_by)
  then show ?thesis unfolding intel_sortedUnique_def by (rule str_sorted_strict) (rule sorted_sort_strings)
qed

lemma clamp01_range: "0 \<le> intel_clamp01 v" "intel_clamp01 v \<le> 1"
  by (simp_all add: intel_clamp01_def)

lemma classified_confidence: "\<exists>c. did_Confidence (classifyDevice t ev d) = intel_clamp01 c"
proof -
  have "did_Confidence (finalizeConfidence x) = final_confidence x" for x
    by (simp add: finalizeConfidence_def Let_def)
  moreover have "\<exists>c. final_confidence x = intel_clamp01 c" for x
    unfolding final_confidence_def Let_def by (rule exI) (rule refl)
  ultimately show ?thesis by (simp add: classifyDevice_def)
qed

text \<open>
  In every device of the report the services are keyed by protocol and port without duplicates and
  ordered by port and protocol, whatever was merged into them; the evidence identifiers and the roles
  are strictly sorted, and the confidence lies between 0 and 1.
\<close>

theorem intel_devices_wellformed:
  "list_all (\<lambda>d. distinct (map svc_key (did_Services d)) \<and>
       sorted_wrt (\<lambda>a b. \<not> intel_service_before b a) (did_Services d) \<and>
       sorted_wrt str_less (did_EvidenceIDs d) \<and> sorted_wrt str_less (did_Roles d) \<and>
       0 \<le> did_Confidence d \<and> did_Confidence d \<le> 1)
     (dir_Devices (intel_Build now clock report ac))"
  unfolding list_all_iff
proof
  fix d
  assume "d \<in> set (dir_Devices (intel_Build now clock report ac))"
  then obtain k d0 where ok: "services_ok (did_Services d)"
    and d: "d = (classifyDevice (clock k) (rep_Evidence report) d0)
      \<lparr>did_EvidenceIDs := intel_sortedUnique (did_EvidenceIDs (classifyDevice (clock k) (rep_Evidence report) d0)),
       did_Roles := intel_sortedUnique (did_Roles (classifyDevice (clock k) (rep_Evidence report) d0))\<rparr>"
    by (rule in_report)
  obtain c where "did_Confidence (classifyDevice (clock k) (rep_Evidence report) d0) = intel_clamp01 c"
    using classified_confidence by blast
  then have "did_Confidence d = intel_clamp01 c" unfolding d by simp
  then have "0 \<le> did_Confidence d \<and> did_Confidence d \<le> 1" by (simp add: clamp01_range)
  moreover have "sorted_wrt str_less (did_EvidenceIDs d) \<and> sorted_wrt str_less (did_Roles d)"
    unfolding d by (simp add: sorted_sortedUnique)
  ultimately show "distinct (map svc_key (did_Services d)) \<and>
       sorted_wrt (\<lambda>a b. \<not> intel_service_before b a) (did_Services d) \<and>
       sorted_wrt str_less (did_EvidenceIDs d) \<and> sorted_wrt str_less (did_Roles d) \<and>
       0 \<le> did_Confidence d \<and> did_Confidence d \<le> 1"
    using ok by (simp add: services_ok_def)
qed

text \<open>
  No two evidence records of the device intelligence report share an identifier, however the devices,
  the evidence and the access context repeat them, as long as no record of the scan has a name of the
  form the store reserves for its own observations.
\<close>

theorem intel_evidence_unique:
  assumes "list_all named_outside (rep_Evidence report)"
  shows "distinct (map dio_ID (dir_Evidence (intel_Build now clock report ac)))"
proof -
  have "named_outside ev" if "evidenceIndex (rep_Evidence report) i = Some ev" for i ev
    using that assms map_of_SomeD by (fastforce simp: evidenceIndex_def list_all_iff)
  then have "device_ingest (\<lambda>_. True) named_outside evidence_ids_ok (intel_buildScope report ac)
      (evidenceIndex (rep_Evidence report))"
    by unfold_locales simp_all
  from intel_ingest_inv [OF this] have "evidence_ids_ok (snd (intel_ingest now report ac))"
    using assms by (simp add: evidence_ids_ok_def intel_NewEvidenceStore_def)
  then show ?thesis
    by (simp add: intel_Build_def case_prod_beta Let_def evidence_ids_ok_def classifyAllWithEvidence_def)
qed

definition example_report :: ScanReport where
  "example_report =
     \<lparr>rep_SchemaVersion = TopologyReportSchema, rep_ScanID = ''topo_1'', rep_CreatedAt = 0,
      rep_Agent = \<lparr>agi_Version = [], agi_Hostname = [], agi_OS = [], agi_Gateway = [], agi_DNSServers = [],
        agi_Interfaces = []\<rparr>,
      rep_Scope = \<lparr>scp_Requested = [], scp_CIDR = ''192.168.1.0/24'', scp_Interface = [], scp_HostCount = 254,
        scp_Private = True, scp_PublicAllowed = False, scp_Profile = []\<rparr>,
      rep_Devices = [], rep_Edges = [],
      rep_Evidence = map (\<lambda>i. \<lparr>tev_ID = i, tev_Kind = ''arp'', tev_Source = ''arp'', tev_Summary = [], tev_Data = [],
        tev_Timestamp = 0\<rparr>) [''ev-1'', ''ev-2'', ''ev-1''],
      rep_EvidenceRegistry = [], rep_Warnings = [],
      rep_Summary = \<lparr>sum_DeviceCount = 0, sum_EdgeCount = 0, sum_EvidenceCount = 3, sum_HighConfidenceEdges = 0,
        sum_InferredOnly = False, sum_Profile = [], sum_DurationMS = 0\<rparr>,
      rep_DiscoverySummary = None, rep_Topology = None\<rparr>"

theorem intel_evidence_unique_witness:
  "distinct (map dio_ID (dir_Evidence (intel_Build (\<lambda>_. 0) (\<lambda>_. 0) example_report None)))"
  by (rule intel_evidence_unique) (simp add: example_report_def named_outside_def has_prefix_iff)

section \<open>The type of a device\<close>

lemma type_before_asym: "Intel_Classify.candidate_before a b \<Longrightarrow> \<not> Intel_Classify.candidate_before b a"
  using str_less_asym by (auto simp: Intel_Classify.candidate_before_def split: if_splits)

lemma type_before_trans:
  assumes "\<not> Intel_Classify.candidate_before b a" and "\<not> Intel_Classify.candidate_before c b"
  shows "\<not> Intel_Classify.candidate_before c a"
proof -
  from assms have "dtc_Confidence b \<le> dtc_Confidence a" "dtc_Confidence c \<le> dtc_Confidence b"
    unfolding Intel_Classify.candidate_before_def by (simp_all split: if_splits)
  moreover from assms have "\<not> str_less (dtc_Type c) (dtc_Type a)"
    if "dtc_Confidence a = dtc_Confidence b" "dtc_Confidence b = dtc_Confidence c"
    using that str_less_total [of "dtc_Type a" "dtc_Type b"]
      str_less_trans [of "dtc_Type c" "dtc_Type a" "dtc_Type b"]
    unfolding Intel_Classify.candidate_before_def by auto
  ultimately show ?thesis unfolding Intel_Classify.candidate_before_def by auto
qed

interpretation type_order: weak_order Intel_Classify.candidate_before "\<lambda>_. True"
proof
  fix x y z :: DeviceTypeCandidate
  show "Intel_Classify.candidate_before x y \<Longrightarrow> \<not> Intel_Classify.candidate_before y x" by (rule type_before_asym)
  show "\<not> Intel_Classify.candidate_before y x \<Longrightarrow> \<not> Intel_Classify.candidate_before z y \<Longrightarrow> \<not> Intel_Classify.candidate_before z x"
    by (rule type_before_trans)
qed

text \<open>Merging a candidate never weakens the candidates of any type.\<close>

definition offers :: "DeviceTypeCandidate list \<Rightarrow> string \<Rightarrow> float64 \<Rightarrow> bool" where
  "offers cs t v \<longleftrightarrow> (\<exists>c \<in> set cs. dtc_Type c = t \<and> v \<le> dtc_Confidence c)"

lemma offers_merge_new: "v \<le> dtc_Confidence new \<Longrightarrow> offers (mergeCandidate cs new) (dtc_Type new) v"
  by (induction cs) (auto simp: offers_def intel_maxFloat_def)

lemma offers_merge_old: "offers cs t v \<Longrightarrow> offers (mergeCandidate cs new) t v"
  by (induction cs) (auto simp: offers_def intel_maxFloat_def)

lemma candidates_add [simp]:
  "dtg_Candidates (did_DeviceType (Intel_Store.add_candidate c d)) = mergeCandidate (dtg_Candidates (did_DeviceType d)) c"
  by (simp add: Intel_Store.add_candidate_def)

lemma offers_fold_old:
  "offers (dtg_Candidates (did_DeviceType d)) t v \<Longrightarrow>
   offers (dtg_Candidates (did_DeviceType (fold Intel_Store.add_candidate cs d))) t v"
  by (induction cs arbitrary: d) (simp_all add: offers_merge_old)

lemma offers_fold_new:
  "c \<in> set cs \<Longrightarrow> v \<le> dtc_Confidence c \<Longrightarrow>
   offers (dtg_Candidates (did_DeviceType (fold Intel_Store.add_candidate cs d))) (dtc_Type c) v"
proof (induction cs arbitrary: d)
  case (Cons x xs)
  then show ?case by (auto intro: offers_fold_old simp: offers_merge_new)
qed simp

lemma nginx_type: "did_DeviceType (fold nginx_note obs d) = did_DeviceType d"
  by (induction obs arbitrary: d) (simp_all add: nginx_note_def add_note_def explain_def)

lemma offers_candidates:
  assumes "c \<in> set (gateway_candidates d @ printer_candidates d @ windows_candidates d @ port_candidates d @
    mobile_candidates d @ server_candidates d)" and "v \<le> dtc_Confidence c"
  shows "offers (dtg_Candidates (did_DeviceType (addDeviceTypeCandidates d))) (dtc_Type c) v"
  unfolding addDeviceTypeCandidates_def nginx_type using assms by (rule offers_fold_new)

lemma gateway_offered:
  assumes "is_gw d"
  shows "offers (dtg_Candidates (did_DeviceType (addDeviceTypeCandidates d))) DeviceTypeGatewayRouter (flit (70 / 100))"
proof -
  have le: "flit (70 / 100) \<le> flit (82 / 100)" by (rule flit_mono) simp
  have offered: "offers (dtg_Candidates (did_DeviceType (addDeviceTypeCandidates d))) DeviceTypeGatewayRouter (flit (70 / 100))"
    if "gateway_candidates d = c # cs" "dtc_Type c = DeviceTypeGatewayRouter" "flit (70 / 100) \<le> dtc_Confidence c" for c cs
    using offers_candidates [of c d] that by simp
  show ?thesis
  proof (cases "hasOpenPort d 53 \<or> hasAnyPort d [80, 443, 8080, 8443]")
    case True
    then show ?thesis using assms le
      by (intro offered [where c = "type_candidate DeviceTypeGatewayRouter (flit (82 / 100)) _ _ _"])
        (simp add: gateway_candidates_def, simp_all add: type_candidate_def)
  next
    case False
    then show ?thesis using assms
      by (intro offered [where c = "type_candidate DeviceTypeGatewayRouter (flit (70 / 100)) _ _ _"])
        (simp add: gateway_candidates_def, simp_all add: type_candidate_def)
  qed
qed

lemma topology_kept:
  "did_Topology (addServiceRoles d) = did_Topology d" "did_Topology (addProtocolInfo d) = did_Topology d"
  "did_Topology (applyMobileFingerprint t ev d) = did_Topology d"
proof -
  have w: "did_Topology (if b then add_roles r x else x) = did_Topology x" for b r x by (simp add: add_roles_def)
  show "did_Topology (addServiceRoles d) = did_Topology d" by (simp add: addServiceRoles_def Let_def w)
  show "did_Topology (addProtocolInfo d) = did_Topology d" by (simp add: addProtocolInfo_def Let_def)
  show "did_Topology (applyMobileFingerprint t ev d) = did_Topology d"
    by (simp add: applyMobileFingerprint_def Let_def explain_def)
qed

lemma type_kept:
  "did_DeviceType (guessOS d) = did_DeviceType d" "did_DeviceType (addSecurityFindings d) = did_DeviceType d"
  "did_DeviceType (finalizeConfidence d) = did_DeviceType d"
  by (simp_all add: guessOS_def addSecurityFindings_def finalizeConfidence_def Let_def)

lemma picked_type:
  fixes d defines "g \<equiv> did_DeviceType (pickPrimaryType d)"
  shows "set (dtg_Candidates g) = set (dtg_Candidates (did_DeviceType d))"
    and "case dtg_Candidates g of
        [] \<Rightarrow> dtg_Primary g = DeviceTypeUnknown \<and> dtg_Confidence g = 0
      | best # others \<Rightarrow>
          dtg_Confidence g = dtc_Confidence best \<and>
          dtg_Primary g = (if dtc_Confidence best < flit (50 / 100) then DeviceTypeUnknown else dtc_Type best) \<and>
          list_all (\<lambda>c. dtc_Confidence c \<le> dtc_Confidence best) others"
proof -
  define cs where "cs = sort_by Intel_Classify.candidate_before (dtg_Candidates (did_DeviceType d))"
  have cs: "dtg_Candidates g = cs"
    by (simp add: g_def pickPrimaryType_def Let_def cs_def [symmetric] no_type_def weak_type_def best_type_def
        add_roles_def explain_def split: list.split)
  then show "set (dtg_Candidates g) = set (dtg_Candidates (did_DeviceType d))" by (simp add: cs_def)
  have sorted: "sorted_wrt (\<lambda>a b. \<not> Intel_Classify.candidate_before b a) cs"
    unfolding cs_def by (rule type_order.sorted_sort_by) simp
  show "case dtg_Candidates g of
        [] \<Rightarrow> dtg_Primary g = DeviceTypeUnknown \<and> dtg_Confidence g = 0
      | best # others \<Rightarrow>
          dtg_Confidence g = dtc_Confidence best \<and>
          dtg_Primary g = (if dtc_Confidence best < flit (50 / 100) then DeviceTypeUnknown else dtc_Type best) \<and>
          list_all (\<lambda>c. dtc_Confidence c \<le> dtc_Confidence best) others"
  proof (cases cs)
    case Nil
    then show ?thesis
      unfolding cs by (simp add: g_def pickPrimaryType_def Let_def cs_def [symmetric] no_type_def add_roles_def)
  next
    case (Cons best others)
    have "list_all (\<lambda>c. dtc_Confidence c \<le> dtc_Confidence best) others"
      using sorted unfolding Cons by (auto simp: list_all_iff Intel_Classify.candidate_before_def split: if_splits)
    then show ?thesis
      unfolding cs Cons
      by (simp add: g_def pickPrimaryType_def Let_def cs_def [symmetric] Cons weak_type_def best_type_def explain_def)
  qed
qed

text \<open>
  C13: The type shown for a device is that of a candidate with the highest confidence, or unknown when
  there is none or the best stays below 0.5; and a default gateway always gets a type, with a confidence
  of at least 0.7, whatever else was observed on it.
\<close>

theorem classified_type:
  "let g = did_DeviceType (classifyDevice clock evidence d) in
     (case dtg_Candidates g of
        [] \<Rightarrow> dtg_Primary g = DeviceTypeUnknown \<and> dtg_Confidence g = 0
      | best # others \<Rightarrow>
          dtg_Confidence g = dtc_Confidence best \<and>
          dtg_Primary g = (if dtc_Confidence best < flit (50 / 100) then DeviceTypeUnknown else dtc_Type best) \<and>
          list_all (\<lambda>c. dtc_Confidence c \<le> dtc_Confidence best) others) \<and>
     (if is_gw d then flit (70 / 100) \<le> dtg_Confidence g else True)"
proof -
  define d1 where "d1 = applyMobileFingerprint clock evidence (addProtocolInfo (addServiceRoles d))"
  define g where "g = did_DeviceType (pickPrimaryType (addDeviceTypeCandidates d1))"
  have g: "did_DeviceType (classifyDevice clock evidence d) = g"
    by (simp add: classifyDevice_def type_kept g_def d1_def)
  note picked = picked_type [of "addDeviceTypeCandidates d1", folded g_def]
  have "flit (70 / 100) \<le> dtg_Confidence g" if "is_gw d"
  proof -
    have "is_gw d1" using that by (simp add: is_gw_def d1_def topology_kept)
    then have "offers (dtg_Candidates g) DeviceTypeGatewayRouter (flit (70 / 100))"
      using gateway_offered [of d1] picked(1) by (simp add: offers_def)
    then show ?thesis
      using picked(2) by (cases "dtg_Candidates g") (auto simp: offers_def list_all_iff)
  qed
  then show ?thesis unfolding g Let_def using picked(2) by simp
qed

section \<open>Security findings\<close>

lemma risk_loop_level:
  "risk_loop level fs =
   (if list_ex (\<lambda>f. sf_Severity f = ''high'') fs then ''high''
    else if list_ex (\<lambda>f. sf_Severity f = ''medium'') fs then ''medium'' else level)"
  by (induction fs arbitrary: level) auto

lemma riskLevel_eq:
  "riskLevel fs =
     (if fs = [] then ''unknown''
      else if list_ex (\<lambda>f. sf_Severity f = ''high'') fs then ''high''
      else if list_ex (\<lambda>f. sf_Severity f = ''medium'') fs then ''medium'' else ''low'')"
  by (simp add: riskLevel_def risk_loop_level)

lemma riskLevel_high: "riskLevel fs = ''high'' \<longleftrightarrow> list_ex (\<lambda>f. sf_Severity f = ''high'') fs"
  by (simp add: riskLevel_eq)

lemma merge_finding_None: "merge_finding f xs = None \<longleftrightarrow> sf_ID f \<notin> sf_ID ` set xs"
  by (induction xs) auto

lemma fold_findings:
  "distinct (map sf_ID (rev nxt @ out)) \<Longrightarrow>
   fold (\<lambda>f out. case merge_finding f out of Some out' \<Rightarrow> out' | None \<Rightarrow> f # out) nxt out = rev nxt @ out"
proof (induction nxt arbitrary: out)
  case (Cons f nxt)
  then have "merge_finding f out = None" by (simp add: merge_finding_None)
  moreover have "distinct (map sf_ID (rev nxt @ f # out))" using Cons.prems by auto
  ultimately show ?case using Cons.IH by simp
qed simp

lemma mergeFindings_first: "distinct (map sf_ID nxt) \<Longrightarrow> mergeFindings [] nxt = nxt"
  using fold_findings [of nxt "[]"] by (simp add: mergeFindings_def rev_map [symmetric])

definition optional :: "bool \<Rightarrow> 'a \<Rightarrow> 'a list" where
  "optional b x = (if b then [x] else [])"

lemma optional_mem: "y \<in> set (optional b x) \<longleftrightarrow> b \<and> y = x"
  by (cases b) (simp_all add: optional_def)

lemma optional_distinct: "distinct (optional b x)" "distinct (optional b x @ ys) \<longleftrightarrow> (b \<longrightarrow> x \<notin> set ys) \<and> distinct ys"
  by (cases b; simp add: optional_def)+

lemma findings_distinct: "distinct (map sf_ID (service_findings d @ state_findings d))"
proof -
  have "\<exists>b5 b6 b7. map sf_ID (state_findings d) =
      optional b5 ''upnp_exposed_lan'' @ optional b6 ''unknown_device'' @ optional b7 ''many_services_on_agent''"
  proof (intro exI)
    show "map sf_ID (state_findings d) =
      optional (case did_UPnPInfo d of Some u \<Rightarrow> upi_Detected u | None \<Rightarrow> False) ''upnp_exposed_lan'' @
      optional (dtg_Primary (did_DeviceType d) = DeviceTypeUnknown) ''unknown_device'' @
      optional (dtf_IsAgent (did_Topology d) \<and> length (did_Services d) \<ge> 5) ''many_services_on_agent''"
      by (cases "did_UPnPInfo d") (simp_all add: state_findings_def optional_def finding_def)
  qed
  moreover have "map sf_ID (service_findings d) =
      optional (hasOpenPort d 23) ''open_telnet'' @ optional (hasOpenPort d 445) ''open_smb'' @
      optional (hasAnyPort d [80, 8080] \<and> (is_gw d \<or> is_upstream d)) ''open_http_management'' @
      optional (hasOpenPort d 9100) ''printer_raw_9100''"
    by (simp add: service_findings_def optional_def finding_def)
  ultimately obtain b5 b6 b7 where "map sf_ID (service_findings d @ state_findings d) =
      optional (hasOpenPort d 23) ''open_telnet'' @ optional (hasOpenPort d 445) ''open_smb'' @
      optional (hasAnyPort d [80, 8080] \<and> (is_gw d \<or> is_upstream d)) ''open_http_management'' @
      optional (hasOpenPort d 9100) ''printer_raw_9100'' @
      optional b5 ''upnp_exposed_lan'' @ optional b6 ''unknown_device'' @ optional b7 ''many_services_on_agent''"
    by (metis append.assoc map_append)
  then show ?thesis by (simp only:) (simp add: optional_mem optional_distinct del: distinct_append)
qed

lemma findings_high: "list_ex (\<lambda>f. sf_Severity f = ''high'') (service_findings d @ state_findings d) \<longleftrightarrow> hasOpenPort d 23"
  by (simp add: service_findings_def state_findings_def finding_def split: option.split)

definition earlier_findings :: "DeviceIntelDevice \<Rightarrow> SecurityFinding list" where
  "earlier_findings d = spo_Findings (did_SecurityPosture d)"

lemma earlier_kept:
  "earlier_findings (addServiceRoles d) = earlier_findings d"
  "earlier_findings (addProtocolInfo d) = earlier_findings d"
  "earlier_findings (applyMobileFingerprint t ev d) = earlier_findings d"
  "earlier_findings (addDeviceTypeCandidates d) = earlier_findings d"
  "earlier_findings (pickPrimaryType d) = earlier_findings d"
  "earlier_findings (guessOS d) = earlier_findings d"
proof -
  have w: "earlier_findings (if b then add_roles r x else x) = earlier_findings x" for b r x
    by (simp add: add_roles_def earlier_findings_def)
  show "earlier_findings (addServiceRoles d) = earlier_findings d" by (simp add: addServiceRoles_def Let_def w)
  show "earlier_findings (addProtocolInfo d) = earlier_findings d"
    by (simp add: addProtocolInfo_def Let_def earlier_findings_def)
  show "earlier_findings (applyMobileFingerprint t ev d) = earlier_findings d"
    by (simp add: applyMobileFingerprint_def Let_def explain_def earlier_findings_def)
  have "earlier_findings (fold Intel_Store.add_candidate cs x) = earlier_findings x" for cs x
    by (induction cs arbitrary: x) (simp_all add: Intel_Store.add_candidate_def earlier_findings_def)
  moreover have "earlier_findings (fold nginx_note obs x) = earlier_findings x" for obs x
    by (induction obs arbitrary: x) (simp_all add: nginx_note_def add_note_def explain_def earlier_findings_def)
  ultimately show "earlier_findings (addDeviceTypeCandidates d) = earlier_findings d"
    by (simp add: addDeviceTypeCandidates_def)
  show "earlier_findings (pickPrimaryType d) = earlier_findings d"
    by (simp add: pickPrimaryType_def Let_def add_roles_def explain_def earlier_findings_def split: list.split)
  show "earlier_findings (guessOS d) = earlier_findings d" by (simp add: guessOS_def earlier_findings_def)
qed

text \<open>
  C14: The risk level is that of the gravest finding. A device without earlier findings gets every finding
  at most once, and its risk is high exactly when Telnet is open on it.
\<close>

theorem risk_level_exact:
  "let p = did_SecurityPosture (classifyDevice clock evidence d) in
     spo_RiskLevel p =
       (if spo_Findings p = [] then ''unknown''
        else if list_ex (\<lambda>f. sf_Severity f = ''high'') (spo_Findings p) then ''high''
        else if list_ex (\<lambda>f. sf_Severity f = ''medium'') (spo_Findings p) then ''medium'' else ''low'') \<and>
     (if spo_Findings (did_SecurityPosture d) = []
      then distinct (map sf_ID (spo_Findings p)) \<and> (spo_RiskLevel p = ''high'') = hasOpenPort d 23 else True)"
proof -
  define x where "x = guessOS (pickPrimaryType (addDeviceTypeCandidates
    (applyMobileFingerprint clock evidence (addProtocolInfo (addServiceRoles d)))))"
  define fs where "fs = mergeFindings (earlier_findings x) (service_findings x @ state_findings x)"
  have p: "did_SecurityPosture (classifyDevice clock evidence d) =
      (did_SecurityPosture x)\<lparr>spo_Findings := fs, spo_RiskLevel := riskLevel fs\<rparr>"
    by (simp add: classifyDevice_def x_def [symmetric] finalizeConfidence_def addSecurityFindings_def Let_def
        fs_def earlier_findings_def)
  have ports: "hasOpenPort x 23 = hasOpenPort d 23" by (simp add: hasOpenPort_def x_def keeps)
  have "fs = service_findings x @ state_findings x" if "earlier_findings d = []"
    unfolding fs_def x_def earlier_kept that by (rule mergeFindings_first) (rule findings_distinct)
  then have "distinct (map sf_ID fs) \<and> (riskLevel fs = ''high'') = hasOpenPort d 23"
    if "spo_Findings (did_SecurityPosture d) = []"
    using that findings_distinct [of x] findings_high [of x] ports
    by (simp add: earlier_findings_def riskLevel_high)
  then show ?thesis by (simp add: p riskLevel_eq [symmetric])
qed

section \<open>Edges\<close>

lemma chain_edges_upstream:
  "e \<in> set (fst (chain_edges state i hops existing s)) \<Longrightarrow> die_Inferred e \<and> \<not> die_Physical e"
  by (induction state i hops existing s rule: chain_edges.induct)
    (auto simp: Let_def upstream_edge_def case_prod_beta split: if_splits)

lemma edges_of_report:
  assumes "e \<in> set (dir_Edges (intel_Build now clock report ac))"
  shows "(\<exists>t \<in> set (rep_Edges report). e = convert_edge t) \<or> (die_Inferred e \<and> \<not> die_Physical e)"
proof -
  have "e \<in> set (map convert_edge (rep_Edges report)) \<or>
      (\<exists>s x. e \<in> set (fst (gatewayChainEdges ac s x)))"
    using assms by (auto simp: intel_Build_def intel_ingest_def convertEdges_def case_prod_beta Let_def)
  then show ?thesis
    using chain_edges_upstream by (fastforce simp: gatewayChainEdges_def split: option.splits)
qed

text \<open>
  No edge of the report is both inferred and physical. A physical edge comes from a neighbour
  protocol or a bridge table; a same-subnet edge has at most confidence 0.35, a default route 0.6 and a
  traceroute hop 0.7, however sure the topology scan was.
\<close>

theorem intel_edges_modest:
  "list_all (\<lambda>e. \<not> (die_Inferred e \<and> die_Physical e) \<and>
       (if die_Physical e
        then die_Type e \<in> {DeviceEdgeLLDPPhysicalNeighbor, DeviceEdgeCDPPhysicalNeighbor, DeviceEdgeSNMPBridgeFDB}
        else True))
     (dir_Edges (intel_Build now clock report ac)) \<and>
   edgeConfidence (t\<lparr>edge_Type := EdgeInferredL2\<rparr>) \<le> flit (35 / 100) \<and>
   edgeConfidence (t\<lparr>edge_Type := EdgeGatewayDefault\<rparr>) \<le> flit (60 / 100) \<and>
   edgeConfidence (t\<lparr>edge_Type := EdgeRouteHop\<rparr>) \<le> flit (70 / 100)"
proof -
  have "\<not> (die_Inferred e \<and> die_Physical e) \<and>
      (if die_Physical e
       then die_Type e \<in> {DeviceEdgeLLDPPhysicalNeighbor, DeviceEdgeCDPPhysicalNeighbor, DeviceEdgeSNMPBridgeFDB}
       else True)"
    if "e \<in> set (dir_Edges (intel_Build now clock report ac))" for e
    using edges_of_report [OF that]
    by (auto simp: convert_edge_def isInferredEdge_def isPhysicalEdge_def mapEdgeType_def edge_types)
  then have "list_all (\<lambda>e. \<not> (die_Inferred e \<and> die_Physical e) \<and>
      (if die_Physical e
       then die_Type e \<in> {DeviceEdgeLLDPPhysicalNeighbor, DeviceEdgeCDPPhysicalNeighbor, DeviceEdgeSNMPBridgeFDB}
       else True)) (dir_Edges (intel_Build now clock report ac))"
    unfolding list_all_iff by blast
  then show ?thesis by (simp add: edgeConfidence_def edge_types intel_minFloat_def Let_def)
qed

end
