(* ===== verification/Rich_Laws.thy ===== *)
theory Rich_Laws
  imports Rich_Topology Upstream_Enrich Intel_Laws Validate_Laws
begin

text \<open>
  The graph of the report passes the validator of the agent whenever the scan it is made of does, and
  what it says about itself: it never counts a cable proven by a neighbour protocol.
\<close>

section \<open>Nodes\<close>

definition nodes_ok :: "(string \<times> RichTopologyNode) list \<Rightarrow> bool" where
  "nodes_ok nodes \<longleftrightarrow> distinct (map fst nodes) \<and>
     (\<forall>(i, n) \<in> set nodes. rn_ID n = i \<and> i \<noteq> [] \<and> in_unit (rn_Confidence n))"

lemma in_unit_max: "in_unit a \<Longrightarrow> in_unit b \<Longrightarrow> in_unit (rich_maxFloat a b)"
  by (simp add: in_unit_def rich_maxFloat_def)

lemma ensureNode_ok:
  assumes "nodes_ok nodes" and "ensureNode i nodes = (k, n)"
  shows "rn_ID n = k \<and> k \<noteq> [] \<and> in_unit (rn_Confidence n) \<and> k = (if i = [] then ''unknown'' else i)"
proof (cases "map_of nodes k")
  case None
  then show ?thesis using assms(2) by (auto simp: ensureNode_def Let_def in_unit_def split: if_splits)
next
  case (Some m)
  then have "(k, m) \<in> set nodes" by (rule map_of_SomeD)
  then show ?thesis using assms Some by (auto simp: ensureNode_def Let_def nodes_ok_def)
qed

lemma nodes_ok_set:
  "nodes_ok nodes \<Longrightarrow> rn_ID n = k \<Longrightarrow> k \<noteq> [] \<Longrightarrow> in_unit (rn_Confidence n) \<Longrightarrow> nodes_ok (alist_set k n nodes)"
  by (auto simp: nodes_ok_def dest!: set_alist_setD)

lemma root_node_kept [simp]:
  "rn_ID (root_node ix d n) = rn_ID n" "rn_Confidence (root_node ix d n) = rich_maxFloat (rn_Confidence n) (dev_Confidence d)"
  by (simp_all add: root_node_def)

lemma intel_node_kept [simp]:
  "rn_ID (intel_node ix d n) = rn_ID n" "rn_Confidence (intel_node ix d n) = rich_maxFloat (rn_Confidence n) (did_Confidence d)"
  by (simp_all add: intel_node_def)

lemma upsertRoot_ok:
  assumes "nodes_ok nodes" and "in_unit (dev_Confidence d)" and "dev_ID d \<noteq> []"
  shows "nodes_ok (upsertRootDevice ix d nodes) \<and>
    fst ` set (upsertRootDevice ix d nodes) = insert (dev_ID d) (fst ` set nodes)"
proof -
  obtain k n where e: "ensureNode (dev_ID d) nodes = (k, n)" by fastforce
  show ?thesis
    using ensureNode_ok [OF assms(1) e] assms(2,3)
    by (auto simp: upsertRootDevice_def e intro!: nodes_ok_set [OF assms(1)] in_unit_max)
qed

lemma upsertIntel_ok:
  assumes "nodes_ok nodes" and "in_unit (did_Confidence d)"
  shows "nodes_ok (upsertIntelDevice ix d nodes) \<and> fst ` set nodes \<subseteq> fst ` set (upsertIntelDevice ix d nodes)"
proof -
  obtain k n where e: "ensureNode (did_ID d) nodes = (k, n)" by fastforce
  show ?thesis
    using ensureNode_ok [OF assms(1) e] assms(2)
    by (auto simp: upsertIntelDevice_def e intro!: nodes_ok_set [OF assms(1)] in_unit_max)
qed

lemma root_nodes_ok:
  "nodes_ok nodes \<Longrightarrow> \<forall>d \<in> set ds. in_unit (dev_Confidence d) \<and> dev_ID d \<noteq> [] \<Longrightarrow>
   nodes_ok (fold (upsertRootDevice ix) ds nodes) \<and>
   fst ` set (fold (upsertRootDevice ix) ds nodes) = fst ` set nodes \<union> dev_ID ` set ds"
proof (induction ds arbitrary: nodes)
  case (Cons d ds)
  then show ?case using upsertRoot_ok [of nodes d ix] Cons.IH [of "upsertRootDevice ix d nodes"] by simp
qed simp

lemma intel_nodes_ok:
  "nodes_ok nodes \<Longrightarrow> \<forall>d \<in> set ds. in_unit (did_Confidence d) \<Longrightarrow>
   nodes_ok (fold (upsertIntelDevice ix) ds nodes) \<and>
   fst ` set nodes \<subseteq> fst ` set (fold (upsertIntelDevice ix) ds nodes)"
proof (induction ds arbitrary: nodes)
  case (Cons d ds)
  have step: "nodes_ok (upsertIntelDevice ix d nodes)" "fst ` set nodes \<subseteq> fst ` set (upsertIntelDevice ix d nodes)"
    using upsertIntel_ok [of nodes d ix] Cons.prems by simp_all
  show ?case using Cons.IH [OF step(1)] Cons.prems(2) subset_trans [OF step(2)] by simp
qed simp

lemma rich_nodes_ok:
  assumes "\<forall>d \<in> set ds. in_unit (dev_Confidence d) \<and> dev_ID d \<noteq> []" and "\<forall>d \<in> set is. in_unit (did_Confidence d)"
  shows "nodes_ok (rich_nodes ix ds is) \<and> dev_ID ` set ds \<subseteq> fst ` set (rich_nodes ix ds is)"
  using root_nodes_ok [OF _ assms(1), of "[]" ix] intel_nodes_ok [OF _ assms(2), of "fold (upsertRootDevice ix) ds []" ix]
  by (auto simp: rich_nodes_def nodes_ok_def)

section \<open>Edges\<close>

definition rich_edge_ok :: "string set \<Rightarrow> RichTopologyEdge \<Rightarrow> bool" where
  "rich_edge_ok ids e \<longleftrightarrow> rx_Source e \<in> ids \<and> rx_Target e \<in> ids \<and> rx_Type e \<noteq> [] \<and> rx_Relation e \<noteq> [] \<and>
     rx_Medium e \<noteq> [] \<and> in_unit (rx_Confidence e)"

definition edges_ok :: "string set \<Rightarrow> (string \<times> RichTopologyEdge) list \<Rightarrow> bool" where
  "edges_ok ids edges \<longleftrightarrow>
     (\<forall>(k, e) \<in> set edges. rx_ID e \<noteq> [] \<and> rx_Source e \<noteq> [] \<and> rx_Target e \<noteq> [] \<and> rich_edge_ok ids e)"

lemma edges_ok_set:
  "edges_ok ids edges \<Longrightarrow> rx_ID e \<noteq> [] \<Longrightarrow> rx_Source e \<noteq> [] \<Longrightarrow> rx_Target e \<noteq> [] \<Longrightarrow> rich_edge_ok ids e \<Longrightarrow>
   edges_ok ids (alist_set k e edges)"
  by (auto simp: edges_ok_def dest!: set_alist_setD)

lemma upsertRichEdge_ok:
  assumes "edges_ok ids edges" and "rich_edge_ok ids e"
  shows "edges_ok ids (upsertRichEdge e edges)"
proof (cases "rx_Source e = [] \<or> rx_Target e = [] \<or> rx_Source e = rx_Target e")
  case False
  define e1 where "e1 = (if rx_ID e = []
      then e\<lparr>rx_ID := ''edge-'' @ rx_Source e @ ''-'' @ rx_Target e @ ''-'' @ rx_Type e\<rparr> else e)"
  have e1: "rx_ID e1 \<noteq> []" "rx_Source e1 \<noteq> []" "rx_Target e1 \<noteq> []" "rich_edge_ok ids e1"
    using False assms(2) by (simp_all add: e1_def rich_edge_ok_def)
  have up: "upsertRichEdge e edges =
      (case map_of edges (rx_ID e1) of None \<Rightarrow> alist_set (rx_ID e1) e1 edges
       | Some old \<Rightarrow> if rx_Confidence e1 > rx_Confidence old then alist_set (rx_ID e1) e1 edges
          else alist_set (rx_ID e1) (old\<lparr>rx_Evidence := mergeRichEvidence (rx_Evidence old) (rx_Evidence e1)\<rparr>) edges)"
    using False unfolding upsertRichEdge_def Let_def e1_def [symmetric] by (simp only: if_False)
  show ?thesis
  proof (cases "map_of edges (rx_ID e1)")
    case None
    then show ?thesis unfolding up using e1 assms(1) by (simp add: edges_ok_set)
  next
    case (Some old)
    then have "(rx_ID e1, old) \<in> set edges" by (rule map_of_SomeD)
    then have old: "rx_ID old \<noteq> [] \<and> rx_Source old \<noteq> [] \<and> rx_Target old \<noteq> [] \<and> rich_edge_ok ids old"
      using assms(1) by (auto simp: edges_ok_def)
    then show ?thesis unfolding up using Some e1 assms(1) by (simp add: edges_ok_set rich_edge_ok_def)
  qed
qed (use assms(1) in \<open>simp add: upsertRichEdge_def\<close>)

lemma upsert_all_ok:
  "edges_ok ids edges \<Longrightarrow> \<forall>x \<in> set xs. rich_edge_ok ids (f x) \<Longrightarrow>
   edges_ok ids (fold (\<lambda>x. upsertRichEdge (f x)) xs edges)"
  by (induction xs arbitrary: edges) (simp_all add: upsertRichEdge_ok)

lemma reported_nonempty:
  "fst (reportedEdgeType ids ix) \<noteq> [] \<Longrightarrow>
   reportedEdgeType ids ix \<in> {(RichEdgeReportedByAP, ''wireless''), (RichEdgeReportedByRouter, ''l3'')}"
  by (induction ids) (auto simp: Let_def)

lemma reported_or_cases:
  "reported_or ids ix own \<in> {(RichEdgeReportedByAP, ''wireless''), (RichEdgeReportedByRouter, ''l3''), own}"
  using reported_nonempty [of ids ix] by (auto simp: reported_or_def Let_def)

lemma rich_firstNonEmpty_ne: "list_ex (\<lambda>v. trim_space v \<noteq> []) vs \<Longrightarrow> rich_firstNonEmpty vs \<noteq> []"
  by (induction vs) auto

lemma edge_type_words:
  "t \<in> validEdgeTypes \<Longrightarrow> trim_space t \<noteq> []" "t \<in> validEdgeTypes \<Longrightarrow> trim_space (mapEdgeType t) \<noteq> []"
proof -
  have "list_all (\<lambda>t. trim_space t \<noteq> [] \<and> trim_space (mapEdgeType t) \<noteq> [])
      [EdgeDirectLLDP, EdgeDirectCDP, EdgeSNMPBridge, EdgeRouteHop, EdgeInferredL2, EdgeGatewayDefault]" by code_simp
  then show "t \<in> validEdgeTypes \<Longrightarrow> trim_space t \<noteq> []" "t \<in> validEdgeTypes \<Longrightarrow> trim_space (mapEdgeType t) \<noteq> []"
    by (auto simp: validEdgeTypes_def)
qed

lemma edgeFromRoot_ok:
  assumes "edge_consistent ids known e"
  shows "rich_edge_ok ids (edgeFromRoot ix e)"
proof -
  have t: "edge_Type e \<in> validEdgeTypes" using assms by (simp add: edge_consistent_def)
  have "rich_firstNonEmpty [edge_Relationship e, edge_Type e] \<noteq> []"
    using edge_type_words(1) [OF t] by (intro rich_firstNonEmpty_ne) simp
  moreover have "fst (richEdgeTypeFromRoot e) \<noteq> [] \<and> snd (richEdgeTypeFromRoot e) \<noteq> []"
    using t by (auto simp: validEdgeTypes_def richEdgeTypeFromRoot_def edge_types rich_edge_types)
  ultimately show ?thesis
    using reported_or_cases [of "edge_EvidenceIDs e" ix "richEdgeTypeFromRoot e"] assms
    by (auto simp: edgeFromRoot_def rich_edge_ok_def edge_consistent_def rich_edge_types split: prod.splits)
qed

lemma in_unit_flit: "0 \<le> x \<Longrightarrow> x \<le> 1 \<Longrightarrow> in_unit (flit x)"
  using flit_mono [of 0 x] flit_mono [of x 1] by (simp add: in_unit_def flit_def)

lemma in_unit_bounds: "in_unit a \<Longrightarrow> in_unit b \<Longrightarrow> in_unit (intel_minFloat a b)"
  "in_unit a \<Longrightarrow> in_unit b \<Longrightarrow> in_unit (intel_maxFloat a b)"
  by (simp_all add: intel_minFloat_def intel_maxFloat_def)

lemma edgeConfidence_unit: "in_unit (edge_Confidence e) \<Longrightarrow> in_unit (edgeConfidence e)"
  by (simp add: edgeConfidence_def Let_def in_unit_bounds in_unit_flit)

lemma edgeFromIntel_ok:
  assumes "edge_consistent ids known e"
  shows "rich_edge_ok ids (edgeFromIntel ix (convert_edge e))"
proof -
  have t: "edge_Type e \<in> validEdgeTypes" and c: "in_unit (edge_Confidence e)" using assms by (simp_all add: edge_consistent_def)
  define d where "d = convert_edge e"
  have rel: "rich_firstNonEmpty [die_Type d, w] \<noteq> []" for w
    using edge_type_words(2) [OF t] by (intro rich_firstNonEmpty_ne) (simp add: d_def convert_edge_def)
  have "fst (richEdgeTypeFromIntel d) \<noteq> [] \<and> snd (richEdgeTypeFromIntel d) \<noteq> []"
    by (simp add: richEdgeTypeFromIntel_def rich_edge_types Let_def)
  then show ?thesis
    using reported_or_cases [of "die_EvidenceIDs d" ix "richEdgeTypeFromIntel d"] assms edgeConfidence_unit [OF c] rel
    unfolding d_def [symmetric]
    by (auto simp: edgeFromIntel_def rich_edge_ok_def edge_consistent_def rich_edge_types d_def convert_edge_def
        simp del: rich_firstNonEmpty.simps split: prod.splits)
qed

lemma rich_edges_ok:
  assumes "\<forall>e \<in> set es. edge_consistent ids known e" and "set ies \<subseteq> convert_edge ` set es"
  shows "edges_ok ids (rich_edges ix es ies)"
proof -
  have "edges_ok ids []" by (simp add: edges_ok_def)
  then have "edges_ok ids (fold (\<lambda>e. upsertRichEdge (edgeFromRoot ix e)) es [])"
    by (rule upsert_all_ok) (use assms(1) edgeFromRoot_ok in blast)
  then show ?thesis unfolding rich_edges_def
    by (rule upsert_all_ok) (use assms edgeFromIntel_ok in blast)
qed

lemma fold_times_kept:
  "rx_ID (fold (\<lambda>ev e. e\<lparr>rx_FirstSeen := f ev e, rx_LastSeen := g ev e\<rparr>) evs e) = rx_ID e"
  "rx_Source (fold (\<lambda>ev e. e\<lparr>rx_FirstSeen := f ev e, rx_LastSeen := g ev e\<rparr>) evs e) = rx_Source e"
  "rx_Target (fold (\<lambda>ev e. e\<lparr>rx_FirstSeen := f ev e, rx_LastSeen := g ev e\<rparr>) evs e) = rx_Target e"
  "rx_Type (fold (\<lambda>ev e. e\<lparr>rx_FirstSeen := f ev e, rx_LastSeen := g ev e\<rparr>) evs e) = rx_Type e"
  "rx_Relation (fold (\<lambda>ev e. e\<lparr>rx_FirstSeen := f ev e, rx_LastSeen := g ev e\<rparr>) evs e) = rx_Relation e"
  "rx_Medium (fold (\<lambda>ev e. e\<lparr>rx_FirstSeen := f ev e, rx_LastSeen := g ev e\<rparr>) evs e) = rx_Medium e"
  "rx_Confidence (fold (\<lambda>ev e. e\<lparr>rx_FirstSeen := f ev e, rx_LastSeen := g ev e\<rparr>) evs e) = rx_Confidence e"
  by (induction evs arbitrary: e) simp_all

lemma sortEdge_kept [simp]:
  "rx_ID (sortEdge e) = rx_ID e" "rx_Source (sortEdge e) = rx_Source e" "rx_Target (sortEdge e) = rx_Target e"
  "rx_Type (sortEdge e) = rx_Type e" "rx_Relation (sortEdge e) = rx_Relation e" "rx_Medium (sortEdge e) = rx_Medium e"
  "rx_Confidence (sortEdge e) = rx_Confidence e"
  by (simp_all add: sortEdge_def Let_def fold_times_kept)

lemma sortNode_kept [simp]: "rn_ID (sortNode n) = rn_ID n" "rn_Confidence (sortNode n) = rn_Confidence n"
  by (simp_all add: sortNode_def)

section \<open>The validator on the graph\<close>

lemma explanation_nonempty: "edgeExplanation e \<noteq> []"
  by (auto simp: edgeExplanation_def Let_def)

lemma v2_edge_ok:
  assumes "rich_edge_ok ids e" and "rx_ID e \<noteq> []" "rx_Source e \<noteq> []" "rx_Target e \<noteq> []" and "ids \<subseteq> nodes"
  shows "v2_edge_consistent nodes (TopologyV2Edge.truncate (topologyV2Edge e))"
  using assms explanation_nonempty [of e]
  by (auto simp: v2_edge_consistent_def topologyV2Edge_def TopologyV2Edge.truncate_def rich_edge_ok_def)

lemma v2_valid:
  assumes "\<forall>d \<in> set (rep_Devices r). in_unit (dev_Confidence d) \<and> dev_ID d \<noteq> []"
    and "\<forall>e \<in> set (rep_Edges r). edge_consistent (dev_ID ` set (rep_Devices r)) known e"
    and "\<forall>d \<in> set ids. in_unit (did_Confidence d)" and "set ies \<subseteq> convert_edge ` set (rep_Edges r)"
  shows "check_v2 (v2_view (BuildTopologyV2 (BuildRichTopology now r ids ies caps))) = []"
proof -
  define ix where "ix = indexEvidence (rep_Evidence r)"
  define ns where "ns = rich_nodes ix (rep_Devices r) ids"
  define es where "es = rich_edges ix (rep_Edges r) ies"
  define m where "m = v2_view (BuildTopologyV2 (BuildRichTopology now r ids ies caps))"
  have nodes: "nodes_ok ns" "dev_ID ` set (rep_Devices r) \<subseteq> fst ` set ns"
    using rich_nodes_ok [OF assms(1,3), of ix] unfolding ns_def by blast+
  have edges: "edges_ok (dev_ID ` set (rep_Devices r)) es"
    unfolding es_def by (rule rich_edges_ok) (use assms(2,4) in blast)+
  have view: "tv_SchemaVersion m = TopologyReportSchema" "mset (map tvn_ID (tv_Nodes m)) = mset (map (rn_ID \<circ> snd) ns)"
    "set (tv_Nodes m) = (\<lambda>p. \<lparr>tvn_ID = rn_ID (snd p), tvn_Confidence = rn_Confidence (snd p)\<rparr>) ` set ns"
    "set (tv_Edges m) = (\<lambda>p. TopologyV2Edge.truncate (topologyV2Edge (sortEdge (snd p)))) ` set es"
    by (simp_all add: m_def v2_view_def BuildTopologyV2_def BuildRichTopology_def Let_def ix_def [symmetric]
        ns_def [symmetric] es_def [symmetric] image_image multiset.map_comp o_def)
  have ids: "map (rn_ID \<circ> snd) ns = map fst ns" using nodes(1) by (auto simp: nodes_ok_def)
  have "distinct (map tvn_ID (tv_Nodes m))"
    using nodes(1) mset_eq_imp_distinct_iff [OF view(2)] unfolding ids by (simp add: nodes_ok_def)
  moreover have "\<forall>n \<in> set (tv_Nodes m). tvn_ID n \<noteq> [] \<and> in_unit (tvn_Confidence n)"
    unfolding view using nodes(1) by (auto simp: nodes_ok_def)
  moreover have names: "tvn_ID ` set (tv_Nodes m) = fst ` set ns"
    unfolding view image_image using arg_cong [OF ids, of set] by (simp add: o_def)
  have "v2_edge_consistent (tvn_ID ` set (tv_Nodes m)) (TopologyV2Edge.truncate (topologyV2Edge (sortEdge e)))"
    if "(k, e) \<in> set es" for k e
    by (rule v2_edge_ok [where ids = "dev_ID ` set (rep_Devices r)"])
      (use that edges nodes(2) in \<open>auto simp: edges_ok_def rich_edge_ok_def names\<close>)
  then have "\<forall>e \<in> set (tv_Edges m). v2_edge_consistent (tvn_ID ` set (tv_Nodes m)) e"
    unfolding view by auto
  ultimately have "v2_consistent m" using view(1) by (simp add: v2_consistent_def)
  then show ?thesis by (simp add: m_def check_v2_Nil)
qed

section \<open>What the graph says of itself\<close>

lemma upsert_types:
  "(\<forall>(k, x) \<in> set edges. P (rx_Type x)) \<Longrightarrow> P (rx_Type e) \<Longrightarrow> \<forall>(k, x) \<in> set (upsertRichEdge e edges). P (rx_Type x)"
  by (fastforce simp: upsertRichEdge_def Let_def dest!: set_alist_setD map_of_SomeD split: if_splits option.splits)

lemma upsert_all_types:
  "(\<forall>(k, x) \<in> set edges. P (rx_Type x)) \<Longrightarrow> \<forall>e \<in> set xs. P (rx_Type (f e)) \<Longrightarrow>
   \<forall>(k, x) \<in> set (fold (\<lambda>e. upsertRichEdge (f e)) xs edges). P (rx_Type x)"
proof (induction xs arbitrary: edges)
  case (Cons e xs)
  have "\<forall>(k, x) \<in> set (upsertRichEdge (f e) edges). P (rx_Type x)"
    by (rule upsert_types [OF Cons.prems(1)]) (use Cons.prems(2) in simp)
  from Cons.IH [OF this] Cons.prems(2) show ?case by simp
qed simp

lemma not_reported:
  assumes "\<forall>ev \<in> set evidence. richEvidenceSource ev \<notin> {EvidenceSourceAPAPI, EvidenceSourceRouterAPI}"
  shows "reported_or ids (indexEvidence evidence) own = own"
proof -
  have "richEvidenceSource ev \<notin> {EvidenceSourceAPAPI, EvidenceSourceRouterAPI}"
    if "indexEvidence evidence i = Some ev" for i ev
    using that assms map_of_SomeD unfolding indexEvidence_def by fastforce
  then have "reportedEdgeType ids (indexEvidence evidence) = ([], [])"
    by (induction ids) (auto simp: evidence_sources Let_def split: option.split)
  then show ?thesis by (simp add: reported_or_def)
qed

text \<open>
  C20: Unless a record comes from the interface of a router or an access point, the graph for the user
  interface calls the topology inferred and counts no physical link, also when every edge is a cable that
  LLDP, CDP or a bridge table proved and that the scan itself reports as physical.
\<close>

theorem graph_ignores_cables:
  assumes "list_all (\<lambda>ev. richEvidenceSource ev \<notin> {EvidenceSourceAPAPI, EvidenceSourceRouterAPI}) (rep_Evidence r)"
    and "list_all (\<lambda>e. die_Type e \<noteq> DeviceEdgeWiFiAssociation) ies"
  shows "rtu_InferredOnly (rt_UI (BuildRichTopology now r ids ies caps)) \<and>
    rtu_PhysicalEdgeCount (rt_UI (BuildRichTopology now r ids ies caps)) = 0"
proof -
  define proven where "proven = {RichEdgeReportedByRouter, RichEdgeReportedByAP, RichEdgeWirelessAssociated}"
  define ix where "ix = indexEvidence (rep_Evidence r)"
  have own: "reported_or is ix own = own" for "is" own
    unfolding ix_def by (rule not_reported) (use assms(1) in \<open>simp add: list_all_iff\<close>)
  have root: "rx_Type (edgeFromRoot ix e) \<notin> proven" for e
    by (auto simp: edgeFromRoot_def own richEdgeTypeFromRoot_def rich_edge_types proven_def Let_def)
  have "rx_Type (edgeFromIntel ix e) \<notin> proven" if "e \<in> set ies" for e
    using that assms(2) by (auto simp: edgeFromIntel_def own richEdgeTypeFromIntel_def rich_edge_types proven_def
        list_all_iff Let_def)
  then have "\<forall>(k, x) \<in> set (rich_edges ix (rep_Edges r) ies). rx_Type x \<notin> proven"
    unfolding rich_edges_def using root by (intro upsert_all_types) simp_all
  then have none: "\<forall>e \<in> set (rt_Edges (BuildRichTopology now r ids ies caps)). rx_Type e \<notin> proven"
    by (auto simp: BuildRichTopology_def Let_def ix_def)
  define es where "es = rt_Edges (BuildRichTopology now r ids ies caps)"
  have "filter counts_physical es = []" "\<not> list_ex proves_adjacency es"
    using none by (auto simp: es_def filter_empty_conv counts_physical_def proves_adjacency_def list_ex_iff proven_def)
  then show ?thesis unfolding es_def by (simp add: BuildRichTopology_def Let_def)
qed

theorem graph_ignores_cables_witness:
  "rtu_InferredOnly (rt_UI (BuildRichTopology 0
      (example_report\<lparr>rep_Edges := [newEdge ''a'' ''b'' EdgeDirectLLDP ''LLDP'' 0 [''ev-1'']]\<rparr>) [] [] []))"
proof -
  have "list_all (\<lambda>ev. richEvidenceSource ev \<notin> {EvidenceSourceAPAPI, EvidenceSourceRouterAPI})
      (rep_Evidence (example_report\<lparr>rep_Edges := [newEdge ''a'' ''b'' EdgeDirectLLDP ''LLDP'' 0 [''ev-1'']]\<rparr>))"
    by code_simp
  from conjunct1 [OF graph_ignores_cables [OF this, of "[]"]] show ?thesis by simp
qed

end
