(* ===== verification/Report_Enrichment.thy ===== *)
theory Report_Enrichment
  imports Rich_Topology Upstream_Enrich Scan_Verdict Modem_Report Scan_Scope Go_MAC
begin

text \<open>
  \<open>agent/cmd/iad-agent/report_enrichment.go\<close> and the manifest of \<open>commands.go\<close>: what is added to a report
  before it is written, and the redaction of a report that is to be shared. The walk over the report
  that collects the referenced evidence is a function of the value that Go's reflection shows
  (\<open>gvalue\<close>); that value is a parameter of \<open>enrichReport\<close>. \<open>None\<close> is a panic.
\<close>

section \<open>Records\<close>

record RegistryItem = EvidenceRegistryItem +
  reg_Summary :: string
  reg_Data :: "(string \<times> any) list"
  reg_Timestamp :: gotime
  reg_Confidence :: float64
  reg_SafeToDisplay :: bool

record ProbeInventoryItem =
  pii_Name :: string
  pii_Category :: string
  pii_Status :: string
  pii_DurationMS :: int
  pii_ProducedEvidenceCount :: int
  pii_SkippedReason :: string
  pii_Timeout :: bool
  pii_ErrorClass :: string
  pii_SafetyMode :: string
  pii_OutputPath :: string

record InterfaceSelectionCandidate =
  icd_Name :: string
  icd_Selected :: bool
  icd_Score :: int
  icd_Reasons :: "string list"
  icd_Ignored :: "string list"

record InterfaceSelectionDiagnostics =
  isd_SelectedInterface :: string
  isd_GatewayIP :: string
  isd_IncludeVirtual :: bool
  isd_Candidates :: "InterfaceSelectionCandidate list"
  isd_Reason :: string

record PrivacyOptions =
  prv_MaskPublicIP :: bool
  prv_MaskMAC :: bool
  prv_MaskHostnames :: bool

record SafeShareReport =
  ssr_Enabled :: bool
  ssr_Mode :: string
  ssr_Applied :: PrivacyOptions
  ssr_Notes :: "string list"

record EvidenceTimelineEntry =
  ete_EvidenceID :: string
  ete_Source :: string
  ete_Kind :: string
  ete_Summary :: string
  ete_Timestamp :: gotime

record UIGraphNode =
  ugn_ID :: string
  ugn_Label :: string
  ugn_Type :: string
  ugn_Confidence :: float64
  ugn_Inferred :: bool
  ugn_Badges :: "string list"
  ugn_Metadata :: ui_map

record UIGraphEdge =
  uge_ID :: string
  uge_Source :: string
  uge_Target :: string
  uge_Layer :: string
  uge_Relationship :: string
  uge_Physical :: bool
  uge_Inferred :: bool
  uge_Confidence :: float64
  uge_ProofSource :: string
  uge_LineStyle :: string

record ReportUI =
  rui_Nodes :: "UIGraphNode list"
  rui_Edges :: "UIGraphEdge list"
  rui_Summary :: ui_map
  rui_DeviceDetails :: "ui_map list"
  rui_EvidenceTimeline :: "EvidenceTimelineEntry list"
  rui_Badges :: "string list"
  rui_Warnings :: "string list"
  rui_NextActions :: "NextBestProbe list"

record EnrichedInterface = InterfaceInfo +
  ifc_OUIVendor :: string
  ifc_OUIVendorDBVersion :: string
  ifc_LocallyAdministeredMAC :: bool
  ifc_RandomizedMACLikely :: bool

text \<open>The result of the access scan, with the modem collection that is attached to it.\<close>

record AccessSection =
  as_Result :: ScanResult
  as_ModemCollection :: "ModemCollection option"

record IntelSection =
  is_Report :: DeviceIntelReport
  is_Devices :: "EnrichedDevice list"

text \<open>The report. The devices of the device intelligence are those of \<open>is_Devices\<close>.\<close>

record FullReport =
  fr_Scan :: ScanReport
  fr_Interfaces :: "EnrichedInterface list"
  fr_Access :: "AccessSection option"
  fr_Intel :: "IntelSection option"
  fr_Capabilities :: "ReportCapability list"
  fr_AgentCapabilities :: "ReportCapability list"
  fr_InterfaceSelection :: InterfaceSelectionDiagnostics
  fr_ProbeInventory :: "ProbeInventoryItem list"
  fr_EvidenceRegistry :: "RegistryItem list"
  fr_RichTopology :: RichTopologyModel
  fr_Topology :: V2Model
  fr_Wireless :: "WirelessMetadata list"
  fr_RawObservations :: "RawObservation list"
  fr_UI :: ReportUI
  fr_RedactionMode :: string
  fr_Privacy :: PrivacyOptions
  fr_SafeToShare :: SafeShareReport

record reportEnrichmentOptions =
  reo_Full :: bool
  reo_Profile :: string
  reo_ClassificationRequested :: bool
  reo_NmapRequested :: bool
  reo_NmapAvailable :: bool
  reo_IncludeVirtual :: bool
  reo_RedactionMode :: string
  reo_MaskPublicIP :: bool
  reo_MaskMAC :: bool
  reo_MaskHostnames :: bool

section \<open>Helpers\<close>

definition accessProbeResults :: "AccessSection option \<Rightarrow> ProbeResult list" where
  "accessProbeResults ac = (case ac of None \<Rightarrow> [] | Some a \<Rightarrow> sr_Evidence (as_Result a))"

definition countEvidenceBySource :: "Evidence list \<Rightarrow> string \<Rightarrow> int" where
  "countEvidenceBySource evidence source = int (length (filter (\<lambda>ev. tev_Source ev = source) evidence))"

definition countEvidenceKind :: "Evidence list \<Rightarrow> string \<Rightarrow> int" where
  "countEvidenceKind evidence kind = int (length (filter (\<lambda>ev. tev_Kind ev = kind) evidence))"

definition serviceCount :: "Device list \<Rightarrow> int" where
  "serviceCount devices = (\<Sum>d\<leftarrow>devices. int (length (dev_Services d)))"

definition produced_of :: "any \<Rightarrow> int" where
  "produced_of v = (case v of A_devices ds \<Rightarrow> int (length ds) | A_signals ss \<Rightarrow> int (length ss)
     | A_strings ss \<Rightarrow> int (length ss) | _ \<Rightarrow> 0)"

definition producedEvidenceCount :: "ProbeResult \<Rightarrow> int" where
  "producedEvidenceCount pr = int (length (pr_Evidence pr)) + (\<Sum>(k, v)\<leftarrow>pr_Evidence pr. produced_of v)"

definition probeStatus :: "string \<Rightarrow> string" where
  "probeStatus status =
     (if status = [] then ''unknown'' else if status = Scan_Models.StatusSuccess then ''completed'' else status)"

definition probeSafetyMode :: "string \<Rightarrow> string" where
  "probeSafetyMode name =
     (let has = str_contains (to_lower name)
      in if has ''snmp'' \<or> has ''tr064'' \<or> has ''tr181'' then ''private_scope_read_only_opt_in_for_credentials''
         else if has ''public_ip'' \<or> has ''asn'' then ''online_context_probe_no_scope_scan''
         else if has ''traceroute'' then ''bounded_route_observation''
         else if has ''http'' \<or> has ''upnp'' \<or> has ''gateway'' then ''private_scope_read_only_no_login''
         else ''read_only'')"

definition classifyProbeError :: "string \<Rightarrow> string" where
  "classifyProbeError text =
     (let has = str_contains (to_lower text)
      in if has ''timeout'' \<or> has ''deadline'' then ''timeout''
         else if has ''permission'' \<or> has ''access denied'' then ''permission''
         else if has ''not found'' then ''unavailable''
         else ''runtime_error'')"

definition evidenceConfidenceForKind :: "string \<Rightarrow> float64" where
  "evidenceConfidenceForKind kind =
     (if kind = ''gateway_route'' then flit (85 / 100) else if kind = ''interface'' then flit (80 / 100)
      else if kind = ''arp_table'' then flit (65 / 100)
      else if kind \<in> {''tcp_connect'', ''nmap''} then flit (75 / 100) else flit (50 / 100))"

text \<open>The copy of an empty map is the nil map, and an assignment to it panics.\<close>

definition copyAnyMap :: "(string \<times> any) list \<Rightarrow> (string \<times> any) list option" where
  "copyAnyMap m = (if m = [] then None else Some m)"

definition mergeAnyMaps :: "(string \<times> any) list \<Rightarrow> (string \<times> any) list \<Rightarrow> (string \<times> any) list option" where
  "mergeAnyMaps a b =
     (case copyAnyMap a of
        None \<Rightarrow> if b = [] then Some [] else None
      | Some out \<Rightarrow> Some (fold (\<lambda>(k, v) m. alist_set k v m) b out))"

fun firstNonEmptyString :: "string list \<Rightarrow> string" where
  "firstNonEmptyString [] = []"
| "firstNonEmptyString (v # vs) = (if trim_space v \<noteq> [] then v else firstNonEmptyString vs)"

definition sanitizeID :: "string \<Rightarrow> string" where
  "sanitizeID s =
     map (\<lambda>c. if c \<in> {CHR '' '', CHR ''_'', CHR ''/'', CHR 0x5C, CHR '':''} then CHR ''-'' else c)
       (to_lower (trim_space s))"

definition deviceLabel :: "Device \<Rightarrow> string" where
  "deviceLabel d =
     (if dev_Hostname d \<noteq> [] then dev_Hostname d
      else case dev_Addresses d of a # _ \<Rightarrow> ipa_IP a | [] \<Rightarrow> dev_ID d)"

definition deviceTypeForUI :: "Device \<Rightarrow> string" where
  "deviceTypeForUI d =
     (if dev_IsAgent d then ''agent'' else if dev_IsGateway d then ''gateway''
      else if dev_Services d \<noteq> [] then ''host_with_services'' else ''host'')"

definition mobileLabelLocal :: "MobileFingerprint option \<Rightarrow> string" where
  "mobileLabelLocal fp =
     (case fp of None \<Rightarrow> []
      | Some fp \<Rightarrow>
         (case mf_Classification fp of
            ConfirmedIOS \<Rightarrow> ''Confirmed iPhone'' | ProbableIOS \<Rightarrow> ''Probable iPhone'' | PossibleIOS \<Rightarrow> ''Possible iPhone''
          | ConfirmedIPadOS \<Rightarrow> ''Confirmed iPad'' | ProbableIPadOS \<Rightarrow> ''Probable iPad''
          | PossibleIPadOS \<Rightarrow> ''Possible iPad'' | ConfirmedAndroid \<Rightarrow> ''Confirmed Android''
          | ProbableAndroid \<Rightarrow> ''Probable Android'' | PossibleAndroid \<Rightarrow> ''Possible Android''
          | MobileConflict \<Rightarrow> ''Conflicting mobile OS evidence'' | UnknownMobile \<Rightarrow> ''Unknown mobile''
          | UnknownDevice \<Rightarrow> []))"

fun append_unique_local :: "string set \<Rightarrow> string list \<Rightarrow> string list" where
  "append_unique_local seen [] = []"
| "append_unique_local seen (v # vs) =
     (let t = trim_space v
      in if t = [] \<or> t \<in> seen then append_unique_local seen vs else t # append_unique_local (insert t seen) vs)"

definition appendUniqueStringsLocal :: "string list \<Rightarrow> string list \<Rightarrow> string list" where
  "appendUniqueStringsLocal values extra = append_unique_local {} (values @ extra)"

section \<open>Interfaces\<close>

definition ouiVendor :: "byte list \<Rightarrow> string" where
  "ouiVendor hw =
     (if length hw < 3 then []
      else (let prefix = take 3 hw
            in if prefix \<in> {[0x00, 0x50, 0x56], [0x00, 0x0C, 0x29], [0x00, 0x05, 0x69]} then ''VMware''
               else if prefix = [0x08, 0x00, 0x27] then ''Oracle VirtualBox''
               else if prefix = [0x00, 0x15, 0x5D] then ''Microsoft Hyper-V''
               else if prefix \<in> {[0xF4, 0xF5, 0xD8], [0x74, 0xD4, 0xDD], [0xD8, 0xBB, 0xC1]} then ''Intel''
               else if prefix \<in> {[0xA4, 0x83, 0xE7], [0xE8, 0x9C, 0x25]} then ''Apple''
               else []))"

definition enrichInterfaceInfo :: "InterfaceInfo \<Rightarrow> EnrichedInterface" where
  "enrichInterfaceInfo ifc0 =
     (let ifc = InterfaceInfo.extend ifc0 (EnrichedInterface.fields [] [] False False)
      in if ifc_MAC ifc0 = [] then ifc
         else case parse_mac (ifc_MAC ifc0) of
                None \<Rightarrow> ifc
              | Some [] \<Rightarrow> ifc
              | Some (b # bs) \<Rightarrow>
                  (let local = (b AND 0x02 \<noteq> 0);
                       ifc = ifc\<lparr>ifc_LocallyAdministeredMAC := local,
                                 ifc_RandomizedMACLikely := local \<and> \<not> ifc_Virtual ifc0\<rparr>
                   in if local then ifc\<lparr>ifc_OUIVendorDBVersion := ''local-admin-bit''\<rparr>
                      else ifc\<lparr>ifc_OUIVendorDBVersion := ''builtin-lite-2026-06'', ifc_OUIVendor := ouiVendor (b # bs)\<rparr>))"

definition enrichInterfaceIdentity :: "InterfaceInfo list \<Rightarrow> EnrichedInterface list" where
  "enrichInterfaceIdentity ifcs = map enrichInterfaceInfo ifcs"

definition isPrivateIPv4Local :: "net_ip \<Rightarrow> bool" where
  "isPrivateIPv4Local ip =
     (case to4 ip of
        None \<Rightarrow> False
      | Some v4 \<Rightarrow> v4 ! 0 = 10 \<or> (v4 ! 0 = 172 \<and> v4 ! 1 \<ge> 16 \<and> v4 ! 1 \<le> 31) \<or> (v4 ! 0 = 192 \<and> v4 ! 1 = 168))"

definition hasRoutablePrivateIPv4Local :: "'a InterfaceInfo_scheme \<Rightarrow> bool" where
  "hasRoutablePrivateIPv4Local ifc =
     list_ex (\<lambda>a. case parse_ip (ipa_IP a) of
         None \<Rightarrow> False
       | Some ip \<Rightarrow> to4 ip \<noteq> None \<and> isPrivateIPv4Local ip \<and> \<not> is_link_local_unicast ip) (ifc_Addresses ifc)"

definition hasLinkLocalIPv4Local :: "'a InterfaceInfo_scheme \<Rightarrow> bool" where
  "hasLinkLocalIPv4Local ifc =
     list_ex (\<lambda>a. case parse_ip (ipa_IP a) of
         None \<Rightarrow> False
       | Some ip \<Rightarrow> to4 ip \<noteq> None \<and> is_link_local_unicast ip) (ifc_Addresses ifc)"

definition cidrContainsLocal :: "string \<Rightarrow> string \<Rightarrow> bool" where
  "cidrContainsLocal cidr ipStr =
     (case (parse_cidr cidr, parse_ip ipStr) of
        (Some (_, ipnet), Some ip) \<Rightarrow> net_contains ipnet ip
      | _ \<Rightarrow> False)"

definition interfaceSelectionScore ::
  "'a InterfaceInfo_scheme \<Rightarrow> string \<Rightarrow> bool \<Rightarrow> int \<times> string list \<times> string list" where
  "interfaceSelectionScore ifc gatewayIP includeVirtual =
     (let ignored = (if \<not> ifc_Up ifc then [''interface is down''] else []) @
            (if ifc_Loopback ifc then [''loopback interface''] else []) @
            (if ifc_Virtual ifc \<and> \<not> includeVirtual then [''virtual or overlay adapter excluded''] else []) @
            (if ifc_CIDR ifc = [] then [''no usable IPv4 CIDR''] else [])
      in if ignored \<noteq> [] then (0, [], ignored)
         else
           (let routable = hasRoutablePrivateIPv4Local ifc; linkLocal = hasLinkLocalIPv4Local ifc;
                gw = (gatewayIP \<noteq> [] \<and> cidrContainsLocal (ifc_CIDR ifc) gatewayIP)
            in ((if routable then 4 else 0) + (if linkLocal then 1 else 0) + (if gw then 10 else 0),
                (if routable then [''has routable RFC1918 IPv4 network''] else []) @
                (if linkLocal then [''has APIPA/link-local IPv4 only; last-resort candidate''] else []) @
                (if gw then [''contains default gateway''] else []) @
                (if ifc_Virtual ifc then [''virtual adapter included by explicit option''] else []), [])))"

definition selection_step ::
  "string \<Rightarrow> bool \<Rightarrow> 'a InterfaceInfo_scheme \<Rightarrow> InterfaceSelectionDiagnostics \<Rightarrow> InterfaceSelectionDiagnostics" where
  "selection_step gateway includeVirtual ifc out =
     (case interfaceSelectionScore ifc gateway includeVirtual of (score, reasons, ignored) \<Rightarrow>
        (let out = (if ifc_Selected ifc
                    then out\<lparr>isd_SelectedInterface := ifc_Name ifc, isd_Reason := str_join reasons ''; ''\<rparr> else out)
         in out\<lparr>isd_Candidates := isd_Candidates out @
              [\<lparr>icd_Name = ifc_Name ifc, icd_Selected = ifc_Selected ifc, icd_Score = score, icd_Reasons = reasons,
                icd_Ignored = ignored\<rparr>]\<rparr>))"

definition buildInterfaceSelection ::
  "string \<Rightarrow> 'a InterfaceInfo_scheme list \<Rightarrow> reportEnrichmentOptions \<Rightarrow> InterfaceSelectionDiagnostics" where
  "buildInterfaceSelection gateway ifcs opts =
     fold (selection_step gateway (reo_IncludeVirtual opts)) ifcs
       \<lparr>isd_SelectedInterface = [], isd_GatewayIP = gateway, isd_IncludeVirtual = reo_IncludeVirtual opts,
        isd_Candidates = [], isd_Reason = []\<rparr>"

section \<open>The evidence registry\<close>

text \<open>A value as reflection shows it; instants are values of their own.\<close>

datatype gvalue =
  G_string string
| G_time
| G_ref "gvalue option"
| G_struct "(string \<times> gvalue) list"
| G_slice "gvalue list"
| G_map "gvalue list"
| G_scalar

text \<open>The identifiers a field of a struct names by itself.\<close>

definition field_ids :: "string \<Rightarrow> gvalue \<Rightarrow> string list option" where
  "field_ids name v =
     (case v of
        G_string i \<Rightarrow> if name = ''EvidenceID'' then Some (if i \<noteq> [] then [i] else []) else None
      | G_slice vs \<Rightarrow>
          if name = ''EvidenceIDs''
          then Some (concat (map (\<lambda>v. case v of G_string i \<Rightarrow> if i \<noteq> [] then [i] else [] | _ \<Rightarrow> []) vs)) else None
      | _ \<Rightarrow> None)"

fun walk :: "gvalue \<Rightarrow> string list" where
  "walk (G_ref None) = []"
| "walk (G_ref (Some v)) = walk v"
| "walk (G_struct fs) =
     concat (map (\<lambda>(name, v). case field_ids name v of Some ids \<Rightarrow> ids | None \<Rightarrow> walk v) fs)"
| "walk (G_slice vs) = concat (map walk vs)"
| "walk (G_map vs) = concat (map walk vs)"
| "walk (G_string s) = []"
| "walk G_time = []"
| "walk G_scalar = []"

definition collectReferencedEvidenceIDs :: "gvalue \<Rightarrow> string list" where
  "collectReferencedEvidenceIDs report = sort_strings (remdups (walk report))"

definition registry_add :: "RegistryItem \<Rightarrow> (string \<times> RegistryItem) list \<Rightarrow> (string \<times> RegistryItem) list" where
  "registry_add item reg =
     (if reg_ID item = [] then reg
      else alist_set (reg_ID item)
        (item\<lparr>reg_Source := (if reg_Source item = [] then ''unknown'' else reg_Source item),
              reg_Kind := (if reg_Kind item = [] then ''unknown'' else reg_Kind item),
              reg_SafeToDisplay := True\<rparr>) reg)"

definition registry_of_evidence :: "Evidence \<Rightarrow> RegistryItem" where
  "registry_of_evidence ev =
     \<lparr>reg_ID = tev_ID ev, reg_Kind = tev_Kind ev, reg_Source = tev_Source ev, reg_Summary = tev_Summary ev,
      reg_Data = map (\<lambda>(k, v). (k, A_string v)) (tev_Data ev), reg_Timestamp = tev_Timestamp ev,
      reg_Confidence = evidenceConfidenceForKind (tev_Kind ev), reg_SafeToDisplay = True\<rparr>"

definition registry_of_intel :: "DeviceIntelEvidence \<Rightarrow> RegistryItem option" where
  "registry_of_intel ev =
     map_option (\<lambda>data.
         \<lparr>reg_ID = dio_ID ev, reg_Kind = dio_Kind ev, reg_Source = dio_SourceProbe ev,
          reg_Summary = firstNonEmptyString [dio_Error ev, dio_Kind ev], reg_Data = data,
          reg_Timestamp = dio_Timestamp ev, reg_Confidence = dio_Confidence ev,
          reg_SafeToDisplay = dio_SafeToDisplay ev\<rparr>)
       (mergeAnyMaps (dio_Raw ev) (dio_Normalized ev))"

definition registry_of_probe :: "nat \<times> ProbeResult \<Rightarrow> RegistryItem" where
  "registry_of_probe ip =
     (case ip of (i, pr) \<Rightarrow>
        \<lparr>reg_ID = ''probe-'' @ pad_digits 2 i @ ''-'' @ sanitizeID (pr_ProbeName pr), reg_Kind = ''probe_result'',
         reg_Source = pr_ProbeName pr,
         reg_Summary = pr_ProbeName pr @ '' finished with status '' @ pr_Status pr @ ''.'',
         reg_Data = pr_Evidence pr, reg_Timestamp = zero_time, reg_Confidence = pr_Confidence pr,
         reg_SafeToDisplay = True\<rparr>)"

definition registry_of_reference :: "string \<Rightarrow> RegistryItem" where
  "registry_of_reference i =
     \<lparr>reg_ID = i, reg_Kind = ''referenced_evidence'', reg_Source = ''reference_index'',
      reg_Summary = ''Evidence ID referenced by a report object; original producer did not emit a standalone root evidence record.'',
      reg_Data = [], reg_Timestamp = zero_time, reg_Confidence = 0, reg_SafeToDisplay = True\<rparr>"

definition add_reference :: "string \<Rightarrow> (string \<times> RegistryItem) list \<Rightarrow> (string \<times> RegistryItem) list" where
  "add_reference i reg = (if map_of reg i \<noteq> None then reg else registry_add (registry_of_reference i) reg)"

definition buildEvidenceRegistry ::
  "Evidence list \<Rightarrow> DeviceIntelEvidence list \<Rightarrow> ProbeResult list \<Rightarrow> gvalue \<Rightarrow> RegistryItem list option" where
  "buildEvidenceRegistry evidence intel probes report =
     (let reg = fold (\<lambda>ev. registry_add (registry_of_evidence ev)) evidence [];
          reg = fold (\<lambda>ev acc. Option.bind acc (\<lambda>reg. map_option (\<lambda>item. registry_add item reg) (registry_of_intel ev)))
                  intel (Some reg)
      in map_option (\<lambda>reg.
             (let reg = fold (\<lambda>p. registry_add (registry_of_probe p)) (zip [0..<length probes] probes) reg;
                  reg = fold add_reference (collectReferencedEvidenceIDs report) reg
              in sort_by (\<lambda>a b. str_less (reg_ID a) (reg_ID b)) (map snd reg))) reg)"

definition buildEvidenceTimeline :: "RegistryItem list \<Rightarrow> EvidenceTimelineEntry list" where
  "buildEvidenceTimeline reg =
     sort_by (\<lambda>a b. if ete_Timestamp a = ete_Timestamp b then str_less (ete_EvidenceID a) (ete_EvidenceID b)
                    else ete_Timestamp a < ete_Timestamp b)
       (map (\<lambda>ev. \<lparr>ete_EvidenceID = reg_ID ev, ete_Source = reg_Source ev, ete_Kind = reg_Kind ev,
                   ete_Summary = reg_Summary ev, ete_Timestamp = reg_Timestamp ev\<rparr>) reg)"

section \<open>The probe inventory\<close>

definition inventory_item ::
  "string \<Rightarrow> string \<Rightarrow> string \<Rightarrow> int \<Rightarrow> int \<Rightarrow> string \<Rightarrow> string \<Rightarrow> ProbeInventoryItem" where
  "inventory_item name category status duration produced safety output =
     \<lparr>pii_Name = name, pii_Category = category, pii_Status = status, pii_DurationMS = duration,
      pii_ProducedEvidenceCount = produced, pii_SkippedReason = [], pii_Timeout = False, pii_ErrorClass = [],
      pii_SafetyMode = safety, pii_OutputPath = output\<rparr>"

definition nmap_item :: "Device list \<Rightarrow> reportEnrichmentOptions \<Rightarrow> ProbeInventoryItem" where
  "nmap_item devices opts =
     (let nmap = inventory_item ''nmap_service_discovery'' ''optional_tool'' ''skipped'' 0 0
            ''private_scope_read_only_tcp_connect'' ''/devices/services''
      in if reo_NmapRequested opts \<and> reo_NmapAvailable opts
         then nmap\<lparr>pii_Status := ''completed'', pii_ProducedEvidenceCount := serviceCount devices\<rparr>
         else if reo_NmapRequested opts
         then nmap\<lparr>pii_Status := ''unavailable'', pii_SkippedReason := ''nmap binary was not found''\<rparr>
         else nmap)"

definition probe_item :: "nat \<times> ProbeResult \<Rightarrow> ProbeInventoryItem" where
  "probe_item ip =
     (case ip of (i, pr) \<Rightarrow>
        (let item = inventory_item (pr_ProbeName pr) ''access_probe'' (probeStatus (pr_Status pr)) (pr_DurationMS pr)
               (producedEvidenceCount pr) (probeSafetyMode (pr_ProbeName pr))
               (''/access_classification/evidence/'' @ nat_digits i);
             errors = str_join (pr_Errors pr) ''; ''
         in if pr_Errors pr = [] then item
            else item\<lparr>pii_ErrorClass := classifyProbeError errors,
                      pii_Timeout := classifyProbeError errors = ''timeout'', pii_SkippedReason := errors\<rparr>))"

definition buildProbeInventory ::
  "ScanReport \<Rightarrow> ProbeResult list \<Rightarrow> reportEnrichmentOptions \<Rightarrow> ProbeInventoryItem list" where
  "buildProbeInventory report probes opts =
     [inventory_item ''interface_probe'' ''topology'' ''completed'' 0
        (countEvidenceBySource (rep_Evidence report) ''interface_probe'') ''local_os_read_only'' ''/agent/interfaces'',
      inventory_item ''gateway_probe'' ''topology'' ''completed'' 0
        (countEvidenceBySource (rep_Evidence report) ''gateway_probe'') ''local_os_read_only'' ''/agent/gateway'',
      inventory_item ''tcp_lan_sweep'' ''topology'' ''completed'' (sum_DurationMS (rep_Summary report))
        (int (length (rep_Devices report))) ''private_scope_read_only_tcp_connect'' ''/devices'',
      inventory_item ''arp_table_probe'' ''topology'' ''completed'' 0
        (countEvidenceKind (rep_Evidence report) ''arp_table'') ''local_os_read_only'' ''/evidence'',
      nmap_item (rep_Devices report) opts] @
     map probe_item (zip [0..<length probes] probes)"

section \<open>The user interface\<close>

definition ui_node :: "Device \<Rightarrow> UIGraphNode" where
  "ui_node d =
     \<lparr>ugn_ID = dev_ID d, ugn_Label = deviceLabel d, ugn_Type = deviceTypeForUI d, ugn_Confidence = dev_Confidence d,
      ugn_Inferred = False, ugn_Badges = dev_Roles d,
      ugn_Metadata =
        [(''is_agent'', UV_bool (dev_IsAgent d)), (''is_gateway'', UV_bool (dev_IsGateway d)),
         (''addresses'', UV_addresses (dev_Addresses d)), (''evidence_ids'', UV_strings (dev_EvidenceIDs d)),
         (''mobileFingerprint'', UV_fingerprint (dev_MobileFingerprint d)),
         (''deviceTypeHint'', UV_string (dev_DeviceTypeHint d)), (''osHint'', UV_string (dev_OSHint d)),
         (''osConfidence'', UV_float (dev_OSConfidence d)),
         (''mobile_label'', UV_string (mobileLabelLocal (dev_MobileFingerprint d)))]\<rparr>"

definition ui_edge :: "TopologyEdge \<Rightarrow> UIGraphEdge" where
  "ui_edge e =
     \<lparr>uge_ID = edge_ID e, uge_Source = edge_Source e, uge_Target = edge_Target e, uge_Layer = edge_Layer e,
      uge_Relationship = edge_Relationship e, uge_Physical = edge_Physical e, uge_Inferred = edge_Inferred e,
      uge_Confidence = edge_Confidence e, uge_ProofSource = edge_ProofSource e, uge_LineStyle = edge_UILineStyle e\<rparr>"

definition buildUIGraph :: "ScanReport \<Rightarrow> UIGraphNode list \<times> UIGraphEdge list" where
  "buildUIGraph report = (map ui_node (rep_Devices report), map ui_edge (rep_Edges report))"

definition buildUIDeviceDetails :: "ScanReport \<Rightarrow> ui_map list" where
  "buildUIDeviceDetails report =
     map (\<lambda>d.
        [(''id'', UV_string (dev_ID d)), (''label'', UV_string (deviceLabel d)),
         (''addresses'', UV_addresses (dev_Addresses d)), (''roles'', UV_strings (dev_Roles d)),
         (''services'', UV_services (dev_Services d)), (''confidence'', UV_float (dev_Confidence d)),
         (''evidence_ids'', UV_strings (dev_EvidenceIDs d)),
         (''mobileFingerprint'', UV_fingerprint (dev_MobileFingerprint d)),
         (''deviceTypeHint'', UV_string (dev_DeviceTypeHint d)), (''osHint'', UV_string (dev_OSHint d)),
         (''osConfidence'', UV_float (dev_OSConfidence d))]) (rep_Devices report)"

definition buildReportUI ::
  "ScanReport \<Rightarrow> RegistryItem list \<Rightarrow> IntelSection option \<Rightarrow> AccessSection option \<Rightarrow> ReportUI" where
  "buildReportUI report registry intel ac =
     (let badges = [''read-only'', ''private-scope'', ''no-bruteforce''];
          warnings = rich_warningMessages (rep_Warnings report);
          (badges, warnings) =
            (case intel of None \<Rightarrow> (badges, warnings)
             | Some i \<Rightarrow> (appendUniqueStringsLocal badges (dui_Badges (dir_UI (is_Report i))),
                         appendUniqueStringsLocal warnings (dir_SecurityNotes (is_Report i))));
          (badges, warnings, actions) =
            (case ac of None \<Rightarrow> (badges, warnings, [])
             | Some a \<Rightarrow> (appendUniqueStringsLocal badges (ui_Badges (sr_UI (as_Result a))),
                         appendUniqueStringsLocal warnings (ui_Warnings (sr_UI (as_Result a))),
                         sr_NextBestProbes (as_Result a)))
      in \<lparr>rui_Nodes = fst (buildUIGraph report), rui_Edges = snd (buildUIGraph report),
          rui_Summary =
            [(''scan_id'', UV_string (rep_ScanID report)), (''profile'', UV_string (scp_Profile (rep_Scope report))),
             (''device_count'', UV_int (sum_DeviceCount (rep_Summary report))),
             (''edge_count'', UV_int (sum_EdgeCount (rep_Summary report))),
             (''evidence_count'', UV_int (int (length registry))),
             (''inferred_only'', UV_bool (sum_InferredOnly (rep_Summary report)))],
          rui_DeviceDetails = buildUIDeviceDetails report, rui_EvidenceTimeline = buildEvidenceTimeline registry,
          rui_Badges = badges, rui_Warnings = warnings, rui_NextActions = actions\<rparr>)"

section \<open>The manifest\<close>

definition capability :: "string \<Rightarrow> string \<Rightarrow> string \<Rightarrow> string \<Rightarrow> string \<Rightarrow> string \<Rightarrow> ReportCapability" where
  "capability name category status output description reason =
     \<lparr>cap_Name = name, cap_Category = category, cap_Status = status, cap_OutputPath = output,
      cap_Description = description, cap_Reason = reason\<rparr>"

definition StatusFailed :: string where "StatusFailed = ''failed''"

definition capabilityStatusFromProbe :: "ProbeResult \<Rightarrow> string" where
  "capabilityStatusFromProbe r =
     (if pr_Status r = Scan_Models.StatusSuccess then ''completed''
      else if pr_Status r = StatusFailed then ''failed''
      else if pr_Status r = StatusSkipped then ''skipped''
      else if pr_Status r \<noteq> [] then pr_Status r else ''unknown'')"

definition capabilityReasonFromProbe :: "ProbeResult \<Rightarrow> string" where
  "capabilityReasonFromProbe r =
     (if pr_Errors r \<noteq> [] then str_join (pr_Errors r) ''; ''
      else if pr_Status r = StatusSkipped \<and> pr_Hints r \<noteq> [] then str_join (pr_Hints r) ''; '' else [])"

definition topology_capabilities :: "string \<Rightarrow> ReportCapability list" where
  "topology_capabilities profile =
     [capability ''full_json_report'' ''report'' ''completed'' ''/''
        ''Single JSON document containing scan metadata, topology, evidence, warnings, device intelligence, optional access classification, and this capability manifest.'' [],
      capability ''interface_inventory'' ''topology'' ''completed'' ''/agent/interfaces''
        ''Lists local interfaces, selected scan interface, addresses, gateway, and DNS context.'' [],
      capability ''topology_scan'' ''topology'' ''completed'' ''/topology,/devices,/edges,/evidence,/summary''
        ''Builds the evidence-backed LAN device and iad.topology/v2 graph inside the validated scope.'' [],
      capability ''topology_v2_graph'' ''topology'' ''completed'' ''/topology/nodes,/topology/edges''
        ''Frontend-ready graph with evidence, confidence, explanations, warnings, wireless metadata, and conservative edge classification.'' [],
      capability ''tcp_lan_sweep'' ''topology'' ''completed'' ''/devices''
        (''Uses the '' @ profile @ '' profile to discover live hosts and common open services.'') [],
      capability ''passive_lan_observer'' ''passive_observation'' ''available'' ''/raw_observations''
        ''Metadata-only passive LAN observation abstraction is available; payload bodies, cookies, tokens, and credentials are not stored.'' [],
      capability ''mobile_fingerprint_engine'' ''device_intel'' ''completed''
        ''/devices/mobileFingerprint,/device_intel/devices/mobileFingerprint,/topology/nodes/mobileFingerprint''
        ''Scores iOS/iPadOS and Android separately from local metadata, keeps evidence and conflicts visible, and avoids unsafe probes or fake conclusions.'' [],
      capability ''passive_wifi_observer'' ''wireless'' ''unsupported'' ''/wireless,/warnings'' []
        ''No monitor/radiotap backend is configured by default; unsupported is expected on many Windows adapters.'']"

definition intel_capability :: "bool \<Rightarrow> ReportCapability" where
  "intel_capability built =
     (if built then capability ''device_intelligence'' ''device_intel'' ''completed'' ''/device_intel''
        ''Normalizes discovered devices into inventory, service, risk, OS, vendor, and UI-oriented records.'' []
      else capability ''device_intelligence'' ''device_intel'' ''skipped'' ''/device_intel'' []
        ''device intelligence section was not built for this run'')"

definition nmap_capability :: "reportEnrichmentOptions \<Rightarrow> ReportCapability" where
  "nmap_capability opts =
     (if reo_NmapRequested opts \<and> reo_NmapAvailable opts then
        capability ''nmap_service_discovery'' ''optional_tool'' ''completed'' ''/devices/services''
          ''Optional Nmap TCP connect service discovery was enabled and merged into device services.'' []
      else if reo_NmapRequested opts then
        capability ''nmap_service_discovery'' ''optional_tool'' ''unavailable'' ''/warnings'' []
          ''Nmap was requested but no usable nmap binary was found''
      else capability ''nmap_service_discovery'' ''optional_tool'' ''skipped'' [] [] ''enable with --nmap or --full'')"

definition buildReportCapabilities ::
  "bool \<Rightarrow> AccessSection option \<Rightarrow> reportEnrichmentOptions \<Rightarrow> ReportCapability list" where
  "buildReportCapabilities intelBuilt ac opts =
     topology_capabilities (reo_Profile opts) @ [intel_capability intelBuilt, nmap_capability opts] @
     (case ac of
        None \<Rightarrow>
          [capability ''access_classification'' ''access_detection'' ''skipped'' [] []
             (if reo_ClassificationRequested opts
              then ''access classification was requested but no classification section was attached''
              else ''enable with --classify or --full'')]
      | Some a \<Rightarrow>
          [capability ''access_classification'' ''access_detection'' ''completed'' ''/access_classification''
             ''Runs access-type probes and the scoring engine for DSL/VDSL/Fiber/Cable/WISP/Mobile/Satellite/Enterprise candidates.'' []] @
          (if as_ModemCollection a \<noteq> None
           then [capability ''modem_collection'' ''access_detection'' ''completed'' ''/access_classification/modem_collection''
                   ''Collects CPE candidates, gateway chain, NAT state, WAN evidence, and missing physical proof in one section.'' []]
           else []) @
          map (\<lambda>(i, r). capability (pr_ProbeName r) ''access_probe'' (capabilityStatusFromProbe r)
                 (''/access_classification/evidence/'' @ nat_digits i) [] (capabilityReasonFromProbe r))
            (zip [0..<length (sr_Evidence (as_Result a))] (sr_Evidence (as_Result a))) @
          (if reo_Full opts
           then [capability ''full_mode'' ''report'' ''completed'' []
                   ''The --full flag enabled deep profiling, access classification, device intelligence, Nmap when available, and all JSON report sections.'' []]
           else []))"

section \<open>Redaction\<close>

definition masked_mac :: string where "masked_mac = ''xx:xx:xx:xx:xx:xx''"
definition masked_host :: string where "masked_host = ''redacted-host''"
definition masked_ip :: string where "masked_ip = ''x.x.x.x''"

definition mask_text :: "string \<Rightarrow> string \<Rightarrow> string" where
  "mask_text hidden s = (if s \<noteq> [] then hidden else s)"

definition redact_mobile_evidence :: "bool \<Rightarrow> bool \<Rightarrow> MobileEvidenceItem \<Rightarrow> MobileEvidenceItem" where
  "redact_mobile_evidence maskMAC maskHostnames ev =
     (if me_Type ev = ''mac_oui'' then (if maskMAC then ev\<lparr>me_Value := masked_mac\<rparr> else ev)
      else if me_Type ev \<in> {''hostname'', ''dhcp_hostname'', ''mdns''} then
        (if maskHostnames then ev\<lparr>me_Value := masked_host\<rparr> else ev)
      else ev)"

definition redactMobileFingerprint :: "bool \<Rightarrow> bool \<Rightarrow> MobileFingerprint option \<Rightarrow> MobileFingerprint option" where
  "redactMobileFingerprint maskMAC maskHostnames fp =
     map_option (\<lambda>fp. fp\<lparr>mf_Evidence := map (redact_mobile_evidence maskMAC maskHostnames) (mf_Evidence fp)\<rparr>) fp"

text \<open>
  The maps of the user interface hold the pointers to the fingerprints of the devices, so they change
  with them.
\<close>

definition redact_ui_value :: "bool \<Rightarrow> bool \<Rightarrow> ui_value \<Rightarrow> ui_value" where
  "redact_ui_value mac host v =
     (case v of UV_fingerprint fp \<Rightarrow> UV_fingerprint (redactMobileFingerprint mac host fp) | _ \<Rightarrow> v)"

definition redact_ui_map :: "bool \<Rightarrow> bool \<Rightarrow> ui_map \<Rightarrow> ui_map" where
  "redact_ui_map mac host m = map (\<lambda>(k, v). (k, redact_ui_value mac host v)) m"

text \<open>What both passes do to the fingerprints all over the report.\<close>

definition redact_fingerprints :: "bool \<Rightarrow> bool \<Rightarrow> FullReport \<Rightarrow> FullReport" where
  "redact_fingerprints mac host r =
     (let redact = redactMobileFingerprint mac host;
          nodes = map (\<lambda>n. n\<lparr>rn_MobileFingerprint := redact (rn_MobileFingerprint n)\<rparr>)
      in r\<lparr>fr_Scan := (fr_Scan r)\<lparr>rep_Devices :=
              map (\<lambda>d. d\<lparr>dev_MobileFingerprint := redact (dev_MobileFingerprint d)\<rparr>) (rep_Devices (fr_Scan r))\<rparr>,
           fr_Intel := map_option (\<lambda>i. i\<lparr>is_Devices :=
              map (\<lambda>d. d\<lparr>did_MobileFingerprint := redact (did_MobileFingerprint d)\<rparr>) (is_Devices i)\<rparr>) (fr_Intel r),
           fr_RichTopology := (fr_RichTopology r)\<lparr>rt_Nodes := nodes (rt_Nodes (fr_RichTopology r))\<rparr>,
           fr_Topology := (fr_Topology r)\<lparr>v2_Nodes := nodes (v2_Nodes (fr_Topology r))\<rparr>,
           fr_UI := (fr_UI r)\<lparr>rui_Nodes :=
                map (\<lambda>n. n\<lparr>ugn_Metadata := redact_ui_map mac host (ugn_Metadata n)\<rparr>) (rui_Nodes (fr_UI r)),
              rui_DeviceDetails := map (redact_ui_map mac host) (rui_DeviceDetails (fr_UI r))\<rparr>\<rparr>)"

definition redact_macs :: "FullReport \<Rightarrow> FullReport" where
  "redact_macs r =
     (let r = redact_fingerprints True False r
      in r\<lparr>fr_Interfaces := map (\<lambda>i. i\<lparr>ifc_MAC := mask_text masked_mac (ifc_MAC i)\<rparr>) (fr_Interfaces r),
           fr_Scan := (fr_Scan r)\<lparr>rep_Devices := map (\<lambda>d. d\<lparr>dev_Interfaces :=
              map (\<lambda>i. i\<lparr>dif_MAC := mask_text masked_mac (dif_MAC i)\<rparr>) (dev_Interfaces d)\<rparr>) (rep_Devices (fr_Scan r))\<rparr>\<rparr>)"

definition redact_hosts :: "FullReport \<Rightarrow> FullReport" where
  "redact_hosts r =
     (let r = redact_fingerprints False True r; scan = fr_Scan r
      in r\<lparr>fr_Scan := scan\<lparr>rep_Agent := (rep_Agent scan)\<lparr>agi_Hostname := masked_host\<rparr>,
             rep_Devices := map (\<lambda>d. d\<lparr>dev_Hostname := mask_text masked_host (dev_Hostname d)\<rparr>) (rep_Devices scan)\<rparr>\<rparr>)"

definition redact_context :: "NetworkContext \<Rightarrow> NetworkContext" where
  "redact_context ctx =
     ctx\<lparr>nc_PublicIP := mask_text masked_ip (nc_PublicIP ctx),
         nc_NATTopology := map_option (\<lambda>n. n\<lparr>nt_PublicIP := mask_text masked_ip (nt_PublicIP n),
             nt_STUNPublicIP := mask_text masked_ip (nt_STUNPublicIP n)\<rparr>) (nc_NATTopology ctx)\<rparr>"

definition redact_public_ip :: "FullReport \<Rightarrow> FullReport" where
  "redact_public_ip r =
     r\<lparr>fr_Access := map_option (\<lambda>a. a\<lparr>as_Result := (as_Result a)
         \<lparr>sr_DetectedNetworkContext := redact_context (sr_DetectedNetworkContext (as_Result a))\<rparr>\<rparr>) (fr_Access r)\<rparr>"

definition applyReportRedaction :: "FullReport \<Rightarrow> FullReport" where
  "applyReportRedaction r =
     (let p = fr_Privacy r;
          r = (if prv_MaskMAC p then redact_macs r else r);
          r = (if prv_MaskHostnames p then redact_hosts r else r)
      in if prv_MaskPublicIP p then redact_public_ip r else r)"

section \<open>The report\<close>

definition share_notes :: "string list" where
  "share_notes =
     [''Default probes are read-only and scoped to private/local targets.'',
      ''Review public IPs, MAC addresses, hostnames, and service banners before sharing externally.'']"

definition enrichReport ::
  "gotime \<Rightarrow> gvalue \<Rightarrow> reportEnrichmentOptions \<Rightarrow> ScanReport \<Rightarrow> AccessSection option \<Rightarrow> IntelSection option \<Rightarrow>
   FullReport option" where
  "enrichReport now reflected opts report ac intel =
     (let interfaces = enrichInterfaceIdentity (agi_Interfaces (rep_Agent report));
          caps = buildReportCapabilities (intel \<noteq> None) ac opts;
          devices = (case intel of Some i \<Rightarrow> is_Devices i | None \<Rightarrow> []);
          edges = (case intel of Some i \<Rightarrow> dir_Edges (is_Report i) | None \<Rightarrow> []);
          observations = (case intel of Some i \<Rightarrow> dir_Evidence (is_Report i) | None \<Rightarrow> []);
          rich = BuildRichTopology now report devices edges caps;
          privacy = \<lparr>prv_MaskPublicIP = reo_MaskPublicIP opts, prv_MaskMAC = reo_MaskMAC opts,
                     prv_MaskHostnames = reo_MaskHostnames opts\<rparr>;
          enabled = (reo_RedactionMode opts = ''safe_to_share'' \<or> reo_MaskPublicIP opts \<or> reo_MaskMAC opts \<or>
                     reo_MaskHostnames opts)
      in map_option (\<lambda>registry.
           (let r = \<lparr>fr_Scan = report\<lparr>rep_Agent := (rep_Agent report)\<lparr>agi_Interfaces := []\<rparr>\<rparr>,
                     fr_Interfaces = interfaces, fr_Access = ac, fr_Intel = intel, fr_Capabilities = caps,
                     fr_AgentCapabilities = caps,
                     fr_InterfaceSelection = buildInterfaceSelection (agi_Gateway (rep_Agent report)) interfaces opts,
                     fr_ProbeInventory = buildProbeInventory report (accessProbeResults ac) opts,
                     fr_EvidenceRegistry = registry, fr_RichTopology = rich, fr_Topology = BuildTopologyV2 rich,
                     fr_Wireless = BuildWirelessMetadata rich, fr_RawObservations = BuildRawObservations report,
                     fr_UI = buildReportUI report registry intel ac, fr_RedactionMode = reo_RedactionMode opts,
                     fr_Privacy = privacy,
                     fr_SafeToShare = \<lparr>ssr_Enabled = enabled, ssr_Mode = reo_RedactionMode opts, ssr_Applied = privacy,
                       ssr_Notes = share_notes\<rparr>\<rparr>
            in if enabled then applyReportRedaction r else r))
         (buildEvidenceRegistry (rep_Evidence report) observations (accessProbeResults ac) reflected))"

text \<open>What the validator reads of a report that was written and read back.\<close>

definition report_view :: "FullReport \<Rightarrow> ScanReport" where
  "report_view r =
     (fr_Scan r)\<lparr>rep_EvidenceRegistry := map EvidenceRegistryItem.truncate (fr_EvidenceRegistry r),
                 rep_Topology := Some (v2_view (fr_Topology r))\<rparr>"

end
