(* ===== verification/Upstream_Laws.thy ===== *)
theory Upstream_Laws
  imports Upstream_Enrich Float_Laws
begin

text \<open>
  What the upstream phase guarantees: its targets are private and exactly those the report names, no
  answer of a host that is not private reaches its results, the confidence is the sum of its
  evidence and grows with it, and attaching the results never lowers a confidence.
\<close>

section \<open>Targets\<close>

definition targets_ok :: "(string \<times> up_target) list \<Rightarrow> bool" where
  "targets_ok seen \<longleftrightarrow> distinct (map fst seen) \<and>
     (\<forall>(ip, t) \<in> set seen. ut_ip t = ip \<and> ip \<noteq> [] \<and> IsPrivateIPString ip)"

definition keeps_ip :: "(up_target \<Rightarrow> up_target) \<Rightarrow> bool" where
  "keeps_ip mutate \<longleftrightarrow> (\<forall>t. ut_ip (mutate t) = ut_ip t)"

definition target_ips :: "string list \<Rightarrow> string set" where
  "target_ips ips = {ip. IsPrivateIPString ip \<and> ip \<in> trim_space ` set ips}"

lemma target_ips_Nil [simp]: "target_ips [] = {}"
  by (simp add: target_ips_def)

lemma target_ips_append: "target_ips (xs @ ys) = target_ips xs \<union> target_ips ys"
  by (auto simp: target_ips_def)

lemma private_nonempty: "IsPrivateIPString ip \<Longrightarrow> ip \<noteq> []"
  by (auto simp: IsPrivateIPString_def IsPrivateIP_def parse_ip_def parse_addr_def)

lemma add_target_keys: "fst ` set (add_target ip f seen) = fst ` set seen \<union> target_ips [ip]"
  using private_nonempty by (auto simp: add_target_def target_ips_def Let_def)

lemma add_target_ok: "keeps_ip f \<Longrightarrow> targets_ok seen \<Longrightarrow> targets_ok (add_target ip f seen)"
  unfolding targets_ok_def add_target_def keeps_ip_def Let_def
  by (auto dest!: set_alist_setD map_of_SomeD simp: new_target_def split: option.splits if_splits)

lemma fold_target:
  assumes "\<And>x seen. h x seen = add_target (key x) (f x) seen" and "\<And>x. keeps_ip (f x)" and "targets_ok seen"
  shows "targets_ok (fold h xs seen) \<and> fst ` set (fold h xs seen) = fst ` set seen \<union> target_ips (map key xs)"
  using assms(3)
proof (induction xs arbitrary: seen)
  case (Cons x xs)
  have "targets_ok (h x seen)" unfolding assms(1) using assms(2) Cons.prems by (rule add_target_ok)
  from Cons.IH [OF this] show ?case
    using target_ips_append [of "[key x]" "map key xs"] by (auto simp: assms(1) add_target_keys)
qed simp

definition first_known :: "string list \<Rightarrow> string" where
  "first_known ss = (case filter (\<lambda>s. s \<noteq> []) ss of [] \<Rightarrow> [] | s # _ \<Rightarrow> s)"

text \<open>The addresses of a scan that may be gateways or upstream devices.\<close>

definition named_ips :: "ScanReport \<Rightarrow> AccessView option \<Rightarrow> string list" where
  "named_ips report ac =
     (case Option.bind ac av_DetectedNetworkContext of
        None \<Rightarrow> [agi_Gateway (rep_Agent report)]
      | Some ctx \<Rightarrow>
          (case nc_GatewayChainState ctx of
             None \<Rightarrow> [first_known [agi_Gateway (rep_Agent report), nc_Gateway ctx]]
           | Some st \<Rightarrow> first_known [agi_Gateway (rep_Agent report), nc_Gateway ctx, gc_DefaultGateway st] #
               map gh_IP (gc_PrivateHops st)) @ map gd_IP (nc_GatewayDevices ctx)) @ ssdpTargets report"

lemma context_targets_ok:
  "targets_ok (snd (context_targets ctx gw)) \<and>
   fst ` set (snd (context_targets ctx gw)) \<union> target_ips [fst (context_targets ctx gw)] =
   target_ips ((case nc_GatewayChainState ctx of
             None \<Rightarrow> [first_known [gw, nc_Gateway ctx]]
           | Some st \<Rightarrow> first_known [gw, nc_Gateway ctx, gc_DefaultGateway st] # map gh_IP (gc_PrivateHops st)) @
         map gd_IP (nc_GatewayDevices ctx))"
proof -
  have empty: "targets_ok []" by (simp add: targets_ok_def)
  have hops: "targets_ok (fold (add_hop g st) hs []) \<and> fst ` set (fold (add_hop g st) hs []) = target_ips (map gh_IP hs)"
    for g st hs
    using fold_target [where h = "add_hop g st" and key = gh_IP and seen = "[]" and xs = hs, OF _ _ empty]
    by (simp add: add_hop_def keeps_ip_def)
  have devs: "targets_ok seen \<Longrightarrow> targets_ok (fold (add_gateway_device g) ds seen) \<and>
      fst ` set (fold (add_gateway_device g) ds seen) = fst ` set seen \<union> target_ips (map gd_IP ds)" for g ds seen
    using fold_target [where h = "add_gateway_device g" and key = gd_IP and seen = seen and xs = ds]
    by (simp add: add_gateway_device_def keeps_ip_def)
  show ?thesis
  proof (cases "nc_GatewayChainState ctx")
    case None
    define g where "g = first_known [gw, nc_Gateway ctx]"
    have "context_targets ctx gw = (g, fold (add_gateway_device g) (nc_GatewayDevices ctx) [])"
      using None by (simp add: context_targets_def g_def first_known_def Let_def)
    then show ?thesis using None devs [OF empty, of g "nc_GatewayDevices ctx"]
        target_ips_append [of "[g]" "map gd_IP (nc_GatewayDevices ctx)"]
      by (simp add: g_def [symmetric] Un_ac)
  next
    case (Some st)
    define g where "g = first_known [gw, nc_Gateway ctx, gc_DefaultGateway st]"
    have "context_targets ctx gw =
        (g, fold (add_gateway_device g) (nc_GatewayDevices ctx) (fold (add_hop g st) (gc_PrivateHops st) []))"
      using Some by (simp add: context_targets_def g_def first_known_def Let_def)
    then show ?thesis using Some hops [of g st "gc_PrivateHops st"]
        devs [of "fold (add_hop g st) (gc_PrivateHops st) []" g "nc_GatewayDevices ctx"]
        target_ips_append [of "[g]" "map gh_IP (gc_PrivateHops st) @ map gd_IP (nc_GatewayDevices ctx)"]
      by (simp add: g_def [symmetric] target_ips_append Un_ac)
  qed
qed

lemma all_targets:
  "\<exists>seen. collectTargets report ac = sort_by (\<lambda>a b. str_less (ut_ip a) (ut_ip b)) (map snd seen) \<and> targets_ok seen \<and>
     fst ` set seen = target_ips (named_ips report ac)"
proof -
  define start where "start = (case Option.bind ac av_DetectedNetworkContext of
      None \<Rightarrow> (agi_Gateway (rep_Agent report), []) | Some ctx \<Rightarrow> context_targets ctx (agi_Gateway (rep_Agent report)))"
  define seen1 where "seen1 = (if fst start \<noteq> []
      then add_target (fst start) (\<lambda>t. t\<lparr>ut_isDefaultGateway := True\<rparr>) (snd start) else snd start)"
  define seen2 where "seen2 = fold (\<lambda>ip. add_target ip (\<lambda>t. t\<lparr>ut_hasUPnPRoot := True\<rparr>)) (ssdpTargets report) seen1"
  have start: "targets_ok (snd start) \<and> fst ` set (snd start) \<union> target_ips [fst start] \<union> target_ips (ssdpTargets report)
      = target_ips (named_ips report ac)"
    using context_targets_ok by (auto simp: start_def named_ips_def targets_ok_def target_ips_append split: option.split)
  have gw: "keeps_ip (\<lambda>t. t\<lparr>ut_isDefaultGateway := True\<rparr>)" and upnp: "keeps_ip (\<lambda>t. t\<lparr>ut_hasUPnPRoot := True\<rparr>)"
    by (simp_all add: keeps_ip_def)
  have "targets_ok seen1" using start gw by (simp add: seen1_def add_target_ok)
  moreover have "fst ` set seen1 = fst ` set (snd start) \<union> target_ips [fst start]"
    using private_nonempty by (auto simp: seen1_def add_target_keys target_ips_def)
  moreover note fold_target [of "\<lambda>ip. add_target ip (\<lambda>t. t\<lparr>ut_hasUPnPRoot := True\<rparr>)" "\<lambda>ip. ip",
      OF refl upnp \<open>targets_ok seen1\<close>, of "ssdpTargets report"]
  ultimately have "targets_ok seen2 \<and> fst ` set seen2 = target_ips (named_ips report ac)"
    using start by (simp add: seen2_def)
  moreover have "collectTargets report ac = sort_by (\<lambda>a b. str_less (ut_ip a) (ut_ip b)) (map snd seen2)"
    by (simp add: collectTargets_def seen2_def seen1_def start_def case_prod_beta Let_def)
  ultimately show ?thesis by blast
qed

lemma str_not_less_trans: "\<not> str_less t s \<Longrightarrow> \<not> str_less u t \<Longrightarrow> \<not> str_less u s"
  using str_less_total [of s t] str_less_trans [of u s t] by auto

interpretation target_order: weak_order "\<lambda>a b. str_less (ut_ip a) (ut_ip b)" "\<lambda>_. True"
  by (unfold_locales; rule str_less_asym str_not_less_trans; assumption)

text \<open>
  The upstream phase probes exactly the private addresses among the default gateway, the private hops,
  the gateway devices and the SSDP responders, each once and in the order of their text; whatever else
  the report names is left alone.
\<close>

theorem upstream_targets_exact:
  "sorted_wrt str_less (map ut_ip (collectTargets report ac)) \<and>
   set (map ut_ip (collectTargets report ac)) = {ip. IsPrivateIPString ip \<and> ip \<in> trim_space ` set (named_ips report ac)}"
proof -
  obtain seen where c: "collectTargets report ac = sort_by (\<lambda>a b. str_less (ut_ip a) (ut_ip b)) (map snd seen)"
    and ok: "targets_ok seen" and keys: "fst ` set seen = target_ips (named_ips report ac)"
    using all_targets by blast
  have ips: "map ut_ip (map snd seen) = map fst seen" using ok by (auto simp: targets_ok_def)
  have same: "mset (map ut_ip (collectTargets report ac)) = mset (map fst seen)"
    unfolding c ips [symmetric] by (simp add: multiset.map_comp)
  have "distinct (map ut_ip (collectTargets report ac))"
    using ok mset_eq_imp_distinct_iff [OF same] by (simp add: targets_ok_def)
  moreover have "sorted_wrt (\<lambda>a b. \<not> str_less b a) (map ut_ip (collectTargets report ac))"
    using target_order.sorted_sort_by [of "map snd seen"] by (simp add: c sorted_wrt_map)
  ultimately have "sorted_wrt str_less (map ut_ip (collectTargets report ac))" by (rule str_sorted_strict)
  then show ?thesis using keys mset_eq_setD [OF same] by (simp add: target_ips_def)
qed

section \<open>Only private hosts are asked\<close>

text \<open>The network with every answer of a host that is not private taken away.\<close>

definition private_only :: "UpNet \<Rightarrow> UpNet" where
  "private_only net =
     net\<lparr>un_ping := (\<lambda>args. if IsPrivateIPString (last args) then un_ping net args else ([], Some ''blocked'')),
       un_connect := (\<lambda>ip port. if IsPrivateIPString ip then un_connect net ip port else None),
       un_send := (\<lambda>m ip port. if IsPrivateIPString ip then un_send net m ip port else Inl ''blocked''),
       un_tls := (\<lambda>ip port. if IsPrivateIPString ip then un_tls net ip port else None)\<rparr>"

lemma ping_private:
  "IsPrivateIPString ip \<Longrightarrow> ping_step (private_only net) enabled now ip reach = ping_step net enabled now ip reach"
  by (simp add: ping_step_def Ping_def private_only_def up_pingArgs_def)

lemma connect_private: "IsPrivateIPString ip \<Longrightarrow> tcpConnect (private_only net) ip port = tcpConnect net ip port"
  by (simp add: tcpConnect_def private_only_def)

lemma sweep_private:
  "IsPrivateIPString ip \<Longrightarrow> sweep_ports (private_only net) ip ports acc = sweep_ports net ip ports acc"
  by (induction net ip ports acc rule: sweep_ports.induct) (simp_all add: connect_private)

lemma fingerprint_private:
  "IsPrivateIPString ip \<Longrightarrow>
   httpFingerprint lower_text (private_only net) ip port scheme = httpFingerprint lower_text net ip port scheme"
  by (simp add: httpFingerprint_def private_only_def cong: sum.case_cong if_cong)

lemma http_private:
  "IsPrivateIPString ip \<Longrightarrow> http_step lower_text (private_only net) now ip = http_step lower_text net now ip"
  by (intro ext) (simp only: http_step_def fingerprint_private)

lemma tls_private: "IsPrivateIPString ip \<Longrightarrow> tls_step (private_only net) now ip = tls_step net now ip"
  by (intro ext) (simp add: tls_step_def tlsFingerprint_def private_only_def)

lemma probe_private:
  "IsPrivateIPString ip \<Longrightarrow> probe_target lower_text (private_only net) enablePing now sameSubnet ip =
   probe_target lower_text net enablePing now sameSubnet ip"
  by (simp only: probe_target_def ping_private sweep_private http_private tls_private)

lemma enrich_all_cong:
  "(\<And>t. t \<in> set ts \<Longrightarrow> one t = one' t) \<Longrightarrow> enrich_all one ts = enrich_all one' ts"
  by (induction ts) (simp_all cong: Option.bind_cong)

lemma targets_private: "t \<in> set (collectTargets report ac) \<Longrightarrow> IsPrivateIPString (ut_ip t)"
  using all_targets [of report ac] by (fastforce simp: targets_ok_def)

text \<open>
  C22: The upstream phase only asks private hosts: its results are the same on a network on which no other
  host answers any ping, connection, request or handshake, whatever addresses the report holds.
\<close>

theorem upstream_private_only:
  "EnrichReport lower_text net enablePing clock report ac =
   EnrichReport lower_text (private_only net) enablePing clock report ac"
  unfolding EnrichReport_def
  by (rule enrich_all_cong) (simp add: enrichOne_def probe_private targets_private)

section \<open>Evidence and confidence\<close>

definition impact_sum :: "IntelEvidenceItem list \<Rightarrow> float64" where
  "impact_sum items = fold (\<lambda>e s. fadd s (iei_ConfidenceImpact e)) items 0"

lemma fold_add_signal:
  "fold (add_signal ts) sigs (items, fold (\<lambda>e s. fadd s (iei_ConfidenceImpact e)) items 0) =
     (items @ concat (map (\<lambda>sig. fst (add_signal ts sig ([], 0))) sigs),
      impact_sum (items @ concat (map (\<lambda>sig. fst (add_signal ts sig ([], 0))) sigs)))"
proof (induction sigs arbitrary: items)
  case (Cons sig sigs)
  define new where "new = fst (add_signal ts sig ([], 0))"
  have "add_signal ts sig (items, fold (\<lambda>e s. fadd s (iei_ConfidenceImpact e)) items 0) =
      (items @ new, fold (\<lambda>e s. fadd s (iei_ConfidenceImpact e)) (items @ new) 0)"
    by (cases sig) (auto simp: add_signal_def new_def)
  then show ?case using Cons.IH [of "items @ new"] by (simp add: new_def)
qed (simp add: impact_sum_def)

lemma Classify_evidence:
  "uc_Evidence (Classify now f) =
     concat (map (\<lambda>sig. fst (add_signal (format_rfc3339 (if is_zero_time (fa_Now f) then now else fa_Now f)) sig ([], 0)))
       (signals f)) \<and>
   uc_Confidence (Classify now f) = up_clamp01 (impact_sum (uc_Evidence (Classify now f)))"
  using fold_add_signal [of _ "signals f" "[]"]
  by (simp add: Classify_def Let_def case_prod_beta)

lemma signal_types:
  "map (\<lambda>sig. fst (snd sig)) (signals f) =
    [''reachable_by_icmp'', ''reachable_by_tcp'', ''visible_in_traceroute'', ''private_upstream_hop'',
     ''has_http_admin_page'', ''router_like_http'', ''upnp_root_device'', ''gateway_router_mac_oui'', ''dns_service'',
     ''tr069_cwmp_port'', ''open_services'']"
  by (simp add: signals_def)

lemma item_types:
  "map iei_Type (concat (map (\<lambda>sig. fst (add_signal ts sig ([], 0))) sigs)) =
   map (\<lambda>sig. fst (snd sig)) (filter fst sigs)"
  by (induction sigs) (auto simp: add_signal_def)

lemma distinct_map_filterI: "distinct (map f xs) \<Longrightarrow> distinct (map f (filter P xs))"
  by (induction xs) auto

lemma evidence_distinct: "distinct (map iei_Type (uc_Evidence (Classify now f)))"
  unfolding conjunct1 [OF Classify_evidence] item_types
  by (rule distinct_map_filterI) (simp add: signal_types)

definition weaker :: "bool \<times> string \<times> string \<times> string \<times> float64 \<Rightarrow> bool \<times> string \<times> string \<times> string \<times> float64 \<Rightarrow> bool" where
  "weaker p q = (case (p, q) of ((a, _, _, _, v), (b, _, _, _, w)) \<Rightarrow> (a \<longrightarrow> b) \<and> v = w \<and> 0 \<le> w)"

lemma fold_weaker:
  assumes "list_all2 weaker ps qs" and "snd x \<le> snd y" and "round64 (snd y) = snd y"
  shows "snd (fold (add_signal ts) ps x) \<le> snd (fold (add_signal ts') qs y)"
  using assms
proof (induction ps qs arbitrary: x y rule: list_all2_induct)
  case (Cons p ps q qs)
  have "snd y \<le> fadd (snd y) w" if "0 \<le> w" for w
    using round64_mono [of "snd y" "snd y + w"] that Cons.prems(2) by (simp add: fadd_def)
  then have "snd (add_signal ts p x) \<le> snd (add_signal ts' q y)"
    using Cons.hyps(1) Cons.prems(1)
    by (cases p; cases q) (auto simp: weaker_def add_signal_def intro: fadd_mono order_trans)
  moreover have "round64 (snd (add_signal ts' q y)) = snd (add_signal ts' q y)"
    using Cons.prems(2) by (cases q) (simp add: add_signal_def fadd_def)
  ultimately show ?case using Cons.IH by simp
qed simp

text \<open>Every signal of the first facts is one of the second.\<close>

definition fewer_signals :: "Facts \<Rightarrow> Facts \<Rightarrow> bool" where
  "fewer_signals f g \<longleftrightarrow> list_all2 (\<lambda>p q. fst p \<le> fst q) (signals f) (signals g)"

lemma signal_weights: "list_all (\<lambda>sig. 0 \<le> snd (snd (snd (snd sig)))) (signals f)"
  by (simp add: signals_def weights flit_def round64_nonneg)

lemma fewer_weaker: "fewer_signals f g \<Longrightarrow> list_all2 weaker (signals f) (signals g)"
  using signal_weights [of g]
  by (auto simp: fewer_signals_def weaker_def signals_def le_bool_def)

lemma up_clamp01_mono: "x \<le> y \<Longrightarrow> up_clamp01 x \<le> up_clamp01 y"
  by (auto simp: up_clamp01_def)

text \<open>
  The confidence of an upstream classification is the sum of the impacts of its evidence, in rounding
  arithmetic and cut off at 1, and no kind of evidence counts twice; a device on which every signal of
  another was observed never gets a lower confidence than that one.
\<close>

theorem upstream_confidence_sound:
  assumes "fewer_signals f g"
  shows "uc_Confidence (Classify now f) = up_clamp01 (impact_sum (uc_Evidence (Classify now f))) \<and>
    distinct (map iei_Type (uc_Evidence (Classify now f))) \<and>
    uc_Confidence (Classify now f) \<le> uc_Confidence (Classify now' g)"
proof -
  have "uc_Confidence (Classify now h) = up_clamp01 (snd (fold (add_signal
      (format_rfc3339 (if is_zero_time (fa_Now h) then now else fa_Now h))) (signals h) ([], 0)))" for now h
    by (simp add: Classify_def Let_def case_prod_beta)
  then have "uc_Confidence (Classify now f) \<le> uc_Confidence (Classify now' g)"
    using fold_weaker [OF fewer_weaker [OF assms], of "([], 0)" "([], 0)"] by (simp add: up_clamp01_mono)
  then show ?thesis using Classify_evidence evidence_distinct by blast
qed

definition example_facts :: Facts where
  "example_facts =
     \<lparr>fa_IP = ''192.168.1.1'', fa_IsPrivate = True, fa_SameSubnetAsAgent = False, fa_IsDefaultGateway = False,
      fa_InGatewayChain = True, fa_HopIndex = 1, fa_HopDistance = 1, fa_DoubleNATHint = True,
      fa_ReachableICMP = False, fa_ReachableTCP = True, fa_OpenPorts = [80], fa_HTTPVendor = ''ZTE'',
      fa_HTTPAdminPanel = True, fa_RouterLikeHTTP = True, fa_HasUPnPRoot = False, fa_HasDNSService = False,
      fa_HasCWMP = False, fa_MACVendor = [], fa_VirtualHint = False, fa_ONTHint = False, fa_ModemHint = False,
      fa_Now = 0\<rparr>"

theorem upstream_confidence_sound_witness:
  "uc_Confidence (Classify 0 example_facts) \<le>
   uc_Confidence (Classify 0 (example_facts\<lparr>fa_ReachableICMP := True, fa_HasCWMP := True\<rparr>))"
  using upstream_confidence_sound
    [of example_facts "example_facts\<lparr>fa_ReachableICMP := True, fa_HasCWMP := True\<rparr>" 0 0]
  by (simp add: fewer_signals_def signals_def example_facts_def isNetworkVendor_def)

section \<open>Attaching\<close>

lemma attach_first_cases:
  "attach_first results ips d = d \<and> (\<forall>ip \<in> set ips. map_of results ip = None) \<or>
   (\<exists>ip r. ip \<in> set ips \<and> map_of results ip = Some r \<and> attach_first results ips d = attach_result r d)"
  by (induction ips) (auto split: option.split)

lemma confidence_enriched [simp]: "did_Confidence (enriched d) = did_Confidence d"
  by (simp add: enriched_def DeviceIntelDevice.extend_def)

lemma confidence_attached: "did_Confidence d \<le> did_Confidence (attach_result r d)"
  by (simp add: attach_result_def)

text \<open>
  Attaching the results of the upstream phase leaves the devices in their places and never lowers a
  confidence: a device without a result on any of its addresses is unchanged, and another gets the
  result of one of its addresses.
\<close>

theorem attach_never_lowers:
  "list_all2 (\<lambda>d e. did_Confidence d \<le> did_Confidence e \<and>
       (if list_all (\<lambda>ip. map_of results ip = None) (did_IPAddresses d) then e = enriched d
        else \<exists>ip r. ip \<in> set (did_IPAddresses d) \<and> map_of results ip = Some r \<and> e = attach_result r (enriched d)))
     (dir_Devices intel) (attachUpstreamIntel intel results)"
  unfolding attachUpstreamIntel_def list_all2_map2
proof (rule list_all2_refl)
  fix d
  show "did_Confidence d \<le> did_Confidence (attach_first results (did_IPAddresses d) (enriched d)) \<and>
      (if list_all (\<lambda>ip. map_of results ip = None) (did_IPAddresses d)
       then attach_first results (did_IPAddresses d) (enriched d) = enriched d
       else \<exists>ip r. ip \<in> set (did_IPAddresses d) \<and> map_of results ip = Some r \<and>
         attach_first results (did_IPAddresses d) (enriched d) = attach_result r (enriched d))"
    using attach_first_cases [of results "did_IPAddresses d" "enriched d"] confidence_attached
    by (auto simp: list_all_iff) (metis confidence_enriched)+
qed

section \<open>Words inside words\<close>

text \<open>The keyword of an optical terminal is searched as a substring: a page with any meta content is one.\<close>

lemma content_is_ont:
  "vr_ONT (AnalyzeHTTP [] ''Camera'' [] ''<meta name=x content=y>'')"
  "vr_Vendor (AnalyzeHTTP [] ''Camera'' [] ''<meta name=x content=y>'') = []"
  by code_simp+

end
