(* ===== verification/Report_Laws.thy ===== *)
theory Report_Laws
  imports Report_Enrichment Upstream_Laws Intel_Laws
begin

text \<open>
  The enriched report: what its evidence registry holds, that a report of the device intelligence never
  makes the construction of the registry panic, and what the redaction hides and leaves readable. The
  mode \<open>safe_to_share\<close> alone changes nothing.
\<close>

section \<open>Items\<close>

definition registry_ok :: "(string \<times> RegistryItem) list \<Rightarrow> bool" where
  "registry_ok reg \<longleftrightarrow> distinct (map fst reg) \<and>
     (\<forall>(i, x) \<in> set reg. reg_ID x = i \<and> i \<noteq> [] \<and> reg_Source x \<noteq> [] \<and> reg_Kind x \<noteq> [] \<and> reg_SafeToDisplay x)"

lemma registry_add_ok:
  "registry_ok reg \<Longrightarrow> registry_ok (registry_add x reg) \<and>
   fst ` set (registry_add x reg) = fst ` set reg \<union> ({reg_ID x} - {[]})"
  by (auto simp: registry_ok_def registry_add_def dest!: set_alist_setD)

lemma fold_registry_add:
  "registry_ok reg \<Longrightarrow> registry_ok (fold (\<lambda>x. registry_add (f x)) xs reg) \<and>
   fst ` set (fold (\<lambda>x. registry_add (f x)) xs reg) = fst ` set reg \<union> ((\<lambda>x. reg_ID (f x)) ` set xs - {[]})"
proof (induction xs arbitrary: reg)
  case (Cons x xs)
  show ?case using registry_add_ok [OF Cons.prems, of "f x"] Cons.IH [of "registry_add (f x) reg"] by auto
qed simp

lemma fold_add_reference:
  "registry_ok reg \<Longrightarrow> registry_ok (fold add_reference is reg) \<and>
   fst ` set (fold add_reference is reg) = fst ` set reg \<union> (set is - {[]})"
proof (induction "is" arbitrary: reg)
  case (Cons i "is")
  have "registry_ok (add_reference i reg) \<and> fst ` set (add_reference i reg) = fst ` set reg \<union> ({i} - {[]})"
    using registry_add_ok [OF Cons.prems, of "registry_of_reference i"] Cons.prems
    by (force simp: add_reference_def registry_of_reference_def dest!: map_of_SomeD)
  with Cons.IH [of "add_reference i reg"] show ?case by auto
qed simp

section \<open>Observations\<close>

text \<open>An observation whose copy of the raw data is a nil map that the normalized data are written to.\<close>

definition merge_panics :: "DeviceIntelEvidence \<Rightarrow> bool" where
  "merge_panics ev \<longleftrightarrow> dio_Raw ev = [] \<and> dio_Normalized ev \<noteq> []"

lemma registry_of_intel_cases:
  "if merge_panics ev then registry_of_intel ev = None
   else \<exists>x. registry_of_intel ev = Some x \<and> reg_ID x = dio_ID ev"
  by (auto simp: registry_of_intel_def mergeAnyMaps_def copyAnyMap_def merge_panics_def)

abbreviation add_observation :: "DeviceIntelEvidence \<Rightarrow> (string \<times> RegistryItem) list option \<Rightarrow> (string \<times> RegistryItem) list option" where
  "add_observation ev acc \<equiv> Option.bind acc (\<lambda>reg. map_option (\<lambda>item. registry_add item reg) (registry_of_intel ev))"

lemma fold_observations_None: "fold add_observation evs None = None"
  by (induction evs) simp_all

lemma fold_observations:
  "registry_ok reg \<Longrightarrow>
   (if list_ex merge_panics evs then fold add_observation evs (Some reg) = None
    else \<exists>reg'. fold add_observation evs (Some reg) = Some reg' \<and> registry_ok reg' \<and>
           fst ` set reg' = fst ` set reg \<union> (dio_ID ` set evs - {[]}))"
proof (induction evs arbitrary: reg)
  case (Cons ev evs)
  show ?case
  proof (cases "merge_panics ev")
    case True
    then show ?thesis using registry_of_intel_cases [of ev] by (simp add: fold_observations_None)
  next
    case False
    then obtain x where x: "registry_of_intel ev = Some x" "reg_ID x = dio_ID ev"
      using registry_of_intel_cases [of ev] by auto
    note add = registry_add_ok [OF Cons.prems, of x]
    show ?thesis using Cons.IH [OF conjunct1 [OF add]] add False by (auto simp: x)
  qed
qed simp

section \<open>The registry\<close>

interpretation registry_order: weak_order "\<lambda>a b. str_less (reg_ID a) (reg_ID (b :: RegistryItem))" "\<lambda>_. True"
  by (unfold_locales; rule str_less_asym str_not_less_trans; assumption)

definition probe_ids :: "ProbeResult list \<Rightarrow> string set" where
  "probe_ids probes = (\<lambda>p. reg_ID (registry_of_probe p)) ` set (zip [0..<length probes] probes)"

definition registry_exact_for ::
  "Evidence list \<Rightarrow> DeviceIntelEvidence list \<Rightarrow> ProbeResult list \<Rightarrow> gvalue \<Rightarrow> RegistryItem list \<Rightarrow> bool" where
  "registry_exact_for evidence intel probes v reg \<longleftrightarrow>
     sorted_wrt str_less (map reg_ID reg) \<and>
     set (map reg_ID reg) = (tev_ID ` set evidence \<union> dio_ID ` set intel \<union> probe_ids probes \<union> set (walk v)) - {[]} \<and>
     (\<forall>x \<in> set reg. reg_Source x \<noteq> [] \<and> reg_Kind x \<noteq> [] \<and> reg_SafeToDisplay x)"

lemma sorted_registry:
  assumes "registry_ok reg"
  shows "sorted_wrt str_less (map reg_ID (sort_by (\<lambda>a b. str_less (reg_ID a) (reg_ID b)) (map snd reg)))"
    and "set (map reg_ID (sort_by (\<lambda>a b. str_less (reg_ID a) (reg_ID b)) (map snd reg))) = fst ` set reg"
    and "\<forall>x \<in> set (sort_by (\<lambda>a b. str_less (reg_ID a) (reg_ID b)) (map snd reg)).
      reg_Source x \<noteq> [] \<and> reg_Kind x \<noteq> [] \<and> reg_SafeToDisplay x"
proof -
  define out where "out = sort_by (\<lambda>a b. str_less (reg_ID a) (reg_ID b)) (map snd reg)"
  have ids: "map reg_ID (map snd reg) = map fst reg" using assms by (auto simp: registry_ok_def)
  have same: "mset (map reg_ID out) = mset (map fst reg)"
    unfolding out_def ids [symmetric] by (simp add: multiset.map_comp)
  have "distinct (map reg_ID out)" using assms mset_eq_imp_distinct_iff [OF same] by (simp add: registry_ok_def)
  moreover have "sorted_wrt (\<lambda>a b. \<not> str_less b a) (map reg_ID out)"
    using registry_order.sorted_sort_by [of "map snd reg"] by (simp add: out_def sorted_wrt_map)
  ultimately show "sorted_wrt str_less (map reg_ID out)" by (rule str_sorted_strict)
  show "set (map reg_ID out) = fst ` set reg" using mset_eq_setD [OF same] by simp
  show "\<forall>x \<in> set out. reg_Source x \<noteq> [] \<and> reg_Kind x \<noteq> [] \<and> reg_SafeToDisplay x"
    using assms by (auto simp: out_def registry_ok_def)
qed

lemma registry_shape:
  "if list_ex merge_panics intel then buildEvidenceRegistry evidence intel probes v = None
   else \<exists>reg. buildEvidenceRegistry evidence intel probes v = Some reg \<and>
          registry_exact_for evidence intel probes v reg"
proof -
  have "registry_ok []" by (simp add: registry_ok_def)
  note r1 = fold_registry_add [OF this, of registry_of_evidence evidence]
  define reg1 where "reg1 = fold (\<lambda>ev. registry_add (registry_of_evidence ev)) evidence []"
  have ids1: "fst ` set reg1 = tev_ID ` set evidence - {[]}" and ok1: "registry_ok reg1"
    using r1 by (simp_all add: reg1_def registry_of_evidence_def)
  show ?thesis
  proof (cases "list_ex merge_panics intel")
    case True
    then show ?thesis using fold_observations [OF ok1, of intel]
      by (simp add: buildEvidenceRegistry_def Let_def reg1_def)
  next
    case False
    then obtain reg2 where reg2: "fold add_observation intel (Some reg1) = Some reg2" and ok2: "registry_ok reg2"
      and ids2: "fst ` set reg2 = fst ` set reg1 \<union> (dio_ID ` set intel - {[]})"
      using fold_observations [OF ok1, of intel] by auto
    define reg3 where "reg3 = fold (\<lambda>p. registry_add (registry_of_probe p)) (zip [0..<length probes] probes) reg2"
    have ok3: "registry_ok reg3" and ids3: "fst ` set reg3 = fst ` set reg2 \<union> (probe_ids probes - {[]})"
      using fold_registry_add [OF ok2, of registry_of_probe "zip [0..<length probes] probes"]
      by (simp_all add: reg3_def probe_ids_def)
    define reg4 where "reg4 = fold add_reference (collectReferencedEvidenceIDs v) reg3"
    have ok4: "registry_ok reg4" and ids4: "fst ` set reg4 = fst ` set reg3 \<union> (set (walk v) - {[]})"
      using fold_add_reference [OF ok3, of "collectReferencedEvidenceIDs v"]
      by (simp_all add: reg4_def collectReferencedEvidenceIDs_def sort_strings_def)
    have "buildEvidenceRegistry evidence intel probes v =
        Some (sort_by (\<lambda>a b. str_less (reg_ID a) (reg_ID b)) (map snd reg4))"
      using reg2 by (simp add: buildEvidenceRegistry_def Let_def reg1_def reg3_def reg4_def)
    then show ?thesis
      using False sorted_registry [OF ok4] ids1 ids2 ids3 ids4
      by (auto simp: registry_exact_for_def)
  qed
qed

text \<open>
  C17: The evidence registry holds exactly the evidence of the scan and of the device intelligence, the
  results of the probes and every identifier that any object of the report refers to, each once, strictly
  sorted, and with a source and a kind. Its construction panics exactly when an observation has
  normalized but no raw data, because the copy of an empty map is nil.
\<close>

theorem registry_exact:
  "case buildEvidenceRegistry evidence intel probes v of
     None \<Rightarrow> list_ex merge_panics intel
   | Some reg \<Rightarrow>
       \<not> list_ex merge_panics intel \<and> sorted_wrt str_less (map reg_ID reg) \<and>
       set (map reg_ID reg) = (tev_ID ` set evidence \<union> dio_ID ` set intel \<union> probe_ids probes \<union> set (walk v)) - {[]} \<and>
       list_all (\<lambda>x. reg_Source x \<noteq> [] \<and> reg_Kind x \<noteq> [] \<and> reg_SafeToDisplay x) reg"
  using registry_shape [of intel evidence probes v]
  by (auto simp: registry_exact_for_def list_all_iff split: if_splits)

section \<open>The observations of the device intelligence\<close>

definition raw_only :: "IntelStore \<Rightarrow> bool" where
  "raw_only s \<longleftrightarrow> (\<forall>x \<in> set (ins_Observations s). dio_Normalized x = [])"

lemma raw_only_same: "raw_only s \<Longrightarrow> ins_Observations s' = ins_Observations s \<Longrightarrow> raw_only s'"
  by (simp add: raw_only_def)

interpretation intel_raw: device_store "\<lambda>_. True" "\<lambda>_. True" raw_only
proof
  fix s ip f k svc source kind raw c err ev i
  assume s: "raw_only s"
  from s show "raw_only (UpsertDevice ip s)" by (rule raw_only_same) simp
  from s show "raw_only (modify_device k f s)" by (rule raw_only_same) simp
  from s show "raw_only (modify_device k (add_service_to svc) s)" by (rule raw_only_same) simp
  from s show "raw_only (snd (intel_AddObservation ip source kind raw [] c err s))"
    by (cases "ip = []") (auto simp: intel_AddObservation_def intel_clock_def Let_def upsert_with_def raw_only_def)
  from s show "raw_only (RegisterEvidence ev i c s)" by (auto simp: RegisterEvidence_def raw_only_def)
qed

interpretation intel_raw_report: device_ingest "\<lambda>_. True" "\<lambda>_. True" raw_only scope evidenceByID
  for scope evidenceByID
  by unfold_locales simp_all

lemma Build_raw_only: "x \<in> set (dir_Evidence (intel_Build now clock report ac)) \<Longrightarrow> dio_Normalized x = []"
proof -
  have "raw_only (snd (intel_ingest now report ac))"
    by (rule intel_ingest_inv [OF intel_raw_report.device_ingest_axioms])
      (simp_all add: raw_only_def intel_NewEvidenceStore_def list_all_iff)
  then show "x \<in> set (dir_Evidence (intel_Build now clock report ac)) \<Longrightarrow> dio_Normalized x = []"
    by (simp add: intel_Build_def case_prod_beta Let_def classifyAllWithEvidence_def raw_only_def)
qed

lemma Build_never_panics: "\<not> list_ex merge_panics (dir_Evidence (intel_Build now clock report ac))"
  using Build_raw_only by (fastforce simp: list_ex_iff merge_panics_def)

section \<open>What is hidden\<close>

definition evidence_hides :: "bool \<Rightarrow> bool \<Rightarrow> MobileEvidenceItem \<Rightarrow> bool" where
  "evidence_hides mac host ev \<longleftrightarrow>
     (mac \<and> me_Type ev = ''mac_oui'' \<longrightarrow> me_Value ev = masked_mac) \<and>
     (host \<and> me_Type ev \<in> {''hostname'', ''dhcp_hostname'', ''mdns''} \<longrightarrow> me_Value ev = masked_host)"

definition fingerprint_hides :: "bool \<Rightarrow> bool \<Rightarrow> MobileFingerprint option \<Rightarrow> bool" where
  "fingerprint_hides mac host fp =
     (case fp of None \<Rightarrow> True | Some fp \<Rightarrow> list_all (evidence_hides mac host) (mf_Evidence fp))"

text \<open>
  Every copy of a mobile fingerprint: of the devices of the scan and of the device intelligence, of the
  nodes of both graphs, and in the nodes and the device details of the user interface.
\<close>

definition ui_hides :: "bool \<Rightarrow> bool \<Rightarrow> ui_map \<Rightarrow> bool" where
  "ui_hides mac host m =
     list_all (\<lambda>(k, v). case v of UV_fingerprint fp \<Rightarrow> fingerprint_hides mac host fp | _ \<Rightarrow> True) m"

definition fingerprints_hidden :: "bool \<Rightarrow> bool \<Rightarrow> FullReport \<Rightarrow> bool" where
  "fingerprints_hidden mac host r \<longleftrightarrow>
     list_all (\<lambda>d. fingerprint_hides mac host (dev_MobileFingerprint d)) (rep_Devices (fr_Scan r)) \<and>
     (case fr_Intel r of None \<Rightarrow> True
      | Some i \<Rightarrow> list_all (\<lambda>d. fingerprint_hides mac host (did_MobileFingerprint d)) (is_Devices i)) \<and>
     list_all (\<lambda>n. fingerprint_hides mac host (rn_MobileFingerprint n)) (rt_Nodes (fr_RichTopology r)) \<and>
     list_all (\<lambda>n. fingerprint_hides mac host (rn_MobileFingerprint n)) (v2_Nodes (fr_Topology r)) \<and>
     list_all (\<lambda>n. ui_hides mac host (ugn_Metadata n)) (rui_Nodes (fr_UI r)) \<and>
     list_all (ui_hides mac host) (rui_DeviceDetails (fr_UI r))"

definition macs_hidden :: "FullReport \<Rightarrow> bool" where
  "macs_hidden r \<longleftrightarrow>
     list_all (\<lambda>i. ifc_MAC i \<in> {[], masked_mac}) (fr_Interfaces r) \<and>
     list_all (\<lambda>d. list_all (\<lambda>i. dif_MAC i \<in> {[], masked_mac}) (dev_Interfaces d)) (rep_Devices (fr_Scan r)) \<and>
     fingerprints_hidden True False r"

definition hosts_hidden :: "FullReport \<Rightarrow> bool" where
  "hosts_hidden r \<longleftrightarrow>
     agi_Hostname (rep_Agent (fr_Scan r)) = masked_host \<and>
     list_all (\<lambda>d. dev_Hostname d \<in> {[], masked_host}) (rep_Devices (fr_Scan r)) \<and>
     fingerprints_hidden False True r"

definition public_ip_hidden :: "FullReport \<Rightarrow> bool" where
  "public_ip_hidden r =
     (case fr_Access r of None \<Rightarrow> True
      | Some a \<Rightarrow>
          (let ctx = sr_DetectedNetworkContext (as_Result a)
           in nc_PublicIP ctx \<in> {[], masked_ip} \<and>
              (case nc_NATTopology ctx of None \<Rightarrow> True
               | Some n \<Rightarrow> nt_PublicIP n \<in> {[], masked_ip} \<and> nt_STUNPublicIP n \<in> {[], masked_ip})))"

lemma mask_text_range: "mask_text h s \<in> {[], h}"
  by (simp add: mask_text_def)

lemma evidence_redacted: "evidence_hides mac host (redact_mobile_evidence mac host ev)"
  by (cases "me_Type ev = ''mac_oui''"; cases "me_Type ev \<in> {''hostname'', ''dhcp_hostname'', ''mdns''}")
    (simp_all add: evidence_hides_def redact_mobile_evidence_def)

lemma evidence_kept: "evidence_hides mac host ev \<Longrightarrow> evidence_hides mac host (redact_mobile_evidence mac' host' ev)"
  by (cases "me_Type ev = ''mac_oui''"; cases "me_Type ev \<in> {''hostname'', ''dhcp_hostname'', ''mdns''}")
    (simp_all add: evidence_hides_def redact_mobile_evidence_def)

lemma fingerprint_redacted: "fingerprint_hides mac host (redactMobileFingerprint mac host fp)"
  by (cases fp) (simp_all add: fingerprint_hides_def redactMobileFingerprint_def list_all_iff evidence_redacted)

lemma fingerprint_kept:
  "fingerprint_hides mac host fp \<Longrightarrow> fingerprint_hides mac host (redactMobileFingerprint mac' host' fp)"
  by (cases fp) (simp_all add: fingerprint_hides_def redactMobileFingerprint_def list_all_iff evidence_kept)

lemma redact_fingerprints_kept [simp]:
  "fr_Interfaces (redact_fingerprints mac host r) = fr_Interfaces r" "fr_Access (redact_fingerprints mac host r) = fr_Access r"
  "fr_Privacy (redact_fingerprints mac host r) = fr_Privacy r"
  "rep_Agent (fr_Scan (redact_fingerprints mac host r)) = rep_Agent (fr_Scan r)"
  "rep_Evidence (fr_Scan (redact_fingerprints mac host r)) = rep_Evidence (fr_Scan r)"
  "fr_EvidenceRegistry (redact_fingerprints mac host r) = fr_EvidenceRegistry r"
  "rep_Devices (fr_Scan (redact_fingerprints mac host r)) =
     map (\<lambda>d. d\<lparr>dev_MobileFingerprint := redactMobileFingerprint mac host (dev_MobileFingerprint d)\<rparr>) (rep_Devices (fr_Scan r))"
  by (simp_all add: redact_fingerprints_def Let_def)

lemma ui_redacted: "ui_hides mac host (redact_ui_map mac host m)"
  by (auto simp: ui_hides_def redact_ui_map_def redact_ui_value_def list_all_iff fingerprint_redacted
      split: ui_value.split)

lemma ui_kept: "ui_hides mac host m \<Longrightarrow> ui_hides mac host (redact_ui_map mac' host' m)"
  by (induction m)
    (auto simp: ui_hides_def redact_ui_map_def redact_ui_value_def fingerprint_kept split: ui_value.splits)

lemma fingerprints_redacted: "fingerprints_hidden mac host (redact_fingerprints mac host r)"
  by (simp add: fingerprints_hidden_def redact_fingerprints_def Let_def list_all_iff fingerprint_redacted ui_redacted
      split: option.split)

lemma fingerprints_still_hidden:
  "fingerprints_hidden mac host r \<Longrightarrow> fingerprints_hidden mac host (redact_fingerprints mac' host' r)"
  by (simp add: fingerprints_hidden_def redact_fingerprints_def Let_def list_all_iff fingerprint_kept ui_kept
      split: option.splits)

text \<open>The other fields may change without showing a fingerprint.\<close>

lemma fingerprints_hidden_cong:
  assumes "map dev_MobileFingerprint (rep_Devices (fr_Scan q)) = map dev_MobileFingerprint (rep_Devices (fr_Scan r))"
    "fr_Intel q = fr_Intel r" "fr_RichTopology q = fr_RichTopology r" "fr_Topology q = fr_Topology r" "fr_UI q = fr_UI r"
  shows "fingerprints_hidden mac host q \<longleftrightarrow> fingerprints_hidden mac host r"
proof -
  have "list_all (\<lambda>d. P (dev_MobileFingerprint d)) ds = list_all P (map dev_MobileFingerprint ds)"
    for P and ds :: "Device list"
    by (simp add: list.pred_map comp_def)
  from this [of "fingerprint_hides mac host"] show ?thesis
    unfolding fingerprints_hidden_def assms(2-) by (simp only: assms(1))
qed

lemma redact_macs_fingerprints:
  "fingerprints_hidden mac host (redact_macs r) = fingerprints_hidden mac host (redact_fingerprints True False r)"
  by (rule fingerprints_hidden_cong) (simp_all add: redact_macs_def Let_def comp_def)

lemma redact_hosts_fingerprints:
  "fingerprints_hidden mac host (redact_hosts r) = fingerprints_hidden mac host (redact_fingerprints False True r)"
  by (rule fingerprints_hidden_cong) (simp_all add: redact_hosts_def Let_def comp_def)

lemma public_ip_fingerprints: "fingerprints_hidden mac host (redact_public_ip r) = fingerprints_hidden mac host r"
  by (rule fingerprints_hidden_cong) (simp_all add: redact_public_ip_def)

lemma macs_redacted: "macs_hidden (redact_macs r)"
  unfolding macs_hidden_def redact_macs_fingerprints
  using mask_text_range fingerprints_redacted by (auto simp: redact_macs_def Let_def list_all_iff)

lemma macs_hosts: "macs_hidden r \<Longrightarrow> macs_hidden (redact_hosts r)"
  unfolding macs_hidden_def redact_hosts_fingerprints
  using fingerprints_still_hidden by (auto simp: redact_hosts_def Let_def list_all_iff)

lemma hosts_redacted: "hosts_hidden (redact_hosts r)"
  unfolding hosts_hidden_def redact_hosts_fingerprints
  using mask_text_range fingerprints_redacted by (auto simp: redact_hosts_def Let_def list_all_iff)

lemma public_ip_kept: "fr_Interfaces (redact_public_ip r) = fr_Interfaces r" "fr_Scan (redact_public_ip r) = fr_Scan r"
  by (simp_all add: redact_public_ip_def)

lemma public_ip_redacted: "public_ip_hidden (redact_public_ip r)"
  using mask_text_range
  by (auto simp: public_ip_hidden_def redact_public_ip_def redact_context_def Let_def split: option.splits)

text \<open>
  C18: With the mask of hardware addresses switched on, the interfaces of the agent and of every device show
  no address, and the address evidence of every copy of a mobile fingerprint (in the devices of the scan
  and of the device intelligence, in the nodes of both graphs, in the nodes and the details of the user
  interface) is masked; with the mask of host names, the same holds of the name of the agent, of the name
  of every scanned device and of the name evidence of every such copy; with the mask of public
  addresses, the public and the STUN address of the network context are masked.
\<close>

theorem redaction_masks:
  "(if prv_MaskMAC (fr_Privacy r) then macs_hidden (applyReportRedaction r) else True) \<and>
   (if prv_MaskHostnames (fr_Privacy r) then hosts_hidden (applyReportRedaction r) else True) \<and>
   (if prv_MaskPublicIP (fr_Privacy r) then public_ip_hidden (applyReportRedaction r) else True)"
proof -
  define p where "p = fr_Privacy r"
  define r1 where "r1 = (if prv_MaskMAC p then redact_macs r else r)"
  define r2 where "r2 = (if prv_MaskHostnames p then redact_hosts r1 else r1)"
  have e: "applyReportRedaction r = (if prv_MaskPublicIP p then redact_public_ip r2 else r2)"
    by (simp add: applyReportRedaction_def Let_def p_def r1_def r2_def)
  have "prv_MaskMAC p \<Longrightarrow> macs_hidden r2" by (simp add: r2_def r1_def macs_redacted macs_hosts)
  moreover have "prv_MaskHostnames p \<Longrightarrow> hosts_hidden r2" by (simp add: r2_def hosts_redacted)
  ultimately show ?thesis
    unfolding e p_def [symmetric]
    by (simp add: macs_hidden_def hosts_hidden_def public_ip_kept public_ip_redacted public_ip_fingerprints)
qed

section \<open>What stays readable\<close>

text \<open>The hardware addresses and names a report still shows after every redaction.\<close>

definition readable ::
  "FullReport \<Rightarrow> (string \<times> string list) list \<times> (string list \<times> string list) list option \<times>
     (string list \<times> string) list \<times> Evidence list \<times> RegistryItem list \<times> string list" where
  "readable r =
     (map (\<lambda>d. (dev_MAC d, dev_Hostnames d)) (rep_Devices (fr_Scan r)),
      map_option (\<lambda>i. map (\<lambda>d. (did_MACAddresses d, did_Hostnames d)) (is_Devices i)) (fr_Intel r),
      map (\<lambda>n. (rn_MACAddresses n, rn_Hostname n)) (rt_Nodes (fr_RichTopology r)),
      rep_Evidence (fr_Scan r), fr_EvidenceRegistry r, map ugn_Label (rui_Nodes (fr_UI r)))"

lemma readable_fingerprints: "readable (redact_fingerprints mac host r) = readable r"
  by (simp add: readable_def redact_fingerprints_def Let_def comp_def option.map_comp)

lemma readable_macs: "readable (redact_macs r) = readable r"
proof -
  have "readable (q\<lparr>fr_Interfaces := is, fr_Scan := (fr_Scan q)\<lparr>rep_Devices := map f (rep_Devices (fr_Scan q))\<rparr>\<rparr>) = readable q"
    if "\<And>d. dev_MAC (f d) = dev_MAC d \<and> dev_Hostnames (f d) = dev_Hostnames d" for q "is" f
    using that by (simp add: readable_def)
  from this [of "\<lambda>d. d\<lparr>dev_Interfaces := map (\<lambda>i. i\<lparr>dif_MAC := mask_text masked_mac (dif_MAC i)\<rparr>) (dev_Interfaces d)\<rparr>"]
  have "readable (redact_macs r) = readable (redact_fingerprints True False r)"
    unfolding redact_macs_def Let_def by (simp del: redact_fingerprints_kept)
  then show ?thesis by (simp add: readable_fingerprints)
qed

lemma readable_hosts: "readable (redact_hosts r) = readable r"
proof -
  have "readable (q\<lparr>fr_Scan := (fr_Scan q)\<lparr>rep_Agent := a, rep_Devices := map f (rep_Devices (fr_Scan q))\<rparr>\<rparr>) = readable q"
    if "\<And>d. dev_MAC (f d) = dev_MAC d \<and> dev_Hostnames (f d) = dev_Hostnames d" for q a f
    using that by (simp add: readable_def)
  from this [of "\<lambda>d. d\<lparr>dev_Hostname := mask_text masked_host (dev_Hostname d)\<rparr>"]
  have "readable (redact_hosts r) = readable (redact_fingerprints False True r)"
    unfolding redact_hosts_def Let_def by (simp del: redact_fingerprints_kept)
  then show ?thesis by (simp add: readable_fingerprints)
qed

text \<open>
  C19: The redaction leaves the hardware addresses and the host names of every device readable: in the device
  list itself, in the device intelligence, in the graph, in the labels of the user interface and in the
  data of every evidence record. Without a mask it changes nothing, also in the mode \<open>safe_to_share\<close>.
\<close>

theorem redaction_leaks:
  "readable (applyReportRedaction r) = readable r \<and>
   (let p = fr_Privacy r in
      if prv_MaskMAC p \<or> prv_MaskHostnames p \<or> prv_MaskPublicIP p then True else applyReportRedaction r = r)"
proof -
  have "readable (redact_public_ip q) = readable q" for q by (simp add: readable_def redact_public_ip_def)
  then have "readable (applyReportRedaction r) = readable r"
    by (simp add: applyReportRedaction_def Let_def readable_macs readable_hosts)
  then show ?thesis by (simp add: applyReportRedaction_def Let_def)
qed

end
