(* ===== verification/Nmap_Scan.thy ===== *)
theory Nmap_Scan
  imports Host_Discovery
begin

text \<open>
  \<open>agent/internal/discovery/nmap\<close>: the optional service scanner. The search in the path, the run of the
  program and the decoding of its XML output are parameters; the decoded document is a value of
  \<open>XmlHost\<close>. \<open>None\<close> is an error, and in \<open>MergeServices\<close> a panic. At the end, what merging the services
  of Nmap into a list of services does, and when its conversion of a port panics.
\<close>

section \<open>Results\<close>

record NmapPort =
  npt_ID :: int
  npt_Protocol :: string
  npt_Service :: string
  npt_Product :: string
  npt_Version :: string

record NmapHost =
  nmh_IP :: string
  nmh_MAC :: string
  nmh_Vendor :: string
  nmh_Hostname :: string
  nmh_Ports :: "NmapPort list"

record Detection =
  det_Found :: bool
  det_Path :: string
  det_Version :: string

record MergeDevice =
  mdv_IP :: string
  mdv_Services :: "Service list"

section \<open>The document\<close>

record XmlAddress =
  xa_Addr :: string
  xa_AddrType :: string
  xa_Vendor :: string

record XmlHostname =
  xn_Name :: string
  xn_Type :: string

record XmlService =
  xs_Name :: string
  xs_Product :: string
  xs_Version :: string

record XmlPort =
  xp_Protocol :: string
  xp_PortID :: string
  xp_State :: string
  xp_Service :: XmlService

record XmlHost =
  xh_Status :: string
  xh_Addresses :: "XmlAddress list"
  xh_Hostnames :: "XmlHostname list"
  xh_Ports :: "XmlPort list"

section \<open>Profiles\<close>

definition ProfileQuick :: string where "ProfileQuick = ''quick''"
definition ProfileStandard :: string where "ProfileStandard = ''standard''"
definition ProfileNormal :: string where "ProfileNormal = ''normal''"
definition ProfileDeep :: string where "ProfileDeep = ''deep''"
definition ProfileFull :: string where "ProfileFull = ''full''"

definition ArgsForProfile :: "string \<Rightarrow> string list" where
  "ArgsForProfile profile =
     (if profile = ProfileDeep \<or> profile = ProfileFull
      then [''-sT'', ''-T4'', ''-p'', ''1-2000'', ''-sV'', ''--version-light'', ''--max-retries'', ''2'',
            ''--host-timeout'', ''60s'', ''-oX'', ''-'']
      else if profile = ProfileStandard \<or> profile = ProfileNormal
      then [''-sT'', ''-T4'', ''--top-ports'', ''1000'', ''-sV'', ''--version-light'', ''--host-timeout'', ''45s'',
            ''-oX'', ''-'']
      else [''-sT'', ''-T4'', ''-F'', ''-oX'', ''-''])"

definition KnownProfile :: "string \<Rightarrow> bool" where
  "KnownProfile p \<longleftrightarrow> p \<in> {ProfileQuick, ProfileStandard, ProfileNormal, ProfileDeep, ProfileFull}"

section \<open>The parser\<close>

definition nmap_normalizeMAC :: "string \<Rightarrow> string" where
  "nmap_normalizeMAC mac = to_lower (replace_bytes [(CHR ''-'', '':'')] mac)"

definition add_xml_address :: "XmlAddress \<Rightarrow> NmapHost \<Rightarrow> NmapHost" where
  "add_xml_address a h =
     (if xa_AddrType a \<in> {''ipv4'', ''ipv6''} then (if nmh_IP h = [] then h\<lparr>nmh_IP := xa_Addr a\<rparr> else h)
      else if xa_AddrType a = ''mac'' then h\<lparr>nmh_MAC := nmap_normalizeMAC (xa_Addr a), nmh_Vendor := xa_Vendor a\<rparr>
      else h)"

fun first_hostname :: "XmlHostname list \<Rightarrow> string" where
  "first_hostname [] = []"
| "first_hostname (hn # hns) = (if xn_Name hn \<noteq> [] then xn_Name hn else first_hostname hns)"

definition parse_port :: "XmlPort \<Rightarrow> NmapPort option" where
  "parse_port p =
     (if xp_State p \<noteq> ''open'' then None
      else map_option (\<lambda>i.
        \<lparr>npt_ID = i, npt_Protocol = xp_Protocol p, npt_Service = xs_Name (xp_Service p),
         npt_Product = xs_Product (xp_Service p), npt_Version = xs_Version (xp_Service p)\<rparr>) (atoi (xp_PortID p)))"

definition parse_host :: "XmlHost \<Rightarrow> NmapHost option" where
  "parse_host h =
     (if xh_Status h \<noteq> [] \<and> xh_Status h \<noteq> ''up'' then None
      else (let host = fold add_xml_address (xh_Addresses h)
                  \<lparr>nmh_IP = [], nmh_MAC = [], nmh_Vendor = [], nmh_Hostname = [], nmh_Ports = []\<rparr>
            in if nmh_IP host = [] then None
               else Some (host\<lparr>nmh_Hostname := first_hostname (xh_Hostnames h),
                               nmh_Ports := List.map_filter parse_port (xh_Ports h)\<rparr>)))"

definition nmap_Parse :: "(string \<Rightarrow> XmlHost list option) \<Rightarrow> string \<Rightarrow> NmapHost list option" where
  "nmap_Parse unmarshal data = map_option (List.map_filter parse_host) (unmarshal data)"

section \<open>The program\<close>

definition firstLine :: "string \<Rightarrow> string" where
  "firstLine s = trim_space (takeWhile (\<lambda>c. c \<noteq> CHR 0x0A) (trim_space s))"

definition nmap_lookup :: "(string \<Rightarrow> string option) \<Rightarrow> string \<Rightarrow> string option" where
  "nmap_lookup lookPath binary = lookPath (if binary = [] then ''nmap'' else binary)"

definition nmap_Available :: "(string \<Rightarrow> string option) \<Rightarrow> string \<Rightarrow> bool" where
  "nmap_Available lookPath binary \<longleftrightarrow> nmap_lookup lookPath binary \<noteq> None"

definition Detect ::
  "(string \<Rightarrow> string option) \<Rightarrow> (string \<Rightarrow> string list \<Rightarrow> string option) \<Rightarrow> string \<Rightarrow> Detection" where
  "Detect lookPath run binary =
     (case nmap_lookup lookPath binary of
        None \<Rightarrow> \<lparr>det_Found = False, det_Path = [], det_Version = []\<rparr>
      | Some path \<Rightarrow>
          \<lparr>det_Found = True, det_Path = path,
           det_Version = (case run path [''--version''] of Some out \<Rightarrow> firstLine out | None \<Rightarrow> [])\<rparr>)"

definition Runner_Scan ::
  "(string \<Rightarrow> string option) \<Rightarrow> (string \<Rightarrow> string list \<Rightarrow> string option) \<Rightarrow> (string \<Rightarrow> XmlHost list option) \<Rightarrow>
   string \<Rightarrow> string \<Rightarrow> string \<Rightarrow> NmapHost list option" where
  "Runner_Scan lookPath run unmarshal binary target profile =
     (case nmap_lookup lookPath binary of
        None \<Rightarrow> None
      | Some bin \<Rightarrow> Option.bind (run bin (ArgsForProfile profile @ [target])) (nmap_Parse unmarshal))"

section \<open>Mapping and merging\<close>

definition map_port :: "NmapPort \<Rightarrow> Service" where
  "map_port p =
     \<lparr>svc_Port = npt_ID p, svc_Protocol = npt_Protocol p, svc_State = ''open'', svc_Name = npt_Service p,
      svc_Product = npt_Product p, svc_EvidenceIDs = []\<rparr>"

definition map_host :: "NmapHost \<Rightarrow> ScannedHost" where
  "map_host h =
     \<lparr>sh_IP = nmh_IP h, sh_MAC = nmh_MAC h, sh_Hostname = nmh_Hostname h, sh_Services = map map_port (nmh_Ports h)\<rparr>"

definition MapHosts :: "NmapHost list \<Rightarrow> ScannedHost list" where
  "MapHosts hosts = map map_host hosts"

definition ServiceScanner_Scan ::
  "(string \<Rightarrow> string option) \<Rightarrow> (string \<Rightarrow> string list \<Rightarrow> string option) \<Rightarrow> (string \<Rightarrow> XmlHost list option) \<Rightarrow>
   string \<Rightarrow> string \<Rightarrow> LanScope \<Rightarrow> ScannedHost list option" where
  "ServiceScanner_Scan lookPath run unmarshal binary profile scope =
     map_option MapHosts (Runner_Scan lookPath run unmarshal binary (scp_CIDR scope) profile)"

text \<open>The same conversion of a port as in \<open>hosts.go\<close>, with a buffer of twelve bytes.\<close>

definition nmap_itoa :: "int \<Rightarrow> string option" where
  "nmap_itoa n = (if n = 0 then Some ''0'' else itoa_loop 12 n [])"

definition nmap_serviceKey :: "Service \<Rightarrow> string option" where
  "nmap_serviceKey sv = map_option (\<lambda>p. svc_Protocol sv @ '':'' @ p @ '':'' @ svc_Name sv) (nmap_itoa (svc_Port sv))"

fun seen_keys :: "Service list \<Rightarrow> string set \<Rightarrow> string set option" where
  "seen_keys [] seen = Some seen"
| "seen_keys (sv # svs) seen = Option.bind (nmap_serviceKey sv) (\<lambda>k. seen_keys svs (insert k seen))"

fun merge_new :: "Service list \<Rightarrow> string set \<Rightarrow> Service list \<Rightarrow> Service list option" where
  "merge_new [] seen out = Some out"
| "merge_new (sv # svs) seen out =
     Option.bind (nmap_serviceKey sv) (\<lambda>k.
       if k \<in> seen then merge_new svs seen out else merge_new svs (insert k seen) (out @ [sv]))"

definition MergeServices :: "Service list \<Rightarrow> Service list \<Rightarrow> Service list option" where
  "MergeServices existing discovered =
     Option.bind (seen_keys existing {}) (\<lambda>seen. merge_new discovered seen existing)"

definition MergeIntoDevice :: "MergeDevice \<Rightarrow> NmapHost \<Rightarrow> MergeDevice option" where
  "MergeIntoDevice device host =
     map_option (\<lambda>ss. device\<lparr>mdv_Services := ss\<rparr>) (MergeServices (mdv_Services device) (sh_Services (map_host host)))"

lemma key_panics: "nmap_serviceKey sv = None \<longleftrightarrow> 10 ^ 12 \<le> svc_Port sv"
  by (simp add: nmap_serviceKey_def nmap_itoa_def itoa_loop_None)

lemma seen_keys_eq:
  "seen_keys svs seen =
     (if list_ex (\<lambda>sv. nmap_serviceKey sv = None) svs then None
      else Some (seen \<union> (\<lambda>sv. the (nmap_serviceKey sv)) ` set svs))"
proof (induction svs arbitrary: seen)
  case (Cons sv svs)
  then show ?case by (cases "nmap_serviceKey sv") simp_all
qed simp

lemma merge_new_None:
  "merge_new svs seen out = None \<longleftrightarrow> list_ex (\<lambda>sv. nmap_serviceKey sv = None) svs"
proof (induction svs arbitrary: seen out)
  case (Cons sv svs)
  then show ?case by (cases "nmap_serviceKey sv") simp_all
qed simp

lemma merge_new_Some:
  "merge_new svs seen out = Some out' \<Longrightarrow>
   \<exists>added. out' = out @ added \<and> set added \<subseteq> set svs \<and> distinct (map nmap_serviceKey added) \<and>
     nmap_serviceKey ` set added \<inter> Some ` seen = {} \<and>
     nmap_serviceKey ` set svs \<subseteq> Some ` seen \<union> nmap_serviceKey ` set added"
proof (induction svs arbitrary: seen out)
  case (Cons sv svs)
  then obtain k where k: "nmap_serviceKey sv = Some k" by (cases "nmap_serviceKey sv") simp_all
  show ?case
  proof (cases "k \<in> seen")
    case True
    then show ?thesis using Cons.IH [of seen out] Cons.prems k by (auto simp: image_iff)
  next
    case False
    then obtain added where a: "out' = (out @ [sv]) @ added" "set added \<subseteq> set svs" "distinct (map nmap_serviceKey added)"
      "nmap_serviceKey ` set added \<inter> Some ` insert k seen = {}"
      "nmap_serviceKey ` set svs \<subseteq> Some ` insert k seen \<union> nmap_serviceKey ` set added"
      using Cons.IH [of "insert k seen" "out @ [sv]"] Cons.prems k by auto
    have "out' = out @ (sv # added) \<and> set (sv # added) \<subseteq> set (sv # svs) \<and> distinct (map nmap_serviceKey (sv # added)) \<and>
        nmap_serviceKey ` set (sv # added) \<inter> Some ` seen = {} \<and>
        nmap_serviceKey ` set (sv # svs) \<subseteq> Some ` seen \<union> nmap_serviceKey ` set (sv # added)"
      using a False k by auto
    then show ?thesis by blast
  qed
qed simp

text \<open>
  Merging the services Nmap found keeps every known service, in its place and with its data, and appends
  exactly one service for each new combination of protocol, port and name. It panics exactly when a port
  has more than twelve digits, which the parser accepts.
\<close>

theorem nmap_merge_exact:
  "case MergeServices existing discovered of
     None \<Rightarrow> list_ex (\<lambda>sv. 10 ^ 12 \<le> svc_Port sv) (existing @ discovered)
   | Some out \<Rightarrow>
       \<not> list_ex (\<lambda>sv. 10 ^ 12 \<le> svc_Port sv) (existing @ discovered) \<and>
       (\<exists>added. out = existing @ added \<and> set added \<subseteq> set discovered \<and> distinct (map nmap_serviceKey added) \<and>
          nmap_serviceKey ` set added \<inter> nmap_serviceKey ` set existing = {} \<and>
          nmap_serviceKey ` set out = nmap_serviceKey ` set (existing @ discovered))"
proof (cases "list_ex (\<lambda>sv. nmap_serviceKey sv = None) existing")
  case True
  then show ?thesis by (simp add: MergeServices_def seen_keys_eq key_panics)
next
  case False
  define seen where "seen = (\<lambda>sv. the (nmap_serviceKey sv)) ` set existing"
  have seen: "Some ` seen = nmap_serviceKey ` set existing"
    using False by (force simp: seen_def list_ex_iff image_image)
  have m: "MergeServices existing discovered = merge_new discovered seen existing"
    using False by (simp add: MergeServices_def seen_keys_eq seen_def)
  show ?thesis
  proof (cases "merge_new discovered seen existing")
    case None
    then show ?thesis using merge_new_None [of discovered seen existing] by (simp add: m key_panics)
  next
    case (Some out)
    have "\<not> list_ex (\<lambda>sv. 10 ^ 12 \<le> svc_Port sv) (existing @ discovered)"
      using False Some merge_new_None [of discovered seen existing] by (simp add: key_panics)
    moreover obtain added where a: "out = existing @ added" "set added \<subseteq> set discovered"
      "distinct (map nmap_serviceKey added)" "nmap_serviceKey ` set added \<inter> nmap_serviceKey ` set existing = {}"
      "nmap_serviceKey ` set discovered \<subseteq> nmap_serviceKey ` set existing \<union> nmap_serviceKey ` set added"
      using merge_new_Some [OF Some] unfolding seen by blast
    moreover have "nmap_serviceKey ` set out = nmap_serviceKey ` set (existing @ discovered)"
      using a(2,5) unfolding a(1) set_append image_Un by blast
    ultimately show ?thesis unfolding m Some option.case by blast
  qed
qed

end
