(* ===== verification/Scan_Command.thy ===== *)
theory Scan_Command
  imports Report_Enrichment Discovery_Run Nmap_Scan
begin

text \<open>
  The \<open>scan\<close> command of \<open>agent/cmd/iad-agent/commands.go\<close>: the flags, the options of the topology scan, and
  the phases in their order up to the report that is written. What the command asks of the system, of
  the network and of the access scan is a \<open>ScanWorld\<close>; the environment of the topology scan depends on
  the timeout.
\<close>

record ScanFlags =
  sfl_CIDR :: string
  sfl_Profile :: string
  sfl_Interface :: string
  sfl_IncludeVirtual :: bool
  sfl_Classify :: bool
  sfl_Nmap :: bool
  sfl_NmapBin :: string
  sfl_Full :: bool
  sfl_RedactionMode :: string
  sfl_MaskPublicIP :: bool
  sfl_MaskMAC :: bool
  sfl_MaskHostnames :: bool
  sfl_AllowPublic :: bool
  sfl_Timeout :: int
  sfl_EnrichUpstream :: bool
  sfl_ProfileSet :: bool
  sfl_TimeoutSet :: bool

text \<open>
  The world: \<open>scw_Order\<close> is the order in which the results of the upstream phase, a map, are visited, and
  \<open>scw_Reflect\<close> the report as reflection shows it.
\<close>

record ScanWorld =
  scw_Environment :: "int \<Rightarrow> Environment"
  scw_Version :: string
  scw_Hostname :: "string option"
  scw_OS :: string
  scw_Gateway :: "net_ip option"
  scw_DNS :: "string list"
  scw_LookPath :: "string \<Rightarrow> string option"
  scw_RunNmap :: "string \<Rightarrow> string list \<Rightarrow> string option"
  scw_Unmarshal :: "string \<Rightarrow> XmlHost list option"
  scw_Classification :: "string \<Rightarrow> AccessSection option"
  scw_Lower :: "string \<Rightarrow> string"
  scw_Network :: UpNet
  scw_ProbeClock :: "string \<Rightarrow> gotime"
  scw_Order :: "(string \<times> IntelResult) list \<Rightarrow> (string \<times> IntelResult) list"
  scw_IntelNow :: "nat \<Rightarrow> gotime"
  scw_IntelClock :: "string \<Rightarrow> gotime"
  scw_Now :: gotime
  scw_Reflect :: "ScanReport \<Rightarrow> AccessSection option \<Rightarrow> IntelSection option \<Rightarrow> gvalue"

datatype ScanError =
  Invalid_Profile string
| Discovery_Failed RunError
| Classification_Failed
| Panicked

section \<open>Flags and options\<close>

definition second :: int where "second = 1000000000"

definition applyFullScanDefaults :: "ScanFlags \<Rightarrow> ScanFlags" where
  "applyFullScanDefaults f =
     f\<lparr>sfl_Profile := (if sfl_ProfileSet f then sfl_Profile f else ''full''), sfl_Classify := True, sfl_Nmap := True,
       sfl_Timeout := (if sfl_TimeoutSet f then sfl_Timeout f else 60 * second)\<rparr>"

definition nmapUnavailableWarning :: "string \<Rightarrow> Warning" where
  "nmapUnavailableWarning binary =
     \<lparr>wrn_Code = ''nmap_unavailable'', wrn_Severity = SeverityWarning,
      wrn_Message =
        (if binary \<noteq> []
         then ''--nmap was requested, but the configured Nmap binary '' @ quote_str binary @
              '' was not found; continuing without Nmap service discovery.''
         else ''--nmap was requested, but nmap was not found in PATH. Install Nmap or pass --nmap-bin <path>; continuing without Nmap service discovery.'')\<rparr>"

definition nmap_wanted :: "ScanWorld \<Rightarrow> ScanFlags \<Rightarrow> bool" where
  "nmap_wanted w f \<longleftrightarrow> sfl_Nmap f \<and> nmap_Available (scw_LookPath w) (sfl_NmapBin f)"

definition scan_options :: "ScanWorld \<Rightarrow> ScanFlags \<Rightarrow> Options" where
  "scan_options w f =
     \<lparr>opt_RequestedCIDR = sfl_CIDR f, opt_Profile = sfl_Profile f, opt_AllowPublic = sfl_AllowPublic f,
      opt_InterfaceName = sfl_Interface f, opt_IncludeVirtual = sfl_IncludeVirtual f, opt_Version = scw_Version w,
      opt_Hostname = (case scw_Hostname w of Some host \<Rightarrow> host | None \<Rightarrow> []), opt_OS = scw_OS w,
      opt_Sweeper = None, opt_ARPReader = None, opt_ARPSweeper = None, opt_Resolver = None,
      opt_Service = (if nmap_wanted w f
         then Some (True, ServiceScanner_Scan (scw_LookPath w) (scw_RunNmap w) (scw_Unmarshal w) (sfl_NmapBin f)
                            (sfl_Profile f))
         else None),
      opt_GatewayFn = Some (scw_Gateway w), opt_DNSFn = Some (scw_DNS w), opt_GatewayChain = []\<rparr>"

section \<open>The phases\<close>

text \<open>What the device intelligence reads of the result of the access scan.\<close>

definition access_view :: "AccessSection \<Rightarrow> AccessView" where
  "access_view a =
     \<lparr>av_DetectedNetworkContext = Some (sr_DetectedNetworkContext (as_Result a)),
      av_ModemCollection = as_ModemCollection a, av_Conflicts = sr_Conflicts (as_Result a),
      av_DataQuality = sr_DataQuality (as_Result a)\<rparr>"

definition enrichment_options :: "ScanWorld \<Rightarrow> ScanFlags \<Rightarrow> reportEnrichmentOptions" where
  "enrichment_options w f =
     \<lparr>reo_Full = sfl_Full f, reo_Profile = sfl_Profile f, reo_ClassificationRequested = sfl_Classify f,
      reo_NmapRequested = sfl_Nmap f, reo_NmapAvailable = nmap_wanted w f,
      reo_IncludeVirtual = sfl_IncludeVirtual f, reo_RedactionMode = sfl_RedactionMode f,
      reo_MaskPublicIP = sfl_MaskPublicIP f, reo_MaskMAC = sfl_MaskMAC f, reo_MaskHostnames = sfl_MaskHostnames f\<rparr>"

text \<open>The upstream phase, and the report with its evidence appended.\<close>

definition upstream_phase ::
  "ScanWorld \<Rightarrow> ScanFlags \<Rightarrow> ScanReport \<Rightarrow> AccessView option \<Rightarrow> (ScanReport \<times> (string \<times> IntelResult) list) option" where
  "upstream_phase w f report av =
     (if \<not> sfl_EnrichUpstream f then Some (report, [])
      else map_option (\<lambda>results.
             (report\<lparr>rep_Evidence := rep_Evidence report @
                concat (map (\<lambda>(ip, r). ir_Evidence r) (scw_Order w results))\<rparr>, results))
           (EnrichReport (scw_Lower w) (scw_Network w) True (scw_ProbeClock w) report av))"

definition intel_section ::
  "ScanWorld \<Rightarrow> ScanReport \<Rightarrow> AccessView option \<Rightarrow> (string \<times> IntelResult) list \<Rightarrow> IntelSection" where
  "intel_section w report av results =
     (let intel = intel_Build (scw_IntelNow w) (scw_IntelClock w) report av
      in \<lparr>is_Report = intel, is_Devices = attachUpstreamIntel intel results\<rparr>)"

text \<open>The command from the end of the topology scan on.\<close>

definition finish_scan ::
  "ScanWorld \<Rightarrow> ScanFlags \<Rightarrow> ScanReport \<Rightarrow> AccessSection option \<Rightarrow> FullReport option" where
  "finish_scan w f report ac =
     (let av = map_option access_view ac
      in Option.bind (upstream_phase w f report av) (\<lambda>(report, results).
           (let intel = Some (intel_section w report av results)
            in enrichReport (scw_Now w) (scw_Reflect w report ac intel) (enrichment_options w f) report ac intel)))"

definition runScan :: "ScanWorld \<Rightarrow> ScanFlags \<Rightarrow> ScanError + FullReport" where
  "runScan w f0 =
     (let f = (if sfl_Full f0 then applyFullScanDefaults f0 else f0)
      in if \<not> KnownProfile (sfl_Profile f) then Inl (Invalid_Profile (sfl_Profile f))
         else case Run (scw_Environment w (sfl_Timeout f)) (scan_options w f) of
           Inl e \<Rightarrow> Inl (if e = Run_Panicked then Panicked else Discovery_Failed e)
         | Inr report \<Rightarrow>
             (let report = (if sfl_Nmap f \<and> \<not> nmap_wanted w f
                   then report\<lparr>rep_Warnings := rep_Warnings report @ [nmapUnavailableWarning (sfl_NmapBin f)]\<rparr>
                   else report)
              in case (if sfl_Classify f then map_option Some (scw_Classification w (sfl_Profile f)) else Some None) of
                   None \<Rightarrow> Inl Classification_Failed
                 | Some ac \<Rightarrow>
                     (case finish_scan w f report ac of None \<Rightarrow> Inl Panicked | Some r \<Rightarrow> Inr r)))"

end
