(* ===== verification/Intel_Probe_Laws.thy ===== *)
theory Intel_Probe_Laws
  imports Intel_Laws Evidence_Laws
begin

text \<open>
  Facts about the probes of the device intelligence and the pipeline that runs them: they stay within
  the targets the scope lets them probe, and no answer of the network makes them panic, provided that
  lowering a text keeps its length; with the real \<open>strings.ToLower\<close> one can.
\<close>

section \<open>Targets\<close>

definition probe_allowed :: "IntelScope \<Rightarrow> string \<Rightarrow> bool" where
  "probe_allowed scope ip \<longleftrightarrow> ip \<in> set (isc_Targets scope) \<and> ShouldProbeTarget scope ip"

definition probe_state_ok :: "(string \<Rightarrow> bool) \<Rightarrow> probe_state \<Rightarrow> bool" where
  "probe_state_ok allowed st \<longleftrightarrow>
     devices_ok allowed (fst st) \<and> list_all (\<lambda>ob. allowed (iob_IP ob)) (fst (snd st))"

text \<open>What a probe of one target keeps.\<close>

definition probe_keeps :: "(string \<Rightarrow> bool) \<Rightarrow> (string \<Rightarrow> probe_state \<Rightarrow> probe_state option) \<Rightarrow> bool" where
  "probe_keeps allowed probe \<longleftrightarrow>
     (\<forall>ip st st'. allowed ip \<and> probe_state_ok allowed st \<and> probe ip st = Some st' \<longrightarrow>
        probe_state_ok allowed st' \<and> snd (snd st') = snd (snd st))"

lemma fold_bind_None [simp]: "fold (\<lambda>x acc. Option.bind acc (f x)) xs None = None"
  by (induction xs) simp_all

lemma fold_bind_keeps:
  assumes "\<And>x st st'. x \<in> set xs \<Longrightarrow> probe_state_ok allowed st \<Longrightarrow> f x st = Some st' \<Longrightarrow>
      probe_state_ok allowed st' \<and> snd (snd st') = snd (snd st)"
    and "probe_state_ok allowed st" and "fold (\<lambda>x acc. Option.bind acc (f x)) xs (Some st) = Some st'"
  shows "probe_state_ok allowed st' \<and> snd (snd st') = snd (snd st)"
  using assms
proof (induction xs arbitrary: st)
  case (Cons x xs)
  then obtain st1 where st1: "f x st = Some st1" by (cases "f x st") simp_all
  then have "probe_state_ok allowed st1 \<and> snd (snd st1) = snd (snd st)"
    using Cons.prems(1) [of x st st1] Cons.prems(2) by simp
  moreover have "fold (\<lambda>x acc. Option.bind acc (f x)) xs (Some st1) = Some st'" using Cons.prems(3) st1 by simp
  ultimately show ?case using Cons.IH [of st1] Cons.prems(1) by (metis list.set_intros(2))
qed simp

lemma probe_targets_keeps:
  assumes "probe_keeps (probe_allowed scope) probe" and "devices_ok (probe_allowed scope) s"
    and "probe_targets scope probe s = Some st"
  shows "probe_state_ok (probe_allowed scope) st \<and>
    snd (snd st) = filter (\<lambda>ip. \<not> ShouldProbeTarget scope ip) (isc_Targets scope)"
proof -
  define step where "step ip = (\<lambda>(s, obs, skipped).
    if \<not> ShouldProbeTarget scope ip then Some (s, obs, skipped @ [ip]) else probe ip (s, obs, skipped))" for ip
  have "probe_state_ok (probe_allowed scope) st' \<and>
      snd (snd st') = snd (snd st0) @ filter (\<lambda>ip. \<not> ShouldProbeTarget scope ip) ips"
    if "fold (\<lambda>ip acc. Option.bind acc (step ip)) ips (Some st0) = Some st'" "set ips \<subseteq> set (isc_Targets scope)"
      "probe_state_ok (probe_allowed scope) st0" for ips st0 st'
    using that
  proof (induction ips arbitrary: st0)
    case (Cons ip ips)
    then obtain st1 where st1: "step ip st0 = Some st1" by (cases "step ip st0") simp_all
    have "probe_state_ok (probe_allowed scope) st1 \<and>
        snd (snd st1) = snd (snd st0) @ (if ShouldProbeTarget scope ip then [] else [ip])"
    proof (cases "ShouldProbeTarget scope ip")
      case True
      then have "probe ip st0 = Some st1" using st1 by (simp add: step_def case_prod_beta)
      moreover have "probe_allowed scope ip" using True Cons.prems(2) by (simp add: probe_allowed_def)
      ultimately have "probe_state_ok (probe_allowed scope) st1 \<and> snd (snd st1) = snd (snd st0)"
        using assms(1) Cons.prems(3) unfolding probe_keeps_def by blast
      then show ?thesis using True by simp
    next
      case False
      then show ?thesis using st1 Cons.prems(3) by (auto simp: step_def case_prod_beta probe_state_ok_def)
    qed
    then show ?case using Cons.IH [of st1] Cons.prems st1 by auto
  qed simp
  from this [of "isc_Targets scope" "(s, [], [])" st] assms(2,3) show ?thesis
    by (simp add: probe_targets_def step_def [abs_def] probe_state_ok_def)
qed

lemma tcp_port_keeps:
  "allowed ip \<Longrightarrow> probe_state_ok allowed st \<Longrightarrow>
   probe_state_ok allowed (tcp_port dial start ip port st) \<and> snd (snd (tcp_port dial start ip port st)) = snd (snd st)"
  by (cases "dial ip port")
    (auto simp: tcp_port_def probe_state_ok_def case_prod_beta probe_observation_def
      intro!: intel_devices.AddFailedAttempt intel_devices.AddService devices_ok_observe)

lemma tls_port_keeps:
  "allowed ip \<Longrightarrow> probe_state_ok allowed st \<Longrightarrow>
   probe_state_ok allowed (tls_port dialTLS start ip port st) \<and>
   snd (snd (tls_port dialTLS start ip port st)) = snd (snd st)"
  by (auto simp: tls_port_def probe_state_ok_def case_prod_beta probe_observation_def
      intro!: intel_devices.AddFailedAttempt intel_devices.AddTLSObservation devices_ok_observe
      split: sum.split list.split)

lemma http_port_keeps:
  assumes "allowed ip" and "probe_state_ok allowed st" and "http_port lower send start ip port st = Some st'"
  shows "probe_state_ok allowed st' \<and> snd (snd st') = snd (snd st)"
proof -
  obtain res where res: "httpProbeOnce lower send (http_url ip port) = Some res"
    using assms(3) by (cases "httpProbeOnce lower send (http_url ip port)") (auto simp: http_port_def case_prod_beta)
  show ?thesis
  proof (cases res)
    case (Inl err)
    then show ?thesis using assms res
      by (auto simp: http_port_def probe_state_ok_def case_prod_beta intro!: intel_devices.AddFailedAttempt)
  next
    case (Inr ob)
    then show ?thesis using assms res
      by (auto simp: http_port_def probe_state_ok_def case_prod_beta probe_observation_def
          intro!: intel_devices.AddHTTPObservation devices_ok_observe)
  qed
qed

lemma fold_Some: "fold (\<lambda>x acc. Option.bind acc (\<lambda>st. Some (g x st))) xs (Some st) = Some (fold g xs st)"
  by (induction xs arbitrary: st) simp_all

lemma fold_port_keeps:
  assumes "\<And>port st. probe_state_ok allowed st \<Longrightarrow>
      probe_state_ok allowed (g port st) \<and> snd (snd (g port st)) = snd (snd st)"
    and "probe_state_ok allowed st"
  shows "probe_state_ok allowed (fold g ports st) \<and> snd (snd (fold g ports st)) = snd (snd st)"
proof (rule fold_bind_keeps)
  show "fold (\<lambda>x acc. Option.bind acc (\<lambda>st. Some (g x st))) ports (Some st) = Some (fold g ports st)"
    by (rule fold_Some)
  fix x st1 st2
  assume "probe_state_ok allowed st1" and "Some (g x st1) = Some st2"
  then show "probe_state_ok allowed st2 \<and> snd (snd st2) = snd (snd st1)" using assms(1) [of st1 x] by simp
qed (rule assms(2))

lemma tcp_probe_keeps: "probe_keeps allowed (\<lambda>ip st. Some (fold (tcp_port dial start ip) ports st))"
  unfolding probe_keeps_def option.inject
proof (intro allI impI, elim conjE)
  fix ip st st'
  assume ip: "allowed ip" and st: "probe_state_ok allowed st" and eq: "fold (tcp_port dial start ip) ports st = st'"
  show "probe_state_ok allowed st' \<and> snd (snd st') = snd (snd st)"
    unfolding eq [symmetric] using ip st by (intro fold_port_keeps tcp_port_keeps)
qed

lemma tls_probe_keeps: "probe_keeps allowed (\<lambda>ip st. Some (fold (tls_port dialTLS start ip) ports st))"
  unfolding probe_keeps_def option.inject
proof (intro allI impI, elim conjE)
  fix ip st st'
  assume ip: "allowed ip" and st: "probe_state_ok allowed st" and eq: "fold (tls_port dialTLS start ip) ports st = st'"
  show "probe_state_ok allowed st' \<and> snd (snd st') = snd (snd st)"
    unfolding eq [symmetric] using ip st by (intro fold_port_keeps tls_port_keeps)
qed

lemma http_probe_keeps:
  "probe_keeps allowed
     (\<lambda>ip st. fold (\<lambda>port acc. Option.bind acc (http_port lower send start ip port)) ports (Some st))"
  unfolding probe_keeps_def
proof (intro allI impI, elim conjE)
  fix ip st st'
  assume ip: "allowed ip" and st: "probe_state_ok allowed st"
    and run: "fold (\<lambda>port acc. Option.bind acc (http_port lower send start ip port)) ports (Some st) = Some st'"
  show "probe_state_ok allowed st' \<and> snd (snd st') = snd (snd st)"
  proof (rule fold_bind_keeps [OF _ st run])
    fix port st1 st2
    assume "probe_state_ok allowed st1" and "http_port lower send start ip port st1 = Some st2"
    then show "probe_state_ok allowed st2 \<and> snd (snd st2) = snd (snd st1)" by (rule http_port_keeps [where allowed = allowed and ip = ip, OF ip])
  qed
qed

section \<open>The pipeline\<close>

definition result_within :: "IntelScope \<Rightarrow> IntelProbeResult \<Rightarrow> bool" where
  "result_within scope r \<longleftrightarrow>
     list_all (\<lambda>ob. probe_allowed scope (iob_IP ob)) (ipr_Observations r) \<and>
     ipr_SkippedTargets r = filter (\<lambda>ip. \<not> ShouldProbeTarget scope ip) (isc_Targets scope)"

lemma probe_result_within:
  assumes "probe_keeps (probe_allowed scope) probe" and "devices_ok (probe_allowed scope) s"
    and "map_option (probe_result name start done_at) (probe_targets scope probe s) = Some (r, s')"
  shows "devices_ok (probe_allowed scope) s' \<and> result_within scope r"
proof -
  obtain st where st: "probe_targets scope probe s = Some st" "probe_result name start done_at st = (r, s')"
    using assms(3) by auto
  then show ?thesis
    using probe_targets_keeps [OF assms(1,2) st(1)]
    by (auto simp: probe_result_def probe_state_ok_def result_within_def case_prod_beta)
qed

lemma run_probes_within:
  assumes "\<And>p s r s'. Some p \<in> set ps \<Longrightarrow> devices_ok (probe_allowed scope) s \<Longrightarrow> p scope s = Some (r, s') \<Longrightarrow>
      devices_ok (probe_allowed scope) s' \<and> result_within scope r"
    and "devices_ok (probe_allowed scope) s" and "run_probes ps scope s = Some (s', rs)"
  shows "devices_ok (probe_allowed scope) s' \<and> list_all (result_within scope) rs"
  using assms
proof (induction ps scope s arbitrary: s' rs rule: run_probes.induct)
  case (3 p ps scope s)
  obtain r s1 where r: "p scope s = Some (r, s1)" using "3.prems"(3) by (cases "p scope s") auto
  then obtain rs1 where rs1: "run_probes ps scope s1 = Some (s', rs1)" "rs = r # rs1" using "3.prems"(3) by auto
  have ok: "devices_ok (probe_allowed scope) s1 \<and> result_within scope r"
    using "3.prems"(1) [of p s r s1] "3.prems"(2) r by simp
  then have "devices_ok (probe_allowed scope) s' \<and> list_all (result_within scope) rs1"
    using "3.IH" [OF r refl _ _ rs1(1)] "3.prems"(1) by (metis list.set_intros(2))
  with ok show ?case using rs1 by simp
qed simp_all

lemma default_probe_within:
  assumes "Some p \<in> set (DefaultReadOnlyProbes dial lower send dialTLS start done_at)"
    and "devices_ok (probe_allowed scope) s" and "p scope s = Some (r, s')"
  shows "devices_ok (probe_allowed scope) s' \<and> result_within scope r"
proof -
  consider "p = SafeTCPProbe_Run dial [] start done_at" | "p = HTTPFingerprintProbe_Run lower send start done_at"
    | "p = TLSFingerprintProbe_Run dialTLS start done_at"
    using assms(1) by (auto simp: DefaultReadOnlyProbes_def)
  then show ?thesis
  proof cases
    case 1
    with assms(3) show ?thesis
      by (intro probe_result_within [OF tcp_probe_keeps assms(2)]) (simp add: SafeTCPProbe_Run_def Let_def)
  next
    case 2
    with assms(3) show ?thesis unfolding HTTPFingerprintProbe_Run_def
      by (intro probe_result_within [OF http_probe_keeps assms(2)]) (simp only:)
  next
    case 3
    with assms(3) show ?thesis unfolding TLSFingerprintProbe_Run_def
      by (intro probe_result_within [OF tls_probe_keeps assms(2)]) (simp only:)
  qed
qed

text \<open>
  C12: Whatever the network answers, the default probes of the device intelligence only record devices and
  observations for targets the scope lets them probe, and report every other target as skipped.
\<close>

theorem pipeline_within_scope:
  "case Pipeline_Run (NewPipeline (DefaultReadOnlyProbes dial lower send dialTLS start done_at) []) now clock scope of
     None \<Rightarrow> True
   | Some (s, results) \<Rightarrow>
       list_all (\<lambda>(k, d). \<exists>ip. probe_allowed scope ip \<and> k = deviceID ip) (ins_Devices s) \<and>
       list_all (result_within scope) results"
proof -
  define ps where "ps = DefaultReadOnlyProbes dial lower send dialTLS start done_at"
  show ?thesis
  proof (cases "run_probes ps scope (intel_NewEvidenceStore now)")
    case None
    then show ?thesis by (simp add: Pipeline_Run_def NewPipeline_def ps_def)
  next
    case (Some res)
    then obtain s rs where run: "run_probes ps scope (intel_NewEvidenceStore now) = Some (s, rs)" by (cases res) simp
    have "devices_ok (probe_allowed scope) s \<and> list_all (result_within scope) rs"
      using run_probes_within [OF default_probe_within devices_ok_New run] unfolding ps_def .
    then have "devices_ok (probe_allowed scope) (classifyAll clock s)" "list_all (result_within scope) rs"
      by (simp_all add: classifyAll_def devices_ok_classify)
    moreover have "\<exists>ip. probe_allowed scope ip \<and> k = deviceID ip"
      if "(k, d) \<in> set (ins_Devices (classifyAll clock s))" for k d
      using calculation(1) that unfolding devices_ok_def device_allowed_def by fastforce
    ultimately show ?thesis
      using run by (auto simp: Pipeline_Run_def NewPipeline_def ps_def list_all_iff)
  qed
qed

section \<open>Panics\<close>

lemma str_index_drop_Some:
  assumes "str_index (drop k s) pat = Some m"
  shows "k + m + length pat \<le> length s \<or> pat = []"
proof -
  have "has_prefix (drop m (drop k s)) pat" using str_index_Some [OF assms] by blast
  then obtain r where r: "drop (k + m) s = pat @ r" by (auto simp: has_prefix_iff add.commute)
  then have "length pat \<le> length s - (k + m)" by (metis length_append length_drop le_add1)
  then show ?thesis by (cases pat) auto
qed

lemma htmlTitle_total: "length (lower body) = length body \<Longrightarrow> htmlTitle lower body \<noteq> None"
  using str_index_drop_Some [of _ "lower body" "''</title>''"]
  by (fastforce simp: htmlTitle_def Let_def slice_def split: option.split)

lemma authRealm_total: "length (lower header) = length header \<Longrightarrow> authRealm lower header \<noteq> None"
  using str_index_drop_Some [of 0 "lower header" "''realm=''"]
  by (fastforce simp: authRealm_def slice_def split: option.split)

lemma httpProbeOnce_total:
  assumes "\<And>s. length (lower s) = length s"
  shows "httpProbeOnce lower send url \<noteq> None"
proof -
  define title realm where "title = (\<lambda>b. the (htmlTitle lower b))" and "realm = (\<lambda>h. the (authRealm lower h))"
  have "htmlTitle lower b = Some (title b)" "authRealm lower h = Some (realm h)" for b h
    using htmlTitle_total [of lower b] authRealm_total [of lower h] assms by (simp_all add: title_def realm_def)
  then show ?thesis unfolding httpProbeOnce_def Let_def by (simp split: sum.split)
qed

lemma fold_bind_total: "(\<And>x st. f x st \<noteq> None) \<Longrightarrow> fold (\<lambda>x acc. Option.bind acc (f x)) xs (Some st) \<noteq> None"
proof (induction xs arbitrary: st)
  case (Cons x xs)
  obtain st1 where "f x st = Some st1" using Cons.prems by blast
  then show ?case using Cons by simp
qed simp

lemma probe_targets_total: "(\<And>ip st. probe ip st \<noteq> None) \<Longrightarrow> probe_targets scope probe s \<noteq> None"
  unfolding probe_targets_def by (rule fold_bind_total) (auto split: prod.split)

lemma run_probes_total:
  "(\<And>p s. Some p \<in> set ps \<Longrightarrow> p scope s \<noteq> None) \<Longrightarrow> run_probes ps scope s \<noteq> None"
proof (induction ps scope s rule: run_probes.induct)
  case (3 p ps scope s)
  obtain r s1 where r: "p scope s = Some (r, s1)" using "3.prems" [of p s] by auto
  then show ?case using "3.IH" [OF r refl] "3.prems" by simp
qed simp_all

lemma default_probe_total:
  assumes "\<And>s. length (lower s) = length s"
    and "Some p \<in> set (DefaultReadOnlyProbes dial lower send dialTLS start done_at)"
  shows "p scope s \<noteq> None"
proof -
  have http: "http_port lower send start ip port st \<noteq> None" for ip port st
    using httpProbeOnce_total [OF assms(1)] by (simp add: http_port_def case_prod_beta)
  have "probe_targets scope
      (\<lambda>ip st. fold (\<lambda>port acc. Option.bind acc (http_port lower send start ip port)) ports (Some st)) s \<noteq> None" for ports
    by (rule probe_targets_total) (rule fold_bind_total [OF http])
  moreover have "probe_targets scope (\<lambda>ip st. Some (g ip st)) s \<noteq> None" for g
    by (rule probe_targets_total) simp
  ultimately have totals: "\<And>h ports. map_option h (probe_targets scope
      (\<lambda>ip st. fold (\<lambda>port acc. Option.bind acc (http_port lower send start ip port)) ports (Some st)) s) \<noteq> None"
    "\<And>h g. map_option h (probe_targets scope (\<lambda>ip st. Some (g ip st)) s) \<noteq> None"
    by simp_all
  consider "p = SafeTCPProbe_Run dial [] start done_at"
    | "p = HTTPFingerprintProbe_Run lower send start done_at" | "p = TLSFingerprintProbe_Run dialTLS start done_at"
    using assms(2) by (auto simp: DefaultReadOnlyProbes_def)
  then show ?thesis
    by cases (simp_all only: SafeTCPProbe_Run_def HTTPFingerprintProbe_Run_def TLSFingerprintProbe_Run_def Let_def
        totals not_False_eq_True)
qed

text \<open>
  C15: As long as lowering a text keeps its length, as it does on ASCII, no answer of the network makes a
  run of the default probes panic, whatever titles and authentication headers the hosts send.
\<close>

theorem pipeline_never_panics:
  assumes "\<And>s. length (lower s) = length s"
  shows "Pipeline_Run (NewPipeline (DefaultReadOnlyProbes dial lower send dialTLS start done_at) []) now clock scope \<noteq> None"
  using run_probes_total [of "DefaultReadOnlyProbes dial lower send dialTLS start done_at" scope]
    default_probe_total [OF assms, where dial = dial and send = send and dialTLS = dialTLS and start = start and done_at = done_at]
  by (simp add: Pipeline_Run_def NewPipeline_def DefaultReadOnlyProbes_def)

theorem pipeline_never_panics_witness:
  "Pipeline_Run (NewPipeline (DefaultReadOnlyProbes (\<lambda>_ _. Some (''i/o timeout'', True)) to_lower
       (\<lambda>_ _. Inr \<lparr>hr_Method = ''GET'', hr_StatusCode = 200, hr_Server = [], hr_WWWAuthenticate = [], hr_Location = [],
          hr_Body = ''<title>a''\<rparr>) (\<lambda>_ _. Inl ''refused'') 0 0) []) (\<lambda>_. 0) (\<lambda>_. 0)
     \<lparr>isc_CIDR = [], isc_Interface = [], isc_AgentIP = [], isc_DefaultGateway = ''192.168.1.1'',
       isc_PrivateOnly = True, isc_PublicAllowed = False, isc_Profile = [], isc_Targets = [''192.168.1.1''], isc_OptInProbes = [],
       isc_SNMPCredentials = False, isc_SSHCredentials = False, isc_RouterAPICredentials = False,
       isc_TR064Credentials = False, isc_TR181Credentials = False\<rparr> \<noteq> None"
  by (rule pipeline_never_panics) (simp add: to_lower_def)

text \<open>
  The real \<open>strings.ToLower\<close> makes the two bytes of U+023A three, so a page that repeats it before its
  title ends the agent: \<open>lowered_page\<close> is \<open>page\<close> lowered.
\<close>

definition page :: string where
  "page = concat (replicate 9 [CHR 0xC8, CHR 0xBA]) @ ''<title>a</title>''"

definition lowered_page :: string where
  "lowered_page = concat (replicate 9 [CHR 0xE2, CHR 0xB1, CHR 0xA5]) @ ''<title>a</title>''"

lemma title_panics: "htmlTitle (\<lambda>s. if s = page then lowered_page else to_lower s) page = None"
proof -
  have i: "str_index lowered_page ''<title'' = Some 27" "str_index (drop 27 lowered_page) ''>'' = Some 6"
    "str_index (drop 34 lowered_page) ''</title>'' = Some 1" by code_simp+
  have "length page = 34" by code_simp
  then show ?thesis by (simp add: htmlTitle_def i slice_def)
qed

section \<open>The order of the devices\<close>

text \<open>\<open>ipLess\<close> compares two IPv4 addresses as numbers and anything else as text, so it has cycles.\<close>

lemma intel_ipLess_cycle:
  "intel_ipLess ''9.0.0.1'' ''10.0.0.1''" "intel_ipLess ''10.0.0.1'' ''1x''" "intel_ipLess ''1x'' ''9.0.0.1''"
proof -
  have nums: "intel_ipv4ToUint ''9.0.0.1'' = Some 0x09000001" "intel_ipv4ToUint ''10.0.0.1'' = Some 0x0A000001"
    "intel_ipv4ToUint ''1x'' = None"
    by (simp_all add: intel_ipv4ToUint_def parse_ip_def parse_addr_def as16_def go_defs)
  have "str_less ''10.0.0.1'' ''1x''" "str_less ''1x'' ''9.0.0.1''" by code_simp+
  then show "intel_ipLess ''9.0.0.1'' ''10.0.0.1''" "intel_ipLess ''10.0.0.1'' ''1x''" "intel_ipLess ''1x'' ''9.0.0.1''"
    by (simp_all add: intel_ipLess_def nums)
qed

end
