(* ===== verification/Scan_Laws.thy ===== *)
theory Scan_Laws
  imports Rich_Laws Report_Laws Scan_Command Discovery_Laws Intel_Probe_Laws
begin

text \<open>
  The \<open>scan\<close> command as a whole: when the validator of the agent accepts the report that it writes, and
  exactly when the command panics.
\<close>

section \<open>The parts of the report\<close>

lemma attached_unit:
  "in_unit (did_Confidence d) \<Longrightarrow> \<forall>(ip, r) \<in> set results. in_unit (uc_Confidence (ir_Classification r)) \<Longrightarrow>
   in_unit (did_Confidence (attach_first results ips d))"
  using attach_first_cases [of results ips d]
  by (auto simp: attach_result_def dest!: map_of_SomeD)

lemma enrich_all_result:
  "enrich_all one ts = Some results \<Longrightarrow> (ip, r) \<in> set results \<Longrightarrow> \<exists>t \<in> set ts. one t = Some r"
  by (induction ts arbitrary: results) (auto simp: bind_eq_Some_conv)

lemma enrichOne_unit: "enrichOne lower_text net p now subnet t = Some r \<Longrightarrow> in_unit (uc_Confidence (ir_Classification r))"
  by (auto simp: enrichOne_def Let_def Classify_evidence up_clamp01_def in_unit_def split: prod.splits)

lemma Build_unit: "d \<in> set (dir_Devices (intel_Build now clock report ac)) \<Longrightarrow> in_unit (did_Confidence d)"
proof -
  assume "d \<in> set (dir_Devices (intel_Build now clock report ac))"
  then obtain k d0 where "did_Confidence d = did_Confidence (classifyDevice (clock k) (rep_Evidence report) d0)"
    by (rule in_report) simp
  then show ?thesis using classified_confidence [of "clock k" "rep_Evidence report" d0] clamp01_range
    by (auto simp: in_unit_def)
qed

lemma Build_edges_root: "set (dir_Edges (intel_Build now clock report None)) \<subseteq> convert_edge ` set (rep_Edges report)"
  by (auto simp: intel_Build_def intel_ingest_def convertEdges_def gatewayChainEdges_def gatewayChainState_def
      case_prod_beta Let_def)

lemma section_unit:
  assumes "\<forall>(ip, r) \<in> set results. in_unit (uc_Confidence (ir_Classification r))"
  shows "\<forall>d \<in> set (is_Devices (intel_section w report av results)). in_unit (did_Confidence d)"
  using assms Build_unit by (auto simp: intel_section_def Let_def attachUpstreamIntel_def intro!: attached_unit)

text \<open>The registry is always built, because no observation of the device intelligence makes it panic.\<close>

lemma enrichReport_total:
  "\<exists>r. enrichReport now v opts report ac (Some (intel_section w report' av results)) = Some r"
proof -
  have "\<not> list_ex merge_panics (dir_Evidence (is_Report (intel_section w report' av results)))"
    using Build_never_panics by (simp add: intel_section_def Let_def)
  then show ?thesis
    using registry_shape [of "dir_Evidence (is_Report (intel_section w report' av results))" "rep_Evidence report"
        "accessProbeResults ac" v]
    by (auto simp: enrichReport_def Let_def)
qed

section \<open>Redaction and the validator\<close>

definition same_device :: "Device \<Rightarrow> Device \<Rightarrow> bool" where
  "same_device d e \<longleftrightarrow> dev_ID e = dev_ID d \<and> dev_Addresses e = dev_Addresses d \<and> dev_Confidence e = dev_Confidence d \<and>
     dev_EvidenceIDs e = dev_EvidenceIDs d \<and> dev_Services e = dev_Services d"

definition same_report :: "ScanReport \<Rightarrow> ScanReport \<Rightarrow> bool" where
  "same_report r q \<longleftrightarrow> list_all2 same_device (rep_Devices r) (rep_Devices q) \<and>
     rep_SchemaVersion q = rep_SchemaVersion r \<and> rep_Evidence q = rep_Evidence r \<and>
     rep_EvidenceRegistry q = rep_EvidenceRegistry r \<and> rep_Edges q = rep_Edges r \<and>
     rep_Topology q = rep_Topology r \<and> rep_Summary q = rep_Summary r"

lemma same_ids: "list_all2 same_device ds es \<Longrightarrow> map dev_ID es = map dev_ID ds"
  by (induction rule: list_all2_induct) (simp_all add: same_device_def)

lemma same_consistent:
  "list_all2 same_device ds es \<Longrightarrow>
   (\<forall>d \<in> set es. device_consistent known d) \<longleftrightarrow> (\<forall>d \<in> set ds. device_consistent known d)"
  by (induction rule: list_all2_induct) (simp_all add: same_device_def device_consistent_def)

lemma same_report_consistent: "same_report r q \<Longrightarrow> report_consistent q \<longleftrightarrow> report_consistent r"
proof -
  assume same: "same_report r q"
  then have ds: "list_all2 same_device (rep_Devices r) (rep_Devices q)" by (simp add: same_report_def)
  have "map dev_ID (rep_Devices q) = map dev_ID (rep_Devices r)" by (rule same_ids) (rule ds)
  moreover from this have "dev_ID ` set (rep_Devices q) = dev_ID ` set (rep_Devices r)" by (metis list.set_map)
  moreover have "known_evidence q = known_evidence r" using same by (simp add: known_evidence_def same_report_def)
  moreover have "length (rep_Devices q) = length (rep_Devices r)" using ds by (simp add: list_all2_lengthD)
  moreover have "(\<forall>d \<in> set (rep_Devices q). device_consistent (known_evidence r) d) \<longleftrightarrow>
      (\<forall>d \<in> set (rep_Devices r). device_consistent (known_evidence r) d)"
    by (rule same_consistent) (rule ds)
  ultimately show ?thesis using same unfolding report_consistent_def same_report_def by simp
qed

lemma same_report_refl: "same_report r r"
  by (simp add: same_report_def same_device_def list_all2_same)

lemma same_report_trans: "same_report p q \<Longrightarrow> same_report q r \<Longrightarrow> same_report p r"
  unfolding same_report_def
  by (auto intro: list_all2_trans [of same_device same_device same_device, rotated] simp: same_device_def)

lemma same_devices_map: "(\<And>d. same_device d (f d)) \<Longrightarrow> list_all2 same_device ds (map f ds)"
  by (simp add: list_all2_map2 list_all2_refl)

lemma v2_view_nodes:
  "(\<And>n. rn_ID (f n) = rn_ID n \<and> rn_Confidence (f n) = rn_Confidence n) \<Longrightarrow>
   v2_view (m\<lparr>v2_Nodes := map f (v2_Nodes m)\<rparr>) = v2_view m"
  by (simp add: v2_view_def)

lemma fingerprints_same: "same_report (report_view r) (report_view (redact_fingerprints mac host r))"
  by (simp add: same_report_def report_view_def redact_fingerprints_def Let_def same_devices_map same_device_def
      v2_view_nodes)

lemma macs_same: "same_report (report_view r) (report_view (redact_macs r))"
proof -
  have "same_report (report_view q) (report_view (q\<lparr>fr_Interfaces := is, fr_Scan := (fr_Scan q)\<lparr>rep_Devices :=
      map f (rep_Devices (fr_Scan q))\<rparr>\<rparr>))" if "\<And>d. same_device d (f d)" for q "is" f
    using that by (simp add: same_report_def report_view_def same_devices_map)
  from this [OF _ , of "\<lambda>d. d\<lparr>dev_Interfaces := map (\<lambda>i. i\<lparr>dif_MAC := mask_text masked_mac (dif_MAC i)\<rparr>) (dev_Interfaces d)\<rparr>"]
  show ?thesis unfolding redact_macs_def Let_def
    by (rule same_report_trans [OF fingerprints_same]) (simp add: same_device_def)
qed

lemma hosts_same: "same_report (report_view r) (report_view (redact_hosts r))"
proof -
  have "same_report (report_view q) (report_view (q\<lparr>fr_Scan := (fr_Scan q)\<lparr>rep_Agent := a, rep_Devices :=
      map f (rep_Devices (fr_Scan q))\<rparr>\<rparr>))" if "\<And>d. same_device d (f d)" for q a f
    using that by (simp add: same_report_def report_view_def same_devices_map)
  from this [OF _ , of "\<lambda>d. d\<lparr>dev_Hostname := mask_text masked_host (dev_Hostname d)\<rparr>"]
  show ?thesis unfolding redact_hosts_def Let_def
    by (rule same_report_trans [OF fingerprints_same]) (simp add: same_device_def)
qed

lemma redaction_same: "same_report (report_view r) (report_view (applyReportRedaction r))"
proof -
  define p where "p = fr_Privacy r"
  define r1 where "r1 = (if prv_MaskMAC p then redact_macs r else r)"
  define r2 where "r2 = (if prv_MaskHostnames p then redact_hosts r1 else r1)"
  have "applyReportRedaction r = (if prv_MaskPublicIP p then redact_public_ip r2 else r2)"
    by (simp add: applyReportRedaction_def Let_def p_def r1_def r2_def)
  moreover have "report_view (redact_public_ip r2) = report_view r2"
    by (simp add: redact_public_ip_def report_view_def)
  moreover have "same_report (report_view r) (report_view r1)" "same_report (report_view r1) (report_view r2)"
    by (simp_all add: r1_def r2_def macs_same hosts_same same_report_refl)
  ultimately show ?thesis using same_report_trans by auto
qed

section \<open>The validator on the report\<close>

text \<open>What the written report keeps of the report of the scan.\<close>

definition grown :: "ScanReport \<Rightarrow> Evidence list \<Rightarrow> RegistryItem list \<Rightarrow> V2Model \<Rightarrow> AgentInfo \<Rightarrow> ScanReport" where
  "grown r extra reg m a =
     r\<lparr>rep_Agent := a, rep_Evidence := rep_Evidence r @ extra,
       rep_EvidenceRegistry := map EvidenceRegistryItem.truncate reg, rep_Topology := Some (v2_view m)\<rparr>"

lemma reg_fields [simp]:
  "EvidenceRegistryItem.reg_ID (EvidenceRegistryItem.truncate x) = reg_ID x"
  "EvidenceRegistryItem.reg_Source (EvidenceRegistryItem.truncate x) = reg_Source x"
  "EvidenceRegistryItem.reg_Kind (EvidenceRegistryItem.truncate x) = reg_Kind x"
  by (simp_all add: EvidenceRegistryItem.truncate_def)

lemma device_consistent_mono: "device_consistent known d \<Longrightarrow> known \<subseteq> known' \<Longrightarrow> device_consistent known' d"
  by (auto simp: device_consistent_def)

lemma edge_consistent_mono: "edge_consistent ids known e \<Longrightarrow> known \<subseteq> known' \<Longrightarrow> edge_consistent ids known' e"
  by (auto simp: edge_consistent_def)

lemma grown_consistent:
  assumes r: "report_consistent r" "rep_EvidenceRegistry r = []" and m: "v2_consistent (v2_view m)"
    and reg: "distinct (map reg_ID reg)" "\<forall>x \<in> set reg. reg_ID x \<noteq> [] \<and> reg_Source x \<noteq> [] \<and> reg_Kind x \<noteq> []"
  shows "report_consistent (grown r extra reg m a) \<longleftrightarrow> extra = []"
proof (cases "extra = []")
  case False
  moreover have "sum_EvidenceCount (rep_Summary r) = int (length (rep_Evidence r))"
    using r(1) by (simp add: report_consistent_def)
  ultimately show ?thesis by (simp add: report_consistent_def grown_def)
next
  case True
  define q where "q = grown r [] reg m a"
  have "known_evidence r \<subseteq> known_evidence q" using r(2) by (auto simp: known_evidence_def q_def grown_def)
  then have "\<forall>d \<in> set (rep_Devices r). device_consistent (known_evidence q) d"
    "\<forall>e \<in> set (rep_Edges r). edge_consistent (dev_ID ` set (rep_Devices r)) (known_evidence q) e"
    using r(1) device_consistent_mono edge_consistent_mono by (force simp: report_consistent_def)+
  moreover have "rep_Devices q = rep_Devices r" "rep_Edges q = rep_Edges r" "rep_Evidence q = rep_Evidence r"
    "rep_Summary q = rep_Summary r" "rep_SchemaVersion q = rep_SchemaVersion r" "rep_Topology q = Some (v2_view m)"
    "rep_EvidenceRegistry q = map EvidenceRegistryItem.truncate reg"
    by (simp_all add: q_def grown_def)
  moreover have "map EvidenceRegistryItem.reg_ID (map EvidenceRegistryItem.truncate reg) = map reg_ID reg" by simp
  ultimately have "report_consistent q"
    using r(1) m reg by (simp add: report_consistent_def del: map_map)
  then show ?thesis using True by (simp add: q_def)
qed

section \<open>The evidence of the upstream phase\<close>

lemma add_ev_nonempty [simp]: "add_ev now ip kind data evs \<noteq> []"
  by (simp add: add_ev_def)

lemma http_step_nonempty:
  "http_step lower_text net now ip port acc = Some acc' \<Longrightarrow> snd acc \<noteq> [] \<Longrightarrow> snd acc' \<noteq> []"
proof -
  assume "http_step lower_text net now ip port acc = Some acc'" and ne: "snd acc \<noteq> []"
  then obtain z where z: "http_step lower_text net now ip port acc = Some acc'"
    "httpFingerprint lower_text net ip port (if port = 443 \<or> port = 8443 then ''https'' else ''http'') = Some z"
    unfolding http_step_def Let_def by (auto simp: map_option_eq_Some)
  show "snd acc' \<noteq> []"
    using z(1) ne unfolding http_step_def Let_def z(2) by (cases z) auto
qed

lemma http_fold_nonempty:
  "fold (\<lambda>port acc. Option.bind acc (http_step lower_text net now ip port)) ports (Some acc) = Some acc' \<Longrightarrow>
   snd acc \<noteq> [] \<Longrightarrow> snd acc' \<noteq> []"
proof (induction ports arbitrary: acc)
  case (Cons port ports)
  have none: "fold (\<lambda>port acc. Option.bind acc (http_step lower_text net now ip port)) ps None = None" for ps
    by (induction ps) simp_all
  from Cons.prems(1) obtain acc1 where "http_step lower_text net now ip port acc = Some acc1"
    by (cases "http_step lower_text net now ip port acc") (simp_all add: none)
  then show ?case using Cons http_step_nonempty by simp
qed simp

lemma tls_fold_nonempty: "snd acc \<noteq> [] \<Longrightarrow> snd (fold (tls_step net now ip) ports acc) \<noteq> []"
  by (induction ports arbitrary: acc) (simp_all add: tls_step_def Let_def split: option.split)

lemma probe_evidence:
  assumes "probe_target lower_text net True now same ip = Some (reach, warnings, ports, vendor, evs)"
  shows "evs \<noteq> []"
proof -
  define r0 where "r0 = \<lparr>dr_ICMP = False, dr_TCPReachable = False, dr_AvgLatencyMs = None, dr_MinLatencyMs = None,
      dr_MaxLatencyMs = None, dr_PacketLoss = None, dr_TTL = None, dr_HopDistance = None,
      dr_DirectlyReachable = same, dr_Method = ''none'', dr_Note = []\<rparr>"
  obtain r1 ws e1 where p: "ping_step net True now ip r0 = (r1, ws, e1)" by (meson prod_cases3)
  have "e1 \<noteq> []" using p by (auto simp: ping_step_def Let_def split: prod.splits if_splits)
  obtain opened best where s: "sweep_ports net ip safeUpstreamPorts ([], None) = (opened, best)" by fastforce
  define ps where "ps = sort_by (<) opened"
  obtain r2 e2 where t: "tcp_step now ip ps best r1 e1 = (r2, e2)" by fastforce
  have e2: "e2 \<noteq> []" using t \<open>e1 \<noteq> []\<close> by (auto simp: tcp_step_def Let_def split: if_splits)
  from assms obtain acc where
    h: "fold (\<lambda>port acc. Option.bind acc (http_step lower_text net now ip port))
          (filter (\<lambda>port. port \<in> set ps) [80, 8080, 443, 8443]) (Some (no_vendor, e2)) = Some acc"
    and evs: "evs = snd (fold (tls_step net now ip) (filter (\<lambda>port. port \<in> set ps) [443, 8443]) acc)"
    unfolding probe_target_def Let_def r0_def [symmetric] p s prod.case t ps_def [symmetric]
    by (auto split: prod.splits)
  have "snd acc \<noteq> []" by (rule http_fold_nonempty [OF h]) (simp add: e2)
  then show ?thesis unfolding evs by (rule tls_fold_nonempty)
qed

lemma enrichOne_evidence: "enrichOne lower_text net True now subnet t = Some r \<Longrightarrow> ir_Evidence r \<noteq> []"
  by (auto simp: enrichOne_def Let_def dest!: probe_evidence)

lemma enrich_all_ips: "enrich_all one ts = Some results \<Longrightarrow> map fst results = map ut_ip ts"
  by (induction ts arbitrary: results) (auto simp: bind_eq_Some_conv)

text \<open>The phase adds evidence exactly when it has a target.\<close>

lemma phase_evidence:
  assumes "EnrichReport lower_text net True clock report av = Some results" and "set (order results) = set results"
  shows "concat (map (\<lambda>(ip, r). ir_Evidence r) (order results)) = [] \<longleftrightarrow> collectTargets report av = []"
proof -
  have "ir_Evidence r \<noteq> []" if "(ip, r) \<in> set results" for ip r
    using enrich_all_result [OF assms(1) [unfolded EnrichReport_def] that] enrichOne_evidence by blast
  then have "concat (map (\<lambda>(ip, r). ir_Evidence r) (order results)) = [] \<longleftrightarrow> results = []"
    using assms(2) by (cases results) (auto simp: concat_eq_Nil_conv)
  also have "results = [] \<longleftrightarrow> collectTargets report av = []"
    using arg_cong [OF enrich_all_ips [OF assms(1) [unfolded EnrichReport_def]], of length] by auto
  finally show ?thesis .
qed

section \<open>No panic\<close>

lemma http_step_total:
  assumes "\<And>s. length (lower_text s) = length s"
  shows "http_step lower_text net now ip port acc \<noteq> None"
proof -
  define title realm where "title = (\<lambda>b. the (up_htmlTitle lower_text b))"
    and "realm = (\<lambda>h. the (up_authRealm lower_text h))"
  have "up_htmlTitle lower_text b = Some (title b)" "up_authRealm lower_text h = Some (realm h)" for b h
    using htmlTitle_total [of lower_text b] authRealm_total [of lower_text h] assms
    by (simp_all add: up_htmlTitle_def up_authRealm_def title_def realm_def)
  then have "httpFingerprint lower_text net ip port scheme \<noteq> None" for scheme
    by (simp add: httpFingerprint_def Let_def split: sum.split)
  then show ?thesis by (simp add: http_step_def Let_def)
qed

lemma EnrichReport_total:
  assumes "\<And>s. length (lower_text s) = length s"
  shows "EnrichReport lower_text net p clock report av \<noteq> None"
proof -
  have "probe_target lower_text net p now same ip \<noteq> None" for now same ip
    using fold_bind_total [where f = "http_step lower_text net now ip", OF http_step_total [OF assms]]
    by (simp add: probe_target_def Let_def case_prod_beta)
  then have one: "enrichOne lower_text net p now subnet t \<noteq> None" for now subnet t
    by (simp add: enrichOne_def Let_def)
  have "enrich_all f ts \<noteq> None" if "\<And>t. f t \<noteq> None" for f ts
  proof (induction ts)
    case (Cons t ts)
    then show ?case using that [of t] by (auto simp: bind_eq_None_conv)
  qed simp
  then show ?thesis using one by (simp add: EnrichReport_def)
qed

lemma finish_scan_total:
  assumes "\<And>s. length (scw_Lower w s) = length s"
  shows "\<exists>r. finish_scan w f report ac = Some r"
proof -
  obtain report1 results where p: "upstream_phase w f report (map_option access_view ac) = Some (report1, results)"
    using EnrichReport_total [OF assms, of "scw_Network w" True "scw_ProbeClock w" report "map_option access_view ac"]
    by (fastforce simp: upstream_phase_def)
  show ?thesis using enrichReport_total by (simp add: finish_scan_def Let_def p)
qed

section \<open>The written report\<close>

lemma distinct_str_sorted: "sorted_wrt str_less xs \<Longrightarrow> distinct xs"
  by (induction xs) (auto dest: str_less_asym)

lemma enrichReport_view:
  assumes "enrichReport now v opts report ac (Some intel) = Some r"
  obtains reg a where
    "buildEvidenceRegistry (rep_Evidence report) (dir_Evidence (is_Report intel)) (accessProbeResults ac) v = Some reg"
    "same_report (report\<lparr>rep_Agent := a, rep_EvidenceRegistry := map EvidenceRegistryItem.truncate reg,
       rep_Topology := Some (v2_view (BuildTopologyV2 (BuildRichTopology now report (is_Devices intel)
         (dir_Edges (is_Report intel)) (buildReportCapabilities True ac opts))))\<rparr>) (report_view r)"
proof -
  define caps where "caps = buildReportCapabilities True ac opts"
  define rich where "rich = BuildRichTopology now report (is_Devices intel) (dir_Edges (is_Report intel)) caps"
  define whole where "whole = (\<lambda>reg. 
      \<lparr>fr_Scan = report\<lparr>rep_Agent := (rep_Agent report)\<lparr>agi_Interfaces := []\<rparr>\<rparr>,
       fr_Interfaces = enrichInterfaceIdentity (agi_Interfaces (rep_Agent report)), fr_Access = ac, fr_Intel = Some intel,
       fr_Capabilities = caps, fr_AgentCapabilities = caps,
       fr_InterfaceSelection = buildInterfaceSelection (agi_Gateway (rep_Agent report))
         (enrichInterfaceIdentity (agi_Interfaces (rep_Agent report))) opts,
       fr_ProbeInventory = buildProbeInventory report (accessProbeResults ac) opts,
       fr_EvidenceRegistry = reg, fr_RichTopology = rich, fr_Topology = BuildTopologyV2 rich,
       fr_Wireless = BuildWirelessMetadata rich, fr_RawObservations = BuildRawObservations report,
       fr_UI = buildReportUI report reg (Some intel) ac, fr_RedactionMode = reo_RedactionMode opts,
       fr_Privacy = \<lparr>prv_MaskPublicIP = reo_MaskPublicIP opts, prv_MaskMAC = reo_MaskMAC opts,
         prv_MaskHostnames = reo_MaskHostnames opts\<rparr>,
       fr_SafeToShare = \<lparr>ssr_Enabled = reo_RedactionMode opts = ''safe_to_share'' \<or> reo_MaskPublicIP opts \<or>
           reo_MaskMAC opts \<or> reo_MaskHostnames opts, ssr_Mode = reo_RedactionMode opts,
         ssr_Applied = \<lparr>prv_MaskPublicIP = reo_MaskPublicIP opts, prv_MaskMAC = reo_MaskMAC opts,
           prv_MaskHostnames = reo_MaskHostnames opts\<rparr>, ssr_Notes = share_notes\<rparr>\<rparr>)"
  obtain reg where
    reg: "buildEvidenceRegistry (rep_Evidence report) (dir_Evidence (is_Report intel)) (accessProbeResults ac) v = Some reg"
    and "r = whole reg \<or> r = applyReportRedaction (whole reg)"
    using assms unfolding enrichReport_def Let_def option.case map_option_eq_Some simp_thms
      caps_def [symmetric] rich_def [symmetric]
    by (auto simp: whole_def caps_def rich_def split: if_splits)
  define q where "q = whole reg"
  have r: "r = q \<or> r = applyReportRedaction q" unfolding q_def by fact
  have q: "fr_Scan q = report\<lparr>rep_Agent := (rep_Agent report)\<lparr>agi_Interfaces := []\<rparr>\<rparr>" "fr_EvidenceRegistry q = reg"
      "fr_Topology q = BuildTopologyV2 rich"
    by (simp_all add: q_def whole_def)
  have "report_view q = report\<lparr>rep_Agent := (rep_Agent report)\<lparr>agi_Interfaces := []\<rparr>,
      rep_EvidenceRegistry := map EvidenceRegistryItem.truncate reg,
      rep_Topology := Some (v2_view (BuildTopologyV2 (BuildRichTopology now report (is_Devices intel)
         (dir_Edges (is_Report intel)) (buildReportCapabilities True ac opts))))\<rparr>"
    by (simp add: report_view_def q rich_def caps_def)
  moreover have "same_report (report_view q) (report_view r)"
    using r redaction_same same_report_refl by blast
  ultimately show thesis using that [OF reg] by simp
qed

lemma finish_scan_valid:
  assumes scan: "finish_scan w f report None = Some r"
    and report: "report_consistent report" "rep_EvidenceRegistry report = []"
    and order: "\<And>xs. set (scw_Order w xs) = set xs"
  shows "report_consistent (report_view r) \<longleftrightarrow> \<not> sfl_EnrichUpstream f \<or> collectTargets report None = []"
proof -
  from scan obtain report1 results where up: "upstream_phase w f report None = Some (report1, results)"
    and en: "enrichReport (scw_Now w) (scw_Reflect w report1 None (Some (intel_section w report1 None results)))
      (enrichment_options w f) report1 None (Some (intel_section w report1 None results)) = Some r"
    by (auto simp: finish_scan_def Let_def bind_eq_Some_conv)
  define extra where "extra = (if sfl_EnrichUpstream f
      then concat (map (\<lambda>(ip, r). ir_Evidence r) (scw_Order w results)) else [])"
  have r1: "report1 = report\<lparr>rep_Evidence := rep_Evidence report @ extra\<rparr>"
    using up by (auto simp: upstream_phase_def extra_def split: if_splits)
  have extra: "extra = [] \<longleftrightarrow> \<not> sfl_EnrichUpstream f \<or> collectTargets report None = []"
  proof (cases "sfl_EnrichUpstream f")
    case True
    then have "EnrichReport (scw_Lower w) (scw_Network w) True (scw_ProbeClock w) report None = Some results"
      using up by (auto simp: upstream_phase_def)
    from phase_evidence [where order = "scw_Order w", OF this order] True show ?thesis unfolding extra_def by (simp only: if_True simp_thms)
  qed (simp add: extra_def)
  have unit: "\<forall>(ip, r) \<in> set results. in_unit (uc_Confidence (ir_Classification r))"
    using up enrich_all_result enrichOne_unit unfolding upstream_phase_def EnrichReport_def
    by (fastforce split: if_splits)
  define intel where "intel = intel_section w report1 None results"
  define m where "m = BuildTopologyV2 (BuildRichTopology (scw_Now w) report1 (is_Devices intel)
      (dir_Edges (is_Report intel)) (buildReportCapabilities True None (enrichment_options w f)))"
  have m: "v2_consistent (v2_view m)"
    unfolding m_def check_v2_Nil [symmetric]
  proof (rule v2_valid)
    show "\<forall>d \<in> set (rep_Devices report1). in_unit (dev_Confidence d) \<and> dev_ID d \<noteq> []"
      using report(1) by (auto simp: r1 report_consistent_def device_consistent_def)
    show "\<forall>e \<in> set (rep_Edges report1). edge_consistent (dev_ID ` set (rep_Devices report1)) (known_evidence report) e"
      using report(1) by (simp add: r1 report_consistent_def)
    show "\<forall>d \<in> set (is_Devices intel). in_unit (did_Confidence d)"
      unfolding intel_def by (rule section_unit) (rule unit)
    show "set (dir_Edges (is_Report intel)) \<subseteq> convert_edge ` set (rep_Edges report1)"
      using Build_edges_root by (simp add: intel_def intel_section_def Let_def)
  qed
  from en obtain reg a where
    reg: "buildEvidenceRegistry (rep_Evidence report1) (dir_Evidence (is_Report intel)) (accessProbeResults None)
      (scw_Reflect w report1 None (Some intel)) = Some reg"
    and same: "same_report (report1\<lparr>rep_Agent := a, rep_EvidenceRegistry := map EvidenceRegistryItem.truncate reg,
       rep_Topology := Some (v2_view m)\<rparr>) (report_view r)"
    unfolding intel_def [symmetric] m_def by (rule enrichReport_view)
  have exact: "registry_exact_for (rep_Evidence report1) (dir_Evidence (is_Report intel)) (accessProbeResults None)
      (scw_Reflect w report1 None (Some intel)) reg"
    using registry_shape [of "dir_Evidence (is_Report intel)" "rep_Evidence report1" "accessProbeResults None"
        "scw_Reflect w report1 None (Some intel)"] reg by (simp split: if_splits)
  then have "distinct (map reg_ID reg)" unfolding registry_exact_for_def
    by (metis distinct_str_sorted)
  moreover have "\<forall>x \<in> set reg. reg_ID x \<noteq> [] \<and> reg_Source x \<noteq> [] \<and> reg_Kind x \<noteq> []"
    using exact by (auto simp: registry_exact_for_def)
  ultimately have "report_consistent (grown report extra reg m a) \<longleftrightarrow> extra = []"
    by (rule grown_consistent [OF report m])
  moreover have "grown report extra reg m a = report1\<lparr>rep_Agent := a,
      rep_EvidenceRegistry := map EvidenceRegistryItem.truncate reg, rep_Topology := Some (v2_view m)\<rparr>"
    by (simp add: grown_def r1)
  ultimately show ?thesis using same_report_consistent [OF same] extra by simp
qed

lemma nmap_bare: "bare_scanner (scan_options w f)"
  by (auto simp: bare_scanner_def scan_options_def ServiceScanner_Scan_def MapHosts_def map_host_def map_port_def
      split: option.split)

text \<open>
  C3: The report the \<open>scan\<close> command writes without an access classification passes the agent's own
  \<open>validate\<close> exactly when the upstream phase is switched off or finds no private gateway to probe. The
  phase, which is on by default, appends its evidence to the report after the summary has counted it.
\<close>

theorem scan_validates_iff:
  assumes "runScan w f = Inr r" and "Run (scw_Environment w (sfl_Timeout f)) (scan_options w f) = Inr report"
    and "\<not> sfl_Full f" and "\<not> sfl_Classify f" and "\<And>xs. set (scw_Order w xs) = set xs"
  shows "ValidateReport (report_view r) = [] \<longleftrightarrow> \<not> sfl_EnrichUpstream f \<or> collectTargets report None = []"
proof -
  define report1 where "report1 = (if sfl_Nmap f \<and> \<not> nmap_wanted w f
      then report\<lparr>rep_Warnings := rep_Warnings report @ [nmapUnavailableWarning (sfl_NmapBin f)]\<rparr> else report)"
  have scan: "finish_scan w f report1 None = Some r"
    using assms(1) unfolding runScan_def Let_def report1_def
    by (simp add: assms(2-4) split: if_split_asm option.split_asm) blast
  have "ValidateReport report = []" using run_valid [OF assms(2) nmap_bare] by blast
  then have "report_consistent report1" by (simp add: validate_iff report1_def report_consistent_def known_evidence_def)
  moreover have "rep_EvidenceRegistry report = []" using assms(2) by (cases rule: RunE) simp
  then have "rep_EvidenceRegistry report1 = []" by (simp add: report1_def)
  moreover have "collectTargets report1 None = collectTargets report None"
    by (simp add: report1_def collectTargets_def ssdpTargets_def)
  ultimately show ?thesis using finish_scan_valid [OF scan _ _ assms(5)] by (simp add: validate_iff)
qed

text \<open>
  C4: As long as lowering a text keeps its length, a \<open>scan\<close>, whatever the network, the system and the access
  scan answer, panics in exactly one case: the profile is known, the topology scan accepts an interface and
  a scope, and for some address of that scope the last host Nmap reported has an open port of seven or more
  digits (or a million open ports). \<open>itoa\<close> writes a number into six bytes, and the parser of Nmap's document does
  not bound the ports. Nothing after the topology scan panics: in particular every observation of the device
  intelligence has raw data to merge into, so the registry of the report is always built.
\<close>

theorem scan_panics_exactly:
  assumes "\<And>s. length (scw_Lower w s) = length s"
  shows "runScan w f = Inl Panicked \<longleftrightarrow>
    (let g = (if sfl_Full f then applyFullScanDefaults f else f)
     in KnownProfile (sfl_Profile g) \<and>
        (case accepted_scope (scw_Environment w (sfl_Timeout g)) (scan_options w g) of
           None \<Rightarrow> False
         | Some scope \<Rightarrow> unprintable_host (scan_options w g) scope))"
proof -
  have total: "(case finish_scan w f report ac of None \<Rightarrow> Inl Panicked | Some r \<Rightarrow> Inr r) \<noteq> Inl Panicked" for f report ac
  proof -
    obtain r where "finish_scan w f report ac = Some r" using finish_scan_total [of w f report ac] assms by blast
    then show ?thesis by simp
  qed
  define g where "g = (if sfl_Full f then applyFullScanDefaults f else f)"
  have "(case ac of None \<Rightarrow> Inl Classification_Failed
        | Some ac \<Rightarrow> (case finish_scan w g report ac of None \<Rightarrow> Inl Panicked | Some r \<Rightarrow> Inr r)) \<noteq> Inl Panicked" for report ac
    using total by (cases ac) simp_all
  then have "runScan w f = Inl Panicked \<longleftrightarrow> KnownProfile (sfl_Profile g) \<and>
      Run (scw_Environment w (sfl_Timeout g)) (scan_options w g) = Inl Run_Panicked"
    unfolding runScan_def Let_def g_def [symmetric]
    by (cases "Run (scw_Environment w (sfl_Timeout g)) (scan_options w g)") simp_all
  moreover have "opt_Sweeper (scan_options w g) = None" by (simp add: scan_options_def)
  ultimately show ?thesis unfolding Let_def g_def [symmetric] by (simp only: Run_panics)
qed

section \<open>A scan\<close>

text \<open>A computer behind a private router that answers nothing.\<close>

definition example_network :: UpNet where
  "example_network =
     \<lparr>un_goos = ''linux'', un_ping = (\<lambda>_. ([], Some ''timeout'')), un_connect = (\<lambda>_ _. None),
      un_send = (\<lambda>_ _ _. Inl ''refused''), un_tls = (\<lambda>_ _. None)\<rparr>"

definition example_world :: ScanWorld where
  "example_world =
     \<lparr>scw_Environment = (\<lambda>_. example_env), scw_Version = [], scw_Hostname = None, scw_OS = ''linux'',
      scw_Gateway = Some [192, 168, 1, 1], scw_DNS = [], scw_LookPath = (\<lambda>_. None), scw_RunNmap = (\<lambda>_ _. None),
      scw_Unmarshal = (\<lambda>_. None), scw_Classification = (\<lambda>_. None), scw_Lower = (\<lambda>s. s),
      scw_Network = example_network, scw_ProbeClock = (\<lambda>_. 0), scw_Order = (\<lambda>xs. xs), scw_IntelNow = int,
      scw_IntelClock = (\<lambda>_. 0), scw_Now = 0, scw_Reflect = (\<lambda>_ _ _. G_ref None)\<rparr>"

definition example_flags :: ScanFlags where
  "example_flags =
     \<lparr>sfl_CIDR = '' AUTO '', sfl_Profile = ''quick'', sfl_Interface = ''eth0'', sfl_IncludeVirtual = False,
      sfl_Classify = False, sfl_Nmap = False, sfl_NmapBin = [], sfl_Full = False, sfl_RedactionMode = ''none'',
      sfl_MaskPublicIP = False, sfl_MaskMAC = False, sfl_MaskHostnames = False, sfl_AllowPublic = False,
      sfl_Timeout = 30 * second, sfl_EnrichUpstream = True, sfl_ProfileSet = False, sfl_TimeoutSet = False\<rparr>"

lemma example_choices:
  fixes w :: ScanWorld and b :: bool
  defines "opts \<equiv> scan_options w (example_flags\<lparr>sfl_Nmap := b\<rparr>)"
  shows "choose_interface opts = choose_interface example_opts" "opt_RequestedCIDR opts = opt_RequestedCIDR example_opts"
    "opt_Profile opts = opt_Profile example_opts" "opt_AllowPublic opts = opt_AllowPublic example_opts"
  by (simp_all add: fun_eq_iff choose_interface_def opts_def scan_options_def example_opts_def example_flags_def
      split: option.split)

lemma example_scan_run:
  obtains report where "Run (scw_Environment example_world (sfl_Timeout example_flags))
      (scan_options example_world example_flags) = Inr report" and "agi_Gateway (rep_Agent report) = ''192.168.1.1''"
proof -
  define opts where "opts = scan_options example_world example_flags"
  have "example_flags\<lparr>sfl_Nmap := False\<rparr> = example_flags" by (simp add: example_flags_def)
  note choices = example_choices [where w = example_world and b = False, unfolded this, folded opts_def]
  obtain report where r: "Run example_env opts = Inr report"
    using example_runs(2) [OF choices]
    by (auto simp: opts_def scan_options_def nmap_wanted_def example_flags_def)
  have "gateway_ip opts = ''192.168.1.1''"
    by (simp add: gateway_ip_def gateway_def opts_def scan_options_def example_world_def) code_simp
  with r have "agi_Gateway (rep_Agent report) = ''192.168.1.1''" by (cases rule: RunE) simp
  with r show thesis by (intro that) (simp_all add: example_world_def opts_def)
qed

lemma example_target: "agi_Gateway (rep_Agent report) = ''192.168.1.1'' \<Longrightarrow> collectTargets report None \<noteq> []"
proof -
  assume gw: "agi_Gateway (rep_Agent report) = ''192.168.1.1''"
  obtain seen where c: "collectTargets report None = sort_by (\<lambda>a b. str_less (ut_ip a) (ut_ip b)) (map snd seen)"
    and keys: "fst ` set seen = target_ips (named_ips report None)"
    using all_targets by blast
  have "trim_space ''192.168.1.1'' = ''192.168.1.1''" "IsPrivateIPString ''192.168.1.1''" by code_simp+
  then have "''192.168.1.1'' \<in> target_ips (named_ips report None)"
    using gw by (force simp: target_ips_def named_ips_def)
  then have "set seen \<noteq> {}" using keys by fastforce
  then show "collectTargets report None \<noteq> []" unfolding c by (metis length_0_conv length_map length_sort_by list.set(1))
qed

lemma example_lower: "length (scw_Lower example_world s) = length s"
  by (simp add: example_world_def)

lemma example_order: "set (scw_Order example_world xs) = set xs"
  by (simp add: example_world_def)

text \<open>The scan of a private gateway is refused by the validator of the program that wrote it.\<close>

theorem scan_validates_iff_witness:
  "\<exists>r. runScan example_world example_flags = Inr r \<and> ValidateReport (report_view r) \<noteq> []"
proof -
  obtain report where run: "Run (scw_Environment example_world (sfl_Timeout example_flags))
      (scan_options example_world example_flags) = Inr report" and gw: "agi_Gateway (rep_Agent report) = ''192.168.1.1''"
    by (rule example_scan_run)
  obtain r where "finish_scan example_world example_flags report None = Some r"
    using finish_scan_total [OF example_lower] by blast
  then have scan: "runScan example_world example_flags = Inr r"
    using run by (simp add: runScan_def Let_def example_flags_def KnownProfile_def ProfileQuick_def)
  have "\<not> sfl_Full example_flags" "\<not> sfl_Classify example_flags" "sfl_EnrichUpstream example_flags"
    by (simp_all add: example_flags_def)
  then have "ValidateReport (report_view r) \<noteq> []"
    using scan_validates_iff [OF scan run _ _ example_order] example_target [OF gw] by simp
  with scan show ?thesis by blast
qed

text \<open>The same scan where Nmap, asked for, reports the open port 1000000 on the gateway.\<close>

definition nmap_world :: ScanWorld where
  "nmap_world = example_world
     \<lparr>scw_LookPath := (\<lambda>_. Some ''/usr/bin/nmap''), scw_RunNmap := (\<lambda>_ _. Some ''xml''),
      scw_Unmarshal := (\<lambda>_. Some
        [\<lparr>xh_Status = ''up'',
          xh_Addresses = [\<lparr>xa_Addr = ''192.168.1.1'', xa_AddrType = ''ipv4'', xa_Vendor = []\<rparr>], xh_Hostnames = [],
          xh_Ports = [\<lparr>xp_Protocol = ''tcp'', xp_PortID = ''1000000'', xp_State = ''open'',
                       xp_Service = \<lparr>xs_Name = [], xs_Product = [], xs_Version = []\<rparr>\<rparr>]\<rparr>])\<rparr>"

lemma example_atoi: "atoi ''1000000'' = Some 1000000"
  by (simp add: atoi_def Let_def is_digit_def digit_val_def byte_of_def)

lemma example_gateway_in: "InScope example_scope ''192.168.1.1''"
proof -
  have "parse_ip ''192.168.1.1'' = Some (v4_in_v6 @ [192, 168, 1, 1])"
    "net_contains \<lparr>net_addr = [192, 168, 1, 0], net_ones = 30\<rparr> (v4_in_v6 @ [192, 168, 1, 1])"
    by code_simp+
  then show ?thesis by (simp add: InScope_def example_scope_def example_network)
qed

theorem scan_panics_exactly_witness: "runScan nmap_world (example_flags\<lparr>sfl_Nmap := True\<rparr>) = Inl Panicked"
proof -
  define f where "f = example_flags\<lparr>sfl_Nmap := True\<rparr>"
  define opts where "opts = scan_options nmap_world f"
  define h where "h = \<lparr>sh_IP = ''192.168.1.1'', sh_MAC = [], sh_Hostname = [],
      sh_Services = [\<lparr>svc_Port = 1000000, svc_Protocol = ''tcp'', svc_State = ''open'', svc_Name = [],
        svc_Product = [], svc_EvidenceIDs = []\<rparr>]\<rparr>"
  have "nmap_Parse (scw_Unmarshal nmap_world) xml = Some [\<lparr>nmh_IP = ''192.168.1.1'', nmh_MAC = [], nmh_Vendor = [],
      nmh_Hostname = [], nmh_Ports = [\<lparr>npt_ID = 1000000, npt_Protocol = ''tcp'', npt_Service = [], npt_Product = [],
        npt_Version = []\<rparr>]\<rparr>]" for xml
    by (simp add: nmap_Parse_def nmap_world_def parse_host_def add_xml_address_def parse_port_def example_atoi
        List.map_filter_def)
  then have "opt_Service opts = Some (True, \<lambda>scope. Some [h])"
    by (simp add: opts_def scan_options_def nmap_wanted_def nmap_Available_def nmap_lookup_def f_def fun_eq_iff
        ServiceScanner_Scan_def Runner_Scan_def nmap_world_def MapHosts_def map_host_def map_port_def h_def)
  moreover have "InScope example_scope (sh_IP h)" by (simp add: h_def example_gateway_in)
  ultimately have "scanned_hosts opts example_scope = [h]" by (simp add: scanned_hosts_def)
  then have "unprintable_host opts example_scope"
    by (simp add: unprintable_host_def last_with_def oversized_def h_def)
  moreover have "accepted_scope example_env opts = Some example_scope"
    unfolding opts_def f_def by (rule example_runs(1)) (rule example_choices)+
  moreover have "\<not> sfl_Full f" "KnownProfile (sfl_Profile f)"
    by (simp_all add: f_def example_flags_def KnownProfile_def ProfileQuick_def)
  moreover have "scw_Environment nmap_world t = example_env" for t by (simp add: nmap_world_def example_world_def)
  moreover have "length (scw_Lower nmap_world s) = length s" for s by (simp add: nmap_world_def example_world_def)
  ultimately show ?thesis
    using scan_panics_exactly [of nmap_world f] unfolding f_def [symmetric] opts_def by simp
qed

end
